(* ===== verification/Prelude.thy ===== *)
theory Prelude
  imports Main "HOL-Library.Word"
begin

text \<open>
  The vocabulary every component shares: machine integers at their C++ widths, bytes and
  characters, exceptions as values and the two ways the code composes fallible steps.

  C++ exceptions become the left summand of \<open>'a result\<close>; every class that is thrown in the
  modelled files is a constructor of \<open>exn\<close> and carries the \<open>what()\<close> text. \<open>rbind\<close> is the
  sequencing of statements (a throw skips what follows), \<open>throw_if\<close> the guard
  \<open>if (cond) throw ...;\<close>. Stateful code, whose effects survive a throw, uses the state and
  exception transformer \<open>('s, 'a) action\<close> with \<open>sbind\<close>.
\<close>

section \<open>Machine integers, bytes and characters\<close>

type_synonym u8 = "8 word"
type_synonym u16 = "16 word"
type_synonym u32 = "32 word"
type_synonym u64 = "64 word"
type_synonym bytes = "u8 list"

named_theorems wire_simps \<open>running readers and writers over a known byte layout\<close>
named_theorems wire_run \<open>forward evaluation of readers and writers on valid values\<close>
named_theorems exn_simps \<open>when a fallible step returns normally\<close>
named_theorems valid_simps \<open>what the validators accept, spelled out\<close>

definition byte_of_char :: "char \<Rightarrow> u8" where
  "byte_of_char c = word_of_nat (of_char c)"

definition char_of_byte :: "u8 \<Rightarrow> char" where
  "char_of_byte b = char_of (unat b)"

lemma char_of_byte_of_char [simp]: "char_of_byte (byte_of_char c) = c"
  by (simp add: byte_of_char_def char_of_byte_def unsigned_of_nat take_bit_eq_mod)

lemma byte_of_char_of_byte [simp]: "byte_of_char (char_of_byte b) = b"
proof -
  have "unat b < 256"
    using unsigned_less [of b, where ?'a = nat] by simp
  then show ?thesis
    by (simp add: byte_of_char_def char_of_byte_def)
qed

lemma map_char_of_byte [simp]:
  "map char_of_byte (map byte_of_char s) = s" "map byte_of_char (map char_of_byte bs) = bs"
  by (simp_all add: comp_def)

lemma byte_of_char_inj [simp]: "byte_of_char c = byte_of_char d \<longleftrightarrow> c = d"
  by (metis char_of_byte_of_char)

lemma map_byte_of_char_inj [simp]: "map byte_of_char s = map byte_of_char t \<longleftrightarrow> s = t"
  by (metis map_char_of_byte(1))

section \<open>Exceptions as values\<close>

datatype exn =
    Invalid_argument string
  | Runtime_error string
  | Logic_error string
  | BenignRejection string
  | PersistenceFormatError string
  | ReceiptChainError string
  | Out_of_range string
  | JournalFormatError string
  | JournalTamperError string
  | JournalRollbackError string
  | HistoryFormatError string
  | HistoryAuthenticationError string
  | KeystoreFormatError string
  | KeystoreAuthenticationError string
  | KeystoreAlreadyExistsError string

type_synonym 'a result = "exn + 'a"

fun what :: "exn \<Rightarrow> string" where
  "what (Invalid_argument s) = s"
| "what (Runtime_error s) = s"
| "what (Logic_error s) = s"
| "what (BenignRejection s) = s"
| "what (PersistenceFormatError s) = s"
| "what (ReceiptChainError s) = s"
| "what (Out_of_range s) = s"
| "what (JournalFormatError s) = s"
| "what (JournalTamperError s) = s"
| "what (JournalRollbackError s) = s"
| "what (HistoryFormatError s) = s"
| "what (HistoryAuthenticationError s) = s"
| "what (KeystoreFormatError s) = s"
| "what (KeystoreAuthenticationError s) = s"
| "what (KeystoreAlreadyExistsError s) = s"

definition rbind :: "'a result \<Rightarrow> ('a \<Rightarrow> 'b result) \<Rightarrow> 'b result" where
  "rbind m f = (case m of Inl e \<Rightarrow> Inl e | Inr x \<Rightarrow> f x)"

definition throw_if :: "bool \<Rightarrow> exn \<Rightarrow> unit result" where
  "throw_if c e = (if c then Inl e else Inr ())"

lemma rbind_simps [simp]: "rbind (Inl e) f = Inl e" "rbind (Inr x) f = f x"
  by (simp_all add: rbind_def)

lemma rbind_eq_Inr [exn_simps]: "rbind m f = Inr y \<longleftrightarrow> (\<exists>x. m = Inr x \<and> f x = Inr y)"
  by (cases m) simp_all

lemma rbind_unit_eq_Inr [exn_simps]:
  "rbind (m :: unit result) f = Inr y \<longleftrightarrow> m = Inr () \<and> f () = Inr y"
  by (cases m) simp_all

lemma throw_if_simps [simp]: "throw_if True e = Inl e" "throw_if False e = Inr ()"
  by (simp_all add: throw_if_def)

lemma throw_if_eq_Inr [exn_simps]: "throw_if c e = Inr u \<longleftrightarrow> \<not> c"
  by (simp add: throw_if_def)

lemma throw_if_eq_Inl [exn_simps]: "throw_if c e = Inl e' \<longleftrightarrow> c \<and> e' = e"
  by (auto simp: throw_if_def)

lemma rbind_assoc: "rbind (rbind m f) g = rbind m (\<lambda>x. rbind (f x) g)"
  by (cases m) simp_all

text \<open>A loop that runs a fallible body over a list, stopping at the first throw.\<close>

primrec for_each :: "('a \<Rightarrow> unit result) \<Rightarrow> 'a list \<Rightarrow> unit result" where
  "for_each f [] = Inr ()"
| "for_each f (x # xs) = rbind (f x) (\<lambda>_. for_each f xs)"

lemma for_each_eq_Inr [exn_simps]: "for_each f xs = Inr u \<longleftrightarrow> (\<forall>x\<in>set xs. f x = Inr ())"
  by (induction xs) (auto simp: exn_simps)

section \<open>State that survives an exception\<close>

type_synonym ('s, 'a) action = "'s \<Rightarrow> 'a result \<times> 's"

definition sreturn :: "'a \<Rightarrow> ('s, 'a) action" where
  "sreturn x s = (Inr x, s)"

definition sthrow :: "exn \<Rightarrow> ('s, 'a) action" where
  "sthrow e s = (Inl e, s)"

definition slift :: "'a result \<Rightarrow> ('s, 'a) action" where
  "slift m s = (m, s)"

definition sget :: "('s \<Rightarrow> 'a) \<Rightarrow> ('s, 'a) action" where
  "sget f s = (Inr (f s), s)"

definition smodify :: "('s \<Rightarrow> 's) \<Rightarrow> ('s, unit) action" where
  "smodify f s = (Inr (), f s)"

definition sbind :: "('s, 'a) action \<Rightarrow> ('a \<Rightarrow> ('s, 'b) action) \<Rightarrow> ('s, 'b) action" where
  "sbind m f s = (case m s of (Inl e, s') \<Rightarrow> (Inl e, s') | (Inr x, s') \<Rightarrow> f x s')"

lemmas action_defs = sreturn_def sthrow_def slift_def sget_def smodify_def

lemma sbind_simps [simp]:
  "sbind (sreturn x) f = f x"
  "sbind (sthrow e) g = sthrow e"
  "sbind (sget h) f s = f (h s) s"
  "sbind (smodify k) f' s = f' () (k s)"
  by (auto simp: sbind_def action_defs)

lemma sbind_slift [simp]:
  "sbind (slift (Inl e)) f = sthrow e" "sbind (slift (Inr x)) f = f x"
  by (auto simp: sbind_def action_defs)

lemma sbind_slift_unit:
  "sbind (slift (throw_if c e)) f = (if c then sthrow e else f ())"
  by simp

lemma sbind_assoc: "sbind (sbind m f) g = sbind m (\<lambda>x. sbind (f x) g)"
  by (rule ext) (auto simp: sbind_def split: prod.splits sum.splits)

text \<open>
  Weakest preconditions of an action: \<open>wp m Q E\<close> holds where a normal return establishes \<open>Q\<close> and a
  throw establishes \<open>E\<close>. The equations below let the simplifier run through a handler body.
\<close>

definition wp :: "('s, 'a) action \<Rightarrow> ('a \<Rightarrow> 's \<Rightarrow> bool) \<Rightarrow> (exn \<Rightarrow> 's \<Rightarrow> bool) \<Rightarrow> 's \<Rightarrow> bool" where
  "wp m Q E s = (case m s of (Inr x, s') \<Rightarrow> Q x s' | (Inl e, s') \<Rightarrow> E e s')"

named_theorems wp_simps \<open>weakest preconditions of the primitive actions\<close>

lemma wp_primitive [wp_simps]:
  "wp (sreturn x) Q E s = Q x s"
  "wp (sthrow e) Q E s = E e s"
  "wp (slift r) Q E s = (case r of Inr x \<Rightarrow> Q x s | Inl e \<Rightarrow> E e s)"
  "wp (sget f) Q' E s = Q' (f s) s"
  "wp (smodify g) Q'' E s = Q'' () (g s)"
  by (simp_all add: wp_def action_defs split: sum.splits)

lemma wp_sbind [wp_simps]: "wp (sbind m f) Q E s = wp m (\<lambda>x. wp (f x) Q E) E s"
  by (auto simp: wp_def sbind_def split: prod.splits sum.splits)

lemma wp_mono:
  "wp m Q E s \<Longrightarrow> (\<And>x s'. Q x s' \<Longrightarrow> Q' x s') \<Longrightarrow> (\<And>e s'. E e s' \<Longrightarrow> E' e s') \<Longrightarrow> wp m Q' E' s"
  by (auto simp: wp_def split: prod.splits sum.splits)

text \<open>An action keeps a property of the state whether it returns or throws.\<close>

definition keeps :: "('s \<Rightarrow> bool) \<Rightarrow> ('s, 'a) action \<Rightarrow> bool" where
  "keeps I m \<longleftrightarrow> (\<forall>s. I s \<longrightarrow> I (snd (m s)))"

named_theorems keeps_intros \<open>actions that keep an invariant\<close>

lemma keeps_wp: "keeps I m \<Longrightarrow> I s \<Longrightarrow> wp m (\<lambda>_. I) (\<lambda>_. I) s"
  unfolding keeps_def wp_def by (cases "m s") (auto split: sum.splits)

lemma keepsI:
  assumes "\<And>s. I s \<Longrightarrow> wp m (\<lambda>_. I) (\<lambda>_. I) s"
  shows "keeps I m"
  unfolding keeps_def
proof (intro allI impI)
  fix s
  assume "I s"
  then have "wp m (\<lambda>_. I) (\<lambda>_. I) s"
    by (rule assms)
  then show "I (snd (m s))"
    by (cases "m s") (auto simp: wp_def split: sum.splits)
qed

lemma keeps_result: "keeps I m \<Longrightarrow> I s \<Longrightarrow> m s = (r, s') \<Longrightarrow> I s'"
  unfolding keeps_def by (metis snd_conv)

lemma keeps_basic [keeps_intros]:
  "keeps I (sreturn x)" "keeps I (sthrow e)" "keeps I (slift r)" "keeps I (sget f)"
  by (simp_all add: keeps_def action_defs)

lemma keeps_smodify: "(\<And>s. I s \<Longrightarrow> I (f s)) \<Longrightarrow> keeps I (smodify f)"
  by (simp add: keeps_def action_defs)

lemma keeps_sbind [keeps_intros]: "keeps I m \<Longrightarrow> (\<And>x. keeps I (f x)) \<Longrightarrow> keeps I (sbind m f)"
  by (rule keepsI) (auto simp: wp_sbind intro!: keeps_wp elim: wp_mono [OF keeps_wp])

lemma keeps_if: "(c \<Longrightarrow> keeps I a) \<Longrightarrow> (\<not> c \<Longrightarrow> keeps I b) \<Longrightarrow> keeps I (if c then a else b)"
  by simp

lemma keeps_option:
  "keeps I a \<Longrightarrow> (\<And>x. keeps I (f x)) \<Longrightarrow> keeps I (case c of None \<Rightarrow> a | Some x \<Rightarrow> f x)"
  by (cases c) simp_all

lemma keeps_options:
  "(\<And>x y. keeps I (f x y)) \<Longrightarrow> keeps I a \<Longrightarrow>
     keeps I (case (c, d) of (Some x, Some y) \<Rightarrow> f x y | _ \<Rightarrow> a)"
  by (cases c; cases d) simp_all

lemma keeps_prod: "(\<And>x y. keeps I (f x y)) \<Longrightarrow> keeps I (case p of (x, y) \<Rightarrow> f x y)"
  by (cases p) simp

text \<open>A fallible pure step, remembering that it succeeded.\<close>

lemma keeps_slift_bind:
  "(\<And>x. r = Inr x \<Longrightarrow> keeps I (f x)) \<Longrightarrow> keeps I (sbind (slift r) f)"
  by (cases r) (simp_all add: keeps_intros)

text \<open>When an action returns normally, step by step.\<close>

named_theorems returns_simps \<open>normal returns of actions\<close>

lemma sbind_returns [returns_simps]:
  "sbind m f s = (Inr y, s') \<longleftrightarrow> (\<exists>x s1. m s = (Inr x, s1) \<and> f x s1 = (Inr y, s'))"
  by (auto simp: sbind_def split: prod.splits sum.splits)

lemma action_returns [returns_simps]:
  "slift r s = (Inr x, s') \<longleftrightarrow> r = Inr x \<and> s' = s"
  "sreturn z s = (Inr x, s') \<longleftrightarrow> x = z \<and> s' = s"
  "sthrow e s = (Inr x, s') \<longleftrightarrow> False"
  "sget f s = (Inr x', s') \<longleftrightarrow> x' = f s \<and> s' = s"
  "smodify g s = (Inr u, s') \<longleftrightarrow> s' = g s"
  by (auto simp: action_defs)

end
