(* ===== verification/Wire.thy ===== *)
theory Wire
  imports Prelude
begin

unbundle bit_operations_syntax

text \<open>
  The binary \<open>Writer\<close> and \<open>Reader\<close> classes of \<open>src/src/protocol.cpp\<close> (lines 14--155). Other
  files of the program carry textual copies of them that differ only in the exception a short
  input raises, so the reading primitives take that exception as a parameter.

  A writer is the byte vector \<open>out_\<close>; a writing step appends to it or throws. A reader is the
  pair of \<open>input_\<close> and \<open>position_\<close>. The interface of a field codec, \<open>codec\<close>, states that reading
  accepts exactly what writing a valid value produces, consumes exactly that and leaves the rest;
  every primitive is an interpretation of it, and sequences of fields inherit the law.
\<close>

section \<open>Writer\<close>

type_synonym writer = bytes
type_synonym write_step = "writer \<Rightarrow> writer result"

definition put_u8 :: "u8 \<Rightarrow> bytes" where
  "put_u8 v = [v]"

definition put_u16 :: "u16 \<Rightarrow> bytes" where
  "put_u16 v = [ucast (drop_bit 8 v AND 0xff), ucast (v AND 0xff)]"

definition put_u32 :: "u32 \<Rightarrow> bytes" where
  "put_u32 v = map (\<lambda>shift. ucast (drop_bit shift v AND 0xff)) [24, 16, 8, 0]"

definition put_u64 :: "u64 \<Rightarrow> bytes" where
  "put_u64 v = map (\<lambda>shift. ucast (drop_bit shift v AND 0xff)) [56, 48, 40, 32, 24, 16, 8, 0]"

definition put_string :: "string \<Rightarrow> bytes" where
  "put_string s = put_u16 (of_nat (length s)) @ map byte_of_char s"

definition put_bytes_u32 :: "bytes \<Rightarrow> bytes" where
  "put_bytes_u32 bs = put_u32 (of_nat (length bs)) @ bs"

definition put_bytes :: "bytes \<Rightarrow> bytes" where
  "put_bytes bs = put_u16 (of_nat (length bs)) @ bs"

definition writer_u8 :: "u8 \<Rightarrow> write_step" where
  "writer_u8 v w = Inr (w @ put_u8 v)"

definition writer_u16 :: "u16 \<Rightarrow> write_step" where
  "writer_u16 v w = Inr (w @ put_u16 v)"

definition writer_u32 :: "u32 \<Rightarrow> write_step" where
  "writer_u32 v w = Inr (w @ put_u32 v)"

definition writer_u64 :: "u64 \<Rightarrow> write_step" where
  "writer_u64 v w = Inr (w @ put_u64 v)"

definition writer_fixed_id :: "bytes \<Rightarrow> write_step" where
  "writer_fixed_id v w = Inr (w @ v)"

definition writer_short_string :: "exn \<Rightarrow> string \<Rightarrow> nat \<Rightarrow> write_step" where
  "writer_short_string too_long s maximum w =
     (if length s > maximum \<or> length s > 65535 then Inl too_long
      else rbind (writer_u16 (of_nat (length s)) w) (\<lambda>w. Inr (w @ map byte_of_char s)))"

definition writer_bytes :: "exn \<Rightarrow> bytes \<Rightarrow> nat \<Rightarrow> write_step" where
  "writer_bytes too_long v maximum w =
     (if length v > maximum \<or> length v > 65535 then Inl too_long
      else rbind (writer_u16 (of_nat (length v)) w) (\<lambda>w. Inr (w @ v)))"

text \<open>A validation statement between writes, and the statement sequence of a function body.\<close>

definition check :: "unit result \<Rightarrow> write_step" where
  "check v w = rbind v (\<lambda>_. Inr w)"

primrec steps :: "write_step list \<Rightarrow> write_step" where
  "steps [] w = Inr w"
| "steps (a # as) w = rbind (a w) (steps as)"

lemma steps_append: "steps (as @ bs) w = rbind (steps as w) (steps bs)"
proof (induction as arbitrary: w)
  case (Cons a as)
  then have "steps (as @ bs) = (\<lambda>x. rbind (steps as x) (steps bs))"
    by (intro ext)
  then show ?case
    by (simp add: rbind_assoc)
qed simp

text \<open>The statements of a \<open>for\<close> loop over a vector.\<close>

definition for_steps :: "('a \<Rightarrow> write_step list) \<Rightarrow> 'a list \<Rightarrow> write_step" where
  "for_steps f xs = steps (concat (map f xs))"

lemma for_steps_ok:
  assumes "\<And>x w w'. steps (f x) w = Inr w' \<longleftrightarrow> valid x \<and> w' = w @ put x"
  shows "for_steps f xs w = Inr w' \<longleftrightarrow> (\<forall>x\<in>set xs. valid x) \<and> w' = w @ concat (map put xs)"
proof (induction xs arbitrary: w)
  case (Cons x xs)
  show ?case
    using assms Cons.IH by (auto simp: for_steps_def steps_append exn_simps)
qed (auto simp: for_steps_def)

lemma writer_run [wire_simps]:
  "writer_u8 a w = Inr (w @ put_u8 a)"
  "writer_u16 b w = Inr (w @ put_u16 b)"
  "writer_u32 c w = Inr (w @ put_u32 c)"
  "writer_u64 d w = Inr (w @ put_u64 d)"
  "writer_fixed_id e w = Inr (w @ e)"
  by (simp_all add: writer_u8_def writer_u16_def writer_u32_def writer_u64_def writer_fixed_id_def)

lemma writer_short_string_eq_Inr [wire_simps]:
  "writer_short_string x s n w = Inr w' \<longleftrightarrow>
     length s \<le> n \<and> length s \<le> 65535 \<and> w' = w @ put_string s"
  by (auto simp: writer_short_string_def put_string_def writer_u16_def)

lemma writer_bytes_eq_Inr [wire_simps]:
  "writer_bytes x s n w = Inr w' \<longleftrightarrow>
     length s \<le> n \<and> length s \<le> 65535 \<and> w' = w @ put_bytes s"
  by (auto simp: writer_bytes_def put_bytes_def writer_u16_def)

lemma writer_forward [wire_run]:
  "length s \<le> n \<Longrightarrow> length s \<le> 65535 \<Longrightarrow> writer_short_string x s n w = Inr (w @ put_string s)"
  "length v \<le> n \<Longrightarrow> length v \<le> 65535 \<Longrightarrow> writer_bytes x v n w = Inr (w @ put_bytes v)"
  by (simp_all add: wire_simps)

lemma check_forward [wire_run]: "v = Inr () \<Longrightarrow> check v w = Inr w"
  by (simp add: check_def)

lemma check_eq_Inr [wire_simps]: "check v w = Inr w' \<longleftrightarrow> v = Inr () \<and> w' = w"
  by (auto simp: check_def exn_simps)

lemma steps_Cons_eq_Inr [wire_simps]:
  "steps [] w = Inr w' \<longleftrightarrow> w' = w"
  "steps (a # as) w = Inr w' \<longleftrightarrow> (\<exists>w1. a w = Inr w1 \<and> steps as w1 = Inr w')"
  by (auto simp: exn_simps)

lemma length_put [simp]:
  "length (put_u8 a) = 1" "length (put_u16 b) = 2" "length (put_u32 c) = 4"
  "length (put_u64 d) = 8" "length (put_string s) = 2 + length s"
  "length (put_bytes v) = 2 + length v"
  by (simp_all add: put_u8_def put_u16_def put_u32_def put_u64_def put_string_def put_bytes_def)

section \<open>Reader\<close>

record reader =
  input :: bytes
  position :: nat

type_synonym 'a parser = "reader \<Rightarrow> ('a \<times> reader) result"

definition pbind :: "'a parser \<Rightarrow> ('a \<Rightarrow> 'b parser) \<Rightarrow> 'b parser" where
  "pbind p f r = rbind (p r) (\<lambda>(x, r'). f x r')"

definition preturn :: "'a \<Rightarrow> 'a parser" where
  "preturn x r = Inr (x, r)"

text \<open>A validation statement between reads.\<close>

definition plift :: "'a result \<Rightarrow> 'a parser" where
  "plift m r = rbind m (\<lambda>x. Inr (x, r))"

definition mk_reader :: "bytes \<Rightarrow> reader" where
  "mk_reader bs = \<lparr>input = bs, position = 0\<rparr>"

definition run_reader :: "'a parser \<Rightarrow> bytes \<Rightarrow> 'a result" where
  "run_reader p bs = rbind (p (mk_reader bs)) (\<lambda>(x, _). Inr x)"

definition reader_require :: "exn \<Rightarrow> nat \<Rightarrow> reader \<Rightarrow> unit result" where
  "reader_require truncated count r =
     throw_if (position r > length (input r) \<or> count > length (input r) - position r) truncated"

text \<open>Taking the next \<open>n\<close> bytes: the bounds check, the copy and the advance of the position.\<close>

definition reader_take :: "exn \<Rightarrow> nat \<Rightarrow> bytes parser" where
  "reader_take truncated n r =
     rbind (reader_require truncated n r)
       (\<lambda>_. Inr (take n (drop (position r) (input r)), r\<lparr>position := position r + n\<rparr>))"

definition get_u8 :: "exn \<Rightarrow> u8 parser" where
  "get_u8 truncated = pbind (reader_take truncated 1) (\<lambda>bs. preturn (bs ! 0))"

definition get_u16 :: "exn \<Rightarrow> u16 parser" where
  "get_u16 truncated = pbind (reader_take truncated 2)
     (\<lambda>bs. preturn (push_bit 8 (ucast (bs ! 0)) OR ucast (bs ! 1)))"

text \<open>The body of the accumulation loops: \<open>result = (result << 8U) | input_[position_++]\<close>.\<close>

definition shift_in :: "'a::len word \<Rightarrow> u8 \<Rightarrow> 'a word" where
  "shift_in result b = push_bit 8 result OR ucast b"

definition get_u32 :: "exn \<Rightarrow> u32 parser" where
  "get_u32 truncated = pbind (reader_take truncated 4) (\<lambda>bs. preturn (foldl shift_in 0 bs))"

definition get_u64 :: "exn \<Rightarrow> u64 parser" where
  "get_u64 truncated = pbind (reader_take truncated 8) (\<lambda>bs. preturn (foldl shift_in 0 bs))"

definition get_fixed :: "exn \<Rightarrow> nat \<Rightarrow> bytes parser" where
  "get_fixed truncated n = reader_take truncated n"

definition get_string :: "exn \<Rightarrow> exn \<Rightarrow> nat \<Rightarrow> string parser" where
  "get_string truncated too_long maximum =
     pbind (get_u16 truncated) (\<lambda>n.
     pbind (plift (throw_if (unat n > maximum) too_long)) (\<lambda>_.
     pbind (reader_take truncated (unat n)) (\<lambda>bs.
     preturn (map char_of_byte bs))))"

definition get_bytes :: "exn \<Rightarrow> exn \<Rightarrow> nat \<Rightarrow> bytes parser" where
  "get_bytes truncated too_long maximum =
     pbind (get_u16 truncated) (\<lambda>n.
     pbind (plift (throw_if (unat n > maximum) too_long)) (\<lambda>_.
     reader_take truncated (unat n)))"

definition get_bytes32 :: "exn \<Rightarrow> exn \<Rightarrow> nat \<Rightarrow> bytes parser" where
  "get_bytes32 truncated too_long maximum =
     pbind (get_u32 truncated) (\<lambda>n.
     pbind (plift (throw_if (unat n > maximum) too_long)) (\<lambda>_.
     reader_take truncated (unat n)))"

definition require_finished :: "exn \<Rightarrow> unit parser" where
  "require_finished trailing r =
     rbind (throw_if (position r \<noteq> length (input r)) trailing) (\<lambda>_. Inr ((), r))"

definition reader_position :: "nat parser" where
  "reader_position r = Inr (position r, r)"

text \<open>The counted loop \<open>for (i = 0; i < count; ++i) v.push_back(read(reader));\<close>.\<close>

primrec get_list :: "nat \<Rightarrow> 'a parser \<Rightarrow> 'a list parser" where
  "get_list 0 p = preturn []"
| "get_list (Suc n) p = pbind p (\<lambda>x. pbind (get_list n p) (\<lambda>xs. preturn (x # xs)))"

section \<open>What a reader positioned before a known suffix does\<close>

definition at :: "bytes \<Rightarrow> bytes \<Rightarrow> reader" where
  "at pre bs = \<lparr>input = pre @ bs, position = length pre\<rparr>"

lemma mk_reader_at: "mk_reader bs = at [] bs"
  by (simp add: mk_reader_def at_def)

lemma at_eq [simp]: "at (pre @ x) rest = at (pre @ x) rest' \<longleftrightarrow> rest = rest'"
  by (simp add: at_def)

lemma pbind_eq_Inr [wire_simps]:
  "pbind p f r = Inr z \<longleftrightarrow> (\<exists>x r'. p r = Inr (x, r') \<and> f x r' = Inr z)"
  by (auto simp: pbind_def exn_simps)

lemma preturn_eq_Inr [wire_simps]: "preturn x r = Inr z \<longleftrightarrow> z = (x, r)"
  by (auto simp: preturn_def)

lemma plift_eq_Inr [wire_simps]: "plift m r = Inr (x, r') \<longleftrightarrow> m = Inr x \<and> r' = r"
  by (auto simp: plift_def exn_simps)

lemma run_reader_eq_Inr [wire_simps]:
  "run_reader p bs = Inr x \<longleftrightarrow> (\<exists>r. p (at [] bs) = Inr (x, r))"
  by (auto simp: run_reader_def mk_reader_at exn_simps)

lemma require_finished_at [wire_simps]:
  "require_finished e (at pre rest) = Inr (u, r) \<longleftrightarrow> rest = [] \<and> r = at pre rest"
  by (auto simp: require_finished_def at_def exn_simps)

lemma reader_position_at [wire_simps, wire_run]: "reader_position (at pre bs) = Inr (length pre, at pre bs)"
  by (simp add: reader_position_def at_def)

lemma reader_take_at:
  "reader_take e n (at pre bs) = Inr (x, r) \<longleftrightarrow>
     length x = n \<and> (\<exists>rest. bs = x @ rest \<and> r = at (pre @ x) rest)"
proof -
  have "reader_take e n (at pre bs) = Inr (x, r) \<longleftrightarrow>
      n \<le> length bs \<and> x = take n bs \<and> r = \<lparr>input = pre @ bs, position = length pre + n\<rparr>"
    by (auto simp: reader_take_def reader_require_def at_def exn_simps)
  also have "\<dots> \<longleftrightarrow> length x = n \<and> (\<exists>rest. bs = x @ rest \<and> r = at (pre @ x) rest)"
  proof
    assume h: "n \<le> length bs \<and> x = take n bs \<and>
        r = \<lparr>input = pre @ bs, position = length pre + n\<rparr>"
    then have "bs = x @ drop n bs" and "length x = n"
      by simp_all
    moreover from this h have "r = at (pre @ x) (drop n bs)"
      by (simp add: at_def)
    ultimately show "length x = n \<and> (\<exists>rest. bs = x @ rest \<and> r = at (pre @ x) rest)"
      by blast
  qed (auto simp: at_def)
  finally show ?thesis .
qed

section \<open>Field codecs\<close>

text \<open>
  The contract between writing and reading one field: reading succeeds exactly on input that
  starts with the encoding of a valid value, returns that value and stops right behind it.
\<close>

locale codec =
  fixes put :: "'a \<Rightarrow> bytes"
    and get :: "'a parser"
    and valid :: "'a \<Rightarrow> bool"
  assumes get_at: "get (at pre bs) = Inr (x, r) \<longleftrightarrow>
     valid x \<and> (\<exists>rest. bs = put x @ rest \<and> r = at (pre @ put x) rest)"
begin

lemma get_put: "valid x \<Longrightarrow> get (at pre (put x @ rest)) = Inr (x, at (pre @ put x) rest)"
  using get_at [of pre "put x @ rest"] by blast

lemma put_unambiguous:
  assumes "valid x" "valid y" "put x @ rest = put y @ rest'"
  shows "x = y \<and> rest = rest'"
proof -
  have "get (at [] (put x @ rest)) = Inr (x, at ([] @ put x) rest)"
    using assms(1) by (rule get_put)
  moreover have "get (at [] (put x @ rest)) = Inr (y, at ([] @ put y) rest')"
    unfolding assms(3) using assms(2) by (rule get_put)
  ultimately show ?thesis
    by (auto simp: at_def)
qed

lemma get_list_at:
  "get_list n get (at pre bs) = Inr (xs, r) \<longleftrightarrow>
     length xs = n \<and> (\<forall>x\<in>set xs. valid x) \<and>
     (\<exists>rest. bs = concat (map put xs) @ rest \<and> r = at (pre @ concat (map put xs)) rest)"
proof (induction n arbitrary: pre bs xs r)
  case 0
  then show ?case
    by (auto simp: wire_simps)
next
  case (Suc n)
  have *: "get_list (Suc n) get (at pre bs) = Inr (xs, r) \<longleftrightarrow>
      (\<exists>x ys rest. xs = x # ys \<and> valid x \<and> bs = put x @ rest \<and>
         get_list n get (at (pre @ put x) rest) = Inr (ys, r))"
    by (auto simp: wire_simps get_at)
  show ?case
    unfolding * Suc.IH by (cases xs) auto
qed

lemma get_list_put:
  "length xs = n \<Longrightarrow> \<forall>x\<in>set xs. valid x \<Longrightarrow>
     get_list n get (at pre (concat (map put xs) @ rest)) =
       Inr (xs, at (pre @ concat (map put xs)) rest)"
  using get_list_at [of n pre "concat (map put xs) @ rest" xs] by blast

lemma get_list_put_last:
  "length xs = n \<Longrightarrow> \<forall>x\<in>set xs. valid x \<Longrightarrow>
     get_list n get (at pre (concat (map put xs))) = Inr (xs, at (pre @ concat (map put xs)) [])"
  using get_list_put [of xs n pre "[]"] by simp

end

section \<open>The primitive fields are codecs\<close>

lemma ucast_and_ff: "ucast (x AND 0xff) = (ucast x :: u8)" for x :: "'a::len word"
proof -
  have *: "(0xff :: 'a word) = mask 8"
    by (simp add: mask_numeral)
  show ?thesis
    unfolding *
    by (intro bit_word_eqI)
       (auto simp: bit_simps simp del: mask_numeral dest: bit_imp_le_length)
qed

lemma bit_shift_in:
  "bit (shift_in w b) n \<longleftrightarrow>
     (if n < 8 then n < LENGTH('a) \<and> bit b n else n < LENGTH('a) \<and> bit w (n - 8))"
  for w :: "'a::len word"
  by (auto simp: shift_in_def bit_simps dest: bit_imp_le_length)

lemma put_u16_shift: "put_u16 (shift_in (ucast a) b) = [a, b]"
  unfolding put_u16_def ucast_and_ff
  by (auto intro!: bit_word_eqI simp: bit_simps bit_shift_in)

lemma shift_put_u16: "shift_in (ucast (put_u16 v ! 0)) (put_u16 v ! 1) = v"
  unfolding put_u16_def ucast_and_ff
  by (rule bit_word_eqI) (auto simp: bit_simps bit_shift_in)

lemma put_u32_shift: "put_u32 (foldl shift_in 0 [a, b, c, d]) = [a, b, c, d]"
  unfolding put_u32_def ucast_and_ff
  by (auto intro!: bit_word_eqI simp: bit_simps bit_shift_in)

lemma shift_put_u32: "foldl shift_in 0 (put_u32 v) = v"
  unfolding put_u32_def ucast_and_ff
  by (rule bit_word_eqI) (auto simp: bit_simps bit_shift_in)

lemma put_u64_shift: "put_u64 (foldl shift_in 0 [a, b, c, d, e, f, g, h]) = [a, b, c, d, e, f, g, h]"
  unfolding put_u64_def ucast_and_ff
  by (auto intro!: bit_word_eqI simp: bit_simps bit_shift_in)

lemma shift_put_u64: "foldl shift_in 0 (put_u64 v) = v"
  unfolding put_u64_def ucast_and_ff
  by (rule bit_word_eqI) (auto simp: bit_simps bit_shift_in)

lemma take_convert_at:
  assumes "\<And>x. length (put x) = n" "\<And>x. conv (put x) = x"
    and "\<And>bs. length bs = n \<Longrightarrow> put (conv bs) = bs"
  shows "pbind (reader_take e n) (\<lambda>bs. preturn (conv bs)) (at pre bs) = Inr (x, r) \<longleftrightarrow>
     (\<exists>rest. bs = put x @ rest \<and> r = at (pre @ put x) rest)"
proof -
  have "pbind (reader_take e n) (\<lambda>bs. preturn (conv bs)) (at pre bs) = Inr (x, r) \<longleftrightarrow>
      (\<exists>v rest. length v = n \<and> bs = v @ rest \<and> r = at (pre @ v) rest \<and> x = conv v)"
    by (auto simp: wire_simps reader_take_at)
  also have "\<dots> \<longleftrightarrow> (\<exists>v rest. v = put x \<and> bs = v @ rest \<and> r = at (pre @ v) rest)"
    using assms by metis
  finally show ?thesis
    by simp
qed

interpretation u8: codec put_u8 "get_u8 e" "\<lambda>_. True" for e
proof
  fix pre bs x r
  show "get_u8 e (at pre bs) = Inr (x, r) \<longleftrightarrow>
      True \<and> (\<exists>rest. bs = put_u8 x @ rest \<and> r = at (pre @ put_u8 x) rest)"
    by (auto simp: get_u8_def wire_simps reader_take_at put_u8_def length_Suc_conv)
qed

interpretation u16: codec put_u16 "get_u16 e" "\<lambda>_. True" for e
proof
  fix pre bs x r
  have "put_u16 (shift_in (ucast (bs ! 0)) (bs ! 1)) = bs" if "length bs = 2" for bs
    using that by (auto simp: put_u16_shift length_Suc_conv numeral_eq_Suc)
  then show "get_u16 e (at pre bs) = Inr (x, r) \<longleftrightarrow>
      True \<and> (\<exists>rest. bs = put_u16 x @ rest \<and> r = at (pre @ put_u16 x) rest)"
    unfolding get_u16_def shift_in_def [symmetric]
    by (subst take_convert_at [where put = put_u16]) (simp_all only: shift_put_u16 length_put simp_thms)
qed

interpretation u32: codec put_u32 "get_u32 e" "\<lambda>_. True" for e
proof
  fix pre bs x r
  have "put_u32 (foldl shift_in 0 bs) = bs" if "length bs = 4" for bs
  proof -
    from that obtain a b c d where "bs = [a, b, c, d]"
      by (auto simp: length_Suc_conv numeral_eq_Suc)
    then show ?thesis
      by (simp only: put_u32_shift)
  qed
  then show "get_u32 e (at pre bs) = Inr (x, r) \<longleftrightarrow>
      True \<and> (\<exists>rest. bs = put_u32 x @ rest \<and> r = at (pre @ put_u32 x) rest)"
    unfolding get_u32_def
    by (subst take_convert_at [where put = put_u32]) (simp_all add: shift_put_u32)
qed

interpretation u64: codec put_u64 "get_u64 e" "\<lambda>_. True" for e
proof
  fix pre bs x r
  have "put_u64 (foldl shift_in 0 bs) = bs" if "length bs = 8" for bs
  proof -
    from that obtain a b c d e f g h where "bs = [a, b, c, d, e, f, g, h]"
      by (auto simp: length_Suc_conv numeral_eq_Suc)
    then show ?thesis
      by (simp only: put_u64_shift)
  qed
  then show "get_u64 e (at pre bs) = Inr (x, r) \<longleftrightarrow>
      True \<and> (\<exists>rest. bs = put_u64 x @ rest \<and> r = at (pre @ put_u64 x) rest)"
    unfolding get_u64_def
    by (subst take_convert_at [where put = put_u64]) (simp_all add: shift_put_u64)
qed

lemma put_inj [simp]:
  "put_u8 a = put_u8 a' \<longleftrightarrow> a = a'" "put_u16 b = put_u16 b' \<longleftrightarrow> b = b'"
  "put_u32 c = put_u32 c' \<longleftrightarrow> c = c'" "put_u64 d = put_u64 d' \<longleftrightarrow> d = d'"
  by (auto simp: put_u8_def dest: arg_cong [where f = "\<lambda>bs. shift_in (ucast (bs ! 0)) (bs ! 1) :: u16"]
        arg_cong [where f = "\<lambda>bs. foldl shift_in 0 bs :: u32"]
        arg_cong [where f = "\<lambda>bs. foldl shift_in 0 bs :: u64"]
        simp: shift_put_u16 [simplified] shift_put_u32 shift_put_u64)

interpretation fixed: codec "\<lambda>v. v" "get_fixed e n" "\<lambda>v. length v = n" for e n
  by unfold_locales (simp add: get_fixed_def reader_take_at)

lemma unat_length_u16 [simp]:
  "n \<le> 65535 \<Longrightarrow> unat (of_nat n :: u16) = n"
  by (simp add: unsigned_of_nat take_bit_eq_mod)

lemma u16_bound [simp]: "unat (n :: u16) \<le> 65535"
  using unsigned_less [of n, where ?'a = nat] by simp

lemma flag_byte [wire_simps]: "1 < (x :: u8) \<longleftrightarrow> x \<noteq> 0 \<and> x \<noteq> 1"
  by unat_arith

lemma eq_unat_u16 [wire_simps]: "m = unat (k :: u16) \<longleftrightarrow> m \<le> 65535 \<and> k = of_nat m"
  by auto

interpretation bytes16: codec put_bytes "get_bytes e e' n" "\<lambda>v. length v \<le> n \<and> length v \<le> 65535"
  for e e' n
proof
  fix pre bs x r
  show "get_bytes e e' n (at pre bs) = Inr (x, r) \<longleftrightarrow> (length x \<le> n \<and> length x \<le> 65535) \<and>
      (\<exists>rest. bs = put_bytes x @ rest \<and> r = at (pre @ put_bytes x) rest)"
  proof -
    have "get_bytes e e' n (at pre bs) = Inr (x, r) \<longleftrightarrow>
        (\<exists>k rest. unat k \<le> n \<and> length x = unat (k :: u16) \<and> bs = put_u16 k @ x @ rest \<and>
           r = at (pre @ put_u16 k @ x) rest)"
      by (auto simp: get_bytes_def wire_simps exn_simps reader_take_at u16.get_at)
    also have "\<dots> \<longleftrightarrow> (\<exists>k rest. length x \<le> n \<and> length x \<le> 65535 \<and> k = of_nat (length x) \<and>
        bs = put_u16 k @ x @ rest \<and> r = at (pre @ put_u16 k @ x) rest)"
      by (auto simp: eq_unat_u16)
    finally show ?thesis
      by (auto simp: put_bytes_def)
  qed
qed

lemma eq_unat_u32: "m = unat (k :: u32) \<longleftrightarrow> m < 2 ^ 32 \<and> k = of_nat m"
proof -
  have "unat k < 2 ^ 32"
    using unsigned_less [of k, where ?'a = nat] by simp
  then show ?thesis
    by (auto simp: unsigned_of_nat take_bit_eq_mod)
qed

interpretation blob32: codec put_bytes_u32 "get_bytes32 e e' n" "\<lambda>v. length v \<le> n \<and> length v < 2 ^ 32"
  for e e' n
proof
  fix pre bs x r
  have "get_bytes32 e e' n (at pre bs) = Inr (x, r) \<longleftrightarrow>
      (\<exists>k rest. unat k \<le> n \<and> length x = unat (k :: u32) \<and> bs = put_u32 k @ x @ rest \<and>
         r = at (pre @ put_u32 k @ x) rest)"
    by (auto simp: get_bytes32_def wire_simps exn_simps reader_take_at u32.get_at)
  also have "\<dots> \<longleftrightarrow> (\<exists>k rest. length x \<le> n \<and> length x < 2 ^ 32 \<and> k = of_nat (length x) \<and>
      bs = put_u32 k @ x @ rest \<and> r = at (pre @ put_u32 k @ x) rest)"
    by (metis eq_unat_u32)
  finally show "get_bytes32 e e' n (at pre bs) = Inr (x, r) \<longleftrightarrow> (length x \<le> n \<and> length x < 2 ^ 32) \<and>
      (\<exists>rest. bs = put_bytes_u32 x @ rest \<and> r = at (pre @ put_bytes_u32 x) rest)"
    by (auto simp: put_bytes_u32_def)
qed

lemma ex_map_char: "(\<exists>v. P v \<and> x = map char_of_byte v) \<longleftrightarrow> P (map byte_of_char x)"
  by (metis map_char_of_byte)

interpretation string16: codec put_string "get_string e e' n"
  "\<lambda>v. length v \<le> n \<and> length v \<le> 65535" for e e' n
proof
  fix pre bs x r
  have "get_string e e' n (at pre bs) = Inr (x, r) \<longleftrightarrow>
      (\<exists>v. get_bytes e e' n (at pre bs) = Inr (v, r) \<and> x = map char_of_byte v)"
    by (auto simp: get_string_def get_bytes_def wire_simps)
  then show "get_string e e' n (at pre bs) = Inr (x, r) \<longleftrightarrow>
      (length x \<le> n \<and> length x \<le> 65535) \<and>
      (\<exists>rest. bs = put_string x @ rest \<and> r = at (pre @ put_string x) rest)"
    unfolding bytes16.get_at ex_map_char
    by (simp add: put_string_def put_bytes_def)
qed

lemmas primitive_get_at = u8.get_at u16.get_at u32.get_at u64.get_at fixed.get_at
  bytes16.get_at string16.get_at

declare primitive_get_at [wire_simps]

lemmas primitive_get_put = u8.get_put [OF TrueI] u16.get_put [OF TrueI] u32.get_put [OF TrueI]
  u64.get_put [OF TrueI] fixed.get_put bytes16.get_put [OF conjI] string16.get_put [OF conjI]

lemma get_put_last:
  "get_u8 e (at pre (put_u8 a)) = Inr (a, at (pre @ put_u8 a) [])"
  "get_u16 e (at pre (put_u16 b)) = Inr (b, at (pre @ put_u16 b) [])"
  "get_u32 e (at pre (put_u32 c)) = Inr (c, at (pre @ put_u32 c) [])"
  "get_u64 e (at pre (put_u64 d)) = Inr (d, at (pre @ put_u64 d) [])"
  "length v = n \<Longrightarrow> get_fixed e n (at pre v) = Inr (v, at (pre @ v) [])"
  "length v \<le> n \<Longrightarrow> length v \<le> 65535 \<Longrightarrow>
     get_bytes e e' n (at pre (put_bytes v)) = Inr (v, at (pre @ put_bytes v) [])"
  "length s \<le> n \<Longrightarrow> length s \<le> 65535 \<Longrightarrow>
     get_string e e' n (at pre (put_string s)) = Inr (s, at (pre @ put_string s) [])"
  using primitive_get_put [where rest = "[]"] by simp_all

lemma reader_forward:
  "plift (Inr x) r = Inr (x, r)"
  "require_finished e (at pre []) = Inr ((), at pre [])"
  "run_reader p bs = rbind (p (at [] bs)) (\<lambda>(x, _). Inr x)"
  by (simp_all add: plift_def wire_simps run_reader_def mk_reader_at)

lemmas forward = writer_run primitive_get_put get_put_last reader_forward pbind_def preturn_def

declare forward [wire_run]

lemma codecI:
  assumes "\<And>pre rest x. valid x \<Longrightarrow> get (at pre (put x @ rest)) = Inr (x, at (pre @ put x) rest)"
    and "\<And>pre bs x r. get (at pre bs) = Inr (x, r) \<Longrightarrow>
           valid x \<and> (\<exists>rest. bs = put x @ rest \<and> r = at (pre @ put x) rest)"
  shows "codec put get valid"
  using assms by unfold_locales blast

section \<open>Messages\<close>

text \<open>
  The contract of a whole-message codec: decoding succeeds exactly on the encodings of well-formed
  values (array fields of the right size, absent optional fields at their defaults). Round trip,
  canonicity (a value has one encoding) and unambiguity follow once, for every message.
\<close>

locale message_codec =
  fixes encode :: "'m \<Rightarrow> bytes result"
    and decode :: "bytes \<Rightarrow> 'm result"
    and wf :: "'m \<Rightarrow> bool"
  assumes decode_iff: "decode bs = Inr m \<longleftrightarrow> encode m = Inr bs \<and> wf m"
begin

lemma decode_encode: "encode m = Inr bs \<Longrightarrow> wf m \<Longrightarrow> decode bs = Inr m"
  by (simp add: decode_iff)

lemma encode_decode: "decode bs = Inr m \<Longrightarrow> encode m = Inr bs"
  by (simp add: decode_iff)

lemma decode_wf: "decode bs = Inr m \<Longrightarrow> wf m"
  by (simp add: decode_iff)

lemma canonical: "decode bs = Inr m \<Longrightarrow> decode bs' = Inr m \<Longrightarrow> bs = bs'"
  by (simp add: decode_iff)

lemma unambiguous: "encode m = Inr bs \<Longrightarrow> encode m' = Inr bs \<Longrightarrow> wf m \<Longrightarrow> wf m' \<Longrightarrow> m = m'"
  using decode_encode [of m bs] decode_encode [of m' bs] by simp

end

end
