(* ===== verification/Protocol_Types.thy ===== *)
theory Protocol_Types
  imports Wire
begin

text \<open>
  Data and validation of the wire protocol: the constants, enums and structs of
  \<open>src/include/tradep2p/protocol.hpp\<close> and the validators, the tranche arithmetic and the
  hexadecimal identifiers of \<open>src/src/protocol.cpp\<close>. Structs are records with the source's field
  names; a fixed-size \<open>std::array<std::uint8_t, N>\<close> is a byte list whose length is a
  well-formedness condition of the type (\<open>is_room_id\<close> and its siblings), a \<open>std::string\<close> a
  \<open>string\<close> (bytes as characters). An enum is a datatype; where the code casts an unchecked byte
  to an enum, the datatype has a further constructor for the values outside its enumerators.
\<close>

section \<open>Constants\<close>

abbreviation (input) kProtocolVersion :: u16 where "kProtocolVersion \<equiv> 5"
abbreviation (input) kFrameHeaderSize :: nat where "kFrameHeaderSize \<equiv> 20"
abbreviation (input) kMaxFramePayload :: nat where "kMaxFramePayload \<equiv> 131072"
abbreviation (input) kMaxAssetCodeLength :: nat where "kMaxAssetCodeLength \<equiv> 16"
abbreviation (input) kMaxAddressLength :: nat where "kMaxAddressLength \<equiv> 256"
abbreviation (input) kMaxReasonLength :: nat where "kMaxReasonLength \<equiv> 128"
abbreviation (input) kMaxNodeHostLength :: nat where "kMaxNodeHostLength \<equiv> 96"
abbreviation (input) kMaxPeerListEntries :: nat where "kMaxPeerListEntries \<equiv> 128"
abbreviation (input) kMaxRegistryNodes :: nat where "kMaxRegistryNodes \<equiv> 16"
abbreviation (input) kMaxGossipCachedNodes :: nat where "kMaxGossipCachedNodes \<equiv> 128"
abbreviation (input) kMaxRegistryNodesInList :: nat where "kMaxRegistryNodesInList \<equiv> 160"
abbreviation (input) kMaxOfferPageEntries :: nat where "kMaxOfferPageEntries \<equiv> 32"
abbreviation (input) kMaxCandleTicksPerPair :: nat where "kMaxCandleTicksPerPair \<equiv> 300"
abbreviation (input) kMaxRounds :: u32 where "kMaxRounds \<equiv> 1000"
abbreviation (input) kRegistryTtlSeconds :: u32 where "kRegistryTtlSeconds \<equiv> 300"
abbreviation (input) kRecognitionNonceLength :: nat where "kRecognitionNonceLength \<equiv> 32"
abbreviation (input) kRecognitionMaxPublicKeyLength :: nat where "kRecognitionMaxPublicKeyLength \<equiv> 1952"
abbreviation (input) kRecognitionMaxSignatureLength :: nat where "kRecognitionMaxSignatureLength \<equiv> 3309"
abbreviation (input) kTradeEphemeralPublicKeyLength :: nat where "kTradeEphemeralPublicKeyLength \<equiv> 32"
abbreviation (input) kTradeEphemeralPublicKeyLengthMlDsa65 :: nat
  where "kTradeEphemeralPublicKeyLengthMlDsa65 \<equiv> 1952"
abbreviation (input) kReceiptPublicKeyLength :: nat where "kReceiptPublicKeyLength \<equiv> 32"
abbreviation (input) kReceiptSignatureLength :: nat where "kReceiptSignatureLength \<equiv> 64"
abbreviation (input) kReceiptPublicKeyLengthMlDsa65 :: nat where "kReceiptPublicKeyLengthMlDsa65 \<equiv> 1952"
abbreviation (input) kReceiptSignatureLengthMlDsa65 :: nat where "kReceiptSignatureLengthMlDsa65 \<equiv> 3309"
abbreviation (input) kReceiptTermsCommitmentLength :: nat where "kReceiptTermsCommitmentLength \<equiv> 32"
abbreviation (input) kReceiptWireNonceLength :: nat where "kReceiptWireNonceLength \<equiv> 16"
abbreviation (input) kReceiptWireMediatorIdLength :: nat where "kReceiptWireMediatorIdLength \<equiv> 256"
abbreviation (input) kDisclosureMaxChainEntries :: nat where "kDisclosureMaxChainEntries \<equiv> 8"

section \<open>Identifiers and enums\<close>

type_synonym RoomId = bytes
type_synonym ClientId = bytes
type_synonym InviteId = bytes
type_synonym CertificatePin = bytes

definition is_room_id :: "RoomId \<Rightarrow> bool" where "is_room_id i \<longleftrightarrow> length i = 32"
definition is_client_id :: "ClientId \<Rightarrow> bool" where "is_client_id i \<longleftrightarrow> length i = 16"
definition is_invite_id :: "InviteId \<Rightarrow> bool" where "is_invite_id i \<longleftrightarrow> length i = 16"
definition is_pin :: "CertificatePin \<Rightarrow> bool" where "is_pin i \<longleftrightarrow> length i = 32"

text \<open>The value-initialised array \<open>{}\<close>.\<close>

definition zero_id :: "nat \<Rightarrow> bytes" where "zero_id n = replicate n 0"

lemma length_zero_id [simp]: "length (zero_id n) = n"
  by (simp add: zero_id_def)

datatype Party = PartyA | PartyB | PartyRaw u8

definition party_of_byte :: "u8 \<Rightarrow> Party" where
  "party_of_byte b = (if b = 0 then PartyA else if b = 1 then PartyB else PartyRaw b)"

fun byte_of_party :: "Party \<Rightarrow> u8" where
  "byte_of_party PartyA = 0"
| "byte_of_party PartyB = 1"
| "byte_of_party (PartyRaw b) = b"

datatype (plugins only: code size) MessageType =
    Welcome | ListPeers | PeerList | InviteTrade | InviteCreated | InviteReceived
  | AcceptInvite | DeclineInvite | InviteDeclined | TradeReady | Turn | Sent | Received
  | Complete | Abort | Error | Disconnect | RegistryRegister | RegistryRegistered
  | RegistryList | RegistryNodes | CreateOffer | OfferCreated | ListOffers | OfferList
  | JoinOffer | CancelOffer | OfferCancelled | RecoveryStateRequest | RecoveryStateResponse
  | RecognitionChallenge | RecognitionResponse | TradeEphemeralKey | ReceiptAck
  | ReceiptIssued | ReceiptAckRequired | ReceiptDisclosure | FeeConfirmationPending
  | GetCandles | CandleData | BlindSigInfoRequest | BlindSigInfoResponse
  | BlindSigRequestChunk | BlindSigResponse | Q7933BlindSigInfoRequest
  | Q7933BlindSigInfoResponse | Q7933BlindSigRequestChunk | Q7933BlindSigResponse
  | Q7933BlindSigTicketPoll | MessageTypeRaw u16

primrec message_type_value :: "MessageType \<Rightarrow> u16" where
  "message_type_value Welcome = 1"
| "message_type_value ListPeers = 2"
| "message_type_value PeerList = 3"
| "message_type_value InviteTrade = 4"
| "message_type_value InviteCreated = 5"
| "message_type_value InviteReceived = 6"
| "message_type_value AcceptInvite = 7"
| "message_type_value DeclineInvite = 8"
| "message_type_value InviteDeclined = 9"
| "message_type_value TradeReady = 10"
| "message_type_value Turn = 11"
| "message_type_value Sent = 12"
| "message_type_value Received = 13"
| "message_type_value Complete = 14"
| "message_type_value Abort = 15"
| "message_type_value Error = 16"
| "message_type_value Disconnect = 17"
| "message_type_value RegistryRegister = 18"
| "message_type_value RegistryRegistered = 19"
| "message_type_value RegistryList = 20"
| "message_type_value RegistryNodes = 21"
| "message_type_value CreateOffer = 22"
| "message_type_value OfferCreated = 23"
| "message_type_value ListOffers = 24"
| "message_type_value OfferList = 25"
| "message_type_value JoinOffer = 26"
| "message_type_value CancelOffer = 27"
| "message_type_value OfferCancelled = 28"
| "message_type_value RecoveryStateRequest = 29"
| "message_type_value RecoveryStateResponse = 30"
| "message_type_value RecognitionChallenge = 31"
| "message_type_value RecognitionResponse = 32"
| "message_type_value TradeEphemeralKey = 33"
| "message_type_value ReceiptAck = 34"
| "message_type_value ReceiptIssued = 35"
| "message_type_value ReceiptAckRequired = 36"
| "message_type_value ReceiptDisclosure = 37"
| "message_type_value FeeConfirmationPending = 38"
| "message_type_value GetCandles = 39"
| "message_type_value CandleData = 40"
| "message_type_value BlindSigInfoRequest = 41"
| "message_type_value BlindSigInfoResponse = 42"
| "message_type_value BlindSigRequestChunk = 43"
| "message_type_value BlindSigResponse = 44"
| "message_type_value Q7933BlindSigInfoRequest = 45"
| "message_type_value Q7933BlindSigInfoResponse = 46"
| "message_type_value Q7933BlindSigRequestChunk = 47"
| "message_type_value Q7933BlindSigResponse = 48"
| "message_type_value Q7933BlindSigTicketPoll = 49"
| "message_type_value (MessageTypeRaw v) = v"

definition known_types :: "MessageType list" where
  "known_types =
     [Welcome, ListPeers, PeerList, InviteTrade, InviteCreated, InviteReceived, AcceptInvite, DeclineInvite,
      InviteDeclined, TradeReady, Turn, Sent, Received, Complete, Abort, Error, Disconnect, RegistryRegister,
      RegistryRegistered, RegistryList, RegistryNodes, CreateOffer, OfferCreated, ListOffers, OfferList, JoinOffer,
      CancelOffer, OfferCancelled, RecoveryStateRequest, RecoveryStateResponse, RecognitionChallenge,
      RecognitionResponse, TradeEphemeralKey, ReceiptAck, ReceiptIssued, ReceiptAckRequired, ReceiptDisclosure,
      FeeConfirmationPending, GetCandles, CandleData, BlindSigInfoRequest, BlindSigInfoResponse,
      BlindSigRequestChunk, BlindSigResponse, Q7933BlindSigInfoRequest, Q7933BlindSigInfoResponse,
      Q7933BlindSigRequestChunk, Q7933BlindSigResponse, Q7933BlindSigTicketPoll]"

text \<open>The cast \<open>static_cast<MessageType>\<close> of a 16-bit value.\<close>

definition message_type_of_value :: "u16 \<Rightarrow> MessageType" where
  "message_type_of_value v =
     (case find (\<lambda>t. message_type_value t = v) known_types of Some t \<Rightarrow> t | None \<Rightarrow> MessageTypeRaw v)"

lemma known_types_inj:
  assumes "t \<in> set known_types" and "t' \<in> set known_types" and "message_type_value t = message_type_value t'"
  shows "t = t'"
proof -
  have "distinct (map message_type_value known_types)"
    by (simp add: known_types_def)
  then show ?thesis
    using assms by (auto simp: distinct_map dest: inj_onD)
qed

lemma message_type_value_of_value [simp]: "message_type_value (message_type_of_value v) = v"
  by (auto simp: message_type_of_value_def find_Some_iff split: option.splits)

section \<open>Structs\<close>

record TradeTerms =
  version :: u16
  asset_a :: string
  asset_b :: string
  total_a :: u64
  total_b :: u64
  rounds :: u32
  first_sender :: Party

record FeeTerms =
  asset :: string
  amount :: u64
  address :: string

record CreateRoomMessage =
  terms :: TradeTerms
  receive_address_a :: string

record JoinRoomMessage =
  room_id :: RoomId
  receive_address_b :: string

record WelcomeMessage =
  client_id :: ClientId
  fee :: FeeTerms

record CreateOfferMessage =
  terms :: TradeTerms
  receive_address_a :: string

record OfferCreatedMessage =
  room_id :: RoomId

record OfferSummary =
  room_id :: RoomId
  terms :: TradeTerms

record ListOffersMessage =
  has_cursor :: bool
  after_room_id :: RoomId
  limit :: u16

record OfferListMessage =
  offers :: "OfferSummary list"
  has_more :: bool
  next_cursor :: RoomId

record GetCandlesMessage =
  asset_a :: string
  asset_b :: string

record TradeTick =
  timestamp :: u64
  base_amount :: u64
  quote_amount :: u64

record CandleDataMessage =
  base_asset :: string
  quote_asset :: string
  ticks :: "TradeTick list"

record JoinOfferMessage =
  room_id :: RoomId
  receive_address_b :: string

record CancelOfferMessage =
  room_id :: RoomId

record OfferCancelledMessage =
  room_id :: RoomId

record PeerListMessage =
  peers :: "ClientId list"

record InviteTradeMessage =
  target :: ClientId
  terms :: TradeTerms
  receive_address_a :: string

record InviteCreatedMessage =
  invite_id :: InviteId
  target :: ClientId

record InviteReceivedMessage =
  invite_id :: InviteId
  sender :: ClientId
  terms :: TradeTerms
  receive_address_a :: string

record AcceptInviteMessage =
  invite_id :: InviteId
  receive_address_b :: string

record DeclineInviteMessage =
  invite_id :: InviteId

record InviteDeclinedMessage =
  invite_id :: InviteId

record TradeReadyMessage =
  room_id :: RoomId
  assigned_party :: Party
  peer_id :: ClientId
  terms :: TradeTerms
  receive_address_a :: string
  receive_address_b :: string
  fee :: FeeTerms

record TurnMessage =
  room_id :: RoomId
  round_index :: u32
  sender :: Party
  asset :: string
  amount :: u64
  destination :: string
  is_fee :: bool

record RoundSignalMessage =
  room_id :: RoomId
  round_index :: u32
  sender :: Party

record CompleteMessage =
  room_id :: RoomId

record AbortMessage =
  room_id :: RoomId
  reason :: string

record ErrorMessage =
  reason :: string

record RegistryNode =
  host :: string
  port :: u16
  certificate_pin :: CertificatePin
  remaining_ttl_seconds :: u32
  source_registry :: string

record RegistryRegisterMessage =
  node :: RegistryNode

record RegistryRegisteredMessage =
  ttl_seconds :: u32

record RegistryNodesMessage =
  nodes :: "RegistryNode list"

record RecoveryStateRequestMessage =
  room_id :: RoomId

record RecoveryStateResponseMessage =
  room_id :: RoomId
  found :: bool
  terms :: TradeTerms
  fee :: FeeTerms
  state :: u8
  round_index :: u32
  leg_index :: u8
  party_a_connected :: bool
  party_b_connected :: bool
  reason :: string

end
