(* ===== verification/Validation.thy ===== *)
theory Validation
  imports Protocol_Types
begin

unbundle bit_operations_syntax

text \<open>
  The validators, the tranche arithmetic and the hexadecimal identifier forms of
  \<open>src/src/protocol.cpp\<close> (lines 157--235 and 307--422).
\<close>

section \<open>Validators\<close>

definition validate_party :: "Party \<Rightarrow> unit result" where
  "validate_party party =
     throw_if (party \<noteq> PartyA \<and> party \<noteq> PartyB) (Invalid_argument ''invalid party'')"

text \<open>\<open>std::isalnum\<close> in the C locale.\<close>

definition isalnum :: "nat \<Rightarrow> bool" where
  "isalnum c \<longleftrightarrow> 0x30 \<le> c \<and> c \<le> 0x39 \<or> 0x41 \<le> c \<and> c \<le> 0x5a \<or> 0x61 \<le> c \<and> c \<le> 0x7a"

definition asset_char :: "char \<Rightarrow> bool" where
  "asset_char c \<longleftrightarrow> isalnum (of_char c) \<or> c = CHR ''.'' \<or> c = CHR ''_'' \<or> c = CHR ''-''"

definition validate_asset :: "string \<Rightarrow> unit result" where
  "validate_asset code =
     rbind (throw_if (code = [] \<or> length code > kMaxAssetCodeLength)
              (Invalid_argument ''invalid asset code length'')) (\<lambda>_.
     for_each (\<lambda>c. throw_if (\<not> isalnum (of_char c) \<and> c \<noteq> CHR ''.'' \<and> c \<noteq> CHR ''_'' \<and> c \<noteq> CHR ''-'')
              (Invalid_argument ''invalid asset code character'')) code)"

definition validate_printable :: "string \<Rightarrow> nat \<Rightarrow> bool \<Rightarrow> string \<Rightarrow> unit result" where
  "validate_printable text maximum allow_spaces label =
     rbind (throw_if (text = [] \<or> length text > maximum)
              (Invalid_argument (''invalid '' @ label @ '' length''))) (\<lambda>_.
     for_each (\<lambda>c. let n = (of_char c :: nat); printable = (n \<ge> 0x21 \<and> n \<le> 0x7e)
                   in throw_if (\<not> printable \<and> \<not> (allow_spaces \<and> n = 0x20))
                        (Invalid_argument (''invalid '' @ label @ '' character''))) text)"

definition validate_nonzero_id :: "bytes \<Rightarrow> string \<Rightarrow> unit result" where
  "validate_nonzero_id i label =
     throw_if (list_all (\<lambda>byte. byte = 0) i) (Invalid_argument (label @ '' must not be zero''))"

definition validate_address :: "string \<Rightarrow> unit result" where
  "validate_address addr = validate_printable addr kMaxAddressLength False ''address''"

definition validate_reason :: "string \<Rightarrow> unit result" where
  "validate_reason text = validate_printable text kMaxReasonLength True ''reason''"

definition validate_room_id :: "RoomId \<Rightarrow> unit result" where
  "validate_room_id i = validate_nonzero_id i ''room id''"

definition validate_client_id :: "ClientId \<Rightarrow> unit result" where
  "validate_client_id i = validate_nonzero_id i ''client id''"

definition validate_invite_id :: "InviteId \<Rightarrow> unit result" where
  "validate_invite_id i = validate_nonzero_id i ''invite id''"

definition validate_certificate_pin :: "CertificatePin \<Rightarrow> unit result" where
  "validate_certificate_pin i = validate_nonzero_id i ''certificate pin''"

definition validate_terms :: "TradeTerms \<Rightarrow> unit result" where
  "validate_terms t =
     rbind (throw_if (version t \<noteq> kProtocolVersion)
              (Invalid_argument ''unsupported trade terms version'')) (\<lambda>_.
     rbind (validate_asset (TradeTerms.asset_a t)) (\<lambda>_.
     rbind (validate_asset (TradeTerms.asset_b t)) (\<lambda>_.
     rbind (throw_if (TradeTerms.asset_a t = TradeTerms.asset_b t)
              (Invalid_argument ''assets must differ'')) (\<lambda>_.
     rbind (throw_if (total_a t = 0 \<or> total_b t = 0)
              (Invalid_argument ''trade totals must be positive'')) (\<lambda>_.
     rbind (throw_if (rounds t = 0 \<or> rounds t > kMaxRounds)
              (Invalid_argument ''invalid round count'')) (\<lambda>_.
     rbind (throw_if (ucast (rounds t) > total_a t \<or> ucast (rounds t) > total_b t)
              (Invalid_argument ''each round must contain a positive integer amount'')) (\<lambda>_.
     validate_party (first_sender t))))))))"

definition validate_fee_terms :: "FeeTerms \<Rightarrow> unit result" where
  "validate_fee_terms f =
     (if FeeTerms.amount f = 0 then
        throw_if (FeeTerms.asset f \<noteq> [] \<or> FeeTerms.address f \<noteq> [])
          (Invalid_argument ''fee asset and address must be empty when the fee amount is zero'')
      else
        rbind (validate_asset (FeeTerms.asset f)) (\<lambda>_.
        validate_address (FeeTerms.address f)))"

definition validate_registry_node :: "RegistryNode \<Rightarrow> bool \<Rightarrow> unit result" where
  "validate_registry_node n require_ttl =
     rbind (validate_printable (host n) kMaxNodeHostLength False ''node host'') (\<lambda>_.
     rbind (throw_if (port n = 0) (Invalid_argument ''invalid node port'')) (\<lambda>_.
     rbind (validate_certificate_pin (certificate_pin n)) (\<lambda>_.
     rbind (throw_if (require_ttl \<and> (remaining_ttl_seconds n = 0 \<or>
                remaining_ttl_seconds n > kRegistryTtlSeconds))
              (Invalid_argument ''invalid registry TTL'')) (\<lambda>_.
     rbind (throw_if (\<not> require_ttl \<and> source_registry n \<noteq> [])
              (Invalid_argument ''source_registry is only valid in a listing'')) (\<lambda>_.
     if source_registry n \<noteq> []
     then validate_printable (source_registry n) kMaxNodeHostLength False ''source registry''
     else Inr ())))))"

definition validate_message_type :: "MessageType \<Rightarrow> unit result" where
  "validate_message_type t =
     (let v = message_type_value t in
      throw_if (v < message_type_value Welcome \<or> v > message_type_value Q7933BlindSigTicketPoll)
        (Invalid_argument ''unknown message type''))"

definition validate_trade_tick :: "TradeTick \<Rightarrow> unit result" where
  "validate_trade_tick tick =
     throw_if (base_amount tick = 0 \<or> quote_amount tick = 0)
       (Invalid_argument ''trade tick amounts must be nonzero'')"

section \<open>Tranches and parties\<close>

definition tranche_amount :: "u64 \<Rightarrow> u32 \<Rightarrow> u32 \<Rightarrow> u64 result" where
  "tranche_amount tot rnds idx =
     (if tot = 0 \<or> rnds = 0 \<or> idx \<ge> rnds \<or> ucast rnds > tot
      then Inl (Invalid_argument ''invalid tranche inputs'')
      else let base = tot div ucast rnds; remainder = tot mod ucast rnds
           in Inr (base + (if ucast idx < remainder then 1 else 0)))"

definition other_party :: "Party \<Rightarrow> Party result" where
  "other_party party =
     rbind (validate_party party) (\<lambda>_. Inr (if party = PartyA then PartyB else PartyA))"

section \<open>Hexadecimal identifiers\<close>

definition hex_value :: "char \<Rightarrow> int" where
  "hex_value c =
     (let n = int (of_char c) in
      if 0x30 \<le> n \<and> n \<le> 0x39 then n - 0x30
      else if 0x61 \<le> n \<and> n \<le> 0x66 then n - 0x61 + 10
      else if 0x41 \<le> n \<and> n \<le> 0x46 then n - 0x41 + 10
      else -1)"

text \<open>One digit as \<open>std::hex\<close> prints it.\<close>

definition hex_digit :: "nat \<Rightarrow> char" where
  "hex_digit n = (if n < 10 then char_of (0x30 + n) else char_of (0x61 + (n - 10)))"

definition hex_byte :: "u8 \<Rightarrow> string" where
  "hex_byte b = [hex_digit (unat b div 16), hex_digit (unat b mod 16)]"

definition id_to_hex :: "bytes \<Rightarrow> string \<Rightarrow> string result" where
  "id_to_hex i label =
     rbind (validate_nonzero_id i label) (\<lambda>_. Inr (concat (map hex_byte i)))"

fun hex_pairs :: "string \<Rightarrow> string \<Rightarrow> bytes result" where
  "hex_pairs (h # l # rest) label =
     (let high = hex_value h; low = hex_value l in
      if high < 0 \<or> low < 0 then Inl (Invalid_argument (label @ '' is not hexadecimal''))
      else rbind (hex_pairs rest label)
             (\<lambda>bs. Inr (word_of_int (push_bit 4 high OR low) # bs)))"
| "hex_pairs _ label = Inr []"

definition id_from_hex :: "nat \<Rightarrow> string \<Rightarrow> string \<Rightarrow> bytes result" where
  "id_from_hex n text label =
     rbind (throw_if (length text \<noteq> n * 2) (Invalid_argument (label @ '' has wrong length''))) (\<lambda>_.
     rbind (hex_pairs text label) (\<lambda>i.
     rbind (validate_nonzero_id i label) (\<lambda>_.
     Inr i)))"

definition room_id_to_hex :: "RoomId \<Rightarrow> string result" where
  "room_id_to_hex i = id_to_hex i ''room id''"
definition room_id_from_hex :: "string \<Rightarrow> RoomId result" where
  "room_id_from_hex text = id_from_hex 32 text ''room id''"
definition client_id_to_hex :: "ClientId \<Rightarrow> string result" where
  "client_id_to_hex i = id_to_hex i ''client id''"
definition client_id_from_hex :: "string \<Rightarrow> ClientId result" where
  "client_id_from_hex text = id_from_hex 16 text ''client id''"
definition invite_id_to_hex :: "InviteId \<Rightarrow> string result" where
  "invite_id_to_hex i = id_to_hex i ''invite id''"
definition invite_id_from_hex :: "string \<Rightarrow> InviteId result" where
  "invite_id_from_hex text = id_from_hex 16 text ''invite id''"
definition certificate_pin_to_hex :: "CertificatePin \<Rightarrow> string result" where
  "certificate_pin_to_hex i = id_to_hex i ''certificate pin''"
definition certificate_pin_from_hex :: "string \<Rightarrow> CertificatePin result" where
  "certificate_pin_from_hex text = id_from_hex 32 text ''certificate pin''"

section \<open>What the validators accept\<close>

definition printable_char :: "bool \<Rightarrow> char \<Rightarrow> bool" where
  "printable_char spaces c \<longleftrightarrow>
     (0x21 \<le> (of_char c :: nat) \<and> (of_char c :: nat) \<le> 0x7e) \<or> spaces \<and> (of_char c :: nat) = 0x20"

lemma validate_party_ok [valid_simps]:
  "validate_party p = Inr u \<longleftrightarrow> p = PartyA \<or> p = PartyB"
  by (auto simp: validate_party_def exn_simps)

lemma validate_asset_ok [valid_simps]:
  "validate_asset a = Inr u \<longleftrightarrow> a \<noteq> [] \<and> length a \<le> kMaxAssetCodeLength \<and> (\<forall>c\<in>set a. asset_char c)"
  by (auto simp: validate_asset_def asset_char_def exn_simps)

lemma validate_printable_ok:
  "validate_printable s n b l = Inr u \<longleftrightarrow> s \<noteq> [] \<and> length s \<le> n \<and> (\<forall>c\<in>set s. printable_char b c)"
  by (auto simp: validate_printable_def printable_char_def exn_simps Let_def)

lemma validate_address_ok [valid_simps]:
  "validate_address s = Inr u \<longleftrightarrow>
     s \<noteq> [] \<and> length s \<le> kMaxAddressLength \<and> (\<forall>c\<in>set s. printable_char False c)"
  by (simp add: validate_address_def validate_printable_ok)

lemma validate_reason_ok [valid_simps]:
  "validate_reason s = Inr u \<longleftrightarrow>
     s \<noteq> [] \<and> length s \<le> kMaxReasonLength \<and> (\<forall>c\<in>set s. printable_char True c)"
  by (simp add: validate_reason_def validate_printable_ok)

lemma validate_nonzero_id_ok:
  "validate_nonzero_id i l = Inr u \<longleftrightarrow> (\<exists>b\<in>set i. b \<noteq> 0)"
  by (auto simp: validate_nonzero_id_def exn_simps list_all_iff)

text \<open>Nonzero identifiers.\<close>

definition nonzero :: "bytes \<Rightarrow> bool" where
  "nonzero i \<longleftrightarrow> (\<exists>b\<in>set i. b \<noteq> 0)"

lemma validate_id_ok [valid_simps]:
  "validate_room_id i = Inr u \<longleftrightarrow> nonzero i"
  "validate_client_id i = Inr u \<longleftrightarrow> nonzero i"
  "validate_invite_id i = Inr u \<longleftrightarrow> nonzero i"
  "validate_certificate_pin i = Inr u \<longleftrightarrow> nonzero i"
  by (simp_all add: validate_room_id_def validate_client_id_def validate_invite_id_def
      validate_certificate_pin_def validate_nonzero_id_ok nonzero_def)

lemma validate_id_forward [wire_run]:
  "nonzero i \<Longrightarrow> validate_room_id i = Inr ()"
  "nonzero i \<Longrightarrow> validate_client_id i = Inr ()"
  "nonzero i \<Longrightarrow> validate_invite_id i = Inr ()"
  by (simp_all add: valid_simps)

lemma validate_trade_tick_ok [valid_simps]:
  "validate_trade_tick t = Inr u \<longleftrightarrow> base_amount t \<noteq> 0 \<and> quote_amount t \<noteq> 0"
  by (auto simp: validate_trade_tick_def exn_simps)

text \<open>Valid trade terms and fee terms as predicates.\<close>

definition valid_terms :: "TradeTerms \<Rightarrow> bool" where
  "valid_terms t \<longleftrightarrow> validate_terms t = Inr ()"

definition valid_fee :: "FeeTerms \<Rightarrow> bool" where
  "valid_fee f \<longleftrightarrow> validate_fee_terms f = Inr ()"

definition valid_node :: "bool \<Rightarrow> RegistryNode \<Rightarrow> bool" where
  "valid_node b n \<longleftrightarrow> validate_registry_node n b = Inr ()"

lemma valid_terms_iff:
  "valid_terms t \<longleftrightarrow> version t = kProtocolVersion
     \<and> TradeTerms.asset_a t \<noteq> [] \<and> length (TradeTerms.asset_a t) \<le> kMaxAssetCodeLength
     \<and> (\<forall>c\<in>set (TradeTerms.asset_a t). asset_char c)
     \<and> TradeTerms.asset_b t \<noteq> [] \<and> length (TradeTerms.asset_b t) \<le> kMaxAssetCodeLength
     \<and> (\<forall>c\<in>set (TradeTerms.asset_b t). asset_char c)
     \<and> TradeTerms.asset_a t \<noteq> TradeTerms.asset_b t
     \<and> total_a t \<noteq> 0 \<and> total_b t \<noteq> 0 \<and> rounds t \<noteq> 0 \<and> rounds t \<le> kMaxRounds
     \<and> ucast (rounds t) \<le> total_a t \<and> ucast (rounds t) \<le> total_b t
     \<and> (first_sender t = PartyA \<or> first_sender t = PartyB)"
  by (auto simp: valid_terms_def validate_terms_def exn_simps valid_simps not_less)

lemma valid_fee_iff:
  "valid_fee f \<longleftrightarrow>
     (if FeeTerms.amount f = 0 then FeeTerms.asset f = [] \<and> FeeTerms.address f = []
      else validate_asset (FeeTerms.asset f) = Inr () \<and> validate_address (FeeTerms.address f) = Inr ())"
  by (auto simp: valid_fee_def validate_fee_terms_def rbind_unit_eq_Inr throw_if_eq_Inr)

lemma valid_node_iff:
  "valid_node b n \<longleftrightarrow>
     validate_printable (host n) kMaxNodeHostLength False ''node host'' = Inr () \<and>
     port n \<noteq> 0 \<and> nonzero (certificate_pin n) \<and>
     (b \<longrightarrow> remaining_ttl_seconds n \<noteq> 0 \<and> remaining_ttl_seconds n \<le> kRegistryTtlSeconds) \<and>
     (source_registry n = [] \<or> b \<and>
        validate_printable (source_registry n) kMaxNodeHostLength False ''source registry'' = Inr ())"
  by (auto simp: valid_node_def validate_registry_node_def exn_simps valid_simps not_less)

lemma validate_valid [exn_simps]:
  "validate_terms t = Inr u \<longleftrightarrow> valid_terms t"
  "validate_fee_terms f = Inr u \<longleftrightarrow> valid_fee f"
  "validate_registry_node n b = Inr u \<longleftrightarrow> valid_node b n"
  by (simp_all add: valid_terms_def valid_fee_def valid_node_def)

lemma valid_terms_lengths:
  "valid_terms t \<Longrightarrow> length (TradeTerms.asset_a t) \<le> 16 \<and> length (TradeTerms.asset_b t) \<le> 16"
  by (simp add: valid_terms_iff)

lemma valid_fee_lengths:
  "valid_fee f \<Longrightarrow> length (FeeTerms.asset f) \<le> 16 \<and> length (FeeTerms.address f) \<le> 256"
  by (auto simp: valid_fee_iff valid_simps split: if_splits)

lemma valid_node_lengths:
  "valid_node b n \<Longrightarrow> length (host n) \<le> 96 \<and> length (source_registry n) \<le> 96"
  by (auto simp: valid_node_iff validate_printable_ok)

lemma nonzero_zero_id [simp]: "\<not> nonzero (zero_id n)"
  by (simp add: nonzero_def zero_id_def)

section \<open>Tranches: no loss, no overflow, even split\<close>

lemma unat_u64_of_u32 [simp]: "unat (ucast (r :: u32) :: u64) = unat r"
  by (simp add: unsigned_ucast_eq take_bit_nat_eq_self_iff less_trans [OF unsigned_less])

text \<open>The tranche in unbounded arithmetic.\<close>

definition tranche_nat :: "nat \<Rightarrow> nat \<Rightarrow> nat \<Rightarrow> nat" where
  "tranche_nat tot r i = tot div r + (if i < tot mod r then 1 else 0)"

lemma tranche_nat_le:
  assumes "0 < r"
  shows "tranche_nat tot r i \<le> tot"
proof (cases "i < tot mod r")
  case True
  have "tot div r * 1 \<le> tot div r * r"
    using assms by (intro mult_le_mono) simp_all
  moreover have "1 \<le> tot mod r"
    using True by simp
  ultimately have "tot div r + 1 \<le> tot div r * r + tot mod r"
    by (metis add_mono mult.right_neutral)
  also have "\<dots> = tot"
    by simp
  finally show ?thesis
    using True by (simp add: tranche_nat_def)
qed (simp add: tranche_nat_def)

lemma tranche_amount_nat:
  "tranche_amount tot r i = Inr a \<longleftrightarrow>
     r \<noteq> 0 \<and> i < r \<and> unat r \<le> unat tot \<and> unat a = tranche_nat (unat tot) (unat r) (unat i)"
proof (cases "tot = 0 \<or> r = 0 \<or> i \<ge> r \<or> ucast r > tot")
  case True
  then show ?thesis
    by (auto simp: tranche_amount_def word_less_nat_alt word_le_nat_alt unat_eq_zero)
next
  case False
  then have r: "0 < unat r" "i < r" "unat r \<le> unat tot"
    by (auto simp: word_less_nat_alt word_le_nat_alt unat_gt_0)
  define b where "b = tot div ucast r + (if ucast i < tot mod ucast r then 1 else 0)"
  have "unat b = tranche_nat (unat tot) (unat r) (unat i)"
  proof -
    have le: "tranche_nat (unat tot) (unat r) (unat i) < 2 ^ 64"
      using tranche_nat_le [OF r(1), of "unat tot" "unat i"] unsigned_less [of tot, where ?'a = nat]
      by simp
    have "unat b = tranche_nat (unat tot) (unat r) (unat i) mod 2 ^ 64"
      by (simp add: b_def tranche_nat_def unat_word_ariths(1) word_less_nat_alt
          unat_div_distrib unat_mod_distrib)
    with le show ?thesis
      by simp
  qed
  then show ?thesis
    using False r by (auto simp: tranche_amount_def b_def [symmetric] Let_def word_unat_eq_iff)
qed

lemma sum_tranche_upto:
  assumes "0 < r"
  shows "k \<le> r \<Longrightarrow> (\<Sum>i<k. tranche_nat tot r i) = k * (tot div r) + min k (tot mod r)"
  by (induction k) (auto simp: tranche_nat_def)

lemma sum_tranche:
  assumes "0 < r"
  shows "(\<Sum>i<r. tranche_nat tot r i) = tot"
  using sum_tranche_upto [OF assms, of r tot] assms
  by (simp add: min_absorb2 less_imp_le)

lemma tranche_positive: "0 < r \<Longrightarrow> r \<le> tot \<Longrightarrow> 0 < tranche_nat tot r i"
  by (simp add: tranche_nat_def div_greater_zero_iff)

section \<open>Hexadecimal forms are faithful\<close>

lemma hex_value_digit: "n < 16 \<Longrightarrow> hex_value (hex_digit n) = int n"
  by (auto simp: hex_value_def hex_digit_def Let_def)

lemma hex_nibbles:
  "word_of_int (push_bit 4 (int (unat b div 16)) OR int (unat b mod 16)) = b" for b :: u8
proof -
  have "int (unat b div 16) = drop_bit 4 (int (unat b))"
    and "int (unat b mod 16) = take_bit 4 (int (unat b))"
    by (simp_all add: drop_bit_eq_div take_bit_eq_mod zdiv_int zmod_int)
  moreover have "push_bit 4 (drop_bit 4 (int (unat b))) OR take_bit 4 (int (unat b)) = int (unat b)"
    by (rule bit_eqI) (auto simp: bit_simps not_less)
  ultimately show ?thesis
    by simp
qed

lemma hex_pairs_hex_byte: "hex_pairs (concat (map hex_byte i)) l = Inr i"
proof (induction i)
  case (Cons b i)
  have "unat b div 16 < 16" "unat b mod 16 < 16"
    using unsigned_less [of b, where ?'a = nat] by (simp_all add: less_mult_imp_div_less)
  then show ?case
    using Cons.IH by (simp add: hex_byte_def hex_value_digit hex_nibbles Let_def del: push_bit_of_nat)
qed simp

lemma length_hex_bytes: "length (concat (map hex_byte i)) = length i * 2"
  by (induction i) (simp_all add: hex_byte_def)

lemma id_to_hex_ok [exn_simps]:
  "id_to_hex i l = Inr s \<longleftrightarrow> nonzero i \<and> s = concat (map hex_byte i)"
  by (auto simp: id_to_hex_def validate_nonzero_id_ok nonzero_def exn_simps)

lemma id_hex_roundtrip:
  "nonzero i \<Longrightarrow> length i = n \<Longrightarrow> id_from_hex n (concat (map hex_byte i)) l = Inr i"
  by (auto simp: id_from_hex_def length_hex_bytes hex_pairs_hex_byte validate_nonzero_id_ok
      nonzero_def exn_simps)

lemma hex_bytes_inj [simp]: "concat (map hex_byte i) = concat (map hex_byte j) \<longleftrightarrow> i = j"
  by (metis hex_pairs_hex_byte sum.inject(2))

end
