(* ===== verification/Codec_Terms.thy ===== *)
theory Codec_Terms
  imports Validation
begin

text \<open>
  The protocol's own instances of the reader and writer (the exceptions \<open>protocol.cpp\<close> throws)
  and the nested fields several messages share: trade terms, fee terms and registry nodes
  (\<open>append_terms\<close> to \<open>read_registry_node\<close>, lines 237--303). Each is an interpretation of
  \<open>codec\<close>.
\<close>

abbreviation (input) truncated :: exn where "truncated \<equiv> Runtime_error ''truncated message''"

abbreviation (input) w_short_string :: "string \<Rightarrow> nat \<Rightarrow> write_step" where
  "w_short_string \<equiv> writer_short_string (Invalid_argument ''string exceeds protocol limit'')"
abbreviation (input) w_bytes :: "bytes \<Rightarrow> nat \<Rightarrow> write_step" where
  "w_bytes \<equiv> writer_bytes (Invalid_argument ''byte field exceeds protocol limit'')"
abbreviation (input) r_u8 :: "u8 parser" where "r_u8 \<equiv> get_u8 truncated"
abbreviation (input) r_u16 :: "u16 parser" where "r_u16 \<equiv> get_u16 truncated"
abbreviation (input) r_u32 :: "u32 parser" where "r_u32 \<equiv> get_u32 truncated"
abbreviation (input) r_u64 :: "u64 parser" where "r_u64 \<equiv> get_u64 truncated"
abbreviation (input) r_fixed_id :: "nat \<Rightarrow> bytes parser" where "r_fixed_id \<equiv> get_fixed truncated"
abbreviation (input) r_short_string :: "nat \<Rightarrow> string parser" where
  "r_short_string \<equiv> get_string truncated (Runtime_error ''encoded string exceeds protocol limit'')"
abbreviation (input) r_bytes :: "nat \<Rightarrow> bytes parser" where
  "r_bytes \<equiv> get_bytes truncated (Runtime_error ''encoded byte field exceeds protocol limit'')"
abbreviation (input) r_require_finished :: "unit parser" where
  "r_require_finished \<equiv> require_finished (Runtime_error ''trailing bytes in message'')"

definition append_terms :: "TradeTerms \<Rightarrow> write_step" where
  "append_terms t = steps
     [check (validate_terms t),
      writer_u16 (version t),
      w_short_string (TradeTerms.asset_a t) kMaxAssetCodeLength,
      w_short_string (TradeTerms.asset_b t) kMaxAssetCodeLength,
      writer_u64 (total_a t),
      writer_u64 (total_b t),
      writer_u32 (rounds t),
      writer_u8 (byte_of_party (first_sender t))]"

definition read_terms :: "TradeTerms parser" where
  "read_terms =
     pbind r_u16 (\<lambda>ver.
     pbind (r_short_string kMaxAssetCodeLength) (\<lambda>a.
     pbind (r_short_string kMaxAssetCodeLength) (\<lambda>b.
     pbind r_u64 (\<lambda>ta.
     pbind r_u64 (\<lambda>tb.
     pbind r_u32 (\<lambda>n.
     pbind r_u8 (\<lambda>p.
     let t = \<lparr>version = ver, asset_a = a, asset_b = b, total_a = ta, total_b = tb,
              rounds = n, first_sender = party_of_byte p\<rparr> in
     pbind (plift (validate_terms t)) (\<lambda>_.
     preturn t))))))))"

definition append_fee_terms :: "FeeTerms \<Rightarrow> write_step" where
  "append_fee_terms f = steps
     [check (validate_fee_terms f),
      w_short_string (FeeTerms.asset f) kMaxAssetCodeLength,
      writer_u64 (FeeTerms.amount f),
      w_short_string (FeeTerms.address f) kMaxAddressLength]"

definition read_fee_terms :: "FeeTerms parser" where
  "read_fee_terms =
     pbind (r_short_string kMaxAssetCodeLength) (\<lambda>a.
     pbind r_u64 (\<lambda>n.
     pbind (r_short_string kMaxAddressLength) (\<lambda>d.
     let f = \<lparr>FeeTerms.asset = a, amount = n, address = d\<rparr> in
     pbind (plift (validate_fee_terms f)) (\<lambda>_.
     preturn f))))"

definition append_registry_node :: "RegistryNode \<Rightarrow> bool \<Rightarrow> write_step" where
  "append_registry_node n include_ttl = steps
     ([check (validate_registry_node n include_ttl),
       w_short_string (host n) kMaxNodeHostLength,
       writer_u16 (port n),
       writer_fixed_id (certificate_pin n)] @
      (if include_ttl then
        [writer_u32 (remaining_ttl_seconds n),
         w_short_string (source_registry n) kMaxNodeHostLength]
       else []))"

definition read_registry_node :: "bool \<Rightarrow> RegistryNode parser" where
  "read_registry_node include_ttl =
     pbind (r_short_string kMaxNodeHostLength) (\<lambda>h.
     pbind r_u16 (\<lambda>p.
     pbind (r_fixed_id 32) (\<lambda>c.
     pbind (if include_ttl then r_u32 else preturn 0) (\<lambda>ttl.
     pbind (if include_ttl then r_short_string kMaxNodeHostLength else preturn []) (\<lambda>src.
     let n = \<lparr>host = h, port = p, certificate_pin = c, remaining_ttl_seconds = ttl,
              source_registry = src\<rparr> in
     pbind (plift (validate_registry_node n include_ttl)) (\<lambda>_.
     preturn n))))))"

section \<open>Layouts\<close>

definition put_terms :: "TradeTerms \<Rightarrow> bytes" where
  "put_terms t = put_u16 (version t) @ put_string (TradeTerms.asset_a t) @
     put_string (TradeTerms.asset_b t) @ put_u64 (total_a t) @ put_u64 (total_b t) @
     put_u32 (rounds t) @ put_u8 (byte_of_party (first_sender t))"

definition put_fee_terms :: "FeeTerms \<Rightarrow> bytes" where
  "put_fee_terms f = put_string (FeeTerms.asset f) @ put_u64 (FeeTerms.amount f) @
     put_string (FeeTerms.address f)"

definition put_registry_node :: "bool \<Rightarrow> RegistryNode \<Rightarrow> bytes" where
  "put_registry_node ttl n = put_string (host n) @ put_u16 (port n) @ certificate_pin n @
     (if ttl then put_u32 (remaining_ttl_seconds n) @ put_string (source_registry n) else [])"

text \<open>A node as a decoder can produce it: without the listing fields both have their defaults.\<close>

definition wf_node :: "bool \<Rightarrow> RegistryNode \<Rightarrow> bool" where
  "wf_node ttl n \<longleftrightarrow> valid_node ttl n \<and> is_pin (certificate_pin n) \<and>
     (ttl \<or> remaining_ttl_seconds n = 0 \<and> source_registry n = [])"

lemma party_roundtrip:
  "p = PartyA \<or> p = PartyB \<Longrightarrow> party_of_byte (byte_of_party p) = p"
  by (auto simp: party_of_byte_def)

lemma byte_of_party_of_byte [simp]: "byte_of_party (party_of_byte b) = b"
  by (simp add: party_of_byte_def)

lemma append_terms_ok [wire_simps]:
  "append_terms t w = Inr w' \<longleftrightarrow> valid_terms t \<and> w' = w @ put_terms t"
  by (auto simp: append_terms_def wire_simps exn_simps put_terms_def dest: valid_terms_lengths)

lemma append_fee_terms_ok [wire_simps]:
  "append_fee_terms f w = Inr w' \<longleftrightarrow> valid_fee f \<and> w' = w @ put_fee_terms f"
  by (auto simp: append_fee_terms_def wire_simps exn_simps put_fee_terms_def dest: valid_fee_lengths)

lemma append_registry_node_ok [wire_simps]:
  "append_registry_node n b w = Inr w' \<longleftrightarrow> valid_node b n \<and> w' = w @ put_registry_node b n"
  by (auto simp: append_registry_node_def wire_simps exn_simps put_registry_node_def
      dest: valid_node_lengths)

interpretation terms: codec put_terms read_terms valid_terms
proof (rule codecI)
  fix pre rest t
  assume v: "valid_terms t"
  then have "first_sender t = PartyA \<or> first_sender t = PartyB"
    by (simp add: valid_terms_iff)
  moreover have "validate_terms t = Inr ()"
    using v by (simp add: exn_simps)
  ultimately show "read_terms (at pre (put_terms t @ rest)) = Inr (t, at (pre @ put_terms t) rest)"
    using valid_terms_lengths [OF v]
    by (cases t) (simp add: read_terms_def put_terms_def wire_run party_roundtrip Let_def)
next
  fix pre bs t r
  assume "read_terms (at pre bs) = Inr (t, r)"
  then show "valid_terms t \<and> (\<exists>rest. bs = put_terms t @ rest \<and> r = at (pre @ put_terms t) rest)"
    by (auto simp: read_terms_def put_terms_def wire_simps exn_simps Let_def)
qed

interpretation fee_terms: codec put_fee_terms read_fee_terms valid_fee
proof (rule codecI)
  fix pre rest f
  assume v: "valid_fee f"
  then have "validate_fee_terms f = Inr ()"
    by (simp add: exn_simps)
  then show "read_fee_terms (at pre (put_fee_terms f @ rest)) = Inr (f, at (pre @ put_fee_terms f) rest)"
    using valid_fee_lengths [OF v]
    by (cases f) (simp add: read_fee_terms_def put_fee_terms_def wire_run Let_def)
next
  fix pre bs f r
  assume "read_fee_terms (at pre bs) = Inr (f, r)"
  then show "valid_fee f \<and> (\<exists>rest. bs = put_fee_terms f @ rest \<and> r = at (pre @ put_fee_terms f) rest)"
    by (auto simp: read_fee_terms_def put_fee_terms_def wire_simps exn_simps Let_def)
qed

interpretation node: codec "put_registry_node b" "read_registry_node b" "wf_node b" for b
proof (rule codecI)
  fix pre rest n
  assume "wf_node b n"
  then have v: "valid_node b n" and p: "length (certificate_pin n) = 32"
    and d: "\<not> b \<Longrightarrow> remaining_ttl_seconds n = 0 \<and> source_registry n = []"
    by (auto simp: wf_node_def is_pin_def)
  from v have "validate_registry_node n b = Inr ()"
    by (simp add: exn_simps)
  then show "read_registry_node b (at pre (put_registry_node b n @ rest)) =
      Inr (n, at (pre @ put_registry_node b n) rest)"
    using valid_node_lengths [OF v] p d
    by (cases b; cases n) (simp_all add: read_registry_node_def put_registry_node_def wire_run Let_def)
next
  fix pre bs n r
  assume "read_registry_node b (at pre bs) = Inr (n, r)"
  then show "wf_node b n \<and> (\<exists>rest. bs = put_registry_node b n @ rest \<and>
      r = at (pre @ put_registry_node b n) rest)"
    by (cases b) (auto simp: read_registry_node_def put_registry_node_def wf_node_def is_pin_def
        wire_simps exn_simps Let_def)
qed

lemmas nested_get_at = terms.get_at fee_terms.get_at node.get_at node.get_list_at
declare nested_get_at [wire_simps]

lemmas nested_get_put = terms.get_put fee_terms.get_put node.get_put
  terms.get_put [where rest = "[]", simplified] fee_terms.get_put [where rest = "[]", simplified]
  node.get_put [where rest = "[]", simplified]
declare nested_get_put [wire_run]

end
