(* ===== verification/Codec_Offers.thy ===== *)
theory Codec_Offers
  imports Codec_Terms
begin

text \<open>
  Encoders and decoders of the offer-book messages of \<open>src/src/protocol.cpp\<close> (lines 424--688):
  terms, create/created/list/join/cancel offer and the candle request and series. For each pair
  the lemma \<open>..._codec\<close> says that the decoder accepts exactly the encoder's images of
  well-formed messages and inverts it.
\<close>

section \<open>Operations\<close>

definition encode_terms :: "TradeTerms \<Rightarrow> bytes result" where
  "encode_terms t = steps [append_terms t] []"

definition decode_terms :: "bytes \<Rightarrow> TradeTerms result" where
  "decode_terms = run_reader (
     pbind read_terms (\<lambda>t.
     pbind r_require_finished (\<lambda>_.
     preturn t)))"

definition encode_create_offer :: "CreateOfferMessage \<Rightarrow> bytes result" where
  "encode_create_offer m = steps
     [check (validate_terms (CreateOfferMessage.terms m)),
      check (validate_address (CreateOfferMessage.receive_address_a m)),
      append_terms (CreateOfferMessage.terms m),
      w_short_string (CreateOfferMessage.receive_address_a m) kMaxAddressLength] []"

definition decode_create_offer :: "bytes \<Rightarrow> CreateOfferMessage result" where
  "decode_create_offer = run_reader (
     pbind read_terms (\<lambda>t.
     pbind (r_short_string kMaxAddressLength) (\<lambda>addr.
     pbind (plift (validate_address addr)) (\<lambda>_.
     pbind r_require_finished (\<lambda>_.
     preturn \<lparr>CreateOfferMessage.terms = t, receive_address_a = addr\<rparr>)))))"

definition encode_offer_created :: "OfferCreatedMessage \<Rightarrow> bytes result" where
  "encode_offer_created m = steps
     [check (validate_room_id (OfferCreatedMessage.room_id m)),
      writer_fixed_id (OfferCreatedMessage.room_id m)] []"

definition decode_offer_created :: "bytes \<Rightarrow> OfferCreatedMessage result" where
  "decode_offer_created = run_reader (
     pbind (r_fixed_id 32) (\<lambda>i.
     pbind (plift (validate_room_id i)) (\<lambda>_.
     pbind r_require_finished (\<lambda>_.
     preturn \<lparr>OfferCreatedMessage.room_id = i\<rparr>))))"

definition encode_list_offers :: "ListOffersMessage \<Rightarrow> bytes result" where
  "encode_list_offers m = steps
     ([check (throw_if (limit m = 0 \<or> unat (limit m) > kMaxOfferPageEntries)
         (Invalid_argument ''invalid offer page size'')),
       check (if has_cursor m then validate_room_id (after_room_id m) else Inr ()),
       writer_u8 (if has_cursor m then 1 else 0)] @
      (if has_cursor m then [writer_fixed_id (after_room_id m)] else []) @
      [writer_u16 (limit m)]) []"

definition decode_list_offers :: "bytes \<Rightarrow> ListOffersMessage result" where
  "decode_list_offers = run_reader (
     pbind r_u8 (\<lambda>cursor_flag.
     pbind (plift (throw_if (cursor_flag > 1) (Runtime_error ''invalid offer cursor flag''))) (\<lambda>_.
     pbind (if cursor_flag = 1
            then pbind (r_fixed_id 32) (\<lambda>i. pbind (plift (validate_room_id i)) (\<lambda>_. preturn i))
            else preturn (zero_id 32)) (\<lambda>cursor.
     pbind r_u16 (\<lambda>lim.
     pbind (plift (throw_if (lim = 0 \<or> unat lim > kMaxOfferPageEntries)
              (Runtime_error ''invalid offer page size''))) (\<lambda>_.
     pbind r_require_finished (\<lambda>_.
     preturn \<lparr>has_cursor = (cursor_flag = 1), after_room_id = cursor, limit = lim\<rparr>)))))))"

definition offer_steps :: "OfferSummary \<Rightarrow> write_step list" where
  "offer_steps o1 =
     [check (validate_room_id (OfferSummary.room_id o1)),
      check (validate_terms (OfferSummary.terms o1)),
      writer_fixed_id (OfferSummary.room_id o1),
      append_terms (OfferSummary.terms o1)]"

definition read_offer :: "OfferSummary parser" where
  "read_offer =
     pbind (r_fixed_id 32) (\<lambda>i.
     pbind read_terms (\<lambda>t.
     pbind (plift (validate_room_id i)) (\<lambda>_.
     preturn \<lparr>OfferSummary.room_id = i, terms = t\<rparr>)))"

definition encode_offer_list :: "OfferListMessage \<Rightarrow> bytes result" where
  "encode_offer_list m = steps
     ([check (throw_if (length (offers m) > kMaxOfferPageEntries)
         (Invalid_argument ''offer page exceeds protocol limit''))] @
      (if has_more m then
        [check (validate_room_id (next_cursor m)),
         check (throw_if (offers m = [] \<or> next_cursor m \<noteq> OfferSummary.room_id (last (offers m)))
           (Invalid_argument ''invalid next offer cursor''))]
       else []) @
      [writer_u8 (if has_more m then 1 else 0)] @
      (if has_more m then [writer_fixed_id (next_cursor m)] else []) @
      [writer_u16 (of_nat (length (offers m))),
       for_steps offer_steps (offers m)]) []"

definition decode_offer_list :: "bytes \<Rightarrow> OfferListMessage result" where
  "decode_offer_list = run_reader (
     pbind r_u8 (\<lambda>more_flag.
     pbind (plift (throw_if (more_flag > 1)
              (Runtime_error ''invalid offer-page continuation flag''))) (\<lambda>_.
     pbind (if more_flag = 1
            then pbind (r_fixed_id 32) (\<lambda>i. pbind (plift (validate_room_id i)) (\<lambda>_. preturn i))
            else preturn (zero_id 32)) (\<lambda>cursor.
     pbind r_u16 (\<lambda>count.
     pbind (plift (throw_if (unat count > kMaxOfferPageEntries)
              (Runtime_error ''offer page exceeds protocol limit''))) (\<lambda>_.
     pbind (get_list (unat count) read_offer) (\<lambda>os.
     pbind (plift (throw_if (more_flag = 1 \<and> (os = [] \<or> cursor \<noteq> OfferSummary.room_id (last os)))
              (Runtime_error ''invalid next offer cursor''))) (\<lambda>_.
     pbind r_require_finished (\<lambda>_.
     preturn \<lparr>offers = os, has_more = (more_flag = 1), next_cursor = cursor\<rparr>)))))))))"

definition encode_get_candles :: "GetCandlesMessage \<Rightarrow> bytes result" where
  "encode_get_candles m = steps
     [check (validate_asset (GetCandlesMessage.asset_a m)),
      check (validate_asset (GetCandlesMessage.asset_b m)),
      w_short_string (GetCandlesMessage.asset_a m) kMaxAssetCodeLength,
      w_short_string (GetCandlesMessage.asset_b m) kMaxAssetCodeLength] []"

definition decode_get_candles :: "bytes \<Rightarrow> GetCandlesMessage result" where
  "decode_get_candles = run_reader (
     pbind (r_short_string kMaxAssetCodeLength) (\<lambda>a.
     pbind (r_short_string kMaxAssetCodeLength) (\<lambda>b.
     pbind (plift (validate_asset a)) (\<lambda>_.
     pbind (plift (validate_asset b)) (\<lambda>_.
     pbind r_require_finished (\<lambda>_.
     preturn \<lparr>GetCandlesMessage.asset_a = a, asset_b = b\<rparr>))))))"

definition tick_steps :: "TradeTick \<Rightarrow> write_step list" where
  "tick_steps t =
     [check (validate_trade_tick t),
      writer_u64 (TradeTick.timestamp t),
      writer_u64 (base_amount t),
      writer_u64 (quote_amount t)]"

definition read_tick :: "TradeTick parser" where
  "read_tick =
     pbind r_u64 (\<lambda>ts.
     pbind r_u64 (\<lambda>b.
     pbind r_u64 (\<lambda>q.
     let t = \<lparr>timestamp = ts, base_amount = b, quote_amount = q\<rparr> in
     pbind (plift (validate_trade_tick t)) (\<lambda>_.
     preturn t))))"

definition encode_candle_data :: "CandleDataMessage \<Rightarrow> bytes result" where
  "encode_candle_data m = steps
     [check (validate_asset (base_asset m)),
      check (validate_asset (quote_asset m)),
      check (throw_if (length (ticks m) > kMaxCandleTicksPerPair)
        (Invalid_argument ''candle series exceeds protocol limit'')),
      w_short_string (base_asset m) kMaxAssetCodeLength,
      w_short_string (quote_asset m) kMaxAssetCodeLength,
      writer_u16 (of_nat (length (ticks m))),
      for_steps tick_steps (ticks m)] []"

definition decode_candle_data :: "bytes \<Rightarrow> CandleDataMessage result" where
  "decode_candle_data = run_reader (
     pbind (r_short_string kMaxAssetCodeLength) (\<lambda>b.
     pbind (r_short_string kMaxAssetCodeLength) (\<lambda>q.
     pbind (plift (validate_asset b)) (\<lambda>_.
     pbind (plift (validate_asset q)) (\<lambda>_.
     pbind r_u16 (\<lambda>count.
     pbind (plift (throw_if (unat count > kMaxCandleTicksPerPair)
              (Runtime_error ''candle series exceeds protocol limit''))) (\<lambda>_.
     pbind (get_list (unat count) read_tick) (\<lambda>ts.
     pbind r_require_finished (\<lambda>_.
     preturn \<lparr>base_asset = b, quote_asset = q, ticks = ts\<rparr>)))))))))"

definition encode_join_offer :: "JoinOfferMessage \<Rightarrow> bytes result" where
  "encode_join_offer m = steps
     [check (validate_room_id (JoinOfferMessage.room_id m)),
      check (validate_address (JoinOfferMessage.receive_address_b m)),
      writer_fixed_id (JoinOfferMessage.room_id m),
      w_short_string (JoinOfferMessage.receive_address_b m) kMaxAddressLength] []"

definition decode_join_offer :: "bytes \<Rightarrow> JoinOfferMessage result" where
  "decode_join_offer = run_reader (
     pbind (r_fixed_id 32) (\<lambda>i.
     pbind (r_short_string kMaxAddressLength) (\<lambda>addr.
     pbind (plift (validate_room_id i)) (\<lambda>_.
     pbind (plift (validate_address addr)) (\<lambda>_.
     pbind r_require_finished (\<lambda>_.
     preturn \<lparr>JoinOfferMessage.room_id = i, receive_address_b = addr\<rparr>))))))"

definition encode_cancel_offer :: "CancelOfferMessage \<Rightarrow> bytes result" where
  "encode_cancel_offer m = steps
     [check (validate_room_id (CancelOfferMessage.room_id m)),
      writer_fixed_id (CancelOfferMessage.room_id m)] []"

definition decode_cancel_offer :: "bytes \<Rightarrow> CancelOfferMessage result" where
  "decode_cancel_offer = run_reader (
     pbind (r_fixed_id 32) (\<lambda>i.
     pbind (plift (validate_room_id i)) (\<lambda>_.
     pbind r_require_finished (\<lambda>_.
     preturn \<lparr>CancelOfferMessage.room_id = i\<rparr>))))"

definition encode_offer_cancelled :: "OfferCancelledMessage \<Rightarrow> bytes result" where
  "encode_offer_cancelled m = steps
     [check (validate_room_id (OfferCancelledMessage.room_id m)),
      writer_fixed_id (OfferCancelledMessage.room_id m)] []"

definition decode_offer_cancelled :: "bytes \<Rightarrow> OfferCancelledMessage result" where
  "decode_offer_cancelled = run_reader (
     pbind (r_fixed_id 32) (\<lambda>i.
     pbind (plift (validate_room_id i)) (\<lambda>_.
     pbind r_require_finished (\<lambda>_.
     preturn \<lparr>OfferCancelledMessage.room_id = i\<rparr>))))"

section \<open>Well-formedness: array sizes and defaults of absent fields\<close>

definition wf_list_offers :: "ListOffersMessage \<Rightarrow> bool" where
  "wf_list_offers m \<longleftrightarrow> is_room_id (after_room_id m) \<and>
     (has_cursor m \<or> after_room_id m = zero_id 32)"

definition valid_offer :: "OfferSummary \<Rightarrow> bool" where
  "valid_offer s \<longleftrightarrow> is_room_id (OfferSummary.room_id s) \<and> nonzero (OfferSummary.room_id s) \<and>
     valid_terms (OfferSummary.terms s)"

definition put_offer :: "OfferSummary \<Rightarrow> bytes" where
  "put_offer s = OfferSummary.room_id s @ put_terms (OfferSummary.terms s)"

definition wf_offer_list :: "OfferListMessage \<Rightarrow> bool" where
  "wf_offer_list m \<longleftrightarrow> is_room_id (next_cursor m) \<and> (has_more m \<or> next_cursor m = zero_id 32) \<and>
     (\<forall>s\<in>set (offers m). is_room_id (OfferSummary.room_id s))"

definition valid_tick :: "TradeTick \<Rightarrow> bool" where
  "valid_tick t \<longleftrightarrow> validate_trade_tick t = Inr ()"

definition put_tick :: "TradeTick \<Rightarrow> bytes" where
  "put_tick t = put_u64 (TradeTick.timestamp t) @ put_u64 (base_amount t) @ put_u64 (quote_amount t)"

interpretation offer: codec put_offer read_offer valid_offer
proof (rule codecI)
  fix pre rest s
  assume "valid_offer s"
  then show "read_offer (at pre (put_offer s @ rest)) = Inr (s, at (pre @ put_offer s) rest)"
    by (cases s) (simp add: valid_offer_def read_offer_def put_offer_def is_room_id_def wire_run)
next
  fix pre bs s r
  assume "read_offer (at pre bs) = Inr (s, r)"
  then show "valid_offer s \<and> (\<exists>rest. bs = put_offer s @ rest \<and> r = at (pre @ put_offer s) rest)"
    by (auto simp: read_offer_def put_offer_def valid_offer_def is_room_id_def wire_simps valid_simps)
qed

interpretation tick: codec put_tick read_tick valid_tick
proof (rule codecI)
  fix pre rest s
  assume "valid_tick s"
  then show "read_tick (at pre (put_tick s @ rest)) = Inr (s, at (pre @ put_tick s) rest)"
    by (cases s) (simp add: valid_tick_def read_tick_def put_tick_def wire_run Let_def)
next
  fix pre bs s r
  assume "read_tick (at pre bs) = Inr (s, r)"
  then show "valid_tick s \<and> (\<exists>rest. bs = put_tick s @ rest \<and> r = at (pre @ put_tick s) rest)"
    by (auto simp: read_tick_def put_tick_def valid_tick_def wire_simps Let_def)
qed

lemmas offers_get_at = offer.get_list_at tick.get_list_at
declare offers_get_at [wire_simps]

lemmas offers_get_put = offer.get_list_put tick.get_list_put offer.get_list_put_last
  tick.get_list_put_last
declare offers_get_put [wire_run]

lemma offer_loop_ok [wire_simps]:
  "for_steps offer_steps os w = Inr w' \<longleftrightarrow>
     (\<forall>s\<in>set os. nonzero (OfferSummary.room_id s) \<and> valid_terms (OfferSummary.terms s)) \<and>
     w' = w @ concat (map put_offer os)"
  by (rule for_steps_ok) (auto simp: offer_steps_def put_offer_def wire_simps exn_simps valid_simps)

lemma tick_loop_ok [wire_simps]:
  "for_steps tick_steps ts w = Inr w' \<longleftrightarrow> (\<forall>t\<in>set ts. valid_tick t) \<and> w' = w @ concat (map put_tick ts)"
  by (rule for_steps_ok) (auto simp: tick_steps_def put_tick_def valid_tick_def wire_simps exn_simps)

section \<open>Encoders and decoders are inverse\<close>

lemmas codec_defs = is_room_id_def is_client_id_def is_invite_id_def is_pin_def

lemma terms_codec: "decode_terms bs = Inr t \<longleftrightarrow> encode_terms t = Inr bs"
proof
  assume "decode_terms bs = Inr t"
  then show "encode_terms t = Inr bs"
    by (auto simp: decode_terms_def encode_terms_def wire_simps exn_simps)
next
  assume "encode_terms t = Inr bs"
  then show "decode_terms bs = Inr t"
    by (clarsimp simp: encode_terms_def wire_simps exn_simps) (simp add: decode_terms_def wire_run)
qed

lemma create_offer_codec: "decode_create_offer bs = Inr m \<longleftrightarrow> encode_create_offer m = Inr bs"
proof
  assume "decode_create_offer bs = Inr m"
  then show "encode_create_offer m = Inr bs"
    by (auto simp: decode_create_offer_def encode_create_offer_def wire_simps exn_simps)
next
  assume "encode_create_offer m = Inr bs"
  then show "decode_create_offer bs = Inr m"
    by (cases m) (clarsimp simp: encode_create_offer_def wire_simps exn_simps,
        simp add: decode_create_offer_def wire_run)
qed

lemma offer_created_codec:
  "decode_offer_created bs = Inr m \<longleftrightarrow>
     encode_offer_created m = Inr bs \<and> is_room_id (OfferCreatedMessage.room_id m)"
proof
  assume "decode_offer_created bs = Inr m"
  then show "encode_offer_created m = Inr bs \<and> is_room_id (OfferCreatedMessage.room_id m)"
    by (auto simp: decode_offer_created_def encode_offer_created_def codec_defs wire_simps exn_simps)
next
  assume "encode_offer_created m = Inr bs \<and> is_room_id (OfferCreatedMessage.room_id m)"
  then show "decode_offer_created bs = Inr m"
    by (cases m) (clarsimp simp: encode_offer_created_def codec_defs wire_simps exn_simps,
        simp add: decode_offer_created_def wire_run)
qed

lemma join_offer_codec:
  "decode_join_offer bs = Inr m \<longleftrightarrow>
     encode_join_offer m = Inr bs \<and> is_room_id (JoinOfferMessage.room_id m)"
proof
  assume "decode_join_offer bs = Inr m"
  then show "encode_join_offer m = Inr bs \<and> is_room_id (JoinOfferMessage.room_id m)"
    by (auto simp: decode_join_offer_def encode_join_offer_def codec_defs wire_simps exn_simps)
next
  assume "encode_join_offer m = Inr bs \<and> is_room_id (JoinOfferMessage.room_id m)"
  then show "decode_join_offer bs = Inr m"
    by (cases m) (clarsimp simp: encode_join_offer_def codec_defs wire_simps exn_simps,
        simp add: decode_join_offer_def wire_run)
qed

lemma cancel_offer_codec:
  "decode_cancel_offer bs = Inr m \<longleftrightarrow>
     encode_cancel_offer m = Inr bs \<and> is_room_id (CancelOfferMessage.room_id m)"
proof
  assume "decode_cancel_offer bs = Inr m"
  then show "encode_cancel_offer m = Inr bs \<and> is_room_id (CancelOfferMessage.room_id m)"
    by (auto simp: decode_cancel_offer_def encode_cancel_offer_def codec_defs wire_simps exn_simps)
next
  assume "encode_cancel_offer m = Inr bs \<and> is_room_id (CancelOfferMessage.room_id m)"
  then show "decode_cancel_offer bs = Inr m"
    by (cases m) (clarsimp simp: encode_cancel_offer_def codec_defs wire_simps exn_simps,
        simp add: decode_cancel_offer_def wire_run)
qed

lemma offer_cancelled_codec:
  "decode_offer_cancelled bs = Inr m \<longleftrightarrow>
     encode_offer_cancelled m = Inr bs \<and> is_room_id (OfferCancelledMessage.room_id m)"
proof
  assume "decode_offer_cancelled bs = Inr m"
  then show "encode_offer_cancelled m = Inr bs \<and> is_room_id (OfferCancelledMessage.room_id m)"
    by (auto simp: decode_offer_cancelled_def encode_offer_cancelled_def codec_defs wire_simps exn_simps)
next
  assume "encode_offer_cancelled m = Inr bs \<and> is_room_id (OfferCancelledMessage.room_id m)"
  then show "decode_offer_cancelled bs = Inr m"
    by (cases m) (clarsimp simp: encode_offer_cancelled_def codec_defs wire_simps exn_simps,
        simp add: decode_offer_cancelled_def wire_run)
qed

lemma get_candles_codec: "decode_get_candles bs = Inr m \<longleftrightarrow> encode_get_candles m = Inr bs"
proof
  assume "decode_get_candles bs = Inr m"
  then show "encode_get_candles m = Inr bs"
    by (auto simp: decode_get_candles_def encode_get_candles_def codec_defs wire_simps exn_simps)
next
  assume "encode_get_candles m = Inr bs"
  then show "decode_get_candles bs = Inr m"
    by (cases m) (clarsimp simp: encode_get_candles_def codec_defs wire_simps exn_simps,
        simp add: decode_get_candles_def wire_run)
qed

lemma candle_data_codec: "decode_candle_data bs = Inr m \<longleftrightarrow> encode_candle_data m = Inr bs"
proof
  assume "decode_candle_data bs = Inr m"
  then show "encode_candle_data m = Inr bs"
    by (auto simp: decode_candle_data_def encode_candle_data_def codec_defs wire_simps exn_simps)
next
  assume "encode_candle_data m = Inr bs"
  then show "decode_candle_data bs = Inr m"
    by (cases m) (clarsimp simp: encode_candle_data_def codec_defs wire_simps exn_simps,
        simp add: decode_candle_data_def wire_run)
qed

lemma list_offers_codec:
  "decode_list_offers bs = Inr m \<longleftrightarrow>
     encode_list_offers m = Inr bs \<and> wf_list_offers m"
proof
  assume "decode_list_offers bs = Inr m"
  then show "encode_list_offers m = Inr bs \<and> wf_list_offers m"
    by (auto simp: decode_list_offers_def encode_list_offers_def wf_list_offers_def codec_defs wire_simps exn_simps)
next
  assume "encode_list_offers m = Inr bs \<and> wf_list_offers m"
  then show "decode_list_offers bs = Inr m"
    by (cases "has_cursor m"; cases m;
        clarsimp simp: encode_list_offers_def wf_list_offers_def codec_defs wire_simps exn_simps;
        simp add: decode_list_offers_def wire_run)
qed

lemma offer_list_codec: "decode_offer_list bs = Inr m \<longleftrightarrow> encode_offer_list m = Inr bs \<and> wf_offer_list m"
proof
  assume "decode_offer_list bs = Inr m"
  then show "encode_offer_list m = Inr bs \<and> wf_offer_list m"
    by (auto simp: decode_offer_list_def encode_offer_list_def wf_offer_list_def valid_offer_def codec_defs wire_simps exn_simps)
next
  assume "encode_offer_list m = Inr bs \<and> wf_offer_list m"
  then show "decode_offer_list bs = Inr m"
    by (cases "has_more m"; cases m;
        clarsimp simp: encode_offer_list_def wf_offer_list_def codec_defs wire_simps exn_simps;
        simp add: decode_offer_list_def valid_offer_def codec_defs wire_run)
qed

section \<open>The message contract holds\<close>

interpretation terms_msg: message_codec encode_terms decode_terms "\<lambda>_. True"
  by unfold_locales (simp add: terms_codec)

interpretation create_offer_msg: message_codec encode_create_offer decode_create_offer
  "\<lambda>_. True"
  by unfold_locales (simp add: create_offer_codec)

interpretation offer_created_msg: message_codec encode_offer_created decode_offer_created
  "\<lambda>m. is_room_id (OfferCreatedMessage.room_id m)"
  by unfold_locales (simp add: offer_created_codec)

interpretation join_offer_msg: message_codec encode_join_offer decode_join_offer
  "\<lambda>m. is_room_id (JoinOfferMessage.room_id m)"
  by unfold_locales (simp add: join_offer_codec)

interpretation cancel_offer_msg: message_codec encode_cancel_offer decode_cancel_offer
  "\<lambda>m. is_room_id (CancelOfferMessage.room_id m)"
  by unfold_locales (simp add: cancel_offer_codec)

interpretation offer_cancelled_msg: message_codec encode_offer_cancelled decode_offer_cancelled
  "\<lambda>m. is_room_id (OfferCancelledMessage.room_id m)"
  by unfold_locales (simp add: offer_cancelled_codec)

interpretation get_candles_msg: message_codec encode_get_candles decode_get_candles
  "\<lambda>_. True"
  by unfold_locales (simp add: get_candles_codec)

interpretation candle_data_msg: message_codec encode_candle_data decode_candle_data
  "\<lambda>_. True"
  by unfold_locales (simp add: candle_data_codec)

interpretation list_offers_msg: message_codec encode_list_offers decode_list_offers
  wf_list_offers
  by unfold_locales (simp add: list_offers_codec)

interpretation offer_list_msg: message_codec encode_offer_list decode_offer_list
  wf_offer_list
  by unfold_locales (simp add: offer_list_codec)

end
