(* ===== verification/Codec_Trade.thy ===== *)
theory Codec_Trade
  imports Codec_Offers
begin

text \<open>
  Encoders and decoders of the connection, invitation and settlement messages of
  \<open>src/src/protocol.cpp\<close> (lines 690--1005), each pair with its \<open>..._codec\<close> lemma. The one
  asymmetry of the file is \<open>is_fee\<close> of a turn, which the decoder reads from any nonzero byte:
  \<open>turn_codec\<close> therefore states the two directions separately.
\<close>

section \<open>Operations\<close>

definition encode_welcome :: "WelcomeMessage \<Rightarrow> bytes result" where
  "encode_welcome m = steps
     [check (validate_client_id (WelcomeMessage.client_id m)),
      writer_fixed_id (WelcomeMessage.client_id m),
      append_fee_terms (WelcomeMessage.fee m)] []"

definition decode_welcome :: "bytes \<Rightarrow> WelcomeMessage result" where
  "decode_welcome = run_reader (
     pbind (r_fixed_id 16) (\<lambda>i.
     pbind read_fee_terms (\<lambda>f.
     pbind (plift (validate_client_id i)) (\<lambda>_.
     pbind r_require_finished (\<lambda>_.
     preturn \<lparr>WelcomeMessage.client_id = i, fee = f\<rparr>)))))"

definition peer_steps :: "ClientId \<Rightarrow> write_step list" where
  "peer_steps peer = [check (validate_client_id peer), writer_fixed_id peer]"

definition read_peer :: "ClientId parser" where
  "read_peer =
     pbind (r_fixed_id 16) (\<lambda>peer.
     pbind (plift (validate_client_id peer)) (\<lambda>_.
     preturn peer))"

definition encode_peer_list :: "PeerListMessage \<Rightarrow> bytes result" where
  "encode_peer_list m = steps
     [check (throw_if (length (peers m) > kMaxPeerListEntries)
        (Invalid_argument ''peer list exceeds protocol limit'')),
      writer_u16 (of_nat (length (peers m))),
      for_steps peer_steps (peers m)] []"

definition decode_peer_list :: "bytes \<Rightarrow> PeerListMessage result" where
  "decode_peer_list = run_reader (
     pbind r_u16 (\<lambda>count.
     pbind (plift (throw_if (unat count > kMaxPeerListEntries)
              (Runtime_error ''peer list exceeds protocol limit''))) (\<lambda>_.
     pbind (get_list (unat count) read_peer) (\<lambda>ps.
     pbind r_require_finished (\<lambda>_.
     preturn \<lparr>peers = ps\<rparr>)))))"

definition encode_invite_trade :: "InviteTradeMessage \<Rightarrow> bytes result" where
  "encode_invite_trade m = steps
     [check (validate_client_id (InviteTradeMessage.target m)),
      check (validate_terms (InviteTradeMessage.terms m)),
      check (validate_address (InviteTradeMessage.receive_address_a m)),
      writer_fixed_id (InviteTradeMessage.target m),
      append_terms (InviteTradeMessage.terms m),
      w_short_string (InviteTradeMessage.receive_address_a m) kMaxAddressLength] []"

definition decode_invite_trade :: "bytes \<Rightarrow> InviteTradeMessage result" where
  "decode_invite_trade = run_reader (
     pbind (r_fixed_id 16) (\<lambda>i.
     pbind read_terms (\<lambda>t.
     pbind (r_short_string kMaxAddressLength) (\<lambda>addr.
     pbind (plift (validate_client_id i)) (\<lambda>_.
     pbind (plift (validate_address addr)) (\<lambda>_.
     pbind r_require_finished (\<lambda>_.
     preturn \<lparr>InviteTradeMessage.target = i, terms = t, receive_address_a = addr\<rparr>)))))))"

definition encode_invite_created :: "InviteCreatedMessage \<Rightarrow> bytes result" where
  "encode_invite_created m = steps
     [check (validate_invite_id (InviteCreatedMessage.invite_id m)),
      check (validate_client_id (InviteCreatedMessage.target m)),
      writer_fixed_id (InviteCreatedMessage.invite_id m),
      writer_fixed_id (InviteCreatedMessage.target m)] []"

definition decode_invite_created :: "bytes \<Rightarrow> InviteCreatedMessage result" where
  "decode_invite_created = run_reader (
     pbind (r_fixed_id 16) (\<lambda>i.
     pbind (r_fixed_id 16) (\<lambda>t.
     pbind (plift (validate_invite_id i)) (\<lambda>_.
     pbind (plift (validate_client_id t)) (\<lambda>_.
     pbind r_require_finished (\<lambda>_.
     preturn \<lparr>InviteCreatedMessage.invite_id = i, target = t\<rparr>))))))"

definition encode_invite_received :: "InviteReceivedMessage \<Rightarrow> bytes result" where
  "encode_invite_received m = steps
     [check (validate_invite_id (InviteReceivedMessage.invite_id m)),
      check (validate_client_id (InviteReceivedMessage.sender m)),
      check (validate_terms (InviteReceivedMessage.terms m)),
      check (validate_address (InviteReceivedMessage.receive_address_a m)),
      writer_fixed_id (InviteReceivedMessage.invite_id m),
      writer_fixed_id (InviteReceivedMessage.sender m),
      append_terms (InviteReceivedMessage.terms m),
      w_short_string (InviteReceivedMessage.receive_address_a m) kMaxAddressLength] []"

definition decode_invite_received :: "bytes \<Rightarrow> InviteReceivedMessage result" where
  "decode_invite_received = run_reader (
     pbind (r_fixed_id 16) (\<lambda>i.
     pbind (r_fixed_id 16) (\<lambda>s.
     pbind read_terms (\<lambda>t.
     pbind (r_short_string kMaxAddressLength) (\<lambda>addr.
     pbind (plift (validate_invite_id i)) (\<lambda>_.
     pbind (plift (validate_client_id s)) (\<lambda>_.
     pbind (plift (validate_address addr)) (\<lambda>_.
     pbind r_require_finished (\<lambda>_.
     preturn \<lparr>InviteReceivedMessage.invite_id = i, sender = s, terms = t,
              receive_address_a = addr\<rparr>)))))))))"

definition encode_accept_invite :: "AcceptInviteMessage \<Rightarrow> bytes result" where
  "encode_accept_invite m = steps
     [check (validate_invite_id (AcceptInviteMessage.invite_id m)),
      check (validate_address (AcceptInviteMessage.receive_address_b m)),
      writer_fixed_id (AcceptInviteMessage.invite_id m),
      w_short_string (AcceptInviteMessage.receive_address_b m) kMaxAddressLength] []"

definition decode_accept_invite :: "bytes \<Rightarrow> AcceptInviteMessage result" where
  "decode_accept_invite = run_reader (
     pbind (r_fixed_id 16) (\<lambda>i.
     pbind (r_short_string kMaxAddressLength) (\<lambda>addr.
     pbind (plift (validate_invite_id i)) (\<lambda>_.
     pbind (plift (validate_address addr)) (\<lambda>_.
     pbind r_require_finished (\<lambda>_.
     preturn \<lparr>AcceptInviteMessage.invite_id = i, receive_address_b = addr\<rparr>))))))"

definition encode_decline_invite :: "DeclineInviteMessage \<Rightarrow> bytes result" where
  "encode_decline_invite m = steps
     [check (validate_invite_id (DeclineInviteMessage.invite_id m)),
      writer_fixed_id (DeclineInviteMessage.invite_id m)] []"

definition decode_decline_invite :: "bytes \<Rightarrow> DeclineInviteMessage result" where
  "decode_decline_invite = run_reader (
     pbind (r_fixed_id 16) (\<lambda>i.
     pbind (plift (validate_invite_id i)) (\<lambda>_.
     pbind r_require_finished (\<lambda>_.
     preturn \<lparr>DeclineInviteMessage.invite_id = i\<rparr>))))"

definition encode_invite_declined :: "InviteDeclinedMessage \<Rightarrow> bytes result" where
  "encode_invite_declined m = steps
     [check (validate_invite_id (InviteDeclinedMessage.invite_id m)),
      writer_fixed_id (InviteDeclinedMessage.invite_id m)] []"

definition decode_invite_declined :: "bytes \<Rightarrow> InviteDeclinedMessage result" where
  "decode_invite_declined = run_reader (
     pbind (r_fixed_id 16) (\<lambda>i.
     pbind (plift (validate_invite_id i)) (\<lambda>_.
     pbind r_require_finished (\<lambda>_.
     preturn \<lparr>InviteDeclinedMessage.invite_id = i\<rparr>))))"

definition encode_trade_ready :: "TradeReadyMessage \<Rightarrow> bytes result" where
  "encode_trade_ready m = steps
     [check (validate_room_id (TradeReadyMessage.room_id m)),
      check (validate_party (assigned_party m)),
      check (validate_client_id (peer_id m)),
      check (validate_terms (TradeReadyMessage.terms m)),
      check (validate_address (TradeReadyMessage.receive_address_a m)),
      check (validate_address (TradeReadyMessage.receive_address_b m)),
      writer_fixed_id (TradeReadyMessage.room_id m),
      writer_u8 (byte_of_party (assigned_party m)),
      writer_fixed_id (peer_id m),
      append_terms (TradeReadyMessage.terms m),
      w_short_string (TradeReadyMessage.receive_address_a m) kMaxAddressLength,
      w_short_string (TradeReadyMessage.receive_address_b m) kMaxAddressLength,
      append_fee_terms (TradeReadyMessage.fee m)] []"

definition decode_trade_ready :: "bytes \<Rightarrow> TradeReadyMessage result" where
  "decode_trade_ready = run_reader (
     pbind (r_fixed_id 32) (\<lambda>i.
     pbind r_u8 (\<lambda>p.
     pbind (r_fixed_id 16) (\<lambda>peer.
     pbind read_terms (\<lambda>t.
     pbind (r_short_string kMaxAddressLength) (\<lambda>a.
     pbind (r_short_string kMaxAddressLength) (\<lambda>b.
     pbind read_fee_terms (\<lambda>f.
     pbind (plift (validate_room_id i)) (\<lambda>_.
     pbind (plift (validate_party (party_of_byte p))) (\<lambda>_.
     pbind (plift (validate_client_id peer)) (\<lambda>_.
     pbind (plift (validate_address a)) (\<lambda>_.
     pbind (plift (validate_address b)) (\<lambda>_.
     pbind r_require_finished (\<lambda>_.
     preturn \<lparr>TradeReadyMessage.room_id = i, assigned_party = party_of_byte p, peer_id = peer,
              terms = t, receive_address_a = a, receive_address_b = b, fee = f\<rparr>))))))))))))))"

definition encode_turn :: "TurnMessage \<Rightarrow> bytes result" where
  "encode_turn m = steps
     [check (validate_room_id (TurnMessage.room_id m)),
      check (validate_party (TurnMessage.sender m)),
      check (validate_asset (TurnMessage.asset m)),
      check (validate_address (destination m)),
      check (throw_if (TurnMessage.amount m = 0) (Invalid_argument ''turn amount must be positive'')),
      writer_fixed_id (TurnMessage.room_id m),
      writer_u32 (TurnMessage.round_index m),
      writer_u8 (byte_of_party (TurnMessage.sender m)),
      w_short_string (TurnMessage.asset m) kMaxAssetCodeLength,
      writer_u64 (TurnMessage.amount m),
      w_short_string (destination m) kMaxAddressLength,
      writer_u8 (if is_fee m then 1 else 0)] []"

definition decode_turn :: "bytes \<Rightarrow> TurnMessage result" where
  "decode_turn = run_reader (
     pbind (r_fixed_id 32) (\<lambda>i.
     pbind r_u32 (\<lambda>n.
     pbind r_u8 (\<lambda>p.
     pbind (r_short_string kMaxAssetCodeLength) (\<lambda>a.
     pbind r_u64 (\<lambda>q.
     pbind (r_short_string kMaxAddressLength) (\<lambda>d.
     pbind r_u8 (\<lambda>fee_flag.
     pbind (plift (validate_room_id i)) (\<lambda>_.
     pbind (plift (validate_party (party_of_byte p))) (\<lambda>_.
     pbind (plift (validate_asset a)) (\<lambda>_.
     pbind (plift (validate_address d)) (\<lambda>_.
     pbind (plift (throw_if (q = 0) (Invalid_argument ''turn amount must be positive''))) (\<lambda>_.
     pbind r_require_finished (\<lambda>_.
     preturn \<lparr>TurnMessage.room_id = i, round_index = n, sender = party_of_byte p, asset = a,
              amount = q, destination = d, is_fee = (fee_flag \<noteq> 0)\<rparr>))))))))))))))"

definition encode_round_signal :: "RoundSignalMessage \<Rightarrow> bytes result" where
  "encode_round_signal m = steps
     [check (validate_room_id (RoundSignalMessage.room_id m)),
      check (validate_party (RoundSignalMessage.sender m)),
      writer_fixed_id (RoundSignalMessage.room_id m),
      writer_u32 (RoundSignalMessage.round_index m),
      writer_u8 (byte_of_party (RoundSignalMessage.sender m))] []"

definition decode_round_signal :: "bytes \<Rightarrow> RoundSignalMessage result" where
  "decode_round_signal = run_reader (
     pbind (r_fixed_id 32) (\<lambda>i.
     pbind r_u32 (\<lambda>n.
     pbind r_u8 (\<lambda>p.
     pbind (plift (validate_room_id i)) (\<lambda>_.
     pbind (plift (validate_party (party_of_byte p))) (\<lambda>_.
     pbind r_require_finished (\<lambda>_.
     preturn \<lparr>RoundSignalMessage.room_id = i, round_index = n, sender = party_of_byte p\<rparr>)))))))"

definition encode_complete :: "CompleteMessage \<Rightarrow> bytes result" where
  "encode_complete m = steps
     [check (validate_room_id (CompleteMessage.room_id m)),
      writer_fixed_id (CompleteMessage.room_id m)] []"

definition decode_complete :: "bytes \<Rightarrow> CompleteMessage result" where
  "decode_complete = run_reader (
     pbind (r_fixed_id 32) (\<lambda>i.
     pbind (plift (validate_room_id i)) (\<lambda>_.
     pbind r_require_finished (\<lambda>_.
     preturn \<lparr>CompleteMessage.room_id = i\<rparr>))))"

definition encode_abort :: "AbortMessage \<Rightarrow> bytes result" where
  "encode_abort m = steps
     [check (validate_room_id (AbortMessage.room_id m)),
      check (validate_reason (AbortMessage.reason m)),
      writer_fixed_id (AbortMessage.room_id m),
      w_short_string (AbortMessage.reason m) kMaxReasonLength] []"

definition decode_abort :: "bytes \<Rightarrow> AbortMessage result" where
  "decode_abort = run_reader (
     pbind (r_fixed_id 32) (\<lambda>i.
     pbind (r_short_string kMaxReasonLength) (\<lambda>s.
     pbind (plift (validate_room_id i)) (\<lambda>_.
     pbind (plift (validate_reason s)) (\<lambda>_.
     pbind r_require_finished (\<lambda>_.
     preturn \<lparr>AbortMessage.room_id = i, reason = s\<rparr>))))))"

definition encode_error :: "ErrorMessage \<Rightarrow> bytes result" where
  "encode_error m = steps
     [check (validate_reason (ErrorMessage.reason m)),
      w_short_string (ErrorMessage.reason m) kMaxReasonLength] []"

definition decode_error :: "bytes \<Rightarrow> ErrorMessage result" where
  "decode_error = run_reader (
     pbind (r_short_string kMaxReasonLength) (\<lambda>s.
     pbind (plift (validate_reason s)) (\<lambda>_.
     pbind r_require_finished (\<lambda>_.
     preturn \<lparr>ErrorMessage.reason = s\<rparr>))))"

section \<open>Encoders and decoders are inverse\<close>

lemma party_forward [wire_run]:
  "validate_party p = Inr () \<Longrightarrow> party_of_byte (byte_of_party p) = p"
  by (auto simp: valid_simps party_roundtrip)

definition valid_peer :: "ClientId \<Rightarrow> bool" where
  "valid_peer i \<longleftrightarrow> is_client_id i \<and> nonzero i"

interpretation peer: codec "\<lambda>i. i" read_peer valid_peer
proof (rule codecI)
  fix pre rest i
  assume "valid_peer i"
  then show "read_peer (at pre (i @ rest)) = Inr (i, at (pre @ i) rest)"
    by (simp add: valid_peer_def is_client_id_def read_peer_def wire_run)
next
  fix pre bs i r
  assume "read_peer (at pre bs) = Inr (i, r)"
  then show "valid_peer i \<and> (\<exists>rest. bs = i @ rest \<and> r = at (pre @ i) rest)"
    by (auto simp: read_peer_def valid_peer_def is_client_id_def wire_simps valid_simps)
qed

lemma read_peers_run [wire_run]:
  "length ps = n \<Longrightarrow> \<forall>p\<in>set ps. valid_peer p \<Longrightarrow>
     get_list n read_peer (at pre (concat ps)) = Inr (ps, at (pre @ concat ps) [])"
  using peer.get_list_put_last [of ps n pre] by simp

declare peer.get_list_at [wire_simps]

lemma peer_loop_ok [wire_simps]:
  "for_steps peer_steps ps w = Inr w' \<longleftrightarrow>
     (\<forall>p\<in>set ps. nonzero p) \<and> w' = w @ concat (map (\<lambda>i. i) ps)"
  by (rule for_steps_ok) (auto simp: peer_steps_def wire_simps valid_simps exn_simps)

lemma welcome_codec:
  "decode_welcome bs = Inr m \<longleftrightarrow>
     encode_welcome m = Inr bs \<and> is_client_id (WelcomeMessage.client_id m)"
proof
  assume "decode_welcome bs = Inr m"
  then show "encode_welcome m = Inr bs \<and> is_client_id (WelcomeMessage.client_id m)"
    by (auto simp: decode_welcome_def encode_welcome_def codec_defs
        wire_simps exn_simps)
next
  assume "encode_welcome m = Inr bs \<and> is_client_id (WelcomeMessage.client_id m)"
  then show "decode_welcome bs = Inr m"
    by (cases m) (clarsimp simp: encode_welcome_def codec_defs wire_simps exn_simps,
        simp add: decode_welcome_def wire_run)
qed

lemma peer_list_codec:
  "decode_peer_list bs = Inr m \<longleftrightarrow>
     encode_peer_list m = Inr bs \<and> (\<forall>p\<in>set (peers m). is_client_id p)"
proof
  assume "decode_peer_list bs = Inr m"
  then show "encode_peer_list m = Inr bs \<and> (\<forall>p\<in>set (peers m). is_client_id p)"
    by (auto simp: decode_peer_list_def encode_peer_list_def valid_peer_def codec_defs
        wire_simps exn_simps)
next
  assume "encode_peer_list m = Inr bs \<and> (\<forall>p\<in>set (peers m). is_client_id p)"
  then show "decode_peer_list bs = Inr m"
    by (cases m) (clarsimp simp: encode_peer_list_def valid_peer_def codec_defs wire_simps exn_simps,
        simp add: decode_peer_list_def valid_peer_def codec_defs wire_run)
qed

lemma invite_trade_codec:
  "decode_invite_trade bs = Inr m \<longleftrightarrow>
     encode_invite_trade m = Inr bs \<and> is_client_id (InviteTradeMessage.target m)"
proof
  assume "decode_invite_trade bs = Inr m"
  then show "encode_invite_trade m = Inr bs \<and> is_client_id (InviteTradeMessage.target m)"
    by (auto simp: decode_invite_trade_def encode_invite_trade_def codec_defs
        wire_simps exn_simps)
next
  assume "encode_invite_trade m = Inr bs \<and> is_client_id (InviteTradeMessage.target m)"
  then show "decode_invite_trade bs = Inr m"
    by (cases m) (clarsimp simp: encode_invite_trade_def codec_defs wire_simps exn_simps,
        simp add: decode_invite_trade_def wire_run)
qed

lemma invite_created_codec:
  "decode_invite_created bs = Inr m \<longleftrightarrow>
     encode_invite_created m = Inr bs \<and> is_invite_id (InviteCreatedMessage.invite_id m) \<and>
     is_client_id (InviteCreatedMessage.target m)"
proof
  assume "decode_invite_created bs = Inr m"
  then show "encode_invite_created m = Inr bs \<and> is_invite_id (InviteCreatedMessage.invite_id m) \<and>
     is_client_id (InviteCreatedMessage.target m)"
    by (auto simp: decode_invite_created_def encode_invite_created_def codec_defs
        wire_simps exn_simps)
next
  assume "encode_invite_created m = Inr bs \<and> is_invite_id (InviteCreatedMessage.invite_id m) \<and>
     is_client_id (InviteCreatedMessage.target m)"
  then show "decode_invite_created bs = Inr m"
    by (cases m) (clarsimp simp: encode_invite_created_def codec_defs wire_simps exn_simps,
        simp add: decode_invite_created_def wire_run)
qed

lemma invite_received_codec:
  "decode_invite_received bs = Inr m \<longleftrightarrow>
     encode_invite_received m = Inr bs \<and> is_invite_id (InviteReceivedMessage.invite_id m) \<and>
     is_client_id (InviteReceivedMessage.sender m)"
proof
  assume "decode_invite_received bs = Inr m"
  then show "encode_invite_received m = Inr bs \<and> is_invite_id (InviteReceivedMessage.invite_id m) \<and>
     is_client_id (InviteReceivedMessage.sender m)"
    by (auto simp: decode_invite_received_def encode_invite_received_def codec_defs
        wire_simps exn_simps)
next
  assume "encode_invite_received m = Inr bs \<and> is_invite_id (InviteReceivedMessage.invite_id m) \<and>
     is_client_id (InviteReceivedMessage.sender m)"
  then show "decode_invite_received bs = Inr m"
    by (cases m) (clarsimp simp: encode_invite_received_def codec_defs wire_simps exn_simps,
        simp add: decode_invite_received_def wire_run)
qed

lemma accept_invite_codec:
  "decode_accept_invite bs = Inr m \<longleftrightarrow>
     encode_accept_invite m = Inr bs \<and> is_invite_id (AcceptInviteMessage.invite_id m)"
proof
  assume "decode_accept_invite bs = Inr m"
  then show "encode_accept_invite m = Inr bs \<and> is_invite_id (AcceptInviteMessage.invite_id m)"
    by (auto simp: decode_accept_invite_def encode_accept_invite_def codec_defs
        wire_simps exn_simps)
next
  assume "encode_accept_invite m = Inr bs \<and> is_invite_id (AcceptInviteMessage.invite_id m)"
  then show "decode_accept_invite bs = Inr m"
    by (cases m) (clarsimp simp: encode_accept_invite_def codec_defs wire_simps exn_simps,
        simp add: decode_accept_invite_def wire_run)
qed

lemma decline_invite_codec:
  "decode_decline_invite bs = Inr m \<longleftrightarrow>
     encode_decline_invite m = Inr bs \<and> is_invite_id (DeclineInviteMessage.invite_id m)"
proof
  assume "decode_decline_invite bs = Inr m"
  then show "encode_decline_invite m = Inr bs \<and> is_invite_id (DeclineInviteMessage.invite_id m)"
    by (auto simp: decode_decline_invite_def encode_decline_invite_def codec_defs
        wire_simps exn_simps)
next
  assume "encode_decline_invite m = Inr bs \<and> is_invite_id (DeclineInviteMessage.invite_id m)"
  then show "decode_decline_invite bs = Inr m"
    by (cases m) (clarsimp simp: encode_decline_invite_def codec_defs wire_simps exn_simps,
        simp add: decode_decline_invite_def wire_run)
qed

lemma invite_declined_codec:
  "decode_invite_declined bs = Inr m \<longleftrightarrow>
     encode_invite_declined m = Inr bs \<and> is_invite_id (InviteDeclinedMessage.invite_id m)"
proof
  assume "decode_invite_declined bs = Inr m"
  then show "encode_invite_declined m = Inr bs \<and> is_invite_id (InviteDeclinedMessage.invite_id m)"
    by (auto simp: decode_invite_declined_def encode_invite_declined_def codec_defs
        wire_simps exn_simps)
next
  assume "encode_invite_declined m = Inr bs \<and> is_invite_id (InviteDeclinedMessage.invite_id m)"
  then show "decode_invite_declined bs = Inr m"
    by (cases m) (clarsimp simp: encode_invite_declined_def codec_defs wire_simps exn_simps,
        simp add: decode_invite_declined_def wire_run)
qed

lemma trade_ready_codec:
  "decode_trade_ready bs = Inr m \<longleftrightarrow>
     encode_trade_ready m = Inr bs \<and> is_room_id (TradeReadyMessage.room_id m) \<and> is_client_id (peer_id m)"
proof
  assume "decode_trade_ready bs = Inr m"
  then show "encode_trade_ready m = Inr bs \<and> is_room_id (TradeReadyMessage.room_id m) \<and> is_client_id (peer_id m)"
    by (auto simp: decode_trade_ready_def encode_trade_ready_def codec_defs
        wire_simps exn_simps)
next
  assume "encode_trade_ready m = Inr bs \<and> is_room_id (TradeReadyMessage.room_id m) \<and> is_client_id (peer_id m)"
  then show "decode_trade_ready bs = Inr m"
    by (cases m) (clarsimp simp: encode_trade_ready_def codec_defs wire_simps exn_simps,
        simp add: decode_trade_ready_def wire_run)
qed

text \<open>The turn decoder accepts the encoder's image and normalises the fee flag.\<close>

lemma turn_codec:
  "encode_turn m = Inr bs \<Longrightarrow> is_room_id (TurnMessage.room_id m) \<Longrightarrow> decode_turn bs = Inr m"
  by (cases m) (clarsimp simp: encode_turn_def codec_defs wire_simps exn_simps,
      simp add: decode_turn_def wire_run)

lemma turn_decode_reencode:
  "decode_turn bs = Inr m \<Longrightarrow> \<exists>bs'. encode_turn m = Inr bs' \<and> is_room_id (TurnMessage.room_id m) \<and>
     length bs' = length bs \<and> butlast bs' = butlast bs"
  by (auto simp: decode_turn_def encode_turn_def codec_defs wire_simps exn_simps put_u8_def
      butlast_append)

lemma round_signal_codec:
  "decode_round_signal bs = Inr m \<longleftrightarrow>
     encode_round_signal m = Inr bs \<and> is_room_id (RoundSignalMessage.room_id m)"
proof
  assume "decode_round_signal bs = Inr m"
  then show "encode_round_signal m = Inr bs \<and> is_room_id (RoundSignalMessage.room_id m)"
    by (auto simp: decode_round_signal_def encode_round_signal_def codec_defs
        wire_simps exn_simps)
next
  assume "encode_round_signal m = Inr bs \<and> is_room_id (RoundSignalMessage.room_id m)"
  then show "decode_round_signal bs = Inr m"
    by (cases m) (clarsimp simp: encode_round_signal_def codec_defs wire_simps exn_simps,
        simp add: decode_round_signal_def wire_run)
qed

lemma complete_codec:
  "decode_complete bs = Inr m \<longleftrightarrow>
     encode_complete m = Inr bs \<and> is_room_id (CompleteMessage.room_id m)"
proof
  assume "decode_complete bs = Inr m"
  then show "encode_complete m = Inr bs \<and> is_room_id (CompleteMessage.room_id m)"
    by (auto simp: decode_complete_def encode_complete_def codec_defs
        wire_simps exn_simps)
next
  assume "encode_complete m = Inr bs \<and> is_room_id (CompleteMessage.room_id m)"
  then show "decode_complete bs = Inr m"
    by (cases m) (clarsimp simp: encode_complete_def codec_defs wire_simps exn_simps,
        simp add: decode_complete_def wire_run)
qed

lemma abort_codec:
  "decode_abort bs = Inr m \<longleftrightarrow>
     encode_abort m = Inr bs \<and> is_room_id (AbortMessage.room_id m)"
proof
  assume "decode_abort bs = Inr m"
  then show "encode_abort m = Inr bs \<and> is_room_id (AbortMessage.room_id m)"
    by (auto simp: decode_abort_def encode_abort_def codec_defs
        wire_simps exn_simps)
next
  assume "encode_abort m = Inr bs \<and> is_room_id (AbortMessage.room_id m)"
  then show "decode_abort bs = Inr m"
    by (cases m) (clarsimp simp: encode_abort_def codec_defs wire_simps exn_simps,
        simp add: decode_abort_def wire_run)
qed

lemma error_codec: "decode_error bs = Inr m \<longleftrightarrow> encode_error m = Inr bs"
proof
  assume "decode_error bs = Inr m"
  then show "encode_error m = Inr bs"
    by (auto simp: decode_error_def encode_error_def codec_defs
        wire_simps exn_simps)
next
  assume "encode_error m = Inr bs"
  then show "decode_error bs = Inr m"
    by (cases m) (clarsimp simp: encode_error_def codec_defs wire_simps exn_simps,
        simp add: decode_error_def wire_run)
qed

section \<open>The message contract holds\<close>

interpretation welcome_msg: message_codec encode_welcome decode_welcome
  "\<lambda>m. is_client_id (WelcomeMessage.client_id m)"
  by unfold_locales (simp add: welcome_codec)

interpretation peer_list_msg: message_codec encode_peer_list decode_peer_list
  "\<lambda>m. (\<forall>p\<in>set (peers m). is_client_id p)"
  by unfold_locales (simp add: peer_list_codec)

interpretation invite_trade_msg: message_codec encode_invite_trade decode_invite_trade
  "\<lambda>m. is_client_id (InviteTradeMessage.target m)"
  by unfold_locales (simp add: invite_trade_codec)

interpretation invite_created_msg: message_codec encode_invite_created decode_invite_created
  "\<lambda>m. is_invite_id (InviteCreatedMessage.invite_id m) \<and> is_client_id (InviteCreatedMessage.target m)"
  by unfold_locales (simp add: invite_created_codec)

interpretation invite_received_msg: message_codec encode_invite_received decode_invite_received
  "\<lambda>m. is_invite_id (InviteReceivedMessage.invite_id m) \<and> is_client_id (InviteReceivedMessage.sender m)"
  by unfold_locales (simp add: invite_received_codec)

interpretation accept_invite_msg: message_codec encode_accept_invite decode_accept_invite
  "\<lambda>m. is_invite_id (AcceptInviteMessage.invite_id m)"
  by unfold_locales (simp add: accept_invite_codec)

interpretation decline_invite_msg: message_codec encode_decline_invite decode_decline_invite
  "\<lambda>m. is_invite_id (DeclineInviteMessage.invite_id m)"
  by unfold_locales (simp add: decline_invite_codec)

interpretation invite_declined_msg: message_codec encode_invite_declined decode_invite_declined
  "\<lambda>m. is_invite_id (InviteDeclinedMessage.invite_id m)"
  by unfold_locales (simp add: invite_declined_codec)

interpretation trade_ready_msg: message_codec encode_trade_ready decode_trade_ready
  "\<lambda>m. is_room_id (TradeReadyMessage.room_id m) \<and> is_client_id (peer_id m)"
  by unfold_locales (simp add: trade_ready_codec)

interpretation round_signal_msg: message_codec encode_round_signal decode_round_signal
  "\<lambda>m. is_room_id (RoundSignalMessage.room_id m)"
  by unfold_locales (simp add: round_signal_codec)

interpretation complete_msg: message_codec encode_complete decode_complete
  "\<lambda>m. is_room_id (CompleteMessage.room_id m)"
  by unfold_locales (simp add: complete_codec)

interpretation abort_msg: message_codec encode_abort decode_abort
  "\<lambda>m. is_room_id (AbortMessage.room_id m)"
  by unfold_locales (simp add: abort_codec)

interpretation error_msg: message_codec encode_error decode_error
  "\<lambda>_. True"
  by unfold_locales (simp add: error_codec)

end
