(* ===== verification/Codec_Registry.thy ===== *)
theory Codec_Registry
  imports Codec_Trade
begin

text \<open>
  The registry and recovery messages of \<open>src/src/protocol.cpp\<close> (lines 1007--1141): a mediator's
  registration with a registry, the registry's listing, and the read-only recovery query. Two
  nested parsers name the optional part of a recovery response.
\<close>

definition encode_registry_register :: "RegistryRegisterMessage \<Rightarrow> bytes result" where
  "encode_registry_register m = steps [append_registry_node (node m) False] []"

definition decode_registry_register :: "bytes \<Rightarrow> RegistryRegisterMessage result" where
  "decode_registry_register = run_reader (
     pbind (read_registry_node False) (\<lambda>n.
     pbind r_require_finished (\<lambda>_.
     preturn \<lparr>node = n\<rparr>)))"

definition encode_registry_registered :: "RegistryRegisteredMessage \<Rightarrow> bytes result" where
  "encode_registry_registered m = steps
     [check (throw_if (ttl_seconds m = 0 \<or> ttl_seconds m > kRegistryTtlSeconds)
        (Invalid_argument ''invalid registry TTL'')),
      writer_u32 (ttl_seconds m)] []"

definition decode_registry_registered :: "bytes \<Rightarrow> RegistryRegisteredMessage result" where
  "decode_registry_registered = run_reader (
     pbind r_u32 (\<lambda>ttl.
     pbind (plift (throw_if (ttl = 0 \<or> ttl > kRegistryTtlSeconds)
              (Runtime_error ''invalid registry TTL''))) (\<lambda>_.
     pbind r_require_finished (\<lambda>_.
     preturn \<lparr>ttl_seconds = ttl\<rparr>))))"

definition encode_registry_nodes :: "RegistryNodesMessage \<Rightarrow> bytes result" where
  "encode_registry_nodes m = steps
     [check (throw_if (length (nodes m) > kMaxRegistryNodesInList)
        (Invalid_argument ''registry node list exceeds protocol limit'')),
      writer_u16 (of_nat (length (nodes m))),
      for_steps (\<lambda>n. [append_registry_node n True]) (nodes m)] []"

definition decode_registry_nodes :: "bytes \<Rightarrow> RegistryNodesMessage result" where
  "decode_registry_nodes = run_reader (
     pbind r_u16 (\<lambda>count.
     pbind (plift (throw_if (unat count > kMaxRegistryNodesInList)
              (Runtime_error ''registry node list exceeds protocol limit''))) (\<lambda>_.
     pbind (get_list (unat count) (read_registry_node True)) (\<lambda>ns.
     pbind r_require_finished (\<lambda>_.
     preturn \<lparr>nodes = ns\<rparr>)))))"

definition encode_recovery_state_request :: "RecoveryStateRequestMessage \<Rightarrow> bytes result" where
  "encode_recovery_state_request m = steps
     [check (validate_room_id (RecoveryStateRequestMessage.room_id m)),
      writer_fixed_id (RecoveryStateRequestMessage.room_id m)] []"

definition decode_recovery_state_request :: "bytes \<Rightarrow> RecoveryStateRequestMessage result" where
  "decode_recovery_state_request = run_reader (
     pbind (r_fixed_id 32) (\<lambda>i.
     pbind (plift (validate_room_id i)) (\<lambda>_.
     pbind r_require_finished (\<lambda>_.
     preturn \<lparr>RecoveryStateRequestMessage.room_id = i\<rparr>))))"

text \<open>\<open>message.reason\<close> may be empty; only a non-empty one is validated.\<close>

definition validate_optional_reason :: "string \<Rightarrow> unit result" where
  "validate_optional_reason s = (if s \<noteq> [] then validate_reason s else Inr ())"

definition encode_recovery_state_response :: "RecoveryStateResponseMessage \<Rightarrow> bytes result" where
  "encode_recovery_state_response m = steps
     ([check (validate_room_id (RecoveryStateResponseMessage.room_id m)),
       check (throw_if (leg_index m > 1)
         (Invalid_argument ''invalid recovery response leg index'')),
       check (validate_optional_reason (RecoveryStateResponseMessage.reason m)),
       writer_fixed_id (RecoveryStateResponseMessage.room_id m),
       writer_u8 (if found m then 1 else 0)] @
      (if found m then
        [append_terms (RecoveryStateResponseMessage.terms m),
         append_fee_terms (RecoveryStateResponseMessage.fee m),
         writer_u8 (RecoveryStateResponseMessage.state m),
         writer_u32 (RecoveryStateResponseMessage.round_index m),
         writer_u8 (leg_index m),
         writer_u8 (if party_a_connected m then 1 else 0),
         writer_u8 (if party_b_connected m then 1 else 0)]
       else []) @
      [w_short_string (RecoveryStateResponseMessage.reason m) kMaxReasonLength]) []"

definition default_terms :: TradeTerms where
  "default_terms = \<lparr>version = kProtocolVersion, asset_a = [], asset_b = [], total_a = 0, total_b = 0,
     rounds = 0, first_sender = PartyA\<rparr>"

definition default_fee :: FeeTerms where
  "default_fee = \<lparr>FeeTerms.asset = [], amount = 0, address = []\<rparr>"

definition default_response :: "RoomId \<Rightarrow> RecoveryStateResponseMessage" where
  "default_response i = \<lparr>RecoveryStateResponseMessage.room_id = i, found = False,
     terms = default_terms, fee = default_fee, state = 0, round_index = 0, leg_index = 0,
     party_a_connected = False, party_b_connected = False, reason = []\<rparr>"

text \<open>The fields behind \<open>if (message.found)\<close>.\<close>

definition read_found :: "RecoveryStateResponseMessage \<Rightarrow> RecoveryStateResponseMessage parser" where
  "read_found m =
     pbind read_terms (\<lambda>t.
     pbind read_fee_terms (\<lambda>f.
     pbind r_u8 (\<lambda>st.
     pbind r_u32 (\<lambda>n.
     pbind r_u8 (\<lambda>leg.
     pbind (plift (throw_if (leg > 1)
              (Runtime_error ''invalid recovery response leg index''))) (\<lambda>_.
     pbind r_u8 (\<lambda>a.
     pbind r_u8 (\<lambda>b.
     pbind (plift (throw_if (a > 1 \<or> b > 1)
              (Runtime_error ''invalid recovery response connection flag''))) (\<lambda>_.
     preturn (m\<lparr>found := True, RecoveryStateResponseMessage.terms := t,
       RecoveryStateResponseMessage.fee := f, RecoveryStateResponseMessage.state := st,
       RecoveryStateResponseMessage.round_index := n, leg_index := leg,
       party_a_connected := (a = 1), party_b_connected := (b = 1)\<rparr>))))))))))"

definition decode_recovery_state_response :: "bytes \<Rightarrow> RecoveryStateResponseMessage result" where
  "decode_recovery_state_response = run_reader (
     pbind (r_fixed_id 32) (\<lambda>i.
     pbind (plift (validate_room_id i)) (\<lambda>_.
     pbind r_u8 (\<lambda>found_flag.
     pbind (plift (throw_if (found_flag > 1)
              (Runtime_error ''invalid recovery response found flag''))) (\<lambda>_.
     pbind (if found_flag = 1 then read_found (default_response i)
            else preturn (default_response i)) (\<lambda>m.
     pbind (r_short_string kMaxReasonLength) (\<lambda>s.
     pbind (plift (validate_optional_reason s)) (\<lambda>_.
     pbind r_require_finished (\<lambda>_.
     preturn (m\<lparr>RecoveryStateResponseMessage.reason := s\<rparr>))))))))))"

section \<open>Encoders and decoders are inverse\<close>

lemma validate_optional_reason_ok [valid_simps]:
  "validate_optional_reason s = Inr u \<longleftrightarrow> length s \<le> kMaxReasonLength \<and> (\<forall>c\<in>set s. printable_char True c)"
  by (auto simp: validate_optional_reason_def valid_simps)

lemma node_loop_ok [wire_simps]:
  "for_steps (\<lambda>n. [append_registry_node n True]) ns w = Inr w' \<longleftrightarrow>
     (\<forall>n\<in>set ns. valid_node True n) \<and> w' = w @ concat (map (put_registry_node True) ns)"
  by (rule for_steps_ok) (auto simp: wire_simps exn_simps)

declare node.get_list_put_last [wire_run]

text \<open>A response without the optional part carries the defaults of the fields it omits.\<close>

definition wf_response :: "RecoveryStateResponseMessage \<Rightarrow> bool" where
  "wf_response m \<longleftrightarrow> is_room_id (RecoveryStateResponseMessage.room_id m) \<and>
     (found m \<or> m = (default_response (RecoveryStateResponseMessage.room_id m))
        \<lparr>RecoveryStateResponseMessage.reason := RecoveryStateResponseMessage.reason m\<rparr>)"

lemma registry_register_codec:
  "decode_registry_register bs = Inr m \<longleftrightarrow>
     encode_registry_register m = Inr bs \<and> wf_node False (node m)"
proof
  assume "decode_registry_register bs = Inr m"
  then show "encode_registry_register m = Inr bs \<and> wf_node False (node m)"
    by (auto simp: decode_registry_register_def encode_registry_register_def wf_node_def codec_defs
        wire_simps exn_simps)
next
  assume "encode_registry_register m = Inr bs \<and> wf_node False (node m)"
  then show "decode_registry_register bs = Inr m"
    by (cases m) (clarsimp simp: encode_registry_register_def wf_node_def codec_defs wire_simps exn_simps,
        simp add: decode_registry_register_def wf_node_def codec_defs wire_run)
qed

lemma registry_registered_codec:
  "decode_registry_registered bs = Inr m \<longleftrightarrow>
     encode_registry_registered m = Inr bs"
proof
  assume "decode_registry_registered bs = Inr m"
  then show "encode_registry_registered m = Inr bs"
    by (auto simp: decode_registry_registered_def encode_registry_registered_def codec_defs
        wire_simps exn_simps)
next
  assume "encode_registry_registered m = Inr bs"
  then show "decode_registry_registered bs = Inr m"
    by (cases m) (clarsimp simp: encode_registry_registered_def codec_defs wire_simps exn_simps,
        simp add: decode_registry_registered_def wire_run)
qed

lemma registry_nodes_codec:
  "decode_registry_nodes bs = Inr m \<longleftrightarrow>
     encode_registry_nodes m = Inr bs \<and> (\<forall>n\<in>set (nodes m). wf_node True n)"
proof
  assume "decode_registry_nodes bs = Inr m"
  then show "encode_registry_nodes m = Inr bs \<and> (\<forall>n\<in>set (nodes m). wf_node True n)"
    by (auto simp: decode_registry_nodes_def encode_registry_nodes_def wf_node_def codec_defs
        wire_simps exn_simps)
next
  assume "encode_registry_nodes m = Inr bs \<and> (\<forall>n\<in>set (nodes m). wf_node True n)"
  then show "decode_registry_nodes bs = Inr m"
    by (cases m) (clarsimp simp: encode_registry_nodes_def wf_node_def codec_defs wire_simps exn_simps,
        simp add: decode_registry_nodes_def wf_node_def codec_defs wire_run)
qed

lemma recovery_state_request_codec:
  "decode_recovery_state_request bs = Inr m \<longleftrightarrow>
     encode_recovery_state_request m = Inr bs \<and> is_room_id (RecoveryStateRequestMessage.room_id m)"
proof
  assume "decode_recovery_state_request bs = Inr m"
  then show "encode_recovery_state_request m = Inr bs \<and> is_room_id (RecoveryStateRequestMessage.room_id m)"
    by (auto simp: decode_recovery_state_request_def encode_recovery_state_request_def codec_defs
        wire_simps exn_simps)
next
  assume "encode_recovery_state_request m = Inr bs \<and> is_room_id (RecoveryStateRequestMessage.room_id m)"
  then show "decode_recovery_state_request bs = Inr m"
    by (cases m) (clarsimp simp: encode_recovery_state_request_def codec_defs wire_simps exn_simps,
        simp add: decode_recovery_state_request_def wire_run)
qed

definition put_found :: "RecoveryStateResponseMessage \<Rightarrow> bytes" where
  "put_found m = put_terms (RecoveryStateResponseMessage.terms m) @
     put_fee_terms (RecoveryStateResponseMessage.fee m) @
     put_u8 (RecoveryStateResponseMessage.state m) @
     put_u32 (RecoveryStateResponseMessage.round_index m) @ put_u8 (leg_index m) @
     put_u8 (if party_a_connected m then 1 else 0) @ put_u8 (if party_b_connected m then 1 else 0)"

lemma u8_flag: "(x :: u8) \<le> 1 \<Longrightarrow> (if x = 1 then 1 else 0) = x"
  by (auto simp: wire_simps not_less [symmetric])

interpretation found: codec put_found "read_found (default_response i)"
  "\<lambda>m. valid_terms (RecoveryStateResponseMessage.terms m) \<and>
     valid_fee (RecoveryStateResponseMessage.fee m) \<and> leg_index m \<le> 1 \<and> found m \<and>
     RecoveryStateResponseMessage.room_id m = i \<and> RecoveryStateResponseMessage.reason m = []" for i
proof (rule codecI, goal_cases)
  case (1 pre rest m)
  then have "\<not> 1 < leg_index m" and m: "m = (default_response i)\<lparr>found := True,
      RecoveryStateResponseMessage.terms := RecoveryStateResponseMessage.terms m,
      RecoveryStateResponseMessage.fee := RecoveryStateResponseMessage.fee m,
      RecoveryStateResponseMessage.state := RecoveryStateResponseMessage.state m,
      RecoveryStateResponseMessage.round_index := RecoveryStateResponseMessage.round_index m,
      leg_index := leg_index m, party_a_connected := party_a_connected m,
      party_b_connected := party_b_connected m\<rparr>"
    by (auto simp: default_response_def not_less)
  with 1 have "read_found (default_response i) (at pre (put_found m @ rest)) =
      Inr ((default_response i)\<lparr>found := True,
      RecoveryStateResponseMessage.terms := RecoveryStateResponseMessage.terms m,
      RecoveryStateResponseMessage.fee := RecoveryStateResponseMessage.fee m,
      RecoveryStateResponseMessage.state := RecoveryStateResponseMessage.state m,
      RecoveryStateResponseMessage.round_index := RecoveryStateResponseMessage.round_index m,
      leg_index := leg_index m, party_a_connected := party_a_connected m,
      party_b_connected := party_b_connected m\<rparr>, at (pre @ put_found m) rest)"
    by (cases "party_a_connected m"; cases "party_b_connected m")
       (simp_all add: read_found_def put_found_def wire_run)
  then show ?case
    using m by simp
next
  case (2 pre bs m r)
  then show ?case
    by (clarsimp simp: read_found_def wire_simps exn_simps simp del: flag_byte)
       (simp add: put_found_def default_response_def u8_flag not_less)
qed

declare found.get_at [wire_simps] found.get_put [wire_run]

lemma default_response_simps [simp]:
  "RecoveryStateResponseMessage.room_id (default_response i) = i" "\<not> found (default_response i)"
  "leg_index (default_response i) = 0"
  by (simp_all add: default_response_def)

lemma put_found_reason [simp]:
  "put_found (m\<lparr>RecoveryStateResponseMessage.reason := s\<rparr>) = put_found m"
  by (simp add: put_found_def)

lemma encode_recovery_state_response_ok:
  "encode_recovery_state_response m = Inr bs \<longleftrightarrow>
     nonzero (RecoveryStateResponseMessage.room_id m) \<and> leg_index m \<le> 1 \<and>
     validate_optional_reason (RecoveryStateResponseMessage.reason m) = Inr () \<and>
     (found m \<longrightarrow> valid_terms (RecoveryStateResponseMessage.terms m) \<and>
        valid_fee (RecoveryStateResponseMessage.fee m)) \<and>
     bs = RecoveryStateResponseMessage.room_id m @
       (if found m then put_u8 1 @ put_found m else put_u8 0) @
       put_string (RecoveryStateResponseMessage.reason m)"
  by (cases "found m")
     (auto simp: encode_recovery_state_response_def wire_simps exn_simps valid_simps put_found_def not_less simp del: flag_byte)

lemma recovery_state_response_codec:
  "decode_recovery_state_response bs = Inr m \<longleftrightarrow>
     encode_recovery_state_response m = Inr bs \<and> wf_response m"
proof
  assume "decode_recovery_state_response bs = Inr m"
  then show "encode_recovery_state_response m = Inr bs \<and> wf_response m"
    by (auto simp: decode_recovery_state_response_def encode_recovery_state_response_ok wf_response_def
        is_room_id_def wire_simps exn_simps valid_simps split: if_splits)
next
  assume "encode_recovery_state_response m = Inr bs \<and> wf_response m"
  then have e: "encode_recovery_state_response m = Inr bs" and w: "wf_response m"
    by simp_all
  from e have reason: "length (RecoveryStateResponseMessage.reason m) \<le> kMaxReasonLength"
    by (auto simp: encode_recovery_state_response_ok valid_simps)
  show "decode_recovery_state_response bs = Inr m"
  proof (cases "found m")
    case True
    let ?m = "m\<lparr>RecoveryStateResponseMessage.reason := []\<rparr>"
    have "read_found (default_response (RecoveryStateResponseMessage.room_id m))
        (at pre (put_found m @ rest)) = Inr (?m, at (pre @ put_found m) rest)" for pre rest
      using found.get_put [of ?m "RecoveryStateResponseMessage.room_id m" pre rest] True e
      by (simp add: encode_recovery_state_response_ok)
    with e w reason True show ?thesis
      by (auto simp: encode_recovery_state_response_ok wf_response_def is_room_id_def
          decode_recovery_state_response_def wire_run)
  next
    case False
    with e w reason show ?thesis
      by (auto simp: encode_recovery_state_response_ok wf_response_def is_room_id_def
          decode_recovery_state_response_def wire_run)
  qed
qed

section \<open>The message contract holds\<close>

interpretation registry_register_msg: message_codec encode_registry_register decode_registry_register
  "\<lambda>m. wf_node False (node m)"
  by unfold_locales (simp add: registry_register_codec)

interpretation registry_registered_msg: message_codec encode_registry_registered decode_registry_registered
  "\<lambda>_. True"
  by unfold_locales (simp add: registry_registered_codec)

interpretation registry_nodes_msg: message_codec encode_registry_nodes decode_registry_nodes
  "\<lambda>m. (\<forall>n\<in>set (nodes m). wf_node True n)"
  by unfold_locales (simp add: registry_nodes_codec)

interpretation recovery_state_request_msg: message_codec encode_recovery_state_request decode_recovery_state_request
  "\<lambda>m. is_room_id (RecoveryStateRequestMessage.room_id m)"
  by unfold_locales (simp add: recovery_state_request_codec)

interpretation recovery_state_response_msg: message_codec encode_recovery_state_response decode_recovery_state_response
  wf_response
  by unfold_locales (simp add: recovery_state_response_codec)

end
