(* ===== verification/Codec_Identity.thy ===== *)
theory Codec_Identity
  imports Codec_Registry
begin

text \<open>
  The messages of the identity layers in \<open>src/src/protocol.cpp\<close> (lines 1143--1393): recognition
  challenge and response, ephemeral trade keys, receipts and receipt disclosure, with their structs
  from \<open>protocol.hpp\<close>. Signatures and keys are bytes here; this layer frames and bounds them.
\<close>

section \<open>Structs\<close>

record RecognitionChallengeMessage =
  room_id :: RoomId
  suite_id :: u16
  nonce :: bytes
  created_at :: u64
  expires_at :: u64

record RecognitionResponseMessage =
  room_id :: RoomId
  nonce :: bytes
  suite_id :: u16
  prover_public_key :: bytes
  signature :: bytes

record TradeEphemeralKeyMessage =
  room_id :: RoomId
  ephemeral_public_key :: bytes
  ephemeral_public_key_mldsa65 :: bytes

record ReceiptAckMessage =
  room_id :: RoomId
  stage :: u8
  timestamp :: u64
  signature :: bytes
  signature_mldsa65 :: bytes

record ReceiptAckRequiredMessage =
  room_id :: RoomId

record FeeConfirmationPendingMessage =
  room_id :: RoomId

record ReceiptIssuedMessage =
  room_id :: RoomId
  mediator_id :: string
  stage :: u8
  completed :: bool
  terms_commitment :: bytes
  party_a_ephemeral_key :: bytes
  party_b_ephemeral_key :: bytes
  party_a_ephemeral_key_mldsa65 :: bytes
  party_b_ephemeral_key_mldsa65 :: bytes
  mediator_public_key :: bytes
  mediator_public_key_mldsa65 :: bytes
  timestamp :: u64
  nonce :: bytes
  previous_stage_hash :: bytes
  mediator_signature :: bytes
  mediator_signature_mldsa65 :: bytes

record ReceiptDisclosureMessage =
  room_id :: RoomId
  recipient_ephemeral_key :: bytes
  disclosed_chain_hash :: bytes
  timestamp :: u64
  nonce :: bytes
  signature :: bytes
  signature_mldsa65 :: bytes
  chain :: "ReceiptIssuedMessage list"

section \<open>Recognition\<close>

definition encode_recognition_challenge :: "RecognitionChallengeMessage \<Rightarrow> bytes result" where
  "encode_recognition_challenge m = steps
     [check (validate_room_id (RecognitionChallengeMessage.room_id m)),
      check (throw_if (expires_at m \<le> created_at m)
        (Invalid_argument ''recognition challenge expiry must be after its creation time'')),
      writer_fixed_id (RecognitionChallengeMessage.room_id m),
      writer_u16 (RecognitionChallengeMessage.suite_id m),
      writer_fixed_id (RecognitionChallengeMessage.nonce m),
      writer_u64 (created_at m),
      writer_u64 (expires_at m)] []"

definition decode_recognition_challenge :: "bytes \<Rightarrow> RecognitionChallengeMessage result" where
  "decode_recognition_challenge = run_reader (
     pbind (r_fixed_id 32) (\<lambda>i.
     pbind (plift (validate_room_id i)) (\<lambda>_.
     pbind r_u16 (\<lambda>suite.
     pbind (r_fixed_id kRecognitionNonceLength) (\<lambda>n.
     pbind r_u64 (\<lambda>created.
     pbind r_u64 (\<lambda>expires.
     pbind r_require_finished (\<lambda>_.
     pbind (plift (throw_if (expires \<le> created)
              (Runtime_error ''recognition challenge expiry must be after its creation time''))) (\<lambda>_.
     preturn \<lparr>RecognitionChallengeMessage.room_id = i, suite_id = suite, nonce = n,
              created_at = created, expires_at = expires\<rparr>)))))))))"

definition encode_recognition_response :: "RecognitionResponseMessage \<Rightarrow> bytes result" where
  "encode_recognition_response m = steps
     [check (validate_room_id (RecognitionResponseMessage.room_id m)),
      writer_fixed_id (RecognitionResponseMessage.room_id m),
      writer_fixed_id (RecognitionResponseMessage.nonce m),
      writer_u16 (RecognitionResponseMessage.suite_id m),
      w_bytes (prover_public_key m) kRecognitionMaxPublicKeyLength,
      w_bytes (RecognitionResponseMessage.signature m) kRecognitionMaxSignatureLength] []"

definition decode_recognition_response :: "bytes \<Rightarrow> RecognitionResponseMessage result" where
  "decode_recognition_response = run_reader (
     pbind (r_fixed_id 32) (\<lambda>i.
     pbind (plift (validate_room_id i)) (\<lambda>_.
     pbind (r_fixed_id kRecognitionNonceLength) (\<lambda>n.
     pbind r_u16 (\<lambda>suite.
     pbind (r_bytes kRecognitionMaxPublicKeyLength) (\<lambda>key.
     pbind (r_bytes kRecognitionMaxSignatureLength) (\<lambda>sig.
     pbind r_require_finished (\<lambda>_.
     preturn \<lparr>RecognitionResponseMessage.room_id = i, nonce = n, suite_id = suite,
              prover_public_key = key, signature = sig\<rparr>))))))))"

section \<open>Ephemeral keys and receipts\<close>

definition encode_trade_ephemeral_key :: "TradeEphemeralKeyMessage \<Rightarrow> bytes result" where
  "encode_trade_ephemeral_key m = steps
     [check (validate_room_id (TradeEphemeralKeyMessage.room_id m)),
      writer_fixed_id (TradeEphemeralKeyMessage.room_id m),
      writer_fixed_id (ephemeral_public_key m),
      writer_fixed_id (ephemeral_public_key_mldsa65 m)] []"

definition decode_trade_ephemeral_key :: "bytes \<Rightarrow> TradeEphemeralKeyMessage result" where
  "decode_trade_ephemeral_key = run_reader (
     pbind (r_fixed_id 32) (\<lambda>i.
     pbind (plift (validate_room_id i)) (\<lambda>_.
     pbind (r_fixed_id kTradeEphemeralPublicKeyLength) (\<lambda>k.
     pbind (r_fixed_id kTradeEphemeralPublicKeyLengthMlDsa65) (\<lambda>k2.
     pbind r_require_finished (\<lambda>_.
     preturn \<lparr>TradeEphemeralKeyMessage.room_id = i, ephemeral_public_key = k,
              ephemeral_public_key_mldsa65 = k2\<rparr>))))))"

definition encode_receipt_ack :: "ReceiptAckMessage \<Rightarrow> bytes result" where
  "encode_receipt_ack m = steps
     [check (validate_room_id (ReceiptAckMessage.room_id m)),
      writer_fixed_id (ReceiptAckMessage.room_id m),
      writer_u8 (ReceiptAckMessage.stage m),
      writer_u64 (ReceiptAckMessage.timestamp m),
      writer_fixed_id (ReceiptAckMessage.signature m),
      writer_fixed_id (ReceiptAckMessage.signature_mldsa65 m)] []"

definition decode_receipt_ack :: "bytes \<Rightarrow> ReceiptAckMessage result" where
  "decode_receipt_ack = run_reader (
     pbind (r_fixed_id 32) (\<lambda>i.
     pbind (plift (validate_room_id i)) (\<lambda>_.
     pbind r_u8 (\<lambda>st.
     pbind r_u64 (\<lambda>ts.
     pbind (r_fixed_id kReceiptSignatureLength) (\<lambda>sig.
     pbind (r_fixed_id kReceiptSignatureLengthMlDsa65) (\<lambda>sig2.
     pbind r_require_finished (\<lambda>_.
     preturn \<lparr>ReceiptAckMessage.room_id = i, stage = st, timestamp = ts, signature = sig,
              signature_mldsa65 = sig2\<rparr>))))))))"

definition encode_receipt_issued :: "ReceiptIssuedMessage \<Rightarrow> bytes result" where
  "encode_receipt_issued m = steps
     [check (validate_room_id (ReceiptIssuedMessage.room_id m)),
      writer_fixed_id (ReceiptIssuedMessage.room_id m),
      w_short_string (mediator_id m) kReceiptWireMediatorIdLength,
      writer_u8 (ReceiptIssuedMessage.stage m),
      writer_u8 (if completed m then 1 else 0),
      writer_fixed_id (terms_commitment m),
      writer_fixed_id (party_a_ephemeral_key m),
      writer_fixed_id (party_b_ephemeral_key m),
      writer_fixed_id (party_a_ephemeral_key_mldsa65 m),
      writer_fixed_id (party_b_ephemeral_key_mldsa65 m),
      writer_fixed_id (mediator_public_key m),
      writer_fixed_id (mediator_public_key_mldsa65 m),
      writer_u64 (ReceiptIssuedMessage.timestamp m),
      writer_fixed_id (ReceiptIssuedMessage.nonce m),
      writer_fixed_id (previous_stage_hash m),
      writer_fixed_id (mediator_signature m),
      writer_fixed_id (mediator_signature_mldsa65 m)] []"

definition decode_receipt_issued :: "bytes \<Rightarrow> ReceiptIssuedMessage result" where
  "decode_receipt_issued = run_reader (
     pbind (r_fixed_id 32) (\<lambda>i.
     pbind (plift (validate_room_id i)) (\<lambda>_.
     pbind (r_short_string kReceiptWireMediatorIdLength) (\<lambda>med.
     pbind r_u8 (\<lambda>st.
     pbind r_u8 (\<lambda>completed_flag.
     pbind (plift (throw_if (completed_flag > 1)
              (Runtime_error ''invalid receipt completed flag''))) (\<lambda>_.
     pbind (r_fixed_id kReceiptTermsCommitmentLength) (\<lambda>commitment.
     pbind (r_fixed_id kReceiptPublicKeyLength) (\<lambda>ka.
     pbind (r_fixed_id kReceiptPublicKeyLength) (\<lambda>kb.
     pbind (r_fixed_id kReceiptPublicKeyLengthMlDsa65) (\<lambda>ka2.
     pbind (r_fixed_id kReceiptPublicKeyLengthMlDsa65) (\<lambda>kb2.
     pbind (r_fixed_id kReceiptPublicKeyLength) (\<lambda>km.
     pbind (r_fixed_id kReceiptPublicKeyLengthMlDsa65) (\<lambda>km2.
     pbind r_u64 (\<lambda>ts.
     pbind (r_fixed_id kReceiptWireNonceLength) (\<lambda>n.
     pbind (r_fixed_id kReceiptTermsCommitmentLength) (\<lambda>prev.
     pbind (r_fixed_id kReceiptSignatureLength) (\<lambda>sig.
     pbind (r_fixed_id kReceiptSignatureLengthMlDsa65) (\<lambda>sig2.
     pbind r_require_finished (\<lambda>_.
     preturn \<lparr>ReceiptIssuedMessage.room_id = i, mediator_id = med, stage = st,
              completed = (completed_flag = 1), terms_commitment = commitment,
              party_a_ephemeral_key = ka, party_b_ephemeral_key = kb,
              party_a_ephemeral_key_mldsa65 = ka2, party_b_ephemeral_key_mldsa65 = kb2,
              mediator_public_key = km, mediator_public_key_mldsa65 = km2, timestamp = ts,
              nonce = n, previous_stage_hash = prev, mediator_signature = sig,
              mediator_signature_mldsa65 = sig2\<rparr>))))))))))))))))))))"

definition encode_receipt_ack_required :: "ReceiptAckRequiredMessage \<Rightarrow> bytes result" where
  "encode_receipt_ack_required m = steps
     [check (validate_room_id (ReceiptAckRequiredMessage.room_id m)),
      writer_fixed_id (ReceiptAckRequiredMessage.room_id m)] []"

definition decode_receipt_ack_required :: "bytes \<Rightarrow> ReceiptAckRequiredMessage result" where
  "decode_receipt_ack_required = run_reader (
     pbind (r_fixed_id 32) (\<lambda>i.
     pbind (plift (validate_room_id i)) (\<lambda>_.
     pbind r_require_finished (\<lambda>_.
     preturn \<lparr>ReceiptAckRequiredMessage.room_id = i\<rparr>))))"

definition encode_fee_confirmation_pending :: "FeeConfirmationPendingMessage \<Rightarrow> bytes result" where
  "encode_fee_confirmation_pending m = steps
     [check (validate_room_id (FeeConfirmationPendingMessage.room_id m)),
      writer_fixed_id (FeeConfirmationPendingMessage.room_id m)] []"

definition decode_fee_confirmation_pending :: "bytes \<Rightarrow> FeeConfirmationPendingMessage result" where
  "decode_fee_confirmation_pending = run_reader (
     pbind (r_fixed_id 32) (\<lambda>i.
     pbind (plift (validate_room_id i)) (\<lambda>_.
     pbind r_require_finished (\<lambda>_.
     preturn \<lparr>FeeConfirmationPendingMessage.room_id = i\<rparr>))))"

section \<open>Disclosure\<close>

text \<open>One chain entry: a receipt encoded on its own and framed as a string of bytes.\<close>

definition write_entry :: "ReceiptIssuedMessage \<Rightarrow> write_step" where
  "write_entry entry w =
     rbind (encode_receipt_issued entry) (\<lambda>entry_bytes.
     w_short_string (map char_of_byte entry_bytes) kMaxFramePayload w)"

definition read_entry :: "ReceiptIssuedMessage parser" where
  "read_entry =
     pbind (r_short_string kMaxFramePayload) (\<lambda>entry_bytes.
     plift (decode_receipt_issued (map byte_of_char entry_bytes)))"

definition encode_receipt_disclosure :: "ReceiptDisclosureMessage \<Rightarrow> bytes result" where
  "encode_receipt_disclosure m =
     rbind (steps
       [check (validate_room_id (ReceiptDisclosureMessage.room_id m)),
        check (throw_if (length (chain m) > kDisclosureMaxChainEntries)
          (Invalid_argument ''disclosed receipt chain exceeds the maximum allowed length'')),
        writer_fixed_id (ReceiptDisclosureMessage.room_id m),
        writer_fixed_id (recipient_ephemeral_key m),
        writer_fixed_id (disclosed_chain_hash m),
        writer_u64 (ReceiptDisclosureMessage.timestamp m),
        writer_fixed_id (ReceiptDisclosureMessage.nonce m),
        writer_fixed_id (ReceiptDisclosureMessage.signature m),
        writer_fixed_id (ReceiptDisclosureMessage.signature_mldsa65 m),
        check (throw_if (length (chain m) > 255)
          (Invalid_argument ''disclosed receipt chain has too many entries to encode'')),
        writer_u8 (of_nat (length (chain m))),
        for_steps (\<lambda>entry. [write_entry entry]) (chain m)] []) (\<lambda>out.
     rbind (throw_if (length out > kMaxFramePayload)
       (Invalid_argument ''encoded receipt disclosure exceeds the frame payload limit'')) (\<lambda>_.
     Inr out))"

definition decode_receipt_disclosure :: "bytes \<Rightarrow> ReceiptDisclosureMessage result" where
  "decode_receipt_disclosure bs =
     rbind (throw_if (length bs > kMaxFramePayload)
       (Runtime_error ''receipt disclosure payload exceeds the frame payload limit'')) (\<lambda>_.
     run_reader (
     pbind (r_fixed_id 32) (\<lambda>i.
     pbind (plift (validate_room_id i)) (\<lambda>_.
     pbind (r_fixed_id kReceiptPublicKeyLength) (\<lambda>k.
     pbind (r_fixed_id kReceiptTermsCommitmentLength) (\<lambda>h.
     pbind r_u64 (\<lambda>ts.
     pbind (r_fixed_id 16) (\<lambda>n.
     pbind (r_fixed_id kReceiptSignatureLength) (\<lambda>sig.
     pbind (r_fixed_id kReceiptSignatureLengthMlDsa65) (\<lambda>sig2.
     pbind r_u8 (\<lambda>count.
     pbind (plift (throw_if (unat count > kDisclosureMaxChainEntries)
              (Runtime_error ''disclosed receipt chain exceeds the maximum allowed length''))) (\<lambda>_.
     pbind (get_list (unat count) read_entry) (\<lambda>es.
     pbind r_require_finished (\<lambda>_.
     preturn \<lparr>ReceiptDisclosureMessage.room_id = i, recipient_ephemeral_key = k,
              disclosed_chain_hash = h, timestamp = ts, nonce = n, signature = sig,
              signature_mldsa65 = sig2, chain = es\<rparr>)))))))))))))
     bs)"

section \<open>Encoders and decoders are inverse\<close>

definition wf_challenge :: "RecognitionChallengeMessage \<Rightarrow> bool" where
  "wf_challenge m \<longleftrightarrow> is_room_id (RecognitionChallengeMessage.room_id m) \<and>
     length (RecognitionChallengeMessage.nonce m) = kRecognitionNonceLength"

definition wf_recognition_response :: "RecognitionResponseMessage \<Rightarrow> bool" where
  "wf_recognition_response m \<longleftrightarrow> is_room_id (RecognitionResponseMessage.room_id m) \<and>
     length (RecognitionResponseMessage.nonce m) = kRecognitionNonceLength"

definition wf_ephemeral_key :: "TradeEphemeralKeyMessage \<Rightarrow> bool" where
  "wf_ephemeral_key m \<longleftrightarrow> is_room_id (TradeEphemeralKeyMessage.room_id m) \<and>
     length (ephemeral_public_key m) = kTradeEphemeralPublicKeyLength \<and>
     length (ephemeral_public_key_mldsa65 m) = kTradeEphemeralPublicKeyLengthMlDsa65"

definition wf_receipt_ack :: "ReceiptAckMessage \<Rightarrow> bool" where
  "wf_receipt_ack m \<longleftrightarrow> is_room_id (ReceiptAckMessage.room_id m) \<and>
     length (ReceiptAckMessage.signature m) = kReceiptSignatureLength \<and>
     length (ReceiptAckMessage.signature_mldsa65 m) = kReceiptSignatureLengthMlDsa65"

definition wf_receipt_issued :: "ReceiptIssuedMessage \<Rightarrow> bool" where
  "wf_receipt_issued m \<longleftrightarrow> is_room_id (ReceiptIssuedMessage.room_id m) \<and>
     length (terms_commitment m) = kReceiptTermsCommitmentLength \<and>
     length (party_a_ephemeral_key m) = kReceiptPublicKeyLength \<and>
     length (party_b_ephemeral_key m) = kReceiptPublicKeyLength \<and>
     length (party_a_ephemeral_key_mldsa65 m) = kReceiptPublicKeyLengthMlDsa65 \<and>
     length (party_b_ephemeral_key_mldsa65 m) = kReceiptPublicKeyLengthMlDsa65 \<and>
     length (mediator_public_key m) = kReceiptPublicKeyLength \<and>
     length (mediator_public_key_mldsa65 m) = kReceiptPublicKeyLengthMlDsa65 \<and>
     length (ReceiptIssuedMessage.nonce m) = kReceiptWireNonceLength \<and>
     length (previous_stage_hash m) = kReceiptTermsCommitmentLength \<and>
     length (mediator_signature m) = kReceiptSignatureLength \<and>
     length (mediator_signature_mldsa65 m) = kReceiptSignatureLengthMlDsa65"

definition wf_disclosure :: "ReceiptDisclosureMessage \<Rightarrow> bool" where
  "wf_disclosure m \<longleftrightarrow> is_room_id (ReceiptDisclosureMessage.room_id m) \<and>
     length (recipient_ephemeral_key m) = kReceiptPublicKeyLength \<and>
     length (disclosed_chain_hash m) = kReceiptTermsCommitmentLength \<and>
     length (ReceiptDisclosureMessage.nonce m) = 16 \<and>
     length (ReceiptDisclosureMessage.signature m) = kReceiptSignatureLength \<and>
     length (ReceiptDisclosureMessage.signature_mldsa65 m) = kReceiptSignatureLengthMlDsa65 \<and>
     (\<forall>e\<in>set (chain m). wf_receipt_issued e)"

lemma recognition_challenge_codec:
  "decode_recognition_challenge bs = Inr m \<longleftrightarrow>
     encode_recognition_challenge m = Inr bs \<and> wf_challenge m"
proof
  assume "decode_recognition_challenge bs = Inr m"
  then show "encode_recognition_challenge m = Inr bs \<and> wf_challenge m"
    by (auto simp: decode_recognition_challenge_def encode_recognition_challenge_def wf_challenge_def codec_defs
        wire_simps exn_simps)
next
  assume "encode_recognition_challenge m = Inr bs \<and> wf_challenge m"
  then show "decode_recognition_challenge bs = Inr m"
    by (cases m) (clarsimp simp: encode_recognition_challenge_def wf_challenge_def codec_defs wire_simps exn_simps,
        simp add: decode_recognition_challenge_def wire_run)
qed

lemma recognition_response_codec:
  "decode_recognition_response bs = Inr m \<longleftrightarrow>
     encode_recognition_response m = Inr bs \<and> wf_recognition_response m"
proof
  assume "decode_recognition_response bs = Inr m"
  then show "encode_recognition_response m = Inr bs \<and> wf_recognition_response m"
    by (auto simp: decode_recognition_response_def encode_recognition_response_def wf_recognition_response_def codec_defs
        wire_simps exn_simps)
next
  assume "encode_recognition_response m = Inr bs \<and> wf_recognition_response m"
  then show "decode_recognition_response bs = Inr m"
    by (cases m) (clarsimp simp: encode_recognition_response_def wf_recognition_response_def codec_defs wire_simps exn_simps,
        simp add: decode_recognition_response_def wire_run)
qed

lemma trade_ephemeral_key_codec:
  "decode_trade_ephemeral_key bs = Inr m \<longleftrightarrow>
     encode_trade_ephemeral_key m = Inr bs \<and> wf_ephemeral_key m"
proof
  assume "decode_trade_ephemeral_key bs = Inr m"
  then show "encode_trade_ephemeral_key m = Inr bs \<and> wf_ephemeral_key m"
    by (auto simp: decode_trade_ephemeral_key_def encode_trade_ephemeral_key_def wf_ephemeral_key_def codec_defs
        wire_simps exn_simps)
next
  assume "encode_trade_ephemeral_key m = Inr bs \<and> wf_ephemeral_key m"
  then show "decode_trade_ephemeral_key bs = Inr m"
    by (cases m) (clarsimp simp: encode_trade_ephemeral_key_def wf_ephemeral_key_def codec_defs wire_simps exn_simps,
        simp add: decode_trade_ephemeral_key_def wire_run)
qed

lemma receipt_ack_codec:
  "decode_receipt_ack bs = Inr m \<longleftrightarrow>
     encode_receipt_ack m = Inr bs \<and> wf_receipt_ack m"
proof
  assume "decode_receipt_ack bs = Inr m"
  then show "encode_receipt_ack m = Inr bs \<and> wf_receipt_ack m"
    by (auto simp: decode_receipt_ack_def encode_receipt_ack_def wf_receipt_ack_def codec_defs
        wire_simps exn_simps)
next
  assume "encode_receipt_ack m = Inr bs \<and> wf_receipt_ack m"
  then show "decode_receipt_ack bs = Inr m"
    by (cases m) (clarsimp simp: encode_receipt_ack_def wf_receipt_ack_def codec_defs wire_simps exn_simps,
        simp add: decode_receipt_ack_def wire_run)
qed

lemma receipt_ack_required_codec:
  "decode_receipt_ack_required bs = Inr m \<longleftrightarrow>
     encode_receipt_ack_required m = Inr bs \<and> is_room_id (ReceiptAckRequiredMessage.room_id m)"
proof
  assume "decode_receipt_ack_required bs = Inr m"
  then show "encode_receipt_ack_required m = Inr bs \<and> is_room_id (ReceiptAckRequiredMessage.room_id m)"
    by (auto simp: decode_receipt_ack_required_def encode_receipt_ack_required_def codec_defs
        wire_simps exn_simps)
next
  assume "encode_receipt_ack_required m = Inr bs \<and> is_room_id (ReceiptAckRequiredMessage.room_id m)"
  then show "decode_receipt_ack_required bs = Inr m"
    by (cases m) (clarsimp simp: encode_receipt_ack_required_def codec_defs wire_simps exn_simps,
        simp add: decode_receipt_ack_required_def wire_run)
qed

lemma fee_confirmation_pending_codec:
  "decode_fee_confirmation_pending bs = Inr m \<longleftrightarrow>
     encode_fee_confirmation_pending m = Inr bs \<and> is_room_id (FeeConfirmationPendingMessage.room_id m)"
proof
  assume "decode_fee_confirmation_pending bs = Inr m"
  then show "encode_fee_confirmation_pending m = Inr bs \<and> is_room_id (FeeConfirmationPendingMessage.room_id m)"
    by (auto simp: decode_fee_confirmation_pending_def encode_fee_confirmation_pending_def codec_defs
        wire_simps exn_simps)
next
  assume "encode_fee_confirmation_pending m = Inr bs \<and> is_room_id (FeeConfirmationPendingMessage.room_id m)"
  then show "decode_fee_confirmation_pending bs = Inr m"
    by (cases m) (clarsimp simp: encode_fee_confirmation_pending_def codec_defs wire_simps exn_simps,
        simp add: decode_fee_confirmation_pending_def wire_run)
qed

definition put_receipt_issued :: "ReceiptIssuedMessage \<Rightarrow> bytes" where
  "put_receipt_issued m = ReceiptIssuedMessage.room_id m @ put_string (mediator_id m) @
     put_u8 (ReceiptIssuedMessage.stage m) @ put_u8 (if completed m then 1 else 0) @
     terms_commitment m @ party_a_ephemeral_key m @ party_b_ephemeral_key m @
     party_a_ephemeral_key_mldsa65 m @ party_b_ephemeral_key_mldsa65 m @
     mediator_public_key m @ mediator_public_key_mldsa65 m @
     put_u64 (ReceiptIssuedMessage.timestamp m) @ ReceiptIssuedMessage.nonce m @
     previous_stage_hash m @ mediator_signature m @ mediator_signature_mldsa65 m"

lemma encode_receipt_issued_ok:
  "encode_receipt_issued m = Inr bs \<longleftrightarrow> nonzero (ReceiptIssuedMessage.room_id m) \<and>
     length (mediator_id m) \<le> kReceiptWireMediatorIdLength \<and> bs = put_receipt_issued m"
  by (simp add: encode_receipt_issued_def put_receipt_issued_def wire_simps valid_simps exn_simps
      del: steps.simps if_split) auto

lemma put_flag_byte: "\<not> 1 < (x :: u8) \<Longrightarrow> put_u8 (if x = 1 then 1 else 0) = put_u8 x"
  by (auto simp: flag_byte)

lemma receipt_issued_codec:
  "decode_receipt_issued bs = Inr m \<longleftrightarrow> encode_receipt_issued m = Inr bs \<and> wf_receipt_issued m"
proof
  assume "decode_receipt_issued bs = Inr m"
  then show "encode_receipt_issued m = Inr bs \<and> wf_receipt_issued m"
    unfolding encode_receipt_issued_ok wf_receipt_issued_def is_room_id_def
    by (clarsimp simp: decode_receipt_issued_def valid_simps wire_simps exn_simps simp del: flag_byte)
       (simp add: put_receipt_issued_def put_flag_byte)
next
  assume *: "encode_receipt_issued m = Inr bs \<and> wf_receipt_issued m"
  have "\<not> 1 < (if completed m then 1 else 0 :: u8)" "((if completed m then 1 else 0 :: u8) = 1) = completed m"
    by simp_all
  with * show "decode_receipt_issued bs = Inr m"
    unfolding encode_receipt_issued_ok wf_receipt_issued_def is_room_id_def
    by (simp add: decode_receipt_issued_def put_receipt_issued_def wire_run del: if_split)
qed

text \<open>The largest receipt and the largest disclosure stay far below the frame limit.\<close>

lemma length_put_receipt_issued:
  "wf_receipt_issued m \<Longrightarrow> length (mediator_id m) \<le> kReceiptWireMediatorIdLength \<Longrightarrow>
     length (put_receipt_issued m) \<le> 9709"
  by (simp add: wf_receipt_issued_def put_receipt_issued_def is_room_id_def)

definition valid_entry :: "ReceiptIssuedMessage \<Rightarrow> bool" where
  "valid_entry e \<longleftrightarrow> wf_receipt_issued e \<and> nonzero (ReceiptIssuedMessage.room_id e) \<and>
     length (mediator_id e) \<le> kReceiptWireMediatorIdLength"

definition put_entry :: "ReceiptIssuedMessage \<Rightarrow> bytes" where
  "put_entry e = put_string (map char_of_byte (put_receipt_issued e))"

lemma write_entry_ok [wire_simps]:
  "wf_receipt_issued e \<Longrightarrow> write_entry e w = Inr w' \<longleftrightarrow> valid_entry e \<and> w' = w @ put_entry e"
  using length_put_receipt_issued [of e]
  by (auto simp: write_entry_def exn_simps encode_receipt_issued_ok valid_entry_def put_entry_def wire_simps)

interpretation entry: codec put_entry read_entry valid_entry
proof (rule codecI)
  fix pre rest e
  assume v: "valid_entry e"
  then have "length (put_receipt_issued e) \<le> 9709"
    by (simp add: valid_entry_def length_put_receipt_issued)
  moreover have "decode_receipt_issued (put_receipt_issued e) = Inr e"
    using v by (simp add: receipt_issued_codec encode_receipt_issued_ok valid_entry_def)
  ultimately show "read_entry (at pre (put_entry e @ rest)) = Inr (e, at (pre @ put_entry e) rest)"
    by (simp add: read_entry_def put_entry_def wire_run comp_def)
next
  fix pre bs e r
  assume "read_entry (at pre bs) = Inr (e, r)"
  then obtain s rest where s: "bs = put_string s @ rest" "r = at (pre @ put_string s) rest"
    and d: "decode_receipt_issued (map byte_of_char s) = Inr e"
    by (auto simp: read_entry_def wire_simps)
  from d have "put_receipt_issued e = map byte_of_char s" and "valid_entry e"
    by (simp_all add: receipt_issued_codec encode_receipt_issued_ok valid_entry_def)
  with s show "valid_entry e \<and> (\<exists>rest. bs = put_entry e @ rest \<and> r = at (pre @ put_entry e) rest)"
    by (simp add: put_entry_def comp_def)
qed

definition put_disclosure :: "ReceiptDisclosureMessage \<Rightarrow> bytes" where
  "put_disclosure m = ReceiptDisclosureMessage.room_id m @ recipient_ephemeral_key m @
     disclosed_chain_hash m @ put_u64 (ReceiptDisclosureMessage.timestamp m) @
     ReceiptDisclosureMessage.nonce m @ ReceiptDisclosureMessage.signature m @
     ReceiptDisclosureMessage.signature_mldsa65 m @ put_u8 (of_nat (length (chain m))) @
     concat (map put_entry (chain m))"

lemma length_put_entries:
  "\<forall>e\<in>set es. valid_entry e \<Longrightarrow> length (concat (map put_entry es)) \<le> 9711 * length es"
proof (induction es)
  case (Cons e es)
  then have "length (put_entry e) \<le> 9711"
    using length_put_receipt_issued [of e] by (simp add: valid_entry_def put_entry_def)
  with Cons show ?case
    by simp
qed simp

lemma entry_loop_ok:
  "\<forall>e\<in>set es. wf_receipt_issued e \<Longrightarrow>
     for_steps (\<lambda>e. [write_entry e]) es w = Inr w' \<longleftrightarrow>
       (\<forall>e\<in>set es. valid_entry e) \<and> w' = w @ concat (map put_entry es)"
  by (induction es arbitrary: w) (auto simp: for_steps_def exn_simps wire_simps)

lemma encode_receipt_disclosure_ok:
  assumes "wf_disclosure m"
  shows "encode_receipt_disclosure m = Inr bs \<longleftrightarrow>
     nonzero (ReceiptDisclosureMessage.room_id m) \<and> length (chain m) \<le> kDisclosureMaxChainEntries \<and>
     (\<forall>e\<in>set (chain m). valid_entry e) \<and> bs = put_disclosure m"
proof -
  have "length (put_disclosure m) \<le> 131072"
    if "length (chain m) \<le> 8" "\<forall>e\<in>set (chain m). valid_entry e"
    using length_put_entries [OF that(2)] that(1) assms
    by (simp add: put_disclosure_def wf_disclosure_def is_room_id_def)
  then show ?thesis
    using assms
    by (auto simp: encode_receipt_disclosure_def wf_disclosure_def entry_loop_ok wire_simps exn_simps
        valid_simps put_disclosure_def not_less simp del: steps.simps)
qed

lemma eq_unat_u8: "m = unat (k :: u8) \<longleftrightarrow> m \<le> 255 \<and> k = of_nat m"
proof -
  have "unat k < 256"
    using unsigned_less [of k, where ?'a = nat] by simp
  then show ?thesis
    by (auto simp: unsigned_of_nat take_bit_eq_mod)
qed

lemma receipt_disclosure_codec:
  "decode_receipt_disclosure bs = Inr m \<longleftrightarrow> encode_receipt_disclosure m = Inr bs \<and> wf_disclosure m"
proof
  assume d: "decode_receipt_disclosure bs = Inr m"
  then have w: "wf_disclosure m"
    by (auto simp: decode_receipt_disclosure_def wf_disclosure_def is_room_id_def valid_entry_def
        wire_simps exn_simps entry.get_list_at)
  with d show "encode_receipt_disclosure m = Inr bs \<and> wf_disclosure m"
    unfolding encode_receipt_disclosure_ok [OF w]
    by (auto simp: decode_receipt_disclosure_def put_disclosure_def wire_simps exn_simps valid_simps
        entry.get_list_at eq_unat_u8 unsigned_of_nat take_bit_eq_mod)
next
  assume *: "encode_receipt_disclosure m = Inr bs \<and> wf_disclosure m"
  then have w: "wf_disclosure m"
    by simp
  from * have bs: "length bs \<le> 131072"
    by (auto simp: encode_receipt_disclosure_def exn_simps)
  from * show "decode_receipt_disclosure bs = Inr m"
    using bs unfolding encode_receipt_disclosure_ok [OF w]
    by (simp add: decode_receipt_disclosure_def put_disclosure_def wf_disclosure_def is_room_id_def
        wire_run entry.get_list_put_last unsigned_of_nat take_bit_eq_mod)
qed

section \<open>The message contract holds\<close>

interpretation recognition_challenge_msg: message_codec encode_recognition_challenge decode_recognition_challenge
  wf_challenge
  by unfold_locales (simp add: recognition_challenge_codec)

interpretation recognition_response_msg: message_codec encode_recognition_response decode_recognition_response
  wf_recognition_response
  by unfold_locales (simp add: recognition_response_codec)

interpretation trade_ephemeral_key_msg: message_codec encode_trade_ephemeral_key decode_trade_ephemeral_key
  wf_ephemeral_key
  by unfold_locales (simp add: trade_ephemeral_key_codec)

interpretation receipt_ack_msg: message_codec encode_receipt_ack decode_receipt_ack
  wf_receipt_ack
  by unfold_locales (simp add: receipt_ack_codec)

interpretation receipt_ack_required_msg: message_codec encode_receipt_ack_required decode_receipt_ack_required
  "\<lambda>m. is_room_id (ReceiptAckRequiredMessage.room_id m)"
  by unfold_locales (simp add: receipt_ack_required_codec)

interpretation fee_confirmation_pending_msg: message_codec encode_fee_confirmation_pending decode_fee_confirmation_pending
  "\<lambda>m. is_room_id (FeeConfirmationPendingMessage.room_id m)"
  by unfold_locales (simp add: fee_confirmation_pending_codec)

interpretation receipt_issued_msg: message_codec encode_receipt_issued decode_receipt_issued
  wf_receipt_issued
  by unfold_locales (simp add: receipt_issued_codec)

interpretation receipt_disclosure_msg: message_codec encode_receipt_disclosure decode_receipt_disclosure
  wf_disclosure
  by unfold_locales (simp add: receipt_disclosure_codec)

end
