(* ===== verification/Mediator.thy ===== *)
theory Mediator
  imports Codec_Identity
begin

text \<open>
  The trade session of \<open>src/src/mediator.cpp\<close>: \<open>MediatorSession\<close> with its constructor, \<open>restore\<close>
  and every public and private operation. A mutating method is a function from the session to the
  session or an exception: each method evaluates all its conditions before it assigns a member, so
  a throw leaves the session as it was. The second half states the type invariant of a session and
  what each operation does in the states it accepts.
\<close>

section \<open>State\<close>

datatype SessionState =
    WaitingForPeer | WaitingForSent | WaitingForReceived | WaitingForFeeSent | SessionComplete
  | Aborted | WaitingForFinalReceiptAck | WaitingForFeeConfirmation | SessionStateRaw u8

datatype FeePosition = BeforeFirstRound | BeforeLastRound | AfterLastRound

record MediatorSession =
  creator :: CreateRoomMessage
  room_id :: RoomId
  receive_address_b :: string
  fee :: FeeTerms
  state :: SessionState
  round_index :: u32
  leg_index :: u8
  abort_reason :: string
  final_receipt_acked_a :: bool
  final_receipt_acked_b :: bool
  require_fee_confirmation :: bool
  fee_position :: FeePosition

abbreviation session_terms :: "MediatorSession \<Rightarrow> TradeTerms" where
  "session_terms s \<equiv> CreateRoomMessage.terms (creator s)"

abbreviation fee_amount :: "MediatorSession \<Rightarrow> u64" where
  "fee_amount s \<equiv> FeeTerms.amount (MediatorSession.fee s)"

section \<open>Construction\<close>

definition new_session ::
  "CreateRoomMessage \<Rightarrow> RoomId \<Rightarrow> FeeTerms \<Rightarrow> bool \<Rightarrow> FeePosition \<Rightarrow> MediatorSession result" where
  "new_session c i f confirm pos =
     rbind (validate_terms (CreateRoomMessage.terms c)) (\<lambda>_.
     rbind (validate_address (CreateRoomMessage.receive_address_a c)) (\<lambda>_.
     rbind (validate_room_id i) (\<lambda>_.
     rbind (validate_fee_terms f) (\<lambda>_.
     Inr \<lparr>creator = c, room_id = i, receive_address_b = [], fee = f, state = WaitingForPeer,
          round_index = 0, leg_index = 0, abort_reason = [], final_receipt_acked_a = False,
          final_receipt_acked_b = False, require_fee_confirmation = confirm,
          fee_position = pos\<rparr>))))"

definition restore ::
  "RoomId \<Rightarrow> TradeTerms \<Rightarrow> string \<Rightarrow> string \<Rightarrow> FeeTerms \<Rightarrow> SessionState \<Rightarrow> u32 \<Rightarrow> u8 \<Rightarrow> string \<Rightarrow>
   bool \<Rightarrow> FeePosition \<Rightarrow> MediatorSession result" where
  "restore i t addr_a addr_b f st n leg why confirm pos =
     rbind (validate_terms t) (\<lambda>_.
     rbind (validate_room_id i) (\<lambda>_.
     rbind (validate_fee_terms f) (\<lambda>_.
     rbind (if addr_a \<noteq> [] then validate_address addr_a else Inr ()) (\<lambda>_.
     rbind (if addr_b \<noteq> [] then validate_address addr_b else Inr ()) (\<lambda>_.
     rbind (throw_if (n > rounds t)
              (Invalid_argument ''restored round index exceeds configured rounds'')) (\<lambda>_.
     rbind (throw_if (leg > 1)
              (Invalid_argument ''restored leg index must be 0 or 1'')) (\<lambda>_.
     Inr \<lparr>creator = \<lparr>CreateRoomMessage.terms = t, receive_address_a = addr_a\<rparr>,
          room_id = i, receive_address_b = addr_b, fee = f, state = st,
          round_index = n, leg_index = leg, abort_reason = why, final_receipt_acked_a = False,
          final_receipt_acked_b = False, require_fee_confirmation = confirm,
          fee_position = pos\<rparr>)))))))"

section \<open>Operations\<close>

definition join :: "JoinRoomMessage \<Rightarrow> MediatorSession \<Rightarrow> MediatorSession result" where
  "join message s =
     rbind (throw_if (state s \<noteq> WaitingForPeer)
              (Logic_error ''room is not accepting a peer'')) (\<lambda>_.
     rbind (throw_if (JoinRoomMessage.room_id message \<noteq> MediatorSession.room_id s)
              (Invalid_argument ''wrong room id'')) (\<lambda>_.
     rbind (validate_address (JoinRoomMessage.receive_address_b message)) (\<lambda>_.
     let fee_due_before_any_round =
           fee_amount s > 0 \<and>
           (fee_position s = BeforeFirstRound \<or>
            fee_position s = BeforeLastRound \<and> rounds (session_terms s) \<le> 1)
     in Inr (s\<lparr>MediatorSession.receive_address_b := JoinRoomMessage.receive_address_b message,
               state := (if fee_due_before_any_round then WaitingForFeeSent
                         else WaitingForSent)\<rparr>))))"

definition ready_message :: "Party \<Rightarrow> ClientId \<Rightarrow> MediatorSession \<Rightarrow> TradeReadyMessage result" where
  "ready_message party peer s =
     rbind (throw_if (state s = WaitingForPeer) (Logic_error ''peer has not joined'')) (\<lambda>_.
     rbind (throw_if (state s = Aborted) (Logic_error ''session is aborted'')) (\<lambda>_.
     rbind (validate_client_id peer) (\<lambda>_.
     Inr \<lparr>TradeReadyMessage.room_id = MediatorSession.room_id s, assigned_party = party,
          peer_id = peer, terms = session_terms s,
          receive_address_a = CreateRoomMessage.receive_address_a (creator s),
          receive_address_b = MediatorSession.receive_address_b s,
          fee = MediatorSession.fee s\<rparr>)))"

definition first_sender_for_round :: "MediatorSession \<Rightarrow> Party result" where
  "first_sender_for_round s =
     (let alternate = (round_index s mod 2 \<noteq> 0) in
      if alternate then other_party (first_sender (session_terms s))
      else Inr (first_sender (session_terms s)))"

definition current_sender :: "MediatorSession \<Rightarrow> Party result" where
  "current_sender s =
     rbind (throw_if (state s = WaitingForPeer \<or> state s = SessionComplete \<or> state s = Aborted \<or>
                state s = WaitingForFinalReceiptAck \<or> state s = WaitingForFeeConfirmation)
              (Logic_error ''session has no active sender'')) (\<lambda>_.
     if state s = WaitingForFeeSent then Inr PartyA
     else rbind (first_sender_for_round s) (\<lambda>first.
          if leg_index s = 0 then Inr first else other_party first))"

definition current_receiver :: "MediatorSession \<Rightarrow> Party result" where
  "current_receiver s = rbind (current_sender s) other_party"

definition current_turn :: "MediatorSession \<Rightarrow> TurnMessage result" where
  "current_turn s =
     (if state s = WaitingForFeeSent then
        Inr \<lparr>TurnMessage.room_id = MediatorSession.room_id s, round_index = round_index s,
             sender = PartyA, asset = FeeTerms.asset (MediatorSession.fee s),
             amount = fee_amount s, destination = FeeTerms.address (MediatorSession.fee s),
             is_fee = True\<rparr>
      else
        rbind (current_sender s) (\<lambda>p.
        if p = PartyA then
          rbind (tranche_amount (total_a (session_terms s)) (rounds (session_terms s)) (round_index s))
            (\<lambda>n. Inr \<lparr>TurnMessage.room_id = MediatorSession.room_id s, round_index = round_index s,
               sender = p, asset = TradeTerms.asset_a (session_terms s), amount = n,
               destination = MediatorSession.receive_address_b s, is_fee = False\<rparr>)
        else
          rbind (tranche_amount (total_b (session_terms s)) (rounds (session_terms s)) (round_index s))
            (\<lambda>n. Inr \<lparr>TurnMessage.room_id = MediatorSession.room_id s, round_index = round_index s,
               sender = p, asset = TradeTerms.asset_b (session_terms s), amount = n,
               destination = CreateRoomMessage.receive_address_a (creator s), is_fee = False\<rparr>)))"

definition validate_signal :: "RoundSignalMessage \<Rightarrow> MediatorSession \<Rightarrow> unit result" where
  "validate_signal message s =
     rbind (throw_if (RoundSignalMessage.room_id message \<noteq> MediatorSession.room_id s)
              (Invalid_argument ''signal has wrong room id'')) (\<lambda>_.
     rbind (throw_if (RoundSignalMessage.round_index message \<noteq> round_index s)
              (Invalid_argument ''signal has wrong round index'')) (\<lambda>_.
     rbind (current_sender s) (\<lambda>p.
     throw_if (RoundSignalMessage.sender message \<noteq> p)
       (Invalid_argument ''signal has wrong sender''))))"

definition sender_reported_sent ::
  "Party \<Rightarrow> RoundSignalMessage \<Rightarrow> MediatorSession \<Rightarrow> MediatorSession result" where
  "sender_reported_sent reporting_party message s =
     (if state s = WaitingForFeeSent then
        rbind (throw_if (RoundSignalMessage.room_id message \<noteq> MediatorSession.room_id s)
                 (Invalid_argument ''signal has wrong room id'')) (\<lambda>_.
        rbind (throw_if (RoundSignalMessage.round_index message \<noteq> round_index s)
                 (Invalid_argument ''signal has wrong round index'')) (\<lambda>_.
        rbind (throw_if (reporting_party \<noteq> PartyA \<or> RoundSignalMessage.sender message \<noteq> PartyA)
                 (Invalid_argument ''only the offer creator settles the mediator fee'')) (\<lambda>_.
        let fee_is_final_action = (fee_position s = AfterLastRound) in
        Inr (if require_fee_confirmation s then s\<lparr>state := WaitingForFeeConfirmation\<rparr>
             else s\<lparr>state := (if fee_is_final_action then SessionComplete else WaitingForSent)\<rparr>))))
      else
        rbind (throw_if (state s \<noteq> WaitingForSent)
                 (Logic_error ''not waiting for sent acknowledgement'')) (\<lambda>_.
        rbind (validate_signal message s) (\<lambda>_.
        rbind (current_sender s) (\<lambda>p.
        rbind (throw_if (reporting_party \<noteq> p)
                 (Invalid_argument ''wrong party reported sent'')) (\<lambda>_.
        Inr (s\<lparr>state := WaitingForReceived\<rparr>))))))"

definition advance_after_receipt :: "MediatorSession \<Rightarrow> MediatorSession" where
  "advance_after_receipt s =
     (if leg_index s = 0 then
        let s = s\<lparr>leg_index := 1\<rparr>;
            is_last_round = (round_index s + 1 = rounds (session_terms s));
            this_leg_is_final_tranche =
              is_last_round \<and> (fee_amount s = 0 \<or> fee_position s \<noteq> AfterLastRound)
        in if this_leg_is_final_tranche
           then s\<lparr>final_receipt_acked_a := False, final_receipt_acked_b := False,
                  state := WaitingForFinalReceiptAck\<rparr>
           else s\<lparr>state := WaitingForSent\<rparr>
      else
        let s = s\<lparr>leg_index := 0, round_index := round_index s + 1\<rparr>
        in if fee_amount s > 0 \<and> fee_position s = BeforeLastRound \<and>
              round_index s = rounds (session_terms s) - 1
           then s\<lparr>state := WaitingForFeeSent\<rparr>
           else if round_index s = rounds (session_terms s) then
             if fee_amount s > 0 \<and> fee_position s = AfterLastRound
             then s\<lparr>final_receipt_acked_a := False, final_receipt_acked_b := False,
                    state := WaitingForFinalReceiptAck\<rparr>
             else s\<lparr>state := SessionComplete\<rparr>
           else s\<lparr>state := WaitingForSent\<rparr>)"

definition receiver_reported_received ::
  "Party \<Rightarrow> RoundSignalMessage \<Rightarrow> MediatorSession \<Rightarrow> MediatorSession result" where
  "receiver_reported_received reporting_party message s =
     rbind (throw_if (state s \<noteq> WaitingForReceived)
              (Logic_error ''not waiting for received acknowledgement'')) (\<lambda>_.
     rbind (validate_signal message s) (\<lambda>_.
     rbind (current_receiver s) (\<lambda>p.
     rbind (throw_if (reporting_party \<noteq> p)
              (Invalid_argument ''wrong party reported received'')) (\<lambda>_.
     Inr (advance_after_receipt s)))))"

definition confirm_fee_received :: "MediatorSession \<Rightarrow> MediatorSession result" where
  "confirm_fee_received s =
     rbind (throw_if (state s \<noteq> WaitingForFeeConfirmation)
              (Logic_error ''session is not waiting for fee confirmation'')) (\<lambda>_.
     Inr (s\<lparr>state := (if fee_position s = AfterLastRound then SessionComplete else WaitingForSent)\<rparr>))"

definition final_receipt_acked :: "Party \<Rightarrow> MediatorSession \<Rightarrow> bool" where
  "final_receipt_acked party s =
     (if party = PartyA then final_receipt_acked_a s else final_receipt_acked_b s)"

definition final_receipt_gate_is_fee_leg :: "MediatorSession \<Rightarrow> bool" where
  "final_receipt_gate_is_fee_leg s \<longleftrightarrow>
     fee_amount s > 0 \<and> fee_position s = AfterLastRound \<and> round_index s = rounds (session_terms s)"

definition acknowledge_final_receipt :: "Party \<Rightarrow> MediatorSession \<Rightarrow> MediatorSession result" where
  "acknowledge_final_receipt party s =
     rbind (throw_if (state s \<noteq> WaitingForFinalReceiptAck)
              (Logic_error ''not waiting for a final receipt acknowledgement'')) (\<lambda>_.
     rbind (throw_if (final_receipt_acked party s)
              (Logic_error ''this party already acknowledged the final receipt'')) (\<lambda>_.
     let s = (if party = PartyA then s\<lparr>final_receipt_acked_a := True\<rparr>
              else s\<lparr>final_receipt_acked_b := True\<rparr>)
     in Inr (if final_receipt_acked_a s \<and> final_receipt_acked_b s
             then s\<lparr>state := (if final_receipt_gate_is_fee_leg s then WaitingForFeeSent
                              else WaitingForSent)\<rparr>
             else s)))"

definition abort :: "string \<Rightarrow> MediatorSession \<Rightarrow> MediatorSession result" where
  "abort why s =
     rbind (throw_if (state s = SessionComplete)
              (Logic_error ''completed session cannot be aborted'')) (\<lambda>_.
     let why = (if why = [] then ''session aborted'' else why);
         why = (if length why > kMaxReasonLength then take kMaxReasonLength why else why)
     in Inr (s\<lparr>abort_reason := why, state := Aborted\<rparr>))"

section \<open>Invariant\<close>

text \<open>Whose turn the legs of round \<open>n\<close> are, without the error paths.\<close>

fun opposite :: "Party \<Rightarrow> Party" where
  "opposite PartyA = PartyB"
| "opposite p = PartyA"

definition leg_sender :: "Party \<Rightarrow> nat \<Rightarrow> nat \<Rightarrow> Party" where
  "leg_sender first n leg = (if even (n + leg) then first else opposite first)"

definition final_leg_gated :: "MediatorSession \<Rightarrow> bool" where
  "final_leg_gated s \<longleftrightarrow> fee_amount s = 0 \<or> fee_position s \<noteq> AfterLastRound"

definition both_acked :: "MediatorSession \<Rightarrow> bool" where
  "both_acked s \<longleftrightarrow> final_receipt_acked_a s \<and> final_receipt_acked_b s"

text \<open>The members that no operation changes are valid.\<close>

definition wf_static :: "MediatorSession \<Rightarrow> bool" where
  "wf_static s \<longleftrightarrow> valid_terms (session_terms s) \<and>
     validate_address (CreateRoomMessage.receive_address_a (creator s)) = Inr () \<and>
     nonzero (MediatorSession.room_id s) \<and> valid_fee (MediatorSession.fee s)"

text \<open>The round at which the fee leg of a room is due, and that it is due at all.\<close>

definition fee_leg_at :: "MediatorSession \<Rightarrow> bool" where
  "fee_leg_at s \<longleftrightarrow> leg_index s = 0 \<and> fee_amount s > 0 \<and>
     (case fee_position s of
        BeforeFirstRound \<Rightarrow> round_index s = 0
      | BeforeLastRound \<Rightarrow> unat (round_index s) + 1 = unat (rounds (session_terms s))
      | AfterLastRound \<Rightarrow> round_index s = rounds (session_terms s) \<and> both_acked s)"

definition gate_at :: "MediatorSession \<Rightarrow> bool" where
  "gate_at s \<longleftrightarrow> \<not> both_acked s \<and>
     (if final_leg_gated s
      then leg_index s = 1 \<and> unat (round_index s) + 1 = unat (rounds (session_terms s))
      else leg_index s = 0 \<and> round_index s = rounds (session_terms s))"

definition leg_at :: "MediatorSession \<Rightarrow> bool" where
  "leg_at s \<longleftrightarrow> (leg_index s = 0 \<or> leg_index s = 1) \<and> round_index s < rounds (session_terms s) \<and>
     (final_leg_gated s \<and> leg_index s = 1 \<and>
        unat (round_index s) + 1 = unat (rounds (session_terms s)) \<longrightarrow> both_acked s)"

definition session_inv :: "MediatorSession \<Rightarrow> bool" where
  "session_inv s \<longleftrightarrow> wf_static s \<and>
     (state s \<noteq> WaitingForPeer \<and> state s \<noteq> Aborted \<longrightarrow>
        validate_address (MediatorSession.receive_address_b s) = Inr ()) \<and>
     (case state s of
        WaitingForPeer \<Rightarrow> round_index s = 0 \<and> leg_index s = 0
      | WaitingForSent \<Rightarrow> leg_at s
      | WaitingForReceived \<Rightarrow> leg_at s
      | WaitingForFeeSent \<Rightarrow> fee_leg_at s
      | WaitingForFeeConfirmation \<Rightarrow> fee_leg_at s
      | WaitingForFinalReceiptAck \<Rightarrow> gate_at s
      | SessionComplete \<Rightarrow> leg_index s = 0 \<and> round_index s = rounds (session_terms s) \<and> both_acked s
      | Aborted \<Rightarrow> True
      | SessionStateRaw b \<Rightarrow> False)"

section \<open>Facts about rounds\<close>

lemma round_suc:
  assumes "(n :: u32) < r"
  shows "unat (n + 1) = unat n + 1" "n + 1 \<le> r" "n + 1 = r \<longleftrightarrow> unat n + 1 = unat r"
proof -
  have "unat n < unat r" "unat r < 2 ^ 32"
    using assms unsigned_less [of r, where ?'a = nat] by (simp_all add: word_less_nat_alt)
  then show s: "unat (n + 1) = unat n + 1"
    by (simp add: unat_word_ariths(1))
  then show "n + 1 \<le> r" "n + 1 = r \<longleftrightarrow> unat n + 1 = unat r"
    using \<open>unat n < unat r\<close> by (simp_all add: word_le_nat_alt word_unat_eq_iff)
qed

lemma round_pred:
  assumes "(r :: u32) \<noteq> 0"
  shows "n = r - 1 \<longleftrightarrow> unat n + 1 = unat r"
proof -
  have "unat (r - 1) = unat r - 1" "0 < unat r"
    using assms by (simp_all add: unat_minus_one unat_gt_0)
  then show ?thesis
    unfolding word_unat_eq_iff by arith
qed

lemma round_zero: "(r :: u32) \<noteq> 0 \<Longrightarrow> 0 < unat r \<and> 0 < r"
  by (simp add: unat_gt_0 word_neq_0_conv)

lemma one_round: "(r :: u32) \<noteq> 0 \<Longrightarrow> r \<le> 1 \<longleftrightarrow> unat r = 1"
  by (simp add: word_le_nat_alt le_Suc_eq unat_eq_zero)

lemma static_rounds: "wf_static s \<Longrightarrow> rounds (session_terms s) \<noteq> 0"
  by (simp add: wf_static_def valid_terms_iff)

lemma amount_pos: "(0 < (x :: u64)) = (x \<noteq> 0)"
  by (simp add: word_neq_0_conv)

lemma fee_positions:
  "p \<noteq> AfterLastRound \<longleftrightarrow> p = BeforeFirstRound \<or> p = BeforeLastRound"
  by (cases p) simp_all

lemmas place_defs = leg_at_def gate_at_def fee_leg_at_def both_acked_def final_leg_gated_def

section \<open>Every operation keeps the invariant\<close>

lemma new_session_inv: "new_session c i f b p = Inr s \<Longrightarrow> session_inv s"
  by (auto simp: new_session_def exn_simps valid_simps session_inv_def wf_static_def)

lemma join_inv:
  assumes "session_inv s" "join m s = Inr s'"
  shows "session_inv s'"
proof -
  have w: "wf_static s" and st: "state s = WaitingForPeer" and z: "round_index s = 0" "leg_index s = 0"
    and m: "validate_address (JoinRoomMessage.receive_address_b m) = Inr ()"
    using assms by (auto simp: join_def session_inv_def exn_simps)
  show ?thesis
    using w z m assms(2) round_zero [OF static_rounds [OF w]]
    by (auto simp: join_def exn_simps session_inv_def place_defs wf_static_def Let_def
        one_round [OF static_rounds [OF w]])
qed

lemma sent_inv:
  assumes "session_inv s" "sender_reported_sent p m s = Inr s'"
  shows "session_inv s'"
proof (cases "state s = WaitingForFeeSent")
  case True
  with assms static_rounds [of s] show ?thesis
    by (auto simp: sender_reported_sent_def exn_simps session_inv_def place_defs wf_static_def Let_def
        word_less_nat_alt unat_gt_0 split: if_splits FeePosition.splits)
next
  case False
  with assms show ?thesis
    by (auto simp: sender_reported_sent_def exn_simps session_inv_def place_defs wf_static_def)
qed

lemma confirm_inv:
  assumes "session_inv s" "confirm_fee_received s = Inr s'"
  shows "session_inv s'"
  using assms static_rounds [of s]
  by (auto simp: confirm_fee_received_def exn_simps session_inv_def place_defs wf_static_def
      word_less_nat_alt unat_gt_0 split: FeePosition.splits)

lemma advance_inv:
  assumes "session_inv s" "state s = WaitingForReceived"
  shows "session_inv (advance_after_receipt s)"
proof -
  have w: "wf_static s" and a: "validate_address (MediatorSession.receive_address_b s) = Inr ()" and l: "leg_at s"
    using assms by (auto simp: session_inv_def)
  have r: "round_index s < rounds (session_terms s)"
    using l by (simp add: leg_at_def)
  show ?thesis
    using w a l round_suc [OF r] round_pred [OF static_rounds [OF w]]
    by (auto simp: advance_after_receipt_def session_inv_def place_defs wf_static_def Let_def amount_pos
        order.not_eq_order_implies_strict)
qed

lemma received_inv:
  assumes "session_inv s" "receiver_reported_received p m s = Inr s'"
  shows "session_inv s'"
  using assms advance_inv [of s] by (auto simp: receiver_reported_received_def exn_simps)

lemma ack_inv:
  assumes "session_inv s" "acknowledge_final_receipt p s = Inr s'"
  shows "session_inv s'"
  using assms
  by (auto simp: acknowledge_final_receipt_def final_receipt_acked_def final_receipt_gate_is_fee_leg_def
      exn_simps session_inv_def place_defs wf_static_def Let_def word_less_nat_alt unat_gt_0
      split: if_splits FeePosition.splits)

lemma abort_inv:
  assumes "session_inv s" "abort why s = Inr s'"
  shows "session_inv s'"
  using assms by (auto simp: abort_def exn_simps session_inv_def wf_static_def Let_def)

section \<open>Senders and turns in an active leg\<close>

lemma first_sender_cases:
  "wf_static s \<Longrightarrow> first_sender (session_terms s) = PartyA \<or> first_sender (session_terms s) = PartyB"
  by (simp add: wf_static_def valid_terms_iff)

lemma other_party_ok: "p = PartyA \<or> p = PartyB \<Longrightarrow> other_party p = Inr (opposite p)"
  by (auto simp: other_party_def validate_party_def)

lemma opposite_cases: "opposite p = PartyA \<or> opposite p = PartyB"
  by (cases p) simp_all

lemma opposite_neq: "p = PartyA \<or> p = PartyB \<Longrightarrow> opposite p \<noteq> p \<and> opposite (opposite p) = p"
  by auto

lemma odd_round: "((n :: u32) mod 2 = 0) \<longleftrightarrow> even (unat n)"
proof -
  have "unat (n mod 2) = unat n mod 2"
    by (simp add: unat_mod_distrib)
  then show ?thesis
    by (metis even_iff_mod_2_eq_zero unat_eq_zero)
qed

abbreviation due_sender :: "MediatorSession \<Rightarrow> Party" where
  "due_sender s \<equiv>
     leg_sender (first_sender (session_terms s)) (unat (round_index s)) (unat (leg_index s))"

lemma due_sender_cases: "wf_static s \<Longrightarrow> due_sender s = PartyA \<or> due_sender s = PartyB"
  using first_sender_cases [of s] opposite_cases by (auto simp: leg_sender_def)

lemma current_sender_leg:
  assumes "wf_static s" "state s = WaitingForSent \<or> state s = WaitingForReceived" "leg_at s"
  shows "current_sender s = Inr (due_sender s)"
  using assms first_sender_cases [OF assms(1)]
  by (auto simp: current_sender_def first_sender_for_round_def leg_sender_def leg_at_def
      other_party_ok odd_round)

lemma current_receiver_leg:
  assumes "wf_static s" "state s = WaitingForSent \<or> state s = WaitingForReceived" "leg_at s"
  shows "current_receiver s = Inr (opposite (due_sender s))"
  using due_sender_cases [OF assms(1)]
  by (simp add: current_receiver_def current_sender_leg [OF assms] other_party_ok)

text \<open>The amount the due sender has to transfer in the current leg.\<close>

definition due_total :: "MediatorSession \<Rightarrow> Party \<Rightarrow> u64" where
  "due_total s p = (if p = PartyA then total_a (session_terms s) else total_b (session_terms s))"

definition due_amount :: "MediatorSession \<Rightarrow> Party \<Rightarrow> nat" where
  "due_amount s p =
     tranche_nat (unat (due_total s p)) (unat (rounds (session_terms s))) (unat (round_index s))"

lemma rounds_le_total:
  assumes "wf_static s"
  shows "unat (rounds (session_terms s)) \<le> unat (due_total s p)"
  using assms by (auto simp: wf_static_def valid_terms_iff due_total_def word_le_nat_alt)

lemma tranche_amount_due:
  assumes "wf_static s" "round_index s < rounds (session_terms s)"
  shows "\<exists>n. tranche_amount (due_total s p) (rounds (session_terms s)) (round_index s) = Inr n \<and>
     unat n = due_amount s p \<and> n \<noteq> 0"
proof -
  let ?r = "rounds (session_terms s)"
  have r: "0 < unat ?r" "?r \<noteq> 0"
    using round_zero [OF static_rounds [OF assms(1)]] static_rounds [OF assms(1)] by simp_all
  have lt: "due_amount s p < 2 ^ 64"
    using tranche_nat_le [OF r(1), of "unat (due_total s p)" "unat (round_index s)"]
      unsigned_less [of "due_total s p", where ?'a = nat] by (simp add: due_amount_def)
  have pos: "0 < due_amount s p"
    using tranche_positive [OF r(1) rounds_le_total [OF assms(1), of p]] by (simp add: due_amount_def)
  let ?n = "word_of_nat (due_amount s p) :: u64"
  have n: "unat ?n = due_amount s p"
    using lt by (simp add: unsigned_of_nat take_bit_eq_mod)
  with pos have "?n \<noteq> 0"
    by (metis gr_implies_not0 unsigned_0)
  moreover have "tranche_amount (due_total s p) ?r (round_index s) = Inr ?n"
    using n r assms rounds_le_total [OF assms(1), of p]
    by (simp add: tranche_amount_nat due_amount_def)
  ultimately show ?thesis
    using n by blast
qed

lemma current_turn_leg:
  assumes w: "wf_static s" and st: "state s = WaitingForSent \<or> state s = WaitingForReceived"
    and l: "leg_at s"
  shows "\<exists>t. current_turn s = Inr t \<and> TurnMessage.sender t = due_sender s \<and>
     unat (TurnMessage.amount t) = due_amount s (due_sender s) \<and> \<not> is_fee t \<and>
     TurnMessage.round_index t = round_index s \<and>
     TurnMessage.room_id t = MediatorSession.room_id s \<and>
     TurnMessage.asset t = (if due_sender s = PartyA then TradeTerms.asset_a (session_terms s)
       else TradeTerms.asset_b (session_terms s)) \<and>
     destination t = (if due_sender s = PartyA then MediatorSession.receive_address_b s
       else CreateRoomMessage.receive_address_a (creator s)) \<and> TurnMessage.amount t \<noteq> 0"
proof -
  have r: "round_index s < rounds (session_terms s)"
    using l by (simp add: leg_at_def)
  obtain n where "tranche_amount (due_total s (due_sender s)) (rounds (session_terms s)) (round_index s) = Inr n"
    "unat n = due_amount s (due_sender s)" "n \<noteq> 0"
    using tranche_amount_due [OF w r] by blast
  with st show ?thesis
    by (auto simp: current_turn_def current_sender_leg [OF w st l] due_total_def)
qed

lemma current_turn_fee:
  "state s = WaitingForFeeSent \<Longrightarrow> \<exists>t. current_turn s = Inr t \<and> is_fee t \<and>
     TurnMessage.amount t = fee_amount s \<and> TurnMessage.sender t = PartyA \<and>
     destination t = FeeTerms.address (MediatorSession.fee s)"
  by (simp add: current_turn_def)

text \<open>Whenever a turn is due it can be announced on the wire.\<close>

lemma turn_announced:
  assumes "session_inv s" "state s = WaitingForSent \<or> state s = WaitingForReceived \<or> state s = WaitingForFeeSent"
  shows "\<exists>t bs. current_turn s = Inr t \<and> encode_turn t = Inr bs \<and> 0 < TurnMessage.amount t \<and>
     current_sender s = Inr (TurnMessage.sender t) \<and> TurnMessage.round_index t = round_index s"
proof -
  have w: "wf_static s" and b: "validate_address (MediatorSession.receive_address_b s) = Inr ()"
    using assms by (auto simp: session_inv_def)
  have encodes: "\<exists>bs. encode_turn t = Inr bs"
    if "TurnMessage.room_id t = MediatorSession.room_id s" "TurnMessage.sender t = PartyA \<or> TurnMessage.sender t = PartyB"
      "validate_asset (TurnMessage.asset t) = Inr ()" "validate_address (destination t) = Inr ()"
      "TurnMessage.amount t \<noteq> 0" for t
    using that w by (auto simp: encode_turn_def wf_static_def wire_run valid_simps exn_simps)
  show ?thesis
  proof (cases "state s = WaitingForFeeSent")
    case True
    then have "fee_leg_at s"
      using assms(1) by (simp add: session_inv_def)
    then have f: "fee_amount s \<noteq> 0"
      by (simp add: fee_leg_at_def word_neq_0_conv)
    then have "validate_asset (FeeTerms.asset (MediatorSession.fee s)) = Inr ()"
      "validate_address (FeeTerms.address (MediatorSession.fee s)) = Inr ()"
      using w by (simp_all add: wf_static_def valid_fee_iff)
    then show ?thesis
      using f True encodes by (simp add: current_turn_def current_sender_def word_neq_0_conv)
  next
    case False
    then have l: "leg_at s" and st: "state s = WaitingForSent \<or> state s = WaitingForReceived"
      using assms by (auto simp: session_inv_def)
    obtain t where t: "current_turn s = Inr t" "TurnMessage.sender t = due_sender s"
      "unat (TurnMessage.amount t) = due_amount s (due_sender s)"
      "TurnMessage.round_index t = round_index s" "TurnMessage.room_id t = MediatorSession.room_id s"
      "TurnMessage.asset t = (if due_sender s = PartyA then TradeTerms.asset_a (session_terms s)
       else TradeTerms.asset_b (session_terms s))"
      "destination t = (if due_sender s = PartyA then MediatorSession.receive_address_b s
       else CreateRoomMessage.receive_address_a (creator s))"
      using current_turn_leg [OF w st l] by blast
    have "0 < unat (TurnMessage.amount t)"
      using t(3) tranche_positive [OF conjunct1 [OF round_zero [OF static_rounds [OF w]]] rounds_le_total [OF w]]
      by (simp add: due_amount_def)
    then have a: "0 < TurnMessage.amount t"
      by (simp add: unat_gt_0 word_neq_0_conv)
    have "validate_asset (TurnMessage.asset t) = Inr ()" "validate_address (destination t) = Inr ()"
      using w b t(6,7) by (auto simp: wf_static_def valid_terms_iff valid_simps)
    then show ?thesis
      using encodes t a due_sender_cases [OF w] current_sender_leg [OF w st l] by (auto simp: word_neq_0_conv)
  qed
qed

end
