(* ===== verification/Atomic_Files.thy ===== *)
theory Atomic_Files
  imports Wire
begin

text \<open>
  The file system as the modules that keep state on disk see it, and their common way of replacing a
  file: write a temporary file beside it and rename it over the target. A file system is a map from
  paths to contents; directories, permissions and the best-effort \<open>fsync\<close> calls are left out. Which of
  the system calls succeed is an input.

  Each module has its own copy of the replacing write. The locale \<open>atomic_writer\<close> is what all of them
  promise; it is interpreted for each copy in the theory of its module.
\<close>

section \<open>Files and system calls\<close>

type_synonym files = "string \<Rightarrow> bytes option"

record syscalls =
  open_ok :: bool
  write_ok :: bool
  close_ok :: bool
  rename_ok :: bool

definition unlink :: "string \<Rightarrow> files \<Rightarrow> files" where
  "unlink path fs = fs(path := None)"

definition rename :: "string \<Rightarrow> string \<Rightarrow> files \<Rightarrow> files" where
  "rename old_path new_path fs = (fs(new_path := fs old_path))(old_path := None)"

text \<open>\<open>throw_errno\<close>; the description of \<open>errno\<close> that it appends is left out.\<close>

definition errno :: "string \<Rightarrow> exn" where
  "errno message = Runtime_error message"

section \<open>Replacing a file\<close>

text \<open>
  The body the modules share; \<open>message\<close> is the text of the exception of a failed \<open>write\<close>. A failed
  write may leave any part of the contents in the temporary file, which is then removed.
\<close>

definition replace_atomic :: "string \<Rightarrow> syscalls \<Rightarrow> string \<Rightarrow> bytes \<Rightarrow> (files, unit) action" where
  "replace_atomic message calls path bs =
     (let tmp_path = path @ ''.tmp'' in
     sbind (smodify (unlink tmp_path)) (\<lambda>_.
     sbind (if open_ok calls then smodify (\<lambda>fs. fs(tmp_path \<mapsto> []))
            else sthrow (errno ''failed to create temporary file'')) (\<lambda>_.
     sbind (if write_ok calls then smodify (\<lambda>fs. fs(tmp_path \<mapsto> bs))
            else sbind (smodify (unlink tmp_path)) (\<lambda>_. sthrow (errno message))) (\<lambda>_.
     sbind (if close_ok calls then sreturn ()
            else sbind (smodify (unlink tmp_path)) (\<lambda>_.
                 sthrow (errno ''failed to close temporary file''))) (\<lambda>_.
     if rename_ok calls then smodify (rename tmp_path path)
     else sbind (smodify (unlink tmp_path)) (\<lambda>_.
          sthrow (errno ''failed to atomically replace'')))))))"

locale atomic_writer =
  fixes write_file :: "syscalls \<Rightarrow> string \<Rightarrow> bytes \<Rightarrow> (files, unit) action"
  assumes outcome: "write_file calls path bs fs = (r, fs') \<Longrightarrow>
       fs' path = (case r of Inr _ \<Rightarrow> Some bs | Inl _ \<Rightarrow> fs path) \<and>
       (\<forall>p. p \<noteq> path \<longrightarrow> p \<noteq> path @ ''.tmp'' \<longrightarrow> fs' p = fs p)"
    and succeeds: "open_ok calls \<Longrightarrow> write_ok calls \<Longrightarrow> close_ok calls \<Longrightarrow> rename_ok calls \<Longrightarrow>
       fst (write_file calls path bs fs) = Inr ()"
begin

lemma written: "write_file calls path bs fs = (Inr u, fs') \<Longrightarrow> fs' path = Some bs"
  using outcome by fastforce

lemma not_written: "write_file calls path bs fs = (Inl e, fs') \<Longrightarrow> fs' path = fs path"
  using outcome by fastforce

lemma others:
  "write_file calls path bs fs = (r, fs') \<Longrightarrow> p \<noteq> path \<Longrightarrow> p \<noteq> path @ ''.tmp'' \<Longrightarrow> fs' p = fs p"
  using outcome by blast

end

lemma atomic_writer_replace_atomic: "atomic_writer (replace_atomic message)"
proof
  fix calls path bs fs r fs'
  assume "replace_atomic message calls path bs fs = (r, fs')"
  then show "fs' path = (case r of Inr _ \<Rightarrow> Some bs | Inl _ \<Rightarrow> fs path) \<and>
      (\<forall>p. p \<noteq> path \<longrightarrow> p \<noteq> path @ ''.tmp'' \<longrightarrow> fs' p = fs p)"
    by (cases "open_ok calls"; cases "write_ok calls"; cases "close_ok calls"; cases "rename_ok calls")
       (auto simp: replace_atomic_def sbind_def action_defs unlink_def rename_def Let_def)
qed (simp add: replace_atomic_def sbind_def action_defs Let_def)

end
