(* ===== verification/Persistence.thy ===== *)
theory Persistence
  imports Mediator Atomic_Files
begin

text \<open>
  Mediator-side room persistence, \<open>src/src/room_persistence.cpp\<close>: the file format, its codec and
  the replace-by-rename write. The module has its own copies of the reader and writer classes;
  they differ from the protocol's in the exceptions they raise and in a 32-bit length prefix.
  The file system and the outcomes of its calls are those of \<open>Atomic_Files\<close>.
\<close>

section \<open>Data\<close>

abbreviation (input) kPersistedRoomFormatVersion :: u16 where "kPersistedRoomFormatVersion \<equiv> 1"
abbreviation (input) kMaxRoomBodyLength :: nat where "kMaxRoomBodyLength \<equiv> 8192"
abbreviation (input) kMaxRoomCount :: nat where "kMaxRoomCount \<equiv> 4096"

definition kMagic :: bytes where "kMagic = [0x54, 0x50, 0x52, 0x53]"

record PersistedRoom =
  room_id :: RoomId
  party_a :: ClientId
  party_b :: ClientId
  terms :: TradeTerms
  fee :: FeeTerms
  state :: SessionState
  round_index :: u32
  leg_index :: u8
  abort_reason :: string
  updated_at :: u64

record PersistedRoomFile =
  format_version :: u16
  rooms :: "PersistedRoom list"

text \<open>The numeric values of the enum, which the file stores.\<close>

fun byte_of_state :: "SessionState \<Rightarrow> u8" where
  "byte_of_state WaitingForPeer = 0"
| "byte_of_state WaitingForSent = 1"
| "byte_of_state WaitingForReceived = 2"
| "byte_of_state WaitingForFeeSent = 3"
| "byte_of_state SessionComplete = 4"
| "byte_of_state Aborted = 5"
| "byte_of_state WaitingForFinalReceiptAck = 6"
| "byte_of_state WaitingForFeeConfirmation = 7"
| "byte_of_state (SessionStateRaw b) = b"

definition state_of_byte :: "u8 \<Rightarrow> SessionState" where
  "state_of_byte b =
     (if b = 0 then WaitingForPeer else if b = 1 then WaitingForSent
      else if b = 2 then WaitingForReceived else if b = 3 then WaitingForFeeSent
      else if b = 4 then SessionComplete else if b = 5 then Aborted
      else if b = 6 then WaitingForFinalReceiptAck else if b = 7 then WaitingForFeeConfirmation
      else SessionStateRaw b)"

section \<open>Reader and writer\<close>

abbreviation (input) p_truncated :: exn where
  "p_truncated \<equiv> PersistenceFormatError ''truncated persisted room file''"
abbreviation (input) p_bytes_u16 :: "string \<Rightarrow> nat \<Rightarrow> write_step" where
  "p_bytes_u16 \<equiv> writer_short_string (Invalid_argument ''persisted room field exceeds protocol limit'')"
abbreviation (input) p_u8 :: "u8 parser" where "p_u8 \<equiv> get_u8 p_truncated"
abbreviation (input) p_u16 :: "u16 parser" where "p_u16 \<equiv> get_u16 p_truncated"
abbreviation (input) p_u32 :: "u32 parser" where "p_u32 \<equiv> get_u32 p_truncated"
abbreviation (input) p_u64 :: "u64 parser" where "p_u64 \<equiv> get_u64 p_truncated"
abbreviation (input) p_fixed :: "nat \<Rightarrow> bytes parser" where "p_fixed \<equiv> get_fixed p_truncated"
abbreviation (input) p_string_u16 :: "nat \<Rightarrow> string parser" where
  "p_string_u16 \<equiv> get_string p_truncated
     (PersistenceFormatError ''persisted room field exceeds maximum allowed length'')"
abbreviation (input) p_require_finished :: "unit parser" where
  "p_require_finished \<equiv> require_finished
     (PersistenceFormatError ''trailing bytes after persisted room file'')"

definition writer_bytes_u32 :: "bytes \<Rightarrow> write_step" where
  "writer_bytes_u32 v w = rbind (writer_u32 (of_nat (length v)) w) (\<lambda>w. Inr (w @ v))"

definition get_bytes_u32 :: "nat \<Rightarrow> bytes parser" where
  "get_bytes_u32 = get_bytes32 p_truncated
     (PersistenceFormatError ''persisted room list exceeds maximum allowed length'')"

definition p_append_fee_terms :: "FeeTerms \<Rightarrow> write_step" where
  "p_append_fee_terms f = steps
     [check (validate_fee_terms f),
      p_bytes_u16 (FeeTerms.asset f) kMaxAssetCodeLength,
      writer_u64 (FeeTerms.amount f),
      p_bytes_u16 (FeeTerms.address f) kMaxAddressLength]"

definition p_read_fee_terms :: "FeeTerms parser" where
  "p_read_fee_terms =
     pbind (p_string_u16 kMaxAssetCodeLength) (\<lambda>a.
     pbind p_u64 (\<lambda>n.
     pbind (p_string_u16 kMaxAddressLength) (\<lambda>d.
     let f = \<lparr>FeeTerms.asset = a, amount = n, address = d\<rparr> in
     pbind (plift (validate_fee_terms f)) (\<lambda>_.
     preturn f))))"

section \<open>One room\<close>

definition encode_one_room :: "PersistedRoom \<Rightarrow> bytes result" where
  "encode_one_room r = steps
     [writer_fixed_id (PersistedRoom.room_id r),
      writer_fixed_id (party_a r),
      writer_fixed_id (party_b r),
      (\<lambda>w. rbind (encode_terms (PersistedRoom.terms r)) (\<lambda>encoded_terms. writer_bytes_u32 encoded_terms w)),
      p_append_fee_terms (PersistedRoom.fee r),
      writer_u8 (byte_of_state (PersistedRoom.state r)),
      writer_u32 (PersistedRoom.round_index r),
      writer_u8 (PersistedRoom.leg_index r),
      p_bytes_u16 (PersistedRoom.abort_reason r) kMaxReasonLength,
      writer_u64 (updated_at r)] []"

definition read_one_room :: "PersistedRoom parser" where
  "read_one_room =
     pbind (p_fixed 32) (\<lambda>i.
     pbind (p_fixed 16) (\<lambda>a.
     pbind (p_fixed 16) (\<lambda>b.
     pbind (get_bytes_u32 kMaxRoomBodyLength) (\<lambda>encoded_terms.
     pbind (plift (decode_terms encoded_terms)) (\<lambda>t.
     pbind p_read_fee_terms (\<lambda>f.
     pbind p_u8 (\<lambda>st.
     pbind p_u32 (\<lambda>n.
     pbind p_u8 (\<lambda>leg.
     pbind (p_string_u16 kMaxReasonLength) (\<lambda>why.
     pbind p_u64 (\<lambda>ts.
     pbind p_require_finished (\<lambda>_.
     pbind (plift (validate_room_id i)) (\<lambda>_.
     pbind (plift (validate_client_id a)) (\<lambda>_.
     pbind (plift (validate_client_id b)) (\<lambda>_.
     pbind (plift (throw_if (leg > 1)
              (PersistenceFormatError ''persisted room has invalid leg index''))) (\<lambda>_.
     preturn \<lparr>PersistedRoom.room_id = i, party_a = a, party_b = b, terms = t, fee = f,
              state = state_of_byte st, round_index = n, leg_index = leg, abort_reason = why,
              updated_at = ts\<rparr>))))))))))))))))"

text \<open>The catch clauses of \<open>decode_one_room\<close>: every exception becomes a format error.\<close>

definition normalise_error :: "exn \<Rightarrow> exn" where
  "normalise_error e =
     (case e of PersistenceFormatError s \<Rightarrow> PersistenceFormatError s
      | _ \<Rightarrow> PersistenceFormatError (''malformed persisted room: '' @ what e))"

definition decode_one_room :: "bytes \<Rightarrow> PersistedRoom result" where
  "decode_one_room body =
     (case run_reader read_one_room body of
        Inl e \<Rightarrow> Inl (normalise_error e)
      | Inr r \<Rightarrow> Inr r)"

section \<open>The file\<close>

definition write_room :: "PersistedRoom \<Rightarrow> write_step" where
  "write_room r w = rbind (encode_one_room r) (\<lambda>body. writer_bytes_u32 body w)"

definition read_room :: "PersistedRoom parser" where
  "read_room = pbind (get_bytes_u32 kMaxRoomBodyLength) (\<lambda>body. plift (decode_one_room body))"

definition encode_persisted_rooms :: "PersistedRoomFile \<Rightarrow> bytes result" where
  "encode_persisted_rooms file = steps
     [check (throw_if (length (rooms file) > kMaxRoomCount)
        (Invalid_argument ''persisted room file exceeds maximum room count'')),
      writer_fixed_id kMagic,
      writer_u16 (format_version file),
      writer_u32 (of_nat (length (rooms file))),
      for_steps (\<lambda>r. [write_room r]) (rooms file)] []"

definition decode_persisted_rooms :: "bytes \<Rightarrow> PersistedRoomFile result" where
  "decode_persisted_rooms = run_reader (
     pbind (p_fixed 4) (\<lambda>magic.
     pbind (plift (throw_if (magic \<noteq> kMagic)
              (PersistenceFormatError ''not a tradep2p persisted-room file (bad magic)''))) (\<lambda>_.
     pbind p_u16 (\<lambda>ver.
     pbind (plift (throw_if (ver \<noteq> kPersistedRoomFormatVersion)
              (PersistenceFormatError ''unsupported persisted-room file format version''))) (\<lambda>_.
     pbind p_u32 (\<lambda>count.
     pbind (plift (throw_if (unat count > kMaxRoomCount)
              (PersistenceFormatError ''persisted room file exceeds maximum room count''))) (\<lambda>_.
     pbind (get_list (unat count) read_room) (\<lambda>rs.
     pbind p_require_finished (\<lambda>_.
     preturn \<lparr>format_version = ver, rooms = rs\<rparr>)))))))))"

section \<open>Reading and writing the file\<close>

definition write_persisted_rooms ::
  "syscalls \<Rightarrow> string \<Rightarrow> PersistedRoomFile \<Rightarrow> (files, unit) action" where
  "write_persisted_rooms sys path file =
     (let tmp_path = path @ ''.tmp'' in
     sbind (smodify (unlink tmp_path)) (\<lambda>_.
     sbind (if open_ok sys then smodify (\<lambda>fs. fs(tmp_path \<mapsto> []))
            else sthrow (errno ''failed to create temporary file'')) (\<lambda>_.
     sbind (slift (encode_persisted_rooms file)) (\<lambda>bytes.
     sbind (if write_ok sys then smodify (\<lambda>fs. fs(tmp_path \<mapsto> bytes))
            else sbind (smodify (unlink tmp_path)) (\<lambda>_.
                 sthrow (errno ''failed to write persisted room file contents''))) (\<lambda>_.
     sbind (if close_ok sys then sreturn ()
            else sbind (smodify (unlink tmp_path)) (\<lambda>_.
                 sthrow (errno ''failed to close temporary file''))) (\<lambda>_.
     if rename_ok sys then smodify (rename tmp_path path)
     else sbind (smodify (unlink tmp_path)) (\<lambda>_.
          sthrow (errno ''failed to atomically replace''))))))))"

definition empty_file :: PersistedRoomFile where
  "empty_file = \<lparr>format_version = kPersistedRoomFormatVersion, rooms = []\<rparr>"

definition load_persisted_rooms :: "string \<Rightarrow> files \<Rightarrow> PersistedRoomFile result" where
  "load_persisted_rooms path fs =
     (case fs path of None \<Rightarrow> Inr empty_file | Some raw \<Rightarrow> decode_persisted_rooms raw)"

section \<open>The format is faithful\<close>

interpretation bytes32: codec put_bytes_u32 "get_bytes_u32 n" "\<lambda>v. length v \<le> n \<and> length v < 2 ^ 32" for n
  unfolding get_bytes_u32_def by (rule blob32.codec_axioms)

interpretation p_fee: codec put_fee_terms p_read_fee_terms valid_fee
proof (rule codecI)
  fix pre rest f
  assume v: "valid_fee f"
  then have "validate_fee_terms f = Inr ()"
    by (simp add: exn_simps)
  then show "p_read_fee_terms (at pre (put_fee_terms f @ rest)) = Inr (f, at (pre @ put_fee_terms f) rest)"
    using valid_fee_lengths [OF v]
    by (cases f) (simp add: p_read_fee_terms_def put_fee_terms_def wire_run Let_def)
next
  fix pre bs f r
  assume "p_read_fee_terms (at pre bs) = Inr (f, r)"
  then show "valid_fee f \<and> (\<exists>rest. bs = put_fee_terms f @ rest \<and> r = at (pre @ put_fee_terms f) rest)"
    by (auto simp: p_read_fee_terms_def put_fee_terms_def wire_simps exn_simps Let_def)
qed

lemma state_byte_roundtrip:
  "byte_of_state (state_of_byte b) = b"
  "state_of_byte (byte_of_state st) = st \<longleftrightarrow> (\<forall>b. st = SessionStateRaw b \<longrightarrow> 7 < b)"
proof -
  show "byte_of_state (state_of_byte b) = b"
    by (simp add: state_of_byte_def)
  have "b = 0 \<or> b = 1 \<or> b = 2 \<or> b = 3 \<or> b = 4 \<or> b = 5 \<or> b = 6 \<or> b = 7 \<or> 7 < b" for b :: u8
    by unat_arith
  moreover have "7 < b \<Longrightarrow> state_of_byte b = SessionStateRaw b" for b
    by (auto simp: state_of_byte_def)
  ultimately show "state_of_byte (byte_of_state st) = st \<longleftrightarrow> (\<forall>b. st = SessionStateRaw b \<longrightarrow> 7 < b)"
    by (cases st) (auto simp: state_of_byte_def split: if_splits)
qed

definition put_room :: "PersistedRoom \<Rightarrow> bytes" where
  "put_room r = PersistedRoom.room_id r @ party_a r @ party_b r @
     put_bytes_u32 (put_terms (PersistedRoom.terms r)) @ put_fee_terms (PersistedRoom.fee r) @
     put_u8 (byte_of_state (PersistedRoom.state r)) @ put_u32 (PersistedRoom.round_index r) @
     put_u8 (PersistedRoom.leg_index r) @ put_string (PersistedRoom.abort_reason r) @
     put_u64 (updated_at r)"

text \<open>Rooms as the decoder can return them.\<close>

definition wf_room :: "PersistedRoom \<Rightarrow> bool" where
  "wf_room r \<longleftrightarrow> is_room_id (PersistedRoom.room_id r) \<and> is_client_id (party_a r) \<and>
     is_client_id (party_b r) \<and> nonzero (PersistedRoom.room_id r) \<and> nonzero (party_a r) \<and>
     nonzero (party_b r) \<and> PersistedRoom.leg_index r \<le> 1 \<and>
     state_of_byte (byte_of_state (PersistedRoom.state r)) = PersistedRoom.state r"

definition valid_room :: "PersistedRoom \<Rightarrow> bool" where
  "valid_room r \<longleftrightarrow> wf_room r \<and> valid_terms (PersistedRoom.terms r) \<and>
     valid_fee (PersistedRoom.fee r) \<and> length (PersistedRoom.abort_reason r) \<le> kMaxReasonLength"

lemma encode_terms_ok: "encode_terms t = Inr bs \<longleftrightarrow> valid_terms t \<and> bs = put_terms t"
  by (auto simp: encode_terms_def wire_simps exn_simps)

lemma length_put_terms: "valid_terms t \<Longrightarrow> length (put_terms t) \<le> 59"
  using valid_terms_lengths [of t] by (simp add: put_terms_def)

lemma length_put_fee: "valid_fee f \<Longrightarrow> length (put_fee_terms f) \<le> 284"
  using valid_fee_lengths [of f] by (simp add: put_fee_terms_def)

lemma length_put_room: "valid_room r \<Longrightarrow> length (put_room r) \<le> 555"
  using length_put_terms [of "PersistedRoom.terms r"] length_put_fee [of "PersistedRoom.fee r"]
  by (simp add: valid_room_def wf_room_def put_room_def put_bytes_u32_def is_room_id_def is_client_id_def)

lemma writer_bytes_u32_run [wire_simps, wire_run]: "writer_bytes_u32 v w = Inr (w @ put_bytes_u32 v)"
  by (simp add: writer_bytes_u32_def put_bytes_u32_def writer_u32_def)

lemma p_append_fee_terms_ok [wire_simps]:
  "p_append_fee_terms f w = Inr w' \<longleftrightarrow> valid_fee f \<and> w' = w @ put_fee_terms f"
  by (auto simp: p_append_fee_terms_def wire_simps exn_simps put_fee_terms_def dest: valid_fee_lengths)

lemma encode_one_room_ok:
  "encode_one_room r = Inr bs \<longleftrightarrow> valid_terms (PersistedRoom.terms r) \<and>
     valid_fee (PersistedRoom.fee r) \<and> length (PersistedRoom.abort_reason r) \<le> kMaxReasonLength \<and>
     bs = put_room r"
  by (auto simp: encode_one_room_def put_room_def wire_simps exn_simps encode_terms_ok)

lemma decode_put_terms: "valid_terms t \<Longrightarrow> decode_terms (put_terms t) = Inr t"
  by (simp add: terms_codec encode_terms_ok)

lemma read_one_room_put:
  assumes "valid_room r"
  shows "run_reader read_one_room (put_room r) = Inr r"
proof -
  have leg: "\<not> 1 < PersistedRoom.leg_index r"
    using assms by (simp add: valid_room_def wf_room_def not_less)
  have t: "length (put_terms (PersistedRoom.terms r)) \<le> 8192 \<and> length (put_terms (PersistedRoom.terms r)) < 2 ^ 32"
    using assms length_put_terms [of "PersistedRoom.terms r"] by (simp add: valid_room_def)
  show ?thesis
    using assms leg bytes32.get_put [OF t]
    by (simp add: valid_room_def wf_room_def is_room_id_def is_client_id_def read_one_room_def put_room_def
        p_fee.get_put decode_put_terms wire_run)
qed

lemma read_one_room_only:
  assumes "run_reader read_one_room bs = Inr r"
  shows "valid_room r \<and> bs = put_room r"
  using assms
  by (clarsimp simp: read_one_room_def wire_simps exn_simps valid_simps bytes32.get_at p_fee.get_at
      terms_codec encode_terms_ok simp del: flag_byte)
     (simp add: valid_room_def wf_room_def put_room_def is_room_id_def is_client_id_def
      state_byte_roundtrip(1) not_less)

lemma one_room_codec:
  "decode_one_room bs = Inr r \<longleftrightarrow> encode_one_room r = Inr bs \<and> wf_room r"
proof -
  have "decode_one_room bs = Inr r \<longleftrightarrow> run_reader read_one_room bs = Inr r"
    by (auto simp: decode_one_room_def split: sum.splits)
  also have "\<dots> \<longleftrightarrow> valid_room r \<and> bs = put_room r"
    using read_one_room_put read_one_room_only by blast
  finally show ?thesis
    by (auto simp: valid_room_def encode_one_room_ok)
qed

interpretation one_room_msg: message_codec encode_one_room decode_one_room wf_room
  by unfold_locales (simp add: one_room_codec)

text \<open>Whatever is wrong with a body, the caller sees a format error.\<close>

lemma decode_one_room_errors: "decode_one_room bs = Inl e \<Longrightarrow> \<exists>s. e = PersistenceFormatError s"
  by (auto simp: decode_one_room_def normalise_error_def split: sum.splits exn.splits)

interpretation room: codec "\<lambda>r. put_bytes_u32 (put_room r)" read_room valid_room
proof (rule codecI)
  fix pre rest r
  assume v: "valid_room r"
  then have "decode_one_room (put_room r) = Inr r"
    by (simp add: one_room_codec encode_one_room_ok valid_room_def)
  then show "read_room (at pre (put_bytes_u32 (put_room r) @ rest)) = Inr (r, at (pre @ put_bytes_u32 (put_room r)) rest)"
    using length_put_room [OF v] bytes32.get_put [of "put_room r" 8192 pre rest]
    by (simp add: read_room_def wire_run)
next
  fix pre bs r reader
  assume "read_room (at pre bs) = Inr (r, reader)"
  then show "valid_room r \<and> (\<exists>rest. bs = put_bytes_u32 (put_room r) @ rest \<and>
      reader = at (pre @ put_bytes_u32 (put_room r)) rest)"
    by (auto simp: read_room_def wire_simps bytes32.get_at one_room_codec encode_one_room_ok valid_room_def)
qed

lemma room_loop_ok [wire_simps]:
  "for_steps (\<lambda>r. [write_room r]) rs w = Inr w' \<longleftrightarrow>
     (\<forall>r\<in>set rs. valid_terms (PersistedRoom.terms r) \<and> valid_fee (PersistedRoom.fee r) \<and>
        length (PersistedRoom.abort_reason r) \<le> kMaxReasonLength) \<and>
     w' = w @ concat (map (\<lambda>r. put_bytes_u32 (put_room r)) rs)"
  by (rule for_steps_ok) (auto simp: write_room_def exn_simps encode_one_room_ok wire_simps)

definition wf_file :: "PersistedRoomFile \<Rightarrow> bool" where
  "wf_file file \<longleftrightarrow> format_version file = kPersistedRoomFormatVersion \<and> (\<forall>r\<in>set (rooms file). wf_room r)"

lemma persisted_rooms_codec:
  "decode_persisted_rooms bs = Inr file \<longleftrightarrow> encode_persisted_rooms file = Inr bs \<and> wf_file file"
proof
  assume "decode_persisted_rooms bs = Inr file"
  then show "encode_persisted_rooms file = Inr bs \<and> wf_file file"
    by (auto simp: decode_persisted_rooms_def encode_persisted_rooms_def wf_file_def valid_room_def
        wire_simps exn_simps room.get_list_at eq_unat_u32 unsigned_of_nat take_bit_eq_mod)
next
  assume "encode_persisted_rooms file = Inr bs \<and> wf_file file"
  then have n: "length (rooms file) \<le> 4096" and v: "\<forall>r\<in>set (rooms file). valid_room r"
    and bs: "bs = kMagic @ put_u16 1 @ put_u32 (of_nat (length (rooms file))) @
      concat (map (\<lambda>r. put_bytes_u32 (put_room r)) (rooms file))" and ver: "format_version file = 1"
    by (auto simp: encode_persisted_rooms_def wf_file_def valid_room_def wire_simps exn_simps)
  have "unat (word_of_nat (length (rooms file)) :: u32) = length (rooms file)"
    using n by (simp add: unsigned_of_nat take_bit_eq_mod)
  moreover have "length kMagic = 4"
    by (simp add: kMagic_def)
  ultimately show "decode_persisted_rooms bs = Inr file"
    using n v ver by (simp add: bs decode_persisted_rooms_def wire_run room.get_list_put_last)
qed

interpretation persisted_rooms_msg: message_codec encode_persisted_rooms decode_persisted_rooms wf_file
  by unfold_locales (simp add: persisted_rooms_codec)

section \<open>Writing is all or nothing\<close>

lemma tmp_path_neq [simp]: "path \<noteq> path @ ''.tmp''" "path @ ''.tmp'' \<noteq> path"
  by simp_all

lemma write_cases:
  "write_persisted_rooms sys path file fs = (r, fs') \<Longrightarrow>
     (case r of
        Inr u \<Rightarrow> \<exists>bs. encode_persisted_rooms file = Inr bs \<and> fs' path = Some bs
      | Inl e \<Rightarrow> fs' path = fs path) \<and>
     (\<forall>p. p \<noteq> path \<and> p \<noteq> path @ ''.tmp'' \<longrightarrow> fs' p = fs p)"
  by (cases "encode_persisted_rooms file"; cases "open_ok sys"; cases "write_ok sys"; cases "close_ok sys";
      cases "rename_ok sys")
     (auto simp: write_persisted_rooms_def sbind_def action_defs unlink_def rename_def Let_def)

text \<open>What was written is what is loaded.\<close>

lemma written_loads:
  assumes "write_persisted_rooms calls path file fs = (Inr (), fs')" "wf_file file"
  shows "load_persisted_rooms path fs' = Inr file"
proof -
  obtain bs where "encode_persisted_rooms file = Inr bs" "fs' path = Some bs"
    using write_cases [OF assms(1), THEN conjunct1] by auto
  then show ?thesis
    using assms(2) by (simp add: load_persisted_rooms_def persisted_rooms_codec)
qed

end
