(* ===== verification/Receipt.thy ===== *)
theory Receipt
  imports Mediator
begin

text \<open>
  Mediator-signed receipts, \<open>src/src/receipt.cpp\<close>: the canonical byte strings the parties and the
  mediator sign, hybrid verification, and the verification of a receipt chain. The primitives of
  the crypto library are parameters, collected in the record \<open>crypto\<close>; signing and verification
  may throw, as their wrappers in \<open>identity.cpp\<close> do.
\<close>

section \<open>Data\<close>

record crypto =
  sha256 :: "bytes \<Rightarrow> bytes"
  ed25519_sign :: "bytes \<Rightarrow> bytes \<Rightarrow> bytes result"
  ed25519_verify :: "bytes \<Rightarrow> bytes \<Rightarrow> bytes \<Rightarrow> bool result"
  mldsa65_sign :: "bytes \<Rightarrow> bytes \<Rightarrow> bytes result"
  mldsa65_verify :: "bytes \<Rightarrow> bytes \<Rightarrow> bytes \<Rightarrow> bool result"

text \<open>\<open>parse_ed25519_public_key\<close> and \<open>parse_mldsa65_public_key\<close> of \<open>identity.cpp\<close>.\<close>

definition parse_ed25519_public_key :: "bytes \<Rightarrow> bytes option" where
  "parse_ed25519_public_key bs =
     (if length bs \<noteq> 32 then None else if list_all (\<lambda>b. b = 0) bs then None else Some bs)"

definition parse_mldsa65_public_key :: "bytes \<Rightarrow> bytes option" where
  "parse_mldsa65_public_key bs =
     (if length bs \<noteq> 1952 then None else if list_all (\<lambda>b. b = 0) bs then None else Some bs)"

abbreviation (input) kReceiptSuiteEd25519MlDsa65HybridV1 :: u16
  where "kReceiptSuiteEd25519MlDsa65HybridV1 \<equiv> 2"
abbreviation (input) kReceiptMaxMediatorIdLength :: nat where "kReceiptMaxMediatorIdLength \<equiv> 256"
abbreviation (input) kReceiptNonceLength :: nat where "kReceiptNonceLength \<equiv> 16"

definition kReceiptAckDomainLabel :: string where
  "kReceiptAckDomainLabel = ''TRADEP2P_RECEIPT_ACK_V1''"

definition kReceiptDomainLabel :: string where
  "kReceiptDomainLabel = ''TRADEP2P_RECEIPT_V1''"

datatype ReceiptStage =
    TermsAccepted | RoundAcknowledged | PenultimateObligationsComplete | SettlementCompleted
  | ReceiptStageRaw u8

fun byte_of_stage :: "ReceiptStage \<Rightarrow> u8" where
  "byte_of_stage TermsAccepted = 1"
| "byte_of_stage RoundAcknowledged = 2"
| "byte_of_stage PenultimateObligationsComplete = 3"
| "byte_of_stage SettlementCompleted = 4"
| "byte_of_stage (ReceiptStageRaw b) = b"

definition stage_of_byte :: "u8 \<Rightarrow> ReceiptStage" where
  "stage_of_byte b =
     (if b = 1 then TermsAccepted else if b = 2 then RoundAcknowledged
      else if b = 3 then PenultimateObligationsComplete else if b = 4 then SettlementCompleted
      else ReceiptStageRaw b)"

record ReceiptAckFields =
  suite_id :: u16
  protocol_version :: u16
  mediator_id :: string
  room_id :: RoomId
  stage :: ReceiptStage
  terms_commitment :: bytes
  timestamp :: u64

record ReceiptFields =
  suite_id :: u16
  protocol_version :: u16
  mediator_id :: string
  room_id :: RoomId
  terms_commitment :: bytes
  party_a_ephemeral_key :: bytes
  party_b_ephemeral_key :: bytes
  party_a_ephemeral_key_mldsa65 :: bytes
  party_b_ephemeral_key_mldsa65 :: bytes
  mediator_public_key :: bytes
  mediator_public_key_mldsa65 :: bytes
  stage :: ReceiptStage
  completed :: bool
  timestamp :: u64
  nonce :: bytes
  previous_stage_hash :: bytes

record IssuedReceipt =
  receipt_fields :: ReceiptFields
  mediator_signature :: bytes
  mediator_signature_mldsa65 :: bytes

section \<open>Signed payloads\<close>

abbreviation (input) w_length_prefixed :: "string \<Rightarrow> nat \<Rightarrow> write_step" where
  "w_length_prefixed \<equiv> writer_short_string (Invalid_argument ''receipt field exceeds protocol limit'')"

definition require_known_stage :: "ReceiptStage \<Rightarrow> unit result" where
  "require_known_stage st =
     throw_if (st \<notin> {TermsAccepted, RoundAcknowledged, PenultimateObligationsComplete, SettlementCompleted})
       (Invalid_argument ''unknown receipt stage'')"

fun receipt_stage_name :: "ReceiptStage \<Rightarrow> string" where
  "receipt_stage_name TermsAccepted = ''terms_accepted''"
| "receipt_stage_name RoundAcknowledged = ''round_acknowledged''"
| "receipt_stage_name PenultimateObligationsComplete = ''penultimate_obligations_complete''"
| "receipt_stage_name SettlementCompleted = ''settlement_completed''"
| "receipt_stage_name (ReceiptStageRaw b) = ''unknown''"

definition encode_receipt_ack_signed_payload :: "ReceiptAckFields \<Rightarrow> bytes result" where
  "encode_receipt_ack_signed_payload f = steps
     [check (require_known_stage (ReceiptAckFields.stage f)),
      check (throw_if (length (ReceiptAckFields.mediator_id f) > kReceiptMaxMediatorIdLength)
        (Invalid_argument ''receipt ack mediator id exceeds maximum length'')),
      w_length_prefixed kReceiptAckDomainLabel (length kReceiptAckDomainLabel),
      writer_u16 (ReceiptAckFields.protocol_version f),
      writer_u16 (ReceiptAckFields.suite_id f),
      w_length_prefixed (ReceiptAckFields.mediator_id f) kReceiptMaxMediatorIdLength,
      writer_fixed_id (ReceiptAckFields.room_id f),
      writer_u8 (byte_of_stage (ReceiptAckFields.stage f)),
      writer_fixed_id (ReceiptAckFields.terms_commitment f),
      writer_u64 (ReceiptAckFields.timestamp f)] []"

definition encode_receipt_signed_payload :: "ReceiptFields \<Rightarrow> bytes result" where
  "encode_receipt_signed_payload f = steps
     [check (require_known_stage (ReceiptFields.stage f)),
      check (throw_if (length (ReceiptFields.mediator_id f) > kReceiptMaxMediatorIdLength)
        (Invalid_argument ''receipt mediator id exceeds maximum length'')),
      w_length_prefixed kReceiptDomainLabel (length kReceiptDomainLabel),
      writer_u16 (ReceiptFields.protocol_version f),
      writer_u16 (ReceiptFields.suite_id f),
      w_length_prefixed (ReceiptFields.mediator_id f) kReceiptMaxMediatorIdLength,
      writer_fixed_id (ReceiptFields.room_id f),
      writer_fixed_id (ReceiptFields.terms_commitment f),
      writer_fixed_id (ReceiptFields.party_a_ephemeral_key f),
      writer_fixed_id (ReceiptFields.party_b_ephemeral_key f),
      writer_fixed_id (ReceiptFields.party_a_ephemeral_key_mldsa65 f),
      writer_fixed_id (ReceiptFields.party_b_ephemeral_key_mldsa65 f),
      writer_fixed_id (ReceiptFields.mediator_public_key f),
      writer_fixed_id (ReceiptFields.mediator_public_key_mldsa65 f),
      writer_u8 (byte_of_stage (ReceiptFields.stage f)),
      writer_u8 (if ReceiptFields.completed f then 1 else 0),
      writer_u64 (ReceiptFields.timestamp f),
      writer_fixed_id (ReceiptFields.nonce f),
      writer_fixed_id (ReceiptFields.previous_stage_hash f)] []"

section \<open>Signing and verification\<close>

definition sign_receipt_ack :: "crypto \<Rightarrow> bytes \<Rightarrow> ReceiptAckFields \<Rightarrow> bytes result" where
  "sign_receipt_ack cr seed f = rbind (encode_receipt_ack_signed_payload f) (ed25519_sign cr seed)"

definition verify_receipt_ack :: "crypto \<Rightarrow> bytes \<Rightarrow> ReceiptAckFields \<Rightarrow> bytes \<Rightarrow> bool result" where
  "verify_receipt_ack cr key f sig =
     rbind (encode_receipt_ack_signed_payload f) (\<lambda>payload. ed25519_verify cr key payload sig)"

definition sign_receipt_ack_mldsa65 :: "crypto \<Rightarrow> bytes \<Rightarrow> ReceiptAckFields \<Rightarrow> bytes result" where
  "sign_receipt_ack_mldsa65 cr seed f =
     rbind (encode_receipt_ack_signed_payload f) (mldsa65_sign cr seed)"

definition verify_receipt_ack_mldsa65 ::
  "crypto \<Rightarrow> bytes \<Rightarrow> ReceiptAckFields \<Rightarrow> bytes \<Rightarrow> bool result" where
  "verify_receipt_ack_mldsa65 cr key f sig =
     rbind (encode_receipt_ack_signed_payload f) (\<lambda>payload. mldsa65_verify cr key payload sig)"

definition verify_receipt_ack_hybrid ::
  "crypto \<Rightarrow> bytes \<Rightarrow> bytes \<Rightarrow> ReceiptAckFields \<Rightarrow> bytes \<Rightarrow> bytes \<Rightarrow> bool result" where
  "verify_receipt_ack_hybrid cr key key2 f sig sig2 =
     rbind (verify_receipt_ack cr key f sig) (\<lambda>ok.
     if ok then verify_receipt_ack_mldsa65 cr key2 f sig2 else Inr False)"

definition sign_receipt :: "crypto \<Rightarrow> bytes \<Rightarrow> ReceiptFields \<Rightarrow> bytes result" where
  "sign_receipt cr seed f = rbind (encode_receipt_signed_payload f) (ed25519_sign cr seed)"

definition verify_receipt :: "crypto \<Rightarrow> bytes \<Rightarrow> ReceiptFields \<Rightarrow> bytes \<Rightarrow> bool result" where
  "verify_receipt cr key f sig =
     rbind (encode_receipt_signed_payload f) (\<lambda>payload. ed25519_verify cr key payload sig)"

definition sign_receipt_mldsa65 :: "crypto \<Rightarrow> bytes \<Rightarrow> ReceiptFields \<Rightarrow> bytes result" where
  "sign_receipt_mldsa65 cr seed f = rbind (encode_receipt_signed_payload f) (mldsa65_sign cr seed)"

definition verify_receipt_mldsa65 :: "crypto \<Rightarrow> bytes \<Rightarrow> ReceiptFields \<Rightarrow> bytes \<Rightarrow> bool result" where
  "verify_receipt_mldsa65 cr key f sig =
     rbind (encode_receipt_signed_payload f) (\<lambda>payload. mldsa65_verify cr key payload sig)"

definition verify_receipt_hybrid ::
  "crypto \<Rightarrow> bytes \<Rightarrow> bytes \<Rightarrow> ReceiptFields \<Rightarrow> bytes \<Rightarrow> bytes \<Rightarrow> bool result" where
  "verify_receipt_hybrid cr key key2 f sig sig2 =
     rbind (verify_receipt cr key f sig) (\<lambda>ok.
     if ok then verify_receipt_mldsa65 cr key2 f sig2 else Inr False)"

definition receipt_chain_link_hash ::
  "crypto \<Rightarrow> ReceiptFields \<Rightarrow> bytes \<Rightarrow> bytes \<Rightarrow> bytes result" where
  "receipt_chain_link_hash cr f sig sig2 =
     rbind (encode_receipt_signed_payload f) (\<lambda>bs. Inr (sha256 cr (bs @ sig @ sig2)))"

definition same_room :: "ReceiptFields \<Rightarrow> ReceiptFields \<Rightarrow> bool" where
  "same_room f first \<longleftrightarrow>
     ReceiptFields.room_id f = ReceiptFields.room_id first \<and>
     ReceiptFields.terms_commitment f = ReceiptFields.terms_commitment first \<and>
     ReceiptFields.party_a_ephemeral_key f = ReceiptFields.party_a_ephemeral_key first \<and>
     ReceiptFields.party_b_ephemeral_key f = ReceiptFields.party_b_ephemeral_key first \<and>
     ReceiptFields.party_a_ephemeral_key_mldsa65 f = ReceiptFields.party_a_ephemeral_key_mldsa65 first \<and>
     ReceiptFields.party_b_ephemeral_key_mldsa65 f = ReceiptFields.party_b_ephemeral_key_mldsa65 first \<and>
     ReceiptFields.mediator_public_key f = ReceiptFields.mediator_public_key first \<and>
     ReceiptFields.mediator_public_key_mldsa65 f = ReceiptFields.mediator_public_key_mldsa65 first"

text \<open>The loop of \<open>verify_receipt_chain\<close> with its two variables \<open>expected_previous_hash\<close> and
  \<open>previous_stage\<close>.\<close>

fun verify_chain_loop ::
  "crypto \<Rightarrow> bytes \<Rightarrow> bytes \<Rightarrow> ReceiptFields \<Rightarrow> bytes \<Rightarrow> ReceiptStage option \<Rightarrow> IssuedReceipt list \<Rightarrow>
   unit result" where
  "verify_chain_loop cr key key2 first expected prev [] = Inr ()"
| "verify_chain_loop cr key key2 first expected prev (entry # rest) =
     (let f = receipt_fields entry in
     rbind (require_known_stage (ReceiptFields.stage f)) (\<lambda>_.
     rbind (verify_receipt_hybrid cr key key2 f (mediator_signature entry)
              (mediator_signature_mldsa65 entry)) (\<lambda>ok.
     rbind (throw_if (\<not> ok) (ReceiptChainError ''receipt signature does not verify'')) (\<lambda>_.
     rbind (throw_if (\<not> same_room f first)
              (ReceiptChainError ''receipt chain mixes entries from different rooms or parties'')) (\<lambda>_.
     rbind (throw_if (ReceiptFields.previous_stage_hash f \<noteq> expected)
              (ReceiptChainError ''receipt chain link hash mismatch'')) (\<lambda>_.
     rbind (throw_if (case prev of None \<Rightarrow> False
                      | Some p \<Rightarrow> byte_of_stage (ReceiptFields.stage f) \<le> byte_of_stage p)
              (ReceiptChainError ''receipt chain stages do not strictly increase'')) (\<lambda>_.
     rbind (receipt_chain_link_hash cr f (mediator_signature entry)
              (mediator_signature_mldsa65 entry)) (\<lambda>h.
     verify_chain_loop cr key key2 first h (Some (ReceiptFields.stage f)) rest))))))))"

definition verify_receipt_chain :: "crypto \<Rightarrow> IssuedReceipt list \<Rightarrow> bytes \<Rightarrow> bytes \<Rightarrow> unit result" where
  "verify_receipt_chain cr receipts key key2 =
     (case receipts of
        [] \<Rightarrow> Inl (ReceiptChainError ''receipt chain is empty'')
      | entry # _ \<Rightarrow>
          verify_chain_loop cr key key2 (receipt_fields entry) (zero_id 32) None receipts)"

section \<open>Canonical payloads\<close>

definition wf_receipt_fields :: "ReceiptFields \<Rightarrow> bool" where
  "wf_receipt_fields f \<longleftrightarrow> is_room_id (ReceiptFields.room_id f) \<and>
     length (ReceiptFields.terms_commitment f) = 32 \<and>
     length (ReceiptFields.party_a_ephemeral_key f) = 32 \<and>
     length (ReceiptFields.party_b_ephemeral_key f) = 32 \<and>
     length (ReceiptFields.party_a_ephemeral_key_mldsa65 f) = 1952 \<and>
     length (ReceiptFields.party_b_ephemeral_key_mldsa65 f) = 1952 \<and>
     length (ReceiptFields.mediator_public_key f) = 32 \<and>
     length (ReceiptFields.mediator_public_key_mldsa65 f) = 1952 \<and>
     length (ReceiptFields.nonce f) = kReceiptNonceLength \<and>
     length (ReceiptFields.previous_stage_hash f) = 32"

definition put_receipt_payload :: "ReceiptFields \<Rightarrow> bytes" where
  "put_receipt_payload f = put_string kReceiptDomainLabel @ put_u16 (ReceiptFields.protocol_version f) @
     put_u16 (ReceiptFields.suite_id f) @ put_string (ReceiptFields.mediator_id f) @
     ReceiptFields.room_id f @ ReceiptFields.terms_commitment f @
     ReceiptFields.party_a_ephemeral_key f @ ReceiptFields.party_b_ephemeral_key f @
     ReceiptFields.party_a_ephemeral_key_mldsa65 f @ ReceiptFields.party_b_ephemeral_key_mldsa65 f @
     ReceiptFields.mediator_public_key f @ ReceiptFields.mediator_public_key_mldsa65 f @
     put_u8 (byte_of_stage (ReceiptFields.stage f)) @ put_u8 (if ReceiptFields.completed f then 1 else 0) @
     put_u64 (ReceiptFields.timestamp f) @ ReceiptFields.nonce f @ ReceiptFields.previous_stage_hash f"

lemma require_known_stage_ok [exn_simps]:
  "require_known_stage st = Inr u \<longleftrightarrow> (\<forall>b. st \<noteq> ReceiptStageRaw b)"
  by (cases st) (auto simp: require_known_stage_def exn_simps)

lemma known_stage_inj:
  "\<forall>b. st \<noteq> ReceiptStageRaw b \<Longrightarrow> \<forall>b. st' \<noteq> ReceiptStageRaw b \<Longrightarrow>
     byte_of_stage st = byte_of_stage st' \<longleftrightarrow> st = st'"
  by (cases st; cases st') auto

lemma encode_receipt_signed_payload_ok:
  "encode_receipt_signed_payload f = Inr bs \<longleftrightarrow> (\<forall>b. ReceiptFields.stage f \<noteq> ReceiptStageRaw b) \<and>
     length (ReceiptFields.mediator_id f) \<le> kReceiptMaxMediatorIdLength \<and> bs = put_receipt_payload f"
  by (simp add: encode_receipt_signed_payload_def put_receipt_payload_def wire_simps exn_simps
      kReceiptDomainLabel_def del: steps.simps if_split) auto

lemma put_string_prefix:
  "length s \<le> 65535 \<Longrightarrow> length t \<le> 65535 \<Longrightarrow> put_string s @ r = put_string t @ r' \<Longrightarrow> s = t \<and> r = r'"
  using string16.put_unambiguous [of s 65535 t r r'] by simp

lemma put_receipt_payload_prefix:
  assumes "wf_receipt_fields f" "wf_receipt_fields f'" "put_receipt_payload f @ r = put_receipt_payload f' @ r'"
    and "length (ReceiptFields.mediator_id f) \<le> 256" "length (ReceiptFields.mediator_id f') \<le> 256"
    and "\<forall>b. ReceiptFields.stage f \<noteq> ReceiptStageRaw b" "\<forall>b. ReceiptFields.stage f' \<noteq> ReceiptStageRaw b"
  shows "f = f' \<and> r = r'"
proof -
  define tail where "tail f = ReceiptFields.room_id f @ ReceiptFields.terms_commitment f @
     ReceiptFields.party_a_ephemeral_key f @ ReceiptFields.party_b_ephemeral_key f @
     ReceiptFields.party_a_ephemeral_key_mldsa65 f @ ReceiptFields.party_b_ephemeral_key_mldsa65 f @
     ReceiptFields.mediator_public_key f @ ReceiptFields.mediator_public_key_mldsa65 f @
     put_u8 (byte_of_stage (ReceiptFields.stage f)) @ put_u8 (if ReceiptFields.completed f then 1 else 0) @
     put_u64 (ReceiptFields.timestamp f) @ ReceiptFields.nonce f @ ReceiptFields.previous_stage_hash f"
    for f :: ReceiptFields
  have head: "ReceiptFields.protocol_version f = ReceiptFields.protocol_version f'"
    "ReceiptFields.suite_id f = ReceiptFields.suite_id f'"
    and "put_string (ReceiptFields.mediator_id f) @ tail f @ r =
      put_string (ReceiptFields.mediator_id f') @ tail f' @ r'"
    using assms(3) by (auto simp: put_receipt_payload_def tail_def append_eq_append_conv)
  then have m: "ReceiptFields.mediator_id f = ReceiptFields.mediator_id f'" and t: "tail f @ r = tail f' @ r'"
    using put_string_prefix [of "ReceiptFields.mediator_id f" "ReceiptFields.mediator_id f'" "tail f @ r" "tail f' @ r'"]
      assms(4,5) by auto
  from t have "byte_of_stage (ReceiptFields.stage f) = byte_of_stage (ReceiptFields.stage f')"
    "ReceiptFields.completed f = ReceiptFields.completed f'"
    and rest: "ReceiptFields.room_id f = ReceiptFields.room_id f'"
    "ReceiptFields.terms_commitment f = ReceiptFields.terms_commitment f'"
    "ReceiptFields.party_a_ephemeral_key f = ReceiptFields.party_a_ephemeral_key f'"
    "ReceiptFields.party_b_ephemeral_key f = ReceiptFields.party_b_ephemeral_key f'"
    "ReceiptFields.party_a_ephemeral_key_mldsa65 f = ReceiptFields.party_a_ephemeral_key_mldsa65 f'"
    "ReceiptFields.party_b_ephemeral_key_mldsa65 f = ReceiptFields.party_b_ephemeral_key_mldsa65 f'"
    "ReceiptFields.mediator_public_key f = ReceiptFields.mediator_public_key f'"
    "ReceiptFields.mediator_public_key_mldsa65 f = ReceiptFields.mediator_public_key_mldsa65 f'"
    "ReceiptFields.timestamp f = ReceiptFields.timestamp f'"
    "ReceiptFields.nonce f = ReceiptFields.nonce f'"
    "ReceiptFields.previous_stage_hash f = ReceiptFields.previous_stage_hash f'" "r = r'"
    using assms(1,2)
    by (auto simp: tail_def wf_receipt_fields_def is_room_id_def append_eq_append_conv split: if_splits)
  moreover have "ReceiptFields.stage f = ReceiptFields.stage f'"
    using known_stage_inj [OF assms(6,7)] calculation(1) by simp
  ultimately show ?thesis
    using head m by simp
qed

text \<open>The two kinds of payload start with different labels.\<close>

lemma payload_domains:
  assumes "encode_receipt_signed_payload f = Inr bs" "encode_receipt_ack_signed_payload a = Inr bs"
  shows False
proof -
  obtain r where "bs = put_string kReceiptDomainLabel @ r"
    using assms(1) by (auto simp: encode_receipt_signed_payload_ok put_receipt_payload_def)
  moreover obtain r' where "bs = put_string kReceiptAckDomainLabel @ r'"
    using assms(2) by (auto simp: encode_receipt_ack_signed_payload_def wire_simps exn_simps)
  ultimately have "kReceiptDomainLabel = kReceiptAckDomainLabel"
    using put_string_prefix [of kReceiptDomainLabel kReceiptAckDomainLabel r r']
    by (simp add: kReceiptDomainLabel_def kReceiptAckDomainLabel_def)
  then show False
    by (simp add: kReceiptDomainLabel_def kReceiptAckDomainLabel_def)
qed

section \<open>What a verified chain guarantees\<close>

definition entry_link :: "crypto \<Rightarrow> IssuedReceipt \<Rightarrow> bytes result" where
  "entry_link cr e = receipt_chain_link_hash cr (receipt_fields e) (mediator_signature e)
     (mediator_signature_mldsa65 e)"

text \<open>Every entry carries the link of the one before it.\<close>

fun linked :: "crypto \<Rightarrow> bytes \<Rightarrow> IssuedReceipt list \<Rightarrow> bool" where
  "linked cr h [] \<longleftrightarrow> True"
| "linked cr h (e # es) \<longleftrightarrow> ReceiptFields.previous_stage_hash (receipt_fields e) = h \<and>
     (case entry_link cr e of Inl _ \<Rightarrow> False | Inr h' \<Rightarrow> linked cr h' es)"

definition stage_number :: "IssuedReceipt \<Rightarrow> u8" where
  "stage_number e = byte_of_stage (ReceiptFields.stage (receipt_fields e))"

definition entry_verified :: "crypto \<Rightarrow> bytes \<Rightarrow> bytes \<Rightarrow> IssuedReceipt \<Rightarrow> bool" where
  "entry_verified cr key key2 e \<longleftrightarrow>
     verify_receipt cr key (receipt_fields e) (mediator_signature e) = Inr True \<and>
     verify_receipt_mldsa65 cr key2 (receipt_fields e) (mediator_signature_mldsa65 e) = Inr True"

lemma verify_receipt_hybrid_True:
  "verify_receipt_hybrid cr key key2 (receipt_fields e) (mediator_signature e)
     (mediator_signature_mldsa65 e) = Inr True \<longleftrightarrow> entry_verified cr key key2 e"
  by (auto simp: verify_receipt_hybrid_def entry_verified_def exn_simps split: if_splits)

lemma chain_loop_ok:
  "verify_chain_loop cr key key2 first h prev es = Inr () \<longleftrightarrow>
     (\<forall>e\<in>set es. entry_verified cr key key2 e \<and> same_room (receipt_fields e) first \<and>
        (\<forall>b. ReceiptFields.stage (receipt_fields e) \<noteq> ReceiptStageRaw b)) \<and>
     linked cr h es \<and> sorted_wrt (<) (map stage_number es) \<and>
     (case prev of None \<Rightarrow> True | Some p \<Rightarrow> \<forall>e\<in>set es. byte_of_stage p < stage_number e)"
proof (induction cr key key2 first h prev es rule: verify_chain_loop.induct)
  case (2 cr key key2 first h prev e es)
  let ?f = "receipt_fields e"
  have "verify_chain_loop cr key key2 first h prev (e # es) = Inr () \<longleftrightarrow>
      (\<forall>b. ReceiptFields.stage ?f \<noteq> ReceiptStageRaw b) \<and> entry_verified cr key key2 e \<and>
      same_room ?f first \<and> ReceiptFields.previous_stage_hash ?f = h \<and>
      (case prev of None \<Rightarrow> True | Some p \<Rightarrow> byte_of_stage p < stage_number e) \<and>
      (\<exists>h'. entry_link cr e = Inr h' \<and>
         verify_chain_loop cr key key2 first h' (Some (ReceiptFields.stage ?f)) es = Inr ())"
    unfolding verify_receipt_hybrid_True [symmetric]
    by (auto simp: Let_def exn_simps entry_link_def stage_number_def not_le split: option.splits)
  also have "\<dots> \<longleftrightarrow> (\<forall>e'\<in>set (e # es). entry_verified cr key key2 e' \<and> same_room (receipt_fields e') first \<and>
        (\<forall>b. ReceiptFields.stage (receipt_fields e') \<noteq> ReceiptStageRaw b)) \<and>
     linked cr h (e # es) \<and> sorted_wrt (<) (map stage_number (e # es)) \<and>
     (case prev of None \<Rightarrow> True | Some p \<Rightarrow> \<forall>e'\<in>set (e # es). byte_of_stage p < stage_number e')"
    using "2.IH" by (cases "entry_link cr e") (fastforce simp: stage_number_def split: option.splits)+
  finally show ?case .
qed (auto split: option.splits)

lemma known_stage_range:
  "\<forall>b. st \<noteq> ReceiptStageRaw b \<Longrightarrow> unat (byte_of_stage st) \<in> {1..4}"
  by (cases st) auto

lemma chain_length:
  assumes "verify_receipt_chain cr es key key2 = Inr ()"
  shows "length es \<le> 4"
proof -
  obtain first where "verify_chain_loop cr key key2 first (zero_id 32) None es = Inr ()"
    using assms unfolding verify_receipt_chain_def
    by (cases es) (metis sum.distinct(1) list.case(1), metis list.case(2))
  then have s: "sorted_wrt (<) (map stage_number es)"
    and k: "\<forall>e\<in>set es. \<forall>b. ReceiptFields.stage (receipt_fields e) \<noteq> ReceiptStageRaw b"
    by (auto simp: chain_loop_ok)
  have "distinct (map stage_number es)"
    using s by (simp add: strict_sorted_iff)
  then have "length es = card (unat ` set (map stage_number es))"
    by (metis card_image distinct_card inj_on_def length_map word_unat_eq_iff)
  also have "\<dots> \<le> card {1..4::nat}"
    using k known_stage_range by (intro card_mono) (auto simp: stage_number_def)
  finally show ?thesis
    by simp
qed

definition wf_issued :: "IssuedReceipt \<Rightarrow> bool" where
  "wf_issued e \<longleftrightarrow> wf_receipt_fields (receipt_fields e) \<and> length (mediator_signature e) = 64 \<and>
     length (mediator_signature_mldsa65 e) = 3309"

text \<open>The bytes that are hashed into the link of an entry.\<close>

definition link_input :: "IssuedReceipt \<Rightarrow> bytes" where
  "link_input e = put_receipt_payload (receipt_fields e) @ mediator_signature e @ mediator_signature_mldsa65 e"

lemma entry_link_ok:
  "entry_link cr e = Inr h \<longleftrightarrow> (\<forall>b. ReceiptFields.stage (receipt_fields e) \<noteq> ReceiptStageRaw b) \<and>
     length (ReceiptFields.mediator_id (receipt_fields e)) \<le> kReceiptMaxMediatorIdLength \<and>
     h = sha256 cr (link_input e)"
  by (auto simp: entry_link_def receipt_chain_link_hash_def link_input_def exn_simps
      encode_receipt_signed_payload_ok)

lemma entry_link_inj:
  assumes "sha256 cr (link_input e) = sha256 cr (link_input e') \<Longrightarrow> link_input e = link_input e'"
    and "wf_issued e" "wf_issued e'" "entry_link cr e = Inr h" "entry_link cr e' = Inr h"
  shows "e = e'"
proof -
  have "link_input e = link_input e'"
    using assms(1,4,5) by (simp add: entry_link_ok)
  then have "receipt_fields e = receipt_fields e' \<and> mediator_signature e @ mediator_signature_mldsa65 e =
      mediator_signature e' @ mediator_signature_mldsa65 e'"
    using assms(2-5) unfolding link_input_def
    by (intro put_receipt_payload_prefix) (auto simp: wf_issued_def entry_link_ok)
  then show ?thesis
    using assms(2,3) by (auto simp: wf_issued_def)
qed

lemma linked_snoc:
  "linked cr h (es @ [e]) \<longleftrightarrow> linked cr h es \<and> (\<exists>h'. entry_link cr e = Inr h') \<and>
     (if es = [] then ReceiptFields.previous_stage_hash (receipt_fields e) = h
      else entry_link cr (last es) = Inr (ReceiptFields.previous_stage_hash (receipt_fields e)))"
  by (induction cr h es rule: linked.induct) (auto split: sum.splits)

text \<open>As long as the hash does not collide on the entries at hand and hits none of them with the
  all-zero start value, the last entry of a chain determines the chain.\<close>

lemma linked_determined:
  assumes "inj_on (sha256 cr) (link_input ` (set es \<union> set es'))"
    and "h0 \<notin> sha256 cr ` link_input ` (set es \<union> set es')"
    and "\<forall>e\<in>set es. wf_issued e" "\<forall>e\<in>set es'. wf_issued e"
    and "linked cr h0 es" "linked cr h0 es'" "es \<noteq> []" "es' \<noteq> []" "last es = last es'"
  shows "es = es'"
  using assms
proof (induction es arbitrary: es' rule: rev_induct)
  case (snoc e es)
  obtain fs where fs: "es' = fs @ [e]"
    using snoc.prems(8,9) by (metis append_butlast_last_id last_snoc)
  have link: "entry_link cr x \<noteq> Inr h0" if "x \<in> set es \<union> set fs" for x
    using snoc.prems(2) that by (auto simp: entry_link_ok fs)
  show ?case
  proof (cases "es = [] \<or> fs = []")
    case True
    then show ?thesis
      using snoc.prems(5,6) link [OF UnI1, OF last_in_set] link [OF UnI2, OF last_in_set]
      by (auto simp: linked_snoc fs split: if_splits)
  next
    case False
    then have "last es \<in> set es" "last fs \<in> set fs"
      by simp_all
    moreover have "sha256 cr (link_input (last es)) = sha256 cr (link_input (last fs)) \<Longrightarrow>
        link_input (last es) = link_input (last fs)"
      using snoc.prems(1) calculation by (auto simp: fs dest: inj_onD)
    ultimately have "last es = last fs"
      using snoc.prems(3-6) False entry_link_inj [of cr "last es" "last fs"]
      by (auto simp: linked_snoc fs)
    moreover have "inj_on (sha256 cr) (link_input ` (set es \<union> set fs))"
      using snoc.prems(1) by (rule inj_on_subset) (auto simp: fs)
    ultimately have "es = fs"
      using False snoc.prems(2-6) by (intro snoc.IH) (auto simp: linked_snoc fs)
    then show ?thesis
      by (simp add: fs)
  qed
qed simp

end
