(* ===== verification/Journal.thy ===== *)
theory Journal
  imports Persistence Receipt
begin

text \<open>
  The client's signed local journal, \<open>src/src/journal.cpp\<close>: entries linked by a hash chain, signed
  checkpoints, the replay that verifies a log before it is used, and the separate head-pointer file. A
  journal object is the record \<open>Journal\<close> without the file descriptor, which stands for the file at
  \<open>log_path\<close>; its operations act on the pair of the object and the disk. A \<open>write\<close> may fail after any
  number of bytes, so how far it got is an argument of the operations, as are the clock and the outcome
  of the other system calls.
\<close>

section \<open>Data\<close>

type_synonym JournalHash = bytes
type_synonym TradeId = bytes

abbreviation (input) kJournalHashLength :: nat where "kJournalHashLength \<equiv> 32"
abbreviation (input) kJournalTradeIdLength :: nat where "kJournalTradeIdLength \<equiv> 16"
abbreviation (input) kJournalMaxMediatorIdLength :: nat where "kJournalMaxMediatorIdLength \<equiv> 256"
abbreviation (input) kJournalCheckpointSuiteEd25519V1 :: u16 where "kJournalCheckpointSuiteEd25519V1 \<equiv> 1"
abbreviation (input) kJournalCheckpointSuiteMlDsa65V1 :: u16 where "kJournalCheckpointSuiteMlDsa65V1 \<equiv> 2"
abbreviation (input) kEd25519SignatureLength :: nat where "kEd25519SignatureLength \<equiv> 64"
abbreviation (input) kMlDsa65SignatureLength :: nat where "kMlDsa65SignatureLength \<equiv> 3309"

datatype MessageDirection = Outbound | Inbound | MessageDirectionRaw u8

datatype AcknowledgementState = NotApplicable | Pending | Acknowledged | AcknowledgementStateRaw u8

fun byte_of_direction :: "MessageDirection \<Rightarrow> u8" where
  "byte_of_direction Outbound = 0"
| "byte_of_direction Inbound = 1"
| "byte_of_direction (MessageDirectionRaw b) = b"

definition direction_of_byte :: "u8 \<Rightarrow> MessageDirection" where
  "direction_of_byte b = (if b = 0 then Outbound else if b = 1 then Inbound else MessageDirectionRaw b)"

fun byte_of_ack :: "AcknowledgementState \<Rightarrow> u8" where
  "byte_of_ack NotApplicable = 0"
| "byte_of_ack Pending = 1"
| "byte_of_ack Acknowledged = 2"
| "byte_of_ack (AcknowledgementStateRaw b) = b"

definition ack_of_byte :: "u8 \<Rightarrow> AcknowledgementState" where
  "ack_of_byte b = (if b = 0 then NotApplicable else if b = 1 then Pending else if b = 2 then Acknowledged
     else AcknowledgementStateRaw b)"

record JournalEntryFields =
  version :: u16
  room_id :: RoomId
  trade_id :: TradeId
  mediator_id :: string
  counterparty_fingerprint :: bytes
  terms_commitment :: JournalHash
  round :: u32
  direction :: MessageDirection
  message_type :: MessageType
  message_hash :: JournalHash
  ack_state :: AcknowledgementState
  local_state :: SessionState
  timestamp :: u64

record JournalEntry =
  index :: u64
  entry_fields :: JournalEntryFields
  previous_hash :: JournalHash
  entry_hash :: JournalHash

record Journal =
  log_path :: string
  head_path :: string
  entries :: "JournalEntry list"
  chain_head :: JournalHash
  last_checkpoint_index :: u64
  has_checkpoint :: bool
  last_state_by_trade :: "string \<rightharpoonup> SessionState"

record HeadPointer =
  head_suite_id :: u16
  head_index :: u64
  head_hash :: JournalHash
  head_signed_at :: u64
  head_signature :: bytes

section \<open>Reader and writer\<close>

abbreviation (input) j_truncated :: exn where
  "j_truncated \<equiv> JournalFormatError ''truncated journal record''"
abbreviation (input) j_bytes_u16 :: "string \<Rightarrow> write_step" where
  "j_bytes_u16 s \<equiv> writer_short_string (Invalid_argument ''journal field exceeds u16 length prefix'') s 65535"
abbreviation (input) j_u8 :: "u8 parser" where "j_u8 \<equiv> get_u8 j_truncated"
abbreviation (input) j_u16 :: "u16 parser" where "j_u16 \<equiv> get_u16 j_truncated"
abbreviation (input) j_u32 :: "u32 parser" where "j_u32 \<equiv> get_u32 j_truncated"
abbreviation (input) j_u64 :: "u64 parser" where "j_u64 \<equiv> get_u64 j_truncated"
abbreviation (input) j_fixed :: "nat \<Rightarrow> bytes parser" where "j_fixed \<equiv> get_fixed j_truncated"
abbreviation (input) j_string_u16 :: "nat \<Rightarrow> string parser" where
  "j_string_u16 \<equiv> get_string j_truncated
     (JournalFormatError ''journal field exceeds maximum allowed length'')"
abbreviation (input) j_require_finished :: "unit parser" where
  "j_require_finished \<equiv> require_finished
     (JournalFormatError ''trailing bytes after journal record body'')"

definition reader_remaining :: "nat parser" where
  "reader_remaining r = Inr (length (input r) - position r, r)"

definition bytes_remaining :: "bytes parser" where
  "bytes_remaining r = Inr (drop (position r) (input r), r\<lparr>position := length (input r)\<rparr>)"

section \<open>Encodings\<close>

abbreviation (input) kRecordKindEntry :: u8 where "kRecordKindEntry \<equiv> 1"
abbreviation (input) kRecordKindCheckpoint :: u8 where "kRecordKindCheckpoint \<equiv> 2"
abbreviation (input) kRecordKindCheckpointSuiteV1 :: u8 where "kRecordKindCheckpointSuiteV1 \<equiv> 3"
abbreviation (input) kMaxRecordBodyLength :: nat where "kMaxRecordBodyLength \<equiv> 16384"
abbreviation (input) kHeadFormatVersion :: u16 where "kHeadFormatVersion \<equiv> 1"
abbreviation (input) kHeadFormatVersionSuiteV1 :: u16 where "kHeadFormatVersionSuiteV1 \<equiv> 2"

definition kHeadMagic :: bytes where "kHeadMagic = [0x54, 0x50, 0x4a, 0x48]"
definition kCheckpointDomainTag :: string where
  "kCheckpointDomainTag = ''tradep2p-journal-checkpoint-v1''"
definition kCheckpointSuiteDomainTag :: string where
  "kCheckpointSuiteDomainTag = ''tradep2p-journal-checkpoint-suite-v1''"
definition kGenesisHash :: JournalHash where "kGenesisHash = zero_id 32"

definition canonical_entry_bytes :: "u64 \<Rightarrow> JournalEntryFields \<Rightarrow> bytes result" where
  "canonical_entry_bytes idx f = steps
     [check (throw_if (length (JournalEntryFields.mediator_id f) > kJournalMaxMediatorIdLength)
        (Invalid_argument ''journal mediator id exceeds maximum length'')),
      writer_u64 idx,
      writer_u16 (version f),
      writer_fixed_id (JournalEntryFields.room_id f),
      writer_fixed_id (trade_id f),
      j_bytes_u16 (JournalEntryFields.mediator_id f),
      writer_fixed_id (counterparty_fingerprint f),
      writer_fixed_id (JournalEntryFields.terms_commitment f),
      writer_u32 (round f),
      writer_u8 (byte_of_direction (direction f)),
      writer_u16 (message_type_value (message_type f)),
      writer_fixed_id (message_hash f),
      writer_u8 (byte_of_ack (ack_state f)),
      writer_u8 (byte_of_state (local_state f)),
      writer_u64 (JournalEntryFields.timestamp f)] []"

definition decode_entry_fields :: "JournalEntryFields parser" where
  "decode_entry_fields =
     pbind j_u16 (\<lambda>ver.
     pbind (j_fixed 32) (\<lambda>rid.
     pbind (j_fixed kJournalTradeIdLength) (\<lambda>tid.
     pbind (j_string_u16 kJournalMaxMediatorIdLength) (\<lambda>mid.
     pbind (j_fixed 32) (\<lambda>fp.
     pbind (j_fixed kJournalHashLength) (\<lambda>tc.
     pbind j_u32 (\<lambda>rnd.
     pbind j_u8 (\<lambda>dir.
     pbind j_u16 (\<lambda>ty.
     pbind (j_fixed kJournalHashLength) (\<lambda>mh.
     pbind j_u8 (\<lambda>ack.
     pbind j_u8 (\<lambda>st.
     pbind j_u64 (\<lambda>ts.
     preturn \<lparr>version = ver, room_id = rid, trade_id = tid, mediator_id = mid,
       counterparty_fingerprint = fp, terms_commitment = tc, round = rnd,
       direction = direction_of_byte dir, message_type = message_type_of_value ty,
       message_hash = mh, ack_state = ack_of_byte ack, local_state = state_of_byte st,
       timestamp = ts\<rparr>)))))))))))))"

definition checkpoint_signed_bytes :: "u64 \<Rightarrow> JournalHash \<Rightarrow> u64 \<Rightarrow> bytes result" where
  "checkpoint_signed_bytes idx hash signed_at = steps
     [j_bytes_u16 kCheckpointDomainTag, writer_u64 idx, writer_fixed_id hash, writer_u64 signed_at] []"

definition checkpoint_suite_signed_bytes :: "u16 \<Rightarrow> u64 \<Rightarrow> JournalHash \<Rightarrow> u64 \<Rightarrow> bytes result" where
  "checkpoint_suite_signed_bytes suite idx hash signed_at = steps
     [j_bytes_u16 kCheckpointSuiteDomainTag, writer_u16 suite, writer_u64 idx, writer_fixed_id hash,
      writer_u64 signed_at] []"

definition expected_checkpoint_signature_length :: "u16 \<Rightarrow> nat" where
  "expected_checkpoint_signature_length suite =
     (if suite = kJournalCheckpointSuiteEd25519V1 then kEd25519SignatureLength
      else if suite = kJournalCheckpointSuiteMlDsa65V1 then kMlDsa65SignatureLength else 0)"

definition is_valid_transition :: "SessionState \<Rightarrow> SessionState \<Rightarrow> bool" where
  "is_valid_transition from to \<longleftrightarrow> (from = to \<or>
     (case from of
        WaitingForPeer \<Rightarrow> to = WaitingForSent \<or> to = Aborted
      | WaitingForSent \<Rightarrow> to = WaitingForReceived \<or> to = Aborted
      | WaitingForReceived \<Rightarrow> to = WaitingForSent \<or> to = WaitingForFinalReceiptAck \<or>
          to = SessionComplete \<or> to = Aborted
      | WaitingForFinalReceiptAck \<Rightarrow> to = WaitingForSent \<or> to = WaitingForFeeSent \<or> to = Aborted
      | WaitingForFeeSent \<Rightarrow> to = SessionComplete \<or> to = WaitingForFeeConfirmation \<or> to = Aborted
      | WaitingForFeeConfirmation \<Rightarrow> to = SessionComplete \<or> to = Aborted
      | SessionComplete \<Rightarrow> False
      | Aborted \<Rightarrow> False
      | SessionStateRaw b \<Rightarrow> False))"

definition trade_id_hex :: "TradeId \<Rightarrow> string" where
  "trade_id_hex i = concat (map hex_byte i)"

definition encode_head :: "HeadPointer \<Rightarrow> bytes result" where
  "encode_head h =
     (if head_suite_id h = kJournalCheckpointSuiteEd25519V1
      then steps
        [writer_fixed_id kHeadMagic, writer_u16 kHeadFormatVersion, writer_u64 (head_index h),
         writer_fixed_id (head_hash h), writer_u64 (head_signed_at h), writer_fixed_id (head_signature h)] []
      else steps
        [writer_fixed_id kHeadMagic, writer_u16 kHeadFormatVersionSuiteV1, writer_u16 (head_suite_id h),
         writer_u64 (head_index h), writer_fixed_id (head_hash h), writer_u64 (head_signed_at h),
         writer_fixed_id (head_signature h)] [])"

definition decode_head :: "bytes \<Rightarrow> HeadPointer result" where
  "decode_head = run_reader (
     pbind (j_fixed 4) (\<lambda>magic.
     pbind (plift (throw_if (magic \<noteq> kHeadMagic)
       (JournalFormatError ''not a tradep2p journal head-pointer file (bad magic)''))) (\<lambda>_.
     pbind j_u16 (\<lambda>ver.
     pbind
      (if ver = kHeadFormatVersion then
         pbind j_u64 (\<lambda>idx.
         pbind (j_fixed kJournalHashLength) (\<lambda>hash.
         pbind j_u64 (\<lambda>at.
         pbind (j_fixed kEd25519SignatureLength) (\<lambda>sig.
         preturn \<lparr>head_suite_id = kJournalCheckpointSuiteEd25519V1, head_index = idx, head_hash = hash,
           head_signed_at = at, head_signature = sig\<rparr>))))
       else if ver = kHeadFormatVersionSuiteV1 then
         pbind j_u16 (\<lambda>suite.
         pbind j_u64 (\<lambda>idx.
         pbind (j_fixed kJournalHashLength) (\<lambda>hash.
         pbind j_u64 (\<lambda>at.
         pbind reader_remaining (\<lambda>left.
         pbind (plift (throw_if (expected_checkpoint_signature_length suite = 0 \<or>
             left \<noteq> expected_checkpoint_signature_length suite)
           (JournalFormatError ''journal head-pointer signature length does not match its suite id''))) (\<lambda>_.
         pbind bytes_remaining (\<lambda>sig.
         preturn \<lparr>head_suite_id = suite, head_index = idx, head_hash = hash, head_signed_at = at,
           head_signature = sig\<rparr>)))))))
       else plift (Inl (JournalFormatError ''unsupported journal head-pointer format version''))) (\<lambda>h.
     pbind j_require_finished (\<lambda>_.
     preturn h))))))"

definition sha256_terms_commitment :: "crypto \<Rightarrow> TradeTerms \<Rightarrow> JournalHash result" where
  "sha256_terms_commitment cr t = rbind (encode_terms t) (\<lambda>bs. Inr (sha256 cr bs))"

section \<open>Replaying a log\<close>

text \<open>One framed record: its kind, the length of its body and the body.\<close>

definition frame :: "u8 \<Rightarrow> bytes \<Rightarrow> bytes result" where
  "frame kind body = steps [writer_u8 kind, writer_u32 (of_nat (length body)), writer_fixed_id body] []"

definition combined_hash :: "crypto \<Rightarrow> bytes \<Rightarrow> JournalHash \<Rightarrow> JournalHash" where
  "combined_hash cr content prev = sha256 cr (content @ prev)"

definition replay_entry :: "crypto \<Rightarrow> bytes \<Rightarrow> Journal \<Rightarrow> Journal result" where
  "replay_entry cr body j =
     rbind (run_reader (
       pbind j_u64 (\<lambda>idx.
       pbind decode_entry_fields (\<lambda>f.
       pbind reader_position (\<lambda>content_end.
       pbind (j_fixed kJournalHashLength) (\<lambda>prev.
       pbind (j_fixed kJournalHashLength) (\<lambda>hash.
       pbind j_require_finished (\<lambda>_.
       preturn (idx, f, content_end, prev, hash)))))))) body) (\<lambda>(idx, f, content_end, prev, hash).
     rbind (throw_if (idx \<noteq> of_nat (length (entries j)))
       (JournalTamperError ''journal entry index out of sequence (deleted, reordered, or inserted entry)'')) (\<lambda>_.
     rbind (throw_if (prev \<noteq> chain_head j)
       (JournalTamperError ''journal chain link mismatch (entry does not follow the previous one)'')) (\<lambda>_.
     rbind (throw_if (combined_hash cr (take content_end body) prev \<noteq> hash)
       (JournalTamperError ''journal entry hash does not match its recomputation (content tampered)'')) (\<lambda>_.
     let key = trade_id_hex (trade_id f) in
     rbind (case last_state_by_trade j key of
         None \<Rightarrow> throw_if (local_state f \<noteq> WaitingForPeer)
           (JournalTamperError (''malformed local state transition: a trade's first journal entry '' @
              ''must begin at WaitingForPeer''))
       | Some previous \<Rightarrow> throw_if (\<not> is_valid_transition previous (local_state f))
           (JournalTamperError ''malformed local state transition detected during journal replay'')) (\<lambda>_.
     Inr (j\<lparr>last_state_by_trade := (last_state_by_trade j)(key \<mapsto> local_state f),
            entries := entries j @ [\<lparr>index = idx, entry_fields = f, previous_hash = prev, entry_hash = hash\<rparr>],
            chain_head := hash\<rparr>))))))"

text \<open>The three checks that both checkpoint records make against the entries replayed so far.\<close>

definition check_checkpoint :: "u64 \<Rightarrow> JournalHash \<Rightarrow> Journal \<Rightarrow> unit result" where
  "check_checkpoint idx hash j =
     rbind (throw_if (unat idx \<ge> length (entries j))
       (JournalTamperError ''checkpoint references an entry index that has not occurred yet'')) (\<lambda>_.
     rbind (throw_if (entry_hash (entries j ! unat idx) \<noteq> hash)
       (JournalTamperError ''checkpoint hash does not match the entry it claims to checkpoint'')) (\<lambda>_.
     throw_if (has_checkpoint j \<and> idx < last_checkpoint_index j)
       (JournalTamperError (''checkpoint index moved backward (rollback to an older checkpoint '' @
          ''within the same log)''))))"

definition bad_checkpoint_signature :: exn where
  "bad_checkpoint_signature =
     JournalTamperError ''checkpoint signature does not verify against the local-history public key''"

definition replay_checkpoint :: "crypto \<Rightarrow> bytes \<Rightarrow> bytes \<Rightarrow> Journal \<Rightarrow> Journal result" where
  "replay_checkpoint cr pk body j =
     rbind (run_reader (
       pbind j_u64 (\<lambda>idx.
       pbind (j_fixed kJournalHashLength) (\<lambda>hash.
       pbind j_u64 (\<lambda>signed_at.
       pbind (j_fixed kEd25519SignatureLength) (\<lambda>sig.
       pbind j_require_finished (\<lambda>_.
       preturn (idx, hash, signed_at, sig))))))) body) (\<lambda>(idx, hash, signed_at, sig).
     rbind (check_checkpoint idx hash j) (\<lambda>_.
     rbind (checkpoint_signed_bytes idx hash signed_at) (\<lambda>signed_bytes.
     rbind (ed25519_verify cr pk signed_bytes sig) (\<lambda>verified.
     rbind (throw_if (\<not> verified) bad_checkpoint_signature) (\<lambda>_.
     Inr (j\<lparr>last_checkpoint_index := idx, has_checkpoint := True\<rparr>))))))"

definition replay_checkpoint_suite ::
  "crypto \<Rightarrow> bytes \<Rightarrow> bytes option \<Rightarrow> bytes \<Rightarrow> Journal \<Rightarrow> Journal result" where
  "replay_checkpoint_suite cr pk pk_mldsa65 body j =
     rbind (run_reader (
       pbind j_u16 (\<lambda>suite.
       pbind j_u64 (\<lambda>idx.
       pbind (j_fixed kJournalHashLength) (\<lambda>hash.
       pbind j_u64 (\<lambda>signed_at.
       pbind reader_remaining (\<lambda>left.
       pbind (plift (throw_if (expected_checkpoint_signature_length suite = 0 \<or>
           left \<noteq> expected_checkpoint_signature_length suite)
         (JournalFormatError ''journal checkpoint signature length does not match its suite id''))) (\<lambda>_.
       pbind bytes_remaining (\<lambda>sig.
       preturn (suite, idx, hash, signed_at, sig))))))))) body) (\<lambda>(suite, idx, hash, signed_at, sig).
     rbind (check_checkpoint idx hash j) (\<lambda>_.
     rbind (checkpoint_suite_signed_bytes suite idx hash signed_at) (\<lambda>signed_bytes.
     rbind
      (if suite = kJournalCheckpointSuiteMlDsa65V1 then
         (case pk_mldsa65 of
            None \<Rightarrow> Inl (JournalTamperError (''journal contains an ML-DSA-65 checkpoint but no ML-DSA-65 '' @
              ''local-history public key was supplied to verify it against''))
          | Some key \<Rightarrow> mldsa65_verify cr key signed_bytes sig)
       else if suite = kJournalCheckpointSuiteEd25519V1 then ed25519_verify cr pk signed_bytes sig
       else Inl (JournalFormatError ''unknown journal checkpoint suite id'')) (\<lambda>verified.
     rbind (throw_if (\<not> verified) bad_checkpoint_signature) (\<lambda>_.
     Inr (j\<lparr>last_checkpoint_index := idx, has_checkpoint := True\<rparr>))))))"

definition replay_record ::
  "crypto \<Rightarrow> bytes \<Rightarrow> bytes option \<Rightarrow> u8 \<Rightarrow> bytes \<Rightarrow> Journal \<Rightarrow> Journal result" where
  "replay_record cr pk pk_mldsa65 kind body j =
     (if kind = kRecordKindEntry then replay_entry cr body j
      else if kind = kRecordKindCheckpoint then replay_checkpoint cr pk body j
      else if kind = kRecordKindCheckpointSuiteV1 then replay_checkpoint_suite cr pk pk_mldsa65 body j
      else Inl (JournalFormatError ''unknown journal record kind''))"

text \<open>
  The replay loop over \<open>raw\<close> from \<open>pos\<close>. It returns the journal, where the last complete record ends
  (\<open>complete_length\<close>, which the code keeps equal to \<open>pos\<close>) and whether the tail is torn.
\<close>

definition body_length_at :: "bytes \<Rightarrow> nat \<Rightarrow> nat" where
  "body_length_at raw pos = unat (push_bit 24 (ucast (raw ! (pos + 1))) OR push_bit 16 (ucast (raw ! (pos + 2))) OR
     push_bit 8 (ucast (raw ! (pos + 3))) OR ucast (raw ! (pos + 4)) :: u32)"

function replay ::
  "crypto \<Rightarrow> bytes \<Rightarrow> bytes option \<Rightarrow> bytes \<Rightarrow> nat \<Rightarrow> Journal \<Rightarrow> (Journal \<times> nat \<times> bool) result" where
  "replay cr pk pk_mldsa65 raw pos j =
     (if length raw \<le> pos then Inr (j, pos, False)
      else if length raw - pos < 5 then Inr (j, pos, True)
      else if body_length_at raw pos > kMaxRecordBodyLength
      then Inl (JournalFormatError ''journal record body exceeds maximum allowed length'')
      else if length raw - (pos + 5) < body_length_at raw pos then Inr (j, pos, True)
      else
        rbind (replay_record cr pk pk_mldsa65 (raw ! pos) (take (body_length_at raw pos) (drop (pos + 5) raw)) j)
          (\<lambda>j'. replay cr pk pk_mldsa65 raw (pos + 5 + body_length_at raw pos) j'))"
  by pat_completeness auto
termination
  by (relation "measure (\<lambda>(cr, pk, pk_mldsa65, raw, pos, j). length raw - pos)") auto

declare replay.simps [simp del]

text \<open>The cross-check of the head-pointer file, where it exists.\<close>

definition check_head :: "crypto \<Rightarrow> bytes \<Rightarrow> bytes option \<Rightarrow> bytes \<Rightarrow> Journal \<Rightarrow> unit result" where
  "check_head cr pk pk_mldsa65 head_raw j =
     rbind (decode_head head_raw) (\<lambda>head.
     rbind
      (if head_suite_id head = kJournalCheckpointSuiteMlDsa65V1 then
         (case pk_mldsa65 of
            None \<Rightarrow> Inl (JournalTamperError (''journal head-pointer file is an ML-DSA-65 checkpoint but no ML-DSA-65 '' @
              ''local-history public key was supplied to verify it against''))
          | Some key \<Rightarrow>
              rbind (checkpoint_suite_signed_bytes (head_suite_id head) (head_index head) (head_hash head) (head_signed_at head))
                (\<lambda>signed_bytes. mldsa65_verify cr key signed_bytes (head_signature head)))
       else
         rbind (checkpoint_signed_bytes (head_index head) (head_hash head) (head_signed_at head))
           (\<lambda>signed_bytes. ed25519_verify cr pk signed_bytes (head_signature head))) (\<lambda>head_verified.
     rbind (throw_if (\<not> head_verified)
       (JournalTamperError (''journal head-pointer file signature does not verify - '' @
          ''possibly corrupted or forged independently of the main log''))) (\<lambda>_.
     rbind (throw_if (\<not> has_checkpoint j \<or> head_index head > last_checkpoint_index j)
       (JournalRollbackError (''journal head-pointer file references a checkpoint further along than '' @
          ''the main log replays to - the main log looks like an older copy of itself''))) (\<lambda>_.
     throw_if (unat (head_index head) < length (entries j) \<and>
         entry_hash (entries j ! unat (head_index head)) \<noteq> head_hash head)
       (JournalTamperError (''journal head-pointer file's hash does not match the corresponding '' @
          ''entry in the main log''))))))"

section \<open>The operations\<close>

text \<open>The outcome of the system calls of \<open>open\<close>.\<close>

record open_calls =
  log_open_ok :: bool
  log_size_ok :: bool
  log_read_ok :: bool
  truncate_ok :: bool
  head_read_ok :: bool

definition read_file_all :: "bool \<Rightarrow> string \<Rightarrow> files \<Rightarrow> bytes option result" where
  "read_file_all ok path fs =
     (case fs path of
        None \<Rightarrow> Inr None
      | Some data \<Rightarrow>
          if data = [] \<or> ok then Inr (Some data)
          else Inl (Runtime_error (''failed to fully read file: '' @ path)))"

definition fresh_journal :: "string \<Rightarrow> string \<Rightarrow> Journal" where
  "fresh_journal log head = \<lparr>log_path = log, head_path = head, entries = [], chain_head = kGenesisHash,
     last_checkpoint_index = 0, has_checkpoint = False, last_state_by_trade = Map.empty\<rparr>"

definition open_journal ::
  "crypto \<Rightarrow> open_calls \<Rightarrow> string \<Rightarrow> string \<Rightarrow> bytes \<Rightarrow> bytes option \<Rightarrow> (files, Journal) action" where
  "open_journal cr calls log head pk pk_mldsa65 =
     sbind (if log_open_ok calls
            then smodify (\<lambda>fs. case fs log of None \<Rightarrow> fs(log \<mapsto> []) | Some _ \<Rightarrow> fs)
            else sthrow (errno ''failed to open journal log'')) (\<lambda>_.
     sbind (if log_size_ok calls then sreturn () else sthrow (errno ''failed to determine journal log size'')) (\<lambda>_.
     sbind (sget (\<lambda>fs. the (fs log))) (\<lambda>raw.
     sbind (if raw = [] \<or> log_read_ok calls then sreturn () else sthrow (errno ''failed to read journal log'')) (\<lambda>_.
     sbind (slift (replay cr pk pk_mldsa65 raw 0 (fresh_journal log head))) (\<lambda>(j, complete_length, torn_tail).
     sbind (if \<not> torn_tail then sreturn ()
            else if truncate_ok calls then smodify (\<lambda>fs. fs(log \<mapsto> take complete_length raw))
            else sthrow (errno ''failed to truncate torn journal write'')) (\<lambda>_.
     sbind (\<lambda>fs. (read_file_all (head_read_ok calls) head fs, fs)) (\<lambda>head_raw.
     sbind (slift (case head_raw of None \<Rightarrow> Inr () | Some bs \<Rightarrow> check_head cr pk pk_mldsa65 bs j)) (\<lambda>_.
     sreturn j))))))))"

text \<open>The state of a client: the open journal and the disk.\<close>

record journal_state =
  handle :: Journal
  disk :: files

definition on_disk :: "(files, 'a) action \<Rightarrow> (journal_state, 'a) action" where
  "on_disk m s = (case m (disk s) of (r, fs) \<Rightarrow> (r, s\<lparr>disk := fs\<rparr>))"

text \<open>
  \<open>write_all_and_sync\<close> on the append-only descriptor of \<open>path\<close>; \<open>Some n\<close> is a failure after \<open>n\<close> bytes.
\<close>

definition write_all_and_sync :: "nat option \<Rightarrow> string \<Rightarrow> bytes \<Rightarrow> (files, unit) action" where
  "write_all_and_sync failed path bs =
     (case failed of
        None \<Rightarrow> smodify (\<lambda>fs. fs(path \<mapsto> the (fs path) @ bs))
      | Some n \<Rightarrow> sbind (smodify (\<lambda>fs. fs(path \<mapsto> the (fs path) @ take n bs))) (\<lambda>_.
          sthrow (errno ''failed to write journal file contents'')))"

definition write_replace_atomic :: "syscalls \<Rightarrow> string \<Rightarrow> bytes \<Rightarrow> (files, unit) action" where
  "write_replace_atomic = replace_atomic ''failed to write journal file contents''"

interpretation journal_writer: atomic_writer write_replace_atomic
  unfolding write_replace_atomic_def by (rule atomic_writer_replace_atomic)

definition append_entry ::
  "crypto \<Rightarrow> u64 \<Rightarrow> nat option \<Rightarrow> JournalEntryFields \<Rightarrow> (journal_state, JournalEntry) action" where
  "append_entry cr now failed given =
     (let fields = (if JournalEntryFields.timestamp given = 0
                    then given\<lparr>JournalEntryFields.timestamp := now\<rparr> else given);
          key = trade_id_hex (trade_id fields) in
     sbind (sget handle) (\<lambda>j.
     sbind (slift (case last_state_by_trade j key of
         None \<Rightarrow> throw_if (local_state fields \<noteq> WaitingForPeer)
           (JournalTamperError (''malformed local state transition: a trade's first journal entry must '' @
              ''begin at WaitingForPeer''))
       | Some previous \<Rightarrow> throw_if (\<not> is_valid_transition previous (local_state fields))
           (JournalTamperError ''attempted to append an invalid local state transition''))) (\<lambda>_.
     let idx = of_nat (length (entries j)) in
     sbind (slift (canonical_entry_bytes idx fields)) (\<lambda>content.
     let hash = combined_hash cr content (chain_head j) in
     sbind (slift (frame kRecordKindEntry (content @ chain_head j @ hash))) (\<lambda>record_bytes.
     sbind (on_disk (write_all_and_sync failed (log_path j) record_bytes)) (\<lambda>_.
     let entry = \<lparr>index = idx, entry_fields = fields, previous_hash = chain_head j, entry_hash = hash\<rparr> in
     sbind (smodify (\<lambda>s. s\<lparr>handle := j\<lparr>entries := entries j @ [entry], chain_head := hash,
         last_state_by_trade := (last_state_by_trade j)(key \<mapsto> local_state fields)\<rparr>\<rparr>)) (\<lambda>_.
     sreturn entry)))))))"

definition checkpoint ::
  "crypto \<Rightarrow> u64 \<Rightarrow> nat option \<Rightarrow> syscalls \<Rightarrow> bytes \<Rightarrow> (journal_state, unit) action" where
  "checkpoint cr now failed calls seed =
     sbind (sget handle) (\<lambda>j.
     sbind (slift (throw_if (entries j = []) (Logic_error ''cannot checkpoint a journal with no entries''))) (\<lambda>_.
     let idx = index (last (entries j)); hash = chain_head j; signed_at = now in
     sbind (slift (checkpoint_signed_bytes idx hash signed_at)) (\<lambda>signed_bytes.
     sbind (slift (ed25519_sign cr seed signed_bytes)) (\<lambda>sig.
     sbind (slift (steps [writer_u64 idx, writer_fixed_id hash, writer_u64 signed_at, writer_fixed_id sig] [])) (\<lambda>body.
     sbind (slift (frame kRecordKindCheckpoint body)) (\<lambda>record_bytes.
     sbind (on_disk (write_all_and_sync failed (log_path j) record_bytes)) (\<lambda>_.
     sbind (slift (encode_head \<lparr>head_suite_id = kJournalCheckpointSuiteEd25519V1, head_index = idx,
         head_hash = hash, head_signed_at = signed_at, head_signature = sig\<rparr>)) (\<lambda>head_bytes.
     sbind (on_disk (write_replace_atomic calls (head_path j) head_bytes)) (\<lambda>_.
     smodify (\<lambda>s. s\<lparr>handle := j\<lparr>last_checkpoint_index := idx, has_checkpoint := True\<rparr>\<rparr>))))))))))"

definition checkpoint_mldsa65 ::
  "crypto \<Rightarrow> u64 \<Rightarrow> nat option \<Rightarrow> syscalls \<Rightarrow> bytes \<Rightarrow> (journal_state, unit) action" where
  "checkpoint_mldsa65 cr now failed calls seed =
     sbind (sget handle) (\<lambda>j.
     sbind (slift (throw_if (entries j = []) (Logic_error ''cannot checkpoint a journal with no entries''))) (\<lambda>_.
     let idx = index (last (entries j)); hash = chain_head j; signed_at = now in
     sbind (slift (checkpoint_suite_signed_bytes kJournalCheckpointSuiteMlDsa65V1 idx hash signed_at)) (\<lambda>signed_bytes.
     sbind (slift (mldsa65_sign cr seed signed_bytes)) (\<lambda>sig.
     sbind (slift (steps [writer_u16 kJournalCheckpointSuiteMlDsa65V1, writer_u64 idx, writer_fixed_id hash,
         writer_u64 signed_at, writer_fixed_id sig] [])) (\<lambda>body.
     sbind (slift (frame kRecordKindCheckpointSuiteV1 body)) (\<lambda>record_bytes.
     sbind (on_disk (write_all_and_sync failed (log_path j) record_bytes)) (\<lambda>_.
     sbind (slift (encode_head \<lparr>head_suite_id = kJournalCheckpointSuiteMlDsa65V1, head_index = idx,
         head_hash = hash, head_signed_at = signed_at, head_signature = sig\<rparr>)) (\<lambda>head_bytes.
     sbind (on_disk (write_replace_atomic calls (head_path j) head_bytes)) (\<lambda>_.
     smodify (\<lambda>s. s\<lparr>handle := j\<lparr>last_checkpoint_index := idx, has_checkpoint := True\<rparr>\<rparr>))))))))))"

definition latest_for_trade :: "TradeId \<Rightarrow> Journal \<Rightarrow> JournalEntry option" where
  "latest_for_trade tid j = find (\<lambda>e. trade_id (entry_fields e) = tid) (rev (entries j))"

end
