(* ===== verification/Recovery.thy ===== *)
theory Recovery
  imports Journal
begin

text \<open>
  What a client may do after a reconnect, \<open>src/src/recovery.cpp\<close>: the decision compares the last
  local journal entry of a trade with the mediator's answer to a recovery query.
\<close>

datatype RecoveryActionCategory =
    SafeIdempotentRetry | UnsafeRequiresConfirmation | AlreadyCommitted
  | UnknownRequiresReconciliation

record RecoveryClassification =
  category :: RecoveryActionCategory
  explanation :: string

definition is_value_bearing_message_type :: "MessageType \<Rightarrow> bool" where
  "is_value_bearing_message_type t \<longleftrightarrow> message_type_value t = message_type_value Sent"

definition classify_recovery_action ::
  "JournalEntry option \<Rightarrow> RecoveryStateResponseMessage option \<Rightarrow> RecoveryClassification" where
  "classify_recovery_action last_local_entry mediator_state =
     (case last_local_entry of
        None \<Rightarrow> \<lparr>category = UnknownRequiresReconciliation, explanation =
          ''no local journal entry exists for this trade; there is nothing recorded '' @
          ''locally to reconcile against''\<rparr>
      | Some entry \<Rightarrow>
     (let local = entry_fields entry in
     (case mediator_state of
        None \<Rightarrow> \<lparr>category = UnknownRequiresReconciliation, explanation =
          ''the mediator could not be reached to confirm its side of this room; '' @
          ''only the local journal entry is available''\<rparr>
      | Some remote \<Rightarrow>
     (if \<not> found remote then
        if local_state local = SessionComplete \<or> local_state local = Aborted
        then \<lparr>category = AlreadyCommitted, explanation =
          ''the local journal already shows this trade as finished; the mediator '' @
          ''prunes finished rooms from its persisted state, so its absence here is '' @
          ''expected, not a loss''\<rparr>
        else \<lparr>category = UnknownRequiresReconciliation, explanation =
          ''the mediator has no record of this room even though the local journal '' @
          ''shows it as still in progress; the room may have been lost before the '' @
          ''mediator's persistence recorded it, or this room id is stale - do not '' @
          ''resend a value-bearing action based on local state alone''\<rparr>
      else if RecoveryStateResponseMessage.round_index remote > round local then
        \<lparr>category = AlreadyCommitted, explanation =
          ''the mediator reports further round progress than the local journal does; '' @
          ''the intervening round(s) are already committed on the mediator's side, so '' @
          ''nothing for the earlier round should be resent''\<rparr>
      else if RecoveryStateResponseMessage.round_index remote < round local then
        \<lparr>category = UnknownRequiresReconciliation, explanation =
          ''the local journal shows more round progress than the mediator currently '' @
          ''reports; this can happen if the mediator crashed just before persisting an '' @
          ''already-acknowledged round advance - reconcile manually before acting''\<rparr>
      else
        (case ack_state local of
           Acknowledged \<Rightarrow> \<lparr>category = AlreadyCommitted, explanation =
             ''the local journal already recorded this round's acknowledgement; there '' @
             ''is nothing to retry''\<rparr>
         | Pending \<Rightarrow>
             (if direction local = Outbound \<and> is_value_bearing_message_type (message_type local)
              then \<lparr>category = UnsafeRequiresConfirmation, explanation =
                ''the last recorded local action was reporting this client's own '' @
                ''value transfer as sent, with no confirmation that the mediator ever '' @
                ''received it; resignaling would falsely claim the transfer happened '' @
                ''again if it already completed off-protocol - ask the user to '' @
                ''confirm the underlying transfer's status before retrying''\<rparr>
              else \<lparr>category = SafeIdempotentRetry, explanation =
                ''the last recorded local action does not itself move value and matches '' @
                ''the mediator's current round; it is safe to resend or re-request''\<rparr>)
         | _ \<Rightarrow> \<lparr>category = UnknownRequiresReconciliation, explanation =
             ''no acknowledgement tracking applies to the local journal's last entry for this '' @
             ''round; manual review is needed before taking any action''\<rparr>)))))"

lemma safe_retry_iff:
  "category (classify_recovery_action l r) = SafeIdempotentRetry \<longleftrightarrow>
     (\<exists>entry remote. l = Some entry \<and> r = Some remote \<and> found remote \<and>
        RecoveryStateResponseMessage.round_index remote = round (entry_fields entry) \<and>
        ack_state (entry_fields entry) = Pending \<and>
        \<not> (direction (entry_fields entry) = Outbound \<and>
           is_value_bearing_message_type (message_type (entry_fields entry))))"
  by (auto simp: classify_recovery_action_def Let_def
      split: option.splits AcknowledgementState.splits)

lemma unsafe_iff:
  "category (classify_recovery_action l r) = UnsafeRequiresConfirmation \<longleftrightarrow>
     (\<exists>entry remote. l = Some entry \<and> r = Some remote \<and> found remote \<and>
        RecoveryStateResponseMessage.round_index remote = round (entry_fields entry) \<and>
        ack_state (entry_fields entry) = Pending \<and> direction (entry_fields entry) = Outbound \<and>
        is_value_bearing_message_type (message_type (entry_fields entry)))"
  by (auto simp: classify_recovery_action_def Let_def
      split: option.splits AcknowledgementState.splits)

end
