(* ===== verification/Settlement.thy ===== *)
theory Settlement
  imports Mediator
begin

text \<open>
  Runs of a trade session. The events are the calls the lobby makes on a session, \<open>apply_event\<close>
  dispatches them, and \<open>runs\<close> is the reachability relation of accepted events starting from the
  constructor. A ghost ledger sums the amounts of the turns the parties report sent and received,
  so that conservation, exposure and completion can be stated in money.
\<close>

section \<open>Events and runs\<close>

datatype event =
    Join JoinRoomMessage
  | ReportSent Party RoundSignalMessage
  | ReportReceived Party RoundSignalMessage
  | AckFinal Party
  | ConfirmFee
  | AbortRoom string

primrec apply_event :: "event \<Rightarrow> MediatorSession \<Rightarrow> MediatorSession result" where
  "apply_event (Join m) s = join m s"
| "apply_event (ReportSent p m) s = sender_reported_sent p m s"
| "apply_event (ReportReceived p m) s = receiver_reported_received p m s"
| "apply_event (AckFinal p) s = acknowledge_final_receipt p s"
| "apply_event ConfirmFee s = confirm_fee_received s"
| "apply_event (AbortRoom why) s = abort why s"

text \<open>What the parties have reported so far, in units of each asset.\<close>

record ledger =
  sent_a :: nat
  sent_b :: nat
  received_from_a :: nat
  received_from_b :: nat
  fee_sent :: nat

definition empty_ledger :: ledger where
  "empty_ledger = \<lparr>sent_a = 0, sent_b = 0, received_from_a = 0, received_from_b = 0, fee_sent = 0\<rparr>"

definition turn_amount :: "MediatorSession \<Rightarrow> nat" where
  "turn_amount s = (case current_turn s of Inl _ \<Rightarrow> 0 | Inr t \<Rightarrow> unat (TurnMessage.amount t))"

text \<open>An accepted report concerns the turn that was announced for the state it is made in.\<close>

fun post :: "event \<Rightarrow> MediatorSession \<Rightarrow> ledger \<Rightarrow> ledger" where
  "post (ReportSent p m) s g =
     (if state s = WaitingForFeeSent then g\<lparr>fee_sent := fee_sent g + turn_amount s\<rparr>
      else if current_sender s = Inr PartyA then g\<lparr>sent_a := sent_a g + turn_amount s\<rparr>
      else g\<lparr>sent_b := sent_b g + turn_amount s\<rparr>)"
| "post (ReportReceived p m) s g =
     (if current_sender s = Inr PartyA
      then g\<lparr>received_from_a := received_from_a g + turn_amount s\<rparr>
      else g\<lparr>received_from_b := received_from_b g + turn_amount s\<rparr>)"
| "post _ s g = g"

inductive runs :: "MediatorSession \<Rightarrow> ledger \<Rightarrow> bool" where
  runs_new: "new_session c i f confirm pos = Inr s \<Longrightarrow> runs s empty_ledger"
| runs_event: "runs s g \<Longrightarrow> apply_event e s = Inr s' \<Longrightarrow> runs s' (post e s g)"

inductive_cases runs_cases: "runs s g"

text \<open>Runs as sequences of events, which can be evaluated.\<close>

primrec play :: "event list \<Rightarrow> MediatorSession \<Rightarrow> ledger \<Rightarrow> (MediatorSession \<times> ledger) result" where
  "play [] s g = Inr (s, g)"
| "play (e # es) s g = rbind (apply_event e s) (\<lambda>s'. play es s' (post e s g))"

lemma play_runs: "play es s g = Inr (s', g') \<Longrightarrow> runs s g \<Longrightarrow> runs s' g'"
  by (induction es arbitrary: s g) (auto simp: exn_simps intro: runs_event)

section \<open>The invariant holds in every run\<close>

lemma apply_event_inv: "session_inv s \<Longrightarrow> apply_event e s = Inr s' \<Longrightarrow> session_inv s'"
  by (cases e) (auto intro: join_inv sent_inv received_inv ack_inv confirm_inv abort_inv)

lemma runs_inv: "runs s g \<Longrightarrow> session_inv s"
  by (induction rule: runs.induct) (auto intro: new_session_inv apply_event_inv)

section \<open>The ledger in closed form\<close>

text \<open>How many legs party \<open>p\<close> has completed when the session stands at round \<open>n\<close>, leg \<open>l\<close>.\<close>

definition legs_done :: "Party \<Rightarrow> Party \<Rightarrow> nat \<Rightarrow> nat \<Rightarrow> nat" where
  "legs_done first p n l = (if l = 1 \<and> leg_sender first n 0 = p then n + 1 else n)"

abbreviation session_legs :: "MediatorSession \<Rightarrow> Party \<Rightarrow> nat" where
  "session_legs s p \<equiv>
     legs_done (first_sender (session_terms s)) p (unat (round_index s)) (unat (leg_index s))"

definition paid :: "MediatorSession \<Rightarrow> Party \<Rightarrow> nat \<Rightarrow> nat" where
  "paid s p k = (\<Sum>i<k. tranche_nat (unat (due_total s p)) (unat (rounds (session_terms s))) i)"

definition in_flight :: "MediatorSession \<Rightarrow> Party \<Rightarrow> nat" where
  "in_flight s p =
     (if state s = WaitingForReceived \<and> due_sender s = p then due_amount s p else 0)"

text \<open>The fee has been reported once its leg lies behind the session.\<close>

definition fee_behind :: "MediatorSession \<Rightarrow> bool" where
  "fee_behind s \<longleftrightarrow> fee_amount s > 0 \<and> state s \<noteq> WaitingForPeer \<and> state s \<noteq> WaitingForFeeSent \<and>
     (case fee_position s of
        BeforeFirstRound \<Rightarrow> True
      | BeforeLastRound \<Rightarrow> unat (round_index s) + 1 \<ge> unat (rounds (session_terms s))
      | AfterLastRound \<Rightarrow> state s = WaitingForFeeConfirmation \<or> state s = SessionComplete)"

definition ledger_at :: "MediatorSession \<Rightarrow> ledger \<Rightarrow> bool" where
  "ledger_at s g \<longleftrightarrow>
     received_from_a g = paid s PartyA (session_legs s PartyA) \<and>
     received_from_b g = paid s PartyB (session_legs s PartyB) \<and>
     sent_a g = received_from_a g + in_flight s PartyA \<and>
     sent_b g = received_from_b g + in_flight s PartyB \<and>
     fee_sent g = (if fee_behind s then unat (fee_amount s) else 0)"

text \<open>An aborted session keeps the ledger of the state it was aborted in.\<close>

definition ledger_ok :: "MediatorSession \<Rightarrow> ledger \<Rightarrow> bool" where
  "ledger_ok s g \<longleftrightarrow> (\<exists>st. st \<noteq> Aborted \<and> (state s = Aborted \<or> st = state s) \<and>
     session_inv (s\<lparr>state := st\<rparr>) \<and> ledger_at (s\<lparr>state := st\<rparr>) g)"

lemma ledger_ok_active: "state s \<noteq> Aborted \<Longrightarrow> ledger_ok s g \<longleftrightarrow> session_inv s \<and> ledger_at s g"
  by (auto simp: ledger_ok_def)

lemma paid_suc: "paid s p (Suc k) = paid s p k +
    tranche_nat (unat (due_total s p)) (unat (rounds (session_terms s))) k"
  by (simp add: paid_def)

lemma legs_before: "l = 0 \<or> l = 1 \<Longrightarrow> first = PartyA \<or> first = PartyB \<Longrightarrow>
   legs_done first (leg_sender first n l) n l = n"
  by (auto simp: legs_done_def leg_sender_def split: if_splits)

lemma legs_after:
  assumes "first = PartyA \<or> first = PartyB" "p = PartyA \<or> p = PartyB"
  shows "legs_done first p n 1 = legs_done first p n 0 + (if p = leg_sender first n 0 then 1 else 0)"
    and "legs_done first p (Suc n) 0 = legs_done first p n 1 + (if p = leg_sender first n 1 then 1 else 0)"
  using assms by (auto simp: legs_done_def leg_sender_def)

lemma turn_amount_leg:
  "wf_static s \<Longrightarrow> state s = WaitingForSent \<or> state s = WaitingForReceived \<Longrightarrow> leg_at s \<Longrightarrow>
     turn_amount s = due_amount s (due_sender s)"
  using current_turn_leg [of s] by (auto simp: turn_amount_def)

lemma turn_amount_fee: "state s = WaitingForFeeSent \<Longrightarrow> turn_amount s = unat (fee_amount s)"
  using current_turn_fee [of s] by (auto simp: turn_amount_def)

lemma advance_frame [simp]:
  "creator (advance_after_receipt s) = creator s"
  "MediatorSession.fee (advance_after_receipt s) = MediatorSession.fee s"
  "fee_position (advance_after_receipt s) = fee_position s"
  by (simp_all add: advance_after_receipt_def Let_def)

lemma advance_place:
  assumes "session_inv s" "state s = WaitingForReceived"
  shows "state (advance_after_receipt s) \<noteq> WaitingForReceived"
    and "leg_index s = 0 \<Longrightarrow> unat (leg_index (advance_after_receipt s)) = 1 \<and>
           unat (round_index (advance_after_receipt s)) = unat (round_index s)"
    and "leg_index s \<noteq> 0 \<Longrightarrow> unat (leg_index (advance_after_receipt s)) = 0 \<and>
           unat (round_index (advance_after_receipt s)) = unat (round_index s) + 1"
proof -
  have r: "round_index s < rounds (session_terms s)"
    using assms by (simp add: session_inv_def leg_at_def)
  show "state (advance_after_receipt s) \<noteq> WaitingForReceived"
    by (simp add: advance_after_receipt_def Let_def)
  show "leg_index s = 0 \<Longrightarrow> unat (leg_index (advance_after_receipt s)) = 1 \<and>
      unat (round_index (advance_after_receipt s)) = unat (round_index s)"
    by (simp add: advance_after_receipt_def Let_def)
  show "leg_index s \<noteq> 0 \<Longrightarrow> unat (leg_index (advance_after_receipt s)) = 0 \<and>
      unat (round_index (advance_after_receipt s)) = unat (round_index s) + 1"
    using round_suc [OF r] by (simp add: advance_after_receipt_def Let_def)
qed

lemma advance_legs:
  assumes "session_inv s" "state s = WaitingForReceived" "p = PartyA \<or> p = PartyB"
  shows "session_legs (advance_after_receipt s) p =
     session_legs s p + (if p = due_sender s then 1 else 0)"
proof -
  have w: "wf_static s" and l: "leg_index s = 0 \<or> leg_index s = 1"
    using assms by (auto simp: session_inv_def leg_at_def)
  show ?thesis
    using l legs_after [OF first_sender_cases [OF w] assms(3), of "unat (round_index s)"]
      advance_place [OF assms(1,2)] by auto
qed

lemma advance_fee_behind:
  assumes "session_inv s" "state s = WaitingForReceived"
  shows "fee_behind (advance_after_receipt s) = fee_behind s"
proof -
  have w: "wf_static s" and l: "leg_index s = 0 \<or> leg_index s = 1"
    and r: "round_index s < rounds (session_terms s)"
    using assms by (auto simp: session_inv_def leg_at_def)
  have u: "unat (round_index s) < unat (rounds (session_terms s))"
    using r by (simp add: word_less_nat_alt)
  show ?thesis
  proof (cases "leg_index s = 0")
    case True
    then show ?thesis
      using assms(2) by (cases "fee_position s")
        (simp_all add: fee_behind_def advance_after_receipt_def Let_def)
  next
    case False
    then show ?thesis
      using u assms(2) round_suc [OF r] round_pred [OF static_rounds [OF w], of "round_index s + 1"]
      by (cases "fee_position s") (auto simp: fee_behind_def advance_after_receipt_def Let_def)
  qed
qed

lemma paid_frame [simp]: "paid (advance_after_receipt s) p k = paid s p k"
  by (simp add: paid_def due_total_def)

lemma received_ledger:
  assumes "session_inv s" "ledger_at s g" "receiver_reported_received p m s = Inr s'"
  shows "ledger_at s' (post (ReportReceived p m) s g)"
proof -
  have st: "state s = WaitingForReceived" and s': "s' = advance_after_receipt s"
    using assms(3) by (auto simp: receiver_reported_received_def exn_simps)
  have w: "wf_static s" and l: "leg_at s"
    using assms(1) st by (auto simp: session_inv_def)
  have legs: "session_legs s (due_sender s) = unat (round_index s)"
    using l first_sender_cases [OF w] by (intro legs_before) (auto simp: leg_at_def)
  have moved: "paid s q (session_legs s' q) = paid s q (session_legs s q) +
      (if q = due_sender s then due_amount s q else 0)" if "q = PartyA \<or> q = PartyB" for q
    using advance_legs [OF assms(1) st that] legs by (simp add: s' paid_suc due_amount_def)
  show ?thesis
    using assms(2) moved [of PartyA] moved [of PartyB] due_sender_cases [OF w] w l st
      advance_place(1) [OF assms(1) st]
    by (auto simp: ledger_at_def s' in_flight_def advance_fee_behind [OF assms(1) st]
        current_sender_leg turn_amount_leg)
qed

lemma ack_effect:
  assumes "acknowledge_final_receipt p s = Inr s'"
  obtains a b where "state s = WaitingForFinalReceiptAck" "\<not> final_receipt_acked p s"
    "s' = s\<lparr>final_receipt_acked_a := a, final_receipt_acked_b := b,
       state := (if a \<and> b then (if final_receipt_gate_is_fee_leg s then WaitingForFeeSent else WaitingForSent)
                 else WaitingForFinalReceiptAck)\<rparr>"
    "a = (final_receipt_acked_a s \<or> p = PartyA)" "b = (final_receipt_acked_b s \<or> p \<noteq> PartyA)"
proof -
  have *: "state s = WaitingForFinalReceiptAck" "\<not> final_receipt_acked p s"
    using assms by (auto simp: acknowledge_final_receipt_def exn_simps)
  moreover from * have "s' = s\<lparr>final_receipt_acked_a := (final_receipt_acked_a s \<or> p = PartyA),
      final_receipt_acked_b := (final_receipt_acked_b s \<or> p \<noteq> PartyA),
      state := (if (final_receipt_acked_a s \<or> p = PartyA) \<and> (final_receipt_acked_b s \<or> p \<noteq> PartyA)
        then (if final_receipt_gate_is_fee_leg s then WaitingForFeeSent else WaitingForSent)
        else WaitingForFinalReceiptAck)\<rparr>"
    using assms by (cases s; cases "p = PartyA")
      (auto simp: acknowledge_final_receipt_def final_receipt_gate_is_fee_leg_def exn_simps Let_def)
  ultimately show thesis
    using that by blast
qed

lemma sent_fee_effect:
  assumes "sender_reported_sent p m s = Inr s'" "state s = WaitingForFeeSent"
  obtains st where "s' = s\<lparr>state := st\<rparr>" "p = PartyA" "RoundSignalMessage.sender m = PartyA"
    "st = (if require_fee_confirmation s then WaitingForFeeConfirmation
           else if fee_position s = AfterLastRound then SessionComplete else WaitingForSent)"
  using assms by (auto simp: sender_reported_sent_def exn_simps Let_def)

lemma in_flight_idle: "state s \<noteq> WaitingForReceived \<Longrightarrow> in_flight s p = 0"
  by (simp add: in_flight_def)

text \<open>A change of state and bookkeeping fields at the same leg moves nothing but the fee.\<close>

lemma ledger_at_same_leg:
  assumes "ledger_at s g" "creator s' = creator s" "MediatorSession.fee s' = MediatorSession.fee s"
    "round_index s' = round_index s" "leg_index s' = leg_index s"
    "state s \<noteq> WaitingForReceived" "state s' \<noteq> WaitingForReceived"
  shows "ledger_at s' (g\<lparr>fee_sent := x\<rparr>) \<longleftrightarrow> x = (if fee_behind s' then unat (fee_amount s) else 0)"
  using assms by (auto simp: ledger_at_def in_flight_def paid_def due_total_def)

lemma ledger_at_idle:
  assumes "ledger_at s g" "creator s' = creator s" "MediatorSession.fee s' = MediatorSession.fee s"
    "round_index s' = round_index s" "leg_index s' = leg_index s"
    "state s \<noteq> WaitingForReceived" "state s' \<noteq> WaitingForReceived" "fee_behind s' = fee_behind s"
  shows "ledger_at s' g"
  using assms by (auto simp: ledger_at_def in_flight_def paid_def due_total_def)

lemma join_ledger:
  assumes "session_inv s" "ledger_at s g" "join m s = Inr s'"
  shows "ledger_at s' g"
proof -
  have w: "wf_static s" and st: "state s = WaitingForPeer" and z: "round_index s = 0"
    using assms(1,3) by (auto simp: join_def session_inv_def exn_simps)
  have "fee_behind s' = fee_behind s"
    using assms(3) st z round_zero [OF static_rounds [OF w]] one_round [OF static_rounds [OF w]]
    by (cases "fee_position s") (auto simp: join_def exn_simps fee_behind_def Let_def)
  with assms(2,3) st show ?thesis
    by (intro ledger_at_idle [of s g s']) (auto simp: join_def exn_simps Let_def split: if_splits)
qed

lemma ack_ledger:
  assumes "session_inv s" "ledger_at s g" "acknowledge_final_receipt p s = Inr s'"
  shows "ledger_at s' g"
  using assms(3)
proof (rule ack_effect)
  fix a b
  let ?st = "if a \<and> b then (if final_receipt_gate_is_fee_leg s then WaitingForFeeSent else WaitingForSent)
             else WaitingForFinalReceiptAck"
  assume st: "state s = WaitingForFinalReceiptAck"
    and s': "s' = s\<lparr>final_receipt_acked_a := a, final_receipt_acked_b := b, state := ?st\<rparr>"
  have "fee_behind s' = fee_behind s"
    using st by (cases "fee_position s")
      (simp_all add: s' fee_behind_def final_receipt_gate_is_fee_leg_def)
  with assms(2) st show ?thesis
    by (intro ledger_at_idle [of s g s']) (simp_all add: s')
qed

lemma confirm_ledger:
  assumes "session_inv s" "ledger_at s g" "confirm_fee_received s = Inr s'"
  shows "ledger_at s' g"
proof -
  have st: "state s = WaitingForFeeConfirmation"
    and s': "s' = s\<lparr>state := (if fee_position s = AfterLastRound then SessionComplete else WaitingForSent)\<rparr>"
    using assms(3) by (auto simp: confirm_fee_received_def exn_simps)
  have "fee_behind s' = fee_behind s"
    using st by (cases "fee_position s") (simp_all add: s' fee_behind_def)
  with assms(2) st show ?thesis
    by (intro ledger_at_idle [of s g s']) (simp_all add: s')
qed

lemma sent_fee_ledger:
  assumes "session_inv s" "ledger_at s g" "sender_reported_sent p m s = Inr s'"
    "state s = WaitingForFeeSent"
  shows "ledger_at s' (post (ReportSent p m) s g)"
  using assms(3,4)
proof (rule sent_fee_effect)
  fix st
  assume s': "s' = s\<lparr>state := st\<rparr>"
    and st: "st = (if require_fee_confirmation s then WaitingForFeeConfirmation
           else if fee_position s = AfterLastRound then SessionComplete else WaitingForSent)"
  have f: "fee_leg_at s"
    using assms(1,4) by (auto simp: session_inv_def)
  have "fee_behind s'"
    using f by (cases "fee_position s") (simp_all add: s' st fee_behind_def fee_leg_at_def)
  moreover have "fee_sent g = 0"
    using assms(2,4) by (simp add: ledger_at_def fee_behind_def)
  moreover have "state s' \<noteq> WaitingForReceived"
    by (simp add: s' st)
  ultimately show ?thesis
    using assms(2,4) ledger_at_same_leg [of s g s'] by (simp add: turn_amount_fee s')
qed

lemma sent_leg_ledger:
  assumes "session_inv s" "ledger_at s g" "sender_reported_sent p m s = Inr s'"
    "state s \<noteq> WaitingForFeeSent"
  shows "ledger_at s' (post (ReportSent p m) s g)"
proof -
  have st: "state s = WaitingForSent" and s': "s' = s\<lparr>state := WaitingForReceived\<rparr>"
    using assms(3,4) by (auto simp: sender_reported_sent_def exn_simps)
  have w: "wf_static s" and l: "leg_at s"
    using assms(1) st by (auto simp: session_inv_def)
  have "fee_behind s' = fee_behind s"
    using st by (cases "fee_position s") (simp_all add: s' fee_behind_def)
  then show ?thesis
    using assms(2) st due_sender_cases [OF w] w l
    by (auto simp: s' ledger_at_def in_flight_def paid_def due_total_def due_amount_def
        current_sender_leg turn_amount_leg)
qed

lemma fee_behind_reason [simp]: "fee_behind (s\<lparr>abort_reason := x\<rparr>) = fee_behind s"
  by (cases "fee_position s") (simp_all add: fee_behind_def)

lemma session_inv_reason [simp]: "session_inv (s\<lparr>abort_reason := x\<rparr>) = session_inv s"
  by (cases "state s"; cases "fee_position s"; simp add: session_inv_def wf_static_def place_defs)

lemma ledger_at_reason [simp]: "ledger_at (s\<lparr>abort_reason := x\<rparr>) g = ledger_at s g"
  by (simp add: ledger_at_def paid_def due_total_def in_flight_def due_amount_def)

lemma abort_ledger:
  assumes "ledger_ok s g" "abort why s = Inr s'"
  shows "ledger_ok s' g"
proof -
  from assms(1) obtain st where st: "st \<noteq> Aborted" "session_inv (s\<lparr>state := st\<rparr>)"
    "ledger_at (s\<lparr>state := st\<rparr>) g"
    by (auto simp: ledger_ok_def)
  obtain why' where "s' = s\<lparr>abort_reason := why', state := Aborted\<rparr>"
    using assms(2) by (auto simp: abort_def exn_simps Let_def)
  then have "s'\<lparr>state := st\<rparr> = (s\<lparr>state := st\<rparr>)\<lparr>abort_reason := why'\<rparr>" "state s' = Aborted"
    by simp_all
  with st show ?thesis
    unfolding ledger_ok_def by (intro exI [of _ st]) (simp only: session_inv_reason ledger_at_reason simp_thms)
qed

lemma aborted_accepts:
  "state s = Aborted \<Longrightarrow> apply_event e s = Inr s' \<Longrightarrow> \<exists>why. e = AbortRoom why"
  by (cases e) (auto simp: join_def sender_reported_sent_def receiver_reported_received_def
      acknowledge_final_receipt_def confirm_fee_received_def exn_simps)

lemma only_abort_aborts:
  assumes "apply_event e s = Inr s'" "state s \<noteq> Aborted" "\<nexists>why. e = AbortRoom why"
  shows "state s' \<noteq> Aborted"
  using assms
  by (cases e)
     (auto simp: join_def sender_reported_sent_def receiver_reported_received_def
       advance_after_receipt_def confirm_fee_received_def exn_simps Let_def elim!: ack_effect
       split: if_splits)

lemma step_ledger:
  assumes "ledger_ok s g" "apply_event e s = Inr s'"
  shows "ledger_ok s' (post e s g)"
proof (cases "\<exists>why. e = AbortRoom why")
  case True
  then show ?thesis
    using assms abort_ledger by auto
next
  case False
  then have a: "state s \<noteq> Aborted"
    using aborted_accepts [OF _ assms(2)] by blast
  then have i: "session_inv s" "ledger_at s g"
    using assms(1) by (auto simp: ledger_ok_active)
  have "ledger_at s' (post e s g)"
    using False assms(2) i
    by (cases e; cases "state s = WaitingForFeeSent") (auto intro: join_ledger received_ledger ack_ledger confirm_ledger
        sent_fee_ledger sent_leg_ledger
        simp del: post.simps(1,2))
  moreover have "state s' \<noteq> Aborted"
    using only_abort_aborts [OF assms(2) a False] .
  ultimately show ?thesis
    using apply_event_inv [OF i(1) assms(2)] by (simp add: ledger_ok_active)
qed

lemma runs_ledger: "runs s g \<Longrightarrow> ledger_ok s g"
proof (induction rule: runs.induct)
  case (runs_new c i f confirm pos s)
  then have "session_inv s"
    by (rule new_session_inv)
  with runs_new show ?case
    by (auto simp: new_session_def exn_simps ledger_ok_active ledger_at_def empty_ledger_def paid_def
        legs_done_def in_flight_def fee_behind_def)
qed (rule step_ledger)

section \<open>Conservation and exposure\<close>

lemma complete_totals:
  assumes "runs s g" "state s = SessionComplete"
  shows "received_from_a g = unat (total_a (session_terms s))"
    "received_from_b g = unat (total_b (session_terms s))"
    "sent_a g = received_from_a g" "sent_b g = received_from_b g"
    "fee_sent g = unat (fee_amount s)" "both_acked s"
proof -
  have l: "ledger_at s g" and i: "session_inv s"
    using runs_ledger [OF assms(1)] assms(2) by (simp_all add: ledger_ok_active)
  then have w: "wf_static s" and p: "leg_index s = 0" "round_index s = rounds (session_terms s)"
    and b: "both_acked s"
    using assms(2) by (auto simp: session_inv_def)
  have r: "0 < unat (rounds (session_terms s))"
    using round_zero [OF static_rounds [OF w]] by simp
  have "session_legs s q = unat (rounds (session_terms s))" for q
    by (simp add: legs_done_def p)
  then have "paid s q (session_legs s q) = unat (due_total s q)" for q
    using sum_tranche [OF r] by (simp add: paid_def)
  then show "received_from_a g = unat (total_a (session_terms s))"
    "received_from_b g = unat (total_b (session_terms s))"
    "sent_a g = received_from_a g" "sent_b g = received_from_b g"
    using l assms(2) by (simp_all add: ledger_at_def in_flight_def due_total_def)
  have "fee_amount s \<noteq> 0 \<Longrightarrow> fee_behind s"
    using assms(2) p by (cases "fee_position s") (auto simp: fee_behind_def amount_pos)
  then show "fee_sent g = unat (fee_amount s)"
    using l by (cases "fee_amount s = 0") (auto simp: ledger_at_def)
  show "both_acked s"
    by fact
qed

text \<open>What a party has reported sent, as a number of its tranches.\<close>

definition legs_sent :: "MediatorSession \<Rightarrow> Party \<Rightarrow> nat" where
  "legs_sent s p = session_legs s p + (if state s = WaitingForReceived \<and> due_sender s = p then 1 else 0)"

lemma paid_mono: "k \<le> l \<Longrightarrow> paid s p k \<le> paid s p l"
  unfolding paid_def by (rule sum_mono2) auto

lemma sent_is_paid:
  assumes "ledger_at s g" "session_inv s"
  shows "sent_a g = paid s PartyA (legs_sent s PartyA)" "sent_b g = paid s PartyB (legs_sent s PartyB)"
proof -
  have "paid s p (session_legs s p) + in_flight s p = paid s p (legs_sent s p)" for p
  proof (cases "state s = WaitingForReceived \<and> due_sender s = p")
    case True
    then have "session_legs s p = unat (round_index s)"
      using assms(2) first_sender_cases [of s] legs_before [of "unat (leg_index s)"]
      by (auto simp: session_inv_def leg_at_def)
    then show ?thesis
      using True by (simp add: legs_sent_def in_flight_def paid_suc due_amount_def)
  qed (auto simp: legs_sent_def in_flight_def)
  then show "sent_a g = paid s PartyA (legs_sent s PartyA)" "sent_b g = paid s PartyB (legs_sent s PartyB)"
    using assms(1) by (simp_all add: ledger_at_def)
qed

lemma legs_sent_lead:
  assumes "session_inv s" "state s \<noteq> Aborted" "p = PartyA \<or> p = PartyB"
  shows "legs_sent s p \<le> session_legs s (opposite p) + 1"
    "legs_sent s p \<le> unat (rounds (session_terms s))"
    "session_legs s p \<le> unat (rounds (session_terms s))"
proof -
  have w: "wf_static s"
    using assms(1) by (simp add: session_inv_def)
  have le: "unat (round_index s) \<le> unat (rounds (session_terms s))"
    using assms(1,2) round_zero [OF static_rounds [OF w]]
    by (auto simp: session_inv_def place_defs word_less_nat_alt split: SessionState.splits if_splits FeePosition.splits)
  have lt: "unat (round_index s) < unat (rounds (session_terms s))"
    if "state s = WaitingForReceived \<or> unat (leg_index s) = 1"
    using that assms(1,2)
    by (auto simp: session_inv_def place_defs word_less_nat_alt split: SessionState.splits if_splits FeePosition.splits)
  show "legs_sent s p \<le> session_legs s (opposite p) + 1" "legs_sent s p \<le> unat (rounds (session_terms s))"
    "session_legs s p \<le> unat (rounds (session_terms s))"
    using assms(3) first_sender_cases [OF w] le lt
    by (auto simp: legs_sent_def legs_done_def leg_sender_def split: if_splits)
qed

lemma exposure:
  assumes "runs s g"
  defines "R \<equiv> unat (rounds (session_terms s))"
  shows "\<exists>ka kb. ka \<le> R \<and> kb \<le> R \<and>
     received_from_a g = paid s PartyA ka \<and> received_from_b g = paid s PartyB kb \<and>
     sent_a g \<le> paid s PartyA (min (kb + 1) R) \<and> sent_b g \<le> paid s PartyB (min (ka + 1) R)"
proof -
  obtain st where st: "st \<noteq> Aborted" "session_inv (s\<lparr>state := st\<rparr>)" "ledger_at (s\<lparr>state := st\<rparr>) g"
    using runs_ledger [OF assms(1)] by (auto simp: ledger_ok_def)
  let ?s = "s\<lparr>state := st\<rparr>"
  have p: "paid ?s q k = paid s q k" for q k
    by (simp add: paid_def due_total_def)
  have lead: "legs_sent ?s q \<le> min (session_legs ?s (opposite q) + 1) R" "session_legs ?s q \<le> R"
    if "q = PartyA \<or> q = PartyB" for q
    using legs_sent_lead [OF st(2) _ that] st(1) by (simp_all add: R_def)
  have "sent_a g \<le> paid s PartyA (min (session_legs ?s PartyB + 1) R)"
    "sent_b g \<le> paid s PartyB (min (session_legs ?s PartyA + 1) R)"
    using sent_is_paid [OF st(3,2)] paid_mono [OF lead(1), of PartyA ?s] paid_mono [OF lead(1), of PartyB ?s]
    by (simp_all add: p)
  moreover have "received_from_a g = paid s PartyA (session_legs ?s PartyA)"
    "received_from_b g = paid s PartyB (session_legs ?s PartyB)"
    using st(3) by (simp_all add: ledger_at_def p)
  ultimately show ?thesis
    using lead(2) [of PartyA] lead(2) [of PartyB] by blast
qed

end
