(* ===== verification/Progress.thy ===== *)
theory Progress
  imports Settlement
begin

text \<open>
  Ordering and liveness of a trade session: a reported signal is never accepted again, and a
  cooperative environment completes every session that has not been aborted, within
  \<open>4 * rounds + 5\<close> events (one join, two reports for each of two legs per round, two
  acknowledgements, the fee report and its confirmation). \<open>remaining\<close> is the measure that every
  accepted event other than an abort decreases.
\<close>

section \<open>Signals cannot be replayed\<close>

inductive evolves :: "MediatorSession \<Rightarrow> MediatorSession \<Rightarrow> bool" where
  evolves_refl: "evolves s s"
| evolves_step: "evolves s t \<Longrightarrow> apply_event e t = Inr t' \<Longrightarrow> evolves s t'"

definition place :: "MediatorSession \<Rightarrow> nat" where
  "place s = 2 * unat (round_index s) + unat (leg_index s)"

lemma evolves_inv: "evolves s t \<Longrightarrow> session_inv s \<Longrightarrow> session_inv t"
  by (induction rule: evolves.induct) (auto intro: apply_event_inv)

lemma received_effect:
  assumes "receiver_reported_received p m s = Inr s'" "session_inv s"
  shows "state s = WaitingForReceived" "place s' = place s + 1" "s' = advance_after_receipt s"
    "wf_static s" "leg_at s" "RoundSignalMessage.round_index m = round_index s"
    "RoundSignalMessage.sender m = due_sender s" "p = opposite (due_sender s)"
proof -
  show st: "state s = WaitingForReceived" and s': "s' = advance_after_receipt s"
    using assms(1) by (auto simp: receiver_reported_received_def exn_simps)
  show w: "wf_static s" and l: "leg_at s"
    using assms(2) st by (auto simp: session_inv_def)
  show "place s' = place s + 1"
    using advance_place(2,3) [OF assms(2) st] l by (auto simp: place_def s' leg_at_def)
  show "RoundSignalMessage.round_index m = round_index s"
    "RoundSignalMessage.sender m = due_sender s" "p = opposite (due_sender s)"
    using assms(1) st w l
    by (auto simp: receiver_reported_received_def validate_signal_def exn_simps current_sender_leg
        current_receiver_leg)
qed

lemma sent_leg_effect:
  assumes "sender_reported_sent p m s = Inr s'" "session_inv s" "state s \<noteq> WaitingForFeeSent"
  shows "state s = WaitingForSent" "s' = s\<lparr>state := WaitingForReceived\<rparr>"
    "wf_static s" "leg_at s" "RoundSignalMessage.round_index m = round_index s"
    "RoundSignalMessage.sender m = due_sender s" "p = due_sender s"
proof -
  show st: "state s = WaitingForSent" and "s' = s\<lparr>state := WaitingForReceived\<rparr>"
    using assms(1,3) by (auto simp: sender_reported_sent_def exn_simps)
  show w: "wf_static s" and l: "leg_at s"
    using assms(2) st by (auto simp: session_inv_def)
  show "RoundSignalMessage.round_index m = round_index s"
    "RoundSignalMessage.sender m = due_sender s" "p = due_sender s"
    using assms(1) st w l
    by (auto simp: sender_reported_sent_def validate_signal_def exn_simps current_sender_leg)
qed

text \<open>Only a receipt advances the place, by one; at a place waiting for a receipt nothing else
  but an abort is accepted.\<close>

lemma event_place:
  assumes "apply_event e s = Inr s'" "session_inv s"
  shows "place s' = place s \<and> (state s = WaitingForReceived \<longrightarrow> state s' = Aborted) \<or>
         place s' = place s + 1 \<and> state s = WaitingForReceived"
proof (cases e)
  case (ReportReceived p m)
  then show ?thesis
    using received_effect [of p m s s'] assms by simp
next
  case (AckFinal p)
  then show ?thesis
    using assms by (auto simp: place_def elim!: ack_effect)
qed (use assms in \<open>auto simp: place_def join_def sender_reported_sent_def confirm_fee_received_def
       abort_def exn_simps Let_def split: if_splits\<close>)

lemma behind_leg:
  assumes "evolves s t" "session_inv s" "state s = WaitingForReceived"
  shows "place t > place s \<or> place t = place s \<and> (state t = WaitingForReceived \<or> state t = Aborted)"
  using assms(1,2,3)
proof (induction rule: evolves.induct)
  case (evolves_step s t e t')
  have "session_inv t"
    using evolves_step evolves_inv by blast
  then show ?case
    using evolves_step event_place [of e t t'] aborted_accepts [of t e t']
    by (auto simp: abort_def exn_simps Let_def split: if_splits)
qed simp

lemma same_round_same_leg:
  assumes "leg_sender f n l = leg_sender f n l'" "f = PartyA \<or> f = PartyB"
    "l = 0 \<or> l = 1" "l' = 0 \<or> l' = 1"
  shows "l = l'"
  using assms by (auto simp: leg_sender_def split: if_splits)

lemma evolves_creator: "evolves s t \<Longrightarrow> creator t = creator s"
proof (induction rule: evolves.induct)
  case (evolves_step s t e t')
  then show ?case
    by (cases e) (auto simp: join_def sender_reported_sent_def confirm_fee_received_def
       receiver_reported_received_def abort_def exn_simps Let_def elim!: ack_effect split: if_splits)
qed simp

lemma later_leg_differs:
  assumes "wf_static s" "leg_at s" "leg_at t" "creator t = creator s" "place t > place s"
  shows "\<not> (round_index t = round_index s \<and> due_sender t = due_sender s)"
proof
  assume "round_index t = round_index s \<and> due_sender t = due_sender s"
  then have "leg_sender (first_sender (session_terms s)) (unat (round_index s)) (unat (leg_index t)) = due_sender s"
    using assms(4) by clarsimp
  then have "unat (leg_index t) = unat (leg_index s)"
    using first_sender_cases [OF assms(1)] assms(2,3)
    by (intro same_round_same_leg) (auto simp: leg_at_def)
  with \<open>round_index t = _ \<and> _\<close> assms(5) show False
    by (simp add: place_def)
qed

lemma sent_replay:
  assumes "session_inv s" "state s = WaitingForSent" "sender_reported_sent p m s = Inr s'" "evolves s' t"
  shows "\<exists>e. sender_reported_sent q m t = Inl e"
proof (rule ccontr)
  assume "\<nexists>e. sender_reported_sent q m t = Inl e"
  then obtain t' where t': "sender_reported_sent q m t = Inr t'"
    by (cases "sender_reported_sent q m t") auto
  have s: "s' = s\<lparr>state := WaitingForReceived\<rparr>" "wf_static s" "leg_at s"
    "RoundSignalMessage.round_index m = round_index s" "RoundSignalMessage.sender m = due_sender s"
    using sent_leg_effect [OF assms(3,1)] assms(2) by auto
  have s': "session_inv s'" "state s' = WaitingForReceived" "place s' = place s" "creator s' = creator s"
    using sent_inv [OF assms(1,3)] s(1) by (simp_all add: place_def)
  have t: "session_inv t" "creator t = creator s"
    using evolves_inv [OF assms(4) s'(1)] evolves_creator [OF assms(4)] s'(4) by simp_all
  have st: "state t = WaitingForSent \<or> state t = WaitingForFeeSent"
    using t' by (auto simp: sender_reported_sent_def exn_simps split: if_splits)
  have later: "place t > place s"
    using behind_leg [OF assms(4) s'(1,2)] st s'(3) by auto
  show False
  proof (cases "state t = WaitingForFeeSent")
    case False
    then show ?thesis
      using sent_leg_effect [OF t' t(1)] later_leg_differs [OF s(2,3) _ t(2) later] s(4,5) by simp
  next
    case True
    then have r: "round_index t = round_index s"
      using t' s(4) by (auto simp: sender_reported_sent_def exn_simps)
    have "leg_index t = 0"
      using True t(1) by (simp add: session_inv_def fee_leg_at_def)
    with r later show False
      by (simp add: place_def)
  qed
qed

lemma received_replay:
  assumes "session_inv s" "receiver_reported_received p m s = Inr s'" "evolves s' t"
  shows "\<exists>e. receiver_reported_received q m t = Inl e"
proof (rule ccontr)
  assume "\<nexists>e. receiver_reported_received q m t = Inl e"
  then obtain t' where t': "receiver_reported_received q m t = Inr t'"
    by (cases "receiver_reported_received q m t") auto
  note s = received_effect [OF assms(2,1)]
  have t: "session_inv t" "creator t = creator s"
    using evolves_inv [OF assms(3) received_inv [OF assms(1,2)]] evolves_creator [OF assms(3)] s(3) by simp_all
  have "place s < place u" if "evolves s' u" for u
    using that
  proof (induction s' \<equiv> s' u rule: evolves.induct)
    case evolves_refl
    then show ?case using s(2) by simp
  next
    case (evolves_step u e u')
    then show ?case
      using event_place [of e u u'] evolves_inv [OF _ received_inv [OF assms(1,2)]] by fastforce
  qed
  then show False
    using received_effect [OF t' t(1)] later_leg_differs [OF s(4,5) _ t(2)] assms(3) s(6,7) by simp
qed

section \<open>Progress and completion\<close>

text \<open>What a cooperative environment does next: the due party reports, the counterparty confirms,
  parties acknowledge, the operator confirms the fee.\<close>

definition due_signal :: "MediatorSession \<Rightarrow> Party \<Rightarrow> RoundSignalMessage" where
  "due_signal s p = \<lparr>RoundSignalMessage.room_id = MediatorSession.room_id s,
     round_index = round_index s, sender = p\<rparr>"

definition next_event :: "string \<Rightarrow> MediatorSession \<Rightarrow> event" where
  "next_event addr s =
     (case state s of
        WaitingForPeer \<Rightarrow> Join \<lparr>JoinRoomMessage.room_id = MediatorSession.room_id s, receive_address_b = addr\<rparr>
      | WaitingForSent \<Rightarrow> ReportSent (due_sender s) (due_signal s (due_sender s))
      | WaitingForReceived \<Rightarrow> ReportReceived (opposite (due_sender s)) (due_signal s (due_sender s))
      | WaitingForFeeSent \<Rightarrow> ReportSent PartyA (due_signal s PartyA)
      | WaitingForFinalReceiptAck \<Rightarrow> AckFinal (if final_receipt_acked_a s then PartyB else PartyA)
      | _ \<Rightarrow> ConfirmFee)"

primrec cooperate :: "string \<Rightarrow> nat \<Rightarrow> MediatorSession \<Rightarrow> MediatorSession" where
  "cooperate addr 0 s = s"
| "cooperate addr (Suc n) s =
     (case apply_event (next_event addr s) s of Inl _ \<Rightarrow> s | Inr s' \<Rightarrow> cooperate addr n s')"

definition legs_left :: "MediatorSession \<Rightarrow> nat" where
  "legs_left s = 2 * unat (rounds (session_terms s)) - place s"

definition acks :: "MediatorSession \<Rightarrow> nat" where
  "acks s = (if final_receipt_acked_a s then 1 else 0) + (if final_receipt_acked_b s then 1 else 0)"

definition behind_gate :: "MediatorSession \<Rightarrow> bool" where
  "behind_gate s \<longleftrightarrow>
     (if final_leg_gated s then legs_left s = 0 \<or> legs_left s = 1 \<and> state s \<noteq> WaitingForFinalReceiptAck
      else state s = WaitingForFeeSent \<or> state s = WaitingForFeeConfirmation \<or> state s = SessionComplete)"

definition remaining :: "MediatorSession \<Rightarrow> nat" where
  "remaining s =
     (if state s = WaitingForPeer then 1 else 0) +
     2 * legs_left s - (if state s = WaitingForReceived then 1 else 0) +
     (if behind_gate s then 0 else if state s = WaitingForFinalReceiptAck then 2 - acks s else 2) +
     (if state s = WaitingForFeeConfirmation then 1
      else if fee_amount s = 0 \<or> fee_behind s then 0 else 2)"

lemma next_event_accepted:
  assumes "session_inv s" "state s \<noteq> SessionComplete" "state s \<noteq> Aborted" "validate_address addr = Inr ()"
  shows "\<exists>s'. apply_event (next_event addr s) s = Inr s'"
proof -
  have w: "wf_static s"
    using assms(1) by (simp add: session_inv_def)
  show ?thesis
  proof (cases "state s")
    case WaitingForSent
    then show ?thesis
      using assms(1) w
      by (simp add: next_event_def session_inv_def sender_reported_sent_def validate_signal_def
          current_sender_leg due_signal_def)
  next
    case WaitingForReceived
    then show ?thesis
      using assms(1) w
      by (simp add: next_event_def session_inv_def receiver_reported_received_def validate_signal_def
          current_sender_leg current_receiver_leg due_signal_def)
  next
    case WaitingForFinalReceiptAck
    then show ?thesis
      using assms(1)
      by (auto simp: next_event_def session_inv_def acknowledge_final_receipt_def gate_at_def
          both_acked_def final_receipt_acked_def Let_def)
  qed (use assms in \<open>auto simp: next_event_def session_inv_def join_def sender_reported_sent_def
         confirm_fee_received_def due_signal_def Let_def\<close>)
qed

lemma legs_left_leg:
  assumes "leg_at s"
  shows "1 \<le> legs_left s"
    "legs_left s = 1 \<longleftrightarrow> unat (round_index s) + 1 = unat (rounds (session_terms s)) \<and> leg_index s = 1"
  using assms by (auto simp: leg_at_def legs_left_def place_def word_less_nat_alt)

lemma legs_left_fee:
  assumes "fee_leg_at s" "wf_static s"
  shows "fee_position s \<noteq> AfterLastRound \<longleftrightarrow> 2 \<le> legs_left s"
  using assms round_zero [OF static_rounds [OF assms(2)]]
  by (cases "fee_position s") (auto simp: fee_leg_at_def legs_left_def place_def)

lemma legs_left_gate: "gate_at s \<Longrightarrow> legs_left s = (if final_leg_gated s then 1 else 0)"
  by (auto simp: gate_at_def legs_left_def place_def split: if_splits)

lemma remaining_join:
  assumes "session_inv s" "join m s = Inr s'"
  shows "remaining s' < remaining s"
proof -
  have w: "wf_static s" and st: "state s = WaitingForPeer" and z: "round_index s = 0" "leg_index s = 0"
    using assms by (auto simp: join_def session_inv_def exn_simps)
  have fb: "fee_behind s' = fee_behind s"
    using assms(2) st z round_zero [OF static_rounds [OF w]] one_round [OF static_rounds [OF w]]
    by (cases "fee_position s") (auto simp: join_def exn_simps fee_behind_def Let_def)
  have "2 \<le> legs_left s"
    using z round_zero [OF static_rounds [OF w]] by (simp add: legs_left_def place_def)
  obtain st where s': "state s' = st" "st = WaitingForFeeSent \<or> st = WaitingForSent" "fee_amount s' = fee_amount s"
    "legs_left s' = legs_left s" "final_leg_gated s' = final_leg_gated s"
    using assms(2) by (auto simp: join_def exn_simps Let_def legs_left_def place_def final_leg_gated_def)
  have "\<not> behind_gate s"
    using st \<open>2 \<le> legs_left s\<close> by (simp add: behind_gate_def)
  with fb st s' show ?thesis
    by (auto simp: remaining_def)
qed

lemma remaining_sent_leg:
  assumes "session_inv s" "sender_reported_sent p m s = Inr s'" "state s \<noteq> WaitingForFeeSent"
  shows "remaining s' < remaining s"
proof -
  note e = sent_leg_effect [OF assms(2,1,3)]
  have "fee_behind s' = fee_behind s"
    using e(1) by (cases "fee_position s") (simp_all add: e(2) fee_behind_def)
  then show ?thesis
    using e(1) legs_left_leg(1) [OF e(4)]
    by (simp add: e(2) remaining_def legs_left_def place_def behind_gate_def final_leg_gated_def)
qed

lemma remaining_received:
  assumes "session_inv s" "receiver_reported_received p m s = Inr s'"
  shows "remaining s' < remaining s"
proof -
  note e = received_effect [OF assms(2,1)]
  have fb: "fee_behind s' = fee_behind s"
    using advance_fee_behind [OF assms(1) e(1)] e(3) by simp
  have L: "legs_left s' + 1 = legs_left s"
    using e(2,3) legs_left_leg(1) [OF e(5)] by (simp add: legs_left_def)
  have g: "behind_gate s \<Longrightarrow> behind_gate s'"
    using L e(1) by (auto simp: e(3) behind_gate_def final_leg_gated_def split: if_splits)
  have "state s' \<noteq> WaitingForReceived" "state s' \<noteq> WaitingForPeer" "state s' \<noteq> WaitingForFeeConfirmation"
    by (simp_all add: e(3) advance_after_receipt_def Let_def)
  then show ?thesis
    using L fb e(1) g by (auto simp: remaining_def e(3))
qed

lemma remaining_sent_fee:
  assumes "session_inv s" "sender_reported_sent p m s = Inr s'" "state s = WaitingForFeeSent"
  shows "remaining s' < remaining s"
  using assms(2,3)
proof (rule sent_fee_effect)
  fix st
  assume s': "s' = s\<lparr>state := st\<rparr>"
    and st: "st = (if require_fee_confirmation s then WaitingForFeeConfirmation
           else if fee_position s = AfterLastRound then SessionComplete else WaitingForSent)"
  have f: "fee_leg_at s" and w: "wf_static s"
    using assms(1,3) by (auto simp: session_inv_def)
  have L: "legs_left s' = legs_left s"
    by (simp add: s' legs_left_def place_def)
  have "behind_gate s' = behind_gate s"
    using legs_left_fee [OF f w] L assms(3) f
    by (auto simp: behind_gate_def s' st final_leg_gated_def fee_leg_at_def)
  moreover have "fee_behind s'"
    using f by (cases "fee_position s") (simp_all add: s' st fee_behind_def fee_leg_at_def)
  moreover have "\<not> fee_behind s" "fee_amount s \<noteq> 0"
    using assms(3) f by (auto simp: fee_behind_def fee_leg_at_def)
  moreover have "state s' = st" "fee_amount s' = fee_amount s"
    by (simp_all add: s')
  ultimately show ?thesis
    using assms(3) L st by (auto simp: remaining_def)
qed

lemma remaining_ack:
  assumes "session_inv s" "acknowledge_final_receipt p s = Inr s'"
  shows "remaining s' < remaining s"
  using assms(2)
proof (rule ack_effect)
  fix a b
  let ?st = "if a \<and> b then (if final_receipt_gate_is_fee_leg s then WaitingForFeeSent else WaitingForSent)
             else WaitingForFinalReceiptAck"
  assume st: "state s = WaitingForFinalReceiptAck" and new: "\<not> final_receipt_acked p s"
    and s': "s' = s\<lparr>final_receipt_acked_a := a, final_receipt_acked_b := b, state := ?st\<rparr>"
    and ab: "a = (final_receipt_acked_a s \<or> p = PartyA)" "b = (final_receipt_acked_b s \<or> p \<noteq> PartyA)"
  have g: "gate_at s"
    using assms(1) st by (simp add: session_inv_def)
  have fb: "fee_behind s' = fee_behind s"
    using st by (cases "fee_position s")
      (simp_all add: s' fee_behind_def final_receipt_gate_is_fee_leg_def)
  have L: "legs_left s' = legs_left s" "final_leg_gated s' = final_leg_gated s"
    by (simp_all add: s' legs_left_def place_def final_leg_gated_def)
  have st': "state s' = ?st" "fee_amount s' = fee_amount s"
    by (simp_all add: s')
  have "behind_gate s'" if "a \<and> b"
    using legs_left_gate [OF g] L g that
    by (cases "final_leg_gated s")
       (auto simp: behind_gate_def st' final_receipt_gate_is_fee_leg_def final_leg_gated_def gate_at_def amount_pos)
  moreover have "\<not> behind_gate s"
    using legs_left_gate [OF g] st by (simp add: behind_gate_def)
  moreover have "acks s \<le> 1" "\<not> (a \<and> b) \<Longrightarrow> acks s' = 1 \<and> acks s = 0"
    using g new ab by (auto simp: s' acks_def gate_at_def both_acked_def final_receipt_acked_def)
  ultimately show ?thesis
    using st L fb st' by (cases "a \<and> b") (auto simp: remaining_def)
qed

lemma remaining_confirm:
  assumes "session_inv s" "confirm_fee_received s = Inr s'"
  shows "remaining s' < remaining s"
proof -
  have st: "state s = WaitingForFeeConfirmation"
    and s': "s' = s\<lparr>state := (if fee_position s = AfterLastRound then SessionComplete else WaitingForSent)\<rparr>"
    using assms(2) by (auto simp: confirm_fee_received_def exn_simps)
  have f: "fee_leg_at s" and w: "wf_static s"
    using assms(1) st by (auto simp: session_inv_def)
  have fb: "fee_behind s'"
    using f by (cases "fee_position s") (simp_all add: s' fee_behind_def fee_leg_at_def)
  have L: "legs_left s' = legs_left s"
    by (simp add: s' legs_left_def place_def)
  have "behind_gate s' = behind_gate s"
    using legs_left_fee [OF f w] L st f
    by (auto simp: behind_gate_def s' final_leg_gated_def fee_leg_at_def)
  moreover have "state s' = (if fee_position s = AfterLastRound then SessionComplete else WaitingForSent)"
    "fee_amount s' = fee_amount s"
    by (simp_all add: s')
  ultimately show ?thesis
    using fb L st by (auto simp: remaining_def)
qed

lemma event_decreases:
  assumes "session_inv s" "apply_event e s = Inr s'" "\<nexists>why. e = AbortRoom why"
  shows "remaining s' < remaining s"
  using assms
  by (cases e; cases "state s = WaitingForFeeSent")
     (auto intro: remaining_join remaining_sent_leg remaining_sent_fee remaining_received remaining_ack
       remaining_confirm)

lemma remaining_bound: "remaining s \<le> 4 * unat (rounds (session_terms s)) + 5"
proof -
  have "legs_left s \<le> 2 * unat (rounds (session_terms s))"
    by (simp add: legs_left_def)
  then show ?thesis
    by (auto simp: remaining_def)
qed

lemma cooperate_completes:
  assumes "session_inv s" "state s \<noteq> Aborted" "validate_address addr = Inr ()" "remaining s \<le> n"
  shows "\<exists>k\<le>n. state (cooperate addr k s) = SessionComplete"
  using assms
proof (induction n arbitrary: s)
  case (Suc n)
  show ?case
  proof (cases "state s = SessionComplete")
    case True
    then show ?thesis
      by (intro exI [of _ 0]) simp
  next
    case False
    then obtain s' where s': "apply_event (next_event addr s) s = Inr s'"
      using next_event_accepted Suc.prems by blast
    have na: "\<nexists>why. next_event addr s = AbortRoom why"
      by (simp add: next_event_def split: SessionState.splits)
    have "remaining s' \<le> n"
      using event_decreases [OF Suc.prems(1) s' na] Suc.prems(4) by simp
    then obtain k where "k \<le> n" "state (cooperate addr k s') = SessionComplete"
      using Suc.IH [of s'] apply_event_inv [OF Suc.prems(1) s'] only_abort_aborts [OF s' _ na] Suc.prems(2,3)
      by blast
    then show ?thesis
      using s' by (intro exI [of _ "Suc k"]) simp
  qed
next
  case 0
  have "state s = SessionComplete"
  proof (rule ccontr)
    assume "state s \<noteq> SessionComplete"
    then obtain s' where s': "apply_event (next_event addr s) s = Inr s'"
      using next_event_accepted 0 by blast
    have "\<nexists>why. next_event addr s = AbortRoom why"
      by (simp add: next_event_def split: SessionState.splits)
    then show False
      using event_decreases [OF 0(1) s'] 0(4) by simp
  qed
  then show ?case
    by (intro exI [of _ 0]) simp
qed

text \<open>No run without an abort is longer than the measure of its first state.\<close>

lemma play_bounded:
  assumes "play es s g = Inr (s', g')" "session_inv s" "\<forall>e\<in>set es. \<nexists>why. e = AbortRoom why"
  shows "length es + remaining s' \<le> remaining s"
  using assms
proof (induction es arbitrary: s g)
  case (Cons e es)
  then obtain s1 where e: "apply_event e s = Inr s1" and rest: "play es s1 (post e s g) = Inr (s', g')"
    by (auto simp: exn_simps)
  have "remaining s1 < remaining s"
    using event_decreases [OF Cons.prems(2) e] Cons.prems(3) by simp
  moreover have "length es + remaining s' \<le> remaining s1"
    using Cons.IH [OF rest apply_event_inv [OF Cons.prems(2) e]] Cons.prems(3) by simp
  ultimately show ?case
    by simp
qed simp

end
