(* ===== verification/Text_Parsing.thy ===== *)
theory Text_Parsing
  imports Prelude
begin

text \<open>
  The text and number conversions of the C++ standard library that the configuration and control
  channels use: \<open>std::to_string\<close>, \<open>std::from_chars\<close> and \<open>std::stoul\<close> in base ten, reading words from
  an \<open>std::istringstream\<close>, and \<open>find\<close>, \<open>rfind\<close> and \<open>substr\<close> at a separator.
\<close>

definition is_digit :: "char \<Rightarrow> bool" where
  "is_digit c \<longleftrightarrow> 48 \<le> (of_char c :: nat) \<and> (of_char c :: nat) \<le> 57"

definition isspace :: "char \<Rightarrow> bool" where
  "isspace c \<longleftrightarrow> (of_char c :: nat) = 32 \<or> 9 \<le> (of_char c :: nat) \<and> (of_char c :: nat) \<le> 13"

definition number :: "string \<Rightarrow> nat" where
  "number text = foldl (\<lambda>n c. 10 * n + (of_char c - 48)) 0 text"

fun to_string :: "nat \<Rightarrow> string" where
  "to_string n = (if n < 10 then [char_of (48 + n)] else to_string (n div 10) @ [char_of (48 + n mod 10)])"

declare to_string.simps [simp del]

text \<open>\<open>std::from_chars\<close> for an unsigned type of \<open>w\<close> bits: the value and what follows the digits, or
  nothing when there is no digit or the value does not fit.\<close>

definition from_chars :: "nat \<Rightarrow> string \<Rightarrow> (nat \<times> string) option" where
  "from_chars w text =
     (let digits = takeWhile is_digit text in
      if digits = [] \<or> number digits \<ge> 2 ^ w then None
      else Some (number digits, dropWhile is_digit text))"

text \<open>\<open>std::stoul(text, &used, 10)\<close>: leading white space and one sign are accepted, a negative value
  wraps around; \<open>used\<close> is the number of characters read.\<close>

definition stoul :: "string \<Rightarrow> (u64 \<times> nat) result" where
  "stoul text =
     (let body = dropWhile isspace text;
          negative = (body \<noteq> [] \<and> hd body = CHR ''-'');
          unsigned = (if body \<noteq> [] \<and> (hd body = CHR ''-'' \<or> hd body = CHR ''+'') then tl body else body);
          digits = takeWhile is_digit unsigned;
          magnitude = of_nat (number digits) :: u64
      in if digits = [] then Inl (Invalid_argument ''stoul'')
         else if number digits \<ge> 2 ^ 64 then Inl (Out_of_range ''stoul'')
         else Inr (if negative then - magnitude else magnitude,
                   length text - length (dropWhile is_digit unsigned)))"

text \<open>\<open>stream >> word\<close>: the word and what is left of the stream; no word leaves the string empty.\<close>

definition next_word :: "string \<Rightarrow> string \<times> string" where
  "next_word text =
     (let rest = dropWhile isspace text
      in (takeWhile (\<lambda>c. \<not> isspace c) rest, dropWhile (\<lambda>c. \<not> isspace c) rest))"

text \<open>The text before the first separator, and the text after it if there is one.\<close>

definition cut_at :: "char \<Rightarrow> string \<Rightarrow> string \<times> string option" where
  "cut_at sep text =
     (takeWhile (\<lambda>c. c \<noteq> sep) text,
      case dropWhile (\<lambda>c. c \<noteq> sep) text of [] \<Rightarrow> None | _ # rest \<Rightarrow> Some rest)"

text \<open>The text before the last separator and the text after it, if there is one (\<open>rfind\<close>).\<close>

definition rcut :: "char \<Rightarrow> string \<Rightarrow> (string \<times> string) option" where
  "rcut sep text =
     (case dropWhile (\<lambda>c. c \<noteq> sep) (rev text) of [] \<Rightarrow> None
      | _ # before \<Rightarrow> Some (rev before, rev (takeWhile (\<lambda>c. c \<noteq> sep) (rev text))))"

text \<open>What is left of the received text: the first line, without a trailing carriage return.\<close>

definition admin_line :: "string \<Rightarrow> string" where
  "admin_line received =
     (let line = takeWhile (\<lambda>c. c \<noteq> CHR 0x0A) received
      in if line \<noteq> [] \<and> last line = CHR 0x0D then butlast line else line)"

text \<open>
  The receive loop of a control connection: chunks are appended until there is a line end or more than
  \<open>limit\<close> characters; a failed, timed-out or empty \<open>recv\<close> (no further chunk) ends the connection.
\<close>

fun recv_line :: "nat \<Rightarrow> string \<Rightarrow> string list \<Rightarrow> string option" where
  "recv_line limit line [] = None"
| "recv_line limit line (chunk # chunks) =
     (let line = line @ chunk in
      if CHR 0x0A \<in> set line \<or> length line > limit then Some line else recv_line limit line chunks)"

section \<open>Printing and parsing numbers\<close>

lemma is_digit_of_nat [simp]: "(n :: nat) < 10 \<Longrightarrow> is_digit (char_of (48 + n))"
  by (simp add: is_digit_def)

lemma to_string_digits: "list_all is_digit (to_string n) \<and> to_string n \<noteq> []"
  by (induction n rule: to_string.induct) (subst (1 2) to_string.simps, simp)

lemma number_snoc: "number (text @ [c]) = 10 * number text + (of_char c - 48)"
  by (simp add: number_def)

lemma number_to_string [simp]: "number (to_string n) = n"
proof (induction n rule: to_string.induct)
  case (1 n)
  show ?case
  proof (cases "n < 10")
    case True
    then show ?thesis
      by (simp add: to_string.simps number_def)
  next
    case False
    have "to_string n = to_string (n div 10) @ [char_of (48 + n mod 10)]"
      using False by (subst to_string.simps) simp
    with 1 False show ?thesis
      by (simp add: number_snoc)
  qed
qed

lemma to_string_inj [simp]: "to_string m = to_string n \<longleftrightarrow> m = n"
  by (metis number_to_string)

lemma digits_span [simp]: "takeWhile is_digit (to_string n) = to_string n" "dropWhile is_digit (to_string n) = []"
  using to_string_digits [of n] by (simp_all add: list_all_iff)

lemma from_chars_to_string: "n < 2 ^ w \<Longrightarrow> from_chars w (to_string n) = Some (n, [])"
  using to_string_digits [of n] by (simp add: from_chars_def Let_def del: takeWhile_eq_all_conv)

lemma digit_no_space: "is_digit c \<Longrightarrow> \<not> isspace c \<and> c \<noteq> CHR '':'' \<and> c \<noteq> CHR ''-'' \<and> c \<noteq> CHR ''+''"
  by (auto simp: is_digit_def isspace_def)

lemma to_string_hd: "is_digit (hd (to_string n))"
  using to_string_digits [of n] by (cases "to_string n") auto

lemma stoul_to_string:
  assumes "n < 2 ^ 64"
  shows "stoul (to_string n) = Inr (of_nat n, length (to_string n))"
proof -
  have "dropWhile isspace (to_string n) = to_string n"
    using digit_no_space [OF to_string_hd [of n]] to_string_digits [of n] by (cases "to_string n") auto
  with assms show ?thesis
    using digit_no_space [OF to_string_hd [of n]] to_string_digits [of n]
    by (simp add: stoul_def Let_def del: takeWhile_eq_all_conv)
qed

lemma to_string_no_colon: "CHR '':'' \<notin> set (to_string n)"
  using to_string_digits [of n] digit_no_space by (auto simp: list_all_iff)

section \<open>Separators\<close>

lemma span_separator:
  "sep \<notin> set a \<Longrightarrow> takeWhile (\<lambda>c. c \<noteq> sep) (a @ sep # b) = a"
  "sep \<notin> set a \<Longrightarrow> dropWhile (\<lambda>c. c \<noteq> sep) (a @ sep # b) = sep # b"
  by (induction a) auto

lemma cut_at_append [simp]: "sep \<notin> set a \<Longrightarrow> cut_at sep (a @ sep # b) = (a, Some b)"
  by (simp add: cut_at_def span_separator)

lemma cut_at_last [simp]: "sep \<notin> set a \<Longrightarrow> cut_at sep a = (a, None)"
  by (induction a) (auto simp: cut_at_def)

lemma cut_at_cons:
  "cut_at sep (x # s) = (if x = sep then ([], Some s) else (x # fst (cut_at sep s), snd (cut_at sep s)))"
  by (simp add: cut_at_def)

lemma cut_at_shorter: "snd (cut_at sep s) = Some rest \<Longrightarrow> length rest < length s"
  by (induction s arbitrary: rest) (auto simp: cut_at_cons cut_at_def split: if_splits)

lemma rcut_append [simp]: "sep \<notin> set b \<Longrightarrow> rcut sep (a @ sep # b) = Some (a, b)"
  using span_separator [of sep "rev b" "rev a"] by (simp add: rcut_def)

lemma last_separator:
  assumes "a @ (sep :: char) # b = a' @ sep # b'" and "sep \<notin> set b" and "sep \<notin> set b'"
  shows "a = a'" and "b = b'"
proof -
  have "rcut sep (a @ sep # b) = Some (a, b)" "rcut sep (a' @ sep # b') = Some (a', b')"
    using assms(2,3) by simp_all
  then show "a = a'" and "b = b'"
    unfolding assms(1) by simp_all
qed

end
