(* ===== verification/Mediator_Config.thy ===== *)
theory Mediator_Config
  imports Text_Parsing Persistence
begin

text \<open>
  What the mediator reads when it starts and the two kinds of files its operator owns
  (\<open>src/src/lobby.cpp\<close>, the functions in front of \<open>class LobbyServer::Impl\<close>): the environment variables,
  the configuration file in which a changed fee is kept, and the files with the seeds of its signing keys.
  A text file is read and written as bytes; a read of a file that could be opened delivers all of it.
\<close>

section \<open>The environment\<close>

type_synonym environment = "string \<Rightarrow> string option"

definition env_or_empty :: "environment \<Rightarrow> string \<Rightarrow> string" where
  "env_or_empty vars name = (case vars name of None \<Rightarrow> [] | Some v \<Rightarrow> v)"

text \<open>\<open>from_chars\<close> in base ten over the whole text, zero refused.\<close>

definition positive_decimal :: "nat \<Rightarrow> string \<Rightarrow> nat option" where
  "positive_decimal w txt =
     (case from_chars w txt of Some (n, []) \<Rightarrow> if n = 0 then None else Some n | _ \<Rightarrow> None)"

definition configured_fee :: "environment \<Rightarrow> FeeTerms result" where
  "configured_fee vars =
     (let a = env_or_empty vars ''TRADEP2P_FEE_ASSET'' in
     if a = [] then Inr default_fee else
     let amount_text = env_or_empty vars ''TRADEP2P_FEE_AMOUNT'';
         addr = env_or_empty vars ''TRADEP2P_FEE_ADDRESS'' in
     if amount_text = [] \<or> addr = [] then
       Inl (Invalid_argument ''TRADEP2P_FEE_ASSET requires TRADEP2P_FEE_AMOUNT and TRADEP2P_FEE_ADDRESS to also be set'')
     else case positive_decimal 64 amount_text of
       None \<Rightarrow> Inl (Invalid_argument ''invalid TRADEP2P_FEE_AMOUNT'')
     | Some n \<Rightarrow>
         let f = \<lparr>FeeTerms.asset = a, amount = of_nat n, address = addr\<rparr> in
         rbind (validate_fee_terms f) (\<lambda>_. Inr f))"

definition configured_admin_port :: "environment \<Rightarrow> u16 result" where
  "configured_admin_port vars =
     (let txt = env_or_empty vars ''TRADEP2P_ADMIN_PORT'' in
     if txt = [] then Inr 7444 else
     case positive_decimal 16 txt of
       None \<Rightarrow> Inl (Invalid_argument ''invalid TRADEP2P_ADMIN_PORT'')
     | Some n \<Rightarrow> Inr (of_nat n))"

definition configured_mediator_auth_port :: "environment \<Rightarrow> u16 option result" where
  "configured_mediator_auth_port vars =
     (let txt = env_or_empty vars ''TRADEP2P_MEDIATOR_AUTH_PORT'' in
     if txt = [] then Inr None else
     case positive_decimal 16 txt of
       None \<Rightarrow> Inl (Invalid_argument ''invalid TRADEP2P_MEDIATOR_AUTH_PORT'')
     | Some n \<Rightarrow> Inr (Some (of_nat n)))"

definition configured_require_fee_confirmation :: "environment \<Rightarrow> bool" where
  "configured_require_fee_confirmation vars \<longleftrightarrow>
     (let txt = env_or_empty vars ''TRADEP2P_FEE_REQUIRE_CONFIRMATION'' in txt = ''1'' \<or> txt = ''true'')"

definition configured_fee_position :: "environment \<Rightarrow> FeePosition" where
  "configured_fee_position vars =
     (let txt = env_or_empty vars ''TRADEP2P_FEE_POSITION'' in
     if txt = ''before-first'' then BeforeFirstRound
     else if txt = ''before-last'' then BeforeLastRound
     else AfterLastRound)"

definition configured_mediator_id :: "environment \<Rightarrow> string \<Rightarrow> u16 \<Rightarrow> string" where
  "configured_mediator_id vars bind_host bind_port =
     (let override_value = env_or_empty vars ''TRADEP2P_MEDIATOR_ID'' in
     if override_value \<noteq> [] then override_value
     else bind_host @ '':'' @ to_string (unat bind_port))"

section \<open>The configuration file\<close>

text \<open>The lines of a text as a loop of \<open>std::getline\<close> collects them, and the text written line by line.\<close>

lemma cut_at_rest: "(line, Some rest) = cut_at sep s \<Longrightarrow> length rest < length s"
  by (rule cut_at_shorter [of sep]) (metis snd_conv)

function getlines :: "string \<Rightarrow> string list" where
  "getlines txt =
     (if txt = [] then [] else
      case cut_at (CHR 0x0A) txt of
        (line, None) \<Rightarrow> [line]
      | (line, Some rest) \<Rightarrow> line # getlines rest)"
  by pat_completeness auto
termination
  by (relation "measure length") (auto dest: cut_at_rest)

declare getlines.simps [simp del]

definition put_lines :: "string list \<Rightarrow> string" where
  "put_lines lines = concat (map (\<lambda>line. line @ [CHR 0x0A]) lines)"

definition starts_with :: "string \<Rightarrow> string \<Rightarrow> bool" where
  "starts_with p line \<longleftrightarrow> take (length p) line = p"

definition quoted :: "string \<Rightarrow> string" where
  "quoted v = CHR 0x22 # v @ [CHR 0x22]"

definition asset_line :: "FeeTerms \<Rightarrow> string" where
  "asset_line f = ''FEE_ASSET='' @ quoted (FeeTerms.asset f)"

definition amount_line :: "FeeTerms \<Rightarrow> string" where
  "amount_line f = ''FEE_AMOUNT='' @
     quoted (if FeeTerms.amount f = 0 then [] else to_string (unat (FeeTerms.amount f)))"

definition address_line :: "FeeTerms \<Rightarrow> string" where
  "address_line f = ''FEE_ADDRESS='' @ quoted (FeeTerms.address f)"

definition fee_line :: "FeeTerms \<Rightarrow> string \<Rightarrow> string" where
  "fee_line f line =
     (if starts_with ''FEE_ASSET='' line then asset_line f
      else if starts_with ''FEE_AMOUNT='' line then amount_line f
      else if starts_with ''FEE_ADDRESS='' line then address_line f
      else line)"

text \<open>
  The outcome of the calls: whether the file opens for reading and for writing, and how many bytes of the
  new text reach it (\<open>None\<close> is all of them). The stream is not asked whether the writes succeeded.
\<close>

record config_calls =
  config_open_ok :: bool
  rewrite_open_ok :: bool
  rewritten :: "nat option"

definition config_file_error :: "string \<Rightarrow> string \<Rightarrow> exn" where
  "config_file_error path problem =
     Runtime_error (''fee config file '' @ [CHR 0x27] @ path @ [CHR 0x27] @ problem)"

definition persist_fee_to_file :: "config_calls \<Rightarrow> string \<Rightarrow> FeeTerms \<Rightarrow> (files, unit) action" where
  "persist_fee_to_file calls path f =
     sbind (slift (throw_if (CHR 0x22 \<in> set (FeeTerms.asset f) \<or> CHR 0x22 \<in> set (FeeTerms.address f))
       (Runtime_error (''fee asset/address must not contain '' @ [CHR 0x27, CHR 0x22, CHR 0x27] @
          '' to be persisted'')))) (\<lambda>_.
     sbind (sget (\<lambda>fs. if config_open_ok calls then fs path else None)) (\<lambda>input_file.
     case input_file of
       None \<Rightarrow> sthrow (Runtime_error (''cannot open fee config file '' @ [CHR 0x27] @ path @ [CHR 0x27] @ '' for reading''))
     | Some bs \<Rightarrow>
     let lines = getlines (map char_of_byte bs) in
     sbind (slift (throw_if (\<not> (list_ex (starts_with ''FEE_ASSET='') lines \<and>
         list_ex (starts_with ''FEE_AMOUNT='') lines \<and> list_ex (starts_with ''FEE_ADDRESS='') lines))
       (config_file_error path '' is missing FEE_ASSET/FEE_AMOUNT/FEE_ADDRESS lines''))) (\<lambda>_.
     sbind (slift (throw_if (\<not> rewrite_open_ok calls)
       (Runtime_error (''cannot open fee config file '' @ [CHR 0x27] @ path @ [CHR 0x27] @ '' for writing'')))) (\<lambda>_.
     let out = map byte_of_char (put_lines (map (fee_line f) lines)) in
     smodify (\<lambda>fs. fs(path \<mapsto> (case rewritten calls of None \<Rightarrow> out | Some n \<Rightarrow> take n out)))))))"

section \<open>Key files\<close>

text \<open>
  The generator and the derivation of a key pair from its seed are functions of the OpenSSL layer; the
  seed of a generated pair is read off with \<open>seed_of\<close>.
\<close>

record key_file_calls =
  key_open_ok :: bool
  key_read_ok :: bool
  key_create_ok :: bool
  key_write_ok :: bool

definition load_or_create_mediator_key ::
  "nat \<Rightarrow> string \<Rightarrow> 'k result \<Rightarrow> (bytes \<Rightarrow> 'k result) \<Rightarrow> ('k \<Rightarrow> bytes) \<Rightarrow> key_file_calls \<Rightarrow> string \<Rightarrow> (files, 'k) action" where
  "load_or_create_mediator_key seed_length label generate load_from_seed seed_of calls path =
     (if path = [] then slift generate else
     sbind (sget (\<lambda>fs. if key_open_ok calls then fs path else None)) (\<lambda>existing.
     case existing of
       Some bs \<Rightarrow>
         let raw = take seed_length bs in
         if \<not> key_read_ok calls \<or> length raw \<noteq> seed_length then
           sthrow (Runtime_error (label @ '' key file '' @ [CHR 0x27] @ path @ [CHR 0x27] @ '' is not exactly '' @
             to_string seed_length @ '' bytes''))
         else slift (load_from_seed raw)
     | None \<Rightarrow>
         sbind (slift generate) (\<lambda>fresh.
         sbind (sget (\<lambda>fs. fs path)) (\<lambda>present.
         if present \<noteq> None \<or> \<not> key_create_ok calls then
           sthrow (Runtime_error (''failed to create '' @ label @ '' key file '' @ [CHR 0x27] @ path @ [CHR 0x27]))
         else if \<not> key_write_ok calls then
           sbind (smodify (unlink path)) (\<lambda>_.
           sthrow (Runtime_error (''failed to write '' @ label @ '' key file '' @ [CHR 0x27] @ path @ [CHR 0x27])))
         else
           sbind (smodify (\<lambda>fs. fs(path \<mapsto> seed_of fresh))) (\<lambda>_.
           sreturn fresh)))))"

section \<open>What a later start reads\<close>

text \<open>
  The configuration file is a list of shell assignments. Inside double quotes the shell takes a text
  literally unless it has one of four characters; of several assignments the last one counts. \<open>exported\<close>
  is the part of \<open>setup_mediator.sh\<close> that turns the assignments into environment variables.
\<close>

definition shell_literal :: "string \<Rightarrow> bool" where
  "shell_literal v \<longleftrightarrow> CHR ''$'' \<notin> set v \<and> CHR 0x60 \<notin> set v \<and> CHR 0x5C \<notin> set v \<and> CHR 0x22 \<notin> set v"

definition unquote :: "string \<Rightarrow> string option" where
  "unquote v = (if v \<noteq> [] \<and> v = quoted (butlast (tl v)) \<and> shell_literal (butlast (tl v))
     then Some (butlast (tl v)) else None)"

definition sourced :: "string \<Rightarrow> string list \<Rightarrow> string option" where
  "sourced name lines =
     (case rev (filter (starts_with (name @ ''='')) lines) of
        [] \<Rightarrow> None
      | line # _ \<Rightarrow> unquote (drop (length name + 1) line))"

definition exported :: "string list \<Rightarrow> environment" where
  "exported lines =
     [''TRADEP2P_FEE_ASSET'' \<mapsto> the (sourced ''FEE_ASSET'' lines),
      ''TRADEP2P_FEE_AMOUNT'' \<mapsto> the (sourced ''FEE_AMOUNT'' lines),
      ''TRADEP2P_FEE_ADDRESS'' \<mapsto> the (sourced ''FEE_ADDRESS'' lines)]"

definition has_fee_lines :: "string list \<Rightarrow> bool" where
  "has_fee_lines lines \<longleftrightarrow> list_ex (starts_with ''FEE_ASSET='') lines \<and>
     list_ex (starts_with ''FEE_AMOUNT='') lines \<and> list_ex (starts_with ''FEE_ADDRESS='') lines"

definition is_fee_line :: "string \<Rightarrow> bool" where
  "is_fee_line line \<longleftrightarrow> starts_with ''FEE_ASSET='' line \<or> starts_with ''FEE_AMOUNT='' line \<or>
     starts_with ''FEE_ADDRESS='' line"

definition file_lines :: "bytes \<Rightarrow> string list" where
  "file_lines bs = getlines (map char_of_byte bs)"

section \<open>Lines\<close>

lemma getlines_simps [simp]:
  "getlines [] = []"
  "CHR 0x0A \<notin> set line \<Longrightarrow> getlines (line @ CHR 0x0A # rest) = line # getlines rest"
  by (simp_all add: getlines.simps)

lemma getlines_put_lines: "\<forall>l\<in>set lines. CHR 0x0A \<notin> set l \<Longrightarrow> getlines (put_lines lines) = lines"
  by (induction lines) (simp_all add: put_lines_def)

lemma getlines_no_newline: "l \<in> set (getlines body) \<Longrightarrow> CHR 0x0A \<notin> set l"
proof (induction body rule: getlines.induct)
  case (1 body)
  have "CHR 0x0A \<notin> set (fst (cut_at (CHR 0x0A) body))"
    by (auto simp: cut_at_def dest: set_takeWhileD)
  moreover have "l \<in> set (if body = [] then [] else case cut_at (CHR 0x0A) body of (line, None) \<Rightarrow> [line]
      | (line, Some rest) \<Rightarrow> line # getlines rest)"
    using 1(2) by (simp add: getlines.simps [of body])
  ultimately show ?case
    using 1(1) by (cases "cut_at (CHR 0x0A) body") (fastforce split: if_splits option.splits)
qed

lemma starts_with_append [simp]: "starts_with p (p @ r)"
  by (simp add: starts_with_def)

lemma starts_withE: "starts_with p l \<Longrightarrow> (\<And>r. l = p @ r \<Longrightarrow> thesis) \<Longrightarrow> thesis"
  unfolding starts_with_def by (metis append_take_drop_id)

lemmas fee_line_defs = asset_line_def amount_line_def address_line_def

lemma fee_lines_differ:
  "starts_with ''FEE_ASSET='' l \<Longrightarrow> \<not> starts_with ''FEE_AMOUNT='' l"
  "starts_with ''FEE_ASSET='' l \<Longrightarrow> \<not> starts_with ''FEE_ADDRESS='' l"
  "starts_with ''FEE_AMOUNT='' l \<Longrightarrow> \<not> starts_with ''FEE_ADDRESS='' l"
  by (auto elim!: starts_withE)

lemma fee_line_of:
  "starts_with ''FEE_ASSET='' l \<Longrightarrow> fee_line f l = asset_line f"
  "starts_with ''FEE_AMOUNT='' l \<Longrightarrow> fee_line f l = amount_line f"
  "starts_with ''FEE_ADDRESS='' l \<Longrightarrow> fee_line f l = address_line f"
  "\<not> is_fee_line l \<Longrightarrow> fee_line f l = l"
  using fee_lines_differ by (auto simp: fee_line_def is_fee_line_def)

lemma new_fee_lines [simp]:
  "starts_with ''FEE_ASSET='' (asset_line f)" "starts_with ''FEE_AMOUNT='' (amount_line f)"
  "starts_with ''FEE_ADDRESS='' (address_line f)"
  unfolding fee_line_defs by (rule starts_with_append)+

lemma new_fee_lines_differ [simp]:
  "\<not> starts_with ''FEE_AMOUNT='' (asset_line f)" "\<not> starts_with ''FEE_ADDRESS='' (asset_line f)"
  "\<not> starts_with ''FEE_ASSET='' (amount_line f)" "\<not> starts_with ''FEE_ADDRESS='' (amount_line f)"
  "\<not> starts_with ''FEE_ASSET='' (address_line f)" "\<not> starts_with ''FEE_AMOUNT='' (address_line f)"
  using fee_lines_differ new_fee_lines by blast+

lemma fee_line_kind [simp]:
  "starts_with ''FEE_ASSET='' (fee_line f l) = starts_with ''FEE_ASSET='' l"
  "starts_with ''FEE_AMOUNT='' (fee_line f l) = starts_with ''FEE_AMOUNT='' l"
  "starts_with ''FEE_ADDRESS='' (fee_line f l) = starts_with ''FEE_ADDRESS='' l"
  by (auto simp: fee_line_def dest: fee_lines_differ)

lemma sourced_after:
  assumes "list_ex (starts_with (name @ ''='')) lines"
    and "\<And>l. starts_with (name @ ''='') (fee_line f l) = starts_with (name @ ''='') l"
    and "\<And>l. starts_with (name @ ''='') l \<Longrightarrow> fee_line f l = name @ ''='' @ quoted v"
    and "shell_literal v"
  shows "sourced name (map (fee_line f) lines) = Some v"
proof -
  let ?kept = "filter (starts_with (name @ ''='')) lines"
  have "filter (starts_with (name @ ''='')) (map (fee_line f) lines) = map (fee_line f) ?kept"
    using assms(2) by (simp add: filter_map comp_def)
  moreover have "map (fee_line f) ?kept = map (\<lambda>_. name @ ''='' @ quoted v) ?kept"
    using assms(3) by simp
  moreover have "?kept \<noteq> []"
    using assms(1) by (auto simp: list_ex_iff filter_empty_conv)
  ultimately have "rev (filter (starts_with (name @ ''='')) (map (fee_line f) lines)) =
      (name @ ''='' @ quoted v) # map (\<lambda>_. name @ ''='' @ quoted v) (tl (rev ?kept))"
    by (simp only: rev_map) (cases "rev ?kept", auto)
  then show ?thesis
    using assms(4) by (simp add: sourced_def unquote_def quoted_def)
qed

lemma valid_fee_literal: "valid_fee f \<Longrightarrow> shell_literal (FeeTerms.asset f)"
  by (auto simp: valid_fee_iff valid_simps shell_literal_def asset_char_def isalnum_def split: if_splits)

lemma digits_literal: "shell_literal []" "shell_literal (to_string n)" "CHR 0x0A \<notin> set (to_string n)"
  using to_string_digits [of n] by (auto simp: shell_literal_def list_all_iff is_digit_def)

lemma positive_decimal_to_string: "0 < n \<Longrightarrow> n < 2 ^ w \<Longrightarrow> positive_decimal w (to_string n) = Some n"
  by (simp add: positive_decimal_def from_chars_to_string)

text \<open>A fee in the file is the fee of the next start.\<close>

lemma saved_fee_is_configured:
  assumes "valid_fee f" and "shell_literal (FeeTerms.address f)" and "has_fee_lines lines"
  shows "configured_fee (exported (map (fee_line f) lines)) = Inr f"
proof -
  let ?amount = "if FeeTerms.amount f = 0 then [] else to_string (unat (FeeTerms.amount f))"
  have "sourced ''FEE_ASSET'' (map (fee_line f) lines) = Some (FeeTerms.asset f)"
    using assms by (intro sourced_after) (simp_all add: has_fee_lines_def fee_line_of asset_line_def valid_fee_literal)
  moreover have "sourced ''FEE_AMOUNT'' (map (fee_line f) lines) = Some ?amount"
    using assms by (intro sourced_after)
      (simp_all add: has_fee_lines_def fee_line_of amount_line_def digits_literal)
  moreover have "sourced ''FEE_ADDRESS'' (map (fee_line f) lines) = Some (FeeTerms.address f)"
    using assms by (intro sourced_after) (simp_all add: has_fee_lines_def fee_line_of address_line_def)
  moreover have "unat (FeeTerms.amount f) < 2 ^ 64"
    using unsigned_less [of "FeeTerms.amount f", where ?'a = nat] by simp
  moreover have "validate_fee_terms f = Inr ()"
    using assms(1) by (simp add: valid_fee_def)
  ultimately show ?thesis
    using assms(1) to_string_digits [of "unat (FeeTerms.amount f)"]
    by (cases f) (auto simp: configured_fee_def env_or_empty_def exported_def valid_fee_iff valid_simps Let_def
        positive_decimal_to_string unat_gt_0 default_fee_def split: if_splits)
qed

section \<open>Changing the file\<close>

lemma fee_lines_no_newline:
  assumes "valid_fee f" and "CHR 0x0A \<notin> set l"
  shows "CHR 0x0A \<notin> set (fee_line f l)"
  using assms digits_literal(3) [of "unat (FeeTerms.amount f)"]
  by (auto simp: fee_line_def fee_line_defs quoted_def valid_fee_iff valid_simps asset_char_def isalnum_def printable_char_def split: if_splits)

lemma persist_fee_outcome:
  assumes "persist_fee_to_file calls path f fs = (r, fs')"
  shows "case r of Inl e \<Rightarrow> fs' = fs
    | Inr _ \<Rightarrow> (\<exists>bs. fs path = Some bs \<and> has_fee_lines (file_lines bs) \<and> CHR 0x22 \<notin> set (FeeTerms.address f) \<and>
        (let out = map byte_of_char (put_lines (map (fee_line f) (file_lines bs)))
         in fs' = fs(path \<mapsto> (case rewritten calls of None \<Rightarrow> out | Some n \<Rightarrow> take n out))))"
  using assms
  by (auto simp: persist_fee_to_file_def has_fee_lines_def file_lines_def Let_def sbind_def action_defs throw_if_def
      split: option.splits if_splits)

lemma saved_lines:
  assumes "valid_fee f"
  shows "file_lines (map byte_of_char (put_lines (map (fee_line f) (file_lines bs)))) = map (fee_line f) (file_lines bs)"
proof -
  have "\<forall>l\<in>set (map (fee_line f) (file_lines bs)). CHR 0x0A \<notin> set l"
    using fee_lines_no_newline [OF assms] getlines_no_newline by (auto simp: file_lines_def)
  then show ?thesis
    using getlines_put_lines [of "map (fee_line f) (file_lines bs)"] by (simp only: file_lines_def map_char_of_byte)
qed

end
