(* ===== verification/Lobby_Data.thy ===== *)
theory Lobby_Data
  imports Mediator_Config Receipt "HOL-Library.AList" "HOL-Library.List_Lexorder" "HOL-Library.Char_ord"
begin

text \<open>
  The state of the lobby server, \<open>LobbyServer::Impl\<close> of \<open>src/src/lobby.cpp\<close>, and the operations its
  message handlers share. The hash maps are association lists, whose order stands for the
  unspecified iteration order; their keys are the hexadecimal ids, as in the code. Handlers are
  actions on the record \<open>lobby\<close>: what they changed before a throw stays changed. A client object
  is reached through its id; a frame queued for a client that is gone is dropped, as it is when
  the last pointer to the object dies.

  Inputs from outside the program are in \<open>env\<close>: the clock, the draws of the random generator, the
  outcome of the system calls of a file write, and the crypto library. The configuration read at
  start-up is \<open>config\<close>.
\<close>

section \<open>Constants and small helpers\<close>

abbreviation (input) kMaxClients :: nat where "kMaxClients \<equiv> 128"
abbreviation (input) kMaxRooms :: nat where "kMaxRooms \<equiv> 256"
abbreviation (input) kMaxOpenOffers :: nat where "kMaxOpenOffers \<equiv> 256"
abbreviation (input) kMaxOffersPerClient :: nat where "kMaxOffersPerClient \<equiv> 16"
abbreviation (input) kMaxPendingInvites :: nat where "kMaxPendingInvites \<equiv> 256"
abbreviation (input) kMaxInvitesPerClient :: nat where "kMaxInvitesPerClient \<equiv> 16"
abbreviation (input) kMaxQueuedFrames :: nat where "kMaxQueuedFrames \<equiv> 128"
abbreviation (input) kMaxTrackedPairs :: nat where "kMaxTrackedPairs \<equiv> 500"

definition safe_reason :: "string \<Rightarrow> string" where
  "safe_reason text =
     (let text = (if text = [] then ''request rejected'' else text);
          text = (if length text > kMaxReasonLength then take kMaxReasonLength text else text)
      in map (\<lambda>c. let value = (of_char c :: nat) in
                   if value < 0x20 \<or> value > 0x7e then CHR ''?'' else c) text)"

fun session_state_name :: "SessionState \<Rightarrow> string" where
  "session_state_name WaitingForPeer = ''waiting_for_peer''"
| "session_state_name WaitingForSent = ''waiting_for_sent''"
| "session_state_name WaitingForReceived = ''waiting_for_received''"
| "session_state_name WaitingForFeeSent = ''waiting_for_fee_sent''"
| "session_state_name WaitingForFinalReceiptAck = ''waiting_for_final_receipt_ack''"
| "session_state_name WaitingForFeeConfirmation = ''waiting_for_fee_confirmation''"
| "session_state_name SessionComplete = ''complete''"
| "session_state_name Aborted = ''aborted''"
| "session_state_name (SessionStateRaw b) = ''unknown''"

definition canonical_pair :: "string \<Rightarrow> string \<Rightarrow> string \<times> string" where
  "canonical_pair a b = (if a \<le> b then (a, b) else (b, a))"

section \<open>State\<close>

record QueuedFrame =
  frame_type :: MessageType
  payload :: bytes

record Client =
  cid :: ClientId
  outgoing :: "QueuedFrame list"
  alive :: bool
  bad_messages :: nat

record OpenOffer =
  oid :: RoomId
  creator :: ClientId
  terms :: TradeTerms
  receive_address_a :: string

record PendingInvite =
  iid :: InviteId
  inviter :: ClientId
  invitee :: ClientId
  terms :: TradeTerms
  receive_address_a :: string

record RoomEntry =
  rid :: RoomId
  party_a :: ClientId
  party_b :: ClientId
  session :: MediatorSession
  active :: bool
  ephemeral_key_a :: "bytes option"
  ephemeral_key_b :: "bytes option"
  ephemeral_key_a_mldsa65 :: "bytes option"
  ephemeral_key_b_mldsa65 :: "bytes option"
  final_ack_receipt :: "IssuedReceipt option"
  fee_confirmation_pending_since :: "u64 option"

record lobby =
  clients :: "(string \<times> Client) list"
  offers :: "(string \<times> OpenOffer) list"
  invites :: "(string \<times> PendingInvite) list"
  rooms :: "(string \<times> RoomEntry) list"
  price_history :: "(string \<times> TradeTick list) list"
  persisted_rooms :: "(string \<times> PersistedRoom) list"
  fee :: FeeTerms
  disk :: files
  rooms_restored_at_startup :: nat

record config =
  room_persistence_path :: string
  mediator_id :: string
  receipt_seed :: bytes
  receipt_public_key :: bytes
  receipt_seed_mldsa65 :: bytes
  receipt_public_key_mldsa65 :: bytes
  require_fee_confirmation :: bool
  fee_position :: FeePosition
  bind_host :: string
  bind_port :: u16
  state_file :: string
  admin_token :: string
  admin_fee_token :: string
  admin_port :: u16
  fee_persist_file :: string
  mediator_auth_port :: "u16 option"
  auth_seed :: bytes
  auth_public_key :: bytes
  fee_plugin_path :: string

record env =
  now :: u64
  random_ids :: "bytes list"
  random_nonce :: "bytes option"
  sys :: syscalls
  cr :: crypto

definition empty_lobby :: "FeeTerms \<Rightarrow> files \<Rightarrow> lobby" where
  "empty_lobby f d = \<lparr>clients = [], offers = [], invites = [], rooms = [], price_history = [],
     persisted_rooms = [], fee = f, disk = d, rooms_restored_at_startup = 0\<rparr>"

text \<open>The key of an id: what \<open>id_to_hex\<close> returns when it does not throw.\<close>

definition hex :: "bytes \<Rightarrow> string" where
  "hex i = concat (map hex_byte i)"

lemma hex_inj [simp]: "hex i = hex j \<longleftrightarrow> i = j"
  by (simp add: hex_def)

lemma to_hex_ok [exn_simps]:
  "room_id_to_hex i = Inr k \<longleftrightarrow> nonzero i \<and> k = hex i"
  "client_id_to_hex i = Inr k \<longleftrightarrow> nonzero i \<and> k = hex i"
  "invite_id_to_hex i = Inr k \<longleftrightarrow> nonzero i \<and> k = hex i"
  by (auto simp: room_id_to_hex_def client_id_to_hex_def invite_id_to_hex_def id_to_hex_ok hex_def)

section \<open>Clients\<close>

definition client_enqueue :: "MessageType \<Rightarrow> bytes \<Rightarrow> Client \<Rightarrow> Client \<times> bool" where
  "client_enqueue t bs c =
     (if \<not> alive c then (c, False)
      else if length (outgoing c) \<ge> kMaxQueuedFrames then (c\<lparr>alive := False\<rparr>, False)
      else (c\<lparr>outgoing := outgoing c @ [\<lparr>frame_type = t, payload = bs\<rparr>]\<rparr>, True))"

definition take_outgoing :: "Client \<Rightarrow> QueuedFrame list \<times> Client" where
  "take_outgoing c = (outgoing c, c\<lparr>outgoing := []\<rparr>)"

definition modify_client :: "ClientId \<Rightarrow> (Client \<Rightarrow> Client) \<Rightarrow> lobby \<Rightarrow> lobby" where
  "modify_client i f s =
     s\<lparr>clients := map (\<lambda>(k, c). (k, if k = hex i then f c else c)) (clients s)\<rparr>"

definition enqueue :: "ClientId \<Rightarrow> MessageType \<Rightarrow> bytes \<Rightarrow> (lobby, unit) action" where
  "enqueue i t bs = smodify (modify_client i (\<lambda>c. fst (client_enqueue t bs c)))"

definition connected :: "ClientId \<Rightarrow> lobby \<Rightarrow> bool" where
  "connected i s \<longleftrightarrow> map_of (clients s) (hex i) \<noteq> None"

definition send_error :: "ClientId \<Rightarrow> string \<Rightarrow> lobby \<Rightarrow> lobby" where
  "send_error i why s =
     (case encode_error \<lparr>ErrorMessage.reason = safe_reason why\<rparr> of
        Inr bs \<Rightarrow> snd (enqueue i Error bs s)
      | Inl _ \<Rightarrow> modify_client i (\<lambda>c. c\<lparr>alive := False\<rparr>) s)"

text \<open>\<open>do { id = random_id(); validate(id); key = to_hex(id); } while (taken(key))\<close> over the
  successive draws; running out of draws is the failure of the generator.\<close>

fun fresh_id :: "string \<Rightarrow> (string \<Rightarrow> bool) \<Rightarrow> bytes list \<Rightarrow> (bytes \<times> string) result" where
  "fresh_id label taken [] = Inl (Runtime_error ''RAND_bytes failed'')"
| "fresh_id label taken (i # rest) =
     rbind (validate_nonzero_id i label) (\<lambda>_.
     rbind (id_to_hex i label) (\<lambda>key.
     if taken key then fresh_id label taken rest else Inr (i, key)))"

section \<open>Rooms\<close>

definition party_for :: "RoomEntry \<Rightarrow> ClientId \<Rightarrow> Party result" where
  "party_for room i =
     (if party_a room = i then Inr PartyA
      else if party_b room = i then Inr PartyB
      else Inl (Invalid_argument ''client is not a member of this room''))"

definition room_entry :: "RoomId \<Rightarrow> ClientId \<Rightarrow> ClientId \<Rightarrow> MediatorSession \<Rightarrow> bool \<Rightarrow> RoomEntry" where
  "room_entry i a b ses act = \<lparr>rid = i, party_a = a, party_b = b, session = ses, active = act,
     ephemeral_key_a = None, ephemeral_key_b = None, ephemeral_key_a_mldsa65 = None,
     ephemeral_key_b_mldsa65 = None, final_ack_receipt = None,
     fee_confirmation_pending_since = None\<rparr>"

definition room_from_offer ::
  "OpenOffer \<Rightarrow> ClientId \<Rightarrow> string \<Rightarrow> FeeTerms \<Rightarrow> bool \<Rightarrow> FeePosition \<Rightarrow> RoomEntry result" where
  "room_from_offer offer joining addr_b f confirm pos =
     rbind (new_session \<lparr>CreateRoomMessage.terms = OpenOffer.terms offer,
              receive_address_a = OpenOffer.receive_address_a offer\<rparr> (oid offer) f confirm pos) (\<lambda>ses.
     rbind (join \<lparr>JoinRoomMessage.room_id = oid offer, receive_address_b = addr_b\<rparr> ses) (\<lambda>ses.
     Inr (room_entry (oid offer) (OpenOffer.creator offer) joining ses True)))"

definition room_from_invite ::
  "PendingInvite \<Rightarrow> RoomId \<Rightarrow> string \<Rightarrow> FeeTerms \<Rightarrow> bool \<Rightarrow> FeePosition \<Rightarrow> RoomEntry result" where
  "room_from_invite invite i addr_b f confirm pos =
     rbind (new_session \<lparr>CreateRoomMessage.terms = PendingInvite.terms invite,
              receive_address_a = PendingInvite.receive_address_a invite\<rparr> i f confirm pos) (\<lambda>ses.
     rbind (join \<lparr>JoinRoomMessage.room_id = i, receive_address_b = addr_b\<rparr> ses) (\<lambda>ses.
     Inr (room_entry i (inviter invite) (invitee invite) ses True)))"

definition room_from_persisted :: "PersistedRoom \<Rightarrow> bool \<Rightarrow> FeePosition \<Rightarrow> RoomEntry result" where
  "room_from_persisted p confirm pos =
     rbind (restore (PersistedRoom.room_id p) (PersistedRoom.terms p) [] [] (PersistedRoom.fee p)
              (PersistedRoom.state p) (PersistedRoom.round_index p) (PersistedRoom.leg_index p)
              (PersistedRoom.abort_reason p) confirm pos) (\<lambda>ses.
     Inr (room_entry (PersistedRoom.room_id p) (PersistedRoom.party_a p) (PersistedRoom.party_b p) ses
       (PersistedRoom.state p \<noteq> SessionComplete \<and> PersistedRoom.state p \<noteq> Aborted)))"

text \<open>Assigning the members of the room object stored under \<open>key\<close>.\<close>

definition set_room :: "string \<Rightarrow> RoomEntry \<Rightarrow> (lobby, unit) action" where
  "set_room key room =
     smodify (\<lambda>s. s\<lparr>rooms := map (\<lambda>(k, r). (k, if k = key then room else r)) (rooms s)\<rparr>)"

definition find_room_for :: "ClientId \<Rightarrow> RoomId \<Rightarrow> (lobby, string \<times> RoomEntry) action" where
  "find_room_for i r =
     sbind (slift (room_id_to_hex r)) (\<lambda>key.
     sbind (sget (\<lambda>s. map_of (rooms s) key)) (\<lambda>found_room.
     case found_room of
       None \<Rightarrow> sthrow (Invalid_argument ''room does not exist'')
     | Some room \<Rightarrow> sbind (slift (party_for room i)) (\<lambda>_. sreturn (key, room))))"

definition client_for_party :: "RoomEntry \<Rightarrow> Party \<Rightarrow> (lobby, ClientId option) action" where
  "client_for_party room p =
     (let i = (if p = PartyA then party_a room else party_b room) in
     sbind (slift (client_id_to_hex i)) (\<lambda>_.
     sget (\<lambda>s. if connected i s then Some i else None)))"

definition enqueue_if :: "ClientId option \<Rightarrow> MessageType \<Rightarrow> bytes \<Rightarrow> (lobby, unit) action" where
  "enqueue_if c t bs = (case c of None \<Rightarrow> sreturn () | Some i \<Rightarrow> enqueue i t bs)"

definition send_to_room :: "RoomEntry \<Rightarrow> MessageType \<Rightarrow> bytes \<Rightarrow> (lobby, unit) action" where
  "send_to_room room t bs =
     sbind (client_for_party room PartyA) (\<lambda>a.
     sbind (client_for_party room PartyB) (\<lambda>b.
     sbind (enqueue_if a t bs) (\<lambda>_.
     enqueue_if b t bs)))"

definition send_turn_to_room :: "RoomEntry \<Rightarrow> TurnMessage \<Rightarrow> (lobby, unit) action" where
  "send_turn_to_room room turn =
     sbind (slift (encode_turn turn)) (\<lambda>bs. send_to_room room Turn bs)"

definition erase_room :: "RoomId \<Rightarrow> (lobby, unit) action" where
  "erase_room i =
     sbind (slift (room_id_to_hex i)) (\<lambda>key.
     smodify (\<lambda>s. s\<lparr>rooms := AList.delete key (rooms s)\<rparr>))"

section \<open>Persistence\<close>

definition persisted_room_snapshot :: "u64 \<Rightarrow> RoomEntry \<Rightarrow> PersistedRoom" where
  "persisted_room_snapshot ts room =
     \<lparr>PersistedRoom.room_id = rid room, party_a = party_a room, party_b = party_b room,
      terms = session_terms (session room), fee = MediatorSession.fee (session room),
      state = MediatorSession.state (session room),
      round_index = MediatorSession.round_index (session room),
      leg_index = MediatorSession.leg_index (session room),
      abort_reason = MediatorSession.abort_reason (session room), updated_at = ts\<rparr>"

definition on_disk :: "(files, 'a) action \<Rightarrow> (lobby, 'a) action" where
  "on_disk m s = (let (r, fs) = m (disk s) in (r, s\<lparr>disk := fs\<rparr>))"

definition write_persisted_rooms_locked :: "config \<Rightarrow> env \<Rightarrow> (lobby, unit) action" where
  "write_persisted_rooms_locked cfg e =
     sbind (sget (\<lambda>s. \<lparr>format_version = kPersistedRoomFormatVersion,
                       rooms = map snd (persisted_rooms s)\<rparr>)) (\<lambda>file.
     on_disk (write_persisted_rooms (sys e) (room_persistence_path cfg) file))"

definition persist_room_upsert :: "config \<Rightarrow> env \<Rightarrow> RoomEntry \<Rightarrow> (lobby, unit) action" where
  "persist_room_upsert cfg e room =
     (if room_persistence_path cfg = [] then sreturn () else
     sbind (slift (room_id_to_hex (rid room))) (\<lambda>key.
     sbind (smodify (\<lambda>s. s\<lparr>persisted_rooms :=
              AList.update key (persisted_room_snapshot (now e) room) (persisted_rooms s)\<rparr>)) (\<lambda>_.
     write_persisted_rooms_locked cfg e)))"

definition persist_room_remove :: "config \<Rightarrow> env \<Rightarrow> RoomId \<Rightarrow> (lobby, unit) action" where
  "persist_room_remove cfg e i =
     (if room_persistence_path cfg = [] then sreturn () else
     sbind (slift (room_id_to_hex i)) (\<lambda>key.
     sbind (smodify (\<lambda>s. s\<lparr>persisted_rooms := AList.delete key (persisted_rooms s)\<rparr>)) (\<lambda>_.
     write_persisted_rooms_locked cfg e)))"

text \<open>The loop of \<open>load_persisted_rooms_at_startup\<close> over the records of the file.\<close>

fun restore_rooms :: "config \<Rightarrow> PersistedRoom list \<Rightarrow> nat \<Rightarrow> (lobby, nat) action" where
  "restore_rooms cfg [] restored = sreturn restored"
| "restore_rooms cfg (p # ps) restored =
     sbind (slift (room_id_to_hex (PersistedRoom.room_id p))) (\<lambda>key.
     sbind (sget (\<lambda>s. map_of (rooms s) key \<noteq> None)) (\<lambda>present.
     if present then restore_rooms cfg ps restored
     else sbind (slift (room_from_persisted p (require_fee_confirmation cfg) (fee_position cfg))) (\<lambda>room.
          sbind (smodify (\<lambda>s. s\<lparr>rooms := (key, room) # rooms s,
                   persisted_rooms := AList.update key p (persisted_rooms s)\<rparr>)) (\<lambda>_.
          restore_rooms cfg ps (restored + 1)))))"

definition load_persisted_rooms_at_startup :: "config \<Rightarrow> (lobby, unit) action" where
  "load_persisted_rooms_at_startup cfg =
     (if room_persistence_path cfg = [] then sreturn () else
     sbind (sget (\<lambda>s. load_persisted_rooms (room_persistence_path cfg) (disk s))) (\<lambda>loaded.
     sbind (slift loaded) (\<lambda>file.
     sbind (smodify (\<lambda>s. s\<lparr>rooms_restored_at_startup := 0\<rparr>)) (\<lambda>_.
     if PersistedRoomFile.rooms file = [] then sreturn ()
     else sbind (restore_rooms cfg (PersistedRoomFile.rooms file) 0) (\<lambda>restored.
          smodify (\<lambda>s. s\<lparr>rooms_restored_at_startup := restored\<rparr>))))))"

section \<open>Receipts\<close>

definition trade_payload_hash :: "crypto \<Rightarrow> bytes \<Rightarrow> bytes" where
  "trade_payload_hash c encoded_payload = sha256 c encoded_payload"

definition receipt_fields_for ::
  "config \<Rightarrow> env \<Rightarrow> RoomEntry \<Rightarrow> ReceiptStage \<Rightarrow> bool \<Rightarrow> bytes \<Rightarrow> bytes \<Rightarrow> bytes \<Rightarrow> ReceiptFields" where
  "receipt_fields_for cfg e room st done commitment n prev =
     \<lparr>ReceiptFields.suite_id = kReceiptSuiteEd25519MlDsa65HybridV1, protocol_version = kProtocolVersion,
      mediator_id = mediator_id cfg, room_id = rid room, terms_commitment = commitment,
      party_a_ephemeral_key = the (ephemeral_key_a room),
      party_b_ephemeral_key = the (ephemeral_key_b room),
      party_a_ephemeral_key_mldsa65 = the (ephemeral_key_a_mldsa65 room),
      party_b_ephemeral_key_mldsa65 = the (ephemeral_key_b_mldsa65 room),
      mediator_public_key = receipt_public_key cfg,
      mediator_public_key_mldsa65 = receipt_public_key_mldsa65 cfg,
      stage = st, completed = done, timestamp = now e, nonce = n, previous_stage_hash = prev\<rparr>"

definition issue_receipt ::
  "config \<Rightarrow> env \<Rightarrow> string \<Rightarrow> RoomEntry \<Rightarrow> ReceiptStage \<Rightarrow> bool \<Rightarrow> (lobby, IssuedReceipt) action" where
  "issue_receipt cfg e key room st done =
     sbind (slift (throw_if (ephemeral_key_a room = None \<or> ephemeral_key_b room = None \<or>
                ephemeral_key_a_mldsa65 room = None \<or> ephemeral_key_b_mldsa65 room = None)
              (Runtime_error
                ''cannot issue a receipt before both parties have announced an ephemeral trade key''))) (\<lambda>_.
     sbind (slift (encode_terms (session_terms (session room)))) (\<lambda>encoded.
     sbind (case random_nonce e of None \<Rightarrow> sthrow (Runtime_error ''RAND_bytes failed'')
            | Some n \<Rightarrow> sreturn n) (\<lambda>n.
     sbind (case (st, final_ack_receipt room) of
              (SettlementCompleted, Some r) \<Rightarrow>
                slift (receipt_chain_link_hash (cr e) (receipt_fields r) (IssuedReceipt.mediator_signature r)
                  (IssuedReceipt.mediator_signature_mldsa65 r))
            | _ \<Rightarrow> sreturn (zero_id 32)) (\<lambda>prev.
     let f = receipt_fields_for cfg e room st done (trade_payload_hash (cr e) encoded) n prev in
     sbind (slift (sign_receipt (cr e) (receipt_seed cfg) f)) (\<lambda>sig.
     sbind (slift (sign_receipt_mldsa65 (cr e) (receipt_seed_mldsa65 cfg) f)) (\<lambda>sig2.
     let issued = \<lparr>receipt_fields = f, mediator_signature = sig, mediator_signature_mldsa65 = sig2\<rparr> in
     sbind (if st = PenultimateObligationsComplete
            then set_room key (room\<lparr>final_ack_receipt := Some issued\<rparr>) else sreturn ()) (\<lambda>_.
     sreturn issued)))))))"

definition to_wire :: "IssuedReceipt \<Rightarrow> ReceiptIssuedMessage" where
  "to_wire r =
     (let f = receipt_fields r in
     \<lparr>ReceiptIssuedMessage.room_id = ReceiptFields.room_id f,
      mediator_id = ReceiptFields.mediator_id f, stage = byte_of_stage (ReceiptFields.stage f),
      completed = ReceiptFields.completed f, terms_commitment = ReceiptFields.terms_commitment f,
      party_a_ephemeral_key = ReceiptFields.party_a_ephemeral_key f,
      party_b_ephemeral_key = ReceiptFields.party_b_ephemeral_key f,
      party_a_ephemeral_key_mldsa65 = ReceiptFields.party_a_ephemeral_key_mldsa65 f,
      party_b_ephemeral_key_mldsa65 = ReceiptFields.party_b_ephemeral_key_mldsa65 f,
      mediator_public_key = ReceiptFields.mediator_public_key f,
      mediator_public_key_mldsa65 = ReceiptFields.mediator_public_key_mldsa65 f,
      timestamp = ReceiptFields.timestamp f, nonce = ReceiptFields.nonce f,
      previous_stage_hash = ReceiptFields.previous_stage_hash f,
      mediator_signature = IssuedReceipt.mediator_signature r,
      mediator_signature_mldsa65 = IssuedReceipt.mediator_signature_mldsa65 r\<rparr>)"

section \<open>Price history\<close>

definition pair_key :: "string \<times> string \<Rightarrow> string" where
  "pair_key p = fst p @ ''/'' @ snd p"

text \<open>The scan for the pair that went longest without a trade.\<close>

definition older_entry :: "string \<times> TradeTick list \<Rightarrow> string \<times> TradeTick list \<Rightarrow> string \<times> TradeTick list" where
  "older_entry oldest candidate =
     (if snd oldest = [] \<or>
         snd candidate \<noteq> [] \<and>
         TradeTick.timestamp (last (snd candidate)) < TradeTick.timestamp (last (snd oldest))
      then candidate else oldest)"

definition evict_oldest :: "(string \<times> TradeTick list) list \<Rightarrow> (string \<times> TradeTick list) list" where
  "evict_oldest h = (case h of [] \<Rightarrow> [] | x # _ \<Rightarrow> AList.delete (fst (foldl older_entry x h)) h)"

definition push_tick :: "TradeTick \<Rightarrow> TradeTick list \<Rightarrow> TradeTick list" where
  "push_tick tick ts =
     (let ts = ts @ [tick] in drop (length ts - kMaxCandleTicksPerPair) ts)"

definition completed_tick :: "u64 \<Rightarrow> TradeTerms \<Rightarrow> TradeTick" where
  "completed_tick ts t =
     (let base = fst (canonical_pair (TradeTerms.asset_a t) (TradeTerms.asset_b t));
          swapped = (TradeTerms.asset_a t \<noteq> base)
      in \<lparr>TradeTick.timestamp = ts,
          base_amount = (if swapped then total_b t else total_a t),
          quote_amount = (if swapped then total_a t else total_b t)\<rparr>)"

definition record_completed_trade :: "env \<Rightarrow> TradeTerms \<Rightarrow> (lobby, unit) action" where
  "record_completed_trade e t =
     (let key = pair_key (canonical_pair (TradeTerms.asset_a t) (TradeTerms.asset_b t));
          tick = completed_tick (now e) t in
     smodify (\<lambda>s.
       case map_of (price_history s) key of
         Some ts \<Rightarrow> s\<lparr>price_history := AList.update key (push_tick tick ts) (price_history s)\<rparr>
       | None \<Rightarrow>
           let h = (if length (price_history s) \<ge> kMaxTrackedPairs then evict_oldest (price_history s)
                    else price_history s)
           in s\<lparr>price_history := (key, push_tick tick []) # h\<rparr>))"

end
