(* ===== verification/Lobby.thy ===== *)
theory Lobby
  imports Lobby_Data
begin

text \<open>
  The message handlers of the lobby server (\<open>src/src/lobby.cpp\<close>), the dispatch of a client's frame,
  the error policy of the client loop, connection and disconnection of a client, and the operator's
  fee confirmation. A handler runs as one action: its critical sections are taken in the order of
  the code and no other client's handler runs in between.
\<close>

section \<open>Offers and market data\<close>

definition handle_create_offer :: "env \<Rightarrow> ClientId \<Rightarrow> CreateOfferMessage \<Rightarrow> (lobby, unit) action" where
  "handle_create_offer e client message =
     sbind (sget (\<lambda>s. length (offers s) \<ge> kMaxOpenOffers)) (\<lambda>full.
     sbind (slift (throw_if full (BenignRejection ''too many open offers''))) (\<lambda>_.
     sbind (sget (\<lambda>s. length (filter (\<lambda>(_, offer). OpenOffer.creator offer = client) (offers s)))) (\<lambda>own_count.
     sbind (slift (throw_if (own_count \<ge> kMaxOffersPerClient)
              (BenignRejection ''too many open offers from this client''))) (\<lambda>_.
     sbind (sget (\<lambda>s. fresh_id ''room id''
              (\<lambda>key. map_of (offers s) key \<noteq> None \<or> map_of (rooms s) key \<noteq> None) (random_ids e))) (\<lambda>drawn.
     sbind (slift drawn) (\<lambda>(i, key).
     let offer = \<lparr>oid = i, creator = client, terms = CreateOfferMessage.terms message,
                  receive_address_a = CreateOfferMessage.receive_address_a message\<rparr> in
     sbind (smodify (\<lambda>s. s\<lparr>offers := (key, offer) # offers s\<rparr>)) (\<lambda>_.
     sbind (slift (encode_offer_created \<lparr>OfferCreatedMessage.room_id = i\<rparr>)) (\<lambda>bs.
     enqueue client OfferCreated bs))))))))"

definition offer_page :: "lobby \<Rightarrow> ListOffersMessage \<Rightarrow> OfferListMessage" where
  "offer_page s request =
     (let candidates = map (\<lambda>(_, offer). \<lparr>OfferSummary.room_id = oid offer, terms = OpenOffer.terms offer\<rparr>) (offers s);
          candidates = sort_key OfferSummary.room_id candidates;
          begin = (if has_cursor request
                   then dropWhile (\<lambda>offer. \<not> after_room_id request < OfferSummary.room_id offer) candidates
                   else candidates);
          page = take (unat (ListOffersMessage.limit request)) begin;
          more = (length begin > length page)
      in \<lparr>OfferListMessage.offers = page, has_more = more,
          next_cursor = (if more then OfferSummary.room_id (last page) else zero_id 32)\<rparr>)"

definition handle_list_offers :: "ClientId \<Rightarrow> ListOffersMessage \<Rightarrow> (lobby, unit) action" where
  "handle_list_offers client request =
     sbind (sget (\<lambda>s. offer_page s request)) (\<lambda>page.
     sbind (slift (encode_offer_list page)) (\<lambda>encoded.
     sbind (slift (throw_if (length encoded > kMaxFramePayload)
              (Logic_error ''encoded offer page exceeds frame limit''))) (\<lambda>_.
     enqueue client OfferList encoded)))"

definition handle_get_candles :: "ClientId \<Rightarrow> GetCandlesMessage \<Rightarrow> (lobby, unit) action" where
  "handle_get_candles client request =
     (let pair = canonical_pair (GetCandlesMessage.asset_a request) (GetCandlesMessage.asset_b request) in
     sbind (sget (\<lambda>s. case map_of (price_history s) (pair_key pair) of None \<Rightarrow> [] | Some ts \<Rightarrow> ts)) (\<lambda>ts.
     sbind (slift (encode_candle_data \<lparr>base_asset = fst pair, quote_asset = snd pair, ticks = ts\<rparr>)) (\<lambda>encoded.
     sbind (slift (throw_if (length encoded > kMaxFramePayload)
              (Logic_error ''encoded candle data exceeds frame limit''))) (\<lambda>_.
     enqueue client CandleData encoded))))"

text \<open>What both ways of opening a room do once it exists: persist it, tell both parties, announce
  the first turn.\<close>

definition announce_room :: "config \<Rightarrow> env \<Rightarrow> RoomEntry \<Rightarrow> (lobby, unit) action" where
  "announce_room cfg e room =
     sbind (persist_room_upsert cfg e room) (\<lambda>_.
     sbind (slift (ready_message PartyA (RoomEntry.party_b room) (session room))) (\<lambda>ready_a.
     sbind (slift (ready_message PartyB (RoomEntry.party_a room) (session room))) (\<lambda>ready_b.
     sbind (slift (encode_trade_ready ready_a)) (\<lambda>bs_a.
     sbind (enqueue (RoomEntry.party_a room) TradeReady bs_a) (\<lambda>_.
     sbind (slift (encode_trade_ready ready_b)) (\<lambda>bs_b.
     sbind (enqueue (RoomEntry.party_b room) TradeReady bs_b) (\<lambda>_.
     sbind (slift (current_turn (session room))) (\<lambda>turn.
     send_turn_to_room room turn))))))))"

definition handle_join_offer :: "config \<Rightarrow> env \<Rightarrow> ClientId \<Rightarrow> JoinOfferMessage \<Rightarrow> (lobby, unit) action" where
  "handle_join_offer cfg e client message =
     sbind (slift (room_id_to_hex (JoinOfferMessage.room_id message))) (\<lambda>key.
     sbind (sget (\<lambda>s. map_of (offers s) key)) (\<lambda>found_offer.
     case found_offer of
       None \<Rightarrow> sthrow (BenignRejection ''offer does not exist or was already taken'')
     | Some offer \<Rightarrow>
     sbind (slift (throw_if (OpenOffer.creator offer = client)
              (BenignRejection ''cannot join your own offer''))) (\<lambda>_.
     sbind (sget (\<lambda>s. length (rooms s) \<ge> kMaxRooms)) (\<lambda>full.
     sbind (slift (throw_if full (BenignRejection ''too many active rooms''))) (\<lambda>_.
     sbind (slift (client_id_to_hex (OpenOffer.creator offer))) (\<lambda>_.
     sbind (sget (connected (OpenOffer.creator offer))) (\<lambda>creator_connected.
     if \<not> creator_connected
     then sbind (smodify (\<lambda>s. s\<lparr>offers := AList.delete key (offers s)\<rparr>)) (\<lambda>_.
          sthrow (BenignRejection ''offer creator disconnected''))
     else
     sbind (sget lobby.fee) (\<lambda>current_fee.
     sbind (slift (room_from_offer offer client (JoinOfferMessage.receive_address_b message) current_fee
              (config.require_fee_confirmation cfg) (config.fee_position cfg))) (\<lambda>room.
     sbind (smodify (\<lambda>s. s\<lparr>rooms := (key, room) # rooms s,
              offers := AList.delete key (offers s)\<rparr>)) (\<lambda>_.
     announce_room cfg e room))))))))))"

definition handle_cancel_offer :: "ClientId \<Rightarrow> CancelOfferMessage \<Rightarrow> (lobby, unit) action" where
  "handle_cancel_offer client message =
     sbind (slift (room_id_to_hex (CancelOfferMessage.room_id message))) (\<lambda>key.
     sbind (sget (\<lambda>s. map_of (offers s) key)) (\<lambda>found_offer.
     case found_offer of
       None \<Rightarrow> sthrow (BenignRejection ''open offer does not exist'')
     | Some offer \<Rightarrow>
     sbind (slift (throw_if (OpenOffer.creator offer \<noteq> client)
              (BenignRejection ''offer belongs to another client''))) (\<lambda>_.
     sbind (smodify (\<lambda>s. s\<lparr>offers := AList.delete key (offers s)\<rparr>)) (\<lambda>_.
     sbind (slift (encode_offer_cancelled
              \<lparr>OfferCancelledMessage.room_id = CancelOfferMessage.room_id message\<rparr>)) (\<lambda>bs.
     enqueue client OfferCancelled bs)))))"

section \<open>Peers and invitations\<close>

definition handle_list_peers :: "ClientId \<Rightarrow> (lobby, unit) action" where
  "handle_list_peers client =
     sbind (sget (\<lambda>s. sort_key hex (filter (\<lambda>i. i \<noteq> client) (map (\<lambda>(_, c). cid c) (clients s))))) (\<lambda>ps.
     sbind (slift (encode_peer_list \<lparr>peers = ps\<rparr>)) (\<lambda>bs.
     enqueue client PeerList bs))"

definition handle_invite :: "env \<Rightarrow> ClientId \<Rightarrow> InviteTradeMessage \<Rightarrow> (lobby, unit) action" where
  "handle_invite e client message =
     sbind (slift (throw_if (InviteTradeMessage.target message = client)
              (BenignRejection ''cannot invite yourself''))) (\<lambda>_.
     sbind (sget (\<lambda>s. length (invites s) \<ge> kMaxPendingInvites)) (\<lambda>full.
     sbind (slift (throw_if full (BenignRejection ''too many pending invitations''))) (\<lambda>_.
     sbind (sget (\<lambda>s. length (filter (\<lambda>(_, invite). inviter invite = client) (invites s)))) (\<lambda>outgoing_count.
     sbind (slift (throw_if (outgoing_count \<ge> kMaxInvitesPerClient)
              (BenignRejection ''too many pending invitations from this client''))) (\<lambda>_.
     sbind (slift (client_id_to_hex (InviteTradeMessage.target message))) (\<lambda>_.
     sbind (sget (connected (InviteTradeMessage.target message))) (\<lambda>target_connected.
     sbind (slift (throw_if (\<not> target_connected) (BenignRejection ''target client is not connected''))) (\<lambda>_.
     sbind (sget (\<lambda>s. fresh_id ''invite id'' (\<lambda>key. map_of (invites s) key \<noteq> None) (random_ids e))) (\<lambda>drawn.
     sbind (slift drawn) (\<lambda>(i, key).
     let invite = \<lparr>iid = i, inviter = client, invitee = InviteTradeMessage.target message,
                   terms = InviteTradeMessage.terms message,
                   receive_address_a = InviteTradeMessage.receive_address_a message\<rparr> in
     sbind (smodify (\<lambda>s. s\<lparr>invites := (key, invite) # invites s\<rparr>)) (\<lambda>_.
     sbind (slift (encode_invite_created \<lparr>InviteCreatedMessage.invite_id = i, target = invitee invite\<rparr>)) (\<lambda>bs.
     sbind (enqueue client InviteCreated bs) (\<lambda>_.
     sbind (slift (encode_invite_received \<lparr>InviteReceivedMessage.invite_id = i, sender = client,
              terms = PendingInvite.terms invite,
              receive_address_a = PendingInvite.receive_address_a invite\<rparr>)) (\<lambda>bs2.
     enqueue (InviteTradeMessage.target message) InviteReceived bs2))))))))))))))"

definition handle_accept :: "config \<Rightarrow> env \<Rightarrow> ClientId \<Rightarrow> AcceptInviteMessage \<Rightarrow> (lobby, unit) action" where
  "handle_accept cfg e client message =
     sbind (slift (invite_id_to_hex (AcceptInviteMessage.invite_id message))) (\<lambda>invite_key.
     sbind (sget (\<lambda>s. map_of (invites s) invite_key)) (\<lambda>found_invite.
     case found_invite of
       None \<Rightarrow> sthrow (Invalid_argument ''invitation does not exist'')
     | Some invite \<Rightarrow>
     sbind (slift (throw_if (invitee invite \<noteq> client)
              (Invalid_argument ''invitation belongs to another client''))) (\<lambda>_.
     sbind (sget (\<lambda>s. length (rooms s) \<ge> kMaxRooms)) (\<lambda>full.
     sbind (slift (throw_if full (BenignRejection ''too many active rooms''))) (\<lambda>_.
     sbind (slift (client_id_to_hex (inviter invite))) (\<lambda>_.
     sbind (slift (client_id_to_hex (invitee invite))) (\<lambda>_.
     sbind (sget (\<lambda>s. connected (inviter invite) s \<and> connected (invitee invite) s)) (\<lambda>both.
     if \<not> both
     then sbind (smodify (\<lambda>s. s\<lparr>invites := AList.delete invite_key (invites s)\<rparr>)) (\<lambda>_.
          sthrow (BenignRejection ''inviting peer disconnected''))
     else
     sbind (sget (\<lambda>s. fresh_id ''room id'' (\<lambda>key. map_of (rooms s) key \<noteq> None) (random_ids e))) (\<lambda>drawn.
     sbind (slift drawn) (\<lambda>(i, room_key).
     sbind (sget lobby.fee) (\<lambda>current_fee.
     sbind (slift (room_from_invite invite i (AcceptInviteMessage.receive_address_b message) current_fee
              (config.require_fee_confirmation cfg) (config.fee_position cfg))) (\<lambda>room.
     sbind (smodify (\<lambda>s. s\<lparr>rooms := (room_key, room) # rooms s,
              invites := AList.delete invite_key (invites s)\<rparr>)) (\<lambda>_.
     announce_room cfg e room)))))))))))))"

definition handle_decline :: "ClientId \<Rightarrow> DeclineInviteMessage \<Rightarrow> (lobby, unit) action" where
  "handle_decline client message =
     sbind (slift (invite_id_to_hex (DeclineInviteMessage.invite_id message))) (\<lambda>key.
     sbind (sget (\<lambda>s. map_of (invites s) key)) (\<lambda>found_invite.
     case found_invite of
       None \<Rightarrow> sthrow (Invalid_argument ''invitation does not exist'')
     | Some invite \<Rightarrow>
     sbind (slift (throw_if (invitee invite \<noteq> client)
              (Invalid_argument ''invitation belongs to another client''))) (\<lambda>_.
     sbind (slift (client_id_to_hex (inviter invite))) (\<lambda>_.
     sbind (sget (connected (inviter invite))) (\<lambda>inviter_connected.
     sbind (smodify (\<lambda>s. s\<lparr>invites := AList.delete key (invites s)\<rparr>)) (\<lambda>_.
     if inviter_connected
     then sbind (slift (encode_invite_declined
                   \<lparr>InviteDeclinedMessage.invite_id = DeclineInviteMessage.invite_id message\<rparr>)) (\<lambda>bs.
          enqueue (inviter invite) InviteDeclined bs)
     else sreturn ()))))))"

section \<open>Settlement\<close>

definition abort_room :: "config \<Rightarrow> env \<Rightarrow> string \<Rightarrow> RoomEntry \<Rightarrow> string \<Rightarrow> (lobby, unit) action" where
  "abort_room cfg e key room why =
     (let why = safe_reason why in
     if \<not> active room then sreturn () else
     sbind (set_room key (room\<lparr>active := False\<rparr>)) (\<lambda>_.
     sbind (if MediatorSession.state (session room) \<noteq> SessionComplete \<and>
               MediatorSession.state (session room) \<noteq> Aborted
            then sbind (slift (abort why (session room))) (\<lambda>ses.
                 set_room key (room\<lparr>active := False, session := ses\<rparr>))
            else sreturn ()) (\<lambda>_.
     sbind (persist_room_remove cfg e (rid room)) (\<lambda>_.
     sbind (erase_room (rid room)) (\<lambda>_.
     sbind (slift (encode_abort \<lparr>AbortMessage.room_id = rid room, reason = why\<rparr>)) (\<lambda>bs.
     send_to_room room Abort bs))))))"

text \<open>The common ending of the three ways a room completes.\<close>

definition finish_room :: "config \<Rightarrow> env \<Rightarrow> RoomEntry \<Rightarrow> IssuedReceipt \<Rightarrow> (lobby, unit) action" where
  "finish_room cfg e room completion_receipt =
     sbind (record_completed_trade e (session_terms (session room))) (\<lambda>_.
     sbind (persist_room_remove cfg e (rid room)) (\<lambda>_.
     sbind (erase_room (rid room)) (\<lambda>_.
     sbind (slift (encode_receipt_issued (to_wire completion_receipt))) (\<lambda>bs.
     sbind (send_to_room room ReceiptIssued bs) (\<lambda>_.
     sbind (slift (encode_complete \<lparr>CompleteMessage.room_id = rid room\<rparr>)) (\<lambda>bs2.
     send_to_room room Complete bs2))))))"

definition handle_sent :: "config \<Rightarrow> env \<Rightarrow> ClientId \<Rightarrow> RoundSignalMessage \<Rightarrow> (lobby, unit) action" where
  "handle_sent cfg e client message =
     sbind (find_room_for client (RoundSignalMessage.room_id message)) (\<lambda>(key, room).
     sbind (slift (throw_if (\<not> active room) (BenignRejection ''room is no longer active''))) (\<lambda>_.
     sbind (slift (party_for room client)) (\<lambda>reporting_party.
     sbind (slift (sender_reported_sent reporting_party message (session room))) (\<lambda>ses.
     let room = room\<lparr>session := ses\<rparr> in
     sbind (set_room key room) (\<lambda>_.
     sbind (slift (other_party reporting_party)) (\<lambda>other.
     sbind (client_for_party room other) (\<lambda>receiver.
     if MediatorSession.state ses = SessionComplete then
       let room = room\<lparr>active := False\<rparr> in
       sbind (set_room key room) (\<lambda>_.
       sbind (issue_receipt cfg e key room SettlementCompleted True) (\<lambda>completion_receipt.
       finish_room cfg e room completion_receipt))
     else if MediatorSession.state ses = WaitingForFeeConfirmation then
       let room = room\<lparr>fee_confirmation_pending_since := Some (now e)\<rparr> in
       sbind (set_room key room) (\<lambda>_.
       sbind (persist_room_upsert cfg e room) (\<lambda>_.
       sbind (slift (encode_fee_confirmation_pending \<lparr>FeeConfirmationPendingMessage.room_id = rid room\<rparr>)) (\<lambda>bs.
       send_to_room room FeeConfirmationPending bs)))
     else if MediatorSession.state ses = WaitingForSent then
       sbind (slift (current_turn ses)) (\<lambda>resumed_turn.
       sbind (persist_room_upsert cfg e room) (\<lambda>_.
       send_turn_to_room room resumed_turn))
     else
       sbind (persist_room_upsert cfg e room) (\<lambda>_.
       case receiver of
         None \<Rightarrow> abort_room cfg e key room ''peer disconnected''
       | Some r \<Rightarrow>
           sbind (slift (encode_round_signal message)) (\<lambda>bs.
           enqueue r Sent bs)))))))))"

definition try_confirm_fee_locked :: "config \<Rightarrow> env \<Rightarrow> RoomId \<Rightarrow> (lobby, bool) action" where
  "try_confirm_fee_locked cfg e i =
     sbind (slift (room_id_to_hex i)) (\<lambda>key.
     sbind (sget (\<lambda>s. map_of (rooms s) key)) (\<lambda>found_room.
     case found_room of
       None \<Rightarrow> sreturn False
     | Some room \<Rightarrow>
     if \<not> active room \<or> MediatorSession.state (session room) \<noteq> WaitingForFeeConfirmation
     then sreturn False else
     sbind (slift (confirm_fee_received (session room))) (\<lambda>ses.
     let room = room\<lparr>session := ses, active := False\<rparr> in
     sbind (set_room key room) (\<lambda>_.
     sbind (issue_receipt cfg e key room SettlementCompleted True) (\<lambda>completion_receipt.
     sbind (finish_room cfg e room completion_receipt) (\<lambda>_.
     sreturn True))))))"

definition pending_fee_details :: "lobby \<Rightarrow> (RoomId \<times> FeeTerms \<times> u64) list" where
  "pending_fee_details s =
     map (\<lambda>(_, room). (rid room, MediatorSession.fee (session room),
            case fee_confirmation_pending_since room of None \<Rightarrow> 0 | Some t \<Rightarrow> t))
       (filter (\<lambda>(_, room). MediatorSession.state (session room) = WaitingForFeeConfirmation) (rooms s))"

definition pending_fee_confirmations :: "lobby \<Rightarrow> RoomId list" where
  "pending_fee_confirmations s = map fst (pending_fee_details s)"

definition handle_received :: "config \<Rightarrow> env \<Rightarrow> ClientId \<Rightarrow> RoundSignalMessage \<Rightarrow> (lobby, unit) action" where
  "handle_received cfg e client message =
     sbind (find_room_for client (RoundSignalMessage.room_id message)) (\<lambda>(key, room).
     sbind (slift (throw_if (\<not> active room) (BenignRejection ''room is no longer active''))) (\<lambda>_.
     sbind (slift (party_for room client)) (\<lambda>reporting_party.
     sbind (slift (receiver_reported_received reporting_party message (session room))) (\<lambda>ses.
     let room = room\<lparr>session := ses\<rparr> in
     sbind (set_room key room) (\<lambda>_.
     sbind (slift (other_party reporting_party)) (\<lambda>other.
     sbind (client_for_party room other) (\<lambda>the_sender.
     if MediatorSession.state ses = SessionComplete then
       let room = room\<lparr>active := False\<rparr> in
       sbind (set_room key room) (\<lambda>_.
       sbind (issue_receipt cfg e key room SettlementCompleted True) (\<lambda>completion_receipt.
       sbind (slift (encode_round_signal message)) (\<lambda>bs.
       sbind (enqueue_if the_sender Received bs) (\<lambda>_.
       finish_room cfg e room completion_receipt))))
     else if MediatorSession.state ses = WaitingForFinalReceiptAck then
       sbind (persist_room_upsert cfg e room) (\<lambda>_.
       sbind (slift (encode_round_signal message)) (\<lambda>bs.
       sbind (enqueue_if the_sender Received bs) (\<lambda>_.
       sbind (slift (encode_receipt_ack_required \<lparr>ReceiptAckRequiredMessage.room_id = rid room\<rparr>)) (\<lambda>bs2.
       send_to_room room ReceiptAckRequired bs2))))
     else
       sbind (slift (current_turn ses)) (\<lambda>next_turn.
       sbind (persist_room_upsert cfg e room) (\<lambda>_.
       sbind (slift (encode_round_signal message)) (\<lambda>bs.
       sbind (enqueue_if the_sender Received bs) (\<lambda>_.
       send_turn_to_room room next_turn)))))))))))"

definition handle_abort :: "config \<Rightarrow> env \<Rightarrow> ClientId \<Rightarrow> AbortMessage \<Rightarrow> (lobby, unit) action" where
  "handle_abort cfg e client message =
     sbind (find_room_for client (AbortMessage.room_id message)) (\<lambda>(key, room).
     abort_room cfg e key room (AbortMessage.reason message))"

section \<open>Identity messages\<close>

definition handle_room_relay :: "ClientId \<Rightarrow> MessageType \<Rightarrow> RoomId \<Rightarrow> bytes \<Rightarrow> (lobby, unit) action" where
  "handle_room_relay client t i bs =
     sbind (find_room_for client i) (\<lambda>(key, room).
     sbind (slift (party_for room client)) (\<lambda>sender_party.
     sbind (slift (other_party sender_party)) (\<lambda>other.
     sbind (client_for_party room other) (\<lambda>receiver.
     case receiver of
       None \<Rightarrow> sthrow (BenignRejection ''counterparty is not currently connected'')
     | Some r \<Rightarrow> enqueue r t bs))))"

definition handle_trade_ephemeral_key ::
  "ClientId \<Rightarrow> TradeEphemeralKeyMessage \<Rightarrow> bytes \<Rightarrow> (lobby, unit) action" where
  "handle_trade_ephemeral_key client message bs =
     (case parse_ed25519_public_key (ephemeral_public_key message) of
        None \<Rightarrow> sthrow (Invalid_argument ''malformed ephemeral trade public key'')
      | Some parsed \<Rightarrow>
     (case parse_mldsa65_public_key (ephemeral_public_key_mldsa65 message) of
        None \<Rightarrow> sthrow (Invalid_argument ''malformed ephemeral trade public key (ML-DSA-65)'')
      | Some parsed2 \<Rightarrow>
     sbind (find_room_for client (TradeEphemeralKeyMessage.room_id message)) (\<lambda>(key, room).
     sbind (slift (party_for room client)) (\<lambda>party.
     sbind (set_room key
       (if party = PartyA
        then room\<lparr>ephemeral_key_a := Some parsed, ephemeral_key_a_mldsa65 := Some parsed2\<rparr>
        else room\<lparr>ephemeral_key_b := Some parsed, ephemeral_key_b_mldsa65 := Some parsed2\<rparr>)) (\<lambda>_.
     handle_room_relay client TradeEphemeralKey (TradeEphemeralKeyMessage.room_id message) bs)))))"

definition ack_fields :: "config \<Rightarrow> RoomEntry \<Rightarrow> bytes \<Rightarrow> u64 \<Rightarrow> ReceiptAckFields" where
  "ack_fields cfg room commitment ts =
     \<lparr>ReceiptAckFields.suite_id = kReceiptSuiteEd25519MlDsa65HybridV1, protocol_version = kProtocolVersion,
      mediator_id = config.mediator_id cfg, room_id = rid room, stage = PenultimateObligationsComplete,
      terms_commitment = commitment, timestamp = ts\<rparr>"

definition handle_receipt_ack :: "config \<Rightarrow> env \<Rightarrow> ClientId \<Rightarrow> ReceiptAckMessage \<Rightarrow> (lobby, unit) action" where
  "handle_receipt_ack cfg e client message =
     sbind (find_room_for client (ReceiptAckMessage.room_id message)) (\<lambda>(key, room).
     sbind (slift (party_for room client)) (\<lambda>party.
     sbind (slift (throw_if (\<not> active room) (BenignRejection ''room is no longer active''))) (\<lambda>_.
     sbind (slift (throw_if (MediatorSession.state (session room) \<noteq> WaitingForFinalReceiptAck)
              (BenignRejection ''room is not currently awaiting a final receipt acknowledgement''))) (\<lambda>_.
     sbind (slift (throw_if (stage_of_byte (ReceiptAckMessage.stage message) \<noteq> PenultimateObligationsComplete)
              (BenignRejection ''unexpected receipt acknowledgement stage''))) (\<lambda>_.
     case (if party = PartyA then ephemeral_key_a room else ephemeral_key_b room,
           if party = PartyA then ephemeral_key_a_mldsa65 room else ephemeral_key_b_mldsa65 room) of
       (Some announced_key, Some announced_key2) \<Rightarrow>
         sbind (slift (encode_terms (session_terms (session room)))) (\<lambda>encoded.
         let f = ack_fields cfg room (trade_payload_hash (cr e) encoded) (ReceiptAckMessage.timestamp message) in
         sbind (slift (verify_receipt_ack_hybrid (cr e) announced_key announced_key2 f
                  (ReceiptAckMessage.signature message) (ReceiptAckMessage.signature_mldsa65 message))) (\<lambda>ok.
         sbind (slift (throw_if (\<not> ok)
                  (Invalid_argument ''receipt acknowledgement signature does not verify''))) (\<lambda>_.
         sbind (slift (acknowledge_final_receipt party (session room))) (\<lambda>ses.
         let room = room\<lparr>session := ses\<rparr> in
         sbind (set_room key room) (\<lambda>_.
         if MediatorSession.state ses \<noteq> WaitingForFinalReceiptAck then
           sbind (issue_receipt cfg e key room PenultimateObligationsComplete False) (\<lambda>stage3_receipt.
           sbind (slift (current_turn ses)) (\<lambda>unblocked_turn.
           sbind (persist_room_upsert cfg e room) (\<lambda>_.
           sbind (slift (encode_receipt_issued (to_wire stage3_receipt))) (\<lambda>bs.
           sbind (send_to_room room ReceiptIssued bs) (\<lambda>_.
           send_turn_to_room room unblocked_turn)))))
         else persist_room_upsert cfg e room)))))
     | _ \<Rightarrow> sthrow (BenignRejection
         ''no ephemeral trade key announced for this room yet - cannot verify acknowledgement''))))))"

section \<open>Recovery query\<close>

definition handle_recovery_state_request ::
  "ClientId \<Rightarrow> RecoveryStateRequestMessage \<Rightarrow> (lobby, unit) action" where
  "handle_recovery_state_request client message =
     (let i = RecoveryStateRequestMessage.room_id message in
     sbind (slift (room_id_to_hex i)) (\<lambda>key.
     sbind (sget (\<lambda>s. map_of (rooms s) key)) (\<lambda>found_room.
     case found_room of
       None \<Rightarrow>
         sbind (slift (encode_recovery_state_response ((default_response i)\<lparr>RecoveryStateResponseMessage.reason :=
             ''no room on file for this id (never existed, already '' @
             ''finished and pruned, or persistence was disabled)''\<rparr>))) (\<lambda>bs.
         enqueue client RecoveryStateResponse bs)
     | Some room \<Rightarrow>
         sbind (client_for_party room PartyA) (\<lambda>a.
         sbind (client_for_party room PartyB) (\<lambda>b.
         let ses = session room in
         sbind (slift (encode_recovery_state_response
           \<lparr>RecoveryStateResponseMessage.room_id = i, found = True, terms = session_terms ses,
            fee = MediatorSession.fee ses, state = byte_of_state (MediatorSession.state ses),
            round_index = MediatorSession.round_index ses, leg_index = MediatorSession.leg_index ses,
            party_a_connected = (a \<noteq> None), party_b_connected = (b \<noteq> None),
            reason = (if MediatorSession.state ses = Aborted then MediatorSession.abort_reason ses else [])\<rparr>)) (\<lambda>bs.
         enqueue client RecoveryStateResponse bs))))))"

section \<open>Dispatch and the client loop\<close>

definition dispatch :: "config \<Rightarrow> env \<Rightarrow> ClientId \<Rightarrow> MessageType \<Rightarrow> bytes \<Rightarrow> (lobby, unit) action" where
  "dispatch cfg e client t bs =
     (if t = CreateOffer then sbind (slift (decode_create_offer bs)) (handle_create_offer e client)
      else if t = ListOffers then sbind (slift (decode_list_offers bs)) (handle_list_offers client)
      else if t = JoinOffer then sbind (slift (decode_join_offer bs)) (handle_join_offer cfg e client)
      else if t = CancelOffer then sbind (slift (decode_cancel_offer bs)) (handle_cancel_offer client)
      else if t = Sent then sbind (slift (decode_round_signal bs)) (handle_sent cfg e client)
      else if t = Received then sbind (slift (decode_round_signal bs)) (handle_received cfg e client)
      else if t = Abort then sbind (slift (decode_abort bs)) (handle_abort cfg e client)
      else if t = RecoveryStateRequest
        then sbind (slift (decode_recovery_state_request bs)) (handle_recovery_state_request client)
      else if t = RecognitionChallenge then sbind (slift (decode_recognition_challenge bs))
        (\<lambda>m. handle_room_relay client t (RecognitionChallengeMessage.room_id m) bs)
      else if t = RecognitionResponse then sbind (slift (decode_recognition_response bs))
        (\<lambda>m. handle_room_relay client t (RecognitionResponseMessage.room_id m) bs)
      else if t = TradeEphemeralKey then sbind (slift (decode_trade_ephemeral_key bs))
        (\<lambda>m. handle_trade_ephemeral_key client m bs)
      else if t = ReceiptAck then sbind (slift (decode_receipt_ack bs)) (handle_receipt_ack cfg e client)
      else if t = ReceiptDisclosure then sbind (slift (decode_receipt_disclosure bs))
        (\<lambda>m. handle_room_relay client t (ReceiptDisclosureMessage.room_id m) bs)
      else if t = GetCandles then sbind (slift (decode_get_candles bs)) (handle_get_candles client)
      else sthrow (Invalid_argument ''message type is not accepted from clients''))"

definition strike :: "Client \<Rightarrow> Client" where
  "strike c = c\<lparr>bad_messages := bad_messages c + 1\<rparr>"

text \<open>One frame of the client loop: the two catch clauses and the three-strikes rule.\<close>

definition process_frame :: "config \<Rightarrow> env \<Rightarrow> ClientId \<Rightarrow> MessageType \<Rightarrow> bytes \<Rightarrow> lobby \<Rightarrow> lobby" where
  "process_frame cfg e client t bs s =
     (if t = Disconnect then modify_client client (\<lambda>c. c\<lparr>alive := False\<rparr>) s
      else case dispatch cfg e client t bs s of
        (Inr _, s') \<Rightarrow> s'
      | (Inl (BenignRejection why), s') \<Rightarrow> send_error client why s'
      | (Inl ex, s') \<Rightarrow>
          modify_client client (\<lambda>c. if bad_messages c \<ge> 3 then c\<lparr>alive := False\<rparr> else c)
            (send_error client (what ex) (modify_client client strike s')))"

definition connect_client :: "env \<Rightarrow> (lobby, ClientId) action" where
  "connect_client e =
     sbind (sget (\<lambda>s. length (clients s) \<ge> kMaxClients)) (\<lambda>full.
     sbind (slift (throw_if full (Runtime_error ''mediator is full''))) (\<lambda>_.
     sbind (sget (\<lambda>s. fresh_id ''client id'' (\<lambda>key. map_of (clients s) key \<noteq> None) (random_ids e))) (\<lambda>drawn.
     sbind (slift drawn) (\<lambda>(i, key).
     sbind (smodify (\<lambda>s. s\<lparr>clients :=
              (key, \<lparr>cid = i, outgoing = [], alive = True, bad_messages = 0\<rparr>) # clients s\<rparr>)) (\<lambda>_.
     sreturn i)))))"

definition member_room :: "ClientId \<Rightarrow> RoomEntry \<Rightarrow> bool" where
  "member_room i room \<longleftrightarrow> RoomEntry.party_a room = i \<or> RoomEntry.party_b room = i"

definition keep_room :: "RoomEntry \<Rightarrow> bool" where
  "keep_room room \<longleftrightarrow> active room \<and> MediatorSession.state (session room) = WaitingForFeeConfirmation"

fun notify_invites :: "(ClientId \<times> InviteId) list \<Rightarrow> (lobby, unit) action" where
  "notify_invites [] = sreturn ()"
| "notify_invites ((peer, i) # rest) =
     sbind (slift (client_id_to_hex peer)) (\<lambda>_.
     sbind (sget (connected peer)) (\<lambda>c.
     sbind (if c then sbind (slift (encode_invite_declined \<lparr>InviteDeclinedMessage.invite_id = i\<rparr>)) (\<lambda>bs.
              enqueue peer InviteDeclined bs) else sreturn ()) (\<lambda>_.
     notify_invites rest)))"

text \<open>The rooms taken out of the table: the room object is aborted and no longer reachable.\<close>

fun abort_affected :: "config \<Rightarrow> env \<Rightarrow> RoomEntry list \<Rightarrow> (lobby, unit) action" where
  "abort_affected cfg e [] = sreturn ()"
| "abort_affected cfg e (room # rest) =
     (if \<not> active room then abort_affected cfg e rest else
     sbind (if MediatorSession.state (session room) \<noteq> SessionComplete \<and>
               MediatorSession.state (session room) \<noteq> Aborted
            then sbind (slift (abort ''peer disconnected'' (session room))) (\<lambda>_. sreturn ())
            else sreturn ()) (\<lambda>_.
     sbind (persist_room_remove cfg e (rid room)) (\<lambda>_.
     sbind (slift (encode_abort \<lparr>AbortMessage.room_id = rid room, reason = ''peer disconnected''\<rparr>)) (\<lambda>bs.
     sbind (send_to_room room Abort bs) (\<lambda>_.
     abort_affected cfg e rest)))))"

definition remove_client :: "config \<Rightarrow> env \<Rightarrow> ClientId \<Rightarrow> (lobby, unit) action" where
  "remove_client cfg e client =
     sbind (slift (client_id_to_hex client)) (\<lambda>key.
     sbind (smodify (\<lambda>s. s\<lparr>clients := AList.delete key (clients s),
              offers := filter (\<lambda>(_, offer). OpenOffer.creator offer \<noteq> client) (offers s)\<rparr>)) (\<lambda>_.
     sbind (sget (\<lambda>s. map (\<lambda>(_, invite). (if inviter invite = client then invitee invite else inviter invite,
                           iid invite))
              (filter (\<lambda>(_, invite). inviter invite = client \<or> invitee invite = client) (invites s)))) (\<lambda>notifications.
     sbind (smodify (\<lambda>s. s\<lparr>invites :=
              filter (\<lambda>(_, invite). inviter invite \<noteq> client \<and> invitee invite \<noteq> client) (invites s)\<rparr>)) (\<lambda>_.
     sbind (sget (\<lambda>s. map snd (filter (\<lambda>(_, room). member_room client room \<and> \<not> keep_room room) (rooms s)))) (\<lambda>affected.
     sbind (smodify (\<lambda>s. s\<lparr>rooms :=
              filter (\<lambda>(_, room). \<not> (member_room client room \<and> \<not> keep_room room)) (rooms s)\<rparr>)) (\<lambda>_.
     sbind (notify_invites notifications) (\<lambda>_.
     abort_affected cfg e affected)))))))"

text \<open>The operator's fee change, which takes effect once it is in the configured file.\<close>

definition set_fee :: "config \<Rightarrow> config_calls \<Rightarrow> FeeTerms \<Rightarrow> (lobby, unit) action" where
  "set_fee cfg calls f =
     sbind (if fee_persist_file cfg \<noteq> [] then on_disk (persist_fee_to_file calls (fee_persist_file cfg) f)
            else sreturn ()) (\<lambda>_.
     smodify (\<lambda>s. s\<lparr>lobby.fee := f\<rparr>))"

end
