(* ===== verification/Lobby_Inv.thy ===== *)
theory Lobby_Inv
  imports Lobby Progress
begin

text \<open>
  The invariant of the lobby and that every handler keeps it, whether it returns or throws. A room's
  session is a session reached by a run, so every fact about runs holds of every room; offers and
  rooms never share an id; the caps on clients, offers, rooms, queues and price series hold; an
  offer's creator is connected.
\<close>

section \<open>The invariant\<close>

text \<open>A well-formed client id: sixteen bytes, not all zero.\<close>

definition client_key :: "ClientId \<Rightarrow> bool" where
  "client_key i \<longleftrightarrow> is_client_id i \<and> nonzero i"

definition clients_inv :: "(string \<times> Client) list \<Rightarrow> bool" where
  "clients_inv cs \<longleftrightarrow> distinct (map fst cs) \<and> length cs \<le> kMaxClients \<and>
     (\<forall>(k, c)\<in>set cs. k = hex (cid c) \<and> client_key (cid c) \<and> length (outgoing c) \<le> kMaxQueuedFrames)"

definition offer_ok :: "string \<Rightarrow> OpenOffer \<Rightarrow> bool" where
  "offer_ok k offer \<longleftrightarrow> k = hex (oid offer) \<and> is_room_id (oid offer) \<and> nonzero (oid offer) \<and>
     client_key (OpenOffer.creator offer)"

definition own_offers :: "ClientId \<Rightarrow> (string \<times> OpenOffer) list \<Rightarrow> nat" where
  "own_offers i os = length (filter (\<lambda>(_, offer). OpenOffer.creator offer = i) os)"

definition offers_inv :: "(string \<times> OpenOffer) list \<Rightarrow> bool" where
  "offers_inv os \<longleftrightarrow> distinct (map fst os) \<and> length os \<le> kMaxOpenOffers \<and>
     (\<forall>(k, offer)\<in>set os. offer_ok k offer) \<and> (\<forall>i. own_offers i os \<le> kMaxOffersPerClient)"

definition room_ok :: "string \<Rightarrow> RoomEntry \<Rightarrow> bool" where
  "room_ok k room \<longleftrightarrow> k = hex (rid room) \<and> is_room_id (rid room) \<and> nonzero (rid room) \<and>
     client_key (RoomEntry.party_a room) \<and> client_key (RoomEntry.party_b room) \<and>
     MediatorSession.room_id (session room) = rid room \<and> (\<exists>g. runs (session room) g)"

definition rooms_inv :: "(string \<times> RoomEntry) list \<Rightarrow> bool" where
  "rooms_inv rs \<longleftrightarrow> distinct (map fst rs) \<and> length rs \<le> kMaxRooms \<and> (\<forall>(k, room)\<in>set rs. room_ok k room)"

definition prices_inv :: "(string \<times> TradeTick list) list \<Rightarrow> bool" where
  "prices_inv h \<longleftrightarrow> distinct (map fst h) \<and> length h \<le> kMaxTrackedPairs \<and>
     (\<forall>(k, ts)\<in>set h. length ts \<le> kMaxCandleTicksPerPair)"

text \<open>The records kept for the file are snapshots of rooms.\<close>

definition persisted_inv :: "(string \<times> PersistedRoom) list \<Rightarrow> bool" where
  "persisted_inv ps \<longleftrightarrow> distinct (map fst ps) \<and>
     (\<forall>(k, p)\<in>set ps. \<exists>room ts. room_ok k room \<and> p = persisted_room_snapshot ts room)"

definition lobby_inv :: "lobby \<Rightarrow> bool" where
  "lobby_inv s \<longleftrightarrow> clients_inv (clients s) \<and> offers_inv (lobby.offers s) \<and> rooms_inv (rooms s) \<and>
     prices_inv (price_history s) \<and> persisted_inv (persisted_rooms s) \<and> fst ` set (lobby.offers s) \<inter> fst ` set (rooms s) = {}"

lemma empty_lobby_inv: "lobby_inv (empty_lobby f d)"
  by (simp add: lobby_inv_def empty_lobby_def clients_inv_def offers_inv_def rooms_inv_def
      prices_inv_def persisted_inv_def own_offers_def)

section \<open>Shared operations\<close>

lemma fst_comp_value [simp]: "fst \<circ> (\<lambda>(k, c). (k, h k c)) = fst"
  by (simp add: fun_eq_iff)

lemma fst_image_value [simp]: "fst ` (\<lambda>(k, c). (k, h k c)) ` A = fst ` A"
  by (force simp: image_iff)

lemma client_enqueue_bound:
  "length (outgoing c) \<le> kMaxQueuedFrames \<Longrightarrow>
     length (outgoing (fst (client_enqueue t bs c))) \<le> kMaxQueuedFrames \<and>
     cid (fst (client_enqueue t bs c)) = cid c"
  by (simp add: client_enqueue_def)

lemma modify_client_keeps:
  assumes "\<And>c. cid (f c) = cid c \<and> (length (outgoing c) \<le> kMaxQueuedFrames \<longrightarrow>
      length (outgoing (f c)) \<le> kMaxQueuedFrames)" "lobby_inv s"
  shows "lobby_inv (modify_client i f s)"
proof -
  have "clients_inv (map (\<lambda>(k, c). (k, if k = hex i then f c else c)) (clients s))"
    using assms unfolding lobby_inv_def clients_inv_def by (auto split: if_splits)
  then show ?thesis
    using assms(2) by (simp add: lobby_inv_def modify_client_def)
qed

lemma enqueue_keeps [keeps_intros]: "keeps lobby_inv (enqueue i t bs)"
  unfolding enqueue_def
  by (rule keeps_smodify, rule modify_client_keeps) (auto simp: client_enqueue_def)

lemma enqueue_if_keeps [keeps_intros]: "keeps lobby_inv (enqueue_if c t bs)"
  by (cases c) (simp_all add: enqueue_if_def keeps_intros)

lemma client_for_party_keeps [keeps_intros]: "keeps lobby_inv (client_for_party room p)"
  unfolding client_for_party_def Let_def by (intro keeps_intros)

lemma send_to_room_keeps [keeps_intros]: "keeps lobby_inv (send_to_room room t bs)"
  unfolding send_to_room_def by (intro keeps_intros)

lemma send_turn_keeps [keeps_intros]: "keeps lobby_inv (send_turn_to_room room turn)"
  unfolding send_turn_to_room_def by (intro keeps_intros)

lemma on_disk_keeps [keeps_intros]: "keeps lobby_inv (on_disk m)"
  by (auto simp: keeps_def on_disk_def lobby_inv_def split: prod.splits)

lemma write_rooms_keeps [keeps_intros]: "keeps lobby_inv (write_persisted_rooms_locked cfg e)"
  unfolding write_persisted_rooms_locked_def by (intro keeps_intros)

lemma update_subset: "set (AList.update k v ps) \<subseteq> insert (k, v) (set ps)"
  by (induction ps) auto

lemma persisted_inv_update:
  assumes "persisted_inv ps" "room_ok k room"
  shows "persisted_inv (AList.update k (persisted_room_snapshot ts room) ps)"
proof -
  have "\<exists>room ts. room_ok j room \<and> p = persisted_room_snapshot ts room"
    if "(j, p) \<in> set (AList.update k (persisted_room_snapshot ts room) ps)" for j p
    using update_subset [THEN subsetD, OF that] assms by (auto simp: persisted_inv_def)
  then show ?thesis
    using assms(1) by (auto simp: persisted_inv_def AList.distinct_update)
qed

lemma persisted_inv_delete: "persisted_inv ps \<Longrightarrow> persisted_inv (AList.delete k ps)"
  by (auto simp: persisted_inv_def AList.delete_eq distinct_map_filter)

lemma persist_upsert_keeps:
  assumes "room_ok key room"
  shows "keeps lobby_inv (persist_room_upsert cfg e room)"
proof -
  have "lobby_inv (s\<lparr>persisted_rooms := AList.update key (persisted_room_snapshot (now e) room) (persisted_rooms s)\<rparr>)"
    if "lobby_inv s" for s
    using that assms by (simp add: lobby_inv_def persisted_inv_update)
  moreover have "room_id_to_hex (rid room) = Inr key"
    using assms by (simp add: room_ok_def exn_simps)
  ultimately show ?thesis
    unfolding persist_room_upsert_def
    by (intro keeps_if keeps_slift_bind keeps_intros keeps_smodify) simp_all
qed

lemma persist_remove_keeps [keeps_intros]: "keeps lobby_inv (persist_room_remove cfg e i)"
proof -
  have "lobby_inv (s\<lparr>persisted_rooms := AList.delete k (persisted_rooms s)\<rparr>)" if "lobby_inv s" for s k
    using that by (simp add: lobby_inv_def persisted_inv_delete)
  then show ?thesis
    unfolding persist_room_remove_def by (simp add: keeps_intros keeps_smodify)
qed

lemma rooms_inv_delete: "rooms_inv rs \<Longrightarrow> rooms_inv (AList.delete k rs)"
proof -
  have "set (AList.delete k rs) \<subseteq> set rs"
    by (auto simp: AList.delete_eq)
  then show "rooms_inv rs \<Longrightarrow> rooms_inv (AList.delete k rs)"
    unfolding rooms_inv_def
    by (auto simp: AList.distinct_delete dest: order_trans [OF AList.length_delete_le])
qed

lemma erase_room_keeps [keeps_intros]: "keeps lobby_inv (erase_room i)"
proof -
  have "lobby_inv (s\<lparr>rooms := AList.delete k (rooms s)\<rparr>)" if "lobby_inv s" for s k
    using that rooms_inv_delete by (auto simp: lobby_inv_def AList.delete_eq)
  then show ?thesis
    unfolding erase_room_def by (intro keeps_intros keeps_smodify)
qed

lemma rooms_inv_set:
  "rooms_inv rs \<Longrightarrow> room_ok key room \<Longrightarrow> rooms_inv (map (\<lambda>(k, r). (k, if k = key then room else r)) rs)"
  unfolding rooms_inv_def by (auto split: if_splits)

lemma set_room_keeps [keeps_intros]:
  assumes "room_ok key room"
  shows "keeps lobby_inv (set_room key room)"
  unfolding set_room_def
  by (intro keeps_smodify) (auto simp: lobby_inv_def rooms_inv_set assms)

section \<open>Sessions of rooms\<close>

lemma apply_event_room_id:
  assumes "apply_event ev s = Inr s'"
  shows "MediatorSession.room_id s' = MediatorSession.room_id s"
proof (cases ev)
  case (AckFinal p)
  then show ?thesis
    using assms by (auto elim!: ack_effect)
qed (use assms in \<open>auto simp: join_def sender_reported_sent_def receiver_reported_received_def
       advance_after_receipt_def confirm_fee_received_def abort_def exn_simps Let_def split: if_splits\<close>)

lemma room_ok_event:
  assumes "room_ok k room" "apply_event ev (session room) = Inr ses" "rid room' = rid room" "session room' = ses"
    "RoomEntry.party_a room' = RoomEntry.party_a room" "RoomEntry.party_b room' = RoomEntry.party_b room"
  shows "room_ok k room'"
  using assms apply_event_room_id [OF assms(2)] runs_event [OF _ assms(2)] by (auto simp: room_ok_def)

lemmas room_ok_sent = room_ok_event [where ev = "ReportSent p m" for p m, simplified]
lemmas room_ok_received = room_ok_event [where ev = "ReportReceived p m" for p m, simplified]
lemmas room_ok_ack = room_ok_event [where ev = "AckFinal p" for p, simplified]
lemmas room_ok_confirm = room_ok_event [where ev = ConfirmFee, simplified]
lemmas room_ok_abort = room_ok_event [where ev = "AbortRoom why" for why, simplified]

lemma room_ok_same:
  "room_ok k room \<Longrightarrow> rid room' = rid room \<Longrightarrow> session room' = session room \<Longrightarrow>
     RoomEntry.party_a room' = RoomEntry.party_a room \<Longrightarrow> RoomEntry.party_b room' = RoomEntry.party_b room \<Longrightarrow>
     room_ok k room'"
  by (auto simp: room_ok_def)

lemma new_room_ok:
  assumes "new_session c i f confirm pos = Inr ses0"
    "join \<lparr>JoinRoomMessage.room_id = i, receive_address_b = addr\<rparr> ses0 = Inr ses"
    "is_room_id i" "client_key a" "client_key b"
  shows "room_ok (hex i) (room_entry i a b ses act)"
proof -
  have i: "MediatorSession.room_id ses0 = i" "nonzero i"
    using assms(1) by (auto simp: new_session_def exn_simps valid_simps)
  have e: "apply_event (Join \<lparr>JoinRoomMessage.room_id = i, receive_address_b = addr\<rparr>) ses0 = Inr ses"
    using assms(2) by simp
  show ?thesis
    using i assms(3-) apply_event_room_id [OF e] runs_event [OF runs_new [OF assms(1)] e]
    by (auto simp: room_ok_def room_entry_def)
qed

lemma room_from_offer_ok:
  "room_from_offer offer j addr f confirm pos = Inr room \<Longrightarrow> offer_ok k offer \<Longrightarrow> client_key j \<Longrightarrow> room_ok k room"
  by (auto simp: room_from_offer_def offer_ok_def exn_simps intro: new_room_ok)

lemma lookup_room_ok: "lobby_inv s \<Longrightarrow> map_of (rooms s) key = Some room \<Longrightarrow> room_ok key room"
  by (auto simp: lobby_inv_def rooms_inv_def dest!: map_of_SomeD)

text \<open>Looking up a room for a client: what the rest of the handler may rely on.\<close>

lemma find_room_rule:
  assumes "\<And>key room. room_ok key room \<Longrightarrow> keeps lobby_inv (f key room)"
  shows "keeps lobby_inv (sbind (find_room_for i r) (\<lambda>(key, room). f key room))"
proof (rule keepsI)
  fix s
  assume s: "lobby_inv s"
  have "wp (f key room) (\<lambda>_. lobby_inv) (\<lambda>_. lobby_inv) s" if "map_of (rooms s) key = Some room" for key room
    using assms [OF lookup_room_ok [OF s that]] s by (rule keeps_wp)
  with s show "wp (sbind (find_room_for i r) (\<lambda>(key, room). f key room)) (\<lambda>_. lobby_inv) (\<lambda>_. lobby_inv) s"
    by (auto simp: wp_simps find_room_for_def split: sum.splits option.splits)
qed

section \<open>Receipts, prices and endings\<close>

lemma issue_receipt_keeps:
  assumes "room_ok key room"
  shows "keeps lobby_inv (issue_receipt cfg e key room st done)"
proof -
  have "room_ok key (room\<lparr>final_ack_receipt := x\<rparr>)" for x
    using assms by (rule room_ok_same) simp_all
  then show ?thesis
    unfolding issue_receipt_def Let_def
    by (intro keeps_intros) (auto intro!: keeps_intros split: option.splits ReceiptStage.splits)
qed

lemma evict_oldest_bound:
  assumes "prices_inv h" "h \<noteq> []"
  shows "length (evict_oldest h) < length h" "prices_inv (evict_oldest h)"
proof -
  obtain x t where h: "h = x # t"
    using assms(2) by (cases h) auto
  have "foldl older_entry a xs \<in> insert a (set xs)" for a xs
    by (induction xs arbitrary: a) (auto simp: older_entry_def split: if_splits)
  then have "foldl older_entry x h \<in> set h"
    using h by (metis insert_absorb list.set_intros(1))
  then have "fst (foldl older_entry x h) \<in> fst ` set h"
    by simp
  moreover have e: "evict_oldest h = AList.delete (fst (foldl older_entry x h)) h"
    by (simp add: evict_oldest_def h)
  ultimately show "length (evict_oldest h) < length h"
    by (auto simp: AList.delete_eq intro!: length_filter_less)
  then show "prices_inv (evict_oldest h)"
    using assms(1) unfolding e prices_inv_def
    by (auto simp: AList.delete_eq distinct_map_filter)
qed

lemma update_present:
  assumes "map_of h k = Some old"
  shows "map fst (AList.update k v h) = map fst h"
    and "set (AList.update k v h) \<subseteq> insert (k, v) (set h)"
    and "length (AList.update k v h) = length h"
  using assms by (induction h) auto

lemma prices_inv_update:
  "prices_inv h \<Longrightarrow> map_of h k = Some old \<Longrightarrow> length ts \<le> kMaxCandleTicksPerPair \<Longrightarrow>
     prices_inv (AList.update k ts h)"
  unfolding prices_inv_def
  using update_present [of h k old ts] by auto

lemma push_tick_bound: "length (push_tick tick ts) \<le> kMaxCandleTicksPerPair"
  by (simp add: push_tick_def Let_def)

lemma record_completed_trade_keeps [keeps_intros]: "keeps lobby_inv (record_completed_trade e t)"
proof -
  define key where "key = pair_key (canonical_pair (TradeTerms.asset_a t) (TradeTerms.asset_b t))"
  have new: "prices_inv ((key, push_tick tick []) # (if length h \<ge> kMaxTrackedPairs then evict_oldest h else h))"
    if h: "prices_inv h" "map_of h key = None" for h tick
  proof (cases "length h \<ge> kMaxTrackedPairs")
    case True
    then have ne: "h \<noteq> []"
      by auto
    have "fst ` set (evict_oldest h) \<subseteq> fst ` set h"
      using ne by (auto simp: evict_oldest_def AList.delete_eq split: list.splits)
    then have "key \<notin> fst ` set (evict_oldest h)"
      using h(2) by (auto simp: map_of_eq_None_iff)
    then show ?thesis
      using True evict_oldest_bound [OF h(1) ne] h(1)
      by (auto simp: prices_inv_def push_tick_def)
  qed (use h in \<open>auto simp: prices_inv_def push_tick_def map_of_eq_None_iff\<close>)
  show ?thesis
    unfolding record_completed_trade_def Let_def key_def [symmetric]
    by (rule keeps_smodify)
       (auto simp: lobby_inv_def new prices_inv_update push_tick_bound split: option.splits split del: if_split)
qed

lemma finish_room_keeps [keeps_intros]: "keeps lobby_inv (finish_room cfg e room r)"
  unfolding finish_room_def by (intro keeps_intros)

lemma abort_room_keeps:
  assumes "room_ok key room"
  shows "keeps lobby_inv (abort_room cfg e key room why)"
proof -
  have "room_ok key (room\<lparr>active := False\<rparr>)"
    using assms by (rule room_ok_same) simp_all
  moreover have "room_ok key (room\<lparr>active := False, session := ses\<rparr>)"
    if "abort w (session room) = Inr ses" for ses w
    using assms that by (rule room_ok_abort) simp_all
  ultimately show ?thesis
    unfolding abort_room_def Let_def
    by (auto intro!: keeps_intros keeps_slift_bind)
qed

section \<open>The handlers\<close>

lemmas handler_rules = find_room_rule keeps_if keeps_option keeps_options keeps_slift_bind
  abort_room_keeps issue_receipt_keeps persist_upsert_keeps keeps_intros
lemmas room_ok_rules = room_ok_sent room_ok_received room_ok_ack room_ok_same

lemma handle_sent_keeps [keeps_intros]: "keeps lobby_inv (handle_sent cfg e client m)"
  unfolding handle_sent_def Let_def
  by (rule handler_rules | assumption | rule room_ok_rules | (simp; fail))+

lemma handle_received_keeps [keeps_intros]: "keeps lobby_inv (handle_received cfg e client m)"
  unfolding handle_received_def Let_def
  by (rule handler_rules | assumption | rule room_ok_rules | (simp; fail))+

lemma handle_receipt_ack_keeps [keeps_intros]: "keeps lobby_inv (handle_receipt_ack cfg e client m)"
  unfolding handle_receipt_ack_def Let_def
  by (rule handler_rules | assumption | rule room_ok_rules | (simp; fail))+

lemma handle_abort_keeps [keeps_intros]: "keeps lobby_inv (handle_abort cfg e client m)"
  unfolding handle_abort_def by (rule handler_rules | assumption)+

lemma handle_room_relay_keeps [keeps_intros]: "keeps lobby_inv (handle_room_relay client t i bs)"
  unfolding handle_room_relay_def by (rule handler_rules)+

lemma handle_trade_ephemeral_key_keeps [keeps_intros]:
  "keeps lobby_inv (handle_trade_ephemeral_key client m bs)"
  unfolding handle_trade_ephemeral_key_def
  by (rule handler_rules handle_room_relay_keeps | erule room_ok_same | (simp; fail))+

lemma handle_recovery_keeps [keeps_intros]: "keeps lobby_inv (handle_recovery_state_request client m)"
  unfolding handle_recovery_state_request_def Let_def by (rule handler_rules)+

lemma handle_list_offers_keeps [keeps_intros]: "keeps lobby_inv (handle_list_offers client m)"
  unfolding handle_list_offers_def by (rule handler_rules)+

lemma handle_get_candles_keeps [keeps_intros]: "keeps lobby_inv (handle_get_candles client m)"
  unfolding handle_get_candles_def Let_def by (rule handler_rules)+

lemma offers_inv_filter:
  assumes "offers_inv os"
  shows "offers_inv (filter P os)"
proof -
  have "own_offers i (filter P os) \<le> own_offers i os" for i
    unfolding own_offers_def by (induction os) auto
  then show ?thesis
    using assms unfolding offers_inv_def
    by (auto simp: distinct_map_filter intro: order_trans [OF length_filter_le] order_trans)
qed

lemma drop_offer_inv: "lobby_inv s \<Longrightarrow> lobby_inv (s\<lparr>lobby.offers := filter P (lobby.offers s)\<rparr>)"
  by (auto simp: lobby_inv_def offers_inv_filter)

lemma delete_offer_inv: "lobby_inv s \<Longrightarrow> lobby_inv (s\<lparr>lobby.offers := AList.delete k (lobby.offers s)\<rparr>)"
  by (simp add: AList.delete_eq drop_offer_inv)

lemma invites_irrelevant [simp]: "lobby_inv (s\<lparr>invites := x\<rparr>) = lobby_inv s"
  by (simp add: lobby_inv_def)

lemma handle_cancel_offer_keeps [keeps_intros]: "keeps lobby_inv (handle_cancel_offer client m)"
  unfolding handle_cancel_offer_def
  by (rule handler_rules | rule keeps_smodify, erule delete_offer_inv)+

text \<open>Drawing a fresh id yields a nonzero id whose key is free.\<close>

lemma fresh_id_ok:
  "fresh_id label taken draws = Inr (i, k) \<Longrightarrow> nonzero i \<and> k = hex i \<and> \<not> taken k \<and> i \<in> set draws"
  by (induction label taken draws rule: fresh_id.induct)
     (auto simp: exn_simps id_to_hex_ok validate_nonzero_id_ok hex_def split: if_splits)

lemma handle_create_offer_keeps:
  assumes "\<forall>i\<in>set (random_ids e). is_room_id i" "client_key client"
  shows "keeps lobby_inv (handle_create_offer e client m)"
proof (rule keepsI)
  fix s
  assume s: "lobby_inv s"
  let ?taken = "\<lambda>key. map_of (lobby.offers s) key \<noteq> None \<or> map_of (rooms s) key \<noteq> None"
  have add: "lobby_inv (s\<lparr>lobby.offers := (k, \<lparr>oid = i, creator = client, terms = t, receive_address_a = a\<rparr>) # lobby.offers s\<rparr>)"
    if full: "\<not> kMaxOpenOffers \<le> length (lobby.offers s)"
      and own: "\<not> kMaxOffersPerClient \<le> length (filter (\<lambda>(_, offer). OpenOffer.creator offer = client) (lobby.offers s))"
      and f: "fresh_id ''room id'' ?taken (random_ids e) = Inr (i, k)" for i k t a
    using s full own fresh_id_ok [OF f] assms
    by (auto simp: lobby_inv_def offers_inv_def offer_ok_def own_offers_def map_of_eq_None_iff)
  show "wp (handle_create_offer e client m) (\<lambda>_. lobby_inv) (\<lambda>_. lobby_inv) s"
    unfolding handle_create_offer_def Let_def
    using s add
    by (auto simp: wp_simps exn_simps split: sum.splits prod.splits intro!: keeps_wp [OF enqueue_keeps])
qed

lemma announce_room_keeps: "room_ok key room \<Longrightarrow> keeps lobby_inv (announce_room cfg e room)"
  unfolding announce_room_def by (rule handler_rules | assumption)+

lemma open_room_inv:
  assumes s: "lobby_inv s" and o: "map_of (lobby.offers s) k = Some offer" and n: "length (rooms s) < kMaxRooms"
    and r: "room_from_offer offer j addr f confirm pos = Inr room" and j: "client_key j"
  shows "room_ok k room" and "lobby_inv (s\<lparr>rooms := (k, room) # rooms s, lobby.offers := AList.delete k (lobby.offers s)\<rparr>)"
proof -
  have ok: "offer_ok k offer" and notin: "k \<notin> fst ` set (rooms s)"
    using s o by (auto simp: lobby_inv_def offers_inv_def dest!: map_of_SomeD) force
  then show "room_ok k room"
    using room_from_offer_ok [OF r _ j] by simp
  then show "lobby_inv (s\<lparr>rooms := (k, room) # rooms s, lobby.offers := AList.delete k (lobby.offers s)\<rparr>)"
    using s n notin delete_offer_inv [OF s, of k]
    by (auto simp: lobby_inv_def rooms_inv_def AList.delete_eq)
qed

lemma handle_join_offer_keeps:
  assumes "client_key client"
  shows "keeps lobby_inv (handle_join_offer cfg e client m)"
proof (rule keepsI)
  fix s
  assume s: "lobby_inv s"
  show "wp (handle_join_offer cfg e client m) (\<lambda>_. lobby_inv) (\<lambda>_. lobby_inv) s"
    unfolding handle_join_offer_def
    using s assms delete_offer_inv [OF s] open_room_inv [OF s]
    by (auto simp: wp_simps exn_simps not_le split: sum.splits option.splits
        intro!: keeps_wp [OF announce_room_keeps])
qed

lemma handle_list_peers_keeps [keeps_intros]: "keeps lobby_inv (handle_list_peers client)"
  unfolding handle_list_peers_def by (rule handler_rules)+

lemma handle_decline_keeps [keeps_intros]: "keeps lobby_inv (handle_decline client m)"
  unfolding handle_decline_def
  by (rule handler_rules | rule keeps_smodify, (simp; fail))+

lemma handle_invite_keeps [keeps_intros]: "keeps lobby_inv (handle_invite e client m)"
  unfolding handle_invite_def Let_def
  by (rule keeps_prod handler_rules | rule keeps_smodify, (simp; fail))+

lemma dispatch_keeps:
  assumes "\<forall>i\<in>set (random_ids e). is_room_id i" "client_key client"
  shows "keeps lobby_inv (dispatch cfg e client t bs)"
  unfolding dispatch_def
  by (rule keeps_if keeps_slift_bind keeps_intros handle_create_offer_keeps [OF assms]
      handle_join_offer_keeps [OF assms(2)])+

lemma send_error_inv: "lobby_inv s \<Longrightarrow> lobby_inv (send_error i why s)"
  using enqueue_keeps [of i Error] by (auto simp: send_error_def keeps_def modify_client_keeps split: sum.splits)

lemma process_frame_inv:
  assumes "lobby_inv s" "\<forall>i\<in>set (random_ids e). is_room_id i" "client_key client"
  shows "lobby_inv (process_frame cfg e client t bs s)"
proof (cases "t = Disconnect")
  case True
  then show ?thesis
    using assms by (simp add: process_frame_def modify_client_keeps)
next
  case False
  obtain r s' where d: "dispatch cfg e client t bs s = (r, s')"
    by (cases "dispatch cfg e client t bs s")
  have "lobby_inv s'"
    using keeps_result [OF dispatch_keeps [OF assms(2,3)] assms(1) d] .
  with False d show ?thesis
    by (auto simp: process_frame_def send_error_inv modify_client_keeps strike_def split: sum.splits exn.splits)
qed

lemma connect_client_keeps:
  assumes "\<forall>i\<in>set (random_ids e). is_client_id i"
  shows "keeps lobby_inv (connect_client e)"
proof (rule keepsI)
  fix s
  assume s: "lobby_inv s"
  have add: "lobby_inv (s\<lparr>clients := (k, \<lparr>cid = i, outgoing = [], alive = True, bad_messages = 0\<rparr>) # clients s\<rparr>)"
    if "\<not> kMaxClients \<le> length (clients s)"
      and f: "fresh_id ''client id'' (\<lambda>key. map_of (clients s) key \<noteq> None) (random_ids e) = Inr (i, k)" for i k
    using s that(1) fresh_id_ok [OF f] assms
    by (auto simp: lobby_inv_def clients_inv_def client_key_def map_of_eq_None_iff)
  show "wp (connect_client e) (\<lambda>_. lobby_inv) (\<lambda>_. lobby_inv) s"
    unfolding connect_client_def using s add
    by (auto simp: wp_simps exn_simps split: sum.splits prod.splits)
qed

lemma notify_invites_keeps [keeps_intros]: "keeps lobby_inv (notify_invites ns)"
  by (induction ns rule: notify_invites.induct) (simp_all add: keeps_intros)

lemma abort_affected_keeps [keeps_intros]: "keeps lobby_inv (abort_affected cfg e rs)"
  by (induction rs) (simp_all add: keeps_intros)

lemma clients_inv_delete: "clients_inv cs \<Longrightarrow> clients_inv (AList.delete k cs)"
  unfolding clients_inv_def
  by (auto simp: AList.delete_eq distinct_map_filter intro: order_trans [OF length_filter_le])

lemma rooms_inv_filter: "rooms_inv rs \<Longrightarrow> rooms_inv (filter P rs)"
  unfolding rooms_inv_def
  by (auto simp: distinct_map_filter intro: order_trans [OF length_filter_le])

lemma remove_client_keeps: "keeps lobby_inv (remove_client cfg e client)"
proof -
  have "lobby_inv (s\<lparr>clients := AList.delete k (clients s),
      lobby.offers := filter P (lobby.offers s)\<rparr>)" if "lobby_inv s" for s k P
    using that by (auto simp: lobby_inv_def clients_inv_delete offers_inv_filter)
  moreover have "lobby_inv (s\<lparr>rooms := filter P (rooms s)\<rparr>)" if "lobby_inv s" for s P
    using that by (auto simp: lobby_inv_def rooms_inv_filter)
  ultimately show ?thesis
    unfolding remove_client_def
    by (intro keeps_slift_bind keeps_intros keeps_smodify) auto
qed

lemma confirmed_room_keeps:
  assumes "room_ok key room" "confirm_fee_received (session room) = Inr ses"
  shows "keeps lobby_inv (let room = room\<lparr>session := ses, active := False\<rparr> in
     sbind (set_room key room) (\<lambda>_.
     sbind (issue_receipt cfg e key room SettlementCompleted True) (\<lambda>r.
     sbind (finish_room cfg e room r) (\<lambda>_. sreturn True))))"
proof -
  have "room_ok key (room\<lparr>session := ses, active := False\<rparr>)"
    using assms by (rule room_ok_confirm) simp_all
  then show ?thesis
    unfolding Let_def by (intro keeps_intros issue_receipt_keeps)
qed

lemma try_confirm_fee_keeps: "keeps lobby_inv (try_confirm_fee_locked cfg e i)"
proof (rule keepsI)
  fix s
  assume s: "lobby_inv s"
  show "wp (try_confirm_fee_locked cfg e i) (\<lambda>_. lobby_inv) (\<lambda>_. lobby_inv) s"
    unfolding try_confirm_fee_locked_def
    using s lookup_room_ok [OF s]
    by (auto simp: wp_primitive wp_sbind [of "slift _"] wp_sbind [of "sget _"] simp del: Let_def
        split: sum.splits option.splits intro!: keeps_wp [OF confirmed_room_keeps])
qed

lemma fee_irrelevant [simp]: "lobby_inv (s\<lparr>lobby.fee := f\<rparr>) = lobby_inv s"
  by (simp add: lobby_inv_def)

lemma set_fee_keeps: "keeps lobby_inv (set_fee cfg calls f)"
  unfolding set_fee_def by (intro keeps_intros keeps_if keeps_smodify) simp

section \<open>Reachable lobbies\<close>

text \<open>
  The events of a mediator that starts without persisted rooms. Frames come from connected clients;
  the generators return ids of the fixed widths of \<open>ClientId\<close> and \<open>RoomId\<close>.
\<close>

inductive serves :: "config \<Rightarrow> lobby \<Rightarrow> bool" for cfg where
  serves_start: "serves cfg (empty_lobby f d)"
| serves_connect: "serves cfg s \<Longrightarrow> \<forall>i\<in>set (random_ids e). is_client_id i \<Longrightarrow>
    connect_client e s = (r, s') \<Longrightarrow> serves cfg s'"
| serves_frame: "serves cfg s \<Longrightarrow> connected client s \<Longrightarrow> \<forall>i\<in>set (random_ids e). is_room_id i \<Longrightarrow>
    serves cfg (process_frame cfg e client t bs s)"
| serves_flush: "serves cfg s \<Longrightarrow> serves cfg (modify_client client (\<lambda>c. snd (take_outgoing c)) s)"
| serves_disconnect: "serves cfg s \<Longrightarrow> remove_client cfg e client s = (r, s') \<Longrightarrow> serves cfg s'"
| serves_confirm_fee: "serves cfg s \<Longrightarrow> try_confirm_fee_locked cfg e i s = (ok, s') \<Longrightarrow> serves cfg s'"
| serves_set_fee: "serves cfg s \<Longrightarrow> set_fee cfg calls f s = (r, s') \<Longrightarrow> serves cfg s'"

lemma connected_key: "lobby_inv s \<Longrightarrow> connected i s \<Longrightarrow> client_key i"
  by (auto simp: lobby_inv_def clients_inv_def connected_def dest!: map_of_SomeD)

lemma serves_inv: "serves cfg s \<Longrightarrow> lobby_inv s"
proof (induction rule: serves.induct)
  case (serves_set_fee s calls f r s')
  then show ?case
    by (auto intro: keeps_result [OF set_fee_keeps])
qed (auto intro: empty_lobby_inv process_frame_inv connected_key keeps_result [OF connect_client_keeps]
      keeps_result [OF remove_client_keeps] keeps_result [OF try_confirm_fee_keeps]
      modify_client_keeps simp: take_outgoing_def)

end
