(* ===== verification/Lobby_Safety.thy ===== *)
theory Lobby_Safety
  imports Lobby_Inv
begin

text \<open>
  Safety of the lobby between clients: a client's frame never touches a room the client is not a
  member of, only broken messages cost a strike, and a client that leaves takes its offers and its
  unfinished rooms with it.
\<close>

section \<open>Views of the lobby that handlers leave alone\<close>

text \<open>A view is a part of the state. \<open>quiet_view\<close>: queueing frames and persisting rooms do not show in it.\<close>

locale quiet_view =
  fixes view :: "lobby \<Rightarrow> 'v"
  assumes view_enqueue: "view (modify_client i (\<lambda>c. fst (client_enqueue t bs c)) s) = view s"
    and view_disk: "view (s\<lparr>disk := d\<rparr>) = view s"
    and view_persisted: "view (s\<lparr>persisted_rooms := ps\<rparr>) = view s"
begin

lemma enqueue: "keeps (\<lambda>s. view s = v) (enqueue i t bs)"
  unfolding enqueue_def by (rule keeps_smodify) (simp add: view_enqueue)

lemma enqueue_if: "keeps (\<lambda>s. view s = v) (enqueue_if c t bs)"
  by (cases c) (simp_all add: enqueue_if_def keeps_intros enqueue)

lemma client_for_party: "keeps (\<lambda>s. view s = v) (client_for_party room p)"
  unfolding client_for_party_def Let_def by (intro keeps_basic keeps_sbind)

lemma send_to_room: "keeps (\<lambda>s. view s = v) (send_to_room room t bs)"
  unfolding send_to_room_def by (intro keeps_basic keeps_sbind client_for_party enqueue_if)

lemma send_turn: "keeps (\<lambda>s. view s = v) (send_turn_to_room room turn)"
  unfolding send_turn_to_room_def by (intro keeps_basic keeps_sbind send_to_room)

lemma write_rooms: "keeps (\<lambda>s. view s = v) (write_persisted_rooms_locked cfg e)"
  unfolding write_persisted_rooms_locked_def
  by (intro keeps_basic keeps_sbind) (auto simp: keeps_def on_disk_def view_disk split: prod.splits)

lemma persist_upsert: "keeps (\<lambda>s. view s = v) (persist_room_upsert cfg e room)"
  unfolding persist_room_upsert_def
  by (intro keeps_if keeps_basic keeps_sbind write_rooms keeps_smodify) (simp add: view_persisted)

lemma persist_remove: "keeps (\<lambda>s. view s = v) (persist_room_remove cfg e i)"
  unfolding persist_room_remove_def
  by (intro keeps_if keeps_basic keeps_sbind write_rooms keeps_smodify) (simp add: view_persisted)

lemma announce: "keeps (\<lambda>s. view s = v) (announce_room cfg e room)"
  unfolding announce_room_def by (intro keeps_basic keeps_sbind persist_upsert enqueue send_turn)

lemma recovery: "keeps (\<lambda>s. view s = v) (handle_recovery_state_request client m)"
  unfolding handle_recovery_state_request_def Let_def
  by (intro keeps_option keeps_basic keeps_sbind enqueue client_for_party)

lemma list_offers: "keeps (\<lambda>s. view s = v) (handle_list_offers client m)"
  unfolding handle_list_offers_def by (intro keeps_basic keeps_sbind enqueue)

lemma get_candles: "keeps (\<lambda>s. view s = v) (handle_get_candles client m)"
  unfolding handle_get_candles_def Let_def by (intro keeps_basic keeps_sbind enqueue)

lemma notify: "keeps (\<lambda>s. view s = v) (notify_invites ns)"
  by (induction ns rule: notify_invites.induct) (simp_all add: keeps_basic keeps_sbind enqueue)

lemma abort_rest: "keeps (\<lambda>s. view s = v) (abort_affected cfg e rs)"
  by (induction rs) (simp_all add: keeps_basic keeps_sbind persist_remove send_to_room)

lemmas quiet = keeps_basic keeps_sbind enqueue enqueue_if client_for_party send_to_room send_turn
  persist_upsert persist_remove announce

end

text \<open>\<open>frame_view\<close>: nothing a frame does to rooms, offers, invitations or prices shows either.\<close>

locale frame_view = quiet_view +
  assumes view_rooms: "view (s\<lparr>rooms := rs\<rparr>) = view s"
    and view_offers: "view (s\<lparr>lobby.offers := os\<rparr>) = view s"
    and view_prices: "view (s\<lparr>price_history := h\<rparr>) = view s"
begin

lemma set_room: "keeps (\<lambda>s. view s = v) (set_room key room)"
  unfolding set_room_def by (rule keeps_smodify) (simp add: view_rooms)

lemma erase: "keeps (\<lambda>s. view s = v) (erase_room i)"
  unfolding erase_room_def by (intro keeps_basic keeps_sbind keeps_smodify) (simp add: view_rooms)

lemma find_room: "keeps (\<lambda>s. view s = v) (find_room_for i r)"
  unfolding find_room_for_def by (intro keeps_option keeps_basic keeps_sbind)

lemma record_trade: "keeps (\<lambda>s. view s = v) (record_completed_trade e t)"
  unfolding record_completed_trade_def Let_def
  by (rule keeps_smodify) (simp add: view_prices split: option.splits)

lemma issue: "keeps (\<lambda>s. view s = v) (issue_receipt cfg e key room st done)"
  unfolding issue_receipt_def Let_def
  by (intro keeps_basic keeps_sbind) (auto intro!: keeps_basic keeps_sbind set_room split: option.splits ReceiptStage.splits)

lemma finish: "keeps (\<lambda>s. view s = v) (finish_room cfg e room r)"
  unfolding finish_room_def by (intro quiet record_trade erase)

lemma abort_room: "keeps (\<lambda>s. view s = v) (abort_room cfg e key room why)"
  unfolding abort_room_def Let_def by (intro keeps_if quiet set_room erase)

lemma offers_update: "keeps (\<lambda>s. view s = v) (smodify (\<lambda>s. s\<lparr>lobby.offers := f s\<rparr>))"
  by (rule keeps_smodify) (simp add: view_offers)

lemma rooms_offers_update: "keeps (\<lambda>s. view s = v) (smodify (\<lambda>s. s\<lparr>rooms := g s, lobby.offers := f s\<rparr>))"
  by (rule keeps_smodify) (simp add: view_offers view_rooms)

lemmas frame = keeps_if keeps_option keeps_options keeps_prod quiet set_room erase find_room record_trade
  issue finish abort_room offers_update rooms_offers_update

lemma sent: "keeps (\<lambda>s. view s = v) (handle_sent cfg e client m)"
  unfolding handle_sent_def Let_def by (intro frame)

lemma received: "keeps (\<lambda>s. view s = v) (handle_received cfg e client m)"
  unfolding handle_received_def Let_def by (intro frame)

lemma receipt_ack: "keeps (\<lambda>s. view s = v) (handle_receipt_ack cfg e client m)"
  unfolding handle_receipt_ack_def Let_def by (intro frame)

lemma relay: "keeps (\<lambda>s. view s = v) (handle_room_relay client t i bs)"
  unfolding handle_room_relay_def by (intro frame)

lemma ephemeral_key: "keeps (\<lambda>s. view s = v) (handle_trade_ephemeral_key client m bs)"
  unfolding handle_trade_ephemeral_key_def by (intro frame relay)

lemma abort_handler: "keeps (\<lambda>s. view s = v) (handle_abort cfg e client m)"
  unfolding handle_abort_def by (intro frame)

lemma create_offer: "keeps (\<lambda>s. view s = v) (handle_create_offer e client m)"
  unfolding handle_create_offer_def Let_def by (intro frame)

lemma cancel_offer: "keeps (\<lambda>s. view s = v) (handle_cancel_offer client m)"
  unfolding handle_cancel_offer_def by (intro frame)

lemma join_offer: "keeps (\<lambda>s. view s = v) (handle_join_offer cfg e client m)"
  unfolding handle_join_offer_def by (intro frame)

lemma dispatch: "keeps (\<lambda>s. view s = v) (dispatch cfg e client t bs)"
  unfolding dispatch_def
  by (intro keeps_if keeps_slift_bind keeps_basic sent received receipt_ack relay ephemeral_key
      abort_handler create_offer cancel_offer join_offer recovery list_offers get_candles)

lemma dispatch_view: "view (snd (dispatch cfg e client t bs s)) = view s"
  using dispatch [of "view s"] by (simp add: keeps_def)

end

definition strikes :: "lobby \<Rightarrow> (string \<times> nat) list" where
  "strikes s = map (\<lambda>(k, c). (k, bad_messages c)) (clients s)"

interpretation rooms_view: quiet_view rooms
  by unfold_locales (simp_all add: modify_client_def)

interpretation offers_view: quiet_view lobby.offers
  by unfold_locales (simp_all add: modify_client_def)

interpretation keys_view: quiet_view "\<lambda>s. map fst (clients s)"
  by unfold_locales (simp_all add: modify_client_def)

interpretation fee_view: frame_view lobby.fee
  by unfold_locales (simp_all add: modify_client_def)

interpretation strikes_view: frame_view strikes
  by unfold_locales (auto simp: strikes_def modify_client_def client_enqueue_def)

section \<open>A client cannot reach a room of others\<close>

definition others_room :: "string \<Rightarrow> RoomEntry \<Rightarrow> lobby \<Rightarrow> bool" where
  "others_room k room s \<longleftrightarrow> lobby_inv s \<and> map_of (rooms s) k = Some room"

lemma others_frame:
  assumes "keeps lobby_inv m" "\<And>v. keeps (\<lambda>s. rooms s = v) m"
  shows "keeps (others_room k room) m"
  using assms unfolding keeps_def others_room_def by metis

lemma record_completed_trade_rooms: "keeps (\<lambda>s. rooms s = v) (record_completed_trade e t)"
  unfolding record_completed_trade_def Let_def by (rule keeps_smodify) (simp split: option.splits)

lemmas others_intros [keeps_intros] =
  others_frame [OF enqueue_keeps rooms_view.enqueue]
  others_frame [OF enqueue_if_keeps rooms_view.enqueue_if]
  others_frame [OF client_for_party_keeps rooms_view.client_for_party]
  others_frame [OF send_to_room_keeps rooms_view.send_to_room]
  others_frame [OF send_turn_keeps rooms_view.send_turn]
  others_frame [OF persist_remove_keeps rooms_view.persist_remove]
  others_frame [OF record_completed_trade_keeps record_completed_trade_rooms]

lemma persist_upsert_others:
  "room_ok key r \<Longrightarrow> keeps (others_room k room) (persist_room_upsert cfg e r)"
  by (intro others_frame persist_upsert_keeps rooms_view.persist_upsert)

lemma map_of_set_room: "k \<noteq> key \<Longrightarrow> map_of (map (\<lambda>(j, r). (j, if j = key then x else r)) rs) k = map_of rs k"
  by (induction rs) auto

lemma set_room_others:
  assumes "key \<noteq> k" "room_ok key r"
  shows "keeps (others_room k room) (set_room key r)"
  using set_room_keeps [OF assms(2)] assms(1)
  by (auto simp: keeps_def others_room_def set_room_def action_defs map_of_set_room)

lemma erase_room_others:
  assumes "room_ok key r" "key \<noteq> k"
  shows "keeps (others_room k room) (erase_room (rid r))"
proof -
  have "hex (rid r) \<noteq> k"
    using assms by (simp add: room_ok_def)
  then show ?thesis
    using erase_room_keeps [of "rid r"]
    by (auto simp: keeps_def others_room_def erase_room_def sbind_def action_defs delete_conv'
        exn_simps split: sum.splits)
qed

text \<open>The lookup only yields rooms the client is a member of.\<close>

lemma find_room_others:
  assumes "\<And>key r. key \<noteq> k \<Longrightarrow> room_ok key r \<Longrightarrow> keeps (others_room k room) (f key r)"
    and "\<not> member_room i room"
  shows "keeps (others_room k room) (sbind (find_room_for i j) (\<lambda>(key, r). f key r))"
proof (rule keepsI)
  fix s
  assume s: "others_room k room s"
  have "wp (f key r) (\<lambda>_. others_room k room) (\<lambda>_. others_room k room) s"
    if "map_of (rooms s) key = Some r" "party_for r i = Inr p" for key r p
  proof -
    have "key \<noteq> k"
      using that s assms(2) by (auto simp: others_room_def party_for_def member_room_def split: if_splits)
    then show ?thesis
      using assms(1) [OF _ lookup_room_ok, of key s r] s that(1)
      by (auto simp: others_room_def intro: keeps_wp)
  qed
  with s show "wp (sbind (find_room_for i j) (\<lambda>(key, r). f key r)) (\<lambda>_. others_room k room)
      (\<lambda>_. others_room k room) s"
    by (auto simp: wp_simps find_room_for_def split: sum.splits option.splits)
qed

lemma issue_receipt_others:
  assumes "key \<noteq> k" "room_ok key r"
  shows "keeps (others_room k room) (issue_receipt cfg e key r st done)"
proof -
  have "keeps (others_room k room) (set_room key (r\<lparr>final_ack_receipt := x\<rparr>))" for x
    using assms(1) room_ok_same [OF assms(2)] by (intro set_room_others) simp_all
  then show ?thesis
    unfolding issue_receipt_def Let_def
    by (intro keeps_intros) (auto intro!: keeps_intros split: option.splits ReceiptStage.splits)
qed

lemma finish_room_others:
  "key \<noteq> k \<Longrightarrow> room_ok key r \<Longrightarrow> keeps (others_room k room) (finish_room cfg e r x)"
  unfolding finish_room_def by (intro keeps_intros erase_room_others)

lemma abort_room_others:
  assumes "key \<noteq> k" "room_ok key r"
  shows "keeps (others_room k room) (abort_room cfg e key r why)"
proof -
  have "keeps (others_room k room) (set_room key (r\<lparr>active := False\<rparr>))"
    using assms(1) room_ok_same [OF assms(2)] by (intro set_room_others) simp_all
  moreover have "keeps (others_room k room) (set_room key (r\<lparr>active := False, session := ses\<rparr>))"
    if "abort w (session r) = Inr ses" for ses w
    using assms(1) room_ok_abort [OF assms(2) that] by (intro set_room_others) simp_all
  moreover have "keeps (others_room k room) (erase_room (rid r))"
    using assms(2,1) by (rule erase_room_others)
  ultimately show ?thesis
    unfolding abort_room_def Let_def
    by (auto intro!: keeps_intros keeps_slift_bind)
qed

lemmas others_rules = find_room_others keeps_if keeps_option keeps_options keeps_slift_bind
  abort_room_others issue_receipt_others finish_room_others set_room_others
  persist_upsert_others keeps_intros

lemma handle_sent_others:
  "\<not> member_room client room \<Longrightarrow> keeps (others_room k room) (handle_sent cfg e client m)"
  unfolding handle_sent_def Let_def
  by (rule others_rules | assumption | rule room_ok_rules | (simp; fail))+

lemma handle_received_others:
  "\<not> member_room client room \<Longrightarrow> keeps (others_room k room) (handle_received cfg e client m)"
  unfolding handle_received_def Let_def
  by (rule others_rules | assumption | rule room_ok_rules | (simp; fail))+

lemma handle_receipt_ack_others:
  "\<not> member_room client room \<Longrightarrow> keeps (others_room k room) (handle_receipt_ack cfg e client m)"
  unfolding handle_receipt_ack_def Let_def
  by (rule others_rules | assumption | rule room_ok_rules | (simp; fail))+

lemma handle_abort_others:
  "\<not> member_room client room \<Longrightarrow> keeps (others_room k room) (handle_abort cfg e client m)"
  unfolding handle_abort_def by (rule others_rules | assumption)+

lemma handle_room_relay_others:
  "\<not> member_room client room \<Longrightarrow> keeps (others_room k room) (handle_room_relay client t i bs)"
  unfolding handle_room_relay_def by (rule others_rules | assumption)+

lemma handle_trade_ephemeral_key_others:
  "\<not> member_room client room \<Longrightarrow> keeps (others_room k room) (handle_trade_ephemeral_key client m bs)"
  unfolding handle_trade_ephemeral_key_def
  by (rule others_rules handle_room_relay_others | assumption | erule room_ok_same | (simp; fail))+

lemma handle_cancel_offer_rooms: "keeps (\<lambda>s. rooms s = v) (handle_cancel_offer client m)"
  unfolding handle_cancel_offer_def
  by (rule keeps_option keeps_intros rooms_view.enqueue | rule keeps_smodify, (simp; fail))+

lemma handle_create_offer_rooms: "keeps (\<lambda>s. rooms s = v) (handle_create_offer e client m)"
  unfolding handle_create_offer_def Let_def
  by (rule keeps_prod keeps_intros rooms_view.enqueue | rule keeps_smodify, (simp; fail))+

lemma handle_join_offer_others:
  assumes "client_key client"
  shows "keeps (others_room k room) (handle_join_offer cfg e client m)"
proof (rule keepsI)
  fix s
  assume s: "others_room k room s"
  then have i: "lobby_inv s" and k: "map_of (rooms s) k = Some room"
    by (simp_all add: others_room_def)
  have new: "k \<noteq> j" if "map_of (lobby.offers s) j = Some offer" for j offer
    using i k that by (force simp: lobby_inv_def dest!: map_of_SomeD)
  show "wp (handle_join_offer cfg e client m) (\<lambda>_. others_room k room) (\<lambda>_. others_room k room) s"
    unfolding handle_join_offer_def
    using s i k new assms delete_offer_inv [OF i] open_room_inv [OF i]
    by (auto simp: wp_simps exn_simps not_le others_room_def split: sum.splits option.splits
        intro!: keeps_wp [OF others_frame [OF announce_room_keeps rooms_view.announce]])
qed

lemma dispatch_others:
  assumes "\<not> member_room client room" "client_key client" "\<forall>i\<in>set (random_ids e). is_room_id i"
  shows "keeps (others_room k room) (dispatch cfg e client t bs)"
  unfolding dispatch_def using assms
  by (intro keeps_if keeps_slift_bind keeps_intros handle_sent_others handle_received_others
      handle_receipt_ack_others handle_abort_others handle_room_relay_others
      handle_trade_ephemeral_key_others handle_join_offer_others
      others_frame [OF handle_recovery_keeps rooms_view.recovery]
      others_frame [OF handle_list_offers_keeps rooms_view.list_offers]
      others_frame [OF handle_get_candles_keeps rooms_view.get_candles]
      others_frame [OF handle_cancel_offer_keeps handle_cancel_offer_rooms]
      others_frame [OF handle_create_offer_keeps [OF assms(3,2)] handle_create_offer_rooms])

lemma modify_client_rooms [simp]: "rooms (modify_client i f s) = rooms s"
  by (simp add: modify_client_def)

lemma send_error_rooms [simp]: "rooms (send_error i why s) = rooms s"
  by (simp add: send_error_def enqueue_def action_defs split: sum.splits)

lemma process_frame_others:
  assumes "lobby_inv s" "map_of (rooms s) k = Some room" "\<not> member_room client room"
    "client_key client" "\<forall>i\<in>set (random_ids e). is_room_id i"
  shows "map_of (rooms (process_frame cfg e client t bs s)) k = Some room"
proof -
  obtain r s' where d: "dispatch cfg e client t bs s = (r, s')"
    by (cases "dispatch cfg e client t bs s")
  have "others_room k room s'"
    using keeps_result [OF dispatch_others [OF assms(3-5)] _ d] assms(1,2) by (simp add: others_room_def)
  then show ?thesis
    using assms(2) d by (auto simp: process_frame_def others_room_def split: sum.splits exn.splits)
qed

section \<open>Error replies and strikes\<close>

lemma safe_reason_encodes:
  "encode_error \<lparr>ErrorMessage.reason = safe_reason why\<rparr> = Inr (put_string (safe_reason why))"
proof -
  have "safe_reason why \<noteq> []" "length (safe_reason why) \<le> kMaxReasonLength"
    by (simp_all add: safe_reason_def Let_def)
  moreover have "\<forall>c\<in>set (safe_reason why). printable_char True c"
    by (auto simp: safe_reason_def Let_def printable_char_def)
  ultimately show ?thesis
    by (simp add: encode_error_def wire_run valid_simps)
qed

lemma send_error_queues: "send_error i why s = snd (enqueue i Error (put_string (safe_reason why)) s)"
  by (simp add: send_error_def safe_reason_encodes)

lemma strikes_send_error [simp]: "strikes (send_error i why s) = strikes s"
  using strikes_view.enqueue [of "strikes s"] by (simp add: send_error_queues keeps_def)

lemma strikes_alive [simp]:
  "strikes (modify_client i (\<lambda>c. if P c then c\<lparr>alive := b\<rparr> else c) s) = strikes s"
  "strikes (modify_client i (\<lambda>c. c\<lparr>alive := b\<rparr>) s) = strikes s"
  by (auto simp: strikes_def modify_client_def)

lemma strikes_strike:
  "strikes (modify_client i strike s) = map (\<lambda>(k, n). (k, if k = hex i then n + 1 else n)) (strikes s)"
  by (auto simp: strikes_def modify_client_def strike_def)

lemma process_frame_strikes:
  "strikes (process_frame cfg e client t bs s) =
     (if t = Disconnect then strikes s
      else case fst (dispatch cfg e client t bs s) of
        Inr _ \<Rightarrow> strikes s
      | Inl (BenignRejection _) \<Rightarrow> strikes s
      | Inl _ \<Rightarrow> map (\<lambda>(k, n). (k, if k = hex client then n + 1 else n)) (strikes s))"
  using strikes_view.dispatch_view [of cfg e client t bs s]
  by (auto simp: process_frame_def strikes_strike split: prod.splits sum.splits exn.splits)

lemma three_strikes_dead:
  assumes "(k, c) \<in> set (clients (modify_client i (\<lambda>c. if bad_messages c \<ge> 3 then c\<lparr>alive := False\<rparr> else c) s))"
    "k = hex i" "bad_messages c \<ge> 3"
  shows "\<not> alive c"
  using assms by (auto simp: modify_client_def split: if_splits)

lemma process_frame_three_strikes:
  assumes "t \<noteq> Disconnect" "fst (dispatch cfg e client t bs s) = Inl ex" "\<And>w. ex \<noteq> BenignRejection w"
    and "(hex client, c) \<in> set (clients (process_frame cfg e client t bs s))" "bad_messages c \<ge> 3"
  shows "\<not> alive c"
proof -
  obtain s1 where d: "dispatch cfg e client t bs s = (Inl ex, s1)"
    using assms(2) by (cases "dispatch cfg e client t bs s") simp
  have p: "process_frame cfg e client t bs s =
      modify_client client (\<lambda>c. if bad_messages c \<ge> 3 then c\<lparr>alive := False\<rparr> else c)
        (send_error client (what ex) (modify_client client strike s1))"
    using assms(1,3) by (cases ex) (auto simp: process_frame_def d)
  show ?thesis
    using assms(4) unfolding p by (rule three_strikes_dead [OF _ refl assms(5)])
qed

section \<open>A client that leaves\<close>

lemma after_removal_frame:
  fixes cfg e ns rs
  defines "rest \<equiv> sbind (notify_invites ns) (\<lambda>_. abort_affected cfg e rs)"
  shows "map fst (clients (snd (rest s))) = map fst (clients s)"
    and "lobby.offers (snd (rest s)) = lobby.offers s"
    and "rooms (snd (rest s)) = rooms s"
proof -
  have "keeps (\<lambda>s. map fst (clients s) = v) rest" "keeps (\<lambda>s. lobby.offers s = w) rest"
    "keeps (\<lambda>s. rooms s = x) rest" for v w x
    unfolding rest_def
    by (intro keeps_sbind keys_view.notify keys_view.abort_rest offers_view.notify offers_view.abort_rest
        rooms_view.notify rooms_view.abort_rest)+
  then show "map fst (clients (snd (rest s))) = map fst (clients s)"
    "lobby.offers (snd (rest s)) = lobby.offers s" "rooms (snd (rest s)) = rooms s"
    by (simp_all add: keeps_def)
qed

lemma remove_client_effect:
  assumes "remove_client cfg e client s = (r, s')" "nonzero client"
  shows "map fst (clients s') = filter (\<lambda>k. k \<noteq> hex client) (map fst (clients s))"
    and "lobby.offers s' = filter (\<lambda>(_, offer). OpenOffer.creator offer \<noteq> client) (lobby.offers s)"
    and "rooms s' = filter (\<lambda>(_, room). \<not> (member_room client room \<and> \<not> keep_room room)) (rooms s)"
proof -
  have key: "client_id_to_hex client = Inr (hex client)"
    using assms(2) by (simp add: exn_simps)
  define s1 where "s1 = s\<lparr>clients := AList.delete (hex client) (clients s),
    lobby.offers := filter (\<lambda>(_, offer). OpenOffer.creator offer \<noteq> client) (lobby.offers s),
    invites := filter (\<lambda>(_, invite). inviter invite \<noteq> client \<and> invitee invite \<noteq> client) (invites s),
    rooms := filter (\<lambda>(_, room). \<not> (member_room client room \<and> \<not> keep_room room)) (rooms s)\<rparr>"
  obtain ns rs where "sbind (notify_invites ns) (\<lambda>_. abort_affected cfg e rs) s1 = (r, s')"
    using assms(1) by (simp add: remove_client_def key s1_def)
  then have s': "s' = snd (sbind (notify_invites ns) (\<lambda>_. abort_affected cfg e rs) s1)"
    by simp
  show "map fst (clients s') = filter (\<lambda>k. k \<noteq> hex client) (map fst (clients s))"
    unfolding s' after_removal_frame
    by (simp add: s1_def AList.delete_eq filter_map comp_def split_def eq_commute [of "hex client"])
  show "lobby.offers s' = filter (\<lambda>(_, offer). OpenOffer.creator offer \<noteq> client) (lobby.offers s)"
    unfolding s' after_removal_frame by (simp add: s1_def)
  show "rooms s' = filter (\<lambda>(_, room). \<not> (member_room client room \<and> \<not> keep_room room)) (rooms s)"
    unfolding s' after_removal_frame by (simp add: s1_def)
qed

section \<open>Browsing offers\<close>

definition summaries :: "lobby \<Rightarrow> OfferSummary list" where
  "summaries s = sort_key OfferSummary.room_id
     (map (\<lambda>(_, offer). \<lparr>OfferSummary.room_id = oid offer, terms = OpenOffer.terms offer\<rparr>) (lobby.offers s))"

text \<open>A client that follows the cursors from the first page on.\<close>

fun browse :: "nat \<Rightarrow> lobby \<Rightarrow> u16 \<Rightarrow> RoomId option \<Rightarrow> OfferSummary list" where
  "browse 0 s lim cursor = []"
| "browse (Suc n) s lim cursor =
     (let page = offer_page s \<lparr>has_cursor = (cursor \<noteq> None),
            after_room_id = (case cursor of None \<Rightarrow> zero_id 32 | Some c \<Rightarrow> c), limit = lim\<rparr>
      in OfferListMessage.offers page @
         (if has_more page then browse n s lim (Some (next_cursor page)) else []))"

lemma dropWhile_strict:
  assumes "sorted_wrt (<) (map f (ys @ zs))" "ys \<noteq> []"
  shows "dropWhile (\<lambda>x. \<not> f (last ys) < (f x :: 'a :: linorder)) (ys @ zs) = zs"
proof -
  have "\<not> f (last ys) < f x" if "x \<in> set ys" for x
  proof -
    obtain as where as: "ys = as @ [last ys]"
      using assms(2) by (metis append_butlast_last_id)
    have "x = last ys \<or> x \<in> set as"
      using that by (subst (asm) as) auto
    moreover have "x \<in> set as \<Longrightarrow> f x < f (last ys)"
      using assms(1) by (subst (asm) as) (auto simp: sorted_wrt_append)
    ultimately show ?thesis
      by auto
  qed
  moreover have "\<forall>z\<in>set zs. f (last ys) < f z"
    using assms by (auto simp: sorted_wrt_append)
  ultimately show ?thesis
    by (cases zs) (simp_all add: dropWhile_append2 del: set_append)
qed

lemma browse_rest:
  assumes "sorted_wrt (<) (map OfferSummary.room_id (summaries s))" "lim \<noteq> 0"
    and "summaries s = ys @ zs" "length zs < n"
  shows "browse n s lim (if ys = [] then None else Some (OfferSummary.room_id (last ys))) = zs"
  using assms(3,4)
proof (induction n arbitrary: ys zs)
  case (Suc n)
  let ?lim = "unat lim"
  let ?cursor = "if ys = [] then None else Some (OfferSummary.room_id (last ys))"
  have pos: "0 < ?lim"
    using assms(2) by (simp add: unat_gt_0)
  have "dropWhile (\<lambda>x. \<not> OfferSummary.room_id (last ys) < OfferSummary.room_id x) (summaries s) = zs" if "ys \<noteq> []"
    using dropWhile_strict [of OfferSummary.room_id ys zs] assms(1) Suc.prems(1) that by simp
  then have page: "offer_page s \<lparr>has_cursor = (?cursor \<noteq> None),
      after_room_id = (case ?cursor of None \<Rightarrow> zero_id 32 | Some c \<Rightarrow> c), limit = lim\<rparr> =
    \<lparr>OfferListMessage.offers = take ?lim zs, has_more = (?lim < length zs),
     next_cursor = (if ?lim < length zs then OfferSummary.room_id (last (take ?lim zs)) else zero_id 32)\<rparr>"
    using Suc.prems(1) by (auto simp: offer_page_def summaries_def [symmetric] Let_def)
  show ?case
  proof (cases "?lim < length zs")
    case True
    then have "take ?lim zs \<noteq> []"
      using pos by auto
    then have "browse n s lim (Some (OfferSummary.room_id (last (take ?lim zs)))) = drop ?lim zs"
      using Suc.IH [of "ys @ take ?lim zs" "drop ?lim zs"] Suc.prems True pos by simp
    then show ?thesis
      using True unfolding browse.simps page by simp
  next
    case False
    then show ?thesis
      unfolding browse.simps page by simp
  qed
qed simp

lemma summaries_strict:
  assumes "offers_inv (lobby.offers s)"
  shows "sorted_wrt (<) (map OfferSummary.room_id (summaries s))"
proof -
  have "distinct (map (\<lambda>(_, offer). oid offer) (lobby.offers s))"
  proof -
    have "map fst (lobby.offers s) = map hex (map (\<lambda>(_, offer). oid offer) (lobby.offers s))"
      using assms by (auto simp: offers_inv_def offer_ok_def)
    moreover have "distinct (map fst (lobby.offers s))"
      using assms by (simp add: offers_inv_def)
    ultimately have "distinct (map hex (map (\<lambda>(_, offer). oid offer) (lobby.offers s)))"
      by metis
    then show ?thesis
      by (simp add: distinct_map inj_on_def)
  qed
  then have "distinct (map OfferSummary.room_id (summaries s))"
    by (auto simp: summaries_def distinct_map inj_on_def split_def)
  then show ?thesis
    by (simp add: strict_sorted_iff summaries_def)
qed

lemma browse_all:
  assumes "offers_inv (lobby.offers s)" "lim \<noteq> 0" "length (lobby.offers s) < n"
  shows "browse n s lim None = summaries s"
  using browse_rest [OF summaries_strict [OF assms(1)] assms(2), of "[]" "summaries s" n] assms(3)
  by (simp add: summaries_def)

section \<open>Price series\<close>

lemma canonical_pair_sym: "canonical_pair a b = canonical_pair b a"
  by (auto simp: canonical_pair_def)

lemma pair_key_inj:
  assumes "CHR ''/'' \<notin> set a" "CHR ''/'' \<notin> set c" "pair_key (a, b) = pair_key (c, d)"
  shows "a = c \<and> b = d"
  using assms
proof (induction a arbitrary: c)
  case Nil
  then show ?case
    by (cases c) (auto simp: pair_key_def)
next
  case (Cons x a)
  then show ?case
    by (cases c) (auto simp: pair_key_def)
qed

lemma asset_has_no_slash: "validate_asset a = Inr () \<Longrightarrow> CHR ''/'' \<notin> set a"
  by (auto simp: valid_simps asset_char_def isalnum_def)

section \<open>Confirming a fee\<close>

text \<open>The room stored under a key, if there is one, no longer takes part in the protocol.\<close>

definition out_of_service :: "string \<Rightarrow> lobby \<Rightarrow> bool" where
  "out_of_service k s \<longleftrightarrow> (\<forall>room. map_of (rooms s) k = Some room \<longrightarrow> \<not> active room)"

lemma out_of_service_frame:
  assumes "\<And>v. keeps (\<lambda>s. rooms s = v) m"
  shows "keeps (out_of_service k) m"
  using assms unfolding keeps_def out_of_service_def by simp

lemma erase_room_out_of_service: "keeps (out_of_service k) (erase_room i)"
  unfolding erase_room_def
  by (intro keeps_sbind keeps_basic keeps_smodify) (auto simp: out_of_service_def delete_conv' split: if_splits)

lemma finish_room_out_of_service: "keeps (out_of_service k) (finish_room cfg e room r)"
  unfolding finish_room_def
  by (intro keeps_sbind keeps_basic erase_room_out_of_service
      out_of_service_frame [OF rooms_view.persist_remove] out_of_service_frame [OF rooms_view.send_to_room]
      out_of_service_frame [OF record_completed_trade_rooms])

lemma completion_receipt_rooms:
  "keeps (\<lambda>s. rooms s = v) (issue_receipt cfg e key room SettlementCompleted done)"
  unfolding issue_receipt_def Let_def
  by (intro keeps_sbind keeps_basic) (auto intro!: keeps_basic split: option.splits)

lemma map_of_set_same: "map_of rs k = Some old \<Longrightarrow> map_of (map (\<lambda>(j, r). (j, if j = k then x else r)) rs) k = Some x"
  by (induction rs) auto

lemma confirm_fee_stops_room:
  assumes "map_of (rooms s) (hex i) = Some room" "nonzero i" "active room"
    and "MediatorSession.state (session room) = WaitingForFeeConfirmation"
    and "try_confirm_fee_locked cfg e i s = (r, s')"
  shows "out_of_service (hex i) s'"
proof -
  let ?room = "\<lambda>ses. room\<lparr>session := ses, active := False\<rparr>"
  define rest where "rest ses = sbind (issue_receipt cfg e (hex i) (?room ses) SettlementCompleted True) (\<lambda>r.
     sbind (finish_room cfg e (?room ses) r) (\<lambda>_. sreturn True))" for ses
  obtain ses where ses: "confirm_fee_received (session room) = Inr ses"
    using assms(4) by (simp add: confirm_fee_received_def)
  have key: "room_id_to_hex i = Inr (hex i)"
    using assms(2) by (simp add: exn_simps)
  define s1 where "s1 = s\<lparr>rooms := map (\<lambda>(j, r). (j, if j = hex i then ?room ses else r)) (rooms s)\<rparr>"
  have run: "rest ses s1 = (r, s')"
    using assms by (simp add: try_confirm_fee_locked_def key ses rest_def s1_def set_room_def Let_def)
  have "out_of_service (hex i) s1"
    using assms(1) by (simp add: out_of_service_def s1_def map_of_set_same)
  moreover have "keeps (out_of_service (hex i)) (rest ses)"
    unfolding rest_def
    by (intro keeps_sbind keeps_basic finish_room_out_of_service out_of_service_frame [OF completion_receipt_rooms])
  ultimately show ?thesis
    using keeps_result [of "out_of_service (hex i)" "rest ses" s1 r] run by simp
qed

end
