(* ===== verification/Restart.thy ===== *)
theory Restart
  imports Lobby_Inv
begin

text \<open>
  Crash recovery: what the persisted-room file holds after a successful write, that a snapshot
  restores to the session it was taken from (less the addresses, keys and acknowledgements the file
  format leaves out), and that a mediator started on the file has every persisted room again.
\<close>

section \<open>Snapshots\<close>

lemma runs_bounds:
  assumes "runs s g"
  shows "MediatorSession.round_index s \<le> rounds (session_terms s)" "MediatorSession.leg_index s \<le> 1" "MediatorSession.state s \<noteq> SessionStateRaw b"
    "wf_static s"
proof -
  obtain st where st: "st \<noteq> Aborted" "session_inv (s\<lparr>MediatorSession.state := st\<rparr>)"
    using runs_ledger [OF assms] by (auto simp: ledger_ok_def)
  then show "wf_static s"
    by (simp add: session_inv_def wf_static_def)
  then have r: "0 < rounds (session_terms s)"
    using round_zero [OF static_rounds] by simp
  have le: "unat (MediatorSession.round_index s) + 1 = unat (rounds (session_terms s)) \<Longrightarrow> MediatorSession.round_index s \<le> rounds (session_terms s)"
    by (simp add: word_le_nat_alt)
  show "MediatorSession.round_index s \<le> rounds (session_terms s)" "MediatorSession.leg_index s \<le> 1"
    using st r le
    by (cases st; auto simp: session_inv_def leg_at_def fee_leg_at_def gate_at_def split: FeePosition.splits if_splits)+
  show "MediatorSession.state s \<noteq> SessionStateRaw b"
    using runs_inv [OF assms] by (auto simp: session_inv_def)
qed

lemma snapshot_wf: "room_ok k room \<Longrightarrow> wf_room (persisted_room_snapshot ts room)"
  using runs_bounds
  by (auto simp: wf_room_def persisted_room_snapshot_def room_ok_def client_key_def state_byte_roundtrip)

definition restored_session :: "bool \<Rightarrow> FeePosition \<Rightarrow> MediatorSession \<Rightarrow> MediatorSession" where
  "restored_session confirm pos s = s\<lparr>
     MediatorSession.creator := (MediatorSession.creator s)\<lparr>CreateRoomMessage.receive_address_a := []\<rparr>,
     MediatorSession.receive_address_b := [],
     final_receipt_acked_a := False, final_receipt_acked_b := False,
     MediatorSession.require_fee_confirmation := confirm, MediatorSession.fee_position := pos\<rparr>"

lemma restored_session_fields:
  "restored_session confirm pos s =
     \<lparr>MediatorSession.creator = \<lparr>CreateRoomMessage.terms = session_terms s, receive_address_a = []\<rparr>,
      room_id = MediatorSession.room_id s, receive_address_b = [], fee = MediatorSession.fee s,
      state = MediatorSession.state s, round_index = MediatorSession.round_index s,
      leg_index = MediatorSession.leg_index s, abort_reason = MediatorSession.abort_reason s,
      final_receipt_acked_a = False, final_receipt_acked_b = False,
      require_fee_confirmation = confirm, fee_position = pos\<rparr>"
  by (cases s, rename_tac c i b f st n l why a1 a2 q p, case_tac c) (simp add: restored_session_def)

definition restored_room :: "config \<Rightarrow> PersistedRoom \<Rightarrow> RoomEntry" where
  "restored_room cfg p =
     (case room_from_persisted p (config.require_fee_confirmation cfg) (config.fee_position cfg) of
        Inr room \<Rightarrow> room)"

lemma snapshot_restores:
  assumes "room_ok k room"
  shows "room_from_persisted (persisted_room_snapshot ts room) confirm pos =
    Inr (room_entry (rid room) (RoomEntry.party_a room) (RoomEntry.party_b room)
      (restored_session confirm pos (session room))
      (MediatorSession.state (session room) \<noteq> SessionComplete \<and> MediatorSession.state (session room) \<noteq> Aborted))"
proof -
  obtain g where "runs (session room) g"
    using assms by (auto simp: room_ok_def)
  note b = runs_bounds [OF this]
  have "validate_terms (session_terms (session room)) = Inr ()"
    "validate_room_id (rid room) = Inr ()" "validate_fee_terms (MediatorSession.fee (session room)) = Inr ()"
    using b(4) assms by (auto simp: wf_static_def room_ok_def valid_simps valid_terms_def valid_fee_def)
  moreover have "\<not> rounds (session_terms (session room)) < MediatorSession.round_index (session room)"
    "\<not> 1 < MediatorSession.leg_index (session room)"
    using b(1,2) by simp_all
  ultimately show ?thesis
    using assms
    by (simp add: room_from_persisted_def persisted_room_snapshot_def restore_def restored_session_fields room_ok_def)
qed

section \<open>What is on disk after a write\<close>

lemma update_values:
  assumes "\<forall>p\<in>snd ` set ps. P p" "P x" "p \<in> set (map snd (AList.update k x ps))"
  shows "P p"
proof -
  obtain y where "y \<in> set (AList.update k x ps)" "p = snd y"
    using assms(3) unfolding set_map by (rule imageE)
  moreover from this have "y = (k, x) \<or> y \<in> set ps"
    using update_subset [of k x ps] by blast
  ultimately show ?thesis
    using assms(1,2) by (metis image_eqI snd_conv)
qed

lemma upsert_durable:
  assumes "persist_room_upsert cfg e room s = (Inr (), s')" "room_persistence_path cfg \<noteq> []"
    and "\<forall>p\<in>snd ` set (persisted_rooms s). wf_room p" "wf_room (persisted_room_snapshot (now e) room)"
  shows "load_persisted_rooms (room_persistence_path cfg) (disk s') =
      Inr \<lparr>format_version = kPersistedRoomFormatVersion, rooms = map snd (persisted_rooms s')\<rparr>"
    and "map_of (persisted_rooms s') = (map_of (persisted_rooms s))(hex (rid room) \<mapsto>
           persisted_room_snapshot (now e) room)"
proof -
  let ?ps = "AList.update (hex (rid room)) (persisted_room_snapshot (now e) room) (persisted_rooms s)"
  let ?file = "\<lparr>format_version = kPersistedRoomFormatVersion, rooms = map snd ?ps\<rparr>"
  have key: "room_id_to_hex (rid room) = Inr (hex (rid room))"
    using assms(1,2)
    by (cases "room_id_to_hex (rid room)") (auto simp: persist_room_upsert_def sthrow_def exn_simps)
  obtain r fs where w: "write_persisted_rooms (sys e) (room_persistence_path cfg) ?file (disk s) = (r, fs)"
    by (rule prod.exhaust)
  have s': "r = Inr ()" "s' = s\<lparr>persisted_rooms := ?ps, disk := fs\<rparr>"
    using assms(1,2) w
    by (simp_all add: persist_room_upsert_def write_persisted_rooms_locked_def on_disk_def key)
  have "wf_file ?file"
    using update_values [of "persisted_rooms s" wf_room, OF assms(3,4)] by (simp add: wf_file_def)
  then show "load_persisted_rooms (room_persistence_path cfg) (disk s') =
      Inr \<lparr>format_version = kPersistedRoomFormatVersion, rooms = map snd (persisted_rooms s')\<rparr>"
    using written_loads [of "sys e" "room_persistence_path cfg" ?file "disk s" fs] w by (simp add: s')
  show "map_of (persisted_rooms s') = (map_of (persisted_rooms s))(hex (rid room) \<mapsto>
      persisted_room_snapshot (now e) room)"
    by (simp add: s' update_conv')
qed

section \<open>Starting again\<close>

lemma restore_rooms_ok:
  assumes "\<forall>p\<in>set ps. nonzero (PersistedRoom.room_id p) \<and>
      (\<exists>room. room_from_persisted p (config.require_fee_confirmation cfg) (config.fee_position cfg) = Inr room)"
    and "distinct (map (\<lambda>p. hex (PersistedRoom.room_id p)) ps)"
    and "\<forall>p\<in>set ps. map_of (rooms s) (hex (PersistedRoom.room_id p)) = None"
  shows "\<exists>s'. restore_rooms cfg ps n s = (Inr (n + length ps), s') \<and>
     rooms s' = rev (map (\<lambda>p. (hex (PersistedRoom.room_id p), restored_room cfg p)) ps) @ rooms s"
  using assms
proof (induction ps arbitrary: n s)
  case (Cons p ps)
  obtain room where room: "room_from_persisted p (config.require_fee_confirmation cfg) (config.fee_position cfg) = Inr room"
    using Cons.prems(1) by auto
  let ?key = "hex (PersistedRoom.room_id p)"
  have key: "room_id_to_hex (PersistedRoom.room_id p) = Inr ?key"
    using Cons.prems(1) by (simp add: exn_simps)
  let ?s = "s\<lparr>rooms := (?key, room) # rooms s, persisted_rooms := AList.update ?key p (persisted_rooms s)\<rparr>"
  have "\<exists>s'. restore_rooms cfg ps (n + 1) ?s = (Inr (n + 1 + length ps), s') \<and>
     rooms s' = rev (map (\<lambda>p. (hex (PersistedRoom.room_id p), restored_room cfg p)) ps) @ rooms ?s"
    using Cons.prems by (intro Cons.IH) (auto simp: image_iff)
  then show ?case
    using Cons.prems(3) by (simp add: key room restored_room_def)
qed (simp add: sreturn_def)

lemma persisted_restores:
  assumes "persisted_inv ps" "(k, p) \<in> set ps"
  shows "wf_room p" "k = hex (PersistedRoom.room_id p)" "nonzero (PersistedRoom.room_id p)"
    "\<exists>room. room_from_persisted p confirm pos = Inr room"
proof -
  obtain room ts where r: "room_ok k room" and p: "p = persisted_room_snapshot ts room"
    using assms by (auto simp: persisted_inv_def)
  show "wf_room p" "\<exists>room. room_from_persisted p confirm pos = Inr room"
    unfolding p using snapshot_wf [OF r] snapshot_restores [OF r] by auto
  show "k = hex (PersistedRoom.room_id p)" "nonzero (PersistedRoom.room_id p)"
    using r by (simp_all add: p room_ok_def persisted_room_snapshot_def)
qed

lemma startup_restores:
  assumes "room_persistence_path cfg \<noteq> []" "persisted_inv ps"
    and "load_persisted_rooms (room_persistence_path cfg) d =
      Inr \<lparr>format_version = kPersistedRoomFormatVersion, rooms = map snd ps\<rparr>"
  shows "\<exists>s. load_persisted_rooms_at_startup cfg (empty_lobby f d) = (Inr (), s) \<and>
     rooms_restored_at_startup s = length ps \<and>
     rooms s = rev (map (\<lambda>(k, p). (k, restored_room cfg p)) ps)"
proof -
  let ?s = "(empty_lobby f d)\<lparr>rooms_restored_at_startup := 0\<rparr>"
  note p = persisted_restores [OF assms(2)]
  have keys: "map (\<lambda>p. hex (PersistedRoom.room_id p)) (map snd ps) = map fst ps"
    using p(2) by auto
  then have dist: "distinct (map (\<lambda>p. hex (PersistedRoom.room_id p)) (map snd ps))"
    using assms(2) by (simp only: persisted_inv_def)
  have entries: "map (\<lambda>p. (hex (PersistedRoom.room_id p), restored_room cfg p)) (map snd ps) =
      map (\<lambda>(k, p). (k, restored_room cfg p)) ps"
    using p(2) by auto
  obtain s' where "restore_rooms cfg (map snd ps) 0 ?s = (Inr (length ps), s')"
    "rooms s' = rev (map (\<lambda>(k, p). (k, restored_room cfg p)) ps)"
    using restore_rooms_ok [of "map snd ps" cfg ?s 0, OF _ dist] p(3,4)
    unfolding entries by (force simp: empty_lobby_def)
  then show ?thesis
    using assms(1,3) by (cases "ps = []")
      (auto simp: load_persisted_rooms_at_startup_def empty_lobby_def sbind_def action_defs)
qed

text \<open>A room whose snapshot was written is there after a restart.\<close>

lemma persisted_room_survives:
  assumes "lobby_inv s" "room_ok key room" "room_persistence_path cfg \<noteq> []"
    and "persist_room_upsert cfg e room s = (Inr (), s')"
  shows "\<exists>s2. load_persisted_rooms_at_startup cfg (empty_lobby f (disk s')) = (Inr (), s2) \<and>
     rooms_restored_at_startup s2 = length (persisted_rooms s') \<and>
     map_of (rooms s2) = map_option (restored_room cfg) \<circ> map_of (persisted_rooms s') \<and>
     map_of (rooms s2) key = Some (room_entry (rid room) (RoomEntry.party_a room) (RoomEntry.party_b room)
       (restored_session (config.require_fee_confirmation cfg) (config.fee_position cfg) (session room))
       (MediatorSession.state (session room) \<noteq> SessionComplete \<and> MediatorSession.state (session room) \<noteq> Aborted))"
proof -
  have "lobby_inv s'"
    using keeps_result [OF persist_upsert_keeps [OF assms(2)] assms(1,4)] .
  then have inv: "persisted_inv (persisted_rooms s')"
    by (simp add: lobby_inv_def)
  have wf: "\<forall>p\<in>snd ` set (persisted_rooms s). wf_room p"
    using persisted_restores(1) assms(1) by (auto simp: lobby_inv_def)
  note d = upsert_durable [OF assms(4,3) wf snapshot_wf [OF assms(2)]]
  obtain s2 where s2: "load_persisted_rooms_at_startup cfg (empty_lobby f (disk s')) = (Inr (), s2)"
    "rooms_restored_at_startup s2 = length (persisted_rooms s')"
    "rooms s2 = rev (map (\<lambda>(k, p). (k, restored_room cfg p)) (persisted_rooms s'))"
    using startup_restores [OF assms(3) inv d(1)] by auto
  have "map_of (rooms s2) = map_of (map (\<lambda>(k, p). (k, restored_room cfg p)) (persisted_rooms s'))"
    unfolding s2(3) using inv
    by (intro map_of_inject_set [THEN iffD2]) (auto simp: persisted_inv_def comp_def split_def rev_map [symmetric])
  then have "map_of (rooms s2) = map_option (restored_room cfg) \<circ> map_of (persisted_rooms s')"
    by (simp add: map_of_map)
  moreover from this have "map_of (rooms s2) key = Some (restored_room cfg (persisted_room_snapshot (now e) room))"
    using assms(2) by (simp add: d(2) room_ok_def)
  then have "map_of (rooms s2) key = Some (room_entry (rid room) (RoomEntry.party_a room) (RoomEntry.party_b room)
       (restored_session (config.require_fee_confirmation cfg) (config.fee_position cfg) (session room))
       (MediatorSession.state (session room) \<noteq> SessionComplete \<and> MediatorSession.state (session room) \<noteq> Aborted))"
    using snapshot_restores [OF assms(2)] by (simp add: restored_room_def)
  ultimately show ?thesis
    using s2 by auto
qed

section \<open>Writes succeed when the system calls do\<close>

lemma runs_reason: "runs s g \<Longrightarrow> length (MediatorSession.abort_reason s) \<le> kMaxReasonLength"
proof (induction rule: runs.induct)
  case (runs_event s g e s')
  then show ?case
  proof (cases e)
    case (AckFinal p)
    then show ?thesis
      using runs_event by (auto elim!: ack_effect)
  qed (use runs_event in \<open>auto simp: join_def sender_reported_sent_def receiver_reported_received_def
       advance_after_receipt_def confirm_fee_received_def abort_def exn_simps Let_def split: if_splits\<close>)
qed (auto simp: new_session_def exn_simps)

lemma snapshots_encode:
  assumes "persisted_inv ps" "length ps \<le> kMaxRoomCount"
  shows "\<exists>bs. encode_persisted_rooms \<lparr>format_version = kPersistedRoomFormatVersion, rooms = map snd ps\<rparr> = Inr bs"
proof -
  have "\<forall>r\<in>set (map snd ps). valid_terms (PersistedRoom.terms r) \<and> valid_fee (PersistedRoom.fee r) \<and>
      length (PersistedRoom.abort_reason r) \<le> kMaxReasonLength"
  proof
    fix p
    assume "p \<in> set (map snd ps)"
    then obtain k room ts g where "p = persisted_room_snapshot ts room" "runs (session room) g"
      using assms(1) by (fastforce simp: persisted_inv_def room_ok_def)
    then show "valid_terms (PersistedRoom.terms p) \<and> valid_fee (PersistedRoom.fee p) \<and>
        length (PersistedRoom.abort_reason p) \<le> kMaxReasonLength"
      using runs_bounds(4) runs_reason by (auto simp: persisted_room_snapshot_def wf_static_def)
  qed
  then show ?thesis
    using assms(2) by (simp add: encode_persisted_rooms_def wire_simps exn_simps)
qed

lemma persist_upsert_returns:
  assumes "lobby_inv s" "room_ok key room" "length (persisted_rooms s) < kMaxRoomCount"
    and "open_ok (sys e)" "write_ok (sys e)" "close_ok (sys e)" "rename_ok (sys e)"
  shows "\<exists>s'. persist_room_upsert cfg e room s = (Inr (), s')"
proof (cases "room_persistence_path cfg = []")
  case False
  let ?ps = "AList.update key (persisted_room_snapshot (now e) room) (persisted_rooms s)"
  have key: "room_id_to_hex (rid room) = Inr key"
    using assms(2) by (simp add: room_ok_def exn_simps)
  have "length (AList.update k v al) \<le> Suc (length al)" for k v and al :: "(string \<times> PersistedRoom) list"
    by (induction al) auto
  then have "length ?ps \<le> kMaxRoomCount"
    using assms(3) by (meson Suc_leI order_trans)
  moreover have "persisted_inv ?ps"
    using persisted_inv_update [OF _ assms(2)] assms(1) by (simp add: lobby_inv_def)
  ultimately obtain bs where
    "encode_persisted_rooms \<lparr>format_version = kPersistedRoomFormatVersion, rooms = map snd ?ps\<rparr> = Inr bs"
    using snapshots_encode by blast
  then have "fst (write_persisted_rooms (sys e) (room_persistence_path cfg)
      \<lparr>format_version = kPersistedRoomFormatVersion, rooms = map snd ?ps\<rparr> (disk s)) = Inr ()"
    using assms(4-7) by (simp add: write_persisted_rooms_def Let_def action_defs)
  then show ?thesis
    using False by (auto simp: persist_room_upsert_def write_persisted_rooms_locked_def on_disk_def key
        split: prod.splits)
qed (simp add: persist_room_upsert_def action_defs)

end
