(* ===== verification/Receipt_Issue.thy ===== *)
theory Receipt_Issue
  imports Lobby_Inv
begin

text \<open>
  The receipts the lobby issues: what a successful \<open>issue_receipt\<close> returns, and that the two receipts
  of a room, the one for the penultimate obligations and the one for the completed settlement, form
  a chain that \<open>verify_receipt_chain\<close> accepts under the mediator's public keys.
\<close>

lemma issue_receipt_returns:
  assumes "issue_receipt cfg e key room st done s = (Inr r, s')"
  obtains n prev encoded where
    "encode_terms (session_terms (session room)) = Inr encoded"
    "receipt_fields r = receipt_fields_for cfg e room st done (trade_payload_hash (cr e) encoded) n prev"
    "sign_receipt (cr e) (receipt_seed cfg) (receipt_fields r) = Inr (IssuedReceipt.mediator_signature r)"
    "sign_receipt_mldsa65 (cr e) (receipt_seed_mldsa65 cfg) (receipt_fields r) =
       Inr (IssuedReceipt.mediator_signature_mldsa65 r)"
    "case (st, final_ack_receipt room) of (SettlementCompleted, Some r0) \<Rightarrow> entry_link (cr e) r0 = Inr prev
     | _ \<Rightarrow> prev = zero_id 32"
    "ephemeral_key_a room \<noteq> None" "ephemeral_key_b room \<noteq> None"
    "ephemeral_key_a_mldsa65 room \<noteq> None" "ephemeral_key_b_mldsa65 room \<noteq> None" "random_nonce e = Some n"
  using assms that
  by (auto simp: issue_receipt_def returns_simps Let_def exn_simps entry_link_def
      split: option.splits ReceiptStage.splits if_splits)

text \<open>What the code relies on of the signature schemes: a signature made with the mediator's seed
  verifies under its public key.\<close>

definition signatures_verify :: "crypto \<Rightarrow> config \<Rightarrow> bool" where
  "signatures_verify c cfg \<longleftrightarrow>
     (\<forall>m sig. ed25519_sign c (receipt_seed cfg) m = Inr sig \<longrightarrow>
        ed25519_verify c (receipt_public_key cfg) m sig = Inr True) \<and>
     (\<forall>m sig. mldsa65_sign c (receipt_seed_mldsa65 cfg) m = Inr sig \<longrightarrow>
        mldsa65_verify c (receipt_public_key_mldsa65 cfg) m sig = Inr True)"

lemma issued_verifies:
  assumes "issue_receipt cfg e key room st done s = (Inr r, s')" "signatures_verify (cr e) cfg"
  shows "entry_verified (cr e) (receipt_public_key cfg) (receipt_public_key_mldsa65 cfg) r"
  using assms(1)
proof (rule issue_receipt_returns)
  assume "sign_receipt (cr e) (receipt_seed cfg) (receipt_fields r) = Inr (IssuedReceipt.mediator_signature r)"
    "sign_receipt_mldsa65 (cr e) (receipt_seed_mldsa65 cfg) (receipt_fields r) =
       Inr (IssuedReceipt.mediator_signature_mldsa65 r)"
  then show ?thesis
    using assms(2)
    by (auto simp: entry_verified_def sign_receipt_def sign_receipt_mldsa65_def verify_receipt_def
        verify_receipt_mldsa65_def signatures_verify_def exn_simps)
qed

text \<open>The members of a room a receipt speaks about.\<close>

definition same_subject :: "RoomEntry \<Rightarrow> RoomEntry \<Rightarrow> bool" where
  "same_subject room room' \<longleftrightarrow> rid room' = rid room \<and>
     session_terms (session room') = session_terms (session room) \<and>
     ephemeral_key_a room' = ephemeral_key_a room \<and> ephemeral_key_b room' = ephemeral_key_b room \<and>
     ephemeral_key_a_mldsa65 room' = ephemeral_key_a_mldsa65 room \<and>
     ephemeral_key_b_mldsa65 room' = ephemeral_key_b_mldsa65 room"

lemma verified_link:
  assumes "entry_verified c pk pk2 r"
  shows "\<exists>h. entry_link c r = Inr h" "ReceiptFields.stage (receipt_fields r) \<noteq> ReceiptStageRaw b"
proof -
  obtain bs where "encode_receipt_signed_payload (receipt_fields r) = Inr bs"
    using assms by (auto simp: entry_verified_def verify_receipt_def exn_simps)
  then show "\<exists>h. entry_link c r = Inr h" "ReceiptFields.stage (receipt_fields r) \<noteq> ReceiptStageRaw b"
    by (auto simp: entry_link_ok encode_receipt_signed_payload_ok)
qed

lemma issued_chain_verifies:
  assumes first: "issue_receipt cfg e key room PenultimateObligationsComplete False s = (Inr r3, s')"
    and second: "issue_receipt cfg e' key room' SettlementCompleted True t = (Inr r4, t')"
    and stored: "final_ack_receipt room' = Some r3" and same: "same_subject room room'"
    and crypto: "cr e' = cr e" "signatures_verify (cr e) cfg"
  shows "verify_receipt_chain (cr e) [r3, r4] (receipt_public_key cfg) (receipt_public_key_mldsa65 cfg) = Inr ()"
proof -
  note v3 = issued_verifies [OF first crypto(2)]
  have v4: "entry_verified (cr e) (receipt_public_key cfg) (receipt_public_key_mldsa65 cfg) r4"
    using issued_verifies [OF second] crypto by simp
  obtain n3 enc where f3: "encode_terms (session_terms (session room)) = Inr enc"
    "receipt_fields r3 = receipt_fields_for cfg e room PenultimateObligationsComplete False
       (trade_payload_hash (cr e) enc) n3 (zero_id 32)"
    using first by (rule issue_receipt_returns) auto
  obtain n4 prev where f4: "receipt_fields r4 = receipt_fields_for cfg e' room' SettlementCompleted True
       (trade_payload_hash (cr e) enc) n4 prev" "entry_link (cr e) r3 = Inr prev"
    using second by (rule issue_receipt_returns) (use stored same crypto(1) f3(1) in \<open>auto simp: same_subject_def\<close>)
  have "same_room (receipt_fields r4) (receipt_fields r3)"
    using same by (simp add: f3(2) f4(1) same_room_def receipt_fields_for_def same_subject_def)
  moreover have "linked (cr e) (zero_id 32) [r3, r4]"
    using f4(2) verified_link(1) [OF v4] by (auto simp: f3(2) f4(1) receipt_fields_for_def)
  moreover have "stage_number r3 < stage_number r4"
    by (simp add: stage_number_def f3(2) f4(1) receipt_fields_for_def)
  moreover have "same_room (receipt_fields r3) (receipt_fields r3)"
    by (simp add: same_room_def)
  ultimately show ?thesis
    using v3 v4 verified_link(2) [OF v3] verified_link(2) [OF v4]
    unfolding verify_receipt_chain_def list.case chain_loop_ok by simp
qed

text \<open>Issuing succeeds once the four keys are announced and the generator and the signers work.\<close>

lemma slift_is_sreturn: "slift (Inr h) = sreturn h"
  by (simp add: fun_eq_iff action_defs)

lemma issue_receipt_succeeds:
  assumes keys: "ephemeral_key_a room \<noteq> None" "ephemeral_key_b room \<noteq> None"
      "ephemeral_key_a_mldsa65 room \<noteq> None" "ephemeral_key_b_mldsa65 room \<noteq> None"
    and terms: "valid_terms (session_terms (session room))" and n: "random_nonce e = Some n"
    and sign: "\<And>m. \<exists>sig. ed25519_sign (cr e) (receipt_seed cfg) m = Inr sig"
      "\<And>m. \<exists>sig. mldsa65_sign (cr e) (receipt_seed_mldsa65 cfg) m = Inr sig"
    and mid: "length (config.mediator_id cfg) \<le> kReceiptMaxMediatorIdLength"
    and st: "st = PenultimateObligationsComplete \<or> st = SettlementCompleted"
    and prev: "\<And>r0. final_ack_receipt room = Some r0 \<Longrightarrow> \<exists>h. entry_link (cr e) r0 = Inr h"
  shows "\<exists>r s'. issue_receipt cfg e key room st done s = (Inr r, s')"
proof -
  obtain enc where enc: "encode_terms (session_terms (session room)) = Inr enc"
    using terms by (simp add: encode_terms_ok)
  obtain h where h: "(case (st, final_ack_receipt room) of
      (SettlementCompleted, Some r) \<Rightarrow>
        slift (receipt_chain_link_hash (cr e) (receipt_fields r) (IssuedReceipt.mediator_signature r)
          (IssuedReceipt.mediator_signature_mldsa65 r))
      | _ \<Rightarrow> sreturn (zero_id 32)) = (sreturn h :: (lobby, bytes) action)"
    using st prev by (cases "final_ack_receipt room") (auto simp: entry_link_def slift_is_sreturn)
  let ?f = "receipt_fields_for cfg e room st done (trade_payload_hash (cr e) enc) n h"
  have "encode_receipt_signed_payload ?f = Inr (put_receipt_payload ?f)"
    using st mid by (auto simp: encode_receipt_signed_payload_ok receipt_fields_for_def)
  then obtain sig sig2 where sigs: "sign_receipt (cr e) (receipt_seed cfg) ?f = Inr sig"
    "sign_receipt_mldsa65 (cr e) (receipt_seed_mldsa65 cfg) ?f = Inr sig2"
    using sign by (fastforce simp: sign_receipt_def sign_receipt_mldsa65_def)
  have missing: "(ephemeral_key_a room = None \<or> ephemeral_key_b room = None \<or>
      ephemeral_key_a_mldsa65 room = None \<or> ephemeral_key_b_mldsa65 room = None) = False"
    using keys by simp
  show ?thesis
    unfolding issue_receipt_def h missing using sigs by (simp add: n enc Let_def set_room_def action_defs sbind_def)
qed

end
