(* ===== verification/Examples.thy ===== *)
theory Examples
  imports Lobby_Safety Restart Receipt_Issue
begin

text \<open>
  Concrete rooms, lobbies, clocks and keys that the witnesses of the properties evaluate: a one-round
  trade without a fee, the same trade with a mediator fee, and a lobby of three clients that holds a
  room of the first two.
\<close>

section \<open>Sessions\<close>

definition demo_id :: RoomId where
  "demo_id = replicate 32 7"

definition demo_terms :: TradeTerms where
  "demo_terms = \<lparr>version = 5, asset_a = ''BTC'', asset_b = ''XMR'', total_a = 5, total_b = 9,
     rounds = 1, first_sender = PartyA\<rparr>"

definition demo_creator :: CreateRoomMessage where
  "demo_creator = \<lparr>CreateRoomMessage.terms = demo_terms, receive_address_a = ''addrA''\<rparr>"

definition demo_fee :: FeeTerms where
  "demo_fee = \<lparr>FeeTerms.asset = ''BTC'', amount = 1, address = ''addrM''\<rparr>"

definition demo_session :: "FeeTerms \<Rightarrow> bool \<Rightarrow> FeePosition \<Rightarrow> MediatorSession" where
  "demo_session f confirm pos =
     \<lparr>MediatorSession.creator = demo_creator, room_id = demo_id, receive_address_b = [], fee = f, state = WaitingForPeer,
      round_index = 0, leg_index = 0, abort_reason = [], final_receipt_acked_a = False,
      final_receipt_acked_b = False, require_fee_confirmation = confirm, fee_position = pos\<rparr>"

definition demo_signal :: "u32 \<Rightarrow> Party \<Rightarrow> RoundSignalMessage" where
  "demo_signal n p = \<lparr>RoundSignalMessage.room_id = demo_id, round_index = n, sender = p\<rparr>"

definition demo_join :: event where
  "demo_join = Join \<lparr>JoinRoomMessage.room_id = demo_id, receive_address_b = ''addrB''\<rparr>"

text \<open>The events of the only round: both legs, with the final leg behind the acknowledgements.\<close>

definition demo_trade :: "event list" where
  "demo_trade =
     [demo_join,
      ReportSent PartyA (demo_signal 0 PartyA), ReportReceived PartyB (demo_signal 0 PartyA),
      AckFinal PartyA, AckFinal PartyB,
      ReportSent PartyB (demo_signal 0 PartyB), ReportReceived PartyA (demo_signal 0 PartyB)]"

lemma demo_new:
  "new_session demo_creator demo_id default_fee confirm pos = Inr (demo_session default_fee confirm pos)"
  "new_session demo_creator demo_id demo_fee confirm pos = Inr (demo_session demo_fee confirm pos)"
  by code_simp+

lemma demo_runs:
  "runs (demo_session default_fee confirm pos) empty_ledger"
  "runs (demo_session demo_fee confirm pos) empty_ledger"
  using runs_new [OF demo_new(1)] runs_new [OF demo_new(2)] by auto

lemma demo_completes:
  "\<exists>s g. play demo_trade (demo_session default_fee False AfterLastRound) empty_ledger = Inr (s, g) \<and>
     MediatorSession.state s = SessionComplete"
proof -
  have "(case play demo_trade (demo_session default_fee False AfterLastRound) empty_ledger of
      Inl e \<Rightarrow> False | Inr (s, g) \<Rightarrow> MediatorSession.state s = SessionComplete)"
    by code_simp
  then show ?thesis
    by (auto split: sum.splits prod.splits)
qed

lemma demo_run_complete: "\<exists>s g. runs s g \<and> MediatorSession.state s = SessionComplete"
  using demo_completes play_runs demo_runs(1) by blast

text \<open>A state with property \<open>P\<close> is reached when playing some events ends in one.\<close>

lemma demo_reaches:
  assumes "case play es (demo_session f confirm pos) empty_ledger of Inl e \<Rightarrow> False | Inr (s, g) \<Rightarrow> P s g"
    and "f = default_fee \<or> f = demo_fee"
  shows "\<exists>s g. runs s g \<and> P s g"
  using assms demo_runs play_runs by (fastforce split: sum.splits prod.splits)

lemma demo_half: "\<exists>s g. runs s g \<and> sent_a g = 5 \<and> received_from_a g = 0"
  by (rule demo_reaches [where es = "take 2 demo_trade" and f = default_fee and confirm = False and pos = AfterLastRound]) code_simp+

section \<open>Lobbies\<close>

definition demo_client_a :: ClientId where "demo_client_a = replicate 16 1"
definition demo_client_b :: ClientId where "demo_client_b = replicate 16 2"
definition demo_client_c :: ClientId where "demo_client_c = replicate 16 3"

definition demo_crypto :: crypto where
  "demo_crypto = \<lparr>sha256 = (\<lambda>x. 1 # x), ed25519_sign = (\<lambda>seed m. Inr (seed @ m)),
     ed25519_verify = (\<lambda>pk m sig. Inr (sig = pk @ m)), mldsa65_sign = (\<lambda>seed m. Inr (seed @ m)),
     mldsa65_verify = (\<lambda>pk m sig. Inr (sig = pk @ m))\<rparr>"

definition demo_config :: "bool \<Rightarrow> FeePosition \<Rightarrow> config" where
  "demo_config confirm pos = \<lparr>room_persistence_path = ''rooms'', mediator_id = ''med'', receipt_seed = [1],
     receipt_public_key = [1], receipt_seed_mldsa65 = [2], receipt_public_key_mldsa65 = [2],
     require_fee_confirmation = confirm, fee_position = pos, bind_host = ''127.0.0.1'', bind_port = 7443,
     state_file = [], admin_token = ''root'', admin_fee_token = ''fees'', admin_port = 7444, fee_persist_file = ''conf'',
     mediator_auth_port = Some 7445, auth_seed = [3], auth_public_key = [3], fee_plugin_path = []\<rparr>"

definition demo_env :: env where
  "demo_env = \<lparr>now = 100, random_ids = [replicate 32 9], random_nonce = Some (replicate 16 3),
     sys = \<lparr>open_ok = True, write_ok = True, close_ok = True, rename_ok = True\<rparr>, cr = demo_crypto\<rparr>"

definition demo_room :: "MediatorSession \<Rightarrow> RoomEntry" where
  "demo_room ses = (room_entry demo_id demo_client_a demo_client_b ses True)
     \<lparr>ephemeral_key_a := Some [1], ephemeral_key_b := Some [2],
      ephemeral_key_a_mldsa65 := Some [3], ephemeral_key_b_mldsa65 := Some [4]\<rparr>"

definition demo_client :: "ClientId \<Rightarrow> string \<times> Client" where
  "demo_client i = (hex i, \<lparr>cid = i, outgoing = [], alive = True, bad_messages = 0\<rparr>)"

definition demo_lobby :: "MediatorSession \<Rightarrow> lobby" where
  "demo_lobby ses = \<lparr>clients = [demo_client demo_client_a, demo_client demo_client_b, demo_client demo_client_c],
     offers = [], invites = [], rooms = [(hex demo_id, demo_room ses)], price_history = [],
     persisted_rooms = [], fee = default_fee, disk = Map.empty, rooms_restored_at_startup = 0\<rparr>"

definition demo_struck :: lobby where
  "demo_struck = (empty_lobby default_fee Map.empty)\<lparr>clients :=
     [(hex demo_client_a, \<lparr>cid = demo_client_a, outgoing = [], alive = True, bad_messages = 2\<rparr>)]\<rparr>"

text \<open>The trade of the demo with the fee reported and not yet confirmed.\<close>

definition demo_pending :: MediatorSession where
  "demo_pending = (demo_session demo_fee True BeforeFirstRound)\<lparr>MediatorSession.state := WaitingForFeeConfirmation\<rparr>"

lemmas demo_ids = demo_client_a_def demo_client_b_def demo_client_c_def demo_id_def

lemma demo_keys: "client_key demo_client_a" "client_key demo_client_b" "client_key demo_client_c"
  "is_room_id demo_id" "nonzero demo_id" "demo_client_a \<noteq> demo_client_b" "demo_client_a \<noteq> demo_client_c"
  "demo_client_b \<noteq> demo_client_c"
  by code_simp+

lemma demo_room_ok:
  assumes "runs ses g" "MediatorSession.room_id ses = demo_id"
  shows "room_ok (hex demo_id) (demo_room ses)"
  using assms demo_keys by (auto simp: room_ok_def demo_room_def room_entry_def)

lemma demo_lobby_inv:
  assumes "runs ses g" "MediatorSession.room_id ses = demo_id"
  shows "lobby_inv (demo_lobby ses)"
  using demo_keys demo_room_ok [OF assms]
  by (simp add: lobby_inv_def demo_lobby_def clients_inv_def offers_inv_def rooms_inv_def prices_inv_def
      persisted_inv_def own_offers_def demo_client_def)

section \<open>Receipts\<close>

definition demo_receipt_fields :: ReceiptFields where
  "demo_receipt_fields = \<lparr>ReceiptFields.suite_id = 2, protocol_version = 5, mediator_id = ''med'',
     room_id = demo_id, terms_commitment = replicate 32 1, party_a_ephemeral_key = replicate 32 2,
     party_b_ephemeral_key = replicate 32 3, party_a_ephemeral_key_mldsa65 = replicate 1952 4,
     party_b_ephemeral_key_mldsa65 = replicate 1952 5, mediator_public_key = replicate 32 6,
     mediator_public_key_mldsa65 = replicate 1952 7, stage = SettlementCompleted, completed = True,
     timestamp = 9, nonce = replicate 16 8, previous_stage_hash = zero_id 32\<rparr>"

definition demo_issued :: IssuedReceipt where
  "demo_issued = \<lparr>receipt_fields = demo_receipt_fields, mediator_signature = replicate 64 1,
     mediator_signature_mldsa65 = replicate 3309 2\<rparr>"

text \<open>A verifier that accepts every signature, with an injective hash.\<close>

definition demo_accepting_crypto :: crypto where
  "demo_accepting_crypto = demo_crypto\<lparr>sha256 := (\<lambda>x. 1 # x), ed25519_verify := (\<lambda>_ _ _. Inr True),
     mldsa65_verify := (\<lambda>_ _ _. Inr True)\<rparr>"

lemma demo_link: "entry_link c demo_issued = Inr (sha256 c (link_input demo_issued))"
  by (simp add: entry_link_ok demo_issued_def demo_receipt_fields_def)

lemma demo_accepted: "verify_receipt_chain demo_accepting_crypto [demo_issued] [] [] = Inr ()"
proof -
  have f: "ReceiptFields.stage (receipt_fields demo_issued) = SettlementCompleted"
    "ReceiptFields.previous_stage_hash (receipt_fields demo_issued) = zero_id 32"
    "encode_receipt_signed_payload (receipt_fields demo_issued) = Inr (put_receipt_payload (receipt_fields demo_issued))"
    by (simp_all add: encode_receipt_signed_payload_ok demo_issued_def demo_receipt_fields_def)
  then show ?thesis
    unfolding verify_receipt_chain_def list.case chain_loop_ok
    by (simp add: entry_verified_def verify_receipt_def verify_receipt_mldsa65_def demo_link same_room_def
        demo_accepting_crypto_def)
qed

lemma demo_issued_wf: "wf_issued demo_issued"
  by (simp add: wf_issued_def demo_issued_def wf_receipt_fields_def demo_receipt_fields_def is_room_id_def
      demo_id_def)

end
