(* ===== verification/Recognition.thy ===== *)
theory Recognition
  imports Receipt "HOL-Library.Multiset"
begin

text \<open>
  Challenge and response between counterparties (\<open>src/src/recognition.cpp\<close>) and between a user and a
  service (\<open>src/src/login.cpp\<close>): the bytes that are signed, signing and verification, and the two
  trackers of outstanding challenges. A tracker is its vector of challenges; a time argument of 0
  stands for the current time, which is the argument \<open>clock\<close>. The nonces are draws of the random
  generator and arguments of \<open>issue\<close>.
\<close>

section \<open>Recognition\<close>

abbreviation (input) kRecognitionSuiteEd25519V1 :: u16 where "kRecognitionSuiteEd25519V1 \<equiv> 1"
abbreviation (input) kRecognitionSuiteMlDsa65V1 :: u16 where "kRecognitionSuiteMlDsa65V1 \<equiv> 2"
abbreviation (input) kRecognitionChallengeTtlSeconds :: u64 where "kRecognitionChallengeTtlSeconds \<equiv> 120"
abbreviation (input) kRecognitionMaxMediatorIdLength :: nat where "kRecognitionMaxMediatorIdLength \<equiv> 256"
abbreviation (input) kRecognitionMaxOutstandingChallenges :: nat where "kRecognitionMaxOutstandingChallenges \<equiv> 256"
abbreviation (input) kEd25519SignatureLength :: nat where "kEd25519SignatureLength \<equiv> 64"
abbreviation (input) kMlDsa65SignatureLength :: nat where "kMlDsa65SignatureLength \<equiv> 3309"

definition kRecognitionChallengeDomainLabel :: string where
  "kRecognitionChallengeDomainLabel = ''TRADEP2P_RECOGNITION_CHALLENGE_V1''"

record RecognitionChallengeFields =
  suite_id :: u16
  protocol_version :: u16
  mediator_id :: string
  room_id :: RoomId
  nonce :: bytes
  created_at :: u64
  expires_at :: u64

definition effective_now :: "u64 \<Rightarrow> u64 \<Rightarrow> u64" where
  "effective_now clock t = (if t = 0 then clock else t)"

definition encode_recognition_signed_payload :: "RecognitionChallengeFields \<Rightarrow> bytes result" where
  "encode_recognition_signed_payload f = steps
     [check (throw_if (length (RecognitionChallengeFields.mediator_id f) > kRecognitionMaxMediatorIdLength)
        (Invalid_argument ''recognition mediator id exceeds maximum length'')),
      writer_short_string (Invalid_argument ''recognition field exceeds protocol limit'')
        kRecognitionChallengeDomainLabel (length kRecognitionChallengeDomainLabel),
      writer_u16 (RecognitionChallengeFields.protocol_version f),
      writer_u16 (RecognitionChallengeFields.suite_id f),
      writer_short_string (Invalid_argument ''recognition field exceeds protocol limit'')
        (RecognitionChallengeFields.mediator_id f) kRecognitionMaxMediatorIdLength,
      writer_fixed_id (RecognitionChallengeFields.room_id f),
      writer_fixed_id (RecognitionChallengeFields.nonce f),
      writer_u64 (RecognitionChallengeFields.created_at f),
      writer_u64 (RecognitionChallengeFields.expires_at f)] []"

definition sign_recognition_response :: "crypto \<Rightarrow> bytes \<Rightarrow> RecognitionChallengeFields \<Rightarrow> bytes result" where
  "sign_recognition_response cr seed f = rbind (encode_recognition_signed_payload f) (ed25519_sign cr seed)"

definition sign_recognition_response_mldsa65 :: "crypto \<Rightarrow> bytes \<Rightarrow> RecognitionChallengeFields \<Rightarrow> bytes result" where
  "sign_recognition_response_mldsa65 cr seed f = rbind (encode_recognition_signed_payload f) (mldsa65_sign cr seed)"

definition verify_recognition_response ::
  "crypto \<Rightarrow> bytes \<Rightarrow> RecognitionChallengeFields \<Rightarrow> bytes \<Rightarrow> bool result" where
  "verify_recognition_response cr key f sig =
     rbind (encode_recognition_signed_payload f) (\<lambda>payload. ed25519_verify cr key payload sig)"

definition verify_recognition_response_mldsa65 ::
  "crypto \<Rightarrow> bytes \<Rightarrow> RecognitionChallengeFields \<Rightarrow> bytes \<Rightarrow> bool result" where
  "verify_recognition_response_mldsa65 cr key f sig =
     rbind (encode_recognition_signed_payload f) (\<lambda>payload. mldsa65_verify cr key payload sig)"

definition recognition_fingerprint :: "crypto \<Rightarrow> bytes \<Rightarrow> bytes" where
  "recognition_fingerprint cr key = sha256 cr key"

type_synonym recognition_tracker = "RecognitionChallengeFields list"

definition recognition_issue ::
  "u64 \<Rightarrow> bytes \<Rightarrow> string \<Rightarrow> RoomId \<Rightarrow> u64 \<Rightarrow> u16 \<Rightarrow> (recognition_tracker, RecognitionChallengeFields) action" where
  "recognition_issue clock random_nonce mediator room t suite =
     sbind (sget length) (\<lambda>count.
     sbind (slift (throw_if (count \<ge> kRecognitionMaxOutstandingChallenges)
              (Invalid_argument ''too many outstanding recognition challenges''))) (\<lambda>_.
     let t = effective_now clock t;
         f = \<lparr>RecognitionChallengeFields.suite_id = suite, protocol_version = kProtocolVersion,
              mediator_id = mediator, room_id = room, nonce = random_nonce, created_at = t,
              expires_at = t + kRecognitionChallengeTtlSeconds\<rparr> in
     sbind (smodify (\<lambda>outstanding. outstanding @ [f])) (\<lambda>_.
     sreturn f)))"

definition recognition_expire_stale :: "u64 \<Rightarrow> u64 \<Rightarrow> recognition_tracker \<Rightarrow> recognition_tracker" where
  "recognition_expire_stale clock t outstanding =
     (let t = effective_now clock t
      in filter (\<lambda>f. \<not> t > RecognitionChallengeFields.expires_at f) outstanding)"

definition challenge_matches :: "string \<Rightarrow> RecognitionResponseMessage \<Rightarrow> RecognitionChallengeFields \<Rightarrow> bool" where
  "challenge_matches mediator response f \<longleftrightarrow>
     RecognitionChallengeFields.nonce f = RecognitionResponseMessage.nonce response \<and>
     RecognitionChallengeFields.room_id f = RecognitionResponseMessage.room_id response \<and>
     RecognitionChallengeFields.mediator_id f = mediator"

text \<open>What is checked once a challenge was found and removed.\<close>

definition check_response ::
  "crypto \<Rightarrow> RecognitionChallengeFields \<Rightarrow> RecognitionResponseMessage \<Rightarrow> u64 \<Rightarrow> bytes option result" where
  "check_response cr f response t =
     (if t > RecognitionChallengeFields.expires_at f then Inr None
      else if RecognitionResponseMessage.suite_id response \<noteq> RecognitionChallengeFields.suite_id f then Inr None
      else if RecognitionChallengeFields.suite_id f = kRecognitionSuiteEd25519V1 then
        (case parse_ed25519_public_key (prover_public_key response) of
           None \<Rightarrow> Inr None
         | Some key \<Rightarrow>
             if length (RecognitionResponseMessage.signature response) \<noteq> kEd25519SignatureLength then Inr None
             else rbind (verify_recognition_response cr key f (RecognitionResponseMessage.signature response)) (\<lambda>ok.
                  Inr (if ok then Some (recognition_fingerprint cr key) else None)))
      else if RecognitionChallengeFields.suite_id f = kRecognitionSuiteMlDsa65V1 then
        (case parse_mldsa65_public_key (prover_public_key response) of
           None \<Rightarrow> Inr None
         | Some key \<Rightarrow>
             if length (RecognitionResponseMessage.signature response) \<noteq> kMlDsa65SignatureLength then Inr None
             else rbind (verify_recognition_response_mldsa65 cr key f (RecognitionResponseMessage.signature response)) (\<lambda>ok.
                  Inr (if ok then Some (recognition_fingerprint cr key) else None)))
      else Inr None)"

definition recognition_consume ::
  "crypto \<Rightarrow> u64 \<Rightarrow> string \<Rightarrow> RecognitionResponseMessage \<Rightarrow> u64 \<Rightarrow> (recognition_tracker, bytes option) action" where
  "recognition_consume cr clock mediator response t =
     (let t = effective_now clock t in
     sbind (sget (find (challenge_matches mediator response))) (\<lambda>it.
     case it of
       None \<Rightarrow> sreturn None
     | Some f \<Rightarrow>
         sbind (smodify (remove1 f)) (\<lambda>_.
         slift (check_response cr f response t))))"

section \<open>Login\<close>

abbreviation (input) kLoginProtocolVersion :: u16 where "kLoginProtocolVersion \<equiv> 1"
abbreviation (input) kLoginMaxFieldLength :: nat where "kLoginMaxFieldLength \<equiv> 256"
abbreviation (input) kLoginChallengeTtlSeconds :: u64 where "kLoginChallengeTtlSeconds \<equiv> 120"
abbreviation (input) kLoginMaxOutstandingChallenges :: nat where "kLoginMaxOutstandingChallenges \<equiv> 4096"

definition kLoginChallengeDomainLabel :: string where
  "kLoginChallengeDomainLabel = ''TRADEP2P_LOGIN_CHALLENGE_V1''"

record LoginChallengeFields =
  suite_id :: u16
  protocol_version :: u16
  service_id :: string
  server_identity :: string
  username :: string
  session_id :: bytes
  nonce :: bytes
  created_at :: u64
  expires_at :: u64

definition encode_login_challenge_signed_payload :: "LoginChallengeFields \<Rightarrow> bytes result" where
  "encode_login_challenge_signed_payload f = steps
     [check (throw_if (length (service_id f) > kLoginMaxFieldLength \<or>
          length (server_identity f) > kLoginMaxFieldLength \<or> length (username f) > kLoginMaxFieldLength)
        (Invalid_argument ''login challenge field exceeds maximum length'')),
      writer_short_string (Invalid_argument ''login field exceeds protocol limit'')
        kLoginChallengeDomainLabel (length kLoginChallengeDomainLabel),
      writer_u16 (LoginChallengeFields.protocol_version f),
      writer_u16 (LoginChallengeFields.suite_id f),
      writer_short_string (Invalid_argument ''login field exceeds protocol limit'') (service_id f) kLoginMaxFieldLength,
      writer_short_string (Invalid_argument ''login field exceeds protocol limit'') (server_identity f) kLoginMaxFieldLength,
      writer_short_string (Invalid_argument ''login field exceeds protocol limit'') (username f) kLoginMaxFieldLength,
      writer_fixed_id (session_id f),
      writer_fixed_id (LoginChallengeFields.nonce f),
      writer_u64 (LoginChallengeFields.created_at f),
      writer_u64 (LoginChallengeFields.expires_at f)] []"

definition sign_login_response :: "crypto \<Rightarrow> bytes \<Rightarrow> LoginChallengeFields \<Rightarrow> bytes result" where
  "sign_login_response cr seed f = rbind (encode_login_challenge_signed_payload f) (ed25519_sign cr seed)"

definition verify_login_response :: "crypto \<Rightarrow> bytes \<Rightarrow> LoginChallengeFields \<Rightarrow> bytes \<Rightarrow> bool result" where
  "verify_login_response cr key f sig =
     rbind (encode_login_challenge_signed_payload f) (\<lambda>payload. ed25519_verify cr key payload sig)"

definition sign_login_response_mldsa65 :: "crypto \<Rightarrow> bytes \<Rightarrow> LoginChallengeFields \<Rightarrow> bytes result" where
  "sign_login_response_mldsa65 cr seed f = rbind (encode_login_challenge_signed_payload f) (mldsa65_sign cr seed)"

definition verify_login_response_mldsa65 :: "crypto \<Rightarrow> bytes \<Rightarrow> LoginChallengeFields \<Rightarrow> bytes \<Rightarrow> bool result" where
  "verify_login_response_mldsa65 cr key f sig =
     rbind (encode_login_challenge_signed_payload f) (\<lambda>payload. mldsa65_verify cr key payload sig)"

type_synonym login_tracker = "LoginChallengeFields list"

definition login_issue ::
  "u64 \<Rightarrow> bytes \<Rightarrow> bytes \<Rightarrow> string \<Rightarrow> string \<Rightarrow> string \<Rightarrow> u64 \<Rightarrow> u16 \<Rightarrow> (login_tracker, LoginChallengeFields) action" where
  "login_issue clock random_session random_nonce service server user t suite =
     sbind (sget length) (\<lambda>count.
     sbind (slift (throw_if (count \<ge> kLoginMaxOutstandingChallenges)
              (Invalid_argument ''too many outstanding login challenges''))) (\<lambda>_.
     let t = effective_now clock t;
         f = \<lparr>LoginChallengeFields.suite_id = suite, protocol_version = kLoginProtocolVersion,
              service_id = service, server_identity = server, username = user, session_id = random_session,
              nonce = random_nonce, created_at = t, expires_at = t + kLoginChallengeTtlSeconds\<rparr> in
     sbind (smodify (\<lambda>outstanding. outstanding @ [f])) (\<lambda>_.
     sreturn f)))"

definition login_peek :: "u64 \<Rightarrow> bytes \<Rightarrow> u64 \<Rightarrow> login_tracker \<Rightarrow> LoginChallengeFields option" where
  "login_peek clock session t outstanding =
     (let t = effective_now clock t in
      case find (\<lambda>f. session_id f = session) outstanding of
        None \<Rightarrow> None
      | Some f \<Rightarrow> if t > LoginChallengeFields.expires_at f then None else Some f)"

definition login_consume :: "bytes \<Rightarrow> login_tracker \<Rightarrow> login_tracker" where
  "login_consume session outstanding = filter (\<lambda>f. session_id f \<noteq> session) outstanding"

definition login_expire_stale :: "u64 \<Rightarrow> u64 \<Rightarrow> login_tracker \<Rightarrow> login_tracker" where
  "login_expire_stale clock t outstanding =
     (let t = effective_now clock t
      in filter (\<lambda>f. \<not> t > LoginChallengeFields.expires_at f) outstanding)"

section \<open>Every challenge is answered at most once\<close>

text \<open>A history of the recognition tracker: what is outstanding, what was issued and which challenges
  were accepted, in any order of calls.\<close>

inductive recognises ::
  "crypto \<Rightarrow> recognition_tracker \<Rightarrow> RecognitionChallengeFields list \<Rightarrow> RecognitionChallengeFields list \<Rightarrow> bool"
  for cr where
  rec_start: "recognises cr [] [] []"
| rec_issue: "recognises cr q issued accepted \<Longrightarrow>
    recognition_issue clock n mediator room t suite q = (Inr f, q') \<Longrightarrow> recognises cr q' (f # issued) accepted"
| rec_refused: "recognises cr q issued accepted \<Longrightarrow>
    recognition_issue clock n mediator room t suite q = (Inl e, q') \<Longrightarrow> recognises cr q' issued accepted"
| rec_expire: "recognises cr q issued accepted \<Longrightarrow> recognises cr (recognition_expire_stale clock t q) issued accepted"
| rec_accept: "recognises cr q issued accepted \<Longrightarrow>
    recognition_consume cr clock mediator response t q = (Inr (Some fp), q') \<Longrightarrow>
    find (challenge_matches mediator response) q = Some f \<Longrightarrow> recognises cr q' issued (f # accepted)"
| rec_reject: "recognises cr q issued accepted \<Longrightarrow>
    recognition_consume cr clock mediator response t q = (r, q') \<Longrightarrow> (\<nexists>fp. r = Inr (Some fp)) \<Longrightarrow>
    recognises cr q' issued accepted"

inductive_cases recognises_cases: "recognises cr q issued accepted"

lemma find_SomeD: "find P xs = Some x \<Longrightarrow> x \<in> set xs \<and> P x"
  by (induction xs) (auto split: if_splits)

lemma consume_state:
  "recognition_consume cr clock mediator response t q = (r, q') \<Longrightarrow>
     q' = (case find (challenge_matches mediator response) q of None \<Rightarrow> q | Some f \<Rightarrow> remove1 f q)"
  by (auto simp: recognition_consume_def Let_def action_defs sbind_def split: option.splits)

lemma issue_state:
  "recognition_issue clock n mediator room t suite q = (Inr f, q') \<Longrightarrow>
     q' = q @ [f] \<and> length q' \<le> kRecognitionMaxOutstandingChallenges"
  by (auto simp: recognition_issue_def returns_simps throw_if_def Let_def split: if_splits)

lemma issue_refused:
  "recognition_issue clock n mediator room t suite q = (Inl e, q') \<Longrightarrow> q' = q"
  by (auto simp: recognition_issue_def Let_def sbind_def action_defs throw_if_def split: if_splits)

lemma still_within: "A + B \<subseteq># C \<Longrightarrow> B' \<subseteq># B \<Longrightarrow> A + B' \<subseteq># (C :: 'a multiset)"
  by (meson subset_mset.add_left_mono subset_mset.order_trans)

lemma accepted_issued:
  assumes "recognises cr q issued accepted"
  shows "mset accepted + mset q \<subseteq># mset issued \<and> length q \<le> kRecognitionMaxOutstandingChallenges"
  using assms
proof (induction rule: recognises.induct)
  case (rec_issue q issued accepted clock n mediator room t suite f q')
  have "q' = q @ [f]" "length q' \<le> kRecognitionMaxOutstandingChallenges"
    using issue_state [OF rec_issue(2)] by blast+
  with rec_issue(3) show ?case
    by auto
next
  case (rec_refused q issued accepted clock n mediator room t suite e q')
  then show ?case
    using issue_refused [OF rec_refused(2)] by simp
next
  case (rec_expire q issued accepted clock t)
  have "mset (recognition_expire_stale clock t q) \<subseteq># mset q"
    by (simp add: recognition_expire_stale_def Let_def multiset_filter_subset)
  then show ?case
    using rec_expire(2) size_mset_mono
    by (metis still_within le_trans size_mset)
next
  case (rec_accept q issued accepted clock mediator response t fp q' f)
  then show ?case
    using find_SomeD [OF rec_accept(3)] consume_state [OF rec_accept(2)] by (auto simp: length_remove1)
next
  case (rec_reject q issued accepted clock mediator response t r q')
  then show ?case
    using consume_state [OF rec_reject(2)] find_SomeD
    by (auto simp: length_remove1 intro: subset_mset.order_trans [OF diff_subset_eq_self] split: option.splits)
qed simp

text \<open>What an accepted response has shown.\<close>

lemma consume_accepts:
  assumes "recognition_consume cr clock mediator response t q = (Inr (Some fp), q')"
  shows "\<exists>f payload. f \<in> set q \<and> challenge_matches mediator response f \<and> q' = remove1 f q \<and>
    effective_now clock t \<le> RecognitionChallengeFields.expires_at f \<and>
    RecognitionResponseMessage.suite_id response = RecognitionChallengeFields.suite_id f \<and>
    encode_recognition_signed_payload f = Inr payload \<and>
    fp = sha256 cr (prover_public_key response) \<and>
    (if RecognitionChallengeFields.suite_id f = kRecognitionSuiteEd25519V1
     then ed25519_verify cr (prover_public_key response) payload (RecognitionResponseMessage.signature response) = Inr True
     else mldsa65_verify cr (prover_public_key response) payload (RecognitionResponseMessage.signature response) = Inr True)"
proof -
  obtain f where f: "find (challenge_matches mediator response) q = Some f"
    "check_response cr f response (effective_now clock t) = Inr (Some fp)" "q' = remove1 f q"
    using assms by (auto simp: recognition_consume_def Let_def returns_simps split: option.splits)
  moreover have "f \<in> set q" "challenge_matches mediator response f"
    using find_SomeD [OF f(1)] by simp_all
  ultimately show ?thesis
    by (auto simp: check_response_def parse_ed25519_public_key_def parse_mldsa65_public_key_def
        verify_recognition_response_def verify_recognition_response_mldsa65_def recognition_fingerprint_def
        exn_simps not_less split: if_splits option.splits intro!: exI [of _ f])
qed

lemma consume_once:
  assumes "recognises cr q issued accepted"
    and "recognition_consume cr clock mediator response t q = (Inr (Some fp), q')"
  shows "\<exists>f payload. challenge_matches mediator response f \<and> count (mset accepted) f < count (mset issued) f \<and>
    effective_now clock t \<le> RecognitionChallengeFields.expires_at f \<and>
    RecognitionResponseMessage.suite_id response = RecognitionChallengeFields.suite_id f \<and>
    encode_recognition_signed_payload f = Inr payload \<and>
    fp = sha256 cr (prover_public_key response) \<and>
    (if RecognitionChallengeFields.suite_id f = kRecognitionSuiteEd25519V1
     then ed25519_verify cr (prover_public_key response) payload (RecognitionResponseMessage.signature response) = Inr True
     else mldsa65_verify cr (prover_public_key response) payload (RecognitionResponseMessage.signature response) = Inr True)"
proof -
  have "count (mset accepted) f < count (mset issued) f" if "f \<in> set q" for f
  proof -
    have "count (mset accepted + mset q) f \<le> count (mset issued) f"
      using accepted_issued [OF assms(1)] by (blast intro: mset_subset_eq_count)
    moreover have "0 < count (mset q) f"
      using that by (simp add: count_greater_zero_iff)
    ultimately show ?thesis
      unfolding count_union by linarith
  qed
  then show ?thesis
    using consume_accepts [OF assms(2)] by blast
qed

text \<open>A consumed login session is gone.\<close>

lemma login_consumed: "login_peek clock session t (login_consume session q) = None"
  by (auto simp: login_peek_def login_consume_def Let_def find_None_iff split: option.splits
      dest!: find_SomeD)

lemma login_peek_valid:
  assumes "login_peek clock session t q = Some f"
  shows "f \<in> set q" "session_id f = session" "effective_now clock t \<le> LoginChallengeFields.expires_at f"
  using assms by (auto simp: login_peek_def Let_def not_less split: option.splits if_splits dest!: find_SomeD)

end
