(* ===== verification/Disclosure.thy ===== *)
theory Disclosure
  imports Receipt
begin

text \<open>
  Showing a receipt chain to a new counterparty (\<open>src/src/disclosure.cpp\<close>), the signed context of a
  trade message (\<open>src/src/ephemeral.cpp\<close>) and the mediator's answer to an authentication challenge
  (\<open>src/src/mediator_auth.cpp\<close>): the bytes that are signed, signing, verification, and the checks a
  recipient makes on a disclosed bundle.
\<close>

section \<open>Disclosure\<close>

abbreviation (input) kDisclosureMaxMediatorIdLength :: nat where "kDisclosureMaxMediatorIdLength \<equiv> 256"
abbreviation (input) kDisclosureMaxChainLength :: nat where "kDisclosureMaxChainLength \<equiv> 8"

definition kDisclosureDomainLabel :: string where
  "kDisclosureDomainLabel = ''TRADEP2P_RECEIPT_DISCLOSURE_V1''"

record DisclosureFields =
  suite_id :: u16
  protocol_version :: u16
  mediator_id :: string
  room_id :: RoomId
  recipient_ephemeral_key :: bytes
  chain_hash :: bytes
  timestamp :: u64
  nonce :: bytes

definition encode_disclosure_signed_payload :: "DisclosureFields \<Rightarrow> bytes result" where
  "encode_disclosure_signed_payload f = steps
     [check (throw_if (length (DisclosureFields.mediator_id f) > kDisclosureMaxMediatorIdLength)
        (Invalid_argument ''disclosure mediator id exceeds maximum length'')),
      writer_short_string (Invalid_argument ''disclosure field exceeds protocol limit'')
        kDisclosureDomainLabel (length kDisclosureDomainLabel),
      writer_u16 (DisclosureFields.protocol_version f),
      writer_u16 (DisclosureFields.suite_id f),
      writer_short_string (Invalid_argument ''disclosure field exceeds protocol limit'')
        (DisclosureFields.mediator_id f) kDisclosureMaxMediatorIdLength,
      writer_fixed_id (DisclosureFields.room_id f),
      writer_fixed_id (recipient_ephemeral_key f),
      writer_fixed_id (chain_hash f),
      writer_u64 (DisclosureFields.timestamp f),
      writer_fixed_id (DisclosureFields.nonce f)] []"

text \<open>The loop of \<open>disclosed_chain_hash\<close> that collects the link hashes.\<close>

fun chain_links :: "crypto \<Rightarrow> IssuedReceipt list \<Rightarrow> bytes result" where
  "chain_links cr [] = Inr []"
| "chain_links cr (entry # rest) =
     rbind (receipt_chain_link_hash cr (receipt_fields entry) (mediator_signature entry)
              (mediator_signature_mldsa65 entry)) (\<lambda>h.
     rbind (chain_links cr rest) (\<lambda>hs. Inr (h @ hs)))"

definition disclosed_chain_hash :: "crypto \<Rightarrow> IssuedReceipt list \<Rightarrow> bytes result" where
  "disclosed_chain_hash cr receipts = rbind (chain_links cr receipts) (\<lambda>bs. Inr (sha256 cr bs))"

definition sign_disclosure :: "crypto \<Rightarrow> bytes \<Rightarrow> DisclosureFields \<Rightarrow> bytes result" where
  "sign_disclosure cr seed f = rbind (encode_disclosure_signed_payload f) (ed25519_sign cr seed)"

definition verify_disclosure :: "crypto \<Rightarrow> bytes \<Rightarrow> DisclosureFields \<Rightarrow> bytes \<Rightarrow> bool result" where
  "verify_disclosure cr key f sig =
     rbind (encode_disclosure_signed_payload f) (\<lambda>payload. ed25519_verify cr key payload sig)"

definition sign_disclosure_mldsa65 :: "crypto \<Rightarrow> bytes \<Rightarrow> DisclosureFields \<Rightarrow> bytes result" where
  "sign_disclosure_mldsa65 cr seed f = rbind (encode_disclosure_signed_payload f) (mldsa65_sign cr seed)"

definition verify_disclosure_mldsa65 :: "crypto \<Rightarrow> bytes \<Rightarrow> DisclosureFields \<Rightarrow> bytes \<Rightarrow> bool result" where
  "verify_disclosure_mldsa65 cr key f sig =
     rbind (encode_disclosure_signed_payload f) (\<lambda>payload. mldsa65_verify cr key payload sig)"

definition verify_disclosure_hybrid ::
  "crypto \<Rightarrow> bytes \<Rightarrow> bytes \<Rightarrow> DisclosureFields \<Rightarrow> bytes \<Rightarrow> bytes \<Rightarrow> bool result" where
  "verify_disclosure_hybrid cr key key2 f sig sig2 =
     rbind (verify_disclosure cr key f sig) (\<lambda>ok.
     if ok then verify_disclosure_mldsa65 cr key2 f sig2 else Inr False)"

text \<open>The reason for a rejection, or nothing. Only a \<open>ReceiptChainError\<close> is caught.\<close>

definition verify_disclosure_bundle ::
  "crypto \<Rightarrow> IssuedReceipt list \<Rightarrow> DisclosureFields \<Rightarrow> bytes \<Rightarrow> bytes \<Rightarrow> RoomId \<Rightarrow> bytes \<Rightarrow> string option result" where
  "verify_disclosure_bundle cr receipts f sig sig2 expected_room_id expected_recipient_key =
     (if receipts = [] then Inr (Some ''disclosed receipt chain is empty'')
      else if length receipts > kDisclosureMaxChainLength
      then Inr (Some ''disclosed receipt chain exceeds the maximum allowed length'')
      else let front = receipt_fields (hd receipts) in
      (case verify_receipt_chain cr receipts (ReceiptFields.mediator_public_key front)
              (ReceiptFields.mediator_public_key_mldsa65 front) of
         Inl (ReceiptChainError why) \<Rightarrow> Inr (Some (''disclosed receipt chain does not verify: '' @ why))
       | Inl ex \<Rightarrow> Inl ex
       | Inr _ \<Rightarrow>
      rbind (disclosed_chain_hash cr receipts) (\<lambda>h.
      if h \<noteq> chain_hash f then Inr (Some ''disclosure envelope does not match the accompanying receipt chain'')
      else if DisclosureFields.room_id f \<noteq> expected_room_id
      then Inr (Some ''disclosure envelope is not bound to this negotiation'')
      else if recipient_ephemeral_key f \<noteq> expected_recipient_key
      then Inr (Some ''disclosure envelope is not bound to this recipient'')
      else
        rbind (verify_disclosure_hybrid cr (ReceiptFields.party_a_ephemeral_key front)
                 (ReceiptFields.party_a_ephemeral_key_mldsa65 front) f sig sig2) (\<lambda>valid_under_party_a.
        rbind (verify_disclosure_hybrid cr (ReceiptFields.party_b_ephemeral_key front)
                 (ReceiptFields.party_b_ephemeral_key_mldsa65 front) f sig sig2) (\<lambda>valid_under_party_b.
        Inr (if \<not> valid_under_party_a \<and> \<not> valid_under_party_b
             then Some ''disclosure envelope signature does not match either party's key in the chain''
             else None))))))"

section \<open>Trade messages\<close>

abbreviation (input) kTradeMessageMaxMediatorIdLength :: nat where "kTradeMessageMaxMediatorIdLength \<equiv> 256"

definition kTradeMessageDomainLabel :: string where
  "kTradeMessageDomainLabel = ''TRADEP2P_TRADE_MESSAGE_V1''"

record TradeMessageContext =
  suite_id :: u16
  protocol_version :: u16
  mediator_id :: string
  room_id :: RoomId
  round :: u32
  message_type :: MessageType
  payload_hash :: bytes
  sender_ephemeral_public_key :: bytes
  recipient :: ClientId
  timestamp :: u64

definition encode_trade_message_context :: "TradeMessageContext \<Rightarrow> bytes result" where
  "encode_trade_message_context c = steps
     [check (throw_if (length (TradeMessageContext.mediator_id c) > kTradeMessageMaxMediatorIdLength)
        (Invalid_argument ''trade message mediator id exceeds maximum length'')),
      writer_short_string (Invalid_argument ''trade message field exceeds protocol limit'')
        kTradeMessageDomainLabel (length kTradeMessageDomainLabel),
      writer_u16 (TradeMessageContext.protocol_version c),
      writer_u16 (TradeMessageContext.suite_id c),
      writer_short_string (Invalid_argument ''trade message field exceeds protocol limit'')
        (TradeMessageContext.mediator_id c) kTradeMessageMaxMediatorIdLength,
      writer_fixed_id (TradeMessageContext.room_id c),
      writer_u32 (round c),
      writer_u16 (message_type_value (message_type c)),
      writer_fixed_id (payload_hash c),
      writer_fixed_id (sender_ephemeral_public_key c),
      writer_fixed_id (recipient c),
      writer_u64 (TradeMessageContext.timestamp c)] []"

definition sign_trade_message :: "crypto \<Rightarrow> bytes \<Rightarrow> TradeMessageContext \<Rightarrow> bytes result" where
  "sign_trade_message cr seed c = rbind (encode_trade_message_context c) (ed25519_sign cr seed)"

definition verify_trade_message :: "crypto \<Rightarrow> bytes \<Rightarrow> TradeMessageContext \<Rightarrow> bytes \<Rightarrow> bool result" where
  "verify_trade_message cr key c sig =
     rbind (encode_trade_message_context c) (\<lambda>payload. ed25519_verify cr key payload sig)"

definition sign_trade_message_mldsa65 :: "crypto \<Rightarrow> bytes \<Rightarrow> TradeMessageContext \<Rightarrow> bytes result" where
  "sign_trade_message_mldsa65 cr seed c = rbind (encode_trade_message_context c) (mldsa65_sign cr seed)"

definition verify_trade_message_mldsa65 :: "crypto \<Rightarrow> bytes \<Rightarrow> TradeMessageContext \<Rightarrow> bytes \<Rightarrow> bool result" where
  "verify_trade_message_mldsa65 cr key c sig =
     rbind (encode_trade_message_context c) (\<lambda>payload. mldsa65_verify cr key payload sig)"

definition verify_trade_message_hybrid ::
  "crypto \<Rightarrow> bytes \<Rightarrow> bytes \<Rightarrow> TradeMessageContext \<Rightarrow> bytes \<Rightarrow> bytes \<Rightarrow> bool result" where
  "verify_trade_message_hybrid cr key key2 c sig sig2 =
     rbind (verify_trade_message cr key c sig) (\<lambda>ok.
     if ok then verify_trade_message_mldsa65 cr key2 c sig2 else Inr False)"

section \<open>Mediator authentication\<close>

abbreviation (input) kMediatorAuthMaxMediatorIdLength :: nat where "kMediatorAuthMaxMediatorIdLength \<equiv> 256"

definition kMediatorAuthDomainLabel :: string where
  "kMediatorAuthDomainLabel = ''TRADEP2P_MEDIATOR_AUTH_V1''"

record MediatorAuthFields =
  protocol_version :: u16
  mediator_id :: string
  nonce :: bytes
  created_at :: u64
  expires_at :: u64

definition encode_mediator_auth_signed_payload :: "MediatorAuthFields \<Rightarrow> bytes result" where
  "encode_mediator_auth_signed_payload f = steps
     [check (throw_if (length (MediatorAuthFields.mediator_id f) > kMediatorAuthMaxMediatorIdLength)
        (Invalid_argument ''mediator auth mediator id exceeds maximum length'')),
      writer_short_string (Invalid_argument ''mediator auth field exceeds protocol limit'')
        kMediatorAuthDomainLabel (length kMediatorAuthDomainLabel),
      writer_u16 (MediatorAuthFields.protocol_version f),
      writer_short_string (Invalid_argument ''mediator auth field exceeds protocol limit'')
        (MediatorAuthFields.mediator_id f) kMediatorAuthMaxMediatorIdLength,
      writer_fixed_id (MediatorAuthFields.nonce f),
      writer_u64 (MediatorAuthFields.created_at f),
      writer_u64 (MediatorAuthFields.expires_at f)] []"

definition sign_mediator_auth :: "crypto \<Rightarrow> bytes \<Rightarrow> MediatorAuthFields \<Rightarrow> bytes result" where
  "sign_mediator_auth cr seed f = rbind (encode_mediator_auth_signed_payload f) (mldsa65_sign cr seed)"

definition verify_mediator_auth :: "crypto \<Rightarrow> bytes \<Rightarrow> MediatorAuthFields \<Rightarrow> bytes \<Rightarrow> bool result" where
  "verify_mediator_auth cr key f sig =
     rbind (encode_mediator_auth_signed_payload f) (\<lambda>payload. mldsa65_verify cr key payload sig)"

section \<open>What an accepted bundle shows\<close>

lemma bundle_accepted:
  "verify_disclosure_bundle cr receipts f sig sig2 room key = Inr None \<longleftrightarrow>
     receipts \<noteq> [] \<and> length receipts \<le> kDisclosureMaxChainLength \<and>
     (let front = receipt_fields (hd receipts) in
      verify_receipt_chain cr receipts (ReceiptFields.mediator_public_key front)
        (ReceiptFields.mediator_public_key_mldsa65 front) = Inr () \<and>
      disclosed_chain_hash cr receipts = Inr (chain_hash f) \<and>
      DisclosureFields.room_id f = room \<and> recipient_ephemeral_key f = key \<and>
      (\<exists>a b. verify_disclosure_hybrid cr (ReceiptFields.party_a_ephemeral_key front)
          (ReceiptFields.party_a_ephemeral_key_mldsa65 front) f sig sig2 = Inr a \<and>
        verify_disclosure_hybrid cr (ReceiptFields.party_b_ephemeral_key front)
          (ReceiptFields.party_b_ephemeral_key_mldsa65 front) f sig sig2 = Inr b \<and> (a \<or> b)))"
  by (auto simp: verify_disclosure_bundle_def Let_def exn_simps split: sum.splits exn.splits if_splits)

text \<open>The collected links determine the receipts, as long as the hash does not collide on them.\<close>

lemma chain_links_inj:
  assumes "chain_links cr es = Inr bs" and "chain_links cr es' = Inr bs"
    and "\<forall>e\<in>set es \<union> set es'. wf_issued e \<and> length (sha256 cr (link_input e)) = 32"
    and "inj_on (sha256 cr) (link_input ` (set es \<union> set es'))"
  shows "es = es'"
  using assms
proof (induction es arbitrary: es' bs)
  case Nil
  then show ?case
    by (cases es') (auto simp: exn_simps entry_link_def [symmetric] entry_link_ok)
next
  case (Cons e es)
  have nonempty: "bs \<noteq> []"
    using Cons.prems(1,3) by (auto simp: exn_simps entry_link_def [symmetric] entry_link_ok)
  then obtain e' fs where es': "es' = e' # fs"
    using Cons.prems(2) by (cases es') auto
  obtain hs hs' where hs: "chain_links cr es = Inr hs" "chain_links cr fs = Inr hs'"
    and links: "entry_link cr e = Inr (sha256 cr (link_input e))" "entry_link cr e' = Inr (sha256 cr (link_input e'))"
    and bs: "bs = sha256 cr (link_input e) @ hs" "bs = sha256 cr (link_input e') @ hs'"
    using Cons.prems(1,2) unfolding es' by (auto simp: exn_simps entry_link_def [symmetric] entry_link_ok)
  have "sha256 cr (link_input e) = sha256 cr (link_input e') \<and> hs = hs'"
    using bs Cons.prems(3) es' by (simp add: append_eq_append_conv)
  then have same: "sha256 cr (link_input e) = sha256 cr (link_input e')" "hs = hs'"
    by simp_all
  have "e = e'"
  proof (rule entry_link_inj [OF _ _ _ links(1)])
    show "link_input e = link_input e'"
      by (rule inj_onD [OF Cons.prems(4) same(1)]) (simp_all add: es')
  qed (use Cons.prems(3) es' links(2) same(1) in auto)
  moreover have "es = fs"
    using Cons.prems(3,4) hs same(2) unfolding es' by (intro Cons.IH [of hs fs]) (auto simp: inj_on_def)
  ultimately show ?case
    by (simp add: es')
qed

lemma bundle_bound:
  assumes "verify_disclosure_bundle cr es f sig sig2 room key = Inr None"
    and "verify_disclosure_bundle cr es' f sig' sig2' room' key' = Inr None"
    and "\<forall>e\<in>set es \<union> set es'. wf_issued e \<and> length (sha256 cr (link_input e)) = 32"
    and "inj_on (sha256 cr) (link_input ` (set es \<union> set es') \<union>
      {bs. chain_links cr es = Inr bs \<or> chain_links cr es' = Inr bs})"
  shows "es = es' \<and> room = room' \<and> key = key'"
proof -
  obtain bs bs' where bs: "chain_links cr es = Inr bs" "chain_links cr es' = Inr bs'"
    "sha256 cr bs = chain_hash f" "sha256 cr bs' = chain_hash f"
    using assms(1,2) by (auto simp: bundle_accepted Let_def disclosed_chain_hash_def exn_simps)
  have "bs = bs'"
    by (rule inj_onD [OF assms(4)]) (use bs in simp_all)
  then have "es = es'"
    using bs assms(3,4) by (intro chain_links_inj [of cr es bs es']) (auto simp: inj_on_def)
  with assms(1,2) show ?thesis
    by (auto simp: bundle_accepted Let_def)
qed

text \<open>A bad chain is not always reported as a reason: an unknown stage escapes as an exception.\<close>

lemma unknown_stage_escapes:
  assumes "ReceiptFields.stage (receipt_fields e) = ReceiptStageRaw b"
  shows "verify_disclosure_bundle cr [e] f sig sig2 room key = Inl (Invalid_argument ''unknown receipt stage'')"
  using assms by (simp add: verify_disclosure_bundle_def verify_receipt_chain_def require_known_stage_def Let_def)

end
