(* ===== verification/Signed_Payloads.thy ===== *)
theory Signed_Payloads
  imports Recognition Disclosure
begin

text \<open>
  All the byte strings this system signs, seen together. The locale \<open>signed_payload\<close> is the contract the
  encoders share (a length-prefixed domain label comes first, and no two well-formed values have the same
  bytes); every encoder is an instance, and the union of the seven formats is unambiguous.
\<close>

lemma put_string_eq:
  "length s \<le> 65535 \<Longrightarrow> length t \<le> 65535 \<Longrightarrow> put_string s @ r = put_string t @ r' \<longleftrightarrow> s = t \<and> r = r'"
  using put_string_prefix [of s t r r'] by auto

lemma put_string_same: "length s \<le> 65535 \<Longrightarrow> length t \<le> 65535 \<Longrightarrow> put_string s = put_string t \<longleftrightarrow> s = t"
  using put_string_prefix [of s t "[]" "[]"] by auto

lemma bytes_eq: "length x = length y \<Longrightarrow> x @ r = y @ r' \<longleftrightarrow> x = y \<and> r = (r' :: bytes)"
  by (rule append_eq_append_conv) simp

locale signed_payload =
  fixes encode :: "'f \<Rightarrow> bytes result"
    and label :: string
    and wf :: "'f \<Rightarrow> bool"
  assumes encode_label: "encode f = Inr bs \<Longrightarrow> \<exists>body. bs = put_string label @ body"
    and encode_inj: "wf f \<Longrightarrow> wf f' \<Longrightarrow> encode f = Inr bs \<Longrightarrow> encode f' = Inr bs \<Longrightarrow> f = f'"
    and label_fits: "length label \<le> 65535"
begin

lemma foreign_label:
  assumes "encode f = Inr bs" and "bs = put_string other @ body" and "length other \<le> 65535"
  shows "other = label"
  using encode_label [OF assms(1)] assms(2,3) label_fits by (auto simp: put_string_eq)

lemma signature_covers:
  assumes "wf f" and "wf f'" and "rbind (encode f) (sign seed) = Inr sig"
    and "rbind (encode f') (\<lambda>bs. verify key bs sig) = Inr True"
    and "\<And>bs bs'. sign seed bs = Inr sig \<Longrightarrow> verify key bs' sig = Inr True \<Longrightarrow> bs = bs'"
  shows "f = f'"
  using assms by (auto simp: exn_simps intro: encode_inj)

end

section \<open>The formats\<close>

definition wf_receipt_ack_fields :: "ReceiptAckFields \<Rightarrow> bool" where
  "wf_receipt_ack_fields f \<longleftrightarrow> is_room_id (ReceiptAckFields.room_id f) \<and>
     length (ReceiptAckFields.terms_commitment f) = 32"

definition wf_recognition_fields :: "RecognitionChallengeFields \<Rightarrow> bool" where
  "wf_recognition_fields f \<longleftrightarrow> is_room_id (RecognitionChallengeFields.room_id f) \<and>
     length (RecognitionChallengeFields.nonce f) = kRecognitionNonceLength"

definition wf_login_fields :: "LoginChallengeFields \<Rightarrow> bool" where
  "wf_login_fields f \<longleftrightarrow> length (session_id f) = 16 \<and> length (LoginChallengeFields.nonce f) = 32"

definition wf_disclosure_fields :: "DisclosureFields \<Rightarrow> bool" where
  "wf_disclosure_fields f \<longleftrightarrow> is_room_id (DisclosureFields.room_id f) \<and>
     length (recipient_ephemeral_key f) = 32 \<and> length (chain_hash f) = 32 \<and> length (DisclosureFields.nonce f) = 16"

definition wf_trade_message :: "TradeMessageContext \<Rightarrow> bool" where
  "wf_trade_message c \<longleftrightarrow> is_room_id (TradeMessageContext.room_id c) \<and> length (payload_hash c) = 32 \<and>
     length (sender_ephemeral_public_key c) = 32 \<and> is_client_id (recipient c) \<and>
     TradeMessageContext.message_type c \<in> set known_types"

definition wf_mediator_auth :: "MediatorAuthFields \<Rightarrow> bool" where
  "wf_mediator_auth f \<longleftrightarrow> length (MediatorAuthFields.nonce f) = 32"

lemmas payload_simps = wire_simps exn_simps put_string_eq put_string_same bytes_eq is_room_id_def is_client_id_def

interpretation receipt: signed_payload encode_receipt_signed_payload kReceiptDomainLabel wf_receipt_fields
proof
  fix f f' bs
  assume "wf_receipt_fields f" "wf_receipt_fields f'" "encode_receipt_signed_payload f = Inr bs"
    "encode_receipt_signed_payload f' = Inr bs"
  then show "f = f'"
    using put_receipt_payload_prefix [of f f' "[]" "[]"] by (auto simp: encode_receipt_signed_payload_ok)
qed (auto simp: encode_receipt_signed_payload_ok put_receipt_payload_def kReceiptDomainLabel_def)

interpretation receipt_ack: signed_payload encode_receipt_ack_signed_payload kReceiptAckDomainLabel wf_receipt_ack_fields
proof
  fix f f' bs
  assume a: "wf_receipt_ack_fields f" "wf_receipt_ack_fields f'" "encode_receipt_ack_signed_payload f = Inr bs"
    "encode_receipt_ack_signed_payload f' = Inr bs"
  then have "\<forall>b. ReceiptAckFields.stage f \<noteq> ReceiptStageRaw b" "\<forall>b. ReceiptAckFields.stage f' \<noteq> ReceiptStageRaw b"
    by (auto simp: encode_receipt_ack_signed_payload_def payload_simps)
  with a show "f = f'"
    using known_stage_inj
    by (cases f; cases f') (auto simp: encode_receipt_ack_signed_payload_def wf_receipt_ack_fields_def payload_simps)
qed (auto simp: encode_receipt_ack_signed_payload_def kReceiptAckDomainLabel_def wire_simps exn_simps)

interpretation recognition: signed_payload encode_recognition_signed_payload kRecognitionChallengeDomainLabel
  wf_recognition_fields
proof
  fix f f' bs
  assume "wf_recognition_fields f" "wf_recognition_fields f'" "encode_recognition_signed_payload f = Inr bs"
    "encode_recognition_signed_payload f' = Inr bs"
  then show "f = f'"
    by (cases f; cases f') (auto simp: encode_recognition_signed_payload_def wf_recognition_fields_def payload_simps)
qed (auto simp: encode_recognition_signed_payload_def kRecognitionChallengeDomainLabel_def wire_simps exn_simps)

interpretation login: signed_payload encode_login_challenge_signed_payload kLoginChallengeDomainLabel wf_login_fields
proof
  fix f f' bs
  assume "wf_login_fields f" "wf_login_fields f'" "encode_login_challenge_signed_payload f = Inr bs"
    "encode_login_challenge_signed_payload f' = Inr bs"
  then show "f = f'"
    by (cases f; cases f') (auto simp: encode_login_challenge_signed_payload_def wf_login_fields_def payload_simps)
qed (auto simp: encode_login_challenge_signed_payload_def kLoginChallengeDomainLabel_def wire_simps exn_simps)

interpretation disclosure: signed_payload encode_disclosure_signed_payload kDisclosureDomainLabel wf_disclosure_fields
proof
  fix f f' bs
  assume "wf_disclosure_fields f" "wf_disclosure_fields f'" "encode_disclosure_signed_payload f = Inr bs"
    "encode_disclosure_signed_payload f' = Inr bs"
  then show "f = f'"
    by (cases f; cases f') (auto simp: encode_disclosure_signed_payload_def wf_disclosure_fields_def payload_simps)
qed (auto simp: encode_disclosure_signed_payload_def kDisclosureDomainLabel_def wire_simps exn_simps)

interpretation trade_message: signed_payload encode_trade_message_context kTradeMessageDomainLabel wf_trade_message
proof
  fix f f' bs
  assume "wf_trade_message f" "wf_trade_message f'" "encode_trade_message_context f = Inr bs"
    "encode_trade_message_context f' = Inr bs"
  then show "f = f'"
    by (cases f; cases f')
       (auto simp: encode_trade_message_context_def wf_trade_message_def payload_simps dest: known_types_inj)
qed (auto simp: encode_trade_message_context_def kTradeMessageDomainLabel_def wire_simps exn_simps)

interpretation mediator_auth: signed_payload encode_mediator_auth_signed_payload kMediatorAuthDomainLabel wf_mediator_auth
proof
  fix f f' bs
  assume "wf_mediator_auth f" "wf_mediator_auth f'" "encode_mediator_auth_signed_payload f = Inr bs"
    "encode_mediator_auth_signed_payload f' = Inr bs"
  then show "f = f'"
    by (cases f; cases f') (auto simp: encode_mediator_auth_signed_payload_def wf_mediator_auth_def payload_simps)
qed (auto simp: encode_mediator_auth_signed_payload_def kMediatorAuthDomainLabel_def wire_simps exn_simps)

section \<open>The union\<close>

datatype signed_message =
    SignedReceipt ReceiptFields
  | SignedReceiptAck ReceiptAckFields
  | SignedRecognition RecognitionChallengeFields
  | SignedLogin LoginChallengeFields
  | SignedDisclosure DisclosureFields
  | SignedTradeMessage TradeMessageContext
  | SignedMediatorAuth MediatorAuthFields

primrec signed_bytes :: "signed_message \<Rightarrow> bytes result" where
  "signed_bytes (SignedReceipt f) = encode_receipt_signed_payload f"
| "signed_bytes (SignedReceiptAck f) = encode_receipt_ack_signed_payload f"
| "signed_bytes (SignedRecognition f) = encode_recognition_signed_payload f"
| "signed_bytes (SignedLogin f) = encode_login_challenge_signed_payload f"
| "signed_bytes (SignedDisclosure f) = encode_disclosure_signed_payload f"
| "signed_bytes (SignedTradeMessage f) = encode_trade_message_context f"
| "signed_bytes (SignedMediatorAuth f) = encode_mediator_auth_signed_payload f"

primrec domain_label :: "signed_message \<Rightarrow> string" where
  "domain_label (SignedReceipt f) = kReceiptDomainLabel"
| "domain_label (SignedReceiptAck f) = kReceiptAckDomainLabel"
| "domain_label (SignedRecognition f) = kRecognitionChallengeDomainLabel"
| "domain_label (SignedLogin f) = kLoginChallengeDomainLabel"
| "domain_label (SignedDisclosure f) = kDisclosureDomainLabel"
| "domain_label (SignedTradeMessage f) = kTradeMessageDomainLabel"
| "domain_label (SignedMediatorAuth f) = kMediatorAuthDomainLabel"

primrec wf_signed :: "signed_message \<Rightarrow> bool" where
  "wf_signed (SignedReceipt f) = wf_receipt_fields f"
| "wf_signed (SignedReceiptAck f) = wf_receipt_ack_fields f"
| "wf_signed (SignedRecognition f) = wf_recognition_fields f"
| "wf_signed (SignedLogin f) = wf_login_fields f"
| "wf_signed (SignedDisclosure f) = wf_disclosure_fields f"
| "wf_signed (SignedTradeMessage f) = wf_trade_message f"
| "wf_signed (SignedMediatorAuth f) = wf_mediator_auth f"

lemmas label_defs = kReceiptDomainLabel_def kReceiptAckDomainLabel_def kRecognitionChallengeDomainLabel_def
  kLoginChallengeDomainLabel_def kDisclosureDomainLabel_def kTradeMessageDomainLabel_def kMediatorAuthDomainLabel_def

lemma domain_label_fits: "length (domain_label m) \<le> 65535"
  by (cases m) (simp_all add: label_defs)

lemma signed_bytes_label: "signed_bytes m = Inr bs \<Longrightarrow> \<exists>body. bs = put_string (domain_label m) @ body"
  by (cases m) (auto dest: receipt.encode_label receipt_ack.encode_label recognition.encode_label login.encode_label
      disclosure.encode_label trade_message.encode_label mediator_auth.encode_label)

lemma signed_bytes_inj:
  assumes "wf_signed m" and "wf_signed m'" and "signed_bytes m = Inr bs" and "signed_bytes m' = Inr bs"
  shows "m = m'"
proof -
  have l: "domain_label m = domain_label m'"
    using signed_bytes_label [OF assms(3)] signed_bytes_label [OF assms(4)] domain_label_fits
    by (auto simp: put_string_eq)
  show ?thesis
    using l assms
    by (cases m; cases m'; simp add: label_defs)
       (auto intro: receipt.encode_inj receipt_ack.encode_inj recognition.encode_inj login.encode_inj
         disclosure.encode_inj trade_message.encode_inj mediator_auth.encode_inj)
qed

end
