(* ===== verification/Registry.thy ===== *)
theory Registry
  imports Codec_Registry Text_Parsing "HOL-Library.AList" "HOL-Library.List_Lexorder" "HOL-Library.Char_ord"
    "HOL-Library.Product_Lexorder"
begin

text \<open>
  The registry server (\<open>src/src/registry.cpp\<close>): registrations that an operator has to approve, the
  public listing, the entries learned from peer registries, and the line protocol of the operator.
  Times are points of the steady clock in nanoseconds; each operation gets the clock reading it
  makes. The maps are association lists, and the result of the unstable sort of a listing is the
  stable one.
\<close>

section \<open>State\<close>

datatype RegistryStatus = StatusPending | Approved

record RegistryEntry =
  entry_node :: RegistryNode
  expires_at :: int
  status :: RegistryStatus

record registry =
  entries :: "(string \<times> RegistryEntry) list"
  gossip_entries :: "(string \<times> RegistryEntry) list"

record Endpoint =
  endpoint_host :: string
  endpoint_port :: u16

record RegistryPeer =
  peer_registry :: Endpoint
  peer_pin :: string
  peer_proxy :: "Endpoint option"
  auto_trust :: bool

abbreviation (input) second :: int where "second \<equiv> 1000000000"

definition registry_key :: "RegistryNode \<Rightarrow> string" where
  "registry_key n = host n @ '':'' @ to_string (unat (port n))"

definition endpoint_key :: "Endpoint \<Rightarrow> string" where
  "endpoint_key p = endpoint_host p @ '':'' @ to_string (unat (endpoint_port p))"

definition registry_safe_reason :: "string \<Rightarrow> string" where
  "registry_safe_reason text =
     (let text = (if text = [] then ''registry request rejected'' else text);
          text = (if length text > kMaxReasonLength then take kMaxReasonLength text else text)
      in map (\<lambda>c. let value = (of_char c :: nat) in
                   if value < 0x20 \<or> value > 0x7e then CHR ''?'' else c) text)"

section \<open>Configuration of the peers\<close>

definition configured_registry_admin_port :: "string option \<Rightarrow> u16 result" where
  "configured_registry_admin_port v =
     (case v of None \<Rightarrow> Inr 7445
      | Some t \<Rightarrow>
        if t = [] then Inr 7445
        else case from_chars 16 t of
          Some (p, []) \<Rightarrow>
            if p = 0 then Inl (Invalid_argument ''invalid TRADEP2P_REGISTRY_ADMIN_PORT'') else Inr (of_nat p)
        | _ \<Rightarrow> Inl (Invalid_argument ''invalid TRADEP2P_REGISTRY_ADMIN_PORT''))"

definition parse_gossip_port :: "string \<Rightarrow> u16 result" where
  "parse_gossip_port v =
     rbind (stoul v) (\<lambda>(parsed, used).
     rbind (throw_if (used \<noteq> length v \<or> parsed = 0 \<or> parsed > 65535)
              (Invalid_argument ''invalid TRADEP2P_REGISTRY_GOSSIP_PEERS port'')) (\<lambda>_.
     Inr (ucast parsed)))"

definition parse_gossip_endpoint :: "string \<Rightarrow> Endpoint result" where
  "parse_gossip_endpoint t =
     (case rcut (CHR '':'') t of
        Some (h, p) \<Rightarrow>
          if h = [] \<or> p = []
          then Inl (Invalid_argument ''TRADEP2P_REGISTRY_GOSSIP_PEERS entry must be host:port|pin[|trust]'')
          else rbind (parse_gossip_port p) (\<lambda>n. Inr \<lparr>endpoint_host = h, endpoint_port = n\<rparr>)
      | None \<Rightarrow> Inl (Invalid_argument ''TRADEP2P_REGISTRY_GOSSIP_PEERS entry must be host:port|pin[|trust]''))"

definition is_onion :: "string \<Rightarrow> bool" where
  "is_onion h \<longleftrightarrow> length h \<ge> 6 \<and> drop (length h - 6) h = ''.onion''"

definition parse_gossip_peer :: "Endpoint option \<Rightarrow> string \<Rightarrow> RegistryPeer result" where
  "parse_gossip_peer shared_proxy entry =
     (case cut_at (CHR ''|'') entry of
        (_, None) \<Rightarrow> Inl (Invalid_argument ''TRADEP2P_REGISTRY_GOSSIP_PEERS entry must be host:port|pin[|trust]'')
      | (endpoint_text, Some rest) \<Rightarrow>
     (let (pin_text, second_bar) = cut_at (CHR ''|'') rest;
          trust_text = (case second_bar of None \<Rightarrow> [] | Some t \<Rightarrow> t) in
     rbind (parse_gossip_endpoint endpoint_text) (\<lambda>p.
     rbind (throw_if (is_onion (endpoint_host p) \<and> shared_proxy = None)
              (Invalid_argument (''TRADEP2P_REGISTRY_GOSSIP_PEERS names an .onion peer but '' @
                 ''TRADEP2P_REGISTRY_GOSSIP_PROXY is unset''))) (\<lambda>_.
     Inr \<lparr>peer_registry = p, peer_pin = pin_text,
          peer_proxy = (if is_onion (endpoint_host p) then shared_proxy else None),
          auto_trust = (trust_text = ''1'')\<rparr>))))"

text \<open>The loop over the entries between the commas; a trailing comma leaves an empty last entry.\<close>

function parse_gossip_peers :: "Endpoint option \<Rightarrow> string \<Rightarrow> RegistryPeer list result" where
  "parse_gossip_peers shared_proxy remaining =
     (let (entry, rest) = cut_at (CHR '','') remaining in
     rbind (parse_gossip_peer shared_proxy entry) (\<lambda>peer.
     case rest of
       None \<Rightarrow> Inr [peer]
     | Some r \<Rightarrow> rbind (parse_gossip_peers shared_proxy r) (\<lambda>peers. Inr (peer # peers))))"
  by auto

termination parse_gossip_peers
  by (relation "measure (\<lambda>(_, t). length t)") (auto, metis cut_at_shorter snd_conv)

definition configured_registry_gossip_peers :: "string option \<Rightarrow> string option \<Rightarrow> RegistryPeer list result" where
  "configured_registry_gossip_peers peers_value proxy_value =
     (case peers_value of None \<Rightarrow> Inr []
      | Some peers_text \<Rightarrow>
     if peers_text = [] then Inr [] else
     rbind (case proxy_value of None \<Rightarrow> Inr None
            | Some t \<Rightarrow> if t = [] then Inr None else rbind (parse_gossip_endpoint t) (\<lambda>p. Inr (Some p))) (\<lambda>shared_proxy.
     parse_gossip_peers shared_proxy peers_text))"

section \<open>Registrations and the listing\<close>

definition remove_expired_from_locked :: "int \<Rightarrow> (string \<times> RegistryEntry) list \<Rightarrow> (string \<times> RegistryEntry) list" where
  "remove_expired_from_locked t m = filter (\<lambda>(_, entry). \<not> expires_at entry \<le> t) m"

definition remove_expired_locked :: "int \<Rightarrow> registry \<Rightarrow> registry" where
  "remove_expired_locked t s =
     s\<lparr>entries := remove_expired_from_locked t (entries s),
       gossip_entries := remove_expired_from_locked t (gossip_entries s)\<rparr>"

definition register_node :: "int \<Rightarrow> RegistryNode \<Rightarrow> (registry, unit) action" where
  "register_node t n =
     sbind (slift (validate_registry_node n False)) (\<lambda>_.
     let n = n\<lparr>remaining_ttl_seconds := 0\<rparr> in
     sbind (smodify (remove_expired_locked t)) (\<lambda>_.
     let key = registry_key n in
     sbind (sget (\<lambda>s. map_of (entries s) key)) (\<lambda>existing.
     sbind (slift (throw_if (case existing of None \<Rightarrow> False
                | Some entry \<Rightarrow> certificate_pin (entry_node entry) \<noteq> certificate_pin n)
              (Runtime_error ''endpoint is already registered with a different certificate pin''))) (\<lambda>_.
     sbind (sget (\<lambda>s. length (entries s))) (\<lambda>count.
     sbind (slift (throw_if (existing = None \<and> count \<ge> kMaxRegistryNodes)
              (Runtime_error ''registry is full''))) (\<lambda>_.
     let st = (case existing of None \<Rightarrow> StatusPending | Some entry \<Rightarrow> status entry) in
     smodify (\<lambda>s. s\<lparr>entries := AList.update key
       \<lparr>entry_node = n, expires_at = t + int (unat kRegistryTtlSeconds) * second, status = st\<rparr>
       (entries s)\<rparr>)))))))"

definition listed_node :: "int \<Rightarrow> RegistryEntry \<Rightarrow> RegistryNode" where
  "listed_node t entry =
     (entry_node entry)\<lparr>remaining_ttl_seconds := of_int (max 1 ((expires_at entry - t) div second))\<rparr>"

definition append_approved :: "int \<Rightarrow> (string \<times> RegistryEntry) list \<Rightarrow> RegistryNode list" where
  "append_approved t m = map (\<lambda>(_, entry). listed_node t entry) (filter (\<lambda>(_, entry). status entry = Approved) m)"

definition snapshot :: "int \<Rightarrow> (registry, RegistryNodesMessage) action" where
  "snapshot t =
     sbind (smodify (remove_expired_locked t)) (\<lambda>_.
     sget (\<lambda>s. \<lparr>nodes = sort_key (\<lambda>n. (host n, port n))
       (append_approved t (entries s) @ append_approved t (gossip_entries s))\<rparr>))"

definition registry_request :: "int \<Rightarrow> MessageType \<Rightarrow> bytes \<Rightarrow> (registry, MessageType \<times> bytes) action" where
  "registry_request t ty bs =
     (if ty = RegistryRegister then
        sbind (slift (decode_registry_register bs)) (\<lambda>message.
        sbind (register_node t (node message)) (\<lambda>_.
        sbind (slift (encode_registry_registered \<lparr>ttl_seconds = kRegistryTtlSeconds\<rparr>)) (\<lambda>reply.
        sreturn (RegistryRegistered, reply))))
      else if ty = RegistryList then
        sbind (slift (throw_if (bs \<noteq> []) (Invalid_argument ''registry list request must be empty''))) (\<lambda>_.
        sbind (snapshot t) (\<lambda>listing.
        sbind (slift (encode_registry_nodes listing)) (\<lambda>reply.
        sreturn (RegistryNodes, reply))))
      else sthrow (Invalid_argument ''unsupported registry request''))"

text \<open>One connection: one request, one reply; an error that cannot be encoded gets none.\<close>

definition handle_connection :: "int \<Rightarrow> MessageType \<Rightarrow> bytes \<Rightarrow> registry \<Rightarrow> (MessageType \<times> bytes) option \<times> registry" where
  "handle_connection t ty bs s =
     (case registry_request t ty bs s of
        (Inr reply, s') \<Rightarrow> (Some reply, s')
      | (Inl ex, s') \<Rightarrow>
          (case encode_error \<lparr>ErrorMessage.reason = registry_safe_reason (what ex)\<rparr> of
             Inr reply \<Rightarrow> (Some (Error, reply), s')
           | Inl _ \<Rightarrow> (None, s')))"

section \<open>Peers\<close>

definition list_registered_nodes_over :: "MessageType \<times> bytes \<Rightarrow> RegistryNodesMessage result" where
  "list_registered_nodes_over reply =
     (if fst reply = Error then rbind (decode_error (snd reply)) (\<lambda>m. Inl (Runtime_error (ErrorMessage.reason m)))
      else if fst reply \<noteq> RegistryNodes then Inl (Runtime_error ''registry returned unexpected response'')
      else decode_registry_nodes (snd reply))"

definition register_node_once_over :: "MessageType \<times> bytes \<Rightarrow> unit result" where
  "register_node_once_over reply =
     (if fst reply = Error then rbind (decode_error (snd reply)) (\<lambda>m. Inl (Runtime_error (ErrorMessage.reason m)))
      else if fst reply \<noteq> RegistryRegistered then Inl (Runtime_error ''registry returned unexpected response'')
      else rbind (decode_registry_registered (snd reply)) (\<lambda>_. Inr ()))"

definition sooner_entry :: "string \<times> RegistryEntry \<Rightarrow> string \<times> RegistryEntry \<Rightarrow> string \<times> RegistryEntry" where
  "sooner_entry soonest candidate =
     (if expires_at (snd candidate) < expires_at (snd soonest) then candidate else soonest)"

definition evict_soonest_expiring_gossip_entry_locked ::
  "(string \<times> RegistryEntry) list \<Rightarrow> (string \<times> RegistryEntry) list" where
  "evict_soonest_expiring_gossip_entry_locked m =
     (case m of [] \<Rightarrow> [] | x # _ \<Rightarrow> AList.delete (fst (foldl sooner_entry x m)) m)"

definition absorb_node :: "int \<Rightarrow> RegistryPeer \<Rightarrow> RegistryNode \<Rightarrow> registry \<Rightarrow> registry" where
  "absorb_node t peer n s =
     (let n = n\<lparr>source_registry := endpoint_key (peer_registry peer)\<rparr>;
          key = registry_key n;
          existing = map_of (gossip_entries s) key;
          st = (case existing of Some entry \<Rightarrow> status entry
                | None \<Rightarrow> if auto_trust peer then Approved else StatusPending);
          m = (if existing = None \<and> length (gossip_entries s) \<ge> kMaxGossipCachedNodes
               then evict_soonest_expiring_gossip_entry_locked (gossip_entries s) else gossip_entries s);
          ttl = int (unat (max 1 (min (remaining_ttl_seconds n) kRegistryTtlSeconds))) * second
      in s\<lparr>gossip_entries := AList.update key \<lparr>entry_node = n, expires_at = t + ttl, status = st\<rparr> m\<rparr>)"

definition gossip_pull :: "int \<Rightarrow> RegistryPeer \<Rightarrow> MessageType \<times> bytes \<Rightarrow> registry \<Rightarrow> registry" where
  "gossip_pull t peer reply s =
     (case list_registered_nodes_over reply of
        Inl _ \<Rightarrow> s
      | Inr pulled \<Rightarrow> foldl (\<lambda>s n. absorb_node t peer n s) s (nodes pulled))"

section \<open>The operator\<close>

fun pending_listing :: "(string \<times> RegistryEntry) list \<Rightarrow> string \<Rightarrow> string result" where
  "pending_listing [] listing = Inr listing"
| "pending_listing ((key, entry) # rest) listing =
     (if status entry \<noteq> StatusPending then pending_listing rest listing else
     rbind (certificate_pin_to_hex (certificate_pin (entry_node entry))) (\<lambda>pin.
     pending_listing rest
       ((if listing = [] then [] else listing @ '','') @ key @ ''|'' @ pin @ ''|'' @ source_registry (entry_node entry))))"

definition list_pending :: "int \<Rightarrow> (registry, string) action" where
  "list_pending t =
     sbind (smodify (remove_expired_locked t)) (\<lambda>_.
     sbind (sget (\<lambda>s. rbind (pending_listing (entries s) []) (pending_listing (gossip_entries s)))) (\<lambda>r.
     sbind (slift r) (\<lambda>listing.
     sreturn (if listing = [] then ''OK NONE'' else ''OK '' @ listing))))"

definition set_status :: "string \<Rightarrow> RegistryStatus \<Rightarrow> (string \<times> RegistryEntry) list \<Rightarrow> (string \<times> RegistryEntry) list" where
  "set_status key st m = map (\<lambda>(k, entry). (k, if k = key then entry\<lparr>status := st\<rparr> else entry)) m"

definition moderate :: "string \<Rightarrow> string \<Rightarrow> (registry, string) action" where
  "moderate command key =
     (\<lambda>s. if map_of (entries s) key = None \<and> map_of (gossip_entries s) key = None
          then (Inr ''ERR no such registration'', s)
          else if map_of (entries s) key \<noteq> None then
            (Inr ''OK'', s\<lparr>entries := (if command = ''APPROVE'' then set_status key Approved (entries s)
                                       else AList.delete key (entries s))\<rparr>)
          else
            (Inr ''OK'', s\<lparr>gossip_entries := (if command = ''APPROVE'' then set_status key Approved (gossip_entries s)
                                              else AList.delete key (gossip_entries s))\<rparr>))"

definition handle_admin_connection :: "string \<Rightarrow> int \<Rightarrow> string \<Rightarrow> (registry, string) action" where
  "handle_admin_connection admin_token t received =
     (let (command, stream) = next_word (admin_line received);
          (token, stream) = next_word stream in
     if admin_token = [] \<or> token \<noteq> admin_token then sreturn ''ERR unauthorized''
     else if command = ''LISTPENDING'' then list_pending t
     else if command = ''APPROVE'' \<or> command = ''REJECT'' then
       (let (h, stream) = next_word stream; (port_text, _) = next_word stream in
        case from_chars 16 port_text of
          Some (p, []) \<Rightarrow>
            if h = [] then sreturn ''ERR invalid host/port''
            else moderate command (h @ '':'' @ to_string p)
        | _ \<Rightarrow> sreturn ''ERR invalid host/port'')
     else sreturn ''ERR unknown command'')"

end
