(* ===== verification/Registry_Safety.thy ===== *)
theory Registry_Safety
  imports Registry
begin

text \<open>
  What a registry guarantees over any sequence of requests, pulls from its configured peers and
  operator commands: bounded pools of valid nodes stored under their own keys, listings that always
  fit a frame, and direct entries that only the operator approves and whose pin no request changes.
\<close>

section \<open>Pools of entries\<close>

definition source_ok :: "string \<Rightarrow> bool" where
  "source_ok s \<longleftrightarrow> s = [] \<or> validate_printable s kMaxNodeHostLength False ''source registry'' = Inr ()"

definition node_ok :: "RegistryNode \<Rightarrow> bool" where
  "node_ok n \<longleftrightarrow> validate_printable (host n) kMaxNodeHostLength False ''node host'' = Inr () \<and>
     port n \<noteq> 0 \<and> nonzero (certificate_pin n) \<and> is_pin (certificate_pin n) \<and> source_ok (source_registry n)"

abbreviation (input) ttl_span :: int where "ttl_span \<equiv> 300 * second"

definition entry_ok :: "int \<Rightarrow> string \<Rightarrow> RegistryEntry \<Rightarrow> bool" where
  "entry_ok t k e \<longleftrightarrow> k = registry_key (entry_node e) \<and> node_ok (entry_node e) \<and> expires_at e \<le> t + ttl_span"

definition pool_inv :: "nat \<Rightarrow> int \<Rightarrow> (string \<times> RegistryEntry) list \<Rightarrow> bool" where
  "pool_inv cap t m \<longleftrightarrow> distinct (map fst m) \<and> length m \<le> cap \<and> (\<forall>(k, e)\<in>set m. entry_ok t k e)"

definition registry_inv :: "int \<Rightarrow> registry \<Rightarrow> bool" where
  "registry_inv t s \<longleftrightarrow> pool_inv kMaxRegistryNodes t (entries s) \<and> pool_inv kMaxGossipCachedNodes t (gossip_entries s)"

lemma wf_node_ok: "wf_node b n \<Longrightarrow> node_ok n"
  by (auto simp: wf_node_def node_ok_def source_ok_def valid_node_iff)

lemma node_ok_ttl [simp]: "node_ok (n\<lparr>remaining_ttl_seconds := x\<rparr>) = node_ok n"
  by (simp add: node_ok_def)

lemma node_ok_source: "node_ok n \<Longrightarrow> source_ok k \<Longrightarrow> node_ok (n\<lparr>source_registry := k\<rparr>)"
  by (simp add: node_ok_def)

lemma registry_key_simps [simp]:
  "registry_key (n\<lparr>remaining_ttl_seconds := x\<rparr>) = registry_key n"
  "registry_key (n\<lparr>source_registry := k\<rparr>) = registry_key n"
  by (simp_all add: registry_key_def)

lemma registry_key_inj: "registry_key n = registry_key n' \<longleftrightarrow> host n = host n' \<and> port n = port n'"
  using last_separator [of "host n" "CHR '':''" "to_string (unat (port n))" "host n'" "to_string (unat (port n'))"]
    to_string_no_colon
  by (auto simp: registry_key_def word_unat_eq_iff)

lemma pool_later: "pool_inv cap t m \<Longrightarrow> t \<le> t' \<Longrightarrow> pool_inv cap t' m"
  by (force simp: pool_inv_def entry_ok_def)

lemma pool_filter: "pool_inv cap t m \<Longrightarrow> pool_inv cap t (filter P m)"
  by (auto simp: pool_inv_def distinct_map_filter intro: le_trans [OF length_filter_le])

lemma pool_delete: "pool_inv cap t m \<Longrightarrow> pool_inv cap t (AList.delete k m)"
  by (simp add: AList.delete_eq pool_filter)

lemma pool_set_status: "pool_inv cap t m \<Longrightarrow> pool_inv cap t (set_status k st m)"
  by (auto simp: pool_inv_def set_status_def entry_ok_def comp_def case_prod_unfold)

lemma length_update: "length (AList.update k v m) = (if map_of m k = None then Suc (length m) else length m)"
  by (induction m) auto

lemma set_update_subset: "set (AList.update k v m) \<subseteq> insert (k, v) (set m)"
  by (induction m) auto

lemma pool_update:
  assumes "pool_inv cap t m" and "entry_ok t k e" and "map_of m k = None \<Longrightarrow> length m < cap"
  shows "pool_inv cap t (AList.update k e m)"
  using assms set_update_subset [of k e m]
  by (fastforce simp: pool_inv_def length_update distinct_update split: if_splits)

lemma evict_eq:
  "m \<noteq> [] \<Longrightarrow> evict_soonest_expiring_gossip_entry_locked m = AList.delete (fst (foldl sooner_entry (hd m) m)) m"
  by (cases m) (simp, simp only: evict_soonest_expiring_gossip_entry_locked_def list.case list.sel)

lemma pool_evict: "pool_inv cap t m \<Longrightarrow> pool_inv cap t (evict_soonest_expiring_gossip_entry_locked m)"
  by (cases "m = []") (simp_all add: evict_eq pool_delete, simp add: evict_soonest_expiring_gossip_entry_locked_def)

text \<open>The scan ends at one of the entries, so an eviction makes room.\<close>

lemma soonest_in: "foldl sooner_entry x m \<in> insert x (set m)"
  by (induction m arbitrary: x) (auto simp: sooner_entry_def split: if_splits)

lemma evict_shrinks:
  assumes "m \<noteq> []"
  shows "length (evict_soonest_expiring_gossip_entry_locked m) < length m"
proof -
  let ?k = "fst (foldl sooner_entry (hd m) m)"
  have "foldl sooner_entry (hd m) m \<in> set m"
    using soonest_in [of "hd m" m] assms by auto
  then have "\<exists>p\<in>set m. ?k = fst p"
    by auto
  then show ?thesis
    using assms by (auto simp: evict_eq AList.delete_eq comp_def case_prod_unfold intro!: length_filter_less)
qed

section \<open>Every operation keeps the pools\<close>

lemma remove_expired_inv: "registry_inv t s \<Longrightarrow> registry_inv t (remove_expired_locked t' s)"
  by (simp add: registry_inv_def remove_expired_locked_def remove_expired_from_locked_def pool_filter)

lemma register_node_inv:
  assumes "registry_inv t s" and "wf_node False n"
  shows "registry_inv t (snd (register_node t n s))"
proof -
  let ?s = "remove_expired_locked t s"
  have inv: "registry_inv t ?s"
    using assms(1) by (rule remove_expired_inv)
  have "entry_ok t (registry_key n) \<lparr>entry_node = n\<lparr>remaining_ttl_seconds := 0\<rparr>,
      expires_at = t + ttl_span, status = st\<rparr>" for st
    using wf_node_ok [OF assms(2)] by (simp add: entry_ok_def)
  then have up: "pool_inv kMaxRegistryNodes t (AList.update (registry_key n) \<lparr>entry_node = n\<lparr>remaining_ttl_seconds := 0\<rparr>,
      expires_at = t + ttl_span, status = st\<rparr> (entries ?s))"
    if "map_of (entries ?s) (registry_key n) = None \<Longrightarrow> length (entries ?s) < kMaxRegistryNodes" for st
    using inv that by (intro pool_update) (auto simp: registry_inv_def)
  have "wp (register_node t n) (\<lambda>_. registry_inv t) (\<lambda>_. registry_inv t) s"
    using inv up assms(1)
    by (auto simp: register_node_def wp_simps Let_def throw_if_def registry_inv_def not_le
        split: sum.splits if_splits)
  then show ?thesis
    by (cases "register_node t n s") (auto simp: wp_def split: sum.splits)
qed

text \<open>A request leaves the state alone, drops expired entries or registers a decoded node.\<close>

lemma registry_request_cases:
  assumes "P s" and "P (remove_expired_locked t s)"
    and "\<And>m. decode_registry_register bs = Inr m \<Longrightarrow> P (snd (register_node t (node m) s))"
  shows "P (snd (handle_connection t ty bs s))"
proof -
  have "P (snd (registry_request t ty bs s))"
  proof (cases "decode_registry_register bs")
    case (Inl e)
    then show ?thesis
      using assms(1,2) by (simp add: registry_request_def sbind_def snapshot_def action_defs throw_if_def split: sum.split)
  next
    case (Inr m)
    obtain r s' where "register_node t (node m) s = (r, s')"
      by (rule prod.exhaust)
    with Inr assms show ?thesis
      by (cases r) (simp_all add: registry_request_def sbind_def snapshot_def action_defs throw_if_def split: sum.split)
  qed
  then show ?thesis
    by (auto simp: handle_connection_def split: prod.splits sum.splits)
qed

lemma handle_connection_inv:
  assumes "registry_inv t s" and "handle_connection t ty bs s = (r, s')"
  shows "registry_inv t s'"
proof -
  have "registry_inv t (snd (handle_connection t ty bs s))"
    by (rule registry_request_cases [where P = "registry_inv t", OF assms(1) remove_expired_inv [OF assms(1)]
          register_node_inv [OF assms(1)]]) (simp add: registry_register_codec)
  with assms(2) show ?thesis
    by simp
qed

lemma ttl_cap: "int (unat (max 1 (min (x :: u32) 300))) * second \<le> ttl_span"
proof -
  have "max 1 (min x 300) \<le> 300"
    by (simp add: max_def min_def)
  then have "unat (max 1 (min x 300)) \<le> 300"
    by (simp only: word_le_nat_alt unat_numeral) simp
  then have "int (unat (max 1 (min x 300))) \<le> 300"
    by linarith
  then show ?thesis
    by (rule mult_right_mono) simp
qed

lemma pool_make_room:
  fixes k :: string
  assumes "pool_inv cap t m" and "0 < cap"
  defines "m' \<equiv> (if map_of m k = None \<and> length m \<ge> cap then evict_soonest_expiring_gossip_entry_locked m else m)"
  shows "pool_inv cap t m'" and "map_of m' k = None \<Longrightarrow> length m' < cap"
proof -
  show "pool_inv cap t m'"
    using assms(1) by (simp add: m'_def pool_evict)
  have "length (evict_soonest_expiring_gossip_entry_locked m) < cap" if "length m \<ge> cap"
    using evict_shrinks [of m] that assms(1,2) unfolding pool_inv_def by fastforce
  then show "length m' < cap" if "map_of m' k = None"
    using that unfolding m'_def by (auto split: if_splits)
qed

lemma absorb_node_inv:
  assumes "registry_inv t s" and "wf_node True n" and "source_ok (endpoint_key (peer_registry peer))"
  shows "registry_inv t (absorb_node t peer n s)"
proof -
  let ?n = "n\<lparr>source_registry := endpoint_key (peer_registry peer)\<rparr>"
  let ?e = "\<lambda>st. \<lparr>entry_node = ?n,
      expires_at = t + int (unat (max 1 (min (remaining_ttl_seconds n) 300))) * second, status = st\<rparr>"
  have e: "entry_ok t (registry_key n) (?e st)" for st
    using node_ok_source [OF wf_node_ok [OF assms(2)] assms(3)] ttl_cap [of "remaining_ttl_seconds n"]
    by (simp add: entry_ok_def)
  have pool: "pool_inv kMaxGossipCachedNodes t (gossip_entries s)"
    using assms(1) by (simp add: registry_inv_def)
  note room = pool_make_room [OF pool, of "registry_key n"]
  have "pool_inv kMaxGossipCachedNodes t (AList.update (registry_key n) (?e st)
      (if map_of (gossip_entries s) (registry_key n) = None \<and> length (gossip_entries s) \<ge> kMaxGossipCachedNodes
       then evict_soonest_expiring_gossip_entry_locked (gossip_entries s) else gossip_entries s))" for st
    by (rule pool_update [OF room(1) e room(2)]) simp_all
  with assms(1) show ?thesis
    unfolding absorb_node_def registry_inv_def Let_def by simp
qed

lemma absorb_all_inv:
  assumes "registry_inv t s" and "\<forall>n\<in>set ns. wf_node True n" and "source_ok (endpoint_key (peer_registry peer))"
  shows "registry_inv t (foldl (\<lambda>s n. absorb_node t peer n s) s ns)"
  using assms by (induction ns arbitrary: s) (auto simp: absorb_node_inv)

lemma gossip_pull_inv:
  assumes "registry_inv t s" and "source_ok (endpoint_key (peer_registry peer))"
  shows "registry_inv t (gossip_pull t peer reply s)"
  using assms registry_nodes_codec [of "snd reply"]
  by (auto simp: gossip_pull_def list_registered_nodes_over_def exn_simps rbind_def
      intro!: absorb_all_inv split: sum.splits if_splits)

lemma admin_keeps:
  "keeps (registry_inv t) (list_pending t)" "keeps (registry_inv t) (moderate c k)"
  by (auto simp: list_pending_def intro!: keeps_intros keeps_smodify remove_expired_inv)
     (simp add: keeps_def moderate_def registry_inv_def pool_delete pool_set_status)

lemma admin_inv:
  assumes "registry_inv t s" and "handle_admin_connection tok t line s = (r, s')"
  shows "registry_inv t s'"
proof -
  have "keeps (registry_inv t) (handle_admin_connection tok t line)"
    unfolding handle_admin_connection_def Let_def
    by (intro keeps_prod keeps_if admin_keeps keeps_basic)
       (simp add: admin_keeps keeps_basic split: option.split prod.split list.split)
  then show ?thesis
    using assms by (rule keeps_result)
qed

section \<open>The registry in service\<close>

definition empty_registry :: registry where
  "empty_registry = \<lparr>entries = [], gossip_entries = []\<rparr>"

text \<open>\<open>registry_serves tok ps t s\<close>: a registry with admin token \<open>tok\<close> and configured peers \<open>ps\<close> can be in
  state \<open>s\<close> when its clock last read \<open>t\<close>.\<close>

inductive registry_serves :: "string \<Rightarrow> RegistryPeer list \<Rightarrow> int \<Rightarrow> registry \<Rightarrow> bool" for tok ps where
  registry_start: "registry_serves tok ps t empty_registry"
| registry_request: "registry_serves tok ps t s \<Longrightarrow> t \<le> t' \<Longrightarrow>
    handle_connection t' ty bs s = (r, s') \<Longrightarrow> registry_serves tok ps t' s'"
| registry_pull: "registry_serves tok ps t s \<Longrightarrow> t \<le> t' \<Longrightarrow> peer \<in> set ps \<Longrightarrow>
    registry_serves tok ps t' (gossip_pull t' peer reply s)"
| registry_admin: "registry_serves tok ps t s \<Longrightarrow> t \<le> t' \<Longrightarrow>
    handle_admin_connection tok t' line s = (q, s') \<Longrightarrow> registry_serves tok ps t' s'"

lemma registry_inv_later: "registry_inv t s \<Longrightarrow> t \<le> t' \<Longrightarrow> registry_inv t' s"
  by (auto simp: registry_inv_def intro: pool_later)

lemma registry_serves_inv:
  assumes "registry_serves tok ps t s" and "\<forall>p\<in>set ps. source_ok (endpoint_key (peer_registry p))"
  shows "registry_inv t s"
  using assms
proof (induction rule: registry_serves.induct)
  case (registry_start t)
  then show ?case
    by (simp add: registry_inv_def pool_inv_def empty_registry_def)
qed (auto intro: handle_connection_inv gossip_pull_inv admin_inv registry_inv_later)

section \<open>Listings\<close>

definition live :: "int \<Rightarrow> registry \<Rightarrow> RegistryEntry set" where
  "live t s = {e \<in> snd ` set (entries s @ gossip_entries s). status e = Approved \<and> t < expires_at e}"

definition listing :: "int \<Rightarrow> registry \<Rightarrow> RegistryNode list" where
  "listing t s = sort_key (\<lambda>n. (host n, port n))
     (append_approved t (entries (remove_expired_locked t s)) @ append_approved t (gossip_entries (remove_expired_locked t s)))"

lemma snapshot_eq: "snapshot t s = (Inr \<lparr>nodes = listing t s\<rparr>, remove_expired_locked t s)"
  by (simp add: snapshot_def listing_def action_defs)

lemma set_listing: "set (listing t s) = listed_node t ` live t s"
  by (force simp: listing_def live_def append_approved_def remove_expired_locked_def remove_expired_from_locked_def)

lemma listed_wf:
  assumes "node_ok (entry_node e)" and "t < expires_at e" and "expires_at e \<le> t + ttl_span"
  shows "wf_node True (listed_node t e)"
proof -
  let ?r = "max 1 ((expires_at e - t) div second)"
  have r: "1 \<le> ?r" "?r \<le> 300"
    using assms(3) by auto
  then have "uint (word_of_int ?r :: u32) = ?r"
    by (simp add: uint_word_of_int)
  with r have "word_of_int ?r \<noteq> (0 :: u32)" "word_of_int ?r \<le> (300 :: u32)"
    by (auto simp: word_le_def word_uint_eq_iff simp del: word_of_int_eq_0_iff)
  with assms(1) show ?thesis
    by (auto simp: wf_node_def valid_node_iff listed_node_def node_ok_def source_ok_def)
qed

lemma listing_length: "registry_inv t s \<Longrightarrow> length (listing t s) \<le> kMaxRegistryNodesInList"
proof -
  assume "registry_inv t s"
  then have "length (entries s) \<le> 16" "length (gossip_entries s) \<le> 128"
    by (simp_all add: registry_inv_def pool_inv_def)
  moreover have "length (append_approved t (remove_expired_from_locked t m)) \<le> length m" for m
    unfolding append_approved_def remove_expired_from_locked_def
    by (simp add: le_trans [OF length_filter_le length_filter_le])
  note this [of "entries s"] this [of "gossip_entries s"]
  ultimately show ?thesis
    unfolding listing_def remove_expired_locked_def by simp
qed

lemma node_size: "wf_node True n \<Longrightarrow> length (put_registry_node True n) \<le> 234"
  using valid_node_lengths [of True n] by (auto simp: put_registry_node_def wf_node_def is_pin_def)

lemma concat_size: "\<forall>x\<in>set xs. length (f x) \<le> k \<Longrightarrow> length (concat (map f xs)) \<le> k * length xs"
  by (induction xs) auto

lemma listing_served:
  assumes "registry_inv t s"
  shows "\<exists>bs. encode_registry_nodes \<lparr>nodes = listing t s\<rparr> = Inr bs \<and>
    decode_registry_nodes bs = Inr \<lparr>nodes = listing t s\<rparr> \<and> length bs \<le> kMaxFramePayload"
proof -
  have wf: "\<forall>n\<in>set (listing t s). wf_node True n"
    using assms unfolding set_listing
    by (auto simp: live_def registry_inv_def pool_inv_def entry_ok_def intro!: listed_wf)
  let ?bs = "put_u16 (of_nat (length (listing t s))) @ concat (map (put_registry_node True) (listing t s))"
  have len: "length (listing t s) \<le> 160"
    using listing_length [OF assms] .
  have enc: "encode_registry_nodes \<lparr>nodes = listing t s\<rparr> = Inr ?bs"
    using wf len by (auto simp: encode_registry_nodes_def wire_simps exn_simps wf_node_def)
  moreover have "decode_registry_nodes ?bs = Inr \<lparr>nodes = listing t s\<rparr>"
    using enc wf by (simp add: registry_nodes_codec)
  moreover have "length ?bs \<le> kMaxFramePayload"
    using concat_size [of "listing t s" "put_registry_node True" 234] wf len node_size by fastforce
  ultimately show ?thesis
    by blast
qed

lemma list_request:
  assumes "registry_inv t s"
  shows "\<exists>bs. handle_connection t RegistryList [] s = (Some (RegistryNodes, bs), remove_expired_locked t s) \<and>
    decode_registry_nodes bs = Inr \<lparr>nodes = listing t s\<rparr> \<and> length bs \<le> kMaxFramePayload"
proof -
  obtain bs where bs: "encode_registry_nodes \<lparr>nodes = listing t s\<rparr> = Inr bs"
    "decode_registry_nodes bs = Inr \<lparr>nodes = listing t s\<rparr>" "length bs \<le> kMaxFramePayload"
    using listing_served [OF assms] by blast
  have "registry_request t RegistryList [] s = (Inr (RegistryNodes, bs), remove_expired_locked t s)"
    by (simp add: registry_request_def sbind_def snapshot_eq bs(1) action_defs)
  with bs(2,3) show ?thesis
    by (auto simp: handle_connection_def)
qed

section \<open>Curation\<close>

text \<open>What a request can do to a direct entry: refresh it with the same pin, or add it as pending.\<close>

definition curated :: "int \<Rightarrow> registry \<Rightarrow> registry \<Rightarrow> bool" where
  "curated t s s' \<longleftrightarrow> (\<forall>k e'. map_of (entries s') k = Some e' \<longrightarrow>
     (case map_of (entries (remove_expired_locked t s)) k of
        Some e \<Rightarrow> status e' = status e \<and> certificate_pin (entry_node e') = certificate_pin (entry_node e)
      | None \<Rightarrow> status e' = StatusPending)) \<or> entries s' = entries s"

lemma curated_expired: "curated t s (remove_expired_locked t s)"
  by (simp add: curated_def)

lemma register_curated: "curated t s (snd (register_node t n s))"
proof -
  let ?s = "remove_expired_locked t s" and ?k = "registry_key n"
  have "wp (register_node t n) (\<lambda>_. curated t s) (\<lambda>_. curated t s) s"
    using curated_expired [of t s]
    by (auto simp: register_node_def wp_simps Let_def throw_if_def curated_def update_conv'
        split: sum.splits option.splits if_splits)
  then show ?thesis
    by (cases "register_node t n s") (auto simp: wp_def split: sum.splits)
qed

lemma request_curated: "curated t s (snd (handle_connection t ty bs s))"
  by (rule registry_request_cases [where P = "curated t s", OF _ curated_expired register_curated])
     (simp add: curated_def)

lemma absorb_entries [simp]: "entries (absorb_node t peer n s) = entries s"
  by (simp add: absorb_node_def Let_def)

lemma absorb_all_entries: "entries (foldl (\<lambda>s n. absorb_node t peer n s) s ns) = entries s"
  by (induction ns arbitrary: s) simp_all

lemma pull_entries: "entries (gossip_pull t peer reply s) = entries s"
  by (simp add: gossip_pull_def absorb_all_entries split: sum.splits)

lemma unauthorised_admin:
  assumes "fst (next_word (snd (next_word (admin_line received)))) \<noteq> tok \<or> tok = []"
  shows "handle_admin_connection tok t received s = (Inr ''ERR unauthorized'', s)"
  using assms by (auto simp: handle_admin_connection_def action_defs split: prod.splits)

lemma request_approval:
  assumes "distinct (map fst (entries s))"
    and "map_of (entries (snd (handle_connection t ty bs s))) k = Some e' \<and> status e' = Approved"
  shows "\<exists>e. map_of (entries s) k = Some e \<and> status e = Approved \<and>
    certificate_pin (entry_node e') = certificate_pin (entry_node e)"
proof -
  have live: "map_of (entries s) k = Some e" if "map_of (entries (remove_expired_locked t s)) k = Some e" for e
    using map_of_SomeD [OF that] assms(1)
    by (auto simp: remove_expired_locked_def remove_expired_from_locked_def)
  show ?thesis
    using request_curated [of t s ty bs] assms(2) live
    unfolding curated_def by (force split: option.splits)
qed

text \<open>A pull refreshes a learned entry: its status stays, its contents are the peer's.\<close>

lemma absorb_existing:
  assumes "map_of (gossip_entries s) (registry_key n) = Some e"
  shows "\<exists>e'. map_of (gossip_entries (absorb_node t peer n s)) (registry_key n) = Some e' \<and> status e' = status e \<and>
    certificate_pin (entry_node e') = certificate_pin n \<and> t < RegistryEntry.expires_at e'"
proof -
  have "1 \<le> max 1 (min (remaining_ttl_seconds n) 300)"
    by (rule max.cobounded1)
  then have "0 < unat (max 1 (min (remaining_ttl_seconds n) 300))"
    by (simp only: word_le_nat_alt unat_1)
  then have "0 < int (unat (max 1 (min (remaining_ttl_seconds n) 300))) * second"
    by linarith
  with assms show ?thesis
    by (simp add: absorb_node_def Let_def update_conv')
qed

end
