(* ===== verification/Identity_Examples.thy ===== *)
theory Identity_Examples
  imports Examples Signed_Payloads Registry_Safety
begin

text \<open>
  A disclosed receipt, a recognition challenge with its response, and a registry: concrete values the
  theorems about identities and the registry are applied to.
\<close>

text \<open>A hash of 32 bytes that tells the two inputs at hand apart by their length.\<close>

definition demo_hashing_crypto :: crypto where
  "demo_hashing_crypto = demo_accepting_crypto\<lparr>sha256 := (\<lambda>x. if length x = 32 then replicate 32 2 else replicate 32 1)\<rparr>"

definition demo_disclosure :: DisclosureFields where
  "demo_disclosure = \<lparr>DisclosureFields.suite_id = 2, protocol_version = 1, mediator_id = ''med'', room_id = demo_id,
     recipient_ephemeral_key = replicate 32 9, chain_hash = replicate 32 2, timestamp = 1, nonce = replicate 16 1\<rparr>"

lemma demo_link_length: "length (link_input demo_issued) \<noteq> 32"
  by (simp add: link_input_def demo_issued_def)

lemma demo_chain_links: "chain_links demo_hashing_crypto [demo_issued] = Inr (replicate 32 1)"
proof -
  have "entry_link demo_hashing_crypto demo_issued = Inr (replicate 32 1)"
    using demo_link_length by (simp add: demo_link demo_hashing_crypto_def)
  then show ?thesis
    by (simp add: entry_link_def)
qed

lemma demo_bundle:
  "verify_disclosure_bundle demo_hashing_crypto [demo_issued] demo_disclosure [] [] demo_id (replicate 32 9) = Inr None"
proof -
  have "verify_receipt_chain demo_hashing_crypto [demo_issued] k k2 = Inr ()" for k k2
  proof -
    have "ReceiptFields.stage (receipt_fields demo_issued) = SettlementCompleted"
      "ReceiptFields.previous_stage_hash (receipt_fields demo_issued) = zero_id 32"
      "encode_receipt_signed_payload (receipt_fields demo_issued) = Inr (put_receipt_payload (receipt_fields demo_issued))"
      by (simp_all add: encode_receipt_signed_payload_ok demo_issued_def demo_receipt_fields_def)
    then show ?thesis
      unfolding verify_receipt_chain_def list.case chain_loop_ok
      by (simp add: entry_verified_def verify_receipt_def verify_receipt_mldsa65_def demo_link same_room_def
          demo_hashing_crypto_def demo_accepting_crypto_def)
  qed
  moreover have "\<exists>bs. encode_disclosure_signed_payload demo_disclosure = Inr bs"
    by (simp add: encode_disclosure_signed_payload_def demo_disclosure_def kDisclosureDomainLabel_def wire_run)
  then have "verify_disclosure_hybrid demo_hashing_crypto k k2 demo_disclosure [] [] = Inr True" for k k2
    by (auto simp: verify_disclosure_hybrid_def verify_disclosure_def verify_disclosure_mldsa65_def
        demo_hashing_crypto_def demo_accepting_crypto_def)
  moreover have "disclosed_chain_hash demo_hashing_crypto [demo_issued] = Inr (replicate 32 2)"
    unfolding disclosed_chain_hash_def demo_chain_links by (simp add: demo_hashing_crypto_def)
  ultimately show ?thesis
    by (auto simp: bundle_accepted Let_def) (simp_all add: demo_disclosure_def)
qed

definition demo_response :: RecognitionResponseMessage where
  "demo_response = \<lparr>RecognitionResponseMessage.room_id = demo_id, nonce = replicate 32 7, suite_id = 2,
     prover_public_key = replicate 1952 3, signature = replicate 3309 4\<rparr>"

definition demo_challenge :: RecognitionChallengeFields where
  "demo_challenge = \<lparr>RecognitionChallengeFields.suite_id = 2, protocol_version = kProtocolVersion, mediator_id = ''med'',
     room_id = demo_id, nonce = replicate 32 7, created_at = 5, expires_at = 125\<rparr>"

lemma demo_recognition:
  "recognises demo_accepting_crypto [demo_challenge] [demo_challenge] []"
  "recognition_consume demo_accepting_crypto 0 ''med'' demo_response 60 [demo_challenge] =
     (Inr (Some (1 # replicate 1952 3)), [])"
proof -
  have "recognition_issue 0 (replicate 32 7) ''med'' demo_id 5 2 [] = (Inr demo_challenge, [demo_challenge])"
    by (simp add: recognition_issue_def effective_now_def demo_challenge_def action_defs sbind_def Let_def)
  then show "recognises demo_accepting_crypto [demo_challenge] [demo_challenge] []"
    by (rule rec_issue [OF rec_start])
  have "\<exists>bs. encode_recognition_signed_payload demo_challenge = Inr bs"
    by (simp add: encode_recognition_signed_payload_def demo_challenge_def kRecognitionChallengeDomainLabel_def wire_run)
  then show "recognition_consume demo_accepting_crypto 0 ''med'' demo_response 60 [demo_challenge] =
     (Inr (Some (1 # replicate 1952 3)), [])"
    by (auto simp: recognition_consume_def challenge_matches_def check_response_def parse_mldsa65_public_key_def
        verify_recognition_response_mldsa65_def recognition_fingerprint_def effective_now_def demo_accepting_crypto_def
        demo_response_def list_all_iff Let_def action_defs sbind_def)
       (simp_all add: demo_challenge_def)
qed

definition demo_node :: "u8 \<Rightarrow> RegistryNode" where
  "demo_node b = \<lparr>host = ''h'', port = 80, certificate_pin = replicate 32 b, remaining_ttl_seconds = 100,
     source_registry = []\<rparr>"

definition demo_peer :: RegistryPeer where
  "demo_peer = \<lparr>peer_registry = \<lparr>endpoint_host = ''peer'', endpoint_port = 443\<rparr>, peer_pin = [], peer_proxy = None,
     auto_trust = False\<rparr>"

definition demo_entry :: "RegistryStatus \<Rightarrow> RegistryEntry" where
  "demo_entry st = \<lparr>entry_node = demo_node 1, expires_at = 300 * second, status = st\<rparr>"

definition demo_registry :: registry where
  "demo_registry = \<lparr>entries = [(''h:80'', demo_entry Approved)], gossip_entries = [(''h:80'', demo_entry Approved)]\<rparr>"

lemma demo_key: "registry_key (demo_node b) = ''h:80''"
proof -
  have "to_string 80 = ''80''"
    by code_simp
  then show ?thesis
    by (simp add: registry_key_def demo_node_def)
qed

lemma demo_node_wf: "b \<noteq> 0 \<Longrightarrow> wf_node True (demo_node b)"
  by (simp add: wf_node_def valid_node_iff validate_printable_ok demo_node_def is_pin_def nonzero_def printable_char_def
     )

lemma demo_registry_inv: "registry_inv 0 demo_registry"
  using wf_node_ok [OF demo_node_wf [of 1]]
  by (simp add: registry_inv_def pool_inv_def entry_ok_def demo_registry_def demo_entry_def demo_key)

text \<open>The answer of a peer that lists one node.\<close>

definition demo_reply :: "MessageType \<times> bytes" where
  "demo_reply = (RegistryNodes, put_u16 1 @ put_registry_node True (demo_node 2))"

lemma demo_reply_nodes: "list_registered_nodes_over demo_reply = Inr \<lparr>nodes = [demo_node 2]\<rparr>"
proof -
  have "encode_registry_nodes \<lparr>nodes = [demo_node 2]\<rparr> = Inr (put_u16 1 @ put_registry_node True (demo_node 2))"
    using demo_node_wf [of 2] by (simp add: encode_registry_nodes_def wire_simps exn_simps wf_node_def)
  then have "decode_registry_nodes (put_u16 1 @ put_registry_node True (demo_node 2)) = Inr \<lparr>nodes = [demo_node 2]\<rparr>"
    using demo_node_wf [of 2] by (simp add: registry_nodes_codec)
  then show ?thesis
    by (simp add: list_registered_nodes_over_def demo_reply_def)
qed

definition demo_trusted :: RegistryPeer where
  "demo_trusted = demo_peer\<lparr>auto_trust := True\<rparr>"

lemma demo_trusted_source: "source_ok (endpoint_key (peer_registry demo_trusted))"
proof -
  have "to_string 443 = ''443''"
    by code_simp
  then show ?thesis
    by (simp add: source_ok_def endpoint_key_def demo_trusted_def demo_peer_def validate_printable_ok printable_char_def)
qed

lemma demo_learned:
  "gossip_pull 0 demo_trusted demo_reply empty_registry = \<lparr>entries = [], gossip_entries = [(''h:80'',
     \<lparr>entry_node = (demo_node 2)\<lparr>source_registry := endpoint_key (peer_registry demo_trusted)\<rparr>,
      expires_at = 100 * second, status = Approved\<rparr>)]\<rparr>"
  by (simp add: gossip_pull_def demo_reply_nodes absorb_node_def empty_registry_def demo_key Let_def)
     (simp add: demo_node_def demo_trusted_def)

end
