(* ===== verification/Journal_Safety.thy ===== *)
theory Journal_Safety
  imports Journal
begin

text \<open>
  What a journal on disk is worth. The layout of an entry is a codec; replaying a log consumes exactly one
  framed record per step, so a log that is extended by one record replays to the journal extended by one
  operation, and a log that ends inside a record replays to the journal before it. From this follow the
  results on reopening, crashes, tampering and rollback.
\<close>

section \<open>Layout of the records\<close>

lemma reader_queries [wire_simps, wire_run]:
  "reader_remaining (at pre bs) = Inr (length bs, at pre bs)"
  "bytes_remaining (at pre bs) = Inr (bs, at (pre @ bs) [])"
  by (simp_all add: reader_remaining_def bytes_remaining_def at_def)

definition put_entry_fields :: "JournalEntryFields \<Rightarrow> bytes" where
  "put_entry_fields f = put_u16 (version f) @ JournalEntryFields.room_id f @ trade_id f @
     put_string (JournalEntryFields.mediator_id f) @ counterparty_fingerprint f @
     JournalEntryFields.terms_commitment f @ put_u32 (round f) @ put_u8 (byte_of_direction (direction f)) @
     put_u16 (message_type_value (message_type f)) @ message_hash f @ put_u8 (byte_of_ack (ack_state f)) @
     put_u8 (byte_of_state (local_state f)) @ put_u64 (JournalEntryFields.timestamp f)"

text \<open>Arrays have their size, and no enumerator is also present under its raw value.\<close>

definition wf_entry_fields :: "JournalEntryFields \<Rightarrow> bool" where
  "wf_entry_fields f \<longleftrightarrow> is_room_id (JournalEntryFields.room_id f) \<and> length (trade_id f) = 16 \<and>
     length (counterparty_fingerprint f) = 32 \<and> length (JournalEntryFields.terms_commitment f) = 32 \<and>
     length (message_hash f) = 32 \<and> direction_of_byte (byte_of_direction (direction f)) = direction f \<and>
     message_type_of_value (message_type_value (message_type f)) = message_type f \<and>
     ack_of_byte (byte_of_ack (ack_state f)) = ack_state f \<and>
     state_of_byte (byte_of_state (local_state f)) = local_state f"

lemma enum_bytes [simp]:
  "byte_of_direction (direction_of_byte b) = b" "byte_of_ack (ack_of_byte b) = b"
  "byte_of_state (state_of_byte b) = b"
  by (simp_all add: direction_of_byte_def ack_of_byte_def state_byte_roundtrip)

interpretation entry: codec put_entry_fields decode_entry_fields
  "\<lambda>f. wf_entry_fields f \<and> length (JournalEntryFields.mediator_id f) \<le> 256"
proof (rule codecI)
  fix pre rest f
  assume "wf_entry_fields f \<and> length (JournalEntryFields.mediator_id f) \<le> 256"
  then show "decode_entry_fields (at pre (put_entry_fields f @ rest)) = Inr (f, at (pre @ put_entry_fields f) rest)"
    by (cases f) (simp add: decode_entry_fields_def put_entry_fields_def wf_entry_fields_def is_room_id_def wire_run)
next
  fix pre bs f r
  assume "decode_entry_fields (at pre bs) = Inr (f, r)"
  then show "(wf_entry_fields f \<and> length (JournalEntryFields.mediator_id f) \<le> 256) \<and>
      (\<exists>rest. bs = put_entry_fields f @ rest \<and> r = at (pre @ put_entry_fields f) rest)"
    by (auto simp: decode_entry_fields_def put_entry_fields_def wf_entry_fields_def is_room_id_def wire_simps)
qed

lemma canonical_entry_bytes_ok [exn_simps]:
  "canonical_entry_bytes idx f = Inr bs \<longleftrightarrow>
     length (JournalEntryFields.mediator_id f) \<le> 256 \<and> bs = put_u64 idx @ put_entry_fields f"
  by (auto simp: canonical_entry_bytes_def put_entry_fields_def wire_simps exn_simps)

lemma length_put_entry_fields:
  "wf_entry_fields f \<Longrightarrow> length (JournalEntryFields.mediator_id f) \<le> 256 \<Longrightarrow> length (put_entry_fields f) \<le> 421"
  by (simp add: put_entry_fields_def wf_entry_fields_def is_room_id_def)

definition put_frame :: "u8 \<Rightarrow> bytes \<Rightarrow> bytes" where
  "put_frame kind body = put_u8 kind @ put_u32 (of_nat (length body)) @ body"

lemma frame_ok [simp]: "frame kind body = Inr (put_frame kind body)"
  by (simp add: frame_def put_frame_def wire_simps writer_u8_def writer_u32_def writer_fixed_id_def)

lemma length_put_frame [simp]: "length (put_frame kind body) = 5 + length body"
  by (simp add: put_frame_def)

lemma or_shifts: "shift_in (shift_in (shift_in (shift_in 0 a) b) c) d =
    (push_bit 24 (ucast a) OR push_bit 16 (ucast b) OR push_bit 8 (ucast c) OR ucast d :: u32)"
  by (simp add: shift_in_def push_bit_or or.assoc)

lemma body_length_frame:
  assumes "length body \<le> kMaxRecordBodyLength" and "5 \<le> n"
  shows "body_length_at (pre @ take n (put_frame kind body) @ rest) (length pre) = length body"
proof -
  obtain a b c d where p: "put_u32 (of_nat (length body)) = [a, b, c, d]"
    by (simp add: put_u32_def)
  have "shift_in (shift_in (shift_in (shift_in 0 a) b) c) d = (of_nat (length body) :: u32)"
    using shift_put_u32 [of "of_nat (length body)"] by (simp add: p)
  moreover have "unat (of_nat (length body) :: u32) = length body"
    using assms(1) by (simp add: unsigned_of_nat take_bit_eq_mod)
  moreover obtain k where "n = 5 + k"
    using assms(2) le_Suc_ex by blast
  moreover have "(pre @ take n (put_frame kind body) @ rest) ! (length pre + 1) = a"
    "(pre @ take n (put_frame kind body) @ rest) ! (length pre + 2) = b"
    "(pre @ take n (put_frame kind body) @ rest) ! (length pre + 3) = c"
    "(pre @ take n (put_frame kind body) @ rest) ! (length pre + 4) = d" if "n = 5 + k" for k
    using that by (simp_all add: put_frame_def put_u8_def p nth_append numeral_eq_Suc)
  ultimately show ?thesis
    by (simp only: body_length_at_def or_shifts [symmetric])
qed

section \<open>Replay, one record at a time\<close>

lemma replay_done [simp]: "replay cr pk ml raw (length raw) j = Inr (j, length raw, False)"
  by (simp add: replay.simps)

lemma replay_frame:
  assumes "length body \<le> kMaxRecordBodyLength"
  shows "replay cr pk ml (pre @ put_frame kind body @ rest) (length pre) j =
    rbind (replay_record cr pk ml kind body j)
      (\<lambda>j'. replay cr pk ml (pre @ put_frame kind body @ rest) (length (pre @ put_frame kind body)) j')"
proof -
  have b: "body_length_at (pre @ put_frame kind body @ rest) (length pre) = length body"
    using body_length_frame [OF assms, of "length (put_frame kind body)" pre kind rest] by simp
  have "(pre @ put_frame kind body @ rest) ! length pre = kind"
    by (simp add: put_frame_def put_u8_def)
  moreover have "take (length body) (drop (length pre + 5) (pre @ put_frame kind body @ rest)) = body"
    by (simp add: put_frame_def put_u8_def put_u32_def)
  ultimately show ?thesis
    using assms by (subst replay.simps) (simp add: b add.assoc)
qed

lemma replay_torn:
  assumes "length body \<le> kMaxRecordBodyLength" and "0 < n" and "n < length (put_frame kind body)"
  shows "replay cr pk ml (pre @ take n (put_frame kind body)) (length pre) j = Inr (j, length pre, True)"
proof (cases "n < 5")
  case False
  then have "body_length_at (pre @ take n (put_frame kind body)) (length pre) = length body"
    using body_length_frame [OF assms(1), of n pre kind "[]"] by simp
  moreover have "n - 5 < length body"
    using assms(3) False by simp
  ultimately show ?thesis
    using assms False by (subst replay.simps) simp
qed (use assms in \<open>subst replay.simps, simp\<close>)

text \<open>A log that replays completely can be extended: replay goes on behind it.\<close>

lemma body_length_prefix:
  "pos + 5 \<le> length raw \<Longrightarrow> body_length_at (raw @ ys) pos = body_length_at raw pos"
  by (simp add: body_length_at_def nth_append)

lemma replay_step:
  assumes "replay cr pk ml raw pos j = Inr (j', n, torn)" and "pos < length raw"
  shows "torn \<and> n = pos \<and> j' = j \<or>
    (\<exists>j1. pos + 5 + body_length_at raw pos \<le> length raw \<and> body_length_at raw pos \<le> kMaxRecordBodyLength \<and>
       replay_record cr pk ml (raw ! pos) (take (body_length_at raw pos) (drop (pos + 5) raw)) j = Inr j1 \<and>
       replay cr pk ml raw (pos + 5 + body_length_at raw pos) j1 = Inr (j', n, torn))"
  using assms by (subst (asm) replay.simps) (auto simp: exn_simps split: if_splits)

lemma replay_extend:
  "replay cr pk ml raw pos j = Inr (j', n, False) \<Longrightarrow> pos \<le> length raw \<Longrightarrow>
     n = length raw \<and> replay cr pk ml (raw @ ys) pos j = replay cr pk ml (raw @ ys) (length raw) j'"
proof (induction cr pk ml raw pos j rule: replay.induct)
  case (1 cr pk ml raw pos j)
  show ?case
  proof (cases "length raw \<le> pos")
    case True
    with "1.prems" show ?thesis
      by (simp add: replay.simps [of cr pk ml raw])
  next
    case False
    let ?n = "body_length_at raw pos"
    from False replay_step [OF "1.prems"(1)]
    obtain j1 where room: "pos + 5 + ?n \<le> length raw" "?n \<le> kMaxRecordBodyLength"
      and j1: "replay_record cr pk ml (raw ! pos) (take ?n (drop (pos + 5) raw)) j = Inr j1"
      "replay cr pk ml raw (pos + 5 + ?n) j1 = Inr (j', n, False)"
      by auto
    have "n = length raw \<and> replay cr pk ml (raw @ ys) (pos + 5 + ?n) j1 = replay cr pk ml (raw @ ys) (length raw) j'"
      using False room j1 by (intro "1.IH") auto
    moreover have "replay cr pk ml (raw @ ys) pos j = replay cr pk ml (raw @ ys) (pos + 5 + ?n) j1"
    proof -
      have "?n \<le> length raw + length ys - (pos + 5)" "5 \<le> length raw + length ys - pos"
        using room by simp_all
      then show ?thesis
        using False room j1(1) by (subst replay.simps) (simp add: body_length_prefix nth_append)
    qed
    ultimately show ?thesis
      by simp
  qed
qed

section \<open>What one record does\<close>

definition follows :: "Journal \<Rightarrow> JournalEntryFields \<Rightarrow> bool" where
  "follows j f \<longleftrightarrow> (case last_state_by_trade j (trade_id_hex (trade_id f)) of
     None \<Rightarrow> local_state f = WaitingForPeer
   | Some previous \<Rightarrow> is_valid_transition previous (local_state f))"

definition next_hash :: "crypto \<Rightarrow> Journal \<Rightarrow> JournalEntryFields \<Rightarrow> JournalHash" where
  "next_hash cr j f = combined_hash cr (put_u64 (of_nat (length (entries j))) @ put_entry_fields f) (chain_head j)"

definition next_entry :: "crypto \<Rightarrow> Journal \<Rightarrow> JournalEntryFields \<Rightarrow> JournalEntry" where
  "next_entry cr j f = \<lparr>index = of_nat (length (entries j)), entry_fields = f, previous_hash = chain_head j,
     entry_hash = next_hash cr j f\<rparr>"

definition with_entry :: "crypto \<Rightarrow> JournalEntryFields \<Rightarrow> Journal \<Rightarrow> Journal" where
  "with_entry cr f j = j\<lparr>entries := entries j @ [next_entry cr j f], chain_head := next_hash cr j f,
     last_state_by_trade := (last_state_by_trade j)(trade_id_hex (trade_id f) \<mapsto> local_state f)\<rparr>"

definition entry_body :: "crypto \<Rightarrow> Journal \<Rightarrow> JournalEntryFields \<Rightarrow> bytes" where
  "entry_body cr j f = put_u64 (of_nat (length (entries j))) @ put_entry_fields f @ chain_head j @ next_hash cr j f"

lemma follows_check [exn_simps]:
  "(case last_state_by_trade j (trade_id_hex (trade_id f)) of
      None \<Rightarrow> throw_if (local_state f \<noteq> WaitingForPeer) e
    | Some previous \<Rightarrow> throw_if (\<not> is_valid_transition previous (local_state f)) e') = Inr u \<longleftrightarrow> follows j f"
  by (auto simp: follows_def exn_simps split: option.splits)

lemma replay_entry_ok:
  "replay_entry cr body j = Inr j' \<longleftrightarrow>
     (\<exists>f. wf_entry_fields f \<and> length (JournalEntryFields.mediator_id f) \<le> 256 \<and> length (chain_head j) = 32 \<and>
        length (next_hash cr j f) = 32 \<and> follows j f \<and> body = entry_body cr j f \<and> j' = with_entry cr f j)"
    (is "_ \<longleftrightarrow> (\<exists>f. ?entry f)")
proof
  assume "replay_entry cr body j = Inr j'"
  then obtain f hash where "wf_entry_fields f" "length (JournalEntryFields.mediator_id f) \<le> 256"
      "length (chain_head j) = 32" "length hash = 32" "follows j f"
      "body = put_u64 (of_nat (length (entries j))) @ put_entry_fields f @ chain_head j @ hash"
      "combined_hash cr (put_u64 (of_nat (length (entries j))) @ put_entry_fields f) (chain_head j) = hash"
      "j' = j\<lparr>entries := entries j @ [\<lparr>index = of_nat (length (entries j)), entry_fields = f,
          previous_hash = chain_head j, entry_hash = hash\<rparr>], chain_head := hash,
        last_state_by_trade := (last_state_by_trade j)(trade_id_hex (trade_id f) \<mapsto> local_state f)\<rparr>"
    by (auto simp: replay_entry_def wire_simps entry.get_at exn_simps follows_check Let_def)
  then have "?entry f"
    by (simp add: entry_body_def with_entry_def next_entry_def next_hash_def)
  then show "\<exists>f. ?entry f" ..
next
  assume "\<exists>f. ?entry f"
  then obtain f where f: "?entry f" ..
  then have chk: "(case last_state_by_trade j (trade_id_hex (trade_id f)) of
      None \<Rightarrow> throw_if (local_state f \<noteq> WaitingForPeer) e
    | Some previous \<Rightarrow> throw_if (\<not> is_valid_transition previous (local_state f)) e') = Inr ()" for e e'
    by (simp add: follows_check)
  have "combined_hash cr (put_u64 (of_nat (length (entries j))) @ put_entry_fields f) (chain_head j) = next_hash cr j f"
    by (simp add: next_hash_def)
  with f chk show "replay_entry cr body j = Inr j'"
    by (simp add: replay_entry_def entry_body_def wire_run entry.get_put Let_def with_entry_def next_entry_def)
qed

lemma checkpoint_bytes_ok [simp]:
  "checkpoint_signed_bytes idx hash ts =
     Inr (put_string kCheckpointDomainTag @ put_u64 idx @ hash @ put_u64 ts)"
  "checkpoint_suite_signed_bytes suite idx hash ts =
     Inr (put_string kCheckpointSuiteDomainTag @ put_u16 suite @ put_u64 idx @ hash @ put_u64 ts)"
  by (simp_all add: checkpoint_signed_bytes_def checkpoint_suite_signed_bytes_def wire_run
      kCheckpointDomainTag_def kCheckpointSuiteDomainTag_def)

definition with_checkpoint :: "u64 \<Rightarrow> Journal \<Rightarrow> Journal" where
  "with_checkpoint idx j = j\<lparr>last_checkpoint_index := idx, has_checkpoint := True\<rparr>"

lemma check_checkpoint_ok [exn_simps]:
  "check_checkpoint idx hash j = Inr u \<longleftrightarrow> unat idx < length (entries j) \<and>
     entry_hash (entries j ! unat idx) = hash \<and> (has_checkpoint j \<longrightarrow> last_checkpoint_index j \<le> idx)"
  by (auto simp: check_checkpoint_def exn_simps not_le not_less)

lemma replay_checkpoint_put:
  assumes "length hash = 32" and "length sig = 64" and "check_checkpoint idx hash j = Inr ()"
    and "ed25519_verify cr pk (put_string kCheckpointDomainTag @ put_u64 idx @ hash @ put_u64 ts) sig = Inr True"
  shows "replay_checkpoint cr pk (put_u64 idx @ hash @ put_u64 ts @ sig) j = Inr (with_checkpoint idx j)"
  using assms by (simp add: replay_checkpoint_def wire_run with_checkpoint_def)

lemma replay_checkpoint_suite_put:
  assumes "length hash = 32" and "length sig = 3309" and "check_checkpoint idx hash j = Inr ()"
    and "mldsa65_verify cr key (put_string kCheckpointSuiteDomainTag @ put_u16 2 @ put_u64 idx @ hash @ put_u64 ts) sig = Inr True"
  shows "replay_checkpoint_suite cr pk (Some key) (put_u16 2 @ put_u64 idx @ hash @ put_u64 ts @ sig) j =
    Inr (with_checkpoint idx j)"
  using assms
  by (simp add: replay_checkpoint_suite_def wire_run with_checkpoint_def expected_checkpoint_signature_length_def)

lemma replay_record_cases:
  assumes "replay_record cr pk ml kind body j = Inr j'"
  obtains f where "j' = with_entry cr f j" "wf_entry_fields f" "length (JournalEntryFields.mediator_id f) \<le> 256"
      "length (chain_head j) = 32" "length (next_hash cr j f) = 32" "follows j f"
    | idx where "j' = with_checkpoint idx j" "unat idx < length (entries j)"
  using assms
  by (auto simp: replay_record_def replay_entry_ok replay_checkpoint_def replay_checkpoint_suite_def exn_simps
      with_checkpoint_def split: if_splits)

text \<open>Any property that every record keeps holds of a replayed journal.\<close>

lemma replay_invariant:
  assumes "\<And>kind body j j'. P j \<Longrightarrow> replay_record cr pk ml kind body j = Inr j' \<Longrightarrow> P j'"
  shows "replay cr pk ml raw pos j = Inr (j', n, torn) \<Longrightarrow> P j \<Longrightarrow> P j'"
  using assms
proof (induction cr pk ml raw pos j rule: replay.induct)
  case (1 cr pk ml raw pos j)
  show ?case
  proof (cases "length raw \<le> pos")
    case True
    with "1.prems" show ?thesis
      by (simp add: replay.simps [of cr pk ml raw])
  next
    case False
    with replay_step [OF "1.prems"(1)] "1.prems"(2) consider "j' = j"
      | j1 where "pos + 5 + body_length_at raw pos \<le> length raw" "body_length_at raw pos \<le> kMaxRecordBodyLength"
          "replay_record cr pk ml (raw ! pos) (take (body_length_at raw pos) (drop (pos + 5) raw)) j = Inr j1"
          "replay cr pk ml raw (pos + 5 + body_length_at raw pos) j1 = Inr (j', n, torn)"
      by auto
    then show ?thesis
    proof cases
      case 2
      then show ?thesis
        using False "1.prems"(2,3) by (intro "1.IH" [OF _ _ _ _ 2(4)]) auto
    qed (use "1.prems"(2) in simp)
  qed
qed

section \<open>The invariant of a journal\<close>

definition wf_journal :: "Journal \<Rightarrow> bool" where
  "wf_journal j \<longleftrightarrow> length (chain_head j) = 32 \<and>
     chain_head j = (if entries j = [] then kGenesisHash else entry_hash (last (entries j))) \<and>
     (\<forall>i < length (entries j). index (entries j ! i) = of_nat i) \<and>
     (has_checkpoint j \<longrightarrow> unat (last_checkpoint_index j) < length (entries j))"

lemma wf_chain_head: "wf_journal j \<Longrightarrow> length (chain_head j) = 32"
  unfolding wf_journal_def by (rule conjunct1)

lemma wf_fresh [simp]: "wf_journal (fresh_journal log head)"
  by (simp add: wf_journal_def fresh_journal_def kGenesisHash_def)

lemma with_entry_simps [simp]:
  "log_path (with_entry cr f j) = log_path j" "head_path (with_entry cr f j) = head_path j"
  "entries (with_entry cr f j) = entries j @ [next_entry cr j f]"
  "chain_head (with_entry cr f j) = next_hash cr j f"
  "last_checkpoint_index (with_entry cr f j) = last_checkpoint_index j"
  "has_checkpoint (with_entry cr f j) = has_checkpoint j"
  by (simp_all add: with_entry_def)

lemma with_checkpoint_simps [simp]:
  "log_path (with_checkpoint idx j) = log_path j" "head_path (with_checkpoint idx j) = head_path j"
  "entries (with_checkpoint idx j) = entries j" "chain_head (with_checkpoint idx j) = chain_head j"
  "last_checkpoint_index (with_checkpoint idx j) = idx" "has_checkpoint (with_checkpoint idx j)"
  by (simp_all add: with_checkpoint_def)

lemma wf_journal_record:
  assumes "wf_journal j" and "replay_record cr pk ml kind body j = Inr j'"
  shows "wf_journal j'"
  using assms(2)
proof (cases rule: replay_record_cases)
  case (1 f)
  then show ?thesis
    using assms(1) by (auto simp: wf_journal_def nth_append next_entry_def less_Suc_eq)
next
  case (2 idx)
  then show ?thesis
    using assms(1) by (auto simp: wf_journal_def)
qed

lemma record_paths:
  "replay_record cr pk ml kind body j = Inr j' \<Longrightarrow> log_path j' = log_path j \<and> head_path j' = head_path j"
  by (erule replay_record_cases) simp_all

text \<open>\<open>replays cr pk ml j log\<close>: the bytes \<open>log\<close> are a complete log whose replay is \<open>j\<close>.\<close>

definition replays :: "crypto \<Rightarrow> bytes \<Rightarrow> bytes option \<Rightarrow> Journal \<Rightarrow> bytes \<Rightarrow> bool" where
  "replays cr pk ml j log \<longleftrightarrow>
     replay cr pk ml log 0 (fresh_journal (log_path j) (head_path j)) = Inr (j, length log, False)"

lemma replays_wf: "replays cr pk ml j log \<Longrightarrow> wf_journal j"
  unfolding replays_def by (erule replay_invariant [rotated]) (simp_all add: wf_journal_record)

lemma replays_record:
  assumes "replays cr pk ml j log" and "replay_record cr pk ml kind body j = Inr j'"
    and "length body \<le> kMaxRecordBodyLength"
  shows "replays cr pk ml j' (log @ put_frame kind body)"
  using replay_extend [OF assms(1) [unfolded replays_def], of "put_frame kind body"]
    replay_frame [OF assms(3), of cr pk ml log kind "[]" j] record_paths [OF assms(2)] assms(2)
    replay_done [of cr pk ml "log @ put_frame kind body" j']
  by (simp add: replays_def)

lemma replays_torn:
  assumes "replays cr pk ml j log" and "length body \<le> kMaxRecordBodyLength"
    and "0 < n" and "n < length (put_frame kind body)"
  shows "replay cr pk ml (log @ take n (put_frame kind body)) 0 (fresh_journal (log_path j) (head_path j)) =
    Inr (j, length log, True)"
  using replay_extend [OF assms(1) [unfolded replays_def], of "take n (put_frame kind body)"]
    replay_torn [OF assms(2-4), of cr pk ml log j]
  by simp

section \<open>The head pointer\<close>

definition put_head :: "HeadPointer \<Rightarrow> bytes" where
  "put_head h = kHeadMagic @ (if head_suite_id h = 1 then put_u16 1 else put_u16 2 @ put_u16 (head_suite_id h)) @
     put_u64 (head_index h) @ head_hash h @ put_u64 (head_signed_at h) @ head_signature h"

lemma encode_head_ok [simp]: "encode_head h = Inr (put_head h)"
  by (simp add: encode_head_def put_head_def writer_run)

definition wf_head :: "HeadPointer \<Rightarrow> bool" where
  "wf_head h \<longleftrightarrow> length (head_hash h) = 32 \<and>
     length (head_signature h) = expected_checkpoint_signature_length (head_suite_id h) \<and> head_signature h \<noteq> []"

lemma decode_put_head:
  assumes "wf_head h"
  shows "decode_head (put_head h) = Inr h"
proof -
  have suite: "head_suite_id h = 1 \<or> head_suite_id h = 2"
    using assms by (auto simp: wf_head_def expected_checkpoint_signature_length_def split: if_splits)
  have "length kHeadMagic = 4"
    by (simp add: kHeadMagic_def)
  with assms suite show ?thesis
    by (cases h) (auto simp: decode_head_def put_head_def wf_head_def expected_checkpoint_signature_length_def wire_run)
qed

definition head_authentic :: "crypto \<Rightarrow> bytes \<Rightarrow> bytes option \<Rightarrow> bytes \<Rightarrow> HeadPointer \<Rightarrow> bool" where
  "head_authentic cr pk ml raw h \<longleftrightarrow> decode_head raw = Inr h \<and>
     (if head_suite_id h = 2 then \<exists>key. ml = Some key \<and>
        mldsa65_verify cr key (put_string kCheckpointSuiteDomainTag @ put_u16 (head_suite_id h) @
          put_u64 (head_index h) @ head_hash h @ put_u64 (head_signed_at h)) (head_signature h) = Inr True
      else ed25519_verify cr pk (put_string kCheckpointDomainTag @ put_u64 (head_index h) @ head_hash h @
          put_u64 (head_signed_at h)) (head_signature h) = Inr True)"

lemma rbind_verified:
  "rbind m (\<lambda>b. rbind (throw_if (\<not> b) e) f) = Inr u \<longleftrightarrow> m = Inr True \<and> f () = Inr u"
  by (cases m) (auto simp: throw_if_def)

lemma check_head_ok:
  "check_head cr pk ml raw j = Inr u \<longleftrightarrow> (\<exists>h. head_authentic cr pk ml raw h \<and> has_checkpoint j \<and>
     head_index h \<le> last_checkpoint_index j \<and>
     (unat (head_index h) < length (entries j) \<longrightarrow> entry_hash (entries j ! unat (head_index h)) = head_hash h))"
proof (cases "decode_head raw")
  case (Inr h)
  then show ?thesis
    by (cases ml; cases "head_suite_id h = 2") (auto simp: check_head_def head_authentic_def rbind_verified throw_if_eq_Inr rbind_unit_eq_Inr not_less)
qed (simp add: check_head_def head_authentic_def)

definition head_fits :: "crypto \<Rightarrow> bytes \<Rightarrow> bytes option \<Rightarrow> Journal \<Rightarrow> files \<Rightarrow> bool" where
  "head_fits cr pk ml j fs \<longleftrightarrow> (\<forall>raw. fs (head_path j) = Some raw \<longrightarrow> check_head cr pk ml raw j = Inr ())"

lemma head_fits_record:
  assumes "head_fits cr pk ml j fs" and "wf_journal j" and "replay_record cr pk ml kind body j = Inr j'"
    and "has_checkpoint j \<Longrightarrow> last_checkpoint_index j \<le> last_checkpoint_index j'"
  shows "head_fits cr pk ml j' fs"
  using assms(3)
proof (cases rule: replay_record_cases)
  case (1 f)
  then show ?thesis
    using assms(1,2)
    by (fastforce simp: head_fits_def check_head_ok wf_journal_def nth_append word_le_nat_alt)
next
  case (2 idx)
  then show ?thesis
    using assms(1,2,4) by (fastforce simp: head_fits_def check_head_ok)
qed

section \<open>Opening\<close>

definition calls_succeed :: "open_calls \<Rightarrow> bool" where
  "calls_succeed calls \<longleftrightarrow> log_open_ok calls \<and> log_size_ok calls \<and> log_read_ok calls \<and> truncate_ok calls \<and>
     head_read_ok calls"

lemma open_by_replay:
  assumes "calls_succeed calls" and "fs log = Some raw"
    and "replay cr pk ml raw 0 (fresh_journal log head) = Inr (j, n, torn)"
    and "\<forall>h. (if torn then fs(log \<mapsto> take n raw) else fs) head = Some h \<longrightarrow> check_head cr pk ml h j = Inr ()"
  shows "open_journal cr calls log head pk ml fs = (Inr j, if torn then fs(log \<mapsto> take n raw) else fs)"
  using assms
  by (cases torn; cases "(if torn then fs(log \<mapsto> take n raw) else fs) head")
     (auto simp: open_journal_def calls_succeed_def read_file_all_def sbind_def action_defs)

lemma open_replays:
  assumes "replays cr pk ml j log" and "fs (log_path j) = Some log" and "head_fits cr pk ml j fs" and "calls_succeed calls"
  shows "open_journal cr calls (log_path j) (head_path j) pk ml fs = (Inr j, fs)"
  using open_by_replay [where fs = fs and log = "log_path j", OF assms(4,2) assms(1) [unfolded replays_def]] assms(3) by (simp add: head_fits_def)

lemma head_fits_other [simp]:
  "head_path j \<noteq> p \<Longrightarrow> head_fits cr pk ml j (fs(p := x)) \<longleftrightarrow> head_fits cr pk ml j fs"
  by (simp add: head_fits_def)

text \<open>A log that ends anywhere inside its last record opens as the journal before or after that record.\<close>

lemma open_interrupted:
  assumes "replays cr pk ml j log" and "fs (log_path j) = Some log" and "head_path j \<noteq> log_path j"
    and "replay_record cr pk ml kind body j = Inr j'" and "length body \<le> kMaxRecordBodyLength"
    and "head_fits cr pk ml j fs" and "head_fits cr pk ml j' fs" and "calls_succeed calls"
  shows "open_journal cr calls (log_path j) (head_path j) pk ml (fs(log_path j \<mapsto> log @ take n (put_frame kind body))) =
     (if length (put_frame kind body) \<le> n then (Inr j', fs(log_path j \<mapsto> log @ put_frame kind body)) else (Inr j, fs))"
proof -
  have paths: "log_path j' = log_path j" "head_path j' = head_path j"
    using record_paths [OF assms(4)] by simp_all
  consider "length (put_frame kind body) \<le> n" | "n = 0" | "0 < n" "n < length (put_frame kind body)"
    by linarith
  then show ?thesis
  proof cases
    case 1
    then show ?thesis
      using open_replays [OF replays_record [OF assms(1,4,5)], of "fs(log_path j \<mapsto> log @ put_frame kind body)" calls]
        assms(3,7,8) by (simp add: paths)
  next
    case 2
    then show ?thesis
      using open_replays [OF assms(1,2,6,8)] assms(2) by (simp add: fun_upd_idem)
  next
    case 3
    then show ?thesis
      using open_by_replay [where fs = "fs(log_path j \<mapsto> log @ take n (put_frame kind body))" and log = "log_path j",
          OF assms(8) _ replays_torn [OF assms(1,5) 3]] assms(2,3,6)
      by (simp add: fun_upd_idem head_fits_def)
  qed
qed

text \<open>Conversely, what remains of a log after it was opened is complete.\<close>

lemma replay_complete_part:
  "replay cr pk ml raw pos j = Inr (j', n, torn) \<Longrightarrow> pos \<le> length raw \<Longrightarrow>
     pos \<le> n \<and> n \<le> length raw \<and> replay cr pk ml (take n raw) pos j = Inr (j', n, False)"
proof (induction cr pk ml raw pos j rule: replay.induct)
  case (1 cr pk ml raw pos j)
  show ?case
  proof (cases "length raw \<le> pos")
    case True
    with "1.prems" show ?thesis
      by (simp add: replay.simps [of cr pk ml])
  next
    case False
    let ?n = "body_length_at raw pos"
    from False replay_step [OF "1.prems"(1)] consider (stop) "n = pos" "j' = j" "torn"
      | (step) j1 where "pos + 5 + ?n \<le> length raw" "?n \<le> kMaxRecordBodyLength"
          "replay_record cr pk ml (raw ! pos) (take ?n (drop (pos + 5) raw)) j = Inr j1"
          "replay cr pk ml raw (pos + 5 + ?n) j1 = Inr (j', n, torn)"
      by auto
    then show ?thesis
    proof cases
      case stop
      with False show ?thesis
        by (simp add: replay.simps [of cr pk ml "take pos raw"])
    next
      case step
      have ih: "pos + 5 + ?n \<le> n \<and> n \<le> length raw \<and>
          replay cr pk ml (take n raw) (pos + 5 + ?n) j1 = Inr (j', n, False)"
        using False step by (intro "1.IH" [OF _ _ _ _ step(4)]) auto
      then have "body_length_at (take n raw) pos = ?n"
        by (simp add: body_length_at_def)
      moreover have "take ?n (drop (pos + 5) (take n raw)) = take ?n (drop (pos + 5) raw)"
      proof -
        have "min ?n (n - (pos + 5)) = ?n"
          using ih by linarith
        then show ?thesis
          by (simp add: drop_take)
      qed
      moreover have "\<not> n - (pos + 5) < ?n" "\<not> n - pos < 5" "\<not> n \<le> pos" "\<not> length raw \<le> pos"
        using ih by linarith+
      ultimately have "replay cr pk ml (take n raw) pos j = replay cr pk ml (take n raw) (pos + 5 + ?n) j1"
        using ih step(2,3) by (subst replay.simps) (simp add: min_absorb2)
      with ih show ?thesis
        by simp
    qed
  qed
qed

lemma replay_paths:
  "replay cr pk ml raw pos j = Inr (j', n, torn) \<Longrightarrow> log_path j' = log_path j \<and> head_path j' = head_path j"
  by (erule replay_invariant [where P = "\<lambda>j'. log_path j' = log_path j \<and> head_path j' = head_path j", rotated])
     (auto dest: record_paths)

lemma read_file_all_returns: "read_file_all ok path fs = Inr r \<Longrightarrow> r = fs path"
  by (auto simp: read_file_all_def split: option.splits if_splits)

lemma head_checked:
  "(case r of None \<Rightarrow> Inr () | Some bs \<Rightarrow> check_head cr pk ml bs j) = Inr u \<longleftrightarrow>
     (\<forall>h. r = Some h \<longrightarrow> check_head cr pk ml h j = Inr ())"
  by (cases r) auto

lemma open_gives_complete_log:
  assumes "open_journal cr calls log head pk ml fs = (Inr j, fs')"
  shows "log_path j = log \<and> head_path j = head \<and> (\<exists>raw. fs' log = Some raw \<and> replays cr pk ml j raw) \<and>
    head_fits cr pk ml j fs'"
proof -
  define fs1 where "fs1 = (case fs log of None \<Rightarrow> fs(log \<mapsto> []) | Some _ \<Rightarrow> fs)"
  have readable: "fs1 log = Some (the (fs1 log))"
    by (simp add: fs1_def split: option.splits)
  from assms obtain n torn
    where raw: "replay cr pk ml (the (fs1 log)) 0 (fresh_journal log head) = Inr (j, n, torn)"
      and fs': "fs' = (if torn then fs1(log \<mapsto> take n (the (fs1 log))) else fs1)"
      and h: "\<forall>h. fs' head = Some h \<longrightarrow> check_head cr pk ml h j = Inr ()"
    by (auto simp: open_journal_def returns_simps fs1_def [symmetric] head_checked dest!: read_file_all_returns
        split: if_splits)
  have "log_path j = log" "head_path j = head"
    using replay_paths [OF raw] by (simp_all add: fresh_journal_def)
  moreover have "\<exists>raw'. fs' log = Some raw' \<and> replays cr pk ml j raw'"
  proof (cases torn)
    case True
    then show ?thesis
      using replay_complete_part [OF raw] calculation by (auto simp: fs' replays_def min_def)
  next
    case False
    then show ?thesis
      using raw replay_extend [of cr pk ml "the (fs1 log)" 0 _ j n] readable calculation by (auto simp: fs' replays_def)
  qed
  ultimately show ?thesis
    using h by (simp add: head_fits_def)
qed

section \<open>Appending and checkpointing\<close>

definition stamped :: "u64 \<Rightarrow> JournalEntryFields \<Rightarrow> JournalEntryFields" where
  "stamped now f = (if JournalEntryFields.timestamp f = 0 then f\<lparr>JournalEntryFields.timestamp := now\<rparr> else f)"

lemma wf_stamped [simp]: "wf_entry_fields (stamped now f) \<longleftrightarrow> wf_entry_fields f"
  by (simp add: stamped_def wf_entry_fields_def)

definition log_grown :: "nat option \<Rightarrow> bytes \<Rightarrow> journal_state \<Rightarrow> files" where
  "log_grown failed bs s = (disk s)(log_path (handle s) \<mapsto>
     the (disk s (log_path (handle s))) @ (case failed of None \<Rightarrow> bs | Some n \<Rightarrow> take n bs))"

lemma write_log:
  "on_disk (write_all_and_sync failed (log_path (handle s)) bs) s =
     (case failed of None \<Rightarrow> Inr () | Some n \<Rightarrow> Inl (errno ''failed to write journal file contents''),
      s\<lparr>disk := log_grown failed bs s\<rparr>)"
  by (simp add: on_disk_def write_all_and_sync_def log_grown_def sbind_def action_defs split: option.splits)

definition appended :: "crypto \<Rightarrow> JournalEntryFields \<Rightarrow> journal_state \<Rightarrow> journal_state" where
  "appended cr f s = s\<lparr>handle := with_entry cr f (handle s),
     disk := log_grown None (put_frame 1 (entry_body cr (handle s) f)) s\<rparr>"

lemma append_refused:
  assumes "\<not> (follows (handle s) (stamped now f) \<and> length (JournalEntryFields.mediator_id f) \<le> 256)"
  shows "\<exists>e. append_entry cr now failed f s = (Inl e, s)"
proof -
  let ?f = "stamped now f" and ?j = "handle s"
  let ?c = "case last_state_by_trade ?j (trade_id_hex (trade_id ?f)) of
      None \<Rightarrow> throw_if (local_state ?f \<noteq> WaitingForPeer)
        (JournalTamperError (''malformed local state transition: a trade's first journal entry must '' @
           ''begin at WaitingForPeer''))
    | Some previous \<Rightarrow> throw_if (\<not> is_valid_transition previous (local_state ?f))
        (JournalTamperError ''attempted to append an invalid local state transition'')"
  have mid: "JournalEntryFields.mediator_id ?f = JournalEntryFields.mediator_id f"
    by (simp add: stamped_def)
  show ?thesis
  proof (cases "follows ?j ?f")
    case True
    then have "?c = Inr ()"
      by (simp add: follows_check)
    moreover obtain e where "canonical_entry_bytes (of_nat (length (entries ?j))) ?f = Inl e"
      using assms True mid by (cases "canonical_entry_bytes (of_nat (length (entries ?j))) ?f") (auto simp: exn_simps)
    ultimately show ?thesis
      by (simp add: append_entry_def Let_def stamped_def [symmetric] action_defs)
  next
    case False
    then have "?c \<noteq> Inr ()"
      by (simp add: follows_check)
    then obtain e where "?c = Inl e"
      by (cases ?c) simp_all
    then show ?thesis
      by (simp add: append_entry_def Let_def stamped_def [symmetric] action_defs)
  qed
qed

lemma append_accepted:
  assumes "follows (handle s) (stamped now f)" and "length (JournalEntryFields.mediator_id f) \<le> 256"
  shows "append_entry cr now failed f s =
    (case failed of
       None \<Rightarrow> (Inr (next_entry cr (handle s) (stamped now f)), appended cr (stamped now f) s)
     | Some n \<Rightarrow> (Inl (errno ''failed to write journal file contents''),
         s\<lparr>disk := log_grown failed (put_frame 1 (entry_body cr (handle s) (stamped now f))) s\<rparr>))"
proof -
  let ?f = "stamped now f"
  have mid: "length (JournalEntryFields.mediator_id ?f) \<le> 256"
    using assms(2) by (simp add: stamped_def)
  have chk: "(case last_state_by_trade (handle s) (trade_id_hex (trade_id ?f)) of
      None \<Rightarrow> throw_if (local_state ?f \<noteq> WaitingForPeer) e
    | Some previous \<Rightarrow> throw_if (\<not> is_valid_transition previous (local_state ?f)) e') = Inr ()" for e e'
    using assms(1) by (simp add: follows_check)
  have "canonical_entry_bytes (of_nat (length (entries (handle s)))) ?f =
      Inr (put_u64 (of_nat (length (entries (handle s)))) @ put_entry_fields ?f)"
    using mid by (simp add: exn_simps)
  then show ?thesis
    using chk
    by (cases failed)
       (simp_all add: append_entry_def Let_def stamped_def [symmetric] write_log sbind_def action_defs
        appended_def with_entry_def next_entry_def next_hash_def entry_body_def)
qed

lemma appended_record:
  assumes "wf_journal (handle s)" and "follows (handle s) f" and "wf_entry_fields f"
    and "length (JournalEntryFields.mediator_id f) \<le> 256" and "\<forall>m. length (sha256 cr m) = 32"
  shows "replay_record cr pk ml 1 (entry_body cr (handle s) f) (handle s) = Inr (with_entry cr f (handle s))"
    and "length (entry_body cr (handle s) f) \<le> kMaxRecordBodyLength"
proof -
  have "length (next_hash cr (handle s) f) = 32" "length (chain_head (handle s)) = 32"
    using assms(1,5) by (simp_all add: next_hash_def combined_hash_def wf_chain_head)
  then show "replay_record cr pk ml 1 (entry_body cr (handle s) f) (handle s) = Inr (with_entry cr f (handle s))"
    and "length (entry_body cr (handle s) f) \<le> kMaxRecordBodyLength"
    using assms length_put_entry_fields [of f] by (auto simp: replay_record_def replay_entry_ok entry_body_def)
qed

text \<open>The two checkpoints differ in the body of the record, the head pointer and the signature scheme.\<close>

definition checkpoint_body :: "u64 \<Rightarrow> bytes \<Rightarrow> Journal \<Rightarrow> bytes" where
  "checkpoint_body now sig j = put_u64 (index (last (entries j))) @ chain_head j @ put_u64 now @ sig"

definition head_of :: "u16 \<Rightarrow> u64 \<Rightarrow> bytes \<Rightarrow> Journal \<Rightarrow> HeadPointer" where
  "head_of suite now sig j = \<lparr>head_suite_id = suite, head_index = index (last (entries j)), head_hash = chain_head j,
     head_signed_at = now, head_signature = sig\<rparr>"

definition finish_checkpoint ::
  "u8 \<Rightarrow> bytes \<Rightarrow> HeadPointer \<Rightarrow> nat option \<Rightarrow> syscalls \<Rightarrow> (journal_state, unit) action" where
  "finish_checkpoint kind body h failed calls s =
     sbind (on_disk (write_all_and_sync failed (log_path (handle s)) (put_frame kind body))) (\<lambda>_.
     sbind (on_disk (write_replace_atomic calls (head_path (handle s)) (put_head h))) (\<lambda>_.
     smodify (\<lambda>t. t\<lparr>handle := with_checkpoint (head_index h) (handle s)\<rparr>))) s"

definition sign_input :: "u64 \<Rightarrow> Journal \<Rightarrow> bytes" where
  "sign_input now j = put_string kCheckpointDomainTag @ put_u64 (index (last (entries j))) @ chain_head j @ put_u64 now"

definition sign_input_suite :: "u64 \<Rightarrow> Journal \<Rightarrow> bytes" where
  "sign_input_suite now j = put_string kCheckpointSuiteDomainTag @ put_u16 2 @ put_u64 (index (last (entries j))) @
     chain_head j @ put_u64 now"

lemma checkpoint_run:
  "checkpoint cr now failed calls seed s =
     (if entries (handle s) = [] then (Inl (Logic_error ''cannot checkpoint a journal with no entries''), s)
      else case ed25519_sign cr seed (sign_input now (handle s)) of
        Inl e \<Rightarrow> (Inl e, s)
      | Inr sig \<Rightarrow> finish_checkpoint 2 (checkpoint_body now sig (handle s)) (head_of 1 now sig (handle s)) failed calls s)"
  by (auto simp: checkpoint_def finish_checkpoint_def sign_input_def checkpoint_body_def head_of_def with_checkpoint_def
      Let_def writer_run action_defs split: sum.splits)

lemma checkpoint_mldsa65_run:
  "checkpoint_mldsa65 cr now failed calls seed s =
     (if entries (handle s) = [] then (Inl (Logic_error ''cannot checkpoint a journal with no entries''), s)
      else case mldsa65_sign cr seed (sign_input_suite now (handle s)) of
        Inl e \<Rightarrow> (Inl e, s)
      | Inr sig \<Rightarrow> finish_checkpoint 3 (put_u16 2 @ checkpoint_body now sig (handle s)) (head_of 2 now sig (handle s))
          failed calls s)"
  by (auto simp: checkpoint_mldsa65_def finish_checkpoint_def sign_input_suite_def checkpoint_body_def head_of_def
      with_checkpoint_def Let_def writer_run action_defs split: sum.splits)

text \<open>What a checkpoint leaves behind: a grown log, perhaps a new head, and in the end the new handle.\<close>

lemma finish_checkpoint_cases:
  assumes "finish_checkpoint kind body h failed calls s = (r, s')"
    and "log_path (handle s) \<noteq> head_path (handle s)" and "log_path (handle s) \<noteq> head_path (handle s) @ ''.tmp''"
  obtains "failed = None" and "r = Inr ()" and "handle s' = with_checkpoint (head_index h) (handle s)"
      and "disk s' (log_path (handle s)) = log_grown None (put_frame kind body) s (log_path (handle s))"
      and "disk s' (head_path (handle s)) = Some (put_head h)"
    | e where "r = Inl e" and "handle s' = handle s"
      and "disk s' (log_path (handle s)) = log_grown failed (put_frame kind body) s (log_path (handle s))"
      and "disk s' (head_path (handle s)) = disk s (head_path (handle s))"
proof (cases failed)
  case (Some n)
  then show ?thesis
    using assms that(2) by (auto simp: finish_checkpoint_def write_log sbind_def log_grown_def)
next
  case None
  obtain r1 fs1 where w: "write_replace_atomic calls (head_path (handle s)) (put_head h) (log_grown None (put_frame kind body) s) = (r1, fs1)"
    by (rule prod.exhaust)
  have other: "fs1 (log_path (handle s)) = log_grown None (put_frame kind body) s (log_path (handle s))"
    and head: "fs1 (head_path (handle s)) = (case r1 of Inr u \<Rightarrow> Some (put_head h) | Inl e \<Rightarrow> disk s (head_path (handle s)))"
    using journal_writer.outcome [OF w] assms(2,3) by (auto simp: log_grown_def split: sum.splits)
  show ?thesis
  proof (cases r1)
    case (Inl e)
    then have "r = Inl e" "s' = s\<lparr>disk := fs1\<rparr>"
      using assms(1) None w by (simp_all add: finish_checkpoint_def write_log sbind_def
          on_disk_def [where m = "write_replace_atomic calls (head_path (handle s)) (put_head h)"])
    then show ?thesis
      using that(2) other head None Inl by simp
  next
    case (Inr u)
    then have "r = Inr ()" "s' = s\<lparr>disk := fs1, handle := with_checkpoint (head_index h) (handle s)\<rparr>"
      using assms(1) None w by (simp_all add: finish_checkpoint_def write_log sbind_def action_defs
          on_disk_def [where m = "write_replace_atomic calls (head_path (handle s)) (put_head h)"])
    then show ?thesis
      using that(1) other head None Inr by simp
  qed
qed

section \<open>A journal in use\<close>

text \<open>What the signatures and the hash have to do: documented behaviour of the crypto library.\<close>

definition journal_keys :: "crypto \<Rightarrow> bytes \<Rightarrow> bytes \<Rightarrow> bytes \<Rightarrow> bytes \<Rightarrow> bool" where
  "journal_keys cr seed pk seed_mldsa65 pk_mldsa65 \<longleftrightarrow> (\<forall>m. length (sha256 cr m) = 32) \<and>
     (\<forall>m sig. ed25519_sign cr seed m = Inr sig \<longrightarrow> length sig = 64 \<and> ed25519_verify cr pk m sig = Inr True) \<and>
     (\<forall>m sig. mldsa65_sign cr seed_mldsa65 m = Inr sig \<longrightarrow>
        length sig = 3309 \<and> mldsa65_verify cr pk_mldsa65 m sig = Inr True)"

definition intact :: "crypto \<Rightarrow> bytes \<Rightarrow> bytes option \<Rightarrow> journal_state \<Rightarrow> bool" where
  "intact cr pk ml s \<longleftrightarrow> (\<exists>log. disk s (log_path (handle s)) = Some log \<and> replays cr pk ml (handle s) log) \<and>
     head_fits cr pk ml (handle s) (disk s)"

lemma intact_wf: "intact cr pk ml s \<Longrightarrow> wf_journal (handle s)"
  by (auto simp: intact_def replays_wf)

lemma intact_opens:
  assumes "intact cr pk ml s" and "calls_succeed calls"
  shows "open_journal cr calls (log_path (handle s)) (head_path (handle s)) pk ml (disk s) = (Inr (handle s), disk s)"
  using assms open_replays by (auto simp: intact_def)

lemma open_intact:
  "open_journal cr calls log head pk ml fs = (Inr j, fs') \<Longrightarrow>
     intact cr pk ml \<lparr>handle = j, disk = fs'\<rparr> \<and> log_path j = log \<and> head_path j = head"
  using open_gives_complete_log [of cr calls log head pk ml fs j fs'] by (auto simp: intact_def)

lemma intact_append:
  assumes "intact cr pk ml s" and "wf_entry_fields f" and "\<forall>m. length (sha256 cr m) = 32"
    and "log_path (handle s) \<noteq> head_path (handle s)" and "append_entry cr now None f s = (r, s')"
  shows "intact cr pk ml s' \<and> log_path (handle s') = log_path (handle s) \<and> head_path (handle s') = head_path (handle s)"
proof (cases "follows (handle s) (stamped now f) \<and> length (JournalEntryFields.mediator_id f) \<le> 256")
  case True
  let ?f = "stamped now f"
  have s': "s' = appended cr ?f s"
    using append_accepted [of s now f cr None] True assms(5) by simp
  have "length (JournalEntryFields.mediator_id ?f) \<le> 256"
    using True by (simp add: stamped_def)
  then have rec: "replay_record cr pk ml 1 (entry_body cr (handle s) ?f) (handle s) = Inr (with_entry cr ?f (handle s))"
    and len: "length (entry_body cr (handle s) ?f) \<le> kMaxRecordBodyLength"
    using appended_record [OF intact_wf [OF assms(1)], of ?f cr] True assms(2,3) by simp_all
  obtain log where log: "disk s (log_path (handle s)) = Some log" "replays cr pk ml (handle s) log"
      "head_fits cr pk ml (handle s) (disk s)"
    using assms(1) by (auto simp: intact_def)
  show ?thesis
    using replays_record [OF log(2) rec len] head_fits_record [OF log(3) intact_wf [OF assms(1)] rec] log(1) assms(4)
    by (simp add: s' appended_def intact_def log_grown_def)
next
  case False
  then show ?thesis
    using append_refused [OF False, of cr None] assms(1,5) by auto
qed

text \<open>Both checkpoints, once their signature exists.\<close>

lemma last_index:
  assumes "wf_journal j" and "entries j \<noteq> []" and "length (entries j) \<le> 2 ^ 64"
  shows "unat (index (last (entries j))) = length (entries j) - 1"
proof -
  define n where "n = length (entries j) - 1"
  have n: "n < length (entries j)"
    using assms(2) by (simp add: n_def)
  then have "index (last (entries j)) = of_nat n"
    using assms(1,2) by (simp add: wf_journal_def last_conv_nth n_def)
  moreover have "n < 2 ^ 64"
    using n assms(3) by simp
  ultimately show ?thesis
    unfolding n_def [symmetric] by (simp add: unsigned_of_nat take_bit_eq_mod)
qed

lemma checkpoint_checks:
  assumes "wf_journal j" and "entries j \<noteq> []" and "length (entries j) \<le> 2 ^ 64"
  shows "check_checkpoint (index (last (entries j))) (chain_head j) j = Inr ()"
    and "has_checkpoint j \<Longrightarrow> last_checkpoint_index j \<le> index (last (entries j))"
proof -
  show le: "last_checkpoint_index j \<le> index (last (entries j))" if "has_checkpoint j"
    using that assms(1) last_index [OF assms] by (auto simp: wf_journal_def word_le_nat_alt)
  have "chain_head j = entry_hash (entries j ! (length (entries j) - 1))"
    using assms(1,2) by (simp add: wf_journal_def last_conv_nth)
  then show "check_checkpoint (index (last (entries j))) (chain_head j) j = Inr ()"
    using le assms(2) by (simp add: check_checkpoint_ok last_index [OF assms])
qed

lemma new_head_fits:
  assumes "wf_journal j" and "entries j \<noteq> []" and "length (entries j) \<le> 2 ^ 64"
    and "head_authentic cr pk ml raw (head_of suite now sig j)"
  shows "check_head cr pk ml raw (with_checkpoint (index (last (entries j))) j) = Inr ()"
proof -
  have "chain_head j = entry_hash (entries j ! (length (entries j) - 1))"
    using assms(1,2) by (simp add: wf_journal_def last_conv_nth)
  then show ?thesis
    using assms(4) by (auto simp: check_head_ok head_of_def last_index [OF assms(1-3)] intro!: exI [of _ "head_of suite now sig j"])
qed

lemma finish_checkpoint_durable:
  assumes "intact cr pk ml s" and "finish_checkpoint kind body h failed calls s = (r, s')"
    and "log_path (handle s) \<noteq> head_path (handle s)" and "log_path (handle s) \<noteq> head_path (handle s) @ ''.tmp''"
    and rec: "replay_record cr pk ml kind body (handle s) = Inr (with_checkpoint (head_index h) (handle s))"
    and len: "length body \<le> kMaxRecordBodyLength"
    and later: "has_checkpoint (handle s) \<Longrightarrow> last_checkpoint_index (handle s) \<le> head_index h"
    and head: "check_head cr pk ml (put_head h) (with_checkpoint (head_index h) (handle s)) = Inr ()"
  shows "r = Inr u \<Longrightarrow> intact cr pk ml s' \<and> disk s' (head_path (handle s)) = Some (put_head h) \<and>
      handle s' = with_checkpoint (head_index h) (handle s)"
    and "calls_succeed calls' \<Longrightarrow> \<exists>j fs. open_journal cr calls' (log_path (handle s)) (head_path (handle s)) pk ml (disk s') = (Inr j, fs) \<and>
      entries j = entries (handle s)"
proof -
  let ?j = "handle s" and ?j' = "with_checkpoint (head_index h) (handle s)"
  obtain log where log: "disk s (log_path ?j) = Some log" "replays cr pk ml ?j log" "head_fits cr pk ml ?j (disk s)"
    using assms(1) by (auto simp: intact_def)
  have grown: "replays cr pk ml ?j' (log @ put_frame kind body)"
    by (rule replays_record [OF log(2) rec len])
  have old: "head_fits cr pk ml ?j' (disk s)"
    by (rule head_fits_record [OF log(3) intact_wf [OF assms(1)] rec]) (simp add: later)
  have fin: "intact cr pk ml s' \<and> disk s' (head_path ?j) = Some (put_head h) \<and> handle s' = ?j'" if "r = Inr u" for u
    using assms(2-4)
  proof (cases rule: finish_checkpoint_cases)
    case 1
    then show ?thesis
      using grown head log(1) by (auto simp: intact_def log_grown_def head_fits_def)
  qed (use that in simp)
  then show "r = Inr u \<Longrightarrow> intact cr pk ml s' \<and> disk s' (head_path (handle s)) = Some (put_head h) \<and> handle s' = ?j'" .
  show "\<exists>j fs. open_journal cr calls' (log_path ?j) (head_path ?j) pk ml (disk s') = (Inr j, fs) \<and> entries j = entries ?j"
    if ok: "calls_succeed calls'"
    using assms(2-4)
  proof (cases rule: finish_checkpoint_cases)
    case 1
    then have "open_journal cr calls' (log_path ?j') (head_path ?j') pk ml (disk s') = (Inr ?j', disk s')"
      using intact_opens [OF fin [THEN conjunct1] ok] fin by simp
    then show ?thesis
      by auto
  next
    case (2 e)
    let ?n = "case failed of None \<Rightarrow> length (put_frame kind body) | Some n \<Rightarrow> n"
    let ?fs = "(disk s')(log_path ?j \<mapsto> log)"
    have disk': "disk s' = ?fs(log_path ?j \<mapsto> log @ take ?n (put_frame kind body))"
      using 2(3) log(1) by (auto simp: log_grown_def fun_eq_iff split: option.splits)
    have "head_fits cr pk ml ?j ?fs" "head_fits cr pk ml ?j' ?fs"
      using log(3) old 2(4) assms(3) by (simp_all add: head_fits_def)
    then show ?thesis
      using open_interrupted [OF log(2) _ _ rec len, of ?fs calls' ?n] assms(3) ok
      by (subst disk') (simp split: if_splits)
  qed
qed

definition checkpoint_written ::
  "crypto \<Rightarrow> bytes \<Rightarrow> bytes \<Rightarrow> u64 \<Rightarrow> u8 \<Rightarrow> bytes \<Rightarrow> u16 \<Rightarrow> bytes \<Rightarrow> Journal \<Rightarrow> bool" where
  "checkpoint_written cr pk pk2 now kind body suite sig j \<longleftrightarrow>
     replay_record cr pk (Some pk2) kind body j = Inr (with_checkpoint (index (last (entries j))) j) \<and>
     length body \<le> kMaxRecordBodyLength \<and>
     head_authentic cr pk (Some pk2) (put_head (head_of suite now sig j)) (head_of suite now sig j)"

lemma written_ed25519:
  assumes "journal_keys cr seed pk seed2 pk2" and "check_checkpoint (index (last (entries j))) (chain_head j) j = Inr ()"
    and "length (chain_head j) = 32" and "ed25519_sign cr seed (sign_input now j) = Inr sig"
  shows "checkpoint_written cr pk pk2 now 2 (checkpoint_body now sig j) 1 sig j"
proof -
  have "length sig = 64" "ed25519_verify cr pk (sign_input now j) sig = Inr True"
    using assms(1,4) by (auto simp: journal_keys_def)
  then show ?thesis
    using assms(2,3)
    by (auto simp: checkpoint_written_def replay_record_def checkpoint_body_def sign_input_def head_authentic_def head_of_def
        wf_head_def expected_checkpoint_signature_length_def intro!: replay_checkpoint_put decode_put_head)
qed

lemma written_mldsa65:
  assumes "journal_keys cr seed pk seed2 pk2" and "check_checkpoint (index (last (entries j))) (chain_head j) j = Inr ()"
    and "length (chain_head j) = 32" and "mldsa65_sign cr seed2 (sign_input_suite now j) = Inr sig"
  shows "checkpoint_written cr pk pk2 now 3 (put_u16 2 @ checkpoint_body now sig j) 2 sig j"
proof -
  have "length sig = 3309" "mldsa65_verify cr pk2 (sign_input_suite now j) sig = Inr True"
    using assms(1,4) by (auto simp: journal_keys_def)
  then show ?thesis
    using assms(2,3)
    by (auto simp: checkpoint_written_def replay_record_def checkpoint_body_def sign_input_suite_def head_authentic_def head_of_def
        wf_head_def expected_checkpoint_signature_length_def intro!: replay_checkpoint_suite_put decode_put_head)
qed

lemma checkpoint_cases:
  assumes "journal_keys cr seed pk seed2 pk2" and "wf_journal (handle s)" and "length (entries (handle s)) \<le> 2 ^ 64"
    and "checkpoint cr now failed calls seed s = (r, s') \<or> checkpoint_mldsa65 cr now failed calls seed2 s = (r, s')"
  obtains (refused) e where "r = Inl e" "s' = s"
    | (written) kind body suite sig where "entries (handle s) \<noteq> []"
        "finish_checkpoint kind body (head_of suite now sig (handle s)) failed calls s = (r, s')"
        "checkpoint_written cr pk pk2 now kind body suite sig (handle s)"
proof (cases "entries (handle s) = []")
  case True
  then show thesis
    using assms(4) refused by (auto simp: checkpoint_run checkpoint_mldsa65_run)
next
  case False
  note made = checkpoint_checks(1) [OF assms(2) False assms(3)] wf_chain_head [OF assms(2)]
  from assms(4) show thesis
    using refused written False written_ed25519 [OF assms(1) made] written_mldsa65 [OF assms(1) made]
    by (auto simp: checkpoint_run checkpoint_mldsa65_run split: sum.splits)
qed

lemma checkpoint_durable:
  assumes keys: "journal_keys cr seed pk seed2 pk2" and ok: "intact cr pk (Some pk2) s"
    and size: "length (entries (handle s)) \<le> 2 ^ 64"
    and paths: "log_path (handle s) \<noteq> head_path (handle s)" "log_path (handle s) \<noteq> head_path (handle s) @ ''.tmp''"
    and step: "checkpoint cr now failed calls seed s = (r, s') \<or> checkpoint_mldsa65 cr now failed calls seed2 s = (r, s')"
  shows "r = Inr u \<Longrightarrow> intact cr pk (Some pk2) s' \<and> handle s' = with_checkpoint (index (last (entries (handle s)))) (handle s) \<and>
      (\<exists>raw h. disk s' (head_path (handle s)) = Some raw \<and> head_authentic cr pk (Some pk2) raw h \<and>
         head_index h = index (last (entries (handle s))))"
    and "calls_succeed calls' \<Longrightarrow> \<exists>j fs. open_journal cr calls' (log_path (handle s)) (head_path (handle s)) pk (Some pk2) (disk s') = (Inr j, fs) \<and>
      entries j = entries (handle s)"
proof -
  let ?j = "handle s"
  note wf = intact_wf [OF ok]
  have idx: "head_index (head_of suite now sig ?j) = index (last (entries ?j))" for suite sig
    by (simp add: head_of_def)
  show "intact cr pk (Some pk2) s' \<and> handle s' = with_checkpoint (index (last (entries ?j))) ?j \<and>
      (\<exists>raw h. disk s' (head_path ?j) = Some raw \<and> head_authentic cr pk (Some pk2) raw h \<and>
         head_index h = index (last (entries ?j)))" if "r = Inr u"
    using keys wf size step
  proof (cases rule: checkpoint_cases)
    case (written kind body suite sig)
    note w = written(3) [unfolded checkpoint_written_def]
    show ?thesis
      using finish_checkpoint_durable(1) [OF ok written(2) paths, unfolded idx, OF w [THEN conjunct1] _
          checkpoint_checks(2) [OF wf written(1) size] new_head_fits [OF wf written(1) size] that] w idx by blast
  qed (use that in simp)
  show "\<exists>j fs. open_journal cr calls' (log_path ?j) (head_path ?j) pk (Some pk2) (disk s') = (Inr j, fs) \<and> entries j = entries ?j"
    if "calls_succeed calls'"
    using keys wf size step
  proof (cases rule: checkpoint_cases)
    case (written kind body suite sig)
    note w = written(3) [unfolded checkpoint_written_def]
    show ?thesis
      using finish_checkpoint_durable(2) [OF ok written(2) paths, unfolded idx, OF w [THEN conjunct1] _
          checkpoint_checks(2) [OF wf written(1) size] new_head_fits [OF wf written(1) size] that] w by blast
  qed (use intact_opens [OF ok that] in auto)
qed

text \<open>The states a client can be in: it opens a journal and then appends and checkpoints.\<close>

inductive uses :: "crypto \<Rightarrow> bytes \<Rightarrow> bytes \<Rightarrow> bytes \<Rightarrow> bytes \<Rightarrow> string \<Rightarrow> string \<Rightarrow> journal_state \<Rightarrow> bool"
  for cr seed pk seed2 pk2 log head where
  opened: "open_journal cr calls log head pk (Some pk2) fs = (Inr j, fs') \<Longrightarrow>
    uses cr seed pk seed2 pk2 log head \<lparr>handle = j, disk = fs'\<rparr>"
| appends: "uses cr seed pk seed2 pk2 log head s \<Longrightarrow> wf_entry_fields f \<Longrightarrow>
    append_entry cr now None f s = (r, s') \<Longrightarrow> uses cr seed pk seed2 pk2 log head s'"
| checkpoints: "uses cr seed pk seed2 pk2 log head s \<Longrightarrow> length (entries (handle s)) \<le> 2 ^ 64 \<Longrightarrow>
    checkpoint cr now None calls seed s = (Inr (), s') \<or> checkpoint_mldsa65 cr now None calls seed2 s = (Inr (), s') \<Longrightarrow>
    uses cr seed pk seed2 pk2 log head s'"

definition separate_paths :: "string \<Rightarrow> string \<Rightarrow> bool" where
  "separate_paths log head \<longleftrightarrow> log \<noteq> head \<and> log \<noteq> head @ ''.tmp''"

lemma uses_intact:
  assumes "uses cr seed pk seed2 pk2 log head s" and "journal_keys cr seed pk seed2 pk2" and "separate_paths log head"
  shows "intact cr pk (Some pk2) s \<and> log_path (handle s) = log \<and> head_path (handle s) = head"
  using assms(1)
proof induction
  case (opened calls fs j fs')
  then show ?case
    using open_intact by auto
next
  case (appends s f now r s')
  then show ?case
    using intact_append [of cr pk "Some pk2" s f now r s'] assms(2,3) by (auto simp: journal_keys_def separate_paths_def)
next
  case (checkpoints s now calls s')
  then have i: "intact cr pk (Some pk2) s" "log_path (handle s) = log" "head_path (handle s) = head"
    by simp_all
  show ?case
    using checkpoint_durable(1) [OF assms(2) i(1) checkpoints.hyps(2) _ _ checkpoints.hyps(3), of "()"] i(2,3) assms(3)
    by (simp add: separate_paths_def)
qed

lemma append_interrupted:
  assumes ok: "intact cr pk ml s" and wf: "wf_entry_fields f" and sha: "\<forall>m. length (sha256 cr m) = 32"
    and paths: "log_path (handle s) \<noteq> head_path (handle s)" and calls: "calls_succeed calls"
    and step: "append_entry cr now failed f s = (r, s')"
  shows "open_journal cr calls (log_path (handle s)) (head_path (handle s)) pk ml (disk s') = (Inr (handle s), disk s) \<or>
    (\<exists>e t. append_entry cr now None f s = (Inr e, t) \<and>
       open_journal cr calls (log_path (handle s)) (head_path (handle s)) pk ml (disk s') = (Inr (handle t), disk t))"
proof (cases "follows (handle s) (stamped now f) \<and> length (JournalEntryFields.mediator_id f) \<le> 256")
  case False
  then show ?thesis
    using append_refused [OF False, of cr failed] step intact_opens [OF ok calls] by auto
next
  case True
  let ?f = "stamped now f" and ?j = "handle s"
  let ?body = "entry_body cr ?j ?f"
  let ?n = "case failed of None \<Rightarrow> length (put_frame 1 ?body) | Some n \<Rightarrow> n"
  have mid: "length (JournalEntryFields.mediator_id ?f) \<le> 256"
    using True by (simp add: stamped_def)
  have "wf_entry_fields ?f"
    using wf by simp
  note rec = appended_record [OF intact_wf [OF ok] True [THEN conjunct1] this mid sha]
  obtain log where log: "disk s (log_path ?j) = Some log" "replays cr pk ml ?j log" "head_fits cr pk ml ?j (disk s)"
    using ok by (auto simp: intact_def)
  have "disk s' = (disk s)(log_path ?j \<mapsto> log @ take ?n (put_frame 1 ?body))"
    using append_accepted [of s now f cr failed] True step log(1)
    by (auto simp: appended_def log_grown_def split: option.splits)
  moreover have "append_entry cr now None f s = (Inr (next_entry cr ?j ?f), appended cr ?f s)"
    using append_accepted [of s now f cr None] True by simp
  ultimately show ?thesis
    using open_interrupted [OF log(2,1) paths [symmetric] rec log(3) head_fits_record [OF log(3) intact_wf [OF ok] rec(1)] calls, of ?n] log(1)
    by (auto simp: appended_def log_grown_def)
qed

end
