(* ===== verification/Journal_History.thy ===== *)
theory Journal_History
  imports Journal_Safety Settlement
begin

text \<open>
  What an opened journal proves about the past: the head pointer exposes an older log, the last hash
  determines every entry, and the entries of one trade are a legal history of local states. The last
  section compares the transitions the journal allows with those a mediator session makes.
\<close>

section \<open>Rollback and tampering\<close>

lemma check_head_rollback:
  assumes "head_authentic cr pk ml raw h" and "\<not> has_checkpoint j \<or> last_checkpoint_index j < head_index h"
  shows "check_head cr pk ml raw j = Inl (JournalRollbackError (''journal head-pointer file references a checkpoint further along than '' @
     ''the main log replays to - the main log looks like an older copy of itself''))"
  using assms by (auto simp: check_head_def head_authentic_def split: if_splits)

lemma restored_log_refused:
  assumes "replays cr pk ml j0 old" and "fs (log_path j0) = Some old" and "fs (head_path j0) = Some raw"
    and "head_authentic cr pk ml raw h" and "\<not> has_checkpoint j0 \<or> last_checkpoint_index j0 < head_index h"
    and "calls_succeed calls"
  shows "\<exists>m. open_journal cr calls (log_path j0) (head_path j0) pk ml fs = (Inl (JournalRollbackError m), fs)"
proof -
  have "replay cr pk ml old 0 (fresh_journal (log_path j0) (head_path j0)) = Inr (j0, length old, False)"
    using assms(1) by (simp add: replays_def)
  then show ?thesis
    using check_head_rollback [OF assms(4,5)] assms(2,3,6)
    by (simp add: open_journal_def calls_succeed_def read_file_all_def sbind_def action_defs)
qed

definition hash_input :: "JournalEntry \<Rightarrow> bytes" where
  "hash_input e = put_u64 (index e) @ put_entry_fields (entry_fields e) @ previous_hash e"

inductive chain_of :: "crypto \<Rightarrow> JournalEntry list \<Rightarrow> JournalHash \<Rightarrow> bool" for cr where
  chain_nil: "chain_of cr [] kGenesisHash"
| chain_snoc: "chain_of cr es h \<Longrightarrow> wf_entry_fields (entry_fields e) \<Longrightarrow>
    length (JournalEntryFields.mediator_id (entry_fields e)) \<le> 256 \<Longrightarrow> index e = of_nat (length es) \<Longrightarrow>
    previous_hash e = h \<Longrightarrow> entry_hash e = sha256 cr (hash_input e) \<Longrightarrow> chain_of cr (es @ [e]) (entry_hash e)"

inductive_cases chain_nilE: "chain_of cr [] h"
inductive_cases chain_snocE: "chain_of cr (es @ [e]) h"

lemma replays_chain: "replays cr pk ml j log \<Longrightarrow> chain_of cr (entries j) (chain_head j)"
  unfolding replays_def
proof (erule replay_invariant [where P = "\<lambda>j. chain_of cr (entries j) (chain_head j)", rotated])
  show "chain_of cr (entries (fresh_journal (log_path j) (head_path j))) (chain_head (fresh_journal (log_path j) (head_path j)))"
    by (simp add: fresh_journal_def chain_nil)
next
  fix kind body j j'
  assume c: "chain_of cr (entries j) (chain_head j)" and "replay_record cr pk ml kind body j = Inr j'"
  from this(2) show "chain_of cr (entries j') (chain_head j')"
  proof (cases rule: replay_record_cases)
    case (1 f)
    then show ?thesis
      using chain_snoc [OF c, of "next_entry cr j f"]
      by (simp add: next_entry_def next_hash_def combined_hash_def hash_input_def)
  qed (use c in simp)
qed

lemma hash_input_inj:
  assumes "hash_input e = hash_input e'"
    and "wf_entry_fields (entry_fields e)" "length (JournalEntryFields.mediator_id (entry_fields e)) \<le> 256"
    and "wf_entry_fields (entry_fields e')" "length (JournalEntryFields.mediator_id (entry_fields e')) \<le> 256"
  shows "index e = index e' \<and> entry_fields e = entry_fields e' \<and> previous_hash e = previous_hash e'"
  using u64.put_unambiguous [OF TrueI TrueI assms(1) [unfolded hash_input_def]]
    entry.put_unambiguous [of "entry_fields e" "entry_fields e'" "previous_hash e" "previous_hash e'"] assms(2-5)
  by simp

lemma chain_determined:
  assumes "chain_of cr es h" and "chain_of cr es' h" and "length es = length es'"
    and "inj_on (sha256 cr) (hash_input ` (set es \<union> set es'))"
  shows "es = es'"
  using assms
proof (induction es h arbitrary: es' rule: chain_of.induct)
  case chain_nil
  then show ?case
    by simp
next
  case (chain_snoc es h e)
  then obtain fs e' where es': "es' = fs @ [e']" "length fs = length es"
    by (cases es' rule: rev_cases) auto
  from chain_snoc.prems(1) [unfolded es'(1)] have e': "chain_of cr fs (previous_hash e')" "entry_hash e = entry_hash e'"
    "wf_entry_fields (entry_fields e')" "length (JournalEntryFields.mediator_id (entry_fields e')) \<le> 256"
    "entry_hash e' = sha256 cr (hash_input e')"
    by (auto elim: chain_snocE)
  have "hash_input e = hash_input e'"
    by (rule inj_onD [OF chain_snoc.prems(3)]) (use chain_snoc.hyps e' in \<open>simp_all add: es'\<close>)
  then have same: "index e = index e' \<and> entry_fields e = entry_fields e' \<and> previous_hash e = previous_hash e'"
    using hash_input_inj chain_snoc.hyps e'(3,4) by blast
  then have "e = e'"
    using e'(2) by (cases e; cases e') simp
  moreover have "es = fs"
  proof (rule chain_snoc.IH)
    show "chain_of cr fs h"
      using e'(1) same chain_snoc.hyps by simp
    show "inj_on (sha256 cr) (hash_input ` (set es \<union> set fs))"
      using chain_snoc.prems(3) by (rule inj_on_subset) (auto simp: es')
  qed (simp add: es')
  ultimately show ?case
    by (simp add: es')
qed

lemma chain_last:
  "chain_of cr es h \<Longrightarrow> es \<noteq> [] \<Longrightarrow> h = sha256 cr (hash_input (last es)) \<and> index (last es) = of_nat (length es - 1) \<and>
     wf_entry_fields (entry_fields (last es)) \<and> length (JournalEntryFields.mediator_id (entry_fields (last es))) \<le> 256"
  by (induction rule: chain_of.induct) auto

lemma of_nat_u64_inj:
  assumes "(of_nat a :: u64) = of_nat b" and "a < 2 ^ 64" and "b < 2 ^ 64"
  shows "a = b"
  using arg_cong [OF assms(1), of unat] assms(2,3) by (simp add: unsigned_of_nat take_bit_eq_mod)

lemma same_head_same_journal:
  assumes "chain_of cr es h" and "chain_of cr es' h" and "es \<noteq> []" and "es' \<noteq> []"
    and "length es \<le> 2 ^ 64" and "length es' \<le> 2 ^ 64"
    and inj: "inj_on (sha256 cr) (hash_input ` (set es \<union> set es'))"
  shows "es = es'"
proof -
  note l = chain_last [OF assms(1,3)] and l' = chain_last [OF assms(2,4)]
  have "hash_input (last es) = hash_input (last es')"
    by (rule inj_onD [OF inj]) (use l l' assms(3,4) in auto)
  then have "(of_nat (length es - 1) :: u64) = of_nat (length es' - 1)"
    using hash_input_inj l l' by metis
  moreover have "length es - 1 < 2 ^ 64" "length es' - 1 < 2 ^ 64"
    using assms(3-6) by (cases es; cases es'; simp)+
  ultimately have "length es - 1 = length es' - 1"
    by (rule of_nat_u64_inj)
  then have "length es = length es'"
    using assms(3,4) by (cases es; cases es'; simp)
  then show ?thesis
    using chain_determined [OF assms(1,2)] inj by blast
qed

section \<open>The history of one trade\<close>

definition trade_states :: "TradeId \<Rightarrow> JournalEntry list \<Rightarrow> SessionState list" where
  "trade_states t es = map (\<lambda>e. local_state (entry_fields e)) (filter (\<lambda>e. trade_id (entry_fields e) = t) es)"

definition legal_history :: "SessionState list \<Rightarrow> bool" where
  "legal_history sts \<longleftrightarrow> sts = [] \<or> hd sts = WaitingForPeer \<and> successively is_valid_transition sts"

definition tracks :: "Journal \<Rightarrow> bool" where
  "tracks j \<longleftrightarrow> (\<forall>t. legal_history (trade_states t (entries j)) \<and>
     last_state_by_trade j (trade_id_hex t) =
       (if trade_states t (entries j) = [] then None else Some (last (trade_states t (entries j)))))"

lemma trade_states_snoc [simp]:
  "trade_states t (es @ [e]) =
     trade_states t es @ (if trade_id (entry_fields e) = t then [local_state (entry_fields e)] else [])"
  by (simp add: trade_states_def)

lemma legal_Nil [simp]: "legal_history []"
  by (simp add: legal_history_def)

lemma tracks_fresh [simp]: "tracks (fresh_journal log head)"
  by (simp add: tracks_def fresh_journal_def trade_states_def legal_history_def)

lemma trade_id_hex_inj [simp]: "trade_id_hex t = trade_id_hex t' \<longleftrightarrow> t = t'"
  by (simp add: trade_id_hex_def)

lemma tracks_entry:
  assumes "tracks j" and "follows j f"
  shows "tracks (with_entry cr f j)"
proof -
  let ?sts = "trade_states (trade_id f) (entries j)"
  have "legal_history (?sts @ [local_state f])"
    using assms by (auto simp: tracks_def follows_def legal_history_def successively_append_iff hd_append split: if_splits)
  then show ?thesis
    using assms(1) by (auto simp: tracks_def with_entry_def next_entry_def)
qed

lemma replays_tracks: "replays cr pk ml j log \<Longrightarrow> tracks j"
  unfolding replays_def
proof (erule replay_invariant [where P = tracks, rotated])
  fix kind body j j'
  assume "tracks j" "replay_record cr pk ml kind body j = Inr j'"
  then show "tracks j'"
    by (auto elim!: replay_record_cases simp: tracks_entry) (simp add: tracks_def with_checkpoint_def)
qed simp

lemma latest_state:
  assumes "tracks j"
  shows "last_state_by_trade j (trade_id_hex t) = map_option (\<lambda>e. local_state (entry_fields e)) (latest_for_trade t j)"
proof -
  have "(if trade_states t es = [] then None else Some (last (trade_states t es))) =
      map_option (\<lambda>e. local_state (entry_fields e)) (find (\<lambda>e. trade_id (entry_fields e) = t) (rev es))" for es
    by (induction es rule: rev_induct) (auto simp: trade_states_def)
  then show ?thesis
    using assms by (simp add: tracks_def latest_for_trade_def)
qed

section \<open>A failed append in the middle\<close>

text \<open>One byte of a record, followed by a whole record, reads as a record of more than sixteen megabytes.\<close>

lemma body_length_after_stray_byte:
  "body_length_at (pre @ 1 # put_frame 1 body) (length pre) > kMaxRecordBodyLength"
proof -
  let ?raw = "pre @ 1 # put_frame 1 body"
  let ?w = "push_bit 24 (ucast (?raw ! (length pre + 1))) OR push_bit 16 (ucast (?raw ! (length pre + 2))) OR
     push_bit 8 (ucast (?raw ! (length pre + 3))) OR ucast (?raw ! (length pre + 4)) :: u32"
  have "?raw ! (length pre + 1) = 1"
    by (simp add: nth_append put_frame_def put_u8_def)
  then have "push_bit 24 1 \<le> ?w"
    using le_word_or2 [of "push_bit 24 1 :: u32"] by (simp only: ucast_1)
  then have "unat (push_bit 24 1 :: u32) \<le> unat ?w"
    by (simp only: word_le_nat_alt)
  then show ?thesis
    unfolding body_length_at_def by simp
qed

lemma stray_byte_then_record:
  assumes "replays cr pk ml j log"
  shows "replay cr pk ml (log @ 1 # put_frame 1 body) 0 (fresh_journal (log_path j) (head_path j)) =
    Inl (JournalFormatError ''journal record body exceeds maximum allowed length'')"
  using replay_extend [OF assms [unfolded replays_def], of "1 # put_frame 1 body"]
    body_length_after_stray_byte [of log body]
  by (simp add: replay.simps [of cr pk ml _ "length log"])

lemma stray_byte_journal:
  assumes ok: "intact cr pk ml s" and whole: "append_entry cr now None f s = (Inr e, t)"
    and cut: "append_entry cr now (Some 1) f s = (Inl ex, s1)" and next_one: "append_entry cr now' None f' s1 = (Inr e', s2)"
    and calls: "calls_succeed calls"
  shows "\<exists>m. open_journal cr calls (log_path (handle s)) (head_path (handle s)) pk ml (disk s2) =
    (Inl (JournalFormatError m), disk s2)"
proof -
  obtain log where log: "disk s (log_path (handle s)) = Some log" "replays cr pk ml (handle s) log"
    using ok by (auto simp: intact_def)
  have s1: "s1 = s\<lparr>disk := log_grown (Some 1) (put_frame 1 (entry_body cr (handle s) (stamped now f))) s\<rparr>"
    using append_accepted [of s now f cr "Some 1"] append_refused [of s now f cr None] whole cut by fastforce
  have s2: "s2 = appended cr (stamped now' f') s1"
    using append_accepted [of s1 now' f' cr None] append_refused [of s1 now' f' cr None] next_one by fastforce
  have "disk s2 (log_path (handle s)) = Some (log @ 1 # put_frame 1 (entry_body cr (handle s) (stamped now' f')))"
    by (simp add: s2 s1 appended_def log_grown_def log(1) put_frame_def put_u8_def)
  then show ?thesis
    using stray_byte_then_record [OF log(2)] calls
    by (simp add: open_journal_def calls_succeed_def sbind_def action_defs)
qed

text \<open>Whether an append is accepted depends on the journal object only.\<close>

lemma append_same_handle:
  assumes "handle s1 = handle s" and "append_entry cr now None f s = (Inr e, t)"
  shows "\<exists>t1. append_entry cr now None f s1 = (Inr e, t1)"
  using append_accepted [of s now f cr None] append_refused [of s now f cr None]
    append_accepted [of s1 now f cr None] assms by fastforce

lemma append_returns_last:
  assumes "append_entry cr now None f s = (Inr e, t)"
  shows "entries (handle t) = entries (handle s) @ [e]"
  using append_accepted [of s now f cr None] append_refused [of s now f cr None] assms
  by (fastforce simp: appended_def)

section \<open>The transitions of a mediator session\<close>

text \<open>Every step of a session is a transition the journal allows, except around an early fee.\<close>

lemma session_step_valid:
  assumes "apply_event e s = Inr s'" and "session_inv s"
  shows "is_valid_transition (MediatorSession.state s) (MediatorSession.state s') \<or>
    0 < fee_amount s \<and> MediatorSession.fee_position s \<noteq> AfterLastRound \<and>
      (MediatorSession.state s, MediatorSession.state s') \<in>
        {(WaitingForPeer, WaitingForFeeSent), (WaitingForReceived, WaitingForFeeSent),
         (WaitingForFeeSent, WaitingForSent), (WaitingForFeeConfirmation, WaitingForSent)}"
proof -
  have fee: "0 < fee_amount s" if "MediatorSession.state s = WaitingForFeeSent \<or> MediatorSession.state s = WaitingForFeeConfirmation"
    using assms(2) that by (auto simp: session_inv_def fee_leg_at_def)
  have known: "MediatorSession.state s \<noteq> SessionStateRaw b" for b
    using assms(2) by (auto simp: session_inv_def)
  show ?thesis
    using assms(1) fee known
    by (cases e; cases "MediatorSession.state s")
       (auto simp: is_valid_transition_def join_def sender_reported_sent_def receiver_reported_received_def
        advance_after_receipt_def acknowledge_final_receipt_def confirm_fee_received_def abort_def exn_simps Let_def
        split: if_splits)
qed

end
