(* ===== verification/Journal_Examples.thy ===== *)
theory Journal_Examples
  imports Journal_History
begin

text \<open>A journal with one entry and a checkpoint, on which the results about journals are applied.\<close>

definition demo_journal_crypto :: crypto where
  "demo_journal_crypto = \<lparr>sha256 = (\<lambda>x. replicate 32 5), ed25519_sign = (\<lambda>seed m. Inr (replicate 64 1)),
     ed25519_verify = (\<lambda>pk m sig. Inr True), mldsa65_sign = (\<lambda>seed m. Inr (replicate 3309 2)),
     mldsa65_verify = (\<lambda>pk m sig. Inr True)\<rparr>"

definition demo_open_calls :: open_calls where
  "demo_open_calls = \<lparr>log_open_ok = True, log_size_ok = True, log_read_ok = True, truncate_ok = True, head_read_ok = True\<rparr>"

definition demo_syscalls :: syscalls where
  "demo_syscalls = \<lparr>open_ok = True, write_ok = True, close_ok = True, rename_ok = True\<rparr>"

definition demo_journal_fields :: JournalEntryFields where
  "demo_journal_fields = \<lparr>version = 1, room_id = zero_id 32, trade_id = replicate 16 4, mediator_id = ''med:1'',
     counterparty_fingerprint = zero_id 32, terms_commitment = zero_id 32, round = 0, direction = Outbound,
     message_type = InviteTrade, message_hash = zero_id 32, ack_state = NotApplicable,
     local_state = WaitingForPeer, timestamp = 0\<rparr>"

definition demo_opened :: journal_state where
  "demo_opened = \<lparr>handle = fresh_journal ''log'' ''head'', disk = [''log'' \<mapsto> []]\<rparr>"

definition demo_appended :: journal_state where
  "demo_appended = appended demo_journal_crypto (stamped 9 demo_journal_fields) demo_opened"

abbreviation (input) demo_uses :: "journal_state \<Rightarrow> bool" where
  "demo_uses \<equiv> uses demo_journal_crypto [] [] [] [] ''log'' ''head''"

lemma demo_journal_setting:
  "journal_keys demo_journal_crypto [] [] [] []" "separate_paths ''log'' ''head''" "calls_succeed demo_open_calls"
  "wf_entry_fields demo_journal_fields"
  by (simp_all add: journal_keys_def demo_journal_crypto_def separate_paths_def calls_succeed_def demo_open_calls_def
      wf_entry_fields_def demo_journal_fields_def is_room_id_def direction_of_byte_def ack_of_byte_def state_of_byte_def
      message_type_of_value_def known_types_def)

lemma demo_open_empty:
  "open_journal demo_journal_crypto demo_open_calls ''log'' ''head'' [] (Some []) Map.empty =
     (Inr (handle demo_opened), disk demo_opened)"
  by (simp add: open_journal_def demo_open_calls_def replay.simps read_file_all_def sbind_def action_defs demo_opened_def)

lemma demo_uses_opened: "demo_uses demo_opened"
  using uses.opened [OF demo_open_empty, of "[]" "[]"] by (simp add: demo_opened_def)

lemma demo_append:
  "append_entry demo_journal_crypto 9 None demo_journal_fields demo_opened =
     (Inr (next_entry demo_journal_crypto (handle demo_opened) (stamped 9 demo_journal_fields)), demo_appended)"
  "append_entry demo_journal_crypto 9 (Some n) demo_journal_fields demo_opened =
     (Inl (errno ''failed to write journal file contents''),
      demo_opened\<lparr>disk := log_grown (Some n) (put_frame 1 (entry_body demo_journal_crypto (handle demo_opened)
        (stamped 9 demo_journal_fields))) demo_opened\<rparr>)"
proof -
  have "follows (handle demo_opened) (stamped 9 demo_journal_fields)"
    by (simp add: follows_def demo_opened_def fresh_journal_def stamped_def demo_journal_fields_def)
  moreover have "length (JournalEntryFields.mediator_id demo_journal_fields) \<le> 256"
    by (simp add: demo_journal_fields_def)
  ultimately show "append_entry demo_journal_crypto 9 None demo_journal_fields demo_opened =
     (Inr (next_entry demo_journal_crypto (handle demo_opened) (stamped 9 demo_journal_fields)), demo_appended)"
  "append_entry demo_journal_crypto 9 (Some n) demo_journal_fields demo_opened =
     (Inl (errno ''failed to write journal file contents''),
      demo_opened\<lparr>disk := log_grown (Some n) (put_frame 1 (entry_body demo_journal_crypto (handle demo_opened)
        (stamped 9 demo_journal_fields))) demo_opened\<rparr>)"
    by (simp_all add: append_accepted demo_appended_def)
qed

lemma demo_uses_appended: "demo_uses demo_appended"
  by (rule uses.appends [OF demo_uses_opened demo_journal_setting(4) demo_append(1)])

lemma demo_appended_entries: "\<exists>e. entries (handle demo_appended) = [e]"
  by (simp add: demo_appended_def appended_def demo_opened_def fresh_journal_def)

lemma demo_checkpoint:
  "\<exists>s. checkpoint demo_journal_crypto 10 None demo_syscalls [] demo_appended = (Inr (), s)"
proof -
  obtain e where "entries (handle demo_appended) = [e]"
    using demo_appended_entries by blast
  then show ?thesis
    by (simp add: checkpoint_run finish_checkpoint_def demo_journal_crypto_def demo_syscalls_def on_disk_def
        write_all_and_sync_def write_replace_atomic_def replace_atomic_def sbind_def action_defs Let_def)
qed

end
