(* ===== verification/Key_Derivation.thy ===== *)
theory Key_Derivation
  imports Atomic_Files Text_Parsing
begin

text \<open>
  Scoped keys, \<open>src/src/identity.cpp\<close>: the byte string that separates the purposes of derived keys, the
  derivations from a master secret, random bytes and the comparison of keys. OpenSSL is the record
  \<open>key_crypto\<close>; its functions return what the library wrote into the buffer, or the exception of the
  wrapper. The random generator is an endless sequence of bytes of which the machine remembers how many
  were drawn; a missing byte is a failure of the generator.
\<close>

section \<open>The OpenSSL layer and the machine\<close>

record key_crypto =
  evp_hkdf :: "bytes \<Rightarrow> bytes option \<Rightarrow> bytes option \<Rightarrow> nat \<Rightarrow> bytes result"
  evp_ed25519_public :: "bytes \<Rightarrow> bytes result"
  evp_mldsa65_public :: "bytes \<Rightarrow> bytes result"
  evp_argon2id :: "string \<Rightarrow> bytes \<Rightarrow> u32 \<Rightarrow> u32 \<Rightarrow> u32 \<Rightarrow> bytes result"
  evp_pbkdf2 :: "string \<Rightarrow> bytes \<Rightarrow> u32 \<Rightarrow> bytes result"
  evp_seal :: "bytes \<Rightarrow> bytes \<Rightarrow> bytes \<Rightarrow> bytes \<Rightarrow> (bytes \<times> bytes) result"
  evp_open :: "bytes \<Rightarrow> bytes \<Rightarrow> bytes \<Rightarrow> bytes \<Rightarrow> bytes \<Rightarrow> bytes option result"

text \<open>
  Documented behaviour of ChaCha20-Poly1305: what was sealed opens again under the same key, nonce and
  associated data; the ciphertext is as long as the plaintext and the tag has 16 bytes.
\<close>

definition aead_opens :: "key_crypto \<Rightarrow> bool" where
  "aead_opens kc \<longleftrightarrow> (\<forall>key nonce aad plain c tag. evp_seal kc key nonce aad plain = Inr (c, tag) \<longrightarrow>
     evp_open kc key nonce aad c tag = Inr (Some plain) \<and> length c = length plain \<and> length tag = 16)"

record machine =
  volume :: files
  entropy :: "nat \<Rightarrow> u8 option"
  drawn :: nat

definition on_volume :: "(files, 'a) action \<Rightarrow> (machine, 'a) action" where
  "on_volume m s = (case m (volume s) of (r, fs) \<Rightarrow> (r, s\<lparr>volume := fs\<rparr>))"

definition rand_bytes :: "exn \<Rightarrow> nat \<Rightarrow> (machine, bytes) action" where
  "rand_bytes failure n s =
     (let bs = map (entropy s) [drawn s ..< drawn s + n]; s' = s\<lparr>drawn := drawn s + n\<rparr>
      in if None \<in> set bs then (Inl failure, s') else (Inr (map the bs), s'))"

definition random_bytes :: "nat \<Rightarrow> (machine, bytes) action" where
  "random_bytes n =
     (if n = 0 then sreturn []
      else if n > 2147483647 then sthrow (Invalid_argument ''random_bytes length too large'')
      else rand_bytes (Runtime_error ''failed to generate random bytes'') n)"

abbreviation (input) kMasterSecretLength :: nat where "kMasterSecretLength \<equiv> 32"
abbreviation (input) kDerivedKeyLength :: nat where "kDerivedKeyLength \<equiv> 32"
abbreviation (input) kMaxDerivationLabelLength :: nat where "kMaxDerivationLabelLength \<equiv> 255"
abbreviation (input) kMaxDerivationIdentifierLength :: nat where "kMaxDerivationIdentifierLength \<equiv> 65535"

definition generate_master_secret :: "(machine, bytes) action" where
  "generate_master_secret = rand_bytes (Runtime_error ''failed to generate master secret'') kMasterSecretLength"

section \<open>Labels and derivations\<close>

definition kLogin :: string where "kLogin = ''login''"
definition kMediatorPseudonym :: string where "kMediatorPseudonym = ''mediator''"
definition kMediatorPseudonymMlDsa65 :: string where "kMediatorPseudonymMlDsa65 = ''mediator-mldsa65''"
definition kGlobalPseudonym :: string where "kGlobalPseudonym = ''global-pseudonym''"
definition kGlobalPseudonymMlDsa65 :: string where "kGlobalPseudonymMlDsa65 = ''global-pseudonym-mldsa65''"
definition kLocalHistory :: string where "kLocalHistory = ''local-history''"
definition kLocalHistoryMlDsa65 :: string where "kLocalHistoryMlDsa65 = ''local-history-mldsa65''"
definition kKeystoreIdentity :: string where "kKeystoreIdentity = ''keystore-identity''"
definition kKeystoreIdentityMlDsa65 :: string where "kKeystoreIdentityMlDsa65 = ''keystore-identity-mldsa65''"

definition encode_derivation_info :: "string \<Rightarrow> string \<Rightarrow> bytes result" where
  "encode_derivation_info label identifier =
     rbind (throw_if (length label > kMaxDerivationLabelLength)
       (Invalid_argument ''derivation label exceeds maximum length'')) (\<lambda>_.
     rbind (throw_if (length identifier > kMaxDerivationIdentifierLength)
       (Invalid_argument ''derivation identifier exceeds maximum length'')) (\<lambda>_.
     Inr (put_u8 (of_nat (length label)) @ map byte_of_char label @
          put_u16 (of_nat (length identifier)) @ map byte_of_char identifier)))"

text \<open>Empty salt and info are not passed to the library at all.\<close>

definition hkdf_sha256 :: "key_crypto \<Rightarrow> bytes \<Rightarrow> bytes \<Rightarrow> bytes \<Rightarrow> nat \<Rightarrow> bytes result" where
  "hkdf_sha256 kc secret salt info output_length =
     rbind (evp_hkdf kc secret (if salt = [] then None else Some salt) (if info = [] then None else Some info)
       output_length) (\<lambda>out. Inr (if output_length > 0 then out else []))"

definition derive_scoped_key :: "key_crypto \<Rightarrow> bytes \<Rightarrow> string \<Rightarrow> string \<Rightarrow> bytes result" where
  "derive_scoped_key kc master_secret label identifier =
     rbind (encode_derivation_info label identifier) (\<lambda>info.
     rbind (hkdf_sha256 kc master_secret [] info kDerivedKeyLength) (\<lambda>raw.
     Inr (take kDerivedKeyLength raw)))"

record KeyPair =
  pair_seed :: bytes
  pair_public :: bytes

definition keypair_of_seed :: "(bytes \<Rightarrow> bytes result) \<Rightarrow> nat \<Rightarrow> string \<Rightarrow> bytes \<Rightarrow> KeyPair result" where
  "keypair_of_seed public_of n message seed =
     rbind (public_of seed) (\<lambda>public.
     rbind (throw_if (length public \<noteq> n) (Runtime_error message)) (\<lambda>_.
     Inr \<lparr>pair_seed = seed, pair_public = public\<rparr>))"

definition load_ed25519_keypair :: "key_crypto \<Rightarrow> bytes \<Rightarrow> KeyPair result" where
  "load_ed25519_keypair kc =
     keypair_of_seed (evp_ed25519_public kc) 32 ''failed to derive Ed25519 public key from seed''"

definition derive_ed25519_keypair :: "key_crypto \<Rightarrow> bytes \<Rightarrow> string \<Rightarrow> string \<Rightarrow> KeyPair result" where
  "derive_ed25519_keypair kc master_secret label identifier =
     rbind (derive_scoped_key kc master_secret label identifier)
       (keypair_of_seed (evp_ed25519_public kc) 32 ''failed to extract Ed25519 public key from derived seed'')"

definition load_mldsa65_keypair :: "key_crypto \<Rightarrow> bytes \<Rightarrow> KeyPair result" where
  "load_mldsa65_keypair kc =
     keypair_of_seed (evp_mldsa65_public kc) 1952 ''failed to derive ML-DSA-65 public key from seed''"

definition derive_mldsa65_keypair :: "key_crypto \<Rightarrow> bytes \<Rightarrow> string \<Rightarrow> string \<Rightarrow> KeyPair result" where
  "derive_mldsa65_keypair kc master_secret label identifier =
     rbind (derive_scoped_key kc master_secret label identifier)
       (keypair_of_seed (evp_mldsa65_public kc) 1952 ''failed to extract ML-DSA-65 public key from derived seed'')"

definition generate_mldsa65_keypair :: "key_crypto \<Rightarrow> (machine, KeyPair) action" where
  "generate_mldsa65_keypair kc =
     sbind (rand_bytes (Runtime_error ''failed to generate ML-DSA-65 seed'') 32) (\<lambda>seed.
     slift (load_mldsa65_keypair kc seed))"

text \<open>\<open>CRYPTO_memcmp\<close> returns zero exactly when the two buffers agree on the given length.\<close>

definition constant_time_equal :: "bytes \<Rightarrow> bytes \<Rightarrow> bool" where
  "constant_time_equal a b =
     (if length a \<noteq> length b then False else if a = [] then True else take (length a) b = a)"

section \<open>Purposes are separated\<close>

lemma encode_derivation_info_ok:
  "encode_derivation_info label identifier = Inr bs \<longleftrightarrow> length label \<le> 255 \<and> length identifier \<le> 65535 \<and>
     bs = put_u8 (of_nat (length label)) @ map byte_of_char label @ put_string identifier"
  by (auto simp: encode_derivation_info_def put_string_def exn_simps)

lemma unat_length_u8: "n \<le> 255 \<Longrightarrow> unat (of_nat n :: u8) = n"
  by (simp add: unsigned_of_nat take_bit_eq_mod)

lemma encode_derivation_info_inj:
  assumes "encode_derivation_info label identifier = Inr bs"
    and "encode_derivation_info label' identifier' = Inr bs"
  shows "label = label' \<and> identifier = identifier'"
proof -
  have eq: "put_u8 (of_nat (length label)) @ map byte_of_char label @ put_string identifier =
      put_u8 (of_nat (length label')) @ map byte_of_char label' @ put_string identifier'"
    and bounds: "length label \<le> 255" "length label' \<le> 255" "length identifier \<le> 65535" "length identifier' \<le> 65535"
    using assms by (auto simp: encode_derivation_info_ok)
  have "length label = length label'"
    using eq bounds(1,2) by (metis (no_types) put_u8_def append_Cons list.inject unat_length_u8)
  with eq have "label = label'" "put_string identifier = put_string identifier'"
    by simp_all
  then show ?thesis
    using string16.put_unambiguous [where x = "identifier" and y = "identifier'" and rest = "[]" and rest' = "[]" and n = 65535] bounds(3,4) by simp
qed

lemma constant_time_equal_iff [simp]: "constant_time_equal a b \<longleftrightarrow> a = b"
  by (auto simp: constant_time_equal_def)

lemma key_scopes_distinct:
  "distinct [kLogin, kMediatorPseudonym, kMediatorPseudonymMlDsa65, kGlobalPseudonym, kGlobalPseudonymMlDsa65,
     kLocalHistory, kLocalHistoryMlDsa65, kKeystoreIdentity, kKeystoreIdentityMlDsa65]"
  by (simp add: kLogin_def kMediatorPseudonym_def kMediatorPseudonymMlDsa65_def kGlobalPseudonym_def
      kGlobalPseudonymMlDsa65_def kLocalHistory_def kLocalHistoryMlDsa65_def kKeystoreIdentity_def
      kKeystoreIdentityMlDsa65_def)

section \<open>What the random generator returns\<close>

lemma rand_bytes_returns:
  "rand_bytes e n s = (Inr bs, s') \<Longrightarrow> length bs = n \<and> s' = s\<lparr>drawn := drawn s + n\<rparr>"
  by (auto simp: rand_bytes_def Let_def split: if_splits)

lemma rand_bytes_volume: "volume (snd (rand_bytes e n s)) = volume s"
  by (simp add: rand_bytes_def Let_def)

lemma random_bytes_returns:
  "random_bytes n s = (Inr bs, s') \<Longrightarrow> length bs = n \<and> s' = s\<lparr>drawn := drawn s + n\<rparr>"
  by (auto simp: random_bytes_def action_defs split: if_splits dest: rand_bytes_returns)

lemma random_bytes_volume: "volume (snd (random_bytes n s)) = volume s"
  by (simp add: random_bytes_def action_defs rand_bytes_volume)

lemma generate_master_secret_returns: "generate_master_secret s = (Inr bs, s') \<Longrightarrow> length bs = 32"
  unfolding generate_master_secret_def using rand_bytes_returns by blast

lemma generate_master_secret_volume: "volume (snd (generate_master_secret s)) = volume s"
  by (simp add: generate_master_secret_def rand_bytes_volume)

lemma keypair_of_seed_ok:
  "keypair_of_seed public_of n message seed = Inr pair \<longleftrightarrow>
     (\<exists>public. public_of seed = Inr public \<and> length public = n \<and> pair = \<lparr>pair_seed = seed, pair_public = public\<rparr>)"
  by (auto simp: keypair_of_seed_def exn_simps)

lemma derive_ed25519_public_length:
  "derive_ed25519_keypair kc secret label identifier = Inr pair \<Longrightarrow> length (pair_public pair) = 32"
  by (auto simp: derive_ed25519_keypair_def keypair_of_seed_ok exn_simps)

end
