(* ===== verification/Keystore.thy ===== *)
theory Keystore
  imports Key_Derivation
begin

text \<open>
  The encrypted identity keystore, \<open>src/src/keystore.cpp\<close>: the file format, its reader and writer, and
  the class \<open>IdentityKeystore\<close>. A handle is a record; an operation that changes files or draws random
  bytes is an action on the machine, one that only reads gets the files as an argument. A mutating member
  function returns the changed handle, so a throw leaves the handle as it was.
\<close>

section \<open>Data\<close>

abbreviation (input) kKeystoreFormatVersion :: u16 where "kKeystoreFormatVersion \<equiv> 1"
abbreviation (input) kKeystoreIdentityIdLength :: nat where "kKeystoreIdentityIdLength \<equiv> 16"
abbreviation (input) kKeystoreAeadNonceLength :: nat where "kKeystoreAeadNonceLength \<equiv> 12"
abbreviation (input) kKeystoreAeadTagLength :: nat where "kKeystoreAeadTagLength \<equiv> 16"
abbreviation (input) kKeystoreMaxAliasLength :: nat where "kKeystoreMaxAliasLength \<equiv> 255"
abbreviation (input) kArgon2DefaultMemCostKib :: u32 where "kArgon2DefaultMemCostKib \<equiv> 65536"
abbreviation (input) kArgon2DefaultIterations :: u32 where "kArgon2DefaultIterations \<equiv> 3"
abbreviation (input) kArgon2DefaultLanes :: u32 where "kArgon2DefaultLanes \<equiv> 4"
abbreviation (input) kArgon2SaltLength :: nat where "kArgon2SaltLength \<equiv> 16"
abbreviation (input) kPbkdf2FallbackIterations :: u32 where "kPbkdf2FallbackIterations \<equiv> 600000"
abbreviation (input) kPayloadVersion :: u8 where "kPayloadVersion \<equiv> 1"
abbreviation (input) kMaxKdfSaltLength :: nat where "kMaxKdfSaltLength \<equiv> 256"
abbreviation (input) kMaxCiphertextLength :: nat where "kMaxCiphertextLength \<equiv> 4096"

definition kKeystoreMagic :: bytes where "kKeystoreMagic = [0x54, 0x50, 0x4b, 0x53]"

datatype KdfAlgorithm = kArgon2id | kPbkdf2Sha256Fallback

fun byte_of_kdf :: "KdfAlgorithm \<Rightarrow> u8" where
  "byte_of_kdf kArgon2id = 1"
| "byte_of_kdf kPbkdf2Sha256Fallback = 2"

definition kdf_of_byte :: "u8 \<Rightarrow> KdfAlgorithm" where
  "kdf_of_byte b = (if b = byte_of_kdf kArgon2id then kArgon2id else kPbkdf2Sha256Fallback)"

abbreviation (input) byte_of_chacha20poly1305 :: u8 where "byte_of_chacha20poly1305 \<equiv> 1"

record PublicIdentity =
  public_id :: bytes
  public_alias :: string
  public_created_at :: u64
  public_key_bytes :: bytes
  public_generation :: u32

record DecodedFile =
  file_version :: u16
  file_identity_id :: bytes
  file_alias :: string
  file_created_at :: u64
  file_kdf :: KdfAlgorithm
  file_salt :: bytes
  file_memcost :: u32
  file_iterations :: u32
  file_lanes :: u32
  file_public_key :: bytes
  file_nonce :: bytes
  file_ciphertext :: bytes
  file_tag :: bytes
  file_aad :: bytes

record IdentityKeystore =
  ks_path :: string
  ks_version :: u16
  ks_identity_id :: bytes
  ks_alias :: string
  ks_created_at :: u64
  ks_public_key :: bytes
  ks_generation :: u32
  ks_kdf :: KdfAlgorithm
  ks_salt :: bytes
  ks_memcost :: u32
  ks_iterations :: u32
  ks_lanes :: u32
  ks_secret :: "bytes option"

section \<open>Reader and writer\<close>

abbreviation (input) k_truncated :: exn where
  "k_truncated \<equiv> KeystoreFormatError ''truncated keystore file''"
abbreviation (input) k_too_long :: exn where
  "k_too_long \<equiv> KeystoreFormatError ''keystore field exceeds maximum allowed length''"
abbreviation (input) k_u8 :: "u8 parser" where "k_u8 \<equiv> get_u8 k_truncated"
abbreviation (input) k_u16 :: "u16 parser" where "k_u16 \<equiv> get_u16 k_truncated"
abbreviation (input) k_u32 :: "u32 parser" where "k_u32 \<equiv> get_u32 k_truncated"
abbreviation (input) k_u64 :: "u64 parser" where "k_u64 \<equiv> get_u64 k_truncated"
abbreviation (input) k_fixed :: "nat \<Rightarrow> bytes parser" where "k_fixed \<equiv> get_fixed k_truncated"
abbreviation (input) k_bytes_u16 :: "nat \<Rightarrow> bytes parser" where "k_bytes_u16 \<equiv> get_bytes k_truncated k_too_long"
abbreviation (input) k_text_u16 :: "nat \<Rightarrow> string parser" where "k_text_u16 \<equiv> get_string k_truncated k_too_long"
abbreviation (input) k_bytes_u32 :: "nat \<Rightarrow> bytes parser" where "k_bytes_u32 \<equiv> get_bytes32 k_truncated k_too_long"
abbreviation (input) k_require_finished :: "unit parser" where
  "k_require_finished \<equiv> require_finished (KeystoreFormatError ''trailing bytes after keystore record'')"
abbreviation (input) k_write_u16 :: "bytes \<Rightarrow> write_step" where
  "k_write_u16 v \<equiv> writer_bytes (Invalid_argument ''keystore field exceeds u16 length prefix'') v 65535"
abbreviation (input) k_write_text :: "string \<Rightarrow> write_step" where
  "k_write_text v \<equiv> writer_short_string (Invalid_argument ''keystore field exceeds u16 length prefix'') v 65535"

definition keystore_bytes_u32 :: "bytes \<Rightarrow> write_step" where
  "keystore_bytes_u32 v w =
     (if length v > 4294967295 then Inl (Invalid_argument ''keystore field exceeds u32 length prefix'')
      else rbind (writer_u32 (of_nat (length v)) w) (\<lambda>w. Inr (w @ v)))"

section \<open>Files\<close>

text \<open>
  \<open>write_new_exclusive\<close>: \<open>open\<close> with \<open>O_EXCL\<close> reports an existing file; a failure after the file was created
  removes it again.
\<close>

definition write_new_exclusive :: "syscalls \<Rightarrow> string \<Rightarrow> bytes \<Rightarrow> (files, unit) action" where
  "write_new_exclusive calls path bs =
     sbind (if \<not> open_ok calls then sthrow (errno ''failed to create file'') else sreturn ()) (\<lambda>_.
     sbind (sget (\<lambda>fs. fs path)) (\<lambda>old.
     sbind (if old \<noteq> None
            then sthrow (KeystoreAlreadyExistsError (''refusing to overwrite existing file: '' @ path))
            else smodify (\<lambda>fs. fs(path \<mapsto> []))) (\<lambda>_.
     sbind (if write_ok calls then smodify (\<lambda>fs. fs(path \<mapsto> bs))
            else sbind (smodify (unlink path)) (\<lambda>_.
                 sthrow (errno ''failed to write keystore file contents''))) (\<lambda>_.
     if close_ok calls then sreturn ()
     else sbind (smodify (unlink path)) (\<lambda>_. sthrow (errno ''failed to close file''))))))"

definition keystore_replace_atomic :: "syscalls \<Rightarrow> string \<Rightarrow> bytes \<Rightarrow> (files, unit) action" where
  "keystore_replace_atomic = replace_atomic ''failed to write keystore file contents''"

interpretation keystore_writer: atomic_writer keystore_replace_atomic
  unfolding keystore_replace_atomic_def by (rule atomic_writer_replace_atomic)

record read_calls =
  read_open_ok :: bool
  read_size_ok :: bool
  read_full_ok :: bool

definition keystore_read_file :: "read_calls \<Rightarrow> string \<Rightarrow> files \<Rightarrow> bytes result" where
  "keystore_read_file calls path fs =
     (case fs path of
        None \<Rightarrow> Inl (Runtime_error (''cannot open keystore file: '' @ path))
      | Some data \<Rightarrow>
          if \<not> read_open_ok calls then Inl (Runtime_error (''cannot open keystore file: '' @ path))
          else if \<not> read_size_ok calls then Inl (Runtime_error (''cannot determine size of keystore file: '' @ path))
          else if data \<noteq> [] \<and> \<not> read_full_ok calls then Inl (Runtime_error (''failed to fully read keystore file: '' @ path))
          else Inr data)"

section \<open>Keys and encryption\<close>

definition choose_kdf_algorithm :: "bool \<Rightarrow> KdfAlgorithm" where
  "choose_kdf_algorithm argon2id_available = (if argon2id_available then kArgon2id else kPbkdf2Sha256Fallback)"

definition derive_aead_key ::
  "key_crypto \<Rightarrow> KdfAlgorithm \<Rightarrow> string \<Rightarrow> bytes \<Rightarrow> u32 \<Rightarrow> u32 \<Rightarrow> u32 \<Rightarrow> bytes result" where
  "derive_aead_key kc algorithm passphrase salt memcost_kib iterations lanes =
     (case algorithm of
        kArgon2id \<Rightarrow> evp_argon2id kc passphrase salt memcost_kib iterations lanes
      | kPbkdf2Sha256Fallback \<Rightarrow> evp_pbkdf2 kc passphrase salt iterations)"

definition keystore_open :: "key_crypto \<Rightarrow> bytes \<Rightarrow> bytes \<Rightarrow> bytes \<Rightarrow> bytes \<Rightarrow> bytes \<Rightarrow> bytes result" where
  "keystore_open kc key nonce aad ciphertext tag =
     rbind (evp_open kc key nonce aad ciphertext tag) (\<lambda>opened.
     case opened of
       None \<Rightarrow> Inl (KeystoreAuthenticationError ''keystore authentication failed (wrong passphrase or corrupted file)'')
     | Some plaintext \<Rightarrow> Inr plaintext)"

section \<open>Payload and file\<close>

definition keystore_encode_payload :: "bytes \<Rightarrow> u32 \<Rightarrow> bytes result" where
  "keystore_encode_payload secret key_generation =
     steps [writer_u8 kPayloadVersion, writer_fixed_id secret, writer_u32 key_generation] []"

definition keystore_decode_payload :: "bytes \<Rightarrow> (bytes \<times> u32) result" where
  "keystore_decode_payload = run_reader (
     pbind k_u8 (\<lambda>ver.
     pbind (plift (throw_if (ver \<noteq> kPayloadVersion)
       (KeystoreFormatError ''unsupported keystore payload version''))) (\<lambda>_.
     pbind (k_fixed kMasterSecretLength) (\<lambda>secret.
     pbind k_u32 (\<lambda>key_generation.
     pbind k_require_finished (\<lambda>_.
     preturn (secret, key_generation)))))))"

definition keystore_decode_file :: "bytes \<Rightarrow> DecodedFile result" where
  "keystore_decode_file bs = run_reader (
     pbind (k_fixed 4) (\<lambda>magic.
     pbind (plift (throw_if (magic \<noteq> kKeystoreMagic)
       (KeystoreFormatError ''not a tradep2p identity keystore file (bad magic)''))) (\<lambda>_.
     pbind k_u16 (\<lambda>ver.
     pbind (plift (throw_if (ver \<noteq> kKeystoreFormatVersion)
       (KeystoreFormatError ''unsupported keystore format version''))) (\<lambda>_.
     pbind (k_fixed kKeystoreIdentityIdLength) (\<lambda>i.
     pbind (k_text_u16 kKeystoreMaxAliasLength) (\<lambda>alias.
     pbind k_u64 (\<lambda>created_at.
     pbind k_u8 (\<lambda>kdf_raw.
     pbind (plift (throw_if (kdf_raw \<noteq> byte_of_kdf kArgon2id \<and> kdf_raw \<noteq> byte_of_kdf kPbkdf2Sha256Fallback)
       (KeystoreFormatError ''unknown KDF algorithm identifier''))) (\<lambda>_.
     pbind (k_bytes_u16 kMaxKdfSaltLength) (\<lambda>salt.
     pbind k_u32 (\<lambda>memcost_kib.
     pbind k_u32 (\<lambda>iterations.
     pbind k_u32 (\<lambda>lanes.
     pbind k_u8 (\<lambda>aead_raw.
     pbind (plift (throw_if (aead_raw \<noteq> byte_of_chacha20poly1305)
       (KeystoreFormatError ''unknown AEAD algorithm identifier''))) (\<lambda>_.
     pbind (k_fixed 32) (\<lambda>public.
     pbind reader_position (\<lambda>aad_length.
     pbind (k_fixed kKeystoreAeadNonceLength) (\<lambda>nonce.
     pbind (k_bytes_u32 kMaxCiphertextLength) (\<lambda>ciphertext.
     pbind (k_fixed kKeystoreAeadTagLength) (\<lambda>tag.
     pbind k_require_finished (\<lambda>_.
     preturn \<lparr>file_version = ver, file_identity_id = i, file_alias = alias, file_created_at = created_at,
       file_kdf = kdf_of_byte kdf_raw, file_salt = salt, file_memcost = memcost_kib,
       file_iterations = iterations, file_lanes = lanes, file_public_key = public, file_nonce = nonce,
       file_ciphertext = ciphertext, file_tag = tag, file_aad = take aad_length bs\<rparr>)))))))))))))))))))))) bs"

text \<open>The header that \<open>build_and_write\<close> writes and passes to the cipher as associated data.\<close>

definition keystore_header ::
  "bytes \<Rightarrow> string \<Rightarrow> u64 \<Rightarrow> KdfAlgorithm \<Rightarrow> bytes \<Rightarrow> u32 \<Rightarrow> u32 \<Rightarrow> u32 \<Rightarrow> bytes \<Rightarrow> bytes result" where
  "keystore_header identity_id alias created_at kdf salt memcost_kib iterations lanes public = steps
     [writer_fixed_id kKeystoreMagic, writer_u16 kKeystoreFormatVersion, writer_fixed_id identity_id,
      k_write_text alias, writer_u64 created_at, writer_u8 (byte_of_kdf kdf), k_write_u16 salt,
      writer_u32 memcost_kib, writer_u32 iterations, writer_u32 lanes, writer_u8 byte_of_chacha20poly1305,
      writer_fixed_id public] []"

section \<open>The operations\<close>

text \<open>What the host does during one operation.\<close>

record keystore_env =
  argon2id_fetch :: bool
  ks_reads :: read_calls
  ks_calls :: syscalls
  ks_now :: u64

definition build_and_write ::
  "key_crypto \<Rightarrow> keystore_env \<Rightarrow> string \<Rightarrow> string \<Rightarrow> string \<Rightarrow> u64 \<Rightarrow> bytes \<Rightarrow> u32 \<Rightarrow> bytes \<Rightarrow> bool \<Rightarrow>
     (machine, IdentityKeystore) action" where
  "build_and_write kc env path passphrase alias created_at identity_id key_generation master_secret allow_overwrite =
     sbind (slift (throw_if (length alias > kKeystoreMaxAliasLength)
       (Invalid_argument ''alias exceeds maximum length''))) (\<lambda>_.
     let kdf = choose_kdf_algorithm (argon2id_fetch env) in
     sbind (random_bytes kArgon2SaltLength) (\<lambda>salt.
     let memcost_kib = (if kdf = kArgon2id then kArgon2DefaultMemCostKib else 0);
         iterations = (if kdf = kArgon2id then kArgon2DefaultIterations else kPbkdf2FallbackIterations);
         lanes = (if kdf = kArgon2id then kArgon2DefaultLanes else 0) in
     sbind (slift (derive_aead_key kc kdf passphrase salt memcost_kib iterations lanes)) (\<lambda>aead_key.
     sbind (slift (derive_ed25519_keypair kc master_secret kKeystoreIdentity [])) (\<lambda>identity_pair.
     sbind (slift (keystore_encode_payload master_secret key_generation)) (\<lambda>plaintext.
     sbind (random_bytes kKeystoreAeadNonceLength) (\<lambda>nonce.
     sbind (slift (keystore_header identity_id alias created_at kdf salt memcost_kib iterations lanes
       (pair_public identity_pair))) (\<lambda>aad.
     sbind (slift (evp_seal kc aead_key nonce aad plaintext)) (\<lambda>(ciphertext, tag).
     sbind (slift (steps [writer_fixed_id aad, writer_fixed_id nonce, keystore_bytes_u32 ciphertext,
       writer_fixed_id tag] [])) (\<lambda>file_bytes.
     sbind (on_volume (if allow_overwrite then keystore_replace_atomic (ks_calls env) path file_bytes
                       else write_new_exclusive (ks_calls env) path file_bytes)) (\<lambda>_.
     sreturn \<lparr>ks_path = path, ks_version = kKeystoreFormatVersion, ks_identity_id = identity_id, ks_alias = alias,
       ks_created_at = created_at, ks_public_key = pair_public identity_pair, ks_generation = key_generation,
       ks_kdf = kdf, ks_salt = salt, ks_memcost = memcost_kib, ks_iterations = iterations, ks_lanes = lanes,
       ks_secret = Some master_secret\<rparr>))))))))))"

definition load_keystore ::
  "key_crypto \<Rightarrow> read_calls \<Rightarrow> string \<Rightarrow> string \<Rightarrow> files \<Rightarrow> IdentityKeystore result" where
  "load_keystore kc calls path passphrase fs =
     rbind (keystore_read_file calls path fs) (\<lambda>raw.
     rbind (keystore_decode_file raw) (\<lambda>d.
     rbind (derive_aead_key kc (file_kdf d) passphrase (file_salt d) (file_memcost d) (file_iterations d) (file_lanes d)) (\<lambda>aead_key.
     rbind (keystore_open kc aead_key (file_nonce d) (file_aad d) (file_ciphertext d) (file_tag d)) (\<lambda>plaintext.
     rbind (keystore_decode_payload plaintext) (\<lambda>(secret, key_generation).
     rbind (derive_ed25519_keypair kc secret kKeystoreIdentity []) (\<lambda>recomputed.
     rbind (throw_if (\<not> constant_time_equal (pair_public recomputed) (file_public_key d))
       (KeystoreAuthenticationError ''keystore authentication failed (wrong passphrase or corrupted file)'')) (\<lambda>_.
     Inr \<lparr>ks_path = path, ks_version = file_version d, ks_identity_id = file_identity_id d, ks_alias = file_alias d,
       ks_created_at = file_created_at d, ks_public_key = file_public_key d, ks_generation = key_generation,
       ks_kdf = file_kdf d, ks_salt = file_salt d, ks_memcost = file_memcost d,
       ks_iterations = file_iterations d, ks_lanes = file_lanes d, ks_secret = Some secret\<rparr>)))))))"

definition create_keystore ::
  "key_crypto \<Rightarrow> keystore_env \<Rightarrow> string \<Rightarrow> string \<Rightarrow> string \<Rightarrow> (machine, IdentityKeystore) action" where
  "create_keystore kc env path passphrase alias =
     sbind (random_bytes kKeystoreIdentityIdLength) (\<lambda>identity_id.
     sbind generate_master_secret (\<lambda>master_secret.
     build_and_write kc env path passphrase alias (ks_now env) identity_id 0 master_secret False))"

definition unlock ::
  "key_crypto \<Rightarrow> read_calls \<Rightarrow> string \<Rightarrow> string \<Rightarrow> files \<Rightarrow> IdentityKeystore result" where
  "unlock = load_keystore"

definition display_public_identity :: "read_calls \<Rightarrow> string \<Rightarrow> files \<Rightarrow> PublicIdentity result" where
  "display_public_identity calls path fs =
     rbind (keystore_read_file calls path fs) (\<lambda>raw.
     rbind (keystore_decode_file raw) (\<lambda>d.
     Inr \<lparr>public_id = file_identity_id d, public_alias = file_alias d, public_created_at = file_created_at d,
       public_key_bytes = file_public_key d, public_generation = 0\<rparr>))"

definition load_action ::
  "key_crypto \<Rightarrow> keystore_env \<Rightarrow> string \<Rightarrow> string \<Rightarrow> (machine, IdentityKeystore) action" where
  "load_action kc env path passphrase s = (load_keystore kc (ks_reads env) path passphrase (volume s), s)"

definition change_passphrase ::
  "key_crypto \<Rightarrow> keystore_env \<Rightarrow> string \<Rightarrow> string \<Rightarrow> string \<Rightarrow> (machine, unit) action" where
  "change_passphrase kc env path old_passphrase new_passphrase =
     sbind (load_action kc env path old_passphrase) (\<lambda>existing.
     case ks_secret existing of
       None \<Rightarrow> sthrow (Logic_error ''internal error: freshly loaded keystore was not unlocked'')
     | Some secret \<Rightarrow>
         sbind (build_and_write kc env path new_passphrase (ks_alias existing) (ks_created_at existing)
           (ks_identity_id existing) (ks_generation existing) secret True) (\<lambda>_. sreturn ()))"

definition export_encrypted_backup ::
  "key_crypto \<Rightarrow> keystore_env \<Rightarrow> string \<Rightarrow> string \<Rightarrow> string \<Rightarrow> (machine, unit) action" where
  "export_encrypted_backup kc env src_path dest_path passphrase =
     sbind (load_action kc env src_path passphrase) (\<lambda>_.
     sbind (\<lambda>s. (keystore_read_file (ks_reads env) src_path (volume s), s)) (\<lambda>raw.
     on_volume (write_new_exclusive (ks_calls env) dest_path raw)))"

definition import_encrypted_backup ::
  "key_crypto \<Rightarrow> keystore_env \<Rightarrow> string \<Rightarrow> string \<Rightarrow> string \<Rightarrow> (machine, unit) action" where
  "import_encrypted_backup kc env src_path dest_path passphrase =
     sbind (load_action kc env src_path passphrase) (\<lambda>_.
     sbind (\<lambda>s. (keystore_read_file (ks_reads env) src_path (volume s), s)) (\<lambda>raw.
     on_volume (write_new_exclusive (ks_calls env) dest_path raw)))"

text \<open>
  Destruction overwrites the file in place, first with zeros and then with random bytes; each pass may
  stop after some bytes.
\<close>

record shred_calls =
  stat_ok :: bool
  shred_open_ok :: bool
  seek_zero_ok :: bool
  zero_stopped :: "nat option"
  seek_random_ok :: bool
  random_stopped :: "nat option"
  unlink_ok :: bool

definition overwrite :: "nat option \<Rightarrow> string \<Rightarrow> bytes \<Rightarrow> (files, unit) action" where
  "overwrite stopped path bs =
     (case stopped of
        None \<Rightarrow> smodify (\<lambda>fs. fs(path \<mapsto> bs @ drop (length bs) (the (fs path))))
      | Some n \<Rightarrow> sbind (smodify (\<lambda>fs. fs(path \<mapsto> take n bs @ drop (length (take n bs)) (the (fs path))))) (\<lambda>_.
          sthrow (errno ''failed to write keystore file contents'')))"

definition destroy_file :: "shred_calls \<Rightarrow> string \<Rightarrow> (machine, unit) action" where
  "destroy_file calls path =
     sbind (sget (\<lambda>s. volume s path)) (\<lambda>old.
     case old of
       None \<Rightarrow> sthrow (Runtime_error (''cannot stat keystore file for destruction: '' @ path))
     | Some data \<Rightarrow>
         sbind (slift (throw_if (\<not> stat_ok calls)
           (Runtime_error (''cannot stat keystore file for destruction: '' @ path)))) (\<lambda>_.
         sbind (slift (throw_if (\<not> shred_open_ok calls)
           (errno (''cannot open keystore file for destruction: '' @ path)))) (\<lambda>_.
         sbind (slift (throw_if (\<not> seek_zero_ok calls) (errno ''failed to seek during keystore destruction''))) (\<lambda>_.
         sbind (on_volume (overwrite (zero_stopped calls) path (replicate (length data) 0))) (\<lambda>_.
         sbind (random_bytes (length data)) (\<lambda>random_pass.
         sbind (slift (throw_if (\<not> seek_random_ok calls) (errno ''failed to seek during keystore destruction''))) (\<lambda>_.
         sbind (on_volume (overwrite (random_stopped calls) path random_pass)) (\<lambda>_.
         if unlink_ok calls then on_volume (smodify (unlink path))
         else sthrow (errno (''failed to remove keystore file after overwriting it: '' @ path))))))))))"

definition lock :: "IdentityKeystore \<Rightarrow> IdentityKeystore" where
  "lock ks = ks\<lparr>ks_secret := None\<rparr>"

definition destroy :: "shred_calls \<Rightarrow> IdentityKeystore \<Rightarrow> (machine, IdentityKeystore) action" where
  "destroy calls ks =
     sbind (destroy_file calls (ks_path ks)) (\<lambda>_. sreturn ((lock ks)\<lparr>ks_path := []\<rparr>))"

definition rotate_service_scoped_key ::
  "key_crypto \<Rightarrow> keystore_env \<Rightarrow> string \<Rightarrow> IdentityKeystore \<Rightarrow> (machine, IdentityKeystore) action" where
  "rotate_service_scoped_key kc env passphrase ks =
     (case ks_secret ks of
        None \<Rightarrow> sthrow (Logic_error ''cannot rotate a service-scoped key on a locked keystore'')
      | Some secret \<Rightarrow>
          sbind (load_action kc env (ks_path ks) passphrase) (\<lambda>_.
          let new_generation = ks_generation ks + 1 in
          build_and_write kc env (ks_path ks) passphrase (ks_alias ks) (ks_created_at ks) (ks_identity_id ks)
            new_generation secret True))"

definition scoped_identifier :: "u32 \<Rightarrow> string \<Rightarrow> string" where
  "scoped_identifier key_generation identifier = to_string (unat key_generation) @ ''#'' @ identifier"

definition derive_scoped_keypair :: "key_crypto \<Rightarrow> string \<Rightarrow> string \<Rightarrow> IdentityKeystore \<Rightarrow> KeyPair result" where
  "derive_scoped_keypair kc label identifier ks =
     (case ks_secret ks of
        None \<Rightarrow> Inl (Logic_error ''cannot derive a scoped keypair from a locked keystore'')
      | Some secret \<Rightarrow> derive_ed25519_keypair kc secret label (scoped_identifier (ks_generation ks) identifier))"

definition public_identity :: "IdentityKeystore \<Rightarrow> PublicIdentity" where
  "public_identity ks = \<lparr>public_id = ks_identity_id ks, public_alias = ks_alias ks,
     public_created_at = ks_created_at ks, public_key_bytes = ks_public_key ks, public_generation = ks_generation ks\<rparr>"

definition master_secret :: "IdentityKeystore \<Rightarrow> bytes result" where
  "master_secret ks = (case ks_secret ks of None \<Rightarrow> Inl (Logic_error ''keystore is locked'') | Some secret \<Rightarrow> Inr secret)"

definition identity_public_key_mldsa65 :: "key_crypto \<Rightarrow> IdentityKeystore \<Rightarrow> bytes result" where
  "identity_public_key_mldsa65 kc ks =
     rbind (master_secret ks) (\<lambda>secret.
     rbind (derive_mldsa65_keypair kc secret kKeystoreIdentityMlDsa65 []) (\<lambda>pair. Inr (pair_public pair)))"

end
