(* ===== verification/Keystore_Safety.thy ===== *)
theory Keystore_Safety
  imports Keystore
begin

text \<open>
  What the keystore promises: a file that was written unlocks to the handle it was written from, an
  operation that throws leaves the file it would have replaced as it was, backups are copies that unlock
  to the same identity and never replace a file, and the inputs of the scoped key derivation determine
  label, generation and service.
\<close>

section \<open>The layout of a keystore file\<close>

definition put_header ::
  "bytes \<Rightarrow> string \<Rightarrow> u64 \<Rightarrow> KdfAlgorithm \<Rightarrow> bytes \<Rightarrow> u32 \<Rightarrow> u32 \<Rightarrow> u32 \<Rightarrow> bytes \<Rightarrow> bytes" where
  "put_header i alias created_at kdf salt memcost_kib iterations lanes public =
     kKeystoreMagic @ put_u16 1 @ i @ put_string alias @ put_u64 created_at @ put_u8 (byte_of_kdf kdf) @
     put_bytes salt @ put_u32 memcost_kib @ put_u32 iterations @ put_u32 lanes @ put_u8 1 @ public"

lemma keystore_header_ok:
  "keystore_header i alias created_at kdf salt memcost_kib iterations lanes public = Inr aad \<longleftrightarrow>
     length alias \<le> 65535 \<and> length salt \<le> 65535 \<and>
     aad = put_header i alias created_at kdf salt memcost_kib iterations lanes public"
  by (auto simp: keystore_header_def put_header_def wire_simps exn_simps)

lemma keystore_bytes_u32_ok [wire_simps]:
  "keystore_bytes_u32 v w = Inr w' \<longleftrightarrow> length v < 2 ^ 32 \<and> w' = w @ put_bytes_u32 v"
  by (auto simp: keystore_bytes_u32_def put_bytes_u32_def writer_u32_def)

lemma kdf_of_byte_of_kdf [simp]: "kdf_of_byte (byte_of_kdf kdf) = kdf"
  by (cases kdf) (simp_all add: kdf_of_byte_def)

lemma byte_of_kdf_known [simp]: "\<not> (byte_of_kdf kdf \<noteq> 1 \<and> byte_of_kdf kdf \<noteq> 2)"
  by (cases kdf) simp_all

lemma keystore_decode_put:
  assumes "length i = 16" "length alias \<le> 255" "length salt \<le> 256" "length public = 32" "length nonce = 12"
    "length ciphertext \<le> 4096" "length tag = 16"
  shows "keystore_decode_file (put_header i alias created_at kdf salt memcost_kib iterations lanes public @
       nonce @ put_bytes_u32 ciphertext @ tag) =
     Inr \<lparr>file_version = 1, file_identity_id = i, file_alias = alias, file_created_at = created_at,
       file_kdf = kdf, file_salt = salt, file_memcost = memcost_kib, file_iterations = iterations,
       file_lanes = lanes, file_public_key = public, file_nonce = nonce, file_ciphertext = ciphertext,
       file_tag = tag, file_aad = put_header i alias created_at kdf salt memcost_kib iterations lanes public\<rparr>"
proof -
  have "length kKeystoreMagic = 4"
    by (simp add: kKeystoreMagic_def)
  with assms show ?thesis
    by (simp add: keystore_decode_file_def put_header_def wire_run blob32.get_put)
qed

lemma keystore_payload_ok:
  "keystore_encode_payload secret key_generation = Inr bs \<longleftrightarrow> bs = put_u8 1 @ secret @ put_u32 key_generation"
  by (auto simp: keystore_encode_payload_def wire_simps)

lemma keystore_decode_payload_put:
  "length secret = 32 \<Longrightarrow> keystore_decode_payload (put_u8 1 @ secret @ put_u32 key_generation) = Inr (secret, key_generation)"
  by (simp add: keystore_decode_payload_def wire_run)

text \<open>Every loaded handle is unlocked and has fields of the right sizes.\<close>

definition wf_keystore :: "IdentityKeystore \<Rightarrow> bool" where
  "wf_keystore ks \<longleftrightarrow> length (ks_identity_id ks) = 16 \<and> length (ks_alias ks) \<le> 255 \<and>
     (\<exists>secret. ks_secret ks = Some secret \<and> length secret = 32)"

lemma keystore_decode_sizes:
  "keystore_decode_file bs = Inr d \<Longrightarrow> length (file_identity_id d) = 16 \<and> length (file_alias d) \<le> 255"
  by (clarsimp simp: keystore_decode_file_def wire_simps exn_simps)

lemma keystore_decode_payload_size: "keystore_decode_payload bs = Inr (secret, g) \<Longrightarrow> length secret = 32"
  by (clarsimp simp: keystore_decode_payload_def wire_simps exn_simps)

lemma load_wf: "load_keystore kc calls path passphrase fs = Inr ks \<Longrightarrow> wf_keystore ks"
  by (auto simp: load_keystore_def wf_keystore_def exn_simps dest!: keystore_decode_sizes keystore_decode_payload_size)

section \<open>Writing a keystore\<close>

text \<open>\<open>build_and_write\<close> in two parts: making the handle and the bytes, and the one write.\<close>

definition seal_keystore ::
  "key_crypto \<Rightarrow> keystore_env \<Rightarrow> string \<Rightarrow> string \<Rightarrow> string \<Rightarrow> u64 \<Rightarrow> bytes \<Rightarrow> u32 \<Rightarrow> bytes \<Rightarrow>
     (machine, IdentityKeystore \<times> bytes) action" where
  "seal_keystore kc env path passphrase alias created_at i g secret =
     sbind (slift (throw_if (length alias > 255) (Invalid_argument ''alias exceeds maximum length''))) (\<lambda>_.
     let kdf = choose_kdf_algorithm (argon2id_fetch env) in
     sbind (random_bytes 16) (\<lambda>salt.
     let memcost_kib = (if kdf = kArgon2id then 65536 else 0);
         iterations = (if kdf = kArgon2id then 3 else 600000);
         lanes = (if kdf = kArgon2id then 4 else 0) in
     sbind (slift (derive_aead_key kc kdf passphrase salt memcost_kib iterations lanes)) (\<lambda>key.
     sbind (slift (derive_ed25519_keypair kc secret kKeystoreIdentity [])) (\<lambda>pair.
     sbind (slift (keystore_encode_payload secret g)) (\<lambda>plain.
     sbind (random_bytes 12) (\<lambda>nonce.
     sbind (slift (keystore_header i alias created_at kdf salt memcost_kib iterations lanes (pair_public pair))) (\<lambda>aad.
     sbind (slift (evp_seal kc key nonce aad plain)) (\<lambda>(ciphertext, tag).
     sbind (slift (steps [writer_fixed_id aad, writer_fixed_id nonce, keystore_bytes_u32 ciphertext,
       writer_fixed_id tag] [])) (\<lambda>bs.
     sreturn (\<lparr>ks_path = path, ks_version = 1, ks_identity_id = i, ks_alias = alias,
       ks_created_at = created_at, ks_public_key = pair_public pair, ks_generation = g,
       ks_kdf = kdf, ks_salt = salt, ks_memcost = memcost_kib, ks_iterations = iterations, ks_lanes = lanes,
       ks_secret = Some secret\<rparr>, bs))))))))))"

lemma build_and_write_split:
  "build_and_write kc env path passphrase alias created_at i g secret allow_overwrite =
     sbind (seal_keystore kc env path passphrase alias created_at i g secret) (\<lambda>(ks, bs).
     sbind (on_volume (if allow_overwrite then keystore_replace_atomic (ks_calls env) path bs
                       else write_new_exclusive (ks_calls env) path bs)) (\<lambda>_. sreturn ks))"
  unfolding build_and_write_def seal_keystore_def
  by (simp only: sbind_assoc Let_def case_prod_unfold prod.sel sbind_simps cong: if_cong)

lemma keeps_volume_random: "keeps (\<lambda>s. volume s = v) (random_bytes n)"
  by (simp add: keeps_def random_bytes_volume)

lemma keeps_volume_seal: "keeps (\<lambda>s. volume s = v) (seal_keystore kc env path passphrase alias created_at i g secret)"
  unfolding seal_keystore_def Let_def
  by (intro keeps_intros keeps_prod keeps_volume_random)

lemma seal_keystore_loads:
  assumes "seal_keystore kc env path passphrase alias created_at i g secret s = (Inr (ks, bs), s')"
    and "aead_opens kc" and "length i = 16" and "length secret = 32"
    and "fs path' = Some bs" and "read_open_ok calls" "read_size_ok calls" "read_full_ok calls"
  shows "load_keystore kc calls path' passphrase fs = Inr (ks\<lparr>ks_path := path'\<rparr>)"
proof -
  let ?kdf = "choose_kdf_algorithm (argon2id_fetch env)"
  let ?m = "if ?kdf = kArgon2id then 65536 else 0" and ?n = "if ?kdf = kArgon2id then 3 else 600000"
    and ?l = "if ?kdf = kArgon2id then 4 else 0"
  obtain salt key pair nonce ciphertext tag s1 s2 s3 where
      short: "length alias \<le> 255" and salt: "random_bytes 16 s1 = (Inr salt, s2)"
      and key: "derive_aead_key kc ?kdf passphrase salt ?m ?n ?l = Inr key"
      and pair: "derive_ed25519_keypair kc secret kKeystoreIdentity [] = Inr pair"
      and nonce: "random_bytes 12 s2 = (Inr nonce, s3)"
      and sealed: "evp_seal kc key nonce (put_header i alias created_at ?kdf salt ?m ?n ?l (pair_public pair))
          (put_u8 1 @ secret @ put_u32 g) = Inr (ciphertext, tag)"
      and bs: "bs = put_header i alias created_at ?kdf salt ?m ?n ?l (pair_public pair) @ nonce @
          put_bytes_u32 ciphertext @ tag"
      and ks: "ks = \<lparr>ks_path = path, ks_version = 1, ks_identity_id = i, ks_alias = alias,
       ks_created_at = created_at, ks_public_key = pair_public pair, ks_generation = g,
       ks_kdf = ?kdf, ks_salt = salt, ks_memcost = ?m, ks_iterations = ?n, ks_lanes = ?l, ks_secret = Some secret\<rparr>"
    using assms(1)
    by (auto simp: seal_keystore_def Let_def returns_simps exn_simps wire_simps keystore_header_ok
        keystore_payload_ok simp del: sbind_simps sbind_slift)
  have lengths: "length salt = 16" "length nonce = 12" "length (pair_public pair) = 32"
    using random_bytes_returns [OF salt] random_bytes_returns [OF nonce] derive_ed25519_public_length [OF pair]
    by simp_all
  have opened: "evp_open kc key nonce (put_header i alias created_at ?kdf salt ?m ?n ?l (pair_public pair)) ciphertext tag =
      Inr (Some (put_u8 1 @ secret @ put_u32 g))" "length ciphertext = 37" "length tag = 16"
    using assms(2,4) sealed by (auto simp: aead_opens_def)
  have "keystore_decode_file bs = Inr \<lparr>file_version = 1, file_identity_id = i, file_alias = alias,
       file_created_at = created_at, file_kdf = ?kdf, file_salt = salt, file_memcost = ?m, file_iterations = ?n,
       file_lanes = ?l, file_public_key = pair_public pair, file_nonce = nonce, file_ciphertext = ciphertext,
       file_tag = tag, file_aad = put_header i alias created_at ?kdf salt ?m ?n ?l (pair_public pair)\<rparr>"
    unfolding bs using assms(3) short lengths opened by (intro keystore_decode_put) simp_all
  then show ?thesis
    using assms(4-8) key pair opened(1)
    by (simp add: load_keystore_def keystore_read_file_def keystore_open_def keystore_decode_payload_put ks)
qed

lemma seal_keystore_handle:
  "seal_keystore kc env path passphrase alias created_at i g secret s = (Inr (ks, bs), s') \<Longrightarrow>
     ks_path ks = path \<and> ks_identity_id ks = i \<and> ks_alias ks = alias \<and> ks_created_at ks = created_at \<and>
     ks_generation ks = g \<and> ks_secret ks = Some secret \<and>
     (\<exists>pair. derive_ed25519_keypair kc secret kKeystoreIdentity [] = Inr pair \<and> ks_public_key ks = pair_public pair)"
  by (auto simp: seal_keystore_def Let_def returns_simps exn_simps simp del: sbind_simps sbind_slift)

section \<open>Outcomes of a write\<close>

lemma write_new_exclusive_outcome:
  "write_new_exclusive calls path bs fs = (r, fs') \<Longrightarrow>
     (case r of Inr _ \<Rightarrow> fs path = None \<and> fs' = fs(path \<mapsto> bs) | Inl _ \<Rightarrow> fs' = fs)"
  by (cases "open_ok calls"; cases "fs path"; cases "write_ok calls"; cases "close_ok calls")
     (auto simp: write_new_exclusive_def sbind_def action_defs unlink_def fun_upd_idem)

lemma write_new_exclusive_exists:
  "open_ok calls \<Longrightarrow> fs path \<noteq> None \<Longrightarrow> write_new_exclusive calls path bs fs =
     (Inl (KeystoreAlreadyExistsError (''refusing to overwrite existing file: '' @ path)), fs)"
  by (simp add: write_new_exclusive_def sbind_def action_defs)

lemma on_volume_run: "m (volume s) = (r, fs) \<Longrightarrow> on_volume m s = (r, s\<lparr>volume := fs\<rparr>)"
  by (simp add: on_volume_def)

lemma on_volume_returns:
  "on_volume m s = (Inr x, s') \<longleftrightarrow> (\<exists>fs. m (volume s) = (Inr x, fs) \<and> s' = s\<lparr>volume := fs\<rparr>)"
  by (auto simp: on_volume_def split: prod.splits)

lemma seal_keystore_volume:
  "seal_keystore kc env path passphrase alias created_at i g secret s = (r, s') \<Longrightarrow> volume s' = volume s"
  using keeps_result [OF keeps_volume_seal] by blast

lemma build_and_write_cases:
  assumes "build_and_write kc env path passphrase alias created_at i g secret allow_overwrite s = (r, s')"
  obtains (written) ks bs s1 where "r = Inr ks"
      and "seal_keystore kc env path passphrase alias created_at i g secret s = (Inr (ks, bs), s1)"
      and "volume s' path = Some bs" and "\<not> allow_overwrite \<Longrightarrow> volume s path = None"
      and "\<forall>p. p \<noteq> path \<longrightarrow> p \<noteq> path @ ''.tmp'' \<longrightarrow> volume s' p = volume s p"
    | (failed) e where "r = Inl e" and "volume s' path = volume s path"
      and "\<forall>p. p \<noteq> path \<longrightarrow> p \<noteq> path @ ''.tmp'' \<longrightarrow> volume s' p = volume s p"
proof -
  obtain r1 s1 where sealed: "seal_keystore kc env path passphrase alias created_at i g secret s = (r1, s1)"
    by (rule prod.exhaust)
  note same = seal_keystore_volume [OF sealed]
  show ?thesis
  proof (cases r1)
    case (Inl e)
    then show ?thesis
      using assms sealed same by (intro failed) (auto simp: build_and_write_split sbind_def)
  next
    case (Inr pair)
    obtain ks bs where pair: "pair = (ks, bs)"
      by (rule prod.exhaust)
    let ?w = "if allow_overwrite then keystore_replace_atomic (ks_calls env) path bs
        else write_new_exclusive (ks_calls env) path bs"
    obtain r2 fs where w: "?w (volume s1) = (r2, fs)"
      by (rule prod.exhaust)
    have res: "r = (case r2 of Inl e \<Rightarrow> Inl e | Inr _ \<Rightarrow> Inr ks)" "s' = s1\<lparr>volume := fs\<rparr>"
      using assms sealed on_volume_run [of ?w, OF w] Inr pair
      by (auto simp: build_and_write_split sbind_def action_defs split: sum.splits)
    have out: "fs path = (case r2 of Inr _ \<Rightarrow> Some bs | Inl _ \<Rightarrow> volume s1 path)"
        "\<forall>p. p \<noteq> path \<longrightarrow> p \<noteq> path @ ''.tmp'' \<longrightarrow> fs p = volume s1 p"
        "\<not> allow_overwrite \<Longrightarrow> \<forall>u. r2 = Inr u \<longrightarrow> volume s1 path = None"
      using w keystore_writer.outcome [of "ks_calls env" path bs "volume s1" r2 fs]
        write_new_exclusive_outcome [of "ks_calls env" path bs "volume s1" r2 fs]
      by (auto split: if_splits sum.splits)
    show ?thesis
    proof (cases r2)
      case (Inl e)
      then show ?thesis
        using failed res out same by simp
    next
      case (Inr u)
      then show ?thesis
        using written [of ks bs s1] res out same sealed \<open>r1 = Inr pair\<close> pair by simp
    qed
  qed
qed

text \<open>What a keystore is about, whatever its passphrase, salt and place.\<close>

definition identity_of :: "IdentityKeystore \<Rightarrow> bytes \<times> string \<times> u64 \<times> bytes" where
  "identity_of ks = (ks_identity_id ks, ks_alias ks, ks_created_at ks, ks_public_key ks)"

definition reads_ok :: "read_calls \<Rightarrow> bool" where
  "reads_ok calls \<longleftrightarrow> read_open_ok calls \<and> read_size_ok calls \<and> read_full_ok calls"

definition full_reads :: read_calls where
  "full_reads = \<lparr>read_open_ok = True, read_size_ok = True, read_full_ok = True\<rparr>"

lemma reads_ok_full [simp]: "reads_ok full_reads"
  by (simp add: reads_ok_def full_reads_def)

lemma load_public_key:
  "load_keystore kc calls path passphrase fs = Inr ks \<Longrightarrow> ks_secret ks = Some secret \<Longrightarrow>
     \<exists>pair. derive_ed25519_keypair kc secret kKeystoreIdentity [] = Inr pair \<and> ks_public_key ks = pair_public pair"
  by (auto simp: load_keystore_def exn_simps)

lemma load_copy:
  "reads_ok calls' \<Longrightarrow> fs' path' = fs path \<Longrightarrow> load_keystore kc calls path passphrase fs = Inr ks \<Longrightarrow>
     load_keystore kc calls' path' passphrase fs' = Inr (ks\<lparr>ks_path := path'\<rparr>)"
  by (auto simp: load_keystore_def keystore_read_file_def reads_ok_def exn_simps split: option.splits if_splits)

text \<open>A written keystore unlocks to the handle that was returned.\<close>

lemma build_and_write_loads:
  assumes "build_and_write kc env path passphrase alias created_at i g secret allow_overwrite s = (Inr ks, s')"
    and "aead_opens kc" and "length i = 16" and "length secret = 32" and "reads_ok calls"
  shows "load_keystore kc calls path passphrase (volume s') = Inr ks"
  using assms(1)
proof (cases rule: build_and_write_cases)
  case (written ks1 bs s1)
  then show ?thesis
    using seal_keystore_loads [OF written(2) assms(2-4), where fs = "volume s'" and path' = path and calls = calls] seal_keystore_handle [OF written(2)] assms(5)
    by (simp add: reads_ok_def)
qed simp

lemma build_and_write_handle:
  assumes "build_and_write kc env path passphrase alias created_at i g secret allow_overwrite s = (Inr ks, s')"
  shows "ks_path ks = path \<and> ks_identity_id ks = i \<and> ks_alias ks = alias \<and> ks_created_at ks = created_at \<and>
     ks_generation ks = g \<and> ks_secret ks = Some secret \<and>
     (\<exists>pair. derive_ed25519_keypair kc secret kKeystoreIdentity [] = Inr pair \<and> ks_public_key ks = pair_public pair)"
  using assms by (cases rule: build_and_write_cases) (auto dest: seal_keystore_handle)

section \<open>Nothing fails on a working host\<close>

definition crypto_works :: "key_crypto \<Rightarrow> bool" where
  "crypto_works kc \<longleftrightarrow> (\<forall>secret salt info n. \<exists>out. evp_hkdf kc secret salt info n = Inr out) \<and>
     (\<forall>seed. \<exists>public. evp_ed25519_public kc seed = Inr public \<and> length public = 32) \<and>
     (\<forall>p salt m n l. \<exists>key. evp_argon2id kc p salt m n l = Inr key) \<and>
     (\<forall>p salt n. \<exists>key. evp_pbkdf2 kc p salt n = Inr key) \<and>
     (\<forall>key nonce aad plain. \<exists>c tag. evp_seal kc key nonce aad plain = Inr (c, tag))"

definition host_works :: "keystore_env \<Rightarrow> bool" where
  "host_works env \<longleftrightarrow> reads_ok (ks_reads env) \<and> open_ok (ks_calls env) \<and> write_ok (ks_calls env) \<and>
     close_ok (ks_calls env) \<and> rename_ok (ks_calls env)"

definition entropy_works :: "machine \<Rightarrow> bool" where
  "entropy_works s \<longleftrightarrow> (\<forall>k. entropy s k \<noteq> None)"

lemma crypto_worksD:
  assumes "crypto_works kc"
  shows "\<exists>out. evp_hkdf kc secret salt' info n = Inr out"
    and "\<exists>public. evp_ed25519_public kc seed = Inr public \<and> length public = 32"
    and "\<exists>key. derive_aead_key kc kdf p salt memcost_kib iterations lanes = Inr key"
    and "\<exists>c tag. evp_seal kc key nonce aad plain = Inr (c, tag)"
  using assms unfolding crypto_works_def derive_aead_key_def by (blast, blast, cases kdf, auto)

lemma rand_bytes_works:
  "entropy_works s \<Longrightarrow> \<exists>bs. length bs = n \<and> rand_bytes e n s = (Inr bs, s\<lparr>drawn := drawn s + n\<rparr>)"
  by (auto simp: rand_bytes_def entropy_works_def Let_def) (metis option.distinct(1))

lemma random_bytes_works:
  "entropy_works s \<Longrightarrow> 0 < n \<Longrightarrow> n \<le> 2147483647 \<Longrightarrow>
     \<exists>bs. length bs = n \<and> random_bytes n s = (Inr bs, s\<lparr>drawn := drawn s + n\<rparr>)"
  using rand_bytes_works [of s n] by (simp add: random_bytes_def)

lemma derive_ed25519_works:
  "crypto_works kc \<Longrightarrow> length label \<le> 255 \<Longrightarrow> length identifier \<le> 65535 \<Longrightarrow>
     \<exists>pair. derive_ed25519_keypair kc secret label identifier = Inr pair"
proof -
  assume works: "crypto_works kc" and short: "length label \<le> 255" "length identifier \<le> 65535"
  obtain info where info: "encode_derivation_info label identifier = Inr info"
    using short by (simp add: encode_derivation_info_def)
  obtain out where "evp_hkdf kc secret None (if info = [] then None else Some info) 32 = Inr out"
    using crypto_worksD(1) [OF works] by blast
  with info have raw: "derive_scoped_key kc secret label identifier = Inr (take 32 out)"
    by (simp add: derive_scoped_key_def hkdf_sha256_def)
  obtain public where "evp_ed25519_public kc (take 32 out) = Inr public" "length public = 32"
    using crypto_worksD(2) [OF works] by blast
  with raw show ?thesis
    by (simp add: derive_ed25519_keypair_def keypair_of_seed_def)
qed

lemma seal_keystore_works:
  assumes "crypto_works kc" and "aead_opens kc" and "entropy_works s" and "length alias \<le> 255" and "length secret = 32"
  obtains ks bs n where "seal_keystore kc env path passphrase alias created_at i g secret s =
    (Inr (ks, bs), s\<lparr>drawn := n\<rparr>)"
proof -
  let ?kdf = "choose_kdf_algorithm (argon2id_fetch env)"
  let ?m = "if ?kdf = kArgon2id then 65536 else 0" and ?n = "if ?kdf = kArgon2id then 3 else 600000"
    and ?l = "if ?kdf = kArgon2id then 4 else 0"
  obtain salt where salt: "length salt = 16" "random_bytes 16 s = (Inr salt, s\<lparr>drawn := drawn s + 16\<rparr>)"
    using random_bytes_works [OF assms(3), of 16] by auto
  obtain key where key: "derive_aead_key kc ?kdf passphrase salt ?m ?n ?l = Inr key"
    using crypto_worksD(3) [OF assms(1)] by blast
  obtain pair where pair: "derive_ed25519_keypair kc secret kKeystoreIdentity [] = Inr pair"
    using derive_ed25519_works [OF assms(1), of kKeystoreIdentity "[]" secret] by (auto simp: kKeystoreIdentity_def)
  have "entropy_works (s\<lparr>drawn := drawn s + 16\<rparr>)"
    using assms(3) by (simp add: entropy_works_def)
  then obtain nonce where nonce: "random_bytes 12 (s\<lparr>drawn := drawn s + 16\<rparr>) = (Inr nonce, s\<lparr>drawn := drawn s + 28\<rparr>)"
    using random_bytes_works [of "s\<lparr>drawn := drawn s + 16\<rparr>" 12] by auto
  obtain aad where aad: "keystore_header i alias created_at ?kdf salt ?m ?n ?l (pair_public pair) = Inr aad"
    using assms(4) salt(1) keystore_header_ok by fastforce
  obtain c tag where sealed: "evp_seal kc key nonce aad (put_u8 1 @ secret @ put_u32 g) = Inr (c, tag)"
    using crypto_worksD(4) [OF assms(1)] by blast
  then have "length c = 37"
    using assms(2,5) by (auto simp: aead_opens_def)
  then have "keystore_bytes_u32 c w = Inr (w @ put_bytes_u32 c)" for w
    by (simp add: keystore_bytes_u32_ok)
  then show ?thesis
    using that salt(2) key pair nonce aad sealed assms(4)
    by (simp add: seal_keystore_def sbind_def action_defs Let_def keystore_payload_ok [THEN iffD2, OF refl] writer_run)
qed

lemma write_new_exclusive_works:
  "open_ok calls \<Longrightarrow> write_ok calls \<Longrightarrow> close_ok calls \<Longrightarrow> fs path = None \<Longrightarrow>
     write_new_exclusive calls path bs fs = (Inr (), fs(path \<mapsto> bs))"
  by (simp add: write_new_exclusive_def sbind_def action_defs)

lemma build_and_write_works:
  assumes "crypto_works kc" and "aead_opens kc" and "host_works env" and "entropy_works s"
    and "length alias \<le> 255" and "length secret = 32" and "allow_overwrite \<or> volume s path = None"
  shows "\<exists>ks s'. build_and_write kc env path passphrase alias created_at i g secret allow_overwrite s = (Inr ks, s')"
proof -
  obtain ks bs n where sealed: "seal_keystore kc env path passphrase alias created_at i g secret s =
      (Inr (ks, bs), s\<lparr>drawn := n\<rparr>)"
    using seal_keystore_works [OF assms(1,2,4-6)] by metis
  let ?w = "if allow_overwrite then keystore_replace_atomic (ks_calls env) path bs
      else write_new_exclusive (ks_calls env) path bs"
  have "fst (?w (volume s)) = Inr ()"
    using assms(3,7) by (auto simp: host_works_def keystore_writer.succeeds write_new_exclusive_works)
  then obtain fs where "?w (volume s) = (Inr (), fs)"
    by (cases "?w (volume s)") simp
  then have "on_volume ?w (s\<lparr>drawn := n\<rparr>) = (Inr (), s\<lparr>drawn := n, volume := fs\<rparr>)"
    by (simp add: on_volume_def)
  then show ?thesis
    using sealed by (simp add: build_and_write_split sbind_def action_defs)
qed

section \<open>The operations\<close>

lemma create_keystore_split:
  assumes "create_keystore kc env path passphrase alias s = (r, s')"
  obtains (drawn) i secret s1 where "length i = 16" "length secret = 32" "volume s1 = volume s"
      and "build_and_write kc env path passphrase alias (ks_now env) i 0 secret False s1 = (r, s')"
    | (failed) e where "r = Inl e" "volume s' = volume s"
proof -
  obtain r1 s1 where first: "random_bytes 16 s = (r1, s1)"
    by (rule prod.exhaust)
  obtain r2 s2 where second: "generate_master_secret s1 = (r2, s2)"
    by (rule prod.exhaust)
  have vol: "volume s1 = volume s" "volume s2 = volume s1"
    using random_bytes_volume [of 16 s] generate_master_secret_volume [of s1] first second by simp_all
  show ?thesis
  proof (cases r1)
    case (Inl e)
    then show ?thesis
      using assms first vol by (intro failed) (auto simp: create_keystore_def sbind_def)
  next
    case i: (Inr i)
    show ?thesis
    proof (cases r2)
      case (Inl e)
      then show ?thesis
        using assms first second vol i by (intro failed) (auto simp: create_keystore_def sbind_def)
    next
      case (Inr secret)
      then show ?thesis
        using assms first second vol i random_bytes_returns [of 16 s i s1] generate_master_secret_returns [of s1 secret s2]
        by (intro drawn [of i secret s2]) (auto simp: create_keystore_def sbind_def)
    qed
  qed
qed

lemma created_keystore:
  assumes "create_keystore kc env path passphrase alias s = (Inr ks, s')" and "aead_opens kc" and "reads_ok calls"
  shows "volume s path = None \<and> load_keystore kc calls path passphrase (volume s') = Inr ks \<and>
    ks_path ks = path \<and> ks_alias ks = alias \<and> ks_created_at ks = ks_now env \<and> ks_generation ks = 0"
  using assms(1)
proof (cases rule: create_keystore_split)
  case (drawn i secret s1)
  have "volume s1 path = None"
    using drawn(4) by (cases rule: build_and_write_cases) auto
  then show ?thesis
    using drawn build_and_write_loads [OF drawn(4) assms(2) drawn(1,2) assms(3)] build_and_write_handle [OF drawn(4)]
    by simp
qed simp

text \<open>What is displayed without a passphrase is what the file unlocks to, but for the generation.\<close>

lemma display_of_load:
  "load_keystore kc calls path passphrase fs = Inr ks \<Longrightarrow>
     display_public_identity calls path fs = Inr ((public_identity ks)\<lparr>public_generation := 0\<rparr>)"
  by (auto simp: load_keystore_def display_public_identity_def public_identity_def exn_simps)

lemma change_passphrase_split:
  assumes "load_keystore kc (ks_reads env) path old (volume s) = Inr ks"
    and "change_passphrase kc env path old new s = (r, s')"
  obtains secret r1 where "ks_secret ks = Some secret" and "length secret = 32" and "length (ks_identity_id ks) = 16"
    and "build_and_write kc env path new (ks_alias ks) (ks_created_at ks) (ks_identity_id ks) (ks_generation ks)
           secret True s = (r1, s')"
    and "r = (case r1 of Inl e \<Rightarrow> Inl e | Inr _ \<Rightarrow> Inr ())"
proof -
  obtain secret where secret: "ks_secret ks = Some secret" "length secret = 32" "length (ks_identity_id ks) = 16"
    using load_wf [OF assms(1)] by (auto simp: wf_keystore_def)
  obtain r1 s1 where b: "build_and_write kc env path new (ks_alias ks) (ks_created_at ks) (ks_identity_id ks)
      (ks_generation ks) secret True s = (r1, s1)"
    by (rule prod.exhaust)
  have "s1 = s'" "r = (case r1 of Inl e \<Rightarrow> Inl e | Inr _ \<Rightarrow> Inr ())"
    using assms secret(1) b by (auto simp: change_passphrase_def load_action_def sbind_def action_defs split: sum.splits)
  with that secret b show ?thesis
    by simp
qed

text \<open>A handle whose cached public key is the one its secret derives: what loading and writing return.\<close>

definition bound_handle :: "key_crypto \<Rightarrow> IdentityKeystore \<Rightarrow> bool" where
  "bound_handle kc ks \<longleftrightarrow> length (ks_identity_id ks) = 16 \<and>
     (\<exists>secret pair. ks_secret ks = Some secret \<and> length secret = 32 \<and>
        derive_ed25519_keypair kc secret kKeystoreIdentity [] = Inr pair \<and> ks_public_key ks = pair_public pair)"

lemma load_bound: "load_keystore kc calls path passphrase fs = Inr ks \<Longrightarrow> bound_handle kc ks"
  using load_wf load_public_key by (fastforce simp: wf_keystore_def bound_handle_def)

lemma rewritten_identity:
  assumes "bound_handle kc ks" and "ks_secret ks = Some secret"
    and "build_and_write kc env path' new (ks_alias ks) (ks_created_at ks) (ks_identity_id ks) g secret ow s = (Inr ks', s')"
  shows "identity_of ks' = identity_of ks \<and> bound_handle kc ks'"
  using build_and_write_handle [OF assms(3)] assms(1,2) by (auto simp: identity_of_def bound_handle_def)

lemma changed_passphrase:
  assumes "load_keystore kc (ks_reads env) path old (volume s) = Inr ks"
    and "change_passphrase kc env path old new s = (Inr (), s')" and "aead_opens kc" and "reads_ok calls"
  shows "\<exists>ks'. load_keystore kc calls path new (volume s') = Inr ks' \<and> identity_of ks' = identity_of ks \<and>
    ks_secret ks' = ks_secret ks \<and> ks_generation ks' = ks_generation ks"
  using assms(1,2)
proof (cases rule: change_passphrase_split)
  case (1 secret r1)
  then obtain ks' where "r1 = Inr ks'"
    by (cases r1) auto
  with 1(4) have b: "build_and_write kc env path new (ks_alias ks) (ks_created_at ks) (ks_identity_id ks)
      (ks_generation ks) secret True s = (Inr ks', s')"
    by simp
  show ?thesis
    using build_and_write_loads [OF b assms(3) 1(3,2) assms(4)] rewritten_identity [OF load_bound [OF assms(1)] 1(1) b]
      build_and_write_handle [OF b] 1(1)
    by fastforce
qed

lemma rotate_split:
  assumes "rotate_service_scoped_key kc env passphrase ks s = (r, s')"
  obtains (unverified) e where "r = Inl e" "s' = s"
    | (written) secret ks0 where "ks_secret ks = Some secret"
      and "load_keystore kc (ks_reads env) (ks_path ks) passphrase (volume s) = Inr ks0"
      and "build_and_write kc env (ks_path ks) passphrase (ks_alias ks) (ks_created_at ks) (ks_identity_id ks)
             (ks_generation ks + 1) secret True s = (r, s')"
proof (cases "ks_secret ks")
  case None
  then show ?thesis
    using assms by (intro unverified) (auto simp: rotate_service_scoped_key_def action_defs)
next
  case (Some secret)
  show ?thesis
  proof (cases "load_keystore kc (ks_reads env) (ks_path ks) passphrase (volume s)")
    case (Inl e)
    then show ?thesis
      using assms Some by (intro unverified [of e]) (simp_all add: rotate_service_scoped_key_def load_action_def sbind_def)
  next
    case (Inr ks0)
    then show ?thesis
      using assms Some by (intro written) (simp_all add: rotate_service_scoped_key_def load_action_def sbind_def Let_def)
  qed
qed

lemma rotated:
  assumes "rotate_service_scoped_key kc env passphrase ks s = (Inr ks', s')" and "bound_handle kc ks"
    and "aead_opens kc" and "reads_ok calls"
  shows "load_keystore kc calls (ks_path ks) passphrase (volume s') = Inr ks' \<and> identity_of ks' = identity_of ks \<and>
    ks_path ks' = ks_path ks \<and> ks_secret ks' = ks_secret ks \<and> ks_generation ks' = ks_generation ks + 1 \<and>
    bound_handle kc ks'"
  using assms(1)
proof (cases rule: rotate_split)
  case (written secret ks0)
  have "length secret = 32" "length (ks_identity_id ks) = 16"
    using assms(2) written(1) by (auto simp: bound_handle_def)
  then show ?thesis
    using build_and_write_loads [OF written(3) assms(3) _ _ assms(4)] build_and_write_handle [OF written(3)]
      rewritten_identity [OF assms(2) written(1) written(3)] written(1)
    by simp
qed simp

text \<open>A rewrite that throws, or one of another file, leaves a file as it was.\<close>

lemma build_and_write_spares:
  assumes "build_and_write kc env q passphrase alias created_at i g secret ow s = (r, s')"
    and "\<And>h. r = Inr h \<Longrightarrow> q \<noteq> path" and "path \<noteq> q @ ''.tmp''"
  shows "volume s' path = volume s path"
  using assms(1)
proof (cases rule: build_and_write_cases)
  case (written ks bs s1)
  then show ?thesis
    using assms(2) [OF written(1)] assms(3) by (metis (no_types))
next
  case (failed e)
  then show ?thesis
    using assms(3) by (cases "path = q") simp_all
qed

lemma change_passphrase_spares:
  assumes "change_passphrase kc env q old new s = (r, s')" and "r = Inr () \<Longrightarrow> q \<noteq> path" and "path \<noteq> q @ ''.tmp''"
  shows "volume s' path = volume s path"
proof (cases "load_keystore kc (ks_reads env) q old (volume s)")
  case (Inl e)
  then show ?thesis
    using assms(1) by (simp add: change_passphrase_def load_action_def sbind_def)
next
  case (Inr ks)
  from Inr assms(1) show ?thesis
  proof (cases rule: change_passphrase_split)
    case (1 secret r1)
    show ?thesis
      by (rule build_and_write_spares [OF 1(4) _ assms(3)]) (use 1(5) assms(2) in simp)
  qed
qed

lemma rotate_spares:
  assumes "rotate_service_scoped_key kc env passphrase ks s = (r, s')" and "\<And>h. r = Inr h \<Longrightarrow> ks_path ks \<noteq> path"
    and "path \<noteq> ks_path ks @ ''.tmp''"
  shows "volume s' path = volume s path"
  using assms(1)
proof (cases rule: rotate_split)
  case (written secret ks0)
  show ?thesis
    by (rule build_and_write_spares [OF written(3) assms(2,3)])
qed simp

text \<open>Creating a keystore and copying one only ever add a file.\<close>

lemma create_adds:
  assumes "create_keystore kc env q passphrase alias s = (r, s')" and "volume s path = Some bs"
  shows "volume s' path = Some bs"
  using assms(1)
proof (cases rule: create_keystore_split)
  case (drawn i secret s1)
  let ?w = "\<lambda>bs. write_new_exclusive (ks_calls env) q bs"
  obtain r1 s2 where sealed: "seal_keystore kc env q passphrase alias (ks_now env) i 0 secret s1 = (r1, s2)"
    by (rule prod.exhaust)
  have vol: "volume s2 = volume s"
    using seal_keystore_volume [OF sealed] drawn(3) by simp
  show ?thesis
  proof (cases r1)
    case (Inl e)
    then show ?thesis
      using drawn(4) sealed vol assms(2) by (auto simp: build_and_write_split sbind_def)
  next
    case (Inr pair)
    obtain r2 fs where w: "?w (snd pair) (volume s2) = (r2, fs)"
      by (rule prod.exhaust)
    have "volume s' = fs"
      using drawn(4) sealed Inr on_volume_run [of "?w (snd pair)", OF w]
      by (cases pair) (auto simp: build_and_write_split sbind_def action_defs split: sum.splits)
    then show ?thesis
      using write_new_exclusive_outcome [OF w] vol assms(2) by (auto split: sum.splits)
  qed
qed (simp add: assms(2))

lemma export_outcome:
  assumes "export_encrypted_backup kc env src dest passphrase s = (r, s')"
  shows "case r of Inr _ \<Rightarrow> volume s dest = None \<and> s' = s\<lparr>volume := (volume s)(dest := volume s src)\<rparr> \<and>
      (\<exists>ks. load_keystore kc (ks_reads env) src passphrase (volume s) = Inr ks) | Inl _ \<Rightarrow> s' = s"
proof (cases "load_keystore kc (ks_reads env) src passphrase (volume s)")
  case (Inl e)
  then show ?thesis
    using assms by (auto simp: export_encrypted_backup_def load_action_def sbind_def)
next
  case (Inr ks)
  then obtain raw where raw: "keystore_read_file (ks_reads env) src (volume s) = Inr raw"
    by (auto simp: load_keystore_def exn_simps)
  then have src: "volume s src = Some raw"
    by (auto simp: keystore_read_file_def split: option.splits if_splits)
  obtain r1 fs where w: "write_new_exclusive (ks_calls env) dest raw (volume s) = (r1, fs)"
    by (rule prod.exhaust)
  have "r = r1" "s' = s\<lparr>volume := fs\<rparr>"
    using assms Inr raw w by (auto simp: export_encrypted_backup_def load_action_def sbind_def on_volume_def)
  then show ?thesis
    using write_new_exclusive_outcome [OF w] Inr src by (auto split: sum.splits)
qed

lemma import_is_export: "import_encrypted_backup = export_encrypted_backup"
  by (intro ext) (simp add: import_encrypted_backup_def export_encrypted_backup_def)

text \<open>On a working host the operations return.\<close>

lemma create_works:
  assumes "crypto_works kc" and "aead_opens kc" and "host_works env" and "entropy_works s"
    and "length alias \<le> 255" and "volume s path = None"
  shows "\<exists>ks s'. create_keystore kc env path passphrase alias s = (Inr ks, s')"
proof -
  obtain i where i: "random_bytes 16 s = (Inr i, s\<lparr>drawn := drawn s + 16\<rparr>)"
    using random_bytes_works [OF assms(4), of 16] by auto
  have "entropy_works (s\<lparr>drawn := drawn s + 16\<rparr>)"
    using assms(4) by (simp add: entropy_works_def)
  then obtain secret where secret: "length secret = 32"
      "generate_master_secret (s\<lparr>drawn := drawn s + 16\<rparr>) = (Inr secret, s\<lparr>drawn := drawn s + 48\<rparr>)"
    using rand_bytes_works [of "s\<lparr>drawn := drawn s + 16\<rparr>" 32 "Runtime_error ''failed to generate master secret''"]
    by (auto simp: generate_master_secret_def add.commute)
  have "entropy_works (s\<lparr>drawn := drawn s + 48\<rparr>)"
    using assms(4) by (simp add: entropy_works_def)
  then show ?thesis
    using build_and_write_works [OF assms(1-3) _ assms(5) secret(1), of "s\<lparr>drawn := drawn s + 48\<rparr>" False path] i secret(2) assms(6)
    by (simp add: create_keystore_def sbind_def)
qed

lemma change_passphrase_works:
  assumes "crypto_works kc" and "aead_opens kc" and "host_works env" and "entropy_works s"
    and "load_keystore kc (ks_reads env) path old (volume s) = Inr ks"
  shows "\<exists>s'. change_passphrase kc env path old new s = (Inr (), s')"
proof -
  obtain secret where secret: "ks_secret ks = Some secret" "length secret = 32" "length (ks_alias ks) \<le> 255"
    using load_wf [OF assms(5)] by (auto simp: wf_keystore_def)
  obtain ks' s' where "build_and_write kc env path new (ks_alias ks) (ks_created_at ks) (ks_identity_id ks) (ks_generation ks)
      secret True s = (Inr ks', s')"
    using build_and_write_works [OF assms(1-4) secret(3,2), of True path] by blast
  then show ?thesis
    using secret(1) assms(5) by (simp add: change_passphrase_def load_action_def sbind_def action_defs)
qed

lemma rotate_works:
  assumes "crypto_works kc" and "aead_opens kc" and "host_works env" and "entropy_works s"
    and "wf_keystore ks" and "load_keystore kc (ks_reads env) (ks_path ks) passphrase (volume s) = Inr ks0"
  shows "\<exists>ks' s'. rotate_service_scoped_key kc env passphrase ks s = (Inr ks', s')"
proof -
  obtain secret where secret: "ks_secret ks = Some secret" "length secret = 32" "length (ks_alias ks) \<le> 255"
    using assms(5) by (auto simp: wf_keystore_def)
  then show ?thesis
    using build_and_write_works [OF assms(1-4) secret(3,2), of True "ks_path ks"] assms(6)
    by (simp add: rotate_service_scoped_key_def load_action_def sbind_def Let_def)
qed

lemma export_works:
  assumes "host_works env" and "load_keystore kc (ks_reads env) src passphrase (volume s) = Inr ks" and "volume s dest = None"
  shows "\<exists>s'. export_encrypted_backup kc env src dest passphrase s = (Inr (), s')"
proof -
  obtain raw where "keystore_read_file (ks_reads env) src (volume s) = Inr raw"
    using assms(2) by (auto simp: load_keystore_def exn_simps)
  then show ?thesis
    using assms write_new_exclusive_works [of "ks_calls env" "volume s" dest raw]
    by (simp add: export_encrypted_backup_def load_action_def sbind_def host_works_def on_volume_def)
qed

lemma rotated_handle:
  assumes "rotate_service_scoped_key kc env passphrase ks s = (Inr ks', s')"
  shows "ks_generation ks' = ks_generation ks + 1 \<and> ks_secret ks' = ks_secret ks"
  using assms
proof (cases rule: rotate_split)
  case (written secret ks0)
  then show ?thesis
    using build_and_write_handle [OF written(3)] by simp
qed simp

section \<open>The life of a keystore\<close>

text \<open>Whatever passphrase opens a file, the identity is that of its header.\<close>

lemma load_identity_unique:
  "load_keystore kc calls path p fs = Inr a \<Longrightarrow> load_keystore kc calls' path p' fs = Inr b \<Longrightarrow>
     identity_of a = identity_of b \<and> ks_path a = path"
  by (auto simp: load_keystore_def keystore_read_file_def identity_of_def exn_simps split: option.splits if_splits)

text \<open>
  \<open>keystore_use kc path I s p H\<close>: since the keystore \<open>I\<close> was created at \<open>path\<close>, the machine has come to \<open>s\<close> by
  operations of the module, on this or on other keystores and with whatever outcome; \<open>p\<close> is the passphrase
  that was set last and \<open>H\<close> are the handles that exist, stale ones included. Only the temporary file of
  another keystore must not be called \<open>path\<close>.
\<close>

inductive keystore_use ::
  "key_crypto \<Rightarrow> string \<Rightarrow> bytes \<times> string \<times> u64 \<times> bytes \<Rightarrow> machine \<Rightarrow> string \<Rightarrow> IdentityKeystore set \<Rightarrow> bool"
  for kc path identity where
  use_created: "create_keystore kc env path p alias s = (Inr ks, s') \<Longrightarrow> identity = identity_of ks \<Longrightarrow>
    keystore_use kc path identity s' p {ks}"
| use_unlocked: "keystore_use kc path identity s p H \<Longrightarrow> unlock kc calls path p' (volume s) = Inr h \<Longrightarrow>
    keystore_use kc path identity s p (insert h H)"
| use_locked: "keystore_use kc path identity s p H \<Longrightarrow> h \<in> H \<Longrightarrow> keystore_use kc path identity s p (insert (lock h) H)"
| use_changed: "keystore_use kc path identity s p H \<Longrightarrow> change_passphrase kc env q old new s = (r, s') \<Longrightarrow>
    path \<noteq> q @ ''.tmp'' \<Longrightarrow>
    keystore_use kc path identity s' (if q = path \<and> r = Inr () then new else p) H"
| use_rotated: "keystore_use kc path identity s p H \<Longrightarrow> h \<in> H \<Longrightarrow>
    rotate_service_scoped_key kc env p' h s = (r, s') \<Longrightarrow>
    keystore_use kc path identity s' (case r of Inr _ \<Rightarrow> p' | Inl _ \<Rightarrow> p)
      (case r of Inr h' \<Rightarrow> insert h' H | Inl _ \<Rightarrow> H)"
| use_rotated_other: "keystore_use kc path identity s p H \<Longrightarrow> ks_path h \<noteq> path \<Longrightarrow> path \<noteq> ks_path h @ ''.tmp'' \<Longrightarrow>
    rotate_service_scoped_key kc env p' h s = (r, s') \<Longrightarrow> keystore_use kc path identity s' p H"
| use_exported: "keystore_use kc path identity s p H \<Longrightarrow>
    export_encrypted_backup kc env src dest p' s = (r', s') \<Longrightarrow> keystore_use kc path identity s' p H"
| use_imported: "keystore_use kc path identity s p H \<Longrightarrow>
    import_encrypted_backup kc env src dest p' s = (r', s') \<Longrightarrow> keystore_use kc path identity s' p H"
| use_created_other: "keystore_use kc path identity s p H \<Longrightarrow>
    create_keystore kc env q p' alias s = (r, s') \<Longrightarrow> keystore_use kc path identity s' p H"
| use_destroyed_other: "keystore_use kc path identity s p H \<Longrightarrow> q \<noteq> path \<Longrightarrow>
    destroy_file calls q s = (r', s') \<Longrightarrow> keystore_use kc path identity s' p H"

definition holds_identity ::
  "key_crypto \<Rightarrow> string \<Rightarrow> bytes \<times> string \<times> u64 \<times> bytes \<Rightarrow> machine \<Rightarrow> string \<Rightarrow> IdentityKeystore set \<Rightarrow> bool" where
  "holds_identity kc path identity s p H \<longleftrightarrow>
     (\<forall>calls. reads_ok calls \<longrightarrow> (\<exists>ks. load_keystore kc calls path p (volume s) = Inr ks \<and> identity_of ks = identity)) \<and>
     (\<forall>h\<in>H. identity_of h = identity \<and> ks_path h = path \<and> (ks_secret h \<noteq> None \<longrightarrow> bound_handle kc h))"

lemma holds_identity_same_file:
  "holds_identity kc path identity s p H \<Longrightarrow> volume s' path = volume s path \<Longrightarrow> holds_identity kc path identity s' p H"
  unfolding holds_identity_def load_keystore_def keystore_read_file_def by simp

lemma holds_identity_loaded:
  "holds_identity kc path identity s p H \<Longrightarrow> load_keystore kc calls path p' (volume s) = Inr ks \<Longrightarrow>
     identity_of ks = identity \<and> ks_path ks = path"
  unfolding holds_identity_def using load_identity_unique [of kc calls path p' "volume s" ks full_reads p] reads_ok_full
  by metis

lemma holds_identity_file:
  assumes "holds_identity kc path identity s p H"
  obtains bs where "volume s path = Some bs"
proof -
  obtain ks where "load_keystore kc full_reads path p (volume s) = Inr ks"
    using assms reads_ok_full unfolding holds_identity_def by blast
  with that show ?thesis
    by (auto simp: load_keystore_def keystore_read_file_def exn_simps split: option.splits)
qed

lemma destroy_file_spares:
  assumes "destroy_file calls q s = (r, s')" and "q \<noteq> path"
  shows "volume s' path = volume s path"
proof -
  have "keeps (\<lambda>s. volume s path = v) (destroy_file calls q)" for v
    unfolding destroy_file_def on_volume_def overwrite_def
    by (intro keeps_intros keeps_option keeps_if)
       (use assms(2) in \<open>auto simp: keeps_def sbind_def action_defs unlink_def random_bytes_volume split: option.splits\<close>)
  then show ?thesis
    using keeps_result [of "\<lambda>s1. volume s1 path = volume s path" "destroy_file calls q" s r s'] assms(1) by simp
qed

lemma holds_identity_changed:
  assumes "holds_identity kc path identity s p H" and "change_passphrase kc env q old new s = (r, s')"
    and "path \<noteq> q @ ''.tmp''" and "aead_opens kc"
  shows "holds_identity kc path identity s' (if q = path \<and> r = Inr () then new else p) H"
proof (cases "q = path \<and> r = Inr ()")
  case True
  then obtain ks where l: "load_keystore kc (ks_reads env) path old (volume s) = Inr ks"
    using assms(2)
    by (cases "load_keystore kc (ks_reads env) path old (volume s)") (auto simp: change_passphrase_def load_action_def sbind_def)
  have c: "change_passphrase kc env path old new s = (Inr (), s')"
    using assms(2) True by simp
  have "reads_ok calls \<Longrightarrow> \<exists>ks. load_keystore kc calls path new (volume s') = Inr ks \<and> identity_of ks = identity" for calls
    using changed_passphrase [OF l c assms(4), of calls] holds_identity_loaded [OF assms(1) l] by auto
  then show ?thesis
    using assms(1) True by (simp add: holds_identity_def)
next
  case False
  then have "volume s' path = volume s path"
    by (intro change_passphrase_spares [OF assms(2) _ assms(3)]) simp
  then show ?thesis
    using holds_identity_same_file [OF assms(1)] False by (simp only: if_False)
qed

lemma holds_identity_rotated:
  assumes "holds_identity kc path identity s p H" and "h \<in> H"
    and "rotate_service_scoped_key kc env p' h s = (r, s')" and "aead_opens kc"
  shows "holds_identity kc path identity s' (case r of Inr _ \<Rightarrow> p' | Inl _ \<Rightarrow> p)
    (case r of Inr h' \<Rightarrow> insert h' H | Inl _ \<Rightarrow> H)"
proof -
  have h: "identity_of h = identity" "ks_path h = path" "ks_secret h \<noteq> None \<Longrightarrow> bound_handle kc h"
    using assms(1,2) by (auto simp: holds_identity_def)
  show ?thesis
  proof (cases r)
    case (Inl e)
    then show ?thesis
      using rotate_spares [OF assms(3), of path] h holds_identity_same_file [OF assms(1)] by simp
  next
    case (Inr h')
    have "ks_secret h \<noteq> None"
      using assms(3) Inr by (cases rule: rotate_split) simp_all
    note rot = rotated [OF assms(3) [unfolded Inr] h(3) [OF this] assms(4)]
    then show ?thesis
      using rot [OF reads_ok_full] h assms(1) Inr by (auto simp: holds_identity_def)
  qed
qed

lemma holds_identity_copied:
  assumes "holds_identity kc path identity s p H" and "export_encrypted_backup kc env src dest p' s = (r, s')"
  shows "holds_identity kc path identity s' p H"
proof -
  obtain bs where "volume s path = Some bs"
    by (rule holds_identity_file [OF assms(1)])
  then have "volume s' path = volume s path"
    using export_outcome [OF assms(2)] by (auto split: sum.splits)
  then show ?thesis
    by (rule holds_identity_same_file [OF assms(1)])
qed

lemma keystore_use_holds:
  assumes "keystore_use kc path identity s p H" and "aead_opens kc"
  shows "holds_identity kc path identity s p H"
  using assms(1)
proof (induction rule: keystore_use.induct)
  case (use_created env p nm s ks s')
  then show ?case
    using created_keystore [OF use_created(1) assms(2)] load_bound [where kc = kc and ks = ks] reads_ok_full
    unfolding holds_identity_def by (metis singletonD)
next
  case (use_unlocked s p H calls p' h)
  then show ?case
    using holds_identity_loaded [OF use_unlocked.IH, of calls p' h] load_bound [of kc calls path p' "volume s" h]
    by (auto simp: unlock_def holds_identity_def)
next
  case (use_locked s p H h)
  then show ?case
    by (auto simp: holds_identity_def lock_def identity_of_def)
next
  case (use_changed s p H env q old new r s')
  then show ?case
    using holds_identity_changed assms(2) by blast
next
  case (use_rotated s p H h env p' r s')
  then show ?case
    using holds_identity_rotated assms(2) by blast
next
  case (use_rotated_other s p H h env p' r s')
  then show ?case
    using holds_identity_same_file rotate_spares by metis
next
  case (use_exported s p H env src dest p' r' s')
  then show ?case
    using holds_identity_copied by blast
next
  case (use_imported s p H env src dest p' r' s')
  then show ?case
    using holds_identity_copied import_is_export by metis
next
  case (use_created_other s p H env q p' nm r s')
  obtain bs where "volume s path = Some bs"
    by (rule holds_identity_file [OF use_created_other.IH])
  then show ?case
    using create_adds [OF use_created_other(2)] holds_identity_same_file [OF use_created_other.IH] by metis
next
  case (use_destroyed_other s p H q calls r' s')
  then show ?case
    using holds_identity_same_file destroy_file_spares by metis
qed

section \<open>Scoped keys\<close>

lemma scoped_identifier_inj [simp]:
  "scoped_identifier g i = scoped_identifier g' i' \<longleftrightarrow> g = g' \<and> i = i'"
proof
  have no_hash: "CHR ''#'' \<notin> set (to_string n)" for n
    using to_string_digits [of n] by (auto simp: list_all_iff is_digit_def)
  assume "scoped_identifier g i = scoped_identifier g' i'"
  then have "cut_at (CHR ''#'') (scoped_identifier g i) = cut_at (CHR ''#'') (scoped_identifier g' i')"
    by simp
  then show "g = g' \<and> i = i'"
    using no_hash by (simp add: scoped_identifier_def word_unat_eq_iff)
qed simp

lemma scoped_identifier_starts: "scoped_identifier g i \<noteq> [] \<and> is_digit (hd (scoped_identifier g i))"
  using to_string_hd [of "unat g"] to_string_digits [of "unat g"] by (simp add: scoped_identifier_def)

lemma scoped_info_inj:
  "encode_derivation_info l (scoped_identifier g i) = Inr bs \<Longrightarrow>
     encode_derivation_info l' (scoped_identifier g' i') = Inr bs \<Longrightarrow> l = l' \<and> g = g' \<and> i = i'"
  using encode_derivation_info_inj by fastforce

section \<open>Destruction\<close>

lemma destroyed:
  assumes "destroy calls ks s = (Inr ks', s')"
  shows "volume s' (ks_path ks) = None \<and> ks_secret ks' = None \<and> ks_path ks' = []"
  using assms
  by (auto simp: destroy_def destroy_file_def lock_def on_volume_returns unlink_def returns_simps
      simp del: sbind_simps sbind_slift split: option.splits if_splits)

end
