(* ===== verification/History.thy ===== *)
theory History
  imports Keystore Validation
begin

text \<open>
  The local counterparty history of a client, \<open>src/src/history.cpp\<close>: what the user recorded about the
  parties met so far, kept in one file that is encrypted under a key derived from the keystore's master
  secret. The class \<open>LocalCounterpartyHistory\<close> is a record; its operations act on the pair of the object
  and the machine, since the change of the object stays when the write that follows throws.
\<close>

section \<open>Data\<close>

type_synonym CounterpartyFingerprint = bytes
type_synonym EvidenceHash = bytes

abbreviation (input) kHistoryFormatVersion :: u16 where "kHistoryFormatVersion \<equiv> 1"
abbreviation (input) kCounterpartyFingerprintLength :: nat where "kCounterpartyFingerprintLength \<equiv> 32"
abbreviation (input) kHistoryMaxMediatorIdLength :: nat where "kHistoryMaxMediatorIdLength \<equiv> 256"
abbreviation (input) kHistoryMaxNoteLength :: nat where "kHistoryMaxNoteLength \<equiv> 4096"
abbreviation (input) kHistoryMaxNotesPerEntry :: nat where "kHistoryMaxNotesPerEntry \<equiv> 256"
abbreviation (input) kHistoryMaxOutcomesPerEntry :: nat where "kHistoryMaxOutcomesPerEntry \<equiv> 4096"
abbreviation (input) kHistoryMaxEvidenceHashesPerEntry :: nat where "kHistoryMaxEvidenceHashesPerEntry \<equiv> 256"
abbreviation (input) kHistoryMaxEntries :: nat where "kHistoryMaxEntries \<equiv> 4096"
abbreviation (input) kHistoryMaxCiphertextLength :: nat where "kHistoryMaxCiphertextLength \<equiv> 64 * 1024 * 1024"

definition kHistoryMagic :: bytes where "kHistoryMagic = [0x54, 0x50, 0x43, 0x48]"
definition kAeadKeyIdentifier :: string where "kAeadKeyIdentifier = ''counterparty-history-store-v1''"

datatype FingerprintScope = PerMediator
datatype LocalOutcome = OutcomeUnknown | Successful | Incomplete
datatype ConfidenceLevel = ConfidenceUnknown | LowConfidence | MediumConfidence | HighConfidence
datatype DisplayCategory =
  UnknownIdentity | PreviouslyEncountered | PreviousSuccessfulInteraction | PreviousIncompleteInteraction |
  LocallyBlocked

fun byte_of_scope :: "FingerprintScope \<Rightarrow> u8" where
  "byte_of_scope PerMediator = 1"

fun byte_of_outcome :: "LocalOutcome \<Rightarrow> u8" where
  "byte_of_outcome OutcomeUnknown = 0"
| "byte_of_outcome Successful = 1"
| "byte_of_outcome Incomplete = 2"

definition outcome_of_byte :: "u8 \<Rightarrow> LocalOutcome" where
  "outcome_of_byte b = (if b = 0 then OutcomeUnknown else if b = 1 then Successful else Incomplete)"

fun byte_of_confidence :: "ConfidenceLevel \<Rightarrow> u8" where
  "byte_of_confidence ConfidenceUnknown = 0"
| "byte_of_confidence LowConfidence = 1"
| "byte_of_confidence MediumConfidence = 2"
| "byte_of_confidence HighConfidence = 3"

definition confidence_of_byte :: "u8 \<Rightarrow> ConfidenceLevel" where
  "confidence_of_byte b =
     (if b = 0 then ConfidenceUnknown else if b = 1 then LowConfidence
      else if b = 2 then MediumConfidence else HighConfidence)"

record HistoryNote =
  recorded_at :: u64
  note_text :: string

record CounterpartyHistoryEntry =
  fingerprint :: CounterpartyFingerprint
  fp_scope :: FingerprintScope
  met_at :: string
  first_seen :: u64
  last_seen :: u64
  encounter_count :: u64
  outcome_labels :: "LocalOutcome list"
  locally_blocked :: bool
  note_list :: "HistoryNote list"
  evidence_hashes :: "EvidenceHash list"
  confidence :: ConfidenceLevel

record LocalCounterpartyHistory =
  history_path :: string
  aead_key :: bytes
  records :: "CounterpartyHistoryEntry list"

section \<open>Reader, writer and codec\<close>

abbreviation (input) h_truncated :: exn where "h_truncated \<equiv> HistoryFormatError ''truncated history file''"
abbreviation (input) h_u8 :: "u8 parser" where "h_u8 \<equiv> get_u8 h_truncated"
abbreviation (input) h_u16 :: "u16 parser" where "h_u16 \<equiv> get_u16 h_truncated"
abbreviation (input) h_u32 :: "u32 parser" where "h_u32 \<equiv> get_u32 h_truncated"
abbreviation (input) h_u64 :: "u64 parser" where "h_u64 \<equiv> get_u64 h_truncated"
abbreviation (input) h_fixed :: "nat \<Rightarrow> bytes parser" where "h_fixed \<equiv> get_fixed h_truncated"
abbreviation (input) h_string_u16 :: "nat \<Rightarrow> string parser" where
  "h_string_u16 \<equiv> get_string h_truncated (HistoryFormatError ''history field exceeds maximum allowed length'')"
abbreviation (input) h_bytes_u32 :: "nat \<Rightarrow> bytes parser" where
  "h_bytes_u32 \<equiv> get_bytes32 h_truncated (HistoryFormatError ''history payload exceeds maximum allowed length'')"
abbreviation (input) h_require_finished :: "unit parser" where
  "h_require_finished \<equiv> require_finished (HistoryFormatError ''trailing bytes after history record'')"
abbreviation (input) h_write_u16 :: "string \<Rightarrow> nat \<Rightarrow> write_step" where
  "h_write_u16 \<equiv> writer_short_string (Invalid_argument ''history field exceeds protocol limit'')"

definition history_encode_entry :: "CounterpartyHistoryEntry \<Rightarrow> write_step" where
  "history_encode_entry e = steps
     [writer_fixed_id (fingerprint e),
      writer_u8 (byte_of_scope (fp_scope e)),
      h_write_u16 (met_at e) kHistoryMaxMediatorIdLength,
      writer_u64 (first_seen e), writer_u64 (last_seen e), writer_u64 (encounter_count e),
      check (throw_if (length (outcome_labels e) > 65535)
        (Invalid_argument ''history entry has too many outcome labels'')),
      writer_u16 (of_nat (length (outcome_labels e))),
      for_steps (\<lambda>outcome. [writer_u8 (byte_of_outcome outcome)]) (outcome_labels e),
      writer_u8 (if locally_blocked e then 1 else 0),
      check (throw_if (length (note_list e) > 65535) (Invalid_argument ''history entry has too many notes'')),
      writer_u16 (of_nat (length (note_list e))),
      for_steps (\<lambda>note. [writer_u64 (recorded_at note), h_write_u16 (note_text note) kHistoryMaxNoteLength])
        (note_list e),
      check (throw_if (length (evidence_hashes e) > 65535)
        (Invalid_argument ''history entry has too many evidence hashes'')),
      writer_u16 (of_nat (length (evidence_hashes e))),
      for_steps (\<lambda>hash. [writer_fixed_id hash]) (evidence_hashes e),
      writer_u8 (byte_of_confidence (confidence e))]"

definition read_outcome :: "LocalOutcome parser" where
  "read_outcome =
     pbind h_u8 (\<lambda>raw.
     pbind (plift (throw_if (raw > byte_of_outcome Incomplete)
       (HistoryFormatError ''unknown local outcome identifier''))) (\<lambda>_.
     preturn (outcome_of_byte raw)))"

definition read_note :: "HistoryNote parser" where
  "read_note =
     pbind h_u64 (\<lambda>at.
     pbind (h_string_u16 kHistoryMaxNoteLength) (\<lambda>text.
     preturn \<lparr>recorded_at = at, note_text = text\<rparr>))"

definition history_decode_entry :: "CounterpartyHistoryEntry parser" where
  "history_decode_entry =
     pbind (h_fixed kCounterpartyFingerprintLength) (\<lambda>fp.
     pbind h_u8 (\<lambda>scope_raw.
     pbind (plift (throw_if (scope_raw \<noteq> byte_of_scope PerMediator)
       (HistoryFormatError ''unknown fingerprint scope identifier''))) (\<lambda>_.
     pbind (h_string_u16 kHistoryMaxMediatorIdLength) (\<lambda>mediator.
     pbind h_u64 (\<lambda>first.
     pbind h_u64 (\<lambda>last.
     pbind h_u64 (\<lambda>count.
     pbind h_u16 (\<lambda>outcome_count.
     pbind (get_list (unat outcome_count) read_outcome) (\<lambda>outcomes.
     pbind h_u8 (\<lambda>blocked_raw.
     pbind (plift (throw_if (blocked_raw > 1) (HistoryFormatError ''invalid locally_blocked flag''))) (\<lambda>_.
     pbind h_u16 (\<lambda>note_count.
     pbind (get_list (unat note_count) read_note) (\<lambda>nts.
     pbind h_u16 (\<lambda>evidence_count.
     pbind (get_list (unat evidence_count) (h_fixed 32)) (\<lambda>hashes.
     pbind h_u8 (\<lambda>confidence_raw.
     pbind (plift (throw_if (confidence_raw > byte_of_confidence HighConfidence)
       (HistoryFormatError ''unknown confidence level identifier''))) (\<lambda>_.
     preturn \<lparr>fingerprint = fp, fp_scope = PerMediator, met_at = mediator, first_seen = first, last_seen = last,
       encounter_count = count, outcome_labels = outcomes, locally_blocked = (blocked_raw = 1), note_list = nts,
       evidence_hashes = hashes, confidence = confidence_of_byte confidence_raw\<rparr>)))))))))))))))))"

definition history_encode_payload :: "CounterpartyHistoryEntry list \<Rightarrow> bytes result" where
  "history_encode_payload es = steps
     [check (throw_if (length es > 4294967295) (Invalid_argument ''history store has too many entries to encode'')),
      writer_u32 (of_nat (length es)),
      for_steps (\<lambda>e. [history_encode_entry e]) es] []"

definition history_decode_payload :: "bytes \<Rightarrow> CounterpartyHistoryEntry list result" where
  "history_decode_payload = run_reader (
     pbind h_u32 (\<lambda>count.
     pbind (plift (throw_if (unat count > kHistoryMaxEntries)
       (HistoryFormatError ''history store exceeds maximum allowed entry count''))) (\<lambda>_.
     pbind (get_list (unat count) history_decode_entry) (\<lambda>es.
     pbind h_require_finished (\<lambda>_.
     preturn es)))))"

record HistoryFile =
  history_nonce :: bytes
  history_ciphertext :: bytes
  history_tag :: bytes
  history_aad :: bytes

definition history_decode_file :: "bytes \<Rightarrow> HistoryFile result" where
  "history_decode_file bs = run_reader (
     pbind (h_fixed 4) (\<lambda>magic.
     pbind (plift (throw_if (magic \<noteq> kHistoryMagic)
       (HistoryFormatError ''not a tradep2p counterparty history file (bad magic)''))) (\<lambda>_.
     pbind h_u16 (\<lambda>ver.
     pbind (plift (throw_if (ver \<noteq> kHistoryFormatVersion)
       (HistoryFormatError ''unsupported history file format version''))) (\<lambda>_.
     pbind reader_position (\<lambda>aad_length.
     pbind (h_fixed 12) (\<lambda>nonce.
     pbind (h_bytes_u32 kHistoryMaxCiphertextLength) (\<lambda>ciphertext.
     pbind (h_fixed 16) (\<lambda>tag.
     pbind h_require_finished (\<lambda>_.
     preturn \<lparr>history_nonce = nonce, history_ciphertext = ciphertext, history_tag = tag,
       history_aad = take aad_length bs\<rparr>)))))))))) bs"

section \<open>Files and encryption\<close>

definition history_replace_atomic :: "syscalls \<Rightarrow> string \<Rightarrow> bytes \<Rightarrow> (files, unit) action" where
  "history_replace_atomic = replace_atomic ''failed to write history file contents''"

interpretation history_writer: atomic_writer history_replace_atomic
  unfolding history_replace_atomic_def by (rule atomic_writer_replace_atomic)

text \<open>A file that cannot be opened counts as one that does not exist.\<close>

definition history_read_file :: "read_calls \<Rightarrow> string \<Rightarrow> files \<Rightarrow> bytes option result" where
  "history_read_file calls path fs =
     (case fs path of
        None \<Rightarrow> Inr None
      | Some data \<Rightarrow>
          if \<not> read_open_ok calls then Inr None
          else if \<not> read_size_ok calls then Inl (Runtime_error (''cannot determine size of file: '' @ path))
          else if data \<noteq> [] \<and> \<not> read_full_ok calls then Inl (Runtime_error (''failed to fully read file: '' @ path))
          else Inr (Some data))"

definition history_open :: "key_crypto \<Rightarrow> bytes \<Rightarrow> bytes \<Rightarrow> bytes \<Rightarrow> bytes \<Rightarrow> bytes \<Rightarrow> bytes result" where
  "history_open kc key nonce aad ciphertext tag =
     rbind (evp_open kc key nonce aad ciphertext tag) (\<lambda>opened.
     case opened of
       None \<Rightarrow> Inl (HistoryAuthenticationError ''history authentication failed (wrong keystore or corrupted file)'')
     | Some plaintext \<Rightarrow> Inr plaintext)"

section \<open>Display\<close>

text \<open>The loop over the outcomes with its two flags.\<close>

definition scan_outcome :: "LocalOutcome \<Rightarrow> bool \<times> bool \<Rightarrow> bool \<times> bool" where
  "scan_outcome outcome flags =
     (case flags of (any_incomplete, any_successful) \<Rightarrow>
        if outcome = Incomplete then (True, any_successful)
        else if outcome = Successful then (any_incomplete, True) else (any_incomplete, any_successful))"

definition classify_for_display :: "CounterpartyHistoryEntry option \<Rightarrow> DisplayCategory" where
  "classify_for_display entry =
     (case entry of
        None \<Rightarrow> UnknownIdentity
      | Some e \<Rightarrow>
          if locally_blocked e then LocallyBlocked
          else
            let (any_incomplete, any_successful) = fold scan_outcome (outcome_labels e) (False, False) in
            if any_incomplete then PreviousIncompleteInteraction
            else if any_successful then PreviousSuccessfulInteraction
            else if encounter_count e = 0 then UnknownIdentity
            else PreviouslyEncountered)"

definition settlement_count :: "CounterpartyHistoryEntry \<Rightarrow> u64" where
  "settlement_count e = of_nat (count_list (outcome_labels e) Successful)"

definition incomplete_count :: "CounterpartyHistoryEntry \<Rightarrow> u64" where
  "incomplete_count e = of_nat (count_list (outcome_labels e) Incomplete)"

definition reject_all_zero :: "bytes \<Rightarrow> string \<Rightarrow> unit result" where
  "reject_all_zero bs label = throw_if (list_all (\<lambda>b. b = 0) bs) (Invalid_argument (label @ '' must not be zero''))"

definition bytes_from_hex :: "nat \<Rightarrow> string \<Rightarrow> string \<Rightarrow> bytes result" where
  "bytes_from_hex n text label =
     rbind (throw_if (length text \<noteq> n * 2) (Invalid_argument (label @ '' has wrong length''))) (\<lambda>_.
     hex_pairs text label)"

definition fingerprint_to_hex :: "CounterpartyFingerprint \<Rightarrow> string result" where
  "fingerprint_to_hex fp =
     rbind (reject_all_zero fp ''counterparty fingerprint'') (\<lambda>_. Inr (concat (map hex_byte fp)))"

definition fingerprint_from_hex :: "string \<Rightarrow> CounterpartyFingerprint result" where
  "fingerprint_from_hex text =
     rbind (bytes_from_hex kCounterpartyFingerprintLength text ''counterparty fingerprint'') (\<lambda>result.
     rbind (reject_all_zero result ''counterparty fingerprint'') (\<lambda>_. Inr result))"

definition evidence_hash_to_hex :: "EvidenceHash \<Rightarrow> string" where
  "evidence_hash_to_hex hash = concat (map hex_byte hash)"

definition evidence_hash_from_hex :: "string \<Rightarrow> EvidenceHash result" where
  "evidence_hash_from_hex text = bytes_from_hex 32 text ''evidence hash''"

fun local_outcome_name :: "LocalOutcome \<Rightarrow> string" where
  "local_outcome_name OutcomeUnknown = ''unknown''"
| "local_outcome_name Successful = ''successful''"
| "local_outcome_name Incomplete = ''incomplete''"

fun confidence_level_name :: "ConfidenceLevel \<Rightarrow> string" where
  "confidence_level_name ConfidenceUnknown = ''unknown''"
| "confidence_level_name LowConfidence = ''low''"
| "confidence_level_name MediumConfidence = ''medium''"
| "confidence_level_name HighConfidence = ''high''"

fun display_category_name :: "DisplayCategory \<Rightarrow> string" where
  "display_category_name UnknownIdentity = ''unknown identity''"
| "display_category_name PreviouslyEncountered = ''previously encountered''"
| "display_category_name PreviousSuccessfulInteraction = ''previous successful interaction''"
| "display_category_name PreviousIncompleteInteraction = ''previous incomplete interaction''"
| "display_category_name LocallyBlocked = ''locally blocked''"

section \<open>The operations\<close>

definition open_history ::
  "key_crypto \<Rightarrow> read_calls \<Rightarrow> string \<Rightarrow> IdentityKeystore \<Rightarrow> files \<Rightarrow> LocalCounterpartyHistory result" where
  "open_history kc calls path ks fs =
     rbind (master_secret ks) (\<lambda>secret.
     rbind (derive_scoped_key kc secret kLocalHistory kAeadKeyIdentifier) (\<lambda>key.
     rbind (history_read_file calls path fs) (\<lambda>raw.
     case raw of
       None \<Rightarrow> Inr \<lparr>history_path = path, aead_key = key, records = []\<rparr>
     | Some bs \<Rightarrow>
         rbind (history_decode_file bs) (\<lambda>d.
         rbind (history_open kc key (history_nonce d) (history_aad d) (history_ciphertext d) (history_tag d)) (\<lambda>plaintext.
         rbind (history_decode_payload plaintext) (\<lambda>es.
         Inr \<lparr>history_path = path, aead_key = key, records = es\<rparr>))))))"

record history_state =
  history :: LocalCounterpartyHistory
  owner :: machine

definition on_host :: "(machine, 'a) action \<Rightarrow> (history_state, 'a) action" where
  "on_host m s = (case m (owner s) of (r, h) \<Rightarrow> (r, s\<lparr>owner := h\<rparr>))"

definition persist :: "key_crypto \<Rightarrow> syscalls \<Rightarrow> (history_state, unit) action" where
  "persist kc calls =
     sbind (sget history) (\<lambda>st.
     sbind (slift (steps [writer_fixed_id kHistoryMagic, writer_u16 kHistoryFormatVersion] [])) (\<lambda>aad.
     sbind (slift (history_encode_payload (records st))) (\<lambda>plaintext.
     sbind (on_host (random_bytes 12)) (\<lambda>nonce.
     sbind (slift (evp_seal kc (aead_key st) nonce aad plaintext)) (\<lambda>(ciphertext, tag).
     sbind (slift (steps [writer_fixed_id aad, writer_fixed_id nonce, writer_u32 (of_nat (length ciphertext)),
       writer_fixed_id ciphertext, writer_fixed_id tag] [])) (\<lambda>file_bytes.
     on_host (on_volume (history_replace_atomic calls (history_path st) file_bytes))))))))"

text \<open>\<open>index_of\<close> returns the number of entries when there is none for the pair.\<close>

fun index_of :: "CounterpartyFingerprint \<Rightarrow> string \<Rightarrow> CounterpartyHistoryEntry list \<Rightarrow> nat" where
  "index_of fp mediator [] = 0"
| "index_of fp mediator (e # es) =
     (if fingerprint e = fp \<and> met_at e = mediator then 0 else Suc (index_of fp mediator es))"

definition fresh_entry :: "CounterpartyFingerprint \<Rightarrow> string \<Rightarrow> u64 \<Rightarrow> CounterpartyHistoryEntry" where
  "fresh_entry fp mediator now = \<lparr>fingerprint = fp, fp_scope = PerMediator, met_at = mediator, first_seen = now,
     last_seen = now, encounter_count = 0, outcome_labels = [], locally_blocked = False, note_list = [],
     evidence_hashes = [], confidence = ConfidenceUnknown\<rparr>"

text \<open>\<open>get_or_create\<close> returns a reference into the vector, here the index.\<close>

definition get_or_create :: "CounterpartyFingerprint \<Rightarrow> string \<Rightarrow> u64 \<Rightarrow> (history_state, nat) action" where
  "get_or_create fp mediator now =
     sbind (slift (throw_if (length mediator > kHistoryMaxMediatorIdLength)
       (Invalid_argument ''mediator id exceeds maximum length''))) (\<lambda>_.
     sbind (sget (records \<circ> history)) (\<lambda>es.
     let idx = index_of fp mediator es in
     if idx \<noteq> length es then sreturn idx
     else
       sbind (slift (throw_if (length es \<ge> kHistoryMaxEntries)
         (Invalid_argument ''counterparty history store is full''))) (\<lambda>_.
       sbind (smodify (\<lambda>s. s\<lparr>history := (history s)\<lparr>records := es @ [fresh_entry fp mediator now]\<rparr>\<rparr>)) (\<lambda>_.
       sreturn (length es)))))"

definition recompute_confidence :: "CounterpartyHistoryEntry \<Rightarrow> CounterpartyHistoryEntry" where
  "recompute_confidence e = e\<lparr>confidence :=
     (if evidence_hashes e = [] \<and> encounter_count e \<le> 1 then ConfidenceUnknown
      else if evidence_hashes e = [] then LowConfidence
      else if length (evidence_hashes e) < 3 then MediumConfidence else HighConfidence)\<rparr>"

definition entry_at :: "nat \<Rightarrow> (history_state, CounterpartyHistoryEntry) action" where
  "entry_at idx = sget (\<lambda>s. records (history s) ! idx)"

definition update_entry :: "nat \<Rightarrow> (CounterpartyHistoryEntry \<Rightarrow> CounterpartyHistoryEntry) \<Rightarrow> (history_state, unit) action" where
  "update_entry idx f = smodify (\<lambda>s. s\<lparr>history := (history s)\<lparr>records :=
     (records (history s))[idx := f (records (history s) ! idx)]\<rparr>\<rparr>)"

definition record_encounter ::
  "key_crypto \<Rightarrow> syscalls \<Rightarrow> u64 \<Rightarrow> CounterpartyFingerprint \<Rightarrow> string \<Rightarrow> LocalOutcome \<Rightarrow> u64 \<Rightarrow>
     (history_state, CounterpartyHistoryEntry) action" where
  "record_encounter kc calls now_unix_seconds fp mediator outcome given_now =
     (let now = (if given_now = 0 then now_unix_seconds else given_now) in
     sbind (get_or_create fp mediator now) (\<lambda>idx.
     sbind (update_entry idx (\<lambda>e.
       let e = e\<lparr>last_seen := now, encounter_count := encounter_count e + 1\<rparr>;
           e = (if outcome \<noteq> OutcomeUnknown \<and> length (outcome_labels e) < kHistoryMaxOutcomesPerEntry
                then e\<lparr>outcome_labels := outcome_labels e @ [outcome]\<rparr> else e)
       in recompute_confidence e)) (\<lambda>_.
     sbind (persist kc calls) (\<lambda>_.
     entry_at idx))))"

definition set_blocked ::
  "key_crypto \<Rightarrow> syscalls \<Rightarrow> u64 \<Rightarrow> CounterpartyFingerprint \<Rightarrow> string \<Rightarrow> bool \<Rightarrow>
     (history_state, CounterpartyHistoryEntry) action" where
  "set_blocked kc calls now_unix_seconds fp mediator blocked =
     sbind (get_or_create fp mediator now_unix_seconds) (\<lambda>idx.
     sbind (update_entry idx (\<lambda>e. e\<lparr>locally_blocked := blocked\<rparr>)) (\<lambda>_.
     sbind (persist kc calls) (\<lambda>_.
     entry_at idx)))"

definition add_note ::
  "key_crypto \<Rightarrow> syscalls \<Rightarrow> u64 \<Rightarrow> CounterpartyFingerprint \<Rightarrow> string \<Rightarrow> string \<Rightarrow> u64 \<Rightarrow>
     (history_state, CounterpartyHistoryEntry) action" where
  "add_note kc calls now_unix_seconds fp mediator text given_now =
     sbind (slift (throw_if (length text > kHistoryMaxNoteLength)
       (Invalid_argument ''note text exceeds maximum length''))) (\<lambda>_.
     let now = (if given_now = 0 then now_unix_seconds else given_now) in
     sbind (get_or_create fp mediator now) (\<lambda>idx.
     sbind (entry_at idx) (\<lambda>e.
     sbind (slift (throw_if (length (note_list e) \<ge> kHistoryMaxNotesPerEntry)
       (Invalid_argument ''counterparty already has the maximum number of notes''))) (\<lambda>_.
     sbind (update_entry idx (\<lambda>e. e\<lparr>note_list := note_list e @ [\<lparr>recorded_at = now, note_text = text\<rparr>]\<rparr>)) (\<lambda>_.
     sbind (persist kc calls) (\<lambda>_.
     entry_at idx))))))"

definition add_evidence_hash ::
  "key_crypto \<Rightarrow> syscalls \<Rightarrow> u64 \<Rightarrow> CounterpartyFingerprint \<Rightarrow> string \<Rightarrow> EvidenceHash \<Rightarrow>
     (history_state, CounterpartyHistoryEntry) action" where
  "add_evidence_hash kc calls now_unix_seconds fp mediator hash =
     sbind (get_or_create fp mediator now_unix_seconds) (\<lambda>idx.
     sbind (entry_at idx) (\<lambda>e.
     sbind (slift (throw_if (length (evidence_hashes e) \<ge> kHistoryMaxEvidenceHashesPerEntry)
       (Invalid_argument ''counterparty already has the maximum number of evidence hashes''))) (\<lambda>_.
     sbind (update_entry idx (\<lambda>e. recompute_confidence (e\<lparr>evidence_hashes := evidence_hashes e @ [hash]\<rparr>))) (\<lambda>_.
     sbind (persist kc calls) (\<lambda>_.
     entry_at idx)))))"

definition find_entry ::
  "CounterpartyFingerprint \<Rightarrow> string \<Rightarrow> LocalCounterpartyHistory \<Rightarrow> CounterpartyHistoryEntry option" where
  "find_entry fp mediator st =
     (let idx = index_of fp mediator (records st)
      in if idx = length (records st) then None else Some (records st ! idx))"

end
