(* ===== verification/History_Safety.thy ===== *)
theory History_Safety
  imports History Keystore_Safety
begin

text \<open>
  What the counterparty history promises: the file format is faithful, every operation is an update of
  one entry of a finite map, the limits of the format hold in every reachable store, and a store that was
  written is the store that is opened again, as long as its encryption fits the reader's limit.
\<close>

section \<open>The layout of an entry\<close>

definition put_outcome :: "LocalOutcome \<Rightarrow> bytes" where
  "put_outcome outcome = put_u8 (byte_of_outcome outcome)"

definition put_note :: "HistoryNote \<Rightarrow> bytes" where
  "put_note note = put_u64 (recorded_at note) @ put_string (note_text note)"

definition put_history_entry :: "CounterpartyHistoryEntry \<Rightarrow> bytes" where
  "put_history_entry e =
     fingerprint e @ put_u8 1 @ put_string (met_at e) @ put_u64 (first_seen e) @ put_u64 (last_seen e) @
     put_u64 (encounter_count e) @ put_u16 (of_nat (length (outcome_labels e))) @
     concat (map put_outcome (outcome_labels e)) @ put_u8 (if locally_blocked e then 1 else 0) @
     put_u16 (of_nat (length (note_list e))) @ concat (map put_note (note_list e)) @
     put_u16 (of_nat (length (evidence_hashes e))) @ concat (evidence_hashes e) @
     put_u8 (byte_of_confidence (confidence e))"

definition valid_history_entry :: "CounterpartyHistoryEntry \<Rightarrow> bool" where
  "valid_history_entry e \<longleftrightarrow> length (fingerprint e) = 32 \<and> length (met_at e) \<le> 256 \<and>
     length (outcome_labels e) \<le> 65535 \<and> length (note_list e) \<le> 65535 \<and>
     (\<forall>note\<in>set (note_list e). length (note_text note) \<le> 4096) \<and> length (evidence_hashes e) \<le> 65535 \<and>
     (\<forall>h\<in>set (evidence_hashes e). length h = 32)"

lemma outcome_bytes [simp]:
  "outcome_of_byte (byte_of_outcome outcome) = outcome" "\<not> 2 < byte_of_outcome outcome"
  by (cases outcome; simp add: outcome_of_byte_def)+

lemma outcome_byte_back: "\<not> 2 < b \<Longrightarrow> byte_of_outcome (outcome_of_byte b) = b"
proof -
  assume "\<not> 2 < b"
  then have "b = 0 \<or> b = 1 \<or> b = 2"
    by unat_arith
  then show ?thesis
    by (auto simp: outcome_of_byte_def)
qed

lemma confidence_bytes [simp]:
  "confidence_of_byte (byte_of_confidence level) = level" "\<not> 3 < byte_of_confidence level"
  by (cases level; simp add: confidence_of_byte_def)+

lemma confidence_byte_back: "\<not> 3 < b \<Longrightarrow> byte_of_confidence (confidence_of_byte b) = b"
proof -
  assume "\<not> 3 < b"
  then have "b = 0 \<or> b = 1 \<or> b = 2 \<or> b = 3"
    by unat_arith
  then show ?thesis
    by (auto simp: confidence_of_byte_def)
qed

interpretation outcome_field: codec put_outcome read_outcome "\<lambda>_. True"
proof (rule codecI)
  fix pre bs outcome r
  assume "read_outcome (at pre bs) = Inr (outcome, r)"
  then show "True \<and> (\<exists>rest. bs = put_outcome outcome @ rest \<and> r = at (pre @ put_outcome outcome) rest)"
    by (auto simp: read_outcome_def put_outcome_def wire_simps exn_simps outcome_byte_back)
qed (simp add: read_outcome_def put_outcome_def wire_run)

interpretation note_field: codec put_note read_note "\<lambda>note. length (note_text note) \<le> 4096"
proof (rule codecI)
  fix pre bs nt r
  assume "read_note (at pre bs) = Inr (nt, r)"
  then show "length (note_text nt) \<le> 4096 \<and> (\<exists>rest. bs = put_note nt @ rest \<and> r = at (pre @ put_note nt) rest)"
    by (auto simp: read_note_def put_note_def wire_simps exn_simps)
qed (simp add: read_note_def put_note_def wire_run)

lemma history_decode_entry_put:
  "valid_history_entry e \<Longrightarrow>
     history_decode_entry (at pre (put_history_entry e @ rest)) = Inr (e, at (pre @ put_history_entry e) rest)"
  by (cases e; cases "fp_scope e")
     (auto simp: history_decode_entry_def put_history_entry_def valid_history_entry_def wire_run
       outcome_field.get_list_put note_field.get_list_put fixed.get_list_put [simplified])

lemma history_decode_entry_only:
  assumes "history_decode_entry (at pre bs) = Inr (e, r)"
  shows "valid_history_entry e \<and> (\<exists>rest. bs = put_history_entry e @ rest \<and> r = at (pre @ put_history_entry e) rest)"
  using assms
  by (clarsimp simp: history_decode_entry_def wire_simps exn_simps outcome_field.get_list_at note_field.get_list_at
      fixed.get_list_at [simplified] simp del: flag_byte)
     (auto simp: put_history_entry_def valid_history_entry_def confidence_byte_back flag_byte)

interpretation history_entry: codec put_history_entry history_decode_entry valid_history_entry
  using history_decode_entry_put history_decode_entry_only by (rule codecI)

lemma byte_of_scope_one [simp]: "byte_of_scope scope = 1"
  by (cases scope) simp

lemma outcome_loop [wire_simps]:
  "for_steps (\<lambda>outcome. [writer_u8 (byte_of_outcome outcome)]) outcomes w = Inr w' \<longleftrightarrow>
     w' = w @ concat (map put_outcome outcomes)"
  by (rule for_steps_ok [where valid = "\<lambda>_. True", simplified]) (auto simp: wire_simps exn_simps put_outcome_def)

lemma note_loop [wire_simps]:
  "for_steps (\<lambda>note. [writer_u64 (recorded_at note),
       writer_short_string (Invalid_argument ''history field exceeds protocol limit'') (note_text note) 4096]) nts w = Inr w' \<longleftrightarrow>
     (\<forall>note\<in>set nts. length (note_text note) \<le> 4096) \<and> w' = w @ concat (map put_note nts)"
  by (rule for_steps_ok) (auto simp: wire_simps exn_simps put_note_def)

lemma evidence_loop [wire_simps]:
  "for_steps (\<lambda>hash. [writer_fixed_id hash]) hashes w = Inr w' \<longleftrightarrow> w' = w @ concat hashes"
  by (rule for_steps_ok [where valid = "\<lambda>_. True" and put = "\<lambda>h. h", simplified]) (auto simp: wire_simps exn_simps)

lemma history_encode_entry_ok [wire_simps]:
  "length (fingerprint e) = 32 \<Longrightarrow> \<forall>h\<in>set (evidence_hashes e). length h = 32 \<Longrightarrow>
     history_encode_entry e w = Inr w' \<longleftrightarrow> valid_history_entry e \<and> w' = w @ put_history_entry e"
  by (auto simp: history_encode_entry_def put_history_entry_def valid_history_entry_def wire_simps exn_simps)

definition put_history :: "CounterpartyHistoryEntry list \<Rightarrow> bytes" where
  "put_history es = put_u32 (of_nat (length es)) @ concat (map put_history_entry es)"

lemma history_encode_entry_put:
  "valid_history_entry e \<Longrightarrow> history_encode_entry e w = Inr (w @ put_history_entry e)"
  by (simp add: history_encode_entry_ok valid_history_entry_def)

lemma history_entries_loop:
  "\<forall>e\<in>set es. valid_history_entry e \<Longrightarrow>
     for_steps (\<lambda>e. [history_encode_entry e]) es w = Inr (w @ concat (map put_history_entry es))"
  by (induction es arbitrary: w) (simp_all add: for_steps_def history_encode_entry_put)

lemma history_encode_payload_put:
  "\<forall>e\<in>set es. valid_history_entry e \<Longrightarrow> length es \<le> 4096 \<Longrightarrow> history_encode_payload es = Inr (put_history es)"
  by (simp add: history_encode_payload_def put_history_def history_entries_loop wire_run)

lemma history_decode_payload_put:
  assumes "\<forall>e\<in>set es. valid_history_entry e" and "length es \<le> 4096"
  shows "history_decode_payload (put_history es) = Inr es"
proof -
  have "unat (of_nat (length es) :: u32) = length es"
    using assms(2) by (simp add: unsigned_of_nat take_bit_eq_mod)
  then show ?thesis
    using assms by (simp add: history_decode_payload_def put_history_def wire_run history_entry.get_list_put_last)
qed

text \<open>The bytes of the file, and what the reader makes of them.\<close>

definition put_history_file :: "bytes \<Rightarrow> bytes \<Rightarrow> bytes \<Rightarrow> bytes" where
  "put_history_file nonce ciphertext tag = kHistoryMagic @ put_u16 1 @ nonce @ put_bytes_u32 ciphertext @ tag"

lemma history_decode_file_put:
  assumes "length nonce = 12" and "length tag = 16" and "length ciphertext \<le> 64 * 1024 * 1024"
  shows "history_decode_file (put_history_file nonce ciphertext tag) =
     Inr \<lparr>history_nonce = nonce, history_ciphertext = ciphertext, history_tag = tag,
       history_aad = kHistoryMagic @ put_u16 1\<rparr>"
proof -
  have "length kHistoryMagic = 4"
    by (simp add: kHistoryMagic_def)
  with assms show ?thesis
    by (simp add: history_decode_file_def put_history_file_def wire_run blob32.get_put)
qed

lemma history_decode_file_too_long:
  assumes "length nonce = 12" and "64 * 1024 * 1024 < length ciphertext" and "length ciphertext < 2 ^ 32"
  shows "history_decode_file (put_history_file nonce ciphertext tag) =
     Inl (HistoryFormatError ''history payload exceeds maximum allowed length'')"
proof -
  have "length kHistoryMagic = 4"
    by (simp add: kHistoryMagic_def)
  moreover have "unat (of_nat (length ciphertext) :: u32) = length ciphertext"
    using assms(3) by (simp add: unsigned_of_nat take_bit_eq_mod)
  ultimately show ?thesis
    using assms by (simp add: history_decode_file_def put_history_file_def put_bytes_u32_def wire_run get_bytes32_def plift_def)
qed

section \<open>Writing and opening a store\<close>

lemma on_host_returns:
  "on_host m s = (Inr x, s') \<longleftrightarrow> (\<exists>h. m (owner s) = (Inr x, h) \<and> s' = s\<lparr>owner := h\<rparr>)"
  by (auto simp: on_host_def split: prod.splits)

lemma persist_history: "history (snd (persist kc calls s)) = history s"
proof -
  have on_host: "keeps (\<lambda>s. history s = st) (on_host m)" for st and m :: "(machine, 'b) action"
    by (auto simp: keeps_def on_host_def split: prod.splits)
  have "keeps (\<lambda>s. history s = st) (persist kc calls)" for st
    unfolding persist_def by (intro keeps_intros keeps_prod on_host)
  then show ?thesis
    by (simp add: keeps_def)
qed

lemma persist_returns:
  assumes "persist kc calls s = (Inr (), s')" and "\<forall>e\<in>set (records (history s)). valid_history_entry e"
    and "length (records (history s)) \<le> 4096"
  obtains nonce ciphertext tag where "length nonce = 12"
    and "evp_seal kc (aead_key (history s)) nonce (kHistoryMagic @ put_u16 1) (put_history (records (history s))) =
           Inr (ciphertext, tag)"
    and "volume (owner s') (history_path (history s)) = Some (put_history_file nonce ciphertext tag)"
proof -
  obtain nonce ciphertext tag h1 fs where "random_bytes 12 (owner s) = (Inr nonce, h1)"
      and "evp_seal kc (aead_key (history s)) nonce (kHistoryMagic @ put_u16 1) (put_history (records (history s))) =
           Inr (ciphertext, tag)"
      and w: "history_replace_atomic calls (history_path (history s))
           (kHistoryMagic @ put_u16 1 @ nonce @ put_u32 (of_nat (length ciphertext)) @ ciphertext @ tag) (volume h1) = (Inr (), fs)"
      and "s' = s\<lparr>owner := h1\<lparr>volume := fs\<rparr>\<rparr>"
    using assms(1) history_encode_payload_put [OF assms(2,3)]
    by (auto simp: persist_def returns_simps on_host_returns on_volume_returns wire_simps exn_simps
        simp del: sbind_simps sbind_slift)
  with that [of nonce ciphertext tag] show ?thesis
    using history_writer.written [OF w] random_bytes_returns [of 12 "owner s" nonce h1]
    by (simp add: put_history_file_def put_bytes_u32_def)
qed

lemma persist_throws:
  assumes "persist kc calls s = (Inl e, s')"
  shows "volume (owner s') (history_path (history s)) = volume (owner s) (history_path (history s))"
proof -
  let ?p = "history_path (history s)"
  let ?same = "\<lambda>s1. history s1 = history s \<and> volume (owner s1) ?p = volume (owner s) ?p"
  have "wp (persist kc calls) (\<lambda>_ _. True) (\<lambda>_. ?same) s"
    unfolding persist_def
    by (auto simp: wp_simps wp_def [where m = "on_host m" for m] on_host_def on_volume_def random_bytes_volume
        history_writer.not_written split: sum.splits prod.splits dest: arg_cong [where f = "volume \<circ> snd"])
  then show ?thesis
    using assms by (simp add: wp_def)
qed

text \<open>On a working host the store is written.\<close>

definition syscalls_work :: "syscalls \<Rightarrow> bool" where
  "syscalls_work calls \<longleftrightarrow> open_ok calls \<and> write_ok calls \<and> close_ok calls \<and> rename_ok calls"

lemma persist_works:
  assumes "crypto_works kc" and "entropy_works (owner s)" and "syscalls_work calls"
    and "\<forall>e\<in>set (records (history s)). valid_history_entry e" and "length (records (history s)) \<le> 4096"
  shows "\<exists>s'. persist kc calls s = (Inr (), s')"
proof -
  obtain nonce where nonce: "random_bytes 12 (owner s) = (Inr nonce, (owner s)\<lparr>drawn := drawn (owner s) + 12\<rparr>)"
    using random_bytes_works [OF assms(2), of 12] by auto
  obtain c tag where "evp_seal kc (aead_key (history s)) nonce (kHistoryMagic @ put_u16 1) (put_history (records (history s))) =
      Inr (c, tag)"
    using crypto_worksD(4) [OF assms(1)] by blast
  moreover obtain fs where "history_replace_atomic calls (history_path (history s))
      (kHistoryMagic @ put_u16 1 @ nonce @ put_u32 (of_nat (length c)) @ c @ tag) (volume (owner s)) = (Inr (), fs)"
    using assms(3) history_writer.succeeds [of calls "history_path (history s)"
        "kHistoryMagic @ put_u16 1 @ nonce @ put_u32 (of_nat (length c)) @ c @ tag" "volume (owner s)"]
    by (metis prod.collapse syscalls_work_def)
  ultimately show ?thesis
    using nonce history_encode_payload_put [OF assms(4,5)]
    by (simp add: persist_def sbind_def action_defs on_host_def on_volume_def writer_run)
qed

section \<open>Stores within their limits\<close>

definition entry_key :: "CounterpartyHistoryEntry \<Rightarrow> CounterpartyFingerprint \<times> string" where
  "entry_key e = (fingerprint e, met_at e)"

text \<open>The confidence level that the entry's evidence and encounters give it.\<close>

definition earned_confidence :: "CounterpartyHistoryEntry \<Rightarrow> ConfidenceLevel" where
  "earned_confidence e = confidence (recompute_confidence e)"

definition wf_history_entry :: "CounterpartyHistoryEntry \<Rightarrow> bool" where
  "wf_history_entry e \<longleftrightarrow> length (fingerprint e) = 32 \<and> length (met_at e) \<le> 256 \<and>
     length (outcome_labels e) \<le> 4096 \<and> OutcomeUnknown \<notin> set (outcome_labels e) \<and> length (note_list e) \<le> 256 \<and>
     (\<forall>note\<in>set (note_list e). length (note_text note) \<le> 4096) \<and> length (evidence_hashes e) \<le> 256 \<and>
     (\<forall>h\<in>set (evidence_hashes e). length h = 32) \<and> confidence e = earned_confidence e"

definition wf_history :: "LocalCounterpartyHistory \<Rightarrow> bool" where
  "wf_history st \<longleftrightarrow> distinct (map entry_key (records st)) \<and> length (records st) \<le> 4096 \<and>
     (\<forall>e\<in>set (records st). wf_history_entry e)"

lemma wf_history_entry_valid: "wf_history_entry e \<Longrightarrow> valid_history_entry e"
  by (simp add: wf_history_entry_def valid_history_entry_def)

lemma wf_history_valid: "wf_history st \<Longrightarrow> \<forall>e\<in>set (records st). valid_history_entry e"
  by (simp add: wf_history_def wf_history_entry_valid)

lemma earned_confidence_simps [simp]:
  "earned_confidence (recompute_confidence e) = earned_confidence e"
  "confidence (recompute_confidence e) = earned_confidence e"
  "earned_confidence (e\<lparr>locally_blocked := blocked\<rparr>) = earned_confidence e"
  "earned_confidence (e\<lparr>note_list := nts\<rparr>) = earned_confidence e"
  "earned_confidence (fresh_entry fp mediator now) = ConfidenceUnknown"
  by (simp_all add: earned_confidence_def recompute_confidence_def fresh_entry_def)

lemma recompute_confidence_fields [simp]:
  "fingerprint (recompute_confidence e) = fingerprint e" "met_at (recompute_confidence e) = met_at e"
  "outcome_labels (recompute_confidence e) = outcome_labels e" "note_list (recompute_confidence e) = note_list e"
  "evidence_hashes (recompute_confidence e) = evidence_hashes e"
  "locally_blocked (recompute_confidence e) = locally_blocked e"
  "encounter_count (recompute_confidence e) = encounter_count e"
  by (simp_all add: recompute_confidence_def)

section \<open>One operation is an update of one entry\<close>

text \<open>The store as a finite map.\<close>

definition view :: "LocalCounterpartyHistory \<Rightarrow> CounterpartyFingerprint \<times> string \<rightharpoonup> CounterpartyHistoryEntry" where
  "view st = (\<lambda>(fp, mediator). find_entry fp mediator st)"

text \<open>The update of the vector that the operations share: change the entry of the pair, or append a new one.\<close>

definition edit_records ::
  "CounterpartyFingerprint \<Rightarrow> string \<Rightarrow> u64 \<Rightarrow> (CounterpartyHistoryEntry \<Rightarrow> CounterpartyHistoryEntry) \<Rightarrow>
     CounterpartyHistoryEntry list \<Rightarrow> CounterpartyHistoryEntry list" where
  "edit_records fp mediator now f es =
     (let idx = index_of fp mediator es
      in if idx = length es then es @ [f (fresh_entry fp mediator now)] else es[idx := f (es ! idx)])"

lemma entry_key_fresh [simp]: "entry_key (fresh_entry fp mediator now) = (fp, mediator)"
  by (simp add: entry_key_def fresh_entry_def)

lemma index_of_le: "index_of fp mediator es \<le> length es"
  by (induction es) auto

lemma index_of_found: "index_of fp mediator es < length es \<Longrightarrow> entry_key (es ! index_of fp mediator es) = (fp, mediator)"
  by (induction es) (auto simp: entry_key_def split: if_splits)

lemma index_of_missing: "index_of fp mediator es = length es \<longleftrightarrow> (fp, mediator) \<notin> set (map entry_key es)"
  by (induction es) (auto simp: entry_key_def split: if_splits)

lemma index_of_cong:
  "map entry_key es = map entry_key es' \<Longrightarrow> index_of fp mediator es = index_of fp mediator es'"
proof (induction es arbitrary: es')
  case (Cons e es)
  then show ?case
    by (cases es') (auto simp: entry_key_def)
qed simp

lemma index_of_append:
  "index_of fp mediator (es @ [e]) = (if index_of fp mediator es < length es then index_of fp mediator es
     else if entry_key e = (fp, mediator) then length es else Suc (length es))"
  by (induction es) (auto simp: entry_key_def)

text \<open>The edited store, entry by entry. The edit must not change the key.\<close>

lemma map_key_update:
  "idx < length es \<Longrightarrow> entry_key x = entry_key (es ! idx) \<Longrightarrow> map entry_key (es[idx := x]) = map entry_key es"
  by (simp add: map_update list_update_same_conv)

lemma view_edit:
  assumes "\<And>e. entry_key (f e) = entry_key e"
  shows "view (st\<lparr>records := edit_records fp mediator now f (records st)\<rparr>) =
    (view st)((fp, mediator) \<mapsto> f (case view st (fp, mediator) of None \<Rightarrow> fresh_entry fp mediator now | Some e \<Rightarrow> e))"
proof (rule ext)
  fix key :: "CounterpartyFingerprint \<times> string"
  obtain g m where key: "key = (g, m)"
    by (rule prod.exhaust)
  have fresh: "entry_key (f (fresh_entry fp mediator now)) = (fp, mediator)"
    by (simp add: assms)
  show "view (st\<lparr>records := edit_records fp mediator now f (records st)\<rparr>) key =
      ((view st)((fp, mediator) \<mapsto> f (case view st (fp, mediator) of None \<Rightarrow> fresh_entry fp mediator now | Some e \<Rightarrow> e))) key"
  proof (cases "index_of fp mediator (records st) = length (records st)")
    case True
    then show ?thesis
      using fresh index_of_le [of g m "records st"]
      by (auto simp: key view_def find_entry_def edit_records_def index_of_append Let_def nth_append)
  next
    case False
    then have lt: "index_of fp mediator (records st) < length (records st)"
      using index_of_le [of fp mediator "records st"] by simp
    let ?es = "(records st)[index_of fp mediator (records st) := f (records st ! index_of fp mediator (records st))]"
    have same: "index_of g m ?es = index_of g m (records st)"
      using lt by (intro index_of_cong map_key_update) (simp_all add: assms)
    have at: "view (st\<lparr>records := edit_records fp mediator now f (records st)\<rparr>) (g, m) =
        (if index_of g m (records st) = length (records st) then None else Some (?es ! index_of g m (records st)))"
      using lt same by (simp add: view_def find_entry_def edit_records_def Let_def)
    show ?thesis
    proof (cases "key = (fp, mediator)")
      case True
      then show ?thesis
        using at lt by (simp add: key view_def find_entry_def Let_def)
    next
      case False
      have "index_of g m (records st) < length (records st) \<Longrightarrow> index_of fp mediator (records st) \<noteq> index_of g m (records st)"
        using index_of_found [OF lt] index_of_found [of g m "records st"] False key by force
      then show ?thesis
        using at False key index_of_le [of g m "records st"]
        by (cases "index_of g m (records st) = length (records st)")
           (auto simp: view_def [of st] find_entry_def [of _ _ st] Let_def)
    qed
  qed
qed

lemma wf_history_edit:
  assumes "wf_history st" and "\<And>e. entry_key (f e) = entry_key e" and "length fp = 32" "length mediator \<le> 256"
    and "index_of fp mediator (records st) = length (records st) \<longrightarrow> length (records st) < 4096"
    and "wf_history_entry (f (case view st (fp, mediator) of None \<Rightarrow> fresh_entry fp mediator now | Some e \<Rightarrow> e))"
  shows "wf_history (st\<lparr>records := edit_records fp mediator now f (records st)\<rparr>)"
proof (cases "index_of fp mediator (records st) = length (records st)")
  case True
  have "entry_key (f (fresh_entry fp mediator now)) = (fp, mediator)"
    by (simp add: assms(2))
  then show ?thesis
    using assms(1,5,6) True index_of_missing [of fp mediator "records st"]
    by (auto simp: wf_history_def edit_records_def Let_def view_def find_entry_def)
next
  case False
  then have lt: "index_of fp mediator (records st) < length (records st)"
    using index_of_le [of fp mediator "records st"] by simp
  then have "map entry_key ((records st)[index_of fp mediator (records st) := f (records st ! index_of fp mediator (records st))]) =
      map entry_key (records st)"
    by (intro map_key_update) (simp_all add: assms(2))
  then show ?thesis
    using assms(1,6) False set_update_subset_insert [of "records st" "index_of fp mediator (records st)"]
    by (auto simp: wf_history_def edit_records_def Let_def view_def find_entry_def)
qed

text \<open>The body the four operations share, with the check between finding the entry and changing it.\<close>

definition edit ::
  "key_crypto \<Rightarrow> syscalls \<Rightarrow> CounterpartyFingerprint \<Rightarrow> string \<Rightarrow> u64 \<Rightarrow> (CounterpartyHistoryEntry \<Rightarrow> unit result) \<Rightarrow>
     (CounterpartyHistoryEntry \<Rightarrow> CounterpartyHistoryEntry) \<Rightarrow> (history_state, CounterpartyHistoryEntry) action" where
  "edit kc calls fp mediator now refuse f =
     sbind (get_or_create fp mediator now) (\<lambda>idx.
     sbind (entry_at idx) (\<lambda>e.
     sbind (slift (refuse e)) (\<lambda>_.
     sbind (update_entry idx f) (\<lambda>_.
     sbind (persist kc calls) (\<lambda>_.
     entry_at idx)))))"

lemma edit_unchecked:
  "edit kc calls fp mediator now (\<lambda>_. Inr ()) f =
     sbind (get_or_create fp mediator now) (\<lambda>idx.
     sbind (update_entry idx f) (\<lambda>_. sbind (persist kc calls) (\<lambda>_. entry_at idx)))"
proof -
  have "sbind (entry_at idx) (\<lambda>e. m) = m" for idx and m :: "(history_state, CounterpartyHistoryEntry) action"
    by (rule ext) (simp add: entry_at_def)
  then show ?thesis
    by (simp add: edit_def)
qed

definition edited ::
  "CounterpartyFingerprint \<Rightarrow> string \<Rightarrow> u64 \<Rightarrow> (CounterpartyHistoryEntry \<Rightarrow> CounterpartyHistoryEntry) \<Rightarrow>
     history_state \<Rightarrow> history_state" where
  "edited fp mediator now f s =
     s\<lparr>history := (history s)\<lparr>records := edit_records fp mediator now f (records (history s))\<rparr>\<rparr>"

definition current_entry :: "CounterpartyFingerprint \<Rightarrow> string \<Rightarrow> u64 \<Rightarrow> history_state \<Rightarrow> CounterpartyHistoryEntry" where
  "current_entry fp mediator now s =
     (case view (history s) (fp, mediator) of None \<Rightarrow> fresh_entry fp mediator now | Some e \<Rightarrow> e)"

definition edit_refused ::
  "CounterpartyFingerprint \<Rightarrow> string \<Rightarrow> u64 \<Rightarrow> (CounterpartyHistoryEntry \<Rightarrow> unit result) \<Rightarrow> history_state \<Rightarrow> bool" where
  "edit_refused fp mediator now refuse s \<longleftrightarrow> length mediator > 256 \<or>
     view (history s) (fp, mediator) = None \<and> length (records (history s)) \<ge> 4096 \<or>
     (\<exists>x. refuse (current_entry fp mediator now s) = Inl x)"

lemma current_entry_wf:
  assumes "wf_history (history s)" and "length fp = 32" and "length mediator \<le> 256"
  shows "wf_history_entry (current_entry fp mediator now s)"
proof (cases "index_of fp mediator (records (history s)) = length (records (history s))")
  case True
  then show ?thesis
    using assms(2,3) by (simp add: current_entry_def view_def find_entry_def wf_history_entry_def)
      (simp add: fresh_entry_def)
next
  case False
  then have "records (history s) ! index_of fp mediator (records (history s)) \<in> set (records (history s))"
    using index_of_le [of fp mediator "records (history s)"] by (intro nth_mem) simp
  with False show ?thesis
    using assms(1) by (simp add: current_entry_def view_def find_entry_def Let_def wf_history_def)
qed

lemma view_None_iff: "view st (fp, mediator) = None \<longleftrightarrow> index_of fp mediator (records st) = length (records st)"
  by (simp add: view_def find_entry_def Let_def)

text \<open>The edit runs: it is refused without any change, or the store changes and is then written.\<close>

lemma edit_run:
  assumes "refuse (fresh_entry fp mediator now) = Inr ()"
  shows "if edit_refused fp mediator now refuse s then \<exists>x. edit kc calls fp mediator now refuse f s = (Inl x, s)
    else edit kc calls fp mediator now refuse f s =
      sbind (persist kc calls) (\<lambda>_. sreturn (f (current_entry fp mediator now s))) (edited fp mediator now f s)"
proof -
  let ?idx = "index_of fp mediator (records (history s))" and ?es = "records (history s)"
  consider (long) "length mediator > 256"
    | (found) "length mediator \<le> 256" "?idx < length ?es"
    | (full) "length mediator \<le> 256" "?idx = length ?es" "length ?es \<ge> 4096"
    | (fresh) "length mediator \<le> 256" "?idx = length ?es" "length ?es < 4096"
    using index_of_le [of fp mediator ?es] by linarith
  then show ?thesis
  proof cases
    case long
    then show ?thesis
      by (simp add: edit_refused_def edit_def get_or_create_def sbind_def action_defs)
  next
    case full
    then show ?thesis
      by (simp add: edit_refused_def view_None_iff edit_def get_or_create_def sbind_def action_defs Let_def)
  next
    case found
    then have cur: "current_entry fp mediator now s = ?es ! ?idx" "view (history s) (fp, mediator) \<noteq> None"
      by (simp_all add: current_entry_def view_def find_entry_def Let_def)
    have last: "sbind (persist kc calls) (\<lambda>_. entry_at ?idx) (edited fp mediator now f s) =
        sbind (persist kc calls) (\<lambda>_. sreturn (f (?es ! ?idx))) (edited fp mediator now f s)"
      using found persist_history [of kc calls "edited fp mediator now f s"]
      by (auto simp: sbind_def entry_at_def action_defs edited_def edit_records_def Let_def split: prod.splits sum.splits)
    have got: "get_or_create fp mediator now s = (Inr ?idx, s)"
      using found by (simp add: get_or_create_def action_defs Let_def)
    show ?thesis
    proof (cases "refuse (?es ! ?idx)")
      case (Inl x)
      then show ?thesis
        using cur got by (simp add: edit_refused_def edit_def entry_at_def sbind_def [of "get_or_create fp mediator now"] action_defs)
    next
      case (Inr u)
      then have "edit kc calls fp mediator now refuse f s =
          sbind (persist kc calls) (\<lambda>_. entry_at ?idx) (edited fp mediator now f s)"
        using found got
        by (simp add: edit_def entry_at_def update_entry_def edited_def edit_records_def Let_def
            sbind_def [of "get_or_create fp mediator now"])
      then show ?thesis
        using found cur last Inr by (auto simp: edit_refused_def)
    qed
  next
    case fresh
    then have cur: "current_entry fp mediator now s = fresh_entry fp mediator now" "view (history s) (fp, mediator) = None"
      by (simp_all add: current_entry_def view_def find_entry_def Let_def)
    have last: "sbind (persist kc calls) (\<lambda>_. entry_at (length ?es)) (edited fp mediator now f s) =
        sbind (persist kc calls) (\<lambda>_. sreturn (f (fresh_entry fp mediator now))) (edited fp mediator now f s)"
      using fresh persist_history [of kc calls "edited fp mediator now f s"]
      by (auto simp: sbind_def entry_at_def action_defs edited_def edit_records_def Let_def split: prod.splits sum.splits)
    have "\<not> edit_refused fp mediator now refuse s"
      using fresh cur assms by (auto simp: edit_refused_def)
    moreover have got: "get_or_create fp mediator now s =
        (Inr (length ?es), s\<lparr>history := (history s)\<lparr>records := ?es @ [fresh_entry fp mediator now]\<rparr>\<rparr>)"
      using fresh by (simp add: get_or_create_def action_defs Let_def)
    moreover have "edit kc calls fp mediator now refuse f s =
        sbind (persist kc calls) (\<lambda>_. entry_at (length ?es)) (edited fp mediator now f s)"
      using fresh assms got
      by (simp add: edit_def entry_at_def update_entry_def edited_def edit_records_def Let_def
          sbind_def [of "get_or_create fp mediator now"])
    ultimately show ?thesis
      using last cur by simp
  qed
qed

text \<open>The file holds the store: it is an encryption of exactly these entries.\<close>

definition stored :: "key_crypto \<Rightarrow> LocalCounterpartyHistory \<Rightarrow> files \<Rightarrow> bool" where
  "stored kc st fs \<longleftrightarrow> (\<exists>nonce ciphertext tag. length nonce = 12 \<and>
     evp_seal kc (aead_key st) nonce (kHistoryMagic @ put_u16 1) (put_history (records st)) = Inr (ciphertext, tag) \<and>
     fs (history_path st) = Some (put_history_file nonce ciphertext tag))"

definition store_file :: "history_state \<Rightarrow> bytes option" where
  "store_file s = volume (owner s) (history_path (history s))"

text \<open>
  What the four mutating operations promise: they change nothing, or exactly the entry of their pair; when
  they return, the changed store is on disk, and when they throw, the file is as it was.
\<close>

locale history_operation =
  fixes run :: "key_crypto \<Rightarrow> syscalls \<Rightarrow> (history_state, CounterpartyHistoryEntry) action"
    and fp :: CounterpartyFingerprint and mediator :: string and now :: u64
    and refuse :: "CounterpartyHistoryEntry \<Rightarrow> unit result"
    and f :: "CounterpartyHistoryEntry \<Rightarrow> CounterpartyHistoryEntry"
    and admissible :: bool
  assumes run_edit: "run kc calls s = edit kc calls fp mediator now refuse f s \<or> (\<exists>x. run kc calls s = (Inl x, s))"
    and fresh_accepted: "refuse (fresh_entry fp mediator now) = Inr ()"
    and same_key: "entry_key (f e) = entry_key e"
    and keeps_limits: "admissible \<Longrightarrow> length fp = 32 \<and>
      (wf_history_entry e \<longrightarrow> refuse e = Inr () \<longrightarrow> wf_history_entry (f e))"
begin

lemma run_cases:
  assumes "run kc calls s = (r, s')"
  obtains (refused) x where "r = Inl x" "s' = s"
    | (edited) r1 where "\<not> edit_refused fp mediator now refuse s"
      and "persist kc calls (edited fp mediator now f s) = (r1, s')"
      and "r = (case r1 of Inl x \<Rightarrow> Inl x | Inr _ \<Rightarrow> Inr (f (current_entry fp mediator now s)))"
proof -
  consider (direct) x where "run kc calls s = (Inl x, s)" | (edit) "run kc calls s = edit kc calls fp mediator now refuse f s"
    using run_edit [of kc calls s] by blast
  then show ?thesis
  proof cases
    case direct
    then show ?thesis
      using refused assms by simp
  next
    case edit
    obtain r1 s1 where p: "persist kc calls (edited fp mediator now f s) = (r1, s1)"
      by (rule prod.exhaust)
    show ?thesis
    proof (cases "edit_refused fp mediator now refuse s")
      case True
      then show ?thesis
        using edit_run [where refuse = refuse, OF fresh_accepted, of s kc calls f] edit assms refused by auto
    next
      case False
      then have "(r, s') = sbind (persist kc calls) (\<lambda>_. sreturn (f (current_entry fp mediator now s))) (edited fp mediator now f s)"
        using edit_run [where refuse = refuse, OF fresh_accepted, of s kc calls f] edit assms by simp
      then show ?thesis
        using edited [OF False, of r1] p by (cases r1) (simp_all add: sbind_def action_defs)
    qed
  qed
qed

lemma current_wf:
  assumes "wf_history (history s)" and "admissible" and "\<not> edit_refused fp mediator now refuse s"
  shows "wf_history_entry (f (current_entry fp mediator now s))"
proof -
  have "wf_history_entry (current_entry fp mediator now s)"
    using assms keeps_limits [OF assms(2)] by (intro current_entry_wf) (simp_all add: edit_refused_def)
  moreover have "refuse (current_entry fp mediator now s) = Inr ()"
    using assms(3) by (cases "refuse (current_entry fp mediator now s)") (auto simp: edit_refused_def)
  ultimately show ?thesis
    using keeps_limits [OF assms(2)] by blast
qed

lemma edited_wf:
  assumes "wf_history (history s)" and "admissible" and "\<not> edit_refused fp mediator now refuse s"
  shows "wf_history (history (edited fp mediator now f s))"
  using wf_history_edit [OF assms(1), of f fp mediator now] current_wf [OF assms] assms(3) keeps_limits [OF assms(2)]
  by (auto simp: edited_def same_key edit_refused_def view_None_iff current_entry_def)

lemma view_edited:
  "view (history (edited fp mediator now f s)) =
     (view (history s))((fp, mediator) \<mapsto> f (current_entry fp mediator now s))"
  using view_edit [where f = f and st = "history s" and fp = fp and mediator = mediator and now = now] by (simp add: edited_def same_key current_entry_def)

lemma outcome:
  assumes "run kc calls s = (r, s')" and "wf_history (history s)" and "admissible"
  shows "wf_history (history s') \<and> history_path (history s') = history_path (history s) \<and>
    aead_key (history s') = aead_key (history s) \<and>
    (case r of
       Inr e \<Rightarrow> e = f (current_entry fp mediator now s) \<and> view (history s') = (view (history s))((fp, mediator) \<mapsto> e) \<and>
         stored kc (history s') (volume (owner s'))
     | Inl x \<Rightarrow> store_file s' = store_file s \<and> (history s' = history s \<or>
         view (history s') = (view (history s))((fp, mediator) \<mapsto> f (current_entry fp mediator now s))))"
  using assms(1)
proof (cases rule: run_cases)
  case (refused x)
  then show ?thesis
    using assms(2) by simp
next
  case (edited r1)
  let ?s = "edited fp mediator now f s"
  have h: "history s' = history ?s"
    using persist_history [of kc calls ?s] edited(2) by simp
  note wf = edited_wf [OF assms(2,3) edited(1)]
  have limits: "\<forall>e\<in>set (records (history ?s)). valid_history_entry e" "length (records (history ?s)) \<le> 4096"
    using wf_history_valid [OF wf] wf by (simp_all add: wf_history_def)
  show ?thesis
  proof (cases r1)
    case (Inl x)
    then show ?thesis
      using edited(2,3) persist_throws [of kc calls ?s x s'] h wf view_edited [of s]
      by (simp add: store_file_def) (simp add: edited_def)
  next
    case (Inr u)
    then have "persist kc calls ?s = (Inr (), s')"
      using edited(2) by simp
    from persist_returns [OF this limits] have "stored kc (history s') (volume (owner s'))"
      using h by (metis stored_def)
    then show ?thesis
      using edited(3) Inr h wf view_edited [of s] by simp (simp add: edited_def)
  qed
qed

lemma works:
  assumes "crypto_works kc" and "entropy_works (owner s)" and "syscalls_work calls" and "wf_history (history s)"
    and "admissible" and "\<not> edit_refused fp mediator now refuse s"
    and "run kc calls s = edit kc calls fp mediator now refuse f s"
  shows "\<exists>s'. run kc calls s = (Inr (f (current_entry fp mediator now s)), s')"
proof -
  note wf = edited_wf [OF assms(4-6)]
  have "entropy_works (owner (edited fp mediator now f s))"
    using assms(2) by (simp add: edited_def)
  then obtain s' where "persist kc calls (edited fp mediator now f s) = (Inr (), s')"
    using persist_works [of kc "edited fp mediator now f s" calls] assms(1,3) wf_history_valid [OF wf] wf
    by (auto simp: wf_history_def)
  then show ?thesis
    using edit_run [where refuse = refuse, OF fresh_accepted, of s kc calls f] assms(6,7) by (simp add: sbind_def action_defs)
qed

end

section \<open>The operations meet the contract\<close>

definition op_time :: "u64 \<Rightarrow> u64 \<Rightarrow> u64" where
  "op_time clock given_now = (if given_now = 0 then clock else given_now)"

definition encounter_update :: "u64 \<Rightarrow> LocalOutcome \<Rightarrow> CounterpartyHistoryEntry \<Rightarrow> CounterpartyHistoryEntry" where
  "encounter_update now outcome e = recompute_confidence (e\<lparr>last_seen := now, encounter_count := encounter_count e + 1,
     outcome_labels := outcome_labels e @
       (if outcome \<noteq> OutcomeUnknown \<and> length (outcome_labels e) < 4096 then [outcome] else [])\<rparr>)"

interpretation encounter: history_operation
  "\<lambda>kc calls. record_encounter kc calls clock fp mediator outcome given_now" fp mediator "op_time clock given_now"
  "\<lambda>_. Inr ()" "encounter_update (op_time clock given_now) outcome" "length fp = 32"
  for clock fp mediator outcome given_now
proof
  fix kc calls s
  have "(\<lambda>e. let e = e\<lparr>last_seen := now, encounter_count := encounter_count e + 1\<rparr>;
      e = (if outcome \<noteq> OutcomeUnknown \<and> length (outcome_labels e) < 4096
           then e\<lparr>outcome_labels := outcome_labels e @ [outcome]\<rparr> else e) in recompute_confidence e) =
      encounter_update now outcome" for now
    by (auto simp: encounter_update_def Let_def)
  then show "record_encounter kc calls clock fp mediator outcome given_now s =
      edit kc calls fp mediator (op_time clock given_now) (\<lambda>_. Inr ()) (encounter_update (op_time clock given_now) outcome) s \<or>
      (\<exists>x. record_encounter kc calls clock fp mediator outcome given_now s = (Inl x, s))"
    unfolding record_encounter_def edit_unchecked op_time_def Let_def [of "if given_now = 0 then clock else given_now"]
    by simp
qed (auto simp: encounter_update_def entry_key_def wf_history_entry_def)

interpretation block: history_operation
  "\<lambda>kc calls. set_blocked kc calls clock fp mediator blocked" fp mediator clock
  "\<lambda>_. Inr ()" "\<lambda>e. e\<lparr>locally_blocked := blocked\<rparr>" "length fp = 32"
  for clock fp mediator blocked
  by unfold_locales
     (simp_all add: set_blocked_def edit_unchecked entry_key_def wf_history_entry_def)

definition note_update :: "u64 \<Rightarrow> string \<Rightarrow> CounterpartyHistoryEntry \<Rightarrow> CounterpartyHistoryEntry" where
  "note_update now text e = e\<lparr>note_list := note_list e @ [\<lparr>recorded_at = now, note_text = text\<rparr>]\<rparr>"

definition note_refused :: "CounterpartyHistoryEntry \<Rightarrow> unit result" where
  "note_refused e = throw_if (length (note_list e) \<ge> 256)
     (Invalid_argument ''counterparty already has the maximum number of notes'')"

interpretation add_note: history_operation
  "\<lambda>kc calls. add_note kc calls clock fp mediator words given_now" fp mediator "op_time clock given_now"
  note_refused "note_update (op_time clock given_now) words" "length fp = 32 \<and> length words \<le> 4096"
  for clock fp mediator words given_now
proof
  fix kc calls s
  show "add_note kc calls clock fp mediator words given_now s =
      edit kc calls fp mediator (op_time clock given_now) note_refused (note_update (op_time clock given_now) words) s \<or>
      (\<exists>x. add_note kc calls clock fp mediator words given_now s = (Inl x, s))"
    by (cases "length words > 4096")
       (simp_all add: add_note_def edit_def note_refused_def note_update_def [abs_def] op_time_def Let_def action_defs)
qed (auto simp: note_update_def note_refused_def entry_key_def wf_history_entry_def fresh_entry_def exn_simps)

definition evidence_update :: "EvidenceHash \<Rightarrow> CounterpartyHistoryEntry \<Rightarrow> CounterpartyHistoryEntry" where
  "evidence_update hash e = recompute_confidence (e\<lparr>evidence_hashes := evidence_hashes e @ [hash]\<rparr>)"

definition evidence_refused :: "CounterpartyHistoryEntry \<Rightarrow> unit result" where
  "evidence_refused e = throw_if (length (evidence_hashes e) \<ge> 256)
     (Invalid_argument ''counterparty already has the maximum number of evidence hashes'')"

interpretation evidence: history_operation
  "\<lambda>kc calls. add_evidence_hash kc calls clock fp mediator hash" fp mediator clock
  evidence_refused "evidence_update hash" "length fp = 32 \<and> length hash = 32"
  for clock fp mediator hash
  by unfold_locales
     (auto simp: add_evidence_hash_def edit_def evidence_refused_def evidence_update_def [abs_def] entry_key_def
       wf_history_entry_def fresh_entry_def exn_simps)

section \<open>A store in use\<close>

text \<open>The commands a user gives, their key, their effect on the entry and whether their arrays have the right size.\<close>

datatype history_command =
    RecordEncounter CounterpartyFingerprint string LocalOutcome u64
  | SetBlocked CounterpartyFingerprint string bool
  | AddNote CounterpartyFingerprint string string u64
  | AddEvidence CounterpartyFingerprint string EvidenceHash

fun run_command ::
  "key_crypto \<Rightarrow> syscalls \<Rightarrow> u64 \<Rightarrow> history_command \<Rightarrow> (history_state, CounterpartyHistoryEntry) action" where
  "run_command kc calls clock (RecordEncounter fp mediator outcome given_now) =
     record_encounter kc calls clock fp mediator outcome given_now"
| "run_command kc calls clock (SetBlocked fp mediator blocked) = set_blocked kc calls clock fp mediator blocked"
| "run_command kc calls clock (AddNote fp mediator text given_now) = add_note kc calls clock fp mediator text given_now"
| "run_command kc calls clock (AddEvidence fp mediator hash) = add_evidence_hash kc calls clock fp mediator hash"

fun command_key :: "history_command \<Rightarrow> CounterpartyFingerprint \<times> string" where
  "command_key (RecordEncounter fp mediator outcome given_now) = (fp, mediator)"
| "command_key (SetBlocked fp mediator blocked) = (fp, mediator)"
| "command_key (AddNote fp mediator text given_now) = (fp, mediator)"
| "command_key (AddEvidence fp mediator hash) = (fp, mediator)"

fun command_time :: "u64 \<Rightarrow> history_command \<Rightarrow> u64" where
  "command_time clock (RecordEncounter fp mediator outcome given_now) = op_time clock given_now"
| "command_time clock (AddNote fp mediator text given_now) = op_time clock given_now"
| "command_time clock _ = clock"

fun command_effect :: "u64 \<Rightarrow> history_command \<Rightarrow> CounterpartyHistoryEntry \<Rightarrow> CounterpartyHistoryEntry" where
  "command_effect clock (RecordEncounter fp mediator outcome given_now) = encounter_update (op_time clock given_now) outcome"
| "command_effect clock (SetBlocked fp mediator blocked) = (\<lambda>e. e\<lparr>locally_blocked := blocked\<rparr>)"
| "command_effect clock (AddNote fp mediator text given_now) = note_update (op_time clock given_now) text"
| "command_effect clock (AddEvidence fp mediator hash) = evidence_update hash"

fun command_sized :: "history_command \<Rightarrow> bool" where
  "command_sized (RecordEncounter fp mediator outcome given_now) \<longleftrightarrow> length fp = 32"
| "command_sized (SetBlocked fp mediator blocked) \<longleftrightarrow> length fp = 32"
| "command_sized (AddNote fp mediator text given_now) \<longleftrightarrow> length fp = 32"
| "command_sized (AddEvidence fp mediator hash) \<longleftrightarrow> length fp = 32 \<and> length hash = 32"

text \<open>The entry a command leaves for its pair.\<close>

definition updated_entry :: "u64 \<Rightarrow> history_command \<Rightarrow> history_state \<Rightarrow> CounterpartyHistoryEntry" where
  "updated_entry clock c s = command_effect clock c
     (case command_key c of (fp, mediator) \<Rightarrow> current_entry fp mediator (command_time clock c) s)"

lemma add_note_too_long: "length text > 4096 \<Longrightarrow> \<exists>x. add_note kc calls clock fp mediator text given_now s = (Inl x, s)"
  by (simp add: add_note_def action_defs)

lemma command_outcome:
  assumes "run_command kc calls clock c s = (r, s')" and "wf_history (history s)" and "command_sized c"
  shows "wf_history (history s') \<and> history_path (history s') = history_path (history s) \<and>
    aead_key (history s') = aead_key (history s) \<and>
    (case r of
       Inr e \<Rightarrow> e = updated_entry clock c s \<and> view (history s') = (view (history s))(command_key c \<mapsto> e) \<and>
         stored kc (history s') (volume (owner s'))
     | Inl x \<Rightarrow> store_file s' = store_file s \<and> (history s' = history s \<or>
         view (history s') = (view (history s))(command_key c \<mapsto> updated_entry clock c s)))"
proof (cases c)
  case (RecordEncounter fp mediator outcome given_now)
  then show ?thesis
    using assms encounter.outcome [of kc calls clock fp mediator outcome given_now s r s'] by (simp add: updated_entry_def split: sum.splits)
next
  case (SetBlocked fp mediator blocked)
  then show ?thesis
    using assms block.outcome [of kc calls clock fp mediator blocked s r s'] by (simp add: updated_entry_def split: sum.splits)
next
  case (AddNote fp mediator words given_now)
  show ?thesis
  proof (cases "length words > 4096")
    case True
    then show ?thesis
      using assms AddNote add_note_too_long [OF True, of kc calls clock fp mediator given_now s] by auto
  next
    case False
    then show ?thesis
      using assms AddNote add_note.outcome [of kc calls clock fp mediator words given_now s r s'] by (simp add: updated_entry_def split: sum.splits)
  qed
next
  case (AddEvidence fp mediator hash)
  then show ?thesis
    using assms evidence.outcome [of kc calls clock fp mediator hash s r s'] by (simp add: updated_entry_def split: sum.splits)
qed

text \<open>The keystore \<open>ks\<close> gives the key of the store.\<close>

definition keyed_by :: "key_crypto \<Rightarrow> IdentityKeystore \<Rightarrow> LocalCounterpartyHistory \<Rightarrow> bool" where
  "keyed_by kc ks st \<longleftrightarrow> (\<exists>secret. master_secret ks = Inr secret \<and>
     derive_scoped_key kc secret kLocalHistory kAeadKeyIdentifier = Inr (aead_key st))"

definition fits :: "LocalCounterpartyHistory \<Rightarrow> bool" where
  "fits st \<longleftrightarrow> length (put_history (records st)) \<le> 64 * 1024 * 1024"

lemma stored_opens:
  assumes "stored kc st fs" and "aead_opens kc" and "keyed_by kc ks st" and "wf_history st" and "reads_ok calls"
  shows "fits st \<Longrightarrow> open_history kc calls (history_path st) ks fs = Inr st"
    and "\<not> fits st \<Longrightarrow> length (put_history (records st)) < 2 ^ 32 \<Longrightarrow>
      open_history kc calls (history_path st) ks fs =
        Inl (HistoryFormatError ''history payload exceeds maximum allowed length'')"
proof -
  obtain nonce ciphertext tag where n: "length nonce = 12"
      and sealed: "evp_seal kc (aead_key st) nonce (kHistoryMagic @ put_u16 1) (put_history (records st)) = Inr (ciphertext, tag)"
      and on_disk: "fs (history_path st) = Some (put_history_file nonce ciphertext tag)"
    using assms(1) by (auto simp: stored_def)
  have c: "evp_open kc (aead_key st) nonce (kHistoryMagic @ put_u16 1) ciphertext tag = Inr (Some (put_history (records st)))"
      "length ciphertext = length (put_history (records st))" "length tag = 16"
    using assms(2) sealed by (auto simp: aead_opens_def)
  have read: "history_read_file calls (history_path st) fs = Inr (Some (put_history_file nonce ciphertext tag))"
    using on_disk assms(5) by (simp add: history_read_file_def reads_ok_def)
  have payload: "history_decode_payload (put_history (records st)) = Inr (records st)"
    using assms(4) wf_history_valid by (intro history_decode_payload_put) (simp_all add: wf_history_def)
  obtain secret where key: "master_secret ks = Inr secret"
      "derive_scoped_key kc secret kLocalHistory kAeadKeyIdentifier = Inr (aead_key st)"
    using assms(3) by (auto simp: keyed_by_def)
  show "fits st \<Longrightarrow> open_history kc calls (history_path st) ks fs = Inr st"
    using history_decode_file_put [OF n c(3)] c payload key read
    by (simp add: open_history_def history_open_def fits_def)
  show "\<not> fits st \<Longrightarrow> length (put_history (records st)) < 2 ^ 32 \<Longrightarrow> open_history kc calls (history_path st) ks fs =
      Inl (HistoryFormatError ''history payload exceeds maximum allowed length'')"
    using history_decode_file_too_long [OF n, of ciphertext tag] c(2) key read by (simp add: open_history_def fits_def)
qed

text \<open>A file is read as the bytes that would be written, so what opens is what was stored.\<close>

lemma history_decode_file_only:
  "history_decode_file bs = Inr d \<Longrightarrow>
     bs = put_history_file (history_nonce d) (history_ciphertext d) (history_tag d) \<and>
     length (history_nonce d) = 12 \<and> length (history_tag d) = 16 \<and>
     length (history_ciphertext d) \<le> 64 * 1024 * 1024 \<and> history_aad d = kHistoryMagic @ put_u16 1"
  by (clarsimp simp: history_decode_file_def put_history_file_def wire_simps exn_simps blob32.get_at)

lemma stored_opens_only:
  assumes "stored kc st fs" and "aead_opens kc" and "keyed_by kc ks st" and "wf_history st" and "reads_ok calls"
    and "open_history kc calls (history_path st) ks fs = Inr st'"
  shows "st' = st \<and> fits st"
proof -
  obtain nonce ciphertext tag where n: "length nonce = 12"
      and sealed: "evp_seal kc (aead_key st) nonce (kHistoryMagic @ put_u16 1) (put_history (records st)) = Inr (ciphertext, tag)"
      and on_disk: "fs (history_path st) = Some (put_history_file nonce ciphertext tag)"
    using assms(1) by (auto simp: stored_def)
  obtain d where "history_decode_file (put_history_file nonce ciphertext tag) = Inr d"
    using assms(5,6) on_disk by (auto simp: open_history_def history_read_file_def reads_ok_def exn_simps)
  note d = history_decode_file_only [OF this]
  have "length tag = 16" "length ciphertext = length (put_history (records st))"
    using assms(2) sealed by (auto simp: aead_opens_def)
  moreover have "length (put_history_file nonce ciphertext tag) = length (put_history_file (history_nonce d) (history_ciphertext d) (history_tag d))"
    using d by simp
  ultimately have "fits st"
    using d n by (simp add: put_history_file_def put_bytes_u32_def fits_def)
  then show ?thesis
    using stored_opens(1) [OF assms(1-5)] assms(6) by simp
qed

text \<open>
  Runs of a client: commands of the kinds allowed, with any outcome of the system calls, and restarts that
  open the store again from its file.
\<close>

inductive history_runs ::
  "key_crypto \<Rightarrow> IdentityKeystore \<Rightarrow> (history_command \<Rightarrow> bool) \<Rightarrow> history_state \<Rightarrow> history_state \<Rightarrow> bool"
  for kc ks allowed s0 where
  runs_start: "history_runs kc ks allowed s0 s0"
| runs_command: "history_runs kc ks allowed s0 s \<Longrightarrow> allowed c \<Longrightarrow> command_sized c \<Longrightarrow>
    run_command kc calls clock c s = (r, s') \<Longrightarrow> history_runs kc ks allowed s0 s'"
| runs_reopen: "history_runs kc ks allowed s0 s \<Longrightarrow> reads_ok reads \<Longrightarrow>
    open_history kc reads (history_path (history s)) ks (volume (owner s)) = Inr st \<Longrightarrow>
    history_runs kc ks allowed s0 \<lparr>history = st, owner = owner s\<rparr>"

text \<open>The invariant: the store in memory and the one on disk, if any, are well formed, and both satisfy \<open>P\<close>.\<close>

definition sound_history ::
  "key_crypto \<Rightarrow> IdentityKeystore \<Rightarrow> (LocalCounterpartyHistory \<Rightarrow> bool) \<Rightarrow> history_state \<Rightarrow> bool" where
  "sound_history kc ks P s \<longleftrightarrow> wf_history (history s) \<and> keyed_by kc ks (history s) \<and> P (history s) \<and>
     (store_file s = None \<and> P ((history s)\<lparr>records := []\<rparr>) \<or>
      (\<exists>st. stored kc st (volume (owner s)) \<and> history_path st = history_path (history s) \<and> wf_history st \<and>
         keyed_by kc ks st \<and> P st))"

lemma stored_cong: "stored kc st fs \<Longrightarrow> fs' (history_path st) = fs (history_path st) \<Longrightarrow> stored kc st fs'"
  by (simp add: stored_def)

lemma open_missing:
  "fs path = None \<Longrightarrow> open_history kc calls path ks fs = Inr st \<Longrightarrow>
     records st = [] \<and> history_path st = path \<and> keyed_by kc ks st"
  by (auto simp: open_history_def history_read_file_def keyed_by_def exn_simps)

lemma keyed_by_same: "keyed_by kc ks st \<Longrightarrow> keyed_by kc ks st' \<Longrightarrow> aead_key st' = aead_key st"
  by (auto simp: keyed_by_def)

lemma sound_history_command:
  assumes "sound_history kc ks P s" and "run_command kc calls clock c s = (r, s')" and "command_sized c"
    and step: "\<And>st. view st = (view (history s))(command_key c \<mapsto> updated_entry clock c s) \<Longrightarrow> P st"
  shows "sound_history kc ks P s'"
proof -
  note sound = assms(1) [unfolded sound_history_def]
  note out = command_outcome [OF assms(2) conjunct1 [OF sound] assms(3)]
  have keyed: "keyed_by kc ks (history s')"
    using sound out by (simp add: keyed_by_def)
  show ?thesis
  proof (cases r)
    case (Inr e)
    then show ?thesis
      using out keyed step [of "history s'"] unfolding sound_history_def by auto
  next
    case (Inl x)
    have mem: "P (history s')"
      using out Inl step [of "history s'"] sound by auto
    have "store_file s' = store_file s" "history_path (history s') = history_path (history s)"
        "aead_key (history s') = aead_key (history s)"
      using out Inl by simp_all
    moreover from this have "(history s')\<lparr>records := []\<rparr> = (history s)\<lparr>records := []\<rparr>"
      by (cases "history s'"; cases "history s") simp
    ultimately show ?thesis
      using sound out keyed mem stored_cong [of kc _ "volume (owner s)" "volume (owner s')"]
      unfolding sound_history_def store_file_def by metis
  qed
qed

lemma sound_history_reopen:
  assumes "sound_history kc ks P s" and "aead_opens kc" and "reads_ok reads"
    and "open_history kc reads (history_path (history s)) ks (volume (owner s)) = Inr st"
  shows "sound_history kc ks P \<lparr>history = st, owner = owner s\<rparr>"
proof -
  consider (none) "store_file s = None" "P ((history s)\<lparr>records := []\<rparr>)" "keyed_by kc ks (history s)"
    | (old) old :: LocalCounterpartyHistory where "stored kc old (volume (owner s))" "history_path old = history_path (history s)" "wf_history old"
        "keyed_by kc ks old" "P old"
    using assms(1) unfolding sound_history_def by metis
  then show ?thesis
  proof cases
    case none
    have st: "records st = []" "history_path st = history_path (history s)" "keyed_by kc ks st"
      using open_missing [OF none(1) [unfolded store_file_def] assms(4)] by simp_all
    then have "st = (history s)\<lparr>records := []\<rparr>"
      using keyed_by_same [OF none(3), of st] by (cases st; cases "history s") simp
    then show ?thesis
      using none st by (simp add: sound_history_def wf_history_def store_file_def)
  next
    case old
    then have "st = old"
      using stored_opens_only [OF old(1) assms(2) old(4,3) assms(3)] assms(4) by simp
    then show ?thesis
      using old by (auto simp: sound_history_def)
  qed
qed

lemma history_runs_sound:
  assumes "history_runs kc ks allowed s0 s" and "aead_opens kc" and "sound_history kc ks P s0"
    and step: "\<And>c clock s st. P (history s) \<Longrightarrow> allowed c \<Longrightarrow>
      view st = (view (history s))(command_key c \<mapsto> updated_entry clock c s) \<Longrightarrow> P st"
  shows "sound_history kc ks P s"
  using assms(1)
proof (induction rule: history_runs.induct)
  case runs_start
  show ?case
    by (rule assms(3))
next
  case (runs_command s c calls clock r s')
  have "P (history s)"
    using runs_command.IH by (simp add: sound_history_def)
  then show ?case
    using sound_history_command [OF runs_command.IH runs_command(4,3)] step runs_command(2) by blast
next
  case (runs_reopen s reads st)
  then show ?case
    using sound_history_reopen assms(2) by blast
qed

text \<open>A store that was never written starts sound, for every property of the empty store.\<close>

lemma sound_history_new:
  assumes "volume m path = None" and "open_history kc calls path ks (volume m) = Inr st" and "P st"
  shows "sound_history kc ks P \<lparr>history = st, owner = m\<rparr>"
proof -
  have st: "records st = []" "history_path st = path" "keyed_by kc ks st"
    using open_missing [OF assms(1,2)] by simp_all
  then have "st\<lparr>records := []\<rparr> = st"
    by (cases st) simp
  with assms(3) have "P (st\<lparr>records := []\<rparr>)"
    by (simp only:)
  with st show ?thesis
    using assms by (simp add: sound_history_def wf_history_def store_file_def)
qed

definition blocks :: "CounterpartyFingerprint \<Rightarrow> string \<Rightarrow> LocalCounterpartyHistory \<Rightarrow> bool" where
  "blocks fp mediator st \<longleftrightarrow> (\<exists>e. view st (fp, mediator) = Some e \<and> locally_blocked e)"

lemma command_keeps_block:
  "locally_blocked e \<Longrightarrow> (\<And>fp mediator. c \<noteq> SetBlocked fp mediator False) \<Longrightarrow> locally_blocked (command_effect clock c e)"
  by (cases c) (auto simp: encounter_update_def note_update_def evidence_update_def)

lemma blocks_step:
  assumes "blocks fp mediator (history s)" and "c \<noteq> SetBlocked fp mediator False"
    and "view st = (view (history s))(command_key c \<mapsto> updated_entry clock c s)"
  shows "blocks fp mediator st"
proof (cases "command_key c = (fp, mediator)")
  case True
  then have "\<And>g m. c \<noteq> SetBlocked g m False"
    using assms(2) by auto
  then have "locally_blocked (updated_entry clock c s)"
    using assms(1) True command_keeps_block [of _ c clock] by (auto simp: blocks_def updated_entry_def current_entry_def)
  then show ?thesis
    using assms(3) True by (simp add: blocks_def)
next
  case False
  then show ?thesis
    using assms(1,3) by (auto simp: blocks_def)
qed

end
