(* ===== verification/Vault_Examples.thy ===== *)
theory Vault_Examples
  imports Keystore_Safety History_Safety
begin

text \<open>
  A toy cipher and a machine on which the theorems on the keystore and on the counterparty history are
  applied: the tag repeats the key, so a wrong passphrase is noticed, and the generator always returns the
  same byte. Also a history store within all limits of the module whose file is too long for its reader.
\<close>

definition demo_tag :: "bytes \<Rightarrow> bytes" where
  "demo_tag key = take 16 (key @ replicate 16 0)"

definition demo_key_lib :: key_crypto where
  "demo_key_lib = \<lparr>
     evp_hkdf = (\<lambda>secret salt info n. Inr (take n (secret @ replicate n 0))),
     evp_ed25519_public = (\<lambda>seed. Inr (take 32 (seed @ replicate 32 1))),
     evp_mldsa65_public = (\<lambda>seed. Inr (replicate 1952 1)),
     evp_argon2id = (\<lambda>p salt m n l. Inr (map byte_of_char p @ salt)),
     evp_pbkdf2 = (\<lambda>p salt n. Inr (map byte_of_char p @ salt)),
     evp_seal = (\<lambda>key nonce aad plain. Inr (plain, demo_tag key)),
     evp_open = (\<lambda>key nonce aad c tag. Inr (if tag = demo_tag key then Some c else None))\<rparr>"

lemma length_demo_tag [simp]: "length (demo_tag key) = 16"
  by (simp add: demo_tag_def)

lemma demo_key_lib_works: "crypto_works demo_key_lib" "aead_opens demo_key_lib"
  by (auto simp: crypto_works_def aead_opens_def demo_key_lib_def min_def)

definition demo_calls :: syscalls where
  "demo_calls = \<lparr>open_ok = True, write_ok = True, close_ok = True, rename_ok = True\<rparr>"

definition demo_host :: keystore_env where
  "demo_host = \<lparr>argon2id_fetch = True, ks_reads = full_reads, ks_calls = demo_calls, ks_now = 1700000000\<rparr>"

definition demo_machine :: machine where
  "demo_machine = \<lparr>volume = Map.empty, entropy = (\<lambda>_. Some 5), drawn = 0\<rparr>"

lemma demo_host_works [simp]: "host_works demo_host" "syscalls_work demo_calls" "entropy_works demo_machine"
  by (simp_all add: host_works_def syscalls_work_def entropy_works_def demo_host_def demo_calls_def demo_machine_def)

section \<open>A keystore\<close>

lemma demo_created:
  obtains ks s where "create_keystore demo_key_lib demo_host ''id'' ''old'' ''me'' demo_machine = (Inr ks, s)"
  using create_works [OF demo_key_lib_works demo_host_works(1,3), of "''me''" "''id''" "''old''"]
  by (auto simp: demo_machine_def)

lemma create_entropy:
  assumes "create_keystore kc env path passphrase alias s = (r, s')"
  shows "entropy s' = entropy s"
proof -
  have random: "keeps (\<lambda>s. entropy s = v) (rand_bytes e n)" for v e n
    by (simp add: keeps_def rand_bytes_def Let_def)
  have on_volume: "keeps (\<lambda>s. entropy s = v) (on_volume m)" for v and m :: "(files, 'b) action"
    by (auto simp: keeps_def on_volume_def split: prod.splits)
  have "keeps (\<lambda>s. entropy s = v) (create_keystore kc env path passphrase alias)" for v
    unfolding create_keystore_def generate_master_secret_def build_and_write_def random_bytes_def Let_def
    by (intro keeps_intros keeps_prod keeps_if random on_volume)
  then show ?thesis
    using keeps_result [of "\<lambda>s1. entropy s1 = entropy s" "create_keystore kc env path passphrase alias" s r s'] assms
    by simp
qed

text \<open>The keystore of the example after its passphrase was changed.\<close>

lemma demo_changed:
  obtains identity s H where "keystore_use demo_key_lib ''id'' identity s ''new'' H"
proof -
  obtain ks s where c: "create_keystore demo_key_lib demo_host ''id'' ''old'' ''me'' demo_machine = (Inr ks, s)"
    by (rule demo_created)
  have "load_keystore demo_key_lib (ks_reads demo_host) ''id'' ''old'' (volume s) = Inr ks"
    using created_keystore [OF c demo_key_lib_works(2)] by (simp add: demo_host_def)
  moreover have "entropy_works s"
    using create_entropy [OF c] by (simp add: entropy_works_def demo_machine_def)
  ultimately obtain s' where "change_passphrase demo_key_lib demo_host ''id'' ''old'' ''new'' s = (Inr (), s')"
    using change_passphrase_works [OF demo_key_lib_works demo_host_works(1)] by blast
  from use_changed [OF use_created [OF c refl] this] show ?thesis
    using that by simp
qed

lemma demo_unlocks:
  obtains ks s where "load_keystore demo_key_lib full_reads ''id'' ''old'' (volume s) = Inr ks" and "entropy_works s"
    and "volume s ''bak'' = None" "volume s ''copy'' = None" and "ks_path ks = ''id''" and "ks_generation ks = 0"
proof -
  obtain ks s where c: "create_keystore demo_key_lib demo_host ''id'' ''old'' ''me'' demo_machine = (Inr ks, s)"
    by (rule demo_created)
  note ks = created_keystore [OF c demo_key_lib_works(2) reads_ok_full]
  have "volume s p = volume demo_machine p" if "p \<noteq> ''id''" "p \<noteq> ''id.tmp''" for p
    using c
  proof (cases rule: create_keystore_split)
    case (drawn i secret s1)
    from drawn(4) show ?thesis
      by (cases rule: build_and_write_cases) (use drawn(3) that in auto)
  qed simp
  then have "volume s ''bak'' = None" "volume s ''copy'' = None"
    by (simp_all add: demo_machine_def)
  then show ?thesis
    using that [of s ks] ks create_entropy [OF c] by (simp add: entropy_works_def demo_machine_def)
qed

lemma demo_copied:
  obtains s s1 t1 where "export_encrypted_backup demo_key_lib demo_host ''id'' ''bak'' ''old'' s = (Inr (), s1)"
    and "import_encrypted_backup demo_key_lib demo_host ''bak'' ''copy'' ''old'' s1 = (Inr (), t1)"
proof -
  obtain ks s where l: "load_keystore demo_key_lib full_reads ''id'' ''old'' (volume s) = Inr ks" and "entropy_works s"
      and free: "volume s ''bak'' = None" "volume s ''copy'' = None" and "ks_path ks = ''id''" "ks_generation ks = 0"
    by (rule demo_unlocks)
  obtain s1 where e: "export_encrypted_backup demo_key_lib demo_host ''id'' ''bak'' ''old'' s = (Inr (), s1)"
    using export_works [OF demo_host_works(1), of demo_key_lib "''id''" "''old''" s ks] l free(1) by (auto simp: demo_host_def)
  note out = export_outcome [OF e]
  have "load_keystore demo_key_lib full_reads ''bak'' ''old'' (volume s1) = Inr (ks\<lparr>ks_path := ''bak''\<rparr>)"
    by (rule load_copy [OF reads_ok_full _ l]) (use out in auto)
  moreover have "volume s1 ''copy'' = None"
    using out free by auto
  ultimately obtain t1 where "export_encrypted_backup demo_key_lib demo_host ''bak'' ''copy'' ''old'' s1 = (Inr (), t1)"
    using export_works [OF demo_host_works(1), of demo_key_lib "''bak''" "''old''" s1] by (auto simp: demo_host_def)
  with e that show ?thesis
    by (simp add: import_is_export)
qed

lemma demo_rotated:
  obtains ks ks' s s' where "rotate_service_scoped_key demo_key_lib demo_host ''old'' ks s = (Inr ks', s')"
    and "ks_generation ks' = 1"
proof -
  obtain ks s where l: "load_keystore demo_key_lib full_reads ''id'' ''old'' (volume s) = Inr ks" "entropy_works s"
      "volume s ''bak'' = None" "volume s ''copy'' = None" "ks_path ks = ''id''" "ks_generation ks = 0"
    by (rule demo_unlocks)
  then obtain ks' s' where r: "rotate_service_scoped_key demo_key_lib demo_host ''old'' ks s = (Inr ks', s')"
    using rotate_works [OF demo_key_lib_works demo_host_works(1) l(2) load_wf [OF l(1)], of "''old''" ks] by (auto simp: demo_host_def)
  with that show ?thesis
    using rotated_handle [OF r] l(6) by simp
qed

section \<open>A history\<close>

definition demo_fp :: CounterpartyFingerprint where
  "demo_fp = replicate 32 7"

definition demo_handle :: IdentityKeystore where
  "demo_handle = \<lparr>ks_path = ''id'', ks_version = 1, ks_identity_id = replicate 16 5, ks_alias = ''me'',
     ks_created_at = 1700000000, ks_public_key = replicate 32 5, ks_generation = 0, ks_kdf = kArgon2id,
     ks_salt = replicate 16 5, ks_memcost = 65536, ks_iterations = 3, ks_lanes = 4, ks_secret = Some (replicate 32 5)\<rparr>"

definition demo_store :: LocalCounterpartyHistory where
  "demo_store = \<lparr>history_path = ''h'', aead_key = replicate 32 5, records = []\<rparr>"

definition demo_user :: history_state where
  "demo_user = \<lparr>history = demo_store, owner = demo_machine\<rparr>"

lemma demo_history_opened: "open_history demo_key_lib full_reads ''h'' demo_handle (volume demo_machine) = Inr demo_store"
  by (simp add: open_history_def master_secret_def demo_handle_def derive_scoped_key_def encode_derivation_info_def
      hkdf_sha256_def demo_key_lib_def kLocalHistory_def kAeadKeyIdentifier_def history_read_file_def demo_machine_def
      demo_store_def)

lemma demo_sound: "P demo_store \<Longrightarrow> sound_history demo_key_lib demo_handle P demo_user"
  unfolding demo_user_def by (rule sound_history_new [OF _ demo_history_opened]) (simp_all add: demo_machine_def)

lemma demo_blocked:
  obtains e s where "run_command demo_key_lib demo_calls 9 (SetBlocked demo_fp ''m'' True) demo_user = (Inr e, s)"
proof -
  have "\<not> edit_refused demo_fp ''m'' 9 (\<lambda>_. Inr ()) demo_user"
    by (simp add: edit_refused_def view_def find_entry_def demo_user_def demo_store_def)
  then obtain s where "set_blocked demo_key_lib demo_calls 9 demo_fp ''m'' True demo_user =
      (Inr ((current_entry demo_fp ''m'' 9 demo_user)\<lparr>locally_blocked := True\<rparr>), s)"
    using block.works [OF demo_key_lib_works(1), of demo_user demo_calls demo_fp "''m''" 9 True]
    by (auto simp: demo_user_def demo_store_def wf_history_def demo_fp_def set_blocked_def edit_unchecked)
  with that show ?thesis
    by simp
qed

text \<open>Sixty-five counterparties with 256 notes of full length each: 68 megabytes.\<close>

definition demo_big_entry :: "nat \<Rightarrow> CounterpartyHistoryEntry" where
  "demo_big_entry n = \<lparr>fingerprint = replicate 32 (of_nat n), fp_scope = PerMediator, met_at = [], first_seen = 1,
     last_seen = 1, encounter_count = 0, outcome_labels = [], locally_blocked = False,
     note_list = replicate 256 \<lparr>recorded_at = 1, note_text = replicate 4096 (CHR ''x'')\<rparr>, evidence_hashes = [],
     confidence = ConfidenceUnknown\<rparr>"

definition demo_big_store :: LocalCounterpartyHistory where
  "demo_big_store = \<lparr>history_path = ''h'', aead_key = replicate 32 5, records = map demo_big_entry [0..<65]\<rparr>"

lemma demo_big_entry_length: "length (put_history_entry (demo_big_entry n)) = 1051203"
  by (simp add: put_history_entry_def demo_big_entry_def put_note_def length_concat map_replicate sum_list_replicate)

lemma demo_big_entry_wf: "wf_history_entry (demo_big_entry n)"
  by (simp add: wf_history_entry_def demo_big_entry_def earned_confidence_def recompute_confidence_def)

lemma demo_big_store_wf: "wf_history demo_big_store"
proof -
  have "inj_on (\<lambda>n. entry_key (demo_big_entry n)) {0..<65}"
    by (rule inj_onI) (auto simp: entry_key_def demo_big_entry_def unsigned_of_nat take_bit_eq_mod
        dest!: arg_cong [where f = "unat :: u8 \<Rightarrow> nat"])
  then show ?thesis
    by (simp add: wf_history_def demo_big_store_def demo_big_entry_wf distinct_map comp_def)
qed

lemma demo_big_store_size: "length (put_history (records demo_big_store)) = 68328199"
  by (simp add: put_history_def demo_big_store_def length_concat comp_def demo_big_entry_length sum_list_const_mult
      map_replicate_const sum_list_replicate)

lemma demo_big_store_stored:
  obtains fs where "stored demo_key_lib demo_big_store fs"
proof -
  let ?f = "put_history_file (replicate 12 0) (put_history (records demo_big_store)) (demo_tag (aead_key demo_big_store))"
  have "stored demo_key_lib demo_big_store [history_path demo_big_store \<mapsto> ?f]"
    unfolding stored_def by (rule exI [of _ "replicate 12 0"], rule exI [of _ "put_history (records demo_big_store)"],
        rule exI [of _ "demo_tag (aead_key demo_big_store)"]) (simp add: demo_key_lib_def)
  then show ?thesis
    by (rule that)
qed

lemma demo_big_store_keyed: "keyed_by demo_key_lib demo_handle demo_big_store"
  by (simp add: keyed_by_def master_secret_def demo_handle_def derive_scoped_key_def encode_derivation_info_def
      hkdf_sha256_def demo_key_lib_def kLocalHistory_def kAeadKeyIdentifier_def demo_big_store_def)

end
