(* ===== verification/Operator.thy ===== *)
theory Operator
  imports Lobby_Safety Disclosure
begin

text \<open>
  The side of the mediator its operator sees (\<open>src/src/lobby.cpp\<close>): the constructor of
  \<open>LobbyServer::Impl\<close>, which reads the configuration and the key files, the line protocol of the admin
  channel with its two tokens, the polling of the in-process fee plugin, and the channel on which the
  mediator proves who it is. A connection is the list of chunks that \<open>recv\<close> delivers; the result is the
  line that is sent back, if any.
\<close>

section \<open>Start-up\<close>

text \<open>What the OpenSSL layer provides for the keys: the generators, and the key of a seed.\<close>

record key_pair =
  key_seed :: bytes
  key_public :: bytes

record key_source =
  generated_ed25519 :: "key_pair result"
  generated_mldsa65 :: "key_pair result"
  generated_auth :: "key_pair result"
  ed25519_of_seed :: "bytes \<Rightarrow> key_pair result"
  mldsa65_of_seed :: "bytes \<Rightarrow> key_pair result"

definition load_or_create_mediator_receipt_key :: "key_source \<Rightarrow> key_file_calls \<Rightarrow> string \<Rightarrow> (files, key_pair) action" where
  "load_or_create_mediator_receipt_key ks =
     load_or_create_mediator_key 32 ''mediator receipt'' (generated_ed25519 ks) (ed25519_of_seed ks) key_seed"

definition load_or_create_mediator_receipt_mldsa65_key :: "key_source \<Rightarrow> key_file_calls \<Rightarrow> string \<Rightarrow> (files, key_pair) action" where
  "load_or_create_mediator_receipt_mldsa65_key ks =
     load_or_create_mediator_key 32 ''mediator receipt ML-DSA-65'' (generated_mldsa65 ks) (mldsa65_of_seed ks) key_seed"

definition load_or_create_mediator_auth_key :: "key_source \<Rightarrow> key_file_calls \<Rightarrow> string \<Rightarrow> (files, key_pair) action" where
  "load_or_create_mediator_auth_key ks =
     load_or_create_mediator_key 32 ''mediator auth'' (generated_auth ks) (mldsa65_of_seed ks) key_seed"

definition lobby_impl ::
  "environment \<Rightarrow> string \<Rightarrow> u16 \<Rightarrow> key_source \<Rightarrow> (string \<Rightarrow> key_file_calls) \<Rightarrow> (files, config \<times> FeeTerms) action" where
  "lobby_impl vars host_name port_number ks calls =
     (let var = env_or_empty vars;
          key_file = (\<lambda>load name. load ks (calls name) (var name)) in
     sbind (slift (configured_fee vars)) (\<lambda>f.
     sbind (key_file load_or_create_mediator_receipt_key ''TRADEP2P_MEDIATOR_RECEIPT_KEY_FILE'') (\<lambda>receipt_key.
     sbind (key_file load_or_create_mediator_receipt_mldsa65_key ''TRADEP2P_MEDIATOR_RECEIPT_MLDSA65_KEY_FILE'') (\<lambda>receipt_key2.
     sbind (slift (configured_admin_port vars)) (\<lambda>control_port.
     sbind (slift (configured_mediator_auth_port vars)) (\<lambda>auth_port.
     sbind (if auth_port \<noteq> None then key_file load_or_create_mediator_auth_key ''TRADEP2P_MEDIATOR_AUTH_KEY_FILE''
            else sreturn \<lparr>key_seed = [], key_public = []\<rparr>) (\<lambda>auth_key.
     sreturn (\<lparr>room_persistence_path = var ''TRADEP2P_ROOM_STATE_FILE'',
         mediator_id = configured_mediator_id vars host_name port_number,
         receipt_seed = key_seed receipt_key, receipt_public_key = key_public receipt_key,
         receipt_seed_mldsa65 = key_seed receipt_key2, receipt_public_key_mldsa65 = key_public receipt_key2,
         require_fee_confirmation = configured_require_fee_confirmation vars,
         fee_position = configured_fee_position vars,
         bind_host = host_name, bind_port = port_number, state_file = var ''TRADEP2P_LOBBY_STATE_FILE'',
         admin_token = var ''TRADEP2P_ADMIN_TOKEN'', admin_fee_token = var ''TRADEP2P_ADMIN_FEE_TOKEN'',
         admin_port = control_port, fee_persist_file = var ''TRADEP2P_FEE_CONFIG_FILE'',
         mediator_auth_port = auth_port, auth_seed = key_seed auth_key, auth_public_key = key_public auth_key,
         fee_plugin_path = var ''TRADEP2P_FEE_PLUGIN_PATH''\<rparr>, f))))))))"

section \<open>The admin channel\<close>

text \<open>\<open>catch (const std::exception& error)\<close> around a command: the text of the exception is the reply.\<close>

definition err_reply :: "(lobby, string) action \<Rightarrow> (lobby, string) action" where
  "err_reply m s = (case m s of (Inl x, s') \<Rightarrow> (Inr (''ERR '' @ what x), s') | (Inr reply, s') \<Rightarrow> (Inr reply, s'))"

definition getfee_reply :: "FeeTerms \<Rightarrow> string" where
  "getfee_reply f =
     (if FeeTerms.amount f = 0 then ''OK NONE''
      else ''OK '' @ FeeTerms.asset f @ '' '' @ to_string (unat (FeeTerms.amount f)) @ '' '' @ FeeTerms.address f)"

definition setfee_terms :: "string \<Rightarrow> string \<Rightarrow> string \<Rightarrow> FeeTerms result" where
  "setfee_terms a amount_text addr =
     (if a = ''-'' \<or> a = [] then Inr default_fee
      else case positive_decimal 64 amount_text of
        None \<Rightarrow> Inl (Invalid_argument ''invalid fee amount'')
      | Some n \<Rightarrow>
          let f = \<lparr>FeeTerms.asset = a, amount = of_nat n, address = addr\<rparr> in
          rbind (validate_fee_terms f) (\<lambda>_. Inr f))"

definition setfee_command :: "config \<Rightarrow> config_calls \<Rightarrow> string \<Rightarrow> (lobby, string) action" where
  "setfee_command cfg calls stream =
     (let (a, stream) = next_word stream; (amount_text, stream) = next_word stream; (addr, _) = next_word stream in
      err_reply (sbind (slift (setfee_terms a amount_text addr)) (\<lambda>f.
        sbind (set_fee cfg calls f) (\<lambda>_. sreturn ''OK''))))"

fun fee_listing :: "RoomId list \<Rightarrow> string \<Rightarrow> string result" where
  "fee_listing [] ids = Inr ids"
| "fee_listing (i # rest) ids =
     rbind (room_id_to_hex i) (\<lambda>h. fee_listing rest ((if ids = [] then [] else ids @ '','') @ h))"

definition listpendingfees_command :: "(lobby, string) action" where
  "listpendingfees_command =
     sbind (sget pending_fee_confirmations) (\<lambda>pending.
     if pending = [] then sreturn ''OK NONE''
     else sbind (slift (fee_listing pending [])) (\<lambda>ids. sreturn (''OK '' @ ids)))"

definition no_such_fee :: string where
  "no_such_fee = ''ERR no room with that id is waiting for fee confirmation''"

definition feedetails_command :: "string \<Rightarrow> (lobby, string) action" where
  "feedetails_command stream =
     (let (room_id_hex, _) = next_word stream in
      err_reply (sbind (slift (room_id_from_hex room_id_hex)) (\<lambda>i.
        sbind (sget pending_fee_details) (\<lambda>pending.
        case find (\<lambda>(j, _, _). j = i) pending of
          None \<Rightarrow> sreturn no_such_fee
        | Some (_, f, since) \<Rightarrow>
            sreturn (''OK '' @ FeeTerms.asset f @ '' '' @ to_string (unat (FeeTerms.amount f)) @ '' '' @
              FeeTerms.address f @ '' '' @ to_string (unat since))))))"

definition confirmfee_command :: "config \<Rightarrow> env \<Rightarrow> string \<Rightarrow> (lobby, string) action" where
  "confirmfee_command cfg e stream =
     (let (room_id_hex, _) = next_word stream in
      err_reply (sbind (slift (room_id_from_hex room_id_hex)) (\<lambda>i.
        sbind (try_confirm_fee_locked cfg e i) (\<lambda>confirmed.
        sreturn (if confirmed then ''OK'' else no_such_fee)))))"

definition admin_command :: "config \<Rightarrow> env \<Rightarrow> config_calls \<Rightarrow> string \<Rightarrow> (lobby, string) action" where
  "admin_command cfg e calls line =
     (let (command, stream) = next_word line;
          (token, stream) = next_word stream;
          full = (admin_token cfg \<noteq> [] \<and> token = admin_token cfg);
          fee_scoped_only = (\<not> full \<and> admin_fee_token cfg \<noteq> [] \<and> token = admin_fee_token cfg) in
     if \<not> full \<and> \<not> fee_scoped_only then sreturn ''ERR unauthorized''
     else if fee_scoped_only \<and> command \<noteq> ''LISTPENDINGFEES'' \<and> command \<noteq> ''FEEDETAILS'' \<and> command \<noteq> ''CONFIRMFEE''
     then sreturn ''ERR unauthorized''
     else if command = ''GETFEE'' then sbind (sget lobby.fee) (\<lambda>f. sreturn (getfee_reply f))
     else if command = ''SETFEE'' then setfee_command cfg calls stream
     else if command = ''LISTPENDINGFEES'' then listpendingfees_command
     else if command = ''FEEDETAILS'' then feedetails_command stream
     else if command = ''CONFIRMFEE'' then confirmfee_command cfg e stream
     else sreturn ''ERR unknown command'')"

definition handle_admin_connection_lobby ::
  "config \<Rightarrow> env \<Rightarrow> config_calls \<Rightarrow> string list \<Rightarrow> (lobby, string option) action" where
  "handle_admin_connection_lobby cfg e calls chunks =
     (case recv_line 4096 [] chunks of
        None \<Rightarrow> sreturn None
      | Some received \<Rightarrow>
          sbind (admin_command cfg e calls (admin_line received)) (\<lambda>reply. sreturn (Some (reply @ [CHR 0x0A]))))"

section \<open>The fee plugin\<close>

text \<open>The loaded library: its version function's result and its check function, where the symbols exist.\<close>

record fee_plugin =
  abi_version_fn :: "int option"
  check_fn :: "(string \<Rightarrow> FeeTerms \<Rightarrow> u64 \<Rightarrow> int) option"

definition int_to_string :: "int \<Rightarrow> string" where
  "int_to_string v = (if v < 0 then ''-'' @ to_string (nat (- v)) else to_string (nat v))"

definition load_fee_plugin :: "string \<Rightarrow> (string + fee_plugin) \<Rightarrow> (string \<Rightarrow> FeeTerms \<Rightarrow> u64 \<Rightarrow> int) result" where
  "load_fee_plugin path library =
     (let name = ''fee plugin '' @ [CHR 0x27] @ path @ [CHR 0x27] in
      case library of
        Inl dl_error \<Rightarrow> Inl (Runtime_error (''failed to load '' @ name @ '': '' @ dl_error))
      | Inr plugin \<Rightarrow>
          (case (abi_version_fn plugin, check_fn plugin) of
             (Some reported_version, Some checker) \<Rightarrow>
               if reported_version \<noteq> 1 then
                 Inl (Runtime_error (name @ '' reports ABI version '' @ int_to_string reported_version @ '', mediator expects 1''))
               else Inr checker
           | _ \<Rightarrow> Inl (Runtime_error
               (name @ '' is missing tradep2p_fee_plugin_abi_version or tradep2p_fee_plugin_check''))))"

text \<open>
  One round of the polling loop over the fees that were pending when it began; \<open>es i\<close> is the environment
  in which room \<open>i\<close> is confirmed. An exception ends the round and is only logged.
\<close>

fun fee_plugin_checks ::
  "config \<Rightarrow> (RoomId \<Rightarrow> env) \<Rightarrow> (string \<Rightarrow> FeeTerms \<Rightarrow> u64 \<Rightarrow> int) \<Rightarrow> (RoomId \<times> FeeTerms \<times> u64) list \<Rightarrow> (lobby, unit) action" where
  "fee_plugin_checks cfg es checker [] = sreturn ()"
| "fee_plugin_checks cfg es checker ((i, f, since) # rest) =
     sbind (slift (room_id_to_hex i)) (\<lambda>room_id_hex.
     sbind (if checker room_id_hex f since = 1 then try_confirm_fee_locked cfg (es i) i else sreturn False) (\<lambda>_.
     fee_plugin_checks cfg es checker rest))"

definition fee_plugin_round ::
  "config \<Rightarrow> (RoomId \<Rightarrow> env) \<Rightarrow> (string \<Rightarrow> FeeTerms \<Rightarrow> u64 \<Rightarrow> int) \<Rightarrow> lobby \<Rightarrow> lobby" where
  "fee_plugin_round cfg es checker s = snd (fee_plugin_checks cfg es checker (pending_fee_details s) s)"

section \<open>The channel of the mediator's own proof\<close>

definition hex_decode_fixed :: "nat \<Rightarrow> string \<Rightarrow> bytes option" where
  "hex_decode_fixed n digits =
     (if length digits \<noteq> n * 2 then None
      else case hex_pairs digits [] of Inl _ \<Rightarrow> None | Inr bs \<Rightarrow> Some bs)"

definition handle_auth_connection :: "config \<Rightarrow> env \<Rightarrow> string list \<Rightarrow> string option result" where
  "handle_auth_connection cfg e chunks =
     (case recv_line 1024 [] chunks of
        None \<Rightarrow> Inr None
      | Some received \<Rightarrow>
          let (command, stream) = next_word (admin_line received);
              (nonce_hex, _) = next_word stream in
          if command \<noteq> ''AUTH'' then Inr (Some (''ERR unknown command'' @ [CHR 0x0A]))
          else case hex_decode_fixed 32 nonce_hex of
            None \<Rightarrow> Inr (Some (''ERR nonce must be exactly '' @ to_string 64 @ '' hex characters'' @ [CHR 0x0A]))
          | Some nonce_bytes \<Rightarrow>
              let f = \<lparr>MediatorAuthFields.protocol_version = kProtocolVersion, mediator_id = config.mediator_id cfg,
                       nonce = nonce_bytes, created_at = now e, expires_at = now e + 120\<rparr> in
              rbind (sign_mediator_auth (cr e) (auth_seed cfg) f) (\<lambda>sig.
              Inr (Some (''OK '' @ config.mediator_id cfg @ '' '' @ hex (auth_public_key cfg) @ '' '' @
                to_string (unat (created_at f)) @ '' '' @ to_string (unat (expires_at f)) @ '' '' @ hex sig @
                [CHR 0x0A]))))"

end
