(* ===== verification/Operator_Safety.thy ===== *)
theory Operator_Safety
  imports Operator
begin

text \<open>
  Results on the operator's side of the mediator: a restart finds the same keys, a line does not depend on
  how it was cut into chunks, the two tokens bound what a connection can change, a fee change is in the
  file or did not happen, and the plugin only confirms what it was asked about.
\<close>

section \<open>Key files\<close>

text \<open>Documented behaviour of the key layer: the seed of a generated pair has 32 bytes and gives the pair back.\<close>

definition seeds_reload :: "key_source \<Rightarrow> bool" where
  "seeds_reload ks \<longleftrightarrow>
     (\<forall>k. generated_ed25519 ks = Inr k \<longrightarrow> length (key_seed k) = 32 \<and> ed25519_of_seed ks (key_seed k) = Inr k) \<and>
     (\<forall>k. generated_mldsa65 ks = Inr k \<longrightarrow> length (key_seed k) = 32 \<and> mldsa65_of_seed ks (key_seed k) = Inr k) \<and>
     (\<forall>k. generated_auth ks = Inr k \<longrightarrow> length (key_seed k) = 32 \<and> mldsa65_of_seed ks (key_seed k) = Inr k)"

lemma key_file_outcome:
  assumes "load_or_create_mediator_key n label gen load seed_of calls path fs = (r, fs')"
    and "path \<noteq> []" and "\<And>k. gen = Inr k \<Longrightarrow> length (seed_of k) = n \<and> load (seed_of k) = Inr k"
  shows "(fs path \<noteq> None \<longrightarrow> fs' = fs) \<and> (\<forall>p. p \<noteq> path \<longrightarrow> fs' p = fs p) \<and>
    (case r of Inl e \<Rightarrow> fs' = fs
     | Inr k \<Rightarrow> (\<exists>bs. fs' path = Some bs \<and> length (take n bs) = n \<and> load (take n bs) = Inr k))"
  using assms
  by (auto simp: load_or_create_mediator_key_def Let_def sbind_def action_defs unlink_def
      split: option.splits if_splits sum.splits)

lemma key_file_reloads:
  assumes "fs path = Some bs" and "length (take n bs) = n" and "load (take n bs) = Inr k"
    and "key_open_ok calls" and "key_read_ok calls" and "path \<noteq> []"
  shows "load_or_create_mediator_key n label gen load seed_of calls path fs = (Inr k, fs)"
  using assms by (simp add: load_or_create_mediator_key_def Let_def slift_def)

section \<open>Lines from chunks\<close>

lemma takeWhile_line:
  "CHR 0x0A \<in> set line \<Longrightarrow> takeWhile (\<lambda>c. c \<noteq> CHR 0x0A) (line @ more_text) = takeWhile (\<lambda>c. c \<noteq> CHR 0x0A) line"
  by (rule takeWhile_append1) simp_all

lemma recv_line_chunks:
  assumes "CHR 0x0A \<in> set (line @ concat chunks)" and "CHR 0x0A \<notin> set line"
    and "length (takeWhile (\<lambda>c. c \<noteq> CHR 0x0A) (line @ concat chunks)) \<le> bound"
  shows "\<exists>received. recv_line bound line chunks = Some received \<and>
    admin_line received = admin_line (line @ concat chunks)"
  using assms
proof (induction chunks arbitrary: line)
  case (Cons chunk chunks)
  let ?line = "line @ chunk"
  show ?case
  proof (cases "CHR 0x0A \<in> set ?line")
    case True
    then show ?thesis
      using takeWhile_line [OF True, of "concat chunks"] by (simp add: admin_line_def)
  next
    case False
    then have "takeWhile (\<lambda>c. c \<noteq> CHR 0x0A) (?line @ concat chunks) =
        ?line @ takeWhile (\<lambda>c. c \<noteq> CHR 0x0A) (concat chunks)"
      by (intro takeWhile_append2) auto
    with False Cons.prems have "length ?line \<le> bound"
      by simp
    with False show ?thesis
      using Cons.IH [of ?line] Cons.prems by simp
  qed
qed simp

section \<open>What a confirmation touches\<close>

lemma disk_kept:
  "keeps (\<lambda>s. disk s = d) (enqueue i t bs)"
  "keeps (\<lambda>s. disk s = d) (client_for_party room p)"
  "keeps (\<lambda>s. disk s = d) (set_room key room)"
  "keeps (\<lambda>s. disk s = d) (erase_room j)"
  "keeps (\<lambda>s. disk s = d) (record_completed_trade e tr)"
  by (auto simp: keeps_def enqueue_def client_for_party_def set_room_def erase_room_def record_completed_trade_def
      modify_client_def sbind_def action_defs Let_def split: sum.splits option.splits)

lemma file_kept:
  "(\<And>d. keeps (\<lambda>s. disk s = d) m) \<Longrightarrow> keeps (\<lambda>s. disk s path = v) m"
  unfolding keeps_def by metis

lemma persist_room_remove_file:
  assumes "path \<noteq> room_persistence_path cfg" and "path \<noteq> room_persistence_path cfg @ ''.tmp''"
  shows "keeps (\<lambda>s. disk s path = v) (persist_room_remove cfg e i)"
proof -
  have "keeps (\<lambda>s. disk s path = v) (write_persisted_rooms_locked cfg e)"
    unfolding write_persisted_rooms_locked_def using assms
    by (intro keeps_intros) (auto simp: keeps_def on_disk_def split: prod.splits dest!: write_cases)
  then show ?thesis
    unfolding persist_room_remove_def by (intro keeps_if keeps_intros keeps_smodify) simp_all
qed

lemma issue_receipt_disk: "keeps (\<lambda>s. disk s = d) (issue_receipt cfg e key room st done)"
  unfolding issue_receipt_def Let_def
  by (intro keeps_intros) (auto intro!: keeps_intros disk_kept split: option.splits ReceiptStage.splits)

lemma send_to_room_disk: "keeps (\<lambda>s. disk s = d) (send_to_room room t bs)"
proof -
  have "keeps (\<lambda>s. disk s = d) (enqueue_if c t bs)" for c
    by (cases c) (simp_all add: enqueue_if_def keeps_intros disk_kept)
  then show ?thesis
    unfolding send_to_room_def by (intro keeps_intros disk_kept)
qed

lemma try_confirm_fee_file:
  assumes "path \<noteq> room_persistence_path cfg" and "path \<noteq> room_persistence_path cfg @ ''.tmp''"
  shows "keeps (\<lambda>s. disk s path = v) (try_confirm_fee_locked cfg e i)"
  unfolding try_confirm_fee_locked_def finish_room_def Let_def using assms
  by (intro keeps_if keeps_option keeps_intros persist_room_remove_file file_kept [OF issue_receipt_disk]
      file_kept [OF send_to_room_disk] disk_kept [THEN file_kept])

lemma try_confirm_fee_view: "keeps (\<lambda>s. lobby.fee s = f) (try_confirm_fee_locked cfg e i)"
  unfolding try_confirm_fee_locked_def Let_def by (intro fee_view.frame)

text \<open>Only the room that waits for its fee is touched.\<close>

lemma try_confirm_fee_others:
  assumes "lobby_inv s" and "map_of (rooms s) k = Some room" and "try_confirm_fee_locked cfg e i s = (r, s')"
    and "hex i \<noteq> k \<or> MediatorSession.state (session room) \<noteq> WaitingForFeeConfirmation"
  shows "lobby_inv s' \<and> map_of (rooms s') k = Some room"
proof -
  have step: "keeps (others_room k room) (let x = x\<lparr>session := ses, active := False\<rparr> in
      sbind (set_room key x) (\<lambda>_. sbind (issue_receipt cfg e key x SettlementCompleted True) (\<lambda>r.
      sbind (finish_room cfg e x r) (\<lambda>_. sreturn True))))"
    if "key \<noteq> k" "room_ok key x" "confirm_fee_received (session x) = Inr ses" for key x ses
  proof -
    have "room_ok key (x\<lparr>session := ses, active := False\<rparr>)"
      using that(2,3) by (rule room_ok_confirm) simp_all
    with that(1) show ?thesis
      unfolding Let_def by (intro keeps_intros set_room_others issue_receipt_others finish_room_others)
  qed
  have s: "others_room k room s"
    using assms(1,2) by (simp add: others_room_def)
  have "wp (try_confirm_fee_locked cfg e i) (\<lambda>_. others_room k room) (\<lambda>_. others_room k room) s"
    unfolding try_confirm_fee_locked_def
    using s assms(2,4) lookup_room_ok [OF assms(1)]
    by (auto simp: wp_primitive wp_sbind [of "slift _"] wp_sbind [of "sget _"] exn_simps simp del: Let_def
        split: sum.splits option.splits intro!: keeps_wp [OF step])
  then show ?thesis
    using assms(3) by (auto simp: wp_def others_room_def split: sum.splits)
qed

section \<open>The tokens\<close>

text \<open>The command, the token and the rest of the line a connection presents, once its line is complete.\<close>

definition presented :: "string list \<Rightarrow> (string \<times> string \<times> string) option" where
  "presented chunks =
     (case recv_line 4096 [] chunks of
        None \<Rightarrow> None
      | Some received \<Rightarrow>
          (case next_word (admin_line received) of (command, stream) \<Rightarrow> Some (command, next_word stream)))"

definition requested_fee :: "string \<Rightarrow> FeeTerms result" where
  "requested_fee stream =
     (let (a, stream) = next_word stream; (amount_text, stream) = next_word stream; (addr, _) = next_word stream
      in setfee_terms a amount_text addr)"

lemma err_reply_eq:
  "err_reply m s = (r, s') \<longleftrightarrow>
     (\<exists>r1. m s = (r1, s') \<and> r = Inr (case r1 of Inl x \<Rightarrow> ''ERR '' @ what x | Inr reply \<Rightarrow> reply))"
  by (auto simp: err_reply_def split: prod.splits sum.splits)

lemma quiet_commands:
  "listpendingfees_command s = (r, s') \<Longrightarrow> s' = s"
  "feedetails_command stream s = (r, s') \<Longrightarrow> s' = s"
  by (auto simp: listpendingfees_command_def feedetails_command_def err_reply_def sbind_def action_defs Let_def
      split: if_splits sum.splits option.splits prod.splits)

lemma setfee_terms_valid: "setfee_terms a n addr = Inr f \<Longrightarrow> valid_fee f"
  by (auto simp: setfee_terms_def Let_def exn_simps valid_fee_iff default_fee_def split: if_splits option.splits)

lemma setfee_command_request:
  "setfee_command cfg calls stream =
     err_reply (sbind (slift (requested_fee stream)) (\<lambda>f. sbind (set_fee cfg calls f) (\<lambda>_. sreturn ''OK'')))"
  by (simp add: setfee_command_def requested_fee_def split: prod.splits)

lemma requested_fee_valid: "requested_fee stream = Inr f \<Longrightarrow> valid_fee f"
  by (auto simp: requested_fee_def split: prod.splits dest: setfee_terms_valid)

lemma setfee_command_outcome:
  assumes "setfee_command cfg calls stream s = (r, s')"
  obtains (refused) x where "requested_fee stream = Inl x" "r = Inr (''ERR '' @ what x)" "s' = s"
  | (tried) f r1 where "requested_fee stream = Inr f" "set_fee cfg calls f s = (r1, s')"
      "r = Inr (case r1 of Inl x \<Rightarrow> ''ERR '' @ what x | Inr _ \<Rightarrow> ''OK'')"
proof (cases "requested_fee stream")
  case (Inl x)
  with assms show ?thesis
    by (intro refused) (auto simp: setfee_command_request err_reply_eq action_defs)
next
  case (Inr f)
  obtain r1 s1 where "set_fee cfg calls f s = (r1, s1)"
    by fastforce
  with assms Inr show ?thesis
    by (intro tried [of f r1]) (auto simp: setfee_command_request err_reply_eq sbind_def action_defs split: sum.splits)
qed

lemma confirmfee_command_outcome:
  assumes "confirmfee_command cfg e stream s = (r, s')"
  obtains "s' = s" | i r1 where "try_confirm_fee_locked cfg e i s = (r1, s')"
  using assms
  by (auto simp: confirmfee_command_def err_reply_eq sbind_def action_defs
      split: prod.splits sum.splits)

lemma admin_command_outcome:
  assumes "admin_command cfg e calls line s = (r, s')"
    and "next_word line = (command, stream)" and "next_word stream = (token, rest)"
  obtains (unchanged) "s' = s"
  | (setfee) "token = admin_token cfg" "command = ''SETFEE''" "setfee_command cfg calls rest s = (r, s')"
  | (confirm) i r1 where "command = ''CONFIRMFEE''" "token \<in> {admin_token cfg, admin_fee_token cfg}"
      "try_confirm_fee_locked cfg e i s = (r1, s')"
  using assms
  by (auto simp: admin_command_def action_defs Let_def split: if_splits dest: quiet_commands
      elim!: confirmfee_command_outcome)

lemma connection_line:
  assumes "presented chunks = Some (command, token, rest)"
    and "handle_admin_connection_lobby cfg e calls chunks s = (r, s')"
  obtains line stream r1 where "next_word line = (command, stream)" "next_word stream = (token, rest)"
    "admin_command cfg e calls line s = (r1, s')"
    "r = (case r1 of Inl x \<Rightarrow> Inl x | Inr reply \<Rightarrow> Inr (Some (reply @ [CHR 0x0A])))"
proof -
  obtain received stream where 1: "recv_line 4096 [] chunks = Some received"
    "next_word (admin_line received) = (command, stream)" "next_word stream = (token, rest)"
    using assms(1) by (auto simp: presented_def split: option.splits prod.splits)
  obtain r1 s1 where 2: "admin_command cfg e calls (admin_line received) s = (r1, s1)"
    by fastforce
  have "s1 = s'" "r = (case r1 of Inl x \<Rightarrow> Inl x | Inr reply \<Rightarrow> Inr (Some (reply @ [CHR 0x0A])))"
    using assms(2) 1(1) 2 by (auto simp: handle_admin_connection_lobby_def sbind_def action_defs split: sum.splits)
  with 1 2 show thesis
    by (intro that [of "admin_line received" stream r1]) simp_all
qed

lemma command_refused:
  assumes "next_word line = (command, stream)" and "next_word stream = (token, rest)"
    and "token = [] \<or> token \<noteq> admin_token cfg"
    and "token = [] \<or> token \<noteq> admin_fee_token cfg \<or>
      command \<notin> {''LISTPENDINGFEES'', ''FEEDETAILS'', ''CONFIRMFEE''}"
  shows "admin_command cfg e calls line = sreturn ''ERR unauthorized''"
proof -
  have "\<not> (admin_token cfg \<noteq> [] \<and> token = admin_token cfg)"
    using assms(3) by auto
  then show ?thesis
    using assms(1,2,4) by (auto simp: admin_command_def Let_def)
qed

lemma connection_refused:
  assumes "presented chunks = Some (command, token, rest)"
    and "handle_admin_connection_lobby cfg e calls chunks s = (r, s')"
    and "token = [] \<or> token \<noteq> admin_token cfg"
    and "token = [] \<or> token \<noteq> admin_fee_token cfg \<or>
      command \<notin> {''LISTPENDINGFEES'', ''FEEDETAILS'', ''CONFIRMFEE''}"
  shows "r = Inr (Some (''ERR unauthorized'' @ [CHR 0x0A])) \<and> s' = s"
  using assms(1,2)
proof (rule connection_line)
  fix line stream r1
  assume "next_word line = (command, stream)" "next_word stream = (token, rest)"
    and run: "admin_command cfg e calls line s = (r1, s')"
    and r: "r = (case r1 of Inl x \<Rightarrow> Inl x | Inr reply \<Rightarrow> Inr (Some (reply @ [CHR 0x0A])))"
  then have "admin_command cfg e calls line = sreturn ''ERR unauthorized''"
    using assms(3,4) by (intro command_refused)
  with run r show ?thesis
    by (auto simp: sreturn_def)
qed

text \<open>Everything a connection changes, by the token it presented.\<close>

lemma connection_changes:
  assumes "lobby_inv s" and "presented chunks = Some (command, token, rest)"
    and "handle_admin_connection_lobby cfg e calls chunks s = (r, s')"
    and "fee_persist_file cfg \<noteq> room_persistence_path cfg" and "fee_persist_file cfg \<noteq> room_persistence_path cfg @ ''.tmp''"
    and "token \<noteq> admin_token cfg"
  shows "lobby.fee s' = lobby.fee s \<and> disk s' (fee_persist_file cfg) = disk s (fee_persist_file cfg) \<and>
    (\<forall>k room. map_of (rooms s) k = Some room \<longrightarrow>
       MediatorSession.state (session room) \<noteq> WaitingForFeeConfirmation \<longrightarrow> map_of (rooms s') k = Some room)"
  using assms(2,3)
proof (rule connection_line)
  fix line stream r1
  assume words: "next_word line = (command, stream)" "next_word stream = (token, rest)"
    and run: "admin_command cfg e calls line s = (r1, s')"
  show ?thesis
    using run words
  proof (cases rule: admin_command_outcome)
    case (confirm i r2)
    have "lobby.fee s' = lobby.fee s"
      using keeps_result [OF try_confirm_fee_view _ confirm(3)] by blast
    moreover have "disk s' (fee_persist_file cfg) = disk s (fee_persist_file cfg)"
      using keeps_result [OF try_confirm_fee_file [OF assms(4,5)] _ confirm(3)] by blast
    ultimately show ?thesis
      using try_confirm_fee_others [OF assms(1) _ confirm(3)] by blast
  qed (use assms(6) in simp_all)
qed

lemma connection_serves:
  assumes "serves cfg s" and "handle_admin_connection_lobby cfg e calls chunks s = (r, s')"
  shows "serves cfg s'"
proof (cases "presented chunks")
  case None
  then show ?thesis
    using assms by (auto simp: presented_def handle_admin_connection_lobby_def sreturn_def split: option.splits prod.splits)
next
  case (Some p)
  obtain command token rest where "presented chunks = Some (command, token, rest)"
    using Some by (cases p) simp
  from this assms(2) show ?thesis
  proof (rule connection_line)
    fix line stream r1
    assume "admin_command cfg e calls line s = (r1, s')"
      "next_word line = (command, stream)" "next_word stream = (token, rest)"
    then show ?thesis
    proof (cases rule: admin_command_outcome)
      case setfee
      from setfee(3) show ?thesis
        by (rule setfee_command_outcome) (use assms(1) in \<open>auto intro: serves_set_fee\<close>)
    qed (use assms(1) in \<open>auto intro: serves_confirm_fee\<close>)
  qed
qed

section \<open>Changing the fee\<close>

text \<open>A change that is reported as done is in force and in the file; one that is refused changed nothing.\<close>

definition fee_saved :: "config \<Rightarrow> FeeTerms \<Rightarrow> lobby \<Rightarrow> lobby \<Rightarrow> bool" where
  "fee_saved cfg f s s' \<longleftrightarrow>
     (\<exists>bs bs'. disk s (fee_persist_file cfg) = Some bs \<and> disk s' = (disk s)(fee_persist_file cfg \<mapsto> bs') \<and>
        has_fee_lines (file_lines bs) \<and> file_lines bs' = map (fee_line f) (file_lines bs))"

lemma set_fee_outcome:
  assumes "set_fee cfg calls f s = (r, s')" and "valid_fee f" and "rewritten calls = None"
  shows "case r of Inl e \<Rightarrow> s' = s
    | Inr _ \<Rightarrow> s' = s\<lparr>lobby.fee := f, disk := disk s'\<rparr> \<and>
        (if fee_persist_file cfg = [] then disk s' = disk s else fee_saved cfg f s s')"
proof (cases "fee_persist_file cfg = []")
  case True
  then show ?thesis
    using assms(1) by (auto simp: set_fee_def action_defs)
next
  case False
  obtain r1 fs where run: "persist_fee_to_file calls (fee_persist_file cfg) f (disk s) = (r1, fs)"
    by fastforce
  show ?thesis
    using persist_fee_outcome [OF run] assms(1,3) run False saved_lines [OF assms(2)]
    by (auto simp: set_fee_def sbind_def action_defs on_disk_def fee_saved_def Let_def split: sum.splits) blast
qed

lemma fee_saved_restart:
  assumes "fee_saved cfg f s s'" and "valid_fee f" and "shell_literal (FeeTerms.address f)"
  obtains bs' where "disk s' (fee_persist_file cfg) = Some bs'" "configured_fee (exported (file_lines bs')) = Inr f"
  using assms(1) saved_fee_is_configured [OF assms(2,3)] by (auto simp: fee_saved_def)

lemma fee_saved_others:
  assumes "fee_saved cfg f s s'"
  obtains bs bs' where "disk s (fee_persist_file cfg) = Some bs" "disk s' (fee_persist_file cfg) = Some bs'"
    "filter (\<lambda>l. \<not> is_fee_line l) (file_lines bs') = filter (\<lambda>l. \<not> is_fee_line l) (file_lines bs)"
proof -
  have "filter (\<lambda>l. \<not> is_fee_line l) (map (fee_line f) ls) = filter (\<lambda>l. \<not> is_fee_line l) ls" for ls
    by (induction ls) (auto simp: fee_line_of(4), simp_all add: is_fee_line_def)
  then show thesis
    using assms that by (auto simp: fee_saved_def)
qed

lemma connection_setfee:
  assumes "presented chunks = Some (''SETFEE'', admin_token cfg, rest)" and "admin_token cfg \<noteq> []"
    and "handle_admin_connection_lobby cfg e calls chunks s = (r, s')"
  obtains reply where "setfee_command cfg calls rest s = (Inr reply, s')" "r = Inr (Some (reply @ [CHR 0x0A]))"
  using assms(1,3)
proof (rule connection_line)
  fix line stream r1
  assume "next_word line = (''SETFEE'', stream)" "next_word stream = (admin_token cfg, rest)"
    and run: "admin_command cfg e calls line s = (r1, s')"
    and r: "r = (case r1 of Inl x \<Rightarrow> Inl x | Inr reply \<Rightarrow> Inr (Some (reply @ [CHR 0x0A])))"
  then have "setfee_command cfg calls rest s = (r1, s')"
    using assms(2) by (simp add: admin_command_def Let_def)
  moreover from this obtain reply where "r1 = Inr reply"
    by (auto simp: setfee_command_request err_reply_eq)
  ultimately show thesis
    using that r by simp
qed

text \<open>The outcome of a fee change over the admin channel, where the file could be written in full.\<close>

lemma connection_setfee_outcome:
  assumes "presented chunks = Some (''SETFEE'', admin_token cfg, rest)" and "admin_token cfg \<noteq> []"
    and "handle_admin_connection_lobby cfg e calls chunks s = (r, s')"
    and "rewritten calls = None" and "fee_persist_file cfg \<noteq> []"
  obtains (refused) why where "r = Inr (Some (''ERR '' @ why @ [CHR 0x0A]))" "s' = s"
  | (accepted) f where "r = Inr (Some (''OK'' @ [CHR 0x0A]))" "requested_fee rest = Inr f" "valid_fee f"
      "s' = s\<lparr>lobby.fee := f, disk := disk s'\<rparr>" "fee_saved cfg f s s'"
proof -
  obtain reply where reply: "setfee_command cfg calls rest s = (Inr reply, s')" "r = Inr (Some (reply @ [CHR 0x0A]))"
    using assms(1-3) by (rule connection_setfee)
  from reply(1) show thesis
  proof (cases rule: setfee_command_outcome)
    case (refused x)
    then show ?thesis
      using reply(2) that(1) by simp
  next
    case (tried f r1)
    note set_fee_outcome [OF tried(2) requested_fee_valid [OF tried(1)] assms(4)]
    then show ?thesis
      using tried reply(2) assms(5) that requested_fee_valid [OF tried(1)] by (cases r1) simp_all
  qed
qed

section \<open>Restarting the mediator\<close>

text \<open>The seeds in the files survive: a start that finds them takes the same keys and writes nothing.\<close>

definition same_seeds :: "key_source \<Rightarrow> key_source \<Rightarrow> bool" where
  "same_seeds ks ks' \<longleftrightarrow> ed25519_of_seed ks' = ed25519_of_seed ks \<and> mldsa65_of_seed ks' = mldsa65_of_seed ks"

definition key_files :: "environment \<Rightarrow> string set" where
  "key_files vars = env_or_empty vars ` {''TRADEP2P_MEDIATOR_RECEIPT_KEY_FILE'',
     ''TRADEP2P_MEDIATOR_RECEIPT_MLDSA65_KEY_FILE'', ''TRADEP2P_MEDIATOR_AUTH_KEY_FILE''}"

lemma key_file_persists:
  assumes "load_or_create_mediator_key n label gen load seed_of calls path fs = (Inr k, fs1)"
    and "path \<noteq> []" and "\<And>k. gen = Inr k \<Longrightarrow> length (seed_of k) = n \<and> load (seed_of k) = Inr k"
    and "key_open_ok calls'" and "key_read_ok calls'" and "fs2 path = fs1 path"
  shows "load_or_create_mediator_key n label gen' load seed_of calls' path fs2 = (Inr k, fs2)"
  using key_file_outcome [OF assms(1-3)] assms(2,4-6) by (auto intro!: key_file_reloads)

lemma key_file_stays:
  assumes "load_or_create_mediator_key n label gen load seed_of calls path fs = (Inr k, fs1)"
    and "path \<noteq> []" and "\<And>k. gen = Inr k \<Longrightarrow> length (seed_of k) = n \<and> load (seed_of k) = Inr k"
    and "fs p \<noteq> None"
  shows "fs1 p = fs p"
  using key_file_outcome [OF assms(1-3)] assms(4) by (cases "p = path") auto

lemma key_file_written:
  assumes "load_or_create_mediator_key n label gen load seed_of calls path fs = (Inr k, fs1)"
    and "path \<noteq> []" and "\<And>k. gen = Inr k \<Longrightarrow> length (seed_of k) = n \<and> load (seed_of k) = Inr k"
  shows "fs1 path \<noteq> None"
  using key_file_outcome [OF assms] by auto

lemmas mediator_key_defs = load_or_create_mediator_receipt_key_def load_or_create_mediator_receipt_mldsa65_key_def
  load_or_create_mediator_auth_key_def

text \<open>The third key is only loaded where its channel is configured.\<close>

lemma optional_key:
  assumes "(if auth \<noteq> None then load_or_create_mediator_auth_key ks calls path else sreturn none) fs = (Inr k, fs1)"
    and "path \<noteq> []" and "seeds_reload ks"
  shows "fs p \<noteq> None \<Longrightarrow> fs1 p = fs p"
    and "same_seeds ks ks' \<Longrightarrow> key_open_ok calls' \<Longrightarrow> key_read_ok calls' \<Longrightarrow> fs2 path = fs1 path \<Longrightarrow>
      (if auth \<noteq> None then load_or_create_mediator_auth_key ks' calls' path else sreturn none) fs2 = (Inr k, fs2)"
proof -
  have gen: "generated_auth ks = Inr k \<Longrightarrow> length (key_seed k) = 32 \<and> mldsa65_of_seed ks (key_seed k) = Inr k" for k
    using assms(3) by (simp add: seeds_reload_def)
  show "fs1 p = fs p" if "fs p \<noteq> None"
  proof (cases auth)
    case (Some a)
    then have "load_or_create_mediator_auth_key ks calls path fs = (Inr k, fs1)"
      using assms(1) by simp
    then show ?thesis
      unfolding mediator_key_defs by (rule key_file_stays) (use assms(2) gen that in auto)
  qed (use assms(1) in \<open>simp add: sreturn_def\<close>)
  assume same: "same_seeds ks ks'" and reads: "key_open_ok calls'" "key_read_ok calls'" and kept: "fs2 path = fs1 path"
  show "(if auth \<noteq> None then load_or_create_mediator_auth_key ks' calls' path else sreturn none) fs2 = (Inr k, fs2)"
  proof (cases auth)
    case (Some a)
    then have "load_or_create_mediator_auth_key ks calls path fs = (Inr k, fs1)"
      using assms(1) by simp
    then have "load_or_create_mediator_key 32 ''mediator auth'' (generated_auth ks') (mldsa65_of_seed ks) key_seed calls' path fs2 =
        (Inr k, fs2)"
      unfolding mediator_key_defs by (rule key_file_persists) (use assms(2) gen reads kept in auto)
    then show ?thesis
      using same Some by (simp add: mediator_key_defs same_seeds_def)
  qed (use assms(1) in \<open>simp add: sreturn_def\<close>)
qed

lemma restart_finds_keys:
  assumes start: "lobby_impl vars h p ks calls fs = (Inr (cfg, f), fs1)"
    and paths: "[] \<notin> key_files vars" and seeds: "seeds_reload ks" "same_seeds ks ks'"
    and reads: "\<And>name. key_open_ok (calls' name)" "\<And>name. key_read_ok (calls' name)"
    and kept: "\<And>path. path \<in> key_files vars \<Longrightarrow> fs2 path = fs1 path"
  shows "lobby_impl vars h p ks' calls' fs2 = (Inr (cfg, f), fs2)"
proof -
  let ?var = "env_or_empty vars"
  let ?p1 = "?var ''TRADEP2P_MEDIATOR_RECEIPT_KEY_FILE''" and ?p2 = "?var ''TRADEP2P_MEDIATOR_RECEIPT_MLDSA65_KEY_FILE''"
    and ?p3 = "?var ''TRADEP2P_MEDIATOR_AUTH_KEY_FILE''"
  have ne: "?p1 \<noteq> []" "?p2 \<noteq> []" "?p3 \<noteq> []"
    using paths by (auto simp: key_files_def)
  have gen: "\<And>k. generated_ed25519 ks = Inr k \<Longrightarrow> length (key_seed k) = 32 \<and> ed25519_of_seed ks (key_seed k) = Inr k"
    "\<And>k. generated_mldsa65 ks = Inr k \<Longrightarrow> length (key_seed k) = 32 \<and> mldsa65_of_seed ks (key_seed k) = Inr k"
    using seeds(1) by (auto simp: seeds_reload_def)
  obtain k1 k2 k3 s1 s2 port auth where
    k1: "load_or_create_mediator_receipt_key ks (calls ''TRADEP2P_MEDIATOR_RECEIPT_KEY_FILE'') ?p1 fs = (Inr k1, s1)"
    and k2: "load_or_create_mediator_receipt_mldsa65_key ks (calls ''TRADEP2P_MEDIATOR_RECEIPT_MLDSA65_KEY_FILE'') ?p2 s1 = (Inr k2, s2)"
    and auth: "configured_mediator_auth_port vars = Inr auth"
    and k3: "(if auth \<noteq> None then load_or_create_mediator_auth_key ks (calls ''TRADEP2P_MEDIATOR_AUTH_KEY_FILE'') ?p3
        else sreturn \<lparr>key_seed = [], key_public = []\<rparr>) s2 = (Inr k3, fs1)"
    using start by (auto simp: lobby_impl_def Let_def returns_simps simp del: sbind_simps sbind_slift)
  have at1: "s1 ?p1 \<noteq> None" and at2: "s2 ?p2 \<noteq> None"
    using key_file_written [OF k1 [unfolded mediator_key_defs] ne(1) gen(1)]
      key_file_written [OF k2 [unfolded mediator_key_defs] ne(2) gen(2)] by simp_all
  have "s2 ?p1 = s1 ?p1"
    using key_file_stays [OF k2 [unfolded mediator_key_defs] ne(2) gen(2) at1] .
  then have "fs2 ?p1 = s1 ?p1" "fs2 ?p2 = s2 ?p2"
    using kept optional_key(1) [OF k3 ne(3) seeds(1)] at1 at2 by (auto simp: key_files_def)
  then have "load_or_create_mediator_receipt_key ks' (calls' ''TRADEP2P_MEDIATOR_RECEIPT_KEY_FILE'') ?p1 fs2 = (Inr k1, fs2)"
    "load_or_create_mediator_receipt_mldsa65_key ks' (calls' ''TRADEP2P_MEDIATOR_RECEIPT_MLDSA65_KEY_FILE'') ?p2 fs2 = (Inr k2, fs2)"
    using key_file_persists [OF k1 [unfolded mediator_key_defs] ne(1) gen(1) reads]
      key_file_persists [OF k2 [unfolded mediator_key_defs] ne(2) gen(2) reads] seeds(2)
    by (simp_all add: mediator_key_defs same_seeds_def)
  moreover have "(if auth \<noteq> None then load_or_create_mediator_auth_key ks' (calls' ''TRADEP2P_MEDIATOR_AUTH_KEY_FILE'') ?p3
      else sreturn \<lparr>key_seed = [], key_public = []\<rparr>) fs2 = (Inr k3, fs2)"
    by (rule optional_key(2) [OF k3 ne(3) seeds]) (use reads kept in \<open>simp_all add: key_files_def\<close>)
  ultimately show ?thesis
    using start k1 k2 k3 auth
    by (auto simp: lobby_impl_def Let_def returns_simps simp del: sbind_simps sbind_slift)
qed

section \<open>The fee plugin\<close>

lemma fee_plugin_checks_others:
  assumes "lobby_inv s" and "map_of (rooms s) k = Some room"
    and "\<forall>(i, f, since)\<in>set ds. hex i = k \<longrightarrow> checker k f since \<noteq> 1"
  shows "map_of (rooms (snd (fee_plugin_checks cfg es checker ds s))) k = Some room"
  using assms
proof (induction ds arbitrary: s)
  case (Cons d ds)
  obtain i f since where d: "d = (i, f, since)"
    by (cases d)
  show ?case
  proof (cases "nonzero i \<and> checker (hex i) f since = 1")
    case True
    obtain r s1 where run: "try_confirm_fee_locked cfg (es i) i s = (r, s1)"
      by fastforce
    have "hex i \<noteq> k"
      using True Cons.prems(3) d by auto
    then have "lobby_inv s1 \<and> map_of (rooms s1) k = Some room"
      using try_confirm_fee_others [OF Cons.prems(1,2) run] by blast
    moreover have "room_id_to_hex i = Inr (hex i)"
      using True by (simp add: to_hex_ok)
    ultimately show ?thesis
      using Cons.IH Cons.prems(3) True run d by (cases r) (auto simp: sbind_def [of "try_confirm_fee_locked _ _ _"])
  next
    case False
    then show ?thesis
      using Cons.IH [OF Cons.prems(1,2)] Cons.prems(2,3) d
      by (cases "room_id_to_hex i") (auto simp: action_defs dest: to_hex_ok [THEN iffD1])
  qed
qed (simp add: sreturn_def)

lemma pending_since_room:
  assumes "lobby_inv s" and "map_of (rooms s) k = Some room" and "(i, f, since) \<in> set (pending_fee_details s)" and "hex i = k"
  shows "f = MediatorSession.fee (session room) \<and> MediatorSession.state (session room) = WaitingForFeeConfirmation \<and>
    since = (case fee_confirmation_pending_since room of None \<Rightarrow> 0 | Some t \<Rightarrow> t)"
proof -
  obtain key other where other: "(key, other) \<in> set (rooms s)" "i = rid other"
    "MediatorSession.state (session other) = WaitingForFeeConfirmation" "f = MediatorSession.fee (session other)"
    "since = (case fee_confirmation_pending_since other of None \<Rightarrow> 0 | Some t \<Rightarrow> t)"
    using assms(3) by (auto simp: pending_fee_details_def)
  then have "key = k"
    using assms(1,4) by (auto simp: lobby_inv_def rooms_inv_def room_ok_def)
  then have "other = room"
    using other(1) assms(1,2) by (auto simp: lobby_inv_def rooms_inv_def dest: map_of_is_SomeI)
  with other show ?thesis
    by simp
qed

lemma plugin_only_confirms_paid:
  assumes "lobby_inv s" and "map_of (rooms s) k = Some room"
    and "MediatorSession.state (session room) \<noteq> WaitingForFeeConfirmation \<or>
      checker k (MediatorSession.fee (session room))
        (case fee_confirmation_pending_since room of None \<Rightarrow> 0 | Some t \<Rightarrow> t) \<noteq> 1"
  shows "map_of (rooms (fee_plugin_round cfg es checker s)) k = Some room"
  unfolding fee_plugin_round_def
  using pending_since_room [OF assms(1,2)] assms by (intro fee_plugin_checks_others) fastforce+

section \<open>The mediator's proof\<close>

lemma next_word_words:
  assumes "\<forall>c\<in>set w. \<not> isspace c" and "w \<noteq> []"
  shows "next_word w = (w, [])" and "isspace c \<Longrightarrow> next_word (w @ c # rest) = (w, c # rest)"
    and "isspace c \<Longrightarrow> next_word (c # v) = next_word v"
  using assms by (cases w; auto simp: next_word_def Let_def dropWhile_append3)+

lemma hex_no_space: "\<forall>c\<in>set (hex bs). \<not> isspace c"
proof -
  have "\<not> isspace (hex_digit n)" if "n < 16" for n
    using that by (auto simp: hex_digit_def isspace_def)
  moreover have "unat b div 16 < 16 \<and> unat b mod 16 < 16" for b :: u8
    using unsigned_less [of b, where ?'a = nat] by simp
  ultimately show ?thesis
    by (auto simp: hex_def hex_byte_def)
qed

lemma hex_length: "length (hex bs) = 2 * length bs"
  by (induction bs) (simp_all add: hex_def hex_byte_def)

lemma hex_decode_hex: "length bs = n \<Longrightarrow> hex_decode_fixed n (hex bs) = Some bs"
  using hex_pairs_hex_byte [of bs "[]"] by (simp add: hex_decode_fixed_def hex_length) (simp add: hex_def)

lemma auth_request:
  assumes "concat chunks = ''AUTH '' @ hex nonce_bytes @ [CHR 0x0A]" and "length nonce_bytes = 32"
  shows "\<exists>received stream. recv_line 1024 [] chunks = Some received \<and>
    next_word (admin_line received) = (''AUTH'', stream) \<and> fst (next_word stream) = hex nonce_bytes"
proof -
  let ?line = "''AUTH '' @ hex nonce_bytes"
  have space: "isspace (CHR 0x0A)" "isspace (CHR 0x0D)" "isspace (CHR '' '')"
    by (simp_all add: isspace_def)
  have nl: "CHR 0x0A \<notin> set ?line" and ne: "hex nonce_bytes \<noteq> []"
    using hex_no_space [of nonce_bytes] space(1) assms(2) hex_length [of nonce_bytes] by auto
  have cr: "last ?line \<noteq> CHR 0x0D"
    using hex_no_space last_in_set [OF ne] space(2) ne by (metis last_appendR)
  have line: "takeWhile (\<lambda>c. c \<noteq> CHR 0x0A) (?line @ [CHR 0x0A]) = ?line"
    using nl by (intro span_separator(1)) simp
  then have "admin_line (?line @ [CHR 0x0A]) = ?line"
    using cr by (simp only: admin_line_def Let_def) simp
  moreover have "length ?line \<le> 1024"
    using assms(2) by (simp add: hex_length)
  ultimately obtain received where "recv_line 1024 [] chunks = Some received" "admin_line received = ?line"
    using recv_line_chunks [of "[]" chunks 1024] assms(1) line by auto
  moreover have "next_word ?line = (''AUTH'', '' '' @ hex nonce_bytes)"
    using next_word_words(2) [of "''AUTH''" "CHR '' ''" "hex nonce_bytes"] by (simp add: isspace_def)
  moreover have "next_word ('' '' @ hex nonce_bytes) = (hex nonce_bytes, [])"
    using next_word_words(1,3) [OF hex_no_space ne] space(3) by simp
  ultimately show ?thesis
    by auto
qed

text \<open>The reply to a request, whatever the chunks it came in, is a proof for the nonce of that request.\<close>

definition auth_fields :: "config \<Rightarrow> u64 \<Rightarrow> bytes \<Rightarrow> MediatorAuthFields" where
  "auth_fields cfg t nonce_bytes = \<lparr>MediatorAuthFields.protocol_version = kProtocolVersion,
     mediator_id = config.mediator_id cfg, nonce = nonce_bytes, created_at = t, expires_at = t + 120\<rparr>"

lemma auth_reply:
  assumes "concat chunks = ''AUTH '' @ hex nonce_bytes @ [CHR 0x0A]" and "length nonce_bytes = 32"
    and "sign_mediator_auth (cr e) (auth_seed cfg) (auth_fields cfg (now e) nonce_bytes) = Inr sig"
  shows "handle_auth_connection cfg e chunks =
    Inr (Some (''OK '' @ config.mediator_id cfg @ '' '' @ hex (auth_public_key cfg) @ '' '' @
      to_string (unat (now e)) @ '' '' @ to_string (unat (now e + 120)) @ '' '' @ hex sig @ [CHR 0x0A]))"
proof -
  obtain received stream where "recv_line 1024 [] chunks = Some received"
    "next_word (admin_line received) = (''AUTH'', stream)" "fst (next_word stream) = hex nonce_bytes"
    using auth_request [OF assms(1,2)] by blast
  then show ?thesis
    using assms(2,3)
    by (cases "next_word stream") (simp add: handle_auth_connection_def hex_decode_hex auth_fields_def)
qed

lemma auth_signature_verifies:
  assumes "sign_mediator_auth c seed f = Inr sig"
    and "\<And>m sig. mldsa65_sign c seed m = Inr sig \<Longrightarrow> mldsa65_verify c key m sig = Inr True"
  shows "verify_mediator_auth c key f sig = Inr True"
  using assms by (auto simp: sign_mediator_auth_def verify_mediator_auth_def exn_simps)

end
