(* ===== verification/Operator_Examples.thy ===== *)
theory Operator_Examples
  imports Examples Operator_Safety
begin

text \<open>A configuration file, key files and connections on which the results about the operator are applied.\<close>

definition newline :: string where
  "newline = [CHR 0x0A]"

definition demo_conf_lines :: "string list" where
  "demo_conf_lines = [''# mediator'', ''FEE_ASSET='' @ quoted [], ''FEE_AMOUNT='' @ quoted [], ''ADMIN_TOKEN='' @ quoted ''root'',
     ''FEE_ADDRESS='' @ quoted []]"

definition demo_conf :: bytes where
  "demo_conf = map byte_of_char (put_lines demo_conf_lines)"

definition demo_operated :: lobby where
  "demo_operated = empty_lobby default_fee [''conf'' \<mapsto> demo_conf]"

definition demo_config_calls :: config_calls where
  "demo_config_calls = \<lparr>config_open_ok = True, rewrite_open_ok = True, rewritten = None\<rparr>"

definition demo_setfee :: "string \<Rightarrow> string \<Rightarrow> string list" where
  "demo_setfee token addr = [''SETF'', ''EE '' @ token @ '' BTC 5'', '' '' @ addr @ newline]"

text \<open>Keys whose public half is the seed, in a process that has them in three files.\<close>

definition demo_pair :: "u8 \<Rightarrow> key_pair" where
  "demo_pair b = \<lparr>key_seed = replicate 32 b, key_public = replicate 32 b\<rparr>"

definition demo_key_source :: "u8 \<Rightarrow> key_source" where
  "demo_key_source b = \<lparr>generated_ed25519 = Inr (demo_pair b), generated_mldsa65 = Inr (demo_pair (b + 1)),
     generated_auth = Inr (demo_pair (b + 2)),
     ed25519_of_seed = (\<lambda>seed. Inr \<lparr>key_seed = seed, key_public = seed\<rparr>),
     mldsa65_of_seed = (\<lambda>seed. Inr \<lparr>key_seed = seed, key_public = seed\<rparr>)\<rparr>"

definition demo_key_calls :: "string \<Rightarrow> key_file_calls" where
  "demo_key_calls name = \<lparr>key_open_ok = True, key_read_ok = True, key_create_ok = True, key_write_ok = True\<rparr>"

definition demo_vars :: environment where
  "demo_vars = [''TRADEP2P_MEDIATOR_RECEIPT_KEY_FILE'' \<mapsto> ''k1'', ''TRADEP2P_MEDIATOR_RECEIPT_MLDSA65_KEY_FILE'' \<mapsto> ''k2'',
     ''TRADEP2P_MEDIATOR_AUTH_KEY_FILE'' \<mapsto> ''k3'', ''TRADEP2P_MEDIATOR_AUTH_PORT'' \<mapsto> ''7445'']"

lemma demo_key_source_reloads: "seeds_reload (demo_key_source b)" "same_seeds (demo_key_source b) (demo_key_source c)"
  by (auto simp: seeds_reload_def same_seeds_def demo_key_source_def demo_pair_def)

lemma demo_key_files: "[] \<notin> key_files demo_vars"
  by (simp add: key_files_def demo_vars_def env_or_empty_def)

lemma demo_starts:
  "\<exists>cfg f fs. lobby_impl demo_vars ''127.0.0.1'' 7443 (demo_key_source 1) demo_key_calls Map.empty = (Inr (cfg, f), fs) \<and>
     receipt_seed cfg = replicate 32 1 \<and> fs ''k1'' = Some (replicate 32 1)"
proof -
  have "env_or_empty demo_vars n = (if n = ''TRADEP2P_MEDIATOR_RECEIPT_KEY_FILE'' then ''k1''
      else if n = ''TRADEP2P_MEDIATOR_RECEIPT_MLDSA65_KEY_FILE'' then ''k2''
      else if n = ''TRADEP2P_MEDIATOR_AUTH_KEY_FILE'' then ''k3''
      else if n = ''TRADEP2P_MEDIATOR_AUTH_PORT'' then ''7445'' else [])" for n
    by (simp add: env_or_empty_def demo_vars_def)
  moreover have "positive_decimal 16 ''7445'' = Some 7445"
    by (simp add: positive_decimal_def from_chars_def number_def is_digit_def)
  ultimately show ?thesis
    by (simp add: lobby_impl_def mediator_key_defs load_or_create_mediator_key_def configured_fee_def
        configured_admin_port_def configured_mediator_auth_port_def demo_key_source_def demo_pair_def demo_key_calls_def
        action_defs Let_def sbind_def)
qed

lemma demo_operated_serves: "serves cfg demo_operated"
  unfolding demo_operated_def by (rule serves_start)

lemma demo_connection:
  obtains r s' where "handle_admin_connection_lobby (demo_config True AfterLastRound) demo_env demo_config_calls
      (demo_setfee token addr) demo_operated = (r, s')"
  by (cases "handle_admin_connection_lobby (demo_config True AfterLastRound) demo_env demo_config_calls
      (demo_setfee token addr) demo_operated")

lemma demo_line:
  "recv_line 4096 [] (demo_setfee token addr) = Some (''SETFEE '' @ token @ '' BTC 5 '' @ addr @ newline)"
  if "length token < 100" "length addr < 100" "CHR 0x0A \<notin> set token" "CHR 0x0A \<notin> set addr"
  using that by (simp add: demo_setfee_def newline_def)

lemma demo_presented:
  "presented (demo_setfee ''fees'' ''addrM'') = Some (''SETFEE'', ''fees'', '' BTC 5 addrM'')"
  "presented (demo_setfee ''root'' ''addrM'') = Some (''SETFEE'', ''root'', '' BTC 5 addrM'')"
  by (simp_all add: presented_def demo_line newline_def admin_line_def next_word_def isspace_def)

lemma demo_requested:
  "requested_fee '' BTC 5 addrM'' = Inr \<lparr>FeeTerms.asset = ''BTC'', amount = 5, address = ''addrM''\<rparr>"
  "requested_fee '' BTC 5 $(reboot)'' = Inr \<lparr>FeeTerms.asset = ''BTC'', amount = 5, address = ''$(reboot)''\<rparr>"
  by (simp_all add: requested_fee_def next_word_def isspace_def setfee_terms_def positive_decimal_def from_chars_def
      number_def is_digit_def validate_fee_terms_def validate_asset_def validate_address_def validate_printable_def
      isalnum_def)

definition demo_new_fee :: FeeTerms where
  "demo_new_fee = \<lparr>FeeTerms.asset = ''BTC'', amount = 5, address = ''addrM''\<rparr>"

lemma demo_conf_file: "file_lines demo_conf = demo_conf_lines" "has_fee_lines demo_conf_lines"
proof -
  have "\<forall>l\<in>set demo_conf_lines. CHR 0x0A \<notin> set l"
    by (simp add: demo_conf_lines_def quoted_def)
  then show "file_lines demo_conf = demo_conf_lines"
    by (simp only: file_lines_def demo_conf_def map_char_of_byte getlines_put_lines)
  show "has_fee_lines demo_conf_lines"
    by (simp add: has_fee_lines_def demo_conf_lines_def starts_with_def)
qed

lemma demo_accepts:
  obtains s' where "handle_admin_connection_lobby (demo_config True AfterLastRound) demo_env demo_config_calls
     (demo_setfee ''root'' ''addrM'') demo_operated = (Inr (Some (''OK'' @ [CHR 0x0A])), s')"
proof -
  have "admin_line (''SETFEE root BTC 5 addrM'' @ newline) = ''SETFEE root BTC 5 addrM''"
    "next_word ''SETFEE root BTC 5 addrM'' = (''SETFEE'', '' root BTC 5 addrM'')"
    "next_word '' root BTC 5 addrM'' = (''root'', '' BTC 5 addrM'')"
    by (simp_all add: admin_line_def newline_def next_word_def isspace_def)
  moreover have "recv_line 4096 [] (demo_setfee ''root'' ''addrM'') = Some (''SETFEE root BTC 5 addrM'' @ newline)"
    by (simp add: demo_line)
  ultimately have "\<exists>s'. handle_admin_connection_lobby (demo_config True AfterLastRound) demo_env demo_config_calls
     (demo_setfee ''root'' ''addrM'') demo_operated = (Inr (Some (''OK'' @ [CHR 0x0A])), s')"
    using demo_conf_file
    by (simp add: handle_admin_connection_lobby_def admin_command_def setfee_command_request demo_requested(1) demo_config_def
        demo_config_calls_def set_fee_def persist_fee_to_file_def file_lines_def has_fee_lines_def err_reply_def
        demo_operated_def empty_lobby_def on_disk_def sbind_def action_defs Let_def)
  then show thesis
    using that by blast
qed

end
