(* ===== verification/Trading_Client.thy ===== *)
theory Trading_Client
  imports Lobby Recognition Key_Derivation
begin

text \<open>
  The client of the dashboards (\<open>src/src/dashboard_client.cpp\<close>, class \<open>DashboardClient\<close>): what it keeps
  about the mediator's offers and its own rooms, the actions its user can take, and what it does with every
  frame of the mediator. Generated keys, the unlocked recognition key, the clock and the text of the current
  time are inputs of a step. The members that only serve the display are in \<open>Client_View\<close>; the blind-signature
  messages are left out.
\<close>

section \<open>State\<close>

record OfferView =
  ov_room_id :: string
  ov_terms :: TradeTerms

record RoomView =
  rv_room_id :: string
  rv_peer_id :: string
  rv_party :: Party
  rv_terms :: TradeTerms
  rv_receive_address_a :: string
  rv_receive_address_b :: string
  rv_fee :: FeeTerms
  rv_status :: string
  rv_detail :: string
  rv_has_turn :: bool
  rv_turn :: TurnMessage
  rv_peer_sent_this_turn :: bool
  rv_recognition_status :: string
  rv_recognized_fingerprint_hex :: string
  rv_recognized_fingerprint :: bytes
  rv_has_recognized_fingerprint :: bool
  rv_own_ephemeral_public_key_hex :: string
  rv_counterparty_ephemeral_public_key_hex :: string
  rv_receipt_status :: string
  rv_receipt_chain_verifies :: bool
  rv_fee_confirmation_pending :: bool
  rv_has_recognition_challenge :: bool
  rv_recognition_challenge_nonce_hex :: string
  rv_recognition_challenge_created_at :: u64
  rv_recognition_challenge_expires_at :: u64
  rv_recognition_challenge_suite_id :: u16
  rv_has_recognition_response :: bool
  rv_recognition_response_public_key_hex :: string
  rv_recognition_response_signature_hex :: string
  rv_own_recognition_response_signature_hex :: string
  rv_has_incoming_recognition_challenge :: bool
  rv_incoming_recognition_challenge_nonce_hex :: string
  rv_incoming_recognition_challenge_suite_id :: u16
  rv_incoming_recognition_challenge_created_at :: u64
  rv_incoming_recognition_challenge_expires_at :: u64

definition default_turn :: TurnMessage where
  "default_turn = \<lparr>TurnMessage.room_id = zero_id 32, round_index = 0, sender = PartyA, asset = [], amount = 0,
     destination = [], is_fee = False\<rparr>"

definition default_room :: RoomView where
  "default_room = \<lparr>rv_room_id = [], rv_peer_id = [], rv_party = PartyA, rv_terms = default_terms,
     rv_receive_address_a = [], rv_receive_address_b = [], rv_fee = default_fee, rv_status = ''active'', rv_detail = [],
     rv_has_turn = False, rv_turn = default_turn, rv_peer_sent_this_turn = False,
     rv_recognition_status = ''none'', rv_recognized_fingerprint_hex = [], rv_recognized_fingerprint = zero_id 32,
     rv_has_recognized_fingerprint = False, rv_own_ephemeral_public_key_hex = [],
     rv_counterparty_ephemeral_public_key_hex = [], rv_receipt_status = ''none'', rv_receipt_chain_verifies = False,
     rv_fee_confirmation_pending = False, rv_has_recognition_challenge = False,
     rv_recognition_challenge_nonce_hex = [], rv_recognition_challenge_created_at = 0,
     rv_recognition_challenge_expires_at = 0, rv_recognition_challenge_suite_id = 0,
     rv_has_recognition_response = False, rv_recognition_response_public_key_hex = [],
     rv_recognition_response_signature_hex = [], rv_own_recognition_response_signature_hex = [],
     rv_has_incoming_recognition_challenge = False, rv_incoming_recognition_challenge_nonce_hex = [],
     rv_incoming_recognition_challenge_suite_id = 0, rv_incoming_recognition_challenge_created_at = 0,
     rv_incoming_recognition_challenge_expires_at = 0\<rparr>"

record OutgoingFrame =
  of_type :: MessageType
  of_payload :: bytes
  of_description :: string

text \<open>The two optional keys of the mediator's receipts are set together and are one field here.\<close>

record DashboardClient =
  dc_mediator_id :: string
  dc_connected :: bool
  dc_connection_status :: string
  dc_client_id :: string
  dc_mediator_fee :: FeeTerms
  dc_offers :: "OfferView list"
  dc_rooms :: "string \<Rightarrow> RoomView option"
  dc_candles :: "string \<Rightarrow> CandleDataMessage option"
  dc_events :: "string list"
  dc_revision :: u64
  dc_tracker :: recognition_tracker
  dc_ephemeral_keypairs :: "string \<Rightarrow> KeyPair option"
  dc_ephemeral_keypairs_mldsa65 :: "string \<Rightarrow> KeyPair option"
  dc_mediator_receipt_keys :: "(bytes \<times> bytes) option"
  dc_room_receipts :: "string \<Rightarrow> IssuedReceipt list option"
  dc_outgoing :: "OutgoingFrame list"

definition new_client :: "string \<Rightarrow> DashboardClient" where
  "new_client med = \<lparr>dc_mediator_id = med, dc_connected = False, dc_connection_status = ''connecting'',
     dc_client_id = [], dc_mediator_fee = default_fee, dc_offers = [], dc_rooms = Map.empty, dc_candles = Map.empty,
     dc_events = [], dc_revision = 0, dc_tracker = [], dc_ephemeral_keypairs = Map.empty,
     dc_ephemeral_keypairs_mldsa65 = Map.empty, dc_mediator_receipt_keys = None, dc_room_receipts = Map.empty,
     dc_outgoing = []\<rparr>"

record RecognitionKeyMaterial =
  rk_private_seed :: bytes
  rk_public_key :: bytes
  rk_mldsa65_private_seed :: "bytes option"
  rk_mldsa65_public_key :: "bytes option"

record client_env =
  ce_now_text :: string
  ce_time :: u64
  ce_crypto :: crypto
  ce_nonce :: bytes
  ce_ephemeral :: "KeyPair result"
  ce_ephemeral_mldsa65 :: "KeyPair result"
  ce_recognition_key :: "RecognitionKeyMaterial option"

datatype RecognitionOutcome = Successful | Incomplete

section \<open>Helpers\<close>

abbreviation (input) kMaxEvents :: nat where "kMaxEvents \<equiv> 160"

definition party_name :: "Party \<Rightarrow> string" where
  "party_name p = (if p = PartyA then ''A'' else ''B'')"

definition candle_pair_key :: "string \<Rightarrow> string \<Rightarrow> string" where
  "candle_pair_key a b = (if a \<le> b then a @ ''/'' @ b else b @ ''/'' @ a)"

definition add_event_locked :: "client_env \<Rightarrow> string \<Rightarrow> (DashboardClient, unit) action" where
  "add_event_locked e message = smodify (\<lambda>c. c\<lparr>dc_events := take kMaxEvents ((ce_now_text e @ '' | '' @ message) # dc_events c),
     dc_revision := dc_revision c + 1\<rparr>)"

text \<open>\<open>rooms_[room_id]\<close>, which makes a default room where there is none, and an assignment to its members.\<close>

definition room_at :: "string \<Rightarrow> DashboardClient \<Rightarrow> RoomView" where
  "room_at key c = (case dc_rooms c key of None \<Rightarrow> default_room | Some room \<Rightarrow> room)"

definition update_room :: "string \<Rightarrow> (RoomView \<Rightarrow> RoomView) \<Rightarrow> (DashboardClient, unit) action" where
  "update_room key f = smodify (\<lambda>c. c\<lparr>dc_rooms := (dc_rooms c)(key \<mapsto> f (room_at key c))\<rparr>)"

definition push_outgoing :: "MessageType \<Rightarrow> bytes \<Rightarrow> string \<Rightarrow> (DashboardClient, unit) action" where
  "push_outgoing t bs description =
     smodify (\<lambda>c. c\<lparr>dc_outgoing := dc_outgoing c @ [\<lparr>of_type = t, of_payload = bs, of_description = description\<rparr>]\<rparr>)"

definition enqueue_frame :: "MessageType \<Rightarrow> bytes \<Rightarrow> string \<Rightarrow> (DashboardClient, unit) action" where
  "enqueue_frame t bs description =
     sbind (sget dc_connected) (\<lambda>connected.
     sbind (slift (throw_if (\<not> connected) (Runtime_error ''dashboard client is not connected''))) (\<lambda>_.
     push_outgoing t bs description))"

definition set_disconnected :: "client_env \<Rightarrow> string \<Rightarrow> (DashboardClient, unit) action" where
  "set_disconnected e why =
     sbind (smodify (\<lambda>c. c\<lparr>dc_connected := False, dc_connection_status := why\<rparr>)) (\<lambda>_.
     sbind (add_event_locked e why) (\<lambda>_.
     smodify (\<lambda>c. c\<lparr>dc_outgoing := []\<rparr>)))"

definition on_tracker :: "(recognition_tracker, 'a) action \<Rightarrow> (DashboardClient, 'a) action" where
  "on_tracker m c = (case m (dc_tracker c) of (r, tracker) \<Rightarrow> (r, c\<lparr>dc_tracker := tracker\<rparr>))"

definition default_list_offers :: ListOffersMessage where
  "default_list_offers = \<lparr>has_cursor = False, after_room_id = zero_id 32, limit = of_nat kMaxOfferPageEntries\<rparr>"

section \<open>Actions of the user\<close>

definition refresh_offers :: "(DashboardClient, unit) action" where
  "refresh_offers =
     sbind (slift (encode_list_offers default_list_offers)) (\<lambda>bs.
     enqueue_frame ListOffers bs ''requested open-offer list'')"

definition request_candles :: "string \<Rightarrow> string \<Rightarrow> (DashboardClient, unit) action" where
  "request_candles a b =
     sbind (slift (encode_get_candles \<lparr>GetCandlesMessage.asset_a = a, asset_b = b\<rparr>)) (\<lambda>bs.
     enqueue_frame GetCandles bs (''requested price history for '' @ a @ ''/'' @ b))"

definition create_offer :: "TradeTerms \<Rightarrow> string \<Rightarrow> (DashboardClient, unit) action" where
  "create_offer t addr =
     sbind (slift (validate_terms t)) (\<lambda>_.
     sbind (slift (validate_address addr)) (\<lambda>_.
     sbind (slift (encode_create_offer \<lparr>CreateOfferMessage.terms = t, receive_address_a = addr\<rparr>)) (\<lambda>bs.
     enqueue_frame CreateOffer bs ''submitted a new offer'')))"

definition join_offer :: "string \<Rightarrow> string \<Rightarrow> (DashboardClient, unit) action" where
  "join_offer room_text addr =
     sbind (slift (room_id_from_hex room_text)) (\<lambda>i.
     sbind (slift (validate_address addr)) (\<lambda>_.
     sbind (slift (encode_join_offer \<lparr>JoinOfferMessage.room_id = i, receive_address_b = addr\<rparr>)) (\<lambda>bs.
     sbind (slift (room_id_to_hex i)) (\<lambda>key.
     enqueue_frame JoinOffer bs (''requested to join room '' @ key)))))"

definition cancel_offer :: "string \<Rightarrow> (DashboardClient, unit) action" where
  "cancel_offer room_text =
     sbind (slift (room_id_from_hex room_text)) (\<lambda>i.
     sbind (slift (encode_cancel_offer \<lparr>CancelOfferMessage.room_id = i\<rparr>)) (\<lambda>bs.
     sbind (slift (room_id_to_hex i)) (\<lambda>key.
     enqueue_frame CancelOffer bs (''requested cancellation of room '' @ key))))"

definition enqueue_turn_signal :: "string \<Rightarrow> bool \<Rightarrow> (DashboardClient, unit) action" where
  "enqueue_turn_signal room_text was_sent =
     sbind (slift (room_id_from_hex room_text)) (\<lambda>i.
     sbind (slift (room_id_to_hex i)) (\<lambda>canonical.
     sbind (sget (\<lambda>c. dc_rooms c canonical)) (\<lambda>found_room.
     case found_room of
       None \<Rightarrow> sthrow (Invalid_argument ''room has no active turn'')
     | Some room \<Rightarrow>
     sbind (slift (throw_if (rv_status room \<noteq> ''active'' \<or> \<not> rv_has_turn room)
       (Invalid_argument ''room has no active turn''))) (\<lambda>_.
     let am_sender = (rv_party room = TurnMessage.sender (rv_turn room)) in
     sbind (slift (throw_if (was_sent \<and> \<not> am_sender)
       (Invalid_argument ''this dashboard client is not the current sender''))) (\<lambda>_.
     sbind (slift (throw_if (\<not> was_sent \<and> am_sender)
       (Invalid_argument ''this dashboard client is not the current receiver''))) (\<lambda>_.
     sbind (slift (encode_round_signal \<lparr>RoundSignalMessage.room_id = i, round_index = TurnMessage.round_index (rv_turn room),
       sender = TurnMessage.sender (rv_turn room)\<rparr>)) (\<lambda>bs.
     enqueue_frame (if was_sent then Sent else Received) bs
       ((if was_sent then ''reported sent in room '' else ''reported received in room '') @ canonical))))))))"

definition mark_sent :: "string \<Rightarrow> (DashboardClient, unit) action" where
  "mark_sent room_text = enqueue_turn_signal room_text True"

definition mark_received :: "string \<Rightarrow> (DashboardClient, unit) action" where
  "mark_received room_text = enqueue_turn_signal room_text False"

definition abort_room_client :: "string \<Rightarrow> (DashboardClient, unit) action" where
  "abort_room_client room_text =
     sbind (slift (room_id_from_hex room_text)) (\<lambda>i.
     sbind (slift (encode_abort \<lparr>AbortMessage.room_id = i, reason = ''dashboard user aborted''\<rparr>)) (\<lambda>bs.
     sbind (slift (room_id_to_hex i)) (\<lambda>key.
     enqueue_frame Abort bs (''requested abort of room '' @ key))))"

definition recognize :: "client_env \<Rightarrow> string \<Rightarrow> u16 \<Rightarrow> (DashboardClient, unit) action" where
  "recognize e room_text suite =
     sbind (slift (room_id_from_hex room_text)) (\<lambda>i.
     sbind (slift (room_id_to_hex i)) (\<lambda>canonical.
     sbind (sget (\<lambda>c. dc_rooms c canonical)) (\<lambda>found_room.
     sbind (slift (throw_if (case found_room of None \<Rightarrow> True | Some room \<Rightarrow> rv_status room \<noteq> ''active'')
       (Invalid_argument ''room is not currently active''))) (\<lambda>_.
     sbind (sget dc_mediator_id) (\<lambda>med.
     sbind (on_tracker (recognition_issue (ce_time e) (ce_nonce e) med i 0 suite)) (\<lambda>f.
     sbind (update_room canonical (\<lambda>room. room\<lparr>rv_recognition_status := ''challenge_sent'',
       rv_recognized_fingerprint_hex := [], rv_has_recognition_challenge := True,
       rv_recognition_challenge_nonce_hex := hex (RecognitionChallengeFields.nonce f),
       rv_recognition_challenge_created_at := RecognitionChallengeFields.created_at f,
       rv_recognition_challenge_expires_at := RecognitionChallengeFields.expires_at f,
       rv_recognition_challenge_suite_id := RecognitionChallengeFields.suite_id f\<rparr>)) (\<lambda>_.
     sbind (slift (encode_recognition_challenge \<lparr>RecognitionChallengeMessage.room_id = RecognitionChallengeFields.room_id f,
       suite_id = RecognitionChallengeFields.suite_id f, nonce = RecognitionChallengeFields.nonce f,
       created_at = RecognitionChallengeFields.created_at f, expires_at = RecognitionChallengeFields.expires_at f\<rparr>)) (\<lambda>bs.
     enqueue_frame RecognitionChallenge bs (''sent recognition challenge for room '' @ canonical)))))))))"

definition submit_recognition_response ::
  "string \<Rightarrow> u16 \<Rightarrow> bytes \<Rightarrow> bytes \<Rightarrow> bytes \<Rightarrow> (DashboardClient, unit) action" where
  "submit_recognition_response room_text suite nonce_bytes key sig =
     sbind (slift (room_id_from_hex room_text)) (\<lambda>i.
     sbind (slift (room_id_to_hex i)) (\<lambda>canonical.
     sbind (slift (throw_if (length nonce_bytes \<noteq> 32) (Invalid_argument ''nonce must be exactly 32 bytes''))) (\<lambda>_.
     sbind (sget (\<lambda>c. dc_rooms c canonical)) (\<lambda>found_room.
     sbind (slift (throw_if (case found_room of None \<Rightarrow> True | Some room \<Rightarrow> \<not> rv_has_incoming_recognition_challenge room)
       (Invalid_argument ''no pending recognition challenge for this room''))) (\<lambda>_.
     sbind (slift (throw_if (case found_room of None \<Rightarrow> True
         | Some room \<Rightarrow> rv_incoming_recognition_challenge_nonce_hex room \<noteq> hex nonce_bytes)
       (Invalid_argument (''nonce does not match the currently pending challenge for this room - it may '' @
          ''have already expired or been replaced by a new one'')))) (\<lambda>_.
     sbind (update_room canonical (\<lambda>room. room\<lparr>rv_own_recognition_response_signature_hex := hex sig,
       rv_has_incoming_recognition_challenge := False\<rparr>)) (\<lambda>_.
     sbind (slift (encode_recognition_response \<lparr>RecognitionResponseMessage.room_id = i, nonce = nonce_bytes,
       suite_id = suite, prover_public_key = key, signature = sig\<rparr>)) (\<lambda>bs.
     enqueue_frame RecognitionResponse bs
       (''answered recognition challenge for room '' @ canonical @ '' (externally signed)'')))))))))"

section \<open>Frames of the mediator\<close>

text \<open>
  A frame is handled in two parts: under the lock, with what is left to do collected in local variables, and
  after it. \<open>pending\<close> has those variables.
\<close>

record pending =
  refresh_offers_after :: bool
  challenge_to_answer :: "RecognitionChallengeMessage option"
  outcome_to_report :: "(bytes \<times> RecognitionOutcome) option"
  ephemeral_key_to_announce :: "TradeEphemeralKeyMessage option"
  receipt_ack_to_send :: "ReceiptAckMessage option"

definition nothing_pending :: pending where
  "nothing_pending = \<lparr>refresh_offers_after = False, challenge_to_answer = None, outcome_to_report = None,
     ephemeral_key_to_announce = None, receipt_ack_to_send = None\<rparr>"

definition on_offer_created :: "client_env \<Rightarrow> bytes \<Rightarrow> (DashboardClient, pending) action" where
  "on_offer_created e body =
     sbind (slift (decode_offer_created body)) (\<lambda>m.
     sbind (slift (room_id_to_hex (OfferCreatedMessage.room_id m))) (\<lambda>key.
     sbind (add_event_locked e (''offer room created: '' @ key)) (\<lambda>_.
     sreturn (nothing_pending\<lparr>refresh_offers_after := True\<rparr>))))"

fun offer_views :: "OfferSummary list \<Rightarrow> OfferView list \<Rightarrow> (DashboardClient, unit) action" where
  "offer_views [] views = sreturn ()"
| "offer_views (offer # rest) views =
     sbind (slift (room_id_to_hex (OfferSummary.room_id offer))) (\<lambda>key.
     let views = views @ [\<lparr>ov_room_id = key, ov_terms = OfferSummary.terms offer\<rparr>] in
     sbind (smodify (\<lambda>c. c\<lparr>dc_offers := views\<rparr>)) (\<lambda>_.
     offer_views rest views))"

definition on_offer_list :: "client_env \<Rightarrow> bytes \<Rightarrow> (DashboardClient, pending) action" where
  "on_offer_list e body =
     sbind (slift (decode_offer_list body)) (\<lambda>m.
     sbind (smodify (\<lambda>c. c\<lparr>dc_offers := []\<rparr>)) (\<lambda>_.
     sbind (offer_views (OfferListMessage.offers m) []) (\<lambda>_.
     sbind (sget (length \<circ> dc_offers)) (\<lambda>n.
     sbind (add_event_locked e (''open-offer list updated: '' @ to_string n @ '' offer(s)'')) (\<lambda>_.
     sreturn nothing_pending)))))"

definition on_candle_data :: "client_env \<Rightarrow> bytes \<Rightarrow> (DashboardClient, pending) action" where
  "on_candle_data e body =
     sbind (slift (decode_candle_data body)) (\<lambda>m.
     let key = candle_pair_key (base_asset m) (quote_asset m) in
     sbind (add_event_locked e (''price history updated for '' @ key @ '': '' @ to_string (length (ticks m)) @ '' trade(s)'')) (\<lambda>_.
     sbind (smodify (\<lambda>c. c\<lparr>dc_candles := (dc_candles c)(key \<mapsto> m)\<rparr>)) (\<lambda>_.
     sreturn nothing_pending)))"

definition forget_offer :: "string \<Rightarrow> (DashboardClient, unit) action" where
  "forget_offer key = smodify (\<lambda>c. c\<lparr>dc_offers := filter (\<lambda>offer. ov_room_id offer \<noteq> key) (dc_offers c)\<rparr>)"

definition on_offer_cancelled :: "client_env \<Rightarrow> bytes \<Rightarrow> (DashboardClient, pending) action" where
  "on_offer_cancelled e body =
     sbind (slift (decode_offer_cancelled body)) (\<lambda>m.
     sbind (slift (room_id_to_hex (OfferCancelledMessage.room_id m))) (\<lambda>key.
     sbind (forget_offer key) (\<lambda>_.
     sbind (add_event_locked e (''offer cancelled: '' @ key)) (\<lambda>_.
     sreturn (nothing_pending\<lparr>refresh_offers_after := True\<rparr>)))))"

definition on_trade_ready :: "client_env \<Rightarrow> bytes \<Rightarrow> (DashboardClient, pending) action" where
  "on_trade_ready e body =
     sbind (slift (decode_trade_ready body)) (\<lambda>m.
     sbind (slift (room_id_to_hex (TradeReadyMessage.room_id m))) (\<lambda>key.
     sbind (slift (client_id_to_hex (TradeReadyMessage.peer_id m))) (\<lambda>peer.
     sbind (slift (ce_ephemeral e)) (\<lambda>pair.
     sbind (slift (ce_ephemeral_mldsa65 e)) (\<lambda>pair2.
     let room = default_room\<lparr>rv_room_id := key, rv_peer_id := peer, rv_party := assigned_party m,
           rv_terms := TradeReadyMessage.terms m, rv_receive_address_a := TradeReadyMessage.receive_address_a m,
           rv_receive_address_b := TradeReadyMessage.receive_address_b m, rv_fee := TradeReadyMessage.fee m,
           rv_status := ''active'', rv_own_ephemeral_public_key_hex := hex (pair_public pair)\<rparr>;
         announce = \<lparr>TradeEphemeralKeyMessage.room_id = TradeReadyMessage.room_id m,
           ephemeral_public_key = pair_public pair, ephemeral_public_key_mldsa65 = pair_public pair2\<rparr> in
     sbind (smodify (\<lambda>c. c\<lparr>dc_ephemeral_keypairs := (dc_ephemeral_keypairs c)(key \<mapsto> pair),
       dc_ephemeral_keypairs_mldsa65 := (dc_ephemeral_keypairs_mldsa65 c)(key \<mapsto> pair2),
       dc_rooms := (dc_rooms c)(key \<mapsto> room)\<rparr>)) (\<lambda>_.
     sbind (forget_offer key) (\<lambda>_.
     sbind (add_event_locked e (''room ready: '' @ key @ '' as party '' @ party_name (assigned_party m))) (\<lambda>_.
     sreturn (nothing_pending\<lparr>ephemeral_key_to_announce := Some announce, refresh_offers_after := True\<rparr>)))))))))"

definition on_turn :: "client_env \<Rightarrow> bytes \<Rightarrow> (DashboardClient, pending) action" where
  "on_turn e body =
     sbind (slift (decode_turn body)) (\<lambda>m.
     sbind (slift (room_id_to_hex (TurnMessage.room_id m))) (\<lambda>key.
     sbind (update_room key (\<lambda>room. room\<lparr>rv_room_id := key, rv_turn := m, rv_has_turn := True,
       rv_peer_sent_this_turn := False, rv_status := ''active''\<rparr>)) (\<lambda>_.
     sbind (add_event_locked e (''room '' @ key @ '' round '' @ to_string (unat (TurnMessage.round_index m + 1)) @ '' turn: party '' @
       party_name (TurnMessage.sender m) @ '' sends '' @ to_string (unat (TurnMessage.amount m)) @ '' '' @ TurnMessage.asset m)) (\<lambda>_.
     sreturn nothing_pending))))"

definition on_sent :: "client_env \<Rightarrow> bytes \<Rightarrow> (DashboardClient, pending) action" where
  "on_sent e body =
     sbind (slift (decode_round_signal body)) (\<lambda>m.
     sbind (slift (room_id_to_hex (RoundSignalMessage.room_id m))) (\<lambda>key.
     sbind (update_room key (\<lambda>room. room\<lparr>rv_peer_sent_this_turn := True\<rparr>)) (\<lambda>_.
     sbind (add_event_locked e (''peer reported sent in room '' @ key)) (\<lambda>_.
     sreturn nothing_pending))))"

definition on_received :: "client_env \<Rightarrow> bytes \<Rightarrow> (DashboardClient, pending) action" where
  "on_received e body =
     sbind (slift (decode_round_signal body)) (\<lambda>m.
     sbind (slift (room_id_to_hex (RoundSignalMessage.room_id m))) (\<lambda>key.
     sbind (add_event_locked e (''peer reported receipt in room '' @ key)) (\<lambda>_.
     sreturn nothing_pending)))"

definition room_ended :: "client_env \<Rightarrow> string \<Rightarrow> string \<Rightarrow> string \<Rightarrow> RecognitionOutcome \<Rightarrow> string \<Rightarrow> (DashboardClient, pending) action" where
  "room_ended e key status detail outcome message =
     sbind (update_room key (\<lambda>room. room\<lparr>rv_room_id := key, rv_status := status, rv_detail := detail,
       rv_has_turn := False, rv_fee_confirmation_pending := False\<rparr>)) (\<lambda>_.
     sbind (sget (room_at key)) (\<lambda>room.
     sbind (add_event_locked e message) (\<lambda>_.
     sreturn (nothing_pending\<lparr>outcome_to_report :=
       (if rv_has_recognized_fingerprint room then Some (rv_recognized_fingerprint room, outcome) else None)\<rparr>))))"

definition on_complete :: "client_env \<Rightarrow> bytes \<Rightarrow> (DashboardClient, pending) action" where
  "on_complete e body =
     sbind (slift (decode_complete body)) (\<lambda>m.
     sbind (slift (room_id_to_hex (CompleteMessage.room_id m))) (\<lambda>key.
     room_ended e key ''complete'' ''all rounds completed'' Successful (''room complete: '' @ key)))"

definition on_abort :: "client_env \<Rightarrow> bytes \<Rightarrow> (DashboardClient, pending) action" where
  "on_abort e body =
     sbind (slift (decode_abort body)) (\<lambda>m.
     sbind (slift (room_id_to_hex (AbortMessage.room_id m))) (\<lambda>key.
     room_ended e key ''aborted'' (AbortMessage.reason m) Incomplete
       (''room aborted: '' @ key @ '' - '' @ AbortMessage.reason m)))"

definition on_error :: "client_env \<Rightarrow> bytes \<Rightarrow> (DashboardClient, pending) action" where
  "on_error e body =
     sbind (slift (decode_error body)) (\<lambda>m.
     sbind (add_event_locked e (''server rejected request: '' @ ErrorMessage.reason m)) (\<lambda>_.
     sreturn nothing_pending))"

definition on_recognition_challenge :: "client_env \<Rightarrow> bytes \<Rightarrow> (DashboardClient, pending) action" where
  "on_recognition_challenge e body =
     sbind (slift (decode_recognition_challenge body)) (\<lambda>m.
     sbind (slift (room_id_to_hex (RecognitionChallengeMessage.room_id m))) (\<lambda>key.
     sbind (add_event_locked e (''room '' @ key @ '': counterparty requested recognition proof'')) (\<lambda>_.
     sreturn (nothing_pending\<lparr>challenge_to_answer := Some m\<rparr>))))"

definition on_trade_ephemeral_key :: "client_env \<Rightarrow> bytes \<Rightarrow> (DashboardClient, pending) action" where
  "on_trade_ephemeral_key e body =
     sbind (slift (decode_trade_ephemeral_key body)) (\<lambda>m.
     sbind (slift (room_id_to_hex (TradeEphemeralKeyMessage.room_id m))) (\<lambda>key.
     sbind (update_room key (\<lambda>room. room\<lparr>rv_room_id := key\<rparr>)) (\<lambda>_.
     sbind (case parse_ed25519_public_key (ephemeral_public_key m) of
         None \<Rightarrow> add_event_locked e (''room '' @ key @ '': counterparty announced a malformed ephemeral key'')
       | Some parsed \<Rightarrow>
           sbind (update_room key (\<lambda>room. room\<lparr>rv_counterparty_ephemeral_public_key_hex := hex parsed\<rparr>)) (\<lambda>_.
           add_event_locked e (''room '' @ key @ '': counterparty announced ephemeral trade key '' @ hex parsed))) (\<lambda>_.
     sreturn nothing_pending))))"

definition ack_fields_for :: "DashboardClient \<Rightarrow> RoomId \<Rightarrow> bytes \<Rightarrow> u64 \<Rightarrow> ReceiptAckFields" where
  "ack_fields_for c i commitment t =
     \<lparr>ReceiptAckFields.suite_id = kReceiptSuiteEd25519MlDsa65HybridV1, protocol_version = kProtocolVersion,
      mediator_id = dc_mediator_id c, room_id = i, stage = PenultimateObligationsComplete,
      terms_commitment = commitment, timestamp = t\<rparr>"

definition on_receipt_ack_required :: "client_env \<Rightarrow> bytes \<Rightarrow> (DashboardClient, pending) action" where
  "on_receipt_ack_required e body =
     sbind (slift (decode_receipt_ack_required body)) (\<lambda>m.
     let i = ReceiptAckRequiredMessage.room_id m in
     sbind (slift (room_id_to_hex i)) (\<lambda>key.
     sbind (update_room key (\<lambda>room. room\<lparr>rv_room_id := key, rv_receipt_status := ''gate_open''\<rparr>)) (\<lambda>_.
     sbind (sget (\<lambda>c. (dc_ephemeral_keypairs c key, dc_ephemeral_keypairs_mldsa65 c key))) (\<lambda>pairs.
     case pairs of
       (Some pair, Some pair2) \<Rightarrow>
         sbind (sget (\<lambda>c. rv_terms (room_at key c))) (\<lambda>t.
         sbind (slift (encode_terms t)) (\<lambda>encoded.
         sbind (sget (\<lambda>c. ack_fields_for c i (trade_payload_hash (ce_crypto e) encoded) (ce_time e))) (\<lambda>f.
         sbind (slift (sign_receipt_ack (ce_crypto e) (pair_seed pair) f)) (\<lambda>sig.
         sbind (slift (sign_receipt_ack_mldsa65 (ce_crypto e) (pair_seed pair2) f)) (\<lambda>sig2.
         sbind (add_event_locked e (''room '' @ key @ '': final-receipt gate opened, acknowledged'')) (\<lambda>_.
         sreturn (nothing_pending\<lparr>receipt_ack_to_send := Some \<lparr>ReceiptAckMessage.room_id = i,
           stage = byte_of_stage PenultimateObligationsComplete, timestamp = ce_time e, signature = sig,
           signature_mldsa65 = sig2\<rparr>\<rparr>)))))))
     | _ \<Rightarrow>
         sbind (add_event_locked e (''room '' @ key @ '': cannot acknowledge final-receipt gate - no ephemeral key for this room'')) (\<lambda>_.
         sreturn nothing_pending)))))"

definition on_fee_confirmation_pending :: "client_env \<Rightarrow> bytes \<Rightarrow> (DashboardClient, pending) action" where
  "on_fee_confirmation_pending e body =
     sbind (slift (decode_fee_confirmation_pending body)) (\<lambda>m.
     sbind (slift (room_id_to_hex (FeeConfirmationPendingMessage.room_id m))) (\<lambda>key.
     sbind (update_room key (\<lambda>room. room\<lparr>rv_room_id := key, rv_fee_confirmation_pending := True\<rparr>)) (\<lambda>_.
     sbind (add_event_locked e (''room '' @ key @ '': fee reported sent, awaiting mediator operator confirmation'')) (\<lambda>_.
     sreturn nothing_pending))))"

definition from_wire :: "ReceiptIssuedMessage \<Rightarrow> IssuedReceipt" where
  "from_wire m =
     \<lparr>receipt_fields = \<lparr>ReceiptFields.suite_id = kReceiptSuiteEd25519MlDsa65HybridV1, protocol_version = kProtocolVersion,
        mediator_id = ReceiptIssuedMessage.mediator_id m, room_id = ReceiptIssuedMessage.room_id m,
        terms_commitment = ReceiptIssuedMessage.terms_commitment m,
        party_a_ephemeral_key = ReceiptIssuedMessage.party_a_ephemeral_key m,
        party_b_ephemeral_key = ReceiptIssuedMessage.party_b_ephemeral_key m,
        party_a_ephemeral_key_mldsa65 = ReceiptIssuedMessage.party_a_ephemeral_key_mldsa65 m,
        party_b_ephemeral_key_mldsa65 = ReceiptIssuedMessage.party_b_ephemeral_key_mldsa65 m,
        mediator_public_key = ReceiptIssuedMessage.mediator_public_key m,
        mediator_public_key_mldsa65 = ReceiptIssuedMessage.mediator_public_key_mldsa65 m,
        stage = stage_of_byte (ReceiptIssuedMessage.stage m), completed = ReceiptIssuedMessage.completed m,
        timestamp = ReceiptIssuedMessage.timestamp m, nonce = ReceiptIssuedMessage.nonce m,
        previous_stage_hash = ReceiptIssuedMessage.previous_stage_hash m\<rparr>,
      mediator_signature = ReceiptIssuedMessage.mediator_signature m,
      mediator_signature_mldsa65 = ReceiptIssuedMessage.mediator_signature_mldsa65 m\<rparr>"

text \<open>The verification of the stored chain, where only \<open>ReceiptChainError\<close> is caught.\<close>

definition chain_verdict :: "crypto \<Rightarrow> IssuedReceipt list \<Rightarrow> bytes \<Rightarrow> bytes \<Rightarrow> bool result" where
  "chain_verdict cry receipts key key2 =
     (case verify_receipt_chain cry receipts key key2 of
        Inr _ \<Rightarrow> Inr True
      | Inl (ReceiptChainError _) \<Rightarrow> Inr False
      | Inl x \<Rightarrow> Inl x)"

definition discard_receipt :: "client_env \<Rightarrow> string \<Rightarrow> (DashboardClient, pending) action" where
  "discard_receipt e key =
     sbind (update_room key (\<lambda>room. room\<lparr>rv_receipt_chain_verifies := False\<rparr>)) (\<lambda>_.
     sbind (add_event_locked e (''room '' @ key @ '': WARNING - receipt did not verify against the pinned mediator key, discarding'')) (\<lambda>_.
     sreturn nothing_pending))"

definition store_receipt ::
  "client_env \<Rightarrow> string \<Rightarrow> IssuedReceipt \<Rightarrow> bytes \<Rightarrow> bytes \<Rightarrow> (DashboardClient, pending) action" where
  "store_receipt e key issued pin pin2 =
     sbind (sget (\<lambda>c. (case dc_room_receipts c key of None \<Rightarrow> [] | Some rs \<Rightarrow> rs) @ [issued])) (\<lambda>receipts.
     sbind (smodify (\<lambda>c. c\<lparr>dc_room_receipts := (dc_room_receipts c)(key \<mapsto> receipts)\<rparr>)) (\<lambda>_.
     sbind (slift (chain_verdict (ce_crypto e) receipts pin pin2)) (\<lambda>verdict.
     sbind (update_room key (\<lambda>room. room\<lparr>rv_receipt_chain_verifies := verdict\<rparr>)) (\<lambda>_.
     sbind (add_event_locked e (''room '' @ key @ '': receipt issued - stage '' @
       receipt_stage_name (ReceiptFields.stage (receipt_fields issued)) @
       (if verdict then '' (chain verifies)'' else '' (chain INVALID)''))) (\<lambda>_.
     sreturn nothing_pending)))))"

text \<open>The first receipt fixes the keys that all receipts are checked against.\<close>

definition pin_keys :: "bytes \<times> bytes \<Rightarrow> DashboardClient \<Rightarrow> DashboardClient" where
  "pin_keys announced c =
     (if dc_mediator_receipt_keys c = None then c\<lparr>dc_mediator_receipt_keys := Some announced\<rparr> else c)"

definition on_receipt_issued :: "client_env \<Rightarrow> bytes \<Rightarrow> (DashboardClient, pending) action" where
  "on_receipt_issued e body =
     sbind (slift (decode_receipt_issued body)) (\<lambda>m.
     sbind (slift (room_id_to_hex (ReceiptIssuedMessage.room_id m))) (\<lambda>key.
     let issued = from_wire m;
         announced = (ReceiptIssuedMessage.mediator_public_key m, ReceiptIssuedMessage.mediator_public_key_mldsa65 m) in
     sbind (update_room key (\<lambda>room. room\<lparr>rv_room_id := key, rv_receipt_status :=
       (if ReceiptFields.stage (receipt_fields issued) = SettlementCompleted then ''stage4'' else ''stage3'')\<rparr>)) (\<lambda>_.
     sbind (smodify (pin_keys announced)) (\<lambda>_.
     sbind (sget (\<lambda>c. the (dc_mediator_receipt_keys c))) (\<lambda>(pin, pin2).
     sbind (if (pin, pin2) \<noteq> announced then sreturn False
            else slift (verify_receipt_hybrid (ce_crypto e) pin pin2 (receipt_fields issued)
              (IssuedReceipt.mediator_signature issued) (IssuedReceipt.mediator_signature_mldsa65 issued))) (\<lambda>ok.
     if ok then store_receipt e key issued pin pin2 else discard_receipt e key))))))"

definition on_recognition_response :: "client_env \<Rightarrow> bytes \<Rightarrow> (DashboardClient, pending) action" where
  "on_recognition_response e body =
     sbind (slift (decode_recognition_response body)) (\<lambda>m.
     sbind (slift (room_id_to_hex (RecognitionResponseMessage.room_id m))) (\<lambda>key.
     sbind (sget dc_mediator_id) (\<lambda>med.
     sbind (on_tracker (recognition_consume (ce_crypto e) (ce_time e) med m 0)) (\<lambda>fingerprint.
     sbind (update_room key (\<lambda>room. room\<lparr>rv_room_id := key, rv_has_recognition_response := True,
       rv_recognition_response_public_key_hex := hex (prover_public_key m),
       rv_recognition_response_signature_hex := hex (RecognitionResponseMessage.signature m)\<rparr>)) (\<lambda>_.
     sbind (case fingerprint of
         None \<Rightarrow>
           sbind (update_room key (\<lambda>room. room\<lparr>rv_recognition_status := ''failed''\<rparr>)) (\<lambda>_.
           add_event_locked e (''room '' @ key @ '': recognition response did not verify - treated as no proof, not evidence of anything''))
       | Some fp \<Rightarrow>
           sbind (update_room key (\<lambda>room. room\<lparr>rv_recognition_status := ''recognized'', rv_recognized_fingerprint := fp,
             rv_has_recognized_fingerprint := True, rv_recognized_fingerprint_hex := hex fp\<rparr>)) (\<lambda>_.
           add_event_locked e (''room '' @ key @ '': counterparty proved control of '' @ hex fp))) (\<lambda>_.
     sreturn nothing_pending))))))"

definition under_lock :: "client_env \<Rightarrow> MessageType \<Rightarrow> bytes \<Rightarrow> (DashboardClient, pending) action" where
  "under_lock e t body =
     (if t = OfferCreated then on_offer_created e body
      else if t = OfferList then on_offer_list e body
      else if t = CandleData then on_candle_data e body
      else if t = OfferCancelled then on_offer_cancelled e body
      else if t = TradeReady then on_trade_ready e body
      else if t = Turn then on_turn e body
      else if t = Sent then on_sent e body
      else if t = Received then on_received e body
      else if t = Complete then on_complete e body
      else if t = Abort then on_abort e body
      else if t = Error then on_error e body
      else if t = RecognitionChallenge then on_recognition_challenge e body
      else if t = TradeEphemeralKey then on_trade_ephemeral_key e body
      else if t = ReceiptAckRequired then on_receipt_ack_required e body
      else if t = FeeConfirmationPending then on_fee_confirmation_pending e body
      else if t = ReceiptIssued then on_receipt_issued e body
      else if t = RecognitionResponse then on_recognition_response e body
      else sbind (add_event_locked e (''ignored unexpected mediator message type '' @ to_string (unat (message_type_value t)))) (\<lambda>_.
           sreturn nothing_pending))"

text \<open>After the lock is released: the answer to a challenge, if there is a key for the suite it names.\<close>

definition note_challenge :: "RecognitionChallengeMessage \<Rightarrow> string \<Rightarrow> RoomView \<Rightarrow> RoomView" where
  "note_challenge m key room = room\<lparr>rv_room_id := key, rv_recognition_status := ''declined'',
     rv_has_incoming_recognition_challenge := True,
     rv_incoming_recognition_challenge_nonce_hex := hex (RecognitionChallengeMessage.nonce m),
     rv_incoming_recognition_challenge_suite_id := RecognitionChallengeMessage.suite_id m,
     rv_incoming_recognition_challenge_created_at := RecognitionChallengeMessage.created_at m,
     rv_incoming_recognition_challenge_expires_at := RecognitionChallengeMessage.expires_at m\<rparr>"

definition challenged_fields :: "string \<Rightarrow> RecognitionChallengeMessage \<Rightarrow> RecognitionChallengeFields" where
  "challenged_fields med m = \<lparr>RecognitionChallengeFields.suite_id = RecognitionChallengeMessage.suite_id m,
     protocol_version = kProtocolVersion, mediator_id = med, room_id = RecognitionChallengeMessage.room_id m,
     nonce = RecognitionChallengeMessage.nonce m, created_at = RecognitionChallengeMessage.created_at m,
     expires_at = RecognitionChallengeMessage.expires_at m\<rparr>"

text \<open>The public key and the signature of the answer; no value where the suite is unknown or has no key.\<close>

definition sign_answer ::
  "crypto \<Rightarrow> RecognitionKeyMaterial \<Rightarrow> RecognitionChallengeFields \<Rightarrow> (bytes \<times> bytes) option result" where
  "sign_answer cry key f =
     (if RecognitionChallengeFields.suite_id f = kRecognitionSuiteEd25519V1 then
        rbind (sign_recognition_response cry (rk_private_seed key) f) (\<lambda>sig. Inr (Some (rk_public_key key, sig)))
      else case (rk_mldsa65_private_seed key, rk_mldsa65_public_key key) of
        (Some seed, Some public) \<Rightarrow>
          if RecognitionChallengeFields.suite_id f = kRecognitionSuiteMlDsa65V1 then
            rbind (sign_recognition_response_mldsa65 cry seed f) (\<lambda>sig. Inr (Some (public, sig)))
          else Inr None
      | _ \<Rightarrow> Inr None)"

definition answer_challenge :: "client_env \<Rightarrow> RecognitionChallengeMessage \<Rightarrow> (DashboardClient, unit) action" where
  "answer_challenge e m =
     sbind (slift (room_id_to_hex (RecognitionChallengeMessage.room_id m))) (\<lambda>key.
     case ce_recognition_key e of
       None \<Rightarrow>
         sbind (update_room key (note_challenge m key)) (\<lambda>_.
         add_event_locked e (''room '' @ key @ '': no keystore unlocked, declined to auto-answer recognition challenge (can still be answered externally)''))
     | Some material \<Rightarrow>
         sbind (sget (\<lambda>c. challenged_fields (dc_mediator_id c) m)) (\<lambda>f.
         sbind (slift (sign_answer (ce_crypto e) material f)) (\<lambda>answer.
         case answer of
           None \<Rightarrow>
             sbind (update_room key (note_challenge m key)) (\<lambda>_.
             add_event_locked e (''room '' @ key @ '': counterparty'' @ [CHR 0x27] @ ''s recognition challenge named an unsupported suite_id '' @
               to_string (unat (RecognitionChallengeMessage.suite_id m)) @
               '' - declined (can still be answered externally if you have a matching key)''))
         | Some (public, sig) \<Rightarrow>
             sbind (update_room key (\<lambda>room. room\<lparr>rv_room_id := key,
               rv_own_recognition_response_signature_hex := hex sig\<rparr>)) (\<lambda>_.
             sbind (slift (encode_recognition_response \<lparr>RecognitionResponseMessage.room_id = RecognitionChallengeMessage.room_id m,
               nonce = RecognitionChallengeMessage.nonce m, suite_id = RecognitionChallengeMessage.suite_id m,
               prover_public_key = public, signature = sig\<rparr>)) (\<lambda>bs.
             enqueue_frame RecognitionResponse bs (''answered recognition challenge for room '' @ key))))))"

definition after_lock :: "client_env \<Rightarrow> pending \<Rightarrow> (DashboardClient, (bytes \<times> RecognitionOutcome) option) action" where
  "after_lock e p =
     sbind (if refresh_offers_after p then
              sbind (slift (encode_list_offers default_list_offers)) (\<lambda>bs.
              push_outgoing ListOffers bs ''refreshed open offers'')
            else sreturn ()) (\<lambda>_.
     sbind (case challenge_to_answer p of None \<Rightarrow> sreturn () | Some m \<Rightarrow> answer_challenge e m) (\<lambda>_.
     sbind (case ephemeral_key_to_announce p of
              None \<Rightarrow> sreturn ()
            | Some m \<Rightarrow>
                sbind (slift (encode_trade_ephemeral_key m)) (\<lambda>bs.
                sbind (slift (room_id_to_hex (TradeEphemeralKeyMessage.room_id m))) (\<lambda>key.
                enqueue_frame TradeEphemeralKey bs (''announced ephemeral trade key for room '' @ key)))) (\<lambda>_.
     sbind (case receipt_ack_to_send p of
              None \<Rightarrow> sreturn ()
            | Some m \<Rightarrow>
                sbind (slift (encode_receipt_ack m)) (\<lambda>bs.
                sbind (slift (room_id_to_hex (ReceiptAckMessage.room_id m))) (\<lambda>key.
                enqueue_frame ReceiptAck bs (''acknowledged final-receipt gate for room '' @ key)))) (\<lambda>_.
     sreturn (outcome_to_report p)))))"

text \<open>The result is what the outcome handler is told; it runs between the answer and the announcement.\<close>

definition handle_frame ::
  "client_env \<Rightarrow> MessageType \<Rightarrow> bytes \<Rightarrow> (DashboardClient, (bytes \<times> RecognitionOutcome) option) action" where
  "handle_frame e t body = sbind (under_lock e t body) (after_lock e)"

section \<open>The connection\<close>

text \<open>
  What \<open>worker_loop\<close> does with the first frame of a new connection; the payload it returns is that of the
  \<open>ListOffers\<close> frame it sends at once.
\<close>

definition connect_welcome :: "client_env \<Rightarrow> MessageType \<Rightarrow> bytes \<Rightarrow> (DashboardClient, bytes) action" where
  "connect_welcome e t body =
     sbind (slift (throw_if (t \<noteq> Welcome) (Runtime_error ''mediator did not send a welcome message''))) (\<lambda>_.
     sbind (slift (decode_welcome body)) (\<lambda>welcome.
     sbind (smodify (\<lambda>c. c\<lparr>dc_connected := True, dc_connection_status := ''connected''\<rparr>)) (\<lambda>_.
     sbind (slift (client_id_to_hex (WelcomeMessage.client_id welcome))) (\<lambda>key.
     sbind (smodify (\<lambda>c. c\<lparr>dc_client_id := key, dc_mediator_fee := WelcomeMessage.fee welcome, dc_offers := [],
       dc_rooms := Map.empty\<rparr>)) (\<lambda>_.
     sbind (add_event_locked e (''connected as anonymous client '' @ key)) (\<lambda>_.
     slift (encode_list_offers default_list_offers)))))))"

text \<open>
  \<open>flush_outgoing\<close> takes the whole queue and sends it; \<open>sends\<close> is how many of the frames could be sent before
  one failed (\<open>None\<close> is all of them). The result is what was sent.
\<close>

fun log_sent :: "client_env \<Rightarrow> OutgoingFrame list \<Rightarrow> (DashboardClient, unit) action" where
  "log_sent e [] = sreturn ()"
| "log_sent e (f # fs) = sbind (add_event_locked e (of_description f)) (\<lambda>_. log_sent e fs)"

definition flush_outgoing :: "client_env \<Rightarrow> nat option \<Rightarrow> (DashboardClient, OutgoingFrame list) action" where
  "flush_outgoing e sends =
     sbind (sget dc_outgoing) (\<lambda>frames.
     sbind (smodify (\<lambda>c. c\<lparr>dc_outgoing := []\<rparr>)) (\<lambda>_.
     case sends of
       Some n \<Rightarrow>
         if n < length frames then
           sbind (log_sent e (take n frames)) (\<lambda>_. sthrow (Runtime_error ''send failed''))
         else sbind (log_sent e frames) (\<lambda>_. sreturn frames)
     | None \<Rightarrow> sbind (log_sent e frames) (\<lambda>_. sreturn frames)))"

text \<open>An exception in the worker ends the connection.\<close>

definition or_disconnect :: "client_env \<Rightarrow> (DashboardClient, 'a) action \<Rightarrow> DashboardClient \<Rightarrow> DashboardClient" where
  "or_disconnect e m c =
     (case m c of (Inr _, c') \<Rightarrow> c' | (Inl x, c') \<Rightarrow> snd (set_disconnected e (''connection lost: '' @ what x) c'))"

end
