(* ===== verification/Client_Safety.thy ===== *)
theory Client_Safety
  imports Trading_Client Lobby_Safety
begin

text \<open>
  Results on the client: what it shows about receipts is true in every state it can get into, its queue and its
  event list stay within bounds, and what it sends in answer to the mediator's frames is what the mediator
  accepts.
\<close>

section \<open>Invariants of the client\<close>

text \<open>
  The contract of an invariant: what it needs to survive the elementary changes of the state. Updates of a room
  that come with a frame or a user's action leave the party and the terms alone and do not claim a verified
  chain; the two frames for which this is not so have laws of their own.
\<close>

definition modest :: "(RoomView \<Rightarrow> RoomView) \<Rightarrow> bool" where
  "modest f \<longleftrightarrow> (\<forall>room. rv_terms (f room) = rv_terms room \<and> rv_party (f room) = rv_party room \<and>
     (rv_receipt_chain_verifies (f room) \<longrightarrow> rv_receipt_chain_verifies room))"

inductive user_action :: "client_env \<Rightarrow> (DashboardClient, unit) action \<Rightarrow> bool" for e where
  "user_action e refresh_offers"
| "user_action e (request_candles a b)"
| "user_action e (create_offer t addr)"
| "user_action e (join_offer room_text addr)"
| "user_action e (cancel_offer room_text)"
| "user_action e (mark_sent room_text)"
| "user_action e (mark_received room_text)"
| "user_action e (abort_room_client room_text)"
| "user_action e (recognize e room_text suite)"
| "user_action e (submit_recognition_response room_text suite nonce_bytes key sig)"

lemma list_offers_encode: "\<exists>bs. encode_list_offers default_list_offers = Inr bs"
  by (auto simp: encode_list_offers_def default_list_offers_def wire_run valid_simps exn_simps)

lemma keeps_snd: "keeps I m \<Longrightarrow> I c \<Longrightarrow> I (snd (m c))"
  by (simp add: keeps_def)

locale client_steps =
  fixes I :: "DashboardClient \<Rightarrow> bool"
  assumes event_law: "I c \<Longrightarrow> I (c\<lparr>dc_events := take kMaxEvents (line # dc_events c), dc_revision := n\<rparr>)"
    and queue_law: "I c \<Longrightarrow> I (c\<lparr>dc_outgoing := frames\<rparr>)"
    and tracker_law: "I c \<Longrightarrow> I (c\<lparr>dc_tracker := tracker\<rparr>)"
    and offers_law: "I c \<Longrightarrow> I (c\<lparr>dc_offers := views\<rparr>)"
    and candles_law: "I c \<Longrightarrow> I (c\<lparr>dc_candles := data\<rparr>)"
    and room_law: "I c \<Longrightarrow> modest f \<Longrightarrow> I (c\<lparr>dc_rooms := (dc_rooms c)(key \<mapsto> f (room_at key c))\<rparr>)"
begin

lemma add_event [keeps_intros]: "keeps I (add_event_locked e message)"
  unfolding add_event_locked_def by (intro keeps_smodify event_law)

lemma push [keeps_intros]: "keeps I (push_outgoing t bs d)"
  unfolding push_outgoing_def by (intro keeps_smodify queue_law)

lemma queue_frame [keeps_intros]: "keeps I (enqueue_frame t bs d)"
  unfolding enqueue_frame_def by (intro keeps_intros)

lemma tracker [keeps_intros]: "keeps I (on_tracker m)"
  by (auto simp: keeps_def on_tracker_def tracker_law split: prod.splits)

lemma set_offers [keeps_intros]: "keeps I (smodify (\<lambda>c. c\<lparr>dc_offers := vs c\<rparr>))"
  by (intro keeps_smodify offers_law)

lemma set_candles [keeps_intros]: "keeps I (smodify (\<lambda>c. c\<lparr>dc_candles := vs c\<rparr>))"
  by (intro keeps_smodify candles_law)

lemma forget [keeps_intros]: "keeps I (forget_offer key)"
  unfolding forget_offer_def by (rule set_offers)

lemma room_update [keeps_intros]: "modest f \<Longrightarrow> keeps I (update_room key f)"
  unfolding update_room_def by (intro keeps_smodify room_law)

lemma views [keeps_intros]: "keeps I (offer_views os vs)"
  by (induction os arbitrary: vs) (simp_all add: Let_def keeps_intros)

lemma listing_frames [keeps_intros]:
  "keeps I (on_offer_created e body)" "keeps I (on_offer_list e body)" "keeps I (on_candle_data e body)"
  "keeps I (on_offer_cancelled e body)" "keeps I (on_error e body)" "keeps I (on_received e body)"
  "keeps I (on_recognition_challenge e body)"
  unfolding on_offer_created_def on_offer_list_def on_candle_data_def Let_def on_offer_cancelled_def on_error_def
    on_received_def on_recognition_challenge_def
  by (intro keeps_intros)+

lemma room_frames [keeps_intros]:
  "keeps I (on_turn e body)" "keeps I (on_sent e body)" "keeps I (on_fee_confirmation_pending e body)"
  "keeps I (on_recognition_response e body)" "keeps I (on_trade_ephemeral_key e body)"
  unfolding on_turn_def on_sent_def on_fee_confirmation_pending_def on_recognition_response_def
    on_trade_ephemeral_key_def
  by (intro keeps_option keeps_intros; simp add: modest_def)+

lemma room_end [keeps_intros]: "keeps I (room_ended e key status detail outcome message)"
  unfolding room_ended_def by (intro keeps_intros; simp add: modest_def)

lemma ending_frames [keeps_intros]: "keeps I (on_complete e body)" "keeps I (on_abort e body)"
  unfolding on_complete_def on_abort_def by (intro keeps_intros)+

lemma ack_required [keeps_intros]: "keeps I (on_receipt_ack_required e body)"
  unfolding on_receipt_ack_required_def Let_def
  by (intro keeps_intros; (simp add: modest_def; fail)?) (auto split: option.splits intro!: keeps_intros)

lemma challenge_answer [keeps_intros]: "keeps I (answer_challenge e m)"
  unfolding answer_challenge_def
  by (intro keeps_intros keeps_option keeps_prod; simp add: modest_def note_challenge_def)

lemma unlocked [keeps_intros]: "keeps I (after_lock e p)"
  unfolding after_lock_def by (intro keeps_intros keeps_if keeps_option)

lemma user_actions: "user_action e m \<Longrightarrow> keeps I m"
  by (induction rule: user_action.induct)
    (simp_all add: refresh_offers_def request_candles_def create_offer_def join_offer_def cancel_offer_def mark_sent_def
      mark_received_def enqueue_turn_signal_def abort_room_client_def recognize_def submit_recognition_response_def Let_def,
     (intro keeps_intros keeps_option; simp add: modest_def)+)

lemma sent_log [keeps_intros]: "keeps I (log_sent e frames)"
  by (induction frames) (simp_all add: keeps_intros)

lemma flush: "keeps I (flush_outgoing e sends)"
  unfolding flush_outgoing_def by (intro keeps_intros keeps_smodify queue_law keeps_option keeps_if)

lemma plain_frame:
  "t \<noteq> TradeReady \<Longrightarrow> t \<noteq> ReceiptIssued \<Longrightarrow> keeps I (handle_frame e t body)"
  unfolding handle_frame_def under_lock_def by (rule keeps_sbind) (simp_all add: keeps_intros)

end

text \<open>An invariant that a new receipt keeps as well, where \<open>ok\<close> says which cryptography a step uses.\<close>

locale client_frames = client_steps I for I +
  fixes ok :: "client_env \<Rightarrow> bool"
  assumes receipt_law: "ok e \<Longrightarrow> keeps I (on_receipt_issued e body)"
begin

lemma other_frame:
  assumes "ok e" "t \<noteq> TradeReady"
  shows "keeps I (handle_frame e t body)"
proof (cases "t = ReceiptIssued")
  case True
  have "keeps I (on_receipt_issued e body)"
    using assms(1) by (rule receipt_law)
  then show ?thesis
    unfolding handle_frame_def True under_lock_def by (simp add: keeps_intros)
qed (use assms plain_frame in simp)

end

text \<open>
  What a client does: the actions of its users, the frames and the losses of its connection, and the sending of
  the queue. A user's thread that was overtaken after the check of \<open>enqueue\<close> may still queue its frame.
\<close>

inductive client_step :: "(client_env \<Rightarrow> bool) \<Rightarrow> DashboardClient \<Rightarrow> DashboardClient \<Rightarrow> bool" for ok c where
  user: "ok e \<Longrightarrow> user_action e m \<Longrightarrow> client_step ok c (snd (m c))"
| late: "client_step ok c (snd (push_outgoing t bs description c))"
| connect: "ok e \<Longrightarrow> \<not> dc_connected c \<Longrightarrow> client_step ok c (or_disconnect e (connect_welcome e t body) c)"
| frame: "ok e \<Longrightarrow> dc_connected c \<Longrightarrow> client_step ok c (or_disconnect e (handle_frame e t body) c)"
| flush: "ok e \<Longrightarrow> dc_connected c \<Longrightarrow> client_step ok c (or_disconnect e (flush_outgoing e sends) c)"
| lost: "ok e \<Longrightarrow> client_step ok c (snd (set_disconnected e why c))"

definition client_runs :: "(client_env \<Rightarrow> bool) \<Rightarrow> DashboardClient \<Rightarrow> DashboardClient \<Rightarrow> bool" where
  "client_runs ok = (client_step ok)\<^sup>*\<^sup>*"

lemma client_runs_mono: "client_runs ok c c' \<Longrightarrow> client_runs (\<lambda>_. True) c c'"
  unfolding client_runs_def
  by (erule rtranclp_mono [THEN predicate2D, rotated]) (blast elim: client_step.cases intro: client_step.intros)

text \<open>An invariant of all that: a new room and a new connection keep it too.\<close>

locale client_invariant = client_frames I ok for I ok +
  assumes trade_law: "keeps I (on_trade_ready e body)"
    and drop_law: "I c \<Longrightarrow> I (c\<lparr>dc_client_id := i, dc_mediator_fee := f, dc_offers := [], dc_rooms := Map.empty\<rparr>)"
    and connection_law: "I c \<Longrightarrow> I (c\<lparr>dc_connected := b, dc_connection_status := why\<rparr>)"
begin

lemma any_frame:
  assumes "ok e"
  shows "keeps I (handle_frame e t body)"
proof (cases "t = TradeReady")
  case True
  show ?thesis
    unfolding handle_frame_def True under_lock_def by (simp add: keeps_intros trade_law)
qed (use assms other_frame in simp)

lemma connected: "keeps I (connect_welcome e t body)"
  unfolding connect_welcome_def by (intro keeps_intros keeps_smodify drop_law connection_law)

lemma disconnect: "keeps I (set_disconnected e why)"
  unfolding set_disconnected_def by (intro keeps_intros keeps_smodify queue_law connection_law)

lemma or_disconnect: "keeps I m \<Longrightarrow> I c \<Longrightarrow> I (or_disconnect e m c)"
  using disconnect by (auto simp: or_disconnect_def keeps_def split: prod.splits sum.splits)

lemma step: "client_step ok c c' \<Longrightarrow> I c \<Longrightarrow> I c'"
  by (induction rule: client_step.induct)
    (blast intro: or_disconnect any_frame connected flush keeps_snd user_actions push disconnect)+

lemma run: "client_runs ok c c' \<Longrightarrow> I c \<Longrightarrow> I c'"
  unfolding client_runs_def by (induction rule: rtranclp_induct) (auto intro: step)

end

section \<open>The stored receipts\<close>

text \<open>Receipts that verify one by one can only fail as a chain with the exception that is caught.\<close>

lemma verified_known_stage:
  "entry_verified cry key key2 r \<Longrightarrow> require_known_stage (ReceiptFields.stage (receipt_fields r)) = Inr ()"
  "entry_verified cry key key2 r \<Longrightarrow> \<exists>bs. encode_receipt_signed_payload (receipt_fields r) = Inr bs"
  by (auto simp: entry_verified_def verify_receipt_def encode_receipt_signed_payload_def exn_simps wire_simps)

lemma verified_chain_loop:
  assumes "\<forall>r\<in>set rs. entry_verified cry key key2 r"
  shows "verify_chain_loop cry key key2 first h prev rs = Inr () \<or>
    (\<exists>why. verify_chain_loop cry key key2 first h prev rs = Inl (ReceiptChainError why))"
  using assms
proof (induction rs arbitrary: h prev)
  case (Cons r rs)
  have v: "entry_verified cry key key2 r"
    using Cons.prems by simp
  then have "verify_receipt_hybrid cry key key2 (receipt_fields r) (IssuedReceipt.mediator_signature r)
      (IssuedReceipt.mediator_signature_mldsa65 r) = Inr True"
    by (simp add: verify_receipt_hybrid_True)
  moreover obtain l where "receipt_chain_link_hash cry (receipt_fields r) (IssuedReceipt.mediator_signature r)
      (IssuedReceipt.mediator_signature_mldsa65 r) = Inr l"
    using verified_known_stage(2) [OF v] by (auto simp: receipt_chain_link_hash_def)
  ultimately show ?case
    using Cons.IH Cons.prems verified_known_stage(1) [OF v] by (auto simp: Let_def throw_if_def)
qed simp

lemma verified_chain_verdict:
  assumes "\<forall>r\<in>set rs. entry_verified cry key key2 r"
  shows "chain_verdict cry rs key key2 = Inr (verify_receipt_chain cry rs key key2 = Inr ())"
proof (cases rs)
  case (Cons r rest)
  then show ?thesis
    using verified_chain_loop [OF assms, of "receipt_fields r" "zero_id 32" None]
    by (auto simp: chain_verdict_def verify_receipt_chain_def)
qed (simp add: chain_verdict_def verify_receipt_chain_def)

text \<open>
  What the client keeps and shows about receipts: every stored receipt verifies under the key it first saw, and
  a room is only shown with a verified chain if the stored receipts are one.
\<close>

definition shows_verified :: "crypto \<Rightarrow> DashboardClient \<Rightarrow> string \<Rightarrow> bool" where
  "shows_verified cry c k \<longleftrightarrow> (\<exists>rs key key2. dc_room_receipts c k = Some rs \<and>
     dc_mediator_receipt_keys c = Some (key, key2) \<and> verify_receipt_chain cry rs key key2 = Inr ())"

definition receipts_inv :: "crypto \<Rightarrow> DashboardClient \<Rightarrow> bool" where
  "receipts_inv cry c \<longleftrightarrow>
     (\<forall>k rs. dc_room_receipts c k = Some rs \<longrightarrow> (\<exists>key key2. dc_mediator_receipt_keys c = Some (key, key2) \<and>
        (\<forall>r\<in>set rs. entry_verified cry key key2 r \<and> hex (ReceiptFields.room_id (receipt_fields r)) = k))) \<and>
     (\<forall>k room. dc_rooms c k = Some room \<longrightarrow> rv_receipt_chain_verifies room \<longrightarrow> shows_verified cry c k)"

text \<open>Changes outside the rooms and the receipts.\<close>

lemma receipts_inv_cong:
  "dc_rooms c' = dc_rooms c \<Longrightarrow> dc_room_receipts c' = dc_room_receipts c \<Longrightarrow>
     dc_mediator_receipt_keys c' = dc_mediator_receipt_keys c \<Longrightarrow> receipts_inv cry c' = receipts_inv cry c"
  by (simp add: receipts_inv_def shows_verified_def)

lemma shows_verified_rooms [simp]: "shows_verified cry (c\<lparr>dc_rooms := rs\<rparr>) k = shows_verified cry c k"
  by (simp add: shows_verified_def)

lemma modest_room_receipts:
  assumes inv: "receipts_inv cry c" and "modest f"
  shows "receipts_inv cry (c\<lparr>dc_rooms := (dc_rooms c)(key \<mapsto> f (room_at key c))\<rparr>)"
proof -
  have "shows_verified cry c key" if "rv_receipt_chain_verifies (f (room_at key c))"
    using assms that
    by (auto simp: modest_def receipts_inv_def room_at_def default_room_def split: option.splits)
  with inv show ?thesis
    by (auto simp: receipts_inv_def)
qed

interpretation receipts: client_steps "receipts_inv cry" for cry
  by unfold_locales (simp_all add: modest_room_receipts cong: receipts_inv_cong)

text \<open>Storing a receipt that verifies under the pinned key, with the verdict on the whole chain.\<close>

lemma store_receipt_inv:
  assumes "receipts_inv cry c" and "dc_mediator_receipt_keys c = Some (key, key2)"
    and "entry_verified cry key key2 r" and "hex (ReceiptFields.room_id (receipt_fields r)) = k"
    and "receipts = (case dc_room_receipts c k of None \<Rightarrow> [] | Some rs \<Rightarrow> rs) @ [r]"
  shows "\<forall>r\<in>set receipts. entry_verified cry key key2 r"
    and "receipts_inv cry (c\<lparr>dc_room_receipts := (dc_room_receipts c)(k \<mapsto> receipts),
      dc_rooms := (dc_rooms c)(k \<mapsto> room\<lparr>rv_receipt_chain_verifies := (verify_receipt_chain cry receipts key key2 = Inr ())\<rparr>)\<rparr>)"
proof -
  have "\<forall>r\<in>set receipts. entry_verified cry key key2 r \<and> hex (ReceiptFields.room_id (receipt_fields r)) = k"
    using assms by (auto simp: receipts_inv_def split: option.splits)
  then show "\<forall>r\<in>set receipts. entry_verified cry key key2 r"
    and "receipts_inv cry (c\<lparr>dc_room_receipts := (dc_room_receipts c)(k \<mapsto> receipts),
      dc_rooms := (dc_rooms c)(k \<mapsto> room\<lparr>rv_receipt_chain_verifies := (verify_receipt_chain cry receipts key key2 = Inr ())\<rparr>)\<rparr>)"
    using assms(1,2) by (auto simp: receipts_inv_def shows_verified_def split: if_splits)
qed

lemma pin_keys_receipts: "receipts_inv cry c \<Longrightarrow> receipts_inv cry (pin_keys p c)"
  by (auto simp: pin_keys_def receipts_inv_def shows_verified_def)

lemma pin_keys_Some: "\<exists>pin pin2. dc_mediator_receipt_keys (pin_keys p c) = Some (pin, pin2)"
  by (cases p) (auto simp: pin_keys_def)

lemma discard_receipt_receipts: "keeps (receipts_inv cry) (discard_receipt e key)"
  unfolding discard_receipt_def by (intro receipts.room_update receipts.add_event keeps_intros) (simp add: modest_def)

lemma store_receipt_receipts:
  assumes "receipts_inv (ce_crypto e) c" and "dc_mediator_receipt_keys c = Some (pin, pin2)"
    and "entry_verified (ce_crypto e) pin pin2 r" and "hex (ReceiptFields.room_id (receipt_fields r)) = key"
  shows "wp (store_receipt e key r pin pin2) (\<lambda>_. receipts_inv (ce_crypto e)) (\<lambda>_. receipts_inv (ce_crypto e)) c"
proof -
  define receipts where "receipts = (case dc_room_receipts c key of None \<Rightarrow> [] | Some rs \<Rightarrow> rs) @ [r]"
  note stored = store_receipt_inv [OF assms receipts_def]
  have room: "room_at key (c\<lparr>dc_room_receipts := x\<rparr>) = room_at key c" for x
    by (simp add: room_at_def)
  have events: "receipts_inv (ce_crypto e) (c'\<lparr>dc_events := x, dc_revision := y\<rparr>) = receipts_inv (ce_crypto e) c'" for c' x y
    by (rule receipts_inv_cong) simp_all
  show ?thesis
    using stored(2) [of "room_at key c"] verified_chain_verdict [OF stored(1)]
    unfolding store_receipt_def
    by (simp add: wp_simps update_room_def add_event_locked_def room events receipts_def [symmetric] del: sbind_simps sbind_slift)
qed

lemma on_receipt_issued_receipts:
  assumes "ce_crypto e = cry"
  shows "keeps (receipts_inv cry) (on_receipt_issued e body)"
proof -
  have tail: "keeps (receipts_inv cry) (sbind (smodify (pin_keys p)) (\<lambda>_.
     sbind (sget (\<lambda>c. the (dc_mediator_receipt_keys c))) (\<lambda>(pin, pin2).
     sbind (if (pin, pin2) \<noteq> p then sreturn False
            else slift (verify_receipt_hybrid (ce_crypto e) pin pin2 (receipt_fields r)
              (IssuedReceipt.mediator_signature r) (IssuedReceipt.mediator_signature_mldsa65 r))) (\<lambda>ok.
     if ok then store_receipt e key r pin pin2 else discard_receipt e key))))"
    if key: "hex (ReceiptFields.room_id (receipt_fields r)) = key" for key p r
  proof (rule keepsI)
    fix c
    assume "receipts_inv cry c"
    then have inv: "receipts_inv cry (pin_keys p c)"
      by (rule pin_keys_receipts)
    obtain pin pin2 where pinned: "dc_mediator_receipt_keys (pin_keys p c) = Some (pin, pin2)"
      using pin_keys_Some by blast
    have drop: "wp (discard_receipt e key) (\<lambda>_. receipts_inv cry) (\<lambda>_. receipts_inv cry) (pin_keys p c)"
      using inv by (intro keeps_wp discard_receipt_receipts)
    show "wp (sbind (smodify (pin_keys p)) (\<lambda>_.
       sbind (sget (\<lambda>c. the (dc_mediator_receipt_keys c))) (\<lambda>(pin, pin2).
       sbind (if (pin, pin2) \<noteq> p then sreturn False
              else slift (verify_receipt_hybrid (ce_crypto e) pin pin2 (receipt_fields r)
                (IssuedReceipt.mediator_signature r) (IssuedReceipt.mediator_signature_mldsa65 r))) (\<lambda>ok.
       if ok then store_receipt e key r pin pin2 else discard_receipt e key))))
       (\<lambda>_. receipts_inv cry) (\<lambda>_. receipts_inv cry) c"
      using inv drop store_receipt_receipts [of e "pin_keys p c" pin pin2 r key] pinned key assms
      by (auto simp: wp_simps verify_receipt_hybrid_True split: sum.splits simp del: sbind_simps sbind_slift)
  qed
  have "hex (ReceiptFields.room_id (receipt_fields (from_wire m))) = key"
    if "room_id_to_hex (ReceiptIssuedMessage.room_id m) = Inr key" for m :: ReceiptIssuedMessage and key
    using that by (simp add: to_hex_ok from_wire_def)
  then show ?thesis
    unfolding on_receipt_issued_def Let_def
    by (intro keeps_slift_bind keeps_sbind receipts.room_update tail) (simp_all add: modest_def)
qed

lemma on_trade_ready_receipts: "keeps (receipts_inv cry) (on_trade_ready e body)"
proof -
  have "keeps (receipts_inv cry) (smodify (\<lambda>c. c\<lparr>dc_ephemeral_keypairs := f c, dc_ephemeral_keypairs_mldsa65 := g c,
      dc_rooms := (dc_rooms c)(key \<mapsto> room)\<rparr>))" if "\<not> rv_receipt_chain_verifies room" for f g key room
    using that by (intro keeps_smodify) (auto simp: receipts_inv_def shows_verified_def)
  then show ?thesis
    unfolding on_trade_ready_def Let_def
    by (intro keeps_intros receipts.add_event receipts.forget) (simp add: default_room_def)
qed

interpretation receipts: client_invariant "receipts_inv cry" "\<lambda>e. ce_crypto e = cry" for cry
  by unfold_locales (simp_all add: on_receipt_issued_receipts on_trade_ready_receipts, simp_all add: receipts_inv_def shows_verified_def)

lemma receipts_inv_start: "receipts_inv cry (new_client med)"
  by (simp add: receipts_inv_def new_client_def)

section \<open>What is never lost\<close>

text \<open>Invariants that do not depend on whether receipts verify.\<close>

lemma keeps_read_modify:
  assumes "\<And>s. I s \<Longrightarrow> I (h (f s) s)" and "\<And>x. keeps I (g x ())"
  shows "keeps I (sbind (sget f) (\<lambda>x. sbind (smodify (h x)) (g x)))"
proof (rule keepsI)
  fix s
  assume "I s"
  then have "wp (g (f s) ()) (\<lambda>_. I) (\<lambda>_. I) (h (f s) s)"
    using assms by (blast intro: keeps_wp)
  then show "wp (sbind (sget f) (\<lambda>x. sbind (smodify (h x)) (g x))) (\<lambda>_. I) (\<lambda>_. I) s"
    by (simp add: wp_sbind wp_primitive del: sbind_simps)
qed

locale client_receipts = client_steps I for I +
  assumes pin_law: "I c \<Longrightarrow> I (pin_keys p c)"
    and stored_law: "I c \<Longrightarrow> I (c\<lparr>dc_room_receipts := (dc_room_receipts c)(key \<mapsto>
      (case dc_room_receipts c key of None \<Rightarrow> [] | Some rs \<Rightarrow> rs) @ [r])\<rparr>)"
    and verdict_law: "I c \<Longrightarrow> I (c\<lparr>dc_rooms := (dc_rooms c)(key \<mapsto> (room_at key c)\<lparr>rv_receipt_chain_verifies := v\<rparr>)\<rparr>)"
begin

lemma verdict: "keeps I (update_room key (\<lambda>room. room\<lparr>rv_receipt_chain_verifies := v\<rparr>))"
  unfolding update_room_def by (intro keeps_smodify verdict_law)

lemma store: "keeps I (store_receipt e key r pin pin2)"
  unfolding store_receipt_def
  by (intro keeps_read_modify [where h = "\<lambda>x c. c\<lparr>dc_room_receipts := (dc_room_receipts c)(key \<mapsto> x)\<rparr>"]
      stored_law keeps_intros verdict)

lemma receipt: "keeps I (on_receipt_issued e body)"
  unfolding on_receipt_issued_def Let_def discard_receipt_def
  by (intro keeps_intros keeps_smodify pin_law keeps_prod keeps_if store verdict) (simp add: modest_def)

end

sublocale client_receipts \<subseteq> client_frames I "\<lambda>_. True"
  by unfold_locales (rule receipt)

text \<open>The event list is bounded.\<close>

interpretation events: client_receipts "\<lambda>c. length (dc_events c) \<le> kMaxEvents"
  by unfold_locales (simp_all add: pin_keys_def)

interpretation events: client_invariant "\<lambda>c. length (dc_events c) \<le> kMaxEvents" "\<lambda>_. True"
proof unfold_locales
  show "keeps (\<lambda>c. length (dc_events c) \<le> kMaxEvents) (on_trade_ready e body)" for e body
    unfolding on_trade_ready_def Let_def
    by (intro keeps_intros keeps_smodify events.add_event events.forget) simp
qed simp_all

text \<open>No frame ends the connection by itself; only an exception does.\<close>

interpretation connected: client_receipts dc_connected
  by unfold_locales (simp_all add: pin_keys_def)

text \<open>The keys of the mediator are never exchanged, and no stored receipt is lost.\<close>

definition pinned_inv :: "bytes \<times> bytes \<Rightarrow> string \<Rightarrow> IssuedReceipt list \<Rightarrow> DashboardClient \<Rightarrow> bool" where
  "pinned_inv p k rs c \<longleftrightarrow> dc_mediator_receipt_keys c = Some p \<and> (\<exists>later. dc_room_receipts c k = Some (rs @ later))"

interpretation pinned: client_receipts "pinned_inv p k rs" for p k rs
  by unfold_locales (auto simp: pinned_inv_def pin_keys_def)

interpretation pinned: client_invariant "pinned_inv p k rs" "\<lambda>_. True" for p k rs
proof unfold_locales
  show "keeps (pinned_inv p k rs) (on_trade_ready e body)" for e body
    unfolding on_trade_ready_def Let_def
    by (intro keeps_intros keeps_smodify pinned.add_event pinned.forget) (simp add: pinned_inv_def)
qed (simp_all add: pinned_inv_def)

text \<open>
  The party, the terms and the keys of a room in trade stay until the connection is lost or a room of that name
  is announced again.
\<close>

definition trade_inv :: "string \<Rightarrow> string \<Rightarrow> Party \<Rightarrow> TradeTerms \<Rightarrow> KeyPair \<Rightarrow> KeyPair \<Rightarrow> DashboardClient \<Rightarrow> bool" where
  "trade_inv med key p t pair pair2 c \<longleftrightarrow> dc_connected c \<and> dc_mediator_id c = med \<and>
     dc_ephemeral_keypairs c key = Some pair \<and> dc_ephemeral_keypairs_mldsa65 c key = Some pair2 \<and>
     (\<exists>room. dc_rooms c key = Some room \<and> rv_party room = p \<and> rv_terms room = t)"

interpretation trade: client_receipts "trade_inv med key p t pair pair2" for med key p t pair pair2
  by unfold_locales (auto simp: trade_inv_def pin_keys_def modest_def room_at_def)

end
