(* ===== verification/Client_Trade.thy ===== *)
theory Client_Trade
  imports Client_Safety Progress
begin

text \<open>
  The client and the mediator together: the reports that the users of two clients make with the turns they were
  shown are the ones the session accepts, and the acknowledgement a client makes by itself verifies under the
  keys it announced when the room was opened.
\<close>

section \<open>Reports\<close>

lemma room_text_parses:
  "is_room_id i \<Longrightarrow> nonzero i \<Longrightarrow> room_id_from_hex (hex i) = Inr i \<and> room_id_to_hex i = Inr (hex i)"
  using id_hex_roundtrip [of i 32] by (simp add: is_room_id_def room_id_from_hex_def to_hex_ok hex_def)

lemma turn_room: "encode_turn t = Inr body \<Longrightarrow> nonzero (TurnMessage.room_id t)"
  by (auto simp: encode_turn_def codec_defs wire_simps exn_simps valid_simps)

definition shows_turn :: "TurnMessage \<Rightarrow> DashboardClient \<Rightarrow> bool" where
  "shows_turn t c \<longleftrightarrow> (\<exists>room. dc_rooms c (hex (TurnMessage.room_id t)) = Some room \<and> rv_turn room = t \<and>
     rv_has_turn room \<and> rv_status room = ''active'')"

lemma turn_frame:
  assumes "encode_turn t = Inr body" and "is_room_id (TurnMessage.room_id t)"
  shows "\<exists>c1. handle_frame e Turn body c = (Inr None, c1) \<and> dc_outgoing c1 = dc_outgoing c \<and> shows_turn t c1"
  using turn_codec [OF assms] room_text_parses [OF assms(2) turn_room [OF assms(1)]]
  by (simp add: handle_frame_def under_lock_def on_turn_def update_room_def add_event_locked_def after_lock_def
      nothing_pending_def shows_turn_def room_at_def action_defs sbind_def)

lemma turn_signal:
  assumes inv: "trade_inv med (hex (TurnMessage.room_id t)) p tt pair pair2 c" and shown: "shows_turn t c"
    and body: "encode_turn t = Inr body" and room: "is_room_id (TurnMessage.room_id t)"
  shows "was_sent = (p = TurnMessage.sender t) \<Longrightarrow>
      \<exists>f c2. enqueue_turn_signal (hex (TurnMessage.room_id t)) was_sent c = (Inr (), c2) \<and> dc_outgoing c2 = dc_outgoing c @ [f] \<and>
        of_type f = (if was_sent then Sent else Received) \<and> decode_round_signal (of_payload f) =
          Inr \<lparr>RoundSignalMessage.room_id = TurnMessage.room_id t, round_index = TurnMessage.round_index t,
            sender = TurnMessage.sender t\<rparr>"
    and "was_sent \<noteq> (p = TurnMessage.sender t) \<Longrightarrow>
      \<exists>why. enqueue_turn_signal (hex (TurnMessage.room_id t)) was_sent c = (Inl (Invalid_argument why), c)"
proof -
  let ?m = "\<lparr>RoundSignalMessage.room_id = TurnMessage.room_id t, round_index = TurnMessage.round_index t,
    sender = TurnMessage.sender t\<rparr>"
  have "\<exists>bs. encode_round_signal ?m = Inr bs"
    using body by (auto simp: encode_turn_def encode_round_signal_def codec_defs wire_simps exn_simps)
  then obtain bs where "encode_round_signal ?m = Inr bs" "decode_round_signal bs = Inr ?m"
    using room by (auto simp: round_signal_codec)
  then show "was_sent = (p = TurnMessage.sender t) \<Longrightarrow>
      \<exists>f c2. enqueue_turn_signal (hex (TurnMessage.room_id t)) was_sent c = (Inr (), c2) \<and> dc_outgoing c2 = dc_outgoing c @ [f] \<and>
        of_type f = (if was_sent then Sent else Received) \<and> decode_round_signal (of_payload f) = Inr ?m"
    and "was_sent \<noteq> (p = TurnMessage.sender t) \<Longrightarrow>
      \<exists>why. enqueue_turn_signal (hex (TurnMessage.room_id t)) was_sent c = (Inl (Invalid_argument why), c)"
    using inv shown room_text_parses [OF room turn_room [OF body]]
    by (auto simp: enqueue_turn_signal_def enqueue_frame_def push_outgoing_def trade_inv_def shows_turn_def throw_if_def
        action_defs sbind_def)
qed

section \<open>The acknowledgement\<close>

text \<open>What is assumed of the signature schemes, for the key pairs of one client: lengths, and that signatures verify.\<close>

definition pairs_work :: "crypto \<Rightarrow> KeyPair \<Rightarrow> KeyPair \<Rightarrow> bool" where
  "pairs_work cry pair pair2 \<longleftrightarrow>
     (\<forall>m. \<exists>sig. ed25519_sign cry (pair_seed pair) m = Inr sig \<and> length sig = kReceiptSignatureLength \<and>
        ed25519_verify cry (pair_public pair) m sig = Inr True) \<and>
     (\<forall>m. \<exists>sig. mldsa65_sign cry (pair_seed pair2) m = Inr sig \<and> length sig = kReceiptSignatureLengthMlDsa65 \<and>
        mldsa65_verify cry (pair_public pair2) m sig = Inr True)"

definition ack_verifies :: "crypto \<Rightarrow> config \<Rightarrow> RoomEntry \<Rightarrow> bytes \<Rightarrow> bytes \<Rightarrow> ReceiptAckMessage \<Rightarrow> bool result" where
  "ack_verifies cry cfg room key key2 m =
     rbind (encode_terms (session_terms (session room))) (\<lambda>encoded.
     verify_receipt_ack_hybrid cry key key2 (ack_fields cfg room (trade_payload_hash cry encoded) (ReceiptAckMessage.timestamp m))
       (ReceiptAckMessage.signature m) (ReceiptAckMessage.signature_mldsa65 m))"

lemma ack_payload_encodes:
  assumes "length (ReceiptAckFields.mediator_id f) \<le> kReceiptMaxMediatorIdLength"
    and "ReceiptAckFields.stage f = PenultimateObligationsComplete"
  shows "\<exists>bs. encode_receipt_ack_signed_payload f = Inr bs"
  using assms by (auto simp: encode_receipt_ack_signed_payload_def exn_simps wire_run kReceiptAckDomainLabel_def)

lemma ack_frame:
  assumes inv: "trade_inv (config.mediator_id cfg) (hex (rid room)) p (session_terms (session room)) pair pair2 c"
    and room: "is_room_id (rid room)" "nonzero (rid room)" and works: "pairs_work (ce_crypto e) pair pair2"
    and med: "length (config.mediator_id cfg) \<le> kReceiptMaxMediatorIdLength" and terms: "valid_terms (session_terms (session room))"
    and body: "encode_receipt_ack_required \<lparr>ReceiptAckRequiredMessage.room_id = rid room\<rparr> = Inr body"
  shows "\<exists>c1 f m. handle_frame e ReceiptAckRequired body c = (Inr None, c1) \<and> dc_outgoing c1 = dc_outgoing c @ [f] \<and>
    of_type f = ReceiptAck \<and> decode_receipt_ack (of_payload f) = Inr m \<and> ReceiptAckMessage.room_id m = rid room \<and>
    stage_of_byte (ReceiptAckMessage.stage m) = PenultimateObligationsComplete \<and>
    ack_verifies (ce_crypto e) cfg room (pair_public pair) (pair_public pair2) m = Inr True"
proof -
  let ?cry = "ce_crypto e" and ?encoded = "put_terms (session_terms (session room))"
  define f where "f = ack_fields cfg room (trade_payload_hash ?cry ?encoded) (ce_time e)"
  have encoded: "encode_terms (session_terms (session room)) = Inr ?encoded"
    using terms by (simp add: encode_terms_ok)
  obtain bs where bs: "encode_receipt_ack_signed_payload f = Inr bs"
    using ack_payload_encodes [of f] med by (auto simp: f_def ack_fields_def)
  obtain sig sig2 where sig: "ed25519_sign ?cry (pair_seed pair) bs = Inr sig" "length sig = kReceiptSignatureLength"
      "ed25519_verify ?cry (pair_public pair) bs sig = Inr True"
    and sig2: "mldsa65_sign ?cry (pair_seed pair2) bs = Inr sig2" "length sig2 = kReceiptSignatureLengthMlDsa65"
      "mldsa65_verify ?cry (pair_public pair2) bs sig2 = Inr True"
    using works by (metis pairs_work_def)
  define m where "m = \<lparr>ReceiptAckMessage.room_id = rid room, stage = byte_of_stage PenultimateObligationsComplete,
    timestamp = ce_time e, signature = sig, signature_mldsa65 = sig2\<rparr>"
  obtain payload where payload: "encode_receipt_ack m = Inr payload"
    using room by (auto simp: m_def encode_receipt_ack_def wire_run valid_simps exn_simps)
  have "decode_receipt_ack payload = Inr m"
    using payload room sig(2) sig2(2) by (simp add: receipt_ack_codec wf_receipt_ack_def m_def)
  moreover have "ack_verifies ?cry cfg room (pair_public pair) (pair_public pair2) m = Inr True"
    using encoded bs sig(3) sig2(3)
    by (simp add: ack_verifies_def m_def f_def [symmetric] verify_receipt_ack_hybrid_def verify_receipt_ack_def
        verify_receipt_ack_mldsa65_def)
  moreover have "decode_receipt_ack_required body = Inr \<lparr>ReceiptAckRequiredMessage.room_id = rid room\<rparr>"
    using body room by (simp add: receipt_ack_required_codec)
  moreover have "ack_fields_for c' (rid room) (trade_payload_hash ?cry ?encoded) (ce_time e) = f"
    if "dc_mediator_id c' = config.mediator_id cfg" for c'
    using that by (simp add: ack_fields_for_def f_def ack_fields_def)
  moreover have "stage_of_byte 3 = PenultimateObligationsComplete"
    by (simp add: stage_of_byte_def)
  ultimately show ?thesis
    using inv encoded bs sig(1) sig2(1) payload room_text_parses [OF room]
    by (auto simp: handle_frame_def under_lock_def on_receipt_ack_required_def update_room_def
        add_event_locked_def after_lock_def nothing_pending_def trade_inv_def room_at_def sign_receipt_ack_def
        sign_receipt_ack_mldsa65_def enqueue_frame_def push_outgoing_def throw_if_def m_def Let_def action_defs sbind_def)
qed

section \<open>A whole trade\<close>

text \<open>
  Two clients at one room. In a move the client whose turn it is gets the mediator's frame, its user presses the
  button, and the mediator decodes what the client queued and applies it to the session; at the gate the client
  answers by itself and the mediator checks the signatures under the announced keys.
\<close>

definition report :: "client_env \<Rightarrow> bool \<Rightarrow> TurnMessage \<Rightarrow> DashboardClient \<Rightarrow> (RoundSignalMessage \<times> DashboardClient) result" where
  "report e was_sent t c =
     rbind (encode_turn t) (\<lambda>body.
     case sbind (handle_frame e Turn body) (\<lambda>_.
       if was_sent then mark_sent (hex (TurnMessage.room_id t)) else mark_received (hex (TurnMessage.room_id t))) c of
       (Inl x, _) \<Rightarrow> Inl x
     | (Inr _, c') \<Rightarrow> rbind (decode_round_signal (of_payload (last (dc_outgoing c')))) (\<lambda>m. Inr (m, c')))"

definition acknowledge :: "client_env \<Rightarrow> RoomId \<Rightarrow> DashboardClient \<Rightarrow> (ReceiptAckMessage \<times> DashboardClient) result" where
  "acknowledge e i c =
     rbind (encode_receipt_ack_required \<lparr>ReceiptAckRequiredMessage.room_id = i\<rparr>) (\<lambda>body.
     case handle_frame e ReceiptAckRequired body c of
       (Inl x, _) \<Rightarrow> Inl x
     | (Inr _, c') \<Rightarrow> rbind (decode_receipt_ack (of_payload (last (dc_outgoing c')))) (\<lambda>m. Inr (m, c')))"

definition announced_keys :: "RoomEntry \<Rightarrow> Party \<Rightarrow> (bytes \<times> bytes) option" where
  "announced_keys room p =
     (case (if p = PartyA then ephemeral_key_a room else ephemeral_key_b room,
            if p = PartyA then ephemeral_key_a_mldsa65 room else ephemeral_key_b_mldsa65 room) of
        (Some key, Some key2) \<Rightarrow> Some (key, key2)
      | _ \<Rightarrow> None)"

type_synonym desk = "RoomEntry \<times> (Party \<Rightarrow> DashboardClient)"

definition move :: "config \<Rightarrow> client_env \<Rightarrow> desk \<Rightarrow> desk result" where
  "move cfg e = (\<lambda>(room, cs). let s = session room in
     case MediatorSession.state s of
       WaitingForReceived \<Rightarrow>
         rbind (current_turn s) (\<lambda>t. let p = opposite (TurnMessage.sender t) in
         rbind (report e False t (cs p)) (\<lambda>(m, c).
         rbind (receiver_reported_received p m s) (\<lambda>s'. Inr (room\<lparr>session := s'\<rparr>, cs(p := c)))))
     | WaitingForFinalReceiptAck \<Rightarrow>
         (let p = (if final_receipt_acked_a s then PartyB else PartyA) in
         case announced_keys room p of
           None \<Rightarrow> Inl (BenignRejection ''no announced key'')
         | Some (key, key2) \<Rightarrow>
             rbind (acknowledge e (rid room) (cs p)) (\<lambda>(m, c).
             rbind (ack_verifies (ce_crypto e) cfg room key key2 m) (\<lambda>ok.
             rbind (throw_if (\<not> ok) (Invalid_argument ''receipt acknowledgement signature does not verify'')) (\<lambda>_.
             rbind (acknowledge_final_receipt p s) (\<lambda>s'. Inr (room\<lparr>session := s'\<rparr>, cs(p := c)))))))
     | WaitingForFeeConfirmation \<Rightarrow>
         rbind (confirm_fee_received s) (\<lambda>s'. Inr (room\<lparr>session := s'\<rparr>, cs))
     | _ \<Rightarrow>
         rbind (current_turn s) (\<lambda>t. let p = TurnMessage.sender t in
         rbind (report e True t (cs p)) (\<lambda>(m, c).
         rbind (sender_reported_sent p m s) (\<lambda>s'. Inr (room\<lparr>session := s'\<rparr>, cs(p := c))))))"

primrec moves :: "config \<Rightarrow> client_env \<Rightarrow> nat \<Rightarrow> desk \<Rightarrow> desk" where
  "moves cfg e 0 d = d"
| "moves cfg e (Suc n) d = (case move cfg e d of Inl _ \<Rightarrow> d | Inr d' \<Rightarrow> moves cfg e n d')"

text \<open>A desk at which the trade can be played: what opening the room has left behind on both sides.\<close>

definition desk_ready :: "config \<Rightarrow> crypto \<Rightarrow> (Party \<Rightarrow> KeyPair \<times> KeyPair) \<Rightarrow> desk \<Rightarrow> bool" where
  "desk_ready cfg cry pairs = (\<lambda>(room, cs).
     rid room = MediatorSession.room_id (session room) \<and> is_room_id (rid room) \<and>
     length (config.mediator_id cfg) \<le> kReceiptMaxMediatorIdLength \<and>
     (\<forall>p\<in>{PartyA, PartyB}. announced_keys room p = Some (pair_public (fst (pairs p)), pair_public (snd (pairs p))) \<and>
        pairs_work cry (fst (pairs p)) (snd (pairs p)) \<and>
        trade_inv (config.mediator_id cfg) (hex (rid room)) p (session_terms (session room)) (fst (pairs p)) (snd (pairs p)) (cs p)))"

lemma report_works:
  assumes inv: "trade_inv med (hex (TurnMessage.room_id t)) p tt pair pair2 c" and body: "encode_turn t = Inr body"
    and room: "is_room_id (TurnMessage.room_id t)" and due: "was_sent = (p = TurnMessage.sender t)"
  shows "\<exists>c'. report e was_sent t c = Inr (\<lparr>RoundSignalMessage.room_id = TurnMessage.room_id t,
      round_index = TurnMessage.round_index t, sender = TurnMessage.sender t\<rparr>, c') \<and>
    trade_inv med (hex (TurnMessage.room_id t)) p tt pair pair2 c'"
proof -
  obtain c1 where c1: "handle_frame e Turn body c = (Inr None, c1)" "shows_turn t c1"
    using turn_frame [OF body room] by blast
  have inv1: "trade_inv med (hex (TurnMessage.room_id t)) p tt pair pair2 c1"
    using keeps_result [OF trade.other_frame [where t = Turn] inv c1(1)] by simp
  obtain f c2 where c2: "enqueue_turn_signal (hex (TurnMessage.room_id t)) was_sent c1 = (Inr (), c2)"
      "dc_outgoing c2 = dc_outgoing c1 @ [f]" "decode_round_signal (of_payload f) = Inr \<lparr>RoundSignalMessage.room_id =
        TurnMessage.room_id t, round_index = TurnMessage.round_index t, sender = TurnMessage.sender t\<rparr>"
    using turn_signal(1) [OF inv1 c1(2) body room due] by blast
  have "user_action e (enqueue_turn_signal (hex (TurnMessage.room_id t)) was_sent)"
    using user_action.intros(6) [of e "hex (TurnMessage.room_id t)"] user_action.intros(7) [of e "hex (TurnMessage.room_id t)"]
    by (cases was_sent) (simp_all add: mark_sent_def mark_received_def)
  then have "trade_inv med (hex (TurnMessage.room_id t)) p tt pair pair2 c2"
    using inv1 c2(1) trade.user_actions by (blast intro: keeps_result)
  with body c1(1) c2 show ?thesis
    by (cases was_sent) (simp_all add: report_def mark_sent_def mark_received_def sbind_def)
qed

lemma acknowledge_works:
  assumes inv: "trade_inv (config.mediator_id cfg) (hex (rid room)) p (session_terms (session room)) pair pair2 c"
    and room: "is_room_id (rid room)" "nonzero (rid room)" and works: "pairs_work (ce_crypto e) pair pair2"
    and med: "length (config.mediator_id cfg) \<le> kReceiptMaxMediatorIdLength" and terms: "valid_terms (session_terms (session room))"
  shows "\<exists>m c'. acknowledge e (rid room) c = Inr (m, c') \<and>
    ack_verifies (ce_crypto e) cfg room (pair_public pair) (pair_public pair2) m = Inr True \<and>
    trade_inv (config.mediator_id cfg) (hex (rid room)) p (session_terms (session room)) pair pair2 c'"
proof -
  obtain body where body: "encode_receipt_ack_required \<lparr>ReceiptAckRequiredMessage.room_id = rid room\<rparr> = Inr body"
    using room(2) by (auto simp: encode_receipt_ack_required_def wire_run valid_simps exn_simps)
  obtain c1 f m where c1: "handle_frame e ReceiptAckRequired body c = (Inr None, c1)" "dc_outgoing c1 = dc_outgoing c @ [f]"
      "decode_receipt_ack (of_payload f) = Inr m"
      "ack_verifies (ce_crypto e) cfg room (pair_public pair) (pair_public pair2) m = Inr True"
    using ack_frame [OF inv room works med terms body] by blast
  have "trade_inv (config.mediator_id cfg) (hex (rid room)) p (session_terms (session room)) pair pair2 c1"
    using keeps_result [OF trade.other_frame [where t = ReceiptAckRequired] inv c1(1)] by simp
  with body c1 show ?thesis
    by (simp add: acknowledge_def)
qed

lemma announced_keys_session [simp]: "announced_keys (room\<lparr>session := s\<rparr>) p = announced_keys room p"
  by (simp add: announced_keys_def split: option.splits)

lemma desk_ready_move:
  assumes "desk_ready cfg cry pairs (room, cs)" "apply_event ev (session room) = Inr s'"
    and "trade_inv (config.mediator_id cfg) (hex (rid room)) p (session_terms (session room)) (fst (pairs p)) (snd (pairs p)) c"
  shows "desk_ready cfg cry pairs (room\<lparr>session := s'\<rparr>, cs)" "desk_ready cfg cry pairs (room\<lparr>session := s'\<rparr>, cs(p := c))"
  using assms apply_event_room_id [OF assms(2)] evolves_creator [OF evolves_step [OF evolves_refl assms(2)]]
  by (auto simp: desk_ready_def)

lemma desk_readyD:
  assumes "desk_ready cfg cry pairs (room, cs)" "p = PartyA \<or> p = PartyB"
  shows "trade_inv (config.mediator_id cfg) (hex (rid room)) p (session_terms (session room)) (fst (pairs p)) (snd (pairs p)) (cs p)"
    and "announced_keys room p = Some (pair_public (fst (pairs p)), pair_public (snd (pairs p)))"
    and "pairs_work cry (fst (pairs p)) (snd (pairs p))" and "rid room = MediatorSession.room_id (session room)"
    and "is_room_id (rid room)" and "length (config.mediator_id cfg) \<le> kReceiptMaxMediatorIdLength"
  using assms by (auto simp: desk_ready_def)

lemma turn_report:
  assumes ready: "desk_ready cfg cry pairs (room, cs)" and inv: "session_inv (session room)"
    and st: "MediatorSession.state (session room) \<in> {WaitingForSent, WaitingForReceived, WaitingForFeeSent}"
  shows "\<exists>t q. current_turn (session room) = Inr t \<and> TurnMessage.sender t = q \<and> current_sender (session room) = Inr q \<and>
    (\<exists>c. report e True t (cs q) = Inr (due_signal (session room) q, c) \<and>
       trade_inv (config.mediator_id cfg) (hex (rid room)) q (session_terms (session room)) (fst (pairs q)) (snd (pairs q)) c) \<and>
    (\<exists>c. report e False t (cs (opposite q)) = Inr (due_signal (session room) q, c) \<and>
       trade_inv (config.mediator_id cfg) (hex (rid room)) (opposite q) (session_terms (session room))
         (fst (pairs (opposite q))) (snd (pairs (opposite q))) c)"
proof -
  obtain t body where t: "current_turn (session room) = Inr t" "encode_turn t = Inr body"
      "current_sender (session room) = Inr (TurnMessage.sender t)"
      "TurnMessage.round_index t = MediatorSession.round_index (session room)"
    using turn_announced [OF inv] st by auto
  have i: "TurnMessage.room_id t = rid room"
    using t(1) desk_readyD(4) [OF ready, of PartyA] by (auto simp: current_turn_def exn_simps split: if_splits)
  have q: "TurnMessage.sender t = PartyA \<or> TurnMessage.sender t = PartyB"
    using t(2) by (auto simp: encode_turn_def codec_defs wire_simps exn_simps validate_party_def split: if_splits)
  have "\<exists>c. report e was_sent t (cs p) = Inr (due_signal (session room) (TurnMessage.sender t), c) \<and>
       trade_inv (config.mediator_id cfg) (hex (rid room)) p (session_terms (session room)) (fst (pairs p)) (snd (pairs p)) c"
    if "p = PartyA \<or> p = PartyB" "was_sent = (p = TurnMessage.sender t)" for p was_sent
    using report_works [of _ t p _ _ _ "cs p" body was_sent e] desk_readyD [OF ready that(1)] t(2,4) i that(2)
    by (simp add: due_signal_def)
  from this [of "TurnMessage.sender t" True] this [of "opposite (TurnMessage.sender t)" False] show ?thesis
    using t(1,3) q by auto
qed

lemma due_reporter:
  assumes "session_inv s" "current_sender s = Inr q"
  shows "MediatorSession.state s \<in> {WaitingForSent, WaitingForFeeSent} \<Longrightarrow> next_event addr s = ReportSent q (due_signal s q)"
    and "MediatorSession.state s = WaitingForReceived \<Longrightarrow> next_event addr s = ReportReceived (opposite q) (due_signal s q)"
proof -
  have leg: "q = due_sender s" if "MediatorSession.state s = WaitingForSent \<or> MediatorSession.state s = WaitingForReceived"
    using current_sender_leg [of s] that assms by (auto simp: session_inv_def)
  show "next_event addr s = ReportSent q (due_signal s q)" if "MediatorSession.state s \<in> {WaitingForSent, WaitingForFeeSent}"
    using that leg assms(2) by (auto simp: next_event_def current_sender_def exn_simps)
  show "next_event addr s = ReportReceived (opposite q) (due_signal s q)" if "MediatorSession.state s = WaitingForReceived"
    using that leg by (simp add: next_event_def)
qed

lemma move_works:
  assumes ready: "desk_ready cfg cry pairs (room, cs)" and inv: "session_inv (session room)" and "ce_crypto e = cry"
    and st: "MediatorSession.state (session room) \<notin> {SessionComplete, Aborted, WaitingForPeer}"
    and accepted: "apply_event (next_event addr (session room)) (session room) = Inr s'"
  shows "\<exists>cs'. move cfg e (room, cs) = Inr (room\<lparr>session := s'\<rparr>, cs') \<and> desk_ready cfg cry pairs (room\<lparr>session := s'\<rparr>, cs')"
proof -
  let ?s = "session room"
  have w: "wf_static ?s"
    using inv by (simp add: session_inv_def)
  consider (due) "MediatorSession.state ?s \<in> {WaitingForSent, WaitingForFeeSent}" | (received) "MediatorSession.state ?s = WaitingForReceived"
    | (gate) "MediatorSession.state ?s = WaitingForFinalReceiptAck" | (fee) "MediatorSession.state ?s = WaitingForFeeConfirmation"
    using st inv by (cases "MediatorSession.state ?s") (auto simp: session_inv_def)
  then show ?thesis
  proof cases
    case due
    then obtain t q c where t: "current_turn ?s = Inr t" "TurnMessage.sender t = q" "current_sender ?s = Inr q"
        "report e True t (cs q) = Inr (due_signal ?s q, c)"
        "trade_inv (config.mediator_id cfg) (hex (rid room)) q (session_terms ?s) (fst (pairs q)) (snd (pairs q)) c"
      using turn_report [OF ready inv, of e] by auto
    from t have "sender_reported_sent q (due_signal ?s q) ?s = Inr s'"
      using accepted due_reporter(1) [OF inv t(3) due, of addr] by simp
    with due t desk_ready_move(2) [OF ready accepted t(5)] show ?thesis
      by (auto simp: move_def Let_def)
  next
    case received
    then obtain t q c where t: "current_turn ?s = Inr t" "TurnMessage.sender t = q" "current_sender ?s = Inr q"
        "report e False t (cs (opposite q)) = Inr (due_signal ?s q, c)" "trade_inv (config.mediator_id cfg) (hex (rid room))
          (opposite q) (session_terms ?s) (fst (pairs (opposite q))) (snd (pairs (opposite q))) c"
      using turn_report [OF ready inv, of e] by auto
    from t have "receiver_reported_received (opposite q) (due_signal ?s q) ?s = Inr s'"
      using accepted due_reporter(2) [OF inv t(3) received, of addr] by simp
    with received t desk_ready_move(2) [OF ready accepted t(5)] show ?thesis
      by (auto simp: move_def Let_def)
  next
    case gate
    define p where "p = (if final_receipt_acked_a ?s then PartyB else PartyA)"
    then have p: "p = PartyA \<or> p = PartyB"
      by simp
    note r = desk_readyD [OF ready p]
    obtain m c where m: "acknowledge e (rid room) (cs p) = Inr (m, c)"
        "ack_verifies cry cfg room (pair_public (fst (pairs p))) (pair_public (snd (pairs p))) m = Inr True"
        "trade_inv (config.mediator_id cfg) (hex (rid room)) p (session_terms ?s) (fst (pairs p)) (snd (pairs p)) c"
      using acknowledge_works [OF r(1,5), of e] r(3,4,6) w assms(3) by (auto simp: wf_static_def)
    have "acknowledge_final_receipt p ?s = Inr s'"
      using accepted gate by (simp add: next_event_def p_def)
    with gate m r(2) desk_ready_move(2) [OF ready accepted m(3)] assms(3) show ?thesis
      by (simp add: move_def Let_def p_def [symmetric])
  next
    case fee
    then have "confirm_fee_received ?s = Inr s'"
      using accepted by (simp add: next_event_def)
    with fee desk_ready_move(1) [OF ready accepted desk_readyD(1) [OF ready, of PartyA]] show ?thesis
      by (simp add: move_def Let_def)
  qed
qed

lemma never_waits_again:
  assumes "apply_event ev s = Inr s'" "MediatorSession.state s \<noteq> WaitingForPeer"
  shows "MediatorSession.state s' \<noteq> WaitingForPeer"
proof (cases ev)
  case (AckFinal p)
  then show ?thesis
    using assms by (auto elim!: ack_effect split: if_splits)
qed (use assms in \<open>auto simp: join_def sender_reported_sent_def receiver_reported_received_def
       advance_after_receipt_def confirm_fee_received_def abort_def exn_simps Let_def split: if_splits\<close>)

lemma desk_completes:
  assumes "desk_ready cfg cry pairs (room, cs)" "session_inv (session room)" "ce_crypto e = cry"
    and "MediatorSession.state (session room) \<notin> {Aborted, WaitingForPeer}" "remaining (session room) \<le> n"
  shows "\<exists>k\<le>n. MediatorSession.state (session (fst (moves cfg e k (room, cs)))) = SessionComplete"
  using assms
proof (induction n arbitrary: room cs)
  case (Suc n)
  let ?s = "session room" and ?addr = "CreateRoomMessage.receive_address_a (MediatorSession.creator (session room))"
  show ?case
  proof (cases "MediatorSession.state ?s = SessionComplete")
    case True
    then show ?thesis
      by (intro exI [of _ 0]) simp
  next
    case False
    have "validate_address ?addr = Inr ()"
      using Suc.prems(2) by (simp add: session_inv_def wf_static_def)
    then obtain s' where s': "apply_event (next_event ?addr ?s) ?s = Inr s'"
      using next_event_accepted [OF Suc.prems(2)] False Suc.prems(4) by auto
    obtain cs' where move: "move cfg e (room, cs) = Inr (room\<lparr>session := s'\<rparr>, cs')"
        "desk_ready cfg cry pairs (room\<lparr>session := s'\<rparr>, cs')"
      using move_works [OF Suc.prems(1-3) _ s'] Suc.prems(4) False by auto
    have na: "\<nexists>why. next_event ?addr ?s = AbortRoom why"
      by (simp add: next_event_def split: SessionState.splits)
    have "remaining s' \<le> n"
      using event_decreases [OF Suc.prems(2) s' na] Suc.prems(5) by simp
    then obtain k where "k \<le> n" "MediatorSession.state (session (fst (moves cfg e k (room\<lparr>session := s'\<rparr>, cs')))) = SessionComplete"
      using Suc.IH [OF move(2)] apply_event_inv [OF Suc.prems(2) s'] only_abort_aborts [OF s' _ na] never_waits_again [OF s'] Suc.prems(3,4)
      by auto
    with move(1) show ?thesis
      by (intro exI [of _ "Suc k"]) simp
  qed
next
  case 0
  then have "MediatorSession.state (session room) = SessionComplete"
    using cooperate_completes [OF 0(2) _ _ order_refl, of "CreateRoomMessage.receive_address_a (MediatorSession.creator (session room))"]
    by (auto simp: session_inv_def wf_static_def)
  then show ?case
    by simp
qed

section \<open>Opening the room\<close>

text \<open>The announcement of a room gives the client its party, its terms and fresh keys, whose public halves it announces.\<close>

lemma trade_ready_frame:
  assumes "encode_trade_ready m = Inr body" "is_room_id (TradeReadyMessage.room_id m)" "is_client_id (peer_id m)"
    and "ce_ephemeral e = Inr pair" "length (pair_public pair) = kTradeEphemeralPublicKeyLength"
    and "ce_ephemeral_mldsa65 e = Inr pair2" "length (pair_public pair2) = kTradeEphemeralPublicKeyLengthMlDsa65"
    and "dc_connected c"
  shows "\<exists>c1. handle_frame e TradeReady body c = (Inr None, c1) \<and>
    trade_inv (dc_mediator_id c) (hex (TradeReadyMessage.room_id m)) (assigned_party m) (TradeReadyMessage.terms m) pair pair2 c1 \<and>
    of_type (last (dc_outgoing c1)) = TradeEphemeralKey \<and> decode_trade_ephemeral_key (of_payload (last (dc_outgoing c1))) =
      Inr \<lparr>TradeEphemeralKeyMessage.room_id = TradeReadyMessage.room_id m, ephemeral_public_key = pair_public pair,
        ephemeral_public_key_mldsa65 = pair_public pair2\<rparr>"
proof -
  let ?announce = "\<lparr>TradeEphemeralKeyMessage.room_id = TradeReadyMessage.room_id m, ephemeral_public_key = pair_public pair,
        ephemeral_public_key_mldsa65 = pair_public pair2\<rparr>"
  have ids: "nonzero (TradeReadyMessage.room_id m)" "nonzero (peer_id m)"
    using assms(1) by (auto simp: encode_trade_ready_def codec_defs wire_simps exn_simps valid_simps)
  obtain bs where bs: "encode_trade_ephemeral_key ?announce = Inr bs"
    using ids(1) by (auto simp: encode_trade_ephemeral_key_def wire_run valid_simps exn_simps)
  then have "decode_trade_ephemeral_key bs = Inr ?announce"
    using assms(2,5,7) by (simp add: trade_ephemeral_key_codec wf_ephemeral_key_def)
  moreover obtain offers where "encode_list_offers default_list_offers = Inr offers"
    using list_offers_encode by blast
  moreover have "decode_trade_ready body = Inr m" "client_id_to_hex (peer_id m) = Inr (hex (peer_id m))"
    using assms(1-3) ids by (simp_all add: trade_ready_codec to_hex_ok)
  ultimately show ?thesis
    using bs assms(4,6,8) room_text_parses [OF assms(2) ids(1)]
    by (simp add: handle_frame_def under_lock_def on_trade_ready_def Let_def forget_offer_def add_event_locked_def after_lock_def
        nothing_pending_def trade_inv_def enqueue_frame_def push_outgoing_def throw_if_def action_defs sbind_def)
qed

end
