(* ===== verification/Client_Receipts.thy ===== *)
theory Client_Receipts
  imports Client_Safety Receipt_Issue
begin

text \<open>
  Receipts from the mediator to the client: what the mediator issues arrives unchanged, is stored, and is shown
  as a verified chain.
\<close>

lemma issued_from_wire:
  assumes "issue_receipt cfg e key room st final s = (Inr r, s')" and "st = PenultimateObligationsComplete \<or> st = SettlementCompleted"
  shows "from_wire (to_wire r) = r" and "ReceiptFields.room_id (receipt_fields r) = rid room"
    and "ReceiptFields.stage (receipt_fields r) = st"
    and "(ReceiptFields.mediator_public_key (receipt_fields r), ReceiptFields.mediator_public_key_mldsa65 (receipt_fields r)) =
      (receipt_public_key cfg, receipt_public_key_mldsa65 cfg)"
  using assms(1)
  by (rule issue_receipt_returns; use assms(2) in \<open>auto simp: from_wire_def to_wire_def receipt_fields_for_def stage_of_byte_def Let_def\<close>)+

text \<open>With keys, hashes and signatures of the lengths of their types, what is issued fits the frame.\<close>

definition sized_room :: "crypto \<Rightarrow> config \<Rightarrow> RoomEntry \<Rightarrow> bool" where
  "sized_room cry cfg room \<longleftrightarrow> is_room_id (rid room) \<and> nonzero (rid room) \<and>
     length (config.mediator_id cfg) \<le> kReceiptWireMediatorIdLength \<and>
     length (receipt_public_key cfg) = kReceiptPublicKeyLength \<and>
     length (receipt_public_key_mldsa65 cfg) = kReceiptPublicKeyLengthMlDsa65 \<and>
     (\<forall>k\<in>{ephemeral_key_a room, ephemeral_key_b room}. \<forall>bs. k = Some bs \<longrightarrow> length bs = kReceiptPublicKeyLength) \<and>
     (\<forall>k\<in>{ephemeral_key_a_mldsa65 room, ephemeral_key_b_mldsa65 room}. \<forall>bs. k = Some bs \<longrightarrow>
        length bs = kReceiptPublicKeyLengthMlDsa65) \<and>
     (\<forall>m. length (sha256 cry m) = kReceiptTermsCommitmentLength) \<and>
     (\<forall>m sig. ed25519_sign cry (receipt_seed cfg) m = Inr sig \<longrightarrow> length sig = kReceiptSignatureLength) \<and>
     (\<forall>m sig. mldsa65_sign cry (receipt_seed_mldsa65 cfg) m = Inr sig \<longrightarrow> length sig = kReceiptSignatureLengthMlDsa65)"

lemma sized_room_same: "same_subject room room' \<Longrightarrow> sized_room cry cfg room \<Longrightarrow> sized_room cry cfg room'"
  by (simp add: same_subject_def sized_room_def)

lemma issued_fits:
  assumes "issue_receipt cfg e key room st final s = (Inr r, s')" "sized_room (cr e) cfg room"
    and "\<forall>n. random_nonce e = Some n \<longrightarrow> length n = kReceiptWireNonceLength"
  shows "wf_receipt_issued (to_wire r)" "\<exists>body. encode_receipt_issued (to_wire r) = Inr body"
proof -
  obtain n prev enc where r: "receipt_fields r = receipt_fields_for cfg e room st final (trade_payload_hash (cr e) enc) n prev"
      "sign_receipt (cr e) (receipt_seed cfg) (receipt_fields r) = Inr (IssuedReceipt.mediator_signature r)"
      "sign_receipt_mldsa65 (cr e) (receipt_seed_mldsa65 cfg) (receipt_fields r) =
         Inr (IssuedReceipt.mediator_signature_mldsa65 r)"
      "case (st, final_ack_receipt room) of (SettlementCompleted, Some r0) \<Rightarrow> entry_link (cr e) r0 = Inr prev
         | _ \<Rightarrow> prev = zero_id 32"
      "random_nonce e = Some n" "ephemeral_key_a room \<noteq> None" "ephemeral_key_b room \<noteq> None"
      "ephemeral_key_a_mldsa65 room \<noteq> None" "ephemeral_key_b_mldsa65 room \<noteq> None"
    using assms(1) by (rule issue_receipt_returns) blast
  have "length prev = 32"
    using r(4) assms(2)
    by (auto simp: entry_link_def receipt_chain_link_hash_def sized_room_def zero_id_def exn_simps split: ReceiptStage.splits option.splits)
  moreover have "length (trade_payload_hash (cr e) enc) = 32"
    using assms(2) by (simp add: trade_payload_hash_def sized_room_def)
  ultimately show "wf_receipt_issued (to_wire r)"
    using assms r(1-3,5-) by (auto simp: wf_receipt_issued_def to_wire_def receipt_fields_for_def sized_room_def sign_receipt_def
        sign_receipt_mldsa65_def exn_simps Let_def)
  show "\<exists>body. encode_receipt_issued (to_wire r) = Inr body"
    using assms(2) r(1) by (auto simp: encode_receipt_issued_def to_wire_def receipt_fields_for_def sized_room_def wire_run valid_simps
        exn_simps Let_def)
qed

text \<open>One receipt that verifies, at a client that knows no other keys of the mediator.\<close>

lemma receipt_frame:
  fixes m :: ReceiptIssuedMessage
  defines "k \<equiv> hex (ReceiptIssuedMessage.room_id m)" and "r \<equiv> from_wire m"
  assumes inv: "receipts_inv (ce_crypto e) c" and m: "decode_receipt_issued body = Inr m" "nonzero (ReceiptIssuedMessage.room_id m)"
    and keys: "ReceiptIssuedMessage.mediator_public_key m = key" "ReceiptIssuedMessage.mediator_public_key_mldsa65 m = key2"
    and pin: "dc_mediator_receipt_keys c = None \<or> dc_mediator_receipt_keys c = Some (key, key2)"
    and verified: "entry_verified (ce_crypto e) key key2 r"
    and old: "old = (case dc_room_receipts c k of None \<Rightarrow> [] | Some rs \<Rightarrow> rs)"
  shows "\<exists>c' room. handle_frame e ReceiptIssued body c = (Inr None, c') \<and> dc_mediator_receipt_keys c' = Some (key, key2) \<and>
    dc_room_receipts c' k = Some (old @ [r]) \<and> dc_rooms c' k = Some room \<and>
    rv_receipt_status room = (if ReceiptFields.stage (receipt_fields r) = SettlementCompleted then ''stage4'' else ''stage3'') \<and>
    (rv_receipt_chain_verifies room \<longleftrightarrow> verify_receipt_chain (ce_crypto e) (old @ [r]) key key2 = Inr ())"
proof -
  have key: "room_id_to_hex (ReceiptIssuedMessage.room_id m) = Inr k" "hex (ReceiptFields.room_id (receipt_fields r)) = k"
    using m(2) by (simp_all add: k_def r_def to_hex_ok from_wire_def)
  have "dc_mediator_receipt_keys (pin_keys (key, key2) c) = Some (key, key2)"
      "dc_room_receipts (pin_keys (key, key2) c) = dc_room_receipts c"
    using pin by (auto simp: pin_keys_def)
  then have "chain_verdict (ce_crypto e) (old @ [r]) key key2 =
      Inr (verify_receipt_chain (ce_crypto e) (old @ [r]) key key2 = Inr ())"
    using verified_chain_verdict [OF store_receipt_inv(1) [OF pin_keys_receipts [OF inv, of "(key, key2)"] _ verified key(2)]] old
    by simp
  moreover have "verify_receipt_hybrid (ce_crypto e) key key2 (receipt_fields r) (IssuedReceipt.mediator_signature r)
      (IssuedReceipt.mediator_signature_mldsa65 r) = Inr True"
    using verified by (simp add: verify_receipt_hybrid_True)
  ultimately show ?thesis
    using m(1) key pin old
    by (auto simp: handle_frame_def under_lock_def on_receipt_issued_def Let_def update_room_def keys r_def [symmetric] pin_keys_def
        store_receipt_def add_event_locked_def after_lock_def nothing_pending_def room_at_def action_defs sbind_def)
qed

lemma issued_receipt_frame:
  assumes issued: "issue_receipt cfg e key room st final s = (Inr r, s')" and st: "st = PenultimateObligationsComplete \<or> st = SettlementCompleted"
    and sound: "signatures_verify (cr e) cfg" and wire: "encode_receipt_issued (to_wire r) = Inr body" "wf_receipt_issued (to_wire r)"
    and inv: "receipts_inv (ce_crypto ce) c" and "ce_crypto ce = cr e"
    and pin: "dc_mediator_receipt_keys c = None \<or> dc_mediator_receipt_keys c = Some (receipt_public_key cfg, receipt_public_key_mldsa65 cfg)"
    and old: "old = (case dc_room_receipts c (hex (rid room)) of None \<Rightarrow> [] | Some rs \<Rightarrow> rs)"
  shows "\<exists>c' shown. handle_frame ce ReceiptIssued body c = (Inr None, c') \<and> receipts_inv (ce_crypto ce) c' \<and>
    dc_mediator_receipt_keys c' = Some (receipt_public_key cfg, receipt_public_key_mldsa65 cfg) \<and>
    dc_room_receipts c' (hex (rid room)) = Some (old @ [r]) \<and> dc_rooms c' (hex (rid room)) = Some shown \<and>
    rv_receipt_status shown = (if st = SettlementCompleted then ''stage4'' else ''stage3'') \<and>
    (rv_receipt_chain_verifies shown \<longleftrightarrow>
       verify_receipt_chain (cr e) (old @ [r]) (receipt_public_key cfg) (receipt_public_key_mldsa65 cfg) = Inr ())"
proof -
  note f = issued_from_wire [OF issued st]
  have m: "decode_receipt_issued body = Inr (to_wire r)"
    using wire by (simp add: receipt_issued_codec)
  have room: "ReceiptIssuedMessage.room_id (to_wire r) = rid room"
    "ReceiptIssuedMessage.mediator_public_key (to_wire r) = receipt_public_key cfg"
    "ReceiptIssuedMessage.mediator_public_key_mldsa65 (to_wire r) = receipt_public_key_mldsa65 cfg"
    using f by (simp_all add: to_wire_def Let_def)
  have "nonzero (rid room)"
    using wire(1) room(1) by (auto simp: encode_receipt_issued_def codec_defs wire_simps exn_simps valid_simps)
  moreover have "entry_verified (ce_crypto ce) (receipt_public_key cfg) (receipt_public_key_mldsa65 cfg) r"
    using issued_verifies [OF issued sound] assms(7) by simp
  ultimately obtain c' shown where c': "handle_frame ce ReceiptIssued body c = (Inr None, c')"
      "dc_mediator_receipt_keys c' = Some (receipt_public_key cfg, receipt_public_key_mldsa65 cfg)"
      "dc_room_receipts c' (hex (rid room)) = Some (old @ [r])" "dc_rooms c' (hex (rid room)) = Some shown"
      "rv_receipt_status shown = (if st = SettlementCompleted then ''stage4'' else ''stage3'')"
      "rv_receipt_chain_verifies shown \<longleftrightarrow>
       verify_receipt_chain (ce_crypto ce) (old @ [r]) (receipt_public_key cfg) (receipt_public_key_mldsa65 cfg) = Inr ()"
    using receipt_frame [OF inv m _ room(2,3) pin, of old] f(1,3) room(1) old by auto
  moreover have "receipts_inv (ce_crypto ce) c'"
    using receipts.any_frame [of ce, OF refl] inv c'(1) by (blast intro: keeps_result)
  ultimately show ?thesis
    using assms(7) by auto
qed

text \<open>Both receipts of a completed trade.\<close>

lemma issued_chain_shown:
  assumes first: "issue_receipt cfg e key room PenultimateObligationsComplete False s = (Inr r3, s')"
    and second: "issue_receipt cfg e' key room' SettlementCompleted True t = (Inr r4, t')"
    and stored: "final_ack_receipt room' = Some r3" and same: "same_subject room room'"
    and crypto: "cr e' = cr e" "signatures_verify (cr e) cfg"
    and wire: "encode_receipt_issued (to_wire r3) = Inr body3" "wf_receipt_issued (to_wire r3)"
      "encode_receipt_issued (to_wire r4) = Inr body4" "wf_receipt_issued (to_wire r4)"
    and client: "receipts_inv (cr e) c" "ce_crypto ce = cr e" "dc_room_receipts c (hex (rid room)) = None"
      "dc_mediator_receipt_keys c = None \<or> dc_mediator_receipt_keys c = Some (receipt_public_key cfg, receipt_public_key_mldsa65 cfg)"
  shows "\<exists>c1 c2 shown. handle_frame ce ReceiptIssued body3 c = (Inr None, c1) \<and> handle_frame ce ReceiptIssued body4 c1 = (Inr None, c2) \<and>
    dc_room_receipts c2 (hex (rid room)) = Some [r3, r4] \<and> dc_rooms c2 (hex (rid room)) = Some shown \<and>
    rv_receipt_status shown = ''stage4'' \<and> rv_receipt_chain_verifies shown"
proof -
  obtain c1 where c1: "handle_frame ce ReceiptIssued body3 c = (Inr None, c1)" "receipts_inv (ce_crypto ce) c1"
      "dc_mediator_receipt_keys c1 = Some (receipt_public_key cfg, receipt_public_key_mldsa65 cfg)"
      "dc_room_receipts c1 (hex (rid room)) = Some [r3]"
    using issued_receipt_frame [OF first _ crypto(2) wire(1,2), of ce c "[]"] client by auto
  have "rid room' = rid room" "signatures_verify (cr e') cfg" "ce_crypto ce = cr e'"
    using same crypto client(2) by (simp_all add: same_subject_def)
  then show ?thesis
    using issued_receipt_frame [OF second _ _ wire(3,4) c1(2), of "[r3]"] c1 issued_chain_verifies [OF first second stored same crypto]
      crypto(1) by auto
qed

end
