(* ===== verification/Client_Examples.thy ===== *)
theory Client_Examples
  imports Client_Trade Client_Receipts Examples
begin

text \<open>
  A client at work: cryptography with signatures and keys of the right lengths, two clients at the room of the
  demonstration trade, and the frames of a first connection.
\<close>

section \<open>Two clients at one room\<close>

definition sized_crypto :: crypto where
  "sized_crypto = \<lparr>sha256 = (\<lambda>x. replicate 32 5), ed25519_sign = (\<lambda>seed m. Inr (replicate 64 (hd seed))),
     ed25519_verify = (\<lambda>pk m sig. Inr (sig = replicate 64 (hd pk))), mldsa65_sign = (\<lambda>seed m. Inr (replicate 3309 (hd seed))),
     mldsa65_verify = (\<lambda>pk m sig. Inr (sig = replicate 3309 (hd pk)))\<rparr>"

definition sized_pair :: "u8 \<Rightarrow> nat \<Rightarrow> KeyPair" where
  "sized_pair b n = \<lparr>pair_seed = [b], pair_public = replicate n b\<rparr>"

definition demo_pairs :: "Party \<Rightarrow> KeyPair \<times> KeyPair" where
  "demo_pairs p = (sized_pair (if p = PartyA then 1 else 2) 32, sized_pair (if p = PartyA then 3 else 4) 1952)"

definition demo_client_env :: client_env where
  "demo_client_env = \<lparr>ce_now_text = ''now'', ce_time = 100, ce_crypto = sized_crypto, ce_nonce = replicate 32 9,
     ce_ephemeral = Inr (sized_pair 1 32), ce_ephemeral_mldsa65 = Inr (sized_pair 3 1952), ce_recognition_key = None\<rparr>"

definition demo_desk_client :: "Party \<Rightarrow> DashboardClient" where
  "demo_desk_client p = (new_client ''med'')\<lparr>dc_connected := True,
     dc_rooms := [hex demo_id \<mapsto> default_room\<lparr>rv_party := p, rv_terms := demo_terms\<rparr>],
     dc_ephemeral_keypairs := [hex demo_id \<mapsto> fst (demo_pairs p)],
     dc_ephemeral_keypairs_mldsa65 := [hex demo_id \<mapsto> snd (demo_pairs p)]\<rparr>"

definition demo_desk_room :: "MediatorSession \<Rightarrow> RoomEntry" where
  "demo_desk_room ses = (demo_room ses)
     \<lparr>ephemeral_key_a := Some (replicate 32 1), ephemeral_key_b := Some (replicate 32 2),
      ephemeral_key_a_mldsa65 := Some (replicate 1952 3), ephemeral_key_b_mldsa65 := Some (replicate 1952 4)\<rparr>"

lemma sized_pairs_work: "0 < n \<Longrightarrow> 0 < n2 \<Longrightarrow> pairs_work sized_crypto (sized_pair b n) (sized_pair b2 n2)"
  by (simp add: pairs_work_def sized_crypto_def sized_pair_def hd_replicate)

lemma demo_desk_ready:
  assumes "MediatorSession.room_id ses = demo_id" "session_terms ses = demo_terms"
  shows "desk_ready (demo_config confirm pos) sized_crypto demo_pairs (demo_desk_room ses, demo_desk_client)"
  using assms demo_keys(4) sized_pairs_work
  by (auto simp: desk_ready_def demo_desk_room_def demo_room_def room_entry_def demo_config_def announced_keys_def trade_inv_def
      demo_desk_client_def new_client_def demo_pairs_def sized_pair_def)

lemma demo_joined:
  "\<exists>s g. runs s g \<and> MediatorSession.state s = WaitingForSent \<and> MediatorSession.room_id s = demo_id \<and> session_terms s = demo_terms"
  by (rule demo_reaches [where es = "[demo_join]" and f = default_fee and confirm = False and pos = AfterLastRound]) code_simp+

section \<open>Receipts\<close>

definition sized_config :: config where
  "sized_config = (demo_config True AfterLastRound)\<lparr>receipt_seed := [7], receipt_public_key := replicate 32 7,
     receipt_seed_mldsa65 := [8], receipt_public_key_mldsa65 := replicate 1952 8\<rparr>"

definition sized_env :: env where
  "sized_env = demo_env\<lparr>cr := sized_crypto\<rparr>"

abbreviation sized_demo_room :: RoomEntry where
  "sized_demo_room \<equiv> demo_desk_room (demo_session default_fee False AfterLastRound)"

lemma sized_demo:
  "signatures_verify (cr sized_env) sized_config" "sized_room (cr sized_env) sized_config sized_demo_room"
  "random_nonce sized_env = Some n \<Longrightarrow> length n = kReceiptWireNonceLength" "valid_terms (session_terms (session sized_demo_room))"
proof -
  show "signatures_verify (cr sized_env) sized_config"
    by (simp add: signatures_verify_def sized_env_def sized_crypto_def sized_config_def)
  show "sized_room (cr sized_env) sized_config sized_demo_room"
    using demo_keys(4,5) by (simp add: sized_room_def sized_env_def sized_crypto_def sized_config_def demo_desk_room_def demo_room_def
        room_entry_def demo_config_def)
  show "random_nonce sized_env = Some n \<Longrightarrow> length n = kReceiptWireNonceLength"
    by (auto simp: sized_env_def demo_env_def)
  show "valid_terms (session_terms (session sized_demo_room))"
    by (simp add: demo_desk_room_def demo_room_def room_entry_def) code_simp
qed

lemma sized_issue:
  assumes "\<And>r0. final_ack_receipt room = Some r0 \<Longrightarrow> \<exists>h. entry_link (cr sized_env) r0 = Inr h"
    and "st = PenultimateObligationsComplete \<or> st = SettlementCompleted" and "room = sized_demo_room\<lparr>final_ack_receipt := x\<rparr>"
  shows "\<exists>r s'. issue_receipt sized_config sized_env (hex demo_id) room st final s = (Inr r, s')"
proof (rule issue_receipt_succeeds)
  show "valid_terms (session_terms (session room))"
    using sized_demo(4) assms(3) by simp
  show "random_nonce sized_env = Some (replicate 16 3)"
    by (simp add: sized_env_def demo_env_def)
qed (use assms in \<open>auto simp: demo_desk_room_def sized_env_def sized_crypto_def sized_config_def demo_config_def\<close>)

lemma sized_chain:
  "\<exists>r3 r4 s' t'. issue_receipt sized_config sized_env (hex demo_id) sized_demo_room PenultimateObligationsComplete False
       (demo_lobby (demo_session default_fee False AfterLastRound)) = (Inr r3, s') \<and>
     issue_receipt sized_config sized_env (hex demo_id) (sized_demo_room\<lparr>final_ack_receipt := Some r3\<rparr>) SettlementCompleted True s' = (Inr r4, t')"
proof -
  have none: "sized_demo_room = sized_demo_room\<lparr>final_ack_receipt := None\<rparr>"
    by (simp add: demo_desk_room_def demo_room_def room_entry_def)
  have "final_ack_receipt sized_demo_room = None"
    by (simp add: demo_desk_room_def demo_room_def room_entry_def)
  then obtain r3 s' where r3: "issue_receipt sized_config sized_env (hex demo_id) sized_demo_room PenultimateObligationsComplete False
      (demo_lobby (demo_session default_fee False AfterLastRound)) = (Inr r3, s')"
    using sized_issue [OF _ _ none, of PenultimateObligationsComplete False
        "demo_lobby (demo_session default_fee False AfterLastRound)"] by auto
  then show ?thesis
    using sized_issue [of "sized_demo_room\<lparr>final_ack_receipt := Some r3\<rparr>" SettlementCompleted "Some r3" True s']
      verified_link(1) [OF issued_verifies [OF r3 sized_demo(1)]] by auto
qed

text \<open>A first connection, and both receipts of the trade shown as a verified chain.\<close>

definition demo_welcome :: WelcomeMessage where
  "demo_welcome = \<lparr>WelcomeMessage.client_id = demo_client_a, fee = default_fee\<rparr>"

lemma demo_connected:
  "\<exists>c. client_runs (\<lambda>e. ce_crypto e = sized_crypto) (new_client ''med'') c \<and> dc_connected c \<and>
     dc_mediator_receipt_keys c = None \<and> dc_room_receipts c = Map.empty"
proof -
  let ?c = "new_client ''med''" and ?ok = "\<lambda>e. ce_crypto e = sized_crypto"
  obtain body where "encode_welcome demo_welcome = Inr body"
    using demo_keys(1) by (auto simp: encode_welcome_def demo_welcome_def client_key_def wire_run valid_simps exn_simps
        append_fee_terms_def default_fee_def validate_fee_terms_def check_def)
  then have "decode_welcome body = Inr demo_welcome" "client_id_to_hex demo_client_a = Inr (hex demo_client_a)"
    using demo_keys(1) by (simp_all add: welcome_codec demo_welcome_def client_key_def to_hex_ok)
  moreover obtain offers where "encode_list_offers default_list_offers = Inr offers"
    using list_offers_encode by blast
  moreover have "client_step ?ok ?c (or_disconnect demo_client_env (connect_welcome demo_client_env Welcome body) ?c)"
    by (rule client_step.connect) (simp_all add: demo_client_env_def new_client_def)
  ultimately show ?thesis
    by (intro exI [of _ "or_disconnect demo_client_env (connect_welcome demo_client_env Welcome body) ?c"])
      (auto simp: client_runs_def or_disconnect_def connect_welcome_def throw_if_def add_event_locked_def demo_welcome_def
        new_client_def action_defs sbind_def)
qed

lemma demo_shown:
  "\<exists>c room. client_runs (\<lambda>e. ce_crypto e = sized_crypto) (new_client ''med'') c \<and>
     dc_rooms c (hex demo_id) = Some room \<and> rv_receipt_chain_verifies room"
proof -
  let ?ok = "\<lambda>e. ce_crypto e = sized_crypto" and ?e = demo_client_env
  obtain c where c: "client_runs ?ok (new_client ''med'') c" "dc_connected c" "dc_mediator_receipt_keys c = None"
      "dc_room_receipts c = Map.empty"
    using demo_connected by blast
  obtain r3 r4 s' t' where r3: "issue_receipt sized_config sized_env (hex demo_id) sized_demo_room PenultimateObligationsComplete False
       (demo_lobby (demo_session default_fee False AfterLastRound)) = (Inr r3, s')"
    and r4: "issue_receipt sized_config sized_env (hex demo_id) (sized_demo_room\<lparr>final_ack_receipt := Some r3\<rparr>) SettlementCompleted True s' = (Inr r4, t')"
    using sized_chain by blast
  have same: "same_subject sized_demo_room (sized_demo_room\<lparr>final_ack_receipt := Some r3\<rparr>)"
    by (simp add: same_subject_def)
  obtain body3 body4 where body: "encode_receipt_issued (to_wire r3) = Inr body3" "wf_receipt_issued (to_wire r3)"
      "encode_receipt_issued (to_wire r4) = Inr body4" "wf_receipt_issued (to_wire r4)"
    using issued_fits [OF r3 sized_demo(2)] issued_fits [OF r4] sized_room_same [OF same sized_demo(2)] sized_demo(3) by blast
  have e: "ce_crypto ?e = cr sized_env" "rid sized_demo_room = demo_id"
    by (simp_all add: demo_client_env_def sized_env_def demo_desk_room_def demo_room_def room_entry_def)
  have "receipts_inv (cr sized_env) c"
    using receipts.run [OF c(1)] receipts_inv_start e(1) by (simp add: demo_client_env_def)
  then obtain c1 c2 shown where shown: "handle_frame ?e ReceiptIssued body3 c = (Inr None, c1)"
      "handle_frame ?e ReceiptIssued body4 c1 = (Inr None, c2)" "dc_rooms c2 (hex demo_id) = Some shown" "rv_receipt_chain_verifies shown"
    using issued_chain_shown [OF r3 r4 _ same refl sized_demo(1) body, of c ?e] c(3,4) e by auto
  have "dc_connected c1"
    using connected.other_frame [of ReceiptIssued ?e body3] c(2) shown(1) by (auto simp: keeps_def dest: spec [of _ c])
  then have "client_step ?ok c c1" "client_step ?ok c1 c2"
    using client_step.frame [of ?ok ?e c ReceiptIssued body3] client_step.frame [of ?ok ?e c1 ReceiptIssued body4] c(2) shown(1,2)
    by (simp_all add: or_disconnect_def demo_client_env_def)
  with c(1) have "client_runs ?ok (new_client ''med'') c2"
    by (auto simp: client_runs_def intro: rtranclp.rtrancl_into_rtrancl)
  with shown(3,4) show ?thesis
    by blast
qed

end
