(* ===== verification/Channel.thy ===== *)
theory Channel
  imports Registry
begin

text \<open>
  The framed channel of \<open>src/src/secure_channel.cpp\<close>: the loops that move whole buffers over a stream that
  transfers as much as it likes per call, \<open>send_frame\<close> and \<open>receive_frame\<close> with their sequence numbers, the
  SOCKS5 handshake and the certificate pin.

  OpenSSL and the sockets are seen through one record: the pieces in which the peer's bytes will arrive, how
  much each coming write takes, and the bytes written so far. A read that finds no piece fails, an empty piece is
  a read that returns zero bytes, and a write of zero bytes is an entry 0. The contract of moving a whole buffer
  is stated by the locales \<open>exact_reader\<close> and \<open>exact_writer\<close>; the TLS and the plain socket loops interpret both.
\<close>

section \<open>The stream\<close>

record byte_stream =
  arriving :: "bytes list"
  accepts :: "nat list"
  departed :: bytes
  queued_error :: "string option"

definition arriving_bytes :: "byte_stream \<Rightarrow> bytes" where
  "arriving_bytes s = concat (arriving s)"

text \<open>One call of \<open>SSL_read_ex\<close> or \<open>recv\<close> for at most \<open>n\<close> bytes; \<open>None\<close> is a call that fails.\<close>

definition stream_read :: "nat \<Rightarrow> byte_stream \<Rightarrow> bytes option \<times> byte_stream" where
  "stream_read n s =
     (case arriving s of
        [] \<Rightarrow> (None, s)
      | piece # pieces \<Rightarrow>
          (Some (take n piece), s\<lparr>arriving := if length piece \<le> n then pieces else drop n piece # pieces\<rparr>))"

text \<open>One call of \<open>SSL_write_ex\<close> or \<open>send\<close>: how many of the bytes it took.\<close>

definition stream_write :: "bytes \<Rightarrow> byte_stream \<Rightarrow> nat option \<times> byte_stream" where
  "stream_write bs s =
     (case accepts s of
        [] \<Rightarrow> (None, s)
      | k # ks \<Rightarrow> (Some (min k (length bs)), s\<lparr>accepts := ks, departed := departed s @ take k bs\<rparr>))"

section \<open>Whole buffers\<close>

text \<open>
  The four loops of the file have one of two shapes. They advance \<open>offset\<close> by what the call moved; here the
  recursion is on what is left. \<open>failed\<close> is thrown when the call fails, \<open>nothing\<close> when it moves zero bytes.
\<close>

function read_exact :: "exn \<Rightarrow> exn \<Rightarrow> nat \<Rightarrow> (byte_stream, bytes) action" where
  "read_exact failed nothing n s =
     (if n = 0 then (Inr [], s)
      else case stream_read n s of
        (None, s') \<Rightarrow> (Inl failed, s')
      | (Some bs, s') \<Rightarrow>
          if bs = [] then (Inl nothing, s')
          else sbind (read_exact failed nothing (n - length bs)) (\<lambda>rest. sreturn (bs @ rest)) s')"
  by pat_completeness auto
termination
  by (relation "measure (\<lambda>(_, _, n, _). n)") auto

function write_all :: "exn \<Rightarrow> exn \<Rightarrow> bytes \<Rightarrow> (byte_stream, unit) action" where
  "write_all failed nothing bs s =
     (if bs = [] then (Inr (), s)
      else case stream_write bs s of
        (None, s') \<Rightarrow> (Inl failed, s')
      | (Some k, s') \<Rightarrow> if k = 0 then (Inl nothing, s') else write_all failed nothing (drop k bs) s')"
  by pat_completeness auto
termination
  by (relation "measure (\<lambda>(_, _, bs, _). length bs)") (auto simp: stream_write_def split: list.splits)

declare read_exact.simps [simp del] write_all.simps [simp del]

text \<open>\<open>throw_ssl\<close> appends what OpenSSL's error queue holds.\<close>

definition ssl_failure :: "byte_stream \<Rightarrow> string \<Rightarrow> exn" where
  "ssl_failure s message =
     (case queued_error s of None \<Rightarrow> Runtime_error message | Some buffer \<Rightarrow> Runtime_error (message @ '': '' @ buffer))"

definition ssl_write_all :: "bytes \<Rightarrow> (byte_stream, unit) action" where
  "ssl_write_all bs s =
     write_all (ssl_failure s ''TLS write failed'') (Runtime_error ''TLS write returned zero bytes'') bs s"

definition ssl_read_exact :: "nat \<Rightarrow> (byte_stream, bytes) action" where
  "ssl_read_exact n s =
     read_exact (ssl_failure s ''TLS read failed'') (Runtime_error ''peer closed TLS connection'') n s"

definition socket_send_all :: "bytes \<Rightarrow> (byte_stream, unit) action" where
  "socket_send_all bs = write_all (Runtime_error ''SOCKS5 send failed'') (Runtime_error ''SOCKS5 send failed'') bs"

definition socket_recv_exact :: "nat \<Rightarrow> (byte_stream, bytes) action" where
  "socket_recv_exact n =
     read_exact (Runtime_error ''SOCKS5 receive failed'') (Runtime_error ''SOCKS5 receive failed'') n"

text \<open>
  Reading: what is returned are the next bytes of the stream, neither more nor fewer, however they were cut; it
  returns whenever they are there. Nothing is written.
\<close>

definition flowing :: "byte_stream \<Rightarrow> bool" where
  "flowing s \<longleftrightarrow> [] \<notin> set (arriving s)"

locale exact_reader =
  fixes rd :: "nat \<Rightarrow> (byte_stream, bytes) action"
  assumes rd_returns: "rd n s = (Inr bs, s') \<Longrightarrow>
      length bs = n \<and> arriving_bytes s = bs @ arriving_bytes s' \<and> (flowing s \<longrightarrow> flowing s') \<and>
      departed s' = departed s \<and> accepts s' = accepts s"
    and rd_total: "flowing s \<Longrightarrow> n \<le> length (arriving_bytes s) \<Longrightarrow> \<exists>bs s'. rd n s = (Inr bs, s')"
begin

lemma rd_next:
  assumes "flowing s" "arriving_bytes s = bs @ rest"
  shows "\<exists>s'. rd (length bs) s = (Inr bs, s') \<and> arriving_bytes s' = rest \<and> flowing s' \<and>
     departed s' = departed s \<and> accepts s' = accepts s"
proof -
  obtain bs' s' where run: "rd (length bs) s = (Inr bs', s')"
    using rd_total [of s "length bs"] assms by auto
  note facts = rd_returns [OF run]
  then have "bs' @ arriving_bytes s' = bs @ rest" "length bs' = length bs"
    using assms(2) by simp_all
  then have "bs' = bs" "arriving_bytes s' = rest"
    by simp_all
  with run facts assms(1) show ?thesis
    by (intro exI [of _ s']) simp
qed

end

text \<open>
  Writing: what went out is a prefix of the buffer, all of it exactly when the loop returns; it returns if
  every coming call takes a byte or more.
\<close>

definition willing :: "nat \<Rightarrow> byte_stream \<Rightarrow> bool" where
  "willing n s \<longleftrightarrow> 0 \<notin> set (accepts s) \<and> n \<le> length (accepts s)"

locale exact_writer =
  fixes wr :: "bytes \<Rightarrow> (byte_stream, unit) action"
  assumes wr_sends: "wr bs s = (r, s') \<Longrightarrow>
      \<exists>k \<le> length bs. departed s' = departed s @ take k bs \<and> (r = Inr () \<longleftrightarrow> k = length bs) \<and>
        arriving s' = arriving s"
    and wr_total: "willing (length bs + n) s \<Longrightarrow> \<exists>s'. wr bs s = (Inr (), s') \<and> willing n s'"
begin

lemma wr_all: "wr bs s = (Inr (), s') \<Longrightarrow> departed s' = departed s @ bs \<and> arriving s' = arriving s"
  using wr_sends by fastforce

lemma wr_fails: "wr bs s = (Inl e, s') \<Longrightarrow>
    \<exists>k < length bs. departed s' = departed s @ take k bs \<and> arriving s' = arriving s"
  using wr_sends [of bs s "Inl e" s'] by (metis Inl_Inr_False le_neq_implies_less)

end

lemma stream_read_some:
  assumes "stream_read n s = (Some bs, s')" "0 < n"
  shows "length bs \<le> n \<and> arriving_bytes s = bs @ arriving_bytes s' \<and> (flowing s \<longrightarrow> flowing s' \<and> bs \<noteq> []) \<and>
     departed s' = departed s \<and> accepts s' = accepts s"
  using assms by (auto simp: stream_read_def arriving_bytes_def flowing_def split: list.splits if_splits)

lemma read_exact_returns:
  "read_exact failed nothing n s = (Inr bs, s') \<Longrightarrow>
     length bs = n \<and> arriving_bytes s = bs @ arriving_bytes s' \<and> (flowing s \<longrightarrow> flowing s') \<and>
     departed s' = departed s \<and> accepts s' = accepts s"
proof (induction failed nothing n s arbitrary: bs s' rule: read_exact.induct)
  case (1 failed nothing n s)
  show ?case
  proof (cases "n = 0")
    case False
    with "1.prems" obtain b s1 where step: "stream_read n s = (Some b, s1)" "b \<noteq> []"
      by (subst (asm) read_exact.simps) (auto split: prod.splits option.splits if_splits)
    with "1.prems" False obtain rest where rest: "bs = b @ rest" "read_exact failed nothing (n - length b) s1 = (Inr rest, s')"
      by (subst (asm) read_exact.simps) (auto simp: returns_simps)
    show ?thesis
      using "1.IH" [OF False step(1) [symmetric] refl step(2) rest(2)] stream_read_some [OF step(1)] False rest(1) by auto
  qed (use "1.prems" in \<open>simp add: read_exact.simps\<close>)
qed

lemma read_exact_total:
  "flowing s \<Longrightarrow> n \<le> length (arriving_bytes s) \<Longrightarrow> \<exists>bs s'. read_exact failed nothing n s = (Inr bs, s')"
proof (induction failed nothing n s rule: read_exact.induct)
  case (1 failed nothing n s)
  show ?case
  proof (cases "n = 0")
    case False
    with "1.prems" obtain b s1 where step: "stream_read n s = (Some b, s1)"
      by (cases "arriving s") (auto simp: stream_read_def arriving_bytes_def)
    with False "1.prems" have b: "b \<noteq> []" "flowing s1" "n - length b \<le> length (arriving_bytes s1)"
      using stream_read_some [OF step] by auto
    obtain rest s' where "read_exact failed nothing (n - length b) s1 = (Inr rest, s')"
      using "1.IH" [OF False step [symmetric] refl b] by blast
    then show ?thesis
      using False step b(1) by (subst read_exact.simps) (simp add: sbind_def sreturn_def)
  qed (simp add: read_exact.simps)
qed

lemma write_all_sends:
  "write_all failed nothing bs s = (r, s') \<Longrightarrow>
     \<exists>k \<le> length bs. departed s' = departed s @ take k bs \<and> (r = Inr () \<longleftrightarrow> k = length bs) \<and>
       arriving s' = arriving s"
proof (induction failed nothing bs s arbitrary: r s' rule: write_all.induct)
  case (1 failed nothing bs s)
  show ?case
  proof (cases "bs = []")
    case False
    show ?thesis
    proof (cases "accepts s")
      case Nil
      then have "r = Inl failed" "s' = s"
        using "1.prems" False by (subst (asm) write_all.simps, simp add: stream_write_def)+
      then show ?thesis
        using False by (intro exI [of _ 0]) simp
    next
      case (Cons j js)
      let ?s1 = "s\<lparr>accepts := js, departed := departed s @ take j bs\<rparr>"
      have step: "stream_write bs s = (Some (min j (length bs)), ?s1)"
        by (simp add: stream_write_def Cons)
      show ?thesis
      proof (cases "min j (length bs) = 0")
        case True
        then have "r = Inl nothing" "s' = ?s1" "j = 0"
          using "1.prems" False unfolding write_all.simps [of failed nothing bs s] step
          by (auto simp: min_def split: if_splits)
        then show ?thesis
          using False by (intro exI [of _ 0]) simp
      next
        case nonzero: False
        have run: "write_all failed nothing (drop (min j (length bs)) bs) ?s1 = (r, s')"
          using "1.prems" False nonzero unfolding write_all.simps [of failed nothing bs s] step by simp
        obtain k where k: "k \<le> length (drop (min j (length bs)) bs)"
          "departed s' = departed ?s1 @ take k (drop (min j (length bs)) bs)"
          "r = Inr () \<longleftrightarrow> k = length (drop (min j (length bs)) bs)" "arriving s' = arriving ?s1"
          using "1.IH" [OF False step [symmetric] refl nonzero run] by (elim exE conjE)
        let ?i = "min j (length bs)"
        have "take j bs @ take k (drop ?i bs) = take (?i + k) bs"
          by (simp add: take_add min_def)
        then have "departed s' = departed s @ take (?i + k) bs"
          using k(2) by (simp del: drop_append take_append)
        moreover have "?i + k \<le> length bs" "k = length (drop ?i bs) \<longleftrightarrow> ?i + k = length bs"
          using k(1) by auto
        ultimately show ?thesis
          using k(3,4) by (intro exI [of _ "?i + k"]) simp
      qed
    qed
  qed (use "1.prems" in \<open>simp add: write_all.simps\<close>)
qed

lemma write_all_total:
  "willing (length bs + m) s \<Longrightarrow> \<exists>s'. write_all failed nothing bs s = (Inr (), s') \<and> willing m s'"
proof (induction failed nothing bs s rule: write_all.induct)
  case (1 failed nothing bs s)
  show ?case
  proof (cases "bs = []")
    case False
    with "1.prems" obtain j js where j: "accepts s = j # js" "0 < j"
      by (cases "accepts s") (auto simp: willing_def)
    let ?s1 = "s\<lparr>accepts := js, departed := departed s @ take j bs\<rparr>"
    have step: "stream_write bs s = (Some (min j (length bs)), ?s1)" and nz: "min j (length bs) \<noteq> 0"
      using j False by (simp_all add: stream_write_def)
    have "willing (length (drop (min j (length bs)) bs) + m) ?s1"
      using "1.prems" j False nz by (cases bs) (auto simp: willing_def)
    then show ?thesis
      using "1.IH" [OF False step [symmetric] refl nz] False nz by (subst write_all.simps) (simp add: step)
  qed (use "1.prems" in \<open>simp add: write_all.simps\<close>)
qed

interpretation tls_in: exact_reader ssl_read_exact
  by unfold_locales (use read_exact_returns read_exact_total in \<open>fastforce simp: ssl_read_exact_def\<close>)+

interpretation socket_in: exact_reader socket_recv_exact
  by unfold_locales (use read_exact_returns read_exact_total in \<open>fastforce simp: socket_recv_exact_def\<close>)+

interpretation tls_out: exact_writer ssl_write_all
  by unfold_locales (use write_all_sends write_all_total in \<open>fastforce simp: ssl_write_all_def\<close>)+

interpretation socket_out: exact_writer socket_send_all
  by unfold_locales (use write_all_sends write_all_total in \<open>fastforce simp: socket_send_all_def\<close>)+

section \<open>The channel\<close>

text \<open>
  A closed or moved-from channel has no session. A file descriptor is an \<open>int\<close>; the TLS context is named by a
  number, and \<open>Frame\<close> is the struct of \<open>protocol.hpp\<close>.
\<close>

record Frame =
  frame_type :: MessageType
  frame_sequence :: u64
  frame_payload :: bytes

record SecureChannel =
  socket_fd :: int
  tls_context :: "nat option"
  ssl :: "byte_stream option"
  owns_ctx :: bool
  send_sequence :: u64
  receive_sequence :: u64

definition default_channel :: SecureChannel where
  "default_channel = \<lparr>socket_fd = -1, tls_context = None, ssl = None, owns_ctx = True, send_sequence = 1, receive_sequence = 1\<rparr>"

definition mk_channel :: "int \<Rightarrow> nat \<Rightarrow> byte_stream \<Rightarrow> bool \<Rightarrow> SecureChannel" where
  "mk_channel fd ctx session owns =
     \<lparr>socket_fd = fd, tls_context = Some ctx, ssl = Some session, owns_ctx = owns, send_sequence = 1, receive_sequence = 1\<rparr>"

text \<open>The opening statement of both operations, and a step on the session.\<close>

definition require_open :: "(SecureChannel, unit) action" where
  "require_open = sbind (sget ssl) (\<lambda>session. slift (throw_if (session = None) (Logic_error ''channel is closed'')))"

definition on_session :: "(byte_stream, 'a) action \<Rightarrow> (SecureChannel, 'a) action" where
  "on_session m c =
     (case ssl c of
        None \<Rightarrow> (Inl (Logic_error ''channel is closed''), c)
      | Some session \<Rightarrow> (case m session of (r, session') \<Rightarrow> (r, c\<lparr>ssl := Some session'\<rparr>)))"

definition frame_header :: "MessageType \<Rightarrow> u64 \<Rightarrow> nat \<Rightarrow> bytes" where
  "frame_header ty n len =
     map byte_of_char ''TP2P'' @ put_u16 kProtocolVersion @ put_u16 (message_type_value ty) @ put_u64 n @ put_u32 (of_nat len)"

definition last_sequence :: u64 where
  "last_sequence = of_nat (2 ^ 64 - 1)"

definition send_frame :: "MessageType \<Rightarrow> bytes \<Rightarrow> (SecureChannel, unit) action" where
  "send_frame ty body =
     sbind require_open (\<lambda>_.
     sbind (slift (validate_message_type ty)) (\<lambda>_.
     sbind (slift (throw_if (length body > kMaxFramePayload)
       (Invalid_argument ''frame payload exceeds hard limit''))) (\<lambda>_.
     sbind (sget (\<lambda>c. frame_header ty (send_sequence c) (length body))) (\<lambda>header.
     sbind (on_session (ssl_write_all header)) (\<lambda>_.
     sbind (if body \<noteq> [] then on_session (ssl_write_all body) else sreturn ()) (\<lambda>_.
     sbind (sget send_sequence) (\<lambda>n.
     sbind (slift (throw_if (n = last_sequence) (Runtime_error ''send sequence exhausted''))) (\<lambda>_.
     smodify (\<lambda>c. c\<lparr>send_sequence := n + 1\<rparr>)))))))))"

definition receive_frame :: "(SecureChannel, Frame) action" where
  "receive_frame =
     sbind require_open (\<lambda>_.
     sbind (on_session (ssl_read_exact kFrameHeaderSize)) (\<lambda>header.
     sbind (slift (throw_if (header ! 0 \<noteq> byte_of_char (CHR ''T'') \<or> header ! 1 \<noteq> byte_of_char (CHR ''P'') \<or>
         header ! 2 \<noteq> byte_of_char (CHR ''2'') \<or> header ! 3 \<noteq> byte_of_char (CHR ''P''))
       (Runtime_error ''invalid frame magic''))) (\<lambda>_.
     sbind (slift (throw_if (shift_in (ucast (header ! 4)) (header ! 5) \<noteq> kProtocolVersion)
       (Runtime_error ''unsupported wire version''))) (\<lambda>_.
     let ty = message_type_of_value (shift_in (ucast (header ! 6)) (header ! 7));
         n = foldl shift_in 0 (map (\<lambda>i. header ! (8 + i)) [0..<8]);
         len = foldl shift_in (0 :: u32) (map (\<lambda>i. header ! (16 + i)) [0..<4]) in
     sbind (slift (validate_message_type ty)) (\<lambda>_.
     sbind (sget receive_sequence) (\<lambda>expected.
     sbind (slift (throw_if (n \<noteq> expected) (Runtime_error ''unexpected frame sequence''))) (\<lambda>_.
     sbind (slift (throw_if (unat len > kMaxFramePayload)
       (Runtime_error ''incoming frame exceeds hard limit''))) (\<lambda>_.
     sbind (if len \<noteq> 0 then on_session (ssl_read_exact (unat len)) else sreturn []) (\<lambda>body.
     sbind (slift (throw_if (expected = last_sequence) (Runtime_error ''receive sequence exhausted''))) (\<lambda>_.
     sbind (smodify (\<lambda>c. c\<lparr>receive_sequence := expected + 1\<rparr>)) (\<lambda>_.
     sreturn \<lparr>frame_type = ty, frame_sequence = n, frame_payload = body\<rparr>)))))))))))"

definition has_pending_input :: "byte_stream option \<Rightarrow> (byte_stream \<Rightarrow> nat) \<Rightarrow> bool" where
  "has_pending_input session ssl_pending = (case session of None \<Rightarrow> False | Some s \<Rightarrow> ssl_pending s > 0)"

text \<open>\<open>set_timeout\<close>, with what \<open>setsockopt\<close> answers: \<open>None\<close>, or the text of \<open>errno\<close>.\<close>

definition set_timeout :: "string option \<Rightarrow> nat \<Rightarrow> SecureChannel \<Rightarrow> unit result" where
  "set_timeout refused timeout_seconds c =
     rbind (throw_if (socket_fd c < 0 \<or> timeout_seconds = 0) (Invalid_argument ''invalid socket timeout'')) (\<lambda>_.
     case refused of
       None \<Rightarrow> Inr ()
     | Some errno \<Rightarrow> Inl (Runtime_error (''failed to set socket timeout: '' @ errno)))"

section \<open>Ownership of the session, the context and the descriptor\<close>

text \<open>What a call hands back to OpenSSL and to the kernel.\<close>

datatype release = FreeSession | FreeContext nat | CloseFd int

definition close_channel :: "SecureChannel \<Rightarrow> SecureChannel \<times> release list" where
  "close_channel c =
     (c\<lparr>ssl := None, tls_context := None, socket_fd := -1\<rparr>,
      (if ssl c \<noteq> None then [FreeSession] else []) @
      (case tls_context c of None \<Rightarrow> [] | Some ctx \<Rightarrow> if owns_ctx c then [FreeContext ctx] else []) @
      (if socket_fd c \<ge> 0 then [CloseFd (socket_fd c)] else []))"

text \<open>The move constructor: the new channel and what is left of the old one.\<close>

definition move_channel :: "SecureChannel \<Rightarrow> SecureChannel \<times> SecureChannel" where
  "move_channel other = (other, other\<lparr>socket_fd := -1, tls_context := None, ssl := None, owns_ctx := True\<rparr>)"

text \<open>Move assignment between distinct objects closes the target first.\<close>

definition move_assign :: "SecureChannel \<Rightarrow> SecureChannel \<Rightarrow> (SecureChannel \<times> SecureChannel) \<times> release list" where
  "move_assign this other = (move_channel other, snd (close_channel this))"

text \<open>
  What a channel owns is released exactly once: by the channel it was moved to, and not again by a second
  \<open>close\<close> (the destructor runs one).
\<close>

theorem released_once:
  "snd (close_channel (fst (move_channel c))) = snd (close_channel c)"
  "snd (close_channel (snd (move_channel c))) = []"
  "snd (close_channel (fst (close_channel c))) = []"
  by (simp_all add: close_channel_def move_channel_def)

end
