(* ===== verification/Channel_Safety.thy ===== *)
theory Channel_Safety
  imports Channel
begin

text \<open>
  What the framed channel delivers. \<open>frame_bytes\<close> is the text of a frame; \<open>send_frame\<close> writes it and
  \<open>receive_frame\<close> accepts exactly it, under the sequence number it expects. A one-way link between two
  channels, with bytes arriving in pieces of any size and failures on either side, refines a queue.
\<close>

section \<open>Frames and their bytes\<close>

definition frame_bytes :: "Frame \<Rightarrow> bytes" where
  "frame_bytes f = frame_header (frame_type f) (frame_sequence f) (length (frame_payload f)) @ frame_payload f"

definition frame_ok :: "Frame \<Rightarrow> bool" where
  "frame_ok f \<longleftrightarrow> validate_message_type (frame_type f) = Inr () \<and>
     message_type_of_value (message_type_value (frame_type f)) = frame_type f \<and>
     length (frame_payload f) \<le> kMaxFramePayload"

lemma length_frame_header [simp]: "length (frame_header ty n len) = kFrameHeaderSize"
  by (simp add: frame_header_def)

lemma length_frame_bytes: "length (frame_bytes f) = kFrameHeaderSize + length (frame_payload f)"
  by (simp add: frame_bytes_def)

lemma map_nth_middle: "map (\<lambda>i. (xs @ v @ ys) ! (length xs + i)) [0..<length v] = v"
  by (rule nth_equalityI) (simp_all add: nth_append)

text \<open>What a header of twenty bytes says, and that it says nothing else.\<close>

lemma frame_header_fields:
  assumes "len \<le> kMaxFramePayload"
  shows "frame_header ty n len ! 0 = byte_of_char (CHR ''T'')" "frame_header ty n len ! 1 = byte_of_char (CHR ''P'')"
    "frame_header ty n len ! 2 = byte_of_char (CHR ''2'')" "frame_header ty n len ! 3 = byte_of_char (CHR ''P'')"
    "shift_in (ucast (frame_header ty n len ! 4)) (frame_header ty n len ! 5) = kProtocolVersion"
    "shift_in (ucast (frame_header ty n len ! 6)) (frame_header ty n len ! 7) = message_type_value ty"
    "foldl shift_in 0 (map (\<lambda>i. frame_header ty n len ! (8 + i)) [0..<8]) = n"
    "foldl shift_in (0 :: u32) (map (\<lambda>i. frame_header ty n len ! (16 + i)) [0..<4]) = of_nat len"
proof -
  have parts: "put_u16 a = [put_u16 a ! 0, put_u16 a ! 1]" for a
    by (simp add: put_u16_def)
  show "shift_in (ucast (frame_header ty n len ! 4)) (frame_header ty n len ! 5) = kProtocolVersion"
    using shift_put_u16 [of kProtocolVersion] by (simp add: frame_header_def nth_append)
  show "shift_in (ucast (frame_header ty n len ! 6)) (frame_header ty n len ! 7) = message_type_value ty"
    using shift_put_u16 [of "message_type_value ty"] by (simp add: frame_header_def nth_append)
  have "map (\<lambda>i. frame_header ty n len ! (8 + i)) [0..<8] = put_u64 n"
    using map_nth_middle [of "map byte_of_char ''TP2P'' @ put_u16 kProtocolVersion @ put_u16 (message_type_value ty)"
        "put_u64 n" "put_u32 (of_nat len)"]
    by (simp add: frame_header_def)
  then show "foldl shift_in 0 (map (\<lambda>i. frame_header ty n len ! (8 + i)) [0..<8]) = n"
    by (simp only: shift_put_u64)
  have "map (\<lambda>i. frame_header ty n len ! (16 + i)) [0..<4] = put_u32 (of_nat len)"
    using map_nth_middle [of "map byte_of_char ''TP2P'' @ put_u16 kProtocolVersion @ put_u16 (message_type_value ty) @ put_u64 n"
        "put_u32 (of_nat len)" "[]"]
    by (simp add: frame_header_def)
  then show "foldl shift_in (0 :: u32) (map (\<lambda>i. frame_header ty n len ! (16 + i)) [0..<4]) = of_nat len"
    by (simp only: shift_put_u32)
qed (simp_all add: frame_header_def)

lemma upt_header: "[0..<8] = [0, 1, 2, 3, 4, 5, 6, 7 :: nat]" "[0..<4] = [0, 1, 2, 3 :: nat]"
  "[0..<20] = [0, 1, 2, 3, 4, 5, 6, 7, 8, 9, 10, 11, 12, 13, 14, 15, 16, 17, 18, 19 :: nat]"
  by (simp_all add: upt_rec)

lemma header_is_frame_header:
  assumes "length h = kFrameHeaderSize"
    and "h ! 0 = byte_of_char (CHR ''T'')" "h ! 1 = byte_of_char (CHR ''P'')"
      "h ! 2 = byte_of_char (CHR ''2'')" "h ! 3 = byte_of_char (CHR ''P'')"
    and "shift_in (ucast (h ! 4)) (h ! 5) = kProtocolVersion"
    and "message_type_value ty = shift_in (ucast (h ! 6)) (h ! 7)"
  shows "h = frame_header ty (foldl shift_in 0 (map (\<lambda>i. h ! (8 + i)) [0..<8]))
     (unat (foldl shift_in (0 :: u32) (map (\<lambda>i. h ! (16 + i)) [0..<4])))"
proof -
  have whole: "h = [h ! 0, h ! 1, h ! 2, h ! 3] @ [h ! 4, h ! 5] @ [h ! 6, h ! 7] @
      [h ! 8, h ! 9, h ! 10, h ! 11, h ! 12, h ! 13, h ! 14, h ! 15] @ [h ! 16, h ! 17, h ! 18, h ! 19]"
    using map_nth [of h, symmetric] unfolding assms(1) upt_header by (simp only: list.map append.simps)
  have "put_u16 kProtocolVersion = [h ! 4, h ! 5]" "put_u16 (message_type_value ty) = [h ! 6, h ! 7]"
    using put_u16_shift assms(6,7) by metis+
  moreover have "put_u64 (foldl shift_in 0 (map (\<lambda>i. h ! (8 + i)) [0..<8])) =
      [h ! 8, h ! 9, h ! 10, h ! 11, h ! 12, h ! 13, h ! 14, h ! 15]"
    unfolding upt_header using put_u64_shift by simp
  moreover have "put_u32 (foldl shift_in 0 (map (\<lambda>i. h ! (16 + i)) [0..<4])) = [h ! 16, h ! 17, h ! 18, h ! 19]"
    unfolding upt_header using put_u32_shift by simp
  moreover have "map byte_of_char ''TP2P'' = [h ! 0, h ! 1, h ! 2, h ! 3]"
    using assms(2-5) by simp
  ultimately show ?thesis
    unfolding frame_header_def by (simp only: of_nat_unat ucast_id) (rule whole)
qed

lemma frame_bytes_unambiguous:
  assumes "frame_ok f" "frame_ok g" "frame_bytes f @ x = frame_bytes g @ y"
  shows "f = g \<and> x = y"
proof -
  have "frame_header (frame_type f) (frame_sequence f) (length (frame_payload f)) =
      frame_header (frame_type g) (frame_sequence g) (length (frame_payload g))"
    and rest: "frame_payload f @ x = frame_payload g @ y"
    using assms(3) by (simp_all add: frame_bytes_def)
  then have h: "message_type_value (frame_type f) = message_type_value (frame_type g)"
    "frame_sequence f = frame_sequence g" "(of_nat (length (frame_payload f)) :: u32) = of_nat (length (frame_payload g))"
    using assms frame_header_fields(6-8) unfolding frame_ok_def by metis+
  then have "length (frame_payload f) = length (frame_payload g)"
    using assms(1,2) by (simp add: frame_ok_def of_nat_inverse word_of_nat_eq_iff take_bit_nat_eq_self)
  moreover have "frame_type f = frame_type g"
    using h(1) assms(1,2) by (metis frame_ok_def)
  ultimately show ?thesis
    using rest h(2) by (cases f; cases g) simp
qed

section \<open>Sending\<close>

lemma throw_slift_returns [returns_simps]: "slift (throw_if c e) s = (Inr u, s') \<longleftrightarrow> \<not> c \<and> s' = s"
  by (auto simp: slift_def throw_if_def)

lemma require_open_run: "require_open c = ((if ssl c = None then Inl (Logic_error ''channel is closed'') else Inr ()), c)"
  by (simp add: require_open_def sbind_def action_defs throw_if_def)

lemma on_session_run:
  "ssl c = Some s \<Longrightarrow> on_session m c = (case m s of (r, s') \<Rightarrow> (r, c\<lparr>ssl := Some s'\<rparr>))"
  by (simp add: on_session_def)

text \<open>The body of a frame is written with the same loop; for an empty one the loop has nothing to do.\<close>

lemma ssl_write_nothing: "ssl_write_all [] s = (Inr (), s)"
  by (simp add: ssl_write_all_def write_all.simps)

lemma ssl_read_nothing: "ssl_read_exact 0 s = (Inr [], s)"
  by (simp add: ssl_read_exact_def read_exact.simps)

lemma channel_unchanged [simp]: "c\<lparr>send_sequence := send_sequence c\<rparr> = c" "c\<lparr>ssl := t, send_sequence := send_sequence c\<rparr> = c\<lparr>ssl := t\<rparr>"
  "c\<lparr>ssl := t, send_sequence := n\<rparr> = c\<lparr>ssl := t', send_sequence := n\<rparr> \<longleftrightarrow> t = t'"
  by (cases c; simp)+

lemma send_frame_run:
  assumes "ssl c = Some s" "validate_message_type ty = Inr ()" "length body \<le> kMaxFramePayload"
  shows "send_frame ty body c =
     (case ssl_write_all (frame_header ty (send_sequence c) (length body)) s of
        (Inl e, s1) \<Rightarrow> (Inl e, c\<lparr>ssl := Some s1\<rparr>)
      | (Inr _, s1) \<Rightarrow>
          (case ssl_write_all body s1 of
             (Inl e, s2) \<Rightarrow> (Inl e, c\<lparr>ssl := Some s2\<rparr>)
           | (Inr _, s2) \<Rightarrow>
               if send_sequence c = last_sequence then (Inl (Runtime_error ''send sequence exhausted''), c\<lparr>ssl := Some s2\<rparr>)
               else (Inr (), c\<lparr>ssl := Some s2, send_sequence := send_sequence c + 1\<rparr>)))"
proof -
  let ?h = "frame_header ty (send_sequence c) (length body)"
  obtain r1 s1 where w1: "ssl_write_all ?h s = (r1, s1)"
    by (cases "ssl_write_all ?h s")
  obtain r2 s2 where w2: "ssl_write_all body s1 = (r2, s2)"
    by (cases "ssl_write_all body s1")
  note now = send_frame_def sbind_def require_open_run action_defs on_session_def throw_if_def assms(1,2) w1
  show ?thesis
  proof (cases "body = []")
    case True
    then show ?thesis
      by (cases r1) (use w1 in \<open>auto simp: send_frame_def sbind_def require_open_run action_defs on_session_def
        throw_if_def assms(1,2) ssl_write_nothing\<close>)
  next
    case False
    then show ?thesis
      using assms(3) by (cases r1; cases r2) (auto simp: now w2)
  qed
qed

text \<open>
  A frame the channel takes: what has gone out is a prefix of its bytes, and all of them if the call returns.
  It fails after the last byte only at the very last sequence number.
\<close>

lemma send_frame_effect:
  assumes "ssl c = Some s" "validate_message_type ty = Inr ()" "length body \<le> kMaxFramePayload"
    and run: "send_frame ty body c = (r, c')"
    and f: "f = \<lparr>frame_type = ty, frame_sequence = send_sequence c, frame_payload = body\<rparr>"
  obtains s' k where "c' = c\<lparr>ssl := Some s', send_sequence := (if r = Inr () then send_sequence c + 1 else send_sequence c)\<rparr>"
    "k \<le> length (frame_bytes f)" "departed s' = departed s @ take k (frame_bytes f)" "arriving s' = arriving s"
    "r = Inr () \<longleftrightarrow> k = length (frame_bytes f) \<and> send_sequence c \<noteq> last_sequence"
proof -
  let ?h = "frame_header ty (send_sequence c) (length body)"
  have fb: "frame_bytes f = ?h @ body"
    by (simp add: frame_bytes_def f)
  note run = run [unfolded send_frame_run [OF assms(1-3)]]
  obtain r1 s1 where w1: "ssl_write_all ?h s = (r1, s1)"
    by (cases "ssl_write_all ?h s")
  show ?thesis
  proof (cases r1)
    case (Inl e)
    then obtain k where "k < length ?h" "departed s1 = departed s @ take k ?h" "arriving s1 = arriving s"
      using tls_out.wr_fails w1 by blast
    then show ?thesis
      using run Inl w1 that [of s1 k] by (auto simp: fb)
  next
    case (Inr u)
    then have one: "departed s1 = departed s @ ?h" "arriving s1 = arriving s"
      using tls_out.wr_all w1 by auto
    obtain r2 s2 where w2: "ssl_write_all body s1 = (r2, s2)"
      by (cases "ssl_write_all body s1")
    show ?thesis
    proof (cases r2)
      case Inl2: (Inl e)
      then obtain k where "k < length body" "departed s2 = departed s1 @ take k body" "arriving s2 = arriving s1"
        using tls_out.wr_fails w2 by blast
      then show ?thesis
        using run Inr Inl2 w1 w2 one that [of s2 "length ?h + k"] by (auto simp: fb)
    next
      case Inr2: (Inr v)
      then have "departed s2 = departed s1 @ body" "arriving s2 = arriving s1"
        using tls_out.wr_all w2 by auto
      then show ?thesis
        using run Inr Inr2 w1 w2 one that [of s2 "length (frame_bytes f)"] by (auto simp: fb split: if_splits)
    qed
  qed
qed

lemma send_frame_total:
  assumes "ssl c = Some s" "validate_message_type ty = Inr ()" "length body \<le> kMaxFramePayload"
    and "send_sequence c \<noteq> last_sequence" "willing (kFrameHeaderSize + length body + m) s"
  shows "\<exists>s'. send_frame ty body c = (Inr (), c\<lparr>ssl := Some s', send_sequence := send_sequence c + 1\<rparr>) \<and>
     willing m s'"
proof -
  let ?h = "frame_header ty (send_sequence c) (length body)"
  have "willing (length ?h + (length body + m)) s"
    using assms(5) by (simp add: add.assoc)
  then obtain s1 where w1: "ssl_write_all ?h s = (Inr (), s1)" "willing (length body + m) s1"
    using tls_out.wr_total by blast
  moreover obtain s2 where "ssl_write_all body s1 = (Inr (), s2)" "willing m s2"
    using tls_out.wr_total [OF w1(2)] by blast
  ultimately show ?thesis
    using assms(4) by (auto simp: send_frame_run [OF assms(1-3)])
qed

text \<open>A frame the channel refuses leaves it as it was.\<close>

lemma send_frame_refused:
  "validate_message_type ty \<noteq> Inr () \<or> length body > kMaxFramePayload \<Longrightarrow> snd (send_frame ty body c) = c \<and> isl (fst (send_frame ty body c))"
  by (cases "validate_message_type ty")
     (auto simp: send_frame_def sbind_def require_open_run action_defs throw_if_def)

section \<open>Receiving\<close>

lemma channel_steps_return [returns_simps]:
  "require_open c = (Inr u, c') \<longleftrightarrow> ssl c \<noteq> None \<and> c' = c"
  "on_session m c = (Inr x, c') \<longleftrightarrow> (\<exists>s s'. ssl c = Some s \<and> m s = (Inr x, s') \<and> c' = c\<lparr>ssl := Some s'\<rparr>)"
  by (auto simp: require_open_run on_session_def split: option.splits prod.splits)

lemma read_body: "(if len \<noteq> 0 then on_session (ssl_read_exact (unat len)) else sreturn []) c = (Inr x, c') \<longleftrightarrow>
    (if len \<noteq> 0 then on_session (ssl_read_exact (unat len)) c = (Inr x, c') else x = [] \<and> c' = c)" for len :: u32
  by (auto simp: returns_simps)

lemma receive_frame_returns:
  assumes "receive_frame c = (Inr f, c')" "ssl c = Some s"
  obtains s' where "c' = c\<lparr>ssl := Some s', receive_sequence := receive_sequence c + 1\<rparr>"
    "frame_ok f" "frame_sequence f = receive_sequence c" "receive_sequence c \<noteq> last_sequence"
    "arriving_bytes s = frame_bytes f @ arriving_bytes s'" "flowing s \<longrightarrow> flowing s'"
    "departed s' = departed s" "accepts s' = accepts s"
proof -
  obtain h s1 c2 body where h: "ssl_read_exact kFrameHeaderSize s = (Inr h, s1)"
    and magic: "h ! 0 = byte_of_char (CHR ''T'')" "h ! 1 = byte_of_char (CHR ''P'')"
      "h ! 2 = byte_of_char (CHR ''2'')" "h ! 3 = byte_of_char (CHR ''P'')"
    and ver: "shift_in (ucast (h ! 4)) (h ! 5) = kProtocolVersion"
    and ty: "validate_message_type (message_type_of_value (shift_in (ucast (h ! 6)) (h ! 7))) = Inr ()"
    and sq: "foldl shift_in 0 (map (\<lambda>i. h ! (8 + i)) [0..<8]) = receive_sequence c"
    and len: "unat (foldl shift_in (0 :: u32) (map (\<lambda>i. h ! (16 + i)) [0..<4])) \<le> kMaxFramePayload"
    and body: "(if foldl shift_in (0 :: u32) (map (\<lambda>i. h ! (16 + i)) [0..<4]) \<noteq> 0
       then on_session (ssl_read_exact (unat (foldl shift_in (0 :: u32) (map (\<lambda>i. h ! (16 + i)) [0..<4]))))
       else sreturn []) (c\<lparr>ssl := Some s1\<rparr>) = (Inr body, c2)"
    and last: "receive_sequence c \<noteq> last_sequence"
    and c': "c' = c2\<lparr>receive_sequence := receive_sequence c + 1\<rparr>"
    and f: "f = \<lparr>frame_type = message_type_of_value (shift_in (ucast (h ! 6)) (h ! 7)),
       frame_sequence = receive_sequence c, frame_payload = body\<rparr>"
    using assms unfolding receive_frame_def Let_def returns_simps throw_if_eq_Inr by auto
  let ?len = "foldl shift_in (0 :: u32) (map (\<lambda>i. h ! (16 + i)) [0..<4])"
  obtain s2 where s2: "ssl_read_exact (unat ?len) s1 = (Inr body, s2)" "c2 = c\<lparr>ssl := Some s2\<rparr>"
    using body unfolding read_body by (cases "?len = 0") (auto simp: returns_simps ssl_read_nothing)
  note first = tls_in.rd_returns [OF h] and second = tls_in.rd_returns [OF s2(1)]
  have "h = frame_header (frame_type f) (frame_sequence f) (length (frame_payload f))"
    using header_is_frame_header [of h "frame_type f"] first second magic ver by (simp add: f sq)
  then have "arriving_bytes s = frame_bytes f @ arriving_bytes s2"
    using first second by (simp add: frame_bytes_def f)
  moreover have "frame_ok f"
    using ty len second by (simp add: frame_ok_def f)
  ultimately show ?thesis
    using that [of s2] first second last by (simp add: c' s2(2) f)
qed

lemma receive_frame_total:
  assumes "frame_ok f" "ssl c = Some s" "frame_sequence f = receive_sequence c" "receive_sequence c \<noteq> last_sequence"
    and "flowing s" "arriving_bytes s = frame_bytes f @ rest"
  shows "\<exists>s'. receive_frame c = (Inr f, c\<lparr>ssl := Some s', receive_sequence := receive_sequence c + 1\<rparr>) \<and>
     arriving_bytes s' = rest \<and> flowing s'"
proof -
  let ?h = "frame_header (frame_type f) (frame_sequence f) (length (frame_payload f))"
  have ok: "validate_message_type (frame_type f) = Inr ()"
    "message_type_of_value (message_type_value (frame_type f)) = frame_type f" "length (frame_payload f) \<le> kMaxFramePayload"
    using assms(1) by (simp_all add: frame_ok_def)
  have "arriving_bytes s = ?h @ (frame_payload f @ rest)"
    using assms(6) by (simp add: frame_bytes_def)
  then obtain s1 where s1: "ssl_read_exact kFrameHeaderSize s = (Inr ?h, s1)" "arriving_bytes s1 = frame_payload f @ rest" "flowing s1"
    using tls_in.rd_next [OF assms(5), of ?h "frame_payload f @ rest"] by auto
  obtain s2 where s2: "ssl_read_exact (length (frame_payload f)) s1 = (Inr (frame_payload f), s2)" "arriving_bytes s2 = rest" "flowing s2"
    using tls_in.rd_next [OF s1(3,2)] by auto
  have len: "unat (of_nat (length (frame_payload f)) :: u32) = length (frame_payload f)"
    using ok(3) by (simp add: unsigned_of_nat take_bit_nat_eq_self)
  obtain h where h: "h = ?h"
    by blast
  note fields = frame_header_fields [OF ok(3), of "frame_type f" "frame_sequence f", folded h]
  have f: "f = \<lparr>frame_type = frame_type f, frame_sequence = receive_sequence c, frame_payload = frame_payload f\<rparr>"
    using assms(3) by (cases f) simp
  have body: "(of_nat (length (frame_payload f)) :: u32) = 0 \<Longrightarrow> s2 = s1 \<and> frame_payload f = []"
    using len s2(1) by (simp add: ssl_read_nothing)
  have "receive_frame c = (Inr f, c\<lparr>ssl := Some s2, receive_sequence := receive_sequence c + 1\<rparr>)"
    using assms(2-4) s1(1) [folded h] fields(2) s2(1) f body
    by (cases "(of_nat (length (frame_payload f)) :: u32) = 0")
       (simp_all add: receive_frame_def Let_def returns_simps throw_if_eq_Inr fields ok len read_body ok(3) [simplified not_less [symmetric]]
        del: sbind_simps sbind_slift cong: if_cong)
  then show ?thesis
    using s2 by blast
qed

section \<open>Conversations\<close>

text \<open>The frames that carry a list of messages, under consecutive sequence numbers.\<close>

primrec frames_from :: "u64 \<Rightarrow> (MessageType \<times> bytes) list \<Rightarrow> Frame list" where
  "frames_from n [] = []"
| "frames_from n (m # ms) =
     \<lparr>frame_type = fst m, frame_sequence = n, frame_payload = snd m\<rparr> # frames_from (n + 1) ms"

definition message_ok :: "MessageType \<times> bytes \<Rightarrow> bool" where
  "message_ok m \<longleftrightarrow> validate_message_type (fst m) = Inr () \<and>
     message_type_of_value (message_type_value (fst m)) = fst m \<and> length (snd m) \<le> kMaxFramePayload"

lemma frame_ok_message [simp]:
  "frame_ok \<lparr>frame_type = fst m, frame_sequence = n, frame_payload = snd m\<rparr> \<longleftrightarrow> message_ok m"
  by (simp add: frame_ok_def message_ok_def)

lemma length_frames_from [simp]: "length (frames_from n ms) = length ms"
  by (induction ms arbitrary: n) simp_all

lemma frames_from_append: "frames_from n (ms @ ms') = frames_from n ms @ frames_from (n + of_nat (length ms)) ms'"
  by (induction ms arbitrary: n) (simp_all add: algebra_simps)

text \<open>Sending and receiving one after the other, stopping at the first throw.\<close>

primrec send_frames :: "(MessageType \<times> bytes) list \<Rightarrow> (SecureChannel, unit) action" where
  "send_frames [] = sreturn ()"
| "send_frames (m # ms) = sbind (send_frame (fst m) (snd m)) (\<lambda>_. send_frames ms)"

primrec receive_frames :: "nat \<Rightarrow> (SecureChannel, Frame list) action" where
  "receive_frames 0 = sreturn []"
| "receive_frames (Suc n) = sbind receive_frame (\<lambda>f. sbind (receive_frames n) (\<lambda>fs. sreturn (f # fs)))"

definition room_left :: "u64 \<Rightarrow> nat \<Rightarrow> bool" where
  "room_left n k \<longleftrightarrow> unat n + k < 2 ^ 64"

lemma room_left_Suc: "room_left n (Suc k) \<Longrightarrow> n \<noteq> last_sequence \<and> room_left (n + 1) k"
proof -
  assume room: "room_left n (Suc k)"
  then have "n \<noteq> last_sequence"
    by (auto simp: room_left_def last_sequence_def unsigned_of_nat)
  moreover from room have "unat (n + 1) = unat n + 1"
    by (simp add: room_left_def unat_word_ariths)
  ultimately show ?thesis
    using room by (simp add: room_left_def)
qed

lemma send_frames_total:
  assumes "ssl c = Some s" "\<forall>m\<in>set ms. message_ok m" "room_left (send_sequence c) (length ms)"
    and "willing (length (concat (map frame_bytes (frames_from (send_sequence c) ms)))) s"
  shows "\<exists>c' s'. send_frames ms c = (Inr (), c') \<and> ssl c' = Some s' \<and>
     departed s' = departed s @ concat (map frame_bytes (frames_from (send_sequence c) ms))"
  using assms
proof (induction ms arbitrary: c s)
  case Nil
  then show ?case
    by (simp add: sreturn_def)
next
  case (Cons m ms)
  let ?f = "\<lparr>frame_type = fst m, frame_sequence = send_sequence c, frame_payload = snd m\<rparr>"
  let ?rest = "concat (map frame_bytes (frames_from (send_sequence c + 1) ms))"
  have m: "validate_message_type (fst m) = Inr ()" "length (snd m) \<le> kMaxFramePayload" "\<forall>m\<in>set ms. message_ok m"
    using Cons.prems(2) by (auto simp: message_ok_def)
  have room: "send_sequence c \<noteq> last_sequence" "room_left (send_sequence c + 1) (length ms)"
    using Cons.prems(3) room_left_Suc by auto
  have "willing (kFrameHeaderSize + length (snd m) + length ?rest) s"
    using Cons.prems(4) by (simp add: length_frame_bytes)
  from send_frame_total [OF Cons.prems(1) m(1,2) room(1) this]
  obtain s1 where one: "send_frame (fst m) (snd m) c = (Inr (), c\<lparr>ssl := Some s1, send_sequence := send_sequence c + 1\<rparr>)"
    "willing (length ?rest) s1"
    by blast
  have "departed s1 = departed s @ frame_bytes ?f"
    by (rule send_frame_effect [OF Cons.prems(1) m(1,2) one(1) refl]) (use room(1) in \<open>cases c; auto\<close>)
  with Cons.IH [of "c\<lparr>ssl := Some s1, send_sequence := send_sequence c + 1\<rparr>" s1] one m(3) room(2)
  show ?case
    by (auto simp: sbind_def)
qed

lemma receive_frames_total:
  assumes "ssl c = Some s" "\<forall>m\<in>set ms. message_ok m" "room_left (receive_sequence c) (length ms)"
    and "flowing s" "arriving_bytes s = concat (map frame_bytes (frames_from (receive_sequence c) ms)) @ rest"
  shows "\<exists>c' s'. receive_frames (length ms) c = (Inr (frames_from (receive_sequence c) ms), c') \<and> ssl c' = Some s' \<and>
     arriving_bytes s' = rest"
  using assms
proof (induction ms arbitrary: c s)
  case Nil
  then show ?case
    by (simp add: sreturn_def)
next
  case (Cons m ms)
  let ?f = "\<lparr>frame_type = fst m, frame_sequence = receive_sequence c, frame_payload = snd m\<rparr>"
  have room: "receive_sequence c \<noteq> last_sequence" "room_left (receive_sequence c + 1) (length ms)"
    using Cons.prems(3) room_left_Suc by auto
  obtain s1 where "receive_frame c = (Inr ?f, c\<lparr>ssl := Some s1, receive_sequence := receive_sequence c + 1\<rparr>)"
    "arriving_bytes s1 = concat (map frame_bytes (frames_from (receive_sequence c + 1) ms)) @ rest" "flowing s1"
    using receive_frame_total [of ?f c s] Cons.prems room(1) by auto
  with Cons.IH [of "c\<lparr>ssl := Some s1, receive_sequence := receive_sequence c + 1\<rparr>" s1] Cons.prems(2) room(2)
  show ?case
    by (auto simp: sbind_def sreturn_def)
qed

section \<open>A link between two channels\<close>

text \<open>
  One direction of a connection. \<open>carried\<close> counts the bytes that have arrived at the receiver; they come in
  pieces of any size. \<open>sent\<close> and \<open>got\<close> are what the calls of the two ends returned for. An end whose call threw is
  not used again, as in the program, where the exception leads to the channel's destruction.
\<close>

record link =
  sender :: SecureChannel
  receiver :: SecureChannel
  sender_up :: bool
  receiver_up :: bool
  carried :: nat
  sent :: "(MessageType \<times> bytes) list"
  got :: "Frame list"

definition wire :: "SecureChannel \<Rightarrow> bytes" where
  "wire c = (case ssl c of None \<Rightarrow> [] | Some s \<Rightarrow> departed s)"

definition allow_writes :: "nat list \<Rightarrow> SecureChannel \<Rightarrow> SecureChannel" where
  "allow_writes ks c = c\<lparr>ssl := map_option (\<lambda>s. s\<lparr>accepts := ks\<rparr>) (ssl c)\<rparr>"

definition arrive :: "bytes \<Rightarrow> SecureChannel \<Rightarrow> SecureChannel" where
  "arrive piece c = c\<lparr>ssl := map_option (\<lambda>s. s\<lparr>arriving := arriving s @ [piece]\<rparr>) (ssl c)\<rparr>"

inductive link_step :: "link \<Rightarrow> link \<Rightarrow> bool" where
  sends: "sender_up L \<Longrightarrow> message_type_of_value (message_type_value ty) = ty \<Longrightarrow> send_frame ty body (sender L) = (r, c) \<Longrightarrow>
     link_step L (L\<lparr>sender := c, sender_up := (r = Inr ()), sent := (if r = Inr () then sent L @ [(ty, body)] else sent L)\<rparr>)"
| carries: "0 < k \<Longrightarrow> carried L + k \<le> length (wire (sender L)) \<Longrightarrow>
     link_step L (L\<lparr>receiver := arrive (take k (drop (carried L) (wire (sender L)))) (receiver L), carried := carried L + k\<rparr>)"
| receives: "receiver_up L \<Longrightarrow> receive_frame (receiver L) = (Inr f, c) \<Longrightarrow>
     link_step L (L\<lparr>receiver := c, got := got L @ [f]\<rparr>)"
| fails_to_receive: "receiver_up L \<Longrightarrow> receive_frame (receiver L) = (Inl e, c) \<Longrightarrow>
     link_step L (L\<lparr>receiver := c, receiver_up := False\<rparr>)"
| buffers: "link_step L (L\<lparr>sender := allow_writes ks (sender L)\<rparr>)"

inductive link_reachable :: "link \<Rightarrow> bool" where
  starts: "ssl a = Some s \<Longrightarrow> ssl b = Some t \<Longrightarrow> send_sequence a = 1 \<Longrightarrow> receive_sequence b = 1 \<Longrightarrow> departed s = [] \<Longrightarrow>
     arriving t = [] \<Longrightarrow>
     link_reachable \<lparr>sender = a, receiver = b, sender_up = True, receiver_up = True, carried = 0, sent = [], got = []\<rparr>"
| steps: "link_reachable L \<Longrightarrow> link_step L L' \<Longrightarrow> link_reachable L'"

text \<open>
  What is on its way: the frames sent and not yet received, and behind them what a failed call left, which
  is not a frame the receiver would take.
\<close>

definition leftover :: "bytes \<Rightarrow> bool" where
  "leftover tail \<longleftrightarrow> tail = [] \<or>
     (\<exists>g rest. frame_ok g \<and> frame_bytes g = tail @ rest \<and> (rest \<noteq> [] \<or> frame_sequence g = last_sequence))"

definition under_way :: "link \<Rightarrow> Frame list" where
  "under_way L = drop (length (got L)) (frames_from 1 (sent L))"

definition link_inv :: "link \<Rightarrow> bool" where
  "link_inv L \<longleftrightarrow> (\<exists>s t tail. ssl (sender L) = Some s \<and> ssl (receiver L) = Some t \<and> carried L \<le> length (departed s) \<and>
     (\<forall>m\<in>set (sent L). message_ok m) \<and> unat (send_sequence (sender L)) = Suc (length (sent L)) \<and>
     got L = take (length (got L)) (frames_from 1 (sent L)) \<and>
     (sender_up L \<longrightarrow> tail = []) \<and> leftover tail \<and>
     (receiver_up L \<longrightarrow> receive_sequence (receiver L) = 1 + of_nat (length (got L)) \<and>
        arriving_bytes t @ drop (carried L) (departed s) = concat (map frame_bytes (under_way L)) @ tail))"

lemma under_way_simps [simp]:
  "under_way (L\<lparr>sender := c\<rparr>) = under_way L" "under_way (L\<lparr>receiver := c\<rparr>) = under_way L"
  "under_way (L\<lparr>sender_up := b\<rparr>) = under_way L" "under_way (L\<lparr>receiver_up := b\<rparr>) = under_way L"
  "under_way (L\<lparr>carried := k\<rparr>) = under_way L"
  by (simp_all add: under_way_def)

lemma leftover_not_received:
  assumes "frame_ok f" "frame_bytes f @ x = tail" "frame_sequence f \<noteq> last_sequence"
  shows "\<not> leftover tail"
proof
  assume "leftover tail"
  moreover have "tail \<noteq> []"
    using assms(2) by (auto simp: frame_bytes_def frame_header_def)
  ultimately obtain g rest where g: "frame_ok g" "frame_bytes g = tail @ rest" "rest \<noteq> [] \<or> frame_sequence g = last_sequence"
    unfolding leftover_def by blast
  have "frame_bytes f @ (x @ rest) = frame_bytes g @ []"
    using assms(2) g(2) by simp
  from frame_bytes_unambiguous [OF assms(1) g(1) this] show False
    using g(3) assms(3) by simp
qed

lemma under_way_received:
  assumes "got L = take (length (got L)) (frames_from 1 (sent L))" "under_way L = f # fs"
  shows "got L @ [f] = take (Suc (length (got L))) (frames_from 1 (sent L))"
    "drop (Suc (length (got L))) (frames_from 1 (sent L)) = fs"
proof -
  have l: "length (got L) < length (frames_from 1 (sent L))"
    using assms(2) unfolding under_way_def by (metis drop_eq_Nil2 linorder_not_le list.distinct(1))
  then have "f = frames_from 1 (sent L) ! length (got L)"
    using assms(2) unfolding under_way_def by (simp add: Cons_nth_drop_Suc [symmetric])
  then show "got L @ [f] = take (Suc (length (got L))) (frames_from 1 (sent L))"
    using assms(1) l by (simp only: take_Suc_conv_app_nth)
  show "drop (Suc (length (got L))) (frames_from 1 (sent L)) = fs"
    using assms(2) unfolding under_way_def by (metis drop_Suc list.sel(3) tl_drop)
qed

lemma link_invI:
  assumes "ssl (sender L) = Some s" "ssl (receiver L) = Some t" "carried L \<le> length (departed s)"
    "\<forall>m\<in>set (sent L). message_ok m" "unat (send_sequence (sender L)) = Suc (length (sent L))"
    "got L = take (length (got L)) (frames_from 1 (sent L))" "sender_up L \<Longrightarrow> tail = []" "leftover tail"
    "receiver_up L \<Longrightarrow> receive_sequence (receiver L) = 1 + of_nat (length (got L))"
    "receiver_up L \<Longrightarrow> arriving_bytes t @ drop (carried L) (departed s) = concat (map frame_bytes (under_way L)) @ tail"
  shows "link_inv L"
  unfolding link_inv_def using assms by blast

lemma link_inv_start:
  assumes "ssl a = Some s" "ssl b = Some t" "send_sequence a = 1" "receive_sequence b = 1" "departed s = []" "arriving t = []"
  shows "link_inv \<lparr>sender = a, receiver = b, sender_up = True, receiver_up = True, carried = 0, sent = [], got = []\<rparr>"
  using assms by (simp add: link_inv_def under_way_def arriving_bytes_def leftover_def)

lemma receive_keeps_inv:
  assumes "link_inv L" "receiver_up L" "receive_frame (receiver L) = (Inr f, c)"
  shows "link_inv (L\<lparr>receiver := c, got := got L @ [f]\<rparr>)"
proof -
  from assms(1,2) obtain s t tail where inv: "ssl (sender L) = Some s" "ssl (receiver L) = Some t" "carried L \<le> length (departed s)"
    "\<forall>m\<in>set (sent L). message_ok m" "unat (send_sequence (sender L)) = Suc (length (sent L))"
    "got L = take (length (got L)) (frames_from 1 (sent L))" "sender_up L \<longrightarrow> tail = []" "leftover tail"
    "receive_sequence (receiver L) = 1 + of_nat (length (got L))"
    "arriving_bytes t @ drop (carried L) (departed s) = concat (map frame_bytes (under_way L)) @ tail"
    unfolding link_inv_def by blast
  obtain t' where t': "c = receiver L\<lparr>ssl := Some t', receive_sequence := receive_sequence (receiver L) + 1\<rparr>" "frame_ok f"
    "frame_sequence f = receive_sequence (receiver L)" "receive_sequence (receiver L) \<noteq> last_sequence"
    "arriving_bytes t = frame_bytes f @ arriving_bytes t'"
    using receive_frame_returns [OF assms(3) inv(2)] by blast
  let ?x = "arriving_bytes t' @ drop (carried L) (departed s)"
  have stream: "frame_bytes f @ ?x = concat (map frame_bytes (under_way L)) @ tail"
    using inv(10) t'(5) by simp
  obtain q qs where q: "under_way L = q # qs"
    using leftover_not_received [OF t'(2) _ , of ?x tail] stream inv(8) t'(3,4) by (cases "under_way L") auto
  have "q \<in> set (frames_from 1 (sent L))"
    using q unfolding under_way_def by (metis in_set_dropD list.set_intros(1))
  moreover have "frame_ok g" if "g \<in> set (frames_from n ms)" "\<forall>m\<in>set ms. message_ok m" for g n ms
    using that by (induction ms arbitrary: n) (auto simp: frame_ok_def message_ok_def)
  ultimately have "frame_ok q"
    using inv(4) by blast
  moreover have "frame_bytes f @ ?x = frame_bytes q @ (concat (map frame_bytes qs) @ tail)"
    using stream q by simp
  ultimately have f: "f = q" "?x = concat (map frame_bytes qs) @ tail"
    using frame_bytes_unambiguous t'(2) by blast+
  note got = under_way_received [OF inv(6) q]
  show ?thesis
    using inv(1-9) t'(1) f got(1) [symmetric] got(2)
    by (intro link_invI [of _ s t' tail]) (simp_all add: under_way_def)
qed

lemma next_sequence: "n \<noteq> last_sequence \<Longrightarrow> unat (n + 1) = Suc (unat n)"
  using room_left_Suc [of n 0] unsigned_less [of n, where ?'a = nat]
  by (cases "unat n = 2 ^ 64 - 1")
     (auto simp: last_sequence_def word_unat_eq_iff unsigned_of_nat unat_word_ariths)

lemma send_keeps_inv:
  assumes "link_inv L" "sender_up L" "message_type_of_value (message_type_value ty) = ty" "send_frame ty body (sender L) = (r, c)"
  shows "link_inv (L\<lparr>sender := c, sender_up := (r = Inr ()), sent := (if r = Inr () then sent L @ [(ty, body)] else sent L)\<rparr>)"
proof -
  from assms(1,2) obtain s t where inv: "ssl (sender L) = Some s" "ssl (receiver L) = Some t" "carried L \<le> length (departed s)"
    "\<forall>m\<in>set (sent L). message_ok m" "unat (send_sequence (sender L)) = Suc (length (sent L))"
    "got L = take (length (got L)) (frames_from 1 (sent L))"
    "receiver_up L \<Longrightarrow> receive_sequence (receiver L) = 1 + of_nat (length (got L)) \<and>
       arriving_bytes t @ drop (carried L) (departed s) = concat (map frame_bytes (under_way L))"
    unfolding link_inv_def by fastforce
  let ?f = "\<lparr>frame_type = ty, frame_sequence = send_sequence (sender L), frame_payload = body\<rparr>"
  show ?thesis
  proof (cases "validate_message_type ty = Inr () \<and> length body \<le> kMaxFramePayload")
    case False
    then have "c = sender L" "r \<noteq> Inr ()"
      using send_frame_refused [of ty body "sender L"] assms(4) by auto
    then show ?thesis
      using inv by (intro link_invI [of _ s t "[]"]) (auto simp: leftover_def)
  next
    case True
    then obtain s' k where s': "c = sender L\<lparr>ssl := Some s', send_sequence := (if r = Inr () then send_sequence (sender L) + 1 else send_sequence (sender L))\<rparr>"
      "k \<le> length (frame_bytes ?f)" "departed s' = departed s @ take k (frame_bytes ?f)" "arriving s' = arriving s"
      "r = Inr () \<longleftrightarrow> k = length (frame_bytes ?f) \<and> send_sequence (sender L) \<noteq> last_sequence"
      using send_frame_effect [OF inv(1) _ _ assms(4) refl] by blast
    have ok: "frame_ok ?f" "message_ok (ty, body)"
      using True assms(3) by (simp_all add: frame_ok_def message_ok_def)
    have n: "send_sequence (sender L) = 1 + of_nat (length (sent L))"
      using inv(5) by (metis of_nat_Suc of_nat_unat ucast_id)
    have short: "length (got L) \<le> length (sent L)"
      using inv(6) by (metis length_frames_from length_take min.cobounded1)
    show ?thesis
    proof (cases "r = Inr ()")
      case sent_it: True
      have frames: "frames_from 1 (sent L @ [(ty, body)]) = frames_from 1 (sent L) @ [?f]"
        by (simp add: frames_from_append n)
      have "unat (send_sequence (sender L) + 1) = Suc (Suc (length (sent L)))"
        using inv(5) next_sequence s'(5) sent_it by auto
      moreover have "got L = take (length (got L)) (frames_from 1 (sent L) @ [?f])"
        using inv(6) short by simp
      moreover have "drop (length (got L)) (frames_from 1 (sent L) @ [?f]) = under_way L @ [?f]"
        using short by (simp add: under_way_def)
      moreover have "departed s' = departed s @ frame_bytes ?f"
        using s'(3,5) sent_it by simp
      ultimately show ?thesis
        using inv(2-4,7) ok(2) s'(1) sent_it
        by (intro link_invI [of _ s' t "[]"]) (auto simp: under_way_def frames leftover_def)
    next
      case failed: False
      have "leftover (take k (frame_bytes ?f))"
        unfolding leftover_def using s'(2,5) failed ok(1)
        by (intro disjI2 exI [of _ ?f] exI [of _ "drop k (frame_bytes ?f)"]) auto
      then show ?thesis
        using inv(2-7) s'(1,3) failed
        by (intro link_invI [of _ s' t "take k (frame_bytes ?f)"]) auto
    qed
  qed
qed

lemma keeps_on_session: "keeps (\<lambda>c. ssl c \<noteq> None) (on_session m)"
  by (auto simp: keeps_def on_session_def split: option.splits prod.splits)

lemma link_step_inv:
  assumes "link_step L L'" "link_inv L"
  shows "link_inv L'"
  using assms
proof (induction rule: link_step.induct)
  case (sends L ty body r c)
  then show ?case
    using send_keeps_inv by blast
next
  case (receives L f c)
  then show ?case
    using receive_keeps_inv by blast
next
  case (carries k L)
  then obtain s t tail where inv: "ssl (sender L) = Some s" "ssl (receiver L) = Some t" "carried L \<le> length (departed s)"
    "\<forall>m\<in>set (sent L). message_ok m" "unat (send_sequence (sender L)) = Suc (length (sent L))"
    "got L = take (length (got L)) (frames_from 1 (sent L))" "sender_up L \<longrightarrow> tail = []" "leftover tail"
    "receiver_up L \<longrightarrow> receive_sequence (receiver L) = 1 + of_nat (length (got L)) \<and>
       arriving_bytes t @ drop (carried L) (departed s) = concat (map frame_bytes (under_way L)) @ tail"
    unfolding link_inv_def by blast
  let ?p = "take k (drop (carried L) (departed s))"
  have "arrive ?p (receiver L) = receiver L\<lparr>ssl := Some (t\<lparr>arriving := arriving t @ [?p]\<rparr>)\<rparr>"
    by (simp add: arrive_def inv(2))
  moreover have "arriving_bytes (t\<lparr>arriving := arriving t @ [?p]\<rparr>) @ drop (carried L + k) (departed s) =
      arriving_bytes t @ drop (carried L) (departed s)"
    by (simp add: arriving_bytes_def add.commute drop_drop [symmetric] del: drop_drop)
  ultimately show ?case
    using inv carries(2)
    by (intro link_invI [of _ s "t\<lparr>arriving := arriving t @ [?p]\<rparr>" tail]) (simp_all add: wire_def)
next
  case (fails_to_receive L e c)
  then obtain t where t: "ssl (receiver L) = Some t"
    unfolding link_inv_def by blast
  have "keeps (\<lambda>c. ssl c \<noteq> None) receive_frame"
    unfolding receive_frame_def Let_def require_open_def
    by (intro keeps_intros keeps_if keeps_smodify keeps_on_session) simp_all
  then have "\<exists>t'. ssl c = Some t'"
    using keeps_result [where m = receive_frame and s = "receiver L"] fails_to_receive(2) t by blast
  then show ?case
    using fails_to_receive.prems unfolding link_inv_def by auto
next
  case (buffers L ks)
  then obtain s where s: "ssl (sender L) = Some s"
    unfolding link_inv_def by blast
  have "allow_writes ks (sender L) = sender L\<lparr>ssl := Some (s\<lparr>accepts := ks\<rparr>)\<rparr>"
    by (simp add: allow_writes_def s)
  then show ?case
    using buffers s unfolding link_inv_def by auto
qed

lemma link_reachable_inv: "link_reachable L \<Longrightarrow> link_inv L"
  by (induction rule: link_reachable.induct) (auto intro: link_inv_start link_step_inv)

lemma frames_from_sequence: "i < length ms \<Longrightarrow> frame_sequence (frames_from n ms ! i) = n + of_nat i"
  by (induction ms arbitrary: n i) (auto simp: nth_Cons algebra_simps split: nat.splits)

lemma distinct_sequences:
  assumes "length ms < 2 ^ 64"
  shows "distinct (map frame_sequence (frames_from n ms))"
proof (clarsimp simp: distinct_conv_nth frames_from_sequence)
  fix i j
  assume "i < length ms" "j < length ms" "i \<noteq> j" "(of_nat i :: u64) = of_nat j"
  then show False
    using assms by (simp add: word_of_nat_eq_iff take_bit_nat_eq_self)
qed

text \<open>A link in use: a frame goes out, arrives in two pieces, and is received.\<close>

definition idle_stream :: "nat list \<Rightarrow> byte_stream" where
  "idle_stream ks = \<lparr>arriving = [], accepts = ks, departed = [], queued_error = None\<rparr>"

definition fresh_channel :: "nat list \<Rightarrow> SecureChannel" where
  "fresh_channel ks = mk_channel 3 0 (idle_stream ks) True"

lemma fresh_channel_simps [simp]:
  "ssl (fresh_channel ks) = Some (idle_stream ks)" "send_sequence (fresh_channel ks) = 1"
  "receive_sequence (fresh_channel ks) = 1" "arriving (idle_stream ks) = []" "departed (idle_stream ks) = []"
  "accepts (idle_stream ks) = ks"
  by (simp_all add: fresh_channel_def mk_channel_def idle_stream_def)

lemma demo_message: "message_ok (Sent, [1, 2])" "validate_message_type Sent = Inr ()"
  "message_type_of_value (message_type_value Sent) = Sent"
  by (simp_all add: message_ok_def validate_message_type_def message_type_of_value_def known_types_def)

lemma demo_link_run: "\<exists>L. link_reachable L \<and> sent L = [(Sent, [1, 2])] \<and> length (got L) = 1"
proof -
  let ?f = "\<lparr>frame_type = Sent, frame_sequence = 1, frame_payload = [1, 2]\<rparr>"
  let ?a = "fresh_channel (replicate 22 1)" and ?b = "fresh_channel []"
  let ?L0 = "\<lparr>sender = ?a, receiver = ?b, sender_up = True, receiver_up = True, carried = 0, sent = [], got = []\<rparr>"
  have one: "(1 :: u64) \<noteq> last_sequence"
    by (simp add: last_sequence_def)
  have "willing (kFrameHeaderSize + length [1 :: u8, 2] + 0) (idle_stream (replicate 22 1))"
    by (simp add: willing_def)
  then obtain s where s: "send_frame Sent [1, 2] ?a = (Inr (), ?a\<lparr>ssl := Some s, send_sequence := 1 + 1\<rparr>)"
    using send_frame_total [of ?a _ Sent "[1, 2]" 0] demo_message(2) one by auto
  have out: "departed s = frame_bytes ?f"
    by (rule send_frame_effect [OF fresh_channel_simps(1) demo_message(2) _ s refl]) (use one in auto)
  let ?L1 = "?L0\<lparr>sender := ?a\<lparr>ssl := Some s, send_sequence := 1 + 1\<rparr>, sender_up := True, sent := [(Sent, [1, 2])]\<rparr>"
  let ?L2 = "?L1\<lparr>receiver := arrive (take 7 (frame_bytes ?f)) ?b, carried := 7\<rparr>"
  let ?L3 = "?L2\<lparr>receiver := arrive (drop 7 (frame_bytes ?f)) (arrive (take 7 (frame_bytes ?f)) ?b), carried := 22\<rparr>"
  have "link_reachable ?L0"
    by (rule link_reachable.starts [where s = "idle_stream (replicate 22 1)" and t = "idle_stream []"]) simp_all
  then have "link_reachable ?L1"
    using link_step.sends [of ?L0 Sent "[1, 2]", OF _ demo_message(3)] s by (auto intro: link_reachable.steps)
  moreover have len: "length (frame_bytes ?f) = 22"
    by (simp add: length_frame_bytes)
  ultimately have "link_reachable ?L2"
    using link_step.carries [of 7 ?L1] out by (auto simp: wire_def intro: link_reachable.steps)
  then have L3: "link_reachable ?L3"
    using link_step.carries [of 15 ?L2] out len by (auto simp: wire_def intro: link_reachable.steps)
  have "frame_bytes ?f \<noteq> []"
    using len by (metis list.size(3) zero_neq_numeral)
  then have "\<exists>c. receive_frame (receiver ?L3) = (Inr ?f, c)"
    using receive_frame_total [of ?f "receiver ?L3" _ "[]"] demo_message(1) one len
    by (auto simp: arrive_def flowing_def arriving_bytes_def frame_ok_def message_ok_def)
  then obtain c where "receive_frame (receiver ?L3) = (Inr ?f, c)"
    by blast
  then have "link_reachable (?L3\<lparr>receiver := c, got := got ?L3 @ [?f]\<rparr>)"
    using L3 link_step.receives [of ?L3] by (auto intro: link_reachable.steps)
  then show ?thesis
    by (intro exI conjI, assumption) simp_all
qed

end
