(* ===== verification/Connection.thy ===== *)
theory Connection
  imports Channel
begin

text \<open>
  How a channel comes about (\<open>src/src/secure_channel.cpp\<close>): trying the addresses of a host, the SOCKS5
  handshake with the Tor proxy, the certificate pin, and the listener of a server. The state of these functions
  is the list of open descriptors, so that what they leave open shows. The resolver, the sockets and the TLS
  handshake are arguments: what the calls answer.
\<close>

section \<open>Descriptors\<close>

type_synonym descriptors = "int list"

definition opened :: "int \<Rightarrow> (descriptors, unit) action" where
  "opened fd = smodify (\<lambda>fds. fd # fds)"

definition close_fd :: "int \<Rightarrow> (descriptors, unit) action" where
  "close_fd fd = smodify (\<lambda>fds. if fd \<ge> 0 then remove1 fd fds else fds)"

text \<open>\<open>try { ... } catch (...) { close_fd(fd); throw; }\<close>\<close>

definition or_close :: "int \<Rightarrow> (descriptors, 'a) action \<Rightarrow> (descriptors, 'a) action" where
  "or_close fd m fds =
     (case m fds of (Inl e, fds') \<Rightarrow> (Inl e, snd (close_fd fd fds')) | (Inr x, fds') \<Rightarrow> (Inr x, fds'))"

text \<open>
  What the calls for one resolved address answer: \<open>socket\<close> fails, the close-on-exec flag cannot be set, \<open>connect\<close>
  (or \<open>bind\<close> or \<open>listen\<close>) fails, or the descriptor is ready.
\<close>

datatype 'a attempt = NoSocket | NoCloexec int | Refused int | Ready int 'a

primrec try_addresses :: "'a attempt list \<Rightarrow> (descriptors, (int \<times> 'a) option) action" where
  "try_addresses [] = sreturn None"
| "try_addresses (a # as) =
     (case a of
        NoSocket \<Rightarrow> try_addresses as
      | NoCloexec fd \<Rightarrow> sbind (opened fd) (\<lambda>_. sbind (close_fd fd) (\<lambda>_. try_addresses as))
      | Refused fd \<Rightarrow> sbind (opened fd) (\<lambda>_. sbind (close_fd fd) (\<lambda>_. try_addresses as))
      | Ready fd x \<Rightarrow> sbind (opened fd) (\<lambda>_. sreturn (Some (fd, x))))"

text \<open>What \<open>getaddrinfo\<close> answers: an error text, or the addresses with what will come of each.\<close>

type_synonym 'a resolver = "Endpoint \<Rightarrow> string + 'a attempt list"

definition open_socket :: "'a resolver \<Rightarrow> exn \<Rightarrow> Endpoint \<Rightarrow> (descriptors, int \<times> 'a) action" where
  "open_socket getaddrinfo failed e =
     (case getaddrinfo e of
        Inl message \<Rightarrow> sthrow (Runtime_error (''getaddrinfo failed: '' @ message))
      | Inr results \<Rightarrow>
          sbind (try_addresses results) (\<lambda>r. case r of None \<Rightarrow> sthrow failed | Some x \<Rightarrow> sreturn x))"

definition connect_tcp :: "byte_stream resolver \<Rightarrow> Endpoint \<Rightarrow> (descriptors, int \<times> byte_stream) action" where
  "connect_tcp getaddrinfo e =
     sbind (slift (throw_if (endpoint_host e = [] \<or> endpoint_port e = 0) (Invalid_argument ''invalid endpoint''))) (\<lambda>_.
     open_socket getaddrinfo (Runtime_error ''TCP connection failed'') e)"

definition create_listener :: "unit resolver \<Rightarrow> Endpoint \<Rightarrow> (descriptors, int) action" where
  "create_listener getaddrinfo e =
     sbind (slift (throw_if (endpoint_port e = 0) (Invalid_argument ''invalid listen endpoint''))) (\<lambda>_.
     sbind (open_socket getaddrinfo (Runtime_error ''listen failed'') e) (\<lambda>(fd, _). sreturn fd))"

section \<open>SOCKS5\<close>

definition socks5_request :: "Endpoint \<Rightarrow> bytes" where
  "socks5_request dest =
     [0x05, 0x01, 0x00, 0x03, of_nat (length (endpoint_host dest))] @ map byte_of_char (endpoint_host dest) @
     [ucast (drop_bit 8 (endpoint_port dest) AND 0xff), ucast (endpoint_port dest AND 0xff)]"

definition socks5_connect :: "Endpoint \<Rightarrow> (byte_stream, unit) action" where
  "socks5_connect dest =
     sbind (socket_send_all [0x05, 0x01, 0x00]) (\<lambda>_.
     sbind (socket_recv_exact 2) (\<lambda>hello_reply.
     sbind (slift (throw_if (hello_reply \<noteq> [0x05, 0x00])
       (Runtime_error ''SOCKS5 proxy rejected anonymous mode''))) (\<lambda>_.
     sbind (slift (throw_if (endpoint_host dest = [] \<or> length (endpoint_host dest) > 255 \<or>
         endpoint_port dest = 0) (Invalid_argument ''invalid SOCKS5 destination''))) (\<lambda>_.
     sbind (socket_send_all (socks5_request dest)) (\<lambda>_.
     sbind (socket_recv_exact 4) (\<lambda>reply.
     sbind (slift (throw_if (reply ! 0 \<noteq> 0x05 \<or> reply ! 1 \<noteq> 0x00) (Runtime_error ''SOCKS5 CONNECT failed''))) (\<lambda>_.
     sbind (if reply ! 3 = 0x01 then sreturn 4
            else if reply ! 3 = 0x04 then sreturn 16
            else if reply ! 3 = 0x03 then sbind (socket_recv_exact 1) (\<lambda>len. sreturn (unat (len ! 0)))
            else sthrow (Runtime_error ''invalid SOCKS5 address type'')) (\<lambda>address_length.
     sbind (socket_recv_exact (address_length + 2)) (\<lambda>_.
     sreturn ())))))))))"

section \<open>The certificate pin\<close>

definition normalized_hex :: "string \<Rightarrow> string" where
  "normalized_hex cs =
     map (\<lambda>c. if (of_char c :: nat) \<ge> 0x41 \<and> (of_char c :: nat) \<le> 0x46 then char_of (of_char c - 0x41 + 0x61 :: nat) else c)
       (filter (\<lambda>c. \<not> (c = CHR '':'' \<or> c = CHR '' '' \<or> c = CHR 0x09 \<or> c = CHR 0x0A \<or> c = CHR 0x0D)) cs)"

text \<open>The certificate is seen through its SHA-256 digest; \<open>None\<close> is a peer that sent no certificate.\<close>

definition verify_server_pin :: "byte_stream \<Rightarrow> bytes option \<Rightarrow> string \<Rightarrow> unit result" where
  "verify_server_pin session digest expected_hex =
     (case digest of
        None \<Rightarrow> Inl (Runtime_error ''mediator did not provide a certificate'')
      | Some d \<Rightarrow>
          rbind (throw_if (length d \<noteq> 32) (ssl_failure session ''server certificate fingerprint failed'')) (\<lambda>_.
          throw_if (normalized_hex (concat (map hex_byte d)) \<noteq> normalized_hex expected_hex)
            (Runtime_error ''server certificate pin mismatch'')))"

text \<open>\<open>SSL_connect\<close> over a socket: the session and the digest of the peer's certificate, or why it failed.\<close>

type_synonym tls_client = "byte_stream \<Rightarrow> (byte_stream \<times> bytes option) result"

definition make_client :: "tls_client \<Rightarrow> nat \<Rightarrow> string \<Rightarrow> int \<Rightarrow> byte_stream \<Rightarrow> SecureChannel result" where
  "make_client handshake ctx expected_server_sha256 fd raw =
     rbind (throw_if (length (normalized_hex expected_server_sha256) \<noteq> 64)
       (Invalid_argument ''expected_server_sha256 must be 64 hex chars'')) (\<lambda>_.
     rbind (handshake raw) (\<lambda>(session, digest).
     rbind (verify_server_pin session digest expected_server_sha256) (\<lambda>_.
     Inr (mk_channel fd ctx session True))))"

definition connect_direct ::
    "byte_stream resolver \<Rightarrow> tls_client \<Rightarrow> nat \<Rightarrow> Endpoint \<Rightarrow> string \<Rightarrow> (descriptors, SecureChannel) action" where
  "connect_direct getaddrinfo handshake ctx e pin =
     sbind (connect_tcp getaddrinfo e) (\<lambda>(fd, raw). or_close fd (slift (make_client handshake ctx pin fd raw)))"

definition connect_raw_tcp :: "byte_stream resolver \<Rightarrow> Endpoint \<Rightarrow> (descriptors, int \<times> byte_stream) action" where
  "connect_raw_tcp getaddrinfo e = connect_tcp getaddrinfo e"

definition connect_raw_via_socks5 ::
    "byte_stream resolver \<Rightarrow> Endpoint \<Rightarrow> Endpoint \<Rightarrow> (descriptors, int \<times> byte_stream) action" where
  "connect_raw_via_socks5 getaddrinfo proxy dest =
     sbind (connect_tcp getaddrinfo proxy) (\<lambda>(fd, raw).
     or_close fd (case socks5_connect dest raw of
         (Inl e, raw') \<Rightarrow> sthrow e | (Inr _, raw') \<Rightarrow> sreturn (fd, raw')))"

definition connect_via_socks5 ::
    "byte_stream resolver \<Rightarrow> tls_client \<Rightarrow> nat \<Rightarrow> Endpoint \<Rightarrow> Endpoint \<Rightarrow> string \<Rightarrow> (descriptors, SecureChannel) action" where
  "connect_via_socks5 getaddrinfo handshake ctx proxy dest pin =
     sbind (connect_tcp getaddrinfo proxy) (\<lambda>(fd, raw).
     or_close fd (case socks5_connect dest raw of
         (Inl e, raw') \<Rightarrow> sthrow e
       | (Inr _, raw') \<Rightarrow> slift (make_client handshake ctx pin fd raw')))"

section \<open>The listener\<close>

record ServerTlsIdentity =
  certificate_file :: string
  private_key_file :: string

text \<open>Loading the certificate and the key is OpenSSL's; a context is named by a number.\<close>

definition make_server_context :: "(ServerTlsIdentity \<Rightarrow> nat result) \<Rightarrow> ServerTlsIdentity \<Rightarrow> nat result" where
  "make_server_context load_identity i =
     rbind (throw_if (certificate_file i = [] \<or> private_key_file i = [])
       (Invalid_argument ''server certificate and key are required'')) (\<lambda>_. load_identity i)"

text \<open>The constructor: its member initialisers run in order, and a throw from it runs no destructor.\<close>

definition new_listener ::
    "unit resolver \<Rightarrow> (ServerTlsIdentity \<Rightarrow> nat result) \<Rightarrow> Endpoint \<Rightarrow> ServerTlsIdentity \<Rightarrow> (descriptors, int \<times> nat) action" where
  "new_listener getaddrinfo load_identity e i =
     sbind (create_listener getaddrinfo e) (\<lambda>listen_fd.
     sbind (slift (make_server_context load_identity i)) (\<lambda>ctx.
     sreturn (listen_fd, ctx)))"

datatype accept_outcome = Interrupted | AcceptFailed string | Accepted int

text \<open>\<open>do ... while (fd < 0 && errno == EINTR)\<close>; without an answer the call is still waiting.\<close>

fun accept_loop :: "accept_outcome list \<Rightarrow> accept_outcome option" where
  "accept_loop [] = None"
| "accept_loop (Interrupted # outcomes) = accept_loop outcomes"
| "accept_loop (outcome # _) = Some outcome"

definition set_close_on_exec :: "string option \<Rightarrow> unit result" where
  "set_close_on_exec refused =
     (case refused of None \<Rightarrow> Inr () | Some errno \<Rightarrow> Inl (Runtime_error (''failed to set FD_CLOEXEC: '' @ errno)))"

definition accept_raw :: "accept_outcome list \<Rightarrow> string option \<Rightarrow> int \<Rightarrow> (descriptors, int option) action" where
  "accept_raw outcomes refused listen_fd =
     sbind (slift (throw_if (listen_fd < 0) (Logic_error ''listener is closed''))) (\<lambda>_.
     case accept_loop outcomes of
       Some (Accepted fd) \<Rightarrow>
         sbind (opened fd) (\<lambda>_. sbind (slift (set_close_on_exec refused)) (\<lambda>_. sreturn (Some fd)))
     | Some (AcceptFailed errno) \<Rightarrow> sthrow (Runtime_error (''accept failed: '' @ errno))
     | _ \<Rightarrow> sreturn None)"

definition make_server :: "string option \<Rightarrow> (byte_stream \<Rightarrow> byte_stream result) \<Rightarrow> nat \<Rightarrow> int \<Rightarrow> byte_stream \<Rightarrow> SecureChannel result" where
  "make_server refused handshake ctx fd raw =
     (case refused of
        Some errno \<Rightarrow> Inl (Runtime_error (''failed to set TLS handshake timeout: '' @ errno))
      | None \<Rightarrow> rbind (handshake raw) (\<lambda>session. Inr (mk_channel fd ctx session False)))"

definition complete_handshake ::
    "string option \<Rightarrow> (byte_stream \<Rightarrow> byte_stream result) \<Rightarrow> nat option \<Rightarrow> int \<Rightarrow> byte_stream \<Rightarrow> (descriptors, SecureChannel) action" where
  "complete_handshake refused handshake listener_ctx fd raw =
     (case listener_ctx of
        None \<Rightarrow> sbind (close_fd fd) (\<lambda>_. sthrow (Logic_error ''listener is closed''))
      | Some ctx \<Rightarrow> or_close fd (slift (make_server refused handshake ctx fd raw)))"

section \<open>No descriptor is left behind\<close>

text \<open>A step that opens one descriptor if it returns and none if it throws.\<close>

definition balanced :: "('a \<Rightarrow> int) \<Rightarrow> (descriptors, 'a) action \<Rightarrow> bool" where
  "balanced owner m \<longleftrightarrow>
     (\<forall>fds. case m fds of (Inl _, fds') \<Rightarrow> fds' = fds | (Inr x, fds') \<Rightarrow> fds' = owner x # fds \<and> owner x \<ge> 0)"

text \<open>The kernel hands out descriptors that are not negative.\<close>

definition attempt_ok :: "'a attempt \<Rightarrow> bool" where
  "attempt_ok a \<longleftrightarrow> (case a of NoSocket \<Rightarrow> True | NoCloexec fd \<Rightarrow> fd \<ge> 0 | Refused fd \<Rightarrow> fd \<ge> 0 | Ready fd _ \<Rightarrow> fd \<ge> 0)"

definition resolver_ok :: "'a resolver \<Rightarrow> bool" where
  "resolver_ok getaddrinfo \<longleftrightarrow> (\<forall>e rs. getaddrinfo e = Inr rs \<longrightarrow> list_all attempt_ok rs)"

lemma try_addresses_run:
  "list_all attempt_ok rs \<Longrightarrow> try_addresses rs fds =
     (case find (\<lambda>a. case a of Ready _ _ \<Rightarrow> True | _ \<Rightarrow> False) rs of
        Some (Ready fd x) \<Rightarrow> (Inr (Some (fd, x)), fd # fds) | _ \<Rightarrow> (Inr None, fds))"
  by (induction rs) (auto simp: attempt_ok_def sbind_def action_defs opened_def close_fd_def split: attempt.splits)

lemma balancedI:
  "(\<And>fds e fds'. m fds = (Inl e, fds') \<Longrightarrow> fds' = fds) \<Longrightarrow>
   (\<And>fds x fds'. m fds = (Inr x, fds') \<Longrightarrow> fds' = owner x # fds \<and> owner x \<ge> 0) \<Longrightarrow> balanced owner m"
  unfolding balanced_def by (auto split: prod.splits sum.splits)

lemma balancedD:
  "balanced owner m \<Longrightarrow> m fds = (Inl e, fds') \<Longrightarrow> fds' = fds"
  "balanced owner m \<Longrightarrow> m fds = (Inr x, fds') \<Longrightarrow> fds' = owner x # fds \<and> owner x \<ge> 0"
  unfolding balanced_def by (auto dest!: spec [of _ fds])

lemma balanced_throw [simp]: "balanced owner (sthrow e)"
  by (simp add: balanced_def action_defs)

lemma balanced_slift_unit: "(r = Inr () \<Longrightarrow> balanced owner (f ())) \<Longrightarrow> balanced owner (sbind (slift r) f)"
  by (cases r) simp_all

lemma balanced_open_socket:
  assumes "resolver_ok getaddrinfo"
  shows "balanced fst (open_socket getaddrinfo failed e)"
proof (cases "getaddrinfo e")
  case (Inr rs)
  then have rs: "list_all attempt_ok rs"
    using assms by (simp add: resolver_ok_def)
  show ?thesis
  proof (cases "find (\<lambda>a. case a of Ready _ _ \<Rightarrow> True | _ \<Rightarrow> False) rs")
    case None
    then show ?thesis
      by (simp add: balanced_def open_socket_def Inr sbind_def try_addresses_run [OF rs] action_defs)
  next
    case (Some a)
    then have "a \<in> set rs" "case a of Ready _ _ \<Rightarrow> True | _ \<Rightarrow> False"
      by (auto simp: find_Some_iff)
    then show ?thesis
      using rs Some by (auto simp: balanced_def open_socket_def Inr sbind_def try_addresses_run [OF rs] action_defs
        attempt_ok_def list_all_iff split: attempt.splits)
  qed
qed (simp add: open_socket_def)

lemma balanced_connect_tcp: "resolver_ok getaddrinfo \<Longrightarrow> balanced fst (connect_tcp getaddrinfo e)"
  unfolding connect_tcp_def by (intro balanced_slift_unit balanced_open_socket)

text \<open>What is done with an open descriptor inside \<open>or_close\<close>, without touching the others.\<close>

lemma balanced_or_close:
  assumes "balanced fst m" "\<And>fd raw fds. snd (f fd raw fds) = fds"
    and "\<And>fd raw fds x. fst (f fd raw fds) = Inr x \<Longrightarrow> owner x = fd"
  shows "balanced owner (sbind m (\<lambda>(fd, raw). or_close fd (f fd raw)))"
proof (rule balancedI)
  fix fds e fds'
  assume run: "sbind m (\<lambda>(fd, raw). or_close fd (f fd raw)) fds = (Inl e, fds')"
  show "fds' = fds"
  proof (cases "m fds")
    case (Pair r fds1)
    show ?thesis
    proof (cases r)
      case (Inl e')
      then show ?thesis
        using run Pair balancedD(1) [OF assms(1), of fds] by (simp add: sbind_def)
    next
      case (Inr p)
      obtain fd raw where p: "p = (fd, raw)"
        by (cases p)
      have "fds1 = fd # fds" "fd \<ge> 0"
        using balancedD(2) [OF assms(1)] Pair Inr p by fastforce+
      moreover obtain r2 where "f fd raw fds1 = (r2, fds1)"
        using assms(2) [of fd raw fds1] by (cases "f fd raw fds1") auto
      ultimately show ?thesis
        using run Pair Inr p by (auto simp: sbind_def or_close_def close_fd_def action_defs split: sum.splits)
    qed
  qed
next
  fix fds x fds'
  assume run: "sbind m (\<lambda>(fd, raw). or_close fd (f fd raw)) fds = (Inr x, fds')"
  then obtain fd raw fds1 where one: "m fds = (Inr (fd, raw), fds1)" "or_close fd (f fd raw) fds1 = (Inr x, fds')"
    by (auto simp: returns_simps)
  then have "fds1 = fd # fds" "fd \<ge> 0"
    using balancedD(2) [OF assms(1)] by fastforce+
  moreover obtain r2 where r2: "f fd raw fds1 = (r2, fds1)"
    using assms(2) [of fd raw fds1] by (cases "f fd raw fds1") auto
  ultimately show "fds' = owner x # fds \<and> owner x \<ge> 0"
    using one assms(3) [of fd raw fds1 x] by (auto simp: or_close_def split: sum.splits)
qed

lemma make_client_owner: "make_client handshake ctx pin fd raw = Inr c \<Longrightarrow> socket_fd c = fd"
  by (auto simp: make_client_def exn_simps mk_channel_def)

lemma balanced_connect_direct: "resolver_ok getaddrinfo \<Longrightarrow> balanced socket_fd (connect_direct getaddrinfo handshake ctx e pin)"
  unfolding connect_direct_def
  by (rule balanced_or_close [OF balanced_connect_tcp]) (auto simp: slift_def dest: make_client_owner)

lemma balanced_connect_via_socks5:
  "resolver_ok getaddrinfo \<Longrightarrow> balanced socket_fd (connect_via_socks5 getaddrinfo handshake ctx proxy dest pin)"
  unfolding connect_via_socks5_def
  by (rule balanced_or_close [OF balanced_connect_tcp])
     (auto simp: action_defs dest: make_client_owner split: prod.splits sum.splits)

lemma balanced_connect_raw:
  "resolver_ok getaddrinfo \<Longrightarrow> balanced fst (connect_raw_tcp getaddrinfo e)"
  "resolver_ok getaddrinfo \<Longrightarrow> balanced fst (connect_raw_via_socks5 getaddrinfo proxy dest)"
  unfolding connect_raw_tcp_def connect_raw_via_socks5_def
  by (rule balanced_connect_tcp, assumption)
     (rule balanced_or_close [OF balanced_connect_tcp], auto simp: action_defs split: prod.splits sum.splits)

text \<open>A handshake on the server gives its descriptor back in every case.\<close>

lemma complete_handshake_owns:
  assumes "complete_handshake refused handshake listener_ctx fd raw (fd # fds) = (r, fds')" "fd \<ge> 0"
  shows "case r of Inl _ \<Rightarrow> fds' = fds | Inr c \<Rightarrow> fds' = fd # fds \<and> socket_fd c = fd \<and> \<not> owns_ctx c"
  using assms
  by (auto simp: complete_handshake_def make_server_def or_close_def close_fd_def sbind_def action_defs rbind_def mk_channel_def
      split: option.splits sum.splits)

section \<open>The pin\<close>

lemma hex_digit_range: "n < 16 \<Longrightarrow> (of_char (hex_digit n) :: nat) = (if n < 10 then 48 + n else 87 + n)"
  by (auto simp: hex_digit_def)

lemma normalized_hex_printed: "normalized_hex (concat (map hex_byte d)) = concat (map hex_byte d)"
proof -
  have "normalized_hex (cs @ ds) = normalized_hex cs @ normalized_hex ds" for cs ds
    by (simp add: normalized_hex_def)
  moreover have "normalized_hex [hex_digit n] = [hex_digit n]" if "n < 16" for n
    using hex_digit_range [OF that] that by (auto simp: normalized_hex_def split: if_splits)
  moreover have "unat b div 16 < 16" "unat b mod 16 < 16" for b :: u8
    using unsigned_less [of b, where ?'a = nat] by simp_all
  ultimately have "normalized_hex (hex_byte b) = hex_byte b" for b
    by (metis append_Cons append_Nil hex_byte_def)
  then show ?thesis
    by (induction d) (simp_all add: normalized_hex_def)
qed

lemma verify_server_pin_ok:
  "verify_server_pin session digest pin = Inr () \<longleftrightarrow>
     (\<exists>d. digest = Some d \<and> length d = 32 \<and> concat (map hex_byte d) = normalized_hex pin)"
  by (auto simp: verify_server_pin_def exn_simps normalized_hex_printed split: option.splits)

lemma make_client_ok:
  "make_client handshake ctx pin fd raw = Inr c \<longleftrightarrow>
     (\<exists>session d. handshake raw = Inr (session, Some d) \<and> length d = 32 \<and> concat (map hex_byte d) = normalized_hex pin \<and>
        length (normalized_hex pin) = 64 \<and> c = mk_channel fd ctx session True)"
  by (auto simp: make_client_def exn_simps verify_server_pin_ok)

section \<open>The SOCKS5 exchange\<close>

text \<open>An answer that lets the handshake return: no authentication, then success with an address of any of the three types.\<close>

definition socks5_answer :: "bytes \<Rightarrow> bool" where
  "socks5_answer ans \<longleftrightarrow> take 4 ans = [0x05, 0x00, 0x05, 0x00] \<and> length ans \<ge> 6 \<and>
     (ans ! 5 = 0x01 \<and> length ans = 12 \<or> ans ! 5 = 0x04 \<and> length ans = 24 \<or>
      ans ! 5 = 0x03 \<and> length ans \<ge> 7 \<and> length ans = 9 + unat (ans ! 6))"

definition socks5_destination :: "Endpoint \<Rightarrow> bool" where
  "socks5_destination d \<longleftrightarrow> endpoint_host d \<noteq> [] \<and> length (endpoint_host d) \<le> 255 \<and> endpoint_port d \<noteq> 0"

lemma list_of_length:
  "length v = 2 \<Longrightarrow> v = [v ! 0, v ! 1]" "length v = 4 \<Longrightarrow> v = [v ! 0, v ! 1, v ! 2, v ! 3]" "length v = 1 \<Longrightarrow> v = [v ! 0]"
  by (auto simp: numeral_eq_Suc length_Suc_conv)

lemma arriving_bytes_cong: "arriving s' = arriving s \<Longrightarrow> arriving_bytes s' = arriving_bytes s \<and> (flowing s' \<longleftrightarrow> flowing s)"
  by (simp add: arriving_bytes_def flowing_def)

text \<open>The length of the address, by its type.\<close>

definition socks5_address_length :: "bytes \<Rightarrow> (byte_stream, nat) action" where
  "socks5_address_length reply =
     (if reply ! 3 = 0x01 then sreturn 4
      else if reply ! 3 = 0x04 then sreturn 16
      else if reply ! 3 = 0x03 then sbind (socket_recv_exact 1) (\<lambda>len. sreturn (unat (len ! 0)))
      else sthrow (Runtime_error ''invalid SOCKS5 address type''))"

lemma socks5_address_returns:
  assumes "socks5_address_length reply s = (Inr n, s1)" "socket_recv_exact (n + 2) s1 = (Inr body, s')"
  shows "\<exists>addr. arriving_bytes s = addr @ arriving_bytes s' \<and> departed s' = departed s \<and>
     (reply ! 3 = 0x01 \<and> length addr = 6 \<or> reply ! 3 = 0x04 \<and> length addr = 18 \<or>
      reply ! 3 = 0x03 \<and> addr \<noteq> [] \<and> length addr = 3 + unat (addr ! 0))"
proof -
  note rest = socket_in.rd_returns [OF assms(2)]
  consider "reply ! 3 = 0x01" "n = 4" "s1 = s" | "reply ! 3 = 0x04" "n = 16" "s1 = s"
    | len where "reply ! 3 = 0x03" "socket_recv_exact 1 s = (Inr len, s1)" "n = unat (len ! 0)"
    using assms(1) by (auto simp: socks5_address_length_def returns_simps split: if_splits)
  then show ?thesis
  proof cases
    case 3
    note one = socket_in.rd_returns [OF 3(2)]
    then have "(len @ body) ! 0 = len ! 0"
      by (simp add: nth_append)
    then show ?thesis
      using one rest 3 by (intro exI [of _ "len @ body"]) auto
  qed (use rest in auto)
qed

lemma socks5_connect_returns:
  assumes "socks5_connect dest s = (Inr u, s')"
  shows "socks5_destination dest \<and> departed s' = departed s @ [0x05, 0x01, 0x00] @ socks5_request dest \<and>
     (\<exists>ans. socks5_answer ans \<and> arriving_bytes s = ans @ arriving_bytes s')"
proof -
  obtain s1 hello s2 s3 reply s4 n s5 body where
    w1: "socket_send_all [0x05, 0x01, 0x00] s = (Inr (), s1)" and r1: "socket_recv_exact 2 s1 = (Inr hello, s2)"
    and hello: "hello = [0x05, 0x00]" and ok: "socks5_destination dest"
    and w2: "socket_send_all (socks5_request dest) s2 = (Inr (), s3)" and r2: "socket_recv_exact 4 s3 = (Inr reply, s4)"
    and reply: "reply ! 0 = 0x05" "reply ! 1 = 0x00" and len: "socks5_address_length reply s4 = (Inr n, s5)"
    and last: "socket_recv_exact (n + 2) s5 = (Inr body, s')"
    using assms unfolding socks5_connect_def socks5_address_length_def [symmetric] returns_simps throw_if_eq_Inr
    by (auto simp: socks5_destination_def)
  note w = socket_out.wr_all [OF w1] socket_out.wr_all [OF w2]
  note a = w(1) [THEN conjunct2, THEN arriving_bytes_cong] w(2) [THEN conjunct2, THEN arriving_bytes_cong]
  note r = socket_in.rd_returns [OF r1] socket_in.rd_returns [OF r2]
  obtain addr where addr: "arriving_bytes s4 = addr @ arriving_bytes s'" "departed s' = departed s4"
    "reply ! 3 = 0x01 \<and> length addr = 6 \<or> reply ! 3 = 0x04 \<and> length addr = 18 \<or>
     reply ! 3 = 0x03 \<and> addr \<noteq> [] \<and> length addr = 3 + unat (addr ! 0)"
    using socks5_address_returns [OF len last] by blast
  have rep: "reply = [0x05, 0x00, reply ! 2, reply ! 3]"
    using list_of_length(2) [of reply] r(2) reply by simp
  define ans where "ans = [0x05, 0x00] @ [0x05, 0x00, reply ! 2, reply ! 3] @ addr"
  have "socks5_answer ans"
    using addr(3) by (cases addr) (auto simp: socks5_answer_def ans_def nth_append numeral_eq_Suc)
  moreover have "arriving_bytes s = ans @ arriving_bytes s'"
    using a r addr(1) hello rep unfolding ans_def by (metis append.assoc)
  ultimately show ?thesis
    using ok w r addr(2) by auto
qed

text \<open>Conversely the handshake returns on such an answer, and takes nothing of what follows it.\<close>

lemma socks5_address_total:
  assumes "flowing s" "arriving_bytes s = addr @ rest"
    and "reply ! 3 = 0x01 \<and> length addr = 6 \<or> reply ! 3 = 0x04 \<and> length addr = 18 \<or>
      reply ! 3 = 0x03 \<and> addr \<noteq> [] \<and> length addr = 3 + unat (addr ! 0)"
  shows "\<exists>n s1 body s'. socks5_address_length reply s = (Inr n, s1) \<and> socket_recv_exact (n + 2) s1 = (Inr body, s')"
proof -
  have plain: "\<exists>n s1 body s'. socks5_address_length reply s = (Inr n, s1) \<and> socket_recv_exact (n + 2) s1 = (Inr body, s')"
    if "socks5_address_length reply s = (Inr k, s)" "k + 2 \<le> length addr" for k
    using socket_in.rd_total [OF assms(1), of "k + 2"] assms(2) that by auto
  consider "reply ! 3 = 0x01" "length addr = 6" | "reply ! 3 = 0x04" "length addr = 18"
    | c cs where "reply ! 3 = 0x03" "addr = [c] @ cs" "length cs = 2 + unat c"
    using assms(3) by (cases addr) auto
  then show ?thesis
  proof cases
    case 3
    obtain s1 where s1: "socket_recv_exact 1 s = (Inr [c], s1)" "arriving_bytes s1 = cs @ rest" "flowing s1"
      using socket_in.rd_next [OF assms(1), of "[c]" "cs @ rest"] assms(2) 3(2) by auto
    moreover obtain body s' where "socket_recv_exact (unat c + 2) s1 = (Inr body, s')"
      using socket_in.rd_total [OF s1(3), of "unat c + 2"] s1(2) 3(3) by auto
    ultimately show ?thesis
      using 3(1) by (simp add: socks5_address_length_def sbind_def sreturn_def)
  qed (use plain in \<open>simp_all add: socks5_address_length_def sreturn_def\<close>)
qed

lemma socks5_connect_total:
  assumes "socks5_destination dest" "flowing s" "socks5_answer ans" "arriving_bytes s = ans @ rest"
    and "willing (3 + length (socks5_request dest)) s"
  shows "\<exists>s'. socks5_connect dest s = (Inr (), s')"
proof -
  have "length ans = 6 + length (drop 6 ans)" "ans = take 6 ans @ drop 6 ans"
    using assms(3) by (simp_all add: socks5_answer_def)
  moreover have "take 6 ans = [0x05, 0x00, 0x05, 0x00, ans ! 4, ans ! 5]"
    using assms(3) take_Suc_conv_app_nth [of 4 ans] take_Suc_conv_app_nth [of 5 ans]
    by (auto simp: socks5_answer_def numeral_eq_Suc)
  ultimately obtain addr where ans: "ans = [0x05, 0x00] @ [0x05, 0x00, ans ! 4, ans ! 5] @ addr" "addr = drop 6 ans"
    by (metis append_Cons append_Nil)
  have cases: "ans ! 5 = 0x01 \<and> length addr = 6 \<or> ans ! 5 = 0x04 \<and> length addr = 18 \<or>
      ans ! 5 = 0x03 \<and> addr \<noteq> [] \<and> length addr = 3 + unat (addr ! 0)"
    using assms(3) ans(2) by (auto simp: socks5_answer_def)
  obtain s1 where s1: "socket_send_all [0x05, 0x01, 0x00] s = (Inr (), s1)" "willing (length (socks5_request dest) + 0) s1"
    using socket_out.wr_total [of "[0x05, 0x01, 0x00]" "length (socks5_request dest) + 0" s] assms(5)
    by (auto simp: eval_nat_numeral)
  note a1 = arriving_bytes_cong [OF socket_out.wr_all [OF s1(1), THEN conjunct2]]
  obtain s2 where s2: "socket_recv_exact 2 s1 = (Inr [0x05, 0x00], s2)" "flowing s2" "accepts s2 = accepts s1"
    "arriving_bytes s2 = [0x05, 0x00, ans ! 4, ans ! 5] @ (addr @ rest)"
    using socket_in.rd_next [of s1 "[0x05, 0x00]" "[0x05, 0x00, ans ! 4, ans ! 5] @ (addr @ rest)"] a1 assms(2,4) ans(1)
    by (auto simp: numeral_2_eq_2)
  have "willing (length (socks5_request dest) + 0) s2"
    using s1(2) s2(3) by (simp add: willing_def)
  then obtain s3 where s3: "socket_send_all (socks5_request dest) s2 = (Inr (), s3)"
    using socket_out.wr_total by blast
  note a3 = arriving_bytes_cong [OF socket_out.wr_all [OF s3, THEN conjunct2]]
  obtain s4 where s4: "socket_recv_exact 4 s3 = (Inr [0x05, 0x00, ans ! 4, ans ! 5], s4)" "flowing s4" "arriving_bytes s4 = addr @ rest"
    using socket_in.rd_next [of s3 "[0x05, 0x00, ans ! 4, ans ! 5]" "addr @ rest"] a3 s2(2,4)
    by (auto simp: eval_nat_numeral)
  obtain n s5 body s' where "socks5_address_length [0x05, 0x00, ans ! 4, ans ! 5] s4 = (Inr n, s5)"
    "socket_recv_exact (n + 2) s5 = (Inr body, s')"
    using socks5_address_total [OF s4(2,3), of "[0x05, 0x00, ans ! 4, ans ! 5]"] cases by auto
  then have "socks5_connect dest s = (Inr (), s')"
    unfolding socks5_connect_def socks5_address_length_def [symmetric] returns_simps throw_if_eq_Inr
    using assms(1) s1(1) s2(1) s3 s4(1) by (auto simp: socks5_destination_def)
  then show ?thesis
    by blast
qed

section \<open>Connections\<close>

text \<open>A channel over a raw connection whose peer showed the pinned certificate; nothing was sent or received on it yet.\<close>

definition pinned :: "tls_client \<Rightarrow> string \<Rightarrow> byte_stream \<Rightarrow> SecureChannel \<Rightarrow> bool" where
  "pinned handshake pin raw c \<longleftrightarrow>
     (\<exists>session d. handshake raw = Inr (session, Some d) \<and> length d = 32 \<and> concat (map hex_byte d) = normalized_hex pin \<and>
        ssl c = Some session \<and> owns_ctx c \<and> send_sequence c = 1 \<and> receive_sequence c = 1)"

lemma make_client_pinned: "make_client handshake ctx pin fd raw = Inr c \<Longrightarrow> pinned handshake pin raw c"
  by (auto simp: make_client_ok pinned_def mk_channel_def)

lemma or_close_slift_returns [returns_simps]:
  "or_close fd m fds = (Inr x, fds') \<longleftrightarrow> m fds = (Inr x, fds')"
  by (auto simp: or_close_def split: prod.splits sum.splits)

theorem direct_connections_are_pinned:
  assumes "connect_direct getaddrinfo handshake ctx e pin fds = (Inr c, fds')"
  shows "\<exists>raw. connect_tcp getaddrinfo e fds = (Inr (socket_fd c, raw), fds') \<and> pinned handshake pin raw c"
  using assms make_client_pinned make_client_owner
  by (fastforce simp: connect_direct_def returns_simps)

lemma socks5_connection_returns:
  assumes "connect_via_socks5 getaddrinfo handshake ctx proxy dest pin fds = (Inr c, fds')"
  shows "\<exists>raw raw'. connect_tcp getaddrinfo proxy fds = (Inr (socket_fd c, raw), fds') \<and>
     socks5_connect dest raw = (Inr (), raw') \<and> pinned handshake pin raw' c"
proof -
  obtain fd raw fds1 where one: "connect_tcp getaddrinfo proxy fds = (Inr (fd, raw), fds1)"
    and two: "(case socks5_connect dest raw of (Inl x, raw') \<Rightarrow> sthrow x
      | (Inr _, raw') \<Rightarrow> slift (make_client handshake ctx pin fd raw')) fds1 = (Inr c, fds')"
    using assms unfolding connect_via_socks5_def returns_simps by (auto simp: returns_simps)
  obtain r raw' where s: "socks5_connect dest raw = (r, raw')"
    by (cases "socks5_connect dest raw")
  with two have "r = Inr ()" "make_client handshake ctx pin fd raw' = Inr c" "fds1 = fds'"
    by (cases r; simp add: action_defs)+
  then show ?thesis
    using one s make_client_pinned make_client_owner by blast
qed

text \<open>A connection that comes about: the first address of the proxy refuses, the second accepts.\<close>

definition demo_proxy_stream :: byte_stream where
  "demo_proxy_stream = \<lparr>arriving = [[0x05], [0x00, 0x05, 0x00, 0x00, 0x01], [0, 0, 0, 0, 0, 0]], accepts = replicate 20 1,
     departed = [], queued_error = None\<rparr>"

definition demo_resolver :: "byte_stream resolver" where
  "demo_resolver e = Inr [Refused 4, Ready 5 demo_proxy_stream]"

definition demo_handshake :: tls_client where
  "demo_handshake raw = Inr (raw, Some (replicate 32 0xAB))"

definition demo_pin :: string where
  "demo_pin = concat (replicate 32 ''AB:'')"

lemma normalized_demo_pin: "normalized_hex (concat (replicate n ''AB:'')) = concat (map hex_byte (replicate n 0xAB))"
  by (induction n) (simp_all add: normalized_hex_def hex_byte_def hex_digit_def)

lemma demo_tor_connection:
  "\<exists>c. connect_via_socks5 demo_resolver demo_handshake 0 \<lparr>endpoint_host = ''127.0.0.1'', endpoint_port = 9050\<rparr>
     \<lparr>endpoint_host = ''m.onion'', endpoint_port = 7443\<rparr> demo_pin [3] = (Inr c, [5, 3])"
proof -
  let ?d = "\<lparr>endpoint_host = ''m.onion'', endpoint_port = 7443\<rparr>" and ?p = "\<lparr>endpoint_host = ''127.0.0.1'', endpoint_port = 9050\<rparr>"
  have "\<exists>raw'. socks5_connect ?d demo_proxy_stream = (Inr (), raw')"
    by (rule socks5_connect_total [where ans = "[5, 0, 5, 0, 0, 1, 0, 0, 0, 0, 0, 0]" and rest = "[]"])
       (simp_all add: socks5_destination_def demo_proxy_stream_def flowing_def arriving_bytes_def socks5_answer_def
          willing_def socks5_request_def)
  then obtain raw' where "socks5_connect ?d demo_proxy_stream = (Inr (), raw')"
    by blast
  moreover have "connect_tcp demo_resolver ?p [3] = (Inr (5, demo_proxy_stream), [5, 3])"
    by (simp add: connect_tcp_def open_socket_def demo_resolver_def opened_def close_fd_def sbind_def action_defs throw_if_def)
  moreover have "\<exists>c. make_client demo_handshake 0 demo_pin 5 raw' = Inr c"
    unfolding make_client_ok demo_pin_def normalized_demo_pin
    by (simp add: demo_handshake_def length_concat sum_list_replicate comp_def hex_byte_def)
  ultimately show ?thesis
    by (auto simp: connect_via_socks5_def sbind_def or_close_def action_defs)
qed

lemma demo_resolver_ok: "resolver_ok demo_resolver"
  by (simp add: resolver_ok_def demo_resolver_def attempt_ok_def)

section \<open>Where a descriptor is lost\<close>

text \<open>\<open>accept_raw\<close> does not close the connection it accepted when the close-on-exec flag cannot be set.\<close>

theorem accept_raw_can_leak:
  "listen_fd \<ge> 0 \<Longrightarrow> accept_raw [Accepted fd] (Some errno) listen_fd fds =
     (Inl (Runtime_error (''failed to set FD_CLOEXEC: '' @ errno)), fd # fds)"
  by (simp add: accept_raw_def set_close_on_exec_def opened_def sbind_def action_defs throw_if_def)

text \<open>The listening socket stays open when the certificate cannot be loaded after it: the destructor does not run.\<close>

theorem new_listener_can_leak:
  assumes "create_listener getaddrinfo e fds = (Inr fd, fd # fds)" "make_server_context load_identity i = Inl x"
  shows "new_listener getaddrinfo load_identity e i fds = (Inl x, fd # fds)"
  using assms by (simp add: new_listener_def sbind_def action_defs)

theorem new_listener_leak_occurs:
  "new_listener (\<lambda>_. Inr [Ready 5 ()]) (\<lambda>_. Inl (Runtime_error ''failed to load server certificate''))
     \<lparr>endpoint_host = [], endpoint_port = 7443\<rparr> \<lparr>certificate_file = ''c.pem'', private_key_file = ''k.pem''\<rparr> [] =
     (Inl (Runtime_error ''failed to load server certificate''), [5])"
  by (rule new_listener_can_leak [where fds = "[]" and fd = 5])
     (simp_all add: create_listener_def open_socket_def opened_def sbind_def action_defs throw_if_def make_server_context_def)

end
