(* ===== verification/Registry_Connection.thy ===== *)
theory Registry_Connection
  imports Registry_Safety Channel_Safety
begin

text \<open>
  A conversation with the registry over the framed channel (\<open>src/src/registry.cpp\<close>): \<open>handle_connection\<close> of the
  server and the two requests of a client, with the frames they send and receive. The end of a channel sees the
  bytes of the other as they arrive, in pieces of any size.
\<close>

section \<open>The server\<close>

definition on_channel :: "(SecureChannel, 'a) action \<Rightarrow> (SecureChannel \<times> registry, 'a) action" where
  "on_channel m = (\<lambda>(c, s). case m c of (r, c') \<Rightarrow> (r, c', s))"

definition on_registry :: "(registry, 'a) action \<Rightarrow> (SecureChannel \<times> registry, 'a) action" where
  "on_registry m = (\<lambda>(c, s). case m s of (r, s') \<Rightarrow> (r, c, s'))"

definition apply_timeout :: "string option \<Rightarrow> nat \<Rightarrow> (SecureChannel, unit) action" where
  "apply_timeout refused seconds c = (Channel.set_timeout refused seconds c, c)"

text \<open>The body of the \<open>try\<close> block, and what is done with an exception from it.\<close>

definition serve_request :: "string option \<Rightarrow> int \<Rightarrow> (SecureChannel \<times> registry, unit) action" where
  "serve_request refused t =
     sbind (on_channel (apply_timeout refused 15)) (\<lambda>_.
     sbind (on_channel receive_frame) (\<lambda>f.
     sbind (on_registry (registry_request t (frame_type f) (frame_payload f))) (\<lambda>(ty, bs).
     on_channel (send_frame ty bs))))"

definition report_failure :: "exn \<Rightarrow> (SecureChannel, unit) action" where
  "report_failure error =
     sbind (slift (encode_error \<lparr>ErrorMessage.reason = registry_safe_reason (what error)\<rparr>)) (\<lambda>bs. send_frame Error bs)"

text \<open>Up to the closing of the channel.\<close>

definition registry_conversation :: "string option \<Rightarrow> int \<Rightarrow> SecureChannel \<times> registry \<Rightarrow> SecureChannel \<times> registry" where
  "registry_conversation refused t cs =
     (case serve_request refused t cs of
        (Inr _, cs') \<Rightarrow> cs'
      | (Inl error, cs') \<Rightarrow> snd (on_channel (report_failure error) cs'))"

definition registry_connection :: "string option \<Rightarrow> int \<Rightarrow> SecureChannel \<times> registry \<Rightarrow> SecureChannel \<times> registry" where
  "registry_connection refused t cs =
     (case registry_conversation refused t cs of (c, s) \<Rightarrow> (fst (close_channel c), s))"

section \<open>The clients\<close>

definition request_listing :: "string option \<Rightarrow> (SecureChannel, RegistryNodesMessage) action" where
  "request_listing refused =
     sbind (apply_timeout refused 15) (\<lambda>_.
     sbind (send_frame RegistryList []) (\<lambda>_.
     sbind receive_frame (\<lambda>reply.
     slift (list_registered_nodes_over (frame_type reply, frame_payload reply)))))"

definition request_registration :: "string option \<Rightarrow> RegistryNode \<Rightarrow> (SecureChannel, unit) action" where
  "request_registration refused n =
     sbind (apply_timeout refused 15) (\<lambda>_.
     sbind (slift (encode_registry_register \<lparr>node = n\<rparr>)) (\<lambda>bs.
     sbind (send_frame RegistryRegister bs) (\<lambda>_.
     sbind receive_frame (\<lambda>reply.
     slift (register_node_once_over (frame_type reply, frame_payload reply))))))"

section \<open>A listing crosses the channel\<close>

lemma willing_mono: "willing n s \<Longrightarrow> m \<le> n \<Longrightarrow> willing m s"
  by (simp add: willing_def)

text \<open>A working end: a session in which every coming write takes something and no piece is empty.\<close>

definition working_end :: "nat \<Rightarrow> SecureChannel \<Rightarrow> byte_stream \<Rightarrow> bool" where
  "working_end n c s \<longleftrightarrow> ssl c = Some s \<and> socket_fd c \<ge> 0 \<and> send_sequence c = 1 \<and> receive_sequence c = 1 \<and>
     flowing s \<and> willing n s \<and> departed s = []"

lemma working_end_timeout: "working_end n c s \<Longrightarrow> apply_timeout None 15 c = (Inr (), c)"
  by (simp add: working_end_def apply_timeout_def Channel.set_timeout_def throw_if_def)

lemma request_types: "validate_message_type RegistryList = Inr ()" "validate_message_type RegistryNodes = Inr ()"
  "message_type_of_value (message_type_value RegistryList) = RegistryList"
  "message_type_of_value (message_type_value RegistryNodes) = RegistryNodes" "(1 :: u64) \<noteq> last_sequence"
  by (simp_all add: validate_message_type_def message_type_of_value_def known_types_def last_sequence_def)

text \<open>The first frame of an end: sending it leaves what arrives alone.\<close>

lemma first_frame_sent:
  assumes "ssl c = Some s" "send_sequence c = 1" "departed s = []" "willing (kFrameHeaderSize + length body) s"
    and "validate_message_type ty = Inr ()" "length body \<le> kMaxFramePayload"
  obtains s' where "send_frame ty body c = (Inr (), c\<lparr>ssl := Some s', send_sequence := 2\<rparr>)"
    "departed s' = frame_bytes \<lparr>frame_type = ty, frame_sequence = 1, frame_payload = body\<rparr>"
    "arriving s' = arriving s"
proof -
  have "willing (kFrameHeaderSize + length body + 0) s"
    using assms(4) by simp
  then have run: "\<exists>s'. send_frame ty body c = (Inr (), c\<lparr>ssl := Some s', send_sequence := 2\<rparr>)"
    using send_frame_total [OF assms(1,5,6), of 0] assms(2) request_types(5) by auto
  then obtain s' where s': "send_frame ty body c = (Inr (), c\<lparr>ssl := Some s', send_sequence := 2\<rparr>)"
    by blast
  show ?thesis
    by (rule send_frame_effect [OF assms(1,5,6) s' refl]) (use that s' assms(2,3) in auto)
qed

lemma wire_some [simp]: "ssl c = Some s \<Longrightarrow> wire c = departed s"
  by (simp add: wire_def)

lemma channel_received [simp]:
  "c\<lparr>ssl := t, receive_sequence := n\<rparr> = c\<lparr>ssl := t', receive_sequence := n\<rparr> \<longleftrightarrow> t = t'"
  by (cases c) simp

lemma working_end_receive:
  assumes "working_end n b sb" "frame_ok f" "frame_sequence f = 1" "arriving_bytes sb = frame_bytes f @ x"
  obtains s1 where "receive_frame b = (Inr f, b\<lparr>ssl := Some s1, receive_sequence := 2\<rparr>)" "departed s1 = []" "willing n s1"
proof -
  have b: "ssl b = Some sb" "receive_sequence b = 1" "flowing sb"
    using assms(1) by (simp_all add: working_end_def)
  obtain s1 where s1: "receive_frame b = (Inr f, b\<lparr>ssl := Some s1, receive_sequence := 2\<rparr>)"
    using receive_frame_total [OF assms(2) b(1) _ _ b(3) assms(4)] assms(3) b(2) request_types(5) by auto
  obtain s' where "b\<lparr>ssl := Some s1, receive_sequence := 2\<rparr> = b\<lparr>ssl := Some s', receive_sequence := receive_sequence b + 1\<rparr>"
    "departed s' = departed sb" "accepts s' = accepts sb"
    by (rule receive_frame_returns [OF s1 b(1)])
  then have "departed s1 = []" "willing n s1"
    using assms(1) b(2) by (simp_all add: working_end_def willing_def)
  with s1 show ?thesis
    by (rule that)
qed

lemma conversation_lists:
  assumes "registry_inv t s" "working_end (kFrameHeaderSize + kMaxFramePayload) b sb"
    and "arriving_bytes sb = frame_bytes \<lparr>frame_type = RegistryList, frame_sequence = 1, frame_payload = []\<rparr> @ x"
  obtains b' bs where "registry_conversation None t (b, s) = (b', remove_expired_locked t s)"
    "wire b' = frame_bytes \<lparr>frame_type = RegistryNodes, frame_sequence = 1, frame_payload = bs\<rparr>"
    "decode_registry_nodes bs = Inr \<lparr>nodes = listing t s\<rparr>" "length bs \<le> kMaxFramePayload"
proof -
  obtain bs where bs: "encode_registry_nodes \<lparr>nodes = listing t s\<rparr> = Inr bs"
    "decode_registry_nodes bs = Inr \<lparr>nodes = listing t s\<rparr>" "length bs \<le> kMaxFramePayload"
    using listing_served [OF assms(1)] by blast
  have request: "registry_request t RegistryList [] s = (Inr (RegistryNodes, bs), remove_expired_locked t s)"
    by (simp add: registry_request_def sbind_def snapshot_eq bs(1) action_defs)
  let ?f = "\<lparr>frame_type = RegistryList, frame_sequence = 1, frame_payload = []\<rparr>"
  have "frame_ok ?f"
    using request_types by (simp add: frame_ok_def)
  then obtain s1 where s1: "receive_frame b = (Inr ?f, b\<lparr>ssl := Some s1, receive_sequence := 2\<rparr>)" "departed s1 = []"
      "willing (kFrameHeaderSize + kMaxFramePayload) s1"
    using working_end_receive [OF assms(2), of ?f x] assms(3) by auto
  let ?b1 = "b\<lparr>ssl := Some s1, receive_sequence := 2\<rparr>"
  have b1: "ssl ?b1 = Some s1" "send_sequence ?b1 = 1"
    using assms(2) by (simp_all add: working_end_def)
  have w: "willing (kFrameHeaderSize + length bs) s1"
    using willing_mono [OF s1(3), of "kFrameHeaderSize + length bs"] bs(3) by simp
  obtain s2 where s2: "send_frame RegistryNodes bs ?b1 = (Inr (), ?b1\<lparr>ssl := Some s2, send_sequence := 2\<rparr>)"
    "departed s2 = frame_bytes \<lparr>frame_type = RegistryNodes, frame_sequence = 1, frame_payload = bs\<rparr>"
    by (rule first_frame_sent [OF b1 s1(2) w request_types(2) bs(3)])
  have "serve_request None t (b, s) = (Inr (), ?b1\<lparr>ssl := Some s2, send_sequence := 2\<rparr>, remove_expired_locked t s)"
    using working_end_timeout [OF assms(2)] s1(1) s2(1) request
    by (simp add: serve_request_def on_channel_def on_registry_def sbind_def)
  then show ?thesis
    using that [of "?b1\<lparr>ssl := Some s2, send_sequence := 2\<rparr>" bs] s2(2) bs by (simp add: registry_conversation_def wire_def)
qed

lemma listing_received:
  assumes "working_end kFrameHeaderSize a sa" "length bs \<le> kMaxFramePayload"
    and "arriving_bytes sa = frame_bytes \<lparr>frame_type = RegistryNodes, frame_sequence = 1, frame_payload = bs\<rparr> @ y"
  shows "fst (request_listing None a) = decode_registry_nodes bs"
proof -
  let ?f = "\<lparr>frame_type = RegistryNodes, frame_sequence = 1, frame_payload = bs\<rparr>"
  obtain s1 where s1: "send_frame RegistryList [] a = (Inr (), a\<lparr>ssl := Some s1, send_sequence := 2\<rparr>)" "arriving s1 = arriving sa"
    using first_frame_sent [of a sa "[]" RegistryList] assms(1) request_types(1) by (auto simp: working_end_def)
  let ?a1 = "a\<lparr>ssl := Some s1, send_sequence := 2\<rparr>"
  have "flowing s1" "arriving_bytes s1 = frame_bytes ?f @ y" "receive_sequence a = 1"
    using assms(1,3) s1(2) by (simp_all add: working_end_def flowing_def arriving_bytes_def)
  then obtain c where "receive_frame ?a1 = (Inr ?f, c)"
    using receive_frame_total [of ?f ?a1 s1 y] request_types assms(2) by (auto simp: frame_ok_def)
  then show ?thesis
    by (simp add: request_listing_def sbind_def slift_def working_end_timeout [OF assms(1)] s1(1)
        list_registered_nodes_over_def)
qed

abbreviation list_frame :: Frame where
  "list_frame \<equiv> \<lparr>frame_type = RegistryList, frame_sequence = 1, frame_payload = []\<rparr>"

lemma request_sent:
  assumes "working_end kFrameHeaderSize a sa"
  shows "wire (snd (send_frame RegistryList [] a)) = frame_bytes list_frame"
proof -
  have "ssl a = Some sa" "send_sequence a = 1" "departed sa = []" "willing (kFrameHeaderSize + length []) sa"
    using assms by (simp_all add: working_end_def)
  then obtain s1 where "send_frame RegistryList [] a = (Inr (), a\<lparr>ssl := Some s1, send_sequence := 2\<rparr>)"
    "departed s1 = frame_bytes list_frame"
    by (rule first_frame_sent [OF _ _ _ _ request_types(1)]) simp_all
  then show ?thesis
    by (simp add: wire_def)
qed

lemma listing_crosses:
  assumes "registry_inv t s" "working_end kFrameHeaderSize a sa" "working_end (kFrameHeaderSize + kMaxFramePayload) b sb"
    and "arriving_bytes sb = wire (snd (send_frame RegistryList [] a)) @ x"
    and "registry_conversation None t (b, s) = (b', s')"
    and "arriving_bytes sa = wire b' @ y"
  shows "fst (request_listing None a) = Inr \<lparr>nodes = listing t s\<rparr>"
proof -
  have "arriving_bytes sb = frame_bytes list_frame @ x"
    using assms(4) by (simp only: request_sent [OF assms(2)])
  then obtain b'' bs where b'': "registry_conversation None t (b, s) = (b'', remove_expired_locked t s)"
    "wire b'' = frame_bytes \<lparr>frame_type = RegistryNodes, frame_sequence = 1, frame_payload = bs\<rparr>"
    "decode_registry_nodes bs = Inr \<lparr>nodes = listing t s\<rparr>" "length bs \<le> kMaxFramePayload"
    by (rule conversation_lists [OF assms(1,3)])
  then have "arriving_bytes sa = frame_bytes \<lparr>frame_type = RegistryNodes, frame_sequence = 1, frame_payload = bs\<rparr> @ y"
    using assms(5,6) by (simp only: prod.inject)
  from listing_received [OF assms(2) b''(4) this] b''(3) show ?thesis
    by (rule trans)
qed

section \<open>Two ends\<close>

definition end_with :: "nat \<Rightarrow> bytes list \<Rightarrow> SecureChannel" where
  "end_with n pieces = fresh_channel (replicate n 1)\<lparr>ssl := Some (idle_stream (replicate n 1)\<lparr>arriving := pieces\<rparr>)\<rparr>"

lemma end_with_works:
  assumes "[] \<notin> set pieces"
  shows "working_end n (end_with n pieces) (idle_stream (replicate n 1)\<lparr>arriving := pieces\<rparr>)"
  using assms
  by (simp add: working_end_def end_with_def flowing_def willing_def fresh_channel_def mk_channel_def idle_stream_def)

lemma frame_bytes_nonempty [simp]: "frame_bytes f \<noteq> []" "[] \<noteq> frame_bytes f"
  using length_frame_bytes [of f] by auto

lemma conversation_answers:
  assumes "registry_inv t s"
  shows "wire (fst (registry_conversation None t (end_with (kFrameHeaderSize + kMaxFramePayload) [frame_bytes list_frame], s))) \<noteq> []"
    (is "wire (fst (registry_conversation None t (?b, s))) \<noteq> []")
proof -
  let ?sb = "idle_stream (replicate (kFrameHeaderSize + kMaxFramePayload) 1)\<lparr>arriving := [frame_bytes list_frame]\<rparr>"
  have "working_end (kFrameHeaderSize + kMaxFramePayload) ?b ?sb"
    by (intro end_with_works) simp
  moreover have "arriving_bytes ?sb = frame_bytes list_frame @ []"
    by (simp add: arriving_bytes_def)
  ultimately obtain b' bs where "registry_conversation None t (?b, s) = (b', remove_expired_locked t s)"
    "wire b' = frame_bytes \<lparr>frame_type = RegistryNodes, frame_sequence = 1, frame_payload = bs\<rparr>"
    by (rule conversation_lists [OF assms])
  then show ?thesis
    by (simp only: fst_conv frame_bytes_nonempty not_False_eq_True)
qed

end
