(* ===== verification/Json.thy ===== *)
theory Json
  imports Text_Parsing
begin

text \<open>
  The JSON text the program writes for its displays: \<open>json_escape\<close> as the sources have it, and, as the
  specification of what a document has to be, JSON values with a printer and a parser. The parser reads the part
  of RFC 8259 the program uses: no white space between tokens, natural numbers, and escapes for single bytes.
\<close>

section \<open>Values and their text\<close>

datatype json = JNull | JBool bool | JNum nat | JStr string | JArr "json list" | JObj "(string \<times> json) list"

abbreviation quote :: char where "quote \<equiv> CHR 0x22"
abbreviation backslash :: char where "backslash \<equiv> CHR 0x5C"

definition hex_char :: "nat \<Rightarrow> char" where
  "hex_char n = ''0123456789abcdef'' ! n"

definition json_escape_char :: "char \<Rightarrow> string" where
  "json_escape_char ch =
     (if ch = quote then [backslash, quote]
      else if ch = backslash then [backslash, backslash]
      else if ch = CHR 0x08 then [backslash, CHR ''b'']
      else if ch = CHR 0x0C then [backslash, CHR ''f'']
      else if ch = CHR 0x0A then [backslash, CHR ''n'']
      else if ch = CHR 0x0D then [backslash, CHR ''r'']
      else if ch = CHR 0x09 then [backslash, CHR ''t'']
      else if (of_char ch :: nat) < 32 then
        [backslash, CHR ''u'', CHR ''0'', CHR ''0'', hex_char (of_char ch div 16), hex_char (of_char ch mod 16)]
      else [ch])"

definition json_escape :: "string \<Rightarrow> string" where
  "json_escape text = concat (map json_escape_char text)"

definition quoted :: "string \<Rightarrow> string" where
  "quoted text = quote # json_escape text @ [quote]"

fun commas :: "string list \<Rightarrow> string" where
  "commas [] = []"
| "commas [x] = x"
| "commas (x # xs) = x @ CHR '','' # commas xs"

fun print_json :: "json \<Rightarrow> string" where
  "print_json JNull = ''null''"
| "print_json (JBool b) = (if b then ''true'' else ''false'')"
| "print_json (JNum n) = to_string n"
| "print_json (JStr text) = quoted text"
| "print_json (JArr js) = CHR ''['' # commas (map print_json js) @ [CHR '']'']"
| "print_json (JObj ms) = CHR ''{'' # commas (map (\<lambda>(k, j). quoted k @ CHR '':'' # print_json j) ms) @ [CHR ''}'']"

section \<open>Reading it back\<close>

definition hex_of_char :: "char \<Rightarrow> nat option" where
  "hex_of_char c =
     (let n = of_char c :: nat in
      if 48 \<le> n \<and> n \<le> 57 then Some (n - 48)
      else if 97 \<le> n \<and> n \<le> 102 then Some (n - 87)
      else if 65 \<le> n \<and> n \<le> 70 then Some (n - 55) else None)"

definition unescape :: "char \<Rightarrow> char option" where
  "unescape c =
     (if c = quote \<or> c = backslash \<or> c = CHR ''/'' then Some c
      else if c = CHR ''b'' then Some (CHR 0x08)
      else if c = CHR ''f'' then Some (CHR 0x0C)
      else if c = CHR ''n'' then Some (CHR 0x0A)
      else if c = CHR ''r'' then Some (CHR 0x0D)
      else if c = CHR ''t'' then Some (CHR 0x09) else None)"

definition hex_escape :: "char \<Rightarrow> char \<Rightarrow> char \<Rightarrow> char \<Rightarrow> char option" where
  "hex_escape a b c d =
     (case (hex_of_char a, hex_of_char b, hex_of_char c, hex_of_char d) of
        (Some 0, Some 0, Some x, Some y) \<Rightarrow> Some (char_of (16 * x + y))
      | _ \<Rightarrow> None)"

text \<open>The characters of a string up to its closing quote, and what follows it.\<close>

definition prefixed :: "char \<Rightarrow> (string \<times> string) option \<Rightarrow> (string \<times> string) option" where
  "prefixed c r = map_option (\<lambda>(text, rest). (c # text, rest)) r"

fun parse_string :: "string \<Rightarrow> (string \<times> string) option" where
  "parse_string [] = None"
| "parse_string (c # cs) =
     (if c = quote then Some ([], cs)
      else if c = backslash then
        (case cs of
           [] \<Rightarrow> None
         | d # ds \<Rightarrow>
             if d = CHR ''u'' then
               (case ds of
                  w # x # y # z # rest \<Rightarrow>
                    (case hex_escape w x y z of None \<Rightarrow> None | Some ch \<Rightarrow> prefixed ch (parse_string rest))
                | _ \<Rightarrow> None)
             else (case unescape d of None \<Rightarrow> None | Some ch \<Rightarrow> prefixed ch (parse_string ds)))
      else if (of_char c :: nat) < 32 then None
      else prefixed c (parse_string cs))"

fun parse_value :: "nat \<Rightarrow> string \<Rightarrow> (json \<times> string) option"
  and parse_elements :: "nat \<Rightarrow> string \<Rightarrow> (json list \<times> string) option"
  and parse_members :: "nat \<Rightarrow> string \<Rightarrow> ((string \<times> json) list \<times> string) option" where
  "parse_value 0 text = None"
| "parse_value (Suc n) text =
     (if text = [] then None
      else if take 4 text = ''null'' then Some (JNull, drop 4 text)
      else if take 4 text = ''true'' then Some (JBool True, drop 4 text)
      else if take 5 text = ''false'' then Some (JBool False, drop 5 text)
      else if is_digit (hd text) then Some (JNum (number (takeWhile is_digit text)), dropWhile is_digit text)
      else if hd text = quote then map_option (\<lambda>(s, rest). (JStr s, rest)) (parse_string (tl text))
      else if take 2 text = ''[]'' then Some (JArr [], drop 2 text)
      else if hd text = CHR ''['' then map_option (\<lambda>(js, rest). (JArr js, rest)) (parse_elements n (tl text))
      else if take 2 text = ''{}'' then Some (JObj [], drop 2 text)
      else if hd text = CHR ''{'' then map_option (\<lambda>(ms, rest). (JObj ms, rest)) (parse_members n (tl text))
      else None)"
| "parse_elements 0 text = None"
| "parse_elements (Suc n) text =
     (case parse_value n text of
        Some (j, c # rest) \<Rightarrow>
          if c = CHR '']'' then Some ([j], rest)
          else if c = CHR '','' then map_option (\<lambda>(js, rest). (j # js, rest)) (parse_elements n rest)
          else None
      | _ \<Rightarrow> None)"
| "parse_members 0 text = None"
| "parse_members (Suc n) text =
     (if text = [] \<or> hd text \<noteq> quote then None
      else case parse_string (tl text) of
        Some (k, c # text') \<Rightarrow>
          if c \<noteq> CHR '':'' then None
          else (case parse_value n text' of
             Some (j, c # rest) \<Rightarrow>
               if c = CHR ''}'' then Some ([(k, j)], rest)
               else if c = CHR '','' then map_option (\<lambda>(ms, rest). ((k, j) # ms, rest)) (parse_members n rest)
               else None
           | _ \<Rightarrow> None)
      | _ \<Rightarrow> None)"

text \<open>The nesting of a text is at most its length, so its length is enough fuel.\<close>

definition read_json :: "string \<Rightarrow> json option" where
  "read_json text = (case parse_value (length text) text of Some (j, []) \<Rightarrow> Some j | _ \<Rightarrow> None)"

section \<open>What is printed is read back\<close>

lemma hex_char_read:
  assumes "k < 16"
  shows "hex_of_char (hex_char k) = Some k"
proof -
  have "list_all (\<lambda>k. hex_of_char (hex_char k) = Some k) [0..<16]"
    by (simp add: upt_conv_Cons hex_char_def hex_of_char_def)
  then show ?thesis
    using assms by (simp add: list_all_iff)
qed

lemma hex_escape_ok:
  assumes "(of_char ch :: nat) < 32"
  shows "hex_escape (CHR ''0'') (CHR ''0'') (hex_char (of_char ch div 16)) (hex_char (of_char ch mod 16)) = Some ch"
proof -
  have "hex_of_char (CHR ''0'') = Some 0"
    by (simp add: hex_of_char_def)
  then show ?thesis
    using assms by (simp add: hex_escape_def hex_char_read)
qed

text \<open>The reader, one form of character at a time.\<close>

declare parse_string.simps [simp del]

lemma parse_string_steps:
  "parse_string (quote # text) = Some ([], text)"
  "unescape d = Some ch \<Longrightarrow> parse_string (backslash # d # text) = prefixed ch (parse_string text)"
  "hex_escape w x y z = Some ch \<Longrightarrow> parse_string (backslash # CHR ''u'' # w # x # y # z # text) = prefixed ch (parse_string text)"
  "c \<noteq> quote \<Longrightarrow> c \<noteq> backslash \<Longrightarrow> \<not> (of_char c :: nat) < 32 \<Longrightarrow> parse_string (c # text) = prefixed c (parse_string text)"
proof -
  have u: "unescape (CHR ''u'') = None"
    by (simp add: unescape_def)
  show "parse_string (quote # text) = Some ([], text)"
    by (subst parse_string.simps) simp
  show "unescape d = Some ch \<Longrightarrow> parse_string (backslash # d # text) = prefixed ch (parse_string text)"
    using u by (subst parse_string.simps) auto
  show "hex_escape w x y z = Some ch \<Longrightarrow> parse_string (backslash # CHR ''u'' # w # x # y # z # text) = prefixed ch (parse_string text)"
    by (subst parse_string.simps) simp
  show "c \<noteq> quote \<Longrightarrow> c \<noteq> backslash \<Longrightarrow> \<not> (of_char c :: nat) < 32 \<Longrightarrow> parse_string (c # text) = prefixed c (parse_string text)"
    by (subst parse_string.simps) simp
qed

lemma unescape_steps:
  "unescape quote = Some quote" "unescape backslash = Some backslash" "unescape (CHR ''b'') = Some (CHR 0x08)"
  "unescape (CHR ''f'') = Some (CHR 0x0C)" "unescape (CHR ''n'') = Some (CHR 0x0A)" "unescape (CHR ''r'') = Some (CHR 0x0D)"
  "unescape (CHR ''t'') = Some (CHR 0x09)"
  by (simp_all add: unescape_def)

lemma parse_escaped_char: "parse_string (json_escape_char ch @ text) = prefixed ch (parse_string text)"
  by (simp add: json_escape_char_def parse_string_steps unescape_steps hex_escape_ok)

lemma parse_escaped: "parse_string (json_escape cs @ quote # rest) = Some (cs, rest)"
  by (induction cs) (simp_all add: json_escape_def parse_escaped_char prefixed_def parse_string_steps)

text \<open>A number is read to its end if no digit follows.\<close>

definition ends_number :: "string \<Rightarrow> bool" where
  "ends_number rest \<longleftrightarrow> rest = [] \<or> \<not> is_digit (hd rest)"

lemma ends_number_simps [simp]: "ends_number []" "ends_number (c # rest) = (\<not> is_digit c)"
  by (simp_all add: ends_number_def)

lemma separators [simp]: "\<not> is_digit (CHR '','')" "\<not> is_digit (CHR '']'')" "\<not> is_digit (CHR ''}'')" "\<not> is_digit quote"
  "\<not> is_digit (CHR ''['')" "\<not> is_digit (CHR ''{'')"
  by (simp_all add: is_digit_def)

lemma digits_then [simp]:
  "ends_number rest \<Longrightarrow> takeWhile is_digit (to_string n @ rest) = to_string n"
  "ends_number rest \<Longrightarrow> dropWhile is_digit (to_string n @ rest) = rest"
  using to_string_digits [of n]
  by (cases rest; simp add: takeWhile_append dropWhile_append list_all_iff)+

lemma digit_first: "is_digit (hd cs) \<Longrightarrow> cs \<noteq> [] \<Longrightarrow> take 4 cs \<noteq> ''null'' \<and> take 4 cs \<noteq> ''true'' \<and> take 5 cs \<noteq> ''false''"
  by (cases cs) (auto simp: is_digit_def)

lemma print_nonempty: "print_json j \<noteq> []"
  using to_string_digits by (cases j) (simp_all add: quoted_def)

lemma print_first: "hd (print_json j) \<noteq> CHR '']''"
proof (cases j)
  case (JNum n)
  then show ?thesis
    using to_string_hd [of n] separators(2) by (metis print_json.simps(3))
qed (simp_all add: quoted_def)

lemma commas_hd: "js \<noteq> [] \<Longrightarrow> hd js \<noteq> [] \<Longrightarrow> hd (commas js) = hd (hd js) \<and> commas js \<noteq> []"
  by (cases js rule: commas.cases) simp_all

lemma parse_elements_print:
  assumes "js \<noteq> []" and "\<And>j n rest. j \<in> set js \<Longrightarrow> ends_number rest \<Longrightarrow> length (print_json j) \<le> n \<Longrightarrow>
      parse_value n (print_json j @ rest) = Some (j, rest)"
    and "length (commas (map print_json js)) < n"
  shows "parse_elements n (commas (map print_json js) @ CHR '']'' # rest) = Some (js, rest)"
  using assms
proof (induction js arbitrary: n)
  case (Cons j js)
  then obtain m where n: "n = Suc m"
    by (cases n) auto
  show ?case
  proof (cases js)
    case Nil
    then show ?thesis
      using Cons.prems by (simp add: n)
  next
    case (Cons j' js')
    have "parse_elements m (commas (map print_json js) @ CHR '']'' # rest) = Some (js, rest)"
      using Cons.prems Cons by (intro Cons.IH) (simp_all add: n)
    then show ?thesis
      using Cons.prems Cons by (simp add: n)
  qed
qed simp

lemma parse_members_print:
  assumes "ms \<noteq> []" and "\<And>k j n rest. (k, j) \<in> set ms \<Longrightarrow> ends_number rest \<Longrightarrow> length (print_json j) \<le> n \<Longrightarrow>
      parse_value n (print_json j @ rest) = Some (j, rest)"
    and "length (commas (map (\<lambda>(k, j). quoted k @ CHR '':'' # print_json j) ms)) < n"
  shows "parse_members n (commas (map (\<lambda>(k, j). quoted k @ CHR '':'' # print_json j) ms) @ CHR ''}'' # rest) = Some (ms, rest)"
  using assms
proof (induction ms arbitrary: n)
  case (Cons mem ms)
  obtain k j where mem: "mem = (k, j)"
    by (cases mem)
  from Cons.prems obtain m where n: "n = Suc m"
    by (cases n) auto
  show ?case
  proof (cases ms)
    case Nil
    then show ?thesis
      using Cons.prems by (simp add: n mem quoted_def parse_escaped)
  next
    case (Cons mem' ms')
    have "parse_members m (commas (map (\<lambda>(k, j). quoted k @ CHR '':'' # print_json j) ms) @ CHR ''}'' # rest) = Some (ms, rest)"
      using Cons.prems Cons by (intro Cons.IH) (auto simp: n mem)
    moreover have "parse_value m (print_json j @ CHR '','' # cs) = Some (j, CHR '','' # cs)" for cs
      using Cons.prems Cons by (intro Cons.prems(2) [of k]) (simp_all add: n mem quoted_def)
    moreover obtain body where body: "commas (map (\<lambda>(k, j). quoted k @ CHR '':'' # print_json j) ms) = body"
      by blast
    moreover have "commas (map (\<lambda>(k, j). quoted k @ CHR '':'' # print_json j) (mem # ms)) =
        quote # json_escape k @ quote # CHR '':'' # print_json j @ CHR '','' # body"
      using body Cons by (simp add: mem quoted_def)
    ultimately show ?thesis
      by (simp only: n append_Cons append_assoc parse_members.simps list.sel parse_escaped) (simp add: mem)
  qed
qed simp

lemma parse_number:
  assumes "ends_number rest"
  shows "parse_value (Suc m) (to_string x @ rest) = Some (JNum x, rest)"
proof -
  have "is_digit (hd (to_string x @ rest))" "to_string x @ rest \<noteq> []"
    using to_string_hd [of x] to_string_digits [of x] by simp_all
  with digit_first [of "to_string x @ rest"] show ?thesis
    using assms by (simp only: parse_value.simps if_False if_True simp_thms digits_then number_to_string)
qed

lemma parse_array:
  "parse_elements m (body @ CHR '']'' # rest) = Some (js, rest) \<Longrightarrow> body \<noteq> [] \<Longrightarrow> hd body \<noteq> CHR '']'' \<Longrightarrow>
     parse_value (Suc m) (CHR ''['' # body @ CHR '']'' # rest) = Some (JArr js, rest)"
  by (cases body) simp_all

lemma parse_object:
  "parse_members m (body @ CHR ''}'' # rest) = Some (ms, rest) \<Longrightarrow> body \<noteq> [] \<Longrightarrow> hd body = quote \<Longrightarrow>
     parse_value (Suc m) (CHR ''{'' # body @ CHR ''}'' # rest) = Some (JObj ms, rest)"
  by (cases body) simp_all

lemma parse_atoms:
  "parse_value (Suc m) (''null'' @ rest) = Some (JNull, rest)"
  "parse_value (Suc m) (''true'' @ rest) = Some (JBool True, rest)"
  "parse_value (Suc m) (''false'' @ rest) = Some (JBool False, rest)"
  "parse_value (Suc m) (quoted cs @ rest) = Some (JStr cs, rest)"
  "parse_value (Suc m) (''[]'' @ rest) = Some (JArr [], rest)"
  "parse_value (Suc m) (''{}'' @ rest) = Some (JObj [], rest)"
  by (simp_all add: quoted_def parse_escaped)

theorem parse_print:
  "ends_number rest \<Longrightarrow> length (print_json j) \<le> n \<Longrightarrow> parse_value n (print_json j @ rest) = Some (j, rest)"
proof (induction j arbitrary: n rest)
  case (JArr js)
  then obtain m where n: "n = Suc m"
    by (cases n) auto
  show ?case
  proof (cases js)
    case Nil
    then show ?thesis
      using parse_atoms(5) [of m rest] by (simp add: n)
  next
    case (Cons j js')
    have first: "hd (commas (map print_json js)) \<noteq> CHR '']''" "commas (map print_json js) \<noteq> []"
      using commas_hd [of "map print_json js"] print_first [of j] print_nonempty [of j] Cons by auto
    have "parse_elements m (commas (map print_json js) @ CHR '']'' # rest) = Some (js, rest)"
      using JArr.prems Cons by (intro parse_elements_print JArr.IH) (simp_all add: n)
    then show ?thesis
      using parse_array [OF _ first(2,1)] by (simp add: n)
  qed
next
  case (JObj ms)
  then obtain m where n: "n = Suc m"
    by (cases n) auto
  show ?case
  proof (cases ms)
    case Nil
    then show ?thesis
      using parse_atoms(6) [of m rest] by (simp add: n)
  next
    case (Cons mem ms')
    let ?body = "commas (map (\<lambda>(k, j). quoted k @ CHR '':'' # print_json j) ms)"
    have first: "hd ?body = quote" "?body \<noteq> []"
      using commas_hd [of "map (\<lambda>(k, j). quoted k @ CHR '':'' # print_json j) ms"] Cons
      by (auto simp: quoted_def split: prod.splits)
    have "parse_value n (print_json j @ rest) = Some (j, rest)"
      if "(k, j) \<in> set ms" "ends_number rest" "length (print_json j) \<le> n" for k j n rest
      using JObj.IH [OF that(1) _ that(2,3)] by simp
    then have "parse_members m (?body @ CHR ''}'' # rest) = Some (ms, rest)"
      using JObj.prems Cons by (intro parse_members_print) (simp_all add: n)
    then show ?thesis
      using parse_object [OF _ first(2,1)] by (simp add: n)
  qed
next
  case (JNum x)
  then show ?case
    using to_string_digits [of x] by (cases n) (simp_all add: parse_number del: parse_value.simps(2))
next
  case (JStr cs)
  then show ?case
    by (cases n) (simp_all add: quoted_def parse_escaped)
next
  case (JBool b)
  then show ?case
    using parse_atoms(2,3) by (cases n; cases b) simp_all
next
  case JNull
  then show ?case
    using parse_atoms(1) by (cases n) simp_all
qed

theorem read_print: "read_json (print_json j) = Some j"
  using parse_print [of "[]" j "length (print_json j)"] by (simp add: read_json_def)

lemma print_json_inj [simp]: "print_json i = print_json j \<longleftrightarrow> i = j"
  by (metis option.inject read_print)

end
