(* ===== verification/State_Views.thy ===== *)
theory State_Views
  imports Lobby_Inv Registry_Safety Json "HOL-Library.Multiset"
begin

text \<open>
  What the servers show of their state: the JSON text of \<open>write_state_snapshot\<close> of the mediator
  (\<open>src/src/lobby.cpp\<close>) and of the registry (\<open>src/src/registry.cpp\<close>), piece by piece as the code writes it, and
  the replacement of the file a dashboard reads. The texts are shown to be documents: parsing one gives the
  values it was made from, whatever characters they contain.
\<close>

section \<open>Pieces of text\<close>

text \<open>\<open>for (index = 0; ...) { if (index != 0U) json << ','; json << ...; }\<close>\<close>

definition listed :: "('a \<Rightarrow> string) \<Rightarrow> 'a list \<Rightarrow> string" where
  "listed f xs = concat (map (\<lambda>index. (if index \<noteq> 0 then '','' else []) @ f (xs ! index)) [0..<length xs])"

definition text_of_bool :: "bool \<Rightarrow> string" where
  "text_of_bool b = (if b then ''true'' else ''false'')"

lemma concat_commas: "concat (map (\<lambda>x. CHR '','' # f x) xs) = (case xs of [] \<Rightarrow> [] | _ \<Rightarrow> CHR '','' # commas (map f xs))"
  by (induction xs) (auto split: list.splits)

lemma listed_commas: "listed f xs = commas (map f xs)"
proof (cases xs)
  case Nil
  then show ?thesis
    by (simp add: listed_def)
next
  case (Cons y ys)
  have "map (\<lambda>index. (if index \<noteq> 0 then '','' else []) @ f (xs ! index)) [1..<length xs] = map (\<lambda>x. CHR '','' # f x) ys"
    by (rule nth_equalityI) (simp_all add: Cons del: upt_Suc)
  then have "listed f xs = f y @ concat (map (\<lambda>x. CHR '','' # f x) ys)"
    by (simp add: listed_def Cons upt_conv_Cons del: upt_Suc)
  then show ?thesis
    by (simp add: Cons concat_commas split: list.splits)
qed

text \<open>The keys of the objects need no escape.\<close>

definition plain :: "string \<Rightarrow> bool" where
  "plain cs \<longleftrightarrow> list_all (\<lambda>c. (of_char c :: nat) \<ge> 32 \<and> c \<noteq> quote \<and> c \<noteq> backslash) cs"

lemma plain_escape: "plain cs \<Longrightarrow> json_escape cs = cs"
proof -
  have "json_escape_char c = [c]" if "(of_char c :: nat) \<ge> 32" "c \<noteq> quote" "c \<noteq> backslash" for c
    using that by (auto simp: json_escape_char_def)
  then show "plain cs \<Longrightarrow> json_escape cs = cs"
    by (induction cs) (simp_all add: plain_def json_escape_def)
qed

lemma quoted_plain: "plain cs \<Longrightarrow> quoted cs = quote # cs @ [quote]"
  by (simp add: quoted_def plain_escape)

lemma json_escape_simps [simp]: "json_escape [] = []"
  by (simp add: json_escape_def)

lemma plain_simps: "plain []" "plain (c # cs) \<longleftrightarrow> (of_char c :: nat) \<ge> 32 \<and> c \<noteq> quote \<and> c \<noteq> backslash \<and> plain cs"
  by (simp_all add: plain_def)

lemma plain_hex_digit: "n < 16 \<Longrightarrow> plain [hex_digit n]"
  by (auto simp: plain_def hex_digit_def dest!: arg_cong [of _ _ "of_char :: char \<Rightarrow> nat"])

lemma plain_append [simp]: "plain (xs @ ys) \<longleftrightarrow> plain xs \<and> plain ys"
  by (simp add: plain_def)

lemma plain_hex [simp]: "plain (hex bs)"
proof (induction bs)
  case (Cons b bs)
  have "unat b div 16 < 16" "unat b mod 16 < 16"
    using unsigned_less [of b, where ?'a = nat] by simp_all
  then have "plain (hex_byte b)"
    using plain_hex_digit by (simp add: hex_byte_def plain_simps)
  with Cons show ?case
    by (simp add: hex_def)
qed (simp add: hex_def plain_def)

lemma to_string_plain [simp]: "plain (to_string n)"
  using to_string_digits [of n] by (auto simp: plain_def list_all_iff is_digit_def)

section \<open>The mediator\<close>

record RoomSnapshot =
  rs_room_id :: string
  rs_terms :: TradeTerms
  rs_state :: string
  rs_round :: u32
  rs_current_sender :: string

definition room_snapshot :: "RoomEntry \<Rightarrow> RoomSnapshot result" where
  "room_snapshot room =
     (let s = session room in
     rbind (room_id_to_hex (rid room)) (\<lambda>key.
     rbind (if MediatorSession.state s = WaitingForSent \<or> MediatorSession.state s = WaitingForReceived \<or>
               MediatorSession.state s = WaitingForFeeSent
            then rbind (current_sender s) (\<lambda>p. Inr (if p = PartyA then ''A'' else ''B'')) else Inr []) (\<lambda>sender_name.
     Inr \<lparr>rs_room_id = key, rs_terms = session_terms s, rs_state = session_state_name (MediatorSession.state s),
       rs_round = MediatorSession.round_index s + 1, rs_current_sender = sender_name\<rparr>)))"

text \<open>A loop that collects what a fallible body returns.\<close>

primrec collect :: "('a \<Rightarrow> 'b result) \<Rightarrow> 'a list \<Rightarrow> 'b list result" where
  "collect f [] = Inr []"
| "collect f (x # xs) = rbind (f x) (\<lambda>y. rbind (collect f xs) (\<lambda>ys. Inr (y # ys)))"

lemma collect_ok: "(\<And>x. x \<in> set xs \<Longrightarrow> f x = Inr (g x)) \<Longrightarrow> collect f xs = Inr (map g xs)"
  by (induction xs) simp_all

definition offer_text :: "string \<times> TradeTerms \<Rightarrow> string" where
  "offer_text = (\<lambda>(key, t). ''{\"room_id\":\"'' @ json_escape key @ ''\",\"asset_a\":\"'' @ json_escape (TradeTerms.asset_a t) @
     ''\",\"total_a\":'' @ to_string (unat (total_a t)) @ '',\"asset_b\":\"'' @ json_escape (TradeTerms.asset_b t) @
     ''\",\"total_b\":'' @ to_string (unat (total_b t)) @ '',\"rounds\":'' @ to_string (unat (rounds t)) @ ''}'')"

definition room_text :: "RoomSnapshot \<Rightarrow> string" where
  "room_text r = ''{\"room_id\":\"'' @ json_escape (rs_room_id r) @ ''\",\"state\":\"'' @ json_escape (rs_state r) @
     ''\",\"round\":'' @ to_string (unat (rs_round r)) @ '',\"rounds\":'' @ to_string (unat (rounds (rs_terms r))) @
     '',\"current_sender\":\"'' @ json_escape (rs_current_sender r) @
     ''\",\"asset_a\":\"'' @ json_escape (TradeTerms.asset_a (rs_terms r)) @ ''\",\"total_a\":'' @ to_string (unat (total_a (rs_terms r))) @
     '',\"asset_b\":\"'' @ json_escape (TradeTerms.asset_b (rs_terms r)) @ ''\",\"total_b\":'' @ to_string (unat (total_b (rs_terms r))) @ ''}''"

text \<open>\<open>generated\<close> is the text of the local time.\<close>

definition lobby_text :: "config \<Rightarrow> string \<Rightarrow> lobby \<Rightarrow> string result" where
  "lobby_text cfg generated s =
     (let offer_snapshots = sort_key fst (map (\<lambda>(key, offer). (key, OpenOffer.terms offer)) (lobby.offers s)) in
     rbind (collect room_snapshot (map snd (rooms s))) (\<lambda>snapshots.
     let room_snapshots = sort_key rs_room_id snapshots in
     Inr (''{\"enabled\":true,\"available\":true'' @ '',\"generated_at\":\"'' @ json_escape generated @ ''\"'' @
       '',\"bind\":\"'' @ json_escape (bind_host cfg @ '':'' @ to_string (unat (bind_port cfg))) @
       ''\",\"clients\":'' @ to_string (length (clients s)) @
       '',\"pending_invites\":'' @ to_string (length (invites s)) @
       '',\"fee_asset\":\"'' @ json_escape (FeeTerms.asset (lobby.fee s)) @
       ''\",\"fee_amount\":'' @ to_string (unat (FeeTerms.amount (lobby.fee s))) @
       '',\"fee_address\":\"'' @ json_escape (FeeTerms.address (lobby.fee s)) @ ''\"'' @
       '',\"room_persistence_enabled\":'' @ (if room_persistence_path cfg = [] then ''false'' else ''true'') @
       '',\"room_persistence_path\":\"'' @ json_escape (room_persistence_path cfg) @
       ''\",\"rooms_restored_at_startup\":'' @ to_string (rooms_restored_at_startup s) @ '',\"offers\":['' @
       listed offer_text offer_snapshots @ ''],\"rooms\":['' @ listed room_text room_snapshots @ '']}'')))"

text \<open>The document it has to be.\<close>

definition offer_view :: "string \<times> TradeTerms \<Rightarrow> json" where
  "offer_view = (\<lambda>(key, t). JObj [(''room_id'', JStr key), (''asset_a'', JStr (TradeTerms.asset_a t)),
     (''total_a'', JNum (unat (total_a t))), (''asset_b'', JStr (TradeTerms.asset_b t)),
     (''total_b'', JNum (unat (total_b t))), (''rounds'', JNum (unat (rounds t)))])"

definition room_view :: "RoomSnapshot \<Rightarrow> json" where
  "room_view r = JObj [(''room_id'', JStr (rs_room_id r)), (''state'', JStr (rs_state r)),
     (''round'', JNum (unat (rs_round r))), (''rounds'', JNum (unat (rounds (rs_terms r)))),
     (''current_sender'', JStr (rs_current_sender r)), (''asset_a'', JStr (TradeTerms.asset_a (rs_terms r))),
     (''total_a'', JNum (unat (total_a (rs_terms r)))), (''asset_b'', JStr (TradeTerms.asset_b (rs_terms r))),
     (''total_b'', JNum (unat (total_b (rs_terms r))))]"

definition lobby_view :: "config \<Rightarrow> string \<Rightarrow> (string \<times> TradeTerms) list \<Rightarrow> RoomSnapshot list \<Rightarrow> lobby \<Rightarrow> json" where
  "lobby_view cfg generated os rs s = JObj [(''enabled'', JBool True), (''available'', JBool True),
     (''generated_at'', JStr generated), (''bind'', JStr (bind_host cfg @ '':'' @ to_string (unat (bind_port cfg)))),
     (''clients'', JNum (length (clients s))), (''pending_invites'', JNum (length (invites s))),
     (''fee_asset'', JStr (FeeTerms.asset (lobby.fee s))), (''fee_amount'', JNum (unat (FeeTerms.amount (lobby.fee s)))),
     (''fee_address'', JStr (FeeTerms.address (lobby.fee s))),
     (''room_persistence_enabled'', JBool (room_persistence_path cfg \<noteq> [])),
     (''room_persistence_path'', JStr (room_persistence_path cfg)),
     (''rooms_restored_at_startup'', JNum (rooms_restored_at_startup s)),
     (''offers'', JArr (map offer_view os)), (''rooms'', JArr (map room_view rs))]"

lemma offer_text_view: "offer_text o1 = print_json (offer_view o1)"
  by (cases o1) (simp add: offer_text_def offer_view_def quoted_def json_escape_def json_escape_char_def)

lemma room_text_view: "room_text r = print_json (room_view r)"
  by (simp add: room_text_def room_view_def quoted_def json_escape_def json_escape_char_def)

lemma lobby_text_view:
  assumes "collect room_snapshot (map snd (rooms s)) = Inr snapshots"
  shows "lobby_text cfg generated s = Inr (print_json (lobby_view cfg generated
     (sort_key fst (map (\<lambda>(key, offer). (key, OpenOffer.terms offer)) (lobby.offers s))) (sort_key rs_room_id snapshots) s))"
proof -
  have "offer_text = (\<lambda>x. print_json (offer_view x))" "room_text = (\<lambda>x. print_json (room_view x))"
    using offer_text_view room_text_view by blast+
  then show ?thesis
    using assms by (simp add: lobby_text_def lobby_view_def listed_commas comp_def quoted_def json_escape_def json_escape_char_def)
qed

text \<open>In a reachable lobby every room has a snapshot, and the order of the maps does not show.\<close>

definition snapshot_of :: "string \<times> RoomEntry \<Rightarrow> RoomSnapshot" where
  "snapshot_of = (\<lambda>(key, room). let s = session room in
     \<lparr>rs_room_id = key, rs_terms = session_terms s, rs_state = session_state_name (MediatorSession.state s),
      rs_round = MediatorSession.round_index s + 1,
      rs_current_sender =
        (if MediatorSession.state s = WaitingForSent \<or> MediatorSession.state s = WaitingForReceived \<or>
            MediatorSession.state s = WaitingForFeeSent
         then if current_sender s = Inr PartyA then ''A'' else ''B'' else [])\<rparr>)"

lemma room_snapshot_total:
  assumes "room_ok k room"
  shows "room_snapshot room = Inr (snapshot_of (k, room))"
proof -
  let ?s = "session room"
  obtain g where "runs ?s g"
    using assms by (auto simp: room_ok_def)
  then have inv: "session_inv ?s"
    by (rule runs_inv)
  have "\<exists>p. current_sender ?s = Inr p" if "MediatorSession.state ?s = WaitingForSent \<or> MediatorSession.state ?s = WaitingForReceived"
    using current_sender_leg [of ?s] inv that by (auto simp: session_inv_def)
  moreover have "current_sender ?s = Inr PartyA" if "MediatorSession.state ?s = WaitingForFeeSent"
    using that by (simp add: current_sender_def)
  moreover have "room_id_to_hex (rid room) = Inr k"
    using assms by (simp add: room_ok_def to_hex_ok)
  ultimately show ?thesis
    by (auto simp: room_snapshot_def snapshot_of_def Let_def)
qed

lemma sort_key_map: "sort_key f (map g xs) = map g (sort_key (f \<circ> g) xs)"
proof (induction xs)
  case (Cons x xs)
  have "insort_key f (g x) (map g ys) = map g (insort_key (f \<circ> g) x ys)" for ys
    by (induction ys) simp_all
  with Cons show ?case
    by (simp add: comp_def)
qed simp

lemma sort_key_keys: "distinct (map fst xs) \<Longrightarrow> mset xs = mset ys \<Longrightarrow> sort_key fst xs = sort_key fst ys" for xs ys :: "(string \<times> 'a) list"
  by (rule sort_key_inj_key_eq) (auto simp: distinct_map dest: mset_eq_setD)

lemma collect_snapshots:
  "(\<And>k room. (k, room) \<in> set rs \<Longrightarrow> room_ok k room) \<Longrightarrow> collect room_snapshot (map snd rs) = Inr (map snapshot_of rs)"
proof (induction rs)
  case (Cons p rs)
  then have "room_snapshot (snd p) = Inr (snapshot_of p)"
    using room_snapshot_total [of "fst p" "snd p"] by simp
  with Cons show ?case
    by simp
qed simp

lemma lobby_text_exact:
  assumes "lobby_inv s" "mset os = mset (lobby.offers s)" "mset rs = mset (rooms s)"
  shows "lobby_text cfg generated (s\<lparr>lobby.offers := os, rooms := rs\<rparr>) = Inr (print_json (lobby_view cfg generated
     (map (\<lambda>(key, offer). (key, OpenOffer.terms offer)) (sort_key fst (lobby.offers s))) (map snapshot_of (sort_key fst (rooms s))) s))"
proof -
  have sort: "sort_key fst os = sort_key fst (lobby.offers s)" "sort_key fst rs = sort_key fst (rooms s)"
    using assms sort_key_keys [of "lobby.offers s" os] sort_key_keys [of "rooms s" rs]
    by (simp_all add: lobby_inv_def offers_inv_def rooms_inv_def)
  have "collect room_snapshot (map snd rs) = Inr (map snapshot_of rs)"
    using assms mset_eq_setD [OF assms(3)] by (intro collect_snapshots) (auto simp: lobby_inv_def rooms_inv_def)
  moreover have "rs_room_id \<circ> snapshot_of = fst" "fst \<circ> (\<lambda>(key, offer). (key, OpenOffer.terms offer)) = fst"
    by (auto simp: fun_eq_iff snapshot_of_def Let_def)
  ultimately show ?thesis
    by (simp add: lobby_text_view sort_key_map sort lobby_view_def)
qed

section \<open>The registry\<close>

definition node_text :: "RegistryNode \<Rightarrow> string result" where
  "node_text n =
     rbind (certificate_pin_to_hex (certificate_pin n)) (\<lambda>pin.
     Inr (''{\"host\":\"'' @ json_escape (host n) @ ''\",\"port\":'' @ to_string (unat (port n)) @
       '',\"certificate_pin\":\"'' @ json_escape pin @
       ''\",\"remaining_ttl_seconds\":'' @ to_string (unat (remaining_ttl_seconds n)) @
       '',\"source_registry\":\"'' @ json_escape (source_registry n) @ ''\"'' @ ''}''))"

definition registry_text :: "Endpoint \<Rightarrow> string \<Rightarrow> int \<Rightarrow> (registry, string) action" where
  "registry_text bind_endpoint generated t =
     sbind (snapshot t) (\<lambda>listing.
     sbind (slift (collect node_text (nodes listing))) (\<lambda>node_texts.
     sreturn (''{\"enabled\":true,\"available\":true'' @ '',\"generated_at\":\"'' @ json_escape generated @ ''\"'' @
       '',\"bind\":\"'' @ json_escape (endpoint_host bind_endpoint @ '':'' @ to_string (unat (endpoint_port bind_endpoint))) @
       ''\",\"node_count\":'' @ to_string (length (nodes listing)) @ '',\"nodes\":['' @ listed (\<lambda>text. text) node_texts @ '']}'')))"

definition node_view :: "RegistryNode \<Rightarrow> json" where
  "node_view n = JObj [(''host'', JStr (host n)), (''port'', JNum (unat (port n))),
     (''certificate_pin'', JStr (hex (certificate_pin n))),
     (''remaining_ttl_seconds'', JNum (unat (remaining_ttl_seconds n))), (''source_registry'', JStr (source_registry n))]"

definition registry_view :: "Endpoint \<Rightarrow> string \<Rightarrow> RegistryNode list \<Rightarrow> json" where
  "registry_view bind_endpoint generated ns = JObj [(''enabled'', JBool True), (''available'', JBool True),
     (''generated_at'', JStr generated),
     (''bind'', JStr (endpoint_host bind_endpoint @ '':'' @ to_string (unat (endpoint_port bind_endpoint)))),
     (''node_count'', JNum (length ns)), (''nodes'', JArr (map node_view ns))]"

lemma node_text_view:
  assumes "nonzero (certificate_pin n)"
  shows "node_text n = Inr (print_json (node_view n))"
proof -
  have "certificate_pin_to_hex (certificate_pin n) = Inr (hex (certificate_pin n))"
    using assms by (simp add: certificate_pin_to_hex_def id_to_hex_ok hex_def)
  then show ?thesis
    by (simp add: node_text_def node_view_def) (simp add: quoted_def json_escape_def json_escape_char_def)
qed

lemma listed_pin: "registry_inv t s \<Longrightarrow> n \<in> set (listing t s) \<Longrightarrow> nonzero (certificate_pin n)"
proof -
  assume "registry_inv t s" "n \<in> set (listing t s)"
  then have "wf_node True n"
    unfolding set_listing by (auto simp: live_def registry_inv_def pool_inv_def entry_ok_def intro!: listed_wf)
  then show "nonzero (certificate_pin n)"
    by (simp add: wf_node_def valid_node_iff)
qed

lemma registry_text_exact:
  assumes "registry_inv t s"
  shows "registry_text bind_endpoint generated t s =
     (Inr (print_json (registry_view bind_endpoint generated (listing t s))), remove_expired_locked t s)"
proof -
  have "collect node_text (listing t s) = Inr (map (\<lambda>n. print_json (node_view n)) (listing t s))"
    using node_text_view listed_pin [OF assms] by (intro collect_ok) blast
  then show ?thesis
    by (simp add: registry_text_def snapshot_eq sbind_def slift_def sreturn_def registry_view_def listed_commas comp_def)
       (simp add: quoted_def json_escape_def json_escape_char_def)
qed

section \<open>The file a dashboard reads\<close>

text \<open>
  How the calls of one replacement go: whether the directories are there, the temporary file opens and the stream
  is good after the last \<open>output <<\<close>, how many bytes the stream's destructor leaves in the file if it cannot write
  all of them (it reports nothing), and how \<open>rename\<close>, \<open>remove\<close> and the second \<open>rename\<close> end.
\<close>

record snapshot_calls =
  directories :: "string option"
  stream_opens :: bool
  stream_good :: bool
  flushed :: "nat option"
  first_rename_ok :: bool
  remove_ok :: bool
  second_rename :: "string option"

definition write_snapshot :: "string \<Rightarrow> snapshot_calls \<Rightarrow> string \<Rightarrow> string \<Rightarrow> string \<Rightarrow> (files, unit) action" where
  "write_snapshot kind calls path temporary document =
     (let out = map byte_of_char (document @ [CHR 0x0A]);
          stored = (case flushed calls of None \<Rightarrow> out | Some n \<Rightarrow> take n out) in
     sbind (slift (case directories calls of None \<Rightarrow> Inr () | Some message \<Rightarrow> Inl (Runtime_error message))) (\<lambda>_.
     sbind (slift (throw_if (\<not> stream_opens calls)
       (Runtime_error (''cannot open '' @ kind @ '' snapshot temporary file'')))) (\<lambda>_.
     sbind (smodify (\<lambda>fs. fs(temporary \<mapsto> stored))) (\<lambda>_.
     sbind (slift (throw_if (\<not> stream_good calls) (Runtime_error (''cannot write '' @ kind @ '' snapshot'')))) (\<lambda>_.
     if first_rename_ok calls then smodify (rename temporary path)
     else sbind (smodify (\<lambda>fs. if remove_ok calls then unlink path fs else fs)) (\<lambda>_.
          case second_rename calls of
            None \<Rightarrow> smodify (rename temporary path)
          | Some message \<Rightarrow> sthrow (Runtime_error (''cannot replace '' @ kind @ '' snapshot: '' @ message))))))))"

definition lobby_write_state_snapshot :: "config \<Rightarrow> snapshot_calls \<Rightarrow> string \<Rightarrow> (lobby, unit) action" where
  "lobby_write_state_snapshot cfg calls generated =
     sbind (\<lambda>s. (lobby_text cfg generated s, s)) (\<lambda>document.
     on_disk (write_snapshot ''lobby'' calls (state_file cfg) (state_file cfg @ ''.tmp'') document))"

definition registry_write_state_snapshot ::
    "Endpoint \<Rightarrow> string \<Rightarrow> string \<Rightarrow> snapshot_calls \<Rightarrow> string \<Rightarrow> int \<Rightarrow> (registry \<times> files, unit) action" where
  "registry_write_state_snapshot bind_endpoint path pid calls generated t =
     (\<lambda>(s, fs). case registry_text bind_endpoint generated t s of
        (Inl e, s') \<Rightarrow> (Inl e, s', fs)
      | (Inr document, s') \<Rightarrow>
          (case write_snapshot ''registry'' calls path (path @ ''.tmp.'' @ pid) document fs of (r, fs') \<Rightarrow> (r, s', fs')))"

text \<open>
  The file is whole or as it was, except where the first \<open>rename\<close> failed: then it is removed, and a second failure
  leaves none.
\<close>

lemma write_snapshot_outcome:
  assumes "write_snapshot kind calls path temporary document fs = (r, fs')" "temporary \<noteq> path"
  shows "case r of
      Inr _ \<Rightarrow> fs' path = Some (case flushed calls of
          None \<Rightarrow> map byte_of_char (document @ [CHR 0x0A]) | Some n \<Rightarrow> take n (map byte_of_char (document @ [CHR 0x0A])))
    | Inl _ \<Rightarrow> fs' path = fs path \<or> \<not> first_rename_ok calls \<and> fs' path = None"
  using assms
  by (auto simp: write_snapshot_def Let_def sbind_def action_defs throw_if_def rename_def unlink_def split: if_splits option.splits)

lemma write_snapshot_works:
  assumes "directories calls = None" "stream_opens calls" "stream_good calls" "first_rename_ok calls"
  shows "\<exists>fs'. write_snapshot kind calls path temporary document fs = (Inr (), fs')"
  using assms by (simp add: write_snapshot_def Let_def sbind_def action_defs)

lemma write_snapshot_others:
  "write_snapshot kind calls path temporary document fs = (r, fs') \<Longrightarrow> p \<noteq> path \<Longrightarrow> p \<noteq> temporary \<Longrightarrow> fs' p = fs p"
  by (auto simp: write_snapshot_def Let_def sbind_def action_defs throw_if_def rename_def unlink_def split: if_splits option.splits)

end
