(* ===== verification/Client_View.thy ===== *)
theory Client_View
  imports Client_Safety State_Views
begin

text \<open>
  What the client shows: \<open>state_json\<close> and \<open>candles_json\<close> of \<open>src/src/dashboard_client.cpp\<close>, and the poll of a
  registry. The members that only serve the display (the summary of the TLS session, the traffic counters, the
  result of the last poll) are the record \<open>client_display\<close>; ages are given in seconds.
\<close>

section \<open>Display state\<close>

record TlsSessionInfo =
  protocol_version :: string
  cipher_suite :: string
  negotiated_group :: string
  peer_certificate_sha256_hex :: string
  peer_certificate_signature_algorithm :: string

record client_display =
  cd_mediator :: Endpoint
  cd_tls_session :: TlsSessionInfo
  cd_connection_seconds :: u64
  cd_frames_sent_total :: u64
  cd_frames_received_total :: u64
  cd_payload_bytes_sent_total :: u64
  cd_payload_bytes_received_total :: u64
  cd_connection_count :: u64
  cd_registry :: "Endpoint option"
  cd_registry_nodes :: "RegistryNode list"
  cd_registry_poll_error :: string
  cd_polled_seconds_ago :: "nat option"

text \<open>One turn of \<open>registry_poll_loop\<close>, with what the request returned or threw.\<close>

definition registry_poll :: "RegistryNodesMessage result \<Rightarrow> client_display \<Rightarrow> client_display" where
  "registry_poll reply d =
     (case reply of
        Inr answered \<Rightarrow> d\<lparr>cd_registry_nodes := nodes answered, cd_registry_poll_error := [], cd_polled_seconds_ago := Some 0\<rparr>
      | Inl error \<Rightarrow> d\<lparr>cd_registry_poll_error := what error, cd_polled_seconds_ago := Some 0\<rparr>)"

section \<open>The text\<close>

definition client_offer_text :: "OfferView \<Rightarrow> string" where
  "client_offer_text offer = (let t = ov_terms offer in
     ''{\"room_id\":\"'' @ json_escape (ov_room_id offer) @ ''\",\"sell_asset\":\"'' @ json_escape (TradeTerms.asset_a t) @
     ''\",\"sell_amount\":'' @ to_string (unat (total_a t)) @ '',\"buy_asset\":\"'' @ json_escape (TradeTerms.asset_b t) @
     ''\",\"buy_amount\":'' @ to_string (unat (total_b t)) @ '',\"rounds\":'' @ to_string (unat (rounds t)) @ ''}'')"

text \<open>What the user can do next in a room.\<close>

definition room_action :: "RoomView \<Rightarrow> string" where
  "room_action room =
     (if rv_status room = ''active'' \<and> rv_has_turn room \<and> \<not> rv_fee_confirmation_pending room then
        (if rv_has_turn room \<and> is_fee (rv_turn room) then
           (if rv_party room = TurnMessage.sender (rv_turn room) then ''sent'' else ''none'')
         else if rv_party room = TurnMessage.sender (rv_turn room) then ''sent''
         else if rv_peer_sent_this_turn room then ''received''
         else ''awaiting_peer_send'')
      else ''none'')"

definition challenge_text :: "bool \<Rightarrow> string \<Rightarrow> u16 \<Rightarrow> u64 \<Rightarrow> u64 \<Rightarrow> string" where
  "challenge_text present nonce_hex suite c_at e_at =
     (if present then ''{\"nonce\":\"'' @ json_escape nonce_hex @ ''\",\"suite_id\":'' @ to_string (unat suite) @
        '',\"created_at\":'' @ to_string (unat c_at) @ '',\"expires_at\":'' @ to_string (unat e_at) @ ''}''
      else ''null'')"

definition receipt_text :: "crypto \<Rightarrow> IssuedReceipt \<Rightarrow> string result" where
  "receipt_text cry issued = (let f = receipt_fields issued in
     rbind (receipt_chain_link_hash cry f (mediator_signature issued) (mediator_signature_mldsa65 issued)) (\<lambda>link_hash.
     Inr (''{\"stage\":\"'' @ receipt_stage_name (ReceiptFields.stage f) @ ''\"'' @
       '',\"completed\":'' @ text_of_bool (ReceiptFields.completed f) @
       '',\"suite_id\":'' @ to_string (unat (ReceiptFields.suite_id f)) @
       '',\"timestamp\":'' @ to_string (unat (ReceiptFields.timestamp f)) @
       '',\"nonce\":\"'' @ hex (ReceiptFields.nonce f) @ ''\"'' @
       '',\"terms_commitment\":\"'' @ hex (ReceiptFields.terms_commitment f) @ ''\"'' @
       '',\"party_a_ephemeral_key\":\"'' @ hex (ReceiptFields.party_a_ephemeral_key f) @ ''\"'' @
       '',\"party_b_ephemeral_key\":\"'' @ hex (ReceiptFields.party_b_ephemeral_key f) @ ''\"'' @
       '',\"mediator_public_key\":\"'' @ hex (ReceiptFields.mediator_public_key f) @ ''\"'' @
       '',\"previous_stage_hash\":\"'' @ hex (ReceiptFields.previous_stage_hash f) @ ''\"'' @
       '',\"mediator_signature\":\"'' @ hex (mediator_signature issued) @ ''\"'' @
       '',\"chain_link_hash\":\"'' @ hex link_hash @ ''\"}'')))"

definition turn_text :: "RoomView \<Rightarrow> string" where
  "turn_text room = (let t = rv_turn room in
     if rv_has_turn room then ''{\"round\":'' @ to_string (unat (TurnMessage.round_index t + 1)) @
       '',\"is_fee\":'' @ text_of_bool (is_fee t) @ '',\"sender\":\"'' @ party_name (TurnMessage.sender t) @
       ''\",\"asset\":\"'' @ json_escape (TurnMessage.asset t) @ ''\",\"amount\":'' @ to_string (unat (TurnMessage.amount t)) @
       '',\"destination\":\"'' @ json_escape (TurnMessage.destination t) @ ''\"}''
     else ''null'')"

definition client_room_text :: "crypto \<Rightarrow> DashboardClient \<Rightarrow> RoomView \<Rightarrow> string result" where
  "client_room_text cry c room = (let t = rv_terms room in
     rbind (collect (receipt_text cry) (case dc_room_receipts c (rv_room_id room) of None \<Rightarrow> [] | Some rs \<Rightarrow> rs)) (\<lambda>receipts.
     Inr (''{\"room_id\":\"'' @ json_escape (rv_room_id room) @ ''\",\"peer_id\":\"'' @ json_escape (rv_peer_id room) @
       ''\",\"party\":\"'' @ party_name (rv_party room) @ ''\",\"status\":\"'' @ json_escape (rv_status room) @
       ''\",\"detail\":\"'' @ json_escape (rv_detail room) @ ''\",\"sell_asset\":\"'' @ json_escape (TradeTerms.asset_a t) @
       ''\",\"sell_amount\":'' @ to_string (unat (total_a t)) @ '',\"buy_asset\":\"'' @ json_escape (TradeTerms.asset_b t) @
       ''\",\"buy_amount\":'' @ to_string (unat (total_b t)) @ '',\"rounds\":'' @ to_string (unat (rounds t)) @
       '',\"receive_address_a\":\"'' @ json_escape (rv_receive_address_a room) @
       ''\",\"receive_address_b\":\"'' @ json_escape (rv_receive_address_b room) @
       ''\",\"fee_asset\":\"'' @ json_escape (FeeTerms.asset (rv_fee room)) @
       ''\",\"fee_amount\":'' @ to_string (unat (FeeTerms.amount (rv_fee room))) @
       '',\"fee_address\":\"'' @ json_escape (FeeTerms.address (rv_fee room)) @
       ''\",\"has_turn\":'' @ text_of_bool (rv_has_turn room) @ '',\"action\":\"'' @ room_action room @ ''\"'' @
       '',\"recognition_status\":\"'' @ json_escape (rv_recognition_status room) @ ''\"'' @
       '',\"recognized_fingerprint\":\"'' @ json_escape (rv_recognized_fingerprint_hex room) @ ''\"'' @
       '',\"own_ephemeral_key\":\"'' @ json_escape (rv_own_ephemeral_public_key_hex room) @ ''\"'' @
       '',\"counterparty_ephemeral_key\":\"'' @ json_escape (rv_counterparty_ephemeral_public_key_hex room) @ ''\"'' @
       '',\"receipt_status\":\"'' @ json_escape (rv_receipt_status room) @ ''\"'' @
       '',\"receipt_chain_verifies\":'' @ text_of_bool (rv_receipt_chain_verifies room) @
       '',\"fee_confirmation_pending\":'' @ text_of_bool (rv_fee_confirmation_pending room) @
       '',\"recognition_challenge\":'' @ challenge_text (rv_has_recognition_challenge room) (rv_recognition_challenge_nonce_hex room)
         (rv_recognition_challenge_suite_id room) (rv_recognition_challenge_created_at room) (rv_recognition_challenge_expires_at room) @
       '',\"recognition_response\":'' @
         (if rv_has_recognition_response room
          then ''{\"public_key\":\"'' @ json_escape (rv_recognition_response_public_key_hex room) @
            ''\",\"signature\":\"'' @ json_escape (rv_recognition_response_signature_hex room) @ ''\"}'' else ''null'') @
       '',\"own_recognition_response_signature\":\"'' @ json_escape (rv_own_recognition_response_signature_hex room) @ ''\"'' @
       '',\"incoming_recognition_challenge\":'' @ challenge_text (rv_has_incoming_recognition_challenge room)
         (rv_incoming_recognition_challenge_nonce_hex room) (rv_incoming_recognition_challenge_suite_id room)
         (rv_incoming_recognition_challenge_created_at room) (rv_incoming_recognition_challenge_expires_at room) @
       '',\"receipts\":['' @ listed (\<lambda>text. text) receipts @ '']'' @ '',\"turn\":'' @ turn_text room @ ''}'')))"

definition tls_text :: "TlsSessionInfo \<Rightarrow> string" where
  "tls_text t = ''{\"protocol_version\":\"'' @ json_escape (TlsSessionInfo.protocol_version t) @
     ''\",\"cipher_suite\":\"'' @ json_escape (cipher_suite t) @ ''\",\"negotiated_group\":\"'' @ json_escape (negotiated_group t) @
     ''\",\"peer_certificate_sha256\":\"'' @ json_escape (peer_certificate_sha256_hex t) @
     ''\",\"peer_certificate_signature_algorithm\":\"'' @ json_escape (peer_certificate_signature_algorithm t) @ ''\"}''"

definition traffic_text :: "client_display \<Rightarrow> string" where
  "traffic_text d =
     ''{'' @ ''\"frames_sent\":'' @ to_string (unat (cd_frames_sent_total d)) @
     '',\"frames_received\":'' @ to_string (unat (cd_frames_received_total d)) @
     '',\"payload_bytes_sent\":'' @ to_string (unat (cd_payload_bytes_sent_total d)) @
     '',\"payload_bytes_received\":'' @ to_string (unat (cd_payload_bytes_received_total d)) @
     '',\"header_bytes\":'' @ to_string (unat ((cd_frames_sent_total d + cd_frames_received_total d) * of_nat kFrameHeaderSize)) @
     '',\"connection_count\":'' @ to_string (unat (cd_connection_count d)) @
     '',\"connection_seconds\":'' @ to_string (unat (cd_connection_seconds d)) @ ''}''"

definition polled_node_text :: "client_display \<Rightarrow> RegistryNode \<Rightarrow> string result" where
  "polled_node_text d n =
     rbind (certificate_pin_to_hex (certificate_pin n)) (\<lambda>pin.
     Inr (''{\"host\":\"'' @ json_escape (host n) @ ''\",\"port\":'' @ to_string (unat (port n)) @
       '',\"certificate_pin\":\"'' @ pin @ ''\",\"remaining_ttl_seconds\":'' @ to_string (unat (remaining_ttl_seconds n)) @
       '',\"source_registry\":\"'' @ json_escape (source_registry n) @ ''\"'' @
       '',\"is_current_mediator\":'' @ text_of_bool (registry_key n = endpoint_key (cd_mediator d)) @ ''}''))"

definition polled_registry_text :: "client_display \<Rightarrow> string result" where
  "polled_registry_text d =
     (case cd_registry d of
        None \<Rightarrow> Inr (''{\"configured\":'' @ ''false'' @ ''}'')
      | Some e \<Rightarrow>
          rbind (collect (polled_node_text d) (cd_registry_nodes d)) (\<lambda>node_texts.
          Inr (''{\"configured\":'' @ ''true'' @ '',\"endpoint\":\"'' @ json_escape (endpoint_key e) @
            ''\",\"error\":\"'' @ json_escape (cd_registry_poll_error d) @ ''\",\"polled_seconds_ago\":'' @
            (case cd_polled_seconds_ago d of None \<Rightarrow> ''null'' | Some n \<Rightarrow> to_string n) @
            '',\"nodes\":['' @ listed (\<lambda>text. text) node_texts @ '']'' @ ''}'')))"

text \<open>\<open>keys\<close> are the keys of the ordered map of rooms, in their order.\<close>

definition state_json :: "crypto \<Rightarrow> client_display \<Rightarrow> string list \<Rightarrow> DashboardClient \<Rightarrow> string result" where
  "state_json cry d keys c =
     rbind (collect (\<lambda>key. client_room_text cry c (room_at key c)) keys) (\<lambda>room_texts.
     rbind (polled_registry_text d) (\<lambda>registry_text.
     Inr (''{\"connected\":'' @ text_of_bool (dc_connected c) @ '',\"connection_status\":\"'' @ json_escape (dc_connection_status c) @
       ''\",\"client_id\":\"'' @ json_escape (dc_client_id c) @ ''\"'' @
       '',\"mediator_id\":\"'' @ json_escape (dc_mediator_id c) @ ''\"'' @
       '',\"revision\":'' @ to_string (unat (dc_revision c)) @
       '',\"mediator_fee_asset\":\"'' @ json_escape (FeeTerms.asset (dc_mediator_fee c)) @
       ''\",\"mediator_fee_amount\":'' @ to_string (unat (FeeTerms.amount (dc_mediator_fee c))) @
       '',\"mediator_fee_address\":\"'' @ json_escape (FeeTerms.address (dc_mediator_fee c)) @
       ''\",\"tls\":'' @ tls_text (cd_tls_session d) @
       '',\"mediator_receipt_key\":\"'' @ (case dc_mediator_receipt_keys c of None \<Rightarrow> [] | Some (k1, k2) \<Rightarrow> hex k1) @
       ''\",\"mediator_receipt_key_mldsa65\":\"'' @ (case dc_mediator_receipt_keys c of None \<Rightarrow> [] | Some (k1, k2) \<Rightarrow> hex k2) @
       ''\",\"offers\":['' @ listed client_offer_text (dc_offers c) @
       ''],\"rooms\":['' @ listed (\<lambda>text. text) room_texts @
       ''],\"events\":['' @ listed (\<lambda>event. ''\"'' @ json_escape event @ ''\"'') (dc_events c) @ '']'' @
       '',\"traffic\":'' @ traffic_text d @ '',\"registry\":'' @ registry_text @ ''}'')))"

definition tick_text :: "TradeTick \<Rightarrow> string" where
  "tick_text tick = ''{\"t\":'' @ to_string (unat (TradeTick.timestamp tick)) @
     '',\"base_amount\":'' @ to_string (unat (base_amount tick)) @ '',\"quote_amount\":'' @ to_string (unat (quote_amount tick)) @ ''}''"

definition candles_json :: "string \<Rightarrow> string \<Rightarrow> DashboardClient \<Rightarrow> string" where
  "candles_json a b c =
     (case dc_candles c (candle_pair_key a b) of
        None \<Rightarrow> ''{\"ok\":true'' @ '',\"base\":\"\",\"quote\":\"\",\"ticks\":[]}''
      | Some candles \<Rightarrow> ''{\"ok\":true'' @ '',\"base\":\"'' @ json_escape (base_asset candles) @
          ''\",\"quote\":\"'' @ json_escape (quote_asset candles) @ ''\",\"ticks\":['' @ listed tick_text (ticks candles) @ '']}'')"

section \<open>The documents\<close>

definition client_offer_view :: "OfferView \<Rightarrow> json" where
  "client_offer_view offer = (let t = ov_terms offer in
     JObj [(''room_id'', JStr (ov_room_id offer)), (''sell_asset'', JStr (TradeTerms.asset_a t)),
       (''sell_amount'', JNum (unat (total_a t))), (''buy_asset'', JStr (TradeTerms.asset_b t)),
       (''buy_amount'', JNum (unat (total_b t))), (''rounds'', JNum (unat (rounds t)))])"

definition challenge_view :: "bool \<Rightarrow> string \<Rightarrow> u16 \<Rightarrow> u64 \<Rightarrow> u64 \<Rightarrow> json" where
  "challenge_view present nonce_hex suite c_at e_at =
     (if present then JObj [(''nonce'', JStr nonce_hex), (''suite_id'', JNum (unat suite)), (''created_at'', JNum (unat c_at)),
        (''expires_at'', JNum (unat e_at))]
      else JNull)"

definition receipt_view :: "crypto \<Rightarrow> IssuedReceipt \<Rightarrow> json" where
  "receipt_view cry issued = (let f = receipt_fields issued in
     JObj [(''stage'', JStr (receipt_stage_name (ReceiptFields.stage f))), (''completed'', JBool (ReceiptFields.completed f)),
       (''suite_id'', JNum (unat (ReceiptFields.suite_id f))), (''timestamp'', JNum (unat (ReceiptFields.timestamp f))),
       (''nonce'', JStr (hex (ReceiptFields.nonce f))), (''terms_commitment'', JStr (hex (ReceiptFields.terms_commitment f))),
       (''party_a_ephemeral_key'', JStr (hex (ReceiptFields.party_a_ephemeral_key f))),
       (''party_b_ephemeral_key'', JStr (hex (ReceiptFields.party_b_ephemeral_key f))),
       (''mediator_public_key'', JStr (hex (ReceiptFields.mediator_public_key f))),
       (''previous_stage_hash'', JStr (hex (ReceiptFields.previous_stage_hash f))),
       (''mediator_signature'', JStr (hex (mediator_signature issued))),
       (''chain_link_hash'', JStr (hex (sha256 cry (link_input issued))))])"

definition turn_view :: "RoomView \<Rightarrow> json" where
  "turn_view room = (let t = rv_turn room in
     if rv_has_turn room then JObj [(''round'', JNum (unat (TurnMessage.round_index t + 1))), (''is_fee'', JBool (is_fee t)),
       (''sender'', JStr (party_name (TurnMessage.sender t))), (''asset'', JStr (TurnMessage.asset t)),
       (''amount'', JNum (unat (TurnMessage.amount t))), (''destination'', JStr (TurnMessage.destination t))]
     else JNull)"

definition client_room_view :: "crypto \<Rightarrow> DashboardClient \<Rightarrow> RoomView \<Rightarrow> json" where
  "client_room_view cry c room = (let t = rv_terms room in
     JObj [(''room_id'', JStr (rv_room_id room)), (''peer_id'', JStr (rv_peer_id room)), (''party'', JStr (party_name (rv_party room))),
       (''status'', JStr (rv_status room)), (''detail'', JStr (rv_detail room)), (''sell_asset'', JStr (TradeTerms.asset_a t)),
       (''sell_amount'', JNum (unat (total_a t))), (''buy_asset'', JStr (TradeTerms.asset_b t)),
       (''buy_amount'', JNum (unat (total_b t))), (''rounds'', JNum (unat (rounds t))),
       (''receive_address_a'', JStr (rv_receive_address_a room)), (''receive_address_b'', JStr (rv_receive_address_b room)),
       (''fee_asset'', JStr (FeeTerms.asset (rv_fee room))), (''fee_amount'', JNum (unat (FeeTerms.amount (rv_fee room)))),
       (''fee_address'', JStr (FeeTerms.address (rv_fee room))), (''has_turn'', JBool (rv_has_turn room)),
       (''action'', JStr (room_action room)), (''recognition_status'', JStr (rv_recognition_status room)),
       (''recognized_fingerprint'', JStr (rv_recognized_fingerprint_hex room)),
       (''own_ephemeral_key'', JStr (rv_own_ephemeral_public_key_hex room)),
       (''counterparty_ephemeral_key'', JStr (rv_counterparty_ephemeral_public_key_hex room)),
       (''receipt_status'', JStr (rv_receipt_status room)), (''receipt_chain_verifies'', JBool (rv_receipt_chain_verifies room)),
       (''fee_confirmation_pending'', JBool (rv_fee_confirmation_pending room)),
       (''recognition_challenge'', challenge_view (rv_has_recognition_challenge room) (rv_recognition_challenge_nonce_hex room)
          (rv_recognition_challenge_suite_id room) (rv_recognition_challenge_created_at room) (rv_recognition_challenge_expires_at room)),
       (''recognition_response'', if rv_has_recognition_response room
          then JObj [(''public_key'', JStr (rv_recognition_response_public_key_hex room)),
            (''signature'', JStr (rv_recognition_response_signature_hex room))] else JNull),
       (''own_recognition_response_signature'', JStr (rv_own_recognition_response_signature_hex room)),
       (''incoming_recognition_challenge'', challenge_view (rv_has_incoming_recognition_challenge room)
          (rv_incoming_recognition_challenge_nonce_hex room) (rv_incoming_recognition_challenge_suite_id room)
          (rv_incoming_recognition_challenge_created_at room) (rv_incoming_recognition_challenge_expires_at room)),
       (''receipts'', JArr (map (receipt_view cry) (case dc_room_receipts c (rv_room_id room) of None \<Rightarrow> [] | Some rs \<Rightarrow> rs))),
       (''turn'', turn_view room)])"

definition tls_view :: "TlsSessionInfo \<Rightarrow> json" where
  "tls_view t = JObj [(''protocol_version'', JStr (TlsSessionInfo.protocol_version t)), (''cipher_suite'', JStr (cipher_suite t)),
     (''negotiated_group'', JStr (negotiated_group t)), (''peer_certificate_sha256'', JStr (peer_certificate_sha256_hex t)),
     (''peer_certificate_signature_algorithm'', JStr (peer_certificate_signature_algorithm t))]"

definition traffic_view :: "client_display \<Rightarrow> json" where
  "traffic_view d = JObj [(''frames_sent'', JNum (unat (cd_frames_sent_total d))),
     (''frames_received'', JNum (unat (cd_frames_received_total d))), (''payload_bytes_sent'', JNum (unat (cd_payload_bytes_sent_total d))),
     (''payload_bytes_received'', JNum (unat (cd_payload_bytes_received_total d))),
     (''header_bytes'', JNum (unat ((cd_frames_sent_total d + cd_frames_received_total d) * of_nat kFrameHeaderSize))),
     (''connection_count'', JNum (unat (cd_connection_count d))), (''connection_seconds'', JNum (unat (cd_connection_seconds d)))]"

definition polled_node_view :: "client_display \<Rightarrow> RegistryNode \<Rightarrow> json" where
  "polled_node_view d n = JObj [(''host'', JStr (host n)), (''port'', JNum (unat (port n))),
     (''certificate_pin'', JStr (hex (certificate_pin n))), (''remaining_ttl_seconds'', JNum (unat (remaining_ttl_seconds n))),
     (''source_registry'', JStr (source_registry n)), (''is_current_mediator'', JBool (registry_key n = endpoint_key (cd_mediator d)))]"

definition polled_registry_view :: "client_display \<Rightarrow> json" where
  "polled_registry_view d =
     (case cd_registry d of
        None \<Rightarrow> JObj [(''configured'', JBool False)]
      | Some e \<Rightarrow> JObj [(''configured'', JBool True), (''endpoint'', JStr (endpoint_key e)), (''error'', JStr (cd_registry_poll_error d)),
          (''polled_seconds_ago'', case cd_polled_seconds_ago d of None \<Rightarrow> JNull | Some n \<Rightarrow> JNum n),
          (''nodes'', JArr (map (polled_node_view d) (cd_registry_nodes d)))])"

definition state_view :: "crypto \<Rightarrow> client_display \<Rightarrow> string list \<Rightarrow> DashboardClient \<Rightarrow> json" where
  "state_view cry d keys c = JObj [(''connected'', JBool (dc_connected c)), (''connection_status'', JStr (dc_connection_status c)),
     (''client_id'', JStr (dc_client_id c)), (''mediator_id'', JStr (dc_mediator_id c)), (''revision'', JNum (unat (dc_revision c))),
     (''mediator_fee_asset'', JStr (FeeTerms.asset (dc_mediator_fee c))),
     (''mediator_fee_amount'', JNum (unat (FeeTerms.amount (dc_mediator_fee c)))),
     (''mediator_fee_address'', JStr (FeeTerms.address (dc_mediator_fee c))), (''tls'', tls_view (cd_tls_session d)),
     (''mediator_receipt_key'', JStr (case dc_mediator_receipt_keys c of None \<Rightarrow> [] | Some (k1, k2) \<Rightarrow> hex k1)),
     (''mediator_receipt_key_mldsa65'', JStr (case dc_mediator_receipt_keys c of None \<Rightarrow> [] | Some (k1, k2) \<Rightarrow> hex k2)),
     (''offers'', JArr (map client_offer_view (dc_offers c))),
     (''rooms'', JArr (map (\<lambda>key. client_room_view cry c (room_at key c)) keys)), (''events'', JArr (map JStr (dc_events c))),
     (''traffic'', traffic_view d), (''registry'', polled_registry_view d)]"

definition candles_view :: "string \<Rightarrow> string \<Rightarrow> DashboardClient \<Rightarrow> json" where
  "candles_view a b c =
     (case dc_candles c (candle_pair_key a b) of
        None \<Rightarrow> JObj [(''ok'', JBool True), (''base'', JStr []), (''quote'', JStr []), (''ticks'', JArr [])]
      | Some candles \<Rightarrow> JObj [(''ok'', JBool True), (''base'', JStr (base_asset candles)), (''quote'', JStr (quote_asset candles)),
          (''ticks'', JArr (map (\<lambda>tick. JObj [(''t'', JNum (unat (TradeTick.timestamp tick))),
             (''base_amount'', JNum (unat (base_amount tick))), (''quote_amount'', JNum (unat (quote_amount tick)))]) (ticks candles)))])"

section \<open>The texts are the documents\<close>

lemmas text_simps = quoted_def json_escape_def json_escape_char_def

text \<open>Texts that are written without \<open>json_escape\<close> because they cannot need it.\<close>

lemma quoted_hex: "quoted (hex bs) = quote # hex bs @ [quote]"
  by (simp add: quoted_plain)

lemma quoted_names:
  "quoted (party_name p) = quote # party_name p @ [quote]" "quoted (room_action room) = quote # room_action room @ [quote]"
  "quoted (receipt_stage_name st) = quote # receipt_stage_name st @ [quote]"
  by (simp_all add: quoted_plain party_name_def room_action_def plain_def) (cases st; simp add: quoted_plain plain_def)

lemma client_offer_text_view: "client_offer_text offer = print_json (client_offer_view offer)"
  by (simp add: client_offer_text_def client_offer_view_def Let_def text_simps)

lemma challenge_text_view: "challenge_text b s n i j = print_json (challenge_view b s n i j)"
  by (simp add: challenge_text_def challenge_view_def text_simps)

lemma turn_text_view: "turn_text room = print_json (turn_view room)"
  by (simp add: turn_text_def turn_view_def Let_def text_of_bool_def quoted_names)
     (simp add: text_simps)

lemma tls_text_view: "tls_text t = print_json (tls_view t)"
  by (simp add: tls_text_def tls_view_def text_simps)

lemma traffic_text_view: "traffic_text d = print_json (traffic_view d)"
  by (simp add: traffic_text_def traffic_view_def text_simps)

lemma candles_text_view: "candles_json a b c = print_json (candles_view a b c)"
proof -
  have "tick_text = (\<lambda>tick. print_json (JObj [(''t'', JNum (unat (TradeTick.timestamp tick))),
       (''base_amount'', JNum (unat (base_amount tick))), (''quote_amount'', JNum (unat (quote_amount tick)))]))"
    by (simp add: fun_eq_iff tick_text_def text_simps)
  then show ?thesis
    by (simp add: candles_json_def candles_view_def listed_commas comp_def text_simps split: option.splits)
qed

lemma receipt_text_view:
  assumes "entry_verified cry key key2 r"
  shows "receipt_text cry r = Inr (print_json (receipt_view cry r))"
proof -
  obtain bs where bs: "encode_receipt_signed_payload (receipt_fields r) = Inr bs"
    using verified_known_stage(2) [OF assms] by blast
  from this have "receipt_chain_link_hash cry (receipt_fields r) (mediator_signature r) (mediator_signature_mldsa65 r) =
      Inr (sha256 cry (link_input r))"
    using encode_receipt_signed_payload_ok [of "receipt_fields r" bs] by (simp add: receipt_chain_link_hash_def link_input_def)
  then show ?thesis
    by (simp add: receipt_text_def receipt_view_def Let_def text_of_bool_def quoted_hex quoted_names)
       (simp add: text_simps)
qed

lemma client_room_text_view:
  assumes "receipts_inv cry c"
  shows "client_room_text cry c room = Inr (print_json (client_room_view cry c room))"
proof -
  let ?rs = "case dc_room_receipts c (rv_room_id room) of None \<Rightarrow> [] | Some rs \<Rightarrow> rs"
  have "receipt_text cry r = Inr (print_json (receipt_view cry r))" if r: "r \<in> set ?rs" for r
  proof -
    obtain rs where rs: "dc_room_receipts c (rv_room_id room) = Some rs" "r \<in> set rs"
      using r by (cases "dc_room_receipts c (rv_room_id room)") auto
    then obtain key key2 where "entry_verified cry key key2 r"
      using assms unfolding receipts_inv_def by blast
    then show ?thesis
      by (rule receipt_text_view)
  qed
  then have receipts: "collect (receipt_text cry) ?rs = Inr (map (\<lambda>r. print_json (receipt_view cry r)) ?rs)"
    by (rule collect_ok)
  show ?thesis
    by (simp add: client_room_text_def client_room_view_def Let_def receipts challenge_text_view turn_text_view listed_commas
          comp_def text_of_bool_def quoted_names del: list.map_comp)
       (simp add: text_simps)
qed

lemma polled_registry_text_view:
  assumes "\<forall>n\<in>set (cd_registry_nodes d). nonzero (certificate_pin n)"
  shows "polled_registry_text d = Inr (print_json (polled_registry_view d))"
proof -
  have "polled_node_text d n = Inr (print_json (polled_node_view d n))" if "n \<in> set (cd_registry_nodes d)" for n
  proof -
    have "certificate_pin_to_hex (certificate_pin n) = Inr (hex (certificate_pin n))"
      using assms that by (simp add: certificate_pin_to_hex_def id_to_hex_ok hex_def)
    then show ?thesis
      by (simp add: polled_node_text_def polled_node_view_def text_of_bool_def quoted_hex) (simp add: text_simps)
  qed
  then have "collect (polled_node_text d) (cd_registry_nodes d) = Inr (map (\<lambda>n. print_json (polled_node_view d n)) (cd_registry_nodes d))"
    by (rule collect_ok)
  then show ?thesis
    by (simp add: polled_registry_text_def polled_registry_view_def listed_commas comp_def split: option.splits)
       (simp add: text_simps)
qed

lemma state_json_view:
  assumes "receipts_inv cry c" "\<forall>n\<in>set (cd_registry_nodes d). nonzero (certificate_pin n)"
  shows "state_json cry d keys c = Inr (print_json (state_view cry d keys c))"
proof -
  have rooms: "collect (\<lambda>key. client_room_text cry c (room_at key c)) keys =
      Inr (map (\<lambda>key. print_json (client_room_view cry c (room_at key c))) keys)"
    by (rule collect_ok) (rule client_room_text_view [OF assms(1)])
  have offers: "client_offer_text = (\<lambda>x. print_json (client_offer_view x))"
    using client_offer_text_view by blast
  have events: "(\<lambda>event. quote # json_escape event @ [quote]) = quoted"
    by (simp add: fun_eq_iff quoted_def)
  show ?thesis
    by (simp add: events state_json_def state_view_def rooms polled_registry_text_view [OF assms(2)] offers tls_text_view traffic_text_view
          listed_commas comp_def text_of_bool_def quoted_hex split: option.splits)
       (simp add: text_simps)
qed

text \<open>What a registry answers never contains a zero pin, so a poll keeps the display printable.\<close>

lemma poll_keeps_pins:
  assumes "\<forall>n\<in>set (cd_registry_nodes d). nonzero (certificate_pin n)"
  shows "\<forall>n\<in>set (cd_registry_nodes (registry_poll (list_registered_nodes_over answer) d)). nonzero (certificate_pin n)"
proof (cases "list_registered_nodes_over answer")
  case (Inr listing)
  then have "decode_registry_nodes (snd answer) = Inr listing"
    by (auto simp: list_registered_nodes_over_def exn_simps split: if_splits)
  then have "\<forall>n\<in>set (nodes listing). wf_node True n"
    by (simp add: registry_nodes_codec)
  then show ?thesis
    by (auto simp: registry_poll_def Inr wf_node_def valid_node_iff)
qed (use assms in \<open>simp add: registry_poll_def\<close>)

definition demo_display :: client_display where
  "demo_display = \<lparr>cd_mediator = \<lparr>endpoint_host = ''m.onion'', endpoint_port = 7443\<rparr>,
     cd_tls_session = \<lparr>TlsSessionInfo.protocol_version = ''TLSv1.3'', cipher_suite = ''TLS_AES_256_GCM_SHA384'',
       negotiated_group = ''X25519MLKEM768'', peer_certificate_sha256_hex = [], peer_certificate_signature_algorithm = ''ML-DSA-65''\<rparr>,
     cd_connection_seconds = 5, cd_frames_sent_total = 2, cd_frames_received_total = 3, cd_payload_bytes_sent_total = 40,
     cd_payload_bytes_received_total = 60, cd_connection_count = 1,
     cd_registry = Some \<lparr>endpoint_host = ''r.onion'', endpoint_port = 7444\<rparr>,
     cd_registry_nodes = [\<lparr>host = ''m.onion'', port = 7443, certificate_pin = replicate 32 1, remaining_ttl_seconds = 9, source_registry = []\<rparr>],
     cd_registry_poll_error = [], cd_polled_seconds_ago = Some 7\<rparr>"

end
