(* ===== verification/Web_Accounts.thy ===== *)
theory Web_Accounts
  imports Mediator_Config Trading_Client
begin

text \<open>
  The accounts of the public web client (\<open>src/src/http_webclient.cpp\<close>, class \<open>AccountStore\<close>): the checks on names and
  passwords, the text file with one record per line, in which a later line of a user replaces an earlier one, and the
  operations. \<open>PKCS5_PBKDF2_HMAC\<close> is a parameter; the result of the calls on the file are inputs of an operation.
\<close>

section \<open>Names, passwords and hexadecimal fields\<close>

definition isalpha :: "char \<Rightarrow> bool" where
  "isalpha c \<longleftrightarrow> 65 \<le> (of_char c :: nat) \<and> (of_char c :: nat) \<le> 90 \<or> 97 \<le> (of_char c :: nat) \<and> (of_char c :: nat) \<le> 122"

definition validate_username :: "string \<Rightarrow> unit result" where
  "validate_username name =
     rbind (throw_if (length name < 3 \<or> length name > 32) (Invalid_argument ''username must be 3 to 32 characters'')) (\<lambda>_.
     rbind (throw_if (\<not> isalpha (hd name)) (Invalid_argument ''username must start with a letter'')) (\<lambda>_.
     for_each (\<lambda>ch. throw_if (\<not> isalnum (of_char ch) \<and> ch \<noteq> CHR ''_'' \<and> ch \<noteq> CHR ''-'')
       (Invalid_argument (''username may only contain letters, digits, '' @ [CHR 0x27] @ ''-'' @ [CHR 0x27] @ '' and '' @
         [CHR 0x27] @ ''_'' @ [CHR 0x27]))) name))"

definition validate_password :: "string \<Rightarrow> unit result" where
  "validate_password password =
     rbind (throw_if (length password < 8) (Invalid_argument ''password must be at least 8 characters'')) (\<lambda>_.
     throw_if (length password > 256) (Invalid_argument ''password is too long''))"

definition hex_blank :: "char \<Rightarrow> bool" where
  "hex_blank c \<longleftrightarrow> c = CHR '' '' \<or> c = CHR 0x09 \<or> c = CHR 0x0D \<or> c = CHR 0x0A"

definition from_hex :: "string \<Rightarrow> bytes result" where
  "from_hex raw =
     (let text = rev (dropWhile hex_blank (rev (dropWhile hex_blank raw))) in
     rbind (throw_if (length text mod 2 \<noteq> 0 \<or> list_ex (\<lambda>c. hex_value c < 0) text)
       (Invalid_argument ''expected a hex string with an even number of characters'')) (\<lambda>_.
     hex_pairs text []))"

section \<open>Login keys\<close>

record EnrolledLoginKey =
  key_suite :: u16
  key_bytes :: bytes

abbreviation (input) kLoginSuiteEd25519V1 :: u16 where "kLoginSuiteEd25519V1 \<equiv> 1"
abbreviation (input) kLoginSuiteMlDsa65V1 :: u16 where "kLoginSuiteMlDsa65V1 \<equiv> 2"

definition expected_login_key_length :: "u16 \<Rightarrow> nat" where
  "expected_login_key_length suite =
     (if suite = kLoginSuiteEd25519V1 then 32 else if suite = kLoginSuiteMlDsa65V1 then 1952 else 0)"

definition expected_login_signature_length :: "u16 \<Rightarrow> nat" where
  "expected_login_signature_length suite =
     (if suite = kLoginSuiteEd25519V1 then 64 else if suite = kLoginSuiteMlDsa65V1 then 3309 else 0)"

definition login_suite_name :: "u16 \<Rightarrow> string" where
  "login_suite_name suite =
     (if suite = kLoginSuiteEd25519V1 then ''ed25519''
      else if suite = kLoginSuiteMlDsa65V1 then ''ml-dsa-65'' else ''unknown'')"

section \<open>The file\<close>

record Account =
  user_name :: string
  salt :: bytes
  password_hash :: bytes
  created_text :: string
  account_key :: "EnrolledLoginKey option"

text \<open>
  \<open>std::getline\<close> on the rest of a string stream; a stream that has met its end, or has nothing left, gives nothing and
  stays failed.
\<close>

definition next_field :: "char \<Rightarrow> string option \<Rightarrow> (string \<times> string option) option" where
  "next_field sep stream = (case stream of None \<Rightarrow> None | Some [] \<Rightarrow> None | Some (c # cs) \<Rightarrow> Some (cut_at sep (c # cs)))"

definition optional_field :: "char \<Rightarrow> string option \<Rightarrow> string \<times> string option" where
  "optional_field sep stream = (case next_field sep stream of None \<Rightarrow> ([], None) | Some r \<Rightarrow> r)"

text \<open>The suite of a stored key, \<open>None\<close> for a field that is not the number of one.\<close>

definition stored_suite :: "string \<Rightarrow> u16 option" where
  "stored_suite suite_text =
     (if suite_text = [] then Some kLoginSuiteEd25519V1
      else case stoul suite_text of
          Inl _ \<Rightarrow> None
        | Inr (parsed, consumed) \<Rightarrow>
            if consumed = length suite_text \<and> parsed \<le> 65535 then Some (ucast parsed) else None)"

definition stored_key :: "string \<Rightarrow> string \<Rightarrow> EnrolledLoginKey option result" where
  "stored_key key_hex suite_text =
     (if key_hex = [] then Inr None
      else rbind (from_hex key_hex) (\<lambda>raw.
        Inr (case stored_suite suite_text of
            None \<Rightarrow> None
          | Some suite \<Rightarrow>
              if length raw = expected_login_key_length suite then Some \<lparr>key_suite = suite, key_bytes = raw\<rparr> else None)))"

text \<open>One line: \<open>None\<close> is a line that is skipped.\<close>

definition parse_account :: "string \<Rightarrow> Account option result" where
  "parse_account line =
     (if line = [] \<or> hd line = CHR ''#'' then Inr None
      else case next_field (CHR 0x09) (Some line) of None \<Rightarrow> Inr None | Some (name, s) \<Rightarrow>
        (case next_field (CHR 0x09) s of None \<Rightarrow> Inr None | Some (salt_hex, s) \<Rightarrow>
        (case next_field (CHR 0x09) s of None \<Rightarrow> Inr None | Some (hash_hex, s) \<Rightarrow>
        (case next_field (CHR 0x09) s of None \<Rightarrow> Inr None | Some (created, s) \<Rightarrow>
        (case optional_field (CHR 0x09) s of (key_hex, s) \<Rightarrow>
        (case optional_field (CHR 0x0A) s of (suite_text, _) \<Rightarrow>
           rbind (from_hex salt_hex) (\<lambda>salt_bytes.
           rbind (from_hex hash_hex) (\<lambda>hash_bytes.
           rbind (stored_key key_hex suite_text) (\<lambda>key.
           Inr (Some \<lparr>user_name = name, salt = salt_bytes, password_hash = hash_bytes, created_text = created,
             account_key = key\<rparr>))))))))))"

type_synonym account_map = "(string \<times> Account) list"

primrec load_lines :: "string list \<Rightarrow> account_map \<Rightarrow> account_map result" where
  "load_lines [] known = Inr known"
| "load_lines (line # lines) known =
     rbind (parse_account line) (\<lambda>a.
     load_lines lines (case a of None \<Rightarrow> known | Some a \<Rightarrow> AList.update (user_name a) a known))"

text \<open>The constructor; a file that cannot be opened is no account.\<close>

record AccountStore =
  accounts_path :: string
  accounts :: account_map

definition account_store :: "bool \<Rightarrow> string \<Rightarrow> files \<Rightarrow> AccountStore result" where
  "account_store opens path fs =
     (case fs path of
        Some bs \<Rightarrow>
          if opens then rbind (load_lines (file_lines bs) []) (\<lambda>known. Inr \<lparr>accounts_path = path, accounts = known\<rparr>)
          else Inr \<lparr>accounts_path = path, accounts = []\<rparr>
      | None \<Rightarrow> Inr \<lparr>accounts_path = path, accounts = []\<rparr>)"

definition account_line :: "Account \<Rightarrow> string" where
  "account_line a = user_name a @ [CHR 0x09] @ hex (salt a) @ [CHR 0x09] @ hex (password_hash a) @ [CHR 0x09] @ created_text a @
     [CHR 0x09] @ (case account_key a of None \<Rightarrow> [] | Some k \<Rightarrow> hex (key_bytes k)) @ [CHR 0x09] @
     (case account_key a of None \<Rightarrow> [] | Some k \<Rightarrow> to_string (unat (key_suite k)))"

text \<open>
  How one append goes: whether the directories can be made, the file opens, and how many bytes of the line reach it;
  a short write goes unnoticed.
\<close>

record append_calls =
  append_directories :: "string option"
  append_opens :: bool
  append_stored :: "nat option"

definition append_locked :: "append_calls \<Rightarrow> string \<Rightarrow> Account \<Rightarrow> (files, unit) action" where
  "append_locked calls path a =
     (let out = map byte_of_char (account_line a @ [CHR 0x0A]);
          stored = (case append_stored calls of None \<Rightarrow> out | Some n \<Rightarrow> take n out) in
     sbind (slift (case append_directories calls of None \<Rightarrow> Inr () | Some message \<Rightarrow> Inl (Runtime_error message))) (\<lambda>_.
     sbind (slift (throw_if (\<not> append_opens calls) (Runtime_error ''failed to open the account store for writing''))) (\<lambda>_.
     smodify (\<lambda>fs. fs(path \<mapsto> (case fs path of None \<Rightarrow> [] | Some bs \<Rightarrow> bs) @ stored)))))"

section \<open>The operations\<close>

type_synonym account_state = "AccountStore \<times> files"

definition on_account_file :: "(files, 'a) action \<Rightarrow> (account_state, 'a) action" where
  "on_account_file m = (\<lambda>(st, fs). case m fs of (r, fs') \<Rightarrow> (r, st, fs'))"

definition derive :: "key_crypto \<Rightarrow> string \<Rightarrow> bytes \<Rightarrow> bytes result" where
  "derive kc password salt_bytes =
     (case evp_pbkdf2 kc password salt_bytes 600000 of
        Inl _ \<Rightarrow> Inl (Runtime_error ''password hashing failed'')
      | Inr out \<Rightarrow> Inr out)"

definition find_account :: "string \<Rightarrow> AccountStore \<Rightarrow> Account option" where
  "find_account name st = map_of (accounts st) name"

definition account_exists :: "string \<Rightarrow> AccountStore \<Rightarrow> bool" where
  "account_exists name st \<longleftrightarrow> find_account name st \<noteq> None"

definition insert_account :: "string \<Rightarrow> Account \<Rightarrow> AccountStore \<Rightarrow> AccountStore" where
  "insert_account name a st = st\<lparr>accounts := AList.update name a (accounts st)\<rparr>"

definition account_create ::
    "key_crypto \<Rightarrow> append_calls \<Rightarrow> bytes option \<Rightarrow> string \<Rightarrow> string \<Rightarrow> string \<Rightarrow> (account_state, unit) action" where
  "account_create kc calls drawn_salt now_text name password =
     sbind (slift (case drawn_salt of None \<Rightarrow> Inl (Runtime_error ''RAND_bytes failed while creating an account'') | Some bs \<Rightarrow> Inr bs)) (\<lambda>salt_bytes.
     sbind (slift (derive kc password salt_bytes)) (\<lambda>hash_bytes.
     let a = \<lparr>user_name = name, salt = salt_bytes, password_hash = hash_bytes, created_text = now_text, account_key = None\<rparr> in
     sbind (sget (\<lambda>(st, fs). account_exists name st)) (\<lambda>taken.
     sbind (slift (throw_if taken (Runtime_error ''that username is already registered''))) (\<lambda>_.
     sbind (sget (\<lambda>(st, fs). accounts_path st)) (\<lambda>path.
     sbind (on_account_file (append_locked calls path a)) (\<lambda>_.
     smodify (\<lambda>(st, fs). (insert_account name a st, fs))))))))"

definition account_verify :: "key_crypto \<Rightarrow> string \<Rightarrow> string \<Rightarrow> AccountStore \<Rightarrow> bool result" where
  "account_verify kc name password st =
     (case find_account name st of
        None \<Rightarrow> rbind (derive kc password (replicate 16 0)) (\<lambda>_. Inr False)
      | Some a \<Rightarrow> rbind (derive kc password (salt a)) (\<lambda>candidate. Inr (candidate = password_hash a)))"

definition set_login_key :: "append_calls \<Rightarrow> string \<Rightarrow> u16 \<Rightarrow> bytes \<Rightarrow> (account_state, unit) action" where
  "set_login_key calls name suite bs =
     sbind (sget (\<lambda>(st, fs). find_account name st)) (\<lambda>found.
     case found of
       None \<Rightarrow> sthrow (Runtime_error ''unknown account'')
     | Some a \<Rightarrow>
         let a = a\<lparr>account_key := Some \<lparr>key_suite = suite, key_bytes = bs\<rparr>\<rparr> in
         sbind (smodify (\<lambda>(st, fs). (insert_account name a st, fs))) (\<lambda>_.
         sbind (sget (\<lambda>(st, fs). accounts_path st)) (\<lambda>path.
         on_account_file (append_locked calls path a))))"

definition login_key :: "string \<Rightarrow> AccountStore \<Rightarrow> EnrolledLoginKey option" where
  "login_key name st = (case find_account name st of None \<Rightarrow> None | Some a \<Rightarrow> account_key a)"

definition list_summary :: "AccountStore \<Rightarrow> (string \<times> string) list" where
  "list_summary st = sort_key snd (map (\<lambda>(name, a). (name, created_text a)) (accounts st))"

end
