(* ===== verification/Web_Sessions.thy ===== *)
theory Web_Sessions
  imports Web_Accounts History Json
begin

text \<open>
  The sessions of the public web client (\<open>src/src/http_webclient.cpp\<close>): \<open>AuthRateLimiter\<close>, which counts failed logins per
  user name, and \<open>SessionManager\<close>, which keeps one client of the mediator per logged-in account together with the
  account's keystore and history while they are open. Readings of the steady clock are in nanoseconds.
\<close>

section \<open>Failed logins\<close>

record AuthRateLimiter =
  auth_failures :: "string \<Rightarrow> int list option"

abbreviation (input) kMaxAttempts :: nat where "kMaxAttempts \<equiv> 5"
abbreviation (input) kWindow :: int where "kWindow \<equiv> 60000000000"

definition prune_locked :: "int \<Rightarrow> string \<Rightarrow> AuthRateLimiter \<Rightarrow> AuthRateLimiter" where
  "prune_locked t name l =
     (case auth_failures l name of
        None \<Rightarrow> l
      | Some attempts \<Rightarrow>
          let kept = filter (\<lambda>at. \<not> at < t - kWindow) attempts in
          l\<lparr>auth_failures := (auth_failures l)(name := if kept = [] then None else Some kept)\<rparr>)"

definition auth_allowed :: "int \<Rightarrow> string \<Rightarrow> (AuthRateLimiter, bool) action" where
  "auth_allowed t name =
     sbind (smodify (prune_locked t name)) (\<lambda>_.
     sget (\<lambda>l. case auth_failures l name of None \<Rightarrow> True | Some attempts \<Rightarrow> length attempts < kMaxAttempts))"

definition record_failure :: "int \<Rightarrow> string \<Rightarrow> (AuthRateLimiter, unit) action" where
  "record_failure t name =
     sbind (smodify (prune_locked t name)) (\<lambda>_.
     smodify (\<lambda>l. l\<lparr>auth_failures := (auth_failures l)(name \<mapsto>
       (case auth_failures l name of None \<Rightarrow> [] | Some attempts \<Rightarrow> attempts) @ [t])\<rparr>))"

definition record_success :: "string \<Rightarrow> (AuthRateLimiter, unit) action" where
  "record_success name = smodify (\<lambda>l. l\<lparr>auth_failures := (auth_failures l)(name := None)\<rparr>)"

section \<open>Sessions\<close>

record WebSession =
  ws_username :: string
  ws_csrf_token :: string
  ws_client :: DashboardClient
  ws_last_seen :: int
  ws_keystore :: "IdentityKeystore option"
  ws_keystore_path :: string
  ws_history :: "LocalCounterpartyHistory option"

record SessionManager =
  sm_max_sessions :: nat
  sm_idle_timeout :: int
  sm_mediator_id :: string
  sm_keystore_dir :: string
  sm_sessions :: "(string \<times> WebSession) list"
  sm_active_by_user :: "string \<Rightarrow> string option"

text \<open>\<open>random_token\<close>: \<open>None\<close> is a draw that fails.\<close>

definition random_token :: "bytes option \<Rightarrow> string result" where
  "random_token drawn_bytes =
     (case drawn_bytes of
        None \<Rightarrow> Inl (Runtime_error ''RAND_bytes failed while creating a session token'')
      | Some bs \<Rightarrow> Inr (hex bs))"

definition find_session :: "string \<Rightarrow> SessionManager \<Rightarrow> WebSession option" where
  "find_session token m = map_of (sm_sessions m) token"

definition put_session :: "string \<Rightarrow> WebSession \<Rightarrow> SessionManager \<Rightarrow> SessionManager" where
  "put_session token ws m = m\<lparr>sm_sessions := AList.update token ws (sm_sessions m)\<rparr>"

text \<open>\<open>emplace\<close> leaves an entry that is there already.\<close>

definition emplace_session :: "string \<Rightarrow> WebSession \<Rightarrow> SessionManager \<Rightarrow> SessionManager" where
  "emplace_session token ws m = (if find_session token m = None then put_session token ws m else m)"

definition open_session :: "int \<Rightarrow> bytes option \<Rightarrow> bytes option \<Rightarrow> string \<Rightarrow> (SessionManager, string) action" where
  "open_session t drawn_token drawn_csrf name =
     sbind (sget (\<lambda>m. length (sm_sessions m) \<ge> sm_max_sessions m)) (\<lambda>full.
     sbind (slift (throw_if full (Runtime_error ''this web client is at capacity, please try again shortly''))) (\<lambda>_.
     sbind (sget sm_mediator_id) (\<lambda>med.
     sbind (slift (random_token drawn_token)) (\<lambda>token.
     sbind (slift (random_token drawn_csrf)) (\<lambda>csrf.
     sbind (smodify (emplace_session token \<lparr>ws_username = name, ws_csrf_token = csrf, ws_client = new_client med,
       ws_last_seen = t, ws_keystore = None, ws_keystore_path = [], ws_history = None\<rparr>)) (\<lambda>_.
     sbind (smodify (\<lambda>m. m\<lparr>sm_active_by_user := (sm_active_by_user m)(name \<mapsto> token)\<rparr>)) (\<lambda>_.
     sreturn token)))))))"

definition session_login :: "int \<Rightarrow> bytes option \<Rightarrow> bytes option \<Rightarrow> string \<Rightarrow> (SessionManager, string) action" where
  "session_login t drawn_token drawn_csrf name =
     sbind (sget (\<lambda>m. case sm_active_by_user m name of None \<Rightarrow> None
       | Some token \<Rightarrow> Some (token, find_session token m))) (\<lambda>active.
     case active of
       Some (token, Some ws) \<Rightarrow>
         sbind (smodify (put_session token (ws\<lparr>ws_last_seen := t\<rparr>))) (\<lambda>_. sreturn token)
     | _ \<Rightarrow>
         sbind (smodify (\<lambda>m. m\<lparr>sm_active_by_user := (sm_active_by_user m)(name := None)\<rparr>)) (\<lambda>_.
         open_session t drawn_token drawn_csrf name))"

definition touch :: "int \<Rightarrow> string \<Rightarrow> (SessionManager, WebSession option) action" where
  "touch t token =
     sbind (sget (find_session token)) (\<lambda>found.
     case found of
       None \<Rightarrow> sreturn None
     | Some ws \<Rightarrow>
         sbind (smodify (put_session token (ws\<lparr>ws_last_seen := t\<rparr>))) (\<lambda>_.
         sreturn (Some (ws\<lparr>ws_last_seen := t\<rparr>))))"

definition drop_session :: "string \<Rightarrow> WebSession \<Rightarrow> SessionManager \<Rightarrow> SessionManager" where
  "drop_session token ws m =
     m\<lparr>sm_active_by_user := (sm_active_by_user m)(ws_username ws := None), sm_sessions := AList.delete token (sm_sessions m)\<rparr>"

definition session_logout :: "string \<Rightarrow> SessionManager \<Rightarrow> SessionManager" where
  "session_logout token m = (case find_session token m of None \<Rightarrow> m | Some ws \<Rightarrow> drop_session token ws m)"

definition reap_idle :: "int \<Rightarrow> SessionManager \<Rightarrow> SessionManager" where
  "reap_idle t m =
     foldl (\<lambda>m (token, ws). if t - ws_last_seen ws > sm_idle_timeout m then drop_session token ws m else m) m (sm_sessions m)"

section \<open>Keystore and history of a session\<close>

type_synonym session_state = "SessionManager \<times> machine"

definition on_machine :: "(machine, 'a) action \<Rightarrow> (session_state, 'a) action" where
  "on_machine f = (\<lambda>(m, h). case f h of (r, h') \<Rightarrow> (r, m, h'))"

definition keystore_path_for :: "string \<Rightarrow> SessionManager \<Rightarrow> string" where
  "keystore_path_for name m = sm_keystore_dir m @ ''/'' @ name @ ''.keystore''"

definition the_session :: "string \<Rightarrow> (session_state, WebSession) action" where
  "the_session token =
     sbind (sget (\<lambda>(m, h). find_session token m)) (\<lambda>found.
     slift (case found of None \<Rightarrow> Inl (Runtime_error ''session not found'') | Some ws \<Rightarrow> Inr ws))"

definition keystore_enable :: "key_crypto \<Rightarrow> keystore_env \<Rightarrow> string \<Rightarrow> string \<Rightarrow> (session_state, unit) action" where
  "keystore_enable kc env token password =
     sbind (the_session token) (\<lambda>ws.
     sbind (sget (\<lambda>(m, h). (keystore_path_for (ws_username ws) m, volume h))) (\<lambda>(path, fs).
     sbind (on_machine (if fs path \<noteq> None then load_action kc env path password
                        else create_keystore kc env path password (ws_username ws))) (\<lambda>ks.
     smodify (\<lambda>(m, h). (put_session token (ws\<lparr>ws_keystore := Some ks, ws_keystore_path := path, ws_history := None\<rparr>) m, h)))))"

definition keystore_lock :: "string \<Rightarrow> SessionManager \<Rightarrow> SessionManager" where
  "keystore_lock token m =
     (case find_session token m of
        None \<Rightarrow> m
      | Some ws \<Rightarrow> put_session token (ws\<lparr>ws_keystore := map_option lock (ws_keystore ws)\<rparr>) m)"

definition unlocked :: "WebSession \<Rightarrow> IdentityKeystore option" where
  "unlocked ws = (case ws_keystore ws of None \<Rightarrow> None | Some ks \<Rightarrow> if ks_secret ks = None then None else Some ks)"

record KeystoreStatus =
  st_loaded :: bool
  st_unlocked :: bool
  st_alias :: string
  st_identity_id_hex :: string
  st_public_key_hex :: string
  st_public_key_mldsa65_hex :: string
  st_created_at :: u64
  st_key_generation :: u32
  st_path :: string

definition keystore_status :: "key_crypto \<Rightarrow> string \<Rightarrow> session_state \<Rightarrow> KeystoreStatus option result" where
  "keystore_status kc token = (\<lambda>(m, h).
     case find_session token m of
       None \<Rightarrow> Inr None
     | Some ws \<Rightarrow>
         let path = keystore_path_for (ws_username ws) m;
             s = \<lparr>st_loaded = (ws_keystore ws \<noteq> None \<or> volume h path \<noteq> None), st_unlocked = False, st_alias = [], st_identity_id_hex = [],
               st_public_key_hex = [], st_public_key_mldsa65_hex = [], st_created_at = 0, st_key_generation = 0, st_path = path\<rparr> in
         (case ws_keystore ws of
            None \<Rightarrow> Inr (Some s)
          | Some ks \<Rightarrow>
              let i = public_identity ks in
              rbind (if ks_secret ks \<noteq> None then identity_public_key_mldsa65 kc ks else Inr []) (\<lambda>key.
              Inr (Some (s\<lparr>st_unlocked := (ks_secret ks \<noteq> None), st_alias := public_alias i, st_identity_id_hex := hex (public_id i),
                st_public_key_hex := hex (public_key_bytes i), st_public_key_mldsa65_hex := hex key,
                st_created_at := public_created_at i, st_key_generation := public_generation i\<rparr>)))))"

text \<open>\<open>opens\<close>: whether the file, if it is there, can be opened.\<close>

definition keystore_export_bytes :: "bool \<Rightarrow> string \<Rightarrow> (session_state, bytes) action" where
  "keystore_export_bytes opens token =
     sbind (the_session token) (\<lambda>ws.
     sbind (sget (\<lambda>(m, h). volume h (keystore_path_for (ws_username ws) m))) (\<lambda>found.
     slift (case found of
         None \<Rightarrow> Inl (Runtime_error ''no trading identity exists for this account yet'')
       | Some bs \<Rightarrow> if opens then Inr bs else Inl (Runtime_error ''no trading identity exists for this account yet''))))"

definition ensure_history_open_locked ::
    "key_crypto \<Rightarrow> read_calls \<Rightarrow> WebSession \<Rightarrow> files \<Rightarrow> LocalCounterpartyHistory result" where
  "ensure_history_open_locked kc calls ws fs =
     (case unlocked ws of
        None \<Rightarrow> Inl (Invalid_argument ''no unlocked trading identity; enable one first'')
      | Some ks \<Rightarrow>
          (case ws_history ws of
             Some h \<Rightarrow> Inr h
           | None \<Rightarrow> open_history kc calls (ws_keystore_path ws @ ''.history'') ks fs))"

text \<open>An operation on the history of a session; what it changes in memory before it throws stays changed.\<close>

definition on_history ::
    "key_crypto \<Rightarrow> read_calls \<Rightarrow> string \<Rightarrow> WebSession \<Rightarrow> (history_state, 'a) action \<Rightarrow> (session_state, 'a) action" where
  "on_history kc calls token ws f = (\<lambda>(m, h).
     case ensure_history_open_locked kc calls ws (volume h) of
       Inl error \<Rightarrow> (Inl error, m, h)
     | Inr opened \<Rightarrow>
         (case f \<lparr>history = opened, owner = h\<rparr> of (r, s) \<Rightarrow>
            (r, put_session token (ws\<lparr>ws_history := Some (history s)\<rparr>) m, owner s)))"

definition history_set_blocked ::
    "key_crypto \<Rightarrow> read_calls \<Rightarrow> syscalls \<Rightarrow> u64 \<Rightarrow> string \<Rightarrow> string \<Rightarrow> bool \<Rightarrow> (session_state, unit) action" where
  "history_set_blocked kc reads calls clock token fingerprint_hex blocked =
     sbind (the_session token) (\<lambda>ws.
     sbind (sget (\<lambda>(m, h). sm_mediator_id m)) (\<lambda>med.
     on_history kc reads token ws (
       sbind (slift (fingerprint_from_hex fingerprint_hex)) (\<lambda>fp.
       sbind (set_blocked kc calls clock fp med blocked) (\<lambda>_. sreturn ())))))"

definition history_add_note ::
    "key_crypto \<Rightarrow> read_calls \<Rightarrow> syscalls \<Rightarrow> u64 \<Rightarrow> string \<Rightarrow> string \<Rightarrow> string \<Rightarrow> (session_state, unit) action" where
  "history_add_note kc reads calls clock token fingerprint_hex note =
     sbind (the_session token) (\<lambda>ws.
     sbind (sget (\<lambda>(m, h). sm_mediator_id m)) (\<lambda>med.
     on_history kc reads token ws (
       sbind (slift (fingerprint_from_hex fingerprint_hex)) (\<lambda>fp.
       sbind (add_note kc calls clock fp med note 0) (\<lambda>_. sreturn ())))))"

text \<open>The callbacks the client of a session is given: its key for recognition, and what becomes of an answered challenge.\<close>

definition recognition_key_provider :: "key_crypto \<Rightarrow> string \<Rightarrow> SessionManager \<Rightarrow> RecognitionKeyMaterial option result" where
  "recognition_key_provider kc token m =
     (case find_session token m of
        None \<Rightarrow> Inr None
      | Some ws \<Rightarrow>
          (case unlocked ws of
             None \<Rightarrow> Inr None
           | Some ks \<Rightarrow>
               rbind (master_secret ks) (\<lambda>secret.
               rbind (derive_ed25519_keypair kc secret kMediatorPseudonym (sm_mediator_id m)) (\<lambda>pair.
               rbind (derive_mldsa65_keypair kc secret kMediatorPseudonymMlDsa65 (sm_mediator_id m)) (\<lambda>pair65.
               Inr (Some \<lparr>rk_private_seed = pair_seed pair, rk_public_key = pair_public pair,
                 rk_mldsa65_private_seed = Some (pair_seed pair65), rk_mldsa65_public_key = Some (pair_public pair65)\<rparr>))))))"

definition recognition_outcome_handler ::
    "key_crypto \<Rightarrow> read_calls \<Rightarrow> syscalls \<Rightarrow> u64 \<Rightarrow> string \<Rightarrow> bytes \<Rightarrow> RecognitionOutcome \<Rightarrow> (session_state, unit) action" where
  "recognition_outcome_handler kc reads calls clock token fp outcome =
     sbind (sget (\<lambda>(m, h). find_session token m)) (\<lambda>found.
     case found of
       None \<Rightarrow> sreturn ()
     | Some ws \<Rightarrow>
         if unlocked ws = None then sreturn ()
         else sbind (sget (\<lambda>(m, h). sm_mediator_id m)) (\<lambda>med.
           on_history kc reads token ws (
             sbind (record_encounter kc calls clock fp med
               (if outcome = Trading_Client.Successful then History.Successful else History.Incomplete) 0) (\<lambda>_.
             sreturn ()))))"

end
