(* ===== verification/Web_Client.thy ===== *)
theory Web_Client
  imports Web_Sessions Client_View
begin

text \<open>
  The requests of the public web client (\<open>src/src/http_webclient.cpp\<close>, \<open>main\<close>): one function per route, with the checks
  on host, origin, cookies and tokens that come first, over the accounts, the limiter, the login challenges and the
  sessions. A request gives its headers (absent ones are empty) and form fields; clocks, random draws and the results of
  calls on files are inputs.
\<close>

section \<open>Requests and responses\<close>

record request =
  rq_header :: "string \<Rightarrow> string"
  rq_param :: "string \<Rightarrow> string option"

record response =
  rs_status :: nat
  rs_body :: string
  rs_cookie :: "string option"

definition set_json_result :: "bool \<Rightarrow> string \<Rightarrow> nat \<Rightarrow> response" where
  "set_json_result ok message code =
     \<lparr>rs_status = code, rs_body = ''{\"ok\":'' @ text_of_bool ok @ (if ok then '',\"message\":\"'' else '',\"error\":\"'') @
        json_escape message @ ''\"}'', rs_cookie = None\<rparr>"

definition content :: "string \<Rightarrow> response" where
  "content body = \<lparr>rs_status = 200, rs_body = body, rs_cookie = None\<rparr>"

definition required_param :: "request \<Rightarrow> string \<Rightarrow> string result" where
  "required_param rq name =
     (case rq_param rq name of
        None \<Rightarrow> Inl (Invalid_argument (''missing form field: '' @ name))
      | Some v \<Rightarrow> if v = [] then Inl (Invalid_argument (''empty form field: '' @ name)) else Inr v)"

text \<open>\<open>get_param_value\<close>: an absent field is empty.\<close>

definition param_value :: "request \<Rightarrow> string \<Rightarrow> string" where
  "param_value rq name = (case rq_param rq name of None \<Rightarrow> [] | Some v \<Rightarrow> v)"

definition parse_u64 :: "string \<Rightarrow> string \<Rightarrow> u64 result" where
  "parse_u64 txt name =
     (if txt = [] then Inl (Invalid_argument (''missing '' @ name))
      else case positive_decimal 64 txt of
        None \<Rightarrow> Inl (Invalid_argument (''invalid '' @ name)) | Some n \<Rightarrow> Inr (of_nat n))"

definition parse_u32 :: "string \<Rightarrow> string \<Rightarrow> u32 result" where
  "parse_u32 txt name =
     rbind (parse_u64 txt name) (\<lambda>n.
     if n > 4294967295 then Inl (Invalid_argument (name @ '' is too large'')) else Inr (ucast n))"

text \<open>The value of the first cookie of that name in the header.\<close>

definition cookie_of_part :: "string \<Rightarrow> string \<Rightarrow> string option" where
  "cookie_of_part name part =
     (case cut_at (CHR ''='') (dropWhile (\<lambda>c. c = CHR '' '') part) of
        (before, Some after) \<Rightarrow> if before = name then Some after else None
      | (_, None) \<Rightarrow> None)"

function read_cookie :: "string \<Rightarrow> string \<Rightarrow> string option" where
  "read_cookie name txt =
     (if txt = [] then None else
      case cut_at (CHR '';'') txt of
        (part, None) \<Rightarrow> cookie_of_part name part
      | (part, Some rest) \<Rightarrow> (case cookie_of_part name part of Some v \<Rightarrow> Some v | None \<Rightarrow> read_cookie name rest))"
  by pat_completeness auto
termination
  by (relation "measure (\<lambda>(name, txt). length txt)") (auto dest: cut_at_rest)

declare read_cookie.simps [simp del]

definition cookie :: "string \<Rightarrow> request \<Rightarrow> string option" where
  "cookie name rq = read_cookie name (rq_header rq ''Cookie'')"

abbreviation (input) kSessionCookie :: string where "kSessionCookie \<equiv> ''tp2p_session''"
abbreviation (input) kPreAuthCookie :: string where "kPreAuthCookie \<equiv> ''tp2p_csrf''"
abbreviation (input) kPreAuthHeader :: string where "kPreAuthHeader \<equiv> ''X-TradeP2P-PreAuth''"
abbreviation (input) kLoginServiceId :: string where "kLoginServiceId \<equiv> ''tradep2p-webclient''"

text \<open>The first place of a text at which a pattern starts, and what follows it there.\<close>

fun after_first :: "string \<Rightarrow> string \<Rightarrow> string option" where
  "after_first pattern [] = (if pattern = [] then Some [] else None)"
| "after_first pattern (c # cs) =
     (if starts_with pattern (c # cs) then Some (drop (length pattern) (c # cs)) else after_first pattern cs)"

definition same_origin :: "request \<Rightarrow> bool" where
  "same_origin rq =
     (let origin = rq_header rq ''Origin'' in
      if origin = [] then True
      else case after_first ''://'' origin of None \<Rightarrow> False | Some site \<Rightarrow> site = rq_header rq ''Host'')"

record web_config =
  wc_listen_host :: string
  wc_http_port :: u16
  wc_server_identity :: string
  wc_admin_token :: string

definition host_allowed :: "web_config \<Rightarrow> request \<Rightarrow> bool" where
  "host_allowed cfg rq =
     (let listen = wc_listen_host cfg; given = rq_header rq ''Host''; port_text = to_string (unat (wc_http_port cfg)) in
      if listen \<noteq> ''127.0.0.1'' \<and> listen \<noteq> ''localhost'' \<and> listen \<noteq> ''::1'' then True
      else given = ''127.0.0.1:'' @ port_text \<or> given = ''localhost:'' @ port_text \<or> given = ''[::1]:'' @ port_text)"

definition require_preauth :: "request \<Rightarrow> bool" where
  "require_preauth rq =
     (case cookie kPreAuthCookie rq of None \<Rightarrow> False | Some c \<Rightarrow> c \<noteq> [] \<and> c = rq_header rq kPreAuthHeader)"

definition cookie_suffix :: "request \<Rightarrow> string" where
  "cookie_suffix rq = (if rq_header rq ''X-Forwarded-Proto'' = ''https'' then ''; Secure'' else [])"

definition session_cookie :: "request \<Rightarrow> string \<Rightarrow> string" where
  "session_cookie rq token = kSessionCookie @ ''='' @ token @ ''; Path=/; HttpOnly; SameSite=Strict'' @ cookie_suffix rq"

section \<open>The server\<close>

record web =
  web_accounts :: AccountStore
  web_limiter :: AuthRateLimiter
  web_tracker :: login_tracker
  web_sessions :: SessionManager
  web_machine :: machine

record web_env =
  we_keys :: key_crypto
  we_crypto :: crypto
  we_steady :: int
  we_unix :: u64
  we_now_text :: string
  we_salt :: "bytes option"
  we_token :: "bytes option"
  we_csrf :: "bytes option"
  we_challenge_session :: bytes
  we_challenge_nonce :: bytes
  we_append :: append_calls
  we_keystore :: keystore_env
  we_file_opens :: bool
  we_client :: client_env
  we_display :: client_display
  we_room_keys :: "string list"

definition on_accounts :: "(account_state, 'a) action \<Rightarrow> (web, 'a) action" where
  "on_accounts f w = (case f (web_accounts w, volume (web_machine w)) of
     (r, st, fs) \<Rightarrow> (r, w\<lparr>web_accounts := st, web_machine := (web_machine w)\<lparr>volume := fs\<rparr>\<rparr>))"

definition on_limiter :: "(AuthRateLimiter, 'a) action \<Rightarrow> (web, 'a) action" where
  "on_limiter f w = (case f (web_limiter w) of (r, l) \<Rightarrow> (r, w\<lparr>web_limiter := l\<rparr>))"

definition on_login_tracker :: "(login_tracker, 'a) action \<Rightarrow> (web, 'a) action" where
  "on_login_tracker f w = (case f (web_tracker w) of (r, q) \<Rightarrow> (r, w\<lparr>web_tracker := q\<rparr>))"

definition on_sessions :: "(SessionManager, 'a) action \<Rightarrow> (web, 'a) action" where
  "on_sessions f w = (case f (web_sessions w) of (r, m) \<Rightarrow> (r, w\<lparr>web_sessions := m\<rparr>))"

definition on_session_files :: "(session_state, 'a) action \<Rightarrow> (web, 'a) action" where
  "on_session_files f w = (case f (web_sessions w, web_machine w) of (r, m, h) \<Rightarrow> (r, w\<lparr>web_sessions := m, web_machine := h\<rparr>))"

text \<open>An action on the client of a session.\<close>

definition on_session_client :: "string \<Rightarrow> WebSession \<Rightarrow> (DashboardClient, 'a) action \<Rightarrow> (web, 'a) action" where
  "on_session_client token ws f w = (case f (ws_client ws) of
     (r, c) \<Rightarrow> (r, w\<lparr>web_sessions := put_session token (ws\<lparr>ws_client := c\<rparr>) (web_sessions w)\<rparr>))"

text \<open>The \<open>try\<close> block of a route.\<close>

definition respond :: "(web, response) action \<Rightarrow> web \<Rightarrow> response \<times> web" where
  "respond f w = (case f w of
     (Inr answer, w') \<Rightarrow> (answer, w')
   | (Inl error, w') \<Rightarrow> (set_json_result False (what error) 400, w'))"

text \<open>A route without one: the library answers an exception that escapes with the status alone.\<close>

definition unguarded :: "(web, response) action \<Rightarrow> web \<Rightarrow> response \<times> web" where
  "unguarded f w = (case f w of
     (Inr answer, w') \<Rightarrow> (answer, w')
   | (Inl _, w') \<Rightarrow> (\<lparr>rs_status = 500, rs_body = [], rs_cookie = None\<rparr>, w'))"

section \<open>Logging in\<close>

definition forbidden_before_login :: "web_config \<Rightarrow> request \<Rightarrow> bool" where
  "forbidden_before_login cfg rq \<longleftrightarrow> \<not> host_allowed cfg rq \<or> \<not> same_origin rq \<or> \<not> require_preauth rq"

definition enter :: "web_env \<Rightarrow> request \<Rightarrow> string \<Rightarrow> string \<Rightarrow> (web, response) action" where
  "enter e rq name message =
     sbind (on_sessions (session_login (we_steady e) (we_token e) (we_csrf e) name)) (\<lambda>token.
     sreturn ((set_json_result True message 200)\<lparr>rs_cookie := Some (session_cookie rq token)\<rparr>))"

definition web_register :: "web_config \<Rightarrow> web_env \<Rightarrow> request \<Rightarrow> web \<Rightarrow> response \<times> web" where
  "web_register cfg e rq w =
     (if forbidden_before_login cfg rq then (set_json_result False ''forbidden'' 403, w)
      else respond (
        sbind (slift (required_param rq ''username'')) (\<lambda>name.
        sbind (slift (required_param rq ''password'')) (\<lambda>password.
        sbind (slift (validate_username name)) (\<lambda>_.
        sbind (slift (validate_password password)) (\<lambda>_.
        sbind (on_accounts (account_create (we_keys e) (we_append e) (we_salt e) (we_now_text e) name password)) (\<lambda>_.
        enter e rq name ''account created'')))))) w)"

definition check_attempts :: "web_env \<Rightarrow> string \<Rightarrow> (web, unit) action" where
  "check_attempts e name =
     sbind (on_limiter (auth_allowed (we_steady e) name)) (\<lambda>allowed.
     slift (throw_if (\<not> allowed) (Invalid_argument ''too many attempts, try again later'')))"

definition login_failed :: "web_env \<Rightarrow> string \<Rightarrow> string \<Rightarrow> (web, unit) action" where
  "login_failed e name why =
     sbind (on_limiter (record_failure (we_steady e) name)) (\<lambda>_. sthrow (Invalid_argument why))"

definition web_login :: "web_config \<Rightarrow> web_env \<Rightarrow> request \<Rightarrow> web \<Rightarrow> response \<times> web" where
  "web_login cfg e rq w =
     (if forbidden_before_login cfg rq then (set_json_result False ''forbidden'' 403, w)
      else respond (
        sbind (slift (required_param rq ''username'')) (\<lambda>name.
        sbind (slift (required_param rq ''password'')) (\<lambda>password.
        sbind (check_attempts e name) (\<lambda>_.
        sbind (sget web_accounts) (\<lambda>st.
        sbind (slift (account_verify (we_keys e) name password st)) (\<lambda>right.
        sbind (if right then sreturn () else login_failed e name ''invalid username or password'') (\<lambda>_.
        sbind (on_limiter (record_success name)) (\<lambda>_.
        enter e rq name ''logged in'')))))))) w)"

definition suite_of :: "EnrolledLoginKey option \<Rightarrow> u16" where
  "suite_of enrolled = (case enrolled of None \<Rightarrow> kLoginSuiteMlDsa65V1 | Some k \<Rightarrow> key_suite k)"

definition challenge_json :: "LoginChallengeFields \<Rightarrow> string" where
  "challenge_json f = ''{\"ok\":true'' @ '',\"session_id\":\"'' @ json_escape (hex (session_id f)) @
     ''\",\"nonce\":\"'' @ json_escape (hex (LoginChallengeFields.nonce f)) @ ''\"'' @
     '',\"service_id\":\"'' @ json_escape (service_id f) @ ''\"'' @
     '',\"server_identity\":\"'' @ json_escape (server_identity f) @ ''\"'' @
     '',\"suite_id\":'' @ to_string (unat (LoginChallengeFields.suite_id f)) @
     '',\"suite\":\"'' @ json_escape (login_suite_name (LoginChallengeFields.suite_id f)) @ ''\"'' @
     '',\"created_at\":'' @ to_string (unat (LoginChallengeFields.created_at f)) @
     '',\"expires_at\":'' @ to_string (unat (LoginChallengeFields.expires_at f)) @ ''}''"

definition web_key_challenge :: "web_config \<Rightarrow> web_env \<Rightarrow> request \<Rightarrow> web \<Rightarrow> response \<times> web" where
  "web_key_challenge cfg e rq w =
     (if forbidden_before_login cfg rq then (set_json_result False ''forbidden'' 403, w)
      else respond (
        sbind (slift (required_param rq ''username'')) (\<lambda>name.
        sbind (check_attempts e name) (\<lambda>_.
        sbind (sget (\<lambda>w. login_key name (web_accounts w))) (\<lambda>enrolled.
        sbind (on_login_tracker (login_issue (we_unix e) (we_challenge_session e) (we_challenge_nonce e) kLoginServiceId
          (wc_server_identity cfg) name 0 (suite_of enrolled))) (\<lambda>f.
        sreturn (content (challenge_json f))))))) w)"

text \<open>The signature under the account's own key, for the challenge that was issued to that name.\<close>

definition response_ok ::
    "crypto \<Rightarrow> string \<Rightarrow> EnrolledLoginKey option \<Rightarrow> LoginChallengeFields option \<Rightarrow> bytes \<Rightarrow> bool result" where
  "response_ok cry name enrolled challenge sig =
     (case (challenge, enrolled) of
        (Some f, Some k) \<Rightarrow>
          if length sig = expected_login_signature_length (key_suite k) \<and>
             LoginChallengeFields.username f = name \<and> LoginChallengeFields.suite_id f = key_suite k
          then if key_suite k = kLoginSuiteEd25519V1 then verify_login_response cry (key_bytes k) f sig
               else if key_suite k = kLoginSuiteMlDsa65V1 then verify_login_response_mldsa65 cry (key_bytes k) f sig
               else Inr False
          else Inr False
      | _ \<Rightarrow> Inr False)"

definition web_key_verify :: "web_config \<Rightarrow> web_env \<Rightarrow> request \<Rightarrow> web \<Rightarrow> response \<times> web" where
  "web_key_verify cfg e rq w =
     (if forbidden_before_login cfg rq then (set_json_result False ''forbidden'' 403, w)
      else respond (
        sbind (slift (required_param rq ''username'')) (\<lambda>name.
        sbind (slift (required_param rq ''session_id'')) (\<lambda>session_id_hex.
        sbind (slift (required_param rq ''signature'')) (\<lambda>signature_hex.
        sbind (check_attempts e name) (\<lambda>_.
        sbind (slift (from_hex session_id_hex)) (\<lambda>session_id_bytes.
        sbind (slift (from_hex signature_hex)) (\<lambda>signature_bytes.
        sbind (if length session_id_bytes = 16 then
                 sbind (sget (\<lambda>w. login_peek (we_unix e) session_id_bytes 0 (web_tracker w))) (\<lambda>challenge.
                 sbind (on_login_tracker (smodify (login_consume session_id_bytes))) (\<lambda>_.
                 sbind (sget (\<lambda>w. login_key name (web_accounts w))) (\<lambda>enrolled.
                 slift (response_ok (we_crypto e) name enrolled challenge signature_bytes))))
               else sreturn False) (\<lambda>ok.
        sbind (if ok then sreturn () else login_failed e name ''invalid login'') (\<lambda>_.
        sbind (on_limiter (record_success name)) (\<lambda>_.
        enter e rq name ''logged in'')))))))))) w)"

section \<open>Requests of a session\<close>

definition require_session ::
    "web_config \<Rightarrow> web_env \<Rightarrow> request \<Rightarrow> web \<Rightarrow> (response + string \<times> WebSession) \<times> web" where
  "require_session cfg e rq w =
     (if \<not> host_allowed cfg rq then (Inl (set_json_result False ''forbidden host'' 403), w)
      else case cookie kSessionCookie rq of
          None \<Rightarrow> (Inl (set_json_result False ''no active session'' 401), w)
        | Some token \<Rightarrow>
            (case on_sessions (touch (we_steady e) token) w of
               (Inr (Some ws), w') \<Rightarrow> (Inr (token, ws), w')
             | (_, w') \<Rightarrow> (Inl (set_json_result False ''no active session'' 401), w')))"

definition for_session ::
    "web_config \<Rightarrow> web_env \<Rightarrow> request \<Rightarrow> (string \<Rightarrow> WebSession \<Rightarrow> web \<Rightarrow> response \<times> web) \<Rightarrow> web \<Rightarrow> response \<times> web" where
  "for_session cfg e rq body w =
     (case require_session cfg e rq w of
        (Inl refused, w') \<Rightarrow> (refused, w')
      | (Inr (token, ws), w') \<Rightarrow> body token ws w')"

text \<open>\<open>action\<close> and \<open>keystore_action\<close>: a route that changes something asks for the token of the session as well.\<close>

definition with_token ::
    "web_config \<Rightarrow> web_env \<Rightarrow> request \<Rightarrow> (string \<Rightarrow> WebSession \<Rightarrow> web \<Rightarrow> response \<times> web) \<Rightarrow> web \<Rightarrow> response \<times> web" where
  "with_token cfg e rq body =
     for_session cfg e rq (\<lambda>token ws w.
       if rq_header rq ''X-TradeP2P-Token'' \<noteq> ws_csrf_token ws then (set_json_result False ''invalid session token'' 403, w)
       else body token ws w)"

definition web_action ::
    "web_config \<Rightarrow> web_env \<Rightarrow> request \<Rightarrow> string \<Rightarrow> (string \<Rightarrow> WebSession \<Rightarrow> (web, unit) action) \<Rightarrow> web \<Rightarrow> response \<times> web" where
  "web_action cfg e rq message handler =
     with_token cfg e rq (\<lambda>token ws. respond (
       sbind (handler token ws) (\<lambda>_. sreturn (set_json_result True message 200))))"

definition web_logout :: "web_config \<Rightarrow> web_env \<Rightarrow> request \<Rightarrow> web \<Rightarrow> response \<times> web" where
  "web_logout cfg e rq =
     for_session cfg e rq (\<lambda>token ws w.
       ((set_json_result True ''logged out'' 200)\<lparr>rs_cookie := Some (kSessionCookie @ ''=deleted; Path=/; Max-Age=0'')\<rparr>,
        w\<lparr>web_sessions := session_logout token (web_sessions w)\<rparr>))"

definition login_suite :: "string \<Rightarrow> string \<Rightarrow> u16 result" where
  "login_suite kind suite =
     (if suite = ''ed25519'' then Inr 1
      else if suite \<noteq> [] \<and> suite \<noteq> ''ml-dsa-65'' then Inl (Invalid_argument (''unknown '' @ kind @ '' suite: '' @ suite))
      else Inr 2)"

definition web_enroll_key :: "web_config \<Rightarrow> web_env \<Rightarrow> request \<Rightarrow> web \<Rightarrow> response \<times> web" where
  "web_enroll_key cfg e rq =
     for_session cfg e rq (\<lambda>token ws. respond (
       sbind (slift (login_suite ''login'' (param_value rq ''suite''))) (\<lambda>suite.
       sbind (slift (required_param rq ''public_key'')) (\<lambda>public_key_hex.
       sbind (slift (from_hex public_key_hex)) (\<lambda>raw.
       sbind (slift (throw_if (length raw \<noteq> expected_login_key_length suite)
         (Invalid_argument (''invalid public key length for suite '' @ login_suite_name suite)))) (\<lambda>_.
       sbind (on_accounts (set_login_key (we_append e) (ws_username ws) suite raw)) (\<lambda>_.
       sreturn (set_json_result True (''login key enrolled ('' @ login_suite_name suite @ '')'') 200))))))))"

definition web_keystore_enable :: "web_config \<Rightarrow> web_env \<Rightarrow> request \<Rightarrow> web \<Rightarrow> response \<times> web" where
  "web_keystore_enable cfg e rq =
     web_action cfg e rq ''ok'' (\<lambda>token ws.
       sbind (slift (required_param rq ''password'')) (\<lambda>password.
       sbind (sget web_accounts) (\<lambda>st.
       sbind (slift (account_verify (we_keys e) (ws_username ws) password st)) (\<lambda>right.
       sbind (slift (throw_if (\<not> right) (Runtime_error ''wrong password''))) (\<lambda>_.
       on_session_files (keystore_enable (we_keys e) (we_keystore e) token password))))))"

definition web_keystore_lock :: "web_config \<Rightarrow> web_env \<Rightarrow> request \<Rightarrow> web \<Rightarrow> response \<times> web" where
  "web_keystore_lock cfg e rq =
     web_action cfg e rq ''ok'' (\<lambda>token ws. on_sessions (smodify (keystore_lock token)))"

definition web_keystore_export :: "web_config \<Rightarrow> web_env \<Rightarrow> request \<Rightarrow> web \<Rightarrow> response \<times> web" where
  "web_keystore_export cfg e rq =
     with_token cfg e rq (\<lambda>token ws. respond (
       sbind (slift (required_param rq ''password'')) (\<lambda>password.
       sbind (slift (throw_if (param_value rq ''confirm'' \<noteq> ''yes-export-my-encrypted-keystore'')
         (Invalid_argument ''export not confirmed''))) (\<lambda>_.
       sbind (sget web_accounts) (\<lambda>st.
       sbind (slift (account_verify (we_keys e) (ws_username ws) password st)) (\<lambda>right.
       sbind (slift (throw_if (\<not> right) (Runtime_error ''wrong password''))) (\<lambda>_.
       sbind (on_session_files (keystore_export_bytes (we_file_opens e) token)) (\<lambda>bs.
       sreturn (content (map char_of_byte bs))))))))))"

definition web_history_block :: "bool \<Rightarrow> web_config \<Rightarrow> web_env \<Rightarrow> request \<Rightarrow> web \<Rightarrow> response \<times> web" where
  "web_history_block blocked cfg e rq =
     web_action cfg e rq ''ok'' (\<lambda>token ws.
       sbind (slift (required_param rq ''fingerprint'')) (\<lambda>fingerprint_hex.
       on_session_files (history_set_blocked (we_keys e) (ks_reads (we_keystore e)) (ks_calls (we_keystore e)) (we_unix e)
         token fingerprint_hex blocked)))"

definition web_history_note :: "web_config \<Rightarrow> web_env \<Rightarrow> request \<Rightarrow> web \<Rightarrow> response \<times> web" where
  "web_history_note cfg e rq =
     web_action cfg e rq ''ok'' (\<lambda>token ws.
       sbind (slift (required_param rq ''fingerprint'')) (\<lambda>fingerprint_hex.
       sbind (slift (required_param rq ''text'')) (\<lambda>note.
       on_session_files (history_add_note (we_keys e) (ks_reads (we_keystore e)) (ks_calls (we_keystore e)) (we_unix e)
         token fingerprint_hex note))))"

text \<open>
  The routes of the trade: an action of the session's client. The fields of an answer to a challenge are read in
  an order the compiler chooses; it only decides which of several errors is reported.
\<close>

definition client_action ::
    "web_config \<Rightarrow> web_env \<Rightarrow> request \<Rightarrow> (DashboardClient, unit) action result \<Rightarrow> web \<Rightarrow> response \<times> web" where
  "client_action cfg e rq chosen =
     web_action cfg e rq ''queued'' (\<lambda>token ws. sbind (slift chosen) (\<lambda>f. on_session_client token ws f))"

definition offer_of_request :: "request \<Rightarrow> (DashboardClient, unit) action result" where
  "offer_of_request rq =
     rbind (required_param rq ''sell_asset'') (\<lambda>sell_asset.
     rbind (rbind (required_param rq ''sell_amount'') (\<lambda>txt. parse_u64 txt ''sell amount'')) (\<lambda>sell_amount.
     rbind (required_param rq ''buy_asset'') (\<lambda>buy_asset.
     rbind (rbind (required_param rq ''buy_amount'') (\<lambda>txt. parse_u64 txt ''buy amount'')) (\<lambda>buy_amount.
     rbind (rbind (required_param rq ''rounds'') (\<lambda>txt. parse_u32 txt ''round count'')) (\<lambda>round_count.
     rbind (required_param rq ''address'') (\<lambda>addr.
     Inr (create_offer (default_terms\<lparr>TradeTerms.asset_a := sell_asset, total_a := sell_amount, TradeTerms.asset_b := buy_asset,
       total_b := buy_amount, rounds := round_count, first_sender := PartyA\<rparr>) addr)))))))"

definition join_of_request :: "request \<Rightarrow> (DashboardClient, unit) action result" where
  "join_of_request rq =
     rbind (required_param rq ''room_id'') (\<lambda>room. rbind (required_param rq ''address'') (\<lambda>addr. Inr (join_offer room addr)))"

definition room_of_request :: "(string \<Rightarrow> (DashboardClient, unit) action) \<Rightarrow> request \<Rightarrow> (DashboardClient, unit) action result" where
  "room_of_request f rq = rbind (required_param rq ''room_id'') (\<lambda>room. Inr (f room))"

definition recognize_of_request :: "client_env \<Rightarrow> request \<Rightarrow> (DashboardClient, unit) action result" where
  "recognize_of_request ce rq =
     rbind (login_suite ''recognition'' (param_value rq ''suite'')) (\<lambda>suite.
     room_of_request (\<lambda>room. recognize ce room suite) rq)"

definition answer_of_request :: "request \<Rightarrow> (DashboardClient, unit) action result" where
  "answer_of_request rq =
     rbind (login_suite ''recognition'' (param_value rq ''suite'')) (\<lambda>suite.
     rbind (required_param rq ''room_id'') (\<lambda>room.
     rbind (rbind (required_param rq ''nonce'') from_hex) (\<lambda>nonce_bytes.
     rbind (rbind (required_param rq ''public_key'') from_hex) (\<lambda>key.
     rbind (rbind (required_param rq ''signature'') from_hex) (\<lambda>sig.
     Inr (submit_recognition_response room suite nonce_bytes key sig))))))"

section \<open>What a session reads\<close>

definition web_state :: "web_config \<Rightarrow> web_env \<Rightarrow> request \<Rightarrow> web \<Rightarrow> response \<times> web" where
  "web_state cfg e rq =
     for_session cfg e rq (\<lambda>token ws. unguarded (
       sbind (slift (state_json (we_crypto e) (we_display e) (we_room_keys e) (ws_client ws))) (\<lambda>txt.
       sreturn (content txt))))"

definition web_candles :: "web_config \<Rightarrow> web_env \<Rightarrow> request \<Rightarrow> web \<Rightarrow> response \<times> web" where
  "web_candles cfg e rq =
     for_session cfg e rq (\<lambda>token ws. respond (
       sbind (slift (required_param rq ''asset_a'')) (\<lambda>a.
       sbind (slift (required_param rq ''asset_b'')) (\<lambda>b.
       sbind (on_session_client token ws (sbind (request_candles a b) (\<lambda>_. sget (candles_json a b)))) (\<lambda>txt.
       sreturn (content txt))))))"

definition account_text :: "string \<times> string \<Rightarrow> string" where
  "account_text = (\<lambda>(name, created).
     ''{\"username\":\"'' @ json_escape name @ ''\"'' @ '',\"created_at\":\"'' @ json_escape created @ ''\"}'')"

definition web_admin_accounts :: "web_config \<Rightarrow> request \<Rightarrow> web \<Rightarrow> response \<times> web" where
  "web_admin_accounts cfg rq w =
     (if wc_admin_token cfg = [] \<or> rq_header rq ''X-TradeP2P-Admin-Token'' \<noteq> wc_admin_token cfg
      then (\<lparr>rs_status = 404, rs_body = ''not found'', rs_cookie = None\<rparr>, w)
      else (content (''{\"ok\":true,\"accounts\":['' @ listed account_text (list_summary (web_accounts w)) @ '']}''), w))"

definition status_text :: "KeystoreStatus \<Rightarrow> string" where
  "status_text s = ''{\"ok\":true,\"loaded\":true'' @ '',\"unlocked\":'' @ text_of_bool (st_unlocked s) @
     '',\"path\":\"'' @ json_escape (st_path s) @ ''\"'' @ '',\"alias\":\"'' @ json_escape (st_alias s) @ ''\"'' @
     '',\"identity_id\":\"'' @ json_escape (st_identity_id_hex s) @ ''\"'' @
     '',\"public_key\":\"'' @ json_escape (st_public_key_hex s) @ ''\"'' @
     '',\"public_key_mldsa65\":\"'' @ json_escape (st_public_key_mldsa65_hex s) @ ''\"'' @
     '',\"created_at\":'' @ to_string (unat (st_created_at s)) @
     '',\"key_generation\":'' @ to_string (unat (st_key_generation s)) @ ''}''"

definition web_identity_state :: "web_config \<Rightarrow> web_env \<Rightarrow> request \<Rightarrow> web \<Rightarrow> response \<times> web" where
  "web_identity_state cfg e rq =
     for_session cfg e rq (\<lambda>token ws. unguarded (
       sbind (\<lambda>w. (keystore_status (we_keys e) token (web_sessions w, web_machine w), w)) (\<lambda>found.
       sreturn (content (case found of
           None \<Rightarrow> ''{\"ok\":true,\"loaded\":false}''
         | Some s \<Rightarrow> if st_loaded s then status_text s else ''{\"ok\":true,\"loaded\":false}'')))))"

definition web_note_text :: "HistoryNote \<Rightarrow> string" where
  "web_note_text note = ''{\"recorded_at\":'' @ to_string (unat (recorded_at note)) @ '',\"text\":\"'' @ json_escape (note_text note) @ ''\"}''"

definition web_entry_text :: "CounterpartyHistoryEntry \<Rightarrow> string result" where
  "web_entry_text entry =
     rbind (fingerprint_to_hex (fingerprint entry)) (\<lambda>fp.
     Inr (''{\"fingerprint\":\"'' @ json_escape fp @ ''\",\"mediator_id\":\"'' @ json_escape (met_at entry) @ ''\"'' @
       '',\"first_seen\":'' @ to_string (unat (first_seen entry)) @ '',\"last_seen\":'' @ to_string (unat (last_seen entry)) @
       '',\"encounter_count\":'' @ to_string (unat (encounter_count entry)) @
       '',\"locally_blocked\":'' @ text_of_bool (locally_blocked entry) @
       '',\"confidence\":\"'' @ confidence_level_name (confidence entry) @ ''\"'' @
       '',\"display_category\":\"'' @ display_category_name (classify_for_display (Some entry)) @ ''\"'' @
       '',\"notes\":['' @ listed web_note_text (note_list entry) @
       ''],\"evidence_count\":'' @ to_string (length (evidence_hashes entry)) @ ''}''))"

definition history_list_json :: "key_crypto \<Rightarrow> read_calls \<Rightarrow> string \<Rightarrow> (session_state, string) action" where
  "history_list_json kc reads token =
     sbind (sget (\<lambda>(m, h). find_session token m)) (\<lambda>found.
     case found of
       None \<Rightarrow> sreturn ''{\"ok\":true,\"unlocked\":false,\"entries\":[]}''
     | Some ws \<Rightarrow>
         if unlocked ws = None then sreturn ''{\"ok\":true,\"unlocked\":false,\"entries\":[]}''
         else on_history kc reads token ws (
           sbind (sget (\<lambda>s. records (history s))) (\<lambda>es.
           sbind (slift (collect web_entry_text es)) (\<lambda>entry_texts.
           sreturn (''{\"ok\":true,\"unlocked\":true,\"entries\":['' @ listed (\<lambda>txt. txt) entry_texts @ '']}'')))))"

definition web_history_list :: "web_config \<Rightarrow> web_env \<Rightarrow> request \<Rightarrow> web \<Rightarrow> response \<times> web" where
  "web_history_list cfg e rq =
     for_session cfg e rq (\<lambda>token ws. unguarded (
       sbind (on_session_files (history_list_json (we_keys e) (ks_reads (we_keystore e)) token)) (\<lambda>txt.
       sreturn (content txt))))"

section \<open>All routes\<close>

datatype route = Register | Login | KeyChallenge | KeyVerify | Logout | EnrollKey | ClientState | Candles | AdminAccounts
  | IdentityState | KeystoreEnable | KeystoreLock | KeystoreExport | HistoryList | HistoryBlock | HistoryUnblock | WriteNote
  | RefreshOffers | Recognize | AnswerExternal | PostOffer | TakeOffer | WithdrawOffer | MarkSent | MarkReceived | LeaveRoom

fun web_request :: "web_config \<Rightarrow> web_env \<Rightarrow> route \<Rightarrow> request \<Rightarrow> web \<Rightarrow> response \<times> web" where
  "web_request cfg e Register rq = web_register cfg e rq"
| "web_request cfg e Login rq = web_login cfg e rq"
| "web_request cfg e KeyChallenge rq = web_key_challenge cfg e rq"
| "web_request cfg e KeyVerify rq = web_key_verify cfg e rq"
| "web_request cfg e Logout rq = web_logout cfg e rq"
| "web_request cfg e EnrollKey rq = web_enroll_key cfg e rq"
| "web_request cfg e ClientState rq = web_state cfg e rq"
| "web_request cfg e Candles rq = web_candles cfg e rq"
| "web_request cfg e AdminAccounts rq = web_admin_accounts cfg rq"
| "web_request cfg e IdentityState rq = web_identity_state cfg e rq"
| "web_request cfg e KeystoreEnable rq = web_keystore_enable cfg e rq"
| "web_request cfg e KeystoreLock rq = web_keystore_lock cfg e rq"
| "web_request cfg e KeystoreExport rq = web_keystore_export cfg e rq"
| "web_request cfg e HistoryList rq = web_history_list cfg e rq"
| "web_request cfg e HistoryBlock rq = web_history_block True cfg e rq"
| "web_request cfg e HistoryUnblock rq = web_history_block False cfg e rq"
| "web_request cfg e WriteNote rq = web_history_note cfg e rq"
| "web_request cfg e RefreshOffers rq = client_action cfg e rq (Inr refresh_offers)"
| "web_request cfg e Recognize rq = client_action cfg e rq (recognize_of_request (we_client e) rq)"
| "web_request cfg e AnswerExternal rq = client_action cfg e rq (answer_of_request rq)"
| "web_request cfg e PostOffer rq = client_action cfg e rq (offer_of_request rq)"
| "web_request cfg e TakeOffer rq = client_action cfg e rq (join_of_request rq)"
| "web_request cfg e WithdrawOffer rq = client_action cfg e rq (room_of_request cancel_offer rq)"
| "web_request cfg e MarkSent rq = client_action cfg e rq (room_of_request mark_sent rq)"
| "web_request cfg e MarkReceived rq = client_action cfg e rq (room_of_request mark_received rq)"
| "web_request cfg e LeaveRoom rq = client_action cfg e rq (room_of_request abort_room_client rq)"

text \<open>The start: the accounts of the file, and nothing else.\<close>

definition empty_sessions :: "nat \<Rightarrow> int \<Rightarrow> string \<Rightarrow> string \<Rightarrow> SessionManager" where
  "empty_sessions max_sessions idle med dir =
     \<lparr>sm_max_sessions = max_sessions, sm_idle_timeout = idle, sm_mediator_id = med, sm_keystore_dir = dir,
      sm_sessions = [], sm_active_by_user = Map.empty\<rparr>"

definition web_start :: "bool \<Rightarrow> string \<Rightarrow> SessionManager \<Rightarrow> machine \<Rightarrow> web result" where
  "web_start opens path none h =
     rbind (account_store opens path (volume h)) (\<lambda>st.
     Inr \<lparr>web_accounts = st, web_limiter = \<lparr>auth_failures = Map.empty\<rparr>, web_tracker = [], web_sessions = none, web_machine = h\<rparr>)"

end
