(* ===== verification/Web_Safety.thy ===== *)
theory Web_Safety
  imports Web_Client
begin

text \<open>
  The invariant of the sessions of the public web client: what a login, a logout and the removal of idle sessions keep,
  and that any other request changes the inside of the session of its own cookie only.
\<close>

section \<open>The invariant of the sessions\<close>

definition sessions_inv :: "SessionManager \<Rightarrow> bool" where
  "sessions_inv m \<longleftrightarrow> distinct (map fst (sm_sessions m)) \<and> length (sm_sessions m) \<le> sm_max_sessions m \<and>
     (\<forall>name token. sm_active_by_user m name = Some token \<longleftrightarrow>
        (\<exists>ws. find_session token m = Some ws \<and> ws_username ws = name))"

lemma find_put [simp]: "find_session t (put_session token ws m) = (if t = token then Some ws else find_session t m)"
  by (simp add: find_session_def put_session_def update_conv')

lemma find_active [simp]: "find_session t (m\<lparr>sm_active_by_user := f\<rparr>) = find_session t m"
  by (simp add: find_session_def)

lemma put_session_fields [simp]:
  "sm_active_by_user (put_session token ws m) = sm_active_by_user m" "sm_max_sessions (put_session token ws m) = sm_max_sessions m"
  "sm_idle_timeout (put_session token ws m) = sm_idle_timeout m" "sm_mediator_id (put_session token ws m) = sm_mediator_id m"
  "sm_keystore_dir (put_session token ws m) = sm_keystore_dir m"
  by (simp_all add: put_session_def)

lemma keys_put: "map fst (sm_sessions (put_session token ws m)) =
    (if find_session token m = None then map fst (sm_sessions m) @ [token] else map fst (sm_sessions m))"
  by (simp add: put_session_def find_session_def update_keys map_of_eq_None_iff)

text \<open>An operation is quiet about the other sessions if it changes the session of one token only, and not its name or token.\<close>

definition quiet :: "string option \<Rightarrow> SessionManager \<Rightarrow> SessionManager \<Rightarrow> bool" where
  "quiet token m m' \<longleftrightarrow> map fst (sm_sessions m') = map fst (sm_sessions m) \<and> sm_active_by_user m' = sm_active_by_user m \<and>
     sm_max_sessions m' = sm_max_sessions m \<and> sm_mediator_id m' = sm_mediator_id m \<and>
     (\<forall>t. map_option (\<lambda>ws. (ws_username ws, ws_csrf_token ws)) (find_session t m') =
          map_option (\<lambda>ws. (ws_username ws, ws_csrf_token ws)) (find_session t m)) \<and>
     (\<forall>t. Some t \<noteq> token \<longrightarrow> find_session t m' = find_session t m)"

lemma quiet_refl [simp]: "quiet token m m"
  by (simp add: quiet_def)

lemma quiet_trans: "quiet token m m' \<Longrightarrow> quiet token m' m'' \<Longrightarrow> quiet token m m''"
  by (simp add: quiet_def)

lemma quiet_put:
  assumes "find_session token m = Some old" "ws_username ws = ws_username old" "ws_csrf_token ws = ws_csrf_token old"
  shows "quiet (Some token) m (put_session token ws m)"
  using assms by (auto simp: quiet_def keys_put)

lemma quiet_find:
  assumes "quiet token m m'" "find_session t m' = Some ws'"
  obtains ws where "find_session t m = Some ws" "ws_username ws = ws_username ws'" "ws_csrf_token ws = ws_csrf_token ws'"
proof -
  have "map_option (\<lambda>ws. (ws_username ws, ws_csrf_token ws)) (find_session t m') =
      map_option (\<lambda>ws. (ws_username ws, ws_csrf_token ws)) (find_session t m)"
    using assms(1) unfolding quiet_def by blast
  with assms(2) show ?thesis
    by (cases "find_session t m") (auto intro: that)
qed

lemma quiet_sym: "quiet token m m' \<Longrightarrow> quiet token m' m"
  by (simp add: quiet_def)

lemma quiet_inv:
  assumes "quiet token m m'" "sessions_inv m"
  shows "sessions_inv m'"
proof -
  have "(\<exists>ws. find_session t m' = Some ws \<and> ws_username ws = name) \<longleftrightarrow> (\<exists>ws. find_session t m = Some ws \<and> ws_username ws = name)" for t name
    by (blast elim: quiet_find [OF assms(1)] quiet_find [OF quiet_sym [OF assms(1)]])
  moreover have "length (sm_sessions m') = length (sm_sessions m)"
    using assms(1) unfolding quiet_def by (metis length_map)
  ultimately show ?thesis
    using assms by (simp add: sessions_inv_def quiet_def)
qed

section \<open>Opening and closing a session\<close>

lemma find_drop [simp]: "find_session t (drop_session token ws m) = (if t = token then None else find_session t m)"
  by (simp add: find_session_def drop_session_def delete_conv')

lemma drop_fields [simp]:
  "sm_active_by_user (drop_session token ws m) = (sm_active_by_user m)(ws_username ws := None)"
  "sm_max_sessions (drop_session token ws m) = sm_max_sessions m" "sm_idle_timeout (drop_session token ws m) = sm_idle_timeout m"
  "sm_sessions (drop_session token ws m) = AList.delete token (sm_sessions m)"
  by (simp_all add: drop_session_def)

lemma inv_active: "sessions_inv m \<Longrightarrow> find_session token m = Some ws \<Longrightarrow> sm_active_by_user m (ws_username ws) = Some token"
  by (simp add: sessions_inv_def)

lemma inv_named: "sessions_inv m \<Longrightarrow> sm_active_by_user m name = Some token \<Longrightarrow>
    \<exists>ws. find_session token m = Some ws \<and> ws_username ws = name"
  by (simp add: sessions_inv_def)

lemma drop_inv:
  assumes "sessions_inv m" "find_session token m = Some ws"
  shows "sessions_inv (drop_session token ws m)"
proof -
  have "length (AList.delete token (sm_sessions m)) \<le> length (sm_sessions m)"
    by (simp add: AList.delete_eq)
  moreover have "distinct (map fst (AList.delete token (sm_sessions m)))"
    using assms(1) by (simp add: sessions_inv_def distinct_delete)
  moreover have "((sm_active_by_user m)(ws_username ws := None)) name = Some tok \<longleftrightarrow>
      (\<exists>ws'. find_session tok (drop_session token ws m) = Some ws' \<and> ws_username ws' = name)" for name tok
  proof (cases "name = ws_username ws")
    case True
    have "tok' = token" if "find_session tok' m = Some ws'" "ws_username ws' = ws_username ws" for tok' ws'
      using inv_active [OF assms(1) that(1)] inv_active [OF assms] that(2) by simp
    with True show ?thesis
      by (auto split: if_splits)
  next
    case False
    then have "(\<exists>ws'. find_session tok m = Some ws' \<and> ws_username ws' = name) \<longleftrightarrow>
        (\<exists>ws'. find_session tok (drop_session token ws m) = Some ws' \<and> ws_username ws' = name)"
      using assms(2) by auto
    then show ?thesis
      using assms(1) False by (simp add: sessions_inv_def)
  qed
  ultimately show ?thesis
    using assms(1) by (simp add: sessions_inv_def)
qed

lemma logout_inv: "sessions_inv m \<Longrightarrow> sessions_inv (session_logout token m)"
  by (simp add: session_logout_def drop_inv split: option.split)

lemma reap_inv:
  assumes "sessions_inv m"
  shows "sessions_inv (reap_idle t m)"
proof -
  let ?step = "\<lambda>m (token, ws). if t - ws_last_seen ws > sm_idle_timeout m then drop_session token ws m else m"
  have "sessions_inv (foldl ?step m xs)"
    if "sessions_inv m" "distinct (map fst xs)" "\<forall>(token, ws)\<in>set xs. find_session token m = Some ws" for m xs
    using that
  proof (induction xs arbitrary: m)
    case (Cons x xs)
    obtain token ws where x: "x = (token, ws)"
      by (cases x)
    have "\<forall>(token', ws')\<in>set xs. find_session token' (?step m x) = Some ws'"
      using Cons.prems(2,3) by (force simp: x)
    moreover have "sessions_inv (?step m x)"
      using Cons.prems(1,3) by (simp add: x drop_inv)
    ultimately show ?case
      using Cons by simp
  qed simp
  moreover have "\<forall>(token, ws)\<in>set (sm_sessions m). find_session token m = Some ws"
    using assms by (auto simp: sessions_inv_def find_session_def)
  ultimately show ?thesis
    using assms by (simp add: reap_idle_def sessions_inv_def)
qed

text \<open>
  A login returns the token of a session of that user, leaves every other session alone and opens at most one; a token
  that is drawn must be unused.
\<close>

lemma session_login_run:
  assumes "sessions_inv m" "\<forall>bs. drawn_token = Some bs \<longrightarrow> find_session (hex bs) m = None"
    and "session_login t drawn_token drawn_csrf name m = (r, m')"
  shows "sessions_inv m' \<and> (\<forall>token. r = Inr token \<longrightarrow> (\<exists>ws. find_session token m' = Some ws \<and> ws_username ws = name) \<and>
      (\<forall>old. find_session token m = Some old \<longrightarrow> ws_username old = name)) \<and>
    (\<forall>t'. r \<noteq> Inr t' \<longrightarrow> find_session t' m' = find_session t' m)"
proof (cases "sm_active_by_user m name")
  case (Some token)
  then obtain ws where ws: "find_session token m = Some ws" "ws_username ws = name"
    using inv_named [OF assms(1)] by blast
  then have "r = Inr token" "m' = put_session token (ws\<lparr>ws_last_seen := t\<rparr>) m"
    using assms(3) Some by (simp_all add: session_login_def sbind_def action_defs)
  then show ?thesis
    using ws quiet_inv [OF quiet_put [OF ws(1)] assms(1), of "ws\<lparr>ws_last_seen := t\<rparr>"] by simp
next
  case None
  have m: "m\<lparr>sm_active_by_user := (sm_active_by_user m)(name := None)\<rparr> = m"
    using None by (simp add: fun_upd_idem)
  have run: "open_session t drawn_token drawn_csrf name m = (r, m')"
    using assms(3) None by (simp add: session_login_def sbind_def action_defs m)
  show ?thesis
  proof (cases r)
    case (Inl e)
    then have "m' = m"
      using run by (auto simp: open_session_def sbind_def action_defs split: if_splits sum.splits)
    then show ?thesis
      using assms(1) Inl by simp
  next
    case (Inr token)
    then obtain bs csrf where bs: "drawn_token = Some bs" "token = hex bs" and room: "length (sm_sessions m) < sm_max_sessions m"
      and m': "m' = (put_session token \<lparr>ws_username = name, ws_csrf_token = csrf, ws_client = new_client (sm_mediator_id m),
         ws_last_seen = t, ws_keystore = None, ws_keystore_path = [], ws_history = None\<rparr> m)\<lparr>sm_active_by_user := (sm_active_by_user m)(name \<mapsto> token)\<rparr>"
      using run assms(2)
      by (auto simp: open_session_def random_token_def emplace_session_def sbind_def action_defs throw_if_def not_le split: if_splits sum.splits option.splits)
    have new: "find_session token m = None"
      using assms(2) bs by simp
    have nobody: "\<not> (\<exists>ws. find_session t m = Some ws \<and> ws_username ws = name)" for t
      using inv_active [OF assms(1)] None by auto
    have keys: "map fst (sm_sessions m') = map fst (sm_sessions m) @ [token]"
      using new keys_put [of token] by (simp add: m')
    then have "length (sm_sessions m') = Suc (length (sm_sessions m))"
      by (metis length_append_singleton length_map)
    moreover have "token \<notin> set (map fst (sm_sessions m))"
      using new by (simp add: find_session_def map_of_eq_None_iff)
    ultimately have "sessions_inv m'"
      using assms(1) room nobody new keys unfolding sessions_inv_def by (auto simp: m')
    then show ?thesis
      using Inr new by (auto simp: m')
  qed
qed

section \<open>What a request of a session touches\<close>

text \<open>
  The sessions are as they were at the start of the body of a route, but for the inside of the session of the token.
\<close>

abbreviation (input) inside :: "string \<Rightarrow> SessionManager \<Rightarrow> SessionManager \<Rightarrow> bool" where
  "inside token \<equiv> quiet (Some token)"

lemma inside_put:
  assumes "inside token m0 m" "find_session token m = Some old" "ws_username ws = ws_username old" "ws_csrf_token ws = ws_csrf_token old"
  shows "inside token m0 (put_session token ws m)"
  using assms(1) quiet_put [OF assms(2-4)] by (rule quiet_trans)

lemma wp_any: "(\<And>x s. Q x s) \<Longrightarrow> (\<And>e s. E e s) \<Longrightarrow> wp f Q E s"
  by (simp add: wp_def split: prod.split sum.split)

lemma wp_on_machine [wp_simps]: "wp (on_machine f) Q E (m, h) = wp f (\<lambda>x h'. Q x (m, h')) (\<lambda>e h'. E e (m, h')) h"
  by (simp add: wp_def on_machine_def split: prod.split)

abbreviation (input) inside_files :: "string \<Rightarrow> SessionManager \<Rightarrow> session_state \<Rightarrow> bool" where
  "inside_files token m0 \<equiv> \<lambda>(m, h). inside token m0 m"

lemma enable_inside: "keeps (inside_files token m0) (keystore_enable kc env token password)"
  by (rule keepsI, clarsimp simp: keystore_enable_def the_session_def wp_simps split: option.splits)
    (intro conjI impI wp_any; auto intro: inside_put)

lemma on_history_inside:
  assumes "inside token m0 m" "find_session token m = Some ws" "on_history kc calls token ws f (m, h) = (r, m', h')"
  shows "inside token m0 m'"
  using assms(3) inside_put [OF assms(1,2)] assms(1)
  by (auto simp: on_history_def split: sum.splits prod.splits)

lemma on_history_wp:
  assumes "inside token m0 m" "find_session token m = Some ws"
  shows "wp (on_history kc calls token ws f) (\<lambda>_. inside_files token m0) (\<lambda>_. inside_files token m0) (m, h)"
  using on_history_inside [OF assms] by (cases "on_history kc calls token ws f (m, h)") (auto simp: wp_def split: sum.split)

lemma history_inside [keeps_intros]:
  "keeps (inside_files token m0) (history_set_blocked kc reads calls clock token fp blocked)"
  "keeps (inside_files token m0) (history_add_note kc reads calls clock token fp note)"
  "keeps (inside_files token m0) (history_list_json kc reads token)"
  "keeps (inside_files token m0) (recognition_outcome_handler kc reads calls clock token fp' outcome)"
  by (rule keepsI; auto simp: history_set_blocked_def history_add_note_def history_list_json_def recognition_outcome_handler_def
    the_session_def wp_simps split: option.splits intro!: on_history_wp)+

lemma export_inside [keeps_intros]: "keeps (inside_files token m0) (keystore_export_bytes opens token)"
  by (rule keepsI) (auto simp: keystore_export_bytes_def the_session_def wp_simps split: option.splits)

text \<open>The same for actions on the whole server.\<close>

abbreviation (input) inside_web :: "string \<Rightarrow> SessionManager \<Rightarrow> web \<Rightarrow> bool" where
  "inside_web token m0 \<equiv> \<lambda>w. inside token m0 (web_sessions w)"

lemma inside_parts [keeps_intros]:
  "keeps (inside_web token m0) (on_accounts a)" "keeps (inside_web token m0) (on_limiter l)" "keeps (inside_web token m0) (on_login_tracker q)"
  by (simp_all add: keeps_def on_accounts_def on_limiter_def on_login_tracker_def split: prod.split)

lemma inside_files_web [keeps_intros]:
  assumes "keeps (inside_files token m0) f"
  shows "keeps (inside_web token m0) (on_session_files f)"
  unfolding keeps_def
proof (intro allI impI)
  fix w :: web
  assume "inside token m0 (web_sessions w)"
  then have "case snd (f (web_sessions w, web_machine w)) of (m, h) \<Rightarrow> inside token m0 m"
    using assms [unfolded keeps_def, rule_format, of "(web_sessions w, web_machine w)"] by simp
  moreover obtain r m h where "f (web_sessions w, web_machine w) = (r, m, h)"
    by (rule prod_cases3)
  ultimately show "inside token m0 (web_sessions (snd (on_session_files f w)))"
    by (simp add: on_session_files_def)
qed

lemma inside_client:
  assumes "find_session token m0 = Some old" "ws_username ws = ws_username old" "ws_csrf_token ws = ws_csrf_token old"
  shows "keeps (inside_web token m0) (on_session_client token ws f)"
proof -
  have "inside token m0 (put_session token (ws\<lparr>ws_client := c\<rparr>) m)" if q: "inside token m0 m" for c m
  proof -
    obtain old' where "find_session token m = Some old'" "ws_username old' = ws_username old" "ws_csrf_token old' = ws_csrf_token old"
      using quiet_find [OF quiet_sym [OF q] assms(1)] by metis
    then show ?thesis
      using inside_put [OF q] assms by simp
  qed
  then show ?thesis
    by (simp add: keeps_def on_session_client_def split: prod.split)
qed

lemma inside_lock:
  "keeps (inside_web token m0) (on_sessions (smodify (keystore_lock token)))"
  by (auto simp: keeps_def on_sessions_def action_defs keystore_lock_def split: option.split intro: inside_put)

lemma respond_keeps:
  "keeps I f \<Longrightarrow> I w \<Longrightarrow> I (snd (respond f w))" "keeps I f \<Longrightarrow> I w \<Longrightarrow> I (snd (unguarded f w))"
  by (auto simp: keeps_def respond_def unguarded_def split: prod.split sum.split)

lemma require_cases:
  obtains (refused) answer where "require_session cfg e rq w = (Inl answer, w)" "rs_cookie answer = None"
  | (held) token old where "cookie kSessionCookie rq = Some token" "find_session token (web_sessions w) = Some old"
    "require_session cfg e rq w = (Inr (token, old\<lparr>ws_last_seen := we_steady e\<rparr>),
       w\<lparr>web_sessions := put_session token (old\<lparr>ws_last_seen := we_steady e\<rparr>) (web_sessions w)\<rparr>)"
proof (cases "\<not> host_allowed cfg rq \<or> cookie kSessionCookie rq = None")
  case True
  then have "\<exists>answer. require_session cfg e rq w = (Inl answer, w) \<and> rs_cookie answer = None"
    by (auto simp: require_session_def set_json_result_def)
  then show ?thesis
    using refused by blast
next
  case False
  then obtain token where token: "host_allowed cfg rq" "cookie kSessionCookie rq = Some token"
    by auto
  show ?thesis
  proof (cases "find_session token (web_sessions w)")
    case None
    then have "require_session cfg e rq w = (Inl (set_json_result False ''no active session'' 401), w)"
      using token by (simp add: require_session_def on_sessions_def touch_def sbind_def action_defs)
    then show ?thesis
      using refused by (simp add: set_json_result_def)
  next
    case (Some old)
    then show ?thesis
      using held token by (simp add: require_session_def on_sessions_def touch_def sbind_def action_defs)
  qed
qed

lemma for_session_quiet:
  assumes body: "\<And>token ws m0 old w. find_session token m0 = Some old \<Longrightarrow> ws_username ws = ws_username old \<Longrightarrow>
    ws_csrf_token ws = ws_csrf_token old \<Longrightarrow> inside_web token m0 w \<Longrightarrow> inside_web token m0 (snd (body token ws w))"
  shows "quiet (cookie kSessionCookie rq) (web_sessions w) (web_sessions (snd (for_session cfg e rq body w)))"
proof (cases rule: require_cases [of cfg e rq w])
  case (held token old)
  have "inside token (web_sessions w) (put_session token (old\<lparr>ws_last_seen := we_steady e\<rparr>) (web_sessions w))"
    using quiet_put [OF held(2)] by simp
  then show ?thesis
    using body [OF held(2), of "old\<lparr>ws_last_seen := we_steady e\<rparr>"] held by (simp add: for_session_def)
qed (simp add: for_session_def)

lemma with_token_quiet:
  assumes "\<And>token ws m0 old w. find_session token m0 = Some old \<Longrightarrow> ws_username ws = ws_username old \<Longrightarrow>
    ws_csrf_token ws = ws_csrf_token old \<Longrightarrow> inside_web token m0 w \<Longrightarrow> inside_web token m0 (snd (body token ws w))"
  shows "quiet (cookie kSessionCookie rq) (web_sessions w) (web_sessions (snd (with_token cfg e rq body w)))"
  unfolding with_token_def by (rule for_session_quiet) (simp add: assms)

lemma action_quiet:
  assumes "\<And>token ws m0 old. find_session token m0 = Some old \<Longrightarrow> ws_username ws = ws_username old \<Longrightarrow>
    ws_csrf_token ws = ws_csrf_token old \<Longrightarrow> keeps (inside_web token m0) (handler token ws)"
  shows "quiet (cookie kSessionCookie rq) (web_sessions w) (web_sessions (snd (web_action cfg e rq message handler w)))"
  unfolding web_action_def
  by (rule with_token_quiet) (rule respond_keeps, intro keeps_intros assms, assumption+)

lemma client_action_quiet:
  "quiet (cookie kSessionCookie rq) (web_sessions w) (web_sessions (snd (client_action cfg e rq chosen w)))"
  unfolding client_action_def by (rule action_quiet) (intro keeps_intros inside_client, assumption+)

text \<open>The routes that neither log in nor out.\<close>

definition entering :: "route \<Rightarrow> bool" where
  "entering r \<longleftrightarrow> r = Register \<or> r = Login \<or> r = KeyVerify"

lemma challenge_sessions: "web_sessions (snd (web_key_challenge cfg e rq w)) = web_sessions w"
proof -
  have "keeps (\<lambda>w'. web_sessions w' = web_sessions w) (on_limiter l)" "keeps (\<lambda>w'. web_sessions w' = web_sessions w) (on_login_tracker q)"
    for l :: "(AuthRateLimiter, bool) action" and q :: "(login_tracker, LoginChallengeFields) action"
    by (simp_all add: keeps_def on_limiter_def on_login_tracker_def split: prod.split)
  then show ?thesis
    unfolding web_key_challenge_def check_attempts_def
    by (auto intro!: respond_keeps(1) [where I = "\<lambda>w'. web_sessions w' = web_sessions w"] keeps_intros)
qed

abbreviation (input) quiet_route :: "(request \<Rightarrow> web \<Rightarrow> response \<times> web) \<Rightarrow> bool" where
  "quiet_route route \<equiv> \<forall>rq w. quiet (cookie kSessionCookie rq) (web_sessions w) (web_sessions (snd (route rq w)))"

lemma keystore_routes_quiet:
  "quiet_route (web_keystore_enable cfg e)" "quiet_route (web_keystore_lock cfg e)"
  "quiet_route (web_history_block b cfg e)" "quiet_route (web_history_note cfg e)"
  unfolding web_keystore_enable_def web_keystore_lock_def web_history_block_def web_history_note_def
  by (intro allI action_quiet keeps_intros inside_lock enable_inside)+

lemma export_quiet: "quiet_route (web_keystore_export cfg e)"
  unfolding web_keystore_export_def
  by (rule allI, rule allI, rule with_token_quiet, rule respond_keeps(1), intro keeps_intros, assumption)

lemma reading_routes_quiet:
  "quiet_route (web_state cfg e)" "quiet_route (web_candles cfg e)" "quiet_route (web_identity_state cfg e)"
  "quiet_route (web_history_list cfg e)" "quiet_route (web_enroll_key cfg e)"
proof -
  have "keeps I (\<lambda>w. (r w, w))" for I :: "web \<Rightarrow> bool" and r :: "web \<Rightarrow> 'a result"
    by (simp add: keeps_def)
  note intros = this keeps_intros
  show "quiet_route (web_state cfg e)" "quiet_route (web_identity_state cfg e)" "quiet_route (web_history_list cfg e)"
    unfolding web_state_def web_identity_state_def web_history_list_def
    by (rule allI, rule allI, rule for_session_quiet, rule respond_keeps(2), intro intros, assumption)+
  show "quiet_route (web_candles cfg e)" "quiet_route (web_enroll_key cfg e)"
    unfolding web_candles_def web_enroll_key_def
    by (rule allI, rule allI, rule for_session_quiet, rule respond_keeps(1), intro intros inside_client, assumption+)+
qed

lemma other_requests_quiet:
  assumes "\<not> entering r" "r \<noteq> Logout"
  shows "quiet (cookie kSessionCookie rq) (web_sessions w) (web_sessions (snd (web_request cfg e r rq w)))"
  using assms by (cases r) (simp_all add: entering_def client_action_quiet web_admin_accounts_def challenge_sessions
      keystore_routes_quiet export_quiet reading_routes_quiet)

end
