(* ===== verification/Web_Parts.thy ===== *)
theory Web_Parts
  imports Web_Safety
begin

text \<open>
  The parts of the public web client that a request leaves alone: one contract for every statement about the server that
  its sessions and files cannot disturb, with what follows for the requests of a session, and its instances for the
  accounts, the limiter and the login challenges.
\<close>

locale apart_from_sessions =
  fixes I :: "web \<Rightarrow> bool"
  assumes sessions_apart: "I w \<Longrightarrow> I (w\<lparr>web_sessions := m, web_machine := h\<rparr>)"
begin

lemma sessions_only: "I w \<Longrightarrow> I (w\<lparr>web_sessions := m\<rparr>)"
  using sessions_apart [where w = w and m = m and h = "web_machine w"] by simp

lemma on_session_parts:
  "keeps I (on_sessions f)" "keeps I (on_session_files g)" "keeps I (on_session_client token ws c)" "keeps I (\<lambda>w. (r w, w))"
  by (auto simp: keeps_def on_sessions_def on_session_files_def on_session_client_def intro: sessions_apart sessions_only split: prod.split)

lemma entering_apart: "keeps I (enter e rq name message)"
  unfolding enter_def by (intro keeps_intros on_session_parts)

lemma for_session_apart:
  assumes "I w" "\<And>token ws w. I w \<Longrightarrow> I (snd (body token ws w))"
  shows "I (snd (for_session cfg e rq body w))"
  by (cases rule: require_cases [of cfg e rq w]) (simp_all add: for_session_def assms sessions_only)

lemma answered_apart:
  assumes "I w" "\<And>token ws. keeps I (f token ws)"
  shows "I (snd (for_session cfg e rq (\<lambda>token ws. respond (f token ws)) w))"
    "I (snd (for_session cfg e rq (\<lambda>token ws. unguarded (f token ws)) w))"
    "I (snd (with_token cfg e rq (\<lambda>token ws. respond (f token ws)) w))"
  unfolding with_token_def by (auto intro!: for_session_apart assms(1) respond_keeps [OF assms(2)])

lemma action_apart:
  assumes "I w" "\<And>token ws. keeps I (handler token ws)"
  shows "I (snd (web_action cfg e rq message handler w))"
  unfolding web_action_def by (rule answered_apart(3) [OF assms(1)]) (intro keeps_intros assms(2))

lemma acting_routes_apart:
  assumes "I w"
  shows "I (snd (web_keystore_enable cfg e rq w))" "I (snd (web_keystore_lock cfg e rq w))" "I (snd (web_history_block b cfg e rq w))"
    "I (snd (web_history_note cfg e rq w))" "I (snd (client_action cfg e rq chosen w))"
  unfolding web_keystore_enable_def web_keystore_lock_def web_history_block_def web_history_note_def client_action_def
  by (rule action_apart [OF assms], intro keeps_intros on_session_parts)+

lemma reading_routes_apart:
  assumes "I w"
  shows "I (snd (web_state cfg e rq w))" "I (snd (web_identity_state cfg e rq w))" "I (snd (web_history_list cfg e rq w))"
    "I (snd (web_candles cfg e rq w))" "I (snd (web_keystore_export cfg e rq w))" "I (snd (web_admin_accounts cfg rq w))"
proof -
  show "I (snd (web_state cfg e rq w))" "I (snd (web_identity_state cfg e rq w))" "I (snd (web_history_list cfg e rq w))"
    unfolding web_state_def web_identity_state_def web_history_list_def
    by (rule answered_apart(2) [OF assms], intro keeps_intros on_session_parts)+
  show "I (snd (web_candles cfg e rq w))"
    unfolding web_candles_def by (rule answered_apart(1) [OF assms], intro keeps_intros on_session_parts)
  show "I (snd (web_keystore_export cfg e rq w))"
    unfolding web_keystore_export_def by (rule answered_apart(3) [OF assms], intro keeps_intros on_session_parts)
  show "I (snd (web_admin_accounts cfg rq w))"
    using assms by (simp add: web_admin_accounts_def)
qed

text \<open>The requests that concern neither the accounts, nor the limiter, nor the login challenges.\<close>

lemma other_requests_apart:
  assumes "r \<notin> {Register, Login, KeyChallenge, KeyVerify, EnrollKey}" "I w"
  shows "I (snd (web_request cfg e r rq w))"
proof (cases "r = Logout")
  case True
  have "I (snd (web_logout cfg e rq w))"
    unfolding web_logout_def by (rule for_session_apart [OF assms(2)]) (simp add: sessions_only)
  then show ?thesis
    using True by simp
next
  case False
  then show ?thesis
    using assms by (cases r) (simp_all add: acting_routes_apart reading_routes_apart)
qed

text \<open>The requests that do, for a statement that their parts keep as well.\<close>

lemma account_requests_apart:
  assumes "\<And>f :: (account_state, unit) action. keeps I (on_accounts f)" "I w"
  shows "I (snd (web_register cfg e rq w))" "I (snd (web_enroll_key cfg e rq w))"
proof -
  have "keeps I (sbind (slift (required_param rq ''username'')) (\<lambda>name.
        sbind (slift (required_param rq ''password'')) (\<lambda>password.
        sbind (slift (validate_username name)) (\<lambda>_.
        sbind (slift (validate_password password)) (\<lambda>_.
        sbind (on_accounts (account_create (we_keys e) (we_append e) (we_salt e) (we_now_text e) name password)) (\<lambda>_.
        enter e rq name ''account created''))))))"
    by (intro keeps_intros assms(1) entering_apart)
  then show "I (snd (web_register cfg e rq w))"
    using assms(2) respond_keeps(1) [of I] by (simp add: web_register_def)
  show "I (snd (web_enroll_key cfg e rq w))"
    unfolding web_enroll_key_def by (rule answered_apart(1) [OF assms(2)]) (intro keeps_intros assms(1))
qed

text \<open>Logging in keeps a statement that the limiter cannot disturb, and the key routes one that the challenges cannot either.\<close>

lemma attempts_apart:
  assumes "\<And>l. keeps I (on_limiter (auth_allowed (we_steady e) l))" "\<And>l. keeps I (on_limiter (record_failure (we_steady e) l))"
  shows "keeps I (check_attempts e name)" "keeps I (login_failed e name why)"
  unfolding check_attempts_def login_failed_def by (intro keeps_intros assms)+

lemma login_apart:
  assumes "\<And>l. keeps I (on_limiter (auth_allowed (we_steady e) l))" "\<And>l. keeps I (on_limiter (record_failure (we_steady e) l))"
    and "\<And>l. keeps I (on_limiter (record_success l))" "I w"
  shows "I (snd (web_login cfg e rq w))"
proof -
  have "keeps I (sbind (slift (required_param rq ''username'')) (\<lambda>name.
        sbind (slift (required_param rq ''password'')) (\<lambda>password.
        sbind (check_attempts e name) (\<lambda>_.
        sbind (sget web_accounts) (\<lambda>st.
        sbind (slift (account_verify (we_keys e) name password st)) (\<lambda>right.
        sbind (if right then sreturn () else login_failed e name ''invalid username or password'') (\<lambda>_.
        sbind (on_limiter (record_success name)) (\<lambda>_.
        enter e rq name ''logged in''))))))))"
    by (intro keeps_intros keeps_if attempts_apart assms(1-3) entering_apart)
  from respond_keeps(1) [OF this assms(4)] show ?thesis
    using assms(4) by (simp add: web_login_def)
qed

lemma challenge_apart:
  assumes "\<And>l. keeps I (on_limiter (auth_allowed (we_steady e) l))" "I w"
    and "\<And>name suite. keeps I (on_login_tracker (login_issue (we_unix e) (we_challenge_session e) (we_challenge_nonce e) kLoginServiceId
          (wc_server_identity cfg) name 0 suite))"
  shows "I (snd (web_key_challenge cfg e rq w))"
proof -
  have "keeps I (sbind (slift (required_param rq ''username'')) (\<lambda>name.
        sbind (check_attempts e name) (\<lambda>_.
        sbind (sget (\<lambda>w. login_key name (web_accounts w))) (\<lambda>enrolled.
        sbind (on_login_tracker (login_issue (we_unix e) (we_challenge_session e) (we_challenge_nonce e) kLoginServiceId
          (wc_server_identity cfg) name 0 (suite_of enrolled))) (\<lambda>f.
        sreturn (content (challenge_json f)))))))"
    unfolding check_attempts_def by (intro keeps_intros assms(1,3))
  from respond_keeps(1) [OF this assms(2)] show ?thesis
    using assms(2) by (simp add: web_key_challenge_def)
qed

lemma verify_apart:
  assumes "\<And>l. keeps I (on_limiter (auth_allowed (we_steady e) l))" "\<And>l. keeps I (on_limiter (record_failure (we_steady e) l))"
    and "\<And>l. keeps I (on_limiter (record_success l))" "\<And>sid. keeps I (on_login_tracker (smodify (login_consume sid)))" "I w"
  shows "I (snd (web_key_verify cfg e rq w))"
  unfolding web_key_verify_def
  by (simp only: split: if_split, intro conjI impI, simp add: assms(5), rule respond_keeps(1) [where I = I, OF _ assms(5)])
    (intro keeps_intros keeps_if attempts_apart assms(1-4) entering_apart)

end

interpretation accounts: apart_from_sessions "\<lambda>w. P (web_accounts w)" for P
  by unfold_locales simp

interpretation limiter: apart_from_sessions "\<lambda>w. P (web_limiter w)" for P
  by unfold_locales simp

interpretation challenges: apart_from_sessions "\<lambda>w. P (web_tracker w)" for P
  by unfold_locales simp

text \<open>The accounts change only when one is created or a login key is enrolled; challenges leave only when they are answered.\<close>

lemma accounts_apart:
  "keeps (\<lambda>w. P (web_accounts w)) (on_limiter l)" "keeps (\<lambda>w. P (web_accounts w)) (on_login_tracker q)"
  by (simp_all add: keeps_def on_limiter_def on_login_tracker_def split: prod.split)

lemma challenges_apart:
  "keeps (\<lambda>w. P (web_tracker w)) (on_limiter l)" "keeps (\<lambda>w. P (web_tracker w)) (on_accounts a)"
  by (simp_all add: keeps_def on_limiter_def on_accounts_def split: prod.split)

lemma limiter_apart:
  "keeps (\<lambda>w. P (web_limiter w)) (on_accounts a)" "keeps (\<lambda>w. P (web_limiter w)) (on_login_tracker q)"
  by (simp_all add: keeps_def on_login_tracker_def on_accounts_def split: prod.split)

lemma accounts_stay:
  assumes "r \<noteq> Register" "r \<noteq> EnrollKey"
  shows "web_accounts (snd (web_request cfg e r rq w)) = web_accounts w"
proof -
  let ?P = "\<lambda>st. st = web_accounts w"
  note part = accounts_apart [where P = ?P]
  have "?P (web_accounts (snd (web_login cfg e rq w)))"
    by (rule accounts.login_apart [where P = ?P]) (rule part | rule refl)+
  moreover have "?P (web_accounts (snd (web_key_challenge cfg e rq w)))"
    by (rule accounts.challenge_apart [where P = ?P]) (rule part | rule refl)+
  moreover have "?P (web_accounts (snd (web_key_verify cfg e rq w)))"
    by (rule accounts.verify_apart [where P = ?P]) (rule part | rule refl)+
  ultimately show ?thesis
    using assms accounts.other_requests_apart [where P = ?P, OF _ refl] by (cases "r \<in> {Login, KeyChallenge, KeyVerify}") auto
qed

lemma outstanding_stay:
  assumes "r \<noteq> KeyVerify" "n \<le> length (web_tracker w)"
  shows "n \<le> length (web_tracker (snd (web_request cfg e r rq w)))"
proof -
  let ?P = "\<lambda>q. n \<le> length q"
  note part = challenges_apart [where P = ?P]
  have "?P (web_tracker (snd (web_login cfg e rq w)))"
    by (rule challenges.login_apart [where P = ?P]) (rule part assms(2))+
  moreover have "?P (web_tracker (snd (web_key_challenge cfg e rq w)))"
  proof (rule challenges.challenge_apart [where P = ?P])
    show "keeps (\<lambda>w. ?P (web_tracker w)) (on_login_tracker (login_issue (we_unix e) (we_challenge_session e) (we_challenge_nonce e)
        kLoginServiceId (wc_server_identity cfg) name 0 suite))" for name suite
      by (auto simp: keeps_def on_login_tracker_def login_issue_def sbind_def action_defs throw_if_def Let_def)
  qed (rule part assms(2))+
  moreover have "?P (web_tracker (snd (web_register cfg e rq w)))" "?P (web_tracker (snd (web_enroll_key cfg e rq w)))"
    by (rule challenges.account_requests_apart [where P = ?P], rule part, rule assms(2))+
  ultimately show ?thesis
    using assms challenges.other_requests_apart [where P = ?P] by (cases "r \<in> {Login, KeyChallenge, Register, EnrollKey}") auto
qed

end
