(* ===== verification/Web_Logins.thy ===== *)
theory Web_Logins
  imports Web_Parts
begin

text \<open>
  Who gets a session of the public web client: everything that can happen to the server as a relation, what a login has
  to show, what a request without the page's token can do, and how many passwords of a user can be tried.
\<close>

section \<open>Everything that can happen\<close>

text \<open>The token a login would draw is not that of a session; it has 24 random bytes.\<close>

definition unused_token :: "web_env \<Rightarrow> web \<Rightarrow> bool" where
  "unused_token e w \<longleftrightarrow> (\<forall>bs. we_token e = Some bs \<longrightarrow> find_session (hex bs) (web_sessions w) = None)"

inductive web_runs :: "web_config \<Rightarrow> web \<Rightarrow> web \<Rightarrow> bool" for cfg w0 where
  starts: "web_runs cfg w0 w0"
| serves: "web_runs cfg w0 w \<Longrightarrow> unused_token e w \<Longrightarrow> web_runs cfg w0 (snd (web_request cfg e r rq w))"
| reaps: "web_runs cfg w0 w \<Longrightarrow> web_runs cfg w0 (w\<lparr>web_sessions := reap_idle t (web_sessions w)\<rparr>)"
| trades: "web_runs cfg w0 w \<Longrightarrow> find_session token (web_sessions w) = Some ws \<Longrightarrow> client_step (\<lambda>_. True) (ws_client ws) c \<Longrightarrow>
    web_runs cfg w0 (w\<lparr>web_sessions := put_session token (ws\<lparr>ws_client := c\<rparr>) (web_sessions w)\<rparr>)"
| recognises: "web_runs cfg w0 w \<Longrightarrow>
    web_runs cfg w0 (snd (on_session_files (recognition_outcome_handler kc reads calls clock token fp outcome) w))"

section \<open>Entering\<close>

lemma session_cookie_inj [simp]: "session_cookie rq t = session_cookie rq t' \<longleftrightarrow> t = t'"
  by (simp add: session_cookie_def)

text \<open>A user is given a session: the token is one of that user or new, and no other session changes.\<close>

definition given_session :: "string \<Rightarrow> string \<Rightarrow> SessionManager \<Rightarrow> SessionManager \<Rightarrow> bool" where
  "given_session name token m m' \<longleftrightarrow> (\<exists>ws. find_session token m' = Some ws \<and> ws_username ws = name) \<and>
     (\<forall>old. find_session token m = Some old \<longrightarrow> ws_username old = name) \<and>
     (\<forall>t. t \<noteq> token \<longrightarrow> find_session t m' = find_session t m)"

lemma enter_run:
  assumes "sessions_inv (web_sessions w)" "unused_token e w'" "web_sessions w' = web_sessions w" "enter e rq name message w' = (r, w'')"
  shows "sessions_inv (web_sessions w'') \<and> web_tracker w'' = web_tracker w' \<and>
    (case r of
       Inl _ \<Rightarrow> \<forall>t. find_session t (web_sessions w'') = find_session t (web_sessions w)
     | Inr answer \<Rightarrow> \<exists>token. rs_cookie answer = Some (session_cookie rq token) \<and>
         given_session name token (web_sessions w) (web_sessions w''))"
proof -
  obtain r' m' where run: "session_login (we_steady e) (we_token e) (we_csrf e) name (web_sessions w) = (r', m')"
    by (cases "session_login (we_steady e) (we_token e) (we_csrf e) name (web_sessions w)")
  have "\<forall>bs. we_token e = Some bs \<longrightarrow> find_session (hex bs) (web_sessions w) = None"
    using assms(2,3) by (simp add: unused_token_def)
  note result = session_login_run [OF assms(1) this run]
  have end_w: "web_sessions w'' = m'" "web_tracker w'' = web_tracker w'"
    and r: "r = (case r' of Inl error \<Rightarrow> Inl error
      | Inr token \<Rightarrow> Inr ((set_json_result True message 200)\<lparr>rs_cookie := Some (session_cookie rq token)\<rparr>))"
    using assms(3,4) run by (auto simp: enter_def on_sessions_def sbind_def action_defs split: sum.splits)
  show ?thesis
  proof (cases r')
    case (Inl error)
    then show ?thesis
      using result end_w by (simp add: r)
  next
    case (Inr token)
    have "find_session t m' = find_session t (web_sessions w)" if "t \<noteq> token" for t
      using result Inr that by simp
    moreover have "\<exists>ws. find_session token m' = Some ws \<and> ws_username ws = name" "\<forall>old. find_session token (web_sessions w) = Some old \<longrightarrow> ws_username old = name"
      using result Inr by simp_all
    ultimately have "given_session name token (web_sessions w) m'"
      unfolding given_session_def by blast
    then show ?thesis
      using result end_w Inr by (simp add: r)
  qed
qed

lemma respond_cases:
  obtains (answers) answer w' where "f w = (Inr answer, w')" "respond f w = (answer, w')"
  | (throws) error w' where "f w = (Inl error, w')" "respond f w = (set_json_result False (what error) 400, w')"
proof (cases "f w")
  case (Pair r w')
  then show ?thesis
    using answers throws by (cases r) (auto simp: respond_def)
qed

text \<open>
  The result of a login route: refused with the sessions as they were, or what \<open>enter\<close> makes of the name in the form;
  \<open>shown\<close> is what the steps before it have established.
\<close>

definition login_result :: "web_env \<Rightarrow> request \<Rightarrow> (string \<Rightarrow> web \<Rightarrow> bool) \<Rightarrow> web \<Rightarrow> response \<times> web \<Rightarrow> bool" where
  "login_result e rq shown w result \<longleftrightarrow>
     rs_cookie (fst result) = None \<and> web_sessions (snd result) = web_sessions w \<or>
     (\<exists>name message w1. rq_param rq ''username'' = Some name \<and> shown name w1 \<and> web_sessions w1 = web_sessions w \<and>
        result = respond (enter e rq name message) w1)"

lemma route_enters:
  assumes "login_result e rq shown w (answer, w')" "sessions_inv (web_sessions w)" "unused_token e w"
  shows "sessions_inv (web_sessions w') \<and>
    (rs_cookie answer = None \<and> (\<forall>t. find_session t (web_sessions w') = find_session t (web_sessions w)) \<or>
     (\<exists>name token w1. rq_param rq ''username'' = Some name \<and> shown name w1 \<and> rs_cookie answer = Some (session_cookie rq token) \<and>
        web_tracker w' = web_tracker w1 \<and> given_session name token (web_sessions w) (web_sessions w')))"
  using assms(1) unfolding login_result_def
proof (elim disjE exE conjE)
  assume "rs_cookie (fst (answer, w')) = None" "web_sessions (snd (answer, w')) = web_sessions w"
  then show ?thesis
    using assms(2) by simp
next
  fix name message w1
  assume name: "rq_param rq ''username'' = Some name" "shown name w1" and w1: "web_sessions w1 = web_sessions w"
    and run: "(answer, w') = respond (enter e rq name message) w1"
  have "unused_token e w1"
    using assms(3) w1 by (simp add: unused_token_def)
  note result = enter_run [OF assms(2) this w1]
  show ?thesis
  proof (cases rule: respond_cases [of "enter e rq name message" w1])
    case (answers answer1 w2)
    then show ?thesis
      using result [OF answers(1)] run name by auto
  next
    case (throws error w2)
    then show ?thesis
      using result [OF throws(1)] run by (auto simp: set_json_result_def)
  qed
qed

text \<open>One step of such a route.\<close>

lemma refused_result [intro]:
  "web_sessions w1 = web_sessions w \<Longrightarrow> login_result e rq shown w (set_json_result ok message code, w1)"
  by (simp add: login_result_def set_json_result_def)

lemma login_step:
  assumes "web_sessions w1 = web_sessions w" "keeps (\<lambda>w'. web_sessions w' = web_sessions w) m"
    and "\<And>x w2. m w1 = (Inr x, w2) \<Longrightarrow> web_sessions w2 = web_sessions w \<Longrightarrow> login_result e rq shown w (respond (f x) w2)"
  shows "login_result e rq shown w (respond (sbind m f) w1)"
proof (cases "m w1")
  case (Pair r w2)
  then have "web_sessions w2 = web_sessions w"
    using assms(1,2) by (auto simp: keeps_def)
  then show ?thesis
    using assms(3) Pair by (cases r) (auto simp: respond_def sbind_def)
qed

lemma login_param:
  assumes "web_sessions w1 = web_sessions w"
    and "\<And>v. rq_param rq' name = Some v \<Longrightarrow> login_result e rq shown w (respond (f v) w1)"
  shows "login_result e rq shown w (respond (sbind (slift (required_param rq' name)) f) w1)"
proof (rule login_step [OF assms(1)])
  fix v w2
  assume "slift (required_param rq' name) w1 = (Inr v, w2)"
  then show "login_result e rq shown w (respond (f v) w2)"
    using assms(2) by (auto simp: required_param_def action_defs split: option.splits if_splits)
qed (simp add: keeps_intros)

lemma login_slift:
  assumes "web_sessions w1 = web_sessions w" "\<And>x. r = Inr x \<Longrightarrow> login_result e rq shown w (respond (f x) w1)"
  shows "login_result e rq shown w (respond (sbind (slift r) f) w1)"
  by (rule login_step [OF assms(1)]) (simp_all add: keeps_intros assms(2) action_defs)

lemma login_sget: "login_result e rq shown w (respond (f (g w1)) w1) \<Longrightarrow> login_result e rq shown w (respond (sbind (sget g) f) w1)"
  by (simp add: respond_def sbind_def action_defs)

lemma login_enter:
  "rq_param rq ''username'' = Some name \<Longrightarrow> shown name w1 \<Longrightarrow> web_sessions w1 = web_sessions w \<Longrightarrow>
     login_result e rq shown w (respond (enter e rq name message) w1)"
  by (auto simp: login_result_def)

lemma sessions_kept [keeps_intros]:
  "keeps (\<lambda>w'. web_sessions w' = m0) (on_accounts a)" "keeps (\<lambda>w'. web_sessions w' = m0) (on_limiter l)"
  "keeps (\<lambda>w'. web_sessions w' = m0) (on_login_tracker q)"
  by (simp_all add: keeps_def on_accounts_def on_limiter_def on_login_tracker_def split: prod.split)

lemma attempts_kept [keeps_intros]:
  "keeps (\<lambda>w'. web_sessions w' = m0) (check_attempts e name)" "keeps (\<lambda>w'. web_sessions w' = m0) (login_failed e name why)"
  unfolding check_attempts_def login_failed_def by (intro keeps_intros)+

text \<open>What a login has to show.\<close>

definition knows_password :: "web_env \<Rightarrow> request \<Rightarrow> web \<Rightarrow> string \<Rightarrow> bool" where
  "knows_password e rq w name \<longleftrightarrow> (\<exists>password a. rq_param rq ''password'' = Some password \<and>
     find_account name (web_accounts w) = Some a \<and> derive (we_keys e) password (salt a) = Inr (password_hash a))"

definition signed_challenge :: "web_env \<Rightarrow> request \<Rightarrow> web \<Rightarrow> string \<Rightarrow> LoginChallengeFields \<Rightarrow> bool" where
  "signed_challenge e rq w name f \<longleftrightarrow> f \<in> set (web_tracker w) \<and> LoginChallengeFields.username f = name \<and>
     \<not> effective_now (we_unix e) 0 > LoginChallengeFields.expires_at f \<and>
     (\<exists>k sig_hex sig. login_key name (web_accounts w) = Some k \<and> rq_param rq ''signature'' = Some sig_hex \<and> from_hex sig_hex = Inr sig \<and>
        LoginChallengeFields.suite_id f = key_suite k \<and>
        (key_suite k = kLoginSuiteEd25519V1 \<and> verify_login_response (we_crypto e) (key_bytes k) f sig = Inr True \<or>
         key_suite k = kLoginSuiteMlDsa65V1 \<and> verify_login_response_mldsa65 (we_crypto e) (key_bytes k) f sig = Inr True))"

lemma limiter_steps:
  "check_attempts e name w = (r, w') \<Longrightarrow> web_accounts w' = web_accounts w \<and> web_tracker w' = web_tracker w"
  "on_limiter l w = (r', w') \<Longrightarrow> web_accounts w' = web_accounts w \<and> web_tracker w' = web_tracker w"
  by (auto simp: check_attempts_def on_limiter_def sbind_def action_defs split: prod.splits sum.splits)

lemma register_result:
  "login_result e rq (\<lambda>name w1. find_account name (web_accounts w) = None) w (web_register cfg e rq w)"
proof -
  have new: "find_account name (web_accounts w) = None"
    if "on_accounts (account_create kc calls drawn_salt now_text name password) w = (Inr u, w')"
    for kc calls drawn_salt now_text name password u w'
    using that
    by (auto simp: on_accounts_def account_create_def account_exists_def returns_simps throw_if_def Let_def split: prod.splits if_splits)
  show ?thesis
    unfolding web_register_def
  proof (simp only: split: if_split, intro conjI impI)
    show "login_result e rq (\<lambda>name w1. find_account name (web_accounts w) = None) w (set_json_result False ''forbidden'' 403, w)"
      by (rule refused_result) simp
  qed (rule login_param login_slift login_step login_enter | rule refl | assumption | intro keeps_intros | erule new)+
qed

text \<open>The end of both ways to log in.\<close>

lemma login_decided:
  assumes "web_sessions w1 = web_sessions w" "rq_param rq ''username'' = Some name"
    and "\<And>l. right \<Longrightarrow> shown name (w1\<lparr>web_limiter := l\<rparr>)"
  shows "login_result e rq shown w (respond (sbind (if right then sreturn () else login_failed e name why) (\<lambda>_.
     sbind (on_limiter (record_success name)) (\<lambda>_. enter e rq name message))) w1)"
proof (cases right)
  case True
  have "login_result e rq shown w (respond (sbind (on_limiter (record_success name)) (\<lambda>_. enter e rq name message)) w1)"
  proof (rule login_step [OF assms(1)], intro keeps_intros)
    fix u w2
    assume "on_limiter (record_success name) w1 = (Inr u, w2)" and w2: "web_sessions w2 = web_sessions w"
    then obtain l where "w2 = w1\<lparr>web_limiter := l\<rparr>"
      by (auto simp: on_limiter_def split: prod.splits)
    then show "login_result e rq shown w (respond (enter e rq name message) w2)"
      using assms(3) True w2 by (auto intro: login_enter [of rq name, OF assms(2)])
  qed
  then show ?thesis
    using True by (simp add: respond_def sbind_def action_defs)
next
  case False
  then show ?thesis
    using assms(1) by (auto intro!: login_step keeps_intros simp: login_failed_def returns_simps)
qed

lemma login_password_result:
  "login_result e rq (\<lambda>name w1. knows_password e rq w name) w (web_login cfg e rq w)"
  unfolding web_login_def
proof (simp only: split: if_split, intro conjI impI, rule refused_result, rule refl,
    rule login_param [OF refl], rule login_param [OF refl], rule login_step [OF refl], rule attempts_kept,
    rule login_sget, rule login_slift, assumption, rule login_decided, assumption, assumption)
  fix name password u w1 right l
  assume "rq_param rq ''password'' = Some password" "check_attempts e name w = (Inr u, w1)" right
    "account_verify (we_keys e) name password (web_accounts w1) = Inr right"
  then show "knows_password e rq w name"
    using limiter_steps(1) by (fastforce simp: knows_password_def account_verify_def exn_simps split: option.splits)
qed

lemma response_ok_true:
  assumes "response_ok cry name enrolled challenge sig = Inr True"
  obtains k f where "enrolled = Some k" "challenge = Some f" "LoginChallengeFields.username f = name"
    "LoginChallengeFields.suite_id f = key_suite k"
    "key_suite k = kLoginSuiteEd25519V1 \<and> verify_login_response cry (key_bytes k) f sig = Inr True \<or>
     key_suite k = kLoginSuiteMlDsa65V1 \<and> verify_login_response_mldsa65 cry (key_bytes k) f sig = Inr True"
  using assms by (auto simp: response_ok_def split: option.splits if_splits)

lemma peek_found:
  assumes "login_peek clock sid 0 q = Some f"
  shows "f \<in> set q" "session_id f = sid" "\<not> effective_now clock 0 > LoginChallengeFields.expires_at f"
  using assms by (auto simp: login_peek_def Let_def find_Some_iff split: option.splits if_splits)

lemma challenge_answered:
  assumes "rq_param rq ''username'' = Some name" "rq_param rq ''signature'' = Some sig_hex" "from_hex sig_hex = Inr sig"
    and "check_attempts e name w = (Inr u, w1)"
    and "(if length sid = 16 then sbind (sget (\<lambda>w. login_peek (we_unix e) sid 0 (web_tracker w))) (\<lambda>challenge.
         sbind (on_login_tracker (smodify (login_consume sid))) (\<lambda>_.
         sbind (sget (\<lambda>w. login_key name (web_accounts w))) (\<lambda>enrolled. slift (response_ok (we_crypto e) name enrolled challenge sig))))
       else sreturn False) w1 = (Inr True, w2)"
  shows "\<exists>f. signed_challenge e rq w name f \<and> f \<notin> set (web_tracker (w2\<lparr>web_limiter := l\<rparr>))"
proof -
  have r: "response_ok (we_crypto e) name (login_key name (web_accounts w1)) (login_peek (we_unix e) sid 0 (web_tracker w1)) sig = Inr True"
    and q: "web_tracker w2 = login_consume sid (web_tracker w1)"
    using assms(5) by (auto simp: returns_simps on_login_tracker_def action_defs split: if_splits)
  obtain k f where "login_key name (web_accounts w1) = Some k" "login_peek (we_unix e) sid 0 (web_tracker w1) = Some f"
    "LoginChallengeFields.username f = name" "LoginChallengeFields.suite_id f = key_suite k"
    "key_suite k = kLoginSuiteEd25519V1 \<and> verify_login_response (we_crypto e) (key_bytes k) f sig = Inr True \<or>
     key_suite k = kLoginSuiteMlDsa65V1 \<and> verify_login_response_mldsa65 (we_crypto e) (key_bytes k) f sig = Inr True"
    by (rule response_ok_true [OF r])
  then show ?thesis
    using peek_found [of "we_unix e" sid "web_tracker w1" f] limiter_steps(1) [OF assms(4)] assms(1-3) q
    by (auto simp: signed_challenge_def login_consume_def)
qed

lemma login_key_result:
  "login_result e rq (\<lambda>name w1. \<exists>f. signed_challenge e rq w name f \<and> f \<notin> set (web_tracker w1)) w (web_key_verify cfg e rq w)"
  unfolding web_key_verify_def
proof (simp only: split: if_split, intro conjI impI, rule refused_result, rule refl,
    rule login_param [OF refl], rule login_param [OF refl], rule login_param [OF refl], rule login_step [OF refl], rule attempts_kept,
    rule login_slift, assumption, rule login_slift, assumption, rule login_step, assumption)
  fix name sid_hex sig_hex u w1 sid sig
  show "keeps (\<lambda>w'. web_sessions w' = web_sessions w)
      (if length sid = 16 then sbind (sget (\<lambda>w. login_peek (we_unix e) sid 0 (web_tracker w))) (\<lambda>challenge.
         sbind (on_login_tracker (smodify (login_consume sid))) (\<lambda>_.
         sbind (sget (\<lambda>w. login_key name (web_accounts w))) (\<lambda>enrolled. slift (response_ok (we_crypto e) name enrolled challenge sig))))
       else sreturn False)"
    by (auto intro!: keeps_intros)
next
  fix name sid_hex sig_hex u w1 sid sig ok w2
  assume name: "rq_param rq ''username'' = Some name" "rq_param rq ''signature'' = Some sig_hex" "from_hex sig_hex = Inr sig"
    and w1: "check_attempts e name w = (Inr u, w1)" and w2: "web_sessions w2 = web_sessions w"
    and run: "(if length sid = 16 then sbind (sget (\<lambda>w. login_peek (we_unix e) sid 0 (web_tracker w))) (\<lambda>challenge.
         sbind (on_login_tracker (smodify (login_consume sid))) (\<lambda>_.
         sbind (sget (\<lambda>w. login_key name (web_accounts w))) (\<lambda>enrolled. slift (response_ok (we_crypto e) name enrolled challenge sig))))
       else sreturn False) w1 = (Inr ok, w2)"
  have "\<exists>f. signed_challenge e rq w name f \<and> f \<notin> set (web_tracker (w2\<lparr>web_limiter := l\<rparr>))" if ok for l
    using challenge_answered [OF name w1, of sid w2 l] run that by simp
  then show "login_result e rq (\<lambda>name w1. \<exists>f. signed_challenge e rq w name f \<and> f \<notin> set (web_tracker w1)) w
      (respond (sbind (if ok then sreturn () else login_failed e name ''invalid login'') (\<lambda>_.
        sbind (on_limiter (record_success name)) (\<lambda>_. enter e rq name ''logged in''))) w2)"
    by (rule login_decided [OF w2 name(1)])
qed

section \<open>Cookies\<close>

definition no_cookie :: "(web, response) action \<Rightarrow> bool" where
  "no_cookie f \<longleftrightarrow> (\<forall>w answer w'. f w = (Inr answer, w') \<longrightarrow> rs_cookie answer = None)"

lemma cookie_none [simp]: "rs_cookie (content txt) = None" "rs_cookie (set_json_result ok message code) = None"
  by (simp_all add: content_def set_json_result_def)

lemma no_cookie_steps [intro]:
  "no_cookie (sreturn (content txt))" "no_cookie (sreturn (set_json_result ok message code))"
  "(\<And>x. no_cookie (g x)) \<Longrightarrow> no_cookie (sbind f g)"
  by (auto simp: no_cookie_def returns_simps content_def set_json_result_def)

lemma respond_no_cookie [intro]:
  "no_cookie f \<Longrightarrow> rs_cookie (fst (respond f w)) = None" "no_cookie f \<Longrightarrow> rs_cookie (fst (unguarded f w)) = None"
  by (auto simp: no_cookie_def respond_def unguarded_def set_json_result_def split: prod.split sum.split)

lemma session_no_cookie [intro]:
  "(\<And>token ws w. rs_cookie (fst (body token ws w)) = None) \<Longrightarrow> rs_cookie (fst (for_session cfg e rq body w)) = None"
  by (cases rule: require_cases [of cfg e rq w]) (simp_all add: for_session_def)

lemma token_no_cookie [intro]:
  "(\<And>token ws w. rs_cookie (fst (body token ws w)) = None) \<Longrightarrow> rs_cookie (fst (with_token cfg e rq body w)) = None"
  unfolding with_token_def by (rule session_no_cookie) (simp add: set_json_result_def)

lemma action_no_cookie [simp]:
  "rs_cookie (fst (web_action cfg e rq message handler w)) = None" "rs_cookie (fst (client_action cfg e rq chosen w)) = None"
  unfolding client_action_def web_action_def by blast+

lemma other_no_cookie:
  assumes "\<not> entering r" "r \<noteq> Logout"
  shows "rs_cookie (fst (web_request cfg e r rq w)) = None"
proof -
  have "rs_cookie (fst (web_key_challenge cfg e rq w)) = None" "rs_cookie (fst (web_enroll_key cfg e rq w)) = None"
    "rs_cookie (fst (web_state cfg e rq w)) = None" "rs_cookie (fst (web_candles cfg e rq w)) = None"
    "rs_cookie (fst (web_admin_accounts cfg rq w)) = None" "rs_cookie (fst (web_identity_state cfg e rq w)) = None"
    "rs_cookie (fst (web_keystore_export cfg e rq w)) = None" "rs_cookie (fst (web_history_list cfg e rq w)) = None"
    unfolding web_key_challenge_def web_enroll_key_def web_state_def web_candles_def web_admin_accounts_def web_identity_state_def
      web_keystore_export_def web_history_list_def
    by (auto intro!: session_no_cookie token_no_cookie respond_no_cookie no_cookie_steps)
  then show ?thesis
    using assms by (cases r) (simp_all add: entering_def web_keystore_enable_def web_keystore_lock_def web_history_block_def
        web_history_note_def)
qed

section \<open>What every request does to the sessions\<close>

definition entered :: "web_env \<Rightarrow> route \<Rightarrow> request \<Rightarrow> web \<Rightarrow> web \<Rightarrow> string \<Rightarrow> bool" where
  "entered e r rq w w' name \<longleftrightarrow>
     r = Register \<and> find_account name (web_accounts w) = None \<or>
     r = Login \<and> knows_password e rq w name \<or>
     r = KeyVerify \<and> (\<exists>f. signed_challenge e rq w name f \<and> f \<notin> set (web_tracker w'))"

lemma entering_request:
  assumes "entering r" "sessions_inv (web_sessions w)" "unused_token e w" "web_request cfg e r rq w = (answer, w')"
  shows "sessions_inv (web_sessions w') \<and>
    (rs_cookie answer = None \<and> (\<forall>t. find_session t (web_sessions w') = find_session t (web_sessions w)) \<or>
     (\<exists>name token. rq_param rq ''username'' = Some name \<and> entered e r rq w w' name \<and>
        rs_cookie answer = Some (session_cookie rq token) \<and> given_session name token (web_sessions w) (web_sessions w')))"
proof -
  consider (1) "r = Register" | (2) "r = Login" | (3) "r = KeyVerify"
    using assms(1) by (auto simp: entering_def)
  then show ?thesis
  proof cases
    case 1
    then have "login_result e rq (\<lambda>name w1. find_account name (web_accounts w) = None) w (answer, w')"
      using assms(4) register_result [of e rq w cfg] by simp
    from route_enters [OF this assms(2,3)] show ?thesis
      using 1 by (auto simp: entered_def)
  next
    case 2
    then have "login_result e rq (\<lambda>name w1. knows_password e rq w name) w (answer, w')"
      using assms(4) login_password_result [of e rq w cfg] by simp
    from route_enters [OF this assms(2,3)] show ?thesis
      using 2 by (auto simp: entered_def)
  next
    case 3
    then have "login_result e rq (\<lambda>name w1. \<exists>f. signed_challenge e rq w name f \<and> f \<notin> set (web_tracker w1)) w (answer, w')"
      using assms(4) login_key_result [of e rq w cfg] by simp
    from route_enters [OF this assms(2,3)] show ?thesis
      using 3 by (auto simp: entered_def)
  qed
qed

lemma logout_request:
  "web_sessions (snd (web_logout cfg e rq w)) = web_sessions w \<or>
   (\<exists>token old. cookie kSessionCookie rq = Some token \<and> find_session token (web_sessions w) = Some old \<and>
      web_sessions (snd (web_logout cfg e rq w)) =
        session_logout token (put_session token (old\<lparr>ws_last_seen := we_steady e\<rparr>) (web_sessions w)))"
  by (cases rule: require_cases [of cfg e rq w]) (auto simp: web_logout_def for_session_def)

lemma logout_cookie: "rs_cookie (fst (web_logout cfg e rq w)) \<noteq> Some (session_cookie rq token)"
  by (cases rule: require_cases [of cfg e rq w])
    (auto simp: web_logout_def for_session_def session_cookie_def)

lemma request_inv:
  assumes "sessions_inv (web_sessions w)" "unused_token e w"
  shows "sessions_inv (web_sessions (snd (web_request cfg e r rq w)))"
proof (cases "entering r \<or> r = Logout")
  case True
  have "sessions_inv (web_sessions (snd (web_logout cfg e rq w)))"
    using logout_request [of cfg e rq w]
  proof (elim disjE exE conjE)
    fix token old
    assume "find_session token (web_sessions w) = Some old"
      and "web_sessions (snd (web_logout cfg e rq w)) =
        session_logout token (put_session token (old\<lparr>ws_last_seen := we_steady e\<rparr>) (web_sessions w))"
    then show ?thesis
      using quiet_inv [OF quiet_put assms(1), of token old "old\<lparr>ws_last_seen := we_steady e\<rparr>"] by (simp add: logout_inv)
  qed (use assms(1) in simp)
  then show ?thesis
    using True entering_request [OF _ assms] by (metis prod.collapse web_request.simps(5))
next
  case False
  then show ?thesis
    using other_requests_quiet quiet_inv assms(1) by blast
qed

lemma web_runs_inv:
  assumes "web_runs cfg w0 w" "sessions_inv (web_sessions w0)"
  shows "sessions_inv (web_sessions w)"
  using assms(1)
proof induction
  case (trades w token ws c)
  then show ?case
    by (auto intro: quiet_inv [OF quiet_put [OF trades.hyps(2)]])
next
  case (recognises w kc reads calls clock token fp outcome)
  have "inside_web token (web_sessions w) (snd (on_session_files (recognition_outcome_handler kc reads calls clock token fp outcome) w))"
    using inside_files_web [OF history_inside(4)] by (simp add: keeps_def)
  then show ?case
    using recognises.IH by (rule quiet_inv)
qed (use assms(2) in \<open>simp_all add: request_inv reap_inv\<close>)

section \<open>Sessions of others, and requests that another page forges\<close>

lemma others_untouched:
  assumes "sessions_inv (web_sessions w)" "unused_token e w" "web_request cfg e r rq w = (answer, w')"
    and "cookie kSessionCookie rq \<noteq> Some token" "rs_cookie answer \<noteq> Some (session_cookie rq token)"
  shows "find_session token (web_sessions w') = find_session token (web_sessions w)"
proof (cases "entering r")
  case True
  from entering_request [OF True assms(1-3)] assms(5) show ?thesis
    by (auto simp: given_session_def)
next
  case other: False
  show ?thesis
  proof (cases "r = Logout")
    case True
    then have "web_sessions w' = web_sessions (snd (web_logout cfg e rq w))"
      using assms(3) by (metis snd_conv web_request.simps(5))
    then show ?thesis
      using logout_request [of cfg e rq w] assms(4) by (auto simp: session_logout_def split: option.splits)
  next
    case False
    then show ?thesis
      using other_requests_quiet [OF other False, of rq w cfg e] assms(3,4) by (auto simp: quiet_def)
  qed
qed

text \<open>A server that was started without sessions satisfies the invariant in every state.\<close>

lemma started_inv:
  assumes "web_start opens path (empty_sessions max_sessions idle med dir) h = Inr w0" "web_runs cfg w0 w"
  shows "sessions_inv (web_sessions w)"
proof -
  have "sessions_inv (web_sessions w0)"
    using assms(1) by (auto simp: web_start_def exn_simps empty_sessions_def sessions_inv_def find_session_def)
  with assms(2) show ?thesis
    by (rule web_runs_inv)
qed

lemma inv_one_session:
  assumes "sessions_inv m" "find_session token m = Some ws" "find_session token' m = Some ws'" "ws_username ws = ws_username ws'"
  shows "token = token'"
  using inv_active [OF assms(1,2)] inv_active [OF assms(1,3)] assms(4) by simp

text \<open>What one request does to the sessions.\<close>

lemma request_sessions:
  assumes "sessions_inv (web_sessions w)" "unused_token e w" "web_request cfg e r rq w = (answer, w')"
  shows "(\<forall>token. rs_cookie answer = Some (session_cookie rq token) \<longrightarrow>
       (\<exists>name ws. rq_param rq ''username'' = Some name \<and> find_session token (web_sessions w') = Some ws \<and> ws_username ws = name \<and>
          entered e r rq w w' name)) \<and>
     (\<forall>token ws. find_session token (web_sessions w') = Some ws \<longrightarrow>
        (case find_session token (web_sessions w) of
           None \<Rightarrow> rs_cookie answer = Some (session_cookie rq token)
         | Some old \<Rightarrow> ws_username ws = ws_username old))"
proof (cases "entering r")
  case True
  from entering_request [OF True assms] show ?thesis
  proof (elim conjE disjE exE)
    assume "rs_cookie answer = None" "\<forall>t. find_session t (web_sessions w') = find_session t (web_sessions w)"
    then show ?thesis
      by simp
  next
    fix name token
    assume named: "rq_param rq ''username'' = Some name" "entered e r rq w w' name" "rs_cookie answer = Some (session_cookie rq token)"
      and given: "given_session name token (web_sessions w) (web_sessions w')"
    have "case find_session token' (web_sessions w) of
           None \<Rightarrow> rs_cookie answer = Some (session_cookie rq token')
         | Some old \<Rightarrow> ws_username ws = ws_username old" if "find_session token' (web_sessions w') = Some ws" for token' ws
      using given that named(3) unfolding given_session_def by (cases "token' = token") (auto split: option.split)
    then show ?thesis
      using named given unfolding given_session_def by auto
  qed
next
  case other: False
  have cookie: "rs_cookie answer \<noteq> Some (session_cookie rq token)" for token
  proof (cases "r = Logout")
    case True
    then show ?thesis
      using logout_cookie [of cfg e rq w token] assms(3) by simp
  next
    case False
    then show ?thesis
      using other_no_cookie [OF other False, of cfg e rq w] assms(3) by simp
  qed
  have "\<exists>old. find_session token (web_sessions w) = Some old \<and> ws_username ws = ws_username old"
    if "find_session token (web_sessions w') = Some ws" for token ws
  proof (cases "r = Logout")
    case True
    then show ?thesis
      using logout_request [of cfg e rq w] assms(3) that by (auto simp: session_logout_def split: option.splits if_splits)
  next
    case False
    have "quiet (cookie kSessionCookie rq) (web_sessions w) (web_sessions w')"
      using other_requests_quiet [OF other False, of rq w cfg e] assms(3) by simp
    from quiet_find [OF this that] show ?thesis
      by metis
  qed
  then show ?thesis
    using cookie by fastforce
qed

text \<open>The routes that ask for the token of the page.\<close>

definition guarded :: "route \<Rightarrow> bool" where
  "guarded r \<longleftrightarrow> r \<in> {KeystoreEnable, KeystoreLock, KeystoreExport, HistoryBlock, HistoryUnblock, WriteNote, RefreshOffers, Recognize,
     AnswerExternal, PostOffer, TakeOffer, WithdrawOffer, MarkSent, MarkReceived, LeaveRoom}"

lemma with_token_forged:
  assumes "\<And>token ws. cookie kSessionCookie rq = Some token \<Longrightarrow> find_session token (web_sessions w) = Some ws \<Longrightarrow>
    rq_header rq ''X-TradeP2P-Token'' \<noteq> ws_csrf_token ws"
  shows "snd (with_token cfg e rq body w) = w \<or>
    (\<exists>token ws. cookie kSessionCookie rq = Some token \<and> find_session token (web_sessions w) = Some ws \<and>
       snd (with_token cfg e rq body w) = w\<lparr>web_sessions := put_session token (ws\<lparr>ws_last_seen := we_steady e\<rparr>) (web_sessions w)\<rparr>)"
  using assms by (cases rule: require_cases [of cfg e rq w]) (auto simp: with_token_def for_session_def)

lemma guarded_body:
  "\<exists>body. web_action cfg e rq message handler w = with_token cfg e rq body w"
  "\<exists>body. client_action cfg e rq chosen w = with_token cfg e rq body w"
  "\<exists>body. web_keystore_export cfg e rq w = with_token cfg e rq body w"
  unfolding client_action_def web_action_def web_keystore_export_def by blast+

lemma guarded_forged:
  assumes "guarded r" "\<And>token ws. cookie kSessionCookie rq = Some token \<Longrightarrow> find_session token (web_sessions w) = Some ws \<Longrightarrow>
    rq_header rq ''X-TradeP2P-Token'' \<noteq> ws_csrf_token ws"
  shows "snd (web_request cfg e r rq w) = w \<or>
    (\<exists>token ws. cookie kSessionCookie rq = Some token \<and> find_session token (web_sessions w) = Some ws \<and>
       snd (web_request cfg e r rq w) = w\<lparr>web_sessions := put_session token (ws\<lparr>ws_last_seen := we_steady e\<rparr>) (web_sessions w)\<rparr>)"
proof -
  have "\<exists>body. web_request cfg e r rq w = with_token cfg e rq body w"
    using assms(1) by (cases r) (simp_all add: guarded_def guarded_body web_keystore_enable_def web_keystore_lock_def
        web_history_block_def web_history_note_def)
  then obtain body where body: "web_request cfg e r rq w = with_token cfg e rq body w"
    by blast
  show ?thesis
    unfolding body by (rule with_token_forged) (rule assms(2))
qed

section \<open>Guesses\<close>

text \<open>A password of a user was checked and found wrong.\<close>

definition wrong_guess :: "string \<Rightarrow> route \<Rightarrow> request \<Rightarrow> response \<Rightarrow> bool" where
  "wrong_guess name r rq answer \<longleftrightarrow> r = Login \<and> rq_param rq ''username'' = Some name \<and>
     answer = set_json_result False ''invalid username or password'' 400"

text \<open>
  Requests from the time \<open>t0\<close> on for the length of the window, in any order of their times, none of which has the
  credentials of the user, and whatever else happens to the server that leaves its limiter alone; the number counts
  wrong guesses.
\<close>

definition has_credentials :: "string \<Rightarrow> web_env \<Rightarrow> route \<Rightarrow> request \<Rightarrow> web \<Rightarrow> bool" where
  "has_credentials name e r rq w \<longleftrightarrow> rq_param rq ''username'' = Some name \<and>
     (r = Login \<and> knows_password e rq w name \<or> r = KeyVerify \<and> (\<exists>f. signed_challenge e rq w name f))"

inductive guessing :: "web_config \<Rightarrow> string \<Rightarrow> int \<Rightarrow> web \<Rightarrow> nat \<Rightarrow> web \<Rightarrow> bool" for cfg name t0 w0 where
  begins: "guessing cfg name t0 w0 0 w0"
| request: "guessing cfg name t0 w0 n w \<Longrightarrow> t0 \<le> we_steady e \<Longrightarrow> we_steady e \<le> t0 + kWindow \<Longrightarrow>
    web_request cfg e r rq w = (answer, w') \<Longrightarrow> \<not> has_credentials name e r rq w \<Longrightarrow>
    guessing cfg name t0 w0 (if wrong_guess name r rq answer then Suc n else n) w'"
| elsewhere: "guessing cfg name t0 w0 n w \<Longrightarrow> web_limiter w' = web_limiter w \<Longrightarrow> guessing cfg name t0 w0 n w'"

text \<open>The failures of the user since \<open>t0\<close>, as far as the limiter remembers them.\<close>

definition attempts_of :: "string \<Rightarrow> AuthRateLimiter \<Rightarrow> int list" where
  "attempts_of name l = (case auth_failures l name of None \<Rightarrow> [] | Some attempts \<Rightarrow> attempts)"

definition recent :: "int \<Rightarrow> string \<Rightarrow> AuthRateLimiter \<Rightarrow> nat" where
  "recent t0 name l = length (filter (\<lambda>at. t0 \<le> at) (attempts_of name l))"

lemma attempts_prune: "attempts_of name (prune_locked t name' l) =
    (if name' = name then filter (\<lambda>at. \<not> at < t - kWindow) (attempts_of name l) else attempts_of name l)"
  by (simp add: attempts_of_def prune_locked_def Let_def filter_empty_conv split: option.split)

lemma recent_prune:
  assumes "t \<le> t0 + kWindow"
  shows "recent t0 name (prune_locked t name' l) = recent t0 name l"
proof -
  have "filter (\<lambda>at. t0 \<le> at) (filter (\<lambda>at. \<not> at < t - kWindow) xs) = filter (\<lambda>at. t0 \<le> at) xs" for xs
    using assms by (auto intro!: filter_cong)
  then show ?thesis
    by (simp add: recent_def attempts_prune)
qed

lemma check_attempts_run:
  "check_attempts e name w = (let l = prune_locked (we_steady e) name (web_limiter w) in
     (throw_if (\<not> length (attempts_of name l) < kMaxAttempts) (Invalid_argument ''too many attempts, try again later''), w\<lparr>web_limiter := l\<rparr>))"
  by (simp add: check_attempts_def on_limiter_def auth_allowed_def sbind_def action_defs attempts_of_def Let_def split: option.split)

lemma record_failure_run:
  "record_failure t name l = (Inr (), (prune_locked t name l)\<lparr>auth_failures := (auth_failures (prune_locked t name l))(name \<mapsto>
     attempts_of name (prune_locked t name l) @ [t])\<rparr>)"
  by (simp add: record_failure_def sbind_def action_defs attempts_of_def)

lemma recent_failure:
  assumes "t0 \<le> t" "t \<le> t0 + kWindow"
  shows "recent t0 name (snd (record_failure t name' l)) = (if name' = name then Suc (recent t0 name l) else recent t0 name l)"
proof -
  let ?l = "prune_locked t name' l"
  have "recent t0 name (?l\<lparr>auth_failures := (auth_failures ?l)(name' \<mapsto> attempts_of name' ?l @ [t])\<rparr>) =
      (if name' = name then Suc (recent t0 name ?l) else recent t0 name ?l)"
    using assms(1) by (simp add: recent_def attempts_of_def)
  then show ?thesis
    by (simp add: record_failure_run recent_prune [OF assms(2)])
qed

text \<open>Most routes leave the limiter alone.\<close>

lemmas limiter_kept = limiter_apart limiter.on_session_parts limiter.entering_apart

lemma respond_limiter:
  assumes "P (web_limiter w)"
  shows "keeps (\<lambda>w. P (web_limiter w)) f \<Longrightarrow> P (web_limiter (snd (respond f w)))"
    "keeps (\<lambda>w. P (web_limiter w)) f \<Longrightarrow> P (web_limiter (snd (unguarded f w)))"
  using assms respond_keeps [of "\<lambda>w. P (web_limiter w)"] by blast+

lemma other_limiter:
  assumes "r \<notin> {Login, KeyVerify, KeyChallenge}" "P (web_limiter w)"
  shows "P (web_limiter (snd (web_request cfg e r rq w)))"
proof -
  have "P (web_limiter (snd (web_register cfg e rq w)))" "P (web_limiter (snd (web_enroll_key cfg e rq w)))"
    by (rule limiter.account_requests_apart [where P = P], rule limiter_apart, rule assms(2))+
  then show ?thesis
    using assms limiter.other_requests_apart [where P = P] by (cases "r \<in> {Register, EnrollKey}") auto
qed

text \<open>In the window no failure of the user since \<open>t0\<close> is forgotten, but by the credentials.\<close>

lemma window_keeps:
  assumes "t0 \<le> we_steady e" "we_steady e \<le> t0 + kWindow"
  shows "keeps (\<lambda>w. k \<le> recent t0 name (web_limiter w)) (check_attempts e name')"
    "keeps (\<lambda>w. k \<le> recent t0 name (web_limiter w)) (login_failed e name' why)"
    "name' \<noteq> name \<Longrightarrow> keeps (\<lambda>w. k \<le> recent t0 name (web_limiter w)) (on_limiter (record_success name'))"
proof -
  show "keeps (\<lambda>w. k \<le> recent t0 name (web_limiter w)) (check_attempts e name')"
    by (simp add: keeps_def check_attempts_run Let_def recent_prune [OF assms(2)])
  have "k \<le> recent t0 name (snd (record_failure (we_steady e) name' l))" if "k \<le> recent t0 name l" for l
    using that by (simp add: recent_failure [OF assms])
  then show "keeps (\<lambda>w. k \<le> recent t0 name (web_limiter w)) (login_failed e name' why)"
    by (simp add: keeps_def login_failed_def on_limiter_def sbind_def action_defs record_failure_run)
  show "keeps (\<lambda>w. k \<le> recent t0 name (web_limiter w)) (on_limiter (record_success name'))" if "name' \<noteq> name"
    using that by (simp add: keeps_def on_limiter_def record_success_def action_defs recent_def attempts_of_def)
qed

lemma required_ok: "required_param rq field = Inr v \<Longrightarrow> rq_param rq field = Some v"
  by (auto simp: required_param_def split: option.splits if_splits)

text \<open>The end of both ways to log in, seen from the limiter.\<close>

lemma decided_limiter:
  assumes "respond (sbind (if right then sreturn () else login_failed e name' why) (\<lambda>_.
     sbind (on_limiter (record_success name')) (\<lambda>_. enter e rq name' message))) w1 = (answer, w')"
  shows "right \<Longrightarrow> name' \<noteq> name \<Longrightarrow> attempts_of name (web_limiter w') = attempts_of name (web_limiter w1)"
    "\<not> right \<Longrightarrow> answer = set_json_result False why 400 \<and> web_limiter w' = snd (record_failure (we_steady e) name' (web_limiter w1))"
proof -
  show "attempts_of name (web_limiter w') = attempts_of name (web_limiter w1)" if "right" "name' \<noteq> name"
  proof -
    let ?P = "\<lambda>l. attempts_of name l = attempts_of name (web_limiter w1)"
    have "keeps (\<lambda>w. ?P (web_limiter w)) (on_limiter (record_success name'))"
      using that(2) by (simp add: keeps_def on_limiter_def record_success_def action_defs attempts_of_def)
    then have "keeps (\<lambda>w. ?P (web_limiter w)) (sbind (if right then sreturn () else login_failed e name' why) (\<lambda>_.
       sbind (on_limiter (record_success name')) (\<lambda>_. enter e rq name' message)))"
      using that(1) by (auto intro!: keeps_intros limiter_kept [where P = ?P])
    from respond_limiter(1) [where P = ?P, OF refl this] show ?thesis
      using assms by simp
  qed
  show "answer = set_json_result False why 400 \<and> web_limiter w' = snd (record_failure (we_steady e) name' (web_limiter w1))" if "\<not> right"
    using assms that
    by (auto simp: respond_def login_failed_def on_limiter_def sbind_def action_defs record_failure_run)
qed

lemma recent_le: "recent t0 name l \<le> length (attempts_of name l)"
  by (simp add: recent_def)

lemma json_escape_inj [simp]: "json_escape s = json_escape t \<longleftrightarrow> s = t"
  by (metis parse_escaped option.inject prod.inject)

lemma error_text_inj [simp]: "set_json_result False s c = set_json_result False t d \<longleftrightarrow> s = t \<and> c = d"
  by (auto simp: set_json_result_def)

lemma other_messages:
  "required_param rq field = Inl error \<Longrightarrow> what error \<noteq> ''invalid username or password''"
  "derive kc password salt_bytes = Inl error \<Longrightarrow> what error \<noteq> ''invalid username or password''"
  by (auto simp: required_param_def derive_def split: option.splits sum.splits if_splits)

lemma verify_message: "account_verify kc name password st = Inl error \<Longrightarrow> what error \<noteq> ''invalid username or password''"
  using other_messages(2) by (auto simp: account_verify_def rbind_def split: option.splits sum.splits)

lemma verify_knows:
  "account_verify (we_keys e) name password (web_accounts w) = Inr True \<Longrightarrow> rq_param rq ''password'' = Some password \<Longrightarrow>
     knows_password e rq w name"
  by (auto simp: knows_password_def account_verify_def exn_simps split: option.splits)

text \<open>How a request to log in can go: refused before the password is judged, or judged.\<close>

lemma login_cases:
  assumes "web_login cfg e rq w = (answer, w')"
  obtains (refused) message code l where "answer = set_json_result False message code"
    "code = 403 \<or> message \<noteq> ''invalid username or password''" "web_limiter w' = web_limiter w \<or> web_limiter w' = prune_locked (we_steady e) l (web_limiter w)"
  | (judged) name' password right where "rq_param rq ''username'' = Some name'" "rq_param rq ''password'' = Some password"
    "account_verify (we_keys e) name' password (web_accounts w) = Inr right"
    "length (attempts_of name' (prune_locked (we_steady e) name' (web_limiter w))) < kMaxAttempts"
    "respond (sbind (if right then sreturn () else login_failed e name' ''invalid username or password'') (\<lambda>_.
       sbind (on_limiter (record_success name')) (\<lambda>_. enter e rq name' ''logged in'')))
       (w\<lparr>web_limiter := prune_locked (we_steady e) name' (web_limiter w)\<rparr>) = (answer, w')"
proof -
  note run = web_login_def respond_def check_attempts_run sbind_def action_defs Let_def
  show ?thesis
  proof (cases "forbidden_before_login cfg rq \<or> required_param rq ''username'' \<in> range Inl \<or> required_param rq ''password'' \<in> range Inl")
    case True
    then show ?thesis
      using assms refused [of "''forbidden''" 403] refused [of _ 400, OF _ disjI2 [OF other_messages(1)]]
      by (cases "required_param rq ''username''"; cases "required_param rq ''password''"; cases "forbidden_before_login cfg rq")
        (auto simp: run)
  next
    case False
    then obtain name' password where given: "required_param rq ''username'' = Inr name'" "required_param rq ''password'' = Inr password"
        "\<not> forbidden_before_login cfg rq"
      by (metis sum.exhaust_sel rangeI)
    let ?l = "prune_locked (we_steady e) name' (web_limiter w)"
    show ?thesis
    proof (cases "length (attempts_of name' ?l) < kMaxAttempts")
      case few: True
      show ?thesis
      proof (cases "account_verify (we_keys e) name' password (web_accounts w)")
        case (Inl error)
        then show ?thesis
          using assms given few refused [of "what error" 400 name'] verify_message [OF Inl] by (auto simp: run)
      next
        case (Inr right)
        show ?thesis
          using judged [OF required_ok [OF given(1)] required_ok [OF given(2)] Inr few] assms given few Inr by (simp add: run)
      qed
    qed (use assms given refused [of "''too many attempts, try again later''" 400 name'] in \<open>auto simp: run\<close>)
  qed
qed

text \<open>
  A request to log in without the password of a user forgets no failure of that user in the window; a password of the
  user that is checked and wrong adds one, and is checked only while there are fewer than five.
\<close>

lemma login_guess:
  assumes "t0 \<le> we_steady e" "we_steady e \<le> t0 + kWindow" "web_login cfg e rq w = (answer, w')"
    and unknown: "rq_param rq ''username'' = Some name \<Longrightarrow> \<not> knows_password e rq w name"
  shows "if wrong_guess name Login rq answer then recent t0 name (web_limiter w) < kMaxAttempts \<and>
       recent t0 name (web_limiter w') = Suc (recent t0 name (web_limiter w))
     else recent t0 name (web_limiter w) \<le> recent t0 name (web_limiter w')"
  using assms(3)
proof (cases rule: login_cases)
  case (refused message code l)
  then show ?thesis
    using recent_prune [OF assms(2), of name] by (auto simp: wrong_guess_def)
next
  case (judged name' password right)
  note pruned = recent_prune [OF assms(2), of name name' "web_limiter w"]
  show ?thesis
  proof (cases right)
    case True
    then have "name' \<noteq> name" and other: "rq_param rq ''username'' \<noteq> Some name"
      using unknown judged(1,2,3) verify_knows [of e name' password w rq] by auto
    then have "recent t0 name (web_limiter w') = recent t0 name (web_limiter w)"
      using decided_limiter(1) [OF judged(5) True] pruned by (simp add: recent_def)
    then show ?thesis
      using other by (simp add: wrong_guess_def)
  next
    case False
    note wrong = decided_limiter(2) [OF judged(5) False]
    have "recent t0 name (web_limiter w') = (if name' = name then Suc (recent t0 name (web_limiter w)) else recent t0 name (web_limiter w))"
      using wrong by (simp add: recent_failure [OF assms(1,2)] recent_prune [OF assms(2)])
    moreover have "recent t0 name (web_limiter w) < kMaxAttempts" if "name' = name"
      using judged(4) that recent_le [of t0 name "prune_locked (we_steady e) name' (web_limiter w)"] pruned by simp
    ultimately show ?thesis
      using judged(1) conjunct1 [OF wrong] by (auto simp: wrong_guess_def)
  qed
qed

text \<open>A request with an answer to a challenge forgets a failure of the user only for a valid one.\<close>

lemma stranger_keeps:
  assumes "t0 \<le> we_steady e" "we_steady e \<le> t0 + kWindow" "k \<le> recent t0 name (web_limiter w)"
  shows "k \<le> recent t0 name (web_limiter (snd (web_key_challenge cfg e rq w)))"
proof -
  let ?I = "\<lambda>w. k \<le> recent t0 name (web_limiter w)"
  have "keeps ?I (sbind (slift (required_param rq ''username'')) (\<lambda>name.
        sbind (check_attempts e name) (\<lambda>_.
        sbind (sget (\<lambda>w. login_key name (web_accounts w))) (\<lambda>enrolled.
        sbind (on_login_tracker (login_issue (we_unix e) (we_challenge_session e) (we_challenge_nonce e) kLoginServiceId
          (wc_server_identity cfg) name 0 (suite_of enrolled))) (\<lambda>f.
        sreturn (content (challenge_json f)))))))"
    by (intro keeps_intros window_keeps [OF assms(1,2)] limiter_kept [where P = "\<lambda>l. k \<le> recent t0 name l"])
  from respond_keeps(1) [where I = ?I, OF this assms(3)] show ?thesis
    using assms(3) by (simp add: web_key_challenge_def)
qed

lemma verify_guess:
  assumes "t0 \<le> we_steady e" "we_steady e \<le> t0 + kWindow" "k \<le> recent t0 name (web_limiter w)"
    and unknown: "\<And>f. rq_param rq ''username'' = Some name \<Longrightarrow> \<not> signed_challenge e rq w name f"
  shows "k \<le> recent t0 name (web_limiter (snd (web_key_verify cfg e rq w)))"
proof -
  let ?I = "\<lambda>w. k \<le> recent t0 name (web_limiter w)"
  note kept = window_keeps [OF assms(1,2)] limiter_kept [where P = "\<lambda>l. k \<le> recent t0 name l"]
  have step: "?I (snd (respond (sbind m f) w1))"
    if "?I w1" "keeps ?I m" "\<And>x w2. m w1 = (Inr x, w2) \<Longrightarrow> ?I w2 \<Longrightarrow> ?I (snd (respond (f x) w2))"
    for m :: "(web, 'x) action" and f w1
  proof (cases "m w1")
    case (Pair r w2)
    then have "?I w2"
      using that(1,2) by (metis keeps_def snd_conv)
    then show ?thesis
      using that(3) Pair by (cases r) (auto simp: respond_def sbind_def)
  qed
  have given: "?I (snd (respond (sbind (slift r) f) w1))" if "?I w1" "\<And>x. r = Inr x \<Longrightarrow> ?I (snd (respond (f x) w1))"
    for r :: "'x result" and f w1
    using that by (cases r) (auto simp: respond_def sbind_def action_defs)
  show ?thesis
    unfolding web_key_verify_def
  proof (simp only: split: if_split, intro conjI impI, simp add: assms(3),
      rule given [OF assms(3)], rule given [OF assms(3)], rule given [OF assms(3)], rule step [OF assms(3)], rule kept, rule given, assumption, rule given, assumption,
      rule step, assumption)
    fix name' sid_hex sig_hex u w1 sid sig
    show "keeps ?I
        (if length sid = 16 then sbind (sget (\<lambda>w. login_peek (we_unix e) sid 0 (web_tracker w))) (\<lambda>challenge.
           sbind (on_login_tracker (smodify (login_consume sid))) (\<lambda>_.
           sbind (sget (\<lambda>w. login_key name' (web_accounts w))) (\<lambda>enrolled. slift (response_ok (we_crypto e) name' enrolled challenge sig))))
         else sreturn False)"
      by (auto intro!: keeps_intros kept)
  next
    fix name' sid_hex sig_hex u w1 sid sig ok w2
    assume params: "required_param rq ''username'' = Inr name'" "required_param rq ''signature'' = Inr sig_hex" "from_hex sig_hex = Inr sig"
      and w1: "check_attempts e name' w = (Inr u, w1)" and w2: "?I w2"
      and run: "(if length sid = 16 then sbind (sget (\<lambda>w. login_peek (we_unix e) sid 0 (web_tracker w))) (\<lambda>challenge.
           sbind (on_login_tracker (smodify (login_consume sid))) (\<lambda>_.
           sbind (sget (\<lambda>w. login_key name' (web_accounts w))) (\<lambda>enrolled. slift (response_ok (we_crypto e) name' enrolled challenge sig))))
         else sreturn False) w1 = (Inr ok, w2)"
    let ?rest = "respond (sbind (if ok then sreturn () else login_failed e name' ''invalid login'') (\<lambda>_.
          sbind (on_limiter (record_success name')) (\<lambda>_. enter e rq name' ''logged in''))) w2"
    show "?I (snd ?rest)"
    proof (cases ok)
      case True
      then have "name' \<noteq> name"
        using challenge_answered [OF required_ok [OF params(1)] required_ok [OF params(2)] params(3) w1, of sid w2] run
          unknown required_ok [OF params(1)] by auto
      then show ?thesis
        using decided_limiter(1) [of ok e name' "''invalid login''" rq "''logged in''" w2 "fst ?rest" "snd ?rest"] True w2
        by (simp add: recent_def)
    next
      case False
      then show ?thesis
        using decided_limiter(2) [of ok e name' "''invalid login''" rq "''logged in''" w2 "fst ?rest" "snd ?rest"] w2
        by (simp add: recent_failure [OF assms(1,2)])
    qed
  qed
qed

text \<open>At most five wrong passwords of a user are judged in a window in which nobody shows the credentials.\<close>

lemma guessing_bound:
  assumes "guessing cfg name t0 w0 n w"
  shows "n \<le> recent t0 name (web_limiter w) \<and> n \<le> kMaxAttempts"
  using assms
proof induction
  case (request n w e r rq answer w')
  show ?case
  proof (cases "r = Login")
    case True
    then have "web_login cfg e rq w = (answer, w')" "rq_param rq ''username'' = Some name \<Longrightarrow> \<not> knows_password e rq w name"
      using request.hyps(4,5) by (auto simp: has_credentials_def)
    from login_guess [OF request.hyps(2,3) this] show ?thesis
      using request.IH True by (auto split: if_splits)
  next
    case False
    have "n \<le> recent t0 name (web_limiter (snd (web_request cfg e r rq w)))"
    proof (cases "r \<in> {KeyVerify, KeyChallenge}")
      case True
      have "rq_param rq ''username'' = Some name \<Longrightarrow> \<not> signed_challenge e rq w name f" if "r = KeyVerify" for f
        using request.hyps(5) that by (auto simp: has_credentials_def)
      then show ?thesis
        using True request.IH stranger_keeps [OF request.hyps(2,3)] verify_guess [OF request.hyps(2,3)] by auto
    next
      case other: False
      then show ?thesis
        using False request.IH other_limiter [where P = "\<lambda>l. n \<le> recent t0 name l"] by simp
    qed
    then show ?thesis
      using False request.hyps(4) request.IH by (auto simp: wrong_guess_def)
  qed
qed simp_all

end
