(* ===== verification/Web_Store.thy ===== *)
theory Web_Store
  imports Web_Accounts
begin

text \<open>
  The accounts of the public web client after a restart: a record reads back as it was written, and as long as every
  append is complete the constructor finds in the file exactly the accounts the server had in memory.
\<close>

section \<open>A record reads back\<close>

lemma hex_chars:
  assumes "c \<in> set (hex bs)"
  shows "\<not> hex_value c < 0" "\<not> hex_blank c" "c \<noteq> CHR 0x09" "c \<noteq> CHR 0x0A"
proof -
  have nibbles: "unat b div 16 < 16" "unat b mod 16 < 16" for b :: u8
    using unsigned_less [of b, where ?'a = nat] by simp_all
  have "\<exists>b. c = hex_digit (unat b div 16) \<or> c = hex_digit (unat (b :: u8) mod 16)"
    using assms by (auto simp: hex_def hex_byte_def)
  then obtain n where n: "n < 16" "c = hex_digit n"
    using nibbles by blast
  then have "of_char c \<in> {48..57 :: nat} \<union> {97..102}"
    by (auto simp: hex_digit_def)
  then show "\<not> hex_blank c" "c \<noteq> CHR 0x09" "c \<noteq> CHR 0x0A"
    by (auto simp: hex_blank_def)
  show "\<not> hex_value c < 0"
    using n by (simp add: hex_value_digit)
qed

lemma from_hex_hex [simp]: "from_hex (hex bs) = Inr bs"
proof -
  have trim: "dropWhile hex_blank xs = xs" if "\<forall>c\<in>set xs. \<not> hex_blank c" for xs
    using that by (cases xs) simp_all
  have "rev (dropWhile hex_blank (rev (dropWhile hex_blank (hex bs)))) = hex bs"
    using hex_chars(2) [of _ bs] by (simp add: trim)
  moreover have "length (hex bs) mod 2 = 0"
    by (simp add: length_hex_bytes hex_def)
  moreover have "\<not> list_ex (\<lambda>c. hex_value c < 0) (hex bs)"
    using hex_chars(1) [of _ bs] by (auto simp only: list_ex_iff)
  ultimately show ?thesis
    using hex_pairs_hex_byte [of bs "[]"] by (simp add: from_hex_def Let_def flip: hex_def)
qed

lemma next_field_sep: "sep \<notin> set field \<Longrightarrow> next_field sep (Some (field @ sep # rest)) = Some (field, Some rest)"
  using cut_at_append [of sep field rest] by (cases field) (auto simp: next_field_def)

lemma next_field_last: "sep \<notin> set field \<Longrightarrow> next_field sep (Some field) = (if field = [] then None else Some (field, None))"
  using cut_at_last [of sep field] by (cases field) (auto simp: next_field_def)

text \<open>The accounts the program writes: a valid name, a time without separators, and a key of its suite's length.\<close>

definition enrolled_ok :: "EnrolledLoginKey \<Rightarrow> bool" where
  "enrolled_ok k \<longleftrightarrow> length (key_bytes k) = expected_login_key_length (key_suite k) \<and>
     (key_suite k = kLoginSuiteEd25519V1 \<or> key_suite k = kLoginSuiteMlDsa65V1)"

definition account_ok :: "Account \<Rightarrow> bool" where
  "account_ok a \<longleftrightarrow> validate_username (user_name a) = Inr () \<and> CHR 0x09 \<notin> set (created_text a) \<and> CHR 0x0A \<notin> set (created_text a) \<and>
     (\<forall>k. account_key a = Some k \<longrightarrow> enrolled_ok k)"

lemma valid_name:
  assumes "validate_username name = Inr ()"
  shows "name \<noteq> []" "isalpha (hd name)" "c \<in> set name \<Longrightarrow> isalnum (of_char c) \<or> c = CHR ''_'' \<or> c = CHR ''-''"
  using assms by (auto simp: validate_username_def exn_simps)

lemma name_chars:
  "\<not> isalpha (CHR ''#'')" "\<not> isalnum (of_char (CHR 0x09))" "\<not> isalnum (of_char (CHR 0x0A))"
  by (simp_all add: isalnum_def isalpha_def)

lemma stored_suite_printed: "stored_suite (to_string (unat s)) = Some s"
proof -
  have bound: "unat s \<le> 65535"
    using unsigned_less [of s, where ?'a = nat] by simp
  let ?n = "of_nat (unat s) :: u64"
  have n: "unat ?n = unat s"
    using bound by (simp only: unat_of_nat) (rule mod_less, rule le_less_trans [OF bound], simp)
  have "(ucast (of_nat m :: u64) :: u16) = of_nat m" if "m \<le> 65535" for m
    using that by (simp add: unsigned_of_nat take_bit_nat_eq_self)
  from this [OF bound] have "ucast ?n = s"
    by simp
  moreover have "?n \<le> 65535"
    using bound n by (simp only: word_le_nat_alt) simp
  ultimately show ?thesis
    using stoul_to_string [of "unat s"] to_string_digits [of "unat s"] bound unfolding stored_suite_def by simp
qed

lemma digits_no_sep: "CHR 0x09 \<notin> set (to_string n) \<and> CHR 0x0A \<notin> set (to_string n)"
  using to_string_digits [of n] by (auto simp: list_all_iff is_digit_def dest: bspec)

lemma account_parses:
  assumes "account_ok a"
  shows "parse_account (account_line a) = Inr (Some a)"
proof -
  note name = valid_name [of "user_name a"]
  have ok: "validate_username (user_name a) = Inr ()" "CHR 0x09 \<notin> set (created_text a)" "\<And>k. account_key a = Some k \<Longrightarrow> enrolled_ok k"
    using assms by (auto simp: account_ok_def)
  have start: "account_line a \<noteq> []" "hd (account_line a) \<noteq> CHR ''#''"
    using name(1,2) [OF ok(1)] name_chars(1) by (auto simp: account_line_def)
  have fields: "CHR 0x09 \<notin> set (user_name a)" "CHR 0x09 \<notin> set (hex bs)" for bs
    using name(3) [OF ok(1), of "CHR 0x09"] name_chars(2) hex_chars(3) by auto
  show ?thesis
  proof (cases "account_key a")
    case None
    have "parse_account (account_line a) = Inr (Some \<lparr>user_name = user_name a, salt = salt a, password_hash = password_hash a,
        created_text = created_text a, account_key = None\<rparr>)"
      using start None by (simp add: parse_account_def account_line_def next_field_sep fields ok(2) optional_field_def stored_key_def
          next_field_def [of _ "Some []"] next_field_sep [of _ "[]", simplified])
    then show ?thesis
      using None by simp
  next
    case (Some k)
    have k: "length (key_bytes k) = expected_login_key_length (key_suite k)" "hex (key_bytes k) \<noteq> []"
      using ok(3) [OF Some] by (auto simp: enrolled_ok_def expected_login_key_length_def hex_def hex_byte_def)
    have "parse_account (account_line a) = Inr (Some \<lparr>user_name = user_name a, salt = salt a, password_hash = password_hash a,
        created_text = created_text a, account_key = Some \<lparr>key_suite = key_suite k, key_bytes = key_bytes k\<rparr>\<rparr>)"
      using start Some k digits_no_sep [of "unat (key_suite k)"] to_string_digits [of "unat (key_suite k)"]
      by (simp add: parse_account_def account_line_def next_field_sep fields ok(2) optional_field_def stored_key_def next_field_last
          stored_suite_printed)
    then show ?thesis
      using Some by simp
  qed
qed

section \<open>The file after an operation\<close>

definition whole_lines :: "string \<Rightarrow> bool" where
  "whole_lines txt \<longleftrightarrow> txt = [] \<or> last txt = CHR 0x0A"

lemma getlines_append: "whole_lines s \<Longrightarrow> getlines (s @ t) = getlines s @ getlines t"
proof (induction s rule: length_induct)
  case (1 s)
  show ?case
  proof (cases "s = []")
    case False
    then have "CHR 0x0A \<in> set s"
      using 1(2) by (metis last_in_set whole_lines_def)
    then obtain line rest where s: "s = line @ CHR 0x0A # rest" "CHR 0x0A \<notin> set line"
      by (metis split_list_first)
    moreover have "whole_lines rest"
      using 1(2) s by (auto simp: whole_lines_def split: if_splits)
    ultimately show ?thesis
      using 1(1) by simp
  qed simp
qed

definition stored_accounts :: "string \<Rightarrow> files \<Rightarrow> bytes" where
  "stored_accounts path fs = (case fs path of None \<Rightarrow> [] | Some bs \<Rightarrow> bs)"

definition accounts_saved :: "string \<Rightarrow> account_state \<Rightarrow> bool" where
  "accounts_saved path = (\<lambda>(st, fs). accounts_path st = path \<and> whole_lines (map char_of_byte (stored_accounts path fs)) \<and>
     load_lines (file_lines (stored_accounts path fs)) [] = Inr (accounts st) \<and>
     (\<forall>(name, a)\<in>set (accounts st). user_name a = name \<and> account_ok a))"

lemma saved_reloads: "accounts_saved path (st, fs) \<Longrightarrow> account_store True path fs = Inr st"
  by (cases st) (auto simp: accounts_saved_def account_store_def stored_accounts_def file_lines_def split: option.splits)

lemma load_lines_append: "load_lines (xs @ ys) known = rbind (load_lines xs known) (load_lines ys)"
  by (induction xs arbitrary: known) (simp_all add: rbind_assoc)

lemma account_line_newline:
  assumes "account_ok a"
  shows "CHR 0x0A \<notin> set (account_line a)"
proof -
  have "CHR 0x0A \<notin> set (user_name a)"
    using valid_name(3) [of "user_name a" "CHR 0x0A"] name_chars(3) assms by (auto simp: account_ok_def)
  then show ?thesis
    using assms hex_chars(4) digits_no_sep by (auto simp: account_line_def account_ok_def split: option.splits)
qed

lemma in_update: "x \<in> set (AList.update k v xs) \<Longrightarrow> x = (k, v) \<or> x \<in> set xs"
  by (induction xs) (auto split: if_splits)

text \<open>A complete append is an update of the accounts that are loaded.\<close>

lemma append_saved:
  assumes "accounts_saved path (st, fs)" "account_ok a" "append_stored calls = None" "append_locked calls path a fs = (Inr u, fs')"
  shows "accounts_saved path (insert_account (user_name a) a st, fs')"
proof -
  let ?old = "map char_of_byte (stored_accounts path fs)"
  have fs': "map char_of_byte (stored_accounts path fs') = ?old @ account_line a @ [CHR 0x0A]"
    using assms(3,4) by (auto simp: append_locked_def returns_simps Let_def stored_accounts_def comp_def split: option.splits)
  have "getlines (?old @ account_line a @ [CHR 0x0A]) = getlines ?old @ [account_line a]"
    using assms(1) getlines_append [of ?old "account_line a @ [CHR 0x0A]"] account_line_newline [OF assms(2)]
    by (simp add: accounts_saved_def)
  then have "load_lines (file_lines (stored_accounts path fs')) [] = Inr (AList.update (user_name a) a (accounts st))"
    using assms(1) account_parses [OF assms(2)]
    by (simp add: file_lines_def fs' load_lines_append accounts_saved_def del: map_append)
  moreover have "whole_lines (map char_of_byte (stored_accounts path fs'))"
    by (simp add: fs' whole_lines_def)
  moreover have "\<forall>(name, b)\<in>set (AList.update (user_name a) a (accounts st)). user_name b = name \<and> account_ok b"
    using assms(1,2) by (auto simp: accounts_saved_def dest!: in_update)
  ultimately show ?thesis
    using assms(1) by (simp add: accounts_saved_def insert_account_def)
qed

lemma append_failed:
  assumes "append_locked calls path a fs = (Inl error, fs')"
  shows "fs' = fs"
  using assms by (auto simp: append_locked_def sbind_def action_defs Let_def throw_if_def split: option.splits if_splits)

lemma create_saved:
  assumes "accounts_saved path (st, fs)" "validate_username name = Inr ()" "CHR 0x09 \<notin> set now_text" "CHR 0x0A \<notin> set now_text"
    and "append_stored calls = None"
  shows "accounts_saved path (snd (account_create kc calls drawn_salt now_text name password (st, fs)))"
proof -
  have path: "accounts_path st = path"
    using assms(1) by (simp add: accounts_saved_def)
  let ?a = "\<lambda>salt_bytes hash_bytes. \<lparr>user_name = name, salt = salt_bytes, password_hash = hash_bytes, created_text = now_text, account_key = None\<rparr>"
  let ?after = "snd (account_create kc calls drawn_salt now_text name password (st, fs))"
  have "?after = (st, fs) \<or> (\<exists>salt_bytes hash_bytes fs'. append_locked calls path (?a salt_bytes hash_bytes) fs = (Inr (), fs') \<and>
      ?after = (insert_account name (?a salt_bytes hash_bytes) st, fs'))"
    by (auto simp: account_create_def sbind_def action_defs on_account_file_def Let_def throw_if_def path
        split: option.splits sum.splits prod.splits if_splits dest: append_failed)
  then show ?thesis
  proof (elim disjE exE conjE)
    fix salt_bytes hash_bytes fs'
    assume append: "append_locked calls path (?a salt_bytes hash_bytes) fs = (Inr (), fs')"
      and run: "?after = (insert_account name (?a salt_bytes hash_bytes) st, fs')"
    have "account_ok (?a salt_bytes hash_bytes)"
      using assms(2-4) by (simp add: account_ok_def)
    from append_saved [OF assms(1) this assms(5) append] show ?thesis
      by (simp add: run)
  qed (simp add: assms(1))
qed

lemma enrol_saved:
  assumes "accounts_saved path (st, fs)" "enrolled_ok \<lparr>key_suite = suite, key_bytes = bs\<rparr>"
    and "append_directories calls = None" "append_opens calls" "append_stored calls = None"
  shows "accounts_saved path (snd (set_login_key calls name suite bs (st, fs)))"
proof (cases "find_account name st")
  case None
  then show ?thesis
    using assms(1) by (simp add: set_login_key_def sbind_def action_defs)
next
  case (Some a)
  let ?a = "a\<lparr>account_key := Some \<lparr>key_suite = suite, key_bytes = bs\<rparr>\<rparr>"
  have a: "user_name a = name" "account_ok a" and path: "accounts_path st = path"
    using Some assms(1) by (auto simp: find_account_def accounts_saved_def dest: map_of_SomeD)
  then have ok: "account_ok ?a"
    using assms(2) by (simp add: account_ok_def)
  obtain fs' where append: "append_locked calls path ?a fs = (Inr (), fs')"
    using assms(3-5) by (simp add: append_locked_def sbind_def action_defs Let_def)
  have "snd (set_login_key calls name suite bs (st, fs)) = (insert_account (user_name ?a) ?a st, fs')"
    using Some append path a(1) by (simp add: set_login_key_def sbind_def action_defs Let_def insert_account_def on_account_file_def)
  then show ?thesis
    using append_saved [OF assms(1) ok assms(5) append] by simp
qed

section \<open>Runs of the account store\<close>

text \<open>
  From a server without an account file: accounts are created, with the name checked before as the route does, login
  keys of the length of their suite are enrolled, the rest of the machine does not write the file, and the server is
  restarted. An append may fail before it writes while an account is created; one that loses part of a line, or fails
  while a key is enrolled, is not in these runs.
\<close>

inductive account_runs :: "key_crypto \<Rightarrow> string \<Rightarrow> account_state \<Rightarrow> bool" for kc path where
  starts: "fs path = None \<Longrightarrow> account_store True path fs = Inr st \<Longrightarrow> account_runs kc path (st, fs)"
| creates: "account_runs kc path s \<Longrightarrow> validate_username name = Inr () \<Longrightarrow> CHR 0x09 \<notin> set now_text \<Longrightarrow> CHR 0x0A \<notin> set now_text \<Longrightarrow>
    append_stored calls = None \<Longrightarrow> account_runs kc path (snd (account_create kc calls drawn_salt now_text name password s))"
| enrols: "account_runs kc path s \<Longrightarrow> enrolled_ok \<lparr>key_suite = suite, key_bytes = bs\<rparr> \<Longrightarrow> append_directories calls = None \<Longrightarrow>
    append_opens calls \<Longrightarrow> append_stored calls = None \<Longrightarrow> account_runs kc path (snd (set_login_key calls name suite bs s))"
| elsewhere: "account_runs kc path (st, fs) \<Longrightarrow> fs' path = fs path \<Longrightarrow> account_runs kc path (st, fs')"
| restarts: "account_runs kc path (st, fs) \<Longrightarrow> account_store True path fs = Inr st' \<Longrightarrow> account_runs kc path (st', fs)"

lemma runs_saved: "account_runs kc path s \<Longrightarrow> accounts_saved path s"
proof (induction rule: account_runs.induct)
  case (starts fs st)
  then show ?case
    by (auto simp: account_store_def accounts_saved_def stored_accounts_def whole_lines_def file_lines_def)
next
  case (creates s name now_text calls drawn_salt password)
  then show ?case
    by (cases s) (simp add: create_saved)
next
  case (enrols s suite bs calls name)
  then show ?case
    by (cases s) (simp add: enrol_saved)
next
  case (elsewhere st fs fs')
  then show ?case
    by (simp add: accounts_saved_def stored_accounts_def)
next
  case (restarts st fs st')
  then show ?case
    using saved_reloads by fastforce
qed

end
