(* ===== verification/Web_Examples.thy ===== *)
theory Web_Examples
  imports Web_Logins Web_Store Vault_Examples Client_Examples
begin

text \<open>
  A web client with one account on which the theorems about logins, sessions and accounts are applied: alice registers
  from the page of the server, and others try to use her session and to guess her password.
\<close>

definition demo_web_config :: web_config where
  "demo_web_config = \<lparr>wc_listen_host = ''0.0.0.0'', wc_http_port = 80, wc_server_identity = ''me'', wc_admin_token = []\<rparr>"

definition demo_appends :: append_calls where
  "demo_appends = \<lparr>append_directories = None, append_opens = True, append_stored = None\<rparr>"

definition demo_web_env :: web_env where
  "demo_web_env = \<lparr>we_keys = demo_key_lib, we_crypto = sized_crypto, we_steady = 10, we_unix = 100, we_now_text = ''now'',
     we_salt = Some [5], we_token = Some [7], we_csrf = Some [8], we_challenge_session = replicate 16 1, we_challenge_nonce = replicate 32 2,
     we_append = demo_appends, we_keystore = demo_host, we_file_opens = True, we_client = demo_client_env, we_display = demo_display,
     we_room_keys = []\<rparr>"

text \<open>A form of the login page, and a request with the cookie of a session and the token of the page.\<close>

definition demo_form :: "string \<Rightarrow> string \<Rightarrow> request" where
  "demo_form name password = \<lparr>rq_header = (\<lambda>_. [])(''Cookie'' := ''tp2p_csrf=c'', ''X-TradeP2P-PreAuth'' := ''c''),
     rq_param = [''username'' \<mapsto> name, ''password'' \<mapsto> password]\<rparr>"

definition demo_page :: "string \<Rightarrow> string \<Rightarrow> request" where
  "demo_page token csrf = \<lparr>rq_header = (\<lambda>_. [])(''Cookie'' := ''tp2p_session='' @ token, ''X-TradeP2P-Token'' := csrf),
     rq_param = Map.empty\<rparr>"

definition demo_web :: web where
  "demo_web = \<lparr>web_accounts = \<lparr>accounts_path = ''accounts'', accounts = []\<rparr>, web_limiter = \<lparr>auth_failures = Map.empty\<rparr>,
     web_tracker = [], web_sessions = empty_sessions 10 1000 ''med'' ''keys'', web_machine = demo_machine\<rparr>"

lemma demo_web_starts: "web_start True ''accounts'' (empty_sessions 10 1000 ''med'' ''keys'') demo_machine = Inr demo_web"
  by (simp add: web_start_def account_store_def demo_machine_def demo_web_def)

lemma hex_one [simp]: "hex [7] = ''07''" "hex [8] = ''08''"
  by code_simp+

lemma read_cookie_one:
  "name \<noteq> [] \<Longrightarrow> hd name \<noteq> CHR '' '' \<Longrightarrow> CHR ''='' \<notin> set name \<Longrightarrow> CHR '';'' \<notin> set (name @ v) \<Longrightarrow>
     read_cookie wanted (name @ CHR ''='' # v) = (if name = wanted then Some v else None)"
  using cut_at_last [of "CHR '';''" "name @ CHR ''='' # v"] cut_at_append [of "CHR ''=''" name v]
  by (cases name) (simp_all add: read_cookie.simps cookie_of_part_def)

lemma demo_form_allowed: "\<not> forbidden_before_login demo_web_config (demo_form name password)"
  using read_cookie_one [of "''tp2p_csrf''" "''c''" "''tp2p_csrf''"]
  by (simp add: forbidden_before_login_def host_allowed_def demo_web_config_def same_origin_def require_preauth_def cookie_def demo_form_def)

definition demo_account :: Account where
  "demo_account = \<lparr>user_name = ''alice'', salt = [5], password_hash = map byte_of_char ''secret00'' @ [5], created_text = ''now'',
     account_key = None\<rparr>"

definition demo_web_session :: WebSession where
  "demo_web_session = \<lparr>ws_username = ''alice'', ws_csrf_token = ''08'', ws_client = new_client ''med'', ws_last_seen = 10,
     ws_keystore = None, ws_keystore_path = [], ws_history = None\<rparr>"

definition demo_web_user :: web where
  "demo_web_user = demo_web\<lparr>web_accounts := \<lparr>accounts_path = ''accounts'', accounts = [(''alice'', demo_account)]\<rparr>,
     web_sessions := (empty_sessions 10 1000 ''med'' ''keys'')
       \<lparr>sm_sessions := [(''07'', demo_web_session)], sm_active_by_user := [''alice'' \<mapsto> ''07'']\<rparr>,
     web_machine := demo_machine\<lparr>volume := [''accounts'' \<mapsto> map byte_of_char (account_line demo_account @ [CHR 0x0A])]\<rparr>\<rparr>"

lemma demo_names:
  "validate_username ''alice'' = Inr ()" "validate_password ''secret00'' = Inr ()"
  by (simp_all add: validate_username_def validate_password_def throw_if_def isalnum_def isalpha_def)

lemma demo_create:
  "account_create demo_key_lib demo_appends (Some [5]) ''now'' ''alice'' ''secret00''
     (\<lparr>accounts_path = ''accounts'', accounts = []\<rparr>, volume demo_machine) =
   (Inr (), \<lparr>accounts_path = ''accounts'', accounts = [(''alice'', demo_account)]\<rparr>,
     [''accounts'' \<mapsto> map byte_of_char (account_line demo_account @ [CHR 0x0A])])"
  by (simp add: account_create_def derive_def demo_key_lib_def sbind_def action_defs account_exists_def find_account_def throw_if_def
      append_locked_def demo_appends_def on_account_file_def insert_account_def demo_machine_def Let_def demo_account_def)

lemma demo_login:
  "session_login 10 (Some [7]) (Some [8]) ''alice'' (empty_sessions 10 1000 ''med'' ''keys'') =
   (Inr ''07'', (empty_sessions 10 1000 ''med'' ''keys'')
       \<lparr>sm_sessions := [(''07'', demo_web_session)], sm_active_by_user := [''alice'' \<mapsto> ''07'']\<rparr>)"
  by (simp add: session_login_def open_session_def sbind_def action_defs empty_sessions_def throw_if_def random_token_def
      emplace_session_def find_session_def put_session_def demo_web_session_def)

lemma demo_register:
  "web_request demo_web_config demo_web_env Register (demo_form ''alice'' ''secret00'') demo_web =
     ((set_json_result True ''account created'' 200)\<lparr>rs_cookie := Some (session_cookie (demo_form ''alice'' ''secret00'') ''07'')\<rparr>, demo_web_user)"
proof -
  have "required_param (demo_form ''alice'' ''secret00'') ''username'' = Inr ''alice''"
    "required_param (demo_form ''alice'' ''secret00'') ''password'' = Inr ''secret00''"
    by (simp_all add: required_param_def demo_form_def)
  then show ?thesis
    using demo_create demo_login demo_names
    by (simp add: web_register_def demo_form_allowed respond_def sbind_def action_defs on_accounts_def enter_def on_sessions_def
        demo_web_env_def demo_web_def demo_web_user_def)
qed

lemma demo_unused: "unused_token demo_web_env demo_web"
  by (simp add: unused_token_def demo_web_def empty_sessions_def find_session_def)

lemma demo_user_runs: "web_runs demo_web_config demo_web demo_web_user"
  using web_runs.serves [OF web_runs.starts demo_unused, of demo_web_config Register "demo_form ''alice'' ''secret00''"] demo_register by simp

section \<open>Guesses\<close>

definition demo_guessed :: "nat \<Rightarrow> web" where
  "demo_guessed n = demo_web_user\<lparr>web_limiter := \<lparr>auth_failures = (if n = 0 then Map.empty else [''alice'' \<mapsto> replicate n 10])\<rparr>\<rparr>"

lemma demo_guess:
  assumes "n < 5"
  shows "web_request demo_web_config demo_web_env Login (demo_form ''alice'' ''wrong'') (demo_guessed n) =
     (set_json_result False ''invalid username or password'' 400, demo_guessed (Suc n))"
proof -
  have form: "required_param (demo_form ''alice'' ''wrong'') ''username'' = Inr ''alice''"
    "required_param (demo_form ''alice'' ''wrong'') ''password'' = Inr ''wrong''"
    by (simp_all add: required_param_def demo_form_def)
  have pruned: "prune_locked 10 ''alice'' (web_limiter (demo_guessed n)) = web_limiter (demo_guessed n)"
    by (simp add: prune_locked_def demo_guessed_def filter_replicate)
  have "check_attempts demo_web_env ''alice'' (demo_guessed n) = (Inr (), demo_guessed n)"
    using assms pruned by (simp add: check_attempts_run demo_web_env_def Let_def) (simp add: attempts_of_def demo_guessed_def throw_if_def)
  moreover have "account_verify demo_key_lib ''alice'' ''wrong'' (web_accounts (demo_guessed n)) = Inr False"
    by (simp add: account_verify_def find_account_def demo_guessed_def demo_web_user_def derive_def demo_key_lib_def demo_account_def)
  moreover have "record_failure 10 ''alice'' (web_limiter (demo_guessed n)) = (Inr (), web_limiter (demo_guessed (Suc n)))"
    by (simp add: record_failure_run pruned) (simp add: demo_guessed_def attempts_of_def replicate_append_same)
  ultimately show ?thesis
    using form
    by (simp add: web_login_def demo_form_allowed respond_def sbind_def action_defs login_failed_def on_limiter_def demo_web_env_def)
      (simp add: demo_guessed_def)
qed

lemma demo_no_credentials: "\<not> has_credentials ''alice'' demo_web_env Login (demo_form ''alice'' ''wrong'') (demo_guessed n)"
  by (simp add: has_credentials_def knows_password_def demo_form_def demo_guessed_def demo_web_user_def find_account_def demo_account_def
      derive_def demo_web_env_def demo_key_lib_def)

lemma demo_guessing: "n \<le> 5 \<Longrightarrow> guessing demo_web_config ''alice'' 10 (demo_guessed 0) n (demo_guessed n)"
proof (induction n)
  case (Suc n)
  have time: "(10 :: int) \<le> we_steady demo_web_env" "we_steady demo_web_env \<le> 10 + kWindow"
    by (simp_all add: demo_web_env_def)
  have "n < 5"
    using Suc.prems by simp
  from guessing.request [OF Suc.IH time demo_guess [OF this] demo_no_credentials] Suc.prems show ?case
    by (simp add: wrong_guess_def demo_form_def)
qed (rule guessing.begins)

section \<open>Requests of others\<close>

definition demo_web_other :: web_env where
  "demo_web_other = demo_web_env\<lparr>we_token := Some [8]\<rparr>"

lemma demo_other_unused: "unused_token demo_web_other demo_web_user"
  by (simp add: unused_token_def demo_web_other_def demo_web_user_def find_session_def)

lemma demo_user_session: "find_session ''07'' (web_sessions demo_web_user) = Some demo_web_session" "ws_csrf_token demo_web_session = ''08''"
  by (simp_all add: demo_web_user_def find_session_def demo_web_session_def)

lemma demo_page_cookie: "CHR '';'' \<notin> set token \<Longrightarrow> cookie kSessionCookie (demo_page token csrf) = Some token"
  using read_cookie_one [of kSessionCookie token kSessionCookie] by (simp add: cookie_def demo_page_def)

lemma demo_page_token: "rq_header (demo_page token csrf) ''X-TradeP2P-Token'' = csrf"
  by (simp add: demo_page_def)

section \<open>The accounts\<close>

lemma demo_account_runs:
  "account_runs demo_key_lib ''accounts'' (\<lparr>accounts_path = ''accounts'', accounts = [(''alice'', demo_account)]\<rparr>,
     [''accounts'' \<mapsto> map byte_of_char (account_line demo_account @ [CHR 0x0A])])"
proof -
  have "account_runs demo_key_lib ''accounts'' (\<lparr>accounts_path = ''accounts'', accounts = []\<rparr>, volume demo_machine)"
    by (rule account_runs.starts) (simp_all add: demo_machine_def account_store_def)
  from account_runs.creates [OF this demo_names(1), of "''now''" demo_appends "Some [5]" "''secret00''"] demo_create
  show ?thesis
    by (simp add: demo_appends_def)
qed

end
