(* ===== verification/Spec2Isabelle.thy ===== *)
theory Spec2Isabelle
  imports Recovery Progress Receipt Lobby_Inv Lobby_Safety Restart Receipt_Issue Examples Identity_Examples Journal_Examples Vault_Examples Operator_Examples Client_Examples
    Channel_Safety Connection Registry_Connection Client_View Web_Examples
begin

text \<open>
  A model of the UMBRA / tradep2p mediator, of its client, of its public web client and of the client-side rules that go with them. Two parties
  who do not trust each other swap two assets in many small tranches; the mediator never holds value,
  it keeps the order of the tranches, relays what the parties report, and signs receipts. The
  development follows the C++ sources under \<open>src/src\<close> and \<open>src/include/tradep2p\<close>.

  \<^bold>\<open>Parts of the program and their theories\<close>

  \<^item> The wire protocol (\<open>protocol.hpp\<close>, \<open>protocol.cpp\<close>). \<open>Wire\<close> has the \<open>Writer\<close> and \<open>Reader\<close> classes:
    big-endian integers at their width, length-prefixed fields, the cursor and its bounds check.
    \<open>Protocol_Types\<close> has the structs and enums, \<open>Validation\<close> the \<open>validate_*\<close> functions, the hexadecimal
    ids and \<open>tranche_amount\<close>; \<open>Codec_Terms\<close>, \<open>Codec_Offers\<close>, \<open>Codec_Trade\<close>, \<open>Codec_Registry\<close> and
    \<open>Codec_Identity\<close> have one encoder and one decoder per message. Lemmas \<open>*_codec\<close> show for each
    message that the decoder accepts exactly the bytes the encoder produces (C29).
  \<^item> The session of one trade (\<open>mediator.hpp\<close>, \<open>mediator.cpp\<close>). \<open>Mediator\<close> has the class as a record and
    one function per method, each returning the new session or the exception; \<open>session_inv\<close> is the
    class invariant. \<open>Settlement\<close> pairs a session with a ledger of what was reported and bounds it over
    every run (C1 to C3); \<open>Progress\<close> has termination, liveness and replay protection (C4 to C6).
  \<^item> Durable rooms (\<open>room_persistence.hpp\<close>, \<open>room_persistence.cpp\<close>). \<open>Persistence\<close> has the file format and
    the write-to-temporary-then-rename protocol over a map of files, with the outcome of each system
    call as an input (C15), on top of \<open>Atomic_Files\<close>, which has the files, the system calls and the locale
    \<open>atomic_writer\<close> that the journal head, the keystore and the history file interpret.
  \<^item> Receipts (\<open>receipt.hpp\<close>, \<open>receipt.cpp\<close>). \<open>Receipt\<close> has the signed payloads, signing, verification and
    the verification of a chain; \<open>Receipt_Issue\<close> shows that what the lobby issues verifies (C31 and \<open>issued_receipts_verify\<close>).
  \<^item> Recovery advice (\<open>recovery.hpp\<close>, \<open>recovery.cpp\<close>): \<open>Recovery\<close> (\<open>recovery_never_resends_value\<close>).
  \<^item> The journal of a client (\<open>journal.hpp\<close>, \<open>journal.cpp\<close>). \<open>Journal\<close> has the entries and checkpoints, the replay
    that verifies a log, the head pointer and the operations, over a map of files in which a write may stop
    after any byte. \<open>Journal_Safety\<close> has the layout, the invariant of a journal in use and the results on
    reopening and crashes (C17, C18), \<open>Journal_History\<close> those on rollback, tampering and the history of a
    trade (C19, C21) and the comparison with the session of the mediator.
  \<^item> The keystore of a client (\<open>identity.hpp\<close>, \<open>identity.cpp\<close>, \<open>keystore.hpp\<close>, \<open>keystore.cpp\<close>). \<open>Key_Derivation\<close>
    has the derivation of the scoped keys, \<open>Keystore\<close> the encrypted file and its operations (create, unlock,
    change of passphrase, export, import, rotation), \<open>Keystore_Safety\<close> the invariant of a keystore in use, what
    each operation keeps and that it works (C22, C23 and two theorems after them).
  \<^item> The private history of a client (\<open>history.hpp\<close>, \<open>history.cpp\<close>). \<open>History\<close> has the entries, the encrypted file
    and the commands, \<open>History_Safety\<close> the contract of a command as the locale \<open>history_operation\<close>, interpreted
    for the four commands that write, and the results on every sequence of them (C26 to C28).
  \<^item> The lobby server (\<open>lobby.cpp\<close>, class \<open>LobbyServer::Impl\<close>). \<open>Lobby_Data\<close> has the state (clients, offers,
    invites, rooms, price history, persisted rooms, the fee and the disk) and the helpers; \<open>Lobby\<close> has
    every message handler, \<open>dispatch\<close>, the error policy of \<open>client_loop\<close>, connection, disconnection and fee
    confirmation. \<open>Lobby_Inv\<close> has the invariant of the reachable lobbies (C9), \<open>Lobby_Safety\<close> the
    isolation, strike, clean-up and browsing results (C10 to C12, \<open>offers_are_browsed_once\<close>), \<open>Restart\<close> the refinement of a lobby by
    the lobby restored from its own file (C14).
  \<^item> The operator's side of the mediator (\<open>lobby.cpp\<close>). \<open>Mediator_Config\<close> has the environment variables, the
    configuration file in which a changed fee is kept and the key files; \<open>Operator\<close> the constructor, the admin
    channel with its two tokens, the fee plugin and the channel of the mediator's proof; \<open>Operator_Safety\<close> and
    \<open>Operator_Examples\<close> the results (C38 and four theorems beside it).
  \<^item> Signed messages between parties (\<open>recognition.cpp\<close>, \<open>login.cpp\<close>, \<open>disclosure.cpp\<close>, \<open>ephemeral.cpp\<close>,
    \<open>mediator_auth.cpp\<close>). \<open>Recognition\<close> has the two challenge trackers and their payloads (C35),
    \<open>Disclosure\<close> the disclosure of receipts, trade messages and mediator authentication (C34);
    \<open>Signed_Payloads\<close> states the contract all signed formats share as a locale, interprets it for each of
    them and shows that their union is unambiguous (C30).
  \<^item> The registry of mediators (\<open>registry.cpp\<close>). \<open>Text_Parsing\<close> has the number and text conversions of the
    standard library, \<open>Registry\<close> the state, requests, peer pulls, the operator's line protocol and the
    configuration of peers, \<open>Registry_Safety\<close> the invariant over all histories and the results on
    listings and approvals (C37), \<open>Registry_Connection\<close> the conversation of the server with a client over the
    framed channel: the frames of a request for the list and of its answer carry the listing across (C36).
  \<^item> The client of the dashboards (\<open>dashboard_client.hpp\<close>, \<open>dashboard_client.cpp\<close>). \<open>Trading_Client\<close> has what the client
    keeps, the actions of its users, one function per frame of the mediator, the queue and the connection, with
    the generated keys, the unlocked recognition key and the clock as inputs of a step. \<open>Client_Safety\<close> states the
    contract of an invariant of the client as the locales \<open>client_steps\<close>, \<open>client_frames\<close>, \<open>client_receipts\<close> and
    \<open>client_invariant\<close> and interprets them for what is shown of receipts, the pinned keys, the event list, the
    connection and a room in trade (C25). \<open>Client_Trade\<close> composes two clients with the session of the mediator
    (C7), \<open>Client_Receipts\<close> the client with the receipts the lobby issues (C24). A user's action is one step, but
    for the frame of an overtaken thread, which may be queued at any time (\<open>client_step\<close>).

  \<^item> The framed TLS channel (\<open>secure_channel.hpp\<close>, \<open>secure_channel.cpp\<close>). \<open>Channel\<close> has the loops that move whole
    buffers over calls that move part of them (their contracts are the locales \<open>exact_reader\<close> and \<open>exact_writer\<close>, which
    the TLS and the plain socket loops interpret), \<open>send_frame\<close> and \<open>receive_frame\<close>, closing and moving a channel.
    \<open>Channel_Safety\<close> relates a frame to its bytes and has the link between two channels, a step relation in which bytes
    arrive in pieces of any size and calls may fail, which refines a queue (C20), and what two working ends deliver (\<open>messages_survive_chunking\<close>).
    \<open>Connection\<close> has the resolver loop, the SOCKS5 handshake, the certificate pin, the ways to connect and the
    listener, over the list of open descriptors (C32).
  \<^item> What the dashboards read. \<open>Json\<close> has \<open>json_escape\<close> and, as the specification of a document, JSON values with a
    printer and a reader that inverts it. \<open>State_Views\<close> has the display texts of the mediator and of the registry
    (\<open>write_state_snapshot\<close> in \<open>lobby.cpp\<close> and \<open>registry.cpp\<close>) and the replacement of the file they are written to,
    \<open>Client_View\<close> those of the client (\<open>state_json\<close>, \<open>candles_json\<close>) and the poll of a registry: each text reads
    back as exactly the state it shows (C40 and two theorems after it).
  \<^item> The public web client (\<open>http_webclient.cpp\<close>). \<open>Web_Accounts\<close> has the account file and the class over it,
    \<open>Web_Sessions\<close> the limiter of failed logins and the sessions with their client, keystore and history, \<open>Web_Client\<close> one
    function per route with its checks on host, origin, cookies and tokens, over the state of the whole server. \<open>Web_Safety\<close>
    has the invariant of the sessions and that a request changes only the inside of its own session; \<open>Web_Parts\<close> the
    contract of a statement the sessions cannot disturb, the locale \<open>apart_from_sessions\<close>, interpreted for the accounts, the
    limiter and the login challenges; \<open>Web_Logins\<close> the
    relation of everything that can happen to the server, what a login has to show (C13), isolation and forged requests
    (C16) and the bound on guesses (C33); \<open>Web_Store\<close> that a record reads back and the accounts survive a restart (C39).
    A request is one step, as the handlers are elsewhere; \<open>Web_Examples\<close> has the server on which the theorems are applied.

  \<open>Prelude\<close> has the exceptions and the result and state-with-exceptions combinators; \<open>Examples\<close>,
  \<open>Identity_Examples\<close>, \<open>Journal_Examples\<close>, \<open>Vault_Examples\<close> and \<open>Client_Examples\<close> the concrete trade, keys, lobby, registry,
  journal, keystore, history and client on which the theorems are applied. The section on where
  the code does less than it says has theorems without a number; they back the findings.

  \<^bold>\<open>How code becomes definitions\<close>

  A struct is a record, an enum a datatype; an enum that is cast from a byte of the wire has one extra
  constructor for the bytes without a name. Integers keep their width (\<open>u8\<close> to \<open>u64\<close> are words), so
  additions wrap where the code's do. A function that can throw returns \<open>exn + 'a\<close>, with the class and
  the message of the exception; a method that changes an object returns the changed object; a lobby
  handler is an action \<open>lobby \<Rightarrow> (exn + 'a) \<times> lobby\<close>, so what was changed before a throw stays changed.
  Hash maps are association lists whose order stands for the unspecified iteration order. A handler is
  one step: its critical sections follow one another in the order of the code, and interleavings of two
  clients inside one handler are not modelled; the order of the steps of different clients is free
  (\<open>serves\<close>).

  Outside code is a parameter. The record \<open>crypto\<close> has the signature, verification and hash functions of
  the OpenSSL layer; a theorem that needs more than their type says what (\<open>signatures_verify\<close>, injectivity
  of the hash on the chains at hand). The record \<open>env\<close> has the clock, the draws of the random generator
  and the outcome of the system calls of one step. \<open>config\<close> is what the process reads at start-up. The
  registry gets its clock readings, in nanoseconds, and the replies of its peers as arguments. The record
  \<open>key_crypto\<close> has the key derivation, the authenticated encryption and the key pairs the keystore and the
  history use, with laws such as \<open>aead_opens\<close> stated where they are needed; \<open>machine\<close> has the files and the
  random bytes still to be drawn.

  \<^bold>\<open>Bounds\<close>

  There is no fuel in the model of the code (the JSON reader, which is specification, recurses on the length of
  its text): loops are recursions over lists or over the remaining
  payload. The liveness and termination theorems count reports: a session of \<open>n\<close> rounds takes two reports
  per leg and two legs per round, and the join, the fee report, its confirmation and the two receipt
  acknowledgements are the five more. Browsing takes as many pages as there are offers at most.

  \<^bold>\<open>Not modelled\<close>

  The sockets and OpenSSL themselves: what their calls answer is an input of the channel, and the settings of a TLS
  context and the calls that fill the session summary are left out; threads and the poll loops, the OpenSSL wrappers, the
  pages and the start-up arguments of the web client and requests that run at the same time there, the three local HTTP
  dashboards, the command-line program (\<open>main.cpp\<close>), the older copy of the lobby (\<open>lobby_old.cpp\<close>), the vendored HTTP library, the experimental blind-signature code (compiled only under
  \<open>TRADEP2P_ENABLE_BLINDSIG_EXPERIMENTAL\<close>, whose dispatch cases are left out). The invite handlers are
  modelled although \<open>dispatch\<close> does not call them, as in the code.
\<close>

section \<open>Settlement of one room\<close>

text \<open>
  C1. A session that completes has settled the trade exactly: whatever sequence of accepted calls led
  to completion, the amounts the receivers confirmed add up to the agreed totals of both assets,
  nothing that was reported sent is unconfirmed, and the mediator fee was reported exactly once.
\<close>

theorem completed_trade_is_settled:
  assumes "runs s g" and "MediatorSession.state s = SessionComplete"
  shows "received_from_a g = unat (total_a (session_terms s)) \<and>
    received_from_b g = unat (total_b (session_terms s)) \<and>
    sent_a g = received_from_a g \<and> sent_b g = received_from_b g \<and>
    fee_sent g = unat (fee_amount s)"
  using complete_totals [OF assms] by simp

theorem completed_trade_is_settled_witness:
  "\<exists>s g. runs s g \<and> MediatorSession.state s = SessionComplete \<and>
     received_from_a g = unat (total_a (session_terms s))"
  using demo_run_complete completed_trade_is_settled by blast

text \<open>
  C2. Exposure is bounded by one tranche in every state of every run, aborted ones included: the
  confirmed amounts are whole tranches, and neither party has ever reported sending beyond the
  tranche that follows the rounds in which it was itself paid.
\<close>

theorem exposure_at_most_one_tranche:
  assumes "runs s g"
  shows "\<exists>ka kb. ka \<le> unat (rounds (session_terms s)) \<and> kb \<le> unat (rounds (session_terms s)) \<and>
    received_from_a g = paid s PartyA ka \<and> received_from_b g = paid s PartyB kb \<and>
    sent_a g \<le> paid s PartyA (min (kb + 1) (unat (rounds (session_terms s)))) \<and>
    sent_b g \<le> paid s PartyB (min (ka + 1) (unat (rounds (session_terms s))))"
  by (rule exposure [OF assms])

theorem exposure_at_most_one_tranche_witness:
  "\<exists>s g ka kb. runs s g \<and> sent_a g = 5 \<and> received_from_a g = paid s PartyA ka \<and>
     sent_a g \<le> paid s PartyA (min (kb + 1) (unat (rounds (session_terms s))))"
  using demo_half exposure_at_most_one_tranche by blast

text \<open>
  C3. The final action is gated: in every run, the last leg of a trade without a trailing fee, the
  trailing fee leg and completion itself are only reached after both parties acknowledged the final
  receipt.
\<close>

theorem final_action_needs_both_acknowledgements:
  assumes "runs s g"
    and "MediatorSession.state s = SessionComplete \<or>
      (MediatorSession.state s = WaitingForSent \<or> MediatorSession.state s = WaitingForReceived) \<and>
        (fee_amount s = 0 \<or> MediatorSession.fee_position s \<noteq> AfterLastRound) \<and> MediatorSession.leg_index s = 1 \<and>
        unat (MediatorSession.round_index s) + 1 = unat (rounds (session_terms s)) \<or>
      (MediatorSession.state s = WaitingForFeeSent \<or> MediatorSession.state s = WaitingForFeeConfirmation) \<and>
        MediatorSession.fee_position s = AfterLastRound"
  shows "final_receipt_acked PartyA s \<and> final_receipt_acked PartyB s"
  using runs_inv [OF assms(1)] assms(2)
  by (auto simp: session_inv_def leg_at_def fee_leg_at_def both_acked_def final_leg_gated_def final_receipt_acked_def)

theorem final_action_needs_both_acknowledgements_witness:
  "\<exists>s g. runs s g \<and> MediatorSession.state s = SessionComplete \<and> final_receipt_acked PartyB s"
  using demo_run_complete final_action_needs_both_acknowledgements by blast

text \<open>
  C4. Liveness under cooperation: from any reachable state that was not aborted, if each party (and the
  operator, where the fee needs confirmation) makes the one report that is due, every report is
  accepted and the session completes after at most four reports per round and five more.
\<close>

theorem cooperating_parties_complete:
  assumes "runs s g" and "MediatorSession.state s \<noteq> Aborted" and "validate_address addr = Inr ()"
  shows "\<exists>k \<le> 4 * unat (rounds (session_terms s)) + 5.
    MediatorSession.state (cooperate addr k s) = SessionComplete"
  using cooperate_completes [OF runs_inv [OF assms(1)] assms(2,3) remaining_bound] .

theorem cooperating_parties_complete_witness:
  "\<exists>k \<le> 9. MediatorSession.state (cooperate ''addrB'' k (demo_session demo_fee True BeforeLastRound)) = SessionComplete"
  using cooperating_parties_complete [OF demo_runs(2) [of True BeforeLastRound], of "''addrB''"]
  by (auto simp: demo_session_def demo_creator_def demo_terms_def valid_simps printable_char_def)

text \<open>
  C5. No livelock: a sequence of accepted reports without an abort is never longer than four per round
  and five more, whatever the order and whoever makes them.
\<close>

theorem runs_are_bounded:
  assumes "runs s g" and "play es s g = Inr (s', g')" and "\<forall>e\<in>set es. \<nexists>why. e = AbortRoom why"
  shows "length es \<le> 4 * unat (rounds (session_terms s)) + 5"
  using play_bounded [OF assms(2) runs_inv [OF assms(1)] assms(3)] remaining_bound [of s] by linarith

theorem runs_are_bounded_witness:
  "length demo_trade \<le> 4 * unat (rounds (session_terms (demo_session default_fee False AfterLastRound))) + 5"
proof -
  obtain s g where "play demo_trade (demo_session default_fee False AfterLastRound) empty_ledger = Inr (s, g)"
    using demo_completes by blast
  then show ?thesis
    by (rule runs_are_bounded [OF demo_runs(1)]) (simp add: demo_trade_def demo_join_def)
qed



text \<open>
  Whenever a party has to act, its turn can be computed, has a positive amount, names the party that
  the session waits for, and can be put on the wire.
\<close>

theorem due_turns_are_announced:
  assumes "runs s g"
    and "MediatorSession.state s = WaitingForSent \<or> MediatorSession.state s = WaitingForReceived \<or>
      MediatorSession.state s = WaitingForFeeSent"
  shows "\<exists>t bs. current_turn s = Inr t \<and> encode_turn t = Inr bs \<and> 0 < TurnMessage.amount t \<and>
    current_sender s = Inr (TurnMessage.sender t) \<and> TurnMessage.round_index t = MediatorSession.round_index s"
  by (rule turn_announced [OF runs_inv [OF assms(1)] assms(2)])

theorem due_turns_are_announced_witness:
  "\<exists>s g t bs. runs s g \<and> MediatorSession.state s = WaitingForSent \<and> current_turn s = Inr t \<and> encode_turn t = Inr bs"
proof -
  have "\<exists>s g. runs s g \<and> MediatorSession.state s = WaitingForSent"
    by (rule demo_reaches [where es = "[demo_join]" and f = default_fee and confirm = False and pos = AfterLastRound]) code_simp+
  then show ?thesis
    using due_turns_are_announced by blast
qed

text \<open>
  C8. The tranches of a total split over its rounds: all of them are defined and positive, they add up
  to the total without a remainder, and they differ by at most one unit.
\<close>

theorem tranches_split_the_total:
  assumes "r \<noteq> 0" and "unat r \<le> unat tot"
  shows "\<exists>a. (\<forall>i < r. tranche_amount tot r i = Inr (a i) \<and> 0 < a i) \<and>
    (\<Sum>i<unat r. unat (a (of_nat i))) = unat tot \<and>
    (\<forall>i < r. \<forall>j < r. unat (a i) \<le> unat (a j) + 1)"
proof -
  let ?n = "\<lambda>i :: u32. tranche_nat (unat tot) (unat r) (unat i)"
  let ?a = "\<lambda>i :: u32. of_nat (?n i) :: u64"
  have r: "0 < unat r"
    using assms(1) by (simp add: unat_gt_0)
  have n: "unat (of_nat (tranche_nat (unat tot) (unat r) k) :: u64) = tranche_nat (unat tot) (unat r) k" for k
    using tranche_nat_le [OF r, of "unat tot" k] unsigned_less [of tot, where ?'a = nat]
    by (simp add: unat_of_nat)
  have idx: "unat (of_nat i :: u32) = i" if "i < unat r" for i
    using that unsigned_less [of r, where ?'a = nat] by (simp add: unat_of_nat)
  have sum: "(\<Sum>i<unat r. unat (?a (of_nat i))) = (\<Sum>i<unat r. tranche_nat (unat tot) (unat r) i)"
    by (rule sum.cong) (simp_all only: n idx lessThan_iff)
  have "\<forall>i < r. tranche_amount tot r i = Inr (?a i) \<and> 0 < ?a i"
    using assms tranche_positive [OF r assms(2)] n by (auto simp: tranche_amount_nat word_less_nat_alt)
  moreover have "(\<Sum>i<unat r. unat (?a (of_nat i))) = unat tot"
    using sum sum_tranche [OF r] by (rule trans)
  moreover have "unat (?a i) \<le> unat (?a j) + 1" for i j :: u32
    unfolding n by (simp add: tranche_nat_def)
  ultimately show ?thesis
    by (intro exI [of _ ?a]) blast
qed

theorem tranches_split_the_total_witness:
  "\<exists>a. (\<Sum>i<3. unat (a (of_nat i :: u32) :: u64)) = 10"
  using tranches_split_the_total [of 3 10] by auto

text \<open>
  Endings are final: an aborted session accepts nothing but a further abort, a completed one accepts
  nothing at all, and only an abort aborts.
\<close>

theorem endings_are_final:
  "(MediatorSession.state s = Aborted \<and> apply_event e s = Inr s' \<longrightarrow>
      (\<exists>why. e = AbortRoom why) \<and> MediatorSession.state s' = Aborted) \<and>
   (MediatorSession.state s = SessionComplete \<longrightarrow> (\<exists>ex. apply_event e s = Inl ex)) \<and>
   (apply_event e s = Inr s' \<and> MediatorSession.state s' = Aborted \<and> MediatorSession.state s \<noteq> Aborted \<longrightarrow>
      (\<exists>why. e = AbortRoom why))"
proof (intro conjI impI)
  assume a: "MediatorSession.state s = Aborted \<and> apply_event e s = Inr s'"
  then obtain why where "e = AbortRoom why"
    using aborted_accepts by blast
  with a show "\<exists>why. e = AbortRoom why" "MediatorSession.state s' = Aborted"
    by (auto simp: abort_def exn_simps Let_def)
next
  assume "MediatorSession.state s = SessionComplete"
  then show "\<exists>ex. apply_event e s = Inl ex"
    by (cases e) (simp_all add: join_def sender_reported_sent_def receiver_reported_received_def
        acknowledge_final_receipt_def confirm_fee_received_def abort_def)
qed (use only_abort_aborts in blast)

theorem endings_are_final_witness:
  "\<exists>s g. runs s g \<and> MediatorSession.state s = SessionComplete \<and> (\<exists>ex. apply_event (AbortRoom []) s = Inl ex)"
  using demo_run_complete endings_are_final by blast

section \<open>The lobby\<close>

text \<open>
  C9. In every lobby the mediator can reach by connections, frames, disconnections, fee changes and fee
  confirmations, each room is stored under its own id and its session is one a run of accepted calls
  reaches; no id is both an open offer and a room; and the caps on clients, offers, rooms, queued
  frames and price series hold.
\<close>

theorem reachable_lobbies_are_consistent:
  assumes "serves cfg s"
  shows "length (clients s) \<le> kMaxClients \<and> length (lobby.offers s) \<le> kMaxOpenOffers \<and>
    length (rooms s) \<le> kMaxRooms \<and> length (price_history s) \<le> kMaxTrackedPairs \<and>
    (\<forall>(k, c)\<in>set (clients s). length (outgoing c) \<le> kMaxQueuedFrames) \<and>
    (\<forall>i. length (filter (\<lambda>(_, offer). OpenOffer.creator offer = i) (lobby.offers s)) \<le> kMaxOffersPerClient) \<and>
    distinct (map fst (rooms s)) \<and> fst ` set (lobby.offers s) \<inter> fst ` set (rooms s) = {} \<and>
    (\<forall>(k, room)\<in>set (rooms s). k = hex (rid room) \<and> MediatorSession.room_id (session room) = rid room \<and>
       (\<exists>g. runs (session room) g))"
  using serves_inv [OF assms]
  by (auto simp: lobby_inv_def clients_inv_def offers_inv_def rooms_inv_def prices_inv_def room_ok_def own_offers_def)

theorem reachable_lobbies_are_consistent_witness:
  "\<exists>s. serves (demo_config True AfterLastRound) s \<and> length (clients s) = 1 \<and> length (clients s) \<le> kMaxClients"
proof -
  let ?e = "demo_env\<lparr>random_ids := [demo_client_a]\<rparr>"
  have ok: "(case connect_client ?e (empty_lobby default_fee Map.empty) of (r, s) \<Rightarrow> length (clients s) = 1)"
    by code_simp
  obtain r s where c: "connect_client ?e (empty_lobby default_fee Map.empty) = (r, s)"
    by (rule prod.exhaust)
  have "serves (demo_config True AfterLastRound) s"
    by (rule serves_connect [OF serves_start _ c]) (use demo_keys(1) in \<open>simp add: client_key_def\<close>)
  then show ?thesis
    using reachable_lobbies_are_consistent [of "demo_config True AfterLastRound" s] ok c by auto
qed

text \<open>
  C10. Isolation: whatever frame a client sends, a room it is not a member of is left exactly as it was.
\<close>

theorem rooms_of_others_are_untouched:
  assumes "lobby_inv s" and "map_of (rooms s) k = Some room"
    and "RoomEntry.party_a room \<noteq> client" and "RoomEntry.party_b room \<noteq> client"
    and "connected client s" and "\<forall>i\<in>set (random_ids e). is_room_id i"
  shows "map_of (rooms (process_frame cfg e client t bs s)) k = Some room"
  using process_frame_others [OF assms(1,2) _ connected_key [OF assms(1,5)] assms(6)] assms(3,4)
  by (simp add: member_room_def)

theorem rooms_of_others_are_untouched_witness:
  "map_of (rooms (process_frame (demo_config True AfterLastRound) demo_env demo_client_c Abort [1, 2]
     (demo_lobby (demo_session default_fee False AfterLastRound)))) (hex demo_id) =
     Some (demo_room (demo_session default_fee False AfterLastRound))"
proof -
  have "lobby_inv (demo_lobby (demo_session default_fee False AfterLastRound))"
    by (rule demo_lobby_inv [OF demo_runs(1)]) (simp add: demo_session_def)
  then show ?thesis
    by (rule rooms_of_others_are_untouched)
       (use demo_keys in \<open>auto simp: demo_lobby_def demo_room_def room_entry_def connected_def demo_client_def
         demo_env_def is_room_id_def\<close>)
qed

text \<open>
  C11. Strikes: a frame changes nobody's strike count except that of its sender, and that one only
  when the frame failed for another reason than a benign rejection; then it grows by one, and a client
  whose third broken message was just processed is no longer alive.
\<close>

theorem broken_messages_are_counted:
  "strikes (process_frame cfg e client t bs s) =
     (if t = Disconnect then strikes s
      else case fst (dispatch cfg e client t bs s) of
        Inr _ \<Rightarrow> strikes s
      | Inl (BenignRejection _) \<Rightarrow> strikes s
      | Inl _ \<Rightarrow> map (\<lambda>(k, n). (k, if k = hex client then n + 1 else n)) (strikes s)) \<and>
   (t \<noteq> Disconnect \<and> fst (dispatch cfg e client t bs s) = Inl ex \<and> (\<nexists>w. ex = BenignRejection w) \<and>
     (hex client, c) \<in> set (clients (process_frame cfg e client t bs s)) \<and> bad_messages c \<ge> 3 \<longrightarrow> \<not> alive c)"
  using process_frame_strikes [of cfg e client t bs s] process_frame_three_strikes [of t cfg e client bs s ex c] by blast

theorem broken_messages_are_counted_witness:
  "\<exists>c. (hex demo_client_a, c) \<in> set (clients (process_frame (demo_config True AfterLastRound) demo_env
      demo_client_a Welcome [] demo_struck)) \<and> \<not> alive c"
proof -
  have d: "fst (dispatch (demo_config True AfterLastRound) demo_env demo_client_a Welcome [] demo_struck) =
      Inl (Invalid_argument ''message type is not accepted from clients'')"
    by (simp add: dispatch_def sthrow_def)
  then have "(hex demo_client_a, 3) \<in> set (strikes (process_frame (demo_config True AfterLastRound) demo_env
      demo_client_a Welcome [] demo_struck))"
    unfolding process_frame_strikes by (simp add: demo_struck_def strikes_def)
  then obtain c where "(hex demo_client_a, c) \<in> set (clients (process_frame (demo_config True AfterLastRound)
      demo_env demo_client_a Welcome [] demo_struck))" "bad_messages c = 3"
    by (auto simp: strikes_def)
  then show ?thesis
    using broken_messages_are_counted [of "demo_config True AfterLastRound" demo_env demo_client_a Welcome "[]" demo_struck] d
    by fastforce
qed

text \<open>
  C12. Departure: when a client is removed, whether or not the clean-up throws on the way, it is no
  longer connected, all its open offers are gone, and the only rooms it was in that survive are
  those that wait for the operator's fee confirmation; everybody else's entries stay.
\<close>

theorem departure_cleans_up:
  assumes "remove_client cfg e client s = (r, s')" and "nonzero client"
  shows "map fst (clients s') = filter (\<lambda>k. k \<noteq> hex client) (map fst (clients s)) \<and>
    lobby.offers s' = filter (\<lambda>(_, offer). OpenOffer.creator offer \<noteq> client) (lobby.offers s) \<and>
    rooms s' = filter (\<lambda>(_, room). \<not> (member_room client room \<and>
      \<not> (active room \<and> MediatorSession.state (session room) = WaitingForFeeConfirmation))) (rooms s)"
  using remove_client_effect [OF assms] by (simp add: keep_room_def)

theorem departure_cleans_up_witness:
  "\<exists>r s'. remove_client (demo_config True AfterLastRound) demo_env demo_client_a
     (demo_lobby (demo_session default_fee False AfterLastRound)) = (r, s') \<and> rooms s' = []"
proof -
  obtain r s' where r: "remove_client (demo_config True AfterLastRound) demo_env demo_client_a
     (demo_lobby (demo_session default_fee False AfterLastRound)) = (r, s')"
    by (rule prod.exhaust)
  then show ?thesis
    using departure_cleans_up [OF r] demo_keys
    by (auto simp: client_key_def demo_lobby_def demo_room_def room_entry_def member_room_def demo_session_def)
qed

text \<open>
  Browsing: a client that asks for offers and follows the returned cursors with any positive page
  limit sees every open offer exactly once, in the order of the ids, and the browsing ends.
\<close>

theorem offers_are_browsed_once:
  assumes "lobby_inv s" and "lim \<noteq> 0" and "length (lobby.offers s) < n"
  shows "browse n s lim None = summaries s"
  using browse_all [of s lim n] assms by (simp add: lobby_inv_def)

theorem offers_are_browsed_once_witness:
  "browse 1 (empty_lobby default_fee Map.empty) 2 None = summaries (empty_lobby default_fee Map.empty)"
  by (rule offers_are_browsed_once [OF empty_lobby_inv]) (simp_all add: empty_lobby_def)

text \<open>
  Error replies never fail: every rejection text, whatever bytes it contains, is turned into a
  reason that encodes, so the client gets an Error frame instead of being dropped.
\<close>

theorem error_replies_encode:
  "\<exists>bs. encode_error \<lparr>ErrorMessage.reason = safe_reason why\<rparr> = Inr bs \<and>
     decode_error bs = Inr \<lparr>ErrorMessage.reason = safe_reason why\<rparr> \<and>
     send_error i why s = snd (enqueue i Error bs s)"
  using safe_reason_encodes [of why] send_error_queues [of i why s] error_codec by auto

text \<open>
  Price series: two trades are recorded under the same key exactly when they exchange the same two
  assets, in whichever direction.
\<close>

theorem price_series_identify_the_pair:
  assumes "validate_asset a = Inr ()" and "validate_asset b = Inr ()"
    and "validate_asset c = Inr ()" and "validate_asset d = Inr ()"
  shows "pair_key (canonical_pair a b) = pair_key (canonical_pair c d) \<longleftrightarrow> {a, b} = {c, d}"
proof -
  have "pair_key (canonical_pair a b) = pair_key (canonical_pair c d) \<longleftrightarrow> canonical_pair a b = canonical_pair c d"
    using assms [THEN asset_has_no_slash]
    by (cases "a \<le> b"; cases "c \<le> d") (auto simp: canonical_pair_def dest: pair_key_inj [rotated 2])
  also have "\<dots> \<longleftrightarrow> {a, b} = {c, d}"
    by (auto simp: canonical_pair_def doubleton_eq_iff)
  finally show ?thesis .
qed

theorem price_series_identify_the_pair_witness:
  "pair_key (canonical_pair ''XMR'' ''BTC'') = pair_key (canonical_pair ''BTC'' ''XMR'')"
  by (subst price_series_identify_the_pair) code_simp+

section \<open>Crash recovery\<close>



text \<open>
  C15. Writing the persisted rooms is all or nothing: if it returns, the file holds the encoding of the
  new contents; if any step fails, the file is exactly as before; no other file changes but the
  temporary one.
\<close>

theorem persisted_write_is_atomic:
  assumes "write_persisted_rooms calls path file fs = (r, fs')"
  shows "(case r of
      Inr u \<Rightarrow> \<exists>bs. encode_persisted_rooms file = Inr bs \<and> fs' path = Some bs
    | Inl e \<Rightarrow> fs' path = fs path) \<and>
    (\<forall>p. p \<noteq> path \<and> p \<noteq> path @ ''.tmp'' \<longrightarrow> fs' p = fs p)"
  by (rule write_cases [OF assms])

theorem persisted_write_is_atomic_witness:
  "\<exists>r fs'. write_persisted_rooms \<lparr>open_ok = True, write_ok = False, close_ok = True, rename_ok = True\<rparr>
      ''rooms'' empty_file [''rooms'' \<mapsto> [1, 2]] = (r, fs') \<and> fs' ''rooms'' = Some [1, 2]"
proof -
  let ?w = "write_persisted_rooms \<lparr>open_ok = True, write_ok = False, close_ok = True, rename_ok = True\<rparr>
      ''rooms'' empty_file [''rooms'' \<mapsto> [1, 2]]"
  have "case fst ?w of Inl e \<Rightarrow> True | Inr u \<Rightarrow> False"
    by code_simp
  moreover obtain r fs' where "?w = (r, fs')"
    by (rule prod.exhaust)
  ultimately show ?thesis
    using persisted_write_is_atomic [of _ "''rooms''" empty_file "[''rooms'' \<mapsto> [1, 2]]" r fs']
    by (auto split: sum.splits)
qed

text \<open>
  The persisted-room format is canonical: a byte string decodes to a list of rooms exactly when it is
  the encoding of that list and every record is well formed (ids present, leg 0 or 1, a known state
  byte or one beyond the enumeration), so nothing else is ever accepted from disk.
\<close>

theorem persisted_file_is_canonical:
  "decode_persisted_rooms bs = Inr file \<longleftrightarrow> encode_persisted_rooms file = Inr bs \<and> wf_file file"
  by (rule persisted_rooms_codec)

text \<open>
  Recovery never repeats a transfer on its own: the classification offers an automatic retry only
  when the mediator's answer was found at the journal's round, the last local entry is pending and
  it is not an outbound value-bearing message; an outbound pending Sent always needs confirmation.
\<close>

theorem recovery_never_resends_value:
  "(category (classify_recovery_action l r) = SafeIdempotentRetry \<longleftrightarrow>
     (\<exists>entry remote. l = Some entry \<and> r = Some remote \<and> found remote \<and>
        RecoveryStateResponseMessage.round_index remote = JournalEntryFields.round (entry_fields entry) \<and>
        ack_state (entry_fields entry) = Pending \<and>
        \<not> (direction (entry_fields entry) = Outbound \<and>
           message_type_value (JournalEntryFields.message_type (entry_fields entry)) = message_type_value Sent))) \<and>
   (category (classify_recovery_action l r) = UnsafeRequiresConfirmation \<longleftrightarrow>
     (\<exists>entry remote. l = Some entry \<and> r = Some remote \<and> found remote \<and>
        RecoveryStateResponseMessage.round_index remote = JournalEntryFields.round (entry_fields entry) \<and>
        ack_state (entry_fields entry) = Pending \<and> direction (entry_fields entry) = Outbound \<and>
        message_type_value (JournalEntryFields.message_type (entry_fields entry)) = message_type_value Sent))"
  unfolding safe_retry_iff unsafe_iff is_value_bearing_message_type_def by blast

section \<open>The journal of a client\<close>







text \<open>
  Tamper evidence: two logs that both open and end in the same entry hash contain the same entries,
  field by field, provided the hash does not collide on the entries of the two logs.
\<close>

theorem last_hash_determines_the_journal:
  assumes "open_journal c calls log head pk ml fs = (Inr j, fs')" and "open_journal c calls' log' head' pk' ml' gs = (Inr j', gs')"
    and "chain_head j = chain_head j'" and "Journal.entries j \<noteq> []" and "Journal.entries j' \<noteq> []"
    and "length (Journal.entries j) \<le> 2 ^ 64" and "length (Journal.entries j') \<le> 2 ^ 64"
    and "inj_on (sha256 c) (hash_input ` (set (Journal.entries j) \<union> set (Journal.entries j')))"
  shows "Journal.entries j = Journal.entries j'"
  using open_gives_complete_log [OF assms(1)] open_gives_complete_log [OF assms(2)] replays_chain assms(3-8)
  by (metis same_head_same_journal)

theorem last_hash_determines_the_journal_witness:
  "\<exists>j :: Journal. Journal.entries j \<noteq> [] \<and> (\<forall>fs j' fs'. open_journal demo_journal_crypto demo_open_calls ''log'' ''head'' [] (Some []) fs = (Inr j', fs') \<and>
     Journal.entries j' \<noteq> [] \<and> chain_head j = chain_head j' \<and> hash_input ` set (Journal.entries j') \<subseteq> hash_input ` set (Journal.entries j) \<and>
     length (Journal.entries j') \<le> 2 ^ 64 \<longrightarrow> Journal.entries j = Journal.entries j')"
proof -
  obtain e where e: "Journal.entries (handle demo_appended) = [e]"
    using demo_appended_entries by blast
  have "open_journal demo_journal_crypto demo_open_calls ''log'' ''head'' [] (Some []) (journal_state.disk demo_appended) =
      (Inr (handle demo_appended), journal_state.disk demo_appended)"
    using uses_intact [OF demo_uses_appended demo_journal_setting(1,2)] intact_opens [OF _ demo_journal_setting(3)] by metis
  note d = last_hash_determines_the_journal [OF this]
  have same: "Journal.entries (handle demo_appended) = Journal.entries j'"
    if "open_journal demo_journal_crypto demo_open_calls ''log'' ''head'' [] (Some []) fs = (Inr j', fs')"
      "Journal.entries j' \<noteq> []" "chain_head (handle demo_appended) = chain_head j'"
      "hash_input ` set (Journal.entries j') \<subseteq> hash_input ` set (Journal.entries (handle demo_appended))"
      "length (Journal.entries j') \<le> 2 ^ 64" for fs j' fs'
    by (rule d [OF that(1)]) (use that e in \<open>auto simp: inj_on_def image_subset_iff\<close>)
  show ?thesis
  proof (intro exI [of _ "handle demo_appended"] conjI allI impI)
    show "Journal.entries (handle demo_appended) \<noteq> []"
      using e by simp
  qed (elim conjE, rule same)
qed

text \<open>
  C21. Histories: in every journal in use, the local states recorded for one trade start at WaitingForPeer
  and only follow allowed transitions, and the state the journal checks the next append against is that of
  the entry \<open>latest_for_trade\<close> returns.
\<close>

theorem trade_histories_are_legal:
  assumes "uses c seed pk seed2 pk2 log head s" and "journal_keys c seed pk seed2 pk2" and "separate_paths log head"
  shows "legal_history (trade_states t (Journal.entries (handle s))) \<and>
    last_state_by_trade (handle s) (trade_id_hex t) =
      map_option (\<lambda>e. local_state (entry_fields e)) (latest_for_trade t (handle s))"
proof -
  have "tracks (handle s)"
    using uses_intact [OF assms] replays_tracks by (auto simp: intact_def)
  then show ?thesis
    using latest_state [of "handle s" t] unfolding tracks_def by blast
qed

theorem trade_histories_are_legal_witness:
  "uses demo_journal_crypto [] [] [] [] ''log'' ''head'' demo_appended \<and>
     legal_history (trade_states (replicate 16 4) (Journal.entries (handle demo_appended)))"
  using trade_histories_are_legal [OF demo_uses_appended demo_journal_setting(1,2)] demo_uses_appended by blast

section \<open>The keystore and the history of a client\<close>



text \<open>
  C23. An identity is never lost: after any sequence of unlocking, locking, passphrase changes, key rotations
  through any handle, backups, creations and destructions of other keystores, each with any outcome of the
  system calls, the file unlocks with the passphrase that was set last, to the identity that was created,
  and the secret found in it derives the identity's public key.
\<close>

theorem identity_is_never_lost:
  assumes "keystore_use kc path identity s p H" and "aead_opens kc" and "reads_ok calls"
  shows "\<exists>ks secret pair. unlock kc calls path p (volume s) = Inr ks \<and> identity_of ks = identity \<and>
    ks_secret ks = Some secret \<and> derive_ed25519_keypair kc secret kKeystoreIdentity [] = Inr pair \<and>
    ks_public_key ks = pair_public pair"
  using keystore_use_holds [OF assms(1,2)] assms(3) load_bound
  unfolding holds_identity_def bound_handle_def unlock_def by metis

theorem identity_is_never_lost_witness:
  "\<exists>identity s H ks. keystore_use demo_key_lib ''id'' identity s ''new'' H \<and>
     unlock demo_key_lib full_reads ''id'' ''new'' (volume s) = Inr ks \<and> identity_of ks = identity"
proof -
  obtain identity s H where use: "keystore_use demo_key_lib ''id'' identity s ''new'' H"
    by (rule demo_changed)
  then show ?thesis
    using identity_is_never_lost [OF use demo_key_lib_works(2) reads_ok_full] by blast
qed

text \<open>
  A backup restores the identity and replaces nothing: exporting a keystore, carrying the file to another
  machine and importing it there succeeds only onto paths where there was no file, changes no other file,
  and the imported keystore unlocks to the exported one.
\<close>

theorem backups_restore_the_keystore:
  assumes "export_encrypted_backup kc env src bak passphrase s = (Inr (), s1)"
    and "volume t bak = volume s1 bak"
    and "import_encrypted_backup kc env' bak dest passphrase t = (Inr (), t1)" and "reads_ok calls"
  shows "\<exists>ks. unlock kc (ks_reads env) src passphrase (volume s) = Inr ks \<and>
    unlock kc calls dest passphrase (volume t1) = Inr (ks\<lparr>ks_path := dest\<rparr>) \<and>
    volume s bak = None \<and> volume t dest = None \<and> volume t1 = (volume t)(dest := volume s src)"
proof -
  obtain ks where e: "volume s bak = None" "volume s1 bak = volume s src"
      "load_keystore kc (ks_reads env) src passphrase (volume s) = Inr ks"
    using export_outcome [OF assms(1)] by auto
  have i: "volume t dest = None" "volume t1 = (volume t)(dest := volume t bak)"
    using export_outcome [OF assms(3) [unfolded import_is_export]] by auto
  have "volume t1 dest = volume s src"
    using e i assms(2) by simp
  from load_copy [where fs' = "volume t1" and path' = dest, OF assms(4) this e(3)] show ?thesis
    using e i assms(2) by (simp add: unlock_def)
qed

theorem backups_restore_the_keystore_witness:
  "\<exists>s s1 t1 ks. export_encrypted_backup demo_key_lib demo_host ''id'' ''bak'' ''old'' s = (Inr (), s1) \<and>
     import_encrypted_backup demo_key_lib demo_host ''bak'' ''copy'' ''old'' s1 = (Inr (), t1) \<and>
     unlock demo_key_lib full_reads ''copy'' ''old'' (volume t1) = Inr ks"
proof -
  obtain s s1 t1 where "export_encrypted_backup demo_key_lib demo_host ''id'' ''bak'' ''old'' s = (Inr (), s1)"
      "import_encrypted_backup demo_key_lib demo_host ''bak'' ''copy'' ''old'' s1 = (Inr (), t1)"
    by (rule demo_copied)
  then show ?thesis
    using backups_restore_the_keystore [OF _ refl _ reads_ok_full] by blast
qed

text \<open>
  Scoped keys are separated: the inputs of the derivation determine the label, the generation and the
  service, so a rotation changes the input for every label and service, and no scoped key has the input of
  the cached identity key or of the key of the history.
\<close>

theorem scoped_keys_are_separated:
  assumes "rotate_service_scoped_key kc env passphrase ks s = (Inr ks', s')"
    and "encode_derivation_info label' (scoped_identifier (ks_generation ks') service') = Inr info"
  shows "ks_secret ks' = ks_secret ks \<and>
    encode_derivation_info label (scoped_identifier (ks_generation ks) service) \<noteq> Inr info \<and>
    (encode_derivation_info label (scoped_identifier (ks_generation ks') service) = Inr info \<longrightarrow>
       label = label' \<and> service = service') \<and>
    encode_derivation_info kKeystoreIdentity [] \<noteq> Inr info \<and>
    encode_derivation_info kLocalHistory kAeadKeyIdentifier \<noteq> Inr info"
proof -
  have rot: "ks_generation ks' = ks_generation ks + 1" "ks_secret ks' = ks_secret ks"
    using rotated_handle [OF assms(1)] by simp_all
  have "ks_generation ks \<noteq> ks_generation ks + 1"
    by simp
  moreover have "scoped_identifier g i \<noteq> []" "scoped_identifier g i \<noteq> kAeadKeyIdentifier" for g i
    using scoped_identifier_starts [of g i] by (auto simp: kAeadKeyIdentifier_def is_digit_def)
  ultimately show ?thesis
    using rot scoped_info_inj [OF assms(2)] encode_derivation_info_inj [OF assms(2)] by metis
qed

theorem scoped_keys_are_separated_witness:
  "\<exists>ks ks' s s' info. rotate_service_scoped_key demo_key_lib demo_host ''old'' ks s = (Inr ks', s') \<and>
     encode_derivation_info kLogin (scoped_identifier (ks_generation ks') ''shop'') = Inr info \<and>
     encode_derivation_info kLogin (scoped_identifier (ks_generation ks) ''shop'') \<noteq> Inr info"
proof -
  obtain ks ks' s s' where r: "rotate_service_scoped_key demo_key_lib demo_host ''old'' ks s = (Inr ks', s')"
      and g: "ks_generation ks' = 1"
    by (rule demo_rotated)
  obtain info where i: "encode_derivation_info kLogin (scoped_identifier (ks_generation ks') ''shop'') = Inr info"
    by (auto simp: g encode_derivation_info_def kLogin_def scoped_identifier_def to_string.simps)
  show ?thesis
    using r i scoped_keys_are_separated [OF r i, of kLogin "''shop''"] by blast
qed



text \<open>
  C27. A command of the history updates one entry of a finite map, and what it reported is on disk: in a store
  in use, a command that returns has set the entry of its pair to the documented update and left every other
  entry, and opening the file again gives exactly that store as long as its encryption fits the reader; a
  command that throws leaves the file as it was and at most this one entry changed in memory.
\<close>

theorem history_commands_update_one_entry:
  assumes "sound_history kc ks P s" and "run_command kc calls clock c s = (r, s')" and "command_sized c"
    and "aead_opens kc" and "reads_ok reads"
  shows "case r of
       Inr e \<Rightarrow> e = updated_entry clock c s \<and> view (history s') = (view (history s))(command_key c \<mapsto> e) \<and>
         (fits (history s') \<longrightarrow>
            open_history kc reads (history_path (history s)) ks (volume (owner s')) = Inr (history s'))
     | Inl x \<Rightarrow> store_file s' = store_file s \<and>
         (view (history s') = view (history s) \<or>
          view (history s') = (view (history s))(command_key c \<mapsto> updated_entry clock c s))"
proof -
  have wf: "wf_history (history s)" and keyed: "keyed_by kc ks (history s)"
    using assms(1) by (simp_all add: sound_history_def)
  note out = command_outcome [OF assms(2) wf assms(3)]
  have "keyed_by kc ks (history s')"
    using keyed out by (simp add: keyed_by_def)
  then show ?thesis
    using out stored_opens(1) [OF _ assms(4) _ _ assms(5), of "history s'" "volume (owner s')" ks]
    by (auto split: sum.splits)
qed

theorem history_commands_update_one_entry_witness:
  "\<exists>e s. run_command demo_key_lib demo_calls 9 (SetBlocked demo_fp ''m'' True) demo_user = (Inr e, s) \<and>
     view (history s) = (view demo_store)((demo_fp, ''m'') \<mapsto> e)"
proof -
  obtain e s where c: "run_command demo_key_lib demo_calls 9 (SetBlocked demo_fp ''m'' True) demo_user = (Inr e, s)"
    by (rule demo_blocked)
  show ?thesis
    using history_commands_update_one_entry [OF demo_sound [of "\<lambda>_. True"] c _ demo_key_lib_works(2) reads_ok_full] c
    by (auto simp: demo_user_def demo_fp_def)
qed



section \<open>The wire protocol\<close>


section \<open>Receipts\<close>



text \<open>
  C31. What a verified chain guarantees, and nothing less is accepted: a chain verifies exactly when it is
  not empty, every entry carries both valid mediator signatures, a known stage and the room, terms
  and keys of the first entry, every entry hashes its predecessor (the first one the zero hash), and
  the stages strictly increase.
\<close>

theorem chain_verification_is_exact:
  "verify_receipt_chain c es key key2 = Inr () \<longleftrightarrow> es \<noteq> [] \<and>
     list_all (\<lambda>e. entry_verified c key key2 e \<and> same_room (receipt_fields e) (receipt_fields (hd es)) \<and>
       ReceiptFields.stage (receipt_fields e) \<notin> range ReceiptStageRaw) es \<and>
     linked c (zero_id 32) es \<and> sorted_wrt (<) (map stage_number es)"
  unfolding verify_receipt_chain_def
  by (cases es) (auto simp: chain_loop_ok list_all_iff simp del: verify_chain_loop.simps)

text \<open>
  The last entry determines the chain: two verified chains of well-formed receipts that end in the
  same entry are the same chain, provided the hash does not collide on the entries of the two chains
  and maps none of them to the all-zero start value.
\<close>

theorem last_entry_determines_the_chain:
  assumes "verify_receipt_chain c es key key2 = Inr ()" and "verify_receipt_chain c es' key key2 = Inr ()"
    and "last es = last es'" and "\<forall>e\<in>set es \<union> set es'. wf_issued e"
    and "inj_on (sha256 c) (link_input ` (set es \<union> set es'))"
    and "zero_id 32 \<notin> sha256 c ` link_input ` (set es \<union> set es')"
  shows "es = es'"
proof -
  have "linked c (zero_id 32) es" "linked c (zero_id 32) es'" "es \<noteq> []" "es' \<noteq> []"
    using assms(1,2) unfolding verify_receipt_chain_def
    by (cases es; cases es'; auto simp: chain_loop_ok simp del: verify_chain_loop.simps)+
  then show ?thesis
    using assms(3-6) by (intro linked_determined) auto
qed

theorem last_entry_determines_the_chain_witness:
  "\<exists>e. verify_receipt_chain demo_accepting_crypto [e] [] [] = Inr () \<and> (\<forall>es. last es = e \<and>
     verify_receipt_chain demo_accepting_crypto es [] [] = Inr () \<and> (\<forall>x\<in>set es. wf_issued x) \<longrightarrow> [e] = es)"
proof -
  have "[demo_issued] = es" if "last es = demo_issued" "verify_receipt_chain demo_accepting_crypto es [] [] = Inr ()"
    "\<forall>x\<in>set es. wf_issued x" for es
    by (rule last_entry_determines_the_chain [OF demo_accepted that(2)])
       (use that(1,3) demo_issued_wf in \<open>auto simp: demo_accepting_crypto_def zero_id_def inj_on_def numeral_eq_Suc\<close>)
  with demo_accepted show ?thesis
    by blast
qed

text \<open>
  The receipts the mediator issues verify: if signatures made with its seeds verify under its public
  keys, then the receipt for the penultimate obligations and the completion receipt of the same room
  form a chain that verification accepts.
\<close>

theorem issued_receipts_verify:
  assumes "issue_receipt cfg e key room PenultimateObligationsComplete False s = (Inr r3, s')"
    and "issue_receipt cfg e' key room' SettlementCompleted True t = (Inr r4, t')"
    and "final_ack_receipt room' = Some r3" and "same_subject room room'"
    and "cr e' = cr e" and "signatures_verify (cr e) cfg"
  shows "verify_receipt_chain (cr e) [r3, r4] (receipt_public_key cfg) (receipt_public_key_mldsa65 cfg) = Inr ()"
  by (rule issued_chain_verifies [OF assms])

theorem issued_receipts_verify_witness:
  "\<exists>r3 r4. verify_receipt_chain demo_crypto [r3, r4] [1] [2] = Inr ()"
proof -
  let ?cfg = "demo_config True AfterLastRound" and ?room = "demo_room (demo_session default_fee False AfterLastRound)"
  let ?s = "demo_lobby (demo_session default_fee False AfterLastRound)"
  have v: "signatures_verify (cr demo_env) ?cfg" "valid_terms demo_terms"
    by (simp add: demo_env_def signatures_verify_def demo_crypto_def demo_config_def) code_simp
  note issue = issue_receipt_succeeds [of _ demo_env "replicate 16 3" ?cfg]
  obtain r3 s' where r3: "issue_receipt ?cfg demo_env (hex demo_id) ?room PenultimateObligationsComplete False ?s = (Inr r3, s')"
    using issue [of ?room PenultimateObligationsComplete "hex demo_id" False ?s] v(2)
    by (auto simp: demo_room_def room_entry_def demo_session_def demo_creator_def demo_env_def demo_crypto_def demo_config_def)
  obtain r4 t' where r4: "issue_receipt ?cfg demo_env (hex demo_id) (?room\<lparr>final_ack_receipt := Some r3\<rparr>)
      SettlementCompleted True ?s = (Inr r4, t')"
    using issue [of "?room\<lparr>final_ack_receipt := Some r3\<rparr>" SettlementCompleted "hex demo_id" True ?s] v(2)
      verified_link(1) [OF issued_verifies [OF r3 v(1)]]
    by (auto simp: demo_room_def room_entry_def demo_session_def demo_creator_def demo_env_def demo_crypto_def demo_config_def)
  have "verify_receipt_chain (cr demo_env) [r3, r4] (receipt_public_key ?cfg) (receipt_public_key_mldsa65 ?cfg) = Inr ()"
    by (rule issued_receipts_verify [OF r3 r4 _ _ _ v(1)]) (simp_all add: same_subject_def)
  then show ?thesis
    by (auto simp: demo_env_def demo_config_def)
qed

text \<open>
  C34. A disclosure is bound to what it discloses: an envelope that is accepted with two bundles is
  accepted with the same receipts, for the same negotiation and for the same recipient, so it can be
  neither moved to another chain nor replayed to somebody else. The hash is assumed not to collide
  on the receipts at hand and to have 32 bytes.
\<close>

theorem disclosed_bundles_are_bound:
  assumes "verify_disclosure_bundle c es f sig sig2 room key = Inr None"
    and "verify_disclosure_bundle c es' f sig' sig2' room' key' = Inr None"
    and "\<forall>e\<in>set es \<union> set es'. wf_issued e \<and> length (sha256 c (link_input e)) = 32"
    and "inj_on (sha256 c) (link_input ` (set es \<union> set es') \<union>
      {bs. chain_links c es = Inr bs \<or> chain_links c es' = Inr bs})"
  shows "es = es' \<and> room = room' \<and> key = key'"
  by (rule bundle_bound [OF assms])

theorem disclosed_bundles_are_bound_witness:
  "\<exists>f. verify_disclosure_bundle demo_hashing_crypto [demo_issued] f [] [] demo_id (replicate 32 9) = Inr None \<and>
     (\<forall>room key. verify_disclosure_bundle demo_hashing_crypto [demo_issued] f [] [] room key = Inr None \<longrightarrow>
        room = demo_id \<and> key = replicate 32 9)"
proof -
  have h: "sha256 demo_hashing_crypto (link_input demo_issued) \<noteq> sha256 demo_hashing_crypto (replicate 32 1)"
    "length (sha256 demo_hashing_crypto (link_input demo_issued)) = 32"
    using demo_link_length by (simp_all add: demo_hashing_crypto_def numeral_eq_Suc)
  have "[demo_issued] = [demo_issued] \<and> room = demo_id \<and> key = replicate 32 9"
    if "verify_disclosure_bundle demo_hashing_crypto [demo_issued] demo_disclosure [] [] room key = Inr None" for room key
    by (rule disclosed_bundles_are_bound [OF that demo_bundle])
       (use h demo_issued_wf in \<open>auto simp: demo_chain_links inj_on_def simp del: chain_links.simps\<close>)
  with demo_bundle show ?thesis
    by blast
qed

section \<open>Recognition\<close>

text \<open>
  C35. Challenges are answered once: over any history of issuing, expiring and answering, a response is
  accepted only for a challenge that was issued more often than it had been accepted so far, that has
  not expired, that names the same mediator, room, nonce and suite, and whose signed bytes verify
  under the key whose fingerprint is returned.
\<close>

theorem challenges_are_answered_once:
  assumes "recognises c q issued accepted"
    and "recognition_consume c clock mediator response t q = (Inr (Some fp), q')"
  shows "\<exists>f bs. challenge_matches mediator response f \<and> count (mset accepted) f < count (mset issued) f \<and>
    effective_now clock t \<le> RecognitionChallengeFields.expires_at f \<and>
    RecognitionResponseMessage.suite_id response = RecognitionChallengeFields.suite_id f \<and>
    encode_recognition_signed_payload f = Inr bs \<and> fp = sha256 c (prover_public_key response) \<and>
    (if RecognitionChallengeFields.suite_id f = kRecognitionSuiteEd25519V1
     then ed25519_verify c (prover_public_key response) bs (RecognitionResponseMessage.signature response) = Inr True
     else mldsa65_verify c (prover_public_key response) bs (RecognitionResponseMessage.signature response) = Inr True)"
  by (rule consume_once [OF assms])

theorem challenges_are_answered_once_witness:
  "challenge_matches ''med'' demo_response demo_challenge \<and>
     effective_now 0 60 \<le> RecognitionChallengeFields.expires_at demo_challenge"
  using challenges_are_answered_once [OF demo_recognition] by (auto split: if_splits)

section \<open>The registry\<close>

text \<open>
  A listing is always served and is exact: in every state a registry can reach, with peers whose
  addresses are printable and short enough, a list request is answered by a frame that fits the
  protocol and decodes to exactly the approved entries that have not expired, direct and learned,
  with their remaining lifetimes.
\<close>

theorem registry_listing_is_served:
  assumes "registry_serves tok ps t s" and "t \<le> t'" and "\<forall>p\<in>set ps. source_ok (endpoint_key (peer_registry p))"
  shows "\<exists>bs ns s'. handle_connection t' RegistryList [] s = (Some (RegistryNodes, bs), s') \<and>
    length bs \<le> kMaxFramePayload \<and> decode_registry_nodes bs = Inr \<lparr>nodes = ns\<rparr> \<and>
    set ns = listed_node t' ` {e \<in> snd ` set (entries s @ gossip_entries s). status e = Approved \<and> t' < RegistryEntry.expires_at e} \<and>
    sorted (map (\<lambda>n. (host n, port n)) ns)"
proof -
  have inv: "registry_inv t' s"
    using registry_serves_inv [OF assms(1,3)] assms(2) by (rule registry_inv_later)
  obtain bs where "handle_connection t' RegistryList [] s = (Some (RegistryNodes, bs), remove_expired_locked t' s)"
    "decode_registry_nodes bs = Inr \<lparr>nodes = listing t' s\<rparr>" "length bs \<le> kMaxFramePayload"
    using list_request [OF inv] by blast
  moreover have "sorted (map (\<lambda>n. (host n, port n)) (listing t' s))"
    by (simp add: listing_def)
  ultimately show ?thesis
    using set_listing [of t' s] unfolding live_def by blast
qed



text \<open>
  C37. Only the operator approves a direct registration, and no request changes its certificate pin:
  an entry that is approved after a request was approved before it with the same pin; what is learned
  from peers never touches direct entries; and a command line without the admin token changes nothing.
\<close>

theorem only_the_operator_approves:
  assumes "distinct (map fst (entries s))"
  shows "(map_of (entries (snd (handle_connection t ty bs s))) k = Some e' \<and> status e' = Approved \<longrightarrow>
      (\<exists>e. map_of (entries s) k = Some e \<and> status e = Approved \<and>
         certificate_pin (entry_node e') = certificate_pin (entry_node e))) \<and>
    entries (gossip_pull t peer reply s) = entries s \<and>
    (tok = [] \<or> fst (next_word (snd (next_word (admin_line received)))) \<noteq> tok \<longrightarrow>
      handle_admin_connection tok t received s = (Inr ''ERR unauthorized'', s))"
  using request_approval [OF assms] pull_entries unauthorised_admin by blast

theorem only_the_operator_approves_witness:
  "\<exists>e. map_of (entries demo_registry) ''h:80'' = Some e \<and> status e = Approved"
proof -
  obtain bs where "handle_connection 0 RegistryList [] demo_registry =
      (Some (RegistryNodes, bs), remove_expired_locked 0 demo_registry)"
    using list_request [OF demo_registry_inv] by blast
  then have "map_of (entries (snd (handle_connection 0 RegistryList [] demo_registry))) ''h:80'' = Some (demo_entry Approved)"
    by (simp add: remove_expired_locked_def remove_expired_from_locked_def demo_registry_def demo_entry_def)
  then show ?thesis
    using only_the_operator_approves [of demo_registry 0 RegistryList "[]" "''h:80''" "demo_entry Approved"]
    by (auto simp: demo_registry_def demo_entry_def)
qed

section \<open>The operator\<close>



text \<open>
  A fee change over the admin channel is all or nothing and outlives the process: either the reply is an
  error and nothing changed, or the requested fee is valid and in force, the configuration file keeps its other
  lines, and, if its address has nothing the shell would expand, the next start reads exactly this fee from it.
  This holds where the new text reached the disk, which the code does not check.
\<close>

theorem fee_changes_are_kept:
  assumes "presented chunks = Some (''SETFEE'', admin_token cfg, rest)" and "admin_token cfg \<noteq> []"
    and "handle_admin_connection_lobby cfg e calls chunks s = (r, s')"
    and "rewritten calls = None" and "fee_persist_file cfg \<noteq> []"
  shows "(\<exists>why. r = Inr (Some (''ERR '' @ why @ [CHR 0x0A])) \<and> s' = s) \<or>
    r = Inr (Some (''OK'' @ [CHR 0x0A])) \<and>
    (\<exists>f bs bs'. requested_fee rest = Inr f \<and> valid_fee f \<and> s' = s\<lparr>lobby.fee := f, disk := disk s'\<rparr> \<and>
       disk s (fee_persist_file cfg) = Some bs \<and> disk s' (fee_persist_file cfg) = Some bs' \<and>
       filter (\<lambda>l. \<not> is_fee_line l) (file_lines bs') = filter (\<lambda>l. \<not> is_fee_line l) (file_lines bs) \<and>
       (shell_literal (FeeTerms.address f) \<longrightarrow> configured_fee (exported (file_lines bs')) = Inr f))"
  using assms
proof (cases rule: connection_setfee_outcome)
  case (accepted f)
  obtain bs bs' where "disk s (fee_persist_file cfg) = Some bs" "disk s' (fee_persist_file cfg) = Some bs'"
    "filter (\<lambda>l. \<not> is_fee_line l) (file_lines bs') = filter (\<lambda>l. \<not> is_fee_line l) (file_lines bs)"
    using accepted(5) by (rule fee_saved_others)
  moreover have "configured_fee (exported (file_lines bs')) = Inr f" if "shell_literal (FeeTerms.address f)"
    using fee_saved_restart [OF accepted(5,3) that] calculation(2) by auto
  ultimately show ?thesis
    using accepted by blast
qed blast

theorem fee_changes_are_kept_witness:
  "\<exists>s' bs'. handle_admin_connection_lobby (demo_config True AfterLastRound) demo_env demo_config_calls
      (demo_setfee ''root'' ''addrM'') demo_operated = (Inr (Some (''OK'' @ [CHR 0x0A])), s') \<and>
    disk s' ''conf'' = Some bs' \<and> configured_fee (exported (file_lines bs')) = Inr demo_new_fee"
proof -
  obtain s' where run: "handle_admin_connection_lobby (demo_config True AfterLastRound) demo_env demo_config_calls
      (demo_setfee ''root'' ''addrM'') demo_operated = (Inr (Some (''OK'' @ [CHR 0x0A])), s')"
    by (rule demo_accepts)
  have "presented (demo_setfee ''root'' ''addrM'') = Some (''SETFEE'', admin_token (demo_config True AfterLastRound), '' BTC 5 addrM'')"
    by (simp add: demo_presented demo_config_def)
  from fee_changes_are_kept [OF this _ run] show ?thesis
    using run by (auto simp: demo_config_def demo_config_calls_def demo_requested demo_new_fee_def shell_literal_def)
qed

text \<open>
  The mediator keeps its identity over a restart: once a start has found or made its three key files, every
  later start that finds those files takes the same keys, whatever its generators return, writes nothing and
  gets the same configuration, so receipts and proofs signed before stay verifiable.
\<close>

theorem restart_keeps_the_keys:
  assumes "lobby_impl vars bhost bport ks calls fs = (Inr (cfg, f), fs1)"
    and "[] \<notin> key_files vars" and "seeds_reload ks" and "same_seeds ks ks'"
    and "\<And>name. key_open_ok (calls' name) \<and> key_read_ok (calls' name)"
    and "\<And>path. path \<in> key_files vars \<Longrightarrow> fs2 path = fs1 path"
  shows "lobby_impl vars bhost bport ks' calls' fs2 = (Inr (cfg, f), fs2)"
  using restart_finds_keys [OF assms(1-4)] assms(5,6) by blast

theorem restart_keeps_the_keys_witness:
  "\<exists>cfg f fs. lobby_impl demo_vars ''127.0.0.1'' 7443 (demo_key_source 1) demo_key_calls Map.empty = (Inr (cfg, f), fs) \<and>
     lobby_impl demo_vars ''127.0.0.1'' 7443 (demo_key_source 7) demo_key_calls fs = (Inr (cfg, f), fs) \<and>
     receipt_seed cfg = replicate 32 1"
proof -
  obtain cfg f fs where start: "lobby_impl demo_vars ''127.0.0.1'' 7443 (demo_key_source 1) demo_key_calls Map.empty =
      (Inr (cfg, f), fs)" "receipt_seed cfg = replicate 32 1"
    using demo_starts by blast
  have "lobby_impl demo_vars ''127.0.0.1'' 7443 (demo_key_source 7) demo_key_calls fs = (Inr (cfg, f), fs)"
    by (rule restart_keeps_the_keys [OF start(1) demo_key_files demo_key_source_reloads])
       (simp_all add: demo_key_calls_def)
  with start show ?thesis
    by blast
qed

text \<open>
  The in-process plugin only confirms what it was asked about: a round of polling leaves every room alone that
  is not waiting for its fee, or for whose own frozen fee the plugin did not answer that it was paid.
\<close>

theorem plugin_confirms_what_it_checked:
  assumes "serves cfg s" and "map_of (rooms s) k = Some room"
    and "MediatorSession.state (session room) \<noteq> WaitingForFeeConfirmation \<or>
      checker k (MediatorSession.fee (session room))
        (case fee_confirmation_pending_since room of None \<Rightarrow> 0 | Some t \<Rightarrow> t) \<noteq> 1"
  shows "map_of (rooms (fee_plugin_round cfg es checker s)) k = Some room"
  using serves_inv [OF assms(1)] assms(2,3) by (rule plugin_only_confirms_paid [where checker = checker])

text \<open>
  The reply on the channel of the mediator's proof verifies under its key for the nonce of the request.
\<close>

theorem mediator_proof_verifies:
  assumes "concat chunks = ''AUTH '' @ hex n @ [CHR 0x0A]" and "length n = 32"
    and "sign_mediator_auth (cr e) (auth_seed cfg) (auth_fields cfg (now e) n) = Inr sig"
    and "\<And>m sig. mldsa65_sign (cr e) (auth_seed cfg) m = Inr sig \<Longrightarrow> mldsa65_verify (cr e) (auth_public_key cfg) m sig = Inr True"
  shows "handle_auth_connection cfg e chunks =
      Inr (Some (''OK '' @ config.mediator_id cfg @ '' '' @ hex (auth_public_key cfg) @ '' '' @
        to_string (unat (now e)) @ '' '' @ to_string (unat (now e + 120)) @ '' '' @ hex sig @ [CHR 0x0A])) \<and>
    verify_mediator_auth (cr e) (auth_public_key cfg) (auth_fields cfg (now e) n) sig = Inr True"
  using auth_reply [OF assms(1-3)] auth_signature_verifies [OF assms(3,4)] by blast

section \<open>The client\<close>





text \<open>
  C25. What a client shows is verified and stays so: in every state it can get into, by any actions of its users,
  any frames, lost connections and late frames of overtaken threads, a room shown with a verified chain has stored
  receipts that are all of this room and verify as a chain under the keys it knows as the mediator's; those keys
  are never exchanged, and no stored receipt is lost or reordered, over any number of connections.
\<close>

theorem shown_receipts_are_verified:
  assumes "client_runs (\<lambda>e. ce_crypto e = cry) (new_client med) c"
    and "dc_rooms c k = Some room" and "rv_receipt_chain_verifies room"
  shows "\<exists>rs key key2. dc_room_receipts c k = Some rs \<and> dc_mediator_receipt_keys c = Some (key, key2) \<and>
    verify_receipt_chain cry rs key key2 = Inr () \<and> (\<forall>r\<in>set rs. hex (ReceiptFields.room_id (receipt_fields r)) = k) \<and>
    (\<forall>c'. client_runs (\<lambda>e. ce_crypto e = cry) c c' \<longrightarrow> dc_mediator_receipt_keys c' = Some (key, key2) \<and>
       (\<exists>later. dc_room_receipts c' k = Some (rs @ later)))"
proof -
  have inv: "receipts_inv cry c"
    using receipts.run [OF assms(1) receipts_inv_start] .
  then have "shows_verified cry c k"
    using assms(2,3) unfolding receipts_inv_def by blast
  then obtain rs key key2 where rs: "dc_room_receipts c k = Some rs" "dc_mediator_receipt_keys c = Some (key, key2)"
      "verify_receipt_chain cry rs key key2 = Inr ()"
    by (auto simp: shows_verified_def)
  moreover have "\<forall>r\<in>set rs. hex (ReceiptFields.room_id (receipt_fields r)) = k"
    using inv rs(1) unfolding receipts_inv_def by blast
  moreover have "pinned_inv (key, key2) k rs c'" if "client_runs (\<lambda>e. ce_crypto e = cry) c c'" for c'
    by (rule pinned.run [OF client_runs_mono [OF that]]) (simp add: pinned_inv_def rs)
  ultimately show ?thesis
    by (auto simp: pinned_inv_def)
qed

theorem shown_receipts_are_verified_witness:
  "\<exists>c rs key key2. client_runs (\<lambda>e. ce_crypto e = sized_crypto) (new_client ''med'') c \<and>
     dc_room_receipts c (hex demo_id) = Some rs \<and> verify_receipt_chain sized_crypto rs key key2 = Inr ()"
proof -
  obtain c room where "client_runs (\<lambda>e. ce_crypto e = sized_crypto) (new_client ''med'') c"
      "dc_rooms c (hex demo_id) = Some room" "rv_receipt_chain_verifies room"
    using demo_shown by blast
  then show ?thesis
    using shown_receipts_are_verified by blast
qed

text \<open>The list of events a client keeps is bounded, whatever happens.\<close>

theorem client_events_are_bounded:
  assumes "client_runs ok (new_client med) c"
  shows "length (dc_events c) \<le> 160"
  using events.run [OF client_runs_mono [OF assms]] by (simp add: new_client_def)

text \<open>
  The announcement of a room gives the client its party, its terms and fresh keys, and it queues the frame that
  announces their public halves; this is how a desk gets ready.
\<close>

theorem opened_rooms_announce_their_keys:
  assumes "encode_trade_ready m = Inr body" "is_room_id (TradeReadyMessage.room_id m)" "is_client_id (peer_id m)"
    and "ce_ephemeral e = Inr pair" "length (pair_public pair) = kTradeEphemeralPublicKeyLength"
    and "ce_ephemeral_mldsa65 e = Inr pair2" "length (pair_public pair2) = kTradeEphemeralPublicKeyLengthMlDsa65"
    and "dc_connected c"
  shows "\<exists>c1. handle_frame e TradeReady body c = (Inr None, c1) \<and>
    trade_inv (dc_mediator_id c) (hex (TradeReadyMessage.room_id m)) (assigned_party m) (TradeReadyMessage.terms m) pair pair2 c1 \<and>
    of_type (last (dc_outgoing c1)) = TradeEphemeralKey \<and> decode_trade_ephemeral_key (of_payload (last (dc_outgoing c1))) =
      Inr \<lparr>TradeEphemeralKeyMessage.room_id = TradeReadyMessage.room_id m, ephemeral_public_key = pair_public pair,
        ephemeral_public_key_mldsa65 = pair_public pair2\<rparr>"
  by (rule trade_ready_frame [OF assms])

section \<open>Where the code does less than it says\<close>

text \<open>
  A fee report can count twice: with the fee due before the first round, the very Sent signal that
  settled the fee is accepted again as the first tranche of the round, since signals do not say
  whether they concern the fee (the replay protection of C6 only covers trade legs).
\<close>

theorem fee_report_is_accepted_twice:
  "\<exists>s g s1 s2. runs s g \<and> MediatorSession.state s = WaitingForFeeSent \<and>
     sender_reported_sent PartyA (demo_signal 0 PartyA) s = Inr s1 \<and>
     sender_reported_sent PartyA (demo_signal 0 PartyA) s1 = Inr s2 \<and>
     MediatorSession.state s2 = WaitingForReceived"
proof -
  let ?report = "sender_reported_sent PartyA (demo_signal 0 PartyA)"
  have "\<exists>s g. runs s g \<and> (MediatorSession.state s = WaitingForFeeSent \<and>
      (case rbind (?report s) ?report of Inl e \<Rightarrow> False | Inr s2 \<Rightarrow> MediatorSession.state s2 = WaitingForReceived))"
    by (rule demo_reaches [where es = "[demo_join]" and f = demo_fee and confirm = False and pos = BeforeFirstRound])
       code_simp+
  then obtain s g where s: "runs s g" "MediatorSession.state s = WaitingForFeeSent"
    and c: "case rbind (?report s) ?report of Inl e \<Rightarrow> False | Inr s2 \<Rightarrow> MediatorSession.state s2 = WaitingForReceived"
    by blast
  obtain s2 where "rbind (?report s) ?report = Inr s2" "MediatorSession.state s2 = WaitingForReceived"
    using c by (cases "rbind (?report s) ?report") auto
  with s show ?thesis
    by (auto simp: rbind_eq_Inr)
qed

text \<open>
  The fee position is not baked into a restored session: a room that waits for a fee due before the
  first round, restored by a mediator that now collects fees after the last round, is reported
  complete by the fee alone, with no round traded.
\<close>

theorem restored_room_can_complete_without_trading:
  "\<exists>s g s'. runs s g \<and> MediatorSession.state s = WaitingForFeeSent \<and> MediatorSession.round_index s = 0 \<and>
     0 < rounds (session_terms s) \<and>
     sender_reported_sent PartyA (demo_signal 0 PartyA) (restored_session False AfterLastRound s) = Inr s' \<and>
     MediatorSession.state s' = SessionComplete"
proof -
  let ?report = "\<lambda>s. sender_reported_sent PartyA (demo_signal 0 PartyA) (restored_session False AfterLastRound s)"
  have "\<exists>s g. runs s g \<and> (MediatorSession.state s = WaitingForFeeSent \<and> MediatorSession.round_index s = 0 \<and>
      0 < rounds (session_terms s) \<and>
      (case ?report s of Inl e \<Rightarrow> False | Inr s' \<Rightarrow> MediatorSession.state s' = SessionComplete))"
    by (rule demo_reaches [where es = "[demo_join]" and f = demo_fee and confirm = False and pos = BeforeFirstRound])
       code_simp+
  then obtain s g where s: "runs s g" "MediatorSession.state s = WaitingForFeeSent"
    "MediatorSession.round_index s = 0" "0 < rounds (session_terms s)"
    and c: "case ?report s of Inl e \<Rightarrow> False | Inr s' \<Rightarrow> MediatorSession.state s' = SessionComplete"
    by blast
  then show ?thesis
    by (cases "?report s") auto
qed

text \<open>
  Confirming an early fee stops the room: with the fee due before the first or the last round, the
  operator's confirmation moves the session on to the next tranche, but the lobby takes the room out
  of service (it is gone or inactive), so the remaining rounds can never be traded.
\<close>

theorem early_fee_confirmation_stops_the_room:
  assumes "map_of (rooms s) (hex i) = Some room" and "nonzero i" and "active room"
    and "MediatorSession.state (session room) = WaitingForFeeConfirmation"
    and "MediatorSession.fee_position (session room) \<noteq> AfterLastRound"
    and "try_confirm_fee_locked cfg e i s = (r, s')"
  shows "confirm_fee_received (session room) = Inr ((session room)\<lparr>MediatorSession.state := WaitingForSent\<rparr>) \<and>
    (\<forall>room'. map_of (rooms s') (hex i) = Some room' \<longrightarrow> \<not> active room')"
  using confirm_fee_stops_room [OF assms(1-4,6)] assms(4,5)
  by (simp add: confirm_fee_received_def out_of_service_def)

theorem early_fee_confirmation_stops_the_room_witness:
  "\<exists>r s'. try_confirm_fee_locked (demo_config True BeforeFirstRound) demo_env demo_id
      (demo_lobby demo_pending) = (r, s') \<and>
     (\<forall>room'. map_of (rooms s') (hex demo_id) = Some room' \<longrightarrow> \<not> active room')"
proof -
  obtain r s' where r: "try_confirm_fee_locked (demo_config True BeforeFirstRound) demo_env demo_id
      (demo_lobby demo_pending) = (r, s')"
    by (rule prod.exhaust)
  have "\<forall>room'. map_of (rooms s') (hex demo_id) = Some room' \<longrightarrow> \<not> active room'"
    using early_fee_confirmation_stops_the_room [OF _ _ _ _ _ r, of "demo_room demo_pending"] demo_keys
    by (simp add: demo_lobby_def demo_room_def room_entry_def demo_pending_def demo_session_def)
  with r show ?thesis
    by blast
qed

text \<open>
  Entries learned from peers are not protected the way direct ones are: a pull from any configured
  peer, trusted or not, replaces the certificate pin of an approved learned entry and keeps the
  approval, and the replaced pin is what the registry lists to everybody, other registries included.
\<close>

theorem gossip_refresh_replaces_approved_pins:
  assumes "list_registered_nodes_over reply = Inr \<lparr>nodes = [n]\<rparr>"
    and "map_of (gossip_entries s) (registry_key n) = Some e" and "status e = Approved"
  shows "\<exists>e'. map_of (gossip_entries (gossip_pull t peer reply s)) (registry_key n) = Some e' \<and>
    status e' = Approved \<and> certificate_pin (entry_node e') = certificate_pin n \<and>
    listed_node t e' \<in> set (listing t (gossip_pull t peer reply s))"
proof -
  obtain e' where e': "map_of (gossip_entries (absorb_node t peer n s)) (registry_key n) = Some e'"
    "status e' = Approved" "certificate_pin (entry_node e') = certificate_pin n" "t < RegistryEntry.expires_at e'"
    using absorb_existing [OF assms(2), of t peer] assms(3) by auto
  moreover have "gossip_pull t peer reply s = absorb_node t peer n s"
    by (simp add: gossip_pull_def assms(1))
  moreover have "e' \<in> live t (absorb_node t peer n s)"
    using e' map_of_SomeD [OF e'(1)] by (force simp: live_def)
  ultimately show ?thesis
    by (auto simp: set_listing)
qed

theorem gossip_refresh_replaces_approved_pins_witness:
  "\<exists>reply e'. map_of (gossip_entries (gossip_pull 0 demo_peer reply demo_registry)) ''h:80'' = Some e' \<and>
     status e' = Approved \<and> certificate_pin (entry_node e') = replicate 32 2 \<and> \<not> auto_trust demo_peer"
proof -
  have "map_of (gossip_entries demo_registry) (registry_key (demo_node 2)) = Some (demo_entry Approved)"
    "status (demo_entry Approved) = Approved" "\<not> auto_trust demo_peer" "certificate_pin (demo_node 2) = replicate 32 2"
    by (simp_all add: demo_key demo_registry_def demo_entry_def demo_peer_def) (simp add: demo_node_def)
  then show ?thesis
    using gossip_refresh_replaces_approved_pins [OF demo_reply_nodes, of demo_registry "demo_entry Approved" 0 demo_peer]
    unfolding demo_key by metis
qed

text \<open>
  A failed append is not undone in the running process: if one append stops after its first byte and a
  later one succeeds, the journal can never be opened again, although a write that was cut short at the end
  of the file is tolerated.
\<close>

theorem failed_append_ruins_the_journal:
  assumes "uses c seed pk seed2 pk2 log head s" and "journal_keys c seed pk seed2 pk2" and "separate_paths log head"
    and "calls_succeed calls" and "append_entry c clock None f s = (Inr e, t)"
    and "append_entry c clock (Some 1) f s = (Inl ex, s1)" and "append_entry c later None f' s1 = (Inr e', s2)"
  shows "\<exists>m. open_journal c calls log head pk (Some pk2) (journal_state.disk s2) = (Inl (JournalFormatError m), journal_state.disk s2)"
proof -
  have "intact c pk (Some pk2) s" "log_path (handle s) = log" "head_path (handle s) = head"
    using uses_intact [OF assms(1-3)] by simp_all
  then show ?thesis
    using stray_byte_journal [OF _ assms(5-7) assms(4)] by metis
qed

theorem failed_append_ruins_the_journal_witness:
  "\<exists>s s1 m. append_entry demo_journal_crypto 9 (Some 1) demo_journal_fields demo_opened =
       (Inl (errno ''failed to write journal file contents''), s1) \<and>
     append_entry demo_journal_crypto 9 None demo_journal_fields s1 = (Inr (next_entry demo_journal_crypto (handle demo_opened)
       (stamped 9 demo_journal_fields)), s) \<and>
     open_journal demo_journal_crypto demo_open_calls ''log'' ''head'' [] (Some []) (journal_state.disk s) = (Inl (JournalFormatError m), journal_state.disk s)"
proof -
  obtain s1 where s1: "append_entry demo_journal_crypto 9 (Some 1) demo_journal_fields demo_opened =
      (Inl (errno ''failed to write journal file contents''), s1)" "handle s1 = handle demo_opened"
    using demo_append(2) [of 1] by simp
  obtain s where s: "append_entry demo_journal_crypto 9 None demo_journal_fields s1 =
      (Inr (next_entry demo_journal_crypto (handle demo_opened) (stamped 9 demo_journal_fields)), s)"
    using append_same_handle [OF s1(2) demo_append(1)] by blast
  show ?thesis
    using failed_append_ruins_the_journal [OF demo_uses_opened demo_journal_setting(1-3) demo_append(1) s1(1) s] s1(1) s by blast
qed

text \<open>
  The journal's table of transitions is that of a mediator session, with one exception: the steps into
  and out of a fee leg that is due before the first or before the last round are refused, so a client
  cannot record such a trade although the mediator runs it.
\<close>

theorem journal_refuses_early_fee_steps:
  assumes "runs s g" and "apply_event e s = Inr s'"
  shows "is_valid_transition (MediatorSession.state s) (MediatorSession.state s') \<longleftrightarrow>
    \<not> (0 < fee_amount s \<and> MediatorSession.fee_position s \<noteq> AfterLastRound \<and>
      (MediatorSession.state s, MediatorSession.state s') \<in>
        {(WaitingForPeer, WaitingForFeeSent), (WaitingForReceived, WaitingForFeeSent),
         (WaitingForFeeSent, WaitingForSent), (WaitingForFeeConfirmation, WaitingForSent)})"
  using session_step_valid [OF assms(2) runs_inv [OF assms(1)]] by (auto simp: is_valid_transition_def)

theorem journal_refuses_early_fee_steps_witness:
  "\<exists>s s' g e. runs s g \<and> apply_event e s = Inr s' \<and>
     \<not> is_valid_transition (MediatorSession.state s) (MediatorSession.state s')"
proof -
  let ?s = "demo_session demo_fee False BeforeFirstRound"
  have "case apply_event demo_join ?s of Inl e \<Rightarrow> False | Inr s' \<Rightarrow>
      MediatorSession.state s' = WaitingForFeeSent"
    by code_simp
  then obtain s' where "apply_event demo_join ?s = Inr s'" "MediatorSession.state s' = WaitingForFeeSent"
    by (cases "apply_event demo_join ?s") simp_all
  moreover have "MediatorSession.state ?s = WaitingForPeer" "0 < fee_amount ?s"
    "MediatorSession.fee_position ?s \<noteq> AfterLastRound"
    by (simp_all add: demo_session_def demo_fee_def)
  ultimately show ?thesis
    using journal_refuses_early_fee_steps [OF demo_runs(2)] demo_runs(2) by blast
qed

text \<open>
  A history within all limits of its module can become unreadable: the limit on the encrypted payload is only
  checked when the file is read, so a command on a store of sixty-five counterparties with full notes returns,
  and the file it wrote is refused from then on.
\<close>

theorem full_history_cannot_be_opened:
  assumes "stored kc st fs" and "wf_history st" and "keyed_by kc ks st" and "aead_opens kc" and "reads_ok calls"
    and "64 * 1024 * 1024 < length (put_history (records st))" and "length (put_history (records st)) < 2 ^ 32"
  shows "open_history kc calls (history_path st) ks fs =
    Inl (HistoryFormatError ''history payload exceeds maximum allowed length'')"
  using stored_opens(2) [OF assms(1,4,3,2,5)] assms(6,7) by (simp add: fits_def)

theorem full_history_cannot_be_opened_witness:
  "\<exists>fs. stored demo_key_lib demo_big_store fs \<and> wf_history demo_big_store \<and>
     open_history demo_key_lib full_reads ''h'' demo_handle fs =
       Inl (HistoryFormatError ''history payload exceeds maximum allowed length'')"
proof -
  obtain fs where s: "stored demo_key_lib demo_big_store fs"
    by (rule demo_big_store_stored)
  have "history_path demo_big_store = ''h''"
    by (simp add: demo_big_store_def)
  then show ?thesis
    using full_history_cannot_be_opened [OF s demo_big_store_wf demo_big_store_keyed demo_key_lib_works(2) reads_ok_full] s
      demo_big_store_wf demo_big_store_size by auto
qed

text \<open>
  A history that cannot be opened for a moment is replaced: a file that exists but whose \<open>open\<close> fails counts as
  no file, so the store starts empty, and the first command that returns replaces the file by a store that has
  only the entry of that command.
\<close>

theorem unreadable_history_is_replaced:
  assumes "open_history kc calls path ks (volume m) = Inr st" and "\<not> read_open_ok calls"
    and "run_command kc writes clock c \<lparr>history = st, owner = m\<rparr> = (Inr e, s)" and "command_sized c"
  shows "view (history s) = [command_key c \<mapsto> e] \<and> stored kc (history s) (volume (owner s)) \<and> history_path (history s) = path"
proof -
  have st: "records st = []" "history_path st = path"
    using assms(1,2) by (auto simp: open_history_def history_read_file_def exn_simps split: option.splits)
  have "view st = Map.empty"
    by (rule ext) (simp add: view_def find_entry_def st split: prod.splits)
  then show ?thesis
    using command_outcome [OF assms(3)] assms(4) st by (auto simp: wf_history_def)
qed

text \<open>
  Rotation trusts the memory of its handle: it reads the file to verify the passphrase and ignores the
  generation it finds there, so two rotations with the same handle write the same generation, and the second
  one yields keys that the first one had already put in use.
\<close>

theorem stale_rotation_repeats_a_generation:
  assumes "rotate_service_scoped_key kc env p ks s = (Inr ks1, s1)"
    and "rotate_service_scoped_key kc env' p' ks s1 = (Inr ks2, s2)"
  shows "ks_generation ks2 = ks_generation ks1 \<and>
    derive_scoped_keypair kc label ident ks2 = derive_scoped_keypair kc label ident ks1"
  using rotated_handle [OF assms(1)] rotated_handle [OF assms(2)]
  by (simp add: derive_scoped_keypair_def split: option.splits)

text \<open>
  The guard against shell syntax in the configuration file only rejects the double quote: an address that the
  shell expands inside quotes is a valid fee address and is written to the file that the next start sources.
\<close>

theorem shell_text_reaches_the_config:
  "\<exists>f. requested_fee '' BTC 5 $(reboot)'' = Inr f \<and> valid_fee f \<and> \<not> shell_literal (FeeTerms.address f) \<and>
     (\<exists>fs'. persist_fee_to_file demo_config_calls ''conf'' f [''conf'' \<mapsto> demo_conf] = (Inr (), fs'))"
proof -
  let ?f = "\<lparr>FeeTerms.asset = ''BTC'', amount = 5, address = ''$(reboot)''\<rparr>"
  have "\<exists>fs'. persist_fee_to_file demo_config_calls ''conf'' ?f [''conf'' \<mapsto> demo_conf] = (Inr (), fs')"
    using demo_conf_file by (simp add: persist_fee_to_file_def demo_config_calls_def file_lines_def has_fee_lines_def action_defs Let_def)
  then show ?thesis
    using demo_requested(2) requested_fee_valid [OF demo_requested(2)] by (auto simp: shell_literal_def)
qed

text \<open>
  The rewriting of the configuration file is not checked: if nothing of the new text reaches the disk, the fee
  change is reported as done and the file is empty, other settings included.
\<close>

theorem lost_config_is_reported_as_saved:
  assumes "set_fee cfg calls f s = (Inr (), s')" and "fee_persist_file cfg \<noteq> []" and "rewritten calls = Some 0"
  shows "disk s' (fee_persist_file cfg) = Some [] \<and> lobby.fee s' = f"
  using assms
  by (auto simp: set_fee_def on_disk_def sbind_def action_defs Let_def split: prod.splits sum.splits dest!: persist_fee_outcome)

text \<open>
  The client pins the keys of the first receipt before it has verified it: a receipt that does not verify is
  discarded, but its keys are kept as the mediator's, and genuine receipts are discarded from then on.
\<close>

theorem unverified_receipt_pins_its_keys:
  fixes m :: ReceiptIssuedMessage
  assumes "dc_mediator_receipt_keys c = None" and "decode_receipt_issued body = Inr m" and "nonzero (ReceiptIssuedMessage.room_id m)"
    and "verify_receipt_hybrid (ce_crypto e) (ReceiptIssuedMessage.mediator_public_key m) (ReceiptIssuedMessage.mediator_public_key_mldsa65 m)
      (receipt_fields (from_wire m)) (IssuedReceipt.mediator_signature (from_wire m)) (IssuedReceipt.mediator_signature_mldsa65 (from_wire m)) = Inr False"
  shows "\<exists>c'. handle_frame e ReceiptIssued body c = (Inr None, c') \<and> dc_room_receipts c' = dc_room_receipts c \<and>
    dc_mediator_receipt_keys c' = Some (ReceiptIssuedMessage.mediator_public_key m, ReceiptIssuedMessage.mediator_public_key_mldsa65 m)"
proof -
  have "room_id_to_hex (ReceiptIssuedMessage.room_id m) = Inr (hex (ReceiptIssuedMessage.room_id m))"
    using assms(3) by (simp add: to_hex_ok)
  with assms show ?thesis
    by (simp add: handle_frame_def under_lock_def on_receipt_issued_def Let_def update_room_def pin_keys_def
        discard_receipt_def add_event_locked_def after_lock_def nothing_pending_def room_at_def action_defs sbind_def)
qed

text \<open>
  A frame can cross connections: the check of \<open>enqueue\<close> and the queueing are two critical sections, so a user's
  thread that is overtaken between them by the loss of the connection queues its frame after the queue was
  cleared, and the frame is sent over the next connection, under a new client id.
\<close>

theorem late_frame_crosses_connections:
  assumes "decode_welcome body = Inr w" and "nonzero (WelcomeMessage.client_id w)"
  shows "fst (sbind (set_disconnected e why) (\<lambda>_. sbind (push_outgoing t bs d) (\<lambda>_.
      sbind (connect_welcome e Welcome body) (\<lambda>_. flush_outgoing e None))) c) =
    Inr [\<lparr>of_type = t, of_payload = bs, of_description = d\<rparr>]"
proof -
  obtain offers where "encode_list_offers default_list_offers = Inr offers"
    using list_offers_encode by blast
  moreover have "client_id_to_hex (WelcomeMessage.client_id w) = Inr (hex (WelcomeMessage.client_id w))"
    using assms(2) by (simp add: to_hex_ok)
  ultimately show ?thesis
    using assms(1)
    by (simp add: set_disconnected_def add_event_locked_def push_outgoing_def connect_welcome_def throw_if_def flush_outgoing_def
        action_defs sbind_def)
qed

section \<open>The channel\<close>



text \<open>
  What is sent is received: on channels in step, with fewer messages to go than sequence numbers are left and a
  peer that keeps taking bytes, sending any messages within the limits returns; and whatever pieces the bytes arrive
  in, receiving as many frames returns exactly those messages in order and leaves what follows them.
\<close>

theorem messages_survive_chunking:
  assumes "ssl a = Some s" "ssl b = Some t" "send_sequence a = receive_sequence b"
    and "\<forall>m\<in>set ms. message_ok m" "room_left (send_sequence a) (length ms)"
    and "willing (length (concat (map frame_bytes (frames_from (send_sequence a) ms)))) s"
  shows "\<exists>a' s' written. send_frames ms a = (Inr (), a') \<and> ssl a' = Some s' \<and> departed s' = departed s @ written \<and>
     (\<forall>pieces rest. [] \<notin> set pieces \<and> concat pieces = written @ rest \<longrightarrow>
        (\<exists>b' t'. receive_frames (length ms) (b\<lparr>ssl := Some (t\<lparr>arriving := pieces\<rparr>)\<rparr>) = (Inr (frames_from (send_sequence a) ms), b') \<and>
           ssl b' = Some t' \<and> arriving_bytes t' = rest))"
proof -
  obtain a' s' where sent: "send_frames ms a = (Inr (), a')" "ssl a' = Some s'"
    "departed s' = departed s @ concat (map frame_bytes (frames_from (send_sequence a) ms))"
    using send_frames_total [OF assms(1,4,5,6)] by blast
  have "\<exists>b' t'. receive_frames (length ms) (b\<lparr>ssl := Some (t\<lparr>arriving := pieces\<rparr>)\<rparr>) = (Inr (frames_from (send_sequence a) ms), b') \<and>
      ssl b' = Some t' \<and> arriving_bytes t' = rest"
    if "[] \<notin> set pieces" "concat pieces = concat (map frame_bytes (frames_from (send_sequence a) ms)) @ rest" for pieces rest
    using receive_frames_total [of "b\<lparr>ssl := Some (t\<lparr>arriving := pieces\<rparr>)\<rparr>" _ ms rest] assms(3-5) that
    by (simp add: flowing_def arriving_bytes_def)
  with sent show ?thesis
    by blast
qed

theorem messages_survive_chunking_witness:
  "\<exists>a'. send_frames [(Sent, [1, 2]), (Sent, [1, 2])] (fresh_channel (replicate 44 1)) = (Inr (), a')"
  using messages_survive_chunking [of "fresh_channel (replicate 44 1)" "idle_stream (replicate 44 1)" "fresh_channel []"
      "idle_stream []" "[(Sent, [1, 2]), (Sent, [1, 2])]"] demo_message(1)
  by (auto simp: room_left_def willing_def length_frame_bytes)

text \<open>
  C32. Connections through Tor are pinned and leave nothing behind: a failed attempt leaves exactly the descriptors
  that were open before; a connection that is returned owns the only new one, the proxy was told the destination by
  name and nothing else, it answered with success, and the peer behind it showed the certificate with the configured
  SHA-256 pin before the first frame.
\<close>

theorem tor_connections_are_pinned:
  assumes "resolver_ok getaddrinfo" "connect_via_socks5 getaddrinfo handshake ctx proxy dest pin fds = (r, fds')"
  shows "case r of
      Inl _ \<Rightarrow> fds' = fds
    | Inr c \<Rightarrow> fds' = socket_fd c # fds \<and> socks5_destination dest \<and>
        (\<exists>raw raw' answer. connect_tcp getaddrinfo proxy fds = (Inr (socket_fd c, raw), fds') \<and>
           departed raw' = departed raw @ [0x05, 0x01, 0x00] @ socks5_request dest \<and>
           socks5_answer answer \<and> arriving_bytes raw = answer @ arriving_bytes raw' \<and> pinned handshake pin raw' c)"
proof (cases r)
  case (Inl e)
  then show ?thesis
    using balancedD(1) [OF balanced_connect_via_socks5 [OF assms(1)]] assms(2) by simp
next
  case (Inr c)
  obtain raw raw' where c: "connect_tcp getaddrinfo proxy fds = (Inr (socket_fd c, raw), fds')"
    "socks5_connect dest raw = (Inr (), raw')" "pinned handshake pin raw' c"
    using socks5_connection_returns assms(2) Inr by blast
  then show ?thesis
    using balancedD(2) [OF balanced_connect_via_socks5 [OF assms(1)]] assms(2) Inr socks5_connect_returns [OF c(2)]
    by auto
qed

theorem tor_connections_are_pinned_witness:
  "\<exists>c. connect_via_socks5 demo_resolver demo_handshake 0 \<lparr>endpoint_host = ''127.0.0.1'', endpoint_port = 9050\<rparr>
     \<lparr>endpoint_host = ''m.onion'', endpoint_port = 7443\<rparr> demo_pin [3] = (Inr c, [5, 3]) \<and> socket_fd c = 5"
proof -
  obtain c where c: "connect_via_socks5 demo_resolver demo_handshake 0 \<lparr>endpoint_host = ''127.0.0.1'', endpoint_port = 9050\<rparr>
     \<lparr>endpoint_host = ''m.onion'', endpoint_port = 7443\<rparr> demo_pin [3] = (Inr c, [5, 3])"
    using demo_tor_connection by blast
  from tor_connections_are_pinned [OF demo_resolver_ok c] c show ?thesis
    by simp
qed

section \<open>What is shown\<close>



text \<open>
  What the mediator writes for its dashboard: in a lobby it can reach the text is produced, reading it gives the
  counters, the fee and the offers and rooms in the order of their ids, and the order in which the hash maps
  are traversed does not show.
\<close>

theorem mediator_display_is_exact:
  assumes "serves cfg s"
  shows "\<exists>document. lobby_text cfg generated s = Inr document \<and>
    read_json document = Some (lobby_view cfg generated
      (map (\<lambda>(key, offer). (key, OpenOffer.terms offer)) (sort_key fst (lobby.offers s))) (map snapshot_of (sort_key fst (rooms s))) s) \<and>
    (\<forall>os rs. mset os = mset (lobby.offers s) \<and> mset rs = mset (rooms s) \<longrightarrow>
       lobby_text cfg generated (s\<lparr>lobby.offers := os, rooms := rs\<rparr>) = Inr document)"
  using lobby_text_exact [OF serves_inv [OF assms], of "lobby.offers s" "rooms s"] lobby_text_exact [OF serves_inv [OF assms]]
  by (simp add: read_print)

theorem mediator_display_is_exact_witness:
  "\<exists>document. lobby_text (demo_config True AfterLastRound) ''now'' demo_operated = Inr document \<and> read_json document \<noteq> None"
  using mediator_display_is_exact [OF demo_operated_serves] by blast

theorem registry_display_is_exact:
  assumes "registry_inv t s"
  shows "\<exists>document. fst (registry_text bind_endpoint generated t s) = Inr document \<and>
    read_json document = Some (registry_view bind_endpoint generated (listing t s))"
  using registry_text_exact [OF assms] by (simp add: read_print)

text \<open>
  The display file is only ever replaced by a whole document if the stream reports its failures: a text that is still
  in its buffer when \<open>good()\<close> is asked can be cut by a full disk, and the cut file replaces the good one without
  an error.
\<close>

theorem cut_snapshot_replaces_the_file:
  "\<exists>fs'. write_snapshot ''lobby'' \<lparr>directories = None, stream_opens = True, stream_good = True, flushed = Some 0, first_rename_ok = True,
       remove_ok = True, second_rename = None\<rparr> ''s.json'' ''s.json.tmp'' document [''s.json'' \<mapsto> shown] = (Inr (), fs') \<and> fs' ''s.json'' = Some []"
  by (simp add: write_snapshot_def Let_def sbind_def action_defs rename_def)

section \<open>The public web client\<close>

text \<open>
  C13. Sessions go to those who log in: on a public web client that was started without sessions, after any requests,
  trades of its clients and removals of idle sessions, a request whose drawn token is unused gets a session cookie only
  for a session of the account it names, and only by registering a new account, by showing the password of the account,
  or by signing, under the key enrolled for the account, a challenge that was issued for it, has not expired and cannot be used again;
  a session that was not there before is the one of the cookie, a session keeps its user, there is one session for
  each user at most, and never more than the limit.
\<close>

theorem web_logins_are_authenticated:
  assumes "web_start opens path (empty_sessions max_sessions idle med dir) h = Inr w0" "web_runs cfg w0 w"
    and "unused_token e w" "web_request cfg e r rq w = (answer, w')"
  shows "(\<forall>token. rs_cookie answer = Some (session_cookie rq token) \<longrightarrow>
       (\<exists>name ws. rq_param rq ''username'' = Some name \<and> find_session token (web_sessions w') = Some ws \<and> ws_username ws = name \<and>
          (r = Register \<and> find_account name (web_accounts w) = None \<or>
           r = Login \<and> knows_password e rq w name \<or>
           r = KeyVerify \<and> (\<exists>f. signed_challenge e rq w name f \<and> f \<notin> set (web_tracker w'))))) \<and>
     (\<forall>token ws. find_session token (web_sessions w') = Some ws \<longrightarrow>
        (case find_session token (web_sessions w) of
           None \<Rightarrow> rs_cookie answer = Some (session_cookie rq token)
         | Some old \<Rightarrow> ws_username ws = ws_username old)) \<and>
     (\<forall>token token' ws ws'. find_session token (web_sessions w') = Some ws \<longrightarrow> find_session token' (web_sessions w') = Some ws' \<longrightarrow>
        ws_username ws = ws_username ws' \<longrightarrow> token = token') \<and>
     length (sm_sessions (web_sessions w')) \<le> sm_max_sessions (web_sessions w')"
proof -
  note inv = started_inv [OF assms(1,2)]
  note inv' = request_inv [OF inv assms(3), of cfg r rq, unfolded assms(4) snd_conv]
  show ?thesis
    using request_sessions [OF inv assms(3,4)] inv_one_session [OF inv'] inv' unfolding entered_def sessions_inv_def by blast
qed

lemma web_logins_are_authenticated_witness:
  "\<exists>name ws. rq_param (demo_form ''alice'' ''secret00'') ''username'' = Some name \<and>
     find_session ''07'' (web_sessions demo_web_user) = Some ws \<and> ws_username ws = name \<and>
     find_account name (web_accounts demo_web) = None"
  using web_logins_are_authenticated [OF demo_web_starts web_runs.starts demo_unused demo_register, THEN conjunct1,
      rule_format, of "''07''"]
  by auto





text \<open>
  C39. Accounts survive a restart: as long as every line is written in full and an append made to enrol a key
  does not fail, a server started on the file finds exactly the accounts that were in memory, names, salts, hashes and
  enrolled keys, whatever accounts were created and whichever keys were enrolled before, in whatever order and over any
  number of restarts.
\<close>

theorem accounts_survive_restart:
  assumes "account_runs kc path (st, fs)"
  shows "account_store True path fs = Inr st"
  using runs_saved [OF assms] by (rule saved_reloads)

lemma accounts_survive_restart_witness:
  "account_store True ''accounts'' [''accounts'' \<mapsto> map byte_of_char (account_line demo_account @ [CHR 0x0A])] =
     Inr \<lparr>accounts_path = ''accounts'', accounts = [(''alice'', demo_account)]\<rparr>"
  by (rule accounts_survive_restart [OF demo_account_runs])

text \<open>
  Where the web client falls short of its comments. Challenges are removed only when they are answered: once 4096 of them are
  outstanding, which anybody with the login page can arrange, no challenge is issued at any later time, and no request
  but the answer to one of them changes that.
\<close>

theorem unanswered_challenges_block_key_logins:
  assumes "kLoginMaxOutstandingChallenges \<le> length (web_tracker w)"
  shows "rs_status (fst (web_key_challenge cfg e rq w)) \<noteq> 200"
    "r \<noteq> KeyVerify \<Longrightarrow> kLoginMaxOutstandingChallenges \<le> length (web_tracker (snd (web_request cfg e r rq w)))"
proof -
  have "login_issue clock sid nonce_bytes service server user t suite (web_tracker w) =
      (Inl (Invalid_argument ''too many outstanding login challenges''), web_tracker w)" for clock sid nonce_bytes service server user t suite
    using assms by (simp add: login_issue_def sbind_def action_defs)
  then show "rs_status (fst (web_key_challenge cfg e rq w)) \<noteq> 200"
    by (auto simp: web_key_challenge_def respond_def sbind_def action_defs check_attempts_run on_login_tracker_def throw_if_def Let_def
        set_json_result_def split: sum.split)
  show "kLoginMaxOutstandingChallenges \<le> length (web_tracker (snd (web_request cfg e r rq w)))" if "r \<noteq> KeyVerify"
    by (rule outstanding_stay [OF that assms])
qed

text \<open>Registrations and enrolled keys are the only changes of the accounts.\<close>

theorem accounts_change_when_asked:
  assumes "web_request cfg e r rq w = (answer, w')" "web_accounts w' \<noteq> web_accounts w"
  shows "r = Register \<or> r = EnrollKey"
  using accounts_stay [of r cfg e rq w] assms by auto

text \<open>Enrolling a login key asks for the session's cookie only, not for the token of its page as the other routes that change something do.\<close>

theorem enrolling_needs_no_page_token:
  "login_key ''alice'' (web_accounts (snd (web_request demo_web_config demo_web_env EnrollKey
     ((demo_page ''07'' [])\<lparr>rq_param := [''suite'' \<mapsto> ''ed25519'', ''public_key'' \<mapsto> hex (replicate 32 9)]\<rparr>) demo_web_user))) =
   Some \<lparr>key_suite = 1, key_bytes = replicate 32 9\<rparr>"
proof -
  let ?rq = "(demo_page ''07'' [])\<lparr>rq_param := [''suite'' \<mapsto> ''ed25519'', ''public_key'' \<mapsto> hex (replicate 32 9)]\<rparr>"
  have cookie: "cookie kSessionCookie ?rq = Some ''07''"
    using demo_page_cookie [of "''07''" "[]"] by (simp add: cookie_def)
  have some: "hex (replicate 32 9) \<noteq> []"
    by (simp add: hex_def hex_byte_def)
  then have given: "param_value ?rq ''suite'' = ''ed25519''" "required_param ?rq ''public_key'' = Inr (hex (replicate 32 9))"
    by (simp_all add: param_value_def required_param_def)
  have "require_session demo_web_config demo_web_env ?rq demo_web_user = (Inr (''07'', demo_web_session\<lparr>ws_last_seen := 10\<rparr>),
      demo_web_user\<lparr>web_sessions := put_session ''07'' (demo_web_session\<lparr>ws_last_seen := 10\<rparr>) (web_sessions demo_web_user)\<rparr>)"
    using cookie demo_user_session(1)
    by (simp add: require_session_def host_allowed_def demo_web_config_def on_sessions_def touch_def sbind_def action_defs demo_web_env_def)
  moreover have "login_suite ''login'' ''ed25519'' = Inr 1" "expected_login_key_length 1 = 32" "ws_username demo_web_session = ''alice''"
    by (simp_all add: login_suite_def expected_login_key_length_def demo_web_session_def)
  moreover have "append_directories (we_append demo_web_env) = None" "append_opens (we_append demo_web_env)" "append_stored (we_append demo_web_env) = None"
    "map_of (accounts (web_accounts demo_web_user)) ''alice'' = Some demo_account"
    by (simp_all add: demo_web_env_def demo_appends_def demo_web_user_def)
  ultimately show ?thesis
    using given
    by (simp add: web_enroll_key_def for_session_def respond_def sbind_def action_defs throw_if_def on_accounts_def set_login_key_def
        on_account_file_def append_locked_def Let_def find_account_def login_key_def insert_account_def update_conv')
qed

text \<open>A key field with an odd number of digits is not treated as no key: the server does not start.\<close>

theorem odd_key_field_stops_the_start:
  "account_store True path [path \<mapsto> map byte_of_char (''bob'' @ [CHR 0x09] @ ''05'' @ [CHR 0x09] @ ''05'' @ [CHR 0x09] @ ''now'' @ [CHR 0x09] @ ''abc'' @ [CHR 0x0A])] =
     Inl (Invalid_argument ''expected a hex string with an even number of characters'')"
proof -
  have "getlines (''bob'' @ [CHR 0x09] @ ''05'' @ [CHR 0x09] @ ''05'' @ [CHR 0x09] @ ''now'' @ [CHR 0x09] @ ''abc'' @ [CHR 0x0A]) =
      [''bob'' @ [CHR 0x09] @ ''05'' @ [CHR 0x09] @ ''05'' @ [CHR 0x09] @ ''now'' @ [CHR 0x09] @ ''abc'']"
    using getlines_simps(2) [of "''bob'' @ [CHR 0x09] @ ''05'' @ [CHR 0x09] @ ''05'' @ [CHR 0x09] @ ''now'' @ [CHR 0x09] @ ''abc''" "[]"] by simp
  moreover have "parse_account (''bob'' @ [CHR 0x09] @ ''05'' @ [CHR 0x09] @ ''05'' @ [CHR 0x09] @ ''now'' @ [CHR 0x09] @ ''abc'') =
      Inl (Invalid_argument ''expected a hex string with an even number of characters'')"
    by code_simp
  ultimately show ?thesis
    by (simp add: account_store_def file_lines_def comp_def)
qed

text \<open>A login key whose record could not be written is used all the same, until the server is restarted.\<close>

theorem unsaved_login_key_is_used:
  assumes "find_account name st = Some a" "append_directories calls = None" "\<not> append_opens calls"
  shows "\<exists>error st'. set_login_key calls name suite bs (st, fs) = (Inl error, st', fs) \<and> login_key name st' = Some \<lparr>key_suite = suite, key_bytes = bs\<rparr>"
  using assms
  by (auto simp: set_login_key_def append_locked_def on_account_file_def sbind_def action_defs throw_if_def Let_def insert_account_def
      login_key_def find_account_def update_conv')

text \<open>At capacity a registration is answered with an error although the account was created.\<close>

theorem refused_registration_creates_the_account:
  "(let (answer, w') = web_request demo_web_config demo_web_env Register (demo_form ''alice'' ''secret00'')
        (demo_web\<lparr>web_sessions := empty_sessions 0 1000 ''med'' ''keys''\<rparr>)
    in rs_status answer = 400 \<and> find_account ''alice'' (web_accounts w') = Some demo_account)"
proof -
  have "required_param (demo_form ''alice'' ''secret00'') ''username'' = Inr ''alice''"
    "required_param (demo_form ''alice'' ''secret00'') ''password'' = Inr ''secret00''"
    by (simp_all add: required_param_def demo_form_def)
  then show ?thesis
    using demo_create demo_names
    by (simp add: web_register_def demo_form_allowed respond_def sbind_def action_defs on_accounts_def enter_def on_sessions_def
        demo_web_env_def demo_web_def session_login_def open_session_def empty_sessions_def throw_if_def find_account_def set_json_result_def)
qed

end
